(* ===== verification/Prelude.thy ===== *)
theory Prelude
  imports Main "HOL-Library.Word"
begin

text \<open>
  Shared vocabulary of the development: the C types the modelled files use (addresses,
  \<open>u_int\<close>, \<open>u_char\<close>, strings), the renderings of the \<open>printf\<close> conversions that build
  hash keys, the sequencing of results, and generic lemmas on lists.

  Conventions. A \<open>void *\<close> is an address (a natural number, \<open>NULL\<close> is 0); a C string is
  a HOL string without its terminating NUL. A pointer that a function tests against NULL
  is an option. An allocation through \<open>XALLOC\<close> either succeeds or terminates the
  process (the macro calls \<open>exit\<close>), so the branch after it only exists when it
  succeeded. The platform is the 32-bit build (\<open>ERESI32\<close>) on a machine whose plain
  \<open>char\<close> is signed.
\<close>

unbundle bit_operations_syntax

type_synonym ptr = nat
type_synonym u_int = "32 word"
type_synonym u_char = "8 word"
type_synonym eresi_Addr = "32 word"

abbreviation (input) NULL :: ptr where
  "NULL \<equiv> 0"

subsection \<open>Characters and strings\<close>

text \<open>A plain \<open>char\<close> promoted to \<open>u_int\<close>: sign extension of its eight bits.\<close>

definition char_to_uint :: "char \<Rightarrow> u_int" where
  "char_to_uint c = scast (of_char c :: 8 word)"

text \<open>The conversion \<open>%u\<close>.\<close>

fun dec_digit :: "nat \<Rightarrow> char" where
  "dec_digit n = char_of (48 + n mod 10)"

fun fmt_u :: "nat \<Rightarrow> string" where
  "fmt_u n = (if n < 10 then [dec_digit n] else fmt_u (n div 10) @ [dec_digit (n mod 10)])"

declare fmt_u.simps [simp del] dec_digit.simps [simp del]

text \<open>One upper-case hexadecimal digit and the conversion \<open>%08X\<close> (\<open>AFMT\<close> and the
  digits of \<open>XFMT\<close> in the 32-bit build): always eight digits, because the argument has
  32 bits.\<close>

fun hex_digit :: "nat \<Rightarrow> char" where
  "hex_digit n = (if n mod 16 < 10 then char_of (48 + n mod 16) else char_of (55 + n mod 16))"

fun hex_digits :: "nat \<Rightarrow> nat \<Rightarrow> string" where
  "hex_digits 0 n = []"
| "hex_digits (Suc w) n = hex_digits w (n div 16) @ [hex_digit n]"

declare hex_digit.simps [simp del]

definition fmt_08X :: "32 word \<Rightarrow> string" where
  "fmt_08X a = hex_digits 8 (unat a)"

lemma dec_digit_inj: "dec_digit m = dec_digit n \<Longrightarrow> m mod 10 = n mod 10"
proof -
  assume "dec_digit m = dec_digit n"
  then have "(of_char (char_of (48 + m mod 10)) :: nat) = of_char (char_of (48 + n mod 10))"
    by (simp add: dec_digit.simps)
  then show ?thesis by simp
qed

lemma fmt_u_nonempty [simp]: "fmt_u n \<noteq> []"
  by (subst fmt_u.simps) simp

lemma fmt_u_inj: "fmt_u m = fmt_u n \<Longrightarrow> m = n"
proof (induction m arbitrary: n rule: fmt_u.induct)
  case (1 m)
  have one: "fmt_u k = [d] \<longleftrightarrow> k < 10 \<and> dec_digit k = d" for k d
    by (subst fmt_u.simps) simp
  show ?case
  proof (cases "m < 10")
    case True
    with "1.prems" have "fmt_u n = [dec_digit m]" by (simp add: fmt_u.simps [of m])
    then have "n < 10" "dec_digit n = dec_digit m" by (simp_all only: one)
    with True show ?thesis using dec_digit_inj [of n m] by simp
  next
    case False
    then have m: "fmt_u m = fmt_u (m div 10) @ [dec_digit (m mod 10)]"
      by (subst fmt_u.simps) simp
    have n10: "\<not> n < 10"
    proof
      assume "n < 10"
      then have "fmt_u n = [dec_digit n]" by (simp add: one)
      with m "1.prems" have "fmt_u (m div 10) = []" by simp
      then show False by simp
    qed
    then have n: "fmt_u n = fmt_u (n div 10) @ [dec_digit (n mod 10)]"
      by (subst fmt_u.simps) simp
    from m n "1.prems" have "fmt_u (m div 10) = fmt_u (n div 10)"
      and d: "dec_digit (m mod 10) = dec_digit (n mod 10)" by simp_all
    with "1.IH" False have "m div 10 = n div 10" by simp
    moreover from dec_digit_inj [OF d] have "m mod 10 = n mod 10" by simp
    ultimately show ?thesis by (metis div_mult_mod_eq)
  qed
qed

lemma hex_digit_inj: "hex_digit m = hex_digit n \<Longrightarrow> m mod 16 = n mod 16"
proof -
  assume "hex_digit m = hex_digit n"
  then have "(of_char (hex_digit m) :: nat) = of_char (hex_digit n)" by (rule arg_cong)
  then show ?thesis by (auto simp: hex_digit.simps split: if_splits)
qed

lemma length_hex_digits [simp]: "length (hex_digits w n) = w"
  by (induction w arbitrary: n) auto

lemma hex_digits_inj:
  "m < 16 ^ w \<Longrightarrow> n < 16 ^ w \<Longrightarrow> hex_digits w m = hex_digits w n \<Longrightarrow> m = n"
proof (induction w arbitrary: m n)
  case 0
  then show ?case by simp
next
  case (Suc w)
  have bound: "k div 16 < 16 ^ w" if "k < 16 ^ Suc w" for k :: nat
    using that by (intro less_mult_imp_div_less) (simp only: power_Suc2)
  from Suc.prems have "hex_digits w (m div 16) = hex_digits w (n div 16)"
    and d: "hex_digit m = hex_digit n" by simp_all
  moreover from Suc.prems have "m div 16 < 16 ^ w" "n div 16 < 16 ^ w"
    using bound by blast+
  ultimately have "m div 16 = n div 16" using Suc.IH by blast
  with hex_digit_inj [OF d] show ?case by (metis div_mult_mod_eq)
qed

lemma fmt_08X_inj: "fmt_08X a = fmt_08X b \<Longrightarrow> a = b"
proof -
  assume eq: "fmt_08X a = fmt_08X b"
  have "unat (x :: 32 word) < 16 ^ 8" for x
    using unsigned_less [of x, where ?'a = nat] by simp
  then have "unat a = unat b"
    using eq hex_digits_inj [of "unat a" 8 "unat b"] by (simp add: fmt_08X_def)
  then show ?thesis by (rule word_unat_eq_iff [THEN iffD2])
qed

lemma fmt_08X_eq [simp]: "fmt_08X a = fmt_08X b \<longleftrightarrow> a = b"
  by (auto dest: fmt_08X_inj)

subsection \<open>Results\<close>

text \<open>Sequencing of calls that may fail: the first error is the result.\<close>

definition rbind :: "'e + 'a \<Rightarrow> ('a \<Rightarrow> 'e + 'b) \<Rightarrow> 'e + 'b" where
  "rbind m f = (case m of Inl e \<Rightarrow> Inl e | Inr a \<Rightarrow> f a)"

lemma rbind_simps [simp]: "rbind (Inl e) f = Inl e" "rbind (Inr a) f = f a"
  by (simp_all add: rbind_def)

lemma rbind_Inr: "rbind m f = Inr b \<longleftrightarrow> (\<exists>a. m = Inr a \<and> f a = Inr b)"
  by (cases m) simp_all

subsection \<open>Bytes\<close>

text \<open>The word that \<open>memcpy\<close> makes of four bytes on the little-endian host.\<close>

definition le32 :: "u_char list \<Rightarrow> u_int" where
  "le32 bs = ucast (bs ! 0) OR push_bit 8 (ucast (bs ! 1)) OR push_bit 16 (ucast (bs ! 2)) OR
     push_bit 24 (ucast (bs ! 3))"

subsection \<open>Lists\<close>

lemma concat_map_update:
  assumes "i < length xs"
  shows "concat (map f (xs[i := y])) =
    concat (map f (take i xs)) @ f y @ concat (map f (drop (Suc i) xs))"
  using assms by (simp add: upd_conv_take_nth_drop)

lemma concat_map_split:
  assumes "i < length xs"
  shows "concat (map f xs) =
    concat (map f (take i xs)) @ f (xs ! i) @ concat (map f (drop (Suc i) xs))"
  using assms by (metis concat_map_update list_update_id)

lemma takeWhile_until [simp]: "z \<notin> set xs \<Longrightarrow> takeWhile (\<lambda>x. x \<noteq> z) (xs @ z # ys) = xs"
  by (induction xs) auto

lemma dropWhile_until [simp]: "z \<notin> set xs \<Longrightarrow> dropWhile (\<lambda>x. x \<noteq> z) (xs @ z # ys) = z # ys"
  by (induction xs) auto

lemma map_of_None_iff: "map_of xs k = None \<longleftrightarrow> k \<notin> fst ` set xs"
  by (simp add: map_of_eq_None_iff)

lemma map_of_append_disjoint:
  "fst ` set xs \<inter> fst ` set ys = {} \<Longrightarrow> map_of (xs @ ys) = map_of (ys @ xs)"
  by (simp add: map_add_comm dom_map_of_conv_image_fst Int_commute)

text \<open>Lists of lists whose elements carry the index of their list.\<close>

lemma distinct_concat_tagged:
  assumes "\<forall>i<length xss. distinct (xss ! i) \<and> (\<forall>x\<in>set (xss ! i). tag x = i + n)"
  shows "distinct (concat xss)"
  using assms
proof (induction xss arbitrary: n)
  case (Cons xs xss)
  have tail: "distinct (xss ! i) \<and> (\<forall>x\<in>set (xss ! i). tag x = i + Suc n)"
    if "i < length xss" for i
    using Cons.prems that by (metis Suc_less_eq add_Suc_right add_Suc_shift length_Cons nth_Cons_Suc)
  have head: "distinct xs" "\<forall>x\<in>set xs. tag x = n" using Cons.prems by auto
  have ne: "tag x \<noteq> n" if "x \<in> set (concat xss)" for x
  proof -
    from that obtain ys where "ys \<in> set xss" "x \<in> set ys" by auto
    then obtain i where "i < length xss" "x \<in> set (xss ! i)" by (metis in_set_conv_nth)
    with tail have "tag x = i + Suc n" by blast
    then show ?thesis by simp
  qed
  have "set xs \<inter> set (concat xss) = {}" using head ne by blast
  moreover have "distinct (concat xss)" using tail Cons.IH [of "Suc n"] by simp
  ultimately show ?case using head by simp
qed simp

end
