(* ===== verification/Gdbwrap.thy ===== *)
theory Gdbwrap
  imports Prelude
begin

text \<open>
  The packet layer of \<open>libgdbwrap/gdbwrapper.c\<close>, the client side of the GDB remote
  serial protocol: extraction of fields, checksums, message construction, hexadecimal
  conversion, run-length decoding in place, and the parsing of register values.

  A descriptor is a record with the fields of \<open>gdbwrap_t\<close>; the packet buffer is the C
  string it holds, except in the run-length decoder, which works on the bytes of the
  buffer. A failed \<open>ASSERT\<close> of the default build, and a write outside an array, are the
  error values of \<open>gdb_error\<close>, which also has the ways the session layer can fail (waiting for
  input for ever, reading an uninitialised array, following NULL).
\<close>

datatype gdb_error = Assert_Failed | Out_Of_Bounds | Out_Of_Fuel | Blocked | Uninitialised | Null_Deref

type_synonym 'a gdb_result = "gdb_error + 'a"

record gdbwrap_t =
  packet :: string
  max_packet_size :: nat
  reg32 :: "32 word list"
  is_active :: bool
  erroroccured :: bool
  interrupted :: bool

definition GDBWRAP_BEGIN_PACKET :: string where "GDBWRAP_BEGIN_PACKET = ''$''"
definition GDBWRAP_END_PACKET :: string where "GDBWRAP_END_PACKET = ''#''"
definition GDBWRAP_SEP_COLON :: string where "GDBWRAP_SEP_COLON = '':''"
definition GDBWRAP_SEP_SEMICOLON :: string where "GDBWRAP_SEP_SEMICOLON = '';''"
definition GDBWRAP_REPLAY_OK :: string where "GDBWRAP_REPLAY_OK = ''OK''"
definition GDBWRAP_NULL_CHAR :: char where "GDBWRAP_NULL_CHAR = CHR 0x00"
definition GDBWRAP_START_ENCODC :: char where "GDBWRAP_START_ENCODC = CHR ''*''"
definition MSG_BUF :: nat where "MSG_BUF = 80"

subsection \<open>The C string functions\<close>

definition is_prefix :: "string \<Rightarrow> string \<Rightarrow> bool" where
  "is_prefix p s \<longleftrightarrow> take (length p) s = p"

text \<open>\<open>strstr\<close>: the suffix at the first occurrence.\<close>

fun strstr :: "string \<Rightarrow> string \<Rightarrow> string option" where
  "strstr [] needle = (if needle = [] then Some [] else None)"
| "strstr (c # s) needle = (if is_prefix needle (c # s) then Some (c # s) else strstr s needle)"

subsection \<open>Fields, checksum, messages\<close>

text \<open>\<open>gdbwrap_extract_from_packet\<close>. The result is what \<open>strret\<close> holds; the terminator is
  stored at the index given by its length.\<close>

definition gdbwrap_extract_from_packet ::
  "string \<Rightarrow> string option \<Rightarrow> string option \<Rightarrow> nat \<Rightarrow> string option" where
  "gdbwrap_extract_from_packet strtoparse beginp endp maxsize =
     (case (case beginp of
              None \<Rightarrow> Some (strtoparse, 0)
            | Some b \<Rightarrow> map_option (\<lambda>s. (s, length b)) (strstr strtoparse b)) of
        None \<Rightarrow> None
      | Some (charbegin, strtorem) \<Rightarrow>
          (case (case endp of
                   None \<Rightarrow> Some []
                 | Some e \<Rightarrow> strstr (drop strtorem charbegin) e) of
             None \<Rightarrow> None
           | Some charend \<Rightarrow>
               (let strsize = length charbegin - length charend - strtorem
                in Some (take (min strsize maxsize) (drop strtorem charbegin)))))"

text \<open>The checksum loop over a \<open>uint8_t\<close>.\<close>

fun sum_bytes :: "8 word \<Rightarrow> string \<Rightarrow> 8 word" where
  "sum_bytes acc [] = acc"
| "sum_bytes acc (c # s) = sum_bytes (acc + of_char c) s"

text \<open>\<open>gdbwrap_calc_checksum\<close> leaves the extracted payload in the packet buffer.\<close>

definition gdbwrap_calc_checksum :: "gdbwrap_t \<Rightarrow> string \<Rightarrow> 8 word \<times> gdbwrap_t" where
  "gdbwrap_calc_checksum desc str =
     (let result = (case gdbwrap_extract_from_packet str (Some GDBWRAP_BEGIN_PACKET)
                           (Some GDBWRAP_END_PACKET) (max_packet_size desc) of
                      Some r \<Rightarrow> r
                    | None \<Rightarrow> the (gdbwrap_extract_from_packet str None None (max_packet_size desc)))
      in (sum_bytes 0 result, desc\<lparr>packet := result\<rparr>))"

text \<open>\<open>%.2x\<close>: at least two lower-case digits.\<close>

fun lhex_digit :: "nat \<Rightarrow> char" where
  "lhex_digit n = (if n mod 16 < 10 then char_of (48 + n mod 16) else char_of (87 + n mod 16))"

declare lhex_digit.simps [simp del]

definition fmt_2x :: "8 word \<Rightarrow> string" where
  "fmt_2x b = [lhex_digit (unat b div 16), lhex_digit (unat b)]"

text \<open>\<open>gdbwrap_make_message\<close>: \<open>snprintf\<close> stores at most \<open>max_packet_size - 1\<close> characters and
  returns the untruncated length, which the source keeps in a \<open>u_char\<close> and asserts to be
  positive. \<open>max_query_size\<close> is computed with unsigned wrap-around.\<close>

definition max_query_size :: "gdbwrap_t \<Rightarrow> nat" where
  "max_query_size desc = unat (word_of_nat (max_packet_size desc) - 3 :: 32 word)"

definition gdbwrap_make_message :: "gdbwrap_t \<Rightarrow> string \<Rightarrow> gdbwrap_t gdb_result" where
  "gdbwrap_make_message desc query =
     (let (checksum, desc') = gdbwrap_calc_checksum desc query
      in if length query < max_query_size desc then
           (let msg = GDBWRAP_BEGIN_PACKET @ query @ GDBWRAP_END_PACKET @ fmt_2x checksum;
                ret = (word_of_nat (length msg) :: 8 word)
            in if ret > 0 then Inr (desc'\<lparr>packet := take (max_packet_size desc - 1) msg\<rparr>)
               else Inl Assert_Failed)
         else Inl Assert_Failed)"

subsection \<open>Numbers\<close>

definition hex_value :: "char \<Rightarrow> nat option" where
  "hex_value c = (let n = (of_char c :: nat) in
     if 65 \<le> n \<and> n \<le> 70 then Some (n - 55)
     else if 97 \<le> n \<and> n \<le> 102 then Some (n - 87)
     else if 48 \<le> n \<and> n \<le> 57 then Some (n - 48)
     else None)"

text \<open>\<open>gdbwrap_atoh\<close>: the digit at position \<open>i\<close> is shifted by \<open>4 * (size - i - 1)\<close> and
  added; any other character, the terminating NUL included, makes the result 0. (C leaves
  shifts by 32 or more undefined, so \<open>size\<close> is at most 8.)\<close>

fun atoh_loop :: "string \<Rightarrow> nat \<Rightarrow> 32 word \<Rightarrow> 32 word" where
  "atoh_loop str 0 hex = hex"
| "atoh_loop [] (Suc n) hex = 0"
| "atoh_loop (c # str) (Suc n) hex = (case hex_value c of
     None \<Rightarrow> 0
   | Some v \<Rightarrow> atoh_loop str n (hex + push_bit (4 * n) (word_of_nat v)))"

definition gdbwrap_atoh :: "string option \<Rightarrow> nat \<Rightarrow> 32 word" where
  "gdbwrap_atoh strp sz = (case strp of
     None \<Rightarrow> 0
   | Some str \<Rightarrow> atoh_loop str sz 0)"

text \<open>\<open>gdbwrap_little_endian\<close>: the loop ends when no non-zero byte is left.\<close>

fun little_endian_loop :: "nat \<Rightarrow> nat \<Rightarrow> 32 word \<Rightarrow> 32 word \<Rightarrow> 32 word" where
  "little_endian_loop 0 i addr addrlittle = addrlittle"
| "little_endian_loop (Suc n) i addr addrlittle =
     (if addr > 0
      then little_endian_loop n (Suc i) (drop_bit 8 addr)
             (addrlittle + push_bit (8 * (3 - i)) (addr AND 0xFF))
      else addrlittle)"

definition gdbwrap_little_endian :: "32 word \<Rightarrow> 32 word" where
  "gdbwrap_little_endian addr = little_endian_loop 5 0 addr 0"

text \<open>The macro \<open>swap32\<close> of \<open>libaspect.h\<close>.\<close>

definition swap32 :: "32 word \<Rightarrow> 32 word" where
  "swap32 x = push_bit 24 (x AND 0x000000FF) OR push_bit 8 (x AND 0x0000FF00) OR
     drop_bit 8 (x AND 0x00FF0000) OR drop_bit 24 (x AND 0xFF000000)"

subsection \<open>Run-length decoding in place\<close>

definition strlen :: "char list \<Rightarrow> nat" where
  "strlen buf = length (takeWhile (\<lambda>c. c \<noteq> GDBWRAP_NULL_CHAR) buf)"

text \<open>\<open>strstr (buf + q, "*")\<close> as a position in the buffer.\<close>

definition find_star :: "char list \<Rightarrow> nat \<Rightarrow> nat option" where
  "find_star buf q = (let s = takeWhile (\<lambda>c. c \<noteq> GDBWRAP_NULL_CHAR) (drop q buf);
       k = length (takeWhile (\<lambda>c. c \<noteq> GDBWRAP_START_ENCODC) s)
     in if k < length s then Some (q + k) else None)"

definition rle_count :: "char \<Rightarrow> nat" where
  "rle_count c = unat (of_char c - 29 :: 8 word)"

text \<open>The loop that moves the tail, from its last byte down, and the \<open>memset\<close>. The assertion on the
  size comes first, so that the stores stay in a buffer of \<open>maxsize\<close> bytes.\<close>

definition shift_tail :: "char list \<Rightarrow> nat \<Rightarrow> nat \<Rightarrow> nat \<Rightarrow> char list" where
  "shift_tail buf p strlenc n =
     fold (\<lambda>iter b. b[p + strlenc + n - iter - 2 := b ! (p + strlenc - iter)]) [0..<strlenc] buf"

definition mem_set :: "char list \<Rightarrow> nat \<Rightarrow> char \<Rightarrow> nat \<Rightarrow> char list" where
  "mem_set buf p v n = take p buf @ replicate n v @ drop (p + n) buf"

fun rle_loop :: "nat \<Rightarrow> nat \<Rightarrow> char list \<Rightarrow> nat \<Rightarrow> nat option \<Rightarrow> char list gdb_result" where
  "rle_loop 0 maxsize buf check encodestr = Inl Out_Of_Fuel"
| "rle_loop (Suc fuel) maxsize buf check encodestr = (case encodestr of
     None \<Rightarrow> Inr buf
   | Some p \<Rightarrow>
       (let valuetocopy = buf ! (p - 1);
            numberoftimes = rle_count (buf ! (p + 1));
            check' = check + numberoftimes
        in if \<not> check' < maxsize then Inl Assert_Failed
           else (let buf' = mem_set (shift_tail buf p (strlen (drop p buf)) numberoftimes)
                              p valuetocopy numberoftimes
                 in rle_loop fuel maxsize buf' check' (find_star buf' (p + 1)))))"

definition gdbwrap_run_length_decode :: "char list \<Rightarrow> nat \<Rightarrow> char list gdb_result" where
  "gdbwrap_run_length_decode buf maxsize =
     (if buf = [] \<or> buf ! 0 = GDBWRAP_START_ENCODC then Inl Assert_Failed
      else rle_loop (Suc (length buf)) maxsize buf (strlen buf) (find_star buf 0))"

subsection \<open>Registers and replies\<close>

text \<open>\<open>gdbwrap_populate_reg\<close>: one \<open>n:r;\<close> field per iteration.\<close>

lemma strstr_length: "strstr s n = Some t \<Longrightarrow> length t \<le> length s"
  by (induction s n rule: strstr.induct) (auto split: if_splits)

lemma extract_length:
  assumes "gdbwrap_extract_from_packet s b e m = Some f"
  shows "length f \<le> m \<and> length f \<le> length s"
  using assms
  by (auto simp: gdbwrap_extract_from_packet_def Let_def dest!: strstr_length
      split: option.splits prod.splits)

lemma extract_sep_nonempty:
  "gdbwrap_extract_from_packet s None (Some GDBWRAP_SEP_SEMICOLON) m = Some f \<Longrightarrow> s \<noteq> []"
  by (auto simp: gdbwrap_extract_from_packet_def GDBWRAP_SEP_SEMICOLON_def)

definition set_reg :: "gdbwrap_t \<Rightarrow> nat \<Rightarrow> 32 word \<Rightarrow> gdbwrap_t gdb_result" where
  "set_reg desc regnumber regvalue =
     (if regnumber < length (reg32 desc)
      then Inr (desc\<lparr>reg32 := (reg32 desc)[regnumber := regvalue]\<rparr>) else Inl Out_Of_Bounds)"

text \<open>The three local buffers that receive a field are as long as the \<open>maxsize\<close> passed
  with them, so a field of that many characters puts its terminator one byte past the
  end.\<close>

definition extract_into :: "nat \<Rightarrow> string \<Rightarrow> string option \<Rightarrow> string option \<Rightarrow> string option gdb_result" where
  "extract_into bufsize s b e = (case gdbwrap_extract_from_packet s b e bufsize of
     None \<Rightarrow> Inr None
   | Some f \<Rightarrow> if length f < bufsize then Inr (Some f) else Inl Out_Of_Bounds)"

definition populate_field :: "gdbwrap_t \<Rightarrow> string \<Rightarrow> gdbwrap_t gdb_result" where
  "populate_field desc nextpacket =
     (case extract_into MSG_BUF nextpacket None (Some GDBWRAP_SEP_COLON) of
        Inl e \<Rightarrow> Inl e
      | Inr None \<Rightarrow> Inl Assert_Failed
      | Inr (Some nextupacket) \<Rightarrow>
          if length nextupacket = 2 then
            (let regnumber = unat (ucast (gdbwrap_atoh (Some nextupacket) (length nextupacket)) :: 8 word)
             in case extract_into MSG_BUF nextpacket (Some GDBWRAP_SEP_COLON) None of
                  Inl e \<Rightarrow> Inl e
                | Inr None \<Rightarrow> Inl Assert_Failed
                | Inr (Some v) \<Rightarrow> set_reg desc regnumber
                    (gdbwrap_little_endian (gdbwrap_atoh (Some v) (length v))))
          else Inr desc)"

lemma extract_into_sep_nonempty:
  "extract_into n s None (Some GDBWRAP_SEP_SEMICOLON) = Inr (Some f) \<Longrightarrow> s \<noteq> []"
  by (auto simp: extract_into_def dest: extract_sep_nonempty split: option.splits)

function populate_loop :: "gdbwrap_t \<Rightarrow> string \<Rightarrow> gdbwrap_t gdb_result" where
  "populate_loop desc s =
     (case extract_into MSG_BUF s None (Some GDBWRAP_SEP_SEMICOLON) of
        Inl e \<Rightarrow> Inl e
      | Inr None \<Rightarrow> Inr desc
      | Inr (Some nextpacket) \<Rightarrow>
          (case populate_field desc nextpacket of
             Inl e \<Rightarrow> Inl e
           | Inr desc' \<Rightarrow> populate_loop desc' (drop (length nextpacket + 1) s)))"
  by pat_completeness auto
termination
  by (relation "measure (\<lambda>(desc, s). length s)") (auto dest: extract_into_sep_nonempty)

declare populate_loop.simps [simp del]

definition gdbwrap_populate_reg :: "gdbwrap_t \<Rightarrow> string \<Rightarrow> gdbwrap_t gdb_result" where
  "gdbwrap_populate_reg desc s =
     populate_loop desc (if take 1 s = ''T'' then drop 3 s else s)"

text \<open>The register loop of \<open>gdbwrap_readgenreg\<close> over the reply to \<open>g\<close>.\<close>

definition read_regs :: "string \<Rightarrow> nat \<Rightarrow> 32 word list" where
  "read_regs rec n = map (\<lambda>i. gdbwrap_little_endian (gdbwrap_atoh (Some (drop (8 * i) rec)) 8)) [0..<n]"

text \<open>\<open>gdbwrap_errorhandler\<close> without its messages: it returns whether an error occurred.\<close>

definition gdbwrap_errorhandler :: "gdbwrap_t \<Rightarrow> string \<Rightarrow> bool \<times> gdbwrap_t" where
  "gdbwrap_errorhandler desc err =
     (if is_prefix GDBWRAP_REPLAY_OK err then (False, desc\<lparr>erroroccured := False\<rparr>)
      else (let d1 = (if take 1 err = ''W'' then desc\<lparr>is_active := False\<rparr> else desc);
                d2 = (if take 1 err = ''X'' then d1\<lparr>is_active := False\<rparr> else d1)
            in (True, d2\<lparr>erroroccured := True\<rparr>)))"

definition gdbwrap_lastsignal :: "gdbwrap_t \<Rightarrow> 32 word" where
  "gdbwrap_lastsignal desc =
     (if take 1 (packet desc) = ''T'' \<or> take 1 (packet desc) = ''S''
      then gdbwrap_atoh (Some (drop 1 (packet desc))) 2 else 0)"

definition gdbwrap_lasterror :: "gdbwrap_t \<Rightarrow> 8 word" where
  "gdbwrap_lasterror desc =
     (if take 1 (packet desc) = ''E''
      then ucast (gdbwrap_atoh (Some (drop 1 (packet desc))) 2) else 0)"

definition gdbwrap_is_active :: "gdbwrap_t \<Rightarrow> bool" where
  "gdbwrap_is_active desc = is_active desc"

definition gdbwrap_cmdnotsup :: "gdbwrap_t \<Rightarrow> bool" where
  "gdbwrap_cmdnotsup desc = (packet desc = [])"

definition gdbwrap_erroroccured :: "gdbwrap_t \<Rightarrow> bool" where
  "gdbwrap_erroroccured desc = erroroccured desc"

text \<open>\<open>gdbwrap_init\<close>: \<open>junk\<close> is the uninitialised block that \<open>malloc\<close> returned.\<close>

definition gdbwrap_init :: "gdbwrap_t \<Rightarrow> int \<Rightarrow> gdbwrap_t gdb_result" where
  "gdbwrap_init junk fd = (if fd = 0 then Inl Assert_Failed else
     Inr (junk\<lparr>max_packet_size := 2500, is_active := True, interrupted := False\<rparr>))"

subsection \<open>Specification vocabulary\<close>

text \<open>What a run-length encoded string stands for: a star and a count character repeat the
  character before them. \<open>rle_valid\<close> asks for a count of at least two (the protocol has
  at least three) and no NUL; \<open>rle_total\<close> is the sum of the counts.\<close>

fun rle_expand :: "char \<Rightarrow> string \<Rightarrow> string" where
  "rle_expand prev [] = []"
| "rle_expand prev (c # s) =
     (if c = GDBWRAP_START_ENCODC
      then (case s of [] \<Rightarrow> [] | n # s' \<Rightarrow> replicate (rle_count n) prev @ rle_expand prev s')
      else c # rle_expand c s)"

fun rle_valid :: "string \<Rightarrow> bool" where
  "rle_valid [] = True"
| "rle_valid (c # s) =
     (if c = GDBWRAP_START_ENCODC
      then (case s of [] \<Rightarrow> False
            | n # s' \<Rightarrow> n \<noteq> GDBWRAP_NULL_CHAR \<and> 2 \<le> rle_count n \<and> rle_valid s')
      else c \<noteq> GDBWRAP_NULL_CHAR \<and> rle_valid s)"

fun rle_total :: "string \<Rightarrow> nat" where
  "rle_total [] = 0"
| "rle_total (c # s) =
     (if c = GDBWRAP_START_ENCODC
      then (case s of [] \<Rightarrow> 0 | n # s' \<Rightarrow> rle_count n + rle_total s')
      else rle_total s)"

text \<open>Hexadecimal renderings: fixed width lower-case digits, the value of a digit string,
  and the \<open>n:r;\<close> field of a stop reply, whose value is in target byte order.\<close>

fun lhex_digits :: "nat \<Rightarrow> nat \<Rightarrow> string" where
  "lhex_digits 0 n = []"
| "lhex_digits (Suc w) n = lhex_digits w (n div 16) @ [lhex_digit n]"

fun hexval :: "string \<Rightarrow> nat" where
  "hexval [] = 0"
| "hexval (c # s) = the (hex_value c) * 16 ^ length s + hexval s"

definition fmt_08x :: "32 word \<Rightarrow> string" where
  "fmt_08x v = lhex_digits 8 (unat v)"

definition reg_field :: "nat \<times> 32 word \<Rightarrow> string" where
  "reg_field = (\<lambda>(n, v). lhex_digits 2 n @ '':'' @ fmt_08x (swap32 v) @ '';'')"


subsection \<open>Field extraction and checksums\<close>

lemma strstr_char: "strstr s [c] = (if c \<in> set s then Some (dropWhile (\<lambda>x. x \<noteq> c) s) else None)"
  by (induction s) (auto simp: is_prefix_def)

lemma length_before: "length s - length (dropWhile P s) = length (takeWhile P s)"
  by (metis add_diff_cancel_right' length_append takeWhile_dropWhile_id)

lemma take_before: "take (min (length (takeWhile P s)) m) s = take m (takeWhile P s)"
  by (metis min.commute take_take takeWhile_eq_take)

lemma extract_until:
  "gdbwrap_extract_from_packet s None (Some [c]) m =
     (if c \<in> set s then Some (take m (takeWhile (\<lambda>x. x \<noteq> c) s)) else None)"
  by (simp add: gdbwrap_extract_from_packet_def strstr_char Let_def length_before take_before)

lemma extract_after:
  "gdbwrap_extract_from_packet s (Some [c]) None m =
     (if c \<in> set s then Some (take m (tl (dropWhile (\<lambda>x. x \<noteq> c) s))) else None)"
  by (simp add: gdbwrap_extract_from_packet_def strstr_char Let_def drop_Suc min_def)

lemma extract_between:
  assumes "b \<notin> set p"
  shows "gdbwrap_extract_from_packet (p @ b # s) (Some [b]) (Some [c]) m =
     (if c \<in> set s then Some (take m (takeWhile (\<lambda>x. x \<noteq> c) s)) else None)"
proof -
  have "dropWhile (\<lambda>x. x \<noteq> b) (p @ b # s) = b # s" using assms by (induction p) auto
  then show ?thesis
  by (simp add: gdbwrap_extract_from_packet_def strstr_char Let_def length_before take_before)
qed

lemma extract_all: "gdbwrap_extract_from_packet s None None m = Some (take m s)"
  by (simp add: gdbwrap_extract_from_packet_def Let_def min_def)

lemma sum_bytes_eq: "sum_bytes acc s = acc + (\<Sum>c\<leftarrow>s. of_char c)"
  by (induction acc s rule: sum_bytes.induct) (simp_all add: add.assoc)

lemma hex_value_lhex: "hex_value (lhex_digit n) = Some (n mod 16)"
proof -
  have "n mod 16 < 16" by simp
  then show ?thesis by (auto simp: hex_value_def lhex_digit.simps Let_def)
qed

lemma atoh_fmt_2x: "gdbwrap_atoh (Some (fmt_2x b)) 2 = ucast b"
proof -
  have "unat b < 256" using unsigned_less [of b, where ?'a = nat] by simp
  then have "unat b div 16 mod 16 = unat b div 16" by simp
  moreover have "push_bit 4 (word_of_nat (unat b div 16)) + word_of_nat (unat b mod 16) = (ucast b :: 32 word)"
  proof -
    have "push_bit 4 (word_of_nat (unat b div 16)) + word_of_nat (unat b mod 16) =
        (word_of_nat (unat b div 16 * 16 + unat b mod 16) :: 32 word)"
      by (simp only: push_bit_eq_mult of_nat_add of_nat_mult) simp
    then show ?thesis by (simp only: div_mult_mod_eq) simp
  qed
  ultimately show ?thesis by (simp add: gdbwrap_atoh_def fmt_2x_def hex_value_lhex numeral_2_eq_2)
qed

subsection \<open>Byte order\<close>

lemma little_endian_zero: "little_endian_loop n i 0 acc = acc"
  by (cases n) simp_all

lemma little_endian_step:
  "little_endian_loop (Suc n) i a acc =
     little_endian_loop n (Suc i) (drop_bit 8 a) (acc + push_bit (8 * (3 - i)) (a AND 0xFF))"
  by (cases "a = 0") (simp_all add: little_endian_zero word_gt_0)

lemma little_endian_sum:
  "gdbwrap_little_endian a = push_bit 24 (a AND 0xFF) + push_bit 16 (drop_bit 8 a AND 0xFF) +
     push_bit 8 (drop_bit 16 a AND 0xFF) + (drop_bit 24 a AND 0xFF)"
proof -
  have "drop_bit 32 a = 0" by (rule bit_word_eqI) (auto simp: bit_simps)
  then have "little_endian_loop 1 4 (drop_bit 32 a) acc = acc" for acc
    by (simp add: little_endian_zero)
  then show ?thesis
    by (simp add: gdbwrap_little_endian_def eval_nat_numeral little_endian_step drop_bit_drop_bit
        del: little_endian_loop.simps(2)) 
qed


lemma and_byte:
  fixes x :: "32 word"
  shows "x AND 0xFF = take_bit 8 x"
    and "push_bit 8 (x AND 0xFF00) = push_bit 16 (take_bit 8 (drop_bit 8 x))"
    and "drop_bit 8 (x AND 0xFF0000) = push_bit 8 (take_bit 8 (drop_bit 16 x))"
    and "drop_bit 24 (x AND 0xFF000000) = take_bit 8 (drop_bit 24 x)"
proof -
  have "0xFF = (mask 8 :: 32 word)" "0xFF00 = (push_bit 8 (mask 8) :: 32 word)"
    "0xFF0000 = (push_bit 16 (mask 8) :: 32 word)" "0xFF000000 = (push_bit 24 (mask 8) :: 32 word)"
    by (simp_all add: mask_eq_exp_minus_1)
  note masks = this
  show "x AND 0xFF = take_bit 8 x" by (simp only: masks take_bit_eq_mask)
  have le16: "8 + (n - 16) = n - 8" if "16 \<le> n" for n :: nat using that by simp
  have le8: "16 + (n - 8) = n + 8" if "8 \<le> n" for n :: nat using that by simp
  show "push_bit 8 (x AND 0xFF00) = push_bit 16 (take_bit 8 (drop_bit 8 x))"
    unfolding masks
    by (rule bit_word_eqI)
      (auto simp: bit_push_bit_iff bit_and_iff bit_mask_iff bit_take_bit_iff bit_drop_bit_eq le16
         simp del: push_bit_and push_bit_mask_eq)
  show "drop_bit 8 (x AND 0xFF0000) = push_bit 8 (take_bit 8 (drop_bit 16 x))"
    unfolding masks
    by (rule bit_word_eqI) (auto simp: bit_push_bit_iff bit_and_iff bit_mask_iff bit_take_bit_iff bit_drop_bit_eq le8
         simp del: push_bit_and push_bit_mask_eq drop_bit_and)
  show "drop_bit 24 (x AND 0xFF000000) = take_bit 8 (drop_bit 24 x)"
    unfolding masks
    by (rule bit_word_eqI) (auto simp: bit_push_bit_iff bit_and_iff bit_mask_iff bit_take_bit_iff bit_drop_bit_eq le8
         simp del: push_bit_and push_bit_mask_eq drop_bit_and)
qed

lemma swap32_bytes: "swap32 a = push_bit 24 (take_bit 8 a) OR push_bit 16 (take_bit 8 (drop_bit 8 a)) OR
     push_bit 8 (take_bit 8 (drop_bit 16 a)) OR take_bit 8 (drop_bit 24 a)"
  by (simp only: swap32_def and_byte)

lemma little_endian_swap32: "gdbwrap_little_endian a = swap32 a"
proof -
  let ?b = "\<lambda>k. take_bit 8 (drop_bit k a)"
    have "push_bit 24 (take_bit 8 a) + push_bit 16 (?b 8) = push_bit 24 (take_bit 8 a) OR push_bit 16 (?b 8)"
      by (rule disjunctive_add_eq_or, rule bit_word_eqI) (auto simp: bit_simps)
    moreover have "(push_bit 24 (take_bit 8 a) OR push_bit 16 (?b 8)) + push_bit 8 (?b 16) =
        (push_bit 24 (take_bit 8 a) OR push_bit 16 (?b 8)) OR push_bit 8 (?b 16)"
      by (rule disjunctive_add_eq_or, rule bit_word_eqI) (auto simp: bit_simps)
    moreover have "((push_bit 24 (take_bit 8 a) OR push_bit 16 (?b 8)) OR push_bit 8 (?b 16)) + ?b 24 =
        ((push_bit 24 (take_bit 8 a) OR push_bit 16 (?b 8)) OR push_bit 8 (?b 16)) OR ?b 24"
      by (rule disjunctive_add_eq_or, rule bit_word_eqI) (auto simp: bit_simps)
    ultimately show ?thesis by (simp only: little_endian_sum swap32_bytes or.assoc and_byte(1))
qed


lemma bit_swap32: "n < 32 \<Longrightarrow> bit (swap32 a) n \<longleftrightarrow>
    bit a (if n < 8 then n + 24 else if n < 16 then n + 8 else if n < 24 then n - 8 else n - 24)"
  by (simp only: swap32_bytes) (auto simp: bit_simps add.commute)

lemma swap32_swap32: "swap32 (swap32 a) = a"
  by (rule bit_word_eqI) (auto simp: bit_swap32 split: if_splits)

subsection \<open>The run-length decoder\<close>

declare rle_loop.simps(2) [simp del]

lemma star_not_null [simp]: "GDBWRAP_START_ENCODC \<noteq> GDBWRAP_NULL_CHAR"
  by (simp add: GDBWRAP_START_ENCODC_def GDBWRAP_NULL_CHAR_def)

lemma rle_valid_null: "rle_valid s \<Longrightarrow> GDBWRAP_NULL_CHAR \<notin> set s"
  by (induction s rule: rle_valid.induct)
    (auto split: if_splits list.splits simp: star_not_null [symmetric])

lemma rle_expand_null:
  "rle_valid s \<Longrightarrow> prev \<noteq> GDBWRAP_NULL_CHAR \<Longrightarrow> GDBWRAP_NULL_CHAR \<notin> set (rle_expand prev s)"
  by (induction prev s rule: rle_expand.induct) (auto split: if_splits list.splits)

lemma shift_loop:
  assumes f: "\<And>iter b. f iter b = b[p + L + d - iter := b ! (p + L - iter)]"
    and "k \<le> L" "p + L + d < length b"
  shows "length (fold f [0..<k] b) = length b \<and>
    (\<forall>j<length b. fold f [0..<k] b ! j =
      (if p + L + d < j + k \<and> j \<le> p + L + d then b ! (j - d) else b ! j))"
  using assms(2)
proof (induction k)
  case (Suc k)
  have len: "length (fold f [0..<k] b) = length b"
    and nth: "\<And>j. j < length b \<Longrightarrow> fold f [0..<k] b ! j =
      (if p + L + d < j + k \<and> j \<le> p + L + d then b ! (j - d) else b ! j)" using Suc by auto
  have k: "k < L" using Suc.prems by simp
  have "fold f [0..<k] b ! (p + L - k) = b ! (p + L - k)"
    using nth [of "p + L - k"] k assms(3) by (cases "d = 0") auto
  then have "fold f [0..<Suc k] b = (fold f [0..<k] b)[p + L + d - k := b ! (p + L - k)]"
    using f [of k "fold f [0..<k] b"] by simp
  then show ?case
    using k assms(3) by (auto simp: len nth nth_list_update simp del: upt_Suc)
qed auto

lemma shift_and_set:
  assumes "buf = A @ st # nc # s @ z # T" "2 \<le> n" "n - 2 \<le> length T"
  shows "mem_set (shift_tail buf (length A) (2 + length s) n) (length A) v n =
    A @ replicate n v @ s @ z # drop (n - 2) T"
proof -
  obtain d where n: "n = d + 2" using assms(2) by (metis le_add_diff_inverse2)
  let ?L = "2 + length s"
  define B where "B = shift_tail buf (length A) ?L n"
  have len: "length buf = length A + ?L + 1 + length T" using assms(1) by simp
  have bnd: "length A + ?L + d < length buf" using assms(3) n len by simp
  have b: "length B = length buf" "\<And>j. j < length buf \<Longrightarrow> B ! j =
      (if length A + d < j \<and> j \<le> length A + ?L + d then buf ! (j - d) else buf ! j)"
    using shift_loop [where f = "\<lambda>iter b. b[length A + ?L + n - iter - 2 := b ! (length A + ?L - iter)]",
        OF _ order_refl bnd]
    by (simp_all add: B_def shift_tail_def n)
  have "take (length A) B = A"
    using b by (intro nth_equalityI) (auto simp: len assms(1) nth_append)
  moreover have "drop (length A + n) B = s @ z # drop (n - 2) T"
  proof (rule nth_equalityI)
    show "length (drop (length A + n) B) = length (s @ z # drop (n - 2) T)"
      using assms(3) n b(1) len by (simp only: length_drop) simp
    fix i assume "i < length (drop (length A + n) B)"
    then have i: "length A + n + i < length buf" by (simp add: b(1))
    have *: "buf = (A @ [st, nc]) @ (s @ z # T)" using assms(1) by simp
    have "drop (length A + n) B ! i = B ! (length A + n + i)" using i by (simp add: b(1))
    also have "\<dots> = (s @ z # drop (n - 2) T) ! i"
    proof (cases "i \<le> length s")
      case True
      then have "B ! (length A + n + i) = buf ! (length A + 2 + i)" using b(2) [OF i] n by simp
      also have "\<dots> = (s @ z # T) ! i" by (simp only: *) (simp add: nth_append)
      finally show ?thesis using True by (simp add: nth_append)
    next
      case False
      then have "B ! (length A + n + i) = buf ! (length A + n + i)" using b(2) [OF i] n by simp
      also have "\<dots> = (s @ z # T) ! (n - 2 + i)" using n by (simp only: *) (simp add: nth_append)
      also have "\<dots> = T ! (n - 2 + (i - Suc (length s)))" using False by (simp add: nth_append)
      finally show ?thesis using False assms(3) by (simp add: nth_append)
    qed
    finally show "drop (length A + n) B ! i = (s @ z # drop (n - 2) T) ! i" .
  qed
  ultimately show ?thesis by (simp only: mem_set_def B_def [symmetric])
qed

lemma find_star_skip:
  assumes "\<forall>c\<in>set Y. c \<noteq> GDBWRAP_NULL_CHAR \<and> c \<noteq> GDBWRAP_START_ENCODC"
  shows "find_star (X @ Y @ Z) (length X) = find_star (X @ Y @ Z) (length X + length Y)"
  using assms by (simp add: find_star_def Let_def)

lemma find_star_here: "find_star (X @ GDBWRAP_START_ENCODC # Z) (length X) = Some (length X)"
  by (simp add: find_star_def Let_def)

lemma find_star_end: "find_star (X @ GDBWRAP_NULL_CHAR # Z) (length X) = None"
  by (simp add: find_star_def Let_def)

lemma strlen_prefix: "GDBWRAP_NULL_CHAR \<notin> set s \<Longrightarrow> strlen (s @ GDBWRAP_NULL_CHAR # T) = length s"
  by (simp add: strlen_def)

lemma rle_step:
  assumes "buf = A @ v # GDBWRAP_START_ENCODC # nc # s @ GDBWRAP_NULL_CHAR # T"
    "GDBWRAP_NULL_CHAR \<notin> set (nc # s)" "n = rle_count nc" "2 \<le> n" "n - 2 \<le> length T"
    "check + n < maxsize"
    "buf' = A @ v # replicate n v @ s @ GDBWRAP_NULL_CHAR # drop (n - 2) T"
  shows "rle_loop (Suc fuel) maxsize buf check (Some (Suc (length A))) =
    rle_loop fuel maxsize buf' (check + n) (find_star buf' (Suc (Suc (length A))))"
proof -
  have buf: "buf = (A @ [v]) @ GDBWRAP_START_ENCODC # nc # s @ GDBWRAP_NULL_CHAR # T"
    using assms(1) by simp
  have at: "buf ! length A = v" "buf ! Suc (Suc (length A)) = nc"
    using assms(1) by (simp_all add: nth_append)
  have "drop (Suc (length A)) buf = (GDBWRAP_START_ENCODC # nc # s) @ GDBWRAP_NULL_CHAR # T"
    using assms(1) by simp
  then have len: "strlen (drop (Suc (length A)) buf) = 2 + length s"
    using strlen_prefix [of "GDBWRAP_START_ENCODC # nc # s" T] assms(2) star_not_null by auto
  have "mem_set (shift_tail buf (Suc (length A)) (2 + length s) n) (Suc (length A)) v n = buf'"
    using shift_and_set [OF buf assms(4,5), of v] assms(7) by simp
  then show ?thesis using at len assms(3,6) by (simp add: rle_loop.simps(2) Let_def)
qed

lemma rle_loop_correct:
  assumes "rle_valid s" "v \<noteq> GDBWRAP_NULL_CHAR" "v \<noteq> GDBWRAP_START_ENCODC"
    "length s < fuel" "check + rle_total s < maxsize" "rle_total s \<le> length T"
  shows "\<exists>T'. rle_loop fuel maxsize (A @ v # s @ GDBWRAP_NULL_CHAR # T) check
      (find_star (A @ v # s @ GDBWRAP_NULL_CHAR # T) (Suc (length A))) =
        Inr (A @ v # rle_expand v s @ GDBWRAP_NULL_CHAR # T') \<and>
      length (rle_expand v s) + length T' = length s + length T"
  using assms
proof (induction v s arbitrary: A fuel check T rule: rle_expand.induct)
  case (1 prev)
  then obtain f where "fuel = Suc f" by (cases fuel) auto
  with find_star_end [of "A @ [prev]" T] show ?case by (simp add: rle_loop.simps(2))
next
  case (2 prev c s)
  show ?case
  proof (cases "c = GDBWRAP_START_ENCODC")
    case False
    have "find_star ((A @ [prev]) @ [c] @ s @ GDBWRAP_NULL_CHAR # T) (length (A @ [prev])) =
        find_star ((A @ [prev]) @ [c] @ s @ GDBWRAP_NULL_CHAR # T) (length (A @ [prev]) + length [c])"
      by (rule find_star_skip) (use False 2 in auto)
    then show ?thesis
      using "2.IH"(2) [OF False, of fuel check T "A @ [prev]"] 2 False by auto
  next
    case True
    then obtain nc s' where s: "s = nc # s'" using "2.prems"(1) by (auto split: list.splits)
    let ?n = "rle_count nc"
    let ?T = "drop (?n - 2) T"
    let ?A = "A @ replicate ?n prev"
    let ?buf = "?A @ prev # s' @ GDBWRAP_NULL_CHAR # ?T"
    have v: "rle_valid s'" "nc \<noteq> GDBWRAP_NULL_CHAR" "2 \<le> ?n" using 2 True s by auto
    have bound: "check + ?n + rle_total s' < maxsize" "?n + rle_total s' \<le> length T"
      using 2 True s by auto
    obtain f where f: "fuel = Suc f" "length s' < f" using 2 s by (cases fuel) auto
    have rot: "replicate ?n prev @ prev # xs = prev # replicate ?n prev @ xs" for xs
      by (simp add: replicate_append_same)
    have step: "rle_loop fuel maxsize (A @ prev # (c # s) @ GDBWRAP_NULL_CHAR # T) check
        (Some (Suc (length A))) = rle_loop f maxsize ?buf (check + ?n) (find_star ?buf (Suc (Suc (length A))))"
      unfolding f(1)
      by (rule rle_step [where nc = nc and s = s' and v = prev and T = T])
        (use True s v bound rle_valid_null [OF v(1)] rot in auto)
    have skip: "find_star ?buf (Suc (Suc (length A))) = find_star ?buf (Suc (length ?A))"
    proof -
      let ?X = "A @ [prev, prev]"
      let ?Y = "replicate (?n - 1) prev"
      have eq: "?buf = ?X @ ?Y @ s' @ GDBWRAP_NULL_CHAR # ?T"
        using v(3) rot by (cases ?n) auto
      have "Suc (Suc (length A)) = length ?X" "Suc (length ?A) = length ?X + length ?Y"
        using v(3) by simp_all
      moreover have "find_star (?X @ ?Y @ s' @ GDBWRAP_NULL_CHAR # ?T) (length ?X) =
          find_star (?X @ ?Y @ s' @ GDBWRAP_NULL_CHAR # ?T) (length ?X + length ?Y)"
        by (rule find_star_skip) (use "2.prems" in auto)
      ultimately show ?thesis by (simp only: eq)
    qed
    have room: "rle_total s' \<le> length ?T" using bound(2) by simp
    obtain T' where ih: "rle_loop f maxsize ?buf (check + ?n) (find_star ?buf (Suc (length ?A))) =
        Inr (?A @ prev # rle_expand prev s' @ GDBWRAP_NULL_CHAR # T')"
      and len: "length (rle_expand prev s') + length T' = length s' + length ?T"
      using "2.IH"(1) [OF True s v(1) "2.prems"(2,3) f(2) bound(1) room, of ?A] by blast
    show ?thesis
      using step skip ih len find_star_here [of "A @ [prev]" "s @ GDBWRAP_NULL_CHAR # T"] True s rot v bound by auto
  qed
qed

lemma run_length_decode_ok:
  assumes "rle_valid (c # s)" "c \<noteq> GDBWRAP_START_ENCODC" "buf = c # s @ GDBWRAP_NULL_CHAR # T"
    "length (c # s) + rle_total s < maxsize" "maxsize < length buf"
  shows "\<exists>buf'. gdbwrap_run_length_decode buf maxsize = Inr buf' \<and> length buf' = length buf \<and>
    takeWhile (\<lambda>x. x \<noteq> GDBWRAP_NULL_CHAR) buf' = c # rle_expand c s"
proof -
  have v: "rle_valid s" "c \<noteq> GDBWRAP_NULL_CHAR" using assms(1,2) by auto
  have T: "rle_total s \<le> length T" using assms(3-5) by simp
  have null: "GDBWRAP_NULL_CHAR \<notin> set (c # s)" using rle_valid_null [OF assms(1)] .
  have nul: "GDBWRAP_NULL_CHAR \<notin> set (rle_expand c s)"
    by (rule rle_expand_null [OF v])
  have "find_star buf 0 = find_star buf 1"
    using find_star_skip [of "[c]" "[]" "s @ GDBWRAP_NULL_CHAR # T"] assms(2,3) v by simp
  moreover have "strlen buf = length (c # s)"
    using strlen_prefix [OF null, of T] assms(3) by simp
  moreover obtain T' where "rle_loop (Suc (length buf)) maxsize buf (length (c # s))
      (find_star buf 1) = Inr (c # rle_expand c s @ GDBWRAP_NULL_CHAR # T')"
    and "length (rle_expand c s) + length T' = length s + length T"
    using rle_loop_correct [OF v(1,2) assms(2) _ assms(4) T, of "Suc (length buf)" "[]"] assms(3) by auto
  ultimately show ?thesis
    using assms(2,3) v(2) nul by (auto simp: gdbwrap_run_length_decode_def simp del: rle_loop.simps)
qed

subsection \<open>Messages\<close>

lemmas gdb_chars = GDBWRAP_BEGIN_PACKET_def GDBWRAP_END_PACKET_def GDBWRAP_SEP_COLON_def
  GDBWRAP_SEP_SEMICOLON_def

lemma lhex_digit_neq: "of_char c < (48::nat) \<or> (57 < (of_char c::nat) \<and> of_char c < (97::nat)) \<Longrightarrow> lhex_digit n \<noteq> c"
  by (auto simp: lhex_digit.simps)

lemma fmt_2x_hash: "CHR ''#'' \<notin> set (fmt_2x b)"
  using lhex_digit_neq [of "CHR ''#''"] by (auto simp: fmt_2x_def dest: sym)

lemma calc_checksum_frame:
  assumes "CHR ''#'' \<notin> set q" "length q \<le> max_packet_size d"
  shows "gdbwrap_calc_checksum d (CHR ''$'' # q @ CHR ''#'' # t) = (sum_bytes 0 q, d\<lparr>packet := q\<rparr>)"
  using assms extract_between [of "CHR ''$''" "[]" "q @ CHR ''#'' # t" "CHR ''#''" "max_packet_size d"]
  by (simp add: gdbwrap_calc_checksum_def gdb_chars Let_def)

lemma calc_checksum_plain:
  assumes "CHR ''$'' \<notin> set q" "length q \<le> max_packet_size d"
  shows "gdbwrap_calc_checksum d q = (sum_bytes 0 q, d\<lparr>packet := q\<rparr>)"
  using assms
  by (simp add: gdbwrap_calc_checksum_def gdb_chars Let_def extract_all)
    (simp add: gdbwrap_extract_from_packet_def strstr_char)

lemma max_query_size_eq: "3 \<le> max_packet_size d \<Longrightarrow> max_packet_size d < 2 ^ 32 \<Longrightarrow>
  max_query_size d = max_packet_size d - 3"
proof -
  assume a: "3 \<le> max_packet_size d" "max_packet_size d < 2 ^ 32"
  then have "word_of_nat (max_packet_size d) - 3 = (word_of_nat (max_packet_size d - 3) :: 32 word)"
    by (simp add: of_nat_diff)
  then have "max_query_size d = unat (word_of_nat (max_packet_size d - 3) :: 32 word)"
    by (simp only: max_query_size_def)
  also have "\<dots> = max_packet_size d - 3"
    using a by (simp only: unsigned_of_nat) (simp add: take_bit_nat_eq_self)
  finally show ?thesis .
qed

lemma make_message_eq:
  assumes "CHR ''$'' \<notin> set q" "length q + 3 < max_packet_size d" "max_packet_size d < 2 ^ 32"
  shows "gdbwrap_make_message d q = (if (length q + 4) mod 256 = 0 then Inl Assert_Failed
    else Inr (d\<lparr>packet := take (max_packet_size d - 1)
      (CHR ''$'' # q @ CHR ''#'' # fmt_2x (sum_bytes 0 q))\<rparr>))"
proof -
  have "(0 < (4 + word_of_nat (length q) :: 8 word)) \<longleftrightarrow> (length q + 4) mod 256 \<noteq> 0"
  proof -
    have e: "4 + word_of_nat (length q) = (word_of_nat (length q + 4) :: 8 word)" by simp
    have u: "unat (word_of_nat (length q + 4) :: 8 word) = (length q + 4) mod 256"
      by (simp only: unsigned_of_nat take_bit_eq_mod) simp
    have "0 < w \<longleftrightarrow> unat w \<noteq> 0" for w :: "8 word" by (auto simp: word_gt_0 unat_eq_zero)
    then show ?thesis by (simp only: e u)
  qed
  then show ?thesis
    using assms by (simp add: gdbwrap_make_message_def calc_checksum_plain max_query_size_eq Let_def
        gdb_chars fmt_2x_def)
qed

subsection \<open>Register fields\<close>

lemma atoh_loop_hexval:
  "\<forall>c\<in>set s. hex_value c \<noteq> None \<Longrightarrow> atoh_loop s (length s) acc = acc + word_of_nat (hexval s)"
proof (induction s arbitrary: acc)
  case (Cons c s)
  then obtain v where v: "hex_value c = Some v" by auto
  have "push_bit (4 * n) (word_of_nat v) = (word_of_nat (v * 16 ^ n) :: 32 word)" for n
    by (simp add: push_bit_eq_mult power_mult)
  with Cons v show ?case by (simp add: add.assoc)
qed simp

lemma hexval_snoc: "hexval (s @ [c]) = 16 * hexval s + the (hex_value c)"
  by (induction s) (simp_all add: algebra_simps)

lemma length_lhex_digits [simp]: "length (lhex_digits w n) = w"
  by (induction w arbitrary: n) auto

lemma lhex_digits_hex: "c \<in> set (lhex_digits w n) \<Longrightarrow> \<exists>m. c = lhex_digit m"
  by (induction w arbitrary: n) auto

lemma hexval_lhex_digits: "n < 16 ^ w \<Longrightarrow> hexval (lhex_digits w n) = n"
proof (induction w arbitrary: n)
  case (Suc w)
  have "n div 16 < 16 ^ w" using Suc.prems by (intro less_mult_imp_div_less) (simp only: power_Suc2)
  with Suc.IH [of "n div 16"] show ?case by (simp add: hexval_snoc hex_value_lhex)
qed simp

lemma atoh_lhex_digits:
  assumes "n < 16 ^ w"
  shows "gdbwrap_atoh (Some (lhex_digits w n)) w = word_of_nat n"
proof -
  have "\<forall>c\<in>set (lhex_digits w n). hex_value c \<noteq> None"
    using hex_value_lhex by (auto dest!: lhex_digits_hex)
  from atoh_loop_hexval [OF this, of 0] show ?thesis
    using assms by (simp add: gdbwrap_atoh_def hexval_lhex_digits)
qed

lemma lhex_digits_neq:
  "of_char c < (48::nat) \<or> (57 < (of_char c::nat) \<and> of_char c < (97::nat)) \<Longrightarrow> c \<notin> set (lhex_digits w n)"
  using lhex_digit_neq by (metis lhex_digits_hex)

lemma length_fmt_08x [simp]: "length (fmt_08x v) = 8"
  by (simp add: fmt_08x_def)

lemma populate_field_reg:
  assumes "n < 256"
  shows "populate_field d (lhex_digits 2 n @ CHR '':'' # fmt_08x (swap32 v)) = set_reg d n v"
proof -
  let ?r = "lhex_digits 2 n" and ?v = "fmt_08x (swap32 v)"
  have colon: "CHR '':'' \<notin> set ?r" by (rule lhex_digits_neq) simp
  have "unat (swap32 v) < 16 ^ 8" using unsigned_less [of "swap32 v", where ?'a = nat] by simp
  then have v: "gdbwrap_atoh (Some ?v) 8 = swap32 v" by (simp only: fmt_08x_def atoh_lhex_digits) simp
  have r: "unat (ucast (gdbwrap_atoh (Some ?r) 2) :: 8 word) = n"
    using assms atoh_lhex_digits [of n 2] by (simp add: unsigned_of_nat take_bit_eq_mod unsigned_ucast_eq)
  have "extract_into MSG_BUF (?r @ CHR '':'' # ?v) None (Some GDBWRAP_SEP_COLON) = Inr (Some ?r)"
    "extract_into MSG_BUF (?r @ CHR '':'' # ?v) (Some GDBWRAP_SEP_COLON) None = Inr (Some ?v)"
    using colon by (simp_all add: extract_into_def gdb_chars extract_until extract_after MSG_BUF_def fmt_08x_def)
  then show ?thesis
    using r v by (simp add: populate_field_def Let_def little_endian_swap32 swap32_swap32)
qed

lemma populate_loop_field:
  assumes "n < 256"
  shows "populate_loop d (reg_field (n, v) @ s) =
    (case set_reg d n v of Inl e \<Rightarrow> Inl e | Inr d' \<Rightarrow> populate_loop d' s)"
proof -
  let ?f = "lhex_digits 2 n @ CHR '':'' # fmt_08x (swap32 v)"
  have semi: "CHR '';'' \<notin> set ?f" using lhex_digits_neq [of "CHR '';''"] by (simp add: fmt_08x_def)
  have f: "reg_field (n, v) @ s = ?f @ CHR '';'' # s" by (simp add: reg_field_def)
  have "extract_into MSG_BUF (?f @ CHR '';'' # s) None (Some GDBWRAP_SEP_SEMICOLON) = Inr (Some ?f)"
    using takeWhile_until [OF semi, of s]
    by (simp add: extract_into_def gdb_chars extract_until MSG_BUF_def)
  moreover have "drop (length ?f + 1) (?f @ CHR '';'' # s) = s" by simp
  ultimately show ?thesis
    unfolding f by (subst populate_loop.simps) (simp only: populate_field_reg [OF assms] sum.case option.case)
qed

lemma populate_loop_nil [simp]: "populate_loop d [] = Inr d"
  by (subst populate_loop.simps) (simp add: extract_into_def gdb_chars extract_until)

subsection \<open>Properties\<close>

text \<open>C16. A message survives the way back: for a query without packet delimiters that fits,
  \<open>gdbwrap_make_message\<close> produces a packet from which the extraction functions recover the
  query, and whose checksum digits pass the comparison made on reception.\<close>

theorem make_message_roundtrip:
  assumes "CHR ''$'' \<notin> set q" "CHR ''#'' \<notin> set q" "length q + 4 < max_packet_size d"
    "max_packet_size d < 2 ^ 32" "(length q + 4) mod 256 \<noteq> 0"
  shows "\<exists>d' ck. gdbwrap_make_message d q = Inr d' \<and>
    gdbwrap_extract_from_packet (packet d') (Some GDBWRAP_BEGIN_PACKET) (Some GDBWRAP_END_PACKET)
      (max_packet_size d') = Some q \<and>
    gdbwrap_extract_from_packet (packet d') (Some GDBWRAP_END_PACKET) None 3 = Some ck \<and>
    gdbwrap_atoh (Some ck) (length ck) = ucast (fst (gdbwrap_calc_checksum d' (packet d')))"
proof -
  let ?b = "sum_bytes 0 q"
  let ?msg = "CHR ''$'' # q @ CHR ''#'' # fmt_2x ?b"
  have len: "length (fmt_2x b) = 2" for b by (simp add: fmt_2x_def)
  have "gdbwrap_make_message d q = Inr (d\<lparr>packet := ?msg\<rparr>)"
    using make_message_eq [OF assms(1) _ assms(4)] assms(3,5) by (simp add: len)
  moreover have "gdbwrap_extract_from_packet ?msg (Some ''$'') (Some ''#'') (max_packet_size d) = Some q"
    using extract_between [of "CHR ''$''" "[]" "q @ CHR ''#'' # fmt_2x ?b" "CHR ''#''"] assms by simp
  moreover have "gdbwrap_extract_from_packet ?msg (Some ''#'') None 3 = Some (fmt_2x ?b)"
    using dropWhile_until [of "CHR ''#''" "CHR ''$'' # q"] assms by (simp add: extract_after len)
  ultimately show ?thesis
    using calc_checksum_frame [OF assms(2), of "d\<lparr>packet := ?msg\<rparr>"] assms(3)
    by (simp add: gdb_chars len atoh_fmt_2x)
qed

theorem make_message_roundtrip_witness:
  "\<exists>d'. gdbwrap_make_message \<lparr>packet = [], max_packet_size = 2500, reg32 = [], is_active = True,
      erroroccured = False, interrupted = False\<rparr> ''g'' = Inr d' \<and>
    gdbwrap_extract_from_packet (packet d') (Some GDBWRAP_BEGIN_PACKET) (Some GDBWRAP_END_PACKET)
      (max_packet_size d') = Some ''g''"
  using make_message_roundtrip [of "''g''" "\<lparr>packet = [], max_packet_size = 2500, reg32 = [],
      is_active = True, erroroccured = False, interrupted = False\<rparr>"] by auto

text \<open>The length that \<open>snprintf\<close> returns is kept in a \<open>u_char\<close>: a query that fits but
  whose framed length is a multiple of 256 fails the assertion, and every other one that
  fits does not.\<close>

theorem make_message_aborts:
  assumes "CHR ''$'' \<notin> set q" "length q + 3 < max_packet_size d" "max_packet_size d < 2 ^ 32"
  shows "gdbwrap_make_message d q = Inl Assert_Failed \<longleftrightarrow> 256 dvd (length q + 4)"
  using make_message_eq [OF assms] by (auto simp: dvd_eq_mod_eq_0)

theorem make_message_aborts_witness:
  "gdbwrap_make_message \<lparr>packet = [], max_packet_size = 2500, reg32 = [], is_active = True,
      erroroccured = False, interrupted = False\<rparr> (replicate 252 CHR ''a'') = Inl Assert_Failed"
  using make_message_aborts [of "replicate 252 CHR ''a''" "\<lparr>packet = [], max_packet_size = 2500,
      reg32 = [], is_active = True, erroroccured = False, interrupted = False\<rparr>"] by simp

text \<open>The byte order conversion of the register parser is the macro \<open>swap32\<close>, and
  converting twice gives the value back.\<close>

theorem little_endian_swaps:
  "gdbwrap_little_endian a = swap32 a \<and> gdbwrap_little_endian (gdbwrap_little_endian a) = a"
  by (simp add: little_endian_swap32 swap32_swap32)

text \<open>C17. Run-length decoding in place: on a buffer of more than \<open>maxsize\<close> bytes that holds
  a valid encoding whose bound fits, the decoder terminates without touching a byte outside
  the buffer and leaves the expansion, NUL-terminated.\<close>

theorem run_length_decode_expands:
  assumes "rle_valid (c # s)" "c \<noteq> GDBWRAP_START_ENCODC" "buf = c # s @ GDBWRAP_NULL_CHAR # T"
    "length (c # s) + rle_total s < maxsize" "maxsize < length buf"
  shows "\<exists>buf'. gdbwrap_run_length_decode buf maxsize = Inr buf' \<and> length buf' = length buf \<and>
    takeWhile (\<lambda>x. x \<noteq> GDBWRAP_NULL_CHAR) buf' = c # rle_expand c s"
  using assms by (rule run_length_decode_ok)

theorem run_length_decode_expands_witness:
  "\<exists>buf'. gdbwrap_run_length_decode (CHR ''0'' # CHR ''*'' # CHR ''!'' # GDBWRAP_NULL_CHAR #
      replicate 20 GDBWRAP_NULL_CHAR) 20 = Inr buf' \<and>
    takeWhile (\<lambda>x. x \<noteq> GDBWRAP_NULL_CHAR) buf' = ''00000''"
proof -
  have "rle_valid ''0*!''" "rle_total ''*!'' = 4" "rle_expand CHR ''0'' ''*!'' = ''0000''"
    "CHR ''0'' \<noteq> GDBWRAP_START_ENCODC" by code_simp+
  then show ?thesis
    using run_length_decode_expands [of "CHR ''0''" "''*!''" _ "replicate 20 GDBWRAP_NULL_CHAR" 20]
    by auto
qed

text \<open>C18. Stop replies: every \<open>n:r;\<close> field of a \<open>T\<close> packet with a register number below 16
  stores the register's value, converted from target byte order, and nothing else changes.\<close>

theorem populate_reg_roundtrip:
  assumes "length (reg32 d) = 16" "\<forall>(n, v)\<in>set rs. n < 16" "length sg = 2"
  shows "gdbwrap_populate_reg d (''T'' @ sg @ concat (map reg_field rs)) =
    Inr (d\<lparr>reg32 := fold (\<lambda>(n, v) r. r[n := v]) rs (reg32 d)\<rparr>)"
proof -
  have "populate_loop d (concat (map reg_field rs)) =
    Inr (d\<lparr>reg32 := fold (\<lambda>(n, v) r. r[n := v]) rs (reg32 d)\<rparr>)"
    using assms(1,2)
  proof (induction rs arbitrary: d)
    case (Cons r rs)
    obtain n v where r: "r = (n, v)" by (cases r)
    with Cons show ?case
      using populate_loop_field [of n d v "concat (map reg_field rs)"] by (auto simp: set_reg_def)
  qed simp
  then show ?thesis using assms(3) by (simp add: gdbwrap_populate_reg_def)
qed

theorem populate_reg_roundtrip_witness:
  "gdbwrap_populate_reg \<lparr>packet = [], max_packet_size = 2500, reg32 = replicate 16 0,
     is_active = True, erroroccured = False, interrupted = False\<rparr>
     (''T'' @ ''05'' @ concat (map reg_field [(8, 0x8048000)])) =
   Inr \<lparr>packet = [], max_packet_size = 2500, reg32 = (replicate 16 0)[8 := 0x8048000],
     is_active = True, erroroccured = False, interrupted = False\<rparr>"
  using populate_reg_roundtrip [of "\<lparr>packet = [], max_packet_size = 2500, reg32 = replicate 16 0,
     is_active = True, erroroccured = False, interrupted = False\<rparr>" "[(8, 0x8048000)]" "''05''"]
  by simp

text \<open>A register number from 16 to 255, which the server chooses, makes the parser write
  outside the register structure.\<close>

theorem populate_reg_overflow:
  assumes "length (reg32 d) = 16" "16 \<le> n" "n < 256" "length sg = 2"
  shows "gdbwrap_populate_reg d (''T'' @ sg @ reg_field (n, v)) = Inl Out_Of_Bounds"
  using populate_loop_field [OF assms(3), of d v "[]"] assms
  by (simp add: gdbwrap_populate_reg_def set_reg_def)

theorem populate_reg_overflow_witness:
  "gdbwrap_populate_reg \<lparr>packet = [], max_packet_size = 2500, reg32 = replicate 16 0,
     is_active = True, erroroccured = False, interrupted = False\<rparr>
     (''T'' @ ''05'' @ reg_field (40, 1)) = Inl Out_Of_Bounds"
  using populate_reg_overflow [of "\<lparr>packet = [], max_packet_size = 2500, reg32 = replicate 16 0,
     is_active = True, erroroccured = False, interrupted = False\<rparr>" 40 "''05''"] by simp

end
