(* ===== verification/Gdbsession.thy ===== *)
theory Gdbsession
  imports Gdbwrap
begin

text \<open>
  The session layer of \<open>libgdbwrap/gdbwrapper.c\<close>: acknowledgements, reception,
  retransmission, and the commands built on them.

  The socket is explicit. \<open>input\<close> is the sequence of events the peer and the kernel produce
  (bytes that arrive together, or a failing \<open>recv\<close> with whether \<open>errno\<close> is \<open>EINTR\<close>), and
  \<open>recv\<close> takes at most the requested number of bytes from the first one. When no event is
  left, \<open>recv\<close> returns 0 for ever if the peer has closed the connection, and waits for ever
  (\<open>Blocked\<close>) otherwise. \<open>sent\<close> is the sequence of \<open>send\<close> calls, which are taken to accept
  all bytes, also after the peer has closed the connection. \<open>buf\<close> is the memory of the packet buffer, \<open>max_packet_size + 1\<close> bytes, whose
  string is the field \<open>packet\<close>. The static variables \<open>choice\<close> of \<open>gdbwrap_writemem\<close> and
  \<open>gdbwrap_writereg\<close> are fields of the state.
\<close>

datatype recv_event = Data string | Fail bool

record conn =
  gdb :: gdbwrap_t
  sent :: "string list"
  input :: "recv_event list"
  peer_closed :: bool
  errno_eintr :: bool
  buf :: "char list"
  mem_choice :: nat
  reg_choice :: nat

subsection \<open>The socket\<close>

definition recv :: "nat \<Rightarrow> conn \<Rightarrow> (int \<times> string \<times> conn) gdb_result" where
  "recv n c = (case input c of
     [] \<Rightarrow> if peer_closed c then Inr (0, [], c) else Inl Blocked
   | Data s # es \<Rightarrow>
       Inr (int (min n (length s)), take n s,
            c\<lparr>input := if length s \<le> n then es else Data (drop n s) # es\<rparr>)
   | Fail e # es \<Rightarrow> Inr (-1, [], c\<lparr>input := es, errno_eintr := e\<rparr>))"

definition send_bytes :: "string \<Rightarrow> conn \<Rightarrow> conn" where
  "send_bytes s c = c\<lparr>sent := sent c @ [s]\<rparr>"

fun event_size :: "recv_event \<Rightarrow> nat" where
  "event_size (Data s) = Suc (length s)"
| "event_size (Fail e) = 1"

definition input_size :: "conn \<Rightarrow> nat" where
  "input_size c = sum_list (map event_size (input c))"

lemma recv_decreases:
  "recv n c = Inr (r, s, c') \<Longrightarrow> r \<noteq> 0 \<Longrightarrow> input_size c' < input_size c"
  by (auto simp: recv_def input_size_def split: list.splits recv_event.splits if_splits)

definition cstr :: "char list \<Rightarrow> string" where
  "cstr b = takeWhile (\<lambda>x. x \<noteq> GDBWRAP_NULL_CHAR) b"

definition write_at :: "char list \<Rightarrow> nat \<Rightarrow> char list \<Rightarrow> char list" where
  "write_at b n s = take n b @ s @ drop (n + length s) b"

definition set_gdb :: "gdbwrap_t \<Rightarrow> conn \<Rightarrow> conn" where
  "set_gdb g c = c\<lparr>gdb := g\<rparr>"

subsection \<open>Acknowledgement and reception\<close>

definition gdbwrap_send_ack :: "conn \<Rightarrow> conn" where
  "gdbwrap_send_ack c = send_bytes ''+'' c"

text \<open>One byte is received into the first byte of the buffer; at end of file the byte is the
  old one.\<close>

definition gdbwrap_check_ack :: "conn \<Rightarrow> (bool \<times> conn) gdb_result" where
  "gdbwrap_check_ack c = (case recv 1 c of
     Inl e \<Rightarrow> Inl e
   | Inr (rval, s, c1) \<Rightarrow>
       (let g = (if rval = 0 then (gdb c1)\<lparr>is_active := False\<rparr> else gdb c1);
            g' = (if s = [] then g else g\<lparr>packet := hd s # tl (packet g)\<rparr>)
        in Inr (take 1 (packet g') = ''+'' \<and> rval \<noteq> -1, set_gdb g' c1)))"

text \<open>The loop of \<open>gdbwrap_get_packet\<close>: \<open>recv\<close> may store up to \<open>max_packet_size\<close> bytes at
  offset \<open>sumrval\<close>, whatever is already there.\<close>

function get_loop :: "char list \<Rightarrow> int \<Rightarrow> conn \<Rightarrow> (int \<times> int \<times> char list \<times> conn) gdb_result" where
  "get_loop b sumrval c = (case recv (max_packet_size (gdb c)) c of
     Inl e \<Rightarrow> Inl e
   | Inr (rval, s, c1) \<Rightarrow>
       if length b < nat sumrval + length s then Inl Out_Of_Bounds
       else (let b1 = write_at b (nat sumrval) s; sum1 = sumrval + rval in
         if errno_eintr c1 then Inr (rval, sum1, b1, c1)
         else if 3 \<le> sum1 \<and> b1 ! nat (sum1 - 3) \<noteq> CHR ''#'' \<and> rval \<noteq> 0 then get_loop b1 sum1 c1
         else Inr (rval, sum1, b1, c1)))"
  by pat_completeness auto
termination
  by (relation "measure (\<lambda>(b, sumrval, c). input_size c)") (auto dest: recv_decreases)

declare get_loop.simps [simp del]

text \<open>The decoder works on the bytes of the buffer and its result is the new packet.\<close>

definition decode_packet :: "conn \<Rightarrow> (string option \<times> conn) gdb_result" where
  "decode_packet c = (case gdbwrap_run_length_decode (buf c) (max_packet_size (gdb c)) of
     Inl e \<Rightarrow> Inl e
   | Inr b \<Rightarrow> Inr (Some (cstr b), c\<lparr>gdb := (gdb c)\<lparr>packet := cstr b\<rparr>, buf := b\<rparr>))"

definition handle_error :: "string \<Rightarrow> conn \<Rightarrow> conn" where
  "handle_error msg c = set_gdb (snd (gdbwrap_errorhandler (gdb c) msg)) c"

definition reject_packet :: "conn \<Rightarrow> (string option \<times> conn) gdb_result" where
  "reject_packet c =
     (if interrupted (gdb c)
      then decode_packet (handle_error (packet (gdb c)) (set_gdb ((gdb c)\<lparr>interrupted := False\<rparr>) c))
      else Inr (None, c))"

definition gdbwrap_get_packet :: "conn \<Rightarrow> (string option \<times> conn) gdb_result" where
  "gdbwrap_get_packet c =
     (case get_loop ((write_at (buf c) 0 (packet (gdb c) @ [GDBWRAP_NULL_CHAR]))[0 := GDBWRAP_NULL_CHAR]) 0 c of
        Inl e \<Rightarrow> Inl e
      | Inr (rval, sumrval, b, c1) \<Rightarrow>
          if rval = 0
          then Inr (None, set_gdb ((gdb c1)\<lparr>packet := cstr b, is_active := False\<rparr>) (c1\<lparr>buf := b\<rparr>))
          else if sumrval < 0 \<or> int (length b) \<le> sumrval then Inl Out_Of_Bounds
          else (let b1 = b[nat sumrval := GDBWRAP_NULL_CHAR]; pkt = cstr b1;
                    c2 = set_gdb ((gdb c1)\<lparr>packet := pkt\<rparr>) (c1\<lparr>buf := b1\<rparr>)
                in case extract_into 3 pkt (Some GDBWRAP_END_PACKET) None of
                     Inl e \<Rightarrow> Inl e
                   | Inr ck \<Rightarrow>
                       if rval = -1 then reject_packet c2
                       else (case ck of
                               None \<Rightarrow> Inl Uninitialised
                             | Some checksum \<Rightarrow>
                                 (let (csum, g) = gdbwrap_calc_checksum (gdb c2) pkt;
                                      c3 = set_gdb g (c2\<lparr>buf := write_at b1 0 (packet g @ [GDBWRAP_NULL_CHAR])\<rparr>)
                                  in if gdbwrap_atoh (Some checksum) (length checksum) = ucast csum
                                     then decode_packet (handle_error (packet g) (gdbwrap_send_ack c3))
                                     else reject_packet c3))))"

text \<open>The retransmission loop of \<open>gdbwrap_send_data\<close>. Every turn consumes input, so
  \<open>Suc (input_size c)\<close> turns are enough unless the peer has closed the connection: then the
  loop does not end.\<close>

fun send_loop :: "nat \<Rightarrow> string \<Rightarrow> conn \<Rightarrow> conn gdb_result" where
  "send_loop 0 query c = Inl Out_Of_Fuel"
| "send_loop (Suc fuel) query c = (case gdbwrap_make_message (gdb c) query of
     Inl e \<Rightarrow> Inl e
   | Inr g \<Rightarrow>
       (case gdbwrap_check_ack (send_bytes (packet g) (set_gdb g c)) of
          Inl e \<Rightarrow> Inl e
        | Inr (ok, c1) \<Rightarrow> if ok then Inr c1 else send_loop fuel query c1))"

definition gdbwrap_send_data :: "string \<Rightarrow> conn \<Rightarrow> (string option \<times> conn) gdb_result" where
  "gdbwrap_send_data query c =
     (if gdbwrap_is_active (gdb c)
      then (case send_loop (Suc (input_size c)) query c of
              Inl e \<Rightarrow> Inl e
            | Inr c1 \<Rightarrow> gdbwrap_get_packet c1)
      else Inr (None, handle_error ''dead'' c))"

subsection \<open>Commands\<close>

fun fmt_x :: "nat \<Rightarrow> string" where
  "fmt_x n = (if n < 16 then [lhex_digit n] else fmt_x (n div 16) @ [lhex_digit n])"

declare fmt_x.simps [simp del]

definition msg_buf :: "string \<Rightarrow> string" where
  "msg_buf s = take (MSG_BUF - 1) s"

definition populate_conn :: "string option \<Rightarrow> conn \<Rightarrow> conn gdb_result" where
  "populate_conn r c = (case r of
     None \<Rightarrow> Inl Null_Deref
   | Some s \<Rightarrow> (case gdbwrap_populate_reg (gdb c) s of Inl e \<Rightarrow> Inl e | Inr g \<Rightarrow> Inr (set_gdb g c)))"

text \<open>\<open>gdbwrap_hello\<close>: \<open>grow n\<close> is what \<open>realloc\<close> appends to the block to make it \<open>n\<close> bytes
  long, or None when it fails.\<close>

definition gdbwrap_hello :: "(nat \<Rightarrow> char list option) \<Rightarrow> conn \<Rightarrow> conn gdb_result" where
  "gdbwrap_hello grow c = (case gdbwrap_send_data ''qSupported'' c of
     Inl e \<Rightarrow> Inl e
   | Inr (None, c1) \<Rightarrow> Inr c1
   | Inr (Some received, c1) \<Rightarrow>
       (let c2 = (case gdbwrap_extract_from_packet received (Some ''PacketSize='') (Some GDBWRAP_SEP_SEMICOLON)
                         (max_packet_size (gdb c1)) of
                    None \<Rightarrow> c1
                  | Some result \<Rightarrow>
                      (let newmax = unat (gdbwrap_atoh (Some result) (length result));
                           b = write_at (buf c1) 0 (result @ [GDBWRAP_NULL_CHAR])
                       in case grow (newmax + 1) of
                            Some ext \<Rightarrow> set_gdb ((gdb c1)\<lparr>packet := result, max_packet_size := newmax\<rparr>)
                                          (c1\<lparr>buf := take (newmax + 1) (b @ ext)\<rparr>)
                          | None \<Rightarrow> handle_error ''nospace''
                                      (set_gdb ((gdb c1)\<lparr>packet := result\<rparr>) (c1\<lparr>buf := b\<rparr>))))
        in let b2 = (buf c2)[max_packet_size (gdb c2) := GDBWRAP_NULL_CHAR]
           in Inr (set_gdb ((gdb c2)\<lparr>packet := cstr b2\<rparr>) (c2\<lparr>buf := b2\<rparr>))))"

definition gdbwrap_bye :: "conn \<Rightarrow> conn gdb_result" where
  "gdbwrap_bye c = (case gdbwrap_send_data ''k'' c of Inl e \<Rightarrow> Inl e | Inr (_, c1) \<Rightarrow> Inr c1)"

definition gdbwrap_reason_halted :: "conn \<Rightarrow> conn gdb_result" where
  "gdbwrap_reason_halted c = (case gdbwrap_send_data ''?'' c of
     Inl e \<Rightarrow> Inl e
   | Inr (received, c1) \<Rightarrow> if gdbwrap_is_active (gdb c1) then populate_conn received c1
       else Inr (handle_error ''notable'' c1))"

text \<open>\<open>gdbwrap_readgenreg\<close> reads sixteen times eight characters from the buffer, whatever the
  length of the reply; the result is None for an inactive session.\<close>

definition gdbwrap_readgenreg :: "conn \<Rightarrow> (bool \<times> conn) gdb_result" where
  "gdbwrap_readgenreg c = (case gdbwrap_send_data ''g'' c of
     Inl e \<Rightarrow> Inl e
   | Inr (rec, c1) \<Rightarrow>
       if gdbwrap_is_active (gdb c1) then
         (case rec of
            None \<Rightarrow> Inl Null_Deref
          | Some _ \<Rightarrow> if length (buf c1) < 128 then Inl Out_Of_Bounds
              else Inr (True, set_gdb ((gdb c1)\<lparr>reg32 := read_regs (buf c1) 16\<rparr>) c1))
       else Inr (False, c1))"

definition gdbwrap_continue :: "conn \<Rightarrow> conn gdb_result" where
  "gdbwrap_continue c =
     (if gdbwrap_is_active (gdb c)
      then (case gdbwrap_send_data ''c'' c of
              Inl e \<Rightarrow> Inl e
            | Inr (rec, c1) \<Rightarrow> if rec \<noteq> None \<and> gdbwrap_is_active (gdb c1) then populate_conn rec c1
                else Inr c1)
      else Inr c)"

definition gdbwrap_simplesetbp :: "32 word \<Rightarrow> conn \<Rightarrow> conn gdb_result" where
  "gdbwrap_simplesetbp linaddr c =
     (case gdbwrap_send_data (msg_buf (''Z0,'' @ fmt_x (unat linaddr) @ '','' @ fmt_x 1)) c of
        Inl e \<Rightarrow> Inl e | Inr (_, c1) \<Rightarrow> Inr c1)"

definition gdbwrap_simpledelbp :: "32 word \<Rightarrow> conn \<Rightarrow> conn gdb_result" where
  "gdbwrap_simpledelbp linaddr c =
     (case gdbwrap_send_data (msg_buf (''z0,'' @ fmt_x (unat linaddr) @ '','' @ fmt_x 1)) c of
        Inl e \<Rightarrow> Inl e | Inr (_, c1) \<Rightarrow> Inr c1)"

definition gdbwrap_readmem :: "32 word \<Rightarrow> nat \<Rightarrow> conn \<Rightarrow> (string option \<times> conn) gdb_result" where
  "gdbwrap_readmem linaddr bytes c =
     gdbwrap_send_data (msg_buf (''m'' @ fmt_x (unat linaddr) @ '','' @ fmt_x bytes)) c"

text \<open>The binary form copies the bytes behind the header; \<open>gdbwrap_send_data\<close> then sees the
  C string up to the first NUL among them.\<close>

definition gdbwrap_writememory :: "32 word \<Rightarrow> char list \<Rightarrow> conn \<Rightarrow> (string option \<times> conn) gdb_result" where
  "gdbwrap_writememory linaddr vals c =
     gdbwrap_send_data (cstr (msg_buf (''X'' @ fmt_x (unat linaddr) @ '','' @ fmt_x (length vals) @ '':'') @ vals)) c"

text \<open>The hexadecimal form. Its index is a \<open>u_short\<close>: with 65536 bytes or more the loop wraps
  and appends until the assertion on the length fails.\<close>

definition gdbwrap_writememory2 :: "32 word \<Rightarrow> char list \<Rightarrow> conn \<Rightarrow> (string option \<times> conn) gdb_result" where
  "gdbwrap_writememory2 linaddr vals c =
     (if 65536 \<le> length vals then Inl Assert_Failed
      else gdbwrap_send_data (msg_buf (''M'' @ fmt_x (unat linaddr) @ '','' @ fmt_x (length vals) @ '':'') @
             concat (map (\<lambda>v. fmt_2x (of_char v)) vals)) c)"

text \<open>One turn of the switch on the static variable \<open>choice\<close>, and the loop around it, which
  runs at most twice.\<close>

definition writemem_turn :: "32 word \<Rightarrow> char list \<Rightarrow> conn \<Rightarrow> conn gdb_result" where
  "writemem_turn linaddr vals c =
     (if mem_choice c \<ge> 2 then Inr c
      else (case (if mem_choice c = 0 then gdbwrap_writememory linaddr vals c
                  else gdbwrap_writememory2 linaddr vals c) of
              Inl e \<Rightarrow> Inl e
            | Inr (_, c1) \<Rightarrow> Inr (if gdbwrap_cmdnotsup (gdb c1)
                                 then c1\<lparr>mem_choice := mem_choice c + 1\<rparr> else c1)))"

fun writemem_loop :: "nat \<Rightarrow> 32 word \<Rightarrow> char list \<Rightarrow> conn \<Rightarrow> conn gdb_result" where
  "writemem_loop 0 linaddr vals c = Inl Out_Of_Fuel"
| "writemem_loop (Suc fuel) linaddr vals c = (case writemem_turn linaddr vals c of
     Inl e \<Rightarrow> Inl e
   | Inr c1 \<Rightarrow> if gdbwrap_cmdnotsup (gdb c1) \<and> mem_choice c1 < 2
       then writemem_loop fuel linaddr vals c1 else Inr c1)"

definition gdbwrap_writemem :: "32 word \<Rightarrow> char list \<Rightarrow> conn \<Rightarrow> conn gdb_result" where
  "gdbwrap_writemem linaddr vals c = (if vals = [] then Inr c else writemem_loop 2 linaddr vals c)"

text \<open>\<open>gdbwrap_setbp\<close> returns the saved byte with the new state; \<open>gdbwrap_atoh\<close> of a NULL
  reply is 0.\<close>

definition gdbwrap_setbp :: "32 word \<Rightarrow> conn \<Rightarrow> (char \<times> conn) gdb_result" where
  "gdbwrap_setbp linaddr c = (case gdbwrap_readmem linaddr 1 c of
     Inl e \<Rightarrow> Inl e
   | Inr (ret, c1) \<Rightarrow>
       (case gdbwrap_writemem linaddr [CHR 0xCC] c1 of
          Inl e \<Rightarrow> Inl e
        | Inr c2 \<Rightarrow> Inr (char_of (unat (gdbwrap_atoh ret 2)), c2)))"

definition gdbwrap_delbp :: "32 word \<Rightarrow> char \<Rightarrow> conn \<Rightarrow> conn gdb_result" where
  "gdbwrap_delbp linaddr saved c = gdbwrap_writemem linaddr [saved] c"

definition gdbwrap_writeregister :: "32 word \<Rightarrow> 32 word \<Rightarrow> conn \<Rightarrow> conn gdb_result" where
  "gdbwrap_writeregister regNum val c =
     (case gdbwrap_send_data (msg_buf (''P'' @ fmt_x (unat regNum) @ ''='' @ fmt_x (unat val))) c of
        Inl e \<Rightarrow> Inl e | Inr (_, c1) \<Rightarrow> Inr c1)"

text \<open>\<open>gdbwrap_writeregister2\<close> patches the reply to \<open>g\<close> in the packet buffer and sends it back;
  \<open>locreg\<close> has 700 bytes.\<close>

definition gdbwrap_writeregister2 :: "32 word \<Rightarrow> 32 word \<Rightarrow> conn \<Rightarrow> conn gdb_result" where
  "gdbwrap_writeregister2 regNum val c =
     (let offset = 2 * regNum * 4 in
      if \<not> (regNum < 16 \<and> unat (offset + 8) < max_packet_size (gdb c)) then Inl Assert_Failed
      else (case gdbwrap_readgenreg c of
              Inl e \<Rightarrow> Inl e
            | Inr (False, c1) \<Rightarrow> Inl Assert_Failed
            | Inr (True, c1) \<Rightarrow>
                (let b = write_at (buf c1) (unat offset) (fmt_08x (gdbwrap_little_endian val));
                     c2 = set_gdb ((gdb c1)\<lparr>packet := cstr b\<rparr>) (c1\<lparr>buf := b\<rparr>)
                 in case gdbwrap_send_data (take 699 (''G'' @ cstr b)) c2 of
                      Inl e \<Rightarrow> Inl e | Inr (_, c3) \<Rightarrow> Inr c3)))"

definition writereg_turn :: "32 word \<Rightarrow> 32 word \<Rightarrow> conn \<Rightarrow> conn gdb_result" where
  "writereg_turn regnum val c =
     (if reg_choice c \<ge> 2 then Inr c
      else (case (if reg_choice c = 0 then gdbwrap_writeregister regnum val c
                  else gdbwrap_writeregister2 regnum val c) of
              Inl e \<Rightarrow> Inl e
            | Inr c1 \<Rightarrow> Inr (if gdbwrap_cmdnotsup (gdb c1)
                            then c1\<lparr>reg_choice := reg_choice c + 1\<rparr> else c1)))"

fun writereg_loop :: "nat \<Rightarrow> 32 word \<Rightarrow> 32 word \<Rightarrow> conn \<Rightarrow> conn gdb_result" where
  "writereg_loop 0 regnum val c = Inl Out_Of_Fuel"
| "writereg_loop (Suc fuel) regnum val c = (case writereg_turn regnum val c of
     Inl e \<Rightarrow> Inl e
   | Inr c1 \<Rightarrow> if gdbwrap_cmdnotsup (gdb c1) \<and> reg_choice c1 < 2
       then writereg_loop fuel regnum val c1 else Inr c1)"

definition gdbwrap_writereg :: "32 word \<Rightarrow> 32 word \<Rightarrow> conn \<Rightarrow> conn gdb_result" where
  "gdbwrap_writereg regnum val c = (case writereg_loop 2 regnum val c of
     Inl e \<Rightarrow> Inl e
   | Inr c1 \<Rightarrow>
       if reg_choice c1 < 2
       then (case set_reg (gdb c1) (unat regnum) val of Inl e \<Rightarrow> Inl e | Inr g \<Rightarrow> Inr (set_gdb g c1))
       else Inr c1)"

text \<open>\<open>gdbwrap_shipallreg\<close>: the nine general registers saved before the query replace the
  first 72 characters of its reply.\<close>

definition gdbwrap_shipallreg :: "conn \<Rightarrow> (string option \<times> conn) gdb_result" where
  "gdbwrap_shipallreg c = (case gdbwrap_readgenreg c of
     Inl e \<Rightarrow> Inl e
   | Inr (_, c1) \<Rightarrow>
       (let locreg = concat (map (\<lambda>r. fmt_08x (gdbwrap_little_endian r)) (take 9 (reg32 (gdb c)))) in
        if \<not> length locreg < max_packet_size (gdb c1) then Inl Assert_Failed
        else (let b = write_at (buf c1) 0 locreg;
                  c2 = set_gdb ((gdb c1)\<lparr>packet := cstr b\<rparr>) (c1\<lparr>buf := b\<rparr>)
              in gdbwrap_send_data (take 699 (''G'' @ cstr b)) c2)))"

text \<open>\<open>gdbwrap_ctrl_c\<close> parses what it received without terminating it.\<close>

definition gdbwrap_ctrl_c :: "conn \<Rightarrow> conn gdb_result" where
  "gdbwrap_ctrl_c c =
     (let c1 = send_bytes [CHR 0x03] (set_gdb ((gdb c)\<lparr>interrupted := True\<rparr>) c)
      in case recv (max_packet_size (gdb c1)) c1 of
           Inl e \<Rightarrow> Inl e
         | Inr (rval, s, c2) \<Rightarrow>
             (let b = write_at (write_at (buf c2) 0 (packet (gdb c2) @ [GDBWRAP_NULL_CHAR])) 0 s;
                  c3 = set_gdb ((gdb c2)\<lparr>packet := cstr b\<rparr>) (c2\<lparr>buf := b\<rparr>)
              in case populate_conn (Some (cstr b)) c3 of
                   Inl e \<Rightarrow> Inl e
                 | Inr c4 \<Rightarrow> Inr (gdbwrap_send_ack c4)))"

definition fmt_dot2x :: "nat \<Rightarrow> string" where
  "fmt_dot2x n = (let s = fmt_x n in if length s < 2 then lhex_digit 0 # s else s)"

definition gdbwrap_signal :: "32 word \<Rightarrow> conn \<Rightarrow> conn gdb_result" where
  "gdbwrap_signal sig c =
     (case gdbwrap_send_data (msg_buf (''vCont;C'' @ fmt_dot2x (unat sig))) c of
        Inl e \<Rightarrow> Inl e | Inr (_, c1) \<Rightarrow> Inr c1)"

definition gdbwrap_stepi :: "conn \<Rightarrow> conn gdb_result" where
  "gdbwrap_stepi c = (case gdbwrap_send_data ''s'' c of
     Inl e \<Rightarrow> Inl e
   | Inr (rec, c1) \<Rightarrow> if gdbwrap_is_active (gdb c1) then populate_conn rec c1
       else Inr (handle_error ''dead'' c1))"

text \<open>\<open>gdbwrap_remotecmd\<close>: each character becomes two digits in \<open>cmdcpy\<close>, 80 bytes long, while
  the loop runs up to 80 characters; a character from 128 up is sign-extended and \<open>snprintf\<close>
  keeps the first two digits. An empty command leaves \<open>cmdcpy\<close> unset.\<close>

definition cmd_digits :: "char \<Rightarrow> string" where
  "cmd_digits ch = (if 128 \<le> (of_char ch :: nat) then ''ff'' else fmt_2x (of_char ch))"

definition gdbwrap_remotecmd :: "string \<Rightarrow> conn \<Rightarrow> (string option \<times> conn) gdb_result" where
  "gdbwrap_remotecmd cmd c =
     (if cmd = [] then Inl Uninitialised
      else if MSG_BUF \<le> 2 * length cmd then Inl Out_Of_Bounds
      else (case gdbwrap_send_data (msg_buf (''qRcmd,'' @ concat (map cmd_digits cmd))) c of
              Inl e \<Rightarrow> Inl e
            | Inr (None, c1) \<Rightarrow> Inr (None, c1)
            | Inr (Some ret, c1) \<Rightarrow>
                if length ret < 2 then Inl Out_Of_Bounds
                else if gdbwrap_atoh (Some (drop (length ret - 2) ret)) 2 = 0xa
                then (case recv MSG_BUF (gdbwrap_send_ack c1) of
                        Inl e \<Rightarrow> Inl e | Inr (_, _, c2) \<Rightarrow> Inr (Some ret, c2))
                else Inr (Some ret, c1)))"

subsection \<open>The exchange of one packet\<close>

lemma set_gdb_sel [simp]:
  "gdb (set_gdb g c) = g" "sent (set_gdb g c) = sent c" "input (set_gdb g c) = input c"
  "peer_closed (set_gdb g c) = peer_closed c" "errno_eintr (set_gdb g c) = errno_eintr c"
  "buf (set_gdb g c) = buf c" "mem_choice (set_gdb g c) = mem_choice c"
  "reg_choice (set_gdb g c) = reg_choice c"
  by (simp_all add: set_gdb_def)

lemma send_bytes_sel [simp]:
  "gdb (send_bytes s c) = gdb c" "sent (send_bytes s c) = sent c @ [s]"
  "input (send_bytes s c) = input c" "peer_closed (send_bytes s c) = peer_closed c"
  "errno_eintr (send_bytes s c) = errno_eintr c" "buf (send_bytes s c) = buf c"
  "mem_choice (send_bytes s c) = mem_choice c" "reg_choice (send_bytes s c) = reg_choice c"
  by (simp_all add: send_bytes_def)

text \<open>A byte sequence that arrives in pieces: every proper prefix has at least three bytes and
  does not look like a complete packet, and the whole does.\<close>

fun fragments_ok :: "string \<Rightarrow> string list \<Rightarrow> bool" where
  "fragments_ok pre [] = False"
| "fragments_ok pre (s # ss) = (s \<noteq> [] \<and> 3 \<le> length (pre @ s) \<and>
     (let hash = (pre @ s) ! (length (pre @ s) - 3) = CHR ''#''
      in if ss = [] then hash else \<not> hash \<and> fragments_ok (pre @ s) ss))"

definition frame :: "string \<Rightarrow> string" where
  "frame p = ''$'' @ p @ ''#'' @ fmt_2x (sum_bytes 0 p)"

lemma fragments_frame: "fragments_ok [] [frame p]"
  by (simp add: frame_def fmt_2x_def nth_append)

lemma recv_all:
  assumes "input c = Data s # es" "length s \<le> n"
  shows "recv n c = Inr (int (length s), s, c\<lparr>input := es\<rparr>)"
  using assms by (simp add: recv_def)

lemma write_at_append:
  "length pre + length s \<le> length (pre @ r) \<Longrightarrow>
    write_at (pre @ r) (length pre) s = (pre @ s) @ drop (length s) r"
  by (simp add: write_at_def)

lemma get_loop_fragments:
  assumes "fragments_ok pre ss" "input c = map Data ss @ es" "\<not> errno_eintr c"
    "length (pre @ concat ss) \<le> length (pre @ r)"
    "length (concat ss) \<le> max_packet_size (gdb c)"
  shows "\<exists>r' k. k > 0 \<and> length (pre @ concat ss) + length r' = length (pre @ r) \<and>
    get_loop (pre @ r) (int (length pre)) c =
      Inr (int k, int (length (pre @ concat ss)), pre @ concat ss @ r', c\<lparr>input := es\<rparr>)"
  using assms
proof (induction ss arbitrary: pre r c)
  case (Cons s ss)
  let ?c = "c\<lparr>input := map Data ss @ es\<rparr>"
  have recv: "recv (max_packet_size (gdb c)) c = Inr (int (length s), s, ?c)"
    using Cons.prems by (intro recv_all) simp_all
  have s: "s \<noteq> []" "3 \<le> length pre + length s" using Cons.prems(1) by auto
  have w: "write_at (pre @ r) (length pre) s = (pre @ s) @ drop (length s) r"
    using Cons.prems(4) by (intro write_at_append) simp
  have idx: "nat (int (length pre) + int (length s) - 3) = length (pre @ s) - 3" using s by simp
  have at: "((pre @ s) @ drop (length s) r) ! (length (pre @ s) - 3) =
      (pre @ s) ! (length (pre @ s) - 3)" using s by (subst nth_append) auto
  have step: "get_loop (pre @ r) (int (length pre)) c =
      (if (pre @ s) ! (length (pre @ s) - 3) \<noteq> CHR ''#''
       then get_loop ((pre @ s) @ drop (length s) r) (int (length (pre @ s))) ?c
       else Inr (int (length s), int (length (pre @ s)), (pre @ s) @ drop (length s) r, ?c))"
    using s Cons.prems(3,4) recv w at
    by (subst get_loop.simps) (simp add: Let_def idx del: append_assoc)
  show ?case
  proof (cases "ss = []")
    case True
    then have "get_loop (pre @ r) (int (length pre)) c =
        Inr (int (length s), int (length (pre @ s)), pre @ s @ drop (length s) r, ?c)"
      using step Cons.prems(1) by (simp add: Let_def)
    then show ?thesis using True s Cons.prems(4)
      by (intro exI [of _ "drop (length s) r"] exI [of _ "length s"]) simp
  next
    case False
    then have frag: "fragments_ok (pre @ s) ss" "(pre @ s) ! (length (pre @ s) - 3) \<noteq> CHR ''#''"
      using Cons.prems(1) by (auto simp: Let_def)
    have room: "input ?c = map Data ss @ es" "\<not> errno_eintr ?c"
      "length ((pre @ s) @ concat ss) \<le> length ((pre @ s) @ drop (length s) r)"
      "length (concat ss) \<le> max_packet_size (gdb ?c)" using Cons.prems by simp_all
    obtain r' k where "k > 0" "length ((pre @ s) @ concat ss) + length r' = length ((pre @ s) @ drop (length s) r)"
      "get_loop ((pre @ s) @ drop (length s) r) (int (length (pre @ s))) ?c =
        Inr (int k, int (length ((pre @ s) @ concat ss)), (pre @ s) @ concat ss @ r', ?c\<lparr>input := es\<rparr>)"
      using Cons.IH [OF frag(1) room(1,2), of "drop (length s) r", OF room(3,4)] by auto
    then show ?thesis using step frag(2) Cons.prems(4)
      by (intro exI [of _ r'] exI [of _ k]) simp
  qed
qed simp

text \<open>What the client keeps of an accepted packet: the status flags by the payload, the
  payload decoded in the buffer.\<close>

definition payload_text :: "string \<Rightarrow> string" where
  "payload_text p = (case p of [] \<Rightarrow> [] | x # s \<Rightarrow> x # rle_expand x s)"

definition payload_ok :: "nat \<Rightarrow> string \<Rightarrow> bool" where
  "payload_ok maxsize p \<longleftrightarrow> CHR ''#'' \<notin> set p \<and> GDBWRAP_NULL_CHAR \<notin> set p \<and> rle_valid p \<and>
     take 1 p \<noteq> ''*'' \<and> length p + rle_total p + 4 < maxsize"

lemma decode_payload:
  assumes "payload_ok (max_packet_size (gdb c)) p" "buf c = p @ GDBWRAP_NULL_CHAR # T"
    "length (buf c) = Suc (max_packet_size (gdb c))"
  shows "\<exists>b. decode_packet c = Inr (Some (payload_text p),
      c\<lparr>gdb := (gdb c)\<lparr>packet := payload_text p\<rparr>, buf := b\<rparr>) \<and> length b = length (buf c) \<and> cstr b = payload_text p"
proof (cases p)
  case Nil
  have "gdbwrap_run_length_decode (buf c) (max_packet_size (gdb c)) = Inr (buf c)"
    using assms(2) Nil star_not_null [symmetric]
    by (simp add: gdbwrap_run_length_decode_def find_star_def rle_loop.simps(2))
  moreover have "cstr (buf c) = []" using assms(2) Nil by (simp add: cstr_def)
  moreover have "c\<lparr>gdb := g, buf := buf c\<rparr> = c\<lparr>gdb := g\<rparr>" for g by (cases c) simp
  ultimately show ?thesis
    using Nil by (intro exI [of _ "buf c"]) (simp add: decode_packet_def payload_text_def)
next
  case (Cons x s)
  have ok: "rle_valid (x # s)" "x \<noteq> GDBWRAP_START_ENCODC"
    "length (x # s) + rle_total s < max_packet_size (gdb c)"
    using assms(1) Cons by (auto simp: payload_ok_def GDBWRAP_START_ENCODC_def)
  obtain b where "gdbwrap_run_length_decode (buf c) (max_packet_size (gdb c)) = Inr b"
    "length b = length (buf c)" "cstr b = x # rle_expand x s"
    using run_length_decode_ok [OF ok(1,2) _ ok(3), of "buf c" T] assms(2,3) Cons
    by (auto simp: cstr_def)
  then show ?thesis using Cons by (auto simp: decode_packet_def payload_text_def)
qed

lemma frame_parts:
  assumes "CHR ''#'' \<notin> set p"
  shows "extract_into 3 (frame p) (Some GDBWRAP_END_PACKET) None = Inr (Some (fmt_2x (sum_bytes 0 p)))"
proof -
  have "dropWhile (\<lambda>x. x \<noteq> CHR ''#'') (frame p) = CHR ''#'' # fmt_2x (sum_bytes 0 p)"
    using dropWhile_until [of "CHR ''#''" "CHR ''$'' # p"] assms by (simp add: frame_def)
  moreover have "CHR ''#'' \<in> set (frame p)" by (simp add: frame_def)
  ultimately show ?thesis
    by (simp add: extract_into_def extract_after gdb_chars) (simp add: fmt_2x_def)
qed

lemma frame_null: "GDBWRAP_NULL_CHAR \<notin> set p \<Longrightarrow> GDBWRAP_NULL_CHAR \<notin> set (frame p)"
  using lhex_digit_neq [of GDBWRAP_NULL_CHAR]
  by (auto simp: frame_def fmt_2x_def GDBWRAP_NULL_CHAR_def dest: sym)

text \<open>The state after a good packet has been received.\<close>

definition received :: "string \<Rightarrow> recv_event list \<Rightarrow> char list \<Rightarrow> conn \<Rightarrow> conn" where
  "received p es b c = c\<lparr>gdb := (snd (gdbwrap_errorhandler ((gdb c)\<lparr>packet := p\<rparr>) p))\<lparr>packet := payload_text p\<rparr>,
     sent := sent c @ [''+''], input := es, buf := b\<rparr>"

lemma get_packet_ok:
  assumes "payload_ok (max_packet_size (gdb c)) p" "fragments_ok [] ss" "concat ss = frame p"
    "input c = map Data ss @ es" "\<not> errno_eintr c" "length (buf c) = Suc (max_packet_size (gdb c))"
    "length (packet (gdb c)) \<le> max_packet_size (gdb c)"
  shows "\<exists>b. gdbwrap_get_packet c = Inr (Some (payload_text p), received p es b c) \<and>
    length b = length (buf c) \<and> cstr b = payload_text p"
proof -
  let ?max = "max_packet_size (gdb c)"
  let ?b0 = "(write_at (buf c) 0 (packet (gdb c) @ [GDBWRAP_NULL_CHAR]))[0 := GDBWRAP_NULL_CHAR]"
  have p: "CHR ''#'' \<notin> set p" "GDBWRAP_NULL_CHAR \<notin> set p" "length p + 4 < ?max"
    using assms(1) by (auto simp: payload_ok_def)
  have len2: "length (fmt_2x w) = 2" for w by (simp add: fmt_2x_def)
  have lenf: "length (frame p) = length p + 4" by (simp add: frame_def fmt_2x_def)
  have len0: "length ?b0 = Suc ?max" using assms(6,7) by (simp add: write_at_def)
  obtain r k where r: "k > 0" "length (frame p) + length r = Suc ?max"
    "get_loop ?b0 0 c = Inr (int k, int (length (frame p)), frame p @ r, c\<lparr>input := es\<rparr>)"
    using get_loop_fragments [OF assms(2,4,5), of ?b0] len0 p(3) lenf assms(3) by auto
  obtain z r1 where z: "r = z # r1" using r(2) lenf p(3) by (cases r) auto
  let ?b1 = "frame p @ GDBWRAP_NULL_CHAR # r1"
  have b1: "(frame p @ r)[length (frame p) := GDBWRAP_NULL_CHAR] = ?b1" by (simp add: z)
  have pkt: "cstr ?b1 = frame p" using frame_null [OF p(2)] by (simp add: cstr_def)
  let ?g = "(gdb c)\<lparr>packet := frame p\<rparr>"
  have ck: "gdbwrap_calc_checksum ?g (frame p) = (sum_bytes 0 p, ?g\<lparr>packet := p\<rparr>)"
    using calc_checksum_frame [OF p(1), of ?g "fmt_2x (sum_bytes 0 p)"] p(3) by (simp add: frame_def)
  let ?b2 = "write_at ?b1 0 (p @ [GDBWRAP_NULL_CHAR])"
  let ?c3 = "handle_error p (gdbwrap_send_ack (set_gdb (?g\<lparr>packet := p\<rparr>) (c\<lparr>input := es, buf := ?b2\<rparr>)))"
  have ge: "gdbwrap_get_packet c = decode_packet ?c3"
    using r(1,3) b1 pkt ck frame_parts [OF p(1)] atoh_fmt_2x [of "sum_bytes 0 p"] len2
    by (simp add: gdbwrap_get_packet_def Let_def set_gdb_def z)
  have b2: "?b2 = p @ GDBWRAP_NULL_CHAR # drop (Suc (length p)) ?b1" by (simp add: write_at_def)
  have max3: "max_packet_size (gdb ?c3) = ?max"
    by (simp add: handle_error_def gdbwrap_send_ack_def gdbwrap_errorhandler_def Let_def)
  have "length ?b2 = Suc ?max" using r(2) z lenf by (simp add: write_at_def)
  then have len3: "length (buf ?c3) = Suc (max_packet_size (gdb ?c3))"
    unfolding max3 by (simp add: handle_error_def gdbwrap_send_ack_def)
  have buf3: "buf ?c3 = p @ GDBWRAP_NULL_CHAR # drop (Suc (length p)) ?b1"
    using b2 by (simp add: handle_error_def gdbwrap_send_ack_def)
  obtain b where "decode_packet ?c3 = Inr (Some (payload_text p),
      ?c3\<lparr>gdb := (gdb ?c3)\<lparr>packet := payload_text p\<rparr>, buf := b\<rparr>)" "length b = length (buf ?c3)"
    "cstr b = payload_text p"
    using decode_payload [OF _ buf3 len3] assms(1) max3 by auto
  then show ?thesis using ge len3 max3 assms(6)
    by (intro exI [of _ b])
      (simp add: received_def handle_error_def gdbwrap_send_ack_def send_bytes_def set_gdb_def)
qed

definition query_ok :: "nat \<Rightarrow> string \<Rightarrow> bool" where
  "query_ok maxsize q \<longleftrightarrow> CHR ''$'' \<notin> set q \<and> CHR ''#'' \<notin> set q \<and> length q + 4 < maxsize \<and>
     maxsize < 2 ^ 32 \<and> \<not> 256 dvd (length q + 4)"

lemma make_message_frame:
  assumes "query_ok (max_packet_size g) q"
  shows "gdbwrap_make_message g q = Inr (g\<lparr>packet := frame q\<rparr>)"
  using make_message_eq [of q g] assms
  by (auto simp: query_ok_def frame_def fmt_2x_def dvd_eq_mod_eq_0)

lemma send_loop_acks:
  assumes "query_ok (max_packet_size (gdb c)) q" "k < fuel"
    "input c = replicate k (Data ''-'') @ Data ''+'' # rest"
  shows "send_loop fuel q c = Inr (c\<lparr>gdb := (gdb c)\<lparr>packet := CHR ''+'' # tl (frame q)\<rparr>,
    sent := sent c @ replicate (Suc k) (frame q), input := rest\<rparr>)"
  using assms
proof (induction k arbitrary: fuel c)
  case 0
  then obtain f where "fuel = Suc f" by (cases fuel) auto
  with 0 make_message_frame [OF 0(1)] show ?case
    by (simp add: gdbwrap_check_ack_def recv_def set_gdb_def send_bytes_def)
next
  case (Suc k)
  then obtain f where f: "fuel = Suc f" "k < f" by (cases fuel) auto
  let ?c = "c\<lparr>sent := sent c @ [frame q], input := replicate k (Data ''-'') @ Data ''+'' # rest,
    gdb := (gdb c)\<lparr>packet := CHR ''-'' # tl (frame q)\<rparr>\<rparr>"
  have "send_loop fuel q c = send_loop f q ?c"
    using Suc.prems make_message_frame [OF Suc.prems(1)] f(1)
    by (simp add: gdbwrap_check_ack_def recv_def set_gdb_def send_bytes_def)
  moreover have "query_ok (max_packet_size (gdb ?c)) q" using Suc.prems(1) by simp
  ultimately show ?case using Suc.IH [of ?c f] f(2) by simp
qed

text \<open>The answer of a server that follows the protocol: \<open>k\<close> requests for retransmission, an
  acknowledgement, and a packet in any acceptable fragmentation.\<close>

definition answers :: "nat \<Rightarrow> nat \<Rightarrow> string \<Rightarrow> recv_event list \<Rightarrow> recv_event list \<Rightarrow> bool" where
  "answers maxsize k p inp es \<longleftrightarrow> payload_ok maxsize p \<and>
     (\<exists>ss. fragments_ok [] ss \<and> concat ss = frame p \<and>
        inp = replicate k (Data ''-'') @ Data ''+'' # map Data ss @ es)"

definition session_ok :: "conn \<Rightarrow> bool" where
  "session_ok c \<longleftrightarrow> is_active (gdb c) \<and> \<not> errno_eintr c \<and> length (buf c) = Suc (max_packet_size (gdb c)) \<and>
     length (packet (gdb c)) \<le> max_packet_size (gdb c)"

lemma rle_expand_length: "rle_valid s \<Longrightarrow> length (rle_expand v s) \<le> length s + rle_total s"
  by (induction v s rule: rle_expand.induct) (auto split: if_splits list.splits)

lemma payload_text_length: "payload_ok m p \<Longrightarrow> length (payload_text p) \<le> m"
  using rle_expand_length [of "tl p" "hd p"]
  by (cases p) (auto simp: payload_ok_def payload_text_def GDBWRAP_START_ENCODC_def split: if_splits)

lemma send_data_ok:
  assumes "session_ok c" "query_ok (max_packet_size (gdb c)) q"
    "answers (max_packet_size (gdb c)) k p (input c) es"
  obtains c' where "gdbwrap_send_data q c = Inr (Some (payload_text p), c')"
    "sent c' = sent c @ replicate (Suc k) (frame q) @ [''+'']" "input c' = es"
    "packet (gdb c') = payload_text p" "cstr (buf c') = payload_text p" "max_packet_size (gdb c') = max_packet_size (gdb c)"
    "reg32 (gdb c') = reg32 (gdb c)" "mem_choice c' = mem_choice c" "reg_choice c' = reg_choice c"
    "is_active (gdb c') \<longleftrightarrow> take 1 p \<noteq> ''W'' \<and> take 1 p \<noteq> ''X''"
    "take 1 p \<noteq> ''W'' \<Longrightarrow> take 1 p \<noteq> ''X'' \<Longrightarrow> session_ok c'"
proof -
  obtain ss where ss: "payload_ok (max_packet_size (gdb c)) p" "fragments_ok [] ss"
    "concat ss = frame p" "input c = replicate k (Data ''-'') @ Data ''+'' # map Data ss @ es"
    using assms(3) by (auto simp: answers_def)
  have c: "is_active (gdb c)" "\<not> errno_eintr c" "length (buf c) = Suc (max_packet_size (gdb c))"
    using assms(1) by (simp_all add: session_ok_def)
  let ?c = "c\<lparr>gdb := (gdb c)\<lparr>packet := CHR ''+'' # tl (frame q)\<rparr>,
    sent := sent c @ replicate (Suc k) (frame q), input := map Data ss @ es\<rparr>"
  have "k < Suc (input_size c)" using ss(4) by (simp add: input_size_def sum_list_replicate)
  then have loop: "send_loop (Suc (input_size c)) q c = Inr ?c"
    using send_loop_acks [OF assms(2) _ ss(4)] by blast
  have len: "length (packet (gdb ?c)) \<le> max_packet_size (gdb ?c)"
    using assms(2) by (simp add: query_ok_def frame_def fmt_2x_def)
  obtain b where "gdbwrap_get_packet ?c = Inr (Some (payload_text p), received p es b ?c)"
    and "length b = length (buf ?c)" and str: "cstr b = payload_text p"
    using get_packet_ok [of ?c p ss es] ss c len by auto
  then have r: "gdbwrap_send_data q c = Inr (Some (payload_text p), received p es b ?c)"
    "length b = Suc (max_packet_size (gdb c))"
    using loop c by (simp_all add: gdbwrap_send_data_def gdbwrap_is_active_def)
  have act: "is_active (gdb (received p es b ?c)) \<longleftrightarrow> take 1 p \<noteq> ''W'' \<and> take 1 p \<noteq> ''X''"
    using c(1) by (cases p) (auto simp: received_def gdbwrap_errorhandler_def Let_def
        is_prefix_def GDBWRAP_REPLAY_OK_def split: if_splits)
  have rest: "max_packet_size (gdb (received p es b ?c)) = max_packet_size (gdb c)"
    "reg32 (gdb (received p es b ?c)) = reg32 (gdb c)"
    by (auto simp: received_def gdbwrap_errorhandler_def Let_def)
  show thesis
  proof (rule that [OF r(1)])
    show "session_ok (received p es b ?c)" if "take 1 p \<noteq> ''W''" "take 1 p \<noteq> ''X''"
      using act rest r(2) c that payload_text_length [OF ss(1)]
      by (simp add: session_ok_def) (simp add: received_def)
  qed (use act rest str in \<open>simp_all add: received_def\<close>)
qed

subsection \<open>Register dumps\<close>

lemma atoh_prefix: "atoh_loop (xs @ ys) (length xs) acc = atoh_loop xs (length xs) acc"
  by (induction xs arbitrary: acc) (auto split: option.splits)

lemma plain_payload:
  assumes "GDBWRAP_START_ENCODC \<notin> set p" "GDBWRAP_NULL_CHAR \<notin> set p"
  shows "rle_valid p \<and> rle_total p = 0 \<and> payload_text p = p"
proof -
  have "rle_valid s \<and> rle_total s = 0 \<and> rle_expand v s = s"
    if "GDBWRAP_START_ENCODC \<notin> set s" "GDBWRAP_NULL_CHAR \<notin> set s" for s v
    using that by (induction s arbitrary: v) auto
  from this [OF assms] this [of "tl p" "hd p"] show ?thesis
    using assms by (cases p) (auto simp: payload_text_def)
qed

definition dump :: "32 word list \<Rightarrow> string" where
  "dump regs = concat (map (\<lambda>v. fmt_08x (swap32 v)) regs)"

lemma length_dump [simp]: "length (dump regs) = 8 * length regs"
  by (induction regs) (simp_all add: dump_def)

lemma atoh_fmt_08x: "gdbwrap_atoh (Some (fmt_08x v @ t)) 8 = v"
proof -
  have "unat v < 16 ^ 8" using unsigned_less [of v, where ?'a = nat] by simp
  then show ?thesis
    using atoh_lhex_digits [of "unat v" 8] atoh_prefix [of "fmt_08x v" t 0]
    by (simp add: gdbwrap_atoh_def fmt_08x_def)
qed

lemma drop_dump:
  "i < length regs \<Longrightarrow> drop (8 * i) (dump regs @ t) =
     fmt_08x (swap32 (regs ! i)) @ drop (8 * Suc i) (dump regs @ t)"
proof (induction regs arbitrary: i)
  case (Cons r regs)
  have d: "dump (r # regs) = fmt_08x (swap32 r) @ dump regs" by (simp add: dump_def)
  from Cons show ?case by (cases i) (simp_all add: d)
qed simp

lemma read_regs_dump: "read_regs (dump regs @ t) (length regs) = regs"
proof (rule nth_equalityI)
  fix i assume "i < length (read_regs (dump regs @ t) (length regs))"
  then have i: "i < length regs" by (simp add: read_regs_def)
  then show "read_regs (dump regs @ t) (length regs) ! i = regs ! i"
    using drop_dump [OF i, of t]
    by (simp add: read_regs_def atoh_fmt_08x little_endian_swap32 swap32_swap32)
qed (simp add: read_regs_def)

lemma dump_chars:
  assumes "of_char ch < (48::nat) \<or> (57 < (of_char ch::nat) \<and> of_char ch < (97::nat))"
  shows "ch \<notin> set (dump regs)"
  using lhex_digits_neq [OF assms] by (induction regs) (auto simp: dump_def fmt_08x_def)

lemma take1_other: "ch \<notin> set s \<Longrightarrow> take 1 s \<noteq> [ch]"
  by (cases s) auto

lemma dump_payload:
  assumes "8 * length regs + 4 < maxsize"
  shows "payload_ok maxsize (dump regs) \<and> payload_text (dump regs) = dump regs"
proof -
  have "CHR ''#'' \<notin> set (dump regs)" "GDBWRAP_START_ENCODC \<notin> set (dump regs)"
    "GDBWRAP_NULL_CHAR \<notin> set (dump regs)"
    by (rule dump_chars, simp add: GDBWRAP_START_ENCODC_def GDBWRAP_NULL_CHAR_def)+
  moreover from this have "take 1 (dump regs) \<noteq> ''*''"
    by (simp only: GDBWRAP_START_ENCODC_def take1_other not_False_eq_True)
  ultimately show ?thesis using plain_payload [of "dump regs"] assms by (simp add: payload_ok_def)
qed

lemma cstr_prefix: "set (cstr (s @ GDBWRAP_NULL_CHAR # r)) \<subseteq> set s"
  by (induction s) (auto simp: cstr_def)

lemma hang_turn:
  assumes "query_ok (max_packet_size (gdb c)) q" "peer_closed c" "input c = []"
  shows "send_loop fuel q c = Inl Out_Of_Fuel"
  using assms
proof (induction fuel arbitrary: c)
  case (Suc fuel)
  let ?c = "c\<lparr>sent := sent c @ [frame q], gdb := (gdb c)\<lparr>packet := frame q, is_active := False\<rparr>\<rparr>"
  have "send_loop (Suc fuel) q c = send_loop fuel q ?c"
    using Suc.prems make_message_frame [OF Suc.prems(1)]
    by (simp add: gdbwrap_check_ack_def recv_def set_gdb_def send_bytes_def)
      (simp add: frame_def)
  then show ?case using Suc.IH [of ?c] Suc.prems by simp
qed simp

lemma writemem_turn_ok:
  assumes "session_ok c" "mem_choice c < 2" "length vals < 65536"
    "q = (if mem_choice c = 0
          then cstr (msg_buf (''X'' @ fmt_x (unat a) @ '','' @ fmt_x (length vals) @ '':'') @ vals)
          else msg_buf (''M'' @ fmt_x (unat a) @ '','' @ fmt_x (length vals) @ '':'') @
                 concat (map (\<lambda>v. fmt_2x (of_char v)) vals))"
    "query_ok (max_packet_size (gdb c)) q" "answers (max_packet_size (gdb c)) k p (input c) es"
    "take 1 p \<noteq> ''W''" "take 1 p \<noteq> ''X''"
  obtains c' where "writemem_turn a vals c = Inr c'" "session_ok c'" "input c' = es"
    "sent c' = sent c @ replicate (Suc k) (frame q) @ [''+'']"
    "mem_choice c' = (if payload_text p = [] then mem_choice c + 1 else mem_choice c)"
    "packet (gdb c') = payload_text p" "max_packet_size (gdb c') = max_packet_size (gdb c)"
proof -
  obtain c1 where c1: "gdbwrap_send_data q c = Inr (Some (payload_text p), c1)"
    "sent c1 = sent c @ replicate (Suc k) (frame q) @ [''+'']" "input c1 = es"
    "packet (gdb c1) = payload_text p" "max_packet_size (gdb c1) = max_packet_size (gdb c)"
    "mem_choice c1 = mem_choice c" "session_ok c1"
    using send_data_ok [OF assms(1,5,6)] assms(7,8) by metis
  let ?c = "if gdbwrap_cmdnotsup (gdb c1) then c1\<lparr>mem_choice := mem_choice c + 1\<rparr> else c1"
  have "writemem_turn a vals c = Inr ?c"
    using assms(2-4) c1(1)
    by (simp add: writemem_turn_def gdbwrap_writememory_def gdbwrap_writememory2_def split: if_splits)
  then show thesis
    using c1 by (intro that [of ?c]) (auto simp: session_ok_def gdbwrap_cmdnotsup_def)
qed

lemma writemem_stops:
  "writemem_turn a vals c = Inr c' \<Longrightarrow> \<not> (gdbwrap_cmdnotsup (gdb c') \<and> mem_choice c' < 2) \<Longrightarrow>
     writemem_loop (Suc n) a vals c = Inr c'"
  by auto

lemma writemem_again:
  "writemem_turn a vals c = Inr c' \<Longrightarrow> gdbwrap_cmdnotsup (gdb c') \<Longrightarrow> mem_choice c' < 2 \<Longrightarrow>
     writemem_loop (Suc n) a vals c = writemem_loop n a vals c'"
  by simp

subsection \<open>Properties\<close>

text \<open>C15. A query reaches a conforming server and its answer comes back: after \<open>k\<close> requests
  for retransmission and an acknowledgement the packet has been sent \<open>k + 1\<close> times, the reply,
  in whatever acceptable fragments it arrives, is acknowledged and returned run-length decoded
  in the packet buffer, exactly its events are consumed, and the session stays usable unless
  the reply is an exit notification.\<close>

theorem send_data_delivers:
  assumes "session_ok c" "query_ok (max_packet_size (gdb c)) q"
    "answers (max_packet_size (gdb c)) k p (input c) es"
  shows "\<exists>c'. gdbwrap_send_data q c = Inr (Some (payload_text p), c') \<and>
    sent c' = sent c @ replicate (Suc k) (frame q) @ [''+''] \<and> input c' = es \<and>
    packet (gdb c') = payload_text p \<and>
    (if take 1 p = ''W'' \<or> take 1 p = ''X'' then \<not> is_active (gdb c') else session_ok c')"
proof -
  obtain c' where "gdbwrap_send_data q c = Inr (Some (payload_text p), c')"
    "sent c' = sent c @ replicate (Suc k) (frame q) @ [''+'']" "input c' = es"
    "packet (gdb c') = payload_text p"
    "is_active (gdb c') \<longleftrightarrow> take 1 p \<noteq> ''W'' \<and> take 1 p \<noteq> ''X''"
    "take 1 p \<noteq> ''W'' \<Longrightarrow> take 1 p \<noteq> ''X'' \<Longrightarrow> session_ok c'"
    using send_data_ok [OF assms] by metis
  then show ?thesis by auto
qed

definition demo_conn :: "recv_event list \<Rightarrow> conn" where
  "demo_conn inp = \<lparr>gdb = \<lparr>packet = [], max_packet_size = 200, reg32 = replicate 16 0, is_active = True,
      erroroccured = False, interrupted = False\<rparr>, sent = [], input = inp, peer_closed = False,
    errno_eintr = False, buf = replicate 201 GDBWRAP_NULL_CHAR, mem_choice = 0, reg_choice = 0\<rparr>"

lemma demo_conn_ok: "session_ok (demo_conn inp)" "max_packet_size (gdb (demo_conn inp)) = 200"
    "input (demo_conn inp) = inp" "sent (demo_conn inp) = []" "mem_choice (demo_conn inp) = 0"
  by (simp_all add: demo_conn_def session_ok_def)

theorem send_data_delivers_witness:
  "\<exists>c'. gdbwrap_send_data ''c'' (demo_conn [Data ''-'', Data ''+'', Data ''$0*'', Data ''!#7b'']) =
      Inr (Some ''00000'', c') \<and> sent c' = [''$c#63'', ''$c#63'', ''+'']"
proof -
  let ?c = "demo_conn [Data ''-'', Data ''+'', Data ''$0*'', Data ''!#7b'']"
  have f: "fragments_ok [] [''$0*'', ''!#7b'']" "concat [''$0*'', ''!#7b''] = frame ''0*!''"
    "payload_ok 200 ''0*!''" "payload_text ''0*!'' = ''00000''"
    "frame ''c'' = ''$c#63''" "take 1 ''0*!'' \<noteq> ''W''" by code_simp+
  have q: "query_ok 200 ''c''" by (simp add: query_ok_def)
  have "answers 200 1 ''0*!'' (input ?c) []"
    unfolding answers_def
    by (intro conjI exI [of _ "[''$0*'', ''!#7b'']"]) (rule f | simp add: demo_conn_ok)+
  then show ?thesis
    using send_data_delivers [of ?c "''c''" 1 "''0*!''" "[]"] f q by (simp add: demo_conn_ok) blast
qed

text \<open>C20. When the peer has closed the connection before acknowledging, the retransmission loop
  never ends: no number of turns is enough, because the end-of-file result of \<open>recv\<close> only
  clears \<open>is_active\<close>, which the loop does not read.\<close>

theorem send_data_hangs:
  assumes "query_ok (max_packet_size (gdb c)) q" "peer_closed c" "input c = []"
  shows "send_loop fuel q c = Inl Out_Of_Fuel"
  using assms by (rule hang_turn)

theorem send_data_hangs_witness:
  "send_loop 1000 ''c'' ((demo_conn [])\<lparr>peer_closed := True\<rparr>) = Inl Out_Of_Fuel"
proof -
  have "query_ok (max_packet_size (gdb ((demo_conn [])\<lparr>peer_closed := True\<rparr>))) ''c''"
    by (simp add: query_ok_def demo_conn_def)
  then show ?thesis
    using send_data_hangs [of "(demo_conn [])\<lparr>peer_closed := True\<rparr>" "''c''" 1000]
    by (simp add: demo_conn_def)
qed

text \<open>Reception from a failing or slow socket: if the first \<open>recv\<close> fails, the terminator is
  stored before the buffer; if the first piece has fewer than three bytes and no \<open>#\<close>, reception
  stops and the checksum array is read uninitialised.\<close>

theorem get_packet_bad_input:
  assumes "length (buf c) = Suc (max_packet_size (gdb c))" "length (packet (gdb c)) \<le> max_packet_size (gdb c)"
    "\<not> errno_eintr c"
  shows "(input c = Fail e # es \<longrightarrow> gdbwrap_get_packet c = Inl Out_Of_Bounds) \<and>
    (input c = Data s # es \<and> 0 < length s \<and> length s < 3 \<and> length s < max_packet_size (gdb c) \<and>
       CHR ''#'' \<notin> set s \<longrightarrow> gdbwrap_get_packet c = Inl Uninitialised)"
proof (intro conjI impI)
  let ?b = "(write_at (buf c) 0 (packet (gdb c) @ [GDBWRAP_NULL_CHAR]))[0 := GDBWRAP_NULL_CHAR]"
  have len: "length ?b = Suc (max_packet_size (gdb c))" using assms by (simp add: write_at_def)
  show "gdbwrap_get_packet c = Inl Out_Of_Bounds" if "input c = Fail e # es"
  proof -
    have "get_loop ?b 0 c = Inr (-1, -1, ?b, c\<lparr>input := es, errno_eintr := e\<rparr>)"
      using that by (subst get_loop.simps) (simp add: recv_def Let_def write_at_def)
    then show ?thesis by (simp add: gdbwrap_get_packet_def)
  qed
  show "gdbwrap_get_packet c = Inl Uninitialised"
    if s: "input c = Data s # es \<and> 0 < length s \<and> length s < 3 \<and> length s < max_packet_size (gdb c) \<and>
       CHR ''#'' \<notin> set s"
  proof -
    let ?b1 = "write_at ?b 0 s"
    have b1: "?b1 = s @ drop (length s) ?b" by (simp add: write_at_def)
    have loop: "get_loop ?b 0 c = Inr (int (length s), int (length s), ?b1, c\<lparr>input := es\<rparr>)"
      using s len assms(3) recv_all [of c s es "max_packet_size (gdb c)"]
      by (subst get_loop.simps) (simp add: Let_def)
    have "CHR ''#'' \<notin> set (cstr (?b1[length s := GDBWRAP_NULL_CHAR]))"
    proof -
      obtain z r where "drop (length s) ?b = z # r"
        using len s by (cases "drop (length s) ?b") auto
      then have "?b1[length s := GDBWRAP_NULL_CHAR] = s @ GDBWRAP_NULL_CHAR # r" by (simp add: b1)
      then have "set (cstr (?b1[length s := GDBWRAP_NULL_CHAR])) \<subseteq> set s"
        by (simp only: cstr_prefix)
      then show ?thesis using s by blast
    qed
    moreover have "\<not> int (length ?b1) \<le> int (length s)" using len s b1 by simp
    ultimately show ?thesis
      using loop s by (simp add: gdbwrap_get_packet_def Let_def extract_into_def extract_after gdb_chars)
  qed
qed

theorem get_packet_bad_input_witness:
  "gdbwrap_get_packet (demo_conn [Fail False]) = Inl Out_Of_Bounds \<and>
   gdbwrap_get_packet (demo_conn [Data ''$'', Data ''OK#9a'']) = Inl Uninitialised"
  using get_packet_bad_input [of "demo_conn [Fail False]" False "[]" "[]"]
    get_packet_bad_input [of "demo_conn [Data ''$'', Data ''OK#9a'']" False "[Data ''OK#9a'']" "''$''"]
  by (simp add: demo_conn_def)

text \<open>C19. The fallback of \<open>gdbwrap_writemem\<close>: when the server does not know the binary write (it
  answers with an empty packet), the same bytes are sent in hexadecimal, the choice is
  remembered, and a later write starts with the hexadecimal form.\<close>

theorem writemem_falls_back:
  assumes "session_ok c" "mem_choice c = 0" "vals \<noteq> []" "length vals < 65536"
    "qx = cstr (msg_buf (''X'' @ fmt_x (unat a) @ '','' @ fmt_x (length vals) @ '':'') @ vals)"
    "qm = msg_buf (''M'' @ fmt_x (unat a) @ '','' @ fmt_x (length vals) @ '':'') @
       concat (map (\<lambda>v. fmt_2x (of_char v)) vals)"
    "query_ok (max_packet_size (gdb c)) qx" "query_ok (max_packet_size (gdb c)) qm"
    "answers (max_packet_size (gdb c)) i [] (input c) es"
    "answers (max_packet_size (gdb c)) j ''OK'' es es'"
    "answers (max_packet_size (gdb c)) k ''OK'' es' es''"
  shows "\<exists>c' c''. gdbwrap_writemem a vals c = Inr c' \<and> mem_choice c' = 1 \<and> input c' = es' \<and>
    sent c' = sent c @ replicate (Suc i) (frame qx) @ ''+'' # replicate (Suc j) (frame qm) @ [''+''] \<and>
    gdbwrap_writemem a vals c' = Inr c'' \<and> mem_choice c'' = 1 \<and>
    sent c'' = sent c' @ replicate (Suc k) (frame qm) @ [''+'']"
proof -
  have ok: "payload_text ''OK'' = ''OK''" "payload_text [] = []" by code_simp+
  obtain c1 where c1: "writemem_turn a vals c = Inr c1" "session_ok c1" "input c1 = es"
    "sent c1 = sent c @ replicate (Suc i) (frame qx) @ [''+'']" "mem_choice c1 = 1"
    "packet (gdb c1) = []" "max_packet_size (gdb c1) = max_packet_size (gdb c)"
    by (rule writemem_turn_ok [OF assms(1) _ assms(4) _ assms(7,9)]) (use assms(2,5) ok in auto)
  obtain c2 where c2: "writemem_turn a vals c1 = Inr c2" "session_ok c2" "input c2 = es'"
    "sent c2 = sent c1 @ replicate (Suc j) (frame qm) @ [''+'']" "mem_choice c2 = 1"
    "packet (gdb c2) = ''OK''" "max_packet_size (gdb c2) = max_packet_size (gdb c)"
    by (rule writemem_turn_ok [OF c1(2) _ assms(4), of qm a j "''OK''" es'])
      (use assms(6,8,10) c1 ok in auto)
  obtain c3 where c3: "writemem_turn a vals c2 = Inr c3" "packet (gdb c3) = ''OK''" "mem_choice c3 = 1"
    "sent c3 = sent c2 @ replicate (Suc k) (frame qm) @ [''+'']"
    by (rule writemem_turn_ok [OF c2(2) _ assms(4), of qm a k "''OK''" es''])
      (use assms(6,8,11) c2 ok in auto)
  have "gdbwrap_writemem a vals c = Inr c2"
    using assms(3) c1 c2 by (simp add: gdbwrap_writemem_def numeral_2_eq_2 gdbwrap_cmdnotsup_def)
  moreover have "gdbwrap_writemem a vals c2 = Inr c3"
    using assms(3) c2 c3 by (simp add: gdbwrap_writemem_def numeral_2_eq_2 gdbwrap_cmdnotsup_def)
  ultimately show ?thesis using c1 c2 c3 by (intro exI [of _ c2] exI [of _ c3]) simp
qed

theorem writemem_falls_back_witness:
  "\<exists>c'. gdbwrap_writemem 0x10 [CHR 0xCC] (demo_conn [Data ''+'', Data ''$#00'', Data ''+'',
      Data ''$OK#9a'', Data ''+'', Data ''$OK#9a'']) = Inr c' \<and> mem_choice c' = 1"
proof -
  let ?ok = "[Data ''+'', Data ''$OK#9a'']"
  let ?c = "demo_conn ([Data ''+'', Data ''$#00''] @ ?ok @ ?ok)"
  have pk: "payload_ok 200 []" "payload_ok 200 ''OK''" "fragments_ok [] [''$#00'']"
    "fragments_ok [] [''$OK#9a'']" "concat [''$#00''] = frame []" "concat [''$OK#9a''] = frame ''OK''"
    by code_simp+
  have a0: "answers 200 0 [] ([Data ''+'', Data ''$#00''] @ es) es" for es
    unfolding answers_def by (intro conjI exI [of _ "[''$#00'']"]) (rule pk | simp)+
  have a1: "answers 200 0 ''OK'' (?ok @ es) es" for es
    unfolding answers_def by (intro conjI exI [of _ "[''$OK#9a'']"]) (rule pk | simp)+
  let ?qx = "cstr (msg_buf (''X'' @ fmt_x (unat (0x10 :: 32 word)) @ '','' @ fmt_x (length [CHR 0xCC]) @ '':'') @ [CHR 0xCC])"
  let ?qm = "msg_buf (''M'' @ fmt_x (unat (0x10 :: 32 word)) @ '','' @ fmt_x (length [CHR 0xCC]) @ '':'') @
       concat (map (\<lambda>v. fmt_2x (of_char v)) [CHR 0xCC])"
  have "fmt_x 16 = ''10''" "fmt_x 1 = ''1''" "fmt_2x (of_char CHR 0xCC) = ''cc''" by code_simp+
  then have "?qx = ''X10,1:'' @ [CHR 0xCC]" "?qm = ''M10,1:cc''"
    by (simp_all add: cstr_def msg_buf_def MSG_BUF_def GDBWRAP_NULL_CHAR_def)
  then have q: "query_ok 200 ?qx" "query_ok 200 ?qm" by (simp_all add: query_ok_def)
  show ?thesis
    using writemem_falls_back [OF demo_conn_ok(1) [of "[Data ''+'', Data ''$#00''] @ ?ok @ ?ok"] _ _ _ refl refl,
        of "[CHR 0xCC]" "0x10" 0 "?ok @ ?ok" 0 ?ok 0 "[]"] q a0 [of "?ok @ ?ok"] a1 [of ?ok] a1 [of "[]"]
    by (simp add: demo_conn_ok) blast
qed

text \<open>Reading the registers: when the server answers \<open>g\<close> with a dump of sixteen registers in
  its byte order, \<open>gdbwrap_readgenreg\<close> stores exactly these values.\<close>

theorem readgenreg_values:
  assumes "session_ok c" "query_ok (max_packet_size (gdb c)) ''g''" "length regs = 16"
    "answers (max_packet_size (gdb c)) k (dump regs) (input c) es"
  shows "\<exists>c'. gdbwrap_readgenreg c = Inr (True, c') \<and> reg32 (gdb c') = regs \<and> input c' = es"
proof -
  have p: "payload_ok (max_packet_size (gdb c)) (dump regs)" using assms(4) by (simp add: answers_def)
  then have "8 * length regs + 4 < max_packet_size (gdb c)" by (simp add: payload_ok_def)
  then have dp: "payload_text (dump regs) = dump regs" by (simp add: dump_payload)
  have "CHR ''W'' \<notin> set (dump regs)" "CHR ''X'' \<notin> set (dump regs)" by (rule dump_chars, simp)+
  then have nw: "take 1 (dump regs) \<noteq> ''W''" "take 1 (dump regs) \<noteq> ''X''"
    by (simp_all only: take1_other not_False_eq_True)
  obtain c1 where c1: "gdbwrap_send_data ''g'' c = Inr (Some (dump regs), c1)" "input c1 = es"
    "cstr (buf c1) = dump regs" "is_active (gdb c1)"
    by (rule send_data_ok [OF assms(1,2,4)]) (use nw dp in auto)
  obtain t where t: "buf c1 = dump regs @ t"
    using takeWhile_dropWhile_id [of "\<lambda>x. x \<noteq> GDBWRAP_NULL_CHAR" "buf c1"] c1(3)
    by (simp only: cstr_def) metis
  have "read_regs (buf c1) 16 = regs" using read_regs_dump [of regs t] t assms(3) by simp
  moreover have "128 \<le> length (buf c1)" using t assms(3) by simp
  ultimately show ?thesis
    using c1 by (simp add: gdbwrap_readgenreg_def gdbwrap_is_active_def)
qed

theorem readgenreg_values_witness:
  "\<exists>c'. gdbwrap_readgenreg (demo_conn [Data ''+'', Data (frame (dump (replicate 16 7)))]) = Inr (True, c') \<and>
    reg32 (gdb c') = replicate 16 7"
proof -
  let ?r = "replicate 16 (7 :: 32 word)"
  let ?c = "demo_conn [Data ''+'', Data (frame (dump ?r))]"
  have "payload_ok 200 (dump ?r)" using dump_payload [of ?r 200] by simp
  then have "answers (max_packet_size (gdb ?c)) 0 (dump ?r) (input ?c) []"
    unfolding answers_def demo_conn_ok
    by (intro conjI exI [of _ "[frame (dump ?r)]"]) (rule fragments_frame | assumption | simp)+
  moreover have "query_ok (max_packet_size (gdb ?c)) ''g''" by (simp add: query_ok_def demo_conn_ok)
  moreover have "length ?r = 16" by simp
  ultimately show ?thesis using readgenreg_values [OF demo_conn_ok(1)] by blast
qed

end
