(* ===== verification/Dict.thy ===== *)
theory Dict
  imports Prelude
begin

text \<open>
  The interfaces of the containers. First the keyed ones. A \<open>store\<close> has an insertion that overrides and a
  lookup that returns NULL for an absent key; a \<open>dict\<close> has a deletion as well. The laws
  are stated against an abstraction into partial maps. The lemmas are what clients of the
  containers use: lookups after insertions, and the loops that merge one container into
  another, that remove keys, or that replace an entry. The interpretations are in
  \<open>Hash\<close> (both interfaces) and in \<open>Elist\<close> (insertion and lookup only, because
  \<open>elist_del\<close> removes one of several entries with the same key). The third interface is
  the stack that \<open>elist_push\<close> and \<open>elist_pop\<close> implement, whose pop returns the new top and undoes
  a push.
\<close>

locale store =
  fixes inv :: "'t \<Rightarrow> bool"
    and absm :: "'t \<Rightarrow> 'k \<rightharpoonup> ptr"
    and get :: "'t \<Rightarrow> 'k \<Rightarrow> ptr"
    and add :: "'t \<Rightarrow> 'k \<Rightarrow> ptr \<Rightarrow> 't"
  assumes get_abs: "inv t \<Longrightarrow> get t k = (case absm t k of None \<Rightarrow> NULL | Some d \<Rightarrow> d)"
    and abs_nonnull: "inv t \<Longrightarrow> absm t k \<noteq> Some NULL"
    and add_inv: "inv t \<Longrightarrow> d \<noteq> NULL \<Longrightarrow> inv (add t k d)"
    and add_abs: "inv t \<Longrightarrow> d \<noteq> NULL \<Longrightarrow> absm (add t k d) = (absm t)(k \<mapsto> d)"
begin

lemma get_add_same: "inv t \<Longrightarrow> d \<noteq> NULL \<Longrightarrow> get (add t k d) k = d"
  by (simp add: get_abs add_inv add_abs)

lemma get_add_other: "inv t \<Longrightarrow> d \<noteq> NULL \<Longrightarrow> k' \<noteq> k \<Longrightarrow> get (add t k d) k' = get t k'"
  by (simp add: get_abs add_inv add_abs)

lemma get_null_iff: "inv t \<Longrightarrow> get t k = NULL \<longleftrightarrow> absm t k = None"
  using abs_nonnull [of t k] by (cases "absm t k") (auto simp: get_abs)

lemma add_all:
  assumes "inv t" "\<forall>(k, d) \<in> set xs. d \<noteq> NULL"
  shows "inv (fold (\<lambda>(k, d) t. add t k d) xs t) \<and>
    absm (fold (\<lambda>(k, d) t. add t k d) xs t) = absm t ++ map_of (rev xs)"
  using assms
proof (induction xs arbitrary: t)
  case (Cons x xs)
  obtain k d where x: "x = (k, d)" by force
  with Cons.prems have "inv (add t k d)" "absm (add t k d) = (absm t)(k \<mapsto> d)"
    by (auto simp: add_inv add_abs)
  with Cons x show ?case
    by (simp add: map_add_def fun_eq_iff split: option.splits)
qed simp

lemma add_missing_all:
  assumes "inv t" "\<forall>(k, d) \<in> set xs. d \<noteq> NULL"
  shows "inv (fold (\<lambda>(k, d) t. if get t k = NULL then add t k d else t) xs t) \<and>
    absm (fold (\<lambda>(k, d) t. if get t k = NULL then add t k d else t) xs t) = map_of xs ++ absm t"
  using assms
proof (induction xs arbitrary: t)
  case (Cons x xs)
  obtain k d where x: "x = (k, d)" by force
  let ?t = "if get t k = NULL then add t k d else t"
  have t: "inv ?t" "absm ?t = (if absm t k = None then (absm t)(k \<mapsto> d) else absm t)"
    using Cons.prems x by (auto simp: add_inv add_abs get_null_iff)
  moreover have "map_of xs ++ absm ?t = map_of (x # xs) ++ absm t"
    using t(2) x by (auto simp: map_add_def fun_eq_iff split: option.splits)
  moreover have "\<forall>(k, d) \<in> set xs. d \<noteq> NULL" using Cons.prems by simp
  ultimately show ?case using Cons.IH [of ?t] by (simp only: x fold_simps split)
qed simp

end

locale dict = store +
  fixes del :: "'t \<Rightarrow> 'k \<Rightarrow> 't"
  assumes del_inv: "inv t \<Longrightarrow> inv (del t k)"
    and del_abs: "inv t \<Longrightarrow> absm (del t k) = (absm t)(k := None)"
begin

lemma get_del_same: "inv t \<Longrightarrow> get (del t k) k = NULL"
  by (simp add: get_abs del_inv del_abs)

lemma get_del_other: "inv t \<Longrightarrow> k' \<noteq> k \<Longrightarrow> get (del t k) k' = get t k'"
  by (simp add: get_abs del_inv del_abs)

lemma replace_abs:
  "inv t \<Longrightarrow> d \<noteq> NULL \<Longrightarrow> inv (add (del t k) k d) \<and> absm (add (del t k) k d) = (absm t)(k \<mapsto> d)"
  by (simp add: del_inv del_abs add_inv add_abs)

lemma del_where_all:
  assumes "inv t"
  shows "inv (fold (\<lambda>k t. if P k then del t k else t) ks t) \<and>
    absm (fold (\<lambda>k t. if P k then del t k else t) ks t) = absm t |` (- {k \<in> set ks. P k})"
  using assms
proof (induction ks arbitrary: t)
  case (Cons k ks)
  let ?t = "if P k then del t k else t"
  have "inv ?t" "absm ?t = (if P k then (absm t)(k := None) else absm t)"
    using Cons.prems by (auto simp: del_inv del_abs)
  moreover have "(if P k then (absm t)(k := None) else absm t) |` (- {k \<in> set ks. P k}) =
      absm t |` (- {k' \<in> set (k # ks). P k'})"
    by (auto simp: restrict_map_def fun_eq_iff)
  ultimately show ?case using Cons.IH [of ?t] by (simp only: fold_simps)
qed (simp add: restrict_map_def)

lemma del_present_all:
  assumes "inv t"
  shows "inv (fold (\<lambda>k t. if get t k \<noteq> NULL then del t k else t) ks t) \<and>
    absm (fold (\<lambda>k t. if get t k \<noteq> NULL then del t k else t) ks t) = absm t |` (- set ks)"
  using assms
proof (induction ks arbitrary: t)
  case (Cons k ks)
  let ?t = "if get t k \<noteq> NULL then del t k else t"
  have t: "inv ?t" "absm ?t = (absm t)(k := None)"
    using Cons.prems by (auto simp: del_inv del_abs get_null_iff)
  moreover have "(absm t)(k := None) |` (- set ks) = absm t |` (- set (k # ks))"
    by (auto simp: restrict_map_def fun_eq_iff)
  ultimately show ?case using Cons.IH [of ?t] by (simp only: fold_simps)
qed (simp add: restrict_map_def)

end

locale stack =
  fixes inv :: "'s \<Rightarrow> bool"
    and items :: "'s \<Rightarrow> ptr list"
    and push :: "'s \<Rightarrow> ptr \<Rightarrow> 's"
    and pop :: "'s \<Rightarrow> ptr \<times> 's"
  assumes push_inv: "inv s \<Longrightarrow> d \<noteq> NULL \<Longrightarrow> inv (push s d)"
    and push_items: "inv s \<Longrightarrow> d \<noteq> NULL \<Longrightarrow> items (push s d) = d # items s"
    and pop_inv: "inv s \<Longrightarrow> inv (snd (pop s))"
    and pop_items: "inv s \<Longrightarrow> items (snd (pop s)) = tl (items s)"
    and pop_top: "inv s \<Longrightarrow> fst (pop s) = (case tl (items s) of [] \<Rightarrow> NULL | x # _ \<Rightarrow> x)"
begin

lemma pop_push:
  assumes "inv s" "d \<noteq> NULL"
  shows "items (snd (pop (push s d))) = items s"
    and "fst (pop (push s d)) = (case items s of [] \<Rightarrow> NULL | x # _ \<Rightarrow> x)"
  using assms by (simp_all add: push_inv push_items pop_items pop_top)

lemma push_all:
  assumes "inv s" "\<forall>d\<in>set ds. d \<noteq> NULL"
  shows "inv (fold (\<lambda>d s. push s d) ds s) \<and> items (fold (\<lambda>d s. push s d) ds s) = rev ds @ items s"
  using assms by (induction ds arbitrary: s) (simp_all add: push_inv push_items)

lemma pop_n:
  assumes "inv s"
  shows "inv (((\<lambda>s. snd (pop s)) ^^ n) s) \<and> items (((\<lambda>s. snd (pop s)) ^^ n) s) = drop n (items s)"
  using assms by (induction n) (simp_all add: pop_inv pop_items drop_Suc tl_drop)

lemma unwind:
  assumes "inv s" "\<forall>d\<in>set ds. d \<noteq> NULL"
  shows "items (((\<lambda>s. snd (pop s)) ^^ length ds) (fold (\<lambda>d s. push s d) ds s)) = items s"
  using push_all [OF assms] pop_n [of "fold (\<lambda>d s. push s d) ds s" "length ds"] by simp

end

text \<open>A stack whose pop undoes a push altogether, not only as far as its items show.\<close>

locale undo_stack = stack +
  assumes pop_undoes: "inv s \<Longrightarrow> d \<noteq> NULL \<Longrightarrow> snd (pop (push s d)) = s"
begin

lemma unwind_all:
  assumes "inv s" "\<forall>d\<in>set ds. d \<noteq> NULL"
  shows "((\<lambda>s. snd (pop s)) ^^ length ds) (fold (\<lambda>d s. push s d) ds s) = s"
  using assms
proof (induction ds arbitrary: s)
  case (Cons d ds)
  then have "((\<lambda>s. snd (pop s)) ^^ length ds) (fold (\<lambda>d s. push s d) ds (push s d)) = push s d"
    by (simp add: push_inv)
  then show ?case using Cons.prems pop_undoes by (simp add: funpow_swap1)
qed simp

end

end
