(* ===== verification/Hash.thy ===== *)
theory Hash
  imports Dict
begin

text \<open>
  The hash tables of \<open>libaspect/libhash.c\<close>: separate chaining over an array of
  \<open>listent_t\<close> heads. A table is a record with the fields of \<open>hash_t\<close>. The array
  \<open>ent\<close> is a list of chains; a chain is the head entry, which lives in the array,
  followed by the entries reached through \<open>next\<close>. A head whose key is NULL is the
  empty slot. A \<open>listent_t *\<close> into a table is a pair of a slot and a position in its
  chain. Operations follow the source: the functions that test their arguments against
  NULL have a variant ending in \<open>_ptr\<close> with the test in front of the body.
\<close>

record listent =
  ent_key :: "string option"
  ent_data :: ptr

record hash_t =
  ent :: "listent list list"
  hsize :: nat
  helmnbr :: int
  htype :: nat
  hlinearity :: u_char
  hname :: string

type_synonym entref = "nat \<times> nat"

text \<open>The zeroed entry that \<open>calloc\<close> and \<open>bzero\<close> leave in a slot.\<close>

definition null_ent :: listent where
  "null_ent = \<lparr>ent_key = None, ent_data = NULL\<rparr>"

text \<open>The table part of \<open>hash_init\<close>: a zeroed array and the initial counters.\<close>

definition hash_fresh :: "string \<Rightarrow> nat \<Rightarrow> nat \<Rightarrow> hash_t" where
  "hash_fresh name sz type =
     \<lparr>ent = replicate sz [null_ent], hsize = sz, helmnbr = 0, htype = type,
      hlinearity = 0, hname = name\<rparr>"

subsection \<open>Reading\<close>

text \<open>The accumulating loop over the key, in \<open>u_int\<close> arithmetic.\<close>

fun hash_sum :: "u_int \<Rightarrow> string \<Rightarrow> u_int" where
  "hash_sum index [] = index"
| "hash_sum index (c # backup) = hash_sum (index + char_to_uint c) backup"

definition hash_slot :: "nat \<Rightarrow> string \<Rightarrow> nat" where
  "hash_slot sz k = unat (hash_sum 0 k) mod sz"

definition hash_get_head :: "hash_t \<Rightarrow> string \<Rightarrow> nat" where
  "hash_get_head h k = hash_slot (hsize h) k"

text \<open>The loop shared by \<open>hash_get\<close>, \<open>hash_select\<close> and \<open>hash_get_ent\<close>: it stops at
  the end of the chain, at a NULL key, or at the key.\<close>

fun chain_scan :: "string \<Rightarrow> listent list \<Rightarrow> nat option" where
  "chain_scan k [] = None"
| "chain_scan k (e # es) =
     (if ent_key e = None \<or> ent_key e = Some k then Some 0
      else map_option Suc (chain_scan k es))"

definition hash_get_ent :: "hash_t \<Rightarrow> string \<Rightarrow> entref option" where
  "hash_get_ent h k =
     map_option (Pair (hash_get_head h k)) (chain_scan k (ent h ! hash_get_head h k))"

definition ent_at :: "hash_t \<Rightarrow> entref \<Rightarrow> listent" where
  "ent_at h r = ent h ! fst r ! snd r"

definition hash_get :: "hash_t \<Rightarrow> string \<Rightarrow> ptr" where
  "hash_get h k = (case hash_get_ent h k of None \<Rightarrow> NULL | Some r \<Rightarrow> ent_data (ent_at h r))"

text \<open>\<open>hash_select\<close> returns the address of the data field: the same reference.\<close>

definition hash_select :: "hash_t \<Rightarrow> string \<Rightarrow> entref option" where
  "hash_select h k = hash_get_ent h k"

text \<open>The entries one slot's \<open>while (cur && cur->key)\<close> loop visits, and those the
  nested loops over all slots visit, in order.\<close>

definition chain_ents :: "listent list \<Rightarrow> listent list" where
  "chain_ents = takeWhile (\<lambda>e. ent_key e \<noteq> None)"

definition hash_ents :: "hash_t \<Rightarrow> listent list" where
  "hash_ents h = concat (map chain_ents (ent h))"

definition entry_key :: "listent \<Rightarrow> string" where
  "entry_key e = the (ent_key e)"

text \<open>\<open>hash_get_keys\<close>: NULL for a missing or empty table, else the array of keys. The
  second result is \<open>*n\<close>, which the source sets to \<open>elmnbr\<close> and not to the number of
  keys it copied.\<close>

definition hash_get_keys :: "hash_t option \<Rightarrow> string list option \<times> int" where
  "hash_get_keys hp = (case hp of
     None \<Rightarrow> (None, 0)
   | Some h \<Rightarrow> if helmnbr h = 0 then (None, 0)
       else (Some (map entry_key (hash_ents h)), helmnbr h))"

definition hash_size :: "hash_t option \<Rightarrow> int" where
  "hash_size hp = (case hp of None \<Rightarrow> 0 | Some h \<Rightarrow> helmnbr h)"

text \<open>\<open>keys[0]\<close>: the array has a trailing NULL, and \<open>hash_get\<close> of a NULL key faults.\<close>

definition hash_first :: "hash_t \<Rightarrow> ptr option" where
  "hash_first h = (case fst (hash_get_keys (Some h)) of
     Some (k # _) \<Rightarrow> Some (hash_get h k)
   | _ \<Rightarrow> None)"

definition hash_get_single :: "hash_t option \<Rightarrow> ptr option" where
  "hash_get_single hp = (case hp of
     None \<Rightarrow> Some NULL
   | Some h \<Rightarrow> if hash_size (Some h) \<noteq> 1 then Some NULL else hash_first h)"

definition hash_get_one :: "hash_t option \<Rightarrow> ptr option" where
  "hash_get_one hp = (case hp of
     None \<Rightarrow> Some NULL
   | Some h \<Rightarrow> if hash_size (Some h) = 0 then Some NULL else hash_first h)"

definition hash_linearity_get :: "hash_t option \<Rightarrow> u_char" where
  "hash_linearity_get hp = (case hp of None \<Rightarrow> 0 | Some h \<Rightarrow> hlinearity h)"

definition hash_linearity_set :: "hash_t option \<Rightarrow> u_char \<Rightarrow> hash_t option" where
  "hash_linearity_set hp v = map_option (\<lambda>h. h\<lparr>hlinearity := v\<rparr>) hp"

subsection \<open>Writing\<close>

text \<open>Storing through a \<open>listent_t *\<close>.\<close>

definition set_ent_data :: "hash_t \<Rightarrow> entref \<Rightarrow> ptr \<Rightarrow> hash_t" where
  "set_ent_data h r d =
     h\<lparr>ent := (ent h)[fst r := (ent h ! fst r)[snd r := (ent_at h r)\<lparr>ent_data := d\<rparr>]]\<rparr>"

text \<open>The insertion into a chain: the head slot is filled in place when its key is NULL,
  otherwise the new entry goes after the last one.\<close>

fun chain_add :: "string \<Rightarrow> ptr \<Rightarrow> listent list \<Rightarrow> listent list" where
  "chain_add k d [] = []"
| "chain_add k d (e # es) =
     (if ent_key e = None then e\<lparr>ent_key := Some k, ent_data := d\<rparr> # es
      else e # es @ [\<lparr>ent_key = Some k, ent_data = d\<rparr>])"

definition hash_insert :: "hash_t \<Rightarrow> string \<Rightarrow> ptr \<Rightarrow> int \<times> hash_t" where
  "hash_insert h k d = (let index = hash_get_head h k in
     (int index, h\<lparr>ent := (ent h)[index := chain_add k d (ent h ! index)],
                   helmnbr := helmnbr h + 1\<rparr>))"

text \<open>\<open>hash_set\<close> falls back on \<open>hash_add\<close> when it finds no entry or an empty slot.\<close>

definition set_falls_back :: "hash_t \<Rightarrow> string \<Rightarrow> bool" where
  "set_falls_back h k = (case hash_get_ent h k of
     None \<Rightarrow> True
   | Some r \<Rightarrow> ent_key (ent_at h r) = None \<and> ent_data (ent_at h r) = NULL)"

text \<open>The two functions call each other, but never more than once in a row: a non-NULL
  result of \<open>hash_get\<close> comes from an entry that \<open>hash_set\<close> accepts.\<close>

lemma get_no_fallback: "set_falls_back h k \<Longrightarrow> hash_get h k = NULL"
  by (auto simp: hash_get_def set_falls_back_def split: option.splits)

function hash_add :: "hash_t \<Rightarrow> string \<Rightarrow> ptr \<Rightarrow> int \<times> hash_t"
  and hash_set :: "hash_t \<Rightarrow> string \<Rightarrow> ptr \<Rightarrow> int \<times> hash_t" where
  "hash_add h k d = (if hash_get h k \<noteq> NULL then hash_set h k d else hash_insert h k d)"
| "hash_set h k d =
     (if set_falls_back h k then hash_add h k d
      else (0, set_ent_data h (the (hash_get_ent h k)) d))"
  by pat_completeness auto

termination
  by (relation "measure (\<lambda>x. case x of
        Inl (h, k, d) \<Rightarrow> if hash_get h k \<noteq> NULL then Suc 0 else 0
      | Inr (h, k, d) \<Rightarrow> if set_falls_back h k then Suc 0 else 0)")
    (auto dest: get_no_fallback)

declare hash_add.simps [simp del] hash_set.simps [simp del]

definition hash_add_ptr :: "hash_t option \<Rightarrow> string option \<Rightarrow> ptr \<Rightarrow> int \<times> hash_t option" where
  "hash_add_ptr hp kp d = (case (hp, kp) of
     (Some h, Some k) \<Rightarrow> (let (r, h') = hash_add h k d in (r, Some h'))
   | _ \<Rightarrow> (-1, hp))"

text \<open>\<open>hash_del\<close>. The second loop looks one entry ahead: it unlinks the first successor
  whose key matches (or is NULL) and reports failure when there is none.\<close>

fun chain_unlink :: "string \<Rightarrow> listent list \<Rightarrow> listent list option" where
  "chain_unlink k (e # n # ns) =
     (if ent_key n = None \<or> ent_key n = Some k then Some (e # ns)
      else map_option ((#) e) (chain_unlink k (n # ns)))"
| "chain_unlink k _ = None"

definition chain_del :: "string \<Rightarrow> listent list \<Rightarrow> listent list option" where
  "chain_del k es = (case es of
     [] \<Rightarrow> None
   | e # ns \<Rightarrow> if ent_key e = Some k then Some (if ns \<noteq> [] then ns else [null_ent])
       else chain_unlink k es)"

definition hash_del :: "hash_t \<Rightarrow> string \<Rightarrow> int \<times> hash_t" where
  "hash_del h k = (let index = hash_get_head h k in
     case chain_del k (ent h ! index) of
       None \<Rightarrow> (-1, h)
     | Some es \<Rightarrow> (0, h\<lparr>ent := (ent h)[index := es], helmnbr := helmnbr h - 1\<rparr>))"

subsection \<open>Iterating\<close>

text \<open>\<open>hash_apply\<close>: the callback is a parameter that reads an entry, updates the state
  behind \<open>ptr\<close> and returns an integer that is or-ed into the result.\<close>

fun apply_ents :: "(listent \<Rightarrow> 's \<Rightarrow> 32 word \<times> 's) \<Rightarrow> listent list \<Rightarrow> 's \<Rightarrow> 32 word \<Rightarrow> 32 word \<times> 's" where
  "apply_ents f [] s ret = (ret, s)"
| "apply_ents f (e # es) s ret = (let (r, s') = f e s in apply_ents f es s' (ret OR r))"

definition hash_apply :: "hash_t \<Rightarrow> 's \<Rightarrow> (listent \<Rightarrow> 's \<Rightarrow> 32 word \<times> 's) \<Rightarrow> 32 word \<times> 's" where
  "hash_apply h s f = apply_ents f (hash_ents h) s 0"

text \<open>\<open>hash_compare\<close>: \<open>None\<close> is the NULL dereference of \<open>bis->data\<close>, when the key is
  missing from a non-empty chain of the second table. The accumulator is \<open>m\<close>.\<close>

fun compare_ents :: "hash_t \<Rightarrow> listent list \<Rightarrow> nat \<Rightarrow> nat option" where
  "compare_ents two [] m = Some m"
| "compare_ents two (actual # es) m = (case hash_get_ent two (entry_key actual) of
     None \<Rightarrow> None
   | Some bis \<Rightarrow> compare_ents two es
       (if ent_data actual \<noteq> ent_data (ent_at two bis) then Suc m else m))"

definition hash_compare :: "hash_t \<Rightarrow> hash_t \<Rightarrow> int option" where
  "hash_compare first two =
     (if hsize first \<noteq> hsize two then Some (-1)
      else map_option (\<lambda>m. if m \<noteq> 0 then -1 else 0) (compare_ents two (hash_ents first) 0))"

text \<open>\<open>hash_merge\<close>, \<open>hash_unmerge\<close> and \<open>hash_inter\<close>, with their running sum of the
  return values. Source and destination are distinct tables.\<close>

fun merge_ents :: "listent list \<Rightarrow> int \<Rightarrow> hash_t \<Rightarrow> int \<times> hash_t" where
  "merge_ents [] ret dst = (ret, dst)"
| "merge_ents (e # es) ret dst =
     (if hash_get dst (entry_key e) = NULL
      then (let (r, dst') = hash_add dst (entry_key e) (ent_data e) in merge_ents es (ret + r) dst')
      else merge_ents es ret dst)"

definition hash_merge :: "hash_t \<Rightarrow> hash_t \<Rightarrow> int \<times> hash_t" where
  "hash_merge dst src =
     (if helmnbr src = 0 then (0, dst) else merge_ents (hash_ents src) 0 dst)"

fun unmerge_ents :: "listent list \<Rightarrow> int \<Rightarrow> hash_t \<Rightarrow> int \<times> hash_t" where
  "unmerge_ents [] ret dst = (ret, dst)"
| "unmerge_ents (e # es) ret dst =
     (if hash_get dst (entry_key e) \<noteq> NULL
      then (let (r, dst') = hash_del dst (entry_key e) in unmerge_ents es (ret + r) dst')
      else unmerge_ents es ret dst)"

definition hash_unmerge :: "hash_t \<Rightarrow> hash_t \<Rightarrow> int \<times> hash_t" where
  "hash_unmerge dst src =
     (if helmnbr src = 0 then (0, dst) else unmerge_ents (hash_ents src) 0 dst)"

fun inter_keys :: "hash_t \<Rightarrow> string list \<Rightarrow> int \<Rightarrow> hash_t \<Rightarrow> int \<times> hash_t" where
  "inter_keys src [] ret dst = (ret, dst)"
| "inter_keys src (curkey # ks) ret dst =
     (if hash_get src curkey = NULL
      then (let (r, dst') = hash_del dst curkey in inter_keys src ks (ret + r) dst')
      else inter_keys src ks ret dst)"

definition hash_inter :: "hash_t \<Rightarrow> hash_t \<Rightarrow> int \<times> hash_t" where
  "hash_inter dst src =
     (if helmnbr src = 0 \<or> helmnbr dst = 0 then (0, dst)
      else (let (keys, keynbr) = hash_get_keys (Some dst)
        in inter_keys src (take (nat keynbr) (the keys)) 0 dst))"

text \<open>The NULL tests in front of the three set operations.\<close>

definition hash_setop_ptr ::
  "(hash_t \<Rightarrow> hash_t \<Rightarrow> int \<times> hash_t) \<Rightarrow> hash_t option \<Rightarrow> hash_t option \<Rightarrow> int \<times> hash_t option" where
  "hash_setop_ptr f dstp srcp = (case (dstp, srcp) of
     (Some dst, Some src) \<Rightarrow> (let (r, dst') = f dst src in (r, Some dst'))
   | _ \<Rightarrow> (0, dstp))"

subsection \<open>Invariant and abstraction\<close>

text \<open>A chain is the empty slot, or consists of keyed entries that belong to the slot, with
  distinct keys and non-NULL data. The counter is the number of entries. The table stands
  for the finite map \<open>hash_abs\<close>.\<close>

definition ent_ok :: "nat \<Rightarrow> nat \<Rightarrow> listent \<Rightarrow> bool" where
  "ent_ok sz s e = (case ent_key e of
     None \<Rightarrow> False
   | Some k \<Rightarrow> hash_slot sz k = s \<and> ent_data e \<noteq> NULL)"

definition chain_inv :: "nat \<Rightarrow> nat \<Rightarrow> listent list \<Rightarrow> bool" where
  "chain_inv sz s b \<longleftrightarrow>
     b = [null_ent] \<or> b \<noteq> [] \<and> list_all (ent_ok sz s) b \<and> distinct (map ent_key b)"

definition hash_inv :: "hash_t \<Rightarrow> bool" where
  "hash_inv h \<longleftrightarrow> 0 < hsize h \<and> length (ent h) = hsize h \<and>
     (\<forall>s<hsize h. chain_inv (hsize h) s (ent h ! s)) \<and>
     helmnbr h = int (length (hash_ents h))"

definition hash_abs :: "hash_t \<Rightarrow> string \<rightharpoonup> ptr" where
  "hash_abs h k = (if hash_get h k = NULL then None else Some (hash_get h k))"

definition ent_pair :: "listent \<Rightarrow> string \<times> ptr" where
  "ent_pair e = (entry_key e, ent_data e)"

definition chain_map :: "listent list \<Rightarrow> string \<rightharpoonup> ptr" where
  "chain_map b = map_of (map ent_pair (chain_ents b))"

subsection \<open>One chain\<close>

lemma ent_key_null [simp]: "ent_key null_ent = None" "ent_data null_ent = NULL"
  by (simp_all add: null_ent_def)

lemma ent_okE:
  assumes "ent_ok sz s e"
  obtains k where "ent_key e = Some k" "entry_key e = k" "hash_slot sz k = s" "ent_data e \<noteq> NULL"
  using assms by (auto simp: ent_ok_def entry_key_def split: option.splits)

lemma ent_ok_keyed: "ent_ok sz s e \<Longrightarrow> ent_key e = Some (entry_key e)"
  by (auto elim: ent_okE)

lemma chain_ents_ok [simp]: "list_all (ent_ok sz s) b \<Longrightarrow> chain_ents b = b"
  by (induction b) (auto simp: chain_ents_def elim: ent_okE)

lemma chain_ents_null [simp]: "chain_ents [null_ent] = []"
  by (simp add: chain_ents_def)

lemma chain_inv_cases [consumes 1, case_names empty keyed]:
  assumes "chain_inv sz s b"
  obtains "b = [null_ent]" "chain_ents b = []" "chain_map b = Map.empty"
  | "b \<noteq> []" "list_all (ent_ok sz s) b" "distinct (map ent_key b)" "chain_ents b = b"
    "chain_map b = map_of (map ent_pair b)"
  using assms by (auto simp: chain_inv_def chain_map_def)

lemma map_of_pair_Some:
  assumes "list_all (ent_ok sz s) b" "map_of (map ent_pair b) k = Some d"
  shows "\<exists>e\<in>set b. ent_key e = Some k \<and> ent_data e = d"
  using assms by (induction b) (auto simp: ent_pair_def split: if_splits dest: ent_ok_keyed)

lemma map_of_pair_None:
  assumes "list_all (ent_ok sz s) b"
  shows "map_of (map ent_pair b) k = None \<longleftrightarrow> Some k \<notin> ent_key ` set b"
  using assms by (induction b) (auto simp: ent_pair_def elim: ent_okE)

lemma chain_scan_ok:
  assumes "list_all (ent_ok sz s) b"
  shows "(case chain_scan k b of None \<Rightarrow> map_of (map ent_pair b) k = None
     | Some p \<Rightarrow> p < length b \<and> ent_key (b ! p) = Some k \<and>
         map_of (map ent_pair b) k = Some (ent_data (b ! p)))"
  using assms
  by (induction b) (auto simp: ent_pair_def split: option.splits elim!: ent_okE)

lemma chain_get:
  assumes "chain_inv sz s b"
  shows "(case chain_scan k b of None \<Rightarrow> NULL | Some p \<Rightarrow> ent_data (b ! p)) =
    (case chain_map b k of None \<Rightarrow> NULL | Some d \<Rightarrow> d)"
  using assms
proof (cases rule: chain_inv_cases)
  case keyed
  with chain_scan_ok [OF keyed(2), of k] show ?thesis by (auto split: option.splits)
qed (simp add: null_ent_def)

lemma chain_map_ok:
  assumes "chain_inv sz s b" "chain_map b k = Some d"
  shows "d \<noteq> NULL \<and> hash_slot sz k = s"
  using assms(1)
proof (cases rule: chain_inv_cases)
  case keyed
  with assms(2) obtain e where "e \<in> set b" "ent_key e = Some k" "ent_data e = d"
    by (metis map_of_pair_Some)
  with keyed(2) show ?thesis by (auto simp: list_all_iff ent_ok_def split: option.splits)
qed (use assms(2) in simp)

lemma chain_map_nonnull: "chain_inv sz s b \<Longrightarrow> chain_map b k \<noteq> Some NULL"
  using chain_map_ok by blast

lemma chain_inv_null [simp]: "chain_inv sz s [null_ent]"
  by (simp add: chain_inv_def)

lemma chain_add_ok:
  assumes inv: "chain_inv sz s b" and new: "chain_map b k = None"
    and k: "hash_slot sz k = s" and d: "d \<noteq> NULL"
  shows "chain_inv sz s (chain_add k d b)"
    and "chain_map (chain_add k d b) = (chain_map b)(k \<mapsto> d)"
    and "length (chain_ents (chain_add k d b)) = Suc (length (chain_ents b))"
proof -
  let ?e = "\<lparr>ent_key = Some k, ent_data = d\<rparr>"
  have ok: "ent_ok sz s ?e" using k d by (simp add: ent_ok_def)
  have shape: "chain_add k d b = chain_ents b @ [?e]"
    using inv
  proof (cases rule: chain_inv_cases)
    case keyed
    then show ?thesis by (cases b) (auto elim: ent_okE)
  qed (simp add: null_ent_def chain_ents_def)
  have all: "list_all (ent_ok sz s) (chain_ents b)" "distinct (map ent_key (chain_ents b))"
    using inv by (cases rule: chain_inv_cases; simp)+
  have fresh: "Some k \<notin> ent_key ` set (chain_ents b)"
    using new map_of_pair_None [OF all(1), of k] by (simp add: chain_map_def)
  have all': "list_all (ent_ok sz s) (chain_add k d b)"
    using all ok by (simp add: shape)
  show "chain_inv sz s (chain_add k d b)"
    using all all' fresh by (auto simp: chain_inv_def shape)
  show "chain_map (chain_add k d b) = (chain_map b)(k \<mapsto> d)"
    using all'[THEN chain_ents_ok] new
    by (auto simp: chain_map_def shape ent_pair_def entry_key_def map_add_def
        split: option.splits)
  show "length (chain_ents (chain_add k d b)) = Suc (length (chain_ents b))"
    using chain_ents_ok [OF all'] by (simp add: shape)
qed

lemma map_of_pair_nth:
  assumes "list_all (ent_ok sz s) c" "distinct (map ent_key c)" "i < length c"
  shows "map_of (map ent_pair c) (entry_key (c ! i)) = Some (ent_data (c ! i))"
proof (rule map_of_is_SomeI)
  have "map Some (map entry_key c) = map ent_key c"
    using assms(1) by (induction c) (auto simp: ent_ok_keyed)
  with assms(2) have "distinct (map Some (map entry_key c))" by (simp only:)
  then have "distinct (map entry_key c)"
    using distinct_map [of Some "map entry_key c"] by blast
  then show "distinct (map fst (map ent_pair c))"
    by (simp add: ent_pair_def comp_def)
  show "(entry_key (c ! i), ent_data (c ! i)) \<in> set (map ent_pair c)"
    using assms(3) by (auto simp: ent_pair_def)
qed

lemma chain_set_ok:
  assumes inv: "chain_inv sz s b" and old: "chain_map b k = Some d0" and d: "d \<noteq> NULL"
  shows "\<exists>p. chain_scan k b = Some p \<and> p < length b \<and> ent_key (b ! p) = Some k \<and>
    (let b' = b[p := (b ! p)\<lparr>ent_data := d\<rparr>] in
      chain_inv sz s b' \<and> chain_map b' = (chain_map b)(k \<mapsto> d) \<and>
      length (chain_ents b') = length (chain_ents b))"
  using inv
proof (cases rule: chain_inv_cases)
  case keyed
  with old chain_scan_ok [OF keyed(2), of k] obtain p
    where p: "chain_scan k b = Some p" "p < length b" "ent_key (b ! p) = Some k"
    by (auto split: option.splits)
  let ?b' = "b[p := (b ! p)\<lparr>ent_data := d\<rparr>]"
  have keys: "map ent_key ?b' = map ent_key b"
    using p by (simp add: map_update list_update_same_conv)
  have ok: "ent_ok sz s ((b ! p)\<lparr>ent_data := d\<rparr>)"
    using keyed(2) p d by (auto simp: list_all_length ent_ok_def split: option.splits)
  have all: "list_all (ent_ok sz s) ?b'"
    using keyed(2) ok by (auto simp: list_all_iff dest!: set_update_subset_insert [THEN subsetD])
  have "map_of (map ent_pair ?b') = (map_of (map ent_pair b))(k \<mapsto> d)"
  proof
    fix k'
    show "map_of (map ent_pair ?b') k' = ((map_of (map ent_pair b))(k \<mapsto> d)) k'"
    proof (cases "map_of (map ent_pair b) k'")
      case None
      then show ?thesis
        using map_of_pair_None [OF all, of k'] map_of_pair_None [OF keyed(2), of k'] keys p
        by (metis fun_upd_apply list.set_map nth_mem image_eqI)
    next
      case (Some v)
      from Some obtain i where i: "i < length b" "ent_key (b ! i) = Some k'" "ent_data (b ! i) = v"
        using map_of_pair_Some [OF keyed(2)] by (metis in_set_conv_nth)
      have "entry_key (?b' ! i) = k'"
        using i p by (cases "i = p") (auto simp: entry_key_def)
      moreover have "map_of (map ent_pair ?b') (entry_key (?b' ! i)) = Some (ent_data (?b' ! i))"
        using i all keyed(3) keys by (intro map_of_pair_nth) simp_all
      moreover have "i = p \<longleftrightarrow> k' = k"
        using i p keyed(3) by (metis length_map nth_eq_iff_index_eq nth_map option.inject)
      ultimately show ?thesis using Some i p by (auto simp: nth_list_update)
    qed
  qed
  then show ?thesis
    using p all keyed keys chain_ents_ok [OF all] by (auto simp: chain_inv_def chain_map_def Let_def)
qed (use old in simp)

lemma filter_other_keys:
  "Some k \<notin> ent_key ` set es \<Longrightarrow> filter (\<lambda>e. ent_key e \<noteq> Some k) es = es"
  by (rule filter_True) (metis image_eqI)

lemma length_filter_key:
  assumes "distinct (map ent_key b)" "Some k \<in> ent_key ` set b"
  shows "length b = Suc (length (filter (\<lambda>e. ent_key e \<noteq> Some k) b))"
  using assms
proof (induction b)
  case (Cons e b)
  show ?case
  proof (cases "ent_key e = Some k")
    case True
    with Cons.prems have "Some k \<notin> ent_key ` set b" by simp
    with True show ?thesis by (simp add: filter_other_keys)
  next
    case False
    with Cons.prems have "Some k \<in> ent_key ` set b" by auto
    with False Cons show ?thesis by simp
  qed
qed simp

lemma map_of_filter_key:
  assumes "list_all (ent_ok sz s) b"
  shows "map_of (map ent_pair (filter (\<lambda>e. ent_key e \<noteq> Some k) b)) =
    (map_of (map ent_pair b))(k := None)"
  using assms
proof (induction b)
  case (Cons e b)
  then obtain k' where "ent_key e = Some k'" "entry_key e = k'" by (auto elim: ent_okE)
  with Cons show ?case by (auto simp: ent_pair_def fun_eq_iff)
qed simp

lemma chain_unlink_filter:
  assumes "list_all (ent_ok sz s) es" "distinct (map ent_key es)"
    "es \<noteq> []" "ent_key (hd es) \<noteq> Some k"
  shows "chain_unlink k es =
    (if Some k \<in> ent_key ` set es then Some (filter (\<lambda>e. ent_key e \<noteq> Some k) es) else None)"
  using assms
proof (induction k es rule: chain_unlink.induct)
  case (1 k e n ns)
  show ?case
  proof (cases "ent_key n = Some k")
    case True
    with "1.prems" have "filter (\<lambda>e. ent_key e \<noteq> Some k) ns = ns"
      by (intro filter_other_keys) simp
    with True "1.prems" show ?thesis by simp
  next
    case False
    with "1.prems" show ?thesis using "1.IH" by (auto elim: ent_okE)
  qed
qed auto

lemma chain_del_ok:
  assumes inv: "chain_inv sz s b"
  shows "chain_map b k = None \<Longrightarrow> chain_del k b = None"
    and "chain_map b k = Some d \<Longrightarrow> \<exists>b'. chain_del k b = Some b' \<and> chain_inv sz s b' \<and>
      chain_map b' = (chain_map b)(k := None) \<and>
      length (chain_ents b) = Suc (length (chain_ents b'))"
proof -
  have "(chain_map b k = None \<longrightarrow> chain_del k b = None) \<and>
    (chain_map b k = Some d \<longrightarrow> (\<exists>b'. chain_del k b = Some b' \<and> chain_inv sz s b' \<and>
      chain_map b' = (chain_map b)(k := None) \<and>
      length (chain_ents b) = Suc (length (chain_ents b'))))"
    using inv
  proof (cases rule: chain_inv_cases)
    case empty
    then show ?thesis by (simp add: chain_del_def)
  next
    case keyed
    let ?f = "filter (\<lambda>e. ent_key e \<noteq> Some k) b"
    have f: "list_all (ent_ok sz s) ?f" "distinct (map ent_key ?f)"
      using keyed by (auto simp: list_all_iff distinct_map_filter)
    have m: "map_of (map ent_pair ?f) = (map_of (map ent_pair b))(k := None)"
      using keyed(2) by (rule map_of_filter_key)
    have absent: "map_of (map ent_pair b) k = None \<longleftrightarrow> Some k \<notin> ent_key ` set b"
      using map_of_pair_None [OF keyed(2)] .
    have len: "length b = Suc (length ?f)" if "Some k \<in> ent_key ` set b"
      using keyed(3) that by (rule length_filter_key)
    have del: "chain_del k b = (if Some k \<in> ent_key ` set b
        then Some (if ?f = [] then [null_ent] else ?f) else None)"
    proof (cases b)
      case (Cons e ns)
      show ?thesis
      proof (cases "ent_key e = Some k")
        case True
        with Cons keyed(3) have "?f = ns" by (simp add: filter_other_keys)
        with Cons True show ?thesis by (simp add: chain_del_def)
      next
        case False
        with Cons have "?f \<noteq> []" "chain_del k b = chain_unlink k b"
          by (simp_all add: chain_del_def)
        then show ?thesis
          using chain_unlink_filter [OF keyed(2,3,1), of k] Cons False by simp
      qed
    qed (use keyed in simp)
    show ?thesis
      using f m absent len keyed(4,5)
      by (auto simp: del chain_inv_def chain_map_def chain_ents_ok [OF f(1)])
  qed
  then show "chain_map b k = None \<Longrightarrow> chain_del k b = None"
    and "chain_map b k = Some d \<Longrightarrow> \<exists>b'. chain_del k b = Some b' \<and> chain_inv sz s b' \<and>
      chain_map b' = (chain_map b)(k := None) \<and>
      length (chain_ents b) = Suc (length (chain_ents b'))"
    by blast+
qed

subsection \<open>Whole tables\<close>

lemma hash_slot_less: "0 < sz \<Longrightarrow> hash_slot sz k < sz"
  by (simp add: hash_slot_def)

lemma hash_inv_chain:
  assumes "hash_inv h"
  shows "hash_get_head h k < length (ent h)"
    and "chain_inv (hsize h) (hash_get_head h k) (ent h ! hash_get_head h k)"
  using assms by (simp_all add: hash_inv_def hash_get_head_def hash_slot_less)

lemma hash_abs_chain: "hash_inv h \<Longrightarrow> hash_abs h k = chain_map (ent h ! hash_get_head h k) k"
  using chain_get [OF hash_inv_chain(2), of h k k] chain_map_nonnull [OF hash_inv_chain(2), of h k k]
  by (auto simp: hash_abs_def hash_get_def hash_get_ent_def ent_at_def split: option.splits)

lemma hash_get_abs: "hash_get h k = (case hash_abs h k of None \<Rightarrow> NULL | Some d \<Rightarrow> d)"
  by (simp add: hash_abs_def)

lemma hash_abs_nonnull [simp]: "hash_abs h k \<noteq> Some NULL"
  by (simp add: hash_abs_def)

text \<open>Replacing one chain: the invariant, the abstraction and the number of entries.\<close>

definition put_chain :: "hash_t \<Rightarrow> nat \<Rightarrow> listent list \<Rightarrow> hash_t" where
  "put_chain h s b = h\<lparr>ent := (ent h)[s := b],
     helmnbr := helmnbr h + int (length (chain_ents b)) - int (length (chain_ents (ent h ! s)))\<rparr>"

lemma put_chain_inv:
  assumes "hash_inv h" "s < hsize h" "chain_inv (hsize h) s b"
  shows "hash_inv (put_chain h s b)"
proof -
  have "int (length (concat (map chain_ents ((ent h)[s := b])))) = helmnbr h +
      int (length (chain_ents b)) - int (length (chain_ents (ent h ! s)))"
    using assms by (simp add: hash_inv_def hash_ents_def concat_map_update
        concat_map_split [of s "ent h" chain_ents])
  with assms show ?thesis
    by (auto simp: hash_inv_def put_chain_def hash_ents_def nth_list_update)
qed

lemma put_chain_abs:
  assumes inv: "hash_inv h" and s: "s = hash_get_head h k"
    and b: "chain_inv (hsize h) s b" "chain_map b = (chain_map (ent h ! s))(k := v)"
  shows "hash_abs (put_chain h s b) = (hash_abs h)(k := v)"
proof
  fix k'
  have less: "s < hsize h" using inv by (simp add: s hash_get_head_def hash_slot_less hash_inv_def)
  have inv': "hash_inv (put_chain h s b)" using inv less b(1) by (rule put_chain_inv)
  have "hash_get_head (put_chain h s b) k' = hash_get_head h k'"
    by (simp add: hash_get_head_def put_chain_def)
  then have "hash_abs (put_chain h s b) k' = chain_map ((ent h)[s := b] ! hash_get_head h k') k'"
    using hash_abs_chain [OF inv', of k'] by (simp add: put_chain_def)
  also have "\<dots> = ((hash_abs h)(k := v)) k'"
    using inv b(2) s less hash_inv_chain(1) [OF inv, of k'] hash_abs_chain [OF inv, of k']
    by (cases "hash_get_head h k' = hash_get_head h k") auto
  finally show "hash_abs (put_chain h s b) k' = ((hash_abs h)(k := v)) k'" .
qed

subsection \<open>Every operation keeps the invariant and acts on the map\<close>

lemma hash_fresh_inv: "0 < sz \<Longrightarrow> hash_inv (hash_fresh name sz type)"
  by (simp add: hash_inv_def hash_fresh_def hash_ents_def)

lemma hash_fresh_abs: "0 < sz \<Longrightarrow> hash_abs (hash_fresh name sz type) = Map.empty"
  using hash_abs_chain [OF hash_fresh_inv [of sz name type]]
    hash_inv_chain(1) [OF hash_fresh_inv [of sz name type]]
  by (auto simp: hash_fresh_def chain_map_def)

lemma hash_add_eq:
  assumes "hash_inv h" "d \<noteq> NULL"
  shows "\<exists>b. hash_add h k d = ((if hash_abs h k = None then int (hash_get_head h k) else 0),
      put_chain h (hash_get_head h k) b) \<and>
    chain_inv (hsize h) (hash_get_head h k) b \<and>
    chain_map b = (chain_map (ent h ! hash_get_head h k))(k \<mapsto> d)"
proof (cases "hash_abs h k")
  case None
  let ?s = "hash_get_head h k"
  from None have get: "hash_get h k = NULL" by (simp add: hash_get_abs)
  from None have new: "chain_map (ent h ! ?s) k = None" by (simp add: hash_abs_chain [OF assms(1)])
  note ok = chain_add_ok [OF hash_inv_chain(2) [OF assms(1)] new _ assms(2)]
  have "hash_add h k d = (int ?s, put_chain h ?s (chain_add k d (ent h ! ?s)))"
    using get ok(3) by (simp add: hash_add.simps hash_insert_def put_chain_def
        hash_get_head_def [symmetric] Let_def)
  moreover have "hash_slot (hsize h) k = ?s" by (simp add: hash_get_head_def)
  ultimately show ?thesis using None ok(1,2) by auto
next
  case (Some d0)
  let ?s = "hash_get_head h k"
  from Some have get: "hash_get h k \<noteq> NULL" by (auto simp: hash_abs_def split: if_splits)
  from Some have old: "chain_map (ent h ! ?s) k = Some d0"
    by (simp add: hash_abs_chain [OF assms(1)])
  from chain_set_ok [OF hash_inv_chain(2) [OF assms(1)] old assms(2)] obtain p
    where p: "chain_scan k (ent h ! ?s) = Some p" "p < length (ent h ! ?s)"
      and ok: "chain_inv (hsize h) ?s ((ent h ! ?s)[p := (ent h ! ?s ! p)\<lparr>ent_data := d\<rparr>])"
        "chain_map ((ent h ! ?s)[p := (ent h ! ?s ! p)\<lparr>ent_data := d\<rparr>]) =
          (chain_map (ent h ! ?s))(k \<mapsto> d)"
        "length (chain_ents ((ent h ! ?s)[p := (ent h ! ?s ! p)\<lparr>ent_data := d\<rparr>])) =
          length (chain_ents (ent h ! ?s))"
    by (auto simp: Let_def)
  have nf: "\<not> set_falls_back h k"
    using get get_no_fallback [of h k] by auto
  have ref: "hash_get_ent h k = Some (?s, p)" using p by (simp add: hash_get_ent_def)
  have "hash_add h k d =
      (0, put_chain h ?s ((ent h ! ?s)[p := (ent h ! ?s ! p)\<lparr>ent_data := d\<rparr>]))"
    using get nf ref ok(3)
    by (simp add: hash_add.simps [of h k d] hash_set.simps set_ent_data_def ent_at_def put_chain_def)
  with Some ok show ?thesis by auto
qed

lemma hash_add_ok:
  assumes "hash_inv h" "d \<noteq> NULL"
  shows "hash_inv (snd (hash_add h k d))"
    and "hash_abs (snd (hash_add h k d)) = (hash_abs h)(k \<mapsto> d)"
    and "fst (hash_add h k d) = (if hash_abs h k = None then int (hash_get_head h k) else 0)"
proof -
  obtain b where b: "hash_add h k d = ((if hash_abs h k = None then int (hash_get_head h k) else 0),
      put_chain h (hash_get_head h k) b)"
    "chain_inv (hsize h) (hash_get_head h k) b"
    "chain_map b = (chain_map (ent h ! hash_get_head h k))(k \<mapsto> d)"
    using hash_add_eq [OF assms] by blast
  have less: "hash_get_head h k < hsize h"
    using assms(1) by (simp add: hash_get_head_def hash_slot_less hash_inv_def)
  from b less assms show "hash_inv (snd (hash_add h k d))" by (simp add: put_chain_inv)
  from b assms show "hash_abs (snd (hash_add h k d)) = (hash_abs h)(k \<mapsto> d)"
    by (simp add: put_chain_abs)
  from b show "fst (hash_add h k d) = (if hash_abs h k = None then int (hash_get_head h k) else 0)"
    by simp
qed

lemma hash_del_ok:
  assumes "hash_inv h"
  shows "hash_inv (snd (hash_del h k))"
    and "hash_abs (snd (hash_del h k)) = (hash_abs h)(k := None)"
    and "fst (hash_del h k) = (if hash_abs h k = None then -1 else 0)"
    and "hash_abs h k = None \<Longrightarrow> snd (hash_del h k) = h"
proof -
  let ?s = "hash_get_head h k"
  note del = chain_del_ok [OF hash_inv_chain(2) [OF assms, of k], of k]
  have less: "?s < hsize h"
    using assms by (simp add: hash_get_head_def hash_slot_less hash_inv_def)
  have "hash_inv (snd (hash_del h k)) \<and>
    hash_abs (snd (hash_del h k)) = (hash_abs h)(k := None) \<and>
    fst (hash_del h k) = (if hash_abs h k = None then -1 else 0) \<and>
    (hash_abs h k = None \<longrightarrow> snd (hash_del h k) = h)"
  proof (cases "hash_abs h k")
    case None
    then have "chain_del k (ent h ! ?s) = None"
      using del(1) by (simp add: hash_abs_chain [OF assms])
    with None assms show ?thesis by (auto simp: hash_del_def)
  next
    case (Some d)
    then obtain b' where b': "chain_del k (ent h ! ?s) = Some b'" "chain_inv (hsize h) ?s b'"
        "chain_map b' = (chain_map (ent h ! ?s))(k := None)"
        "length (chain_ents (ent h ! ?s)) = Suc (length (chain_ents b'))"
      using del(2) by (auto simp: hash_abs_chain [OF assms])
    then have eq: "hash_del h k = (0, put_chain h ?s b')"
      by (simp add: hash_del_def put_chain_def)
    show ?thesis
      using Some b' less assms by (simp add: eq put_chain_inv put_chain_abs)
  qed
  then show "hash_inv (snd (hash_del h k))"
    and "hash_abs (snd (hash_del h k)) = (hash_abs h)(k := None)"
    and "fst (hash_del h k) = (if hash_abs h k = None then -1 else 0)"
    and "hash_abs h k = None \<Longrightarrow> snd (hash_del h k) = h" by blast+
qed

interpretation hash_dict: dict hash_inv hash_abs hash_get
  "\<lambda>h k d. snd (hash_add h k d)" "\<lambda>h k. snd (hash_del h k)"
  by unfold_locales (simp_all add: hash_get_abs hash_add_ok hash_del_ok)

subsection \<open>Enumerations and set operations\<close>

lemma chain_ents_inv:
  assumes "chain_inv sz s b"
  shows "list_all (ent_ok sz s) (chain_ents b)" "distinct (map ent_key (chain_ents b))"
  using assms by (cases rule: chain_inv_cases; simp)+

lemma hash_ents_ok:
  assumes "hash_inv h" "e \<in> set (hash_ents h)"
  shows "\<exists>s<hsize h. e \<in> set (chain_ents (ent h ! s)) \<and> ent_ok (hsize h) s e"
  using assms chain_ents_inv(1)
  by (fastforce simp: hash_inv_def hash_ents_def in_set_conv_nth [of _ "ent h"] list_all_iff)

lemma hash_ents_nonnull: "hash_inv h \<Longrightarrow> e \<in> set (hash_ents h) \<Longrightarrow> ent_data e \<noteq> NULL"
  by (auto dest: hash_ents_ok elim: ent_okE)

lemma hash_ents_mem:
  assumes inv: "hash_inv h"
  shows "(k, d) \<in> ent_pair ` set (hash_ents h) \<longleftrightarrow> hash_abs h k = Some d"
proof
  assume "(k, d) \<in> ent_pair ` set (hash_ents h)"
  then obtain e where e: "e \<in> set (hash_ents h)" "entry_key e = k" "ent_data e = d"
    by (auto simp: ent_pair_def)
  from hash_ents_ok [OF inv e(1)] obtain s
    where s: "s < hsize h" "e \<in> set (chain_ents (ent h ! s))" "ent_ok (hsize h) s e" by blast
  with e have "s = hash_get_head h k" by (auto elim: ent_okE simp: hash_get_head_def)
  moreover from s(2) obtain i where "i < length (chain_ents (ent h ! s))" "chain_ents (ent h ! s) ! i = e"
    by (auto simp: in_set_conv_nth)
  moreover have ch: "chain_inv (hsize h) s (ent h ! s)" using inv s(1) by (simp add: hash_inv_def)
  ultimately show "hash_abs h k = Some d"
    using map_of_pair_nth [OF chain_ents_inv(1) [OF ch] chain_ents_inv(2) [OF ch], of i] e
    by (simp add: hash_abs_chain [OF inv] chain_map_def)
next
  assume "hash_abs h k = Some d"
  then have "(k, d) \<in> ent_pair ` set (chain_ents (ent h ! hash_get_head h k))"
    using inv by (auto simp: hash_abs_chain chain_map_def dest!: map_of_SomeD)
  moreover have "set (chain_ents (ent h ! hash_get_head h k)) \<subseteq> set (hash_ents h)"
    using nth_mem [OF hash_inv_chain(1) [OF inv, of k]] by (auto simp: hash_ents_def)
  ultimately show "(k, d) \<in> ent_pair ` set (hash_ents h)" by blast
qed

lemma hash_ents_distinct:
  assumes "hash_inv h"
  shows "distinct (map entry_key (hash_ents h))"
proof -
  have "distinct (concat (map (\<lambda>b. map entry_key (chain_ents b)) (ent h)))"
  proof (rule distinct_concat_tagged [where tag = "hash_slot (hsize h)" and n = 0], intro allI impI)
    fix i assume "i < length (map (\<lambda>b. map entry_key (chain_ents b)) (ent h))"
    with assms have inv: "chain_inv (hsize h) i (ent h ! i)" "i < length (ent h)"
      by (auto simp: hash_inv_def)
    have "map Some (map entry_key (chain_ents (ent h ! i))) = map ent_key (chain_ents (ent h ! i))"
      using chain_ents_inv(1) [OF inv(1)] by (auto simp: list_all_iff ent_ok_keyed)
    then have "distinct (map entry_key (chain_ents (ent h ! i)))"
      using chain_ents_inv(2) [OF inv(1)] distinct_map [of Some] by metis
    with chain_ents_inv(1) [OF inv(1)] inv(2)
    show "distinct (map (\<lambda>b. map entry_key (chain_ents b)) (ent h) ! i) \<and>
      (\<forall>x\<in>set (map (\<lambda>b. map entry_key (chain_ents b)) (ent h) ! i). hash_slot (hsize h) x = i + 0)"
      by (auto simp: list_all_iff elim: ent_okE)
  qed
  then show ?thesis by (simp add: hash_ents_def map_concat comp_def)
qed

lemma hash_ents_abs:
  assumes "hash_inv h"
  shows "map_of (map ent_pair (hash_ents h)) = hash_abs h"
proof
  fix k
  have "distinct (map fst (map ent_pair (hash_ents h)))"
    using hash_ents_distinct [OF assms] by (simp add: ent_pair_def comp_def)
  then have "map_of (map ent_pair (hash_ents h)) k = Some d \<longleftrightarrow> hash_abs h k = Some d" for d
    using hash_ents_mem [OF assms, of k] by (simp only: map_of_eq_Some_iff set_map)
  then show "map_of (map ent_pair (hash_ents h)) k = hash_abs h k"
    by (metis option.exhaust)
qed

lemma hash_ents_keys: "hash_inv h \<Longrightarrow> entry_key ` set (hash_ents h) = dom (hash_abs h)"
  using dom_map_of_conv_image_fst [of "map ent_pair (hash_ents h)"]
  by (simp add: hash_ents_abs ent_pair_def image_image)

lemma hash_elmnbr_card: "hash_inv h \<Longrightarrow> helmnbr h = int (card (dom (hash_abs h)))"
  using hash_ents_distinct [of h] hash_ents_keys [of h]
  by (metis distinct_card hash_inv_def length_map list.set_map)

lemma hash_elmnbr_zero: "hash_inv h \<Longrightarrow> helmnbr h = 0 \<longleftrightarrow> hash_abs h = Map.empty"
  using hash_ents_abs [of h] by (auto simp: hash_inv_def)

text \<open>The loops are folds of the dictionary operations.\<close>

lemma merge_ents_fold:
  "snd (merge_ents es ret dst) =
     fold (\<lambda>(k, d) t. if hash_get t k = NULL then snd (hash_add t k d) else t) (map ent_pair es) dst"
  by (induction es ret dst rule: merge_ents.induct) (auto simp: ent_pair_def split: prod.splits)

lemma unmerge_ents_fold:
  "snd (unmerge_ents es ret dst) =
     fold (\<lambda>k t. if hash_get t k \<noteq> NULL then snd (hash_del t k) else t) (map entry_key es) dst"
  by (induction es ret dst rule: unmerge_ents.induct) (auto split: prod.splits)

lemma inter_keys_fold:
  "snd (inter_keys src ks ret dst) =
     fold (\<lambda>k t. if hash_get src k = NULL then snd (hash_del t k) else t) ks dst"
  by (induction src ks ret dst rule: inter_keys.induct) (auto split: prod.splits)

lemma hash_merge_ok:
  assumes "hash_inv dst" "hash_inv src"
  shows "hash_inv (snd (hash_merge dst src))"
    and "hash_abs (snd (hash_merge dst src)) = hash_abs src ++ hash_abs dst"
proof -
  have "\<forall>(k, d) \<in> set (map ent_pair (hash_ents src)). d \<noteq> NULL"
    using hash_ents_nonnull [OF assms(2)] by (auto simp: ent_pair_def)
  note all = hash_dict.add_missing_all [OF assms(1) this]
  show "hash_inv (snd (hash_merge dst src))"
    using all assms(1) by (simp add: hash_merge_def merge_ents_fold)
  show "hash_abs (snd (hash_merge dst src)) = hash_abs src ++ hash_abs dst"
    using all hash_elmnbr_zero [OF assms(2)] hash_ents_abs [OF assms(2)]
    by (simp add: hash_merge_def merge_ents_fold)
qed

lemma hash_unmerge_ok:
  assumes "hash_inv dst" "hash_inv src"
  shows "hash_inv (snd (hash_unmerge dst src))"
    and "hash_abs (snd (hash_unmerge dst src)) = hash_abs dst |` (- dom (hash_abs src))"
proof -
  note all = hash_dict.del_present_all [OF assms(1), of "map entry_key (hash_ents src)"]
  show "hash_inv (snd (hash_unmerge dst src))"
    using all assms(1) by (simp add: hash_unmerge_def unmerge_ents_fold)
  show "hash_abs (snd (hash_unmerge dst src)) = hash_abs dst |` (- dom (hash_abs src))"
    using all hash_elmnbr_zero [OF assms(2)] hash_ents_keys [OF assms(2)]
    by (simp add: hash_unmerge_def unmerge_ents_fold restrict_map_def)
qed

lemma hash_get_keys_nonempty:
  "hash_inv h \<Longrightarrow> helmnbr h \<noteq> 0 \<Longrightarrow>
    hash_get_keys (Some h) = (Some (map entry_key (hash_ents h)), int (length (hash_ents h)))"
  by (simp add: hash_get_keys_def hash_inv_def)

lemma hash_inter_ok:
  assumes "hash_inv dst" "hash_inv src"
  shows "hash_inv (snd (hash_inter dst src))"
    and "hash_abs src \<noteq> Map.empty \<Longrightarrow>
      hash_abs (snd (hash_inter dst src)) = hash_abs dst |` dom (hash_abs src)"
proof -
  note all = hash_dict.del_where_all [OF assms(1), of "\<lambda>k. hash_get src k = NULL"
      "map entry_key (hash_ents dst)"]
  have null: "hash_get src k = NULL \<longleftrightarrow> k \<notin> dom (hash_abs src)" for k
    by (auto simp: hash_abs_def split: if_splits)
  have snd: "snd (hash_inter dst src) =
      fold (\<lambda>k t. if hash_get src k = NULL then snd (hash_del t k) else t)
        (map entry_key (hash_ents dst)) dst" if "helmnbr src \<noteq> 0" "helmnbr dst \<noteq> 0"
    using that hash_get_keys_nonempty [OF assms(1)] by (simp add: hash_inter_def inter_keys_fold)
  show "hash_inv (snd (hash_inter dst src))"
    using all snd assms(1) by (cases "helmnbr src = 0 \<or> helmnbr dst = 0") (auto simp: hash_inter_def)
  have key: "k \<in> entry_key ` set (hash_ents dst) \<longleftrightarrow> k \<in> dom (hash_abs dst)" for k
    using hash_ents_keys [OF assms(1)] by simp
  have "hash_abs dst |` (- {k \<in> set (map entry_key (hash_ents dst)). hash_get src k = NULL}) =
      hash_abs dst |` dom (hash_abs src)"
    using key by (auto simp: restrict_map_def fun_eq_iff null)
  then show "hash_abs (snd (hash_inter dst src)) = hash_abs dst |` dom (hash_abs src)"
    if "hash_abs src \<noteq> Map.empty"
    using that all snd hash_elmnbr_zero [OF assms(1)] hash_elmnbr_zero [OF assms(2)]
    by (cases "helmnbr dst = 0") (auto simp: hash_inter_def restrict_map_def)
qed

subsection \<open>Comparison\<close>

lemma compare_ents_count:
  assumes "hash_inv two" "\<forall>e\<in>set es. entry_key e \<in> dom (hash_abs two)"
  shows "compare_ents two es m =
    Some (m + length (filter (\<lambda>e. hash_abs two (entry_key e) \<noteq> Some (ent_data e)) es))"
  using assms(2)
proof (induction es arbitrary: m)
  case (Cons e es)
  then obtain d where "hash_abs two (entry_key e) = Some d" by auto
  then have d: "hash_get two (entry_key e) = d" "d \<noteq> NULL"
    by (auto simp: hash_abs_def split: if_splits)
  then obtain r where "hash_get_ent two (entry_key e) = Some r" "ent_data (ent_at two r) = d"
    by (auto simp: hash_get_def split: option.splits)
  with Cons d show ?case by (auto simp: hash_abs_def)
qed simp

lemma hash_compare_subset:
  assumes "hash_inv first" "hash_inv two" "hsize first = hsize two"
    "dom (hash_abs first) \<subseteq> dom (hash_abs two)"
  shows "hash_compare first two = Some (if hash_abs first \<subseteq>\<^sub>m hash_abs two then 0 else -1)"
proof -
  have dom: "\<forall>e\<in>set (hash_ents first). entry_key e \<in> dom (hash_abs two)"
    using assms(4) hash_ents_keys [OF assms(1)] by blast
  have "(\<forall>e\<in>set (hash_ents first). hash_abs two (entry_key e) = Some (ent_data e)) \<longleftrightarrow>
      hash_abs first \<subseteq>\<^sub>m hash_abs two"
  proof -
    have "(\<forall>e\<in>set (hash_ents first). hash_abs two (entry_key e) = Some (ent_data e)) \<longleftrightarrow>
        (\<forall>k d. (k, d) \<in> ent_pair ` set (hash_ents first) \<longrightarrow> hash_abs two k = Some d)"
      by (auto simp: ent_pair_def)
    also have "\<dots> \<longleftrightarrow> (\<forall>k d. hash_abs first k = Some d \<longrightarrow> hash_abs two k = Some d)"
      by (simp only: hash_ents_mem [OF assms(1)])
    also have "\<dots> \<longleftrightarrow> hash_abs first \<subseteq>\<^sub>m hash_abs two"
      by (auto simp: map_le_def dom_def)
    finally show ?thesis .
  qed
  moreover have "(length (filter (\<lambda>e. hash_abs two (entry_key e) \<noteq> Some (ent_data e)) (hash_ents first)) = 0)
      \<longleftrightarrow> (\<forall>e\<in>set (hash_ents first). hash_abs two (entry_key e) = Some (ent_data e))"
    by (auto simp: filter_empty_conv)
  ultimately show ?thesis
    using assms(3) by (simp add: hash_compare_def compare_ents_count [OF assms(2) dom])
qed

subsection \<open>Properties\<close>

text \<open>C1. Insertion refines map update: on a well-formed table and non-NULL data,
  \<open>hash_add\<close> keeps the table well-formed, overrides exactly the binding of the key, and
  the element counter is the number of bound keys; a new key returns its slot number, an
  existing key returns 0.\<close>

theorem hash_add_refines:
  assumes "hash_inv h" "d \<noteq> NULL" "hash_add h k d = (r, h')"
  shows "hash_inv h' \<and> hash_abs h' = (hash_abs h)(k \<mapsto> d) \<and>
    helmnbr h' = int (card (insert k (dom (hash_abs h)))) \<and>
    r = (if k \<in> dom (hash_abs h) then 0 else int (hash_get_head h k))"
  using hash_add_ok [OF assms(1,2), of k] assms(3) hash_elmnbr_card [of h'] by auto

theorem hash_add_refines_witness:
  "hash_inv (hash_fresh ''t'' 4 0) \<and>
    helmnbr (snd (hash_add (hash_fresh ''t'' 4 0) ''ab'' 7)) = 1"
proof -
  have inv: "hash_inv (hash_fresh ''t'' 4 0)" by (rule hash_fresh_inv) simp
  obtain r h' where add: "hash_add (hash_fresh ''t'' 4 0) ''ab'' 7 = (r, h')" by force
  have "helmnbr h' = int (card (insert ''ab'' (dom (hash_abs (hash_fresh ''t'' 4 0)))))"
    using hash_add_refines [OF inv _ add] by simp
  then show ?thesis using inv add hash_fresh_abs [of 4 "''t''" 0] by simp
qed

text \<open>C2. Deletion refines map deletion: \<open>hash_del\<close> keeps the table well-formed and
  removes exactly the key, in whatever position of its chain it is; it returns 0 when the
  key was bound and otherwise returns -1 and leaves the table unchanged.\<close>

theorem hash_del_refines:
  assumes "hash_inv h" "hash_del h k = (r, h')"
  shows "hash_inv h' \<and> hash_abs h' = (hash_abs h)(k := None) \<and>
    helmnbr h' = int (card (dom (hash_abs h) - {k})) \<and>
    (if k \<in> dom (hash_abs h) then r = 0 else r = -1 \<and> h' = h)"
  using hash_del_ok [OF assms(1), of k] assms(2) hash_elmnbr_card [of h'] by auto

theorem hash_del_refines_witness:
  "hash_get (snd (hash_del (snd (hash_add (hash_fresh ''t'' 4 0) ''ab'' 7)) ''ab'')) ''ab'' = NULL"
proof -
  let ?h = "snd (hash_add (hash_fresh ''t'' 4 0) ''ab'' 7)"
  have inv: "hash_inv ?h" by (rule hash_add_ok(1) [OF hash_fresh_inv]) simp_all
  obtain r h' where del: "hash_del ?h ''ab'' = (r, h')" by force
  have "hash_abs h' = (hash_abs ?h)(''ab'' := None)"
    using hash_del_refines [OF inv del] by simp
  then show ?thesis using del by (simp add: hash_get_abs)
qed

text \<open>Enumeration is exact: on a well-formed non-empty table, \<open>hash_get_keys\<close>
  returns every bound key once, reports the right count, and \<open>hash_get\<close> finds a
  non-NULL value for each of them.\<close>

theorem hash_get_keys_exact:
  assumes "hash_inv h" "hash_abs h \<noteq> Map.empty"
  shows "\<exists>keys. hash_get_keys (Some h) = (Some keys, int (length keys)) \<and> distinct keys \<and>
    set keys = dom (hash_abs h) \<and> list_all (\<lambda>k. hash_get h k \<noteq> NULL) keys"
proof -
  have "helmnbr h \<noteq> 0" using assms hash_elmnbr_zero by blast
  then show ?thesis
    using hash_get_keys_nonempty [OF assms(1)] hash_ents_distinct [OF assms(1)]
      hash_ents_keys [OF assms(1)]
    by (auto simp: list_all_iff hash_abs_def split: if_splits)
qed

theorem hash_get_keys_exact_witness:
  "\<exists>keys. hash_get_keys (Some (snd (hash_add (hash_fresh ''t'' 4 0) ''ab'' 7))) =
     (Some keys, int (length keys)) \<and> set keys = {''ab''}"
proof -
  let ?h = "snd (hash_add (hash_fresh ''t'' 4 0) ''ab'' 7)"
  have inv: "hash_inv ?h" by (rule hash_add_ok(1) [OF hash_fresh_inv]) simp_all
  have abs: "hash_abs ?h = [''ab'' \<mapsto> 7]"
    by (simp add: hash_add_ok(2) [OF hash_fresh_inv] hash_fresh_abs)
  have "hash_abs ?h \<noteq> Map.empty" by (simp add: abs)
  from hash_get_keys_exact [OF inv this] show ?thesis by (auto simp: abs)
qed

text \<open>C3. The set operations on tables: \<open>hash_merge\<close> adds the bindings of the source
  that the destination lacks, \<open>hash_unmerge\<close> removes the keys of the source; both keep
  the destination well-formed.\<close>

theorem hash_merge_unmerge:
  assumes "hash_inv dst" "hash_inv src"
  shows "hash_inv (snd (hash_merge dst src)) \<and>
    hash_abs (snd (hash_merge dst src)) = hash_abs src ++ hash_abs dst \<and>
    hash_inv (snd (hash_unmerge dst src)) \<and>
    hash_abs (snd (hash_unmerge dst src)) = hash_abs dst |` (- dom (hash_abs src))"
  using hash_merge_ok [OF assms] hash_unmerge_ok [OF assms] by simp

theorem hash_merge_unmerge_witness:
  "hash_abs (snd (hash_merge (hash_fresh ''a'' 4 0)
      (snd (hash_add (hash_fresh ''b'' 3 0) ''k'' 9)))) = [''k'' \<mapsto> 9]"
proof -
  have inv: "hash_inv (hash_fresh ''a'' 4 0)" by (rule hash_fresh_inv) simp
  have inv': "hash_inv (snd (hash_add (hash_fresh ''b'' 3 0) ''k'' 9))"
    by (rule hash_add_ok(1) [OF hash_fresh_inv]) simp_all
  have "hash_abs (snd (hash_add (hash_fresh ''b'' 3 0) ''k'' 9)) = [''k'' \<mapsto> 9]"
    by (simp add: hash_add_ok(2) [OF hash_fresh_inv] hash_fresh_abs)
  with hash_merge_unmerge [OF inv inv'] show ?thesis by (simp add: hash_fresh_abs)
qed

text \<open>Intersection: with a non-empty source, \<open>hash_inter\<close> keeps exactly the bindings
  whose key the source has. With an empty source the early return leaves the destination
  as it was, although the intersection is empty.\<close>

theorem hash_inter_restricts:
  assumes "hash_inv dst" "hash_inv src"
  shows "hash_inv (snd (hash_inter dst src)) \<and>
    hash_abs (snd (hash_inter dst src)) =
      (if hash_abs src = Map.empty then hash_abs dst else hash_abs dst |` dom (hash_abs src))"
  using hash_inter_ok [OF assms] hash_elmnbr_zero [OF assms(2)]
  by (auto simp: hash_inter_def)

theorem hash_inter_restricts_witness:
  "hash_abs (snd (hash_inter (snd (hash_add (hash_fresh ''b'' 3 0) ''k'' 9))
      (hash_fresh ''a'' 4 0))) = [''k'' \<mapsto> 9]"
proof -
  have inv: "hash_inv (hash_fresh ''a'' 4 0)" by (rule hash_fresh_inv) simp
  have inv': "hash_inv (snd (hash_add (hash_fresh ''b'' 3 0) ''k'' 9))"
    by (rule hash_add_ok(1) [OF hash_fresh_inv]) simp_all
  have "hash_abs (snd (hash_add (hash_fresh ''b'' 3 0) ''k'' 9)) = [''k'' \<mapsto> 9]"
    by (simp add: hash_add_ok(2) [OF hash_fresh_inv] hash_fresh_abs)
  with hash_inter_restricts [OF inv' inv] show ?thesis by (simp add: hash_fresh_abs)
qed

text \<open>Comparison: for well-formed tables of the same size whose keys are all present in
  the second one, \<open>hash_compare\<close> does not fault and returns 0 exactly when the first map
  is contained in the second, and -1 otherwise.\<close>

theorem hash_compare_inclusion:
  assumes "hash_inv first" "hash_inv two" "hsize first = hsize two"
    "dom (hash_abs first) \<subseteq> dom (hash_abs two)"
  shows "hash_compare first two = Some (if hash_abs first \<subseteq>\<^sub>m hash_abs two then 0 else -1)"
  using assms by (rule hash_compare_subset)

theorem hash_compare_inclusion_witness:
  "hash_compare (hash_fresh ''a'' 3 0) (snd (hash_add (hash_fresh ''b'' 3 0) ''k'' 9)) = Some 0"
proof -
  have inv: "hash_inv (hash_fresh ''a'' 3 0)" by (rule hash_fresh_inv) simp
  have inv': "hash_inv (snd (hash_add (hash_fresh ''b'' 3 0) ''k'' 9))"
    by (rule hash_add_ok(1) [OF hash_fresh_inv]) simp_all
  have sz: "hsize (hash_fresh ''a'' 3 0) = hsize (snd (hash_add (hash_fresh ''b'' 3 0) ''k'' 9))"
    by code_simp
  show ?thesis
    using hash_compare_inclusion [OF inv inv' sz] by (simp add: hash_fresh_abs)
qed

text \<open>A key that the second table lacks is fatal when its slot is occupied there:
  \<open>hash_get_ent\<close> returns NULL and \<open>hash_compare\<close> dereferences it. Here the keys
  \<open>a\<close> and \<open>d\<close> share a slot of a table of size 3.\<close>

theorem hash_compare_faults:
  "hash_compare (snd (hash_add (hash_fresh ''x'' 3 0) ''a'' 5))
     (snd (hash_add (hash_fresh ''y'' 3 0) ''d'' 5)) = None"
  by code_simp

text \<open>NULL data defeats the duplicate test of \<open>hash_add\<close>: adding the same key twice
  with NULL data stores it twice, so the counter is 2 and one \<open>hash_del\<close> leaves an entry
  behind.\<close>

theorem hash_add_null_duplicates:
  "map entry_key (hash_ents (snd (hash_add (snd (hash_add (hash_fresh ''t'' 3 0) k NULL)) k NULL)))
     = [k, k]"
proof -
  let ?s = "hash_slot 3 k"
  have less: "?s < 3" by (simp add: hash_slot_def)
  let ?e = "\<lparr>ent_key = Some k, ent_data = NULL\<rparr>"
  have one: "snd (hash_add (hash_fresh ''t'' 3 0) k NULL) =
      (hash_fresh ''t'' 3 0)\<lparr>ent := (replicate 3 [null_ent])[?s := [?e]], helmnbr := 1\<rparr>"
    using less by (simp add: hash_add.simps hash_insert_def Let_def hash_fresh_def hash_get_def
        hash_get_ent_def hash_get_head_def ent_at_def null_ent_def)
  have "snd (hash_add (snd (hash_add (hash_fresh ''t'' 3 0) k NULL)) k NULL) =
      (hash_fresh ''t'' 3 0)\<lparr>ent := (replicate 3 [null_ent])[?s := [?e, ?e]], helmnbr := 2\<rparr>"
    using less by (simp add: one) (simp add: hash_add.simps hash_insert_def Let_def hash_fresh_def
        hash_get_def hash_get_ent_def hash_get_head_def ent_at_def)
  then show ?thesis
    using less by (simp add: hash_ents_def concat_map_update chain_ents_def entry_key_def
        null_ent_def take_replicate drop_replicate)
qed

end
