(* ===== verification/Elist.thy ===== *)
theory Elist
  imports Hash
begin

text \<open>
  The linked lists of \<open>libaspect/liblist.c\<close>. A \<open>list_t\<close> is a record; the chain that
  starts at \<open>head\<close> is a list of entries (the entry type is the one of the hash tables).
  Operations take the NULL-able pointers as options, in the order of the source's tests.
  Loops that run \<open>elmnbr\<close> times over the chain return \<open>None\<close> where the source would
  dereference the NULL at the end of a shorter chain. Functions that also touch the
  registry of lists are in \<open>Registry\<close>.
\<close>

record list_t =
  lhead :: "listent list"
  lelmnbr :: int
  ltype :: nat
  llinearity :: u_char
  lname :: string

definition ELIST_DATA_COPY :: u_char where "ELIST_DATA_COPY = 0"
definition ELIST_DATA_NOCOPY :: u_char where "ELIST_DATA_NOCOPY = 1"

text \<open>\<open>bzero(h); h->type = type; h->name = name\<close> of \<open>elist_init\<close>.\<close>

definition elist_fresh :: "string \<Rightarrow> nat \<Rightarrow> list_t" where
  "elist_fresh name type =
     \<lparr>lhead = [], lelmnbr = 0, ltype = type, llinearity = 0, lname = name\<rparr>"

definition new_ent :: "string \<Rightarrow> ptr \<Rightarrow> listent" where
  "new_ent k d = \<lparr>ent_key = Some k, ent_data = d\<rparr>"

subsection \<open>Adding\<close>

definition elist_add :: "list_t option \<Rightarrow> string option \<Rightarrow> ptr \<Rightarrow> int \<times> list_t option" where
  "elist_add hp kp d = (case (hp, kp) of
     (Some h, Some k) \<Rightarrow>
       if d = NULL then (-1, hp)
       else (0, Some (h\<lparr>lhead := new_ent k d # lhead h, lelmnbr := lelmnbr h + 1\<rparr>))
   | _ \<Rightarrow> (-1, hp))"

definition elist_append :: "list_t option \<Rightarrow> string option \<Rightarrow> ptr \<Rightarrow> int \<times> list_t option" where
  "elist_append hp kp d = (case (hp, kp) of
     (Some h, Some k) \<Rightarrow>
       if d = NULL then (-1, hp)
       else if lhead h = []
         then (let (ret, h') = elist_add hp kp d in if ret < 0 then (-1, h') else (0, h'))
         else (0, Some (h\<lparr>lhead := lhead h @ [new_ent k d], lelmnbr := lelmnbr h + 1\<rparr>))
   | _ \<Rightarrow> (-1, hp))"

text \<open>\<open>elist_push\<close> names the entry \<open>"%s_%u"\<close> in a buffer of \<open>BUFSIZ\<close> (8192) bytes.\<close>

definition push_key :: "list_t \<Rightarrow> string" where
  "push_key h = take 8191 (lname h @ ''_'' @ fmt_u (nat (lelmnbr h mod 2 ^ 32)))"

definition elist_push :: "list_t option \<Rightarrow> ptr \<Rightarrow> int \<times> list_t option" where
  "elist_push hp d = (case hp of
     Some h \<Rightarrow> if d = NULL then (-1, hp) else (0, snd (elist_add hp (Some (push_key h)) d))
   | None \<Rightarrow> (-1, None))"

subsection \<open>Removing\<close>

text \<open>\<open>elist_pop\<close> drops the head and returns the data of the entry that is then on top.\<close>

definition elist_pop :: "list_t option \<Rightarrow> ptr \<times> list_t option" where
  "elist_pop hp = (case hp of
     Some h \<Rightarrow> (case lhead h of
       [] \<Rightarrow> (NULL, hp)
     | e # es \<Rightarrow> ((case es of [] \<Rightarrow> NULL | n # _ \<Rightarrow> ent_data n),
         Some (h\<lparr>lhead := es, lelmnbr := lelmnbr h - 1\<rparr>)))
   | None \<Rightarrow> (NULL, None))"

text \<open>The search of \<open>elist_del\<close> for the entry and its predecessor, and the unlinking.\<close>

fun unlink_key :: "string \<Rightarrow> listent list \<Rightarrow> listent list option" where
  "unlink_key k [] = None"
| "unlink_key k (e # es) =
     (if ent_key e = Some k then Some es else map_option ((#) e) (unlink_key k es))"

definition elist_del :: "list_t option \<Rightarrow> string option \<Rightarrow> int \<times> list_t option" where
  "elist_del hp kp = (case (hp, kp) of
     (Some h, Some k) \<Rightarrow> (case unlink_key k (lhead h) of
       None \<Rightarrow> (0, hp)
     | Some es \<Rightarrow> (let n = lelmnbr h - 1 in
         (0, Some (h\<lparr>lhead := (if n = 0 then [] else es), lelmnbr := n\<rparr>))))
   | _ \<Rightarrow> (-1, hp))"

subsection \<open>Reading\<close>

fun find_key :: "string \<Rightarrow> listent list \<Rightarrow> nat option" where
  "find_key k [] = None"
| "find_key k (cur # es) = (if ent_key cur = Some k then Some 0 else map_option Suc (find_key k es))"

text \<open>\<open>elist_get_ent\<close> returns a pointer to an entry: its position in the chain.\<close>

definition elist_get_ent :: "list_t option \<Rightarrow> string option \<Rightarrow> nat option" where
  "elist_get_ent hp kp = (case (hp, kp) of (Some h, Some k) \<Rightarrow> find_key k (lhead h) | _ \<Rightarrow> None)"

definition elist_get :: "list_t option \<Rightarrow> string option \<Rightarrow> ptr" where
  "elist_get hp kp = (case (hp, kp) of
     (Some h, Some k) \<Rightarrow>
       (case find_key k (lhead h) of None \<Rightarrow> NULL | Some p \<Rightarrow> ent_data (lhead h ! p))
   | _ \<Rightarrow> NULL)"

definition elist_select :: "list_t option \<Rightarrow> string option \<Rightarrow> ptr" where
  "elist_select hp kp = (case (hp, kp) of
     (Some h, Some k) \<Rightarrow>
       (case find_key k (lhead h) of None \<Rightarrow> NULL | Some p \<Rightarrow> ent_data (lhead h ! p))
   | _ \<Rightarrow> NULL)"

definition elist_get_head :: "list_t option \<Rightarrow> listent option" where
  "elist_get_head hp = (case hp of
     None \<Rightarrow> None
   | Some h \<Rightarrow> (case lhead h of [] \<Rightarrow> None | e # _ \<Rightarrow> Some e))"

definition elist_get_headptr :: "list_t option \<Rightarrow> ptr" where
  "elist_get_headptr hp = (case elist_get_head hp of None \<Rightarrow> NULL | Some e \<Rightarrow> ent_data e)"

definition elist_set :: "list_t option \<Rightarrow> string option \<Rightarrow> ptr \<Rightarrow> int \<times> list_t option" where
  "elist_set hp kp d = (case (hp, kp) of
     (Some h, Some k) \<Rightarrow> (case find_key k (lhead h) of
       None \<Rightarrow> (-1, hp)
     | Some p \<Rightarrow> (0, Some (h\<lparr>lhead := (lhead h)[p := (lhead h ! p)\<lparr>ent_data := d\<rparr>]\<rparr>)))
   | _ \<Rightarrow> (-1, hp))"

definition elist_get_keys :: "list_t option \<Rightarrow> string list option \<times> int" where
  "elist_get_keys hp = (case hp of
     None \<Rightarrow> (None, 0)
   | Some h \<Rightarrow> if lelmnbr h = 0 then (None, 0)
       else (Some (map entry_key (lhead h)), lelmnbr h))"

definition elist_size :: "list_t option \<Rightarrow> int" where
  "elist_size hp = (case hp of None \<Rightarrow> 0 | Some h \<Rightarrow> lelmnbr h)"

definition elist_compare :: "list_t option \<Rightarrow> list_t option \<Rightarrow> int" where
  "elist_compare first two = -1"

definition elist_linearity_get :: "list_t option \<Rightarrow> u_char" where
  "elist_linearity_get hp = (case hp of None \<Rightarrow> 0 | Some h \<Rightarrow> llinearity h)"

definition elist_linearity_set :: "list_t option \<Rightarrow> u_char \<Rightarrow> list_t option" where
  "elist_linearity_set hp v = map_option (\<lambda>h. h\<lparr>llinearity := v\<rparr>) hp"

subsection \<open>Whole-list operations\<close>

text \<open>\<open>elist_replace\<close>: the chain of the new list is spliced in place of the entry. The new
  list object keeps its head, so its chain continues into the rest of \<open>h\<close>; both lists are
  returned.\<close>

fun splice :: "string \<Rightarrow> listent list \<Rightarrow> listent list \<Rightarrow> (listent list \<times> listent list) option" where
  "splice k new [] = None"
| "splice k new (cur # es) =
     (if ent_key cur = Some k then Some (new @ es, new @ es)
      else map_option (\<lambda>(h, n). (cur # h, n)) (splice k new es))"

definition elist_replace ::
  "list_t option \<Rightarrow> string option \<Rightarrow> list_t option \<Rightarrow> int \<times> list_t option \<times> list_t option" where
  "elist_replace hp kp np = (case (hp, kp, np) of
     (Some h, Some k, Some newlist) \<Rightarrow>
       if lhead newlist = [] then (0, hp, np)
       else (case splice k (lhead newlist) (lhead h) of
           None \<Rightarrow> (-1, hp, np)
         | Some (es, ns) \<Rightarrow>
             (0, Some (h\<lparr>lhead := es, lelmnbr := lelmnbr h + (lelmnbr newlist - 1)\<rparr>),
              Some (newlist\<lparr>lhead := ns\<rparr>)))
   | _ \<Rightarrow> (0, hp, np))"

text \<open>The counted loops: \<open>cur\<close> must not run off the chain before the counter ends.\<close>

fun apply_count ::
  "(listent \<Rightarrow> 's \<Rightarrow> 32 word \<times> 's) \<Rightarrow> nat \<Rightarrow> listent list \<Rightarrow> 's \<Rightarrow> 32 word \<Rightarrow> (32 word \<times> 's) option" where
  "apply_count f 0 es s ret = Some (ret, s)"
| "apply_count f (Suc n) [] s ret = None"
| "apply_count f (Suc n) (e # es) s ret = (let (r, s') = f e s in apply_count f n es s' (ret OR r))"

definition elist_apply ::
  "list_t option \<Rightarrow> 's \<Rightarrow> (listent \<Rightarrow> 's \<Rightarrow> 32 word \<times> 's) option \<Rightarrow> (32 word \<times> 's) option" where
  "elist_apply hp s fp = (case (hp, fp) of
     (Some h, Some f) \<Rightarrow> apply_count f (nat (lelmnbr h)) (lhead h) s 0
   | _ \<Rightarrow> Some (-1, s))"

fun merge_count :: "nat \<Rightarrow> listent list \<Rightarrow> list_t \<Rightarrow> list_t option" where
  "merge_count 0 es dst = Some dst"
| "merge_count (Suc n) [] dst = None"
| "merge_count (Suc n) (e # es) dst =
     merge_count n es (the (snd (elist_add (Some dst) (ent_key e) (ent_data e))))"

definition elist_merge :: "list_t option \<Rightarrow> list_t option \<Rightarrow> (int \<times> list_t option) option" where
  "elist_merge dstp srcp = (case (dstp, srcp) of
     (Some dst, Some src) \<Rightarrow>
       map_option (\<lambda>d. (0, Some d)) (merge_count (nat (lelmnbr src)) (lhead src) dst)
   | _ \<Rightarrow> Some (-1, dstp))"

definition elist_unmerge :: "list_t option \<Rightarrow> list_t option \<Rightarrow> int \<times> list_t option" where
  "elist_unmerge dstp srcp = (case (dstp, srcp) of
     (Some dst, Some src) \<Rightarrow>
       (0, fold (\<lambda>cur d. snd (elist_del d (ent_key cur))) (lhead src) (Some dst))
   | _ \<Rightarrow> (-1, dstp))"

text \<open>The copying loop of \<open>elist_reverse\<close>: every entry is added at the head of the new list.\<close>

definition reverse_into :: "listent list \<Rightarrow> list_t \<Rightarrow> list_t" where
  "reverse_into es newlist =
     fold (\<lambda>cur l. the (snd (elist_add (Some l) (ent_key cur) (ent_data cur)))) es newlist"

text \<open>\<open>elist_copy\<close>. With \<open>ELIST_DATA_COPY\<close> each element is duplicated into a fresh block:
  \<open>fresh i\<close> is the address of the i-th allocation, and the second result lists the
  \<open>memcpy\<close> calls as pairs of destination and source.\<close>

fun copy_chain :: "(nat \<Rightarrow> ptr) \<Rightarrow> bool \<Rightarrow> nat \<Rightarrow> listent list \<Rightarrow> listent list \<times> (ptr \<times> ptr) list" where
  "copy_chain fresh dup i [] = ([], [])"
| "copy_chain fresh dup i (cur # es) =
     (let newelem = (if dup then fresh i else ent_data cur);
          (new, cps) = copy_chain fresh dup (Suc i) es
      in (cur\<lparr>ent_data := newelem\<rparr> # new, (if dup then [(newelem, ent_data cur)] else []) @ cps))"

definition elist_copy ::
  "(nat \<Rightarrow> ptr) \<Rightarrow> list_t \<Rightarrow> u_char \<Rightarrow> list_t option \<times> (ptr \<times> ptr) list" where
  "elist_copy fresh h datacopy =
     (if datacopy \<noteq> ELIST_DATA_COPY \<and> datacopy \<noteq> ELIST_DATA_NOCOPY then (None, [])
      else (let (new, cps) = copy_chain fresh (datacopy = ELIST_DATA_COPY) 0 (lhead h)
        in (Some (h\<lparr>lhead := new\<rparr>), cps)))"

subsection \<open>Invariant and abstraction\<close>

text \<open>The counter is the length of the chain, every entry has a key and non-NULL data. The
  list stands for the sequence of its pairs; a lookup sees the first binding of a key.\<close>

definition ent_valid :: "listent \<Rightarrow> bool" where
  "ent_valid e \<longleftrightarrow> ent_key e \<noteq> None \<and> ent_data e \<noteq> NULL"

definition elist_inv :: "list_t \<Rightarrow> bool" where
  "elist_inv h \<longleftrightarrow> lelmnbr h = int (length (lhead h)) \<and>
     list_all ent_valid (lhead h)"

definition elist_seq :: "list_t \<Rightarrow> (string \<times> ptr) list" where
  "elist_seq h = map ent_pair (lhead h)"

lemma ent_pair_sel [simp]: "fst (ent_pair e) = entry_key e" "snd (ent_pair e) = ent_data e"
  by (simp_all add: ent_pair_def)

lemma map_fst_ent_pair [simp]: "map (fst \<circ> ent_pair) es = map entry_key es"
  by simp

lemma ent_pair_new [simp]: "ent_pair (new_ent k d) = (k, d)"
  by (simp add: ent_pair_def new_ent_def entry_key_def)

lemma new_ent_sel [simp]: "ent_key (new_ent k d) = Some k" "ent_data (new_ent k d) = d"
  "entry_key (new_ent k d) = k"
  by (simp_all add: new_ent_def entry_key_def)

lemma elist_fresh_ok [simp]: "elist_inv (elist_fresh n t)" "elist_seq (elist_fresh n t) = []"
  by (simp_all add: elist_inv_def elist_fresh_def elist_seq_def)

lemma keyed_entry: "ent_valid e \<Longrightarrow> ent_key e = Some k \<longleftrightarrow> entry_key e = k"
  by (auto simp: entry_key_def ent_valid_def)

lemma ent_validE:
  assumes "ent_valid e"
  obtains k where "ent_key e = Some k" "entry_key e = k" "ent_data e \<noteq> NULL"
  using assms by (auto simp: entry_key_def ent_valid_def)

lemma ent_valid_new [simp]: "ent_valid (new_ent k d) \<longleftrightarrow> d \<noteq> NULL"
  by (simp add: ent_valid_def new_ent_def)

lemma elist_add_ok:
  assumes "elist_inv h" "d \<noteq> NULL"
  obtains h' where "elist_add (Some h) (Some k) d = (0, Some h')" "elist_inv h'"
    "elist_seq h' = (k, d) # elist_seq h" "lname h' = lname h" "ltype h' = ltype h"
  using assms by (auto simp: elist_add_def elist_inv_def elist_seq_def)

lemma elist_append_ok:
  assumes "elist_inv h" "d \<noteq> NULL"
  obtains h' where "elist_append (Some h) (Some k) d = (0, Some h')" "elist_inv h'"
    "elist_seq h' = elist_seq h @ [(k, d)]"
  using assms
  by (cases "lhead h = []") (auto simp: elist_append_def elist_add_def elist_inv_def elist_seq_def)

lemma elist_push_ok:
  assumes "elist_inv h" "d \<noteq> NULL"
  obtains h' where "elist_push (Some h) d = (0, Some h')" "elist_inv h'"
    "elist_seq h' = (push_key h, d) # elist_seq h"
  using assms by (auto simp: elist_push_def elim: elist_add_ok [of h d "push_key h"])

lemma elist_pop_ok:
  assumes "elist_inv h"
  obtains h' where
    "elist_pop (Some h) = ((case tl (map snd (elist_seq h)) of [] \<Rightarrow> NULL | x # _ \<Rightarrow> x), Some h')"
    "elist_inv h'" "elist_seq h' = tl (elist_seq h)"
proof (cases "lhead h")
  case Nil
  with assms that show thesis by (simp add: elist_pop_def elist_seq_def)
next
  case (Cons e es)
  let ?h = "h\<lparr>lhead := es, lelmnbr := lelmnbr h - 1\<rparr>"
  have "elist_pop (Some h) = ((case tl (map snd (elist_seq h)) of [] \<Rightarrow> NULL | x # _ \<Rightarrow> x), Some ?h)"
    using Cons by (cases es) (simp_all add: elist_pop_def elist_seq_def ent_pair_def)
  with assms Cons that show thesis by (simp add: elist_inv_def elist_seq_def)
qed

lemma find_key_get:
  "list_all ent_valid es \<Longrightarrow>
    (case find_key k es of None \<Rightarrow> NULL | Some p \<Rightarrow> ent_data (es ! p)) =
    (case map_of (map ent_pair es) k of None \<Rightarrow> NULL | Some d \<Rightarrow> d)"
  by (induction es) (auto simp: ent_pair_def keyed_entry split: option.splits)

lemma elist_get_ok:
  assumes "elist_inv h"
  shows "elist_get (Some h) (Some k) = (case map_of (elist_seq h) k of None \<Rightarrow> NULL | Some d \<Rightarrow> d)"
  using assms find_key_get by (simp add: elist_get_def elist_inv_def elist_seq_def)

lemma elist_seq_nonnull: "elist_inv h \<Longrightarrow> (k, d) \<in> set (elist_seq h) \<Longrightarrow> d \<noteq> NULL"
  by (auto simp: elist_inv_def elist_seq_def ent_pair_def list_all_iff ent_valid_def)

text \<open>The list operations on a list object that is known to exist.\<close>

definition list_add :: "list_t \<Rightarrow> string \<Rightarrow> ptr \<Rightarrow> list_t" where
  "list_add h k d = the (snd (elist_add (Some h) (Some k) d))"

definition list_push :: "list_t \<Rightarrow> ptr \<Rightarrow> list_t" where
  "list_push h d = the (snd (elist_push (Some h) d))"

definition list_pop :: "list_t \<Rightarrow> ptr \<times> list_t" where
  "list_pop h = (fst (elist_pop (Some h)), the (snd (elist_pop (Some h))))"

interpretation elist_store: store elist_inv "\<lambda>h. map_of (elist_seq h)"
  "\<lambda>h k. elist_get (Some h) (Some k)" list_add
proof unfold_locales
  fix h k d
  assume inv: "elist_inv h"
  then show "elist_get (Some h) (Some k) = (case map_of (elist_seq h) k of None \<Rightarrow> NULL | Some d \<Rightarrow> d)"
    by (rule elist_get_ok)
  show "map_of (elist_seq h) k \<noteq> Some NULL"
    using inv by (auto dest: map_of_SomeD elist_seq_nonnull)
  assume "d \<noteq> NULL"
  with inv obtain h' where "elist_add (Some h) (Some k) d = (0, Some h')" "elist_inv h'"
    "elist_seq h' = (k, d) # elist_seq h" by (rule elist_add_ok)
  then show "elist_inv (list_add h k d)"
    and "map_of (elist_seq (list_add h k d)) = (map_of (elist_seq h))(k \<mapsto> d)"
    by (simp_all add: list_add_def)
qed

interpretation elist_stack: undo_stack elist_inv "\<lambda>h. map snd (elist_seq h)" list_push list_pop
proof unfold_locales
  fix h d
  assume inv: "elist_inv h"
  then obtain h' where "elist_pop (Some h) =
      ((case tl (map snd (elist_seq h)) of [] \<Rightarrow> NULL | x # _ \<Rightarrow> x), Some h')"
    "elist_inv h'" "elist_seq h' = tl (elist_seq h)" by (rule elist_pop_ok)
  then show "elist_inv (snd (list_pop h))"
    and "map snd (elist_seq (snd (list_pop h))) = tl (map snd (elist_seq h))"
    and "fst (list_pop h) = (case tl (map snd (elist_seq h)) of [] \<Rightarrow> NULL | x # _ \<Rightarrow> x)"
    by (simp_all add: list_pop_def map_tl)
  assume "d \<noteq> NULL"
  with inv obtain h' where "elist_push (Some h) d = (0, Some h')" "elist_inv h'"
    "elist_seq h' = (push_key h, d) # elist_seq h" by (rule elist_push_ok)
  then show "elist_inv (list_push h d)"
    and "map snd (elist_seq (list_push h d)) = d # map snd (elist_seq h)"
    by (simp_all add: list_push_def)
  show "snd (list_pop (list_push h d)) = h"
    using \<open>d \<noteq> NULL\<close> by (simp add: list_push_def list_pop_def elist_push_def elist_add_def elist_pop_def)
qed

subsection \<open>Removal, splicing, copies\<close>

text \<open>The specification of \<open>elist_del\<close> on sequences: drop the first pair with the key.\<close>

fun remove_first :: "string \<Rightarrow> (string \<times> ptr) list \<Rightarrow> (string \<times> ptr) list" where
  "remove_first k [] = []"
| "remove_first k (x # xs) = (if fst x = k then xs else x # remove_first k xs)"

lemma remove_first_absent [simp]: "k \<notin> fst ` set xs \<Longrightarrow> remove_first k xs = xs"
  by (induction xs) auto

lemma map_of_remove_first:
  "distinct (map fst xs) \<Longrightarrow> map_of (remove_first k xs) = (map_of xs)(k := None)"
proof (induction xs)
  case (Cons x xs)
  then show ?case
    by (cases "fst x = k") (auto simp: fun_eq_iff map_of_eq_None_iff)
qed simp

lemma unlink_key_ok:
  assumes "list_all ent_valid es"
  shows "case unlink_key k es of
      None \<Rightarrow> k \<notin> entry_key ` set es
    | Some es' \<Rightarrow> k \<in> entry_key ` set es \<and> length es = Suc (length es') \<and>
        list_all ent_valid es' \<and>
        map ent_pair es' = remove_first k (map ent_pair es)"
  using assms by (induction es) (auto simp: keyed_entry ent_pair_def split: option.splits)

lemma elist_del_ok:
  assumes "elist_inv h"
  obtains h' where "elist_del (Some h) (Some k) = (0, Some h')" "elist_inv h'"
    "elist_seq h' = remove_first k (elist_seq h)" "lname h' = lname h" "ltype h' = ltype h"
proof (cases "unlink_key k (lhead h)")
  case None
  then have "k \<notin> fst ` set (elist_seq h)"
    using assms unlink_key_ok [of "lhead h" k] by (auto simp: elist_inv_def elist_seq_def ent_pair_def)
  with None assms that show thesis by (simp add: elist_del_def)
next
  case (Some es)
  with assms unlink_key_ok [of "lhead h" k] have es: "length (lhead h) = Suc (length es)"
    "list_all ent_valid es"
    "map ent_pair es = remove_first k (map ent_pair (lhead h))" by (auto simp: elist_inv_def)
  let ?h = "h\<lparr>lhead := es, lelmnbr := lelmnbr h - 1\<rparr>"
  have "elist_del (Some h) (Some k) = (0, Some ?h)"
    using Some es assms by (auto simp: elist_del_def Let_def elist_inv_def)
  with es assms that show thesis by (simp add: elist_inv_def elist_seq_def)
qed

lemma splice_ok:
  assumes "list_all ent_valid es"
  shows "case splice k new es of
      None \<Rightarrow> k \<notin> entry_key ` set es
    | Some (hs, ns) \<Rightarrow> \<exists>pre e post. es = pre @ e # post \<and> entry_key e = k \<and>
        k \<notin> entry_key ` set pre \<and> hs = pre @ new @ post \<and> ns = new @ post"
  using assms
proof (induction es)
  case (Cons c es)
  show ?case
  proof (cases "ent_key c = Some k")
    case True
    then show ?thesis by (force simp: entry_key_def)
  next
    case False
    with Cons.prems have ne: "entry_key c \<noteq> k" by (auto simp: keyed_entry)
    show ?thesis
    proof (cases "splice k new es")
      case (Some x)
      then obtain hs ns where x: "splice k new es = Some (hs, ns)" by (cases x) auto
      with Cons obtain pre e post where "es = pre @ e # post" "entry_key e = k"
        "k \<notin> entry_key ` set pre" "hs = pre @ new @ post" "ns = new @ post" by auto
      then have "c # es = (c # pre) @ e # post \<and> entry_key e = k \<and>
        k \<notin> entry_key ` set (c # pre) \<and> c # hs = (c # pre) @ new @ post \<and> ns = new @ post"
        using ne by simp
      with False x show ?thesis by auto
    qed (use False ne Cons in auto)
  qed
qed simp

lemma merge_count_ok:
  assumes "elist_inv dst" "list_all ent_valid es"
  shows "\<exists>d. merge_count (length es) es dst = Some d \<and> elist_inv d \<and>
    elist_seq d = rev (map ent_pair es) @ elist_seq dst"
  using assms
proof (induction es arbitrary: dst)
  case (Cons e es)
  then obtain k where k: "ent_key e = Some k" "entry_key e = k" "ent_data e \<noteq> NULL"
    by (auto elim: ent_validE)
  obtain h' where h': "elist_add (Some dst) (Some k) (ent_data e) = (0, Some h')" "elist_inv h'"
    "elist_seq h' = (k, ent_data e) # elist_seq dst"
    using elist_add_ok [OF Cons.prems(1) k(3)] by blast
  from Cons.IH [OF h'(2)] Cons.prems(2) obtain d where "merge_count (length es) es h' = Some d"
    "elist_inv d" "elist_seq d = rev (map ent_pair es) @ elist_seq h'" by auto
  with h' k show ?case by (simp add: ent_pair_def)
qed simp

lemma reverse_into_ok:
  assumes "elist_inv l" "list_all ent_valid es"
  shows "elist_inv (reverse_into es l) \<and> elist_seq (reverse_into es l) = rev (map ent_pair es) @ elist_seq l"
  using assms
proof (induction es arbitrary: l)
  case (Cons e es)
  then obtain k where k: "ent_key e = Some k" "entry_key e = k" "ent_data e \<noteq> NULL"
    by (auto elim: ent_validE)
  obtain h' where "elist_add (Some l) (Some k) (ent_data e) = (0, Some h')" "elist_inv h'"
    "elist_seq h' = (k, ent_data e) # elist_seq l"
    using elist_add_ok [OF Cons.prems(1) k(3)] by blast
  with Cons k show ?case by (auto simp: ent_pair_def reverse_into_def)
qed (simp add: reverse_into_def)

lemma elist_set_ok:
  assumes "elist_inv h" "d \<noteq> NULL" "k \<in> fst ` set (elist_seq h)"
  obtains h' where "elist_set (Some h) (Some k) d = (0, Some h')" "elist_inv h'"
    "map fst (elist_seq h') = map fst (elist_seq h)" "map_of (elist_seq h') k = Some d"
proof -
  have valid: "list_all ent_valid (lhead h)" "k \<in> entry_key ` set (lhead h)"
    using assms by (auto simp: elist_inv_def elist_seq_def ent_pair_def)
  have "\<exists>p<length es. find_key k es = Some p \<and>
      list_all ent_valid (es[p := (es ! p)\<lparr>ent_data := d\<rparr>]) \<and>
      map entry_key (es[p := (es ! p)\<lparr>ent_data := d\<rparr>]) = map entry_key es \<and>
      map_of (map ent_pair (es[p := (es ! p)\<lparr>ent_data := d\<rparr>])) k = Some d"
    if "list_all ent_valid es" "k \<in> entry_key ` set es" for es
    using that
  proof (induction es)
    case (Cons e es)
    show ?case
    proof (cases "entry_key e = k")
      case True
      with Cons.prems have "ent_key e = Some k" by (simp add: keyed_entry)
      with Cons.prems assms(2) show ?thesis by (simp add: ent_valid_def ent_pair_def entry_key_def)
    next
      case False
      with Cons obtain p where "p < length es" "find_key k es = Some p"
        "list_all ent_valid (es[p := (es ! p)\<lparr>ent_data := d\<rparr>])"
        "map entry_key (es[p := (es ! p)\<lparr>ent_data := d\<rparr>]) = map entry_key es"
        "map_of (map ent_pair (es[p := (es ! p)\<lparr>ent_data := d\<rparr>])) k = Some d" by auto
      with False Cons.prems show ?thesis
        by (intro exI [of _ "Suc p"]) (simp add: keyed_entry)
    qed
  qed simp
  from this [OF valid] obtain p where p: "find_key k (lhead h) = Some p"
    "list_all ent_valid ((lhead h)[p := (lhead h ! p)\<lparr>ent_data := d\<rparr>])"
    "map entry_key ((lhead h)[p := (lhead h ! p)\<lparr>ent_data := d\<rparr>]) = map entry_key (lhead h)"
    "map_of (map ent_pair ((lhead h)[p := (lhead h ! p)\<lparr>ent_data := d\<rparr>])) k = Some d" by blast
  have fst_pair: "map fst (map ent_pair es) = map entry_key es" for es
    by (simp add: ent_pair_def)
  show thesis
    by (rule that [of "h\<lparr>lhead := (lhead h)[p := (lhead h ! p)\<lparr>ent_data := d\<rparr>]\<rparr>"])
      (use assms(1) p fst_pair in \<open>simp_all add: elist_set_def elist_inv_def elist_seq_def\<close>)
qed

lemma unmerge_fold_ok:
  assumes "elist_inv dst" "list_all ent_valid es"
  shows "\<exists>d. fold (\<lambda>cur d. snd (elist_del d (ent_key cur))) es (Some dst) = Some d \<and>
    elist_inv d \<and> elist_seq d = fold remove_first (map entry_key es) (elist_seq dst)"
  using assms
proof (induction es arbitrary: dst)
  case (Cons e es)
  then obtain k where k: "ent_key e = Some k" "entry_key e = k"
    by (auto elim: ent_validE)
  obtain h' where "elist_del (Some dst) (Some k) = (0, Some h')" "elist_inv h'"
    "elist_seq h' = remove_first k (elist_seq dst)"
    using elist_del_ok [OF Cons.prems(1)] by blast
  with Cons.IH [of h'] Cons.prems k show ?case by simp
qed simp

subsection \<open>Properties\<close>

text \<open>\<open>elist_add\<close> inserts at the front, \<open>elist_append\<close> at the end, and
  \<open>elist_set\<close> overwrites the binding of a present key in place; each returns 0, keeps the
  counter equal to the length, and a NULL list, key or datum is refused with -1.\<close>

theorem elist_insertions:
  assumes "elist_inv h" "d \<noteq> NULL"
  shows "\<exists>a b. elist_add (Some h) (Some k) d = (0, Some a) \<and> elist_inv a \<and>
      elist_seq a = (k, d) # elist_seq h \<and>
    elist_append (Some h) (Some k) d = (0, Some b) \<and> elist_inv b \<and>
      elist_seq b = elist_seq h @ [(k, d)] \<and>
    (k \<in> fst ` set (elist_seq h) \<longrightarrow> (\<exists>c. elist_set (Some h) (Some k) d = (0, Some c) \<and>
      elist_inv c \<and> map fst (elist_seq c) = map fst (elist_seq h) \<and>
      elist_get (Some c) (Some k) = d)) \<and>
    elist_add (Some h) (Some k) NULL = (-1, Some h) \<and> elist_add None (Some k) d = (-1, None) \<and>
    elist_append (Some h) None d = (-1, Some h)"
proof -
  obtain a where a: "elist_add (Some h) (Some k) d = (0, Some a)" "elist_inv a"
    "elist_seq a = (k, d) # elist_seq h" using elist_add_ok [OF assms] by blast
  obtain b where b: "elist_append (Some h) (Some k) d = (0, Some b)" "elist_inv b"
    "elist_seq b = elist_seq h @ [(k, d)]" using elist_append_ok [OF assms] by blast
  have "\<exists>c. elist_set (Some h) (Some k) d = (0, Some c) \<and> elist_inv c \<and>
      map fst (elist_seq c) = map fst (elist_seq h) \<and> elist_get (Some c) (Some k) = d"
    if "k \<in> fst ` set (elist_seq h)"
    using elist_set_ok [OF assms that] by (metis elist_get_ok option.simps(5))
  with a b show ?thesis by (simp add: elist_add_def elist_append_def)
qed

theorem elist_insertions_witness:
  "\<exists>a. elist_add (Some (elist_fresh ''l'' 0)) (Some ''k'') 5 = (0, Some a) \<and>
    elist_seq a = [(''k'', 5)]"
  using elist_insertions [OF elist_fresh_ok(1) [of "''l''" 0], of 5 "''k''"] by auto

text \<open>C4. The list as a stack: a push puts one entry with the data and the key of its position in
  front and counts it; after any sequence of \<open>elist_push\<close> calls, as many \<open>elist_pop\<close> calls restore
  the whole list, with its keys and its counter. What a pop returns is not the popped data but
  the data that was on top before the push.\<close>

theorem elist_push_pop_unwind:
  assumes "elist_inv h" "\<forall>d\<in>set (ds @ [x]). d \<noteq> NULL"
  shows "elist_push (Some h) x = (0, Some (list_push h x)) \<and>
    elist_seq (list_push h x) = (push_key h, x) # elist_seq h \<and> lelmnbr (list_push h x) = lelmnbr h + 1 \<and>
    ((\<lambda>s. snd (list_pop s)) ^^ length ds) (fold (\<lambda>d s. list_push s d) ds h) = h \<and>
    elist_pop (Some (list_push h x)) = (elist_get_headptr (Some h), Some h)"
proof -
  have x: "x \<noteq> NULL" using assms(2) by simp
  have push: "elist_push (Some h) x = (0, Some (list_push h x))" "elist_seq (list_push h x) = (push_key h, x) # elist_seq h"
    "lelmnbr (list_push h x) = lelmnbr h + 1"
    using x by (simp_all add: list_push_def elist_push_def elist_add_def elist_seq_def ent_pair_def new_ent_def entry_key_def)
  have "fst (list_pop (list_push h x)) = (case map snd (elist_seq h) of [] \<Rightarrow> NULL | x # _ \<Rightarrow> x)"
    using elist_stack.pop_push(2) [OF assms(1) x] .
  also have "\<dots> = elist_get_headptr (Some h)"
    by (simp add: elist_get_headptr_def elist_get_head_def elist_seq_def ent_pair_def
        split: list.splits)
  finally have "elist_pop (Some (list_push h x)) = (elist_get_headptr (Some h), Some h)"
    using x by (simp add: list_pop_def list_push_def elist_push_def elist_add_def elist_pop_def)
  then show ?thesis using push elist_stack.unwind_all [OF assms(1), of ds] assms(2) by simp
qed

theorem elist_push_pop_unwind_witness:
  "((\<lambda>s. snd (list_pop s)) ^^ length [3, 4])
     (fold (\<lambda>d s. list_push s d) [3, 4] (list_add (elist_fresh ''l'' 0) ''k'' 2)) = list_add (elist_fresh ''l'' 0) ''k'' 2 \<and>
   fst (elist_pop (Some (list_push (list_add (elist_fresh ''l'' 0) ''k'' 2) 5))) = 2"
proof -
  let ?h = "list_add (elist_fresh ''l'' 0) ''k'' 2"
  have "elist_inv ?h" by (rule elist_store.add_inv) simp_all
  moreover have "elist_get_headptr (Some ?h) = 2"
    by (simp add: list_add_def elist_add_def elist_fresh_def elist_get_headptr_def elist_get_head_def new_ent_def)
  ultimately show ?thesis using elist_push_pop_unwind [of ?h "[3, 4]" 5] by simp
qed

text \<open>\<open>elist_del\<close> removes the first entry with the key and nothing else, keeps the
  counter, and returns 0 whether or not the key was there; on a list with distinct keys
  it is map deletion.\<close>

theorem elist_del_first:
  assumes "elist_inv h"
  shows "\<exists>h'. elist_del (Some h) (Some k) = (0, Some h') \<and> elist_inv h' \<and>
    elist_seq h' = remove_first k (elist_seq h) \<and>
    (distinct (map fst (elist_seq h)) \<longrightarrow>
      map_of (elist_seq h') = (map_of (elist_seq h))(k := None))"
  using elist_del_ok [OF assms, of k] map_of_remove_first by metis

theorem elist_del_first_witness:
  "\<exists>h'. elist_del (Some (elist_fresh ''l'' 0)) (Some ''k'') = (0, Some h') \<and> elist_seq h' = []"
  using elist_del_first [OF elist_fresh_ok(1) [of "''l''" 0], of "''k''"] by auto

text \<open>\<open>elist_replace\<close> puts the whole new list in place of the first entry with the
  key and adjusts the counter; the new list object then shares its tail with the target,
  so its own counter is too small whenever entries followed the replaced one. A missing
  key is reported with -1 and changes nothing.\<close>

theorem elist_replace_splices:
  assumes "elist_inv h" "elist_inv n" "lhead n \<noteq> []"
  shows "if k \<in> fst ` set (elist_seq h)
    then \<exists>h' n' pre d post. elist_replace (Some h) (Some k) (Some n) = (0, Some h', Some n') \<and>
      elist_inv h' \<and> elist_seq h = pre @ (k, d) # post \<and> k \<notin> fst ` set pre \<and>
      elist_seq h' = pre @ elist_seq n @ post \<and>
      elist_seq n' = elist_seq n @ post \<and> lelmnbr n' = lelmnbr n
    else elist_replace (Some h) (Some k) (Some n) = (-1, Some h, Some n)"
proof -
  have valid: "list_all ent_valid (lhead h)" "list_all ent_valid (lhead n)"
    using assms by (simp_all add: elist_inv_def)
  have keys: "k \<in> fst ` set (elist_seq h) \<longleftrightarrow> k \<in> entry_key ` set (lhead h)"
    by (force simp: elist_seq_def ent_pair_def)
  show ?thesis
  proof (cases "splice k (lhead n) (lhead h)")
    case None
    with splice_ok [OF valid(1), of k "lhead n"] keys assms(3) show ?thesis
      by (simp add: elist_replace_def)
  next
    case (Some x)
    then obtain hs ns where x: "splice k (lhead n) (lhead h) = Some (hs, ns)" by (cases x) auto
    with splice_ok [OF valid(1), of k "lhead n"] obtain pre e post
      where sp: "lhead h = pre @ e # post" "entry_key e = k" "k \<notin> entry_key ` set pre"
        "hs = pre @ lhead n @ post" "ns = lhead n @ post" by auto
    let ?h = "h\<lparr>lhead := hs, lelmnbr := lelmnbr h + (lelmnbr n - 1)\<rparr>"
    let ?n = "n\<lparr>lhead := ns\<rparr>"
    have eq: "elist_replace (Some h) (Some k) (Some n) = (0, Some ?h, Some ?n)"
      using x assms(3) by (simp add: elist_replace_def)
    have "elist_inv ?h" using assms(1,2) sp valid by (simp add: elist_inv_def)
    moreover have "elist_seq h = map ent_pair pre @ (k, ent_data e) # map ent_pair post"
      "k \<notin> fst ` set (map ent_pair pre)"
      "elist_seq ?h = map ent_pair pre @ elist_seq n @ map ent_pair post"
      "elist_seq ?n = elist_seq n @ map ent_pair post"
      using sp by (auto simp: elist_seq_def ent_pair_def)
    moreover have "k \<in> fst ` set (elist_seq h)" using keys sp by auto
    moreover have "lelmnbr ?n = lelmnbr n" by simp
    ultimately show ?thesis using eq by (simp only: if_True) blast
  qed
qed

theorem elist_replace_splices_witness:
  "\<exists>h' n' pre d post.
     elist_replace (Some (list_add (list_add (elist_fresh ''h'' 0) ''b'' 2) ''a'' 1)) (Some ''a'')
       (Some (list_add (elist_fresh ''n'' 0) ''c'' 3)) = (0, Some h', Some n') \<and>
     elist_seq h' = pre @ [(''c'', 3)] @ post \<and> [(''a'', 1), (''b'', 2)] = pre @ (''a'', d) # post"
proof -
  let ?h = "list_add (list_add (elist_fresh ''h'' 0) ''b'' 2) ''a'' 1"
  let ?n = "list_add (elist_fresh ''n'' 0) ''c'' 3"
  have "elist_inv ?h" "elist_inv ?n" by (simp_all add: elist_store.add_inv)
  moreover have "elist_seq ?h = [(''a'', 1), (''b'', 2)]" "elist_seq ?n = [(''c'', 3)]" "lhead ?n \<noteq> []"
    by (simp_all add: list_add_def elist_add_def elist_fresh_def elist_seq_def)
  ultimately show ?thesis using elist_replace_splices [of ?h ?n "''a''"] by auto
qed

text \<open>\<open>elist_merge\<close> never runs off the source list when its counter is right; it
  adds every source entry in front, so the source appears reversed before the old
  contents. \<open>elist_unmerge\<close> then removes one entry per source key.\<close>

theorem elist_merge_unmerge:
  assumes "elist_inv dst" "elist_inv src"
  shows "\<exists>m u. elist_merge (Some dst) (Some src) = Some (0, Some m) \<and> elist_inv m \<and>
      elist_seq m = rev (elist_seq src) @ elist_seq dst \<and>
    elist_unmerge (Some dst) (Some src) = (0, Some u) \<and> elist_inv u \<and>
      elist_seq u = fold remove_first (map fst (elist_seq src)) (elist_seq dst)"
proof -
  have src: "list_all ent_valid (lhead src)" "nat (lelmnbr src) = length (lhead src)"
    "map fst (elist_seq src) = map entry_key (lhead src)"
    using assms(2) by (simp_all add: elist_inv_def elist_seq_def ent_pair_def)
  obtain m where "merge_count (length (lhead src)) (lhead src) dst = Some m" "elist_inv m"
    "elist_seq m = rev (map ent_pair (lhead src)) @ elist_seq dst"
    using merge_count_ok [OF assms(1) src(1)] by blast
  moreover obtain u where "fold (\<lambda>cur d. snd (elist_del d (ent_key cur))) (lhead src) (Some dst) = Some u"
    "elist_inv u" "elist_seq u = fold remove_first (map entry_key (lhead src)) (elist_seq dst)"
    using unmerge_fold_ok [OF assms(1) src(1)] by blast
  ultimately show ?thesis
    using src(2,3) by (simp add: elist_merge_def elist_unmerge_def elist_seq_def)
qed

theorem elist_merge_unmerge_witness:
  "\<exists>m. elist_merge (Some (elist_fresh ''d'' 0)) (Some (list_add (elist_fresh ''n'' 0) ''c'' 3)) =
     Some (0, Some m) \<and> elist_seq m = [(''c'', 3)]"
proof -
  have "elist_inv (list_add (elist_fresh ''n'' 0) ''c'' 3)" by (simp add: elist_store.add_inv)
  moreover have "elist_seq (list_add (elist_fresh ''n'' 0) ''c'' 3) = [(''c'', 3)]"
    by (simp add: list_add_def elist_add_def elist_fresh_def elist_seq_def)
  ultimately show ?thesis
    using elist_merge_unmerge [OF elist_fresh_ok(1) [of "''d''" 0]] by fastforce
qed

text \<open>\<open>elist_copy\<close> preserves length, order and keys. Without data copy the data
  pointers are shared; with data copy the i-th entry points to the i-th fresh block, and
  each block is filled from the original element. Any other flag returns NULL.\<close>

theorem elist_copy_spec:
  "elist_copy fresh h flag =
    (if flag = ELIST_DATA_NOCOPY then (Some h, [])
     else if flag = ELIST_DATA_COPY then
       (Some (h\<lparr>lhead := map2 (\<lambda>e p. e\<lparr>ent_data := p\<rparr>) (lhead h) (map fresh [0..<length (lhead h)])\<rparr>),
        zip (map fresh [0..<length (lhead h)]) (map ent_data (lhead h)))
     else (None, []))"
proof -
  have nocopy: "copy_chain fresh False i es = (es, [])" for i es
    by (induction es arbitrary: i) simp_all
  have copy: "copy_chain fresh True i es =
      (map2 (\<lambda>e p. e\<lparr>ent_data := p\<rparr>) es (map fresh [i..<i + length es]),
       zip (map fresh [i..<i + length es]) (map ent_data es))" for i es
  proof (induction es arbitrary: i)
    case (Cons e es)
    have "[i..<i + length (e # es)] = i # [Suc i..<Suc i + length es]"
      by (subst upt_conv_Cons) simp_all
    with Cons [of "Suc i"] show ?case by (simp add: Let_def del: upt_Suc)
  qed simp
  have "ELIST_DATA_COPY \<noteq> ELIST_DATA_NOCOPY"
    by (simp add: ELIST_DATA_COPY_def ELIST_DATA_NOCOPY_def)
  then show ?thesis
    using copy [of 0 "lhead h"] by (simp add: elist_copy_def nocopy)
qed

end
