(* ===== verification/Btree.thy ===== *)
theory Btree
  imports Prelude
begin

text \<open>
  The binary trees of \<open>libaspect/libbtree.c\<close>: unbalanced search trees whose nodes carry
  a numeric id and an element pointer. Two disciplines share the node type: trees built by
  \<open>btree_insert\<close> are ordered by id (equal ids go right), trees built by
  \<open>btree_insert_sort\<close> are ordered by a comparison callback. The callback is a parameter;
  what it must satisfy is the locale \<open>search_tree\<close>, which \<open>Containers\<close> interprets on the
  comparison the program passes.
\<close>

datatype btree_t = BNull | BNode u_int ptr btree_t btree_t

subsection \<open>Operations\<close>

fun btree_insert :: "btree_t \<Rightarrow> u_int \<Rightarrow> ptr \<Rightarrow> btree_t" where
  "btree_insert BNull nid elem = BNode nid elem BNull BNull"
| "btree_insert (BNode i e l r) nid elem =
     (if nid < i then BNode i e (btree_insert l nid elem) r
      else BNode i e l (btree_insert r nid elem))"

text \<open>The id of a node inserted by \<open>btree_insert_sort\<close> is the element pointer cast to
  \<open>u_int\<close>.\<close>

fun btree_insert_sort :: "btree_t \<Rightarrow> (ptr \<Rightarrow> ptr \<Rightarrow> int) \<Rightarrow> ptr \<Rightarrow> btree_t" where
  "btree_insert_sort BNull apply elem = btree_insert BNull (word_of_nat elem) elem"
| "btree_insert_sort (BNode i e l r) apply elem =
     (let ret = apply e elem in
      if ret \<noteq> 0 then
        (if ret > 0 then BNode i e l (btree_insert_sort r apply elem)
         else BNode i e (btree_insert_sort l apply elem) r)
      else BNode i e l r)"

fun btree_get_elem :: "btree_t \<Rightarrow> u_int \<Rightarrow> ptr" where
  "btree_get_elem BNull nid = NULL"
| "btree_get_elem (BNode i e l r) nid =
     (if i = nid then e
      else if nid < i then btree_get_elem l nid
      else if i < nid then btree_get_elem r nid
      else NULL)"

fun btree_find_elem :: "btree_t \<Rightarrow> (ptr \<Rightarrow> ptr \<Rightarrow> int) \<Rightarrow> ptr \<Rightarrow> ptr" where
  "btree_find_elem BNull match p = NULL"
| "btree_find_elem (BNode i e l r) match p =
     (let ret = match e p in
      if ret = 0 then e
      else if ret > 0 then btree_find_elem r match p
      else btree_find_elem l match p)"

text \<open>The browsing functions call \<open>apply\<close> on every element; the callback updates the state
  behind \<open>ptr\<close> and its result is ignored.\<close>

fun btree_browse_prefix :: "btree_t \<Rightarrow> (ptr \<Rightarrow> 's \<Rightarrow> 's) \<Rightarrow> 's \<Rightarrow> 's" where
  "btree_browse_prefix BNull apply s = s"
| "btree_browse_prefix (BNode i e l r) apply s =
     btree_browse_prefix r apply (btree_browse_prefix l apply (apply e s))"

fun btree_browse_infix :: "btree_t \<Rightarrow> (ptr \<Rightarrow> 's \<Rightarrow> 's) \<Rightarrow> 's \<Rightarrow> 's" where
  "btree_browse_infix BNull apply s = s"
| "btree_browse_infix (BNode i e l r) apply s =
     btree_browse_infix r apply (apply e (btree_browse_infix l apply s))"

fun btree_browse_suffix :: "btree_t \<Rightarrow> (ptr \<Rightarrow> 's \<Rightarrow> 's) \<Rightarrow> 's \<Rightarrow> 's" where
  "btree_browse_suffix BNull apply s = s"
| "btree_browse_suffix (BNode i e l r) apply s =
     apply e (btree_browse_suffix r apply (btree_browse_suffix l apply s))"

text \<open>\<open>btree_free\<close> as the sequence of \<open>free\<close> calls: an element (when \<open>mode\<close> asks for it)
  or a node, which is named by its element.\<close>

datatype freed = Free_Elem ptr | Free_Node ptr

fun btree_free :: "btree_t \<Rightarrow> bool \<Rightarrow> freed list" where
  "btree_free BNull mode = []"
| "btree_free (BNode i e l r) mode =
     (if mode then [Free_Elem e] else []) @ btree_free l mode @ btree_free r mode @ [Free_Node e]"

subsection \<open>Enumerations\<close>

fun inorder :: "btree_t \<Rightarrow> ptr list" where
  "inorder BNull = []"
| "inorder (BNode i e l r) = inorder l @ e # inorder r"

fun preorder :: "btree_t \<Rightarrow> ptr list" where
  "preorder BNull = []"
| "preorder (BNode i e l r) = e # preorder l @ preorder r"

fun postorder :: "btree_t \<Rightarrow> ptr list" where
  "postorder BNull = []"
| "postorder (BNode i e l r) = postorder l @ postorder r @ [e]"

lemma browse_prefix_fold: "btree_browse_prefix t f s = fold f (preorder t) s"
  by (induction t arbitrary: s) auto

lemma browse_infix_fold: "btree_browse_infix t f s = fold f (inorder t) s"
  by (induction t arbitrary: s) auto

lemma browse_suffix_fold: "btree_browse_suffix t f s = fold f (postorder t) s"
  by (induction t arbitrary: s) auto

lemma free_nodes: "btree_free t False = map Free_Node (postorder t)"
  by (induction t) auto

subsection \<open>Trees ordered by id\<close>

fun ids :: "btree_t \<Rightarrow> u_int set" where
  "ids BNull = {}"
| "ids (BNode i e l r) = insert i (ids l \<union> ids r)"

fun id_ordered :: "btree_t \<Rightarrow> bool" where
  "id_ordered BNull \<longleftrightarrow> True"
| "id_ordered (BNode i e l r) \<longleftrightarrow>
     (\<forall>j\<in>ids l. j < i) \<and> (\<forall>j\<in>ids r. i \<le> j) \<and> id_ordered l \<and> id_ordered r"

lemma ids_insert [simp]: "ids (btree_insert t nid e) = insert nid (ids t)"
  by (induction t) auto

lemma id_ordered_insert: "id_ordered t \<Longrightarrow> id_ordered (btree_insert t nid e)"
  by (induction t) (auto simp: not_less)

lemma get_absent: "nid \<notin> ids t \<Longrightarrow> btree_get_elem t nid = NULL"
  by (induction t) auto

lemma get_insert:
  "id_ordered t \<Longrightarrow> btree_get_elem (btree_insert t nid e) j =
    (if j = nid \<and> nid \<notin> ids t then e else btree_get_elem t j)"
  by (induction t) (auto simp: get_absent)

subsection \<open>Trees ordered by a comparison\<close>

locale search_tree =
  fixes cmp :: "ptr \<Rightarrow> ptr \<Rightarrow> int"
    and key :: "ptr \<Rightarrow> 'k::linorder"
    and valid :: "ptr set"
  assumes cmp_pos: "a \<in> valid \<Longrightarrow> b \<in> valid \<Longrightarrow> 0 < cmp a b \<longleftrightarrow> key a < key b"
    and cmp_zero: "a \<in> valid \<Longrightarrow> b \<in> valid \<Longrightarrow> cmp a b = 0 \<longleftrightarrow> key a = key b"
begin

definition ordered :: "btree_t \<Rightarrow> bool" where
  "ordered t \<longleftrightarrow> set (inorder t) \<subseteq> valid \<and> sorted_wrt (<) (map key (inorder t))"

lemma ordered_BNull [simp]: "ordered BNull"
  by (simp add: ordered_def)

lemma ordered_BNode:
  "ordered (BNode i e l r) \<longleftrightarrow> e \<in> valid \<and> ordered l \<and> ordered r \<and>
    (\<forall>x\<in>set (inorder l). key x < key e) \<and> (\<forall>x\<in>set (inorder r). key e < key x)"
  by (auto simp: ordered_def sorted_wrt_append) (meson order.strict_trans)

lemma insert_set:
  "ordered t \<Longrightarrow> x \<in> valid \<Longrightarrow> set (inorder (btree_insert_sort t cmp x)) =
    (if key x \<in> key ` set (inorder t) then set (inorder t) else insert x (set (inorder t)))"
proof (induction t)
  case (BNode i e l r)
  then show ?case
    using cmp_pos [of e x] cmp_zero [of e x] by (auto simp: ordered_BNode Let_def)
qed simp

lemma insert_ordered: "ordered t \<Longrightarrow> x \<in> valid \<Longrightarrow> ordered (btree_insert_sort t cmp x)"
proof (induction t)
  case (BNode i e l r)
  have e: "e \<in> valid" "ordered l" "ordered r" using BNode.prems by (auto simp: ordered_BNode)
  consider "0 < cmp e x" "key e < key x" | "cmp e x = 0" | "cmp e x < 0" "key x < key e"
    using cmp_pos [OF e(1) BNode.prems(2)] cmp_zero [OF e(1) BNode.prems(2)]
    by (meson linorder_less_linear not_less_iff_gr_or_eq)
  then show ?case
    using BNode e by cases (auto simp: ordered_BNode Let_def insert_set split: if_splits)
qed (simp add: ordered_def)

lemma find_present:
  "ordered t \<Longrightarrow> x \<in> valid \<Longrightarrow> y \<in> set (inorder t) \<Longrightarrow> key y = key x \<Longrightarrow> btree_find_elem t cmp x = y"
proof (induction t)
  case (BNode i e l r)
  then show ?case
    using cmp_pos [of e x] cmp_zero [of e x] by (fastforce simp: ordered_BNode Let_def)
qed simp

lemma find_absent:
  "ordered t \<Longrightarrow> x \<in> valid \<Longrightarrow> key x \<notin> key ` set (inorder t) \<Longrightarrow> btree_find_elem t cmp x = NULL"
proof (induction t)
  case (BNode i e l r)
  then show ?case
    using cmp_zero [of e x] by (auto simp: ordered_BNode Let_def)
qed simp

end

subsection \<open>Properties\<close>

text \<open>C13. Id-ordered trees: \<open>btree_insert\<close> keeps the order, and \<open>btree_get_elem\<close>
  afterwards finds the new element under a new id, still finds the older element under an
  id that was already used, and is unchanged for every other id.\<close>

theorem btree_insert_get:
  assumes "id_ordered t"
  shows "id_ordered (btree_insert t nid e) \<and> ids (btree_insert t nid e) = insert nid (ids t) \<and>
    btree_get_elem (btree_insert t nid e) j =
      (if j = nid \<and> nid \<notin> ids t then e else btree_get_elem t j)"
  using assms by (simp add: id_ordered_insert get_insert)

theorem btree_insert_get_witness:
  "btree_get_elem (btree_insert (BNode 5 50 BNull BNull) 3 30) 3 = 30"
  using btree_insert_get [of "BNode 5 50 BNull BNull" 3 30 3] by simp

text \<open>The three traversals call the callback once per element: node before subtrees,
  between them, and after them; \<open>btree_free\<close> without element freeing releases every node
  exactly once, children before their parent.\<close>

theorem btree_traversals:
  "btree_browse_prefix t (\<lambda>e s. s @ [e]) [] = preorder t \<and>
    btree_browse_infix t (\<lambda>e s. s @ [e]) [] = inorder t \<and>
    btree_browse_suffix t (\<lambda>e s. s @ [e]) [] = postorder t \<and>
    btree_free t False = map Free_Node (btree_browse_suffix t (\<lambda>e s. s @ [e]) [])"
proof -
  have snoc: "fold (\<lambda>e s. s @ [e]) xs ys = ys @ xs" for xs ys :: "ptr list"
    by (induction xs arbitrary: ys) auto
  show ?thesis
    by (simp add: browse_prefix_fold browse_infix_fold browse_suffix_fold snoc free_nodes)
qed

end
