(* ===== verification/Vectors.thy ===== *)
theory Vectors
  imports Hash
begin

text \<open>
  The vectors of \<open>libaspect/vectors.c\<close>: multi-dimensional arrays of handlers, through
  which every architecture- or format-dependent operation of the framework is dispatched.
  The C representation is an array of words in which every level but the last holds
  pointers to the arrays of the next level; here a cell is either such a pointer, to an
  array of its own, or a handler. An access with a coordinate outside its dimension is
  undefined in C and \<open>None\<close> here.
\<close>

datatype hook = HFun ptr | HArr "hook list"

record vector_t =
  vhook :: "hook list"
  default_func :: ptr
  arraydims :: "nat list"
  strdims :: "string list"
  arraysz :: nat
  vtype :: nat

subsection \<open>Projection\<close>

text \<open>The walk of \<open>aspect_vectors_insert\<close>: one step per dimension, dereferencing between
  steps, then the store.\<close>

fun hook_insert :: "hook list \<Rightarrow> nat list \<Rightarrow> ptr \<Rightarrow> hook list option" where
  "hook_insert tmp [] fct = None"
| "hook_insert tmp [d] fct = (if d < length tmp then Some (tmp[d := HFun fct]) else None)"
| "hook_insert tmp (d # dim) fct =
     (if d < length tmp then
        (case tmp ! d of
           HArr sub \<Rightarrow> map_option (\<lambda>s. tmp[d := HArr s]) (hook_insert sub dim fct)
         | HFun _ \<Rightarrow> None)
      else None)"

definition aspect_vectors_insert :: "vector_t \<Rightarrow> nat list \<Rightarrow> ptr \<Rightarrow> vector_t option" where
  "aspect_vectors_insert vect dim fct =
     map_option (\<lambda>hk. vect\<lparr>vhook := hk\<rparr>) (hook_insert (vhook vect) (take (arraysz vect) dim) fct)"

text \<open>The walk of \<open>aspect_vectors_select\<close> dereferences after every step, the last one
  included: the result is the stored handler.\<close>

fun hook_select :: "hook list \<Rightarrow> nat list \<Rightarrow> ptr option" where
  "hook_select tmp [] = None"
| "hook_select tmp (d # dim) =
     (if d < length tmp then
        (case tmp ! d of
           HFun f \<Rightarrow> if dim = [] then Some f else None
         | HArr sub \<Rightarrow> hook_select sub dim)
      else None)"

definition aspect_vectors_select :: "vector_t \<Rightarrow> nat list \<Rightarrow> ptr option" where
  "aspect_vectors_select vect dim = hook_select (vhook vect) (take (arraysz vect) dim)"

text \<open>\<open>aspect_vectors_selectptr\<close> stops one dereference earlier and returns the address of
  the cell: the path to it, when it exists.\<close>

fun hook_cell :: "hook list \<Rightarrow> nat list \<Rightarrow> nat list option" where
  "hook_cell tmp [] = None"
| "hook_cell tmp [d] = (if d < length tmp then Some [d] else None)"
| "hook_cell tmp (d # dim) =
     (if d < length tmp then
        (case tmp ! d of
           HArr sub \<Rightarrow> map_option ((#) d) (hook_cell sub dim)
         | HFun _ \<Rightarrow> None)
      else None)"

definition aspect_vectors_selectptr :: "vector_t \<Rightarrow> nat list \<Rightarrow> nat list option" where
  "aspect_vectors_selectptr vect dim = hook_cell (vhook vect) (take (arraysz vect) dim)"

subsection \<open>Allocation and initialisation\<close>

text \<open>\<open>aspect_vectors_recalloc\<close> at some depth: \<open>n\<close> is the dimension of the current array
  and \<open>dims\<close> the dimensions below it. Each cell gets a zeroed array of its own.\<close>

fun aspect_vectors_recalloc :: "hook list \<Rightarrow> nat \<Rightarrow> nat list \<Rightarrow> hook list" where
  "aspect_vectors_recalloc tab n [] = tab"
| "aspect_vectors_recalloc tab n (d # dims) =
     map (\<lambda>idx. HArr (aspect_vectors_recalloc (replicate d (HFun NULL)) d dims)) [0..<n]"

fun sub_array :: "hook \<Rightarrow> hook list" where
  "sub_array (HArr s) = s"
| "sub_array (HFun f) = []"

fun aspect_vectors_recinit :: "hook list \<Rightarrow> nat \<Rightarrow> nat list \<Rightarrow> ptr \<Rightarrow> hook list" where
  "aspect_vectors_recinit tab n [] defaultelem = map (\<lambda>idx. HFun defaultelem) [0..<n]"
| "aspect_vectors_recinit tab n (d # dims) defaultelem =
     map (\<lambda>idx. HArr (aspect_vectors_recinit (sub_array (tab ! idx)) d dims defaultelem)) [0..<n]"

text \<open>The registry: the table \<open>vector_hash\<close> (a NULL-able global) and the vector objects by
  address.\<close>

record vec_world =
  vector_hash :: "hash_t option"
  vectors :: "ptr \<Rightarrow> vector_t option"

text \<open>\<open>aspect_register_vector\<close>: \<open>addr\<close> is the address of the new vector object and
  \<open>type_nbr\<close> the number of registered types. The element type is checked but not stored.\<close>

definition make_vector :: "ptr \<Rightarrow> nat list \<Rightarrow> string list \<Rightarrow> nat \<Rightarrow> vector_t" where
  "make_vector defaultfunc dimensions strd dimsz =
     (let n = dimensions ! 0;
          below = take (dimsz - 1) (drop 1 dimensions);
          tab = replicate n (HFun NULL);
          tab' = (if dimsz > 1 then aspect_vectors_recalloc tab n below else tab)
      in \<lparr>vhook = aspect_vectors_recinit tab' n below defaultfunc, default_func = defaultfunc,
          arraydims = dimensions, strdims = strd, arraysz = dimsz, vtype = 0\<rparr>)"

definition aspect_register_vector ::
  "nat \<Rightarrow> ptr \<Rightarrow> string \<Rightarrow> ptr \<Rightarrow> nat list option \<Rightarrow> string list \<Rightarrow> nat \<Rightarrow> nat \<Rightarrow> vec_world \<Rightarrow>
   int \<times> vec_world" where
  "aspect_register_vector type_nbr addr name defaultfunc dimsp strd dimsz vectype w =
     (case dimsp of
        None \<Rightarrow> (-1, w)
      | Some dimensions \<Rightarrow>
          if defaultfunc = NULL \<or> dimsz = 0 then (-1, w)
          else if vectype \<ge> type_nbr then (-1, w)
          else (0, w\<lparr>vectors := (vectors w)(addr \<mapsto> make_vector defaultfunc dimensions strd dimsz),
                     vector_hash := snd (hash_add_ptr (vector_hash w) (Some name) addr)\<rparr>))"

definition aspect_vector_get :: "vec_world \<Rightarrow> string \<Rightarrow> ptr" where
  "aspect_vector_get w name = (case vector_hash w of None \<Rightarrow> NULL | Some h \<Rightarrow> hash_get h name)"

subsection \<open>Shapes\<close>

fun shaped :: "nat list \<Rightarrow> hook list \<Rightarrow> bool" where
  "shaped [] cells \<longleftrightarrow> False"
| "shaped [d] cells \<longleftrightarrow> length cells = d \<and> list_all (\<lambda>c. \<exists>f. c = HFun f) cells"
| "shaped (d # dims) cells \<longleftrightarrow> length cells = d \<and> list_all (\<lambda>c. \<exists>s. c = HArr s \<and> shaped dims s) cells"

definition in_dims :: "nat list \<Rightarrow> nat list \<Rightarrow> bool" where
  "in_dims dims idx \<longleftrightarrow> dims \<noteq> [] \<and> list_all2 (\<lambda>i d. i < d) idx dims"

lemma shaped_Cons2 [simp]:
  "dims \<noteq> [] \<Longrightarrow> shaped (d # dims) cells \<longleftrightarrow>
    length cells = d \<and> list_all (\<lambda>c. \<exists>s. c = HArr s \<and> shaped dims s) cells"
  by (cases dims) simp_all

lemma in_dims_Cons:
  "in_dims (d # dims) idx \<longleftrightarrow> (\<exists>i is. idx = i # is \<and> i < d \<and> (if dims = [] then is = [] else in_dims dims is))"
  by (cases idx; cases dims) (auto simp: in_dims_def)

text \<open>The interface of a multi-dimensional array.\<close>

locale nd_array =
  fixes ok :: "nat list \<Rightarrow> 'a \<Rightarrow> bool"
    and sel :: "'a \<Rightarrow> nat list \<Rightarrow> ptr option"
    and upd :: "'a \<Rightarrow> nat list \<Rightarrow> ptr \<Rightarrow> 'a option"
  assumes sel_total: "ok dims a \<Longrightarrow> in_dims dims idx \<Longrightarrow> \<exists>f. sel a idx = Some f"
    and upd_total: "ok dims a \<Longrightarrow> in_dims dims idx \<Longrightarrow> \<exists>a'. upd a idx f = Some a' \<and> ok dims a'"
    and sel_upd: "ok dims a \<Longrightarrow> in_dims dims idx \<Longrightarrow> in_dims dims jdx \<Longrightarrow> upd a idx f = Some a' \<Longrightarrow>
      sel a' jdx = (if jdx = idx then Some f else sel a jdx)"
begin

text \<open>Registering a table of handlers: the last handler given for a coordinate wins, and
  coordinates outside the table keep what they had.\<close>

fun upd_all :: "'a \<Rightarrow> (nat list \<times> ptr) list \<Rightarrow> 'a option" where
  "upd_all a [] = Some a"
| "upd_all a ((idx, f) # xs) = Option.bind (upd a idx f) (\<lambda>a'. upd_all a' xs)"

lemma upd_all_sel:
  assumes "ok dims a" "\<forall>(idx, f)\<in>set xs. in_dims dims idx" "in_dims dims jdx"
  shows "\<exists>a'. upd_all a xs = Some a' \<and> ok dims a' \<and>
    sel a' jdx = (case map_of (rev xs) jdx of Some f \<Rightarrow> Some f | None \<Rightarrow> sel a jdx)"
  using assms(1,2)
proof (induction xs arbitrary: a)
  case (Cons x xs)
  obtain idx f where x: "x = (idx, f)" by force
  with Cons.prems have idx: "in_dims dims idx" by simp
  from upd_total [OF Cons.prems(1) idx] obtain a1 where a1: "upd a idx f = Some a1" "ok dims a1"
    by blast
  from Cons.IH [OF a1(2)] Cons.prems(2) obtain a' where a': "upd_all a1 xs = Some a'" "ok dims a'"
    "sel a' jdx = (case map_of (rev xs) jdx of Some f \<Rightarrow> Some f | None \<Rightarrow> sel a1 jdx)" by auto
  then show ?case
    using x a1 sel_upd [OF Cons.prems(1) idx assms(3) a1(1)]
    by (auto simp: map_add_def split: option.splits)
qed simp

end

lemma shaped_at [consumes 2, case_names last inner]:
  assumes "shaped (d # dims) a" "in_dims (d # dims) idx"
  obtains i f where "dims = []" "idx = [i]" "i < length a" "a ! i = HFun f"
  | i rest s where "dims \<noteq> []" "idx = i # rest" "rest \<noteq> []" "i < length a" "a ! i = HArr s"
    "shaped dims s" "in_dims dims rest"
proof (cases "dims = []")
  case True
  with assms that(1) show thesis by (auto simp: in_dims_Cons list_all_length)
next
  case False
  with assms(2) obtain i rest where idx: "idx = i # rest" "i < d" "in_dims dims rest"
    by (auto simp: in_dims_Cons)
  with False assms(1) obtain s where "a ! i = HArr s" "shaped dims s" "i < length a"
    by (auto simp: list_all_length)
  moreover from idx(3) have "rest \<noteq> []" by (auto simp: in_dims_def)
  ultimately show thesis using that(2) False idx by blast
qed

lemma hook_insert_inner:
  "rest \<noteq> [] \<Longrightarrow> i < length a \<Longrightarrow> a ! i = HArr s \<Longrightarrow>
    hook_insert a (i # rest) f = map_option (\<lambda>s. a[i := HArr s]) (hook_insert s rest f)"
  by (cases rest) simp_all

lemma hook_select_total: "shaped dims a \<Longrightarrow> in_dims dims idx \<Longrightarrow> \<exists>f. hook_select a idx = Some f"
proof (induction dims arbitrary: a idx)
  case (Cons d dims)
  from Cons.prems show ?case
    by (cases rule: shaped_at) (use Cons.IH in auto)
qed simp

lemma hook_insert_total:
  "shaped dims a \<Longrightarrow> in_dims dims idx \<Longrightarrow> \<exists>a'. hook_insert a idx f = Some a' \<and> shaped dims a'"
proof (induction dims arbitrary: a idx)
  case (Cons d dims)
  from Cons.prems show ?case
  proof (cases rule: shaped_at)
    case (last i g)
    with Cons.prems show ?thesis by (auto simp: list_all_length nth_list_update)
  next
    case (inner i rest s)
    from Cons.IH [OF inner(6,7)] obtain s' where "hook_insert s rest f = Some s'" "shaped dims s'"
      by blast
    with inner Cons.prems show ?thesis
      by (auto simp: hook_insert_inner list_all_length nth_list_update)
  qed
qed simp

lemma hook_select_insert:
  "shaped dims a \<Longrightarrow> in_dims dims idx \<Longrightarrow> in_dims dims jdx \<Longrightarrow> hook_insert a idx f = Some a' \<Longrightarrow>
    hook_select a' jdx = (if jdx = idx then Some f else hook_select a jdx)"
proof (induction dims arbitrary: a idx jdx a')
  case (Cons d dims)
  from Cons.prems(1,2) show ?case
  proof (cases rule: shaped_at)
    case (last i g)
    with Cons.prems obtain j where "jdx = [j]" "j < d" by (auto simp: in_dims_Cons)
    with last Cons.prems show ?thesis by (auto simp: nth_list_update)
  next
    case (inner i rest s)
    with Cons.prems(3) obtain j jrest where jdx: "jdx = j # jrest" "j < d" "in_dims dims jrest"
      by (auto simp: in_dims_Cons)
    from inner Cons.prems(4) obtain s' where s': "hook_insert s rest f = Some s'"
      "a' = a[i := HArr s']" by (auto simp: hook_insert_inner)
    from Cons.IH [OF inner(6,7) jdx(3) s'(1)] inner s' jdx Cons.prems(1) show ?thesis
      by (auto simp: nth_list_update split: hook.splits)
  qed
qed simp

interpretation hook_array: nd_array shaped hook_select hook_insert
  by unfold_locales (simp_all add: hook_select_total hook_insert_total hook_select_insert)

subsection \<open>A registered vector\<close>

definition vector_ok :: "vector_t \<Rightarrow> bool" where
  "vector_ok v \<longleftrightarrow> arraysz v = length (arraydims v) \<and> shaped (arraydims v) (vhook v)"

lemma recinit_shaped: "shaped (n # dims) (aspect_vectors_recinit tab n dims d)"
  by (induction dims arbitrary: n tab) (auto simp: list_all_length)

lemma recinit_select:
  "in_dims (n # dims) idx \<Longrightarrow> hook_select (aspect_vectors_recinit tab n dims d) idx = Some d"
proof (induction dims arbitrary: n tab idx)
  case Nil
  then show ?case by (auto simp: in_dims_Cons)
next
  case (Cons m dims)
  then obtain i rest where "idx = i # rest" "i < n" "in_dims (m # dims) rest"
    by (auto simp: in_dims_Cons split: if_splits)
  with Cons show ?case by simp
qed

lemma make_vector_ok:
  assumes "dims \<noteq> []"
  shows "vector_ok (make_vector f dims strd (length dims))"
    and "in_dims dims idx \<Longrightarrow> aspect_vectors_select (make_vector f dims strd (length dims)) idx = Some f"
proof -
  obtain n rest where dims: "dims = n # rest" using assms by (cases dims) auto
  show "vector_ok (make_vector f dims strd (length dims))"
    using recinit_shaped by (simp add: vector_ok_def make_vector_def Let_def dims)
  assume "in_dims dims idx"
  moreover from this have "length idx = length dims" by (auto simp: in_dims_def dest: list_all2_lengthD)
  ultimately show "aspect_vectors_select (make_vector f dims strd (length dims)) idx = Some f"
    using recinit_select by (simp add: aspect_vectors_select_def make_vector_def Let_def dims)
qed

subsection \<open>Properties\<close>

text \<open>A registered vector is a complete array with the declared dimensions in which
  every coordinate dispatches to the default handler; it is found under its name. A NULL
  default handler, no dimensions or an unknown element type is refused with -1 and
  registers nothing.\<close>

theorem register_vector_default:
  assumes "hash_inv h" "vector_hash w = Some h" "addr \<noteq> NULL" "f \<noteq> NULL" "dims \<noteq> []" "ty < nbr"
  shows "\<exists>w'. aspect_register_vector nbr addr name f (Some dims) strd (length dims) ty w = (0, w') \<and>
    aspect_vector_get w' name = addr \<and>
    (\<exists>v. vectors w' addr = Some v \<and> vector_ok v \<and> arraydims v = dims \<and>
      (\<forall>idx. in_dims dims idx \<longrightarrow> aspect_vectors_select v idx = Some f)) \<and>
    aspect_register_vector nbr addr name NULL (Some dims) strd (length dims) ty w = (-1, w) \<and>
    aspect_register_vector nbr addr name f None strd (length dims) ty w = (-1, w) \<and>
    aspect_register_vector nbr addr name f (Some dims) strd (length dims) nbr w = (-1, w)"
proof -
  let ?v = "make_vector f dims strd (length dims)"
  obtain r h' where add: "hash_add h name addr = (r, h')" by force
  have "hash_get h' name = addr"
    using hash_dict.get_add_same [OF assms(1,3), of name] by (simp add: add)
  moreover have "aspect_register_vector nbr addr name f (Some dims) strd (length dims) ty w =
      (0, w\<lparr>vectors := (vectors w)(addr \<mapsto> ?v), vector_hash := Some h'\<rparr>)"
    using assms add by (simp add: aspect_register_vector_def hash_add_ptr_def)
  moreover have "arraydims ?v = dims" by (simp add: make_vector_def Let_def)
  ultimately show ?thesis
    using make_vector_ok [OF assms(5)] by (simp add: aspect_vector_get_def aspect_register_vector_def)
qed

theorem register_vector_default_witness:
  "\<exists>w'. aspect_register_vector 3 40 ''v'' 7 (Some [2, 3]) [] (length [2, 3 :: nat]) 1
     \<lparr>vector_hash = Some (hash_fresh ''vectors'' 5 0), vectors = Map.empty\<rparr> = (0, w') \<and>
   aspect_vector_get w' ''v'' = 40"
proof -
  have inv: "hash_inv (hash_fresh ''vectors'' 5 0)" by (rule hash_fresh_inv) simp
  show ?thesis
    using register_vector_default [OF inv, of "\<lparr>vector_hash = Some (hash_fresh ''vectors'' 5 0),
        vectors = Map.empty\<rparr>" 40 7 "[2, 3]" 1 3 "''v''" "[]"] by auto
qed

text \<open>C14. Dispatch after registration: on a complete vector, \<open>aspect_vectors_insert\<close> at a
  coordinate inside the dimensions succeeds, keeps the vector complete, and afterwards
  \<open>aspect_vectors_select\<close> returns the new handler there and the old ones everywhere
  else.\<close>

theorem vectors_select_insert:
  assumes "vector_ok v" "in_dims (arraydims v) idx" "in_dims (arraydims v) jdx"
  shows "\<exists>v'. aspect_vectors_insert v idx f = Some v' \<and> vector_ok v' \<and> arraydims v' = arraydims v \<and>
    aspect_vectors_select v' jdx = (if jdx = idx then Some f else aspect_vectors_select v jdx) \<and>
    (\<exists>g. aspect_vectors_select v jdx = Some g)"
proof -
  have sh: "shaped (arraydims v) (vhook v)" and sz: "arraysz v = length (arraydims v)"
    using assms(1) by (simp_all add: vector_ok_def)
  have len: "length idx = arraysz v" "length jdx = arraysz v"
    using assms sz by (auto simp: in_dims_def dest: list_all2_lengthD)
  obtain a where a: "hook_insert (vhook v) idx f = Some a" "shaped (arraydims v) a"
    using hook_array.upd_total [OF sh assms(2)] by blast
  have "hook_select a jdx = (if jdx = idx then Some f else hook_select (vhook v) jdx)"
    using hook_array.sel_upd [OF sh assms(2,3) a(1)] .
  moreover have "\<exists>g. hook_select (vhook v) jdx = Some g"
    using hook_array.sel_total [OF sh assms(3)] .
  ultimately show ?thesis
    using a sz len by (simp add: aspect_vectors_insert_def aspect_vectors_select_def vector_ok_def)
qed

theorem vectors_select_insert_witness:
  "\<exists>v'. aspect_vectors_insert (make_vector 7 [2, 3] [] (length [2, 3 :: nat])) [1, 2] 9 = Some v' \<and>
    aspect_vectors_select v' [1, 2] = Some 9"
proof -
  let ?v = "make_vector 7 [2, 3] [] (length [2, 3 :: nat])"
  have "vector_ok ?v" by (rule make_vector_ok) simp
  moreover have "in_dims (arraydims ?v) [1, 2]" by (simp add: make_vector_def Let_def in_dims_def)
  ultimately show ?thesis using vectors_select_insert [of ?v "[1, 2]" "[1, 2]" 9] by auto
qed

end
