(* ===== verification/Asm.thy ===== *)
theory Asm
  imports Vectors
begin

text \<open>
  The data of the disassembler \<open>libasm\<close>: operands and instructions
  (\<open>libasm-structs.h\<close>), the flags of instruction types, and the elementary assignments of
  which the decoding handlers of every architecture are made.

  A handler is a sequence of assignments to \<open>*ins\<close>; \<open>stmts\<close> runs such a sequence in order.
  The fields of \<open>asm_operand\<close> and \<open>asm_instr\<close> are those the modelled architectures use.
  Signed C integers that hold bit-fields are 32-bit words, read with \<open>sint\<close> where the code
  reads them as signed. Names are strings (\<open>None\<close> is a null pointer), not addresses.
\<close>

record asm_operand =
  otype :: u_int
  ocontent :: u_int
  regset :: u_int
  imm :: u_int
  baser :: u_int
  indexr :: u_int
  address_space :: u_int
  oname :: "string option"
  sbaser :: "string option"
  sindex :: "string option"

text \<open>What \<open>ptr_instr\<close> points to: nothing, the bytes the caller gave, or the local variable in
  which the fetch function converts them.\<close>

datatype code_ptr = Ptr_Null | Ptr_Caller | Ptr_Local

record asm_instr =
  ptr_instr :: code_ptr
  instr :: nat
  itype :: u_int
  spdiff :: u_int
  flagswritten :: u_int
  flagsread :: u_int
  annul :: u_int
  prediction :: u_int
  nb_op :: nat
  op :: "asm_operand list"
  ilen :: nat
  arith :: u_int

text \<open>The structure after \<open>memset(instr, 0, sizeof (asm_instr))\<close>.\<close>

definition zero_operand :: asm_operand where
  "zero_operand = \<lparr>otype = 0, ocontent = 0, regset = 0, imm = 0, baser = 0, indexr = 0, address_space = 0,
     oname = None, sbaser = None, sindex = None\<rparr>"

definition zero_instr :: asm_instr where
  "zero_instr = \<lparr>ptr_instr = Ptr_Null, instr = 0, itype = 0, spdiff = 0, flagswritten = 0, flagsread = 0, annul = 0, prediction = 0,
     nb_op = 0, op = replicate 6 zero_operand, ilen = 0, arith = 0\<rparr>"

text \<open>\<open>Exit\<close> is a call of \<open>exit\<close>, \<open>Short_Buffer\<close> a read past the bytes given to the decoder,
  \<open>Bad_Dispatch\<close> a coordinate outside a vector or a table.\<close>

datatype asm_error = Exit | Short_Buffer | Bad_Dispatch

type_synonym asm_result = "asm_error + int \<times> asm_instr"

definition CONFIG_ASM_LITTLE_ENDIAN :: nat where "CONFIG_ASM_LITTLE_ENDIAN = 0"
definition CONFIG_ASM_BIG_ENDIAN :: nat where "CONFIG_ASM_BIG_ENDIAN = 1"

subsection \<open>Instruction types\<close>

definition ASM_TYPE_NONE :: u_int where "ASM_TYPE_NONE = 0x0"
definition ASM_TYPE_BRANCH :: u_int where "ASM_TYPE_BRANCH = 0x1"
definition ASM_TYPE_CALLPROC :: u_int where "ASM_TYPE_CALLPROC = 0x2"
definition ASM_TYPE_RETPROC :: u_int where "ASM_TYPE_RETPROC = 0x4"
definition ASM_TYPE_ARITH :: u_int where "ASM_TYPE_ARITH = 0x8"
definition ASM_TYPE_LOAD :: u_int where "ASM_TYPE_LOAD = 0x10"
definition ASM_TYPE_STORE :: u_int where "ASM_TYPE_STORE = 0x20"
definition ASM_TYPE_ARCH :: u_int where "ASM_TYPE_ARCH = 0x40"
definition ASM_TYPE_WRITEFLAG :: u_int where "ASM_TYPE_WRITEFLAG = 0x80"
definition ASM_TYPE_READFLAG :: u_int where "ASM_TYPE_READFLAG = 0x100"
definition ASM_TYPE_INT :: u_int where "ASM_TYPE_INT = 0x200"
definition ASM_TYPE_ASSIGN :: u_int where "ASM_TYPE_ASSIGN = 0x400"
definition ASM_TYPE_COMPARISON :: u_int where "ASM_TYPE_COMPARISON = 0x800"
definition ASM_TYPE_CONTROL :: u_int where "ASM_TYPE_CONTROL = 0x1000"
definition ASM_TYPE_NOP :: u_int where "ASM_TYPE_NOP = 0x2000"
definition ASM_TYPE_TOUCHSP :: u_int where "ASM_TYPE_TOUCHSP = 0x4000"
definition ASM_TYPE_BITTEST :: u_int where "ASM_TYPE_BITTEST = 0x8000"
definition ASM_TYPE_BITSET :: u_int where "ASM_TYPE_BITSET = 0x10000"
definition ASM_TYPE_INCDEC :: u_int where "ASM_TYPE_INCDEC = 0x20000"
definition ASM_TYPE_PROLOG :: u_int where "ASM_TYPE_PROLOG = 0x40000"
definition ASM_TYPE_EPILOG :: u_int where "ASM_TYPE_EPILOG = 0x80000"
definition ASM_TYPE_STOP :: u_int where "ASM_TYPE_STOP = 0x100000"
definition ASM_TYPE_IO :: u_int where "ASM_TYPE_IO = 0x200000"
definition ASM_TYPE_CONDCONTROL :: u_int where "ASM_TYPE_CONDCONTROL = 0x400000"
definition ASM_TYPE_INDCONTROL :: u_int where "ASM_TYPE_INDCONTROL = 0x800000"
definition ASM_TYPE_OTHER :: u_int where "ASM_TYPE_OTHER = 0x1000000"

subsection \<open>Assignments\<close>

fun stmts :: "('s \<Rightarrow> 's) list \<Rightarrow> 's \<Rightarrow> 's" where
  "stmts [] s = s"
| "stmts (f # fs) s = stmts fs (f s)"

definition upd_op :: "nat \<Rightarrow> (asm_operand \<Rightarrow> asm_operand) \<Rightarrow> asm_instr \<Rightarrow> asm_instr" where
  "upd_op i f ins = ins\<lparr>op := (op ins)[i := f (op ins ! i)]\<rparr>"

definition set_instr :: "nat \<Rightarrow> asm_instr \<Rightarrow> asm_instr" where
  "set_instr v ins = ins\<lparr>instr := v\<rparr>"

definition set_type :: "u_int \<Rightarrow> asm_instr \<Rightarrow> asm_instr" where
  "set_type v ins = ins\<lparr>itype := v\<rparr>"

text \<open>The assignments to the fields of an operand; the right-hand side is a bit-field of any
  width, extended with zeros.\<close>

definition set_otype :: "nat \<Rightarrow> u_int \<Rightarrow> asm_instr \<Rightarrow> asm_instr" where
  "set_otype i v = upd_op i (\<lambda>p. p\<lparr>otype := v\<rparr>)"

definition set_baser :: "nat \<Rightarrow> 'a::len word \<Rightarrow> asm_instr \<Rightarrow> asm_instr" where
  "set_baser i v = upd_op i (\<lambda>p. p\<lparr>baser := ucast v\<rparr>)"

definition set_imm :: "nat \<Rightarrow> 'a::len word \<Rightarrow> asm_instr \<Rightarrow> asm_instr" where
  "set_imm i v = upd_op i (\<lambda>p. p\<lparr>imm := ucast v\<rparr>)"

definition set_regset :: "nat \<Rightarrow> u_int \<Rightarrow> asm_instr \<Rightarrow> asm_instr" where
  "set_regset i v = upd_op i (\<lambda>p. p\<lparr>regset := v\<rparr>)"

definition set_content :: "nat \<Rightarrow> u_int \<Rightarrow> asm_instr \<Rightarrow> asm_instr" where
  "set_content i v = upd_op i (\<lambda>p. p\<lparr>ocontent := v\<rparr>)"

definition set_indexr :: "nat \<Rightarrow> 'a::len word \<Rightarrow> asm_instr \<Rightarrow> asm_instr" where
  "set_indexr i v = upd_op i (\<lambda>p. p\<lparr>indexr := ucast v\<rparr>)"

definition set_address_space :: "nat \<Rightarrow> 'a::len word \<Rightarrow> asm_instr \<Rightarrow> asm_instr" where
  "set_address_space i v = upd_op i (\<lambda>p. p\<lparr>address_space := ucast v\<rparr>)"

text \<open>\<open>ins->op[i] = ins->op[j]\<close> copies the structure.\<close>

definition copy_op :: "nat \<Rightarrow> nat \<Rightarrow> asm_instr \<Rightarrow> asm_instr" where
  "copy_op i j ins = ins\<lparr>op := (op ins)[i := op ins ! j]\<rparr>"

definition set_nb_op :: "nat \<Rightarrow> asm_instr \<Rightarrow> asm_instr" where
  "set_nb_op v ins = ins\<lparr>nb_op := v\<rparr>"

definition set_arith :: "u_int \<Rightarrow> asm_instr \<Rightarrow> asm_instr" where
  "set_arith v ins = ins\<lparr>arith := v\<rparr>"

definition set_flagswritten :: "u_int \<Rightarrow> asm_instr \<Rightarrow> asm_instr" where
  "set_flagswritten v ins = ins\<lparr>flagswritten := v\<rparr>"

definition set_flagsread :: "u_int \<Rightarrow> asm_instr \<Rightarrow> asm_instr" where
  "set_flagsread v ins = ins\<lparr>flagsread := v\<rparr>"

definition set_annul :: "'a::len word \<Rightarrow> asm_instr \<Rightarrow> asm_instr" where
  "set_annul v ins = ins\<lparr>annul := ucast v\<rparr>"

definition set_prediction :: "'a::len word \<Rightarrow> asm_instr \<Rightarrow> asm_instr" where
  "set_prediction v ins = ins\<lparr>prediction := ucast v\<rparr>"

definition set_ptr_instr :: "code_ptr \<Rightarrow> asm_instr \<Rightarrow> asm_instr" where
  "set_ptr_instr v ins = ins\<lparr>ptr_instr := v\<rparr>"

lemmas asm_steps = set_instr_def set_type_def set_otype_def set_baser_def set_imm_def set_regset_def upd_op_def
  set_content_def set_indexr_def set_address_space_def copy_op_def set_nb_op_def set_arith_def
  set_flagswritten_def set_flagsread_def set_annul_def set_prediction_def set_ptr_instr_def

subsection \<open>Statements\<close>

text \<open>A handler with branches and early returns is a block of statements. A statement ends
  normally, returns from the function, or fails; \<open>run\<close> is the call of the function whose body is
  the block. Reading an element past the end of a table is \<open>Bad_Dispatch\<close>, and so is reaching the
  end of a function that must return a value.\<close>

datatype flow = Next asm_instr | Return int asm_instr | Fault asm_error

type_synonym statement = "asm_instr \<Rightarrow> flow"

fun block :: "statement list \<Rightarrow> statement" where
  "block [] ins = Next ins"
| "block (f # fs) ins = (case f ins of Next ins1 \<Rightarrow> block fs ins1 | r \<Rightarrow> r)"

definition assigns :: "(asm_instr \<Rightarrow> asm_instr) list \<Rightarrow> statement" where
  "assigns fs ins = Next (stmts fs ins)"

definition test :: "(asm_instr \<Rightarrow> bool) \<Rightarrow> statement \<Rightarrow> statement \<Rightarrow> statement" where
  "test c f g ins = (if c ins then f ins else g ins)"

definition instr_from :: "nat list \<Rightarrow> 'a::len word \<Rightarrow> statement" where
  "instr_from table i ins =
     (if unat i < length table then Next (set_instr (table ! unat i) ins) else Fault Bad_Dispatch)"

definition return :: "int \<Rightarrow> statement" where
  "return v ins = Return v ins"

definition run :: "statement list \<Rightarrow> asm_instr \<Rightarrow> asm_result" where
  "run fs ins = (case block fs ins of
     Next _ \<Rightarrow> Inl Bad_Dispatch | Return v ins1 \<Rightarrow> Inr (v, ins1) | Fault e \<Rightarrow> Inl e)"

subsection \<open>Processors\<close>

text \<open>\<open>asm_processor\<close>: the architecture, the mode of the IA-32 internals and the decoder, a
  function pointer that may be NULL. \<open>asm_read_instr\<close> of \<open>generic.c\<close> clears the structure and
  calls it on the bytes from the instruction on and the length the caller gives.\<close>

definition ASM_PROC_IA32 :: nat where "ASM_PROC_IA32 = 0"
definition ASM_PROC_SPARC :: nat where "ASM_PROC_SPARC = 1"
definition ASM_PROC_MIPS :: nat where "ASM_PROC_MIPS = 2"
definition ASM_PROC_ARM :: nat where "ASM_PROC_ARM = 3"

definition INTEL_REAL :: nat where "INTEL_REAL = 0"
definition INTEL_PROT :: nat where "INTEL_PROT = 1"

record asm_processor =
  proc_type :: nat
  proc_mode :: nat
  proc_fetch :: "(u_char list \<Rightarrow> u_int \<Rightarrow> asm_instr \<Rightarrow> asm_result) option"

definition asm_read_instr :: "u_char list \<Rightarrow> u_int \<Rightarrow> asm_processor \<Rightarrow> asm_result" where
  "asm_read_instr buf len proc = (case proc_fetch proc of
     None \<Rightarrow> Inl Bad_Dispatch
   | Some fetch \<Rightarrow> fetch buf len zero_instr)"

definition asm_instr_len :: "asm_instr \<Rightarrow> nat" where
  "asm_instr_len ins = ilen ins"

text \<open>\<open>asm_operand_get_immediate\<close> with the number of an operand from 1 to 3; -1 leaves the
  caller's variable as it is.\<close>

definition asm_operand_get_immediate :: "asm_instr \<Rightarrow> nat \<Rightarrow> u_int option" where
  "asm_operand_get_immediate ins num = (if num \<in> {1, 2, 3} then Some (imm (op ins ! (num - 1))) else None)"

text \<open>The targets of IA-32 and ARM control transfers (\<open>init_i386.c\<close>, \<open>init_arm.c\<close>).\<close>

definition asm_dest_resolve :: "asm_processor \<Rightarrow> eresi_Addr \<Rightarrow> u_int \<Rightarrow> eresi_Addr" where
  "asm_dest_resolve proc addr shift =
     (if proc_mode proc = INTEL_REAL
      then (let off = ucast ((addr AND 0xFFFF) + shift) :: 16 word in (addr AND 0xFFFF0000) + ucast off)
      else addr + shift)"

definition asm_dest_resolve_arm :: "eresi_Addr \<Rightarrow> u_int \<Rightarrow> bool \<Rightarrow> eresi_Addr" where
  "asm_dest_resolve_arm addr disp half =
     (let off = (if disp AND 0x0800000 \<noteq> 0 then disp OR 0xFF000000 else disp);
          off = push_bit 2 off;
          off = (if half then off OR 0x02 else off)
      in addr + (off + 8))"


subsection \<open>Numbers and bytes\<close>

text \<open>The conversion \<open>%d\<close>, and the big-endian bytes of an instruction word.\<close>

definition fmt_d :: "int \<Rightarrow> string" where
  "fmt_d i = (if i < 0 then CHR ''-'' # fmt_u (nat (- i)) else fmt_u (nat i))"

definition be_bytes :: "u_int \<Rightarrow> u_char list" where
  "be_bytes w = [ucast (drop_bit 24 w), ucast (drop_bit 16 w), ucast (drop_bit 8 w), ucast w]"

lemma le32_be_bytes: "le32 (rev (be_bytes w)) = w"
proof (rule bit_word_eqI)
  fix n assume "n < LENGTH(32)"
  then consider "n < 8" | "8 \<le> n" "n < 16" | "16 \<le> n" "n < 24" | "24 \<le> n" "n < 32" by fastforce
  then show "bit (le32 (rev (be_bytes w))) n = bit w n"
    by cases (auto simp: be_bytes_def le32_def bit_simps)
qed

lemma unat_and_le: "unat (w AND m :: u_int) \<le> unat m"
  by (metis word_and_le1 word_le_nat_alt)

lemma unat_drop_and_le: "unat (drop_bit n (w AND m) :: u_int) \<le> unat m div 2 ^ n"
proof -
  have "unat (drop_bit n (w AND m)) = unat (w AND m) div 2 ^ n"
    by (simp only: unat_drop_bit_eq drop_bit_eq_div [where 'a = nat])
  then show ?thesis by (simp add: div_le_mono unat_and_le)
qed

subsection \<open>Registration of handlers\<close>

text \<open>A sequence of registrations in a vector: the handler of the coordinates \<open>ds ! i\<close> is the
  function at the address \<open>a + i\<close>.\<close>

fun register_at :: "nat list list \<Rightarrow> ptr \<Rightarrow> vector_t \<Rightarrow> vector_t option" where
  "register_at [] a vec = Some vec"
| "register_at (d # ds) a vec = Option.bind (aspect_vectors_insert vec d a) (register_at ds (a + 1))"

definition row_pairs :: "ptr \<Rightarrow> nat list list \<Rightarrow> (nat list \<times> ptr) list" where
  "row_pairs a ds = zip ds [a..<a + length ds]"

lemma row_pairs_simps [simp]:
  "row_pairs a [] = []" "row_pairs a (d # ds) = (d, a) # row_pairs (a + 1) ds"
  by (simp_all add: row_pairs_def upt_conv_Cons [of a "Suc (a + length ds)"] del: upt_Suc)

lemma register_at_upd_all:
  "list_all (\<lambda>d. length d = arraysz vec) ds \<Longrightarrow>
    register_at ds a vec = map_option (\<lambda>hk. vec\<lparr>vhook := hk\<rparr>) (hook_array.upd_all (vhook vec) (row_pairs a ds))"
proof (induction ds arbitrary: a vec)
  case (Cons d ds)
  then show ?case
    by (cases "hook_insert (vhook vec) d a") (simp_all add: aspect_vectors_insert_def)
qed simp

text \<open>In a fresh vector whose default handler is at 1, the last registration for a coordinate wins
  and the default stays everywhere else.\<close>

lemma register_at_fresh:
  assumes "dims \<noteq> []" "list_all (in_dims dims) ds" "in_dims dims z"
  obtains u where "register_at ds 2 (make_vector 1 dims strd (length dims)) = Some u"
    "\<forall>idx. in_dims dims idx \<longrightarrow> aspect_vectors_select u idx =
       Some (case map_of (rev (row_pairs 2 ds)) idx of Some f \<Rightarrow> f | None \<Rightarrow> 1)"
proof -
  let ?v = "make_vector 1 dims strd (length dims)"
  have ok: "vector_ok ?v" and def: "\<And>idx. in_dims dims idx \<Longrightarrow> aspect_vectors_select ?v idx = Some 1"
    using make_vector_ok [OF assms(1)] by simp_all
  have sz: "arraysz ?v = length dims" "arraydims ?v = dims" by (simp_all add: make_vector_def Let_def)
  have sh: "shaped dims (vhook ?v)" using ok sz by (simp add: vector_ok_def)
  have len: "length idx = length dims" if "in_dims dims idx" for idx
    using that by (auto simp: in_dims_def dest: list_all2_lengthD)
  have rows: "\<forall>(idx, f)\<in>set (row_pairs 2 ds). in_dims dims idx"
    using assms(2) by (auto simp: row_pairs_def list_all_iff dest: set_zip_leftD)
  have sel: "aspect_vectors_select u idx = hook_select (vhook u) idx"
    if "arraysz u = length dims" "in_dims dims idx" for u idx
    using that len by (simp add: aspect_vectors_select_def)
  obtain hk where hk: "hook_array.upd_all (vhook ?v) (row_pairs 2 ds) = Some hk"
    using hook_array.upd_all_sel [OF sh rows assms(3)] by blast
  let ?u = "?v\<lparr>vhook := hk\<rparr>"
  have "list_all (\<lambda>d. length d = arraysz ?v) ds" using assms(2) len sz by (simp add: list_all_iff)
  then have reg: "register_at ds 2 ?v = Some ?u" using hk by (simp add: register_at_upd_all)
  have "aspect_vectors_select ?u idx = Some (case map_of (rev (row_pairs 2 ds)) idx of Some f \<Rightarrow> f | None \<Rightarrow> 1)"
    if d: "in_dims dims idx" for idx
  proof -
    have "hook_select hk idx = (case map_of (rev (row_pairs 2 ds)) idx of
        Some f \<Rightarrow> Some f | None \<Rightarrow> hook_select (vhook ?v) idx)"
      using hook_array.upd_all_sel [OF sh rows d] hk by auto
    then show ?thesis using def [OF d] sel [of ?u, OF _ d] sel [of ?v, OF _ d] sz(1)
      by (simp split: option.splits)
  qed
  with reg that show thesis by blast
qed

lemma find_snoc:
  "find P (xs @ [x]) = (case find P xs of None \<Rightarrow> if P x then Some x else None | Some y \<Rightarrow> Some y)"
  by (induction xs) auto

text \<open>The address found belongs to the last row with these coordinates.\<close>

lemma map_of_row_pairs:
  "case map_of (rev (row_pairs a (map g es))) dims of
     None \<Rightarrow> find (\<lambda>e. g e = dims) (rev es) = None
   | Some f \<Rightarrow> a \<le> f \<and> f < a + length es \<and> find (\<lambda>e. g e = dims) (rev es) = Some (es ! (f - a))"
proof (induction es arbitrary: a)
  case (Cons e es)
  show ?case
    using Cons.IH [of "a + 1"]
    by (auto simp: map_add_def find_snoc nth_Cons' Suc_le_eq split: option.splits simp del: split_paired_Ex)
qed simp

subsection \<open>Registers in range\<close>

text \<open>Every operand names one of the \<open>n\<close> registers of its architecture.\<close>

definition regs_below :: "nat \<Rightarrow> asm_instr \<Rightarrow> bool" where
  "regs_below n ins \<longleftrightarrow> length (op ins) = 6 \<and> (\<forall>p\<in>set (op ins). unat (baser p) < n)"

definition keeps_regs :: "nat \<Rightarrow> (asm_instr \<Rightarrow> asm_instr) \<Rightarrow> bool" where
  "keeps_regs n f \<longleftrightarrow> (\<forall>ins. regs_below n ins \<longrightarrow> regs_below n (f ins))"

lemma upd_op_keeps:
  assumes "\<And>p. unat (baser p) < n \<Longrightarrow> unat (baser (f p)) < n"
  shows "keeps_regs n (upd_op i f)"
  unfolding keeps_regs_def
proof (intro allI impI)
  fix ins assume h: "regs_below n ins"
  show "regs_below n (upd_op i f ins)"
  proof (cases "i < length (op ins)")
    case True
    then have "op ins ! i \<in> set (op ins)" by simp
    then have "unat (baser (f (op ins ! i))) < n" using h assms by (auto simp: regs_below_def)
    then show ?thesis
      using h by (auto simp: regs_below_def upd_op_def dest!: set_update_subset_insert [THEN subsetD])
  next
    case False
    then have "upd_op i f ins = ins" by (simp add: upd_op_def list_update_beyond)
    then show ?thesis using h by simp
  qed
qed

lemma unat_ucast_below:
  fixes v :: "'a::len word"
  shows "unat (ucast v :: u_int) < 2 ^ LENGTH('a)"
proof -
  have "unat (ucast v :: u_int) \<le> unat v" by (simp add: unsigned_ucast_eq take_bit_nat_less_eq_self)
  then show ?thesis using unsigned_less [of v, where ?'a = nat] by (simp add: le_less_trans)
qed

lemma set_baser_keeps:
  fixes v :: "'a::len word"
  assumes "2 ^ LENGTH('a) \<le> n"
  shows "keeps_regs n (set_baser i v)"
proof -
  have "unat (ucast v :: u_int) < n" using unat_ucast_below [of v] assms by (rule less_le_trans)
  then show ?thesis by (simp add: set_baser_def upd_op_keeps)
qed

lemma steps_keep [simp]:
  "keeps_regs n (set_instr k)" "keeps_regs n (set_type t)" "keeps_regs n (set_otype i t)"
  "keeps_regs n (set_imm i w)" "keeps_regs n (set_regset i t)"
  by (simp_all add: set_otype_def set_imm_def set_regset_def upd_op_keeps)
    (simp_all add: keeps_regs_def regs_below_def set_instr_def set_type_def)

lemma stmts_keep: "list_all (keeps_regs n) fs \<Longrightarrow> regs_below n ins \<Longrightarrow> regs_below n (stmts fs ins)"
  by (induction fs arbitrary: ins) (auto simp: keeps_regs_def)

lemma zero_instr_regs: "0 < n \<Longrightarrow> regs_below n zero_instr"
  by (simp add: regs_below_def zero_instr_def zero_operand_def)

end
