(* ===== verification/Elfsym.thy ===== *)
theory Elfsym
  imports Prelude
begin

text \<open>
  The symbol tables of an ELF object (\<open>libelfsh\<close>: \<open>symbol.c\<close>, \<open>sym_common.c\<close>, \<open>dynsym.c\<close>,
  \<open>strtab.c\<close>, \<open>sort.c\<close>, and what they use of \<open>section.c\<close>, \<open>plt.c\<close>, \<open>reloc.c\<close> and
  \<open>fixup.c\<close>).

  A section keeps its bytes; a symbol table is the array of 16-byte structures in them, a
  string table the NUL-terminated strings. A section pointer is the position of the section
  in the list of the object. The tables are taken as loaded (\<open>secthash\<close> is filled when a
  table is first asked for, which reads the file) and the mode is static, so addresses are
  not rebased and \<open>elfsh_readmem\<close> gives the cached bytes. The tables \<open>symhash\<close> and
  \<open>dynsymhash\<close> stay empty, because \<open>elfsh_init_symbol_hashtables\<close> returns at once, so their
  updates do nothing. A read or a write outside a buffer is the error \<open>Fault\<close>.
\<close>

subsection \<open>Symbols in memory\<close>

record elfsh_Sym =
  st_name :: u_int
  st_value :: eresi_Addr
  st_size :: u_int
  st_info :: u_char
  st_other :: u_char
  st_shndx :: "16 word"

definition ELFSH_SYMTAB_ENTRY_SIZE :: nat where "ELFSH_SYMTAB_ENTRY_SIZE = 16"

definition bytes32 :: "u_int \<Rightarrow> u_char list" where
  "bytes32 w = [ucast w, ucast (drop_bit 8 w), ucast (drop_bit 16 w), ucast (drop_bit 24 w)]"

definition bytes16 :: "16 word \<Rightarrow> u_char list" where
  "bytes16 w = [ucast w, ucast (drop_bit 8 w)]"

definition le16 :: "u_char list \<Rightarrow> 16 word" where
  "le16 bs = ucast (bs ! 0) OR push_bit 8 (ucast (bs ! 1))"

definition sym_bytes :: "elfsh_Sym \<Rightarrow> u_char list" where
  "sym_bytes s = bytes32 (st_name s) @ bytes32 (st_value s) @ bytes32 (st_size s) @
     [st_info s, st_other s] @ bytes16 (st_shndx s)"

definition read_sym :: "u_char list \<Rightarrow> elfsh_Sym" where
  "read_sym bs = \<lparr>st_name = le32 bs, st_value = le32 (drop 4 bs), st_size = le32 (drop 8 bs),
     st_info = bs ! 12, st_other = bs ! 13, st_shndx = le16 (drop 14 bs)\<rparr>"

text \<open>\<open>Overlap\<close> is a \<open>memcpy\<close> between areas that overlap, which C leaves undefined.\<close>

datatype elf_error = Fault | Not_Loaded | Overlap

type_synonym 'a elf_result = "elf_error + 'a"

text \<open>The first \<open>n\<close> entries of a table, and a store of bytes at an offset.\<close>

definition read_syms :: "nat \<Rightarrow> u_char list \<Rightarrow> elfsh_Sym list elf_result" where
  "read_syms n d = (if ELFSH_SYMTAB_ENTRY_SIZE * n \<le> length d
     then Inr (map (\<lambda>i. read_sym (drop (ELFSH_SYMTAB_ENTRY_SIZE * i) d)) [0..<n]) else Inl Fault)"

definition poke :: "nat \<Rightarrow> u_char list \<Rightarrow> u_char list \<Rightarrow> u_char list elf_result" where
  "poke off bs d = (if off + length bs \<le> length d
     then Inr (take off d @ bs @ drop (off + length bs) d) else Inl Fault)"

definition cstring :: "nat \<Rightarrow> u_char list \<Rightarrow> u_char list elf_result" where
  "cstring off d = (if 0 \<in> set (drop off d) then Inr (takeWhile (\<lambda>b. b \<noteq> 0) (drop off d)) else Inl Fault)"

definition str_bytes :: "string \<Rightarrow> u_char list" where
  "str_bytes s = map of_char s"

definition bytes_str :: "u_char list \<Rightarrow> string" where
  "bytes_str bs = map (\<lambda>b. char_of (unat b)) bs"

subsection \<open>Fields of a symbol\<close>

text \<open>The getters and setters of \<open>sym_common.c\<close>, for a symbol that is not NULL.\<close>

definition elfsh_get_symbol_size :: "elfsh_Sym \<Rightarrow> u_int" where
  "elfsh_get_symbol_size s = st_size s"

definition elfsh_set_symbol_size :: "elfsh_Sym \<Rightarrow> eresi_Addr \<Rightarrow> elfsh_Sym" where
  "elfsh_set_symbol_size s sz = s\<lparr>st_size := sz\<rparr>"

definition elfsh_get_symbol_value :: "elfsh_Sym \<Rightarrow> eresi_Addr" where
  "elfsh_get_symbol_value s = st_value s"

definition elfsh_set_symbol_value :: "elfsh_Sym \<Rightarrow> eresi_Addr \<Rightarrow> elfsh_Sym" where
  "elfsh_set_symbol_value s v = s\<lparr>st_value := v\<rparr>"

definition elfsh_get_symbol_bind :: "elfsh_Sym \<Rightarrow> u_char" where
  "elfsh_get_symbol_bind s = drop_bit 4 (st_info s)"

definition elfsh_set_symbol_bind :: "elfsh_Sym \<Rightarrow> eresi_Addr \<Rightarrow> elfsh_Sym" where
  "elfsh_set_symbol_bind s opt =
     s\<lparr>st_info := (st_info s AND 0x0F) + (push_bit 4 (ucast opt) AND 0xF0)\<rparr>"

definition elfsh_get_symbol_type :: "elfsh_Sym \<Rightarrow> u_char" where
  "elfsh_get_symbol_type s = st_info s AND 0x0F"

definition elfsh_set_symbol_type :: "elfsh_Sym \<Rightarrow> eresi_Addr \<Rightarrow> elfsh_Sym" where
  "elfsh_set_symbol_type s t = s\<lparr>st_info := (st_info s AND 0xF0) + (ucast t AND 0x0F)\<rparr>"

definition elfsh_get_symbol_visibility :: "elfsh_Sym \<Rightarrow> u_char" where
  "elfsh_get_symbol_visibility s = st_other s AND 0x03"

definition elfsh_set_symbol_visibility :: "elfsh_Sym \<Rightarrow> eresi_Addr \<Rightarrow> elfsh_Sym" where
  "elfsh_set_symbol_visibility s v = s\<lparr>st_other := ucast v AND 0x03\<rparr>"

definition elfsh_get_symbol_link :: "elfsh_Sym \<Rightarrow> u_int" where
  "elfsh_get_symbol_link s = ucast (st_shndx s)"

definition elfsh_set_symbol_link :: "elfsh_Sym \<Rightarrow> eresi_Addr \<Rightarrow> elfsh_Sym" where
  "elfsh_set_symbol_link s v = s\<lparr>st_shndx := ucast v\<rparr>"

definition elfsh_create_symbol :: "eresi_Addr \<Rightarrow> u_int \<Rightarrow> u_int \<Rightarrow> u_int \<Rightarrow> u_int \<Rightarrow> u_int \<Rightarrow> elfsh_Sym" where
  "elfsh_create_symbol v sz type binding vis sctidx =
     \<lparr>st_name = 0, st_value = v, st_size = sz, st_info = ucast (push_bit 4 binding + (type AND 0xF)),
      st_other = ucast vis, st_shndx = ucast sctidx\<rparr>"

definition STT_OBJECT :: u_char where "STT_OBJECT = 1"
definition STT_FUNC :: u_char where "STT_FUNC = 2"
definition STT_SECTION :: u_char where "STT_SECTION = 3"
definition STT_COMMON :: u_char where "STT_COMMON = 5"
definition STT_BLOCK :: u_char where "STT_BLOCK = 7"
definition STB_LOCAL :: u_int where "STB_LOCAL = 0"

definition DUMPABLE :: "elfsh_Sym \<Rightarrow> bool" where
  "DUMPABLE s \<longleftrightarrow> elfsh_get_symbol_type s \<in> {STT_FUNC, STT_OBJECT, STT_COMMON, STT_SECTION, STT_BLOCK}"

definition BESTYPE :: "elfsh_Sym \<Rightarrow> elfsh_Sym \<Rightarrow> bool" where
  "BESTYPE cand best \<longleftrightarrow>
     (let tc = elfsh_get_symbol_type cand; tb = elfsh_get_symbol_type best in
      tc = STT_FUNC \<or> (tc = STT_SECTION \<and> tb \<noteq> STT_FUNC) \<or>
      (tc = STT_BLOCK \<and> tb \<noteq> STT_FUNC \<and> tb \<noteq> STT_SECTION))"

subsection \<open>Sections and objects\<close>

definition SHT_SYMTAB :: u_int where "SHT_SYMTAB = 2"
definition SHT_DYNSYM :: u_int where "SHT_DYNSYM = 11"

record elfshsect_t =
  sect_name :: string
  sindex :: nat
  sh_type :: u_int
  sh_addr :: eresi_Addr
  sh_offset :: u_int
  sh_size :: u_int
  runtime :: bool
  sect_data :: "u_char list option"
  altdata :: "elfsh_Sym list option"
  terdata :: "elfsh_Sym list option"
  curend :: u_int

datatype section_id = ELFSH_SECTION_SYMTAB | ELFSH_SECTION_STRTAB | ELFSH_SECTION_DYNSYM |
  ELFSH_SECTION_DYNSTR | ELFSH_SECTION_PLT | ELFSH_SECTION_INIT | ELFSH_SECTION_FINI

record elfshobj_t =
  obj_name :: string
  objid :: nat
  rdonly :: bool
  e_machine :: nat
  solaris :: bool
  e_shoff :: u_int
  sectlist :: "elfshsect_t list"
  rsectlist :: "elfshsect_t list"
  secthash :: "section_id \<Rightarrow> nat option"

definition get_sect :: "elfshobj_t \<Rightarrow> section_id \<Rightarrow> (nat \<times> elfshsect_t) elf_result" where
  "get_sect ob sid = (case secthash ob sid of
     None \<Rightarrow> Inl Not_Loaded
   | Some i \<Rightarrow> if i < length (sectlist ob) then Inr (i, sectlist ob ! i) else Inl Fault)"

definition upd_sect :: "nat \<Rightarrow> (elfshsect_t \<Rightarrow> elfshsect_t) \<Rightarrow> elfshobj_t \<Rightarrow> elfshobj_t" where
  "upd_sect i f ob = ob\<lparr>sectlist := (sectlist ob)[i := f (sectlist ob ! i)]\<rparr>"

definition the_data :: "elfshsect_t \<Rightarrow> u_char list elf_result" where
  "the_data s = (case sect_data s of None \<Rightarrow> Inl Fault | Some d \<Rightarrow> Inr d)"

definition INTERVAL :: "u_int \<Rightarrow> u_int \<Rightarrow> u_int \<Rightarrow> bool" where
  "INTERVAL a b c \<longleftrightarrow> a \<le> b \<and> b < c"

definition elfsh_get_parent_section :: "elfshobj_t \<Rightarrow> eresi_Addr \<Rightarrow> elfshsect_t option" where
  "elfsh_get_parent_section ob v =
     (case find (\<lambda>s. INTERVAL (sh_addr s) v (sh_addr s + sh_size s)) (sectlist ob) of
        Some s \<Rightarrow> Some s
      | None \<Rightarrow> find (\<lambda>s. INTERVAL (sh_addr s) v (sh_addr s + sh_size s)) (rsectlist ob))"

text \<open>\<open>elfsh_get_section_by_type\<close> for the first section of a type, as a position in the
  list. The second search, meant for the runtime sections, is over the same list.\<close>

fun find_index :: "('a \<Rightarrow> bool) \<Rightarrow> 'a list \<Rightarrow> nat option" where
  "find_index p [] = None"
| "find_index p (x # xs) = (if p x then Some 0 else map_option Suc (find_index p xs))"

definition elfsh_get_section_by_type :: "elfshobj_t \<Rightarrow> u_int \<Rightarrow> nat option" where
  "elfsh_get_section_by_type ob t =
     (case find_index (\<lambda>s. sh_type s = t) (sectlist ob) of
        Some i \<Rightarrow> Some i
      | None \<Rightarrow> if rsectlist ob \<noteq> [] then find_index (\<lambda>s. sh_type s = t) (sectlist ob) else None)"

definition elfsh_get_section_by_name :: "elfshobj_t \<Rightarrow> string \<Rightarrow> elfshsect_t option" where
  "elfsh_get_section_by_name ob nm =
     (case find (\<lambda>s. sect_name s = nm) (sectlist ob) of
        Some s \<Rightarrow> Some s
      | None \<Rightarrow> find (\<lambda>s. sect_name s = nm) (rsectlist ob))"

subsection \<open>Reading the tables\<close>

text \<open>The data of a symbol table, NULL or not, and the number of its entries.\<close>

definition elfsh_get_symtab :: "elfshobj_t \<Rightarrow> (u_char list option \<times> nat) elf_result" where
  "elfsh_get_symtab ob = rbind (get_sect ob ELFSH_SECTION_SYMTAB) (\<lambda>(i, s).
     Inr (sect_data s, unat (curend s) div ELFSH_SYMTAB_ENTRY_SIZE))"

text \<open>An object without dynamic symbols has no section in \<open>secthash\<close>; the caller's counter
  is 0 then.\<close>

definition elfsh_get_dynsymtab :: "elfshobj_t \<Rightarrow> (u_char list option \<times> nat) elf_result" where
  "elfsh_get_dynsymtab ob =
     (if secthash ob ELFSH_SECTION_DYNSYM = None then Inr (None, 0)
      else rbind (get_sect ob ELFSH_SECTION_DYNSYM) (\<lambda>(i, s).
        Inr (sect_data s, unat (if curend s \<noteq> 0 then curend s else sh_size s) div ELFSH_SYMTAB_ENTRY_SIZE)))"

text \<open>The entries the search loops visit: none when the table is NULL.\<close>

definition tab_syms :: "u_char list option \<times> nat \<Rightarrow> elfsh_Sym list elf_result" where
  "tab_syms t = (case t of (None, n) \<Rightarrow> Inr [] | (Some d, n) \<Rightarrow> read_syms n d)"

definition elfsh_get_symbol_name :: "elfshobj_t \<Rightarrow> elfsh_Sym \<Rightarrow> u_char list elf_result" where
  "elfsh_get_symbol_name ob s = rbind (get_sect ob ELFSH_SECTION_STRTAB) (\<lambda>(i, sect).
     case sect_data sect of
       None \<Rightarrow> Inr (str_bytes ''<unreadable>'')
     | Some d \<Rightarrow> if st_name s > sh_size sect then Inr (str_bytes ''<corrupted>'')
                 else cstring (unat (st_name s)) d)"

definition elfsh_get_dynsymbol_name :: "elfshobj_t \<Rightarrow> elfsh_Sym \<Rightarrow> u_char list elf_result" where
  "elfsh_get_dynsymbol_name ob s = rbind (get_sect ob ELFSH_SECTION_DYNSTR) (\<lambda>(i, sect).
     rbind (the_data sect) (\<lambda>d. cstring (unat (st_name s)) d))"

fun find_name :: "(elfsh_Sym \<Rightarrow> u_char list elf_result) \<Rightarrow> u_char list \<Rightarrow> nat \<Rightarrow> elfsh_Sym list \<Rightarrow>
    nat option elf_result" where
  "find_name name_of nm idx [] = Inr None"
| "find_name name_of nm idx (s # ss) = rbind (name_of s) (\<lambda>actual.
     if actual = nm then Inr (Some idx) else find_name name_of nm (Suc idx) ss)"

definition elfsh_get_symbol_by_name :: "elfshobj_t \<Rightarrow> string \<Rightarrow> nat option elf_result" where
  "elfsh_get_symbol_by_name ob name = rbind (elfsh_get_symtab ob) (\<lambda>t. rbind (tab_syms t) (\<lambda>syms.
     find_name (elfsh_get_symbol_name ob) (str_bytes name) 0 syms))"

definition elfsh_get_dynsymbol_by_name :: "elfshobj_t \<Rightarrow> string \<Rightarrow> nat option elf_result" where
  "elfsh_get_dynsymbol_by_name ob name = rbind (elfsh_get_dynsymtab ob) (\<lambda>t. rbind (tab_syms t) (\<lambda>syms.
     find_name (elfsh_get_dynsymbol_name ob) (str_bytes name) 0 syms))"

text \<open>\<open>elfsh_get_metasym_by_name\<close>: a position in the dynamic table (True) or in the other.\<close>

definition elfsh_get_metasym_by_name :: "elfshobj_t \<Rightarrow> string \<Rightarrow> (bool \<times> nat) option elf_result" where
  "elfsh_get_metasym_by_name ob name = rbind (elfsh_get_dynsymbol_by_name ob name) (\<lambda>r.
     case r of
       Some i \<Rightarrow> Inr (Some (True, i))
     | None \<Rightarrow> rbind (elfsh_get_symbol_by_name ob name) (\<lambda>q. Inr (map_option (Pair False) q)))"

text \<open>Search by value. The offset is what \<open>*off\<close> is set to; None when it is left alone.\<close>

definition ELFSH_UNSET_OFFSET :: u_int where "ELFSH_UNSET_OFFSET = 0x40000000"

datatype sym_mode = ELFSH_LOWSYM | ELFSH_HIGHSYM | ELFSH_EXACTSYM

fun value_scan :: "eresi_Addr \<Rightarrow> nat \<Rightarrow> (nat option \<times> u_int) \<Rightarrow> (nat option \<times> u_int) \<Rightarrow> nat option \<Rightarrow> elfsh_Sym list \<Rightarrow>
    (nat option \<times> u_int) \<times> (nat option \<times> u_int) \<times> nat option" where
  "value_scan v idx low high good [] = (low, high, good)"
| "value_scan v idx low high good (s # ss) =
     (if st_value s < v \<and> v - st_value s < snd low
      then value_scan v (Suc idx) (Some idx, v - st_value s) high good ss
      else if st_value s > v \<and> st_value s - v < snd high
      then value_scan v (Suc idx) low (Some idx, st_value s - v) good ss
      else if st_value s = v then value_scan v (Suc idx) low high (Some idx) ss
      else value_scan v (Suc idx) low high good ss)"

definition elfsh_get_sym_by_value :: "elfsh_Sym list \<Rightarrow> eresi_Addr \<Rightarrow> sym_mode \<Rightarrow> nat option \<times> u_int option" where
  "elfsh_get_sym_by_value syms v mode =
     (if syms = [] then (None, None)
      else (let (low, high, good) = value_scan v 0 (None, ELFSH_UNSET_OFFSET) (None, ELFSH_UNSET_OFFSET) None syms in
        if good \<noteq> None then (good, Some 0)
        else case mode of
          ELFSH_LOWSYM \<Rightarrow> (fst low, Some (snd low))
        | ELFSH_HIGHSYM \<Rightarrow> (fst high, Some (snd high))
        | ELFSH_EXACTSYM \<Rightarrow> (None, None)))"

definition elfsh_get_symbol_by_value :: "elfshobj_t \<Rightarrow> eresi_Addr \<Rightarrow> sym_mode \<Rightarrow> (nat option \<times> u_int option) elf_result" where
  "elfsh_get_symbol_by_value ob v mode = rbind (elfsh_get_symtab ob) (\<lambda>t. rbind (tab_syms t) (\<lambda>syms.
     Inr (elfsh_get_sym_by_value syms v mode)))"

definition elfsh_get_dynsymbol_by_value :: "elfshobj_t \<Rightarrow> eresi_Addr \<Rightarrow> sym_mode \<Rightarrow> (nat option \<times> u_int option) elf_result" where
  "elfsh_get_dynsymbol_by_value ob v mode = rbind (elfsh_get_dynsymtab ob) (\<lambda>t. rbind (tab_syms t) (\<lambda>syms.
     Inr (elfsh_get_sym_by_value syms v mode)))"

definition elfsh_get_metasym_by_value :: "elfshobj_t \<Rightarrow> eresi_Addr \<Rightarrow> sym_mode \<Rightarrow>
    (bool \<times> nat option \<times> u_int option) elf_result" where
  "elfsh_get_metasym_by_value ob v mode = rbind (elfsh_get_dynsymbol_by_value ob v mode) (\<lambda>(q, off).
     if q \<noteq> None then Inr (True, q, off)
     else rbind (elfsh_get_symbol_by_value ob v mode) (\<lambda>(q', off').
       Inr (False, q', if off' = None then off else off')))"

subsection \<open>Sorted copies\<close>

text \<open>\<open>qsort\<close> with a comparison by one field. The order of equal elements is not specified by
  the library; here they keep their order, as in the merge sort of the C library.\<close>

datatype sort_mode = ELFSH_SORT_BY_ADDR | ELFSH_SORT_BY_SIZE

definition sizesort_compare :: "elfsh_Sym \<Rightarrow> elfsh_Sym \<Rightarrow> int" where
  "sizesort_compare p q = (if st_size p < st_size q then -1 else if st_size p > st_size q then 1 else 0)"

definition addrsort_compare :: "elfsh_Sym \<Rightarrow> elfsh_Sym \<Rightarrow> int" where
  "addrsort_compare p q = (if st_value p < st_value q then -1 else if st_value p > st_value q then 1 else 0)"

fun insert_by :: "('a \<Rightarrow> 'a \<Rightarrow> int) \<Rightarrow> 'a \<Rightarrow> 'a list \<Rightarrow> 'a list" where
  "insert_by cmp x [] = [x]"
| "insert_by cmp x (y # ys) = (if cmp x y \<le> 0 then x # y # ys else y # insert_by cmp x ys)"

definition qsort :: "('a \<Rightarrow> 'a \<Rightarrow> int) \<Rightarrow> 'a list \<Rightarrow> 'a list" where
  "qsort cmp xs = foldr (insert_by cmp) xs []"

definition elfsh_sort_symtab :: "sort_mode \<Rightarrow> elfsh_Sym list \<Rightarrow> elfsh_Sym list" where
  "elfsh_sort_symtab mode syms = (case mode of
     ELFSH_SORT_BY_SIZE \<Rightarrow> qsort sizesort_compare syms
   | ELFSH_SORT_BY_ADDR \<Rightarrow> qsort addrsort_compare syms)"

definition elfsh_sync_sorted_symtab :: "nat \<Rightarrow> elfshobj_t \<Rightarrow> (int \<times> elfshobj_t) elf_result" where
  "elfsh_sync_sorted_symtab i ob =
     (let s = sectlist ob ! i; nbr = unat (curend s) div ELFSH_SYMTAB_ENTRY_SIZE in
      if sh_type s \<noteq> SHT_SYMTAB \<and> sh_type s \<noteq> SHT_DYNSYM then Inr (-1, ob)
      else if nbr = 0 then Inr (-1, ob)
      else rbind (the_data s) (\<lambda>d. rbind (read_syms nbr d) (\<lambda>syms.
        Inr (0, upd_sect i (\<lambda>s. s\<lparr>altdata := Some (elfsh_sort_symtab ELFSH_SORT_BY_ADDR syms),
                                terdata := Some (elfsh_sort_symtab ELFSH_SORT_BY_SIZE syms)\<rparr>) ob))))"

subsection \<open>Changing the tables\<close>

text \<open>\<open>elfsh_shift_syms\<close>: every symbol from \<open>limit\<close> on is moved.\<close>

definition ELFSH_NOLIMIT :: eresi_Addr where "ELFSH_NOLIMIT = 0"

definition syms_bytes :: "elfsh_Sym list \<Rightarrow> u_char list" where
  "syms_bytes ss = concat (map sym_bytes ss)"

definition elfsh_shift_syms :: "nat \<Rightarrow> eresi_Addr \<Rightarrow> u_int \<Rightarrow> elfshobj_t \<Rightarrow> (int \<times> elfshobj_t) elf_result" where
  "elfsh_shift_syms i limit inc ob =
     (let s = sectlist ob ! i; nbr = unat (sh_size s) div ELFSH_SYMTAB_ENTRY_SIZE in
      case sect_data s of
        None \<Rightarrow> Inr (-1, ob)
      | Some d \<Rightarrow> rbind (read_syms nbr d) (\<lambda>syms.
          let moved = map (\<lambda>y. if st_value y \<ge> limit \<and> limit \<noteq> ELFSH_NOLIMIT
                              then y\<lparr>st_value := st_value y + inc\<rparr> else y) syms
          in rbind (poke 0 (syms_bytes moved) d) (\<lambda>d'.
             rbind (elfsh_sync_sorted_symtab i (upd_sect i (\<lambda>s. s\<lparr>sect_data := Some d'\<rparr>) ob)) (\<lambda>(r, ob'). Inr (0, ob')))))"

definition elfsh_shift_symtab :: "eresi_Addr \<Rightarrow> u_int \<Rightarrow> elfshobj_t \<Rightarrow> (int \<times> elfshobj_t) elf_result" where
  "elfsh_shift_symtab limit inc ob = (case elfsh_get_section_by_type ob SHT_SYMTAB of
     None \<Rightarrow> Inr (-1, ob)
   | Some i \<Rightarrow> elfsh_shift_syms i limit inc ob)"

text \<open>\<open>elfsh_append_data_to_section\<close>. The sections behind a section that grew are moved; when
  the data does not fit it is stored at the end of the buffer and not at \<open>curend\<close>.\<close>

definition shift_next :: "elfshsect_t \<Rightarrow> u_int \<Rightarrow> elfshsect_t \<Rightarrow> elfshsect_t" where
  "shift_next sect len act =
     (let a1 = (if sh_addr sect \<noteq> 0 \<and> sh_addr act \<noteq> 0 then act\<lparr>sh_addr := sh_addr act + len\<rparr> else act)
      in if \<not> runtime act then a1\<lparr>sh_offset := sh_offset act + len\<rparr> else a1)"

definition shift_sections :: "nat \<Rightarrow> u_int \<Rightarrow> elfshobj_t \<Rightarrow> elfshobj_t" where
  "shift_sections i len ob =
     (let sect = sectlist ob ! i in
      if rdonly ob \<or> runtime sect then ob
      else ob\<lparr>e_shoff := (if e_shoff ob \<ge> sh_offset sect then e_shoff ob + len else e_shoff ob),
              sectlist := take (Suc i) (sectlist ob) @ map (shift_next sect len) (drop (Suc i) (sectlist ob))\<rparr>)"

text \<open>The buffer after \<open>XREALLOC\<close> or \<open>XALLOC\<close> and the copy behind the first \<open>sh_size\<close> bytes.\<close>

definition grown_data :: "elfshsect_t \<Rightarrow> u_char list \<Rightarrow> u_char list elf_result" where
  "grown_data s input = (case sect_data s of
     Some d \<Rightarrow> if unat (sh_size s) \<le> length d then Inr (take (unat (sh_size s)) d @ input) else Inl Fault
   | None \<Rightarrow> if sh_size s = 0 then Inr input else Inl Fault)"

definition elfsh_append_data_to_section :: "nat \<Rightarrow> u_char list \<Rightarrow> elfshobj_t \<Rightarrow> (int \<times> elfshobj_t) elf_result" where
  "elfsh_append_data_to_section i input ob =
     (let s = sectlist ob ! i; len = word_of_nat (length input) in
      if input = [] then Inr (-1, ob)
      else if curend s + len > sh_size s then
        (if runtime s \<and> sh_addr s \<noteq> 0 then Inr (-1, ob)
         else rbind (grown_data s input) (\<lambda>d.
           let ob1 = shift_sections i len (upd_sect i (\<lambda>s. s\<lparr>sect_data := Some d, sh_size := sh_size s + len,
                                                          curend := curend s + len\<rparr>) ob)
           in rbind (if sh_addr s \<noteq> 0 then elfsh_shift_symtab (sh_addr s + sh_size s) len ob1 else Inr (0, ob1))
                (\<lambda>(r, ob2). Inr (sint (sh_size s), ob2))))
      else rbind (the_data s) (\<lambda>d. rbind (poke (unat (curend s)) input d) (\<lambda>d'.
        Inr (sint (curend s), upd_sect i (\<lambda>s. s\<lparr>sect_data := Some d', curend := curend s + len\<rparr>) ob))))"

text \<open>\<open>elfsh_insert_in_strtab\<close>. For an empty name the loop compares the first character plus the
  index with 0.\<close>

definition elfsh_insert_in_strtab :: "string \<Rightarrow> elfshobj_t \<Rightarrow> (int \<times> elfshobj_t) elf_result" where
  "elfsh_insert_in_strtab name ob = rbind (get_sect ob ELFSH_SECTION_STRTAB) (\<lambda>(i, s).
     rbind (if name = [] \<and> sh_size s \<noteq> 0 then
              rbind (the_data s) (\<lambda>d. case d of
                [] \<Rightarrow> Inl Fault
              | c # _ \<Rightarrow> Inr (find (\<lambda>k. (scast c :: u_int) + word_of_nat k = 0) [0..<unat (sh_size s)]))
            else Inr None) (\<lambda>hit.
     case hit of
       Some k \<Rightarrow> Inr (sint (word_of_nat k :: u_int), ob)
     | None \<Rightarrow> rbind (elfsh_append_data_to_section i (str_bytes name @ [0]) ob) (\<lambda>(r, ob').
         Inr (if r < 0 then -1 else r, ob'))))"

text \<open>\<open>elfsh_shift_usualsyms\<close>: one of the symbols that mark an end is moved behind the new
  symbol. The loop over the four cases of the code.\<close>

definition raise_end :: "elfsh_Sym \<Rightarrow> section_id \<Rightarrow> nat option \<Rightarrow> elfshobj_t \<Rightarrow> elfshobj_t elf_result" where
  "raise_end sy sid q ob = (case q of
     None \<Rightarrow> Inr ob
   | Some k \<Rightarrow> rbind (get_sect ob sid) (\<lambda>(i, s). rbind (the_data s) (\<lambda>d.
       let old = read_sym (drop (ELFSH_SYMTAB_ENTRY_SIZE * k) d); e = st_value sy + st_size sy in
       if e > st_value old
       then rbind (poke (ELFSH_SYMTAB_ENTRY_SIZE * k) (sym_bytes (old\<lparr>st_value := e\<rparr>)) d) (\<lambda>d'.
              Inr (upd_sect i (\<lambda>s. s\<lparr>sect_data := Some d'\<rparr>) ob))
       else Inr ob)))"

definition elfsh_shift_usualsyms :: "elfsh_Sym \<Rightarrow> elfshobj_t \<Rightarrow> elfshobj_t elf_result" where
  "elfsh_shift_usualsyms sy ob =
     rbind (elfsh_get_symbol_by_name ob ''_end'') (\<lambda>q. rbind (raise_end sy ELFSH_SECTION_SYMTAB q ob) (\<lambda>ob1.
     rbind (elfsh_get_dynsymbol_by_name ob1 ''_end'') (\<lambda>q. rbind (raise_end sy ELFSH_SECTION_DYNSYM q ob1) (\<lambda>ob2.
     rbind (elfsh_get_dynsymbol_by_name ob2 ''_END_'') (\<lambda>q. rbind (raise_end sy ELFSH_SECTION_DYNSYM q ob2) (\<lambda>ob3.
     if solaris ob3
     then rbind (elfsh_get_dynsymbol_by_name ob3 ''_edata'') (\<lambda>q. raise_end sy ELFSH_SECTION_DYNSYM q ob3)
     else Inr ob3))))))"

text \<open>\<open>elfsh_insert_symbol\<close> with the section it is given; the difference of pointers into two
  sections, when that is not the symbol table, is an error here. The result of the last append
  is only used for the hash tables.\<close>

definition elfsh_insert_symbol :: "nat \<Rightarrow> elfsh_Sym \<Rightarrow> string option \<Rightarrow> elfshobj_t \<Rightarrow> (int \<times> elfshobj_t) elf_result" where
  "elfsh_insert_symbol i sy name ob =
     (let nm = (case name of None \<Rightarrow> ''(NULL)'' | Some s \<Rightarrow> s) in
      if sh_type (sectlist ob ! i) \<noteq> SHT_SYMTAB \<and> sh_type (sectlist ob ! i) \<noteq> SHT_DYNSYM then Inr (-1, ob)
      else rbind (elfsh_get_symbol_by_name ob nm) (\<lambda>q.
        rbind (case q of None \<Rightarrow> Inr False | Some k \<Rightarrow>
                 rbind (get_sect ob ELFSH_SECTION_SYMTAB) (\<lambda>(j, s). rbind (the_data s) (\<lambda>d.
                 if st_value sy = st_value (read_sym (drop (ELFSH_SYMTAB_ENTRY_SIZE * k) d))
                 then (if i = j then Inr True else Inl Fault) else Inr False))) (\<lambda>same.
        if same then Inr (int (the q), ob)
        else rbind (elfsh_shift_usualsyms sy ob) (\<lambda>ob1.
          rbind (elfsh_insert_in_strtab nm ob1) (\<lambda>(index, ob2).
          if index < 0 then Inr (-1, ob2)
          else rbind (elfsh_append_data_to_section i (sym_bytes (sy\<lparr>st_name := word_of_int index\<rparr>)) ob2) (\<lambda>(r, ob3).
            Inr (index, ob3)))))))"

text \<open>\<open>elfsh_remove_symbol\<close>: the entries behind the symbol move up by one entry, by \<open>memcpy\<close>; the
  areas overlap when there is more than one.\<close>

definition elfsh_remove_symbol :: "nat \<Rightarrow> string \<Rightarrow> elfshobj_t \<Rightarrow> (int \<times> elfshobj_t) elf_result" where
  "elfsh_remove_symbol i name ob = rbind (elfsh_get_symbol_by_name ob name) (\<lambda>q.
     case q of
       None \<Rightarrow> Inr (-1, ob)
     | Some k \<Rightarrow>
         (let s = sectlist ob ! i; off = ELFSH_SYMTAB_ENTRY_SIZE * k;
              size' = sh_size s - 16; movedsz = unat (size' - word_of_nat off)
          in rbind (the_data s) (\<lambda>d.
             if off + ELFSH_SYMTAB_ENTRY_SIZE + movedsz > length d \<or> unat size' > length d then Inl Fault
             else if movedsz > ELFSH_SYMTAB_ENTRY_SIZE then Inl Overlap
             else (let d1 = take off d @ take movedsz (drop (off + ELFSH_SYMTAB_ENTRY_SIZE) d) @ drop (off + movedsz) d;
                       ob1 = upd_sect i (\<lambda>s. s\<lparr>sh_size := size', curend := curend s - 16,
                                             sect_data := Some (take (unat size') d1)\<rparr>) ob
                   in rbind (elfsh_sync_sorted_symtab i ob1) (\<lambda>(r, ob2). Inr (0, ob2))))))"

definition elfsh_insert_sectsym :: "elfshsect_t \<Rightarrow> elfshobj_t \<Rightarrow> (int \<times> elfshobj_t) elf_result" where
  "elfsh_insert_sectsym sect ob = rbind (get_sect ob ELFSH_SECTION_SYMTAB) (\<lambda>(i, _).
     rbind (elfsh_insert_symbol i (elfsh_create_symbol (sh_addr sect) (curend sect) (ucast STT_SECTION) STB_LOCAL 0
              (word_of_nat (sindex sect))) (Some (sect_name sect)) ob) (\<lambda>(r, ob1).
     if r < 0 then Inr (r, ob1) else elfsh_sync_sorted_symtab i ob1))"

definition elfsh_insert_funcsym :: "string \<Rightarrow> eresi_Addr \<Rightarrow> u_int \<Rightarrow> u_int \<Rightarrow> elfshobj_t \<Rightarrow> (int \<times> elfshobj_t) elf_result" where
  "elfsh_insert_funcsym name v sz sctidx ob = rbind (get_sect ob ELFSH_SECTION_SYMTAB) (\<lambda>(i, _).
     rbind (elfsh_insert_symbol i (elfsh_create_symbol v sz (ucast STT_FUNC) STB_LOCAL 0 sctidx) (Some name) ob)
       (\<lambda>(r, ob1). if r < 0 then Inr (r, ob1) else elfsh_sync_sorted_symtab i ob1))"

subsection \<open>From an address to a name\<close>

text \<open>\<open>elfsh_get_symbol_foffset\<close>: the file offset of what a symbol names.\<close>

definition elfsh_get_symbol_foffset :: "elfshobj_t \<Rightarrow> elfsh_Sym \<Rightarrow> u_int elf_result" where
  "elfsh_get_symbol_foffset ob s =
     (if elfsh_get_symbol_type s = STT_SECTION
      then rbind (elfsh_get_symbol_name ob s) (\<lambda>n.
        Inr (case elfsh_get_section_by_name ob (bytes_str n) of None \<Rightarrow> 0 | Some sect \<Rightarrow> sh_offset sect))
      else if st_value s = 0 then Inr 0
      else Inr (case elfsh_get_parent_section ob (st_value s) of
        None \<Rightarrow> 0 | Some sect \<Rightarrow> sh_offset sect + (st_value s - sh_addr sect)))"

text \<open>\<open>elfsh_reverse_symbol\<close>: the last symbol at or below the address in the copy sorted by
  address, unless its type is worse than that of the best so far; position 0 counts as no best
  symbol. The second component is the value stored in \<open>*offset\<close>, if any.\<close>

fun reverse_scan :: "(elfsh_Sym \<Rightarrow> u_char list elf_result) \<Rightarrow> elfsh_Sym list \<Rightarrow> eresi_Addr \<Rightarrow> nat \<Rightarrow> nat \<Rightarrow>
    u_char list option \<Rightarrow> u_int option \<Rightarrow> elfsh_Sym list \<Rightarrow> (u_char list option \<times> u_int option) elf_result" where
  "reverse_scan name_of tab v idx best str off [] = Inr (str, off)"
| "reverse_scan name_of tab v idx best str off (s # ss) =
     (if st_value s \<le> v \<and> DUMPABLE s \<and> \<not> (best \<noteq> 0 \<and> \<not> BESTYPE s (tab ! best))
      then rbind (name_of s) (\<lambda>n.
        reverse_scan name_of tab v (Suc idx) idx (if n = [] then None else Some n) (Some (v - st_value s)) ss)
      else reverse_scan name_of tab v (Suc idx) best str off ss)"

definition synced :: "section_id \<Rightarrow> elfshobj_t \<Rightarrow> (elfsh_Sym list \<times> elfshobj_t) elf_result" where
  "synced sid ob = rbind (get_sect ob sid) (\<lambda>(i, s).
     rbind (if altdata s = None then rbind (elfsh_sync_sorted_symtab i ob) (\<lambda>(r, ob'). Inr ob') else Inr ob) (\<lambda>ob1.
     case altdata (sectlist ob1 ! i) of None \<Rightarrow> Inl Fault | Some tab \<Rightarrow> Inr (tab, ob1)))"

type_synonym rev_result = "(u_char list option \<times> u_int option \<times> elfshobj_t) elf_result"

definition elfsh_reverse_symbol :: "elfshobj_t \<Rightarrow> eresi_Addr \<Rightarrow> u_int option \<Rightarrow> rev_result" where
  "elfsh_reverse_symbol ob v off0 =
     (if v = 0 \<or> v = 0xFFFFFFFF then Inr (None, off0, ob)
      else rbind (elfsh_get_symtab ob) (\<lambda>(data, num).
        if data = None then
          Inr (case elfsh_get_parent_section ob v of
                 None \<Rightarrow> (None, off0, ob)
               | Some sect \<Rightarrow> (Some (str_bytes (sect_name sect)), Some (sh_addr sect - v), ob))
        else rbind (synced ELFSH_SECTION_SYMTAB ob) (\<lambda>(tab, ob1).
          if length tab < num then Inl Fault
          else rbind (reverse_scan (elfsh_get_symbol_name ob1) tab v 0 0 None off0 (take num tab)) (\<lambda>(str, off).
            Inr (str, off, ob1)))))"

definition EM_SPARC :: nat where "EM_SPARC = 2"
definition EM_386 :: nat where "EM_386 = 3"
definition EM_MIPS :: nat where "EM_MIPS = 8"
definition EM_MIPS_RS3_LE :: nat where "EM_MIPS_RS3_LE = 10"
definition EM_SPARC32PLUS :: nat where "EM_SPARC32PLUS = 18"
definition EM_SPARCV9 :: nat where "EM_SPARCV9 = 43"
definition EM_IA_64 :: nat where "EM_IA_64 = 50"
definition EM_ALPHA :: nat where "EM_ALPHA = 0x9026"

definition FILE_IS_SPARC :: "elfshobj_t \<Rightarrow> bool" where
  "FILE_IS_SPARC ob \<longleftrightarrow> e_machine ob \<in> {EM_SPARC, EM_SPARC32PLUS, EM_SPARCV9}"

definition IS_REL :: "elfshobj_t \<Rightarrow> bool" where
  "IS_REL ob \<longleftrightarrow> \<not> (FILE_IS_SPARC ob \<or> e_machine ob = EM_IA_64 \<or> e_machine ob = EM_ALPHA)"

definition elfsh_get_pltentsz :: "elfshobj_t \<Rightarrow> u_int" where
  "elfsh_get_pltentsz ob =
     (let m = e_machine ob in
      if m = EM_386 then 16
      else if m = EM_SPARC \<or> m = EM_SPARC32PLUS then 12
      else if m = EM_SPARCV9 then 32
      else if m = EM_ALPHA then 12
      else if m = EM_MIPS \<or> m = EM_MIPS_RS3_LE then 16 else -1)"

definition elfsh_get_first_pltentsz :: "elfshobj_t \<Rightarrow> u_int" where
  "elfsh_get_first_pltentsz ob =
     (let m = e_machine ob in
      if m = EM_386 then 16
      else if m = EM_SPARC \<or> m = EM_SPARC32PLUS then 48
      else if m = EM_SPARCV9 then 124
      else if m = EM_ALPHA then 32
      else if m = EM_MIPS \<or> m = EM_MIPS_RS3_LE then 16 else -1)"

text \<open>The symbol number of a relocation entry of 8 or 12 bytes, None for a table that is NULL.\<close>

definition elfsh_get_relsym :: "elfshsect_t \<Rightarrow> nat \<Rightarrow> nat \<Rightarrow> nat option elf_result" where
  "elfsh_get_relsym relplt entsz k = (case sect_data relplt of
     None \<Rightarrow> Inr None
   | Some d \<Rightarrow> if entsz * k + 8 \<le> length d then Inr (Some (unat (drop_bit 8 (le32 (drop (entsz * k + 4) d)))))
               else Inl Fault)"

definition elfsh_restore_dynsym :: "elfshsect_t \<Rightarrow> u_int \<Rightarrow> elfshobj_t \<Rightarrow> (elfsh_Sym option \<times> elfshobj_t) elf_result" where
  "elfsh_restore_dynsym plt off ob =
     (let entsz = elfsh_get_pltentsz ob; first = elfsh_get_first_pltentsz ob;
          relsz = (if IS_REL ob then 8 else 12); index = (off - first + entsz) div entsz
      in case elfsh_get_section_by_name ob (if IS_REL ob then ''.rel.plt'' else ''.rela.plt'') of
           None \<Rightarrow> Inr (None, ob)
         | Some relplt \<Rightarrow>
             if FILE_IS_SPARC ob \<and> off < first then Inr (None, ob)
             else if index = 0 then Inr (None, ob)
             else if word_of_nat relsz * (index - 1) \<ge> sh_size relplt then Inr (None, ob)
             else rbind (elfsh_get_relsym relplt relsz (unat (index - 1))) (\<lambda>r.
               case r of
                 None \<Rightarrow> Inr (None, ob)
               | Some k \<Rightarrow> rbind (get_sect ob ELFSH_SECTION_DYNSYM) (\<lambda>(i, s). rbind (the_data s) (\<lambda>d.
                   if ELFSH_SYMTAB_ENTRY_SIZE * Suc k > length d then Inl Fault
                   else (let old = read_sym (drop (ELFSH_SYMTAB_ENTRY_SIZE * k) d);
                             new = (if st_value old = 0 then old\<lparr>st_value := sh_addr plt + off\<rparr> else old)
                         in rbind (poke (ELFSH_SYMTAB_ENTRY_SIZE * k) (sym_bytes new) d) (\<lambda>d'.
                            Inr (if st_value new = 0 then None else Some new,
                                 upd_sect i (\<lambda>s. s\<lparr>sect_data := Some d'\<rparr>) ob)))))))"

fun dyn_scan :: "eresi_Addr \<Rightarrow> elfsh_Sym list \<Rightarrow> elfsh_Sym option" where
  "dyn_scan v [] = None"
| "dyn_scan v (s # ss) =
     (if st_value s \<le> v \<and> DUMPABLE s \<and> (ss = [] \<or> st_value (hd ss) > v) then Some s else dyn_scan v ss)"

definition elfsh_reverse_dynsymbol :: "elfshobj_t \<Rightarrow> eresi_Addr \<Rightarrow> u_int option \<Rightarrow> rev_result" where
  "elfsh_reverse_dynsymbol ob v off0 =
     (if v = 0 \<or> v = -1 then Inr (None, off0, ob)
      else rbind (elfsh_get_dynsymtab ob) (\<lambda>(data, num).
        if data = None then
          Inr (case elfsh_get_parent_section ob v of
                 None \<Rightarrow> (None, Some 0, ob)
               | Some sect \<Rightarrow> (Some (str_bytes (sect_name sect)), Some (sh_addr sect - v), ob))
        else rbind (synced ELFSH_SECTION_DYNSYM ob) (\<lambda>(tab, ob1).
          let parent = elfsh_get_parent_section ob1 v;
              off1 = (case parent of None \<Rightarrow> 0 | Some sect \<Rightarrow> v - sh_addr sect)
          in rbind (case (get_sect ob1 ELFSH_SECTION_PLT, parent) of
                      (Inr (_, plt), Some sect) \<Rightarrow>
                        if sect_name sect = ''.plt'' then elfsh_restore_dynsym plt off1 ob1 else Inr (None, ob1)
                    | _ \<Rightarrow> Inr (None, ob1)) (\<lambda>(pltsym, ob2).
             case pltsym of
               Some p \<Rightarrow> rbind (elfsh_get_dynsymbol_name ob2 p) (\<lambda>n. Inr (Some n, Some 0, ob2))
             | None \<Rightarrow>
                 if length tab < num then Inl Fault
                 else (case dyn_scan v (take num tab) of
                         None \<Rightarrow> Inr (None, Some off1, ob2)
                       | Some y \<Rightarrow> rbind (elfsh_get_dynsymbol_name ob2 y) (\<lambda>n.
                           Inr (if n = [] then None else Some n, Some (v - st_value y), ob2)))))))"

text \<open>\<open>elfsh_reverse_metasym\<close>: the dynamic symbols are tried first for an address of the
  procedure linkage table, of \<open>.init\<close> or of \<open>.fini\<close>.\<close>

definition in_section :: "elfshobj_t \<Rightarrow> elfshsect_t \<Rightarrow> section_id \<Rightarrow> bool" where
  "in_section ob parent sid = (case get_sect ob sid of Inl _ \<Rightarrow> False | Inr (_, s) \<Rightarrow> sindex parent = sindex s)"

definition elfsh_reverse_metasym :: "elfshobj_t \<Rightarrow> eresi_Addr \<Rightarrow> rev_result" where
  "elfsh_reverse_metasym ob v =
     (if v = 0 then Inr (None, None, ob)
      else case elfsh_get_parent_section ob v of
        None \<Rightarrow> Inr (None, None, ob)
      | Some parent \<Rightarrow>
          rbind (if in_section ob parent ELFSH_SECTION_PLT \<or> in_section ob parent ELFSH_SECTION_INIT \<or>
                    in_section ob parent ELFSH_SECTION_FINI
                 then elfsh_reverse_dynsymbol ob v None else Inr (None, None, ob)) (\<lambda>(n, off, ob1).
          if n \<noteq> None then Inr (n, off, ob1) else elfsh_reverse_symbol ob1 v off))"

end
