(* ===== verification/Containers.thy ===== *)
theory Containers
  imports Elist Btree Asm Elfsym
begin

text \<open>
  The containers of the control flow graph: \<open>libaspect/containers.c\<close> and
  \<open>libmjollnir/src/container.c\<close>. A container is a graph node that carries a block or a
  function; its input and output links are lists of link objects.

  The context \<open>mjrcontext_t\<close> holds the heap the functions share: containers and link objects
  by address, link lists by name (\<open>elist_init\<close> registers every list under its name and
  \<open>container_linklists_create\<close> reuses a registered list, so the name identifies the list).
  Allocation takes the next unused address. The growth of the container array leaves its new
  slots unset in C; here they are NULL.

  The object file is a parameter: \<open>env\<close> has the functions of \<open>libelfsh\<close>, of the type table
  and of the configuration that the graph code calls.
\<close>

record mjrblock_t =
  bvaddr :: eresi_Addr
  bsize :: u_int
  bsymoff :: nat
  bseen :: nat

record mjrfunc_t =
  fvaddr :: eresi_Addr
  fsize :: u_int
  fname :: string
  fmd5 :: string

datatype cdata = Bloc mjrblock_t | Func mjrfunc_t

fun cvaddr :: "cdata \<Rightarrow> eresi_Addr" where
  "cvaddr (Bloc b) = bvaddr b"
| "cvaddr (Func f) = fvaddr f"

record container_t =
  cnid :: nat
  cntype :: nat
  inlinks :: string
  outlinks :: string
  cndata :: cdata

record mjrlink_t =
  link_id :: nat
  link_type :: nat
  link_scope :: nat

definition ASPECT_TYPE_BLOC :: nat where "ASPECT_TYPE_BLOC = 15"
definition ASPECT_TYPE_FUNC :: nat where "ASPECT_TYPE_FUNC = 16"
definition ASPECT_TYPE_LINK :: nat where "ASPECT_TYPE_LINK = 17"

definition MJR_LINK_FUNC_CALL :: nat where "MJR_LINK_FUNC_CALL = 0"
definition MJR_LINK_FUNC_RET :: nat where "MJR_LINK_FUNC_RET = 1"
definition MJR_LINK_BLOCK_COND_TRUE :: nat where "MJR_LINK_BLOCK_COND_TRUE = 3"
definition MJR_LINK_BLOCK_COND_FALSE :: nat where "MJR_LINK_BLOCK_COND_FALSE = 4"
definition MJR_LINK_BLOCK_COND_ALWAYS :: nat where "MJR_LINK_BLOCK_COND_ALWAYS = 5"
definition MJR_LINK_TYPE_DELAY :: nat where "MJR_LINK_TYPE_DELAY = 6"
definition MJR_LINK_SCOPE_LOCAL :: nat where "MJR_LINK_SCOPE_LOCAL = 1"
definition MJR_LINK_SCOPE_GLOBAL :: nat where "MJR_LINK_SCOPE_GLOBAL = 2"
definition MJR_CNTNRS_INCREMENT :: nat where "MJR_CNTNRS_INCREMENT = 200"
definition MJR_MAX_INCREMENTS :: nat where "MJR_MAX_INCREMENTS = 200"

datatype direction = CONTAINER_LINK_IN | CONTAINER_LINK_OUT

record 'o mjrcontext_t =
  obj :: 'o
  cheap :: "ptr \<rightharpoonup> container_t"
  lheap :: "ptr \<rightharpoonup> mjrlink_t"
  lists :: "string \<rightharpoonup> list_t"
  brk :: ptr
  reg_containers :: "ptr list"
  cntnrs_size :: nat
  next_id :: nat
  block_btree :: btree_t
  funchash :: hash_t
  blkhash :: hash_t
  linkhash :: hash_t
  func_stack :: list_t
  curfunc :: ptr
  proc :: asm_processor
  history :: "(asm_instr \<times> eresi_Addr) list"
  goto_hash :: hash_t
  goto_str :: "ptr \<Rightarrow> string"
  calls_seen :: u_int
  calls_found :: u_int

record 'o env =
  type_name :: "nat \<Rightarrow> string option"
  obj_id :: "'o \<Rightarrow> nat"
  sym_by_name :: "'o \<Rightarrow> string \<Rightarrow> bool"
  symtab_size :: "'o \<Rightarrow> nat"
  insert_sym :: "'o \<Rightarrow> eresi_Addr \<Rightarrow> u_int \<Rightarrow> u_char \<Rightarrow> string \<Rightarrow> 'o"
  sym_by_value :: "'o \<Rightarrow> eresi_Addr \<Rightarrow> bool"
  set_sym_size :: "'o \<Rightarrow> eresi_Addr \<Rightarrow> u_int \<Rightarrow> 'o"
  reverse_metasym :: "'o \<Rightarrow> eresi_Addr \<Rightarrow> string option \<times> u_int option \<times> 'o"
  parent_section :: "'o \<Rightarrow> eresi_Addr \<Rightarrow> elfshsect_t option"
  bloc_prefix :: string
  func_prefix :: string

datatype mjr_error = Null_Container | Unknown_Type | Bad_Index | Assertion |
  Decoder asm_error | Unmapped | Uninitialised | Null_String | Out_Of_Fuel

type_synonym 'a mjr_result = "mjr_error + 'a"

subsection \<open>The array of containers\<close>

definition mjr_init_containers :: "'o mjrcontext_t \<Rightarrow> 'o mjrcontext_t" where
  "mjr_init_containers ctx = ctx\<lparr>reg_containers := replicate (cntnrs_size ctx) NULL\<rparr>"

definition mjr_resize_containers :: "'o mjrcontext_t \<Rightarrow> nat \<Rightarrow> 'o mjrcontext_t" where
  "mjr_resize_containers ctx resize =
     (let n = (if resize \<noteq> 0 then resize + 1 else MJR_CNTNRS_INCREMENT) in
      ctx\<lparr>cntnrs_size := cntnrs_size ctx + n, reg_containers := reg_containers ctx @ replicate n NULL\<rparr>)"

definition set_cn :: "ptr \<Rightarrow> (container_t \<Rightarrow> container_t) \<Rightarrow> 'o mjrcontext_t \<Rightarrow> 'o mjrcontext_t" where
  "set_cn p f ctx = ctx\<lparr>cheap := (cheap ctx)(p := map_option f (cheap ctx p))\<rparr>"

definition mjr_register_container :: "'o mjrcontext_t \<Rightarrow> ptr \<Rightarrow> nat \<times> 'o mjrcontext_t" where
  "mjr_register_container ctx p =
     (let full = next_id ctx \<ge> cntnrs_size ctx;
          ctx1 = (if full then mjr_resize_containers ctx 0 else ctx)
      in if full \<and> \<not> cntnrs_size ctx < MJR_CNTNRS_INCREMENT * MJR_MAX_INCREMENTS then (0, ctx)
         else (next_id ctx,
               (set_cn p (\<lambda>c. c\<lparr>cnid := next_id ctx\<rparr>) ctx1)
                 \<lparr>reg_containers := (reg_containers ctx1)[next_id ctx := p], next_id := next_id ctx + 1\<rparr>))"

definition mjr_register_container_id :: "'o mjrcontext_t \<Rightarrow> ptr \<Rightarrow> (nat \<times> 'o mjrcontext_t) mjr_result" where
  "mjr_register_container_id ctx p = (case cheap ctx p of
     None \<Rightarrow> Inl Null_Container
   | Some c \<Rightarrow>
       (let full = cnid c \<ge> cntnrs_size ctx;
            ctx1 = (if full then mjr_resize_containers ctx (cnid c - cntnrs_size ctx) else ctx)
        in if full \<and> \<not> cntnrs_size ctx < MJR_CNTNRS_INCREMENT * MJR_MAX_INCREMENTS then Inr (0, ctx)
           else Inr (cnid c, ctx1\<lparr>reg_containers := (reg_containers ctx1)[cnid c := p],
                  next_id := (if cnid c \<ge> next_id ctx then cnid c + 1 else next_id ctx)\<rparr>)))"

definition mjr_unregister_container :: "'o mjrcontext_t \<Rightarrow> nat \<Rightarrow> 'o mjrcontext_t mjr_result" where
  "mjr_unregister_container ctx i =
     (if i < length (reg_containers ctx) then Inr (ctx\<lparr>reg_containers := (reg_containers ctx)[i := NULL]\<rparr>)
      else Inl Bad_Index)"

definition mjr_lookup_container :: "'o mjrcontext_t \<Rightarrow> nat \<Rightarrow> ptr mjr_result" where
  "mjr_lookup_container ctx i =
     (if i < length (reg_containers ctx) then Inr (reg_containers ctx ! i) else Inl Bad_Index)"

definition get_cn :: "'o mjrcontext_t \<Rightarrow> ptr \<Rightarrow> container_t mjr_result" where
  "get_cn ctx p = (case cheap ctx p of None \<Rightarrow> Inl Null_Container | Some c \<Rightarrow> Inr c)"

text \<open>The linear search; it stops at the first empty slot.\<close>

fun scan_containers :: "'o mjrcontext_t \<Rightarrow> eresi_Addr \<Rightarrow> nat \<Rightarrow> ptr list \<Rightarrow> ptr mjr_result" where
  "scan_containers ctx vaddr ty [] = Inr NULL"
| "scan_containers ctx vaddr ty (p # ps) =
     (if p = NULL then Inr NULL
      else rbind (get_cn ctx p) (\<lambda>c. if cntype c = ty \<and> cvaddr (cndata c) = vaddr then Inr p
             else scan_containers ctx vaddr ty ps))"

definition mjr_get_container_by_vaddr :: "'o mjrcontext_t \<Rightarrow> eresi_Addr \<Rightarrow> nat \<Rightarrow> ptr mjr_result" where
  "mjr_get_container_by_vaddr ctx vaddr ty =
     scan_containers ctx vaddr ty (take (next_id ctx - 1) (drop 1 (reg_containers ctx)))"

subsection \<open>Creation\<close>

definition list_prefix :: "'o env \<Rightarrow> nat \<Rightarrow> string option" where
  "list_prefix en ty = (if ty = ASPECT_TYPE_BLOC then Some ''bloc''
     else if ty = ASPECT_TYPE_FUNC then Some ''func'' else type_name en ty)"

definition link_list_name :: "nat \<Rightarrow> string \<Rightarrow> eresi_Addr \<Rightarrow> direction \<Rightarrow> string" where
  "link_list_name uniqid prefix vaddr dir =
     fmt_u uniqid @ ''_'' @ prefix @ ''_'' @ fmt_08X vaddr @ ''_'' @
       (if dir = CONTAINER_LINK_IN then ''inputs'' else ''outputs'')"

definition container_linklists_create ::
  "'o env \<Rightarrow> ptr \<Rightarrow> direction \<Rightarrow> nat \<Rightarrow> 'o mjrcontext_t \<Rightarrow> 'o mjrcontext_t mjr_result" where
  "container_linklists_create en p dir uniqid ctx = rbind (get_cn ctx p) (\<lambda>c.
     (case list_prefix en (cntype c) of
        None \<Rightarrow> Inl Unknown_Type
      | Some prefix \<Rightarrow>
          (let name = link_list_name uniqid prefix (cvaddr (cndata c)) dir;
               ctx1 = (if lists ctx name \<noteq> None then ctx
                       else ctx\<lparr>lists := (lists ctx)(name \<mapsto> elist_fresh name ASPECT_TYPE_LINK)\<rparr>)
           in Inr (set_cn p (\<lambda>c. if dir = CONTAINER_LINK_IN then c\<lparr>inlinks := name\<rparr>
                                 else c\<lparr>outlinks := name\<rparr>) ctx1))))"

text \<open>\<open>container_create\<close> as the graph code calls it, with both lists NULL.\<close>

definition container_create ::
  "'o env \<Rightarrow> nat \<Rightarrow> cdata \<Rightarrow> nat \<Rightarrow> 'o mjrcontext_t \<Rightarrow> (ptr \<times> 'o mjrcontext_t) mjr_result" where
  "container_create en ty d uniqid ctx =
     (if type_name en ty = None then Inl Unknown_Type
      else (let p = brk ctx;
                c = \<lparr>cnid = 0, cntype = ty, inlinks = [], outlinks = [], cndata = d\<rparr>;
                ctx1 = ctx\<lparr>cheap := (cheap ctx)(p \<mapsto> c), brk := brk ctx + 1\<rparr>
            in rbind (container_linklists_create en p CONTAINER_LINK_IN uniqid ctx1) (\<lambda>ctx2.
               rbind (container_linklists_create en p CONTAINER_LINK_OUT uniqid ctx2) (\<lambda>ctx3.
               Inr (p, ctx3)))))"

text \<open>The comparison of the block tree: the difference of two unsigned addresses, returned as
  a signed integer.\<close>

definition cn_vaddr :: "'o mjrcontext_t \<Rightarrow> ptr \<Rightarrow> eresi_Addr" where
  "cn_vaddr ctx p = (case cheap ctx p of None \<Rightarrow> 0 | Some c \<Rightarrow> cvaddr (cndata c))"

definition match_block :: "'o mjrcontext_t \<Rightarrow> ptr \<Rightarrow> ptr \<Rightarrow> int" where
  "match_block ctx elem match = sint (cn_vaddr ctx match - cn_vaddr ctx elem)"

definition mjr_create_block_container ::
  "'o env \<Rightarrow> nat \<Rightarrow> eresi_Addr \<Rightarrow> u_int \<Rightarrow> nat \<Rightarrow> 'o mjrcontext_t \<Rightarrow> (ptr \<times> 'o mjrcontext_t) mjr_result" where
  "mjr_create_block_container en symoff vaddr sz seen ctx =
     rbind (container_create en ASPECT_TYPE_BLOC
              (Bloc \<lparr>bvaddr = vaddr, bsize = sz, bsymoff = symoff, bseen = seen\<rparr>) (obj_id en (obj ctx)) ctx)
       (\<lambda>(p, ctx1). let ctx2 = snd (mjr_register_container ctx1 p)
          in Inr (p, ctx2\<lparr>block_btree := btree_insert_sort (block_btree ctx2) (match_block ctx2) p\<rparr>))"

text \<open>The name is cut to the 63 characters of its field, the checksum to 34.\<close>

definition mjr_create_function_container ::
  "'o env \<Rightarrow> eresi_Addr \<Rightarrow> u_int \<Rightarrow> string option \<Rightarrow> string option \<Rightarrow> 'o mjrcontext_t \<Rightarrow>
     (ptr \<times> 'o mjrcontext_t) mjr_result" where
  "mjr_create_function_container en vaddr sz name md5 ctx =
     rbind (container_create en ASPECT_TYPE_FUNC
              (Func \<lparr>fvaddr = vaddr, fsize = sz,
                 fname = (case name of None \<Rightarrow> [] | Some s \<Rightarrow> take 63 s),
                 fmd5 = (case md5 of None \<Rightarrow> [] | Some s \<Rightarrow> take 34 s)\<rparr>) (obj_id en (obj ctx)) ctx)
       (\<lambda>(p, ctx1). Inr (p, snd (mjr_register_container ctx1 p)))"

subsection \<open>Links\<close>

definition mjr_link_get_by_direction :: "container_t \<Rightarrow> direction \<Rightarrow> string" where
  "mjr_link_get_by_direction c dir = (if dir = CONTAINER_LINK_IN then inlinks c else outlinks c)"

text \<open>The search for an existing link. A deletion removes the first entry with the key of the
  current one, so the entries still to be visited are those of the original list.\<close>

fun scan_links :: "'o mjrcontext_t \<Rightarrow> nat \<Rightarrow> nat \<Rightarrow> nat \<Rightarrow> listent list \<Rightarrow> list_t \<Rightarrow>
    (ptr option \<times> list_t) mjr_result" where
  "scan_links ctx ty i lkt [] l = Inr (None, l)"
| "scan_links ctx ty i lkt (e # es) l =
     (case lheap ctx (ent_data e) of
        None \<Rightarrow> Inl Null_Container
      | Some link \<Rightarrow>
          rbind (mjr_lookup_container ctx (link_id link)) (\<lambda>q. rbind (get_cn ctx q) (\<lambda>cnt.
            if cntype cnt = ty \<and> link_id link = i then
              (if link_type link = lkt then Inr (Some (ent_data e), l)
               else if link_type link = MJR_LINK_BLOCK_COND_ALWAYS \<and>
                       (lkt = MJR_LINK_BLOCK_COND_TRUE \<or> lkt = MJR_LINK_BLOCK_COND_FALSE)
               then scan_links ctx ty i lkt es (the (snd (elist_del (Some l) (ent_key e))))
               else scan_links ctx ty i lkt es l)
            else scan_links ctx ty i lkt es l)))"

definition link_name :: "nat \<Rightarrow> nat \<Rightarrow> string" where
  "link_name a b = fmt_u a @ ''_'' @ fmt_u b"

definition mjr_container_add_link ::
  "'o mjrcontext_t \<Rightarrow> ptr \<Rightarrow> nat \<Rightarrow> nat \<Rightarrow> nat \<Rightarrow> direction \<Rightarrow> (ptr \<times> 'o mjrcontext_t) mjr_result" where
  "mjr_container_add_link ctx p i lkt scope dir = rbind (get_cn ctx p) (\<lambda>c.
     let ln = mjr_link_get_by_direction c dir in
     (case lists ctx ln of
        None \<Rightarrow> Inl Null_Container
      | Some l \<Rightarrow>
          rbind (scan_links ctx (cntype c) i lkt (lhead l) l) (\<lambda>(found, l1).
            (case found of
               Some lk \<Rightarrow> Inr (lk, ctx\<lparr>lists := (lists ctx)(ln \<mapsto> l1)\<rparr>)
             | None \<Rightarrow>
                 (let lk = brk ctx; name = link_name (cnid c) i in
                  Inr (lk, ctx\<lparr>lheap := (lheap ctx)(lk \<mapsto> \<lparr>link_id = i, link_type = lkt, link_scope = scope\<rparr>),
                         brk := brk ctx + 1,
                         lists := (lists ctx)(ln \<mapsto> list_add l1 name lk),
                         linkhash := snd (hash_add (linkhash ctx) name lk)\<rparr>))))))"

fun first_of_type :: "'o mjrcontext_t \<Rightarrow> nat \<Rightarrow> listent list \<Rightarrow> ptr" where
  "first_of_type ctx lkt [] = NULL"
| "first_of_type ctx lkt (e # es) =
     (if map_option link_type (lheap ctx (ent_data e)) = Some lkt then ent_data e
      else first_of_type ctx lkt es)"

definition mjr_get_link_by_type :: "'o mjrcontext_t \<Rightarrow> list_t option \<Rightarrow> nat \<Rightarrow> ptr" where
  "mjr_get_link_by_type ctx lp lkt = (case lp of
     None \<Rightarrow> NULL | Some l \<Rightarrow> first_of_type ctx lkt (lhead l))"

subsection \<open>The heap invariant\<close>

text \<open>A slot of the array that holds a container.\<close>

definition reg_ok :: "'o mjrcontext_t \<Rightarrow> nat \<Rightarrow> bool" where
  "reg_ok ctx i \<longleftrightarrow> i < length (reg_containers ctx) \<and> reg_containers ctx ! i \<in> dom (cheap ctx)"

definition link_ok :: "'o mjrcontext_t \<Rightarrow> ptr \<Rightarrow> bool" where
  "link_ok ctx d \<longleftrightarrow> (\<exists>lk. lheap ctx d = Some lk \<and> reg_ok ctx (link_id lk))"

definition list_ok :: "'o mjrcontext_t \<Rightarrow> list_t \<Rightarrow> bool" where
  "list_ok ctx l \<longleftrightarrow> elist_inv l \<and> (\<forall>x\<in>set (elist_seq l). link_ok ctx (snd x))"

definition has_lists :: "'o mjrcontext_t \<Rightarrow> container_t \<Rightarrow> bool" where
  "has_lists ctx c \<longleftrightarrow> lists ctx (inlinks c) \<noteq> None \<and> lists ctx (outlinks c) \<noteq> None"

definition cn_inv :: "'o mjrcontext_t \<Rightarrow> bool" where
  "cn_inv ctx \<longleftrightarrow> dom (cheap ctx) \<subseteq> {0<..<brk ctx} \<and> dom (lheap ctx) \<subseteq> {0<..<brk ctx} \<and>
     length (reg_containers ctx) = cntnrs_size ctx \<and> 0 < next_id ctx \<and> next_id ctx \<le> cntnrs_size ctx \<and>
     (\<forall>i<cntnrs_size ctx. reg_containers ctx ! i \<noteq> NULL \<longrightarrow> i < next_id ctx) \<and>
     (\<forall>p c. cheap ctx p = Some c \<longrightarrow> has_lists ctx c) \<and>
     (\<forall>n l. lists ctx n = Some l \<longrightarrow> list_ok ctx l) \<and> hash_inv (linkhash ctx) \<and> 0 < brk ctx"

definition registered :: "'o mjrcontext_t \<Rightarrow> ptr \<Rightarrow> bool" where
  "registered ctx p \<longleftrightarrow> (\<exists>c. cheap ctx p = Some c \<and> cnid c < length (reg_containers ctx) \<and>
     reg_containers ctx ! cnid c = p)"

definition capacity :: "'o mjrcontext_t \<Rightarrow> bool" where
  "capacity ctx \<longleftrightarrow> next_id ctx < cntnrs_size ctx \<or>
     cntnrs_size ctx < MJR_CNTNRS_INCREMENT * MJR_MAX_INCREMENTS"

lemma registered_reg_ok: "registered ctx p \<Longrightarrow> cheap ctx p = Some c \<Longrightarrow> reg_ok ctx (cnid c)"
  by (auto simp: registered_def reg_ok_def)

lemma cn_invD:
  assumes "cn_inv ctx"
  shows "cheap ctx p = Some c \<Longrightarrow> 0 < p \<and> p < brk ctx \<and> has_lists ctx c"
    and "lheap ctx d = Some lk \<Longrightarrow> 0 < d \<and> d < brk ctx"
    and "lists ctx n = Some l \<Longrightarrow> list_ok ctx l"
    and "cheap ctx NULL = None" "cheap ctx (brk ctx) = None" "lheap ctx (brk ctx) = None"
    and "reg_ok ctx i \<Longrightarrow> i < next_id ctx"
  using assms by (auto simp: cn_inv_def reg_ok_def dom_def subset_iff)

text \<open>Operations that only touch links.\<close>

definition same_graph :: "'o mjrcontext_t \<Rightarrow> 'o mjrcontext_t \<Rightarrow> bool" where
  "same_graph ctx ctx' \<longleftrightarrow> cheap ctx' = cheap ctx \<and> reg_containers ctx' = reg_containers ctx \<and>
     cntnrs_size ctx' = cntnrs_size ctx \<and> next_id ctx' = next_id ctx \<and> block_btree ctx' = block_btree ctx \<and>
     blkhash ctx' = blkhash ctx \<and> funchash ctx' = funchash ctx \<and> obj ctx' = obj ctx \<and>
     func_stack ctx' = func_stack ctx \<and> curfunc ctx' = curfunc ctx"

lemma same_graph_refl [simp]: "same_graph ctx ctx"
  by (simp add: same_graph_def)

lemma same_graph_trans [trans]: "same_graph a b \<Longrightarrow> same_graph b c \<Longrightarrow> same_graph a c"
  by (simp add: same_graph_def)

lemma list_ok_del:
  assumes "list_ok ctx l"
  obtains l' where "elist_del (Some l) (Some k) = (0, Some l')" "list_ok ctx l'"
    "elist_seq l' = remove_first k (elist_seq l)"
proof -
  obtain l' where l': "elist_del (Some l) (Some k) = (0, Some l')" "elist_inv l'"
    "elist_seq l' = remove_first k (elist_seq l)"
    using assms elist_del_ok [of l k] by (auto simp: list_ok_def)
  have "set (remove_first k xs) \<subseteq> set xs" for xs :: "(string \<times> ptr) list"
    by (induction xs) auto
  then show thesis using that l' assms by (fastforce simp: list_ok_def)
qed

lemma list_ok_ent:
  assumes "list_ok ctx l" "e \<in> set (lhead l)"
  obtains k lk where "ent_key e = Some k" "ent_data e \<noteq> NULL" "lheap ctx (ent_data e) = Some lk"
    "reg_ok ctx (link_id lk)"
proof -
  have e: "ent_valid e" "link_ok ctx (ent_data e)"
    using assms by (auto simp: list_ok_def elist_inv_def list_all_iff elist_seq_def)
  then show thesis using that by (auto simp: ent_valid_def link_ok_def)
qed

lemma scan_links_ok:
  assumes "list_ok ctx l" "set es \<subseteq> set (lhead l0)" "list_ok ctx l0"
  shows "\<exists>r l'. scan_links ctx ty i lkt es l = Inr (r, l') \<and> list_ok ctx l' \<and>
    (\<forall>lk. r = Some lk \<longrightarrow> (\<exists>x. lheap ctx lk = Some x \<and> link_id x = i \<and> link_type x = lkt))"
  using assms(1,2)
proof (induction es arbitrary: l)
  case (Cons e es)
  obtain k lk where e: "ent_key e = Some k" "lheap ctx (ent_data e) = Some lk" "reg_ok ctx (link_id lk)"
    by (rule list_ok_ent [OF assms(3), of e]) (use Cons.prems(2) in auto)
  obtain c where c: "cheap ctx (reg_containers ctx ! link_id lk) = Some c"
    "link_id lk < length (reg_containers ctx)" using e(3) by (auto simp: reg_ok_def)
  obtain l' where l': "elist_del (Some l) (Some k) = (0, Some l')" "list_ok ctx l'"
    using list_ok_del [OF Cons.prems(1)] by metis
  have eq: "scan_links ctx ty i lkt (e # es) l =
      (if cntype c = ty \<and> link_id lk = i then
         if link_type lk = lkt then Inr (Some (ent_data e), l)
         else scan_links ctx ty i lkt es
           (if link_type lk = MJR_LINK_BLOCK_COND_ALWAYS \<and>
               (lkt = MJR_LINK_BLOCK_COND_TRUE \<or> lkt = MJR_LINK_BLOCK_COND_FALSE) then l' else l)
       else scan_links ctx ty i lkt es l)"
    by (auto simp: e c l' mjr_lookup_container_def get_cn_def)
  have es: "set es \<subseteq> set (lhead l0)" using Cons.prems(2) by simp
  show ?case
    using Cons.IH [OF Cons.prems(1) es] Cons.IH [OF l'(2) es] Cons.prems(1) e(2)
    by (simp only: eq split: if_split) (simp add: e(2))
qed simp

lemma list_add_ok:
  assumes "elist_inv l" "d \<noteq> NULL"
  shows "elist_inv (list_add l k d)" "elist_seq (list_add l k d) = (k, d) # elist_seq l"
  using assms by (simp_all add: list_add_def elist_add_def elist_inv_def elist_seq_def)

lemma list_ok_mono:
  assumes "list_ok ctx l" "\<And>d. link_ok ctx d \<Longrightarrow> link_ok ctx' d"
  shows "list_ok ctx' l"
  using assms by (auto simp: list_ok_def)

lemma cn_inv_lists:
  assumes "cn_inv ctx" "list_ok ctx l" "lists ctx n \<noteq> None"
  shows "cn_inv (ctx\<lparr>lists := (lists ctx)(n \<mapsto> l)\<rparr>)"
proof -
  have "link_ok (ctx\<lparr>lists := (lists ctx)(n \<mapsto> l)\<rparr>) d = link_ok ctx d" for d
    by (simp add: link_ok_def reg_ok_def)
  then have "list_ok (ctx\<lparr>lists := (lists ctx)(n \<mapsto> l)\<rparr>) m = list_ok ctx m" for m
    by (simp add: list_ok_def)
  then show ?thesis using assms by (auto simp: cn_inv_def has_lists_def)
qed

lemma add_link_ok:
  assumes "cn_inv ctx" "cheap ctx p = Some c" "reg_ok ctx i"
  obtains lk ctx' where "mjr_container_add_link ctx p i lkt scope dir = Inr (lk, ctx')"
    "cn_inv ctx'" "same_graph ctx ctx'"
    "map_option (\<lambda>x. (link_id x, link_type x)) (lheap ctx' lk) = Some (i, lkt)"
    "lheap ctx \<subseteq>\<^sub>m lheap ctx'"
proof -
  let ?ln = "mjr_link_get_by_direction c dir"
  obtain l where l: "lists ctx ?ln = Some l" "list_ok ctx l"
  proof -
    have "lists ctx ?ln \<noteq> None"
      using cn_invD(1) [OF assms(1,2)] by (cases dir) (simp_all add: has_lists_def mjr_link_get_by_direction_def)
    then show thesis using that cn_invD(3) [OF assms(1)] by blast
  qed
  obtain r l1 where scan: "scan_links ctx (cntype c) i lkt (lhead l) l = Inr (r, l1)" "list_ok ctx l1"
    "\<And>lk. r = Some lk \<Longrightarrow> \<exists>x. lheap ctx lk = Some x \<and> link_id x = i \<and> link_type x = lkt"
    using scan_links_ok [OF l(2) order_refl l(2)] by metis
  show thesis
  proof (cases r)
    case (Some lk)
    show thesis
      by (rule that [of lk "ctx\<lparr>lists := (lists ctx)(?ln \<mapsto> l1)\<rparr>"])
        (use Some scan l assms cn_inv_lists in \<open>auto simp: mjr_container_add_link_def get_cn_def
           Let_def same_graph_def\<close>)
  next
    case None
    let ?lk = "brk ctx" and ?x = "\<lparr>link_id = i, link_type = lkt, link_scope = scope\<rparr>"
    let ?nm = "link_name (cnid c) i"
    let ?ctx = "ctx\<lparr>lheap := (lheap ctx)(?lk \<mapsto> ?x), brk := brk ctx + 1,
      lists := (lists ctx)(?ln \<mapsto> list_add l1 ?nm ?lk), linkhash := snd (hash_add (linkhash ctx) ?nm ?lk)\<rparr>"
    have mono: "link_ok ?ctx d" if "link_ok ctx d" for d
      using that cn_invD(6) [OF assms(1)] by (auto simp: link_ok_def reg_ok_def)
    have "link_ok ?ctx ?lk" using assms(3) by (simp add: link_ok_def reg_ok_def)
    moreover have brk: "?lk \<noteq> NULL" using assms(1) by (simp add: cn_inv_def)
    ultimately have "list_ok ?ctx (list_add l1 ?nm ?lk)"
      using scan(2) mono list_add_ok [of l1 ?lk ?nm] by (auto simp: list_ok_def)
    moreover have "list_ok ?ctx m" if "lists ctx n = Some m" for n m
      using list_ok_mono [OF cn_invD(3) [OF assms(1) that], of ?ctx] mono by blast
    moreover have "hash_inv (linkhash ?ctx)"
      using hash_dict.add_inv [OF _ brk, of "linkhash ctx" ?nm] assms(1) by (simp add: cn_inv_def)
    ultimately have "cn_inv ?ctx"
      using assms(1) by (auto simp: cn_inv_def has_lists_def dom_def subset_iff less_Suc_eq split: if_splits)
    then show thesis
      by (intro that [of ?lk ?ctx])
        (use None scan l assms cn_invD(6) [OF assms(1)] in \<open>auto simp: mjr_container_add_link_def get_cn_def
           Let_def same_graph_def map_le_def\<close>)
  qed
qed

subsection \<open>Creation and registration\<close>

definition reuse_list :: "string \<Rightarrow> (string \<rightharpoonup> list_t) \<Rightarrow> (string \<rightharpoonup> list_t)" where
  "reuse_list n ls = (if ls n \<noteq> None then ls else ls(n \<mapsto> elist_fresh n ASPECT_TYPE_LINK))"

lemma linklists_create_eq:
  assumes "cheap ctx p = Some c" "list_prefix en (cntype c) = Some pr"
    "n = link_list_name u pr (cvaddr (cndata c)) dir"
  shows "container_linklists_create en p dir u ctx =
      Inr (ctx\<lparr>lists := reuse_list n (lists ctx),
               cheap := (cheap ctx)(p \<mapsto> (if dir = CONTAINER_LINK_IN then c\<lparr>inlinks := n\<rparr> else c\<lparr>outlinks := n\<rparr>))\<rparr>)"
  using assms by (simp add: container_linklists_create_def get_cn_def Let_def set_cn_def reuse_list_def)

lemma reuse_list_cases:
  "reuse_list n ls k = Some l \<Longrightarrow> ls k = Some l \<or> (\<exists>j. l = elist_fresh j ASPECT_TYPE_LINK)"
  "ls k \<noteq> None \<Longrightarrow> reuse_list n ls k \<noteq> None" "reuse_list n ls n \<noteq> None"
  by (auto simp: reuse_list_def split: if_splits)

definition same_but_heap :: "'o mjrcontext_t \<Rightarrow> 'o mjrcontext_t \<Rightarrow> bool" where
  "same_but_heap ctx ctx' \<longleftrightarrow> reg_containers ctx' = reg_containers ctx \<and>
     cntnrs_size ctx' = cntnrs_size ctx \<and> next_id ctx' = next_id ctx \<and> block_btree ctx' = block_btree ctx \<and>
     blkhash ctx' = blkhash ctx \<and> funchash ctx' = funchash ctx \<and> linkhash ctx' = linkhash ctx \<and>
     obj ctx' = obj ctx \<and> func_stack ctx' = func_stack ctx \<and> curfunc ctx' = curfunc ctx"

lemma list_ok_fresh [simp]: "list_ok ctx (elist_fresh n t)"
  by (simp add: list_ok_def)

lemma container_create_ok:
  assumes "cn_inv ctx" "type_name en ty \<noteq> None"
  obtains c ctx' where "container_create en ty d u ctx = Inr (brk ctx, ctx')"
    "cheap ctx' = (cheap ctx)(brk ctx \<mapsto> c)" "cndata c = d" "cntype c = ty" "cn_inv ctx'"
    "same_but_heap ctx ctx'"
proof -
  let ?p = "brk ctx"
  let ?c = "\<lparr>cnid = 0, cntype = ty, inlinks = [], outlinks = [], cndata = d\<rparr>"
  let ?ctx1 = "ctx\<lparr>cheap := (cheap ctx)(?p \<mapsto> ?c), brk := brk ctx + 1\<rparr>"
  have "list_prefix en ty \<noteq> None" using assms(2) by (simp add: list_prefix_def)
  then obtain pr where pr: "list_prefix en ty = Some pr" by blast
  let ?n = "link_list_name u pr (cvaddr d) CONTAINER_LINK_IN"
  let ?m = "link_list_name u pr (cvaddr d) CONTAINER_LINK_OUT"
  let ?ls = "reuse_list ?m (reuse_list ?n (lists ctx))"
  let ?c3 = "?c\<lparr>inlinks := ?n, outlinks := ?m\<rparr>"
  let ?ctx3 = "ctx\<lparr>cheap := (cheap ctx)(?p \<mapsto> ?c3), brk := brk ctx + 1, lists := ?ls\<rparr>"
  have create: "container_create en ty d u ctx = Inr (?p, ?ctx3)"
    using pr assms(2)
      linklists_create_eq [of ?ctx1 ?p ?c en pr ?n u CONTAINER_LINK_IN]
      linklists_create_eq [of "?ctx1\<lparr>lists := reuse_list ?n (lists ctx),
        cheap := (cheap ctx)(?p \<mapsto> ?c\<lparr>inlinks := ?n\<rparr>)\<rparr>" ?p "?c\<lparr>inlinks := ?n\<rparr>" en pr ?m u CONTAINER_LINK_OUT]
    by (simp add: container_create_def Let_def)
  have ls: "?ls k = Some l \<Longrightarrow> lists ctx k = Some l \<or> (\<exists>j. l = elist_fresh j ASPECT_TYPE_LINK)"
    "lists ctx k \<noteq> None \<Longrightarrow> ?ls k \<noteq> None" "?ls ?n \<noteq> None" "?ls ?m \<noteq> None" for k l
    using reuse_list_cases by metis+
  have mono: "link_ok ?ctx3 x" if "link_ok ctx x" for x
    using that by (auto simp: link_ok_def reg_ok_def)
  have "list_ok ?ctx3 l" if "?ls k = Some l" for k l
    using ls(1) [OF that] list_ok_mono [OF cn_invD(3) [OF assms(1)], of k l ?ctx3] mono by auto
  moreover have "has_lists ?ctx3 x" if "cheap ?ctx3 q = Some x" for q x
    using that cn_invD(1) [OF assms(1), of q x] ls(2-4) by (auto simp: has_lists_def split: if_splits)
  moreover have "dom (cheap ?ctx3) \<subseteq> {0<..<brk ?ctx3}" "dom (lheap ?ctx3) \<subseteq> {0<..<brk ?ctx3}"
    using assms(1) by (auto simp: cn_inv_def dom_def subset_iff less_Suc_eq split: if_splits)
  ultimately have "cn_inv ?ctx3" using assms(1) unfolding cn_inv_def by simp
  then show thesis
    by (intro that [OF create, of ?c3]) (simp_all add: same_but_heap_def)
qed

lemma register_ok:
  assumes "cn_inv ctx" "cheap ctx p = Some c" "capacity ctx"
  obtains ctx' where "mjr_register_container ctx p = (next_id ctx, ctx')" "cn_inv ctx'"
    "cheap ctx' = (cheap ctx)(p \<mapsto> c\<lparr>cnid := next_id ctx\<rparr>)" "next_id ctx' = next_id ctx + 1"
    "cntnrs_size ctx \<le> cntnrs_size ctx'" "next_id ctx < cntnrs_size ctx'"
    "reg_containers ctx' ! next_id ctx = p"
    "\<forall>i<next_id ctx. reg_containers ctx' ! i = reg_containers ctx ! i"
    "lists ctx' = lists ctx" "lheap ctx' = lheap ctx" "block_btree ctx' = block_btree ctx"
    "blkhash ctx' = blkhash ctx" "obj ctx' = obj ctx" "brk ctx' = brk ctx"
proof -
  have inv: "length (reg_containers ctx) = cntnrs_size ctx" "next_id ctx \<le> cntnrs_size ctx"
    "\<forall>i<cntnrs_size ctx. reg_containers ctx ! i \<noteq> NULL \<longrightarrow> i < next_id ctx"
    using assms(1) by (simp_all add: cn_inv_def)
  define ctx1 where "ctx1 = (if next_id ctx \<ge> cntnrs_size ctx then mjr_resize_containers ctx 0 else ctx)"
  obtain k where k: "reg_containers ctx1 = reg_containers ctx @ replicate k NULL"
    "cntnrs_size ctx1 = cntnrs_size ctx + k" "next_id ctx < cntnrs_size ctx1"
    using inv(2) by (cases "next_id ctx \<ge> cntnrs_size ctx")
      (auto simp: ctx1_def mjr_resize_containers_def MJR_CNTNRS_INCREMENT_def)
  have same: "cheap ctx1 = cheap ctx" "lists ctx1 = lists ctx" "lheap ctx1 = lheap ctx"
    "block_btree ctx1 = block_btree ctx" "blkhash ctx1 = blkhash ctx" "obj ctx1 = obj ctx"
    "brk ctx1 = brk ctx" "linkhash ctx1 = linkhash ctx"
    by (simp_all add: ctx1_def mjr_resize_containers_def Let_def)
  let ?r = "(reg_containers ctx1)[next_id ctx := p]"
  let ?ctx = "(set_cn p (\<lambda>c. c\<lparr>cnid := next_id ctx\<rparr>) ctx1)\<lparr>reg_containers := ?r, next_id := next_id ctx + 1\<rparr>"
  have reg: "mjr_register_container ctx p = (next_id ctx, ?ctx)"
    using assms(3) by (auto simp: mjr_register_container_def Let_def ctx1_def capacity_def)
  have ch: "cheap ?ctx = (cheap ctx)(p \<mapsto> c\<lparr>cnid := next_id ctx\<rparr>)"
    using assms(2) by (simp add: set_cn_def same)
  have len: "length ?r = cntnrs_size ctx1" using k inv by simp
  have old: "?r ! i = reg_containers ctx ! i" if "i < next_id ctx" for i
    using that inv by (simp add: k(1) nth_append)
  have new: "?r ! next_id ctx = p" using k inv by simp
  have null: "?r ! i \<noteq> NULL \<longrightarrow> i < next_id ctx + 1" if "i < cntnrs_size ctx1" for i
    using that inv k by (cases "i < cntnrs_size ctx") (auto simp: nth_append nth_list_update)
  have ro: "reg_ok ?ctx i" if "reg_ok ctx i" for i
  proof -
    have "i < next_id ctx" using cn_invD(7) [OF assms(1) that] .
    then show ?thesis using that old [of i] k(3) len ch by (auto simp: reg_ok_def)
  qed
  have lo: "list_ok ?ctx l" if "lists ctx n = Some l" for n l
    using list_ok_mono [OF cn_invD(3) [OF assms(1) that], of ?ctx] ro
    by (auto simp: link_ok_def set_cn_def same)
  have hl: "has_lists ?ctx x" if "cheap ?ctx q = Some x" for q x
  proof -
    have "\<exists>y. cheap ctx q = Some y \<and> inlinks x = inlinks y \<and> outlinks x = outlinks y"
      using that assms(2) unfolding ch by (auto split: if_splits)
    then show ?thesis using cn_invD(1) [OF assms(1)] by (auto simp: has_lists_def set_cn_def same)
  qed
  have "dom (cheap ?ctx) = dom (cheap ctx)" using assms(2) unfolding ch by auto
  moreover have rest: "lists ?ctx = lists ctx" "lheap ?ctx = lheap ctx" "brk ?ctx = brk ctx"
    "linkhash ?ctx = linkhash ctx" "cntnrs_size ?ctx = cntnrs_size ctx1"
    "block_btree ?ctx = block_btree ctx" "blkhash ?ctx = blkhash ctx" "obj ?ctx = obj ctx"
    by (simp_all add: set_cn_def same)
  ultimately have "cn_inv ?ctx"
    using assms(1) len k(3) null lo hl unfolding cn_inv_def by (simp add: Suc_le_eq)
  then show thesis
    by (intro that [OF reg]) (use ch old new k rest in simp_all)
qed

lemma registered_frame:
  assumes "cn_inv ctx" "registered ctx q" "cheap ctx' q = cheap ctx q"
    "\<And>i. i < next_id ctx \<Longrightarrow> reg_containers ctx' ! i = reg_containers ctx ! i"
    "cntnrs_size ctx \<le> length (reg_containers ctx')"
  shows "registered ctx' q"
proof -
  obtain c where c: "cheap ctx q = Some c" "cnid c < length (reg_containers ctx)"
    "reg_containers ctx ! cnid c = q" using assms(2) by (auto simp: registered_def)
  then have "cnid c < next_id ctx"
    using cn_invD(7) [OF assms(1)] registered_reg_ok [OF assms(2)] by blast
  then show ?thesis using c assms by (auto simp: registered_def cn_inv_def)
qed

subsection \<open>The order of the block tree\<close>

text \<open>The signed difference of two addresses has the sign of their comparison when both are
  below \<open>2 ^ 31\<close>.\<close>

lemma sint_diff:
  fixes a b :: eresi_Addr
  assumes "unat a < 2 ^ 31" "unat b < 2 ^ 31"
  shows "sint (b - a) = int (unat b) - int (unat a)"
proof -
  have "b - a = word_of_int (int (unat b) - int (unat a))"
    by (simp add: of_int_diff)
  then have "sint (b - a) = signed_take_bit 31 (int (unat b) - int (unat a))"
    by (simp add: sint_uint uint_word_of_int_eq signed_take_bit_take_bit del: of_int_diff)
  also have "\<dots> = int (unat b) - int (unat a)"
    using assms by (intro signed_take_bit_int_eq_self) (simp_all del: of_nat_unat)
  finally show ?thesis .
qed

interpretation block_tree: search_tree "match_block ctx" "\<lambda>p. unat (cn_vaddr ctx p)"
  "{p. unat (cn_vaddr ctx p) < 2 ^ 31}" for ctx
  by unfold_locales (auto simp: match_block_def sint_diff simp del: of_nat_unat)

definition tree_ordered :: "'o mjrcontext_t \<Rightarrow> btree_t \<Rightarrow> bool" where
  "tree_ordered ctx t \<longleftrightarrow> search_tree.ordered (\<lambda>p. unat (cn_vaddr ctx p)) {p. unat (cn_vaddr ctx p) < 2 ^ 31} t"

lemmas tree_ordered_BNode = block_tree.ordered_BNode [folded tree_ordered_def]
  and tree_insert_ordered = block_tree.insert_ordered [folded tree_ordered_def]
  and tree_insert_set = block_tree.insert_set [folded tree_ordered_def]
  and tree_ordered_eq = block_tree.ordered_def [folded tree_ordered_def]


subsection \<open>Properties\<close>

text \<open>Registration: while the array can grow, a container gets the next identifier, which
  finds it again; the identifiers given before still find theirs. When the array has its
  maximal size and is full, 0 is returned and nothing changes, the container's own
  identifier included.\<close>

theorem register_container_spec:
  assumes "cn_inv ctx" "cheap ctx p = Some c"
  shows "if capacity ctx
    then \<exists>ctx'. mjr_register_container ctx p = (next_id ctx, ctx') \<and> cn_inv ctx' \<and>
      mjr_lookup_container ctx' (next_id ctx) = Inr p \<and>
      cheap ctx' p = Some (c\<lparr>cnid := next_id ctx\<rparr>) \<and> next_id ctx' = next_id ctx + 1 \<and>
      (\<forall>i<next_id ctx. mjr_lookup_container ctx' i = mjr_lookup_container ctx i)
    else mjr_register_container ctx p = (0, ctx)"
proof (cases "capacity ctx")
  case True
  obtain ctx' where "mjr_register_container ctx p = (next_id ctx, ctx')" "cn_inv ctx'"
    "cheap ctx' = (cheap ctx)(p \<mapsto> c\<lparr>cnid := next_id ctx\<rparr>)" "next_id ctx' = next_id ctx + 1"
    "cntnrs_size ctx \<le> cntnrs_size ctx'" "next_id ctx < cntnrs_size ctx'"
    "reg_containers ctx' ! next_id ctx = p"
    "\<forall>i<next_id ctx. reg_containers ctx' ! i = reg_containers ctx ! i"
    by (rule register_ok [OF assms True])
  moreover have "length (reg_containers ctx') = cntnrs_size ctx'" "length (reg_containers ctx) = cntnrs_size ctx"
    "next_id ctx \<le> cntnrs_size ctx"
    using calculation(2) assms(1) by (simp_all add: cn_inv_def)
  ultimately show ?thesis using True by (simp add: mjr_lookup_container_def)
next
  case False
  then show ?thesis by (auto simp: mjr_register_container_def capacity_def Let_def)
qed

definition demo_block :: "eresi_Addr \<Rightarrow> u_int \<Rightarrow> nat \<Rightarrow> container_t" where
  "demo_block v s i = \<lparr>cnid = i, cntype = ASPECT_TYPE_BLOC, inlinks = link_list_name 1 ''bloc'' v CONTAINER_LINK_IN,
     outlinks = link_list_name 1 ''bloc'' v CONTAINER_LINK_OUT,
     cndata = Bloc \<lparr>bvaddr = v, bsize = s, bsymoff = 0, bseen = 0\<rparr>\<rparr>"

text \<open>A context with two registered blocks and empty link lists.\<close>

definition demo_ctx :: "unit mjrcontext_t" where
  "demo_ctx = \<lparr>obj = (), cheap = [1 \<mapsto> demo_block 0x100 0x20 1, 2 \<mapsto> demo_block 0x200 0x10 2],
     lheap = Map.empty,
     lists = [inlinks (demo_block 0x100 0x20 1) \<mapsto> elist_fresh ''a'' 17, outlinks (demo_block 0x100 0x20 1) \<mapsto> elist_fresh ''b'' 17,
              inlinks (demo_block 0x200 0x10 2) \<mapsto> elist_fresh ''c'' 17, outlinks (demo_block 0x200 0x10 2) \<mapsto> elist_fresh ''d'' 17],
     brk = 3, reg_containers = [0, 1, 2, 0], cntnrs_size = 4, next_id = 3,
     block_btree = BNode 1 1 BNull (BNode 2 2 BNull BNull),
     funchash = hash_fresh ''f'' 3 0,
     blkhash = snd (hash_add (snd (hash_add (hash_fresh ''b'' 3 0) (fmt_08X 0x100) 1)) (fmt_08X 0x200) 2),
     linkhash = hash_fresh ''l'' 3 0, func_stack = elist_fresh ''s'' 16, curfunc = 0,
     proc = \<lparr>proc_type = ASM_PROC_MIPS, proc_mode = 0, proc_fetch = None\<rparr>, history = replicate 5 (zero_instr, 0),
     goto_hash = hash_fresh ''g'' 3 0, goto_str = (\<lambda>_. []), calls_seen = 0, calls_found = 0\<rparr>"

lemma demo_ctx_sel:
  "cheap demo_ctx = [1 \<mapsto> demo_block 0x100 0x20 1, 2 \<mapsto> demo_block 0x200 0x10 2]"
  "reg_containers demo_ctx = [0, 1, 2, 0]" "next_id demo_ctx = 3" "cntnrs_size demo_ctx = 4"
  "brk demo_ctx = 3" "lheap demo_ctx = Map.empty" "linkhash demo_ctx = hash_fresh ''l'' 3 0"
  "block_btree demo_ctx = BNode 1 1 BNull (BNode 2 2 BNull BNull)"
  by (simp_all add: demo_ctx_def)

lemma demo_ctx_inv: "cn_inv demo_ctx"
proof -
  have "list_ok demo_ctx l" if "lists demo_ctx n = Some l" for n l
    using that by (auto simp: demo_ctx_def split: if_splits)
  moreover have "has_lists demo_ctx c" if "cheap demo_ctx p = Some c" for p c
    using that by (auto simp: demo_ctx_sel has_lists_def split: if_splits) (simp_all add: demo_ctx_def)
  moreover have "reg_containers demo_ctx ! i \<noteq> NULL \<longrightarrow> i < next_id demo_ctx" if "i < 4" for i
    using that by (auto simp: demo_ctx_sel less_Suc_eq numeral_eq_Suc)
  moreover have "hash_inv (linkhash demo_ctx)" by (simp add: demo_ctx_sel hash_fresh_inv)
  ultimately show ?thesis by (simp add: cn_inv_def demo_ctx_sel)
qed

theorem register_container_spec_witness:
  "fst (mjr_register_container demo_ctx 1) = 3"
proof -
  have "capacity demo_ctx" by (simp add: capacity_def demo_ctx_sel)
  then show ?thesis
    using register_container_spec [OF demo_ctx_inv, of 1 "demo_block 0x100 0x20 1"]
    by (auto simp: demo_ctx_sel)
qed

text \<open>Adding a link to a container that is not linked yet puts a new link object in front of
  the list and in the table of links and changes no other list; asking for the same link
  again returns the same object and changes nothing.\<close>

theorem add_link_once:
  assumes "cn_inv ctx" "cheap ctx p = Some c" "reg_ok ctx i"
    "cheap ctx (reg_containers ctx ! i) = Some t" "cntype t = cntype c"
    "ln = mjr_link_get_by_direction c dir" "lists ctx ln = Some l"
    "\<forall>x\<in>set (elist_seq l). map_option link_id (lheap ctx (snd x)) \<noteq> Some i"
  shows "\<exists>lk ctx' l'. mjr_container_add_link ctx p i lkt scope dir = Inr (lk, ctx') \<and>
    lists ctx' = (lists ctx)(ln \<mapsto> l') \<and> elist_seq l' = (link_name (cnid c) i, lk) # elist_seq l \<and>
    lheap ctx' lk = Some \<lparr>link_id = i, link_type = lkt, link_scope = scope\<rparr> \<and>
    hash_get (linkhash ctx') (link_name (cnid c) i) = lk \<and>
    mjr_container_add_link ctx' p i lkt scope dir = Inr (lk, ctx')"
proof -
  have lok: "list_ok ctx l" using cn_invD(3) [OF assms(1,7)] .
  have "scan_links ctx ty i lkt es m = Inr (None, m)" if "set es \<subseteq> set (lhead l)" for ty es m
    using that
  proof (induction es)
    case (Cons e es)
    obtain k x where x: "ent_key e = Some k" "lheap ctx (ent_data e) = Some x" "reg_ok ctx (link_id x)"
      by (rule list_ok_ent [OF lok, of e]) (use Cons.prems in auto)
    moreover have "link_id x \<noteq> i"
      using assms(8) Cons.prems x(2) by (auto simp: elist_seq_def)
    moreover obtain y where "cheap ctx (reg_containers ctx ! link_id x) = Some y"
      using x(3) by (auto simp: reg_ok_def)
    ultimately show ?case
      using Cons by (simp add: mjr_lookup_container_def get_cn_def reg_ok_def)
  qed simp
  then have scan: "scan_links ctx (cntype c) i lkt (lhead l) l = Inr (None, l)" by blast
  have brk: "brk ctx \<noteq> NULL" using assms(1) by (simp add: cn_inv_def)
  let ?lk = "brk ctx" and ?nm = "link_name (cnid c) i"
  let ?l = "list_add l ?nm ?lk"
  let ?ctx = "ctx\<lparr>lheap := (lheap ctx)(?lk \<mapsto> \<lparr>link_id = i, link_type = lkt, link_scope = scope\<rparr>),
      brk := brk ctx + 1, lists := (lists ctx)(ln \<mapsto> ?l),
      linkhash := snd (hash_add (linkhash ctx) ?nm ?lk)\<rparr>"
  have add: "mjr_container_add_link ctx p i lkt scope dir = Inr (?lk, ?ctx)"
    using assms(2,6,7) scan by (simp add: mjr_container_add_link_def get_cn_def Let_def)
  have seq: "elist_seq ?l = (?nm, ?lk) # elist_seq l"
    using lok brk by (simp add: list_add_ok list_ok_def)
  have hd: "lhead ?l = new_ent ?nm ?lk # lhead l" using brk by (simp add: list_add_def elist_add_def)
  have "scan_links ?ctx (cntype c) i lkt (lhead ?l) ?l = Inr (Some ?lk, ?l)"
    using assms(3-5) by (simp add: hd mjr_lookup_container_def get_cn_def reg_ok_def)
  then have "mjr_container_add_link ?ctx p i lkt scope dir = Inr (?lk, ?ctx)"
    using assms(2,6) by (simp add: mjr_container_add_link_def get_cn_def Let_def)
  moreover have "hash_get (linkhash ?ctx) ?nm = ?lk"
    using hash_dict.get_add_same [OF _ brk] assms(1) by (simp add: cn_inv_def)
  ultimately show ?thesis using add seq by (intro exI [of _ ?lk] exI [of _ ?ctx] exI [of _ ?l]) simp
qed

theorem add_link_once_witness:
  "\<exists>lk ctx'. mjr_container_add_link demo_ctx 1 2 MJR_LINK_BLOCK_COND_TRUE MJR_LINK_SCOPE_LOCAL CONTAINER_LINK_OUT =
      Inr (lk, ctx') \<and> hash_get (linkhash ctx') (link_name 1 2) = lk"
proof -
  let ?c = "demo_block 0x100 0x20 1"
  have "lists demo_ctx (outlinks ?c) = Some (elist_fresh ''b'' 17)"
    by (simp add: demo_ctx_def demo_block_def link_list_name_def)
  moreover have "mjr_link_get_by_direction ?c CONTAINER_LINK_OUT = outlinks ?c"
    by (simp add: mjr_link_get_by_direction_def)
  moreover have "cntype (demo_block 0x200 0x10 2) = cntype ?c" "cnid ?c = 1" by (simp_all add: demo_block_def)
  ultimately show ?thesis
    using add_link_once [OF demo_ctx_inv, of 1 ?c 2 "demo_block 0x200 0x10 2" "outlinks ?c" CONTAINER_LINK_OUT
        "elist_fresh ''b'' 17" MJR_LINK_BLOCK_COND_TRUE MJR_LINK_SCOPE_LOCAL]
    by (auto simp: demo_ctx_sel reg_ok_def)
qed

end
