(* ===== verification/Sparc_Const.thy ===== *)
theory Sparc_Const
  imports Asm
begin

text \<open>
  The enumerations of \<open>libasm-sparc.h\<close> (flags, registers, condition codes, operand contents,
  instruction identifiers), the flags of \<open>libasm.h\<close> the SPARC handlers use, and the tables of
  \<open>tables_sparc.c\<close> that give the identifier for a field of the instruction and the mnemonic for an
  identifier. The enumerators are in the order of the headers.
\<close>

named_theorems sparc_const \<open>values of the enumerators\<close>

text \<open>Arithmetic operations and operand types.\<close>

definition ASM_ARITH_ADD :: u_int where [sparc_const]: "ASM_ARITH_ADD = 0x1"
definition ASM_ARITH_SUB :: u_int where [sparc_const]: "ASM_ARITH_SUB = 0x2"
definition ASM_ARITH_MUL :: u_int where [sparc_const]: "ASM_ARITH_MUL = 0x4"
definition ASM_ARITH_DIV :: u_int where [sparc_const]: "ASM_ARITH_DIV = 0x8"
definition ASM_ARITH_OR :: u_int where [sparc_const]: "ASM_ARITH_OR = 0x10"
definition ASM_ARITH_XOR :: u_int where [sparc_const]: "ASM_ARITH_XOR = 0x20"
definition ASM_ARITH_AND :: u_int where [sparc_const]: "ASM_ARITH_AND = 0x40"
definition ASM_ARITH_SL :: u_int where [sparc_const]: "ASM_ARITH_SL = 0x80"
definition ASM_ARITH_SR :: u_int where [sparc_const]: "ASM_ARITH_SR = 0x100"
definition ASM_ARITH_NOT :: u_int where [sparc_const]: "ASM_ARITH_NOT = 0x200"
definition ASM_OPTYPE_NONE :: u_int where [sparc_const]: "ASM_OPTYPE_NONE = 0x0"
definition ASM_OPTYPE_IMM :: u_int where [sparc_const]: "ASM_OPTYPE_IMM = 0x1"
definition ASM_OPTYPE_REG :: u_int where [sparc_const]: "ASM_OPTYPE_REG = 0x2"
definition ASM_OPTYPE_MEM :: u_int where [sparc_const]: "ASM_OPTYPE_MEM = 0x4"

text \<open>The macros of the header.\<close>

definition ASM_FREG_FSR :: u_int where [sparc_const]: "ASM_FREG_FSR = - 1"
definition ASM_SP_ASI_P :: u_int where [sparc_const]: "ASM_SP_ASI_P = 0x80"
definition ASM_SP_ASI_P_L :: u_int where [sparc_const]: "ASM_SP_ASI_P_L = 0x88"

text \<open>\<open>enum e_sparc_flags\<close>.\<close>

definition ASM_SP_FLAG_C :: u_int where [sparc_const]: "ASM_SP_FLAG_C = 1"
definition ASM_SP_FLAG_V :: u_int where [sparc_const]: "ASM_SP_FLAG_V = 2"
definition ASM_SP_FLAG_Z :: u_int where [sparc_const]: "ASM_SP_FLAG_Z = 4"
definition ASM_SP_FLAG_N :: u_int where [sparc_const]: "ASM_SP_FLAG_N = 8"
definition ASM_SP_FLAG_FCC0 :: u_int where [sparc_const]: "ASM_SP_FLAG_FCC0 = 16"
definition ASM_SP_FLAG_FCC1 :: u_int where [sparc_const]: "ASM_SP_FLAG_FCC1 = 32"
definition ASM_SP_FLAG_FCC2 :: u_int where [sparc_const]: "ASM_SP_FLAG_FCC2 = 64"
definition ASM_SP_FLAG_FCC3 :: u_int where [sparc_const]: "ASM_SP_FLAG_FCC3 = 128"

text \<open>\<open>enum e_sparc_sregisters\<close>.\<close>

definition ASM_REG_G0 :: u_int where [sparc_const]: "ASM_REG_G0 = 0"
definition ASM_REG_G1 :: u_int where [sparc_const]: "ASM_REG_G1 = 1"
definition ASM_REG_G2 :: u_int where [sparc_const]: "ASM_REG_G2 = 2"
definition ASM_REG_G3 :: u_int where [sparc_const]: "ASM_REG_G3 = 3"
definition ASM_REG_G4 :: u_int where [sparc_const]: "ASM_REG_G4 = 4"
definition ASM_REG_G5 :: u_int where [sparc_const]: "ASM_REG_G5 = 5"
definition ASM_REG_G6 :: u_int where [sparc_const]: "ASM_REG_G6 = 6"
definition ASM_REG_G7 :: u_int where [sparc_const]: "ASM_REG_G7 = 7"
definition ASM_REG_O0 :: u_int where [sparc_const]: "ASM_REG_O0 = 8"
definition ASM_REG_O1 :: u_int where [sparc_const]: "ASM_REG_O1 = 9"
definition ASM_REG_O2 :: u_int where [sparc_const]: "ASM_REG_O2 = 10"
definition ASM_REG_O3 :: u_int where [sparc_const]: "ASM_REG_O3 = 11"
definition ASM_REG_O4 :: u_int where [sparc_const]: "ASM_REG_O4 = 12"
definition ASM_REG_O5 :: u_int where [sparc_const]: "ASM_REG_O5 = 13"
definition ASM_REG_O6 :: u_int where [sparc_const]: "ASM_REG_O6 = 14"
definition ASM_REG_O7 :: u_int where [sparc_const]: "ASM_REG_O7 = 15"
definition ASM_REG_L0 :: u_int where [sparc_const]: "ASM_REG_L0 = 16"
definition ASM_REG_L1 :: u_int where [sparc_const]: "ASM_REG_L1 = 17"
definition ASM_REG_L2 :: u_int where [sparc_const]: "ASM_REG_L2 = 18"
definition ASM_REG_L3 :: u_int where [sparc_const]: "ASM_REG_L3 = 19"
definition ASM_REG_L4 :: u_int where [sparc_const]: "ASM_REG_L4 = 20"
definition ASM_REG_L5 :: u_int where [sparc_const]: "ASM_REG_L5 = 21"
definition ASM_REG_L6 :: u_int where [sparc_const]: "ASM_REG_L6 = 22"
definition ASM_REG_L7 :: u_int where [sparc_const]: "ASM_REG_L7 = 23"
definition ASM_REG_I0 :: u_int where [sparc_const]: "ASM_REG_I0 = 24"
definition ASM_REG_I1 :: u_int where [sparc_const]: "ASM_REG_I1 = 25"
definition ASM_REG_I2 :: u_int where [sparc_const]: "ASM_REG_I2 = 26"
definition ASM_REG_I3 :: u_int where [sparc_const]: "ASM_REG_I3 = 27"
definition ASM_REG_I4 :: u_int where [sparc_const]: "ASM_REG_I4 = 28"
definition ASM_REG_I5 :: u_int where [sparc_const]: "ASM_REG_I5 = 29"
definition ASM_REG_I6 :: u_int where [sparc_const]: "ASM_REG_I6 = 30"
definition ASM_REG_I7 :: u_int where [sparc_const]: "ASM_REG_I7 = 31"

text \<open>\<open>enum e_sparc_state_registers\<close>.\<close>

definition ASM_SREG_Y :: u_int where [sparc_const]: "ASM_SREG_Y = 0"
definition ASM_SREG_BAD :: u_int where [sparc_const]: "ASM_SREG_BAD = 1"
definition ASM_SREG_CCR :: u_int where [sparc_const]: "ASM_SREG_CCR = 2"
definition ASM_SREG_ASI :: u_int where [sparc_const]: "ASM_SREG_ASI = 3"
definition ASM_SREG_TICK :: u_int where [sparc_const]: "ASM_SREG_TICK = 4"
definition ASM_SREG_PC :: u_int where [sparc_const]: "ASM_SREG_PC = 5"
definition ASM_SREG_FPRS :: u_int where [sparc_const]: "ASM_SREG_FPRS = 6"

text \<open>\<open>enum e_sparc_privileged_registers\<close>.\<close>

definition ASM_PREG_TPC :: u_int where [sparc_const]: "ASM_PREG_TPC = 0"
definition ASM_PREG_TNPC :: u_int where [sparc_const]: "ASM_PREG_TNPC = 1"
definition ASM_PREG_TSTATE :: u_int where [sparc_const]: "ASM_PREG_TSTATE = 2"
definition ASM_PREG_TT :: u_int where [sparc_const]: "ASM_PREG_TT = 3"
definition ASM_PREG_TICK :: u_int where [sparc_const]: "ASM_PREG_TICK = 4"
definition ASM_PREG_TBA :: u_int where [sparc_const]: "ASM_PREG_TBA = 5"
definition ASM_PREG_PSTATE :: u_int where [sparc_const]: "ASM_PREG_PSTATE = 6"
definition ASM_PREG_TL :: u_int where [sparc_const]: "ASM_PREG_TL = 7"
definition ASM_PREG_PIL :: u_int where [sparc_const]: "ASM_PREG_PIL = 8"
definition ASM_PREG_CWP :: u_int where [sparc_const]: "ASM_PREG_CWP = 9"
definition ASM_PREG_CANSAVE :: u_int where [sparc_const]: "ASM_PREG_CANSAVE = 10"
definition ASM_PREG_CANRESTORE :: u_int where [sparc_const]: "ASM_PREG_CANRESTORE = 11"
definition ASM_PREG_CLEANWIN :: u_int where [sparc_const]: "ASM_PREG_CLEANWIN = 12"
definition ASM_PREG_OTHERWIN :: u_int where [sparc_const]: "ASM_PREG_OTHERWIN = 13"
definition ASM_PREG_WSTATE :: u_int where [sparc_const]: "ASM_PREG_WSTATE = 14"
definition ASM_PREG_FQ :: u_int where [sparc_const]: "ASM_PREG_FQ = 15"
definition ASM_PREG_BAD16 :: u_int where [sparc_const]: "ASM_PREG_BAD16 = 16"
definition ASM_PREG_BAD17 :: u_int where [sparc_const]: "ASM_PREG_BAD17 = 17"
definition ASM_PREG_BAD18 :: u_int where [sparc_const]: "ASM_PREG_BAD18 = 18"
definition ASM_PREG_BAD19 :: u_int where [sparc_const]: "ASM_PREG_BAD19 = 19"
definition ASM_PREG_BAD20 :: u_int where [sparc_const]: "ASM_PREG_BAD20 = 20"
definition ASM_PREG_BAD21 :: u_int where [sparc_const]: "ASM_PREG_BAD21 = 21"
definition ASM_PREG_BAD22 :: u_int where [sparc_const]: "ASM_PREG_BAD22 = 22"
definition ASM_PREG_BAD23 :: u_int where [sparc_const]: "ASM_PREG_BAD23 = 23"
definition ASM_PREG_BAD24 :: u_int where [sparc_const]: "ASM_PREG_BAD24 = 24"
definition ASM_PREG_BAD25 :: u_int where [sparc_const]: "ASM_PREG_BAD25 = 25"
definition ASM_PREG_BAD26 :: u_int where [sparc_const]: "ASM_PREG_BAD26 = 26"
definition ASM_PREG_BAD27 :: u_int where [sparc_const]: "ASM_PREG_BAD27 = 27"
definition ASM_PREG_BAD28 :: u_int where [sparc_const]: "ASM_PREG_BAD28 = 28"
definition ASM_PREG_BAD29 :: u_int where [sparc_const]: "ASM_PREG_BAD29 = 29"
definition ASM_PREG_BAD30 :: u_int where [sparc_const]: "ASM_PREG_BAD30 = 30"
definition ASM_PREG_VER :: u_int where [sparc_const]: "ASM_PREG_VER = 31"

text \<open>\<open>enum e_sparc_condition_codes\<close>.\<close>

definition ASM_SP_FCC0 :: u_int where [sparc_const]: "ASM_SP_FCC0 = 0"
definition ASM_SP_FCC1 :: u_int where [sparc_const]: "ASM_SP_FCC1 = 1"
definition ASM_SP_FCC2 :: u_int where [sparc_const]: "ASM_SP_FCC2 = 2"
definition ASM_SP_FCC3 :: u_int where [sparc_const]: "ASM_SP_FCC3 = 3"
definition ASM_SP_ICC :: u_int where [sparc_const]: "ASM_SP_ICC = 4"
definition ASM_SP_BADCC :: u_int where [sparc_const]: "ASM_SP_BADCC = 5"
definition ASM_SP_XCC :: u_int where [sparc_const]: "ASM_SP_XCC = 6"

text \<open>\<open>enum e_sparc_operand\<close>.\<close>

definition ASM_SP_OTYPE_REGISTER :: u_int where [sparc_const]: "ASM_SP_OTYPE_REGISTER = 0"
definition ASM_SP_OTYPE_IMMEDIATE :: u_int where [sparc_const]: "ASM_SP_OTYPE_IMMEDIATE = 1"
definition ASM_SP_OTYPE_DISPLACEMENT :: u_int where [sparc_const]: "ASM_SP_OTYPE_DISPLACEMENT = 2"
definition ASM_SP_OTYPE_DISP30 :: u_int where [sparc_const]: "ASM_SP_OTYPE_DISP30 = 3"
definition ASM_SP_OTYPE_SETHI :: u_int where [sparc_const]: "ASM_SP_OTYPE_SETHI = 4"
definition ASM_SP_OTYPE_FREGISTER :: u_int where [sparc_const]: "ASM_SP_OTYPE_FREGISTER = 5"
definition ASM_SP_OTYPE_SREGISTER :: u_int where [sparc_const]: "ASM_SP_OTYPE_SREGISTER = 6"
definition ASM_SP_OTYPE_PREGISTER :: u_int where [sparc_const]: "ASM_SP_OTYPE_PREGISTER = 7"
definition ASM_SP_OTYPE_CC :: u_int where [sparc_const]: "ASM_SP_OTYPE_CC = 8"
definition ASM_SP_OTYPE_IMM_ADDRESS :: u_int where [sparc_const]: "ASM_SP_OTYPE_IMM_ADDRESS = 9"
definition ASM_SP_OTYPE_REG_ADDRESS :: u_int where [sparc_const]: "ASM_SP_OTYPE_REG_ADDRESS = 10"
definition ASM_SP_OTYPE_NUM :: u_int where [sparc_const]: "ASM_SP_OTYPE_NUM = 11"

text \<open>\<open>enum e_sparc_instr\<close>.\<close>

definition ASM_SP_unimpl :: nat where [sparc_const]: "ASM_SP_unimpl = 0"
definition ASM_SP_ADD :: nat where [sparc_const]: "ASM_SP_ADD = 1"
definition ASM_SP_ADDCC :: nat where [sparc_const]: "ASM_SP_ADDCC = 2"
definition ASM_SP_ADDC :: nat where [sparc_const]: "ASM_SP_ADDC = 3"
definition ASM_SP_ADDCCC :: nat where [sparc_const]: "ASM_SP_ADDCCC = 4"
definition ASM_SP_AND :: nat where [sparc_const]: "ASM_SP_AND = 5"
definition ASM_SP_ANDCC :: nat where [sparc_const]: "ASM_SP_ANDCC = 6"
definition ASM_SP_ANDN :: nat where [sparc_const]: "ASM_SP_ANDN = 7"
definition ASM_SP_ANDNCC :: nat where [sparc_const]: "ASM_SP_ANDNCC = 8"
definition ASM_SP_BA :: nat where [sparc_const]: "ASM_SP_BA = 9"
definition ASM_SP_BN :: nat where [sparc_const]: "ASM_SP_BN = 10"
definition ASM_SP_BNE :: nat where [sparc_const]: "ASM_SP_BNE = 11"
definition ASM_SP_BE :: nat where [sparc_const]: "ASM_SP_BE = 12"
definition ASM_SP_BG :: nat where [sparc_const]: "ASM_SP_BG = 13"
definition ASM_SP_BLE :: nat where [sparc_const]: "ASM_SP_BLE = 14"
definition ASM_SP_BGE :: nat where [sparc_const]: "ASM_SP_BGE = 15"
definition ASM_SP_BL :: nat where [sparc_const]: "ASM_SP_BL = 16"
definition ASM_SP_BGU :: nat where [sparc_const]: "ASM_SP_BGU = 17"
definition ASM_SP_BLEU :: nat where [sparc_const]: "ASM_SP_BLEU = 18"
definition ASM_SP_BCC :: nat where [sparc_const]: "ASM_SP_BCC = 19"
definition ASM_SP_BCS :: nat where [sparc_const]: "ASM_SP_BCS = 20"
definition ASM_SP_BPOS :: nat where [sparc_const]: "ASM_SP_BPOS = 21"
definition ASM_SP_BNEG :: nat where [sparc_const]: "ASM_SP_BNEG = 22"
definition ASM_SP_BVC :: nat where [sparc_const]: "ASM_SP_BVC = 23"
definition ASM_SP_BVS :: nat where [sparc_const]: "ASM_SP_BVS = 24"
definition ASM_SP_BRZ :: nat where [sparc_const]: "ASM_SP_BRZ = 25"
definition ASM_SP_BRLEZ :: nat where [sparc_const]: "ASM_SP_BRLEZ = 26"
definition ASM_SP_BRLZ :: nat where [sparc_const]: "ASM_SP_BRLZ = 27"
definition ASM_SP_BRNZ :: nat where [sparc_const]: "ASM_SP_BRNZ = 28"
definition ASM_SP_BRGZ :: nat where [sparc_const]: "ASM_SP_BRGZ = 29"
definition ASM_SP_BRGEZ :: nat where [sparc_const]: "ASM_SP_BRGEZ = 30"
definition ASM_SP_CALL :: nat where [sparc_const]: "ASM_SP_CALL = 31"
definition ASM_SP_CASA :: nat where [sparc_const]: "ASM_SP_CASA = 32"
definition ASM_SP_CASXA :: nat where [sparc_const]: "ASM_SP_CASXA = 33"
definition ASM_SP_DONE :: nat where [sparc_const]: "ASM_SP_DONE = 34"
definition ASM_SP_FABSS :: nat where [sparc_const]: "ASM_SP_FABSS = 35"
definition ASM_SP_FABSD :: nat where [sparc_const]: "ASM_SP_FABSD = 36"
definition ASM_SP_FABSQ :: nat where [sparc_const]: "ASM_SP_FABSQ = 37"
definition ASM_SP_FADDS :: nat where [sparc_const]: "ASM_SP_FADDS = 38"
definition ASM_SP_FADDD :: nat where [sparc_const]: "ASM_SP_FADDD = 39"
definition ASM_SP_FADDQ :: nat where [sparc_const]: "ASM_SP_FADDQ = 40"
definition ASM_SP_FBA :: nat where [sparc_const]: "ASM_SP_FBA = 41"
definition ASM_SP_FBN :: nat where [sparc_const]: "ASM_SP_FBN = 42"
definition ASM_SP_FBU :: nat where [sparc_const]: "ASM_SP_FBU = 43"
definition ASM_SP_FBG :: nat where [sparc_const]: "ASM_SP_FBG = 44"
definition ASM_SP_FBUG :: nat where [sparc_const]: "ASM_SP_FBUG = 45"
definition ASM_SP_FBL :: nat where [sparc_const]: "ASM_SP_FBL = 46"
definition ASM_SP_FBUL :: nat where [sparc_const]: "ASM_SP_FBUL = 47"
definition ASM_SP_FBLG :: nat where [sparc_const]: "ASM_SP_FBLG = 48"
definition ASM_SP_FBNE :: nat where [sparc_const]: "ASM_SP_FBNE = 49"
definition ASM_SP_FBE :: nat where [sparc_const]: "ASM_SP_FBE = 50"
definition ASM_SP_FBUE :: nat where [sparc_const]: "ASM_SP_FBUE = 51"
definition ASM_SP_FBGE :: nat where [sparc_const]: "ASM_SP_FBGE = 52"
definition ASM_SP_FBUGE :: nat where [sparc_const]: "ASM_SP_FBUGE = 53"
definition ASM_SP_FBLE :: nat where [sparc_const]: "ASM_SP_FBLE = 54"
definition ASM_SP_FBULE :: nat where [sparc_const]: "ASM_SP_FBULE = 55"
definition ASM_SP_FBO :: nat where [sparc_const]: "ASM_SP_FBO = 56"
definition ASM_SP_FCMPS :: nat where [sparc_const]: "ASM_SP_FCMPS = 57"
definition ASM_SP_FCMPD :: nat where [sparc_const]: "ASM_SP_FCMPD = 58"
definition ASM_SP_FCMPQ :: nat where [sparc_const]: "ASM_SP_FCMPQ = 59"
definition ASM_SP_FCMPES :: nat where [sparc_const]: "ASM_SP_FCMPES = 60"
definition ASM_SP_FCMPED :: nat where [sparc_const]: "ASM_SP_FCMPED = 61"
definition ASM_SP_FCMPEQ :: nat where [sparc_const]: "ASM_SP_FCMPEQ = 62"
definition ASM_SP_FDIVS :: nat where [sparc_const]: "ASM_SP_FDIVS = 63"
definition ASM_SP_FDIVD :: nat where [sparc_const]: "ASM_SP_FDIVD = 64"
definition ASM_SP_FDIVQ :: nat where [sparc_const]: "ASM_SP_FDIVQ = 65"
definition ASM_SP_FDMULQ :: nat where [sparc_const]: "ASM_SP_FDMULQ = 66"
definition ASM_SP_FITOS :: nat where [sparc_const]: "ASM_SP_FITOS = 67"
definition ASM_SP_FITOD :: nat where [sparc_const]: "ASM_SP_FITOD = 68"
definition ASM_SP_FITOQ :: nat where [sparc_const]: "ASM_SP_FITOQ = 69"
definition ASM_SP_FLUSH :: nat where [sparc_const]: "ASM_SP_FLUSH = 70"
definition ASM_SP_FLUSHW :: nat where [sparc_const]: "ASM_SP_FLUSHW = 71"
definition ASM_SP_FMOVS :: nat where [sparc_const]: "ASM_SP_FMOVS = 72"
definition ASM_SP_FMOVD :: nat where [sparc_const]: "ASM_SP_FMOVD = 73"
definition ASM_SP_FMOVQ :: nat where [sparc_const]: "ASM_SP_FMOVQ = 74"
definition ASM_SP_FMOVSA :: nat where [sparc_const]: "ASM_SP_FMOVSA = 75"
definition ASM_SP_FMOVSN :: nat where [sparc_const]: "ASM_SP_FMOVSN = 76"
definition ASM_SP_FMOVSNE :: nat where [sparc_const]: "ASM_SP_FMOVSNE = 77"
definition ASM_SP_FMOVSE :: nat where [sparc_const]: "ASM_SP_FMOVSE = 78"
definition ASM_SP_FMOVSG :: nat where [sparc_const]: "ASM_SP_FMOVSG = 79"
definition ASM_SP_FMOVSLE :: nat where [sparc_const]: "ASM_SP_FMOVSLE = 80"
definition ASM_SP_FMOVSGE :: nat where [sparc_const]: "ASM_SP_FMOVSGE = 81"
definition ASM_SP_FMOVSL :: nat where [sparc_const]: "ASM_SP_FMOVSL = 82"
definition ASM_SP_FMOVSGU :: nat where [sparc_const]: "ASM_SP_FMOVSGU = 83"
definition ASM_SP_FMOVSLEU :: nat where [sparc_const]: "ASM_SP_FMOVSLEU = 84"
definition ASM_SP_FMOVSCC :: nat where [sparc_const]: "ASM_SP_FMOVSCC = 85"
definition ASM_SP_FMOVSCS :: nat where [sparc_const]: "ASM_SP_FMOVSCS = 86"
definition ASM_SP_FMOVSPOS :: nat where [sparc_const]: "ASM_SP_FMOVSPOS = 87"
definition ASM_SP_FMOVSNEG :: nat where [sparc_const]: "ASM_SP_FMOVSNEG = 88"
definition ASM_SP_FMOVSVC :: nat where [sparc_const]: "ASM_SP_FMOVSVC = 89"
definition ASM_SP_FMOVSVS :: nat where [sparc_const]: "ASM_SP_FMOVSVS = 90"
definition ASM_SP_FMOVSU :: nat where [sparc_const]: "ASM_SP_FMOVSU = 91"
definition ASM_SP_FMOVSUG :: nat where [sparc_const]: "ASM_SP_FMOVSUG = 92"
definition ASM_SP_FMOVSUL :: nat where [sparc_const]: "ASM_SP_FMOVSUL = 93"
definition ASM_SP_FMOVSLG :: nat where [sparc_const]: "ASM_SP_FMOVSLG = 94"
definition ASM_SP_FMOVSUE :: nat where [sparc_const]: "ASM_SP_FMOVSUE = 95"
definition ASM_SP_FMOVSUGE :: nat where [sparc_const]: "ASM_SP_FMOVSUGE = 96"
definition ASM_SP_FMOVSULE :: nat where [sparc_const]: "ASM_SP_FMOVSULE = 97"
definition ASM_SP_FMOVSO :: nat where [sparc_const]: "ASM_SP_FMOVSO = 98"
definition ASM_SP_FMOVDA :: nat where [sparc_const]: "ASM_SP_FMOVDA = 99"
definition ASM_SP_FMOVDN :: nat where [sparc_const]: "ASM_SP_FMOVDN = 100"
definition ASM_SP_FMOVDNE :: nat where [sparc_const]: "ASM_SP_FMOVDNE = 101"
definition ASM_SP_FMOVDE :: nat where [sparc_const]: "ASM_SP_FMOVDE = 102"
definition ASM_SP_FMOVDG :: nat where [sparc_const]: "ASM_SP_FMOVDG = 103"
definition ASM_SP_FMOVDLE :: nat where [sparc_const]: "ASM_SP_FMOVDLE = 104"
definition ASM_SP_FMOVDGE :: nat where [sparc_const]: "ASM_SP_FMOVDGE = 105"
definition ASM_SP_FMOVDL :: nat where [sparc_const]: "ASM_SP_FMOVDL = 106"
definition ASM_SP_FMOVDGU :: nat where [sparc_const]: "ASM_SP_FMOVDGU = 107"
definition ASM_SP_FMOVDLEU :: nat where [sparc_const]: "ASM_SP_FMOVDLEU = 108"
definition ASM_SP_FMOVDCC :: nat where [sparc_const]: "ASM_SP_FMOVDCC = 109"
definition ASM_SP_FMOVDCS :: nat where [sparc_const]: "ASM_SP_FMOVDCS = 110"
definition ASM_SP_FMOVDPOS :: nat where [sparc_const]: "ASM_SP_FMOVDPOS = 111"
definition ASM_SP_FMOVDNEG :: nat where [sparc_const]: "ASM_SP_FMOVDNEG = 112"
definition ASM_SP_FMOVDVC :: nat where [sparc_const]: "ASM_SP_FMOVDVC = 113"
definition ASM_SP_FMOVDVS :: nat where [sparc_const]: "ASM_SP_FMOVDVS = 114"
definition ASM_SP_FMOVDU :: nat where [sparc_const]: "ASM_SP_FMOVDU = 115"
definition ASM_SP_FMOVDUG :: nat where [sparc_const]: "ASM_SP_FMOVDUG = 116"
definition ASM_SP_FMOVDUL :: nat where [sparc_const]: "ASM_SP_FMOVDUL = 117"
definition ASM_SP_FMOVDLG :: nat where [sparc_const]: "ASM_SP_FMOVDLG = 118"
definition ASM_SP_FMOVDUE :: nat where [sparc_const]: "ASM_SP_FMOVDUE = 119"
definition ASM_SP_FMOVDUGE :: nat where [sparc_const]: "ASM_SP_FMOVDUGE = 120"
definition ASM_SP_FMOVDULE :: nat where [sparc_const]: "ASM_SP_FMOVDULE = 121"
definition ASM_SP_FMOVDO :: nat where [sparc_const]: "ASM_SP_FMOVDO = 122"
definition ASM_SP_FMOVQA :: nat where [sparc_const]: "ASM_SP_FMOVQA = 123"
definition ASM_SP_FMOVQN :: nat where [sparc_const]: "ASM_SP_FMOVQN = 124"
definition ASM_SP_FMOVQNE :: nat where [sparc_const]: "ASM_SP_FMOVQNE = 125"
definition ASM_SP_FMOVQE :: nat where [sparc_const]: "ASM_SP_FMOVQE = 126"
definition ASM_SP_FMOVQG :: nat where [sparc_const]: "ASM_SP_FMOVQG = 127"
definition ASM_SP_FMOVQLE :: nat where [sparc_const]: "ASM_SP_FMOVQLE = 128"
definition ASM_SP_FMOVQGE :: nat where [sparc_const]: "ASM_SP_FMOVQGE = 129"
definition ASM_SP_FMOVQL :: nat where [sparc_const]: "ASM_SP_FMOVQL = 130"
definition ASM_SP_FMOVQGU :: nat where [sparc_const]: "ASM_SP_FMOVQGU = 131"
definition ASM_SP_FMOVQLEU :: nat where [sparc_const]: "ASM_SP_FMOVQLEU = 132"
definition ASM_SP_FMOVQCC :: nat where [sparc_const]: "ASM_SP_FMOVQCC = 133"
definition ASM_SP_FMOVQCS :: nat where [sparc_const]: "ASM_SP_FMOVQCS = 134"
definition ASM_SP_FMOVQPOS :: nat where [sparc_const]: "ASM_SP_FMOVQPOS = 135"
definition ASM_SP_FMOVQNEG :: nat where [sparc_const]: "ASM_SP_FMOVQNEG = 136"
definition ASM_SP_FMOVQVC :: nat where [sparc_const]: "ASM_SP_FMOVQVC = 137"
definition ASM_SP_FMOVQVS :: nat where [sparc_const]: "ASM_SP_FMOVQVS = 138"
definition ASM_SP_FMOVQU :: nat where [sparc_const]: "ASM_SP_FMOVQU = 139"
definition ASM_SP_FMOVQUG :: nat where [sparc_const]: "ASM_SP_FMOVQUG = 140"
definition ASM_SP_FMOVQUL :: nat where [sparc_const]: "ASM_SP_FMOVQUL = 141"
definition ASM_SP_FMOVQLG :: nat where [sparc_const]: "ASM_SP_FMOVQLG = 142"
definition ASM_SP_FMOVQUE :: nat where [sparc_const]: "ASM_SP_FMOVQUE = 143"
definition ASM_SP_FMOVQUGE :: nat where [sparc_const]: "ASM_SP_FMOVQUGE = 144"
definition ASM_SP_FMOVQULE :: nat where [sparc_const]: "ASM_SP_FMOVQULE = 145"
definition ASM_SP_FMOVQO :: nat where [sparc_const]: "ASM_SP_FMOVQO = 146"
definition ASM_SP_FMOVRSZ :: nat where [sparc_const]: "ASM_SP_FMOVRSZ = 147"
definition ASM_SP_FMOVRSLEZ :: nat where [sparc_const]: "ASM_SP_FMOVRSLEZ = 148"
definition ASM_SP_FMOVRSLZ :: nat where [sparc_const]: "ASM_SP_FMOVRSLZ = 149"
definition ASM_SP_FMOVRSNZ :: nat where [sparc_const]: "ASM_SP_FMOVRSNZ = 150"
definition ASM_SP_FMOVRSGZ :: nat where [sparc_const]: "ASM_SP_FMOVRSGZ = 151"
definition ASM_SP_FMOVRSGEZ :: nat where [sparc_const]: "ASM_SP_FMOVRSGEZ = 152"
definition ASM_SP_FMOVRDZ :: nat where [sparc_const]: "ASM_SP_FMOVRDZ = 153"
definition ASM_SP_FMOVRDLEZ :: nat where [sparc_const]: "ASM_SP_FMOVRDLEZ = 154"
definition ASM_SP_FMOVRDLZ :: nat where [sparc_const]: "ASM_SP_FMOVRDLZ = 155"
definition ASM_SP_FMOVRDNZ :: nat where [sparc_const]: "ASM_SP_FMOVRDNZ = 156"
definition ASM_SP_FMOVRDGZ :: nat where [sparc_const]: "ASM_SP_FMOVRDGZ = 157"
definition ASM_SP_FMOVRDGEZ :: nat where [sparc_const]: "ASM_SP_FMOVRDGEZ = 158"
definition ASM_SP_FMOVRQZ :: nat where [sparc_const]: "ASM_SP_FMOVRQZ = 159"
definition ASM_SP_FMOVRQLEZ :: nat where [sparc_const]: "ASM_SP_FMOVRQLEZ = 160"
definition ASM_SP_FMOVRQLZ :: nat where [sparc_const]: "ASM_SP_FMOVRQLZ = 161"
definition ASM_SP_FMOVRQNZ :: nat where [sparc_const]: "ASM_SP_FMOVRQNZ = 162"
definition ASM_SP_FMOVRQGZ :: nat where [sparc_const]: "ASM_SP_FMOVRQGZ = 163"
definition ASM_SP_FMOVRQGEZ :: nat where [sparc_const]: "ASM_SP_FMOVRQGEZ = 164"
definition ASM_SP_FMULS :: nat where [sparc_const]: "ASM_SP_FMULS = 165"
definition ASM_SP_FMULD :: nat where [sparc_const]: "ASM_SP_FMULD = 166"
definition ASM_SP_FMULQ :: nat where [sparc_const]: "ASM_SP_FMULQ = 167"
definition ASM_SP_FNEGS :: nat where [sparc_const]: "ASM_SP_FNEGS = 168"
definition ASM_SP_FNEGD :: nat where [sparc_const]: "ASM_SP_FNEGD = 169"
definition ASM_SP_FNEGQ :: nat where [sparc_const]: "ASM_SP_FNEGQ = 170"
definition ASM_SP_FSMULD :: nat where [sparc_const]: "ASM_SP_FSMULD = 171"
definition ASM_SP_FSQRTS :: nat where [sparc_const]: "ASM_SP_FSQRTS = 172"
definition ASM_SP_FSQRTD :: nat where [sparc_const]: "ASM_SP_FSQRTD = 173"
definition ASM_SP_FSQRTQ :: nat where [sparc_const]: "ASM_SP_FSQRTQ = 174"
definition ASM_SP_FSTOI :: nat where [sparc_const]: "ASM_SP_FSTOI = 175"
definition ASM_SP_FDTOI :: nat where [sparc_const]: "ASM_SP_FDTOI = 176"
definition ASM_SP_FQTOI :: nat where [sparc_const]: "ASM_SP_FQTOI = 177"
definition ASM_SP_FSTOD :: nat where [sparc_const]: "ASM_SP_FSTOD = 178"
definition ASM_SP_FSTOQ :: nat where [sparc_const]: "ASM_SP_FSTOQ = 179"
definition ASM_SP_FDTOS :: nat where [sparc_const]: "ASM_SP_FDTOS = 180"
definition ASM_SP_FDTOQ :: nat where [sparc_const]: "ASM_SP_FDTOQ = 181"
definition ASM_SP_FQTOS :: nat where [sparc_const]: "ASM_SP_FQTOS = 182"
definition ASM_SP_FQTOD :: nat where [sparc_const]: "ASM_SP_FQTOD = 183"
definition ASM_SP_FSTOX :: nat where [sparc_const]: "ASM_SP_FSTOX = 184"
definition ASM_SP_FDTOX :: nat where [sparc_const]: "ASM_SP_FDTOX = 185"
definition ASM_SP_FQTOX :: nat where [sparc_const]: "ASM_SP_FQTOX = 186"
definition ASM_SP_FSUBS :: nat where [sparc_const]: "ASM_SP_FSUBS = 187"
definition ASM_SP_FSUBD :: nat where [sparc_const]: "ASM_SP_FSUBD = 188"
definition ASM_SP_FSUBQ :: nat where [sparc_const]: "ASM_SP_FSUBQ = 189"
definition ASM_SP_FXTOS :: nat where [sparc_const]: "ASM_SP_FXTOS = 190"
definition ASM_SP_FXTOD :: nat where [sparc_const]: "ASM_SP_FXTOD = 191"
definition ASM_SP_FXTOQ :: nat where [sparc_const]: "ASM_SP_FXTOQ = 192"
definition ASM_SP_ILLTRAP :: nat where [sparc_const]: "ASM_SP_ILLTRAP = 193"
definition ASM_SP_IMPDEP1 :: nat where [sparc_const]: "ASM_SP_IMPDEP1 = 194"
definition ASM_SP_IMPDEP2 :: nat where [sparc_const]: "ASM_SP_IMPDEP2 = 195"
definition ASM_SP_JMPL :: nat where [sparc_const]: "ASM_SP_JMPL = 196"
definition ASM_SP_LDD :: nat where [sparc_const]: "ASM_SP_LDD = 197"
definition ASM_SP_LDDA :: nat where [sparc_const]: "ASM_SP_LDDA = 198"
definition ASM_SP_LDDF :: nat where [sparc_const]: "ASM_SP_LDDF = 199"
definition ASM_SP_LDDFA :: nat where [sparc_const]: "ASM_SP_LDDFA = 200"
definition ASM_SP_LDF :: nat where [sparc_const]: "ASM_SP_LDF = 201"
definition ASM_SP_LDFA :: nat where [sparc_const]: "ASM_SP_LDFA = 202"
definition ASM_SP_LDFSR :: nat where [sparc_const]: "ASM_SP_LDFSR = 203"
definition ASM_SP_LDQF :: nat where [sparc_const]: "ASM_SP_LDQF = 204"
definition ASM_SP_LDQFA :: nat where [sparc_const]: "ASM_SP_LDQFA = 205"
definition ASM_SP_LDSB :: nat where [sparc_const]: "ASM_SP_LDSB = 206"
definition ASM_SP_LDSBA :: nat where [sparc_const]: "ASM_SP_LDSBA = 207"
definition ASM_SP_LDSH :: nat where [sparc_const]: "ASM_SP_LDSH = 208"
definition ASM_SP_LDSHA :: nat where [sparc_const]: "ASM_SP_LDSHA = 209"
definition ASM_SP_LDSTUB :: nat where [sparc_const]: "ASM_SP_LDSTUB = 210"
definition ASM_SP_LDSTUBA :: nat where [sparc_const]: "ASM_SP_LDSTUBA = 211"
definition ASM_SP_LDSW :: nat where [sparc_const]: "ASM_SP_LDSW = 212"
definition ASM_SP_LDSWA :: nat where [sparc_const]: "ASM_SP_LDSWA = 213"
definition ASM_SP_LDUB :: nat where [sparc_const]: "ASM_SP_LDUB = 214"
definition ASM_SP_LDUBA :: nat where [sparc_const]: "ASM_SP_LDUBA = 215"
definition ASM_SP_LDUH :: nat where [sparc_const]: "ASM_SP_LDUH = 216"
definition ASM_SP_LDUHA :: nat where [sparc_const]: "ASM_SP_LDUHA = 217"
definition ASM_SP_LDUW :: nat where [sparc_const]: "ASM_SP_LDUW = 218"
definition ASM_SP_LDUWA :: nat where [sparc_const]: "ASM_SP_LDUWA = 219"
definition ASM_SP_LDX :: nat where [sparc_const]: "ASM_SP_LDX = 220"
definition ASM_SP_LDXA :: nat where [sparc_const]: "ASM_SP_LDXA = 221"
definition ASM_SP_LDXFSR :: nat where [sparc_const]: "ASM_SP_LDXFSR = 222"
definition ASM_SP_MEMBAR :: nat where [sparc_const]: "ASM_SP_MEMBAR = 223"
definition ASM_SP_MOVA :: nat where [sparc_const]: "ASM_SP_MOVA = 224"
definition ASM_SP_MOVN :: nat where [sparc_const]: "ASM_SP_MOVN = 225"
definition ASM_SP_MOVNE :: nat where [sparc_const]: "ASM_SP_MOVNE = 226"
definition ASM_SP_MOVE :: nat where [sparc_const]: "ASM_SP_MOVE = 227"
definition ASM_SP_MOVG :: nat where [sparc_const]: "ASM_SP_MOVG = 228"
definition ASM_SP_MOVLE :: nat where [sparc_const]: "ASM_SP_MOVLE = 229"
definition ASM_SP_MOVGE :: nat where [sparc_const]: "ASM_SP_MOVGE = 230"
definition ASM_SP_MOVL :: nat where [sparc_const]: "ASM_SP_MOVL = 231"
definition ASM_SP_MOVGU :: nat where [sparc_const]: "ASM_SP_MOVGU = 232"
definition ASM_SP_MOVLEU :: nat where [sparc_const]: "ASM_SP_MOVLEU = 233"
definition ASM_SP_MOVCC :: nat where [sparc_const]: "ASM_SP_MOVCC = 234"
definition ASM_SP_MOVCS :: nat where [sparc_const]: "ASM_SP_MOVCS = 235"
definition ASM_SP_MOVPOS :: nat where [sparc_const]: "ASM_SP_MOVPOS = 236"
definition ASM_SP_MOVNEG :: nat where [sparc_const]: "ASM_SP_MOVNEG = 237"
definition ASM_SP_MOVVC :: nat where [sparc_const]: "ASM_SP_MOVVC = 238"
definition ASM_SP_MOVVS :: nat where [sparc_const]: "ASM_SP_MOVVS = 239"
definition ASM_SP_MOVU :: nat where [sparc_const]: "ASM_SP_MOVU = 240"
definition ASM_SP_MOVUG :: nat where [sparc_const]: "ASM_SP_MOVUG = 241"
definition ASM_SP_MOVUL :: nat where [sparc_const]: "ASM_SP_MOVUL = 242"
definition ASM_SP_MOVLG :: nat where [sparc_const]: "ASM_SP_MOVLG = 243"
definition ASM_SP_MOVUE :: nat where [sparc_const]: "ASM_SP_MOVUE = 244"
definition ASM_SP_MOVUGE :: nat where [sparc_const]: "ASM_SP_MOVUGE = 245"
definition ASM_SP_MOVULE :: nat where [sparc_const]: "ASM_SP_MOVULE = 246"
definition ASM_SP_MOVO :: nat where [sparc_const]: "ASM_SP_MOVO = 247"
definition ASM_SP_MOVRZ :: nat where [sparc_const]: "ASM_SP_MOVRZ = 248"
definition ASM_SP_MOVRLEZ :: nat where [sparc_const]: "ASM_SP_MOVRLEZ = 249"
definition ASM_SP_MOVRLZ :: nat where [sparc_const]: "ASM_SP_MOVRLZ = 250"
definition ASM_SP_MOVRNZ :: nat where [sparc_const]: "ASM_SP_MOVRNZ = 251"
definition ASM_SP_MOVRGZ :: nat where [sparc_const]: "ASM_SP_MOVRGZ = 252"
definition ASM_SP_MOVRGEZ :: nat where [sparc_const]: "ASM_SP_MOVRGEZ = 253"
definition ASM_SP_MULSCC :: nat where [sparc_const]: "ASM_SP_MULSCC = 254"
definition ASM_SP_MULX :: nat where [sparc_const]: "ASM_SP_MULX = 255"
definition ASM_SP_NOP :: nat where [sparc_const]: "ASM_SP_NOP = 256"
definition ASM_SP_OR :: nat where [sparc_const]: "ASM_SP_OR = 257"
definition ASM_SP_ORCC :: nat where [sparc_const]: "ASM_SP_ORCC = 258"
definition ASM_SP_ORN :: nat where [sparc_const]: "ASM_SP_ORN = 259"
definition ASM_SP_ORNCC :: nat where [sparc_const]: "ASM_SP_ORNCC = 260"
definition ASM_SP_POPC :: nat where [sparc_const]: "ASM_SP_POPC = 261"
definition ASM_SP_PREFETCH :: nat where [sparc_const]: "ASM_SP_PREFETCH = 262"
definition ASM_SP_PREFETCHA :: nat where [sparc_const]: "ASM_SP_PREFETCHA = 263"
definition ASM_SP_RD :: nat where [sparc_const]: "ASM_SP_RD = 264"
definition ASM_SP_RDPR :: nat where [sparc_const]: "ASM_SP_RDPR = 265"
definition ASM_SP_RESTORE :: nat where [sparc_const]: "ASM_SP_RESTORE = 266"
definition ASM_SP_RESTORED :: nat where [sparc_const]: "ASM_SP_RESTORED = 267"
definition ASM_SP_RETRY :: nat where [sparc_const]: "ASM_SP_RETRY = 268"
definition ASM_SP_RETURN :: nat where [sparc_const]: "ASM_SP_RETURN = 269"
definition ASM_SP_SAVE :: nat where [sparc_const]: "ASM_SP_SAVE = 270"
definition ASM_SP_SAVED :: nat where [sparc_const]: "ASM_SP_SAVED = 271"
definition ASM_SP_SDIV :: nat where [sparc_const]: "ASM_SP_SDIV = 272"
definition ASM_SP_SDIVCC :: nat where [sparc_const]: "ASM_SP_SDIVCC = 273"
definition ASM_SP_SDIVX :: nat where [sparc_const]: "ASM_SP_SDIVX = 274"
definition ASM_SP_SETHI :: nat where [sparc_const]: "ASM_SP_SETHI = 275"
definition ASM_SP_SIR :: nat where [sparc_const]: "ASM_SP_SIR = 276"
definition ASM_SP_SLL :: nat where [sparc_const]: "ASM_SP_SLL = 277"
definition ASM_SP_SLLX :: nat where [sparc_const]: "ASM_SP_SLLX = 278"
definition ASM_SP_SMUL :: nat where [sparc_const]: "ASM_SP_SMUL = 279"
definition ASM_SP_SMULCC :: nat where [sparc_const]: "ASM_SP_SMULCC = 280"
definition ASM_SP_SQRTS :: nat where [sparc_const]: "ASM_SP_SQRTS = 281"
definition ASM_SP_SQRTD :: nat where [sparc_const]: "ASM_SP_SQRTD = 282"
definition ASM_SP_SQRTQ :: nat where [sparc_const]: "ASM_SP_SQRTQ = 283"
definition ASM_SP_SRA :: nat where [sparc_const]: "ASM_SP_SRA = 284"
definition ASM_SP_SRAX :: nat where [sparc_const]: "ASM_SP_SRAX = 285"
definition ASM_SP_SRL :: nat where [sparc_const]: "ASM_SP_SRL = 286"
definition ASM_SP_SRLX :: nat where [sparc_const]: "ASM_SP_SRLX = 287"
definition ASM_SP_STB :: nat where [sparc_const]: "ASM_SP_STB = 288"
definition ASM_SP_STBA :: nat where [sparc_const]: "ASM_SP_STBA = 289"
definition ASM_SP_STBAR :: nat where [sparc_const]: "ASM_SP_STBAR = 290"
definition ASM_SP_STD :: nat where [sparc_const]: "ASM_SP_STD = 291"
definition ASM_SP_STDA :: nat where [sparc_const]: "ASM_SP_STDA = 292"
definition ASM_SP_STDF :: nat where [sparc_const]: "ASM_SP_STDF = 293"
definition ASM_SP_STDFA :: nat where [sparc_const]: "ASM_SP_STDFA = 294"
definition ASM_SP_STF :: nat where [sparc_const]: "ASM_SP_STF = 295"
definition ASM_SP_STFA :: nat where [sparc_const]: "ASM_SP_STFA = 296"
definition ASM_SP_STFSR :: nat where [sparc_const]: "ASM_SP_STFSR = 297"
definition ASM_SP_STH :: nat where [sparc_const]: "ASM_SP_STH = 298"
definition ASM_SP_STHA :: nat where [sparc_const]: "ASM_SP_STHA = 299"
definition ASM_SP_STQF :: nat where [sparc_const]: "ASM_SP_STQF = 300"
definition ASM_SP_STQFA :: nat where [sparc_const]: "ASM_SP_STQFA = 301"
definition ASM_SP_STW :: nat where [sparc_const]: "ASM_SP_STW = 302"
definition ASM_SP_STWA :: nat where [sparc_const]: "ASM_SP_STWA = 303"
definition ASM_SP_STX :: nat where [sparc_const]: "ASM_SP_STX = 304"
definition ASM_SP_STXA :: nat where [sparc_const]: "ASM_SP_STXA = 305"
definition ASM_SP_STXFSR :: nat where [sparc_const]: "ASM_SP_STXFSR = 306"
definition ASM_SP_SUB :: nat where [sparc_const]: "ASM_SP_SUB = 307"
definition ASM_SP_SUBCC :: nat where [sparc_const]: "ASM_SP_SUBCC = 308"
definition ASM_SP_SUBC :: nat where [sparc_const]: "ASM_SP_SUBC = 309"
definition ASM_SP_SUBCCC :: nat where [sparc_const]: "ASM_SP_SUBCCC = 310"
definition ASM_SP_SWAP :: nat where [sparc_const]: "ASM_SP_SWAP = 311"
definition ASM_SP_SWAPA :: nat where [sparc_const]: "ASM_SP_SWAPA = 312"
definition ASM_SP_TADDCC :: nat where [sparc_const]: "ASM_SP_TADDCC = 313"
definition ASM_SP_TADDCCTV :: nat where [sparc_const]: "ASM_SP_TADDCCTV = 314"
definition ASM_SP_TA :: nat where [sparc_const]: "ASM_SP_TA = 315"
definition ASM_SP_TN :: nat where [sparc_const]: "ASM_SP_TN = 316"
definition ASM_SP_TNE :: nat where [sparc_const]: "ASM_SP_TNE = 317"
definition ASM_SP_TE :: nat where [sparc_const]: "ASM_SP_TE = 318"
definition ASM_SP_TG :: nat where [sparc_const]: "ASM_SP_TG = 319"
definition ASM_SP_TLE :: nat where [sparc_const]: "ASM_SP_TLE = 320"
definition ASM_SP_TGE :: nat where [sparc_const]: "ASM_SP_TGE = 321"
definition ASM_SP_TL :: nat where [sparc_const]: "ASM_SP_TL = 322"
definition ASM_SP_TGU :: nat where [sparc_const]: "ASM_SP_TGU = 323"
definition ASM_SP_TLEU :: nat where [sparc_const]: "ASM_SP_TLEU = 324"
definition ASM_SP_TCC :: nat where [sparc_const]: "ASM_SP_TCC = 325"
definition ASM_SP_TCS :: nat where [sparc_const]: "ASM_SP_TCS = 326"
definition ASM_SP_TPOS :: nat where [sparc_const]: "ASM_SP_TPOS = 327"
definition ASM_SP_TNEG :: nat where [sparc_const]: "ASM_SP_TNEG = 328"
definition ASM_SP_TVC :: nat where [sparc_const]: "ASM_SP_TVC = 329"
definition ASM_SP_TVS :: nat where [sparc_const]: "ASM_SP_TVS = 330"
definition ASM_SP_TSUBCC :: nat where [sparc_const]: "ASM_SP_TSUBCC = 331"
definition ASM_SP_TSUBCCTV :: nat where [sparc_const]: "ASM_SP_TSUBCCTV = 332"
definition ASM_SP_UDIV :: nat where [sparc_const]: "ASM_SP_UDIV = 333"
definition ASM_SP_UDIVCC :: nat where [sparc_const]: "ASM_SP_UDIVCC = 334"
definition ASM_SP_UDIVX :: nat where [sparc_const]: "ASM_SP_UDIVX = 335"
definition ASM_SP_UMUL :: nat where [sparc_const]: "ASM_SP_UMUL = 336"
definition ASM_SP_UMULCC :: nat where [sparc_const]: "ASM_SP_UMULCC = 337"
definition ASM_SP_WR :: nat where [sparc_const]: "ASM_SP_WR = 338"
definition ASM_SP_WRPR :: nat where [sparc_const]: "ASM_SP_WRPR = 339"
definition ASM_SP_XNOR :: nat where [sparc_const]: "ASM_SP_XNOR = 340"
definition ASM_SP_XNORCC :: nat where [sparc_const]: "ASM_SP_XNORCC = 341"
definition ASM_SP_XOR :: nat where [sparc_const]: "ASM_SP_XOR = 342"
definition ASM_SP_XORCC :: nat where [sparc_const]: "ASM_SP_XORCC = 343"
definition ASM_SP_CMP :: nat where [sparc_const]: "ASM_SP_CMP = 344"
definition ASM_SP_JMP :: nat where [sparc_const]: "ASM_SP_JMP = 345"
definition ASM_SP_IPREFETCH :: nat where [sparc_const]: "ASM_SP_IPREFETCH = 346"
definition ASM_SP_TST :: nat where [sparc_const]: "ASM_SP_TST = 347"
definition ASM_SP_RET :: nat where [sparc_const]: "ASM_SP_RET = 348"
definition ASM_SP_RETL :: nat where [sparc_const]: "ASM_SP_RETL = 349"
definition ASM_SP_SETUW :: nat where [sparc_const]: "ASM_SP_SETUW = 350"
definition ASM_SP_SET :: nat where [sparc_const]: "ASM_SP_SET = 351"
definition ASM_SP_SETSW :: nat where [sparc_const]: "ASM_SP_SETSW = 352"
definition ASM_SP_SETX :: nat where [sparc_const]: "ASM_SP_SETX = 353"
definition ASM_SP_SIGNX :: nat where [sparc_const]: "ASM_SP_SIGNX = 354"
definition ASM_SP_NOT :: nat where [sparc_const]: "ASM_SP_NOT = 355"
definition ASM_SP_NEG :: nat where [sparc_const]: "ASM_SP_NEG = 356"
definition ASM_SP_CAS :: nat where [sparc_const]: "ASM_SP_CAS = 357"
definition ASM_SP_CASL :: nat where [sparc_const]: "ASM_SP_CASL = 358"
definition ASM_SP_CASX :: nat where [sparc_const]: "ASM_SP_CASX = 359"
definition ASM_SP_CASXL :: nat where [sparc_const]: "ASM_SP_CASXL = 360"
definition ASM_SP_INC :: nat where [sparc_const]: "ASM_SP_INC = 361"
definition ASM_SP_INCCC :: nat where [sparc_const]: "ASM_SP_INCCC = 362"
definition ASM_SP_DEC :: nat where [sparc_const]: "ASM_SP_DEC = 363"
definition ASM_SP_DECCC :: nat where [sparc_const]: "ASM_SP_DECCC = 364"
definition ASM_SP_BTST :: nat where [sparc_const]: "ASM_SP_BTST = 365"
definition ASM_SP_BSET :: nat where [sparc_const]: "ASM_SP_BSET = 366"
definition ASM_SP_BCLR :: nat where [sparc_const]: "ASM_SP_BCLR = 367"
definition ASM_SP_BTOG :: nat where [sparc_const]: "ASM_SP_BTOG = 368"
definition ASM_SP_CLR :: nat where [sparc_const]: "ASM_SP_CLR = 369"
definition ASM_SP_CLRB :: nat where [sparc_const]: "ASM_SP_CLRB = 370"
definition ASM_SP_CLRH :: nat where [sparc_const]: "ASM_SP_CLRH = 371"
definition ASM_SP_CLRX :: nat where [sparc_const]: "ASM_SP_CLRX = 372"
definition ASM_SP_CLRUW :: nat where [sparc_const]: "ASM_SP_CLRUW = 373"
definition ASM_SP_MOV :: nat where [sparc_const]: "ASM_SP_MOV = 374"
definition ASM_SP_BAD :: nat where [sparc_const]: "ASM_SP_BAD = 375"

subsection \<open>Tables\<close>

definition sparc_op2_table :: "nat list" where
  "sparc_op2_table = [
     ASM_SP_ADD, ASM_SP_AND, ASM_SP_OR, ASM_SP_XOR, ASM_SP_SUB, ASM_SP_ANDN, ASM_SP_ORN,
     ASM_SP_XNOR, ASM_SP_ADDC, ASM_SP_MULX, ASM_SP_UMUL, ASM_SP_SMUL, ASM_SP_SUBC, ASM_SP_UDIVX,
     ASM_SP_UDIV, ASM_SP_SDIV, ASM_SP_ADDCC, ASM_SP_ANDCC, ASM_SP_ORCC, ASM_SP_XORCC, ASM_SP_SUBCC,
     ASM_SP_ANDNCC, ASM_SP_ORNCC, ASM_SP_XNORCC, ASM_SP_ADDCCC, ASM_SP_unimpl, ASM_SP_UMULCC,
     ASM_SP_SMULCC, ASM_SP_SUBCCC, ASM_SP_unimpl, ASM_SP_UDIVCC, ASM_SP_SDIVCC, ASM_SP_TADDCC,
     ASM_SP_TSUBCC, ASM_SP_TADDCCTV, ASM_SP_TSUBCCTV, ASM_SP_MULSCC, ASM_SP_SLL, ASM_SP_SRL,
     ASM_SP_SRA, ASM_SP_RD, ASM_SP_unimpl, ASM_SP_RDPR, ASM_SP_FLUSHW, ASM_SP_MOVA, ASM_SP_SDIVX,
     ASM_SP_POPC, ASM_SP_MOVRZ, ASM_SP_WR, ASM_SP_SAVED, ASM_SP_WRPR, ASM_SP_unimpl, ASM_SP_FMOVS,
     ASM_SP_FMOVS, ASM_SP_IMPDEP1, ASM_SP_IMPDEP2, ASM_SP_JMPL, ASM_SP_RETURN, ASM_SP_TA,
     ASM_SP_FLUSH, ASM_SP_SAVE, ASM_SP_RESTORE, ASM_SP_DONE, ASM_SP_unimpl]"

definition sparc_op3_table :: "nat list" where
  "sparc_op3_table = [
     ASM_SP_LDUW, ASM_SP_LDUB, ASM_SP_LDUH, ASM_SP_LDD, ASM_SP_STW, ASM_SP_STB, ASM_SP_STH,
     ASM_SP_STD, ASM_SP_LDSW, ASM_SP_LDSB, ASM_SP_LDSH, ASM_SP_LDX, ASM_SP_unimpl, ASM_SP_LDSTUB,
     ASM_SP_STX, ASM_SP_SWAP, ASM_SP_LDUWA, ASM_SP_LDUBA, ASM_SP_LDUHA, ASM_SP_LDDA, ASM_SP_STWA,
     ASM_SP_STBA, ASM_SP_STHA, ASM_SP_STDA, ASM_SP_LDSWA, ASM_SP_LDSBA, ASM_SP_LDSHA, ASM_SP_LDXA,
     ASM_SP_unimpl, ASM_SP_LDSTUBA, ASM_SP_STXA, ASM_SP_SWAPA, ASM_SP_LDF, ASM_SP_LDFSR,
     ASM_SP_LDQF, ASM_SP_LDDF, ASM_SP_STF, ASM_SP_STFSR, ASM_SP_STQF, ASM_SP_STDF, ASM_SP_unimpl,
     ASM_SP_unimpl, ASM_SP_unimpl, ASM_SP_unimpl, ASM_SP_unimpl, ASM_SP_PREFETCH, ASM_SP_unimpl,
     ASM_SP_unimpl, ASM_SP_LDFA, ASM_SP_unimpl, ASM_SP_LDQFA, ASM_SP_LDDFA, ASM_SP_STFA,
     ASM_SP_unimpl, ASM_SP_unimpl, ASM_SP_unimpl, ASM_SP_unimpl, ASM_SP_unimpl, ASM_SP_unimpl,
     ASM_SP_unimpl, ASM_SP_CASA, ASM_SP_PREFETCHA, ASM_SP_CASXA, ASM_SP_unimpl]"

definition sparc_bcc_list :: "nat list" where
  "sparc_bcc_list = [
     ASM_SP_BN, ASM_SP_BE, ASM_SP_BLE, ASM_SP_BL, ASM_SP_BLEU, ASM_SP_BCS, ASM_SP_BNEG, ASM_SP_BVS,
     ASM_SP_BA, ASM_SP_BNE, ASM_SP_BG, ASM_SP_BGE, ASM_SP_BGU, ASM_SP_BCC, ASM_SP_BPOS, ASM_SP_BVC]"

definition sparc_tcc_list :: "nat list" where
  "sparc_tcc_list = [
     ASM_SP_TN, ASM_SP_TE, ASM_SP_TLE, ASM_SP_TL, ASM_SP_TLEU, ASM_SP_TCS, ASM_SP_TNEG, ASM_SP_TVS,
     ASM_SP_TA, ASM_SP_TNE, ASM_SP_TG, ASM_SP_TGE, ASM_SP_TGU, ASM_SP_TCC, ASM_SP_TPOS, ASM_SP_TVC]"

definition sparc_brcc_list :: "nat list" where
  "sparc_brcc_list = [
     ASM_SP_unimpl, ASM_SP_BRZ, ASM_SP_BRLEZ, ASM_SP_BRLZ, ASM_SP_unimpl, ASM_SP_BRNZ, ASM_SP_BRGZ,
     ASM_SP_BRGEZ]"

definition sparc_fbcc_list :: "nat list" where
  "sparc_fbcc_list = [
     ASM_SP_FBN, ASM_SP_FBNE, ASM_SP_FBLG, ASM_SP_FBUL, ASM_SP_FBL, ASM_SP_FBUG, ASM_SP_FBG,
     ASM_SP_FBU, ASM_SP_FBA, ASM_SP_FBE, ASM_SP_FBUE, ASM_SP_FBGE, ASM_SP_FBUGE, ASM_SP_FBLE,
     ASM_SP_FBULE, ASM_SP_FBO]"

definition sparc_shift_list :: "nat list" where
  "sparc_shift_list = [
     ASM_SP_SLL, ASM_SP_SLLX, ASM_SP_SRL, ASM_SP_SRLX, ASM_SP_SRA, ASM_SP_SRAX]"

definition sparc_movcc_list :: "nat list" where
  "sparc_movcc_list = [
     ASM_SP_MOVN, ASM_SP_MOVE, ASM_SP_MOVLE, ASM_SP_MOVL, ASM_SP_MOVLEU, ASM_SP_MOVCS,
     ASM_SP_MOVNEG, ASM_SP_MOVVS, ASM_SP_MOVA, ASM_SP_MOVNE, ASM_SP_MOVG, ASM_SP_MOVGE,
     ASM_SP_MOVGU, ASM_SP_MOVCC, ASM_SP_MOVPOS, ASM_SP_MOVVC]"

definition sparc_movfcc_list :: "nat list" where
  "sparc_movfcc_list = [
     ASM_SP_MOVN, ASM_SP_MOVNE, ASM_SP_MOVLG, ASM_SP_MOVUL, ASM_SP_MOVL, ASM_SP_MOVUG, ASM_SP_MOVG,
     ASM_SP_MOVU, ASM_SP_MOVA, ASM_SP_MOVE, ASM_SP_MOVUE, ASM_SP_MOVGE, ASM_SP_MOVUGE,
     ASM_SP_MOVLE, ASM_SP_MOVULE, ASM_SP_MOVO]"

definition sparc_movr_list :: "nat list" where
  "sparc_movr_list = [
     ASM_SP_unimpl, ASM_SP_MOVRZ, ASM_SP_MOVRLEZ, ASM_SP_MOVRLZ, ASM_SP_unimpl, ASM_SP_MOVRNZ,
     ASM_SP_MOVRGZ, ASM_SP_MOVRGEZ]"

definition sparc_fpop1_list :: "nat list" where
  "sparc_fpop1_list = [
     ASM_SP_unimpl, ASM_SP_FMOVS, ASM_SP_FMOVD, ASM_SP_FMOVQ, ASM_SP_unimpl, ASM_SP_FNEGS,
     ASM_SP_FNEGD, ASM_SP_FNEGQ, ASM_SP_unimpl, ASM_SP_FABSS, ASM_SP_FABSD, ASM_SP_FABSQ,
     ASM_SP_unimpl, ASM_SP_unimpl, ASM_SP_unimpl, ASM_SP_unimpl, ASM_SP_unimpl, ASM_SP_unimpl,
     ASM_SP_unimpl, ASM_SP_unimpl, ASM_SP_unimpl, ASM_SP_unimpl, ASM_SP_unimpl, ASM_SP_unimpl,
     ASM_SP_unimpl, ASM_SP_unimpl, ASM_SP_unimpl, ASM_SP_unimpl, ASM_SP_unimpl, ASM_SP_unimpl,
     ASM_SP_unimpl, ASM_SP_unimpl, ASM_SP_unimpl, ASM_SP_unimpl, ASM_SP_unimpl, ASM_SP_unimpl,
     ASM_SP_unimpl, ASM_SP_unimpl, ASM_SP_unimpl, ASM_SP_unimpl, ASM_SP_unimpl, ASM_SP_SQRTS,
     ASM_SP_SQRTD, ASM_SP_SQRTQ, ASM_SP_unimpl, ASM_SP_unimpl, ASM_SP_unimpl, ASM_SP_unimpl,
     ASM_SP_unimpl, ASM_SP_unimpl, ASM_SP_unimpl, ASM_SP_unimpl, ASM_SP_unimpl, ASM_SP_unimpl,
     ASM_SP_unimpl, ASM_SP_unimpl, ASM_SP_unimpl, ASM_SP_unimpl, ASM_SP_unimpl, ASM_SP_unimpl,
     ASM_SP_unimpl, ASM_SP_unimpl, ASM_SP_unimpl, ASM_SP_unimpl, ASM_SP_unimpl, ASM_SP_FADDS,
     ASM_SP_FADDD, ASM_SP_FADDQ, ASM_SP_unimpl, ASM_SP_FSUBS, ASM_SP_FSUBD, ASM_SP_FSUBQ,
     ASM_SP_unimpl, ASM_SP_FMULS, ASM_SP_FMULD, ASM_SP_FMULQ, ASM_SP_unimpl, ASM_SP_FDIVS,
     ASM_SP_FDIVD, ASM_SP_FDIVQ, ASM_SP_unimpl, ASM_SP_unimpl, ASM_SP_unimpl, ASM_SP_unimpl,
     ASM_SP_unimpl, ASM_SP_unimpl, ASM_SP_unimpl, ASM_SP_unimpl, ASM_SP_unimpl, ASM_SP_unimpl,
     ASM_SP_unimpl, ASM_SP_unimpl, ASM_SP_unimpl, ASM_SP_unimpl, ASM_SP_unimpl, ASM_SP_unimpl,
     ASM_SP_unimpl, ASM_SP_unimpl, ASM_SP_unimpl, ASM_SP_unimpl, ASM_SP_unimpl, ASM_SP_unimpl,
     ASM_SP_unimpl, ASM_SP_unimpl, ASM_SP_unimpl, ASM_SP_FSMULD, ASM_SP_unimpl, ASM_SP_unimpl,
     ASM_SP_unimpl, ASM_SP_unimpl, ASM_SP_FDMULQ, ASM_SP_unimpl, ASM_SP_unimpl, ASM_SP_unimpl,
     ASM_SP_unimpl, ASM_SP_unimpl, ASM_SP_unimpl, ASM_SP_unimpl, ASM_SP_unimpl, ASM_SP_unimpl,
     ASM_SP_unimpl, ASM_SP_unimpl, ASM_SP_unimpl, ASM_SP_unimpl, ASM_SP_unimpl, ASM_SP_unimpl,
     ASM_SP_unimpl, ASM_SP_unimpl, ASM_SP_unimpl, ASM_SP_FSTOX, ASM_SP_FDTOX, ASM_SP_FQTOX,
     ASM_SP_FXTOS, ASM_SP_unimpl, ASM_SP_unimpl, ASM_SP_unimpl, ASM_SP_FXTOD, ASM_SP_unimpl,
     ASM_SP_unimpl, ASM_SP_unimpl, ASM_SP_FXTOQ, ASM_SP_unimpl, ASM_SP_unimpl, ASM_SP_unimpl,
     ASM_SP_unimpl, ASM_SP_unimpl, ASM_SP_unimpl, ASM_SP_unimpl, ASM_SP_unimpl, ASM_SP_unimpl,
     ASM_SP_unimpl, ASM_SP_unimpl, ASM_SP_unimpl, ASM_SP_unimpl, ASM_SP_unimpl, ASM_SP_unimpl,
     ASM_SP_unimpl, ASM_SP_unimpl, ASM_SP_unimpl, ASM_SP_unimpl, ASM_SP_unimpl, ASM_SP_unimpl,
     ASM_SP_unimpl, ASM_SP_unimpl, ASM_SP_unimpl, ASM_SP_unimpl, ASM_SP_unimpl, ASM_SP_unimpl,
     ASM_SP_unimpl, ASM_SP_unimpl, ASM_SP_unimpl, ASM_SP_unimpl, ASM_SP_unimpl, ASM_SP_unimpl,
     ASM_SP_unimpl, ASM_SP_unimpl, ASM_SP_unimpl, ASM_SP_unimpl, ASM_SP_unimpl, ASM_SP_unimpl,
     ASM_SP_unimpl, ASM_SP_unimpl, ASM_SP_unimpl, ASM_SP_unimpl, ASM_SP_unimpl, ASM_SP_unimpl,
     ASM_SP_unimpl, ASM_SP_unimpl, ASM_SP_unimpl, ASM_SP_unimpl, ASM_SP_unimpl, ASM_SP_unimpl,
     ASM_SP_unimpl, ASM_SP_unimpl, ASM_SP_unimpl, ASM_SP_unimpl, ASM_SP_FITOS, ASM_SP_unimpl,
     ASM_SP_FDTOS, ASM_SP_FQTOS, ASM_SP_FITOD, ASM_SP_FSTOD, ASM_SP_unimpl, ASM_SP_FQTOD,
     ASM_SP_FITOQ, ASM_SP_FSTOQ, ASM_SP_FDTOQ, ASM_SP_unimpl, ASM_SP_unimpl, ASM_SP_FSTOI,
     ASM_SP_FDTOI, ASM_SP_FQTOI, ASM_SP_unimpl, ASM_SP_unimpl, ASM_SP_unimpl, ASM_SP_unimpl,
     ASM_SP_unimpl, ASM_SP_unimpl, ASM_SP_unimpl, ASM_SP_unimpl, ASM_SP_unimpl, ASM_SP_unimpl,
     ASM_SP_unimpl, ASM_SP_unimpl, ASM_SP_unimpl, ASM_SP_unimpl, ASM_SP_unimpl, ASM_SP_unimpl,
     ASM_SP_unimpl, ASM_SP_unimpl, ASM_SP_unimpl, ASM_SP_unimpl, ASM_SP_unimpl, ASM_SP_unimpl,
     ASM_SP_unimpl, ASM_SP_unimpl, ASM_SP_unimpl, ASM_SP_unimpl, ASM_SP_unimpl, ASM_SP_unimpl,
     ASM_SP_unimpl, ASM_SP_unimpl, ASM_SP_unimpl, ASM_SP_unimpl, ASM_SP_unimpl, ASM_SP_unimpl,
     ASM_SP_unimpl, ASM_SP_unimpl, ASM_SP_unimpl, ASM_SP_unimpl, ASM_SP_unimpl, ASM_SP_unimpl,
     ASM_SP_unimpl, ASM_SP_unimpl, ASM_SP_unimpl, ASM_SP_unimpl]"

definition sparc_fmovcc_list :: "nat list" where
  "sparc_fmovcc_list = [
     ASM_SP_FMOVSN, ASM_SP_FMOVSE, ASM_SP_FMOVSLE, ASM_SP_FMOVSL, ASM_SP_FMOVSLEU, ASM_SP_FMOVSCS,
     ASM_SP_FMOVSNEG, ASM_SP_FMOVSVS, ASM_SP_FMOVSA, ASM_SP_FMOVSNE, ASM_SP_FMOVSG, ASM_SP_FMOVSGE,
     ASM_SP_FMOVSGU, ASM_SP_FMOVSCC, ASM_SP_FMOVSPOS, ASM_SP_FMOVSVC, ASM_SP_FMOVDN, ASM_SP_FMOVDE,
     ASM_SP_FMOVDLE, ASM_SP_FMOVDL, ASM_SP_FMOVDLEU, ASM_SP_FMOVDCS, ASM_SP_FMOVDNEG,
     ASM_SP_FMOVDVS, ASM_SP_FMOVDA, ASM_SP_FMOVDNE, ASM_SP_FMOVDG, ASM_SP_FMOVDGE, ASM_SP_FMOVDGU,
     ASM_SP_FMOVDCC, ASM_SP_FMOVDPOS, ASM_SP_FMOVDVC, ASM_SP_FMOVQN, ASM_SP_FMOVQE, ASM_SP_FMOVQLE,
     ASM_SP_FMOVQL, ASM_SP_FMOVQLEU, ASM_SP_FMOVQCS, ASM_SP_FMOVQNEG, ASM_SP_FMOVQVS,
     ASM_SP_FMOVQA, ASM_SP_FMOVQNE, ASM_SP_FMOVQG, ASM_SP_FMOVQGE, ASM_SP_FMOVQGU, ASM_SP_FMOVQCC,
     ASM_SP_FMOVQPOS, ASM_SP_FMOVQVC]"

definition sparc_fmovfcc_list :: "nat list" where
  "sparc_fmovfcc_list = [
     ASM_SP_FMOVSN, ASM_SP_FMOVSNE, ASM_SP_FMOVSLG, ASM_SP_FMOVSUL, ASM_SP_FMOVSL, ASM_SP_FMOVSUG,
     ASM_SP_FMOVSG, ASM_SP_FMOVSU, ASM_SP_FMOVSA, ASM_SP_FMOVSE, ASM_SP_FMOVSUE, ASM_SP_FMOVSGE,
     ASM_SP_FMOVSUGE, ASM_SP_FMOVSLE, ASM_SP_FMOVSULE, ASM_SP_FMOVSO, ASM_SP_FMOVDN,
     ASM_SP_FMOVDNE, ASM_SP_FMOVDLG, ASM_SP_FMOVDUL, ASM_SP_FMOVDL, ASM_SP_FMOVDUG, ASM_SP_FMOVDG,
     ASM_SP_FMOVDU, ASM_SP_FMOVDA, ASM_SP_FMOVDE, ASM_SP_FMOVDUE, ASM_SP_FMOVDGE, ASM_SP_FMOVDUGE,
     ASM_SP_FMOVDLE, ASM_SP_FMOVDULE, ASM_SP_FMOVDO, ASM_SP_FMOVQN, ASM_SP_FMOVQNE, ASM_SP_FMOVQLG,
     ASM_SP_FMOVQUL, ASM_SP_FMOVQL, ASM_SP_FMOVQUG, ASM_SP_FMOVQG, ASM_SP_FMOVQU, ASM_SP_FMOVQA,
     ASM_SP_FMOVQE, ASM_SP_FMOVQUE, ASM_SP_FMOVQGE, ASM_SP_FMOVQUGE, ASM_SP_FMOVQLE,
     ASM_SP_FMOVQULE, ASM_SP_FMOVQO]"

definition sparc_fmovr_list :: "nat list" where
  "sparc_fmovr_list = [
     ASM_SP_unimpl, ASM_SP_FMOVRSZ, ASM_SP_FMOVRSLEZ, ASM_SP_FMOVRSLZ, ASM_SP_unimpl,
     ASM_SP_FMOVRSNZ, ASM_SP_FMOVRSGZ, ASM_SP_FMOVRSGEZ, ASM_SP_unimpl, ASM_SP_FMOVRDZ,
     ASM_SP_FMOVRDLEZ, ASM_SP_FMOVRDLZ, ASM_SP_unimpl, ASM_SP_FMOVRDNZ, ASM_SP_FMOVRDGZ,
     ASM_SP_FMOVRDGEZ, ASM_SP_unimpl, ASM_SP_FMOVRQZ, ASM_SP_FMOVRQLEZ, ASM_SP_FMOVRQLZ,
     ASM_SP_unimpl, ASM_SP_FMOVRQNZ, ASM_SP_FMOVRQGZ, ASM_SP_FMOVRQGEZ]"

definition sparc_fcmp_list :: "nat list" where
  "sparc_fcmp_list = [
     ASM_SP_unimpl, ASM_SP_FCMPS, ASM_SP_FCMPD, ASM_SP_FCMPQ, ASM_SP_unimpl, ASM_SP_FCMPES,
     ASM_SP_FCMPED, ASM_SP_FCMPEQ]"

definition sparc_instr_list :: "string list" where
  "sparc_instr_list = [
     ''(unimpl)'', ''add'', ''addcc'', ''addc'', ''addccc'', ''and'', ''andcc'', ''andn'',
     ''andncc'', ''ba'', ''bn'', ''bne'', ''be'', ''bg'', ''ble'', ''bge'', ''bl'', ''bgu'',
     ''bleu'', ''bcc'', ''bcs'', ''bpos'', ''bneg'', ''bvc'', ''bvs'', ''brz'', ''brlez'',
     ''brlz'', ''brnz'', ''brgz'', ''brgez'', ''call'', ''casa'', ''casxa'', ''done'', ''fabss'',
     ''fabsd'', ''fabsq'', ''fadds'', ''faddd'', ''faddq'', ''fba'', ''fbn'', ''fbu'', ''fbg'',
     ''fbug'', ''fbl'', ''fbul'', ''fblg'', ''fbne'', ''fbe'', ''fbue'', ''fbge'', ''fbuge'',
     ''fble'', ''fbule'', ''fbo'', ''fcmps'', ''fcmpd'', ''fcmpq'', ''fcmpes'', ''fcmped'',
     ''fcmpeq'', ''fdivs'', ''fdivd'', ''fdivq'', ''fdmulq'', ''fitos'', ''fitod'', ''fitoq'',
     ''flush'', ''flushw'', ''fmovs'', ''fmovd'', ''fmovq'', ''fmovsa'', ''fmovsn'', ''fmovsne'',
     ''fmovse'', ''fmovsg'', ''fmovsle'', ''fmovsge'', ''fmovsl'', ''fmovsgu'', ''fmovsleu'',
     ''fmovscc'', ''fmovscs'', ''fmovspos'', ''fmovsneg'', ''fmovsvc'', ''fmovsvs'', ''fmovsu'',
     ''fmovsug'', ''fmovsul'', ''fmovslg'', ''fmovsue'', ''fmovsuge'', ''fmovsule'', ''fmovso'',
     ''fmovda'', ''fmovdn'', ''fmovdne'', ''fmovde'', ''fmovdg'', ''fmovdle'', ''fmovdge'',
     ''fmovdl'', ''fmovdgu'', ''fmovdleu'', ''fmovdcc'', ''fmovdcs'', ''fmovdpos'', ''fmovdneg'',
     ''fmovdvc'', ''fmovdvs'', ''fmovdu'', ''fmovdug'', ''fmovdul'', ''fmovdlg'', ''fmovdue'',
     ''fmovduge'', ''fmovdule'', ''fmovdo'', ''fmovqa'', ''fmovqn'', ''fmovqne'', ''fmovqe'',
     ''fmovqg'', ''fmovqle'', ''fmovqge'', ''fmovql'', ''fmovqgu'', ''fmovqleu'', ''fmovqcc'',
     ''fmovqcs'', ''fmovqpos'', ''fmovqneg'', ''fmovqvc'', ''fmovqvs'', ''fmovqu'', ''fmovqug'',
     ''fmovqul'', ''fmovqlg'', ''fmovque'', ''fmovquge'', ''fmovqule'', ''fmovo'', ''fmovrsz'',
     ''fmovrslez'', ''fmovrslz'', ''fmovrsnz'', ''fmovrsgz'', ''fmovrsgez'', ''fmovrdz'',
     ''fmovrdlez'', ''fmovrdlz'', ''fmovrdnz'', ''fmovrdgz'', ''fmovrdgez'', ''fmovrqz'',
     ''fmovrqlez'', ''fmovrqlz'', ''fmovrqnz'', ''fmovrqgz'', ''fmovrqgez'', ''fmuls'', ''fmuld'',
     ''fmulq'', ''fnegs'', ''fnegd'', ''fnegq'', ''fsmuld'', ''fsqrts'', ''fsqrtd'', ''fsqrtq'',
     ''fstoi'', ''fdtoi'', ''fqtoi'', ''fstod'', ''fstoq'', ''fdtos'', ''fdtoq'', ''fqtos'',
     ''fqtod'', ''fstox'', ''fdtox'', ''fqtox'', ''fsubs'', ''fsubd'', ''fsubq'', ''fxtos'',
     ''fxtod'', ''fxtoq'', ''illtrap'', ''impdep1'', ''impdep2'', ''jmpl'', ''ldd'', ''ldda'',
     ''ldd'', ''ldda'', ''ld'', ''lda'', ''ld'', ''ldq'', ''ldqa'', ''ldsb'', ''ldsba'', ''ldsh'',
     ''ldsha'', ''ldstub'', ''ldstuba'', ''ldsw'', ''ldswa'', ''ldub'', ''lduba'', ''lduh'',
     ''lduha'', ''ld'', ''lduwa'', ''ldx'', ''ldxa'', ''ldx'', ''membar'', ''mova'', ''movn'',
     ''movne'', ''move'', ''movg'', ''movle'', ''movge'', ''movl'', ''movgu'', ''movleu'',
     ''movcc'', ''movcs'', ''movpos'', ''movneg'', ''movvc'', ''movvs'', ''movu'', ''movug'',
     ''movul'', ''movlg'', ''movue'', ''movuge'', ''movule'', ''movo'', ''movrz'', ''movrlez'',
     ''movrlz'', ''movrnz'', ''movrgz'', ''movrgez'', ''mulscc'', ''mulx'', ''nop'', ''or'',
     ''orcc'', ''orn'', ''orncc'', ''popc'', ''prefetch'', ''prefetcha'', ''rd'', ''rdpr'',
     ''restore'', ''restored'', ''retry'', ''return'', ''save'', ''saved'', ''sdiv'', ''sdivcc'',
     ''sdivx'', ''sethi'', ''sir'', ''sll'', ''sllx'', ''smul'', ''smulcc'', ''sqrts'', ''sqrtd'',
     ''sqrtq'', ''sra'', ''srax'', ''srl'', ''srlx'', ''stb'', ''stba'', ''stbar'', ''std'',
     ''stda'', ''std'', ''stda'', ''st'', ''sta'', ''st'', ''sth'', ''stha'', ''stq'', ''stqa'',
     ''st'', ''stwa'', ''stx'', ''stxa'', ''stx'', ''sub'', ''subcc'', ''subc'', ''subccc'',
     ''swap'', ''swapa'', ''taddcc'', ''taddcctv'', ''ta'', ''tn'', ''tne'', ''te'', ''tg'',
     ''tle'', ''tge'', ''tl'', ''tgu'', ''tleu'', ''tcc'', ''tcs'', ''tpos'', ''tneg'', ''tvc'',
     ''tvs'', ''tsubcc'', ''tsubcctv'', ''udiv'', ''udivcc'', ''udivx'', ''umul'', ''umulcc'',
     ''wr'', ''wrpr'', ''xnor'', ''xnorcc'', ''xor'', ''xorcc'', ''cmp'', ''jmp'', ''iprefetch'',
     ''tst'', ''ret'', ''retl'', ''setuw'', ''set'', ''setsw'', ''setx'', ''signx'', ''not'',
     ''neg'', ''cas'', ''casl'', ''casx'', ''casxl'', ''inc'', ''inccc'', ''dec'', ''deccc'',
     ''btst'', ''bset'', ''bclr'', ''btog'', ''clr'', ''clrb'', ''clrh'', ''clrx'', ''clruw'',
     ''mov'', ''(bad)'']"

lemmas sparc_tables = sparc_op2_table_def sparc_op3_table_def sparc_bcc_list_def sparc_tcc_list_def sparc_brcc_list_def sparc_fbcc_list_def sparc_shift_list_def sparc_movcc_list_def sparc_movfcc_list_def sparc_movr_list_def sparc_fpop1_list_def sparc_fmovcc_list_def sparc_fmovfcc_list_def sparc_fmovr_list_def sparc_fcmp_list_def

end
