(* ===== verification/Blocks.thy ===== *)
theory Blocks
  imports Containers Sparc_Const
begin

text \<open>
  The control flow graph of \<open>libmjollnir\<close>: lookup of blocks (\<open>blocks.c\<close>), splitting and
  linking (\<open>links.c\<close>), functions (\<open>function.c\<close>) and the instruction history (\<open>history.c\<close>),
  over the containers of \<open>Containers\<close>.
\<close>

definition MJR_BLOCK_INVALID :: eresi_Addr where "MJR_BLOCK_INVALID = -1"

datatype get_mode = MJR_BLOCK_GET_STRICT | MJR_BLOCK_GET_FUZZY

text \<open>\<open>_vaddr2str\<close> of \<open>display.c\<close>.\<close>

definition vaddr2str :: "eresi_Addr \<Rightarrow> string" where
  "vaddr2str a = fmt_08X a"

subsection \<open>Lookup\<close>

text \<open>The descent of \<open>mjr_block_get_by_vaddr\<close>; \<open>vaddr + size\<close> wraps as in C.\<close>

fun block_descent :: "'o mjrcontext_t \<Rightarrow> eresi_Addr \<Rightarrow> btree_t \<Rightarrow> ptr mjr_result" where
  "block_descent ctx vaddr BNull = Inr NULL"
| "block_descent ctx vaddr (BNode i e l r) = rbind (get_cn ctx e) (\<lambda>c.
     (case cndata c of
        Func f \<Rightarrow> Inl Unknown_Type
      | Bloc b \<Rightarrow>
          if bvaddr b \<le> vaddr \<and> vaddr < bvaddr b + bsize b then Inr e
          else if bvaddr b < vaddr then block_descent ctx vaddr r
          else block_descent ctx vaddr l))"

definition mjr_block_get_by_vaddr :: "'o mjrcontext_t \<Rightarrow> eresi_Addr \<Rightarrow> get_mode \<Rightarrow> ptr mjr_result" where
  "mjr_block_get_by_vaddr ctx vaddr mode =
     (let ret = hash_get (blkhash ctx) (vaddr2str vaddr) in
      if mode = MJR_BLOCK_GET_STRICT \<or> (mode = MJR_BLOCK_GET_FUZZY \<and> ret \<noteq> NULL) then Inr ret
      else block_descent ctx vaddr (block_btree ctx))"

definition mjr_function_get_by_vaddr :: "'o mjrcontext_t \<Rightarrow> eresi_Addr \<Rightarrow> ptr" where
  "mjr_function_get_by_vaddr ctx vaddr = hash_get (funchash ctx) (vaddr2str vaddr)"

definition mjr_function_register :: "'o mjrcontext_t \<Rightarrow> eresi_Addr \<Rightarrow> ptr \<Rightarrow> 'o mjrcontext_t" where
  "mjr_function_register ctx vaddr fn =
     (if mjr_function_get_by_vaddr ctx vaddr = NULL
      then ctx\<lparr>funchash := snd (hash_add (funchash ctx) (vaddr2str vaddr) fn)\<rparr> else ctx)"

subsection \<open>Symbols\<close>

text \<open>\<open>mjr_block_symbol\<close> returns the offset of the new symbol, or 0 when it exists.\<close>

definition mjr_block_symbol :: "'o env \<Rightarrow> ptr \<Rightarrow> 'o mjrcontext_t \<Rightarrow> (nat \<times> 'o mjrcontext_t) mjr_result" where
  "mjr_block_symbol en p ctx = rbind (get_cn ctx p) (\<lambda>c.
     (case cndata c of
        Func f \<Rightarrow> Inl Unknown_Type
      | Bloc b \<Rightarrow>
          (let name = bloc_prefix en @ fmt_08X (bvaddr b) in
           if sym_by_name en (obj ctx) name then Inr (0, ctx)
           else Inr (symtab_size en (obj ctx),
                     ctx\<lparr>obj := insert_sym en (obj ctx) (bvaddr b) (bsize b) STT_BLOCK name\<rparr>))))"

fun has_infix :: "string \<Rightarrow> string \<Rightarrow> bool" where
  "has_infix needle [] = (needle = [])"
| "has_infix needle (c # s) = (take (length needle) (c # s) = needle \<or> has_infix needle s)"

text \<open>\<open>mjr_function_symbol\<close>. The variable \<open>off\<close> has no initial value, and the name is passed to
  \<open>strstr\<close> without a test for NULL.\<close>

definition mjr_function_symbol :: "'o env \<Rightarrow> ptr \<Rightarrow> 'o mjrcontext_t \<Rightarrow> 'o mjrcontext_t mjr_result" where
  "mjr_function_symbol en p ctx = rbind (get_cn ctx p) (\<lambda>c.
     (case cndata c of
        Bloc b \<Rightarrow> Inl Unknown_Type
      | Func f \<Rightarrow>
          (let (name, off, ob) = reverse_metasym en (obj ctx) (fvaddr f);
               inject = ctx\<lparr>obj := insert_sym en ob (fvaddr f) (fsize f) STT_FUNC
                              (func_prefix en @ fmt_08X (fvaddr f))\<rparr>
           in case off of
                None \<Rightarrow> Inl Uninitialised
              | Some d \<Rightarrow>
                  if d \<noteq> 0 then Inr inject
                  else (case name of
                          None \<Rightarrow> Inl Null_String
                        | Some n \<Rightarrow> if has_infix (bloc_prefix en) n then Inr inject else Inr (ctx\<lparr>obj := ob\<rparr>)))))"

subsection \<open>Splitting\<close>

text \<open>\<open>mjr_block_relink\<close>: every link of the source list is added to the destination and one
  entry with its key is removed from the source list, whose original entries are visited.\<close>

definition del_link :: "string \<Rightarrow> string option \<Rightarrow> 'o mjrcontext_t \<Rightarrow> 'o mjrcontext_t mjr_result" where
  "del_link ln k ctx = (case lists ctx ln of
     None \<Rightarrow> Inl Null_Container
   | Some l \<Rightarrow> Inr (ctx\<lparr>lists := (lists ctx)(ln \<mapsto> the (snd (elist_del (Some l) k)))\<rparr>))"

fun relink_ents :: "ptr \<Rightarrow> string \<Rightarrow> direction \<Rightarrow> listent list \<Rightarrow> 'o mjrcontext_t \<Rightarrow>
    'o mjrcontext_t mjr_result" where
  "relink_ents dst ln dir [] ctx = Inr ctx"
| "relink_ents dst ln dir (e # es) ctx =
     (case lheap ctx (ent_data e) of
        None \<Rightarrow> Inl Null_Container
      | Some lnk \<Rightarrow>
          rbind (mjr_container_add_link ctx dst (link_id lnk) (link_type lnk) (link_scope lnk) dir) (\<lambda>(_, ctx1).
          rbind (del_link ln (ent_key e) ctx1) (\<lambda>ctx2.
          relink_ents dst ln dir es ctx2)))"

definition mjr_block_relink :: "ptr \<Rightarrow> ptr \<Rightarrow> direction \<Rightarrow> 'o mjrcontext_t \<Rightarrow> 'o mjrcontext_t mjr_result" where
  "mjr_block_relink src dst dir ctx = rbind (get_cn ctx src) (\<lambda>c.
     let ln = mjr_link_get_by_direction c dir in
     (case lists ctx ln of
        None \<Rightarrow> Inl Null_Container
      | Some l \<Rightarrow> relink_ents dst ln dir (lhead l) ctx))"

definition set_block :: "ptr \<Rightarrow> (mjrblock_t \<Rightarrow> mjrblock_t) \<Rightarrow> 'o mjrcontext_t \<Rightarrow> 'o mjrcontext_t" where
  "set_block p f = set_cn p (\<lambda>c. c\<lparr>cndata := (case cndata c of Bloc b \<Rightarrow> Bloc (f b) | d \<Rightarrow> d)\<rparr>)"

text \<open>The first half of \<open>mjr_block_split\<close>: no block holds the address, so an empty one is
  created there.\<close>

definition split_new :: "'o env \<Rightarrow> eresi_Addr \<Rightarrow> 'o mjrcontext_t \<Rightarrow> (ptr \<times> 'o mjrcontext_t) mjr_result" where
  "split_new en dst ctx =
     rbind (mjr_create_block_container en 0 dst 0 0 ctx) (\<lambda>(p, ctx1).
     let ctx2 = ctx1\<lparr>blkhash := snd (hash_add (blkhash ctx1) (vaddr2str dst) p)\<rparr> in
     rbind (mjr_block_symbol en p ctx2) (\<lambda>(symoff, ctx3).
     Inr (p, set_block p (\<lambda>b. b\<lparr>bsymoff := symoff\<rparr>) ctx3)))"

text \<open>The second half: the block that holds the address is cut there.\<close>

definition split_old :: "'o env \<Rightarrow> eresi_Addr \<Rightarrow> ptr \<Rightarrow> mjrblock_t \<Rightarrow> 'o mjrcontext_t \<Rightarrow>
    (ptr \<times> 'o mjrcontext_t) mjr_result" where
  "split_old en dst p b ctx =
     (let new_size = bsize b - (dst - bvaddr b);
          old_size = bsize b - new_size;
          ctx1 = set_block p (\<lambda>b. b\<lparr>bsize := old_size\<rparr>) ctx;
          ctx2 = ctx1\<lparr>obj := set_sym_size en (obj ctx1) (bvaddr b) old_size\<rparr>
      in if \<not> old_size > 0 then Inl Assertion
         else
     rbind (mjr_create_block_container en 0 dst new_size (if new_size \<noteq> 0 then 1 else 0) ctx2) (\<lambda>(q, ctx3).
     let ctx4 = ctx3\<lparr>blkhash := snd (hash_add (blkhash ctx3) (vaddr2str dst) q)\<rparr> in
     rbind (mjr_block_symbol en q ctx4) (\<lambda>(_, ctx5).
     rbind (mjr_block_relink p q CONTAINER_LINK_OUT ctx5) (\<lambda>ctx6.
     rbind (get_cn ctx6 q) (\<lambda>cq. rbind (get_cn ctx6 p) (\<lambda>cp.
     rbind (mjr_container_add_link ctx6 p (cnid cq) MJR_LINK_BLOCK_COND_ALWAYS MJR_LINK_SCOPE_LOCAL
              CONTAINER_LINK_OUT) (\<lambda>(_, ctx7).
     rbind (mjr_container_add_link ctx7 q (cnid cp) MJR_LINK_BLOCK_COND_ALWAYS MJR_LINK_SCOPE_LOCAL
              CONTAINER_LINK_IN) (\<lambda>(_, ctx8).
     Inr (q, ctx8)))))))))"

definition mjr_block_split :: "'o env \<Rightarrow> eresi_Addr \<Rightarrow> 'o mjrcontext_t \<Rightarrow> (ptr \<times> 'o mjrcontext_t) mjr_result" where
  "mjr_block_split en dst ctx =
     rbind (mjr_block_get_by_vaddr ctx dst MJR_BLOCK_GET_FUZZY) (\<lambda>p.
       if p = NULL then split_new en dst ctx
       else rbind (get_cn ctx p) (\<lambda>c.
         (case cndata c of
            Func f \<Rightarrow> Inl Unknown_Type
          | Bloc b \<Rightarrow>
              if \<not> sym_by_value en (obj ctx) (bvaddr b) then Inl Assertion
              else if bvaddr b \<noteq> dst then split_old en dst p b ctx
              else Inr (p, ctx))))"

subsection \<open>Linking\<close>

definition get_id :: "'o mjrcontext_t \<Rightarrow> ptr \<Rightarrow> nat mjr_result" where
  "get_id ctx p = rbind (get_cn ctx p) (\<lambda>c. Inr (cnid c))"

text \<open>The pair of calls that links two containers in both directions.\<close>

definition link_both :: "ptr \<Rightarrow> ptr \<Rightarrow> nat \<Rightarrow> nat \<Rightarrow> 'o mjrcontext_t \<Rightarrow> 'o mjrcontext_t mjr_result" where
  "link_both src dst lkt scope ctx =
     rbind (get_id ctx dst) (\<lambda>di. rbind (get_id ctx src) (\<lambda>si.
     rbind (mjr_container_add_link ctx src di lkt scope CONTAINER_LINK_OUT) (\<lambda>(_, ctx1).
     rbind (mjr_container_add_link ctx1 dst si lkt scope CONTAINER_LINK_IN) (\<lambda>(_, ctx2). Inr ctx2))))"

definition has_data :: "'o env \<Rightarrow> 'o mjrcontext_t \<Rightarrow> eresi_Addr \<Rightarrow> bool" where
  "has_data en ctx a = (case parent_section en (obj ctx) a of None \<Rightarrow> False | Some s \<Rightarrow> sect_data s \<noteq> None)"

definition mjr_link_block_call ::
  "'o env \<Rightarrow> eresi_Addr \<Rightarrow> eresi_Addr \<Rightarrow> eresi_Addr \<Rightarrow> 'o mjrcontext_t \<Rightarrow> 'o mjrcontext_t mjr_result" where
  "mjr_link_block_call en src dst ret ctx =
     (let dstdata = has_data en ctx dst; retdata = has_data en ctx ret in
      rbind (mjr_block_get_by_vaddr ctx src MJR_BLOCK_GET_FUZZY) (\<lambda>csrc.
      if csrc = NULL then Inl Assertion else
      rbind (mjr_block_symbol en csrc ctx) (\<lambda>(_, ctx1).
      rbind (if dst \<noteq> MJR_BLOCK_INVALID \<and> dstdata
             then rbind (mjr_block_split en dst ctx1) (\<lambda>(cdst, ctx2).
                    link_both csrc cdst MJR_LINK_FUNC_CALL MJR_LINK_SCOPE_GLOBAL ctx2)
             else Inr ctx1) (\<lambda>ctx3.
      if ret \<noteq> MJR_BLOCK_INVALID \<and> retdata
      then rbind (mjr_block_split en ret ctx3) (\<lambda>(cret, ctx4).
             link_both csrc cret MJR_LINK_TYPE_DELAY MJR_LINK_SCOPE_LOCAL ctx4)
      else Inr ctx3))))"

text \<open>\<open>mjr_link_block_jump\<close> reads the data of the source block before it tests the pointer.\<close>

definition mjr_link_block_jump ::
  "'o env \<Rightarrow> eresi_Addr \<Rightarrow> eresi_Addr \<Rightarrow> eresi_Addr \<Rightarrow> 'o mjrcontext_t \<Rightarrow> 'o mjrcontext_t mjr_result" where
  "mjr_link_block_jump en src dst ret ctx =
     rbind (mjr_block_get_by_vaddr ctx src MJR_BLOCK_GET_FUZZY) (\<lambda>csrc0.
     rbind (get_cn ctx csrc0) (\<lambda>c.
     rbind (if dst > cvaddr (cndata c) \<and> dst \<le> src then mjr_block_split en src ctx
            else Inr (csrc0, ctx)) (\<lambda>(csrc, ctx1).
     rbind (mjr_block_symbol en csrc ctx1) (\<lambda>(_, ctx2).
     rbind (mjr_block_split en dst ctx2) (\<lambda>(cdst, ctx3).
     rbind (if ret \<noteq> MJR_BLOCK_INVALID
            then rbind (mjr_block_split en ret ctx3) (\<lambda>(cret, ctx4). Inr (Some cret, ctx4))
            else Inr (None, ctx3)) (\<lambda>(cret, ctx5).
     rbind (link_both csrc cdst MJR_LINK_BLOCK_COND_TRUE MJR_LINK_SCOPE_LOCAL ctx5) (\<lambda>ctx6.
     (case cret of
        None \<Rightarrow> Inr ctx6
      | Some r \<Rightarrow> link_both csrc r MJR_LINK_BLOCK_COND_FALSE MJR_LINK_SCOPE_LOCAL ctx6))))))))"

definition mjr_link_func_call ::
  "'o env \<Rightarrow> eresi_Addr \<Rightarrow> 'o mjrcontext_t \<Rightarrow> 'o mjrcontext_t mjr_result" where
  "mjr_link_func_call en dst ctx = (case parent_section en (obj ctx) dst of
     None \<Rightarrow> Inr ctx
   | Some sect \<Rightarrow> if sect_data sect = None then Inr ctx else
       (let scope = (if sect_name sect = ''.plt'' then MJR_LINK_SCOPE_GLOBAL else MJR_LINK_SCOPE_LOCAL);
            fun0 = mjr_function_get_by_vaddr ctx dst
        in rbind (if fun0 = NULL
                  then rbind (mjr_create_function_container en dst 0 (Some (vaddr2str dst)) None ctx) (\<lambda>(p, ctx1).
                       rbind (mjr_function_symbol en p (mjr_function_register ctx1 dst p)) (\<lambda>ctx2.
                       Inr (p, ctx2)))
                  else Inr (fun0, ctx)) (\<lambda>(fn, ctx3).
           rbind (if curfunc ctx3 \<noteq> NULL
                  then rbind (get_id ctx3 (curfunc ctx3)) (\<lambda>ci. rbind (get_id ctx3 fn) (\<lambda>fi.
                       rbind (mjr_container_add_link ctx3 fn ci MJR_LINK_FUNC_RET scope CONTAINER_LINK_IN) (\<lambda>(_, ctx4).
                       rbind (mjr_container_add_link ctx4 (curfunc ctx3) fi MJR_LINK_FUNC_CALL scope
                                CONTAINER_LINK_OUT) (\<lambda>(_, ctx5). Inr ctx5))))
                  else Inr ctx3) (\<lambda>ctx6.
           if scope = MJR_LINK_SCOPE_LOCAL \<and> fun0 = NULL
           then Inr (ctx6\<lparr>func_stack := list_push (func_stack ctx6) fn, curfunc := fn\<rparr>)
           else Inr ctx6))))"

text \<open>\<open>mjr_block_funcstart\<close> of \<open>fingerprint.c\<close>.\<close>

definition mjr_block_funcstart :: "'o mjrcontext_t \<Rightarrow> ptr \<Rightarrow> bool" where
  "mjr_block_funcstart ctx p = (case cheap ctx p of
     None \<Rightarrow> False
   | Some c \<Rightarrow> cntype c = ASPECT_TYPE_BLOC \<and>
       mjr_get_link_by_type ctx (lists ctx (inlinks c)) MJR_LINK_FUNC_RET \<noteq> NULL)"

subsection \<open>History\<close>

text \<open>\<open>mjr_history_write\<close> and \<open>mjr_history_shift\<close>; no-operations are not recorded on IA-32
  and SPARC. The index is never negative at the callers.\<close>

definition MJR_HISTORY_LEN :: nat where "MJR_HISTORY_LEN = 5"
definition MJR_HISTORY_CUR :: nat where "MJR_HISTORY_CUR = MJR_HISTORY_LEN - 1"
definition ASM_NOP :: nat where "ASM_NOP = 97"

definition mjr_history_write :: "asm_instr \<Rightarrow> eresi_Addr \<Rightarrow> nat \<Rightarrow> 'o mjrcontext_t \<Rightarrow> 'o mjrcontext_t" where
  "mjr_history_write i a idx ctx =
     (if idx \<ge> MJR_HISTORY_LEN then ctx else ctx\<lparr>history := (history ctx)[idx := (i, a)]\<rparr>)"

definition mjr_history_shift :: "asm_instr \<Rightarrow> eresi_Addr \<Rightarrow> 'o mjrcontext_t \<Rightarrow> 'o mjrcontext_t" where
  "mjr_history_shift inst addr ctx =
     (if proc_type (proc ctx) = ASM_PROC_IA32 \<and> instr inst = ASM_NOP \<or>
         proc_type (proc ctx) = ASM_PROC_SPARC \<and> instr inst = ASM_SP_NOP then ctx
      else mjr_history_write inst addr MJR_HISTORY_CUR
        (ctx\<lparr>history := fold (\<lambda>i h. h[i := h ! (i + 1)]) [0..<MJR_HISTORY_LEN - 1] (history ctx)\<rparr>))"

subsection \<open>The blocks of a context\<close>

definition blk :: "'o mjrcontext_t \<Rightarrow> ptr \<Rightarrow> (eresi_Addr \<times> u_int) option" where
  "blk ctx p = (case cheap ctx p of
     Some c \<Rightarrow> (case cndata c of Bloc b \<Rightarrow> Some (bvaddr b, bsize b) | Func f \<Rightarrow> None)
   | None \<Rightarrow> None)"

definition tree_blocks :: "'o mjrcontext_t \<Rightarrow> ptr set" where
  "tree_blocks ctx = set (inorder (block_btree ctx))"

text \<open>The address ranges of the blocks: what the graph knows of the program.\<close>

definition ranges :: "'o mjrcontext_t \<Rightarrow> (eresi_Addr \<times> u_int) set" where
  "ranges ctx = {r. \<exists>p\<in>tree_blocks ctx. blk ctx p = Some r}"

definition block_ok :: "'o mjrcontext_t \<Rightarrow> ptr \<Rightarrow> bool" where
  "block_ok ctx p \<longleftrightarrow> registered ctx p \<and> (\<exists>v s. blk ctx p = Some (v, s) \<and>
     hash_abs (blkhash ctx) (vaddr2str v) = Some p \<and> unat v + unat s < 2 ^ 31)"

definition no_overlap :: "(eresi_Addr \<times> u_int) set \<Rightarrow> bool" where
  "no_overlap R \<longleftrightarrow> (\<forall>(v, s)\<in>R. \<forall>(w, t)\<in>R. v < w \<longrightarrow> unat v + unat s \<le> unat w)"

definition blk_inv :: "'o mjrcontext_t \<Rightarrow> bool" where
  "blk_inv ctx \<longleftrightarrow> cn_inv ctx \<and> hash_inv (blkhash ctx) \<and>
     (\<forall>p\<in>tree_blocks ctx. block_ok ctx p) \<and>
     (\<forall>k p. hash_abs (blkhash ctx) k = Some p \<longrightarrow>
        p \<in> tree_blocks ctx \<and> (\<exists>v s. blk ctx p = Some (v, s) \<and> k = vaddr2str v)) \<and>
     tree_ordered ctx (block_btree ctx) \<and> no_overlap (ranges ctx)"

lemma blk_cn_vaddr: "blk ctx p = Some (v, s) \<Longrightarrow> cn_vaddr ctx p = v"
  by (auto simp: blk_def cn_vaddr_def split: option.splits cdata.splits)

lemma blkE:
  assumes "blk ctx p = Some (v, s)"
  obtains c b where "cheap ctx p = Some c" "cndata c = Bloc b" "bvaddr b = v" "bsize b = s"
  using assms by (auto simp: blk_def split: option.splits cdata.splits)

lemma vaddr2str_inj [simp]: "vaddr2str a = vaddr2str b \<longleftrightarrow> a = b"
  by (simp add: vaddr2str_def)

text \<open>Membership of an address in a block that does not wrap.\<close>

lemma in_range:
  assumes "unat v + unat s < 2 ^ 32"
  shows "(v \<le> a \<and> a < v + s) \<longleftrightarrow> unat v \<le> unat a \<and> unat a < unat v + unat (s :: u_int)"
proof -
  have "unat (v + s) = unat v + unat s" using assms by (simp add: unat_word_ariths)
  then show ?thesis by (simp add: word_le_nat_alt word_less_nat_alt)
qed

definition holds :: "'o mjrcontext_t \<Rightarrow> eresi_Addr \<Rightarrow> ptr \<Rightarrow> bool" where
  "holds ctx a p \<longleftrightarrow> (\<exists>v s. blk ctx p = Some (v, s) \<and> unat v \<le> unat a \<and> unat a < unat v + unat s)"

lemma block_descent_ok:
  assumes "tree_ordered ctx t" "\<forall>p\<in>set (inorder t). block_ok ctx p"
    "no_overlap R" "\<forall>p\<in>set (inorder t). the (blk ctx p) \<in> R"
    "\<forall>(v, s)\<in>R. v \<noteq> a" "NULL \<notin> set (inorder t)"
  shows "\<exists>p. block_descent ctx a t = Inr p \<and>
    (if p = NULL then \<forall>q\<in>set (inorder t). \<not> holds ctx a q else p \<in> set (inorder t) \<and> holds ctx a p)"
  using assms(1,2,4,6)
proof (induction t)
  case (BNode i e l r)
  have ord: "tree_ordered ctx l" "tree_ordered ctx r"
    "\<forall>x\<in>set (inorder l). unat (cn_vaddr ctx x) < unat (cn_vaddr ctx e)"
    "\<forall>x\<in>set (inorder r). unat (cn_vaddr ctx e) < unat (cn_vaddr ctx x)"
    using BNode.prems(1) by (simp_all add: tree_ordered_BNode)
  obtain v s where e: "blk ctx e = Some (v, s)" "unat v + unat s < 2 ^ 31" "registered ctx e"
    using BNode.prems(2) by (auto simp: block_ok_def)
  have R: "(w, t) \<in> R" if "q \<in> set (inorder (BNode i e l r))" "blk ctx q = Some (w, t)" for q w t
    using BNode.prems(3) that by force
  have ne: "v \<noteq> a" using R [OF _ e(1)] assms(5) by auto
  obtain c b where c: "cheap ctx e = Some c" "cndata c = Bloc b" "bvaddr b = v" "bsize b = s"
    using blkE [OF e(1)] by metis
  have e0: "e \<noteq> NULL" using BNode.prems(4) by simp
  have "unat v + unat s < 2 ^ 32" using e(2) by simp
  note rng = in_range [OF this, of a]
  have eq: "block_descent ctx a (BNode i e l r) =
      (if unat v \<le> unat a \<and> unat a < unat v + unat s then Inr e
       else if v < a then block_descent ctx a r else block_descent ctx a l)"
    using c rng by (simp add: get_cn_def)
  show ?case
  proof (cases "unat v \<le> unat a \<and> unat a < unat v + unat s")
    case True
    then show ?thesis using eq e e0 by (simp add: holds_def)
  next
    case False
    have other: "\<not> (unat w \<le> unat a \<and> unat a < unat w + unat t)"
      if "q \<in> set (inorder (if v < a then l else r))" "blk ctx q = Some (w, t)" for q w t
    proof -
      have q: "q \<in> set (inorder (BNode i e l r))" using that(1) by (auto split: if_splits)
      have w: "cn_vaddr ctx q = w" "cn_vaddr ctx e = v" using blk_cn_vaddr that(2) e(1) by blast+
      show ?thesis
      proof (cases "v < a")
        case True
        then have "w < v" using that(1) ord(3) w by (auto simp: word_less_nat_alt)
        then have "unat w + unat t \<le> unat v"
          using assms(3) R [OF q that(2)] R [OF _ e(1)] by (fastforce simp: no_overlap_def)
        then show ?thesis using True by (simp add: word_less_nat_alt)
      next
        case False
        then have "a < v" using ne by simp
        moreover have "v < w" using that(1) ord(4) w False by (auto simp: word_less_nat_alt)
        ultimately show ?thesis by (simp add: word_less_nat_alt)
      qed
    qed
    have no: "\<not> holds ctx a q" if "q \<in> insert e (set (inorder (if v < a then l else r)))" for q
      using that other False e(1) by (auto simp: holds_def)
    obtain p where p: "block_descent ctx a (if v < a then r else l) = Inr p"
      "if p = NULL then \<forall>q\<in>set (inorder (if v < a then r else l)). \<not> holds ctx a q
       else p \<in> set (inorder (if v < a then r else l)) \<and> holds ctx a p"
      using BNode.IH BNode.prems ord(1,2) by (cases "v < a") auto
    have "block_descent ctx a (BNode i e l r) = Inr p" using eq False p(1) by (auto split: if_splits)
    moreover have "set (inorder (BNode i e l r)) =
        insert e (set (inorder (if v < a then l else r)) \<union> set (inorder (if v < a then r else l)))"
      by auto
    ultimately have "block_descent ctx a (BNode i e l r) = Inr p \<and>
        (if p = NULL then \<forall>q\<in>set (inorder (BNode i e l r)). \<not> holds ctx a q
         else p \<in> set (inorder (BNode i e l r)) \<and> holds ctx a p)"
      using p(2) no by (cases "p = NULL"; cases "v < a") auto
    then show ?thesis by (rule exI)
  qed
qed simp

lemma blk_inv_nonnull: "blk_inv ctx \<Longrightarrow> NULL \<notin> tree_blocks ctx"
  using cn_invD(4) [of ctx] by (auto simp: blk_inv_def block_ok_def registered_def)

lemma blk_ex: "blk_inv ctx \<Longrightarrow> p \<in> tree_blocks ctx \<Longrightarrow> \<exists>r. blk ctx p = Some r"
  by (auto simp: blk_inv_def block_ok_def)

lemma blk_invD:
  assumes "blk_inv ctx" "p \<in> tree_blocks ctx"
  obtains v s c b where "blk ctx p = Some (v, s)" "hash_abs (blkhash ctx) (vaddr2str v) = Some p"
    "unat v + unat s < 2 ^ 31" "registered ctx p" "cheap ctx p = Some c" "cndata c = Bloc b"
    "bvaddr b = v" "bsize b = s" "p \<noteq> NULL"
proof -
  obtain v s where vs: "blk ctx p = Some (v, s)" "hash_abs (blkhash ctx) (vaddr2str v) = Some p"
    "unat v + unat s < 2 ^ 31" "registered ctx p"
    using assms by (auto simp: blk_inv_def block_ok_def)
  then show thesis using that blkE [OF vs(1)] blk_inv_nonnull [OF assms(1)] assms(2) by metis
qed

text \<open>The block at or around an address is unique, and the lookup finds it.\<close>

lemma get_fuzzy_ok:
  assumes "blk_inv ctx"
  obtains p where "mjr_block_get_by_vaddr ctx a MJR_BLOCK_GET_FUZZY = Inr p"
    "if p = NULL then \<forall>(v, s)\<in>ranges ctx. v \<noteq> a \<and> \<not> (unat v \<le> unat a \<and> unat a < unat v + unat s)
     else p \<in> tree_blocks ctx \<and> (\<exists>v s. blk ctx p = Some (v, s) \<and>
       (v = a \<or> unat v \<le> unat a \<and> unat a < unat v + unat s))"
proof (cases "hash_abs (blkhash ctx) (vaddr2str a)")
  case (Some p)
  then have p: "p \<in> tree_blocks ctx" "\<exists>v s. blk ctx p = Some (v, s) \<and> vaddr2str a = vaddr2str v"
    using assms unfolding blk_inv_def by blast+
  then have "p \<noteq> NULL" using blk_inv_nonnull [OF assms] by metis
  moreover have "mjr_block_get_by_vaddr ctx a MJR_BLOCK_GET_FUZZY = Inr p"
    using Some \<open>p \<noteq> NULL\<close> by (simp add: mjr_block_get_by_vaddr_def hash_get_abs)
  ultimately show thesis using that p by auto
next
  case None
  have start: "v \<noteq> a" if "(v, s) \<in> ranges ctx" for v s
    using that None assms by (auto simp: ranges_def elim!: blk_invD [OF assms])
  have "\<exists>p. block_descent ctx a (block_btree ctx) = Inr p \<and>
      (if p = NULL then \<forall>q\<in>tree_blocks ctx. \<not> holds ctx a q else p \<in> tree_blocks ctx \<and> holds ctx a p)"
    unfolding tree_blocks_def
  proof (rule block_descent_ok [where R = "ranges ctx"])
    show "\<forall>p\<in>set (inorder (block_btree ctx)). the (blk ctx p) \<in> ranges ctx"
      using blk_ex [OF assms] by (force simp: ranges_def tree_blocks_def)
  qed (use assms start blk_inv_nonnull [OF assms] in \<open>auto simp: blk_inv_def tree_blocks_def\<close>)
  then obtain p where "block_descent ctx a (block_btree ctx) = Inr p"
    "if p = NULL then \<forall>q\<in>tree_blocks ctx. \<not> holds ctx a q else p \<in> tree_blocks ctx \<and> holds ctx a p"
    by blast
  moreover from this have "mjr_block_get_by_vaddr ctx a MJR_BLOCK_GET_FUZZY = Inr p"
    using None by (simp add: mjr_block_get_by_vaddr_def hash_get_abs)
  ultimately show thesis using that start by (fastforce simp: holds_def ranges_def split: if_splits)
qed


subsection \<open>Changes that keep the blocks\<close>

lemma same_graph_blk:
  assumes "same_graph ctx ctx'"
  shows "blk ctx' = blk ctx" "tree_blocks ctx' = tree_blocks ctx" "ranges ctx' = ranges ctx"
    "registered ctx' p = registered ctx p" "cn_vaddr ctx' = cn_vaddr ctx"
  using assms by (auto simp: same_graph_def blk_def tree_blocks_def ranges_def registered_def
      cn_vaddr_def fun_eq_iff)

lemma blk_inv_same_graph:
  assumes "blk_inv ctx" "same_graph ctx ctx'" "cn_inv ctx'"
  shows "blk_inv ctx'"
proof -
  have "blkhash ctx' = blkhash ctx" "block_btree ctx' = block_btree ctx"
    using assms(2) by (simp_all add: same_graph_def)
  then show ?thesis
    using assms(1,3) same_graph_blk [OF assms(2)]
    by (simp add: blk_inv_def block_ok_def tree_ordered_eq)
qed

lemma blk_inv_obj: "blk_inv ctx \<Longrightarrow> blk_inv (ctx\<lparr>obj := ob\<rparr>)"
  "ranges (ctx\<lparr>obj := ob\<rparr>) = ranges ctx" "blk (ctx\<lparr>obj := ob\<rparr>) = blk ctx"
proof -
  let ?c = "ctx\<lparr>obj := ob\<rparr>"
  have simps: "blk ?c = blk ctx" "tree_blocks ?c = tree_blocks ctx" "registered ?c = registered ctx"
    "cn_vaddr ?c = cn_vaddr ctx" "link_ok ?c = link_ok ctx" "has_lists ?c = has_lists ctx"
    by (simp_all add: blk_def tree_blocks_def registered_def cn_vaddr_def link_ok_def reg_ok_def
        has_lists_def fun_eq_iff)
  then show "ranges ?c = ranges ctx" "blk ?c = blk ctx" by (simp_all add: ranges_def)
  with simps show "blk_inv ctx \<Longrightarrow> blk_inv ?c"
    by (simp add: blk_inv_def cn_inv_def block_ok_def tree_ordered_eq list_ok_def)
qed

text \<open>The object after the symbol of a block has been asked for.\<close>

definition sym_added :: "'o env \<Rightarrow> 'o \<Rightarrow> eresi_Addr \<Rightarrow> u_int \<Rightarrow> 'o" where
  "sym_added en ob v s = (let name = bloc_prefix en @ fmt_08X v in
     if sym_by_name en ob name then ob else insert_sym en ob v s STT_BLOCK name)"

lemma block_symbol_ok:
  assumes "blk_inv ctx" "p \<in> tree_blocks ctx" "blk ctx p = Some (v, s)"
  obtains n where "mjr_block_symbol en p ctx = Inr (n, ctx\<lparr>obj := sym_added en (obj ctx) v s\<rparr>)"
proof -
  obtain c b where c: "cheap ctx p = Some c" "cndata c = Bloc b" "bvaddr b = v" "bsize b = s" by (rule blkE [OF assms(3)])
  have "ctx\<lparr>obj := obj ctx\<rparr> = ctx" by (cases ctx) simp
  then show thesis using c that
    by (cases "sym_by_name en (obj ctx) (bloc_prefix en @ fmt_08X v)")
      (simp_all add: mjr_block_symbol_def get_cn_def Let_def sym_added_def)
qed

lemma del_link_ok:
  assumes "cn_inv ctx" "lists ctx ln \<noteq> None"
  obtains ctx' where "del_link ln (Some k) ctx = Inr ctx'" "cn_inv ctx'" "same_graph ctx ctx'"
    "lheap ctx' = lheap ctx" "dom (lists ctx') = dom (lists ctx)"
proof -
  obtain l where l: "lists ctx ln = Some l" using assms(2) by blast
  obtain l' where "elist_del (Some l) (Some k) = (0, Some l')" "list_ok ctx l'"
    using list_ok_del [OF cn_invD(3) [OF assms(1) l]] by metis
  then show thesis
    using l cn_inv_lists [OF assms(1) _ assms(2)]
    by (intro that [of "ctx\<lparr>lists := (lists ctx)(ln \<mapsto> l')\<rparr>"]) (auto simp: del_link_def same_graph_def)
qed

lemma relink_ents_ok:
  assumes "cn_inv ctx" "cheap ctx dst = Some cd" "cheap ctx src = Some cs"
    "ln = mjr_link_get_by_direction cs dir"
    "\<forall>e\<in>set es. ent_key e \<noteq> None \<and> (\<exists>lk. lheap ctx (ent_data e) = Some lk \<and> reg_ok ctx (link_id lk))"
  shows "\<exists>ctx'. relink_ents dst ln dir es ctx = Inr ctx' \<and> cn_inv ctx' \<and> same_graph ctx ctx'"
  using assms(1-3,5)
proof (induction es arbitrary: ctx)
  case (Cons e es)
  obtain k lk where e: "ent_key e = Some k" "lheap ctx (ent_data e) = Some lk" "reg_ok ctx (link_id lk)"
    using Cons.prems(4) by auto
  obtain r ctx1 where c1: "mjr_container_add_link ctx dst (link_id lk) (link_type lk) (link_scope lk) dir =
      Inr (r, ctx1)" "cn_inv ctx1" "same_graph ctx ctx1" "lheap ctx \<subseteq>\<^sub>m lheap ctx1"
    by (rule add_link_ok [OF Cons.prems(1,2) e(3)])
  have "lists ctx1 ln \<noteq> None"
    using cn_invD(1) [OF c1(2), of src cs] c1(3) Cons.prems(3) assms(4)
    by (cases dir) (simp_all add: same_graph_def has_lists_def mjr_link_get_by_direction_def)
  then obtain ctx2 where c2: "del_link ln (Some k) ctx1 = Inr ctx2" "cn_inv ctx2" "same_graph ctx1 ctx2"
    "lheap ctx2 = lheap ctx1" by (rule del_link_ok [OF c1(2)])
  have sg: "same_graph ctx ctx2" using c1(3) c2(3) by (rule same_graph_trans)
  have le: "lheap ctx2 d = Some x" if "lheap ctx d = Some x" for d x
    using c1(4) c2(4) that by (metis domI map_le_def)
  have "\<exists>ctx'. relink_ents dst ln dir es ctx2 = Inr ctx' \<and> cn_inv ctx' \<and> same_graph ctx2 ctx'"
  proof (rule Cons.IH [OF c2(2)])
    show "cheap ctx2 dst = Some cd" "cheap ctx2 src = Some cs"
      using sg Cons.prems(2,3) by (simp_all add: same_graph_def)
    show "\<forall>e\<in>set es. ent_key e \<noteq> None \<and> (\<exists>lk. lheap ctx2 (ent_data e) = Some lk \<and> reg_ok ctx2 (link_id lk))"
      using Cons.prems(4) le sg by (fastforce simp: same_graph_def reg_ok_def)
  qed
  then show ?case using e c1(1) c2(1) sg same_graph_trans by fastforce
qed simp

lemma relink_ok:
  assumes "cn_inv ctx" "cheap ctx dst = Some cd" "cheap ctx src = Some cs"
  obtains ctx' where "mjr_block_relink src dst dir ctx = Inr ctx'" "cn_inv ctx'" "same_graph ctx ctx'"
proof -
  let ?ln = "mjr_link_get_by_direction cs dir"
  have "lists ctx ?ln \<noteq> None"
    using cn_invD(1) [OF assms(1,3)] by (cases dir) (simp_all add: has_lists_def mjr_link_get_by_direction_def)
  then obtain l where l: "lists ctx ?ln = Some l" by blast
  note lok = cn_invD(3) [OF assms(1) l]
  have "\<forall>e\<in>set (lhead l). ent_key e \<noteq> None \<and> (\<exists>lk. lheap ctx (ent_data e) = Some lk \<and> reg_ok ctx (link_id lk))"
    using list_ok_ent [OF lok] by blast
  then show thesis
    using relink_ents_ok [OF assms refl, of "lhead l" dir] l assms(3) that
    by (auto simp: mjr_block_relink_def get_cn_def Let_def)
qed

subsection \<open>New blocks and other sizes\<close>

lemma blk_start_unique:
  assumes "blk_inv ctx" "p \<in> tree_blocks ctx" "q \<in> tree_blocks ctx" "blk ctx p = Some (v, s)"
    "blk ctx q = Some (v, t)"
  shows "p = q"
proof -
  have "block_ok ctx p" "block_ok ctx q" using assms(1-3) by (auto simp: blk_inv_def)
  then show ?thesis using assms(4,5) by (auto simp: block_ok_def)
qed

lemma resize_block_ok:
  assumes "blk_inv ctx" "p \<in> tree_blocks ctx" "blk ctx p = Some (v, s)" "unat v + unat s' < 2 ^ 31"
    "no_overlap (insert (v, s') (ranges ctx - {(v, s)}))"
    "\<And>b. bvaddr (f b) = bvaddr b" "\<And>b. bvaddr b = v \<Longrightarrow> bsize b = s \<Longrightarrow> bsize (f b) = s'"
  shows "blk_inv (set_block p f ctx)" "blk (set_block p f ctx) = (blk ctx)(p \<mapsto> (v, s'))"
    "tree_blocks (set_block p f ctx) = tree_blocks ctx"
    "ranges (set_block p f ctx) = insert (v, s') (ranges ctx - {(v, s)})"
proof -
  let ?ctx = "set_block p f ctx"
  obtain c b where c: "cheap ctx p = Some c" "cndata c = Bloc b" "bvaddr b = v" "bsize b = s"
    by (rule blkE [OF assms(3)])
  let ?c = "c\<lparr>cndata := Bloc (f b)\<rparr>"
  have ch: "cheap ?ctx = (cheap ctx)(p \<mapsto> ?c)" using c by (simp add: set_block_def set_cn_def)
  have same: "reg_containers ?ctx = reg_containers ctx" "lists ?ctx = lists ctx" "lheap ?ctx = lheap ctx"
    "brk ?ctx = brk ctx" "cntnrs_size ?ctx = cntnrs_size ctx" "next_id ?ctx = next_id ctx"
    "linkhash ?ctx = linkhash ctx" "blkhash ?ctx = blkhash ctx" "block_btree ?ctx = block_btree ctx"
    by (simp_all add: set_block_def set_cn_def)
  show blk: "blk ?ctx = (blk ctx)(p \<mapsto> (v, s'))"
    using assms(6,7) c by (simp add: blk_def ch fun_eq_iff)
  show tb: "tree_blocks ?ctx = tree_blocks ctx" by (simp add: tree_blocks_def same)
  have other: "w \<noteq> v" if "q \<in> tree_blocks ctx" "q \<noteq> p" "blk ctx q = Some (w, t)" for q w t
    using blk_start_unique [OF assms(1) that(1) assms(2) that(3)] assms(3) that(2) by auto
  show rg: "ranges ?ctx = insert (v, s') (ranges ctx - {(v, s)})"
  proof -
    have "ranges ctx - {(v, s)} = {r. \<exists>q\<in>tree_blocks ctx - {p}. blk ctx q = Some r}"
      using other assms(2,3) by (auto simp: ranges_def)
    moreover have "ranges ?ctx = insert (v, s') {r. \<exists>q\<in>tree_blocks ctx - {p}. blk ctx q = Some r}"
      using assms(2) by (auto simp: ranges_def tb blk split: if_splits)
    ultimately show ?thesis by simp
  qed
  have cv: "cn_vaddr ?ctx = cn_vaddr ctx" using c assms(6) by (auto simp: cn_vaddr_def ch fun_eq_iff)
  have reg: "registered ?ctx q = registered ctx q" for q
    using c by (auto simp: registered_def ch same)
  have "dom (cheap ?ctx) = dom (cheap ctx)" using c unfolding ch by auto
  then have lk: "link_ok ?ctx = link_ok ctx" by (simp add: link_ok_def reg_ok_def same fun_eq_iff)
  have hl: "has_lists ?ctx x" if "cheap ?ctx q = Some x" for q x
  proof -
    have "\<exists>y. cheap ctx q = Some y \<and> inlinks x = inlinks y \<and> outlinks x = outlinks y"
      using that c unfolding ch by (auto split: if_splits)
    then show ?thesis using cn_invD(1) [of ctx] assms(1) by (auto simp: has_lists_def same blk_inv_def)
  qed
  have cn: "cn_inv ?ctx"
    using assms(1) hl lk \<open>dom (cheap ?ctx) = dom (cheap ctx)\<close>
    by (simp add: blk_inv_def cn_inv_def same list_ok_def)
  have b1: "block_ok ?ctx q" if "q \<in> tree_blocks ctx" for q
    using that assms(1-4) by (auto simp: blk_inv_def block_ok_def reg blk same)
  have b2: "\<exists>v s. blk ?ctx q = Some (v, s) \<and> k = vaddr2str v" if "hash_abs (blkhash ctx) k = Some q" for k q
  proof -
    have "\<exists>w t. blk ctx q = Some (w, t) \<and> k = vaddr2str w" using that assms(1) unfolding blk_inv_def by blast
    then show ?thesis using assms(3) by (auto simp: blk)
  qed
  show "blk_inv ?ctx"
    using assms(1) cn b1 b2 assms(5) unfolding blk_inv_def tb same rg by (simp add: tree_ordered_eq cv)
qed

text \<open>A block can shrink, and it can grow up to the next block.\<close>

lemma set_block_ok:
  assumes "blk_inv ctx" "p \<in> tree_blocks ctx" "blk ctx p = Some (v, s)" "unat s' \<le> unat s"
    "\<And>b. bvaddr (f b) = bvaddr b" "\<And>b. bvaddr b = v \<Longrightarrow> bsize b = s \<Longrightarrow> bsize (f b) = s'"
  shows "blk_inv (set_block p f ctx)" "blk (set_block p f ctx) = (blk ctx)(p \<mapsto> (v, s'))"
    "tree_blocks (set_block p f ctx) = tree_blocks ctx"
    "ranges (set_block p f ctx) = insert (v, s') (ranges ctx - {(v, s)})"
proof -
  have "(v, s) \<in> ranges ctx" using assms(2,3) by (auto simp: ranges_def)
  moreover have "no_overlap (ranges ctx)" using assms(1) by (simp add: blk_inv_def)
  ultimately have ov: "no_overlap (insert (v, s') (ranges ctx - {(v, s)}))" using assms(4) unfolding no_overlap_def by fastforce
  have low: "unat v + unat s' < 2 ^ 31" using assms(1-4) by (auto simp: blk_inv_def block_ok_def)
  show "blk_inv (set_block p f ctx)" "blk (set_block p f ctx) = (blk ctx)(p \<mapsto> (v, s'))"
    "tree_blocks (set_block p f ctx) = tree_blocks ctx"
    "ranges (set_block p f ctx) = insert (v, s') (ranges ctx - {(v, s)})"
    by (rule resize_block_ok [OF assms(1-3) low ov assms(5,6)]; assumption)+
qed

lemma grow_block_ok:
  assumes "blk_inv ctx" "p \<in> tree_blocks ctx" "blk ctx p = Some (v, s)" "unat v + unat s + unat n < 2 ^ 31"
    "\<forall>(w, t)\<in>ranges ctx. v < w \<longrightarrow> unat v + unat s + unat n \<le> unat w"
  shows "blk_inv (set_block p (\<lambda>b. b\<lparr>bsize := bsize b + n\<rparr>) ctx)"
    "ranges (set_block p (\<lambda>b. b\<lparr>bsize := bsize b + n\<rparr>) ctx) = insert (v, s + n) (ranges ctx - {(v, s)})"
proof -
  have "unat (s + n) = unat s + unat n" using assms(4) by (simp add: unat_word_ariths)
  moreover have "unat w + unat t \<le> unat v" if "(w, t) \<in> ranges ctx" "w < v" for w t
  proof -
    have "(v, s) \<in> ranges ctx" using assms(2,3) by (auto simp: ranges_def)
    then show ?thesis using that assms(1) by (fastforce simp: blk_inv_def no_overlap_def)
  qed
  moreover have "no_overlap (ranges ctx)" using assms(1) by (simp add: blk_inv_def)
  ultimately have "no_overlap (insert (v, s + n) (ranges ctx - {(v, s)}))" "unat v + unat (s + n) < 2 ^ 31"
    using assms(4,5) unfolding no_overlap_def by (fastforce, simp)
  note o = this
  show "blk_inv (set_block p (\<lambda>b. b\<lparr>bsize := bsize b + n\<rparr>) ctx)"
    "ranges (set_block p (\<lambda>b. b\<lparr>bsize := bsize b + n\<rparr>) ctx) = insert (v, s + n) (ranges ctx - {(v, s)})"
    using resize_block_ok(1,4) [OF assms(1-3) o(2,1), of "\<lambda>b. b\<lparr>bsize := bsize b + n\<rparr>"] by simp_all
qed

lemma insert_block_ok:
  assumes "blk_inv ctx" "unat v + unat s < 2 ^ 31" "\<forall>(w, t)\<in>ranges ctx. w \<noteq> v"
    "no_overlap (insert (v, s) (ranges ctx))" "type_name en ASPECT_TYPE_BLOC \<noteq> None" "capacity ctx"
  obtains q ctx1 ctx2 where "mjr_create_block_container en so v s seen ctx = Inr (q, ctx1)"
    "ctx2 = ctx1\<lparr>blkhash := snd (hash_add (blkhash ctx1) (vaddr2str v) q)\<rparr>"
    "blk_inv ctx2" "tree_blocks ctx2 = insert q (tree_blocks ctx)" "blk ctx2 = (blk ctx)(q \<mapsto> (v, s))"
    "ranges ctx2 = insert (v, s) (ranges ctx)" "obj ctx2 = obj ctx" "q \<notin> tree_blocks ctx"
proof -
  let ?b = "\<lparr>bvaddr = v, bsize = s, bsymoff = so, bseen = seen\<rparr>"
  have cn: "cn_inv ctx" and ord: "tree_ordered ctx (block_btree ctx)" and hi: "hash_inv (blkhash ctx)"
    using assms(1) by (simp_all add: blk_inv_def)
  obtain c ctxa where a: "container_create en ASPECT_TYPE_BLOC (Bloc ?b) (obj_id en (obj ctx)) ctx = Inr (brk ctx, ctxa)"
    "cheap ctxa = (cheap ctx)(brk ctx \<mapsto> c)" "cndata c = Bloc ?b" "cn_inv ctxa" "same_but_heap ctx ctxa"
    by (rule container_create_ok [OF cn assms(5), of "Bloc ?b" "obj_id en (obj ctx)"])
  let ?q = "brk ctx"
  have q: "cheap ctxa ?q = Some c" "?q \<noteq> NULL" "cheap ctx ?q = None"
    using a(2) cn cn_invD(5) [OF cn] by (auto simp: cn_inv_def)
  have cap: "capacity ctxa" using assms(6) a(5) by (simp add: capacity_def same_but_heap_def)
  obtain ctxb where b: "mjr_register_container ctxa ?q = (next_id ctxa, ctxb)" "cn_inv ctxb"
    "cheap ctxb = (cheap ctxa)(?q \<mapsto> c\<lparr>cnid := next_id ctxa\<rparr>)" "next_id ctxb = next_id ctxa + 1"
    "cntnrs_size ctxa \<le> cntnrs_size ctxb" "next_id ctxa < cntnrs_size ctxb"
    "reg_containers ctxb ! next_id ctxa = ?q"
    "\<forall>i<next_id ctxa. reg_containers ctxb ! i = reg_containers ctxa ! i"
    "lists ctxb = lists ctxa" "lheap ctxb = lheap ctxa" "block_btree ctxb = block_btree ctxa"
    "blkhash ctxb = blkhash ctxa" "obj ctxb = obj ctxa" "brk ctxb = brk ctxa"
    by (rule register_ok [OF a(4) q(1) cap])
  let ?t = "btree_insert_sort (block_btree ctxb) (match_block ctxb) ?q"
  let ?ctx1 = "ctxb\<lparr>block_btree := ?t\<rparr>"
  let ?ctx2 = "?ctx1\<lparr>blkhash := snd (hash_add (blkhash ?ctx1) (vaddr2str v) ?q)\<rparr>"
  have create: "mjr_create_block_container en so v s seen ctx = Inr (?q, ?ctx1)"
    using a(1) b(1) by (simp add: mjr_create_block_container_def Let_def)
  have chb: "cheap ctxb = (cheap ctx)(?q \<mapsto> c\<lparr>cnid := next_id ctxa\<rparr>)" using a(2) b(3) by simp
  have blk: "blk ?ctx2 = (blk ctx)(?q \<mapsto> (v, s))" using a(3) by (simp add: blk_def chb fun_eq_iff)
  have fresh: "?q \<notin> tree_blocks ctx"
    using assms(1) q(3) by (auto simp: blk_inv_def block_ok_def registered_def)
  have cvb: "cn_vaddr ctxb p = (if p = ?q then v else cn_vaddr ctx p)" for p
    using a(3) by (simp add: cn_vaddr_def chb)
  have bt: "block_btree ctxb = block_btree ctx" "blkhash ctxb = blkhash ctx" "obj ctxb = obj ctx"
    using a(5) b(11-13) by (simp_all add: same_but_heap_def)
  have mapeq: "map (\<lambda>p. unat (cn_vaddr ctxb p)) (inorder (block_btree ctx)) =
      map (\<lambda>p. unat (cn_vaddr ctx p)) (inorder (block_btree ctx))"
    using fresh by (intro map_cong) (auto simp: cvb tree_blocks_def)
  have "set (inorder (block_btree ctx)) \<subseteq> {p. unat (cn_vaddr ctxb p) < 2 ^ 31}"
    using ord fresh by (auto simp: tree_ordered_eq cvb tree_blocks_def)
  then have ordb: "tree_ordered ctxb (block_btree ctxb)" using ord mapeq by (simp only: tree_ordered_eq bt)
  have vq: "?q \<in> {p. unat (cn_vaddr ctxb p) < 2 ^ 31}" using assms(2) by (simp add: cvb)
  have new: "unat (cn_vaddr ctxb ?q) \<notin> (\<lambda>p. unat (cn_vaddr ctxb p)) ` set (inorder (block_btree ctxb))"
  proof
    assume "unat (cn_vaddr ctxb ?q) \<in> (\<lambda>p. unat (cn_vaddr ctxb p)) ` set (inorder (block_btree ctxb))"
    then obtain p where p: "p \<in> tree_blocks ctx" "cn_vaddr ctxb p = v"
      by (auto simp: cvb bt tree_blocks_def word_unat_eq_iff split: if_splits)
    then obtain w t where "blk ctx p = Some (w, t)" using blk_ex [OF assms(1)] by fast
    then show False
      using p fresh assms(3) blk_cn_vaddr [of ctx p w t] by (auto simp: cvb ranges_def split: if_splits)
  qed
  have tb: "tree_blocks ?ctx2 = insert ?q (tree_blocks ctx)"
    using tree_insert_set [OF ordb vq] new by (simp add: tree_blocks_def bt)
  have rg: "ranges ?ctx2 = insert (v, s) (ranges ctx)"
    using fresh unfolding ranges_def tb blk by (auto split: if_splits)
  have sim: "cn_inv ?ctx2"
  proof -
    have "link_ok ?ctx2 = link_ok ctxb" "has_lists ?ctx2 = has_lists ctxb"
      by (simp_all add: link_ok_def reg_ok_def has_lists_def fun_eq_iff)
    then show ?thesis using b(2) by (simp add: cn_inv_def list_ok_def)
  qed
  have hash: "hash_inv (blkhash ?ctx2)" "hash_abs (blkhash ?ctx2) = (hash_abs (blkhash ctx))(vaddr2str v \<mapsto> ?q)"
    using hash_add_ok(1,2) [OF hi q(2), of "vaddr2str v"] by (simp_all add: bt)
  have lenb: "length (reg_containers ctxb) = cntnrs_size ctxb" using b(2) by (simp add: cn_inv_def)
  have regq: "registered ?ctx2 ?q" using b(6,7) lenb by (simp add: registered_def chb)
  have regp: "registered ?ctx2 p" if "p \<in> tree_blocks ctx" for p
  proof -
    have r: "registered ctx p" using assms(1) that by (auto simp: blk_inv_def block_ok_def)
    have "registered ctxb p"
    proof (rule registered_frame [OF cn r])
      show "cheap ctxb p = cheap ctx p" using that fresh by (auto simp: chb)
    qed (use a(5) b(5,8) lenb in \<open>simp_all add: same_but_heap_def\<close>)
    then show ?thesis by (simp add: registered_def)
  qed
  have ok: "block_ok ?ctx2 p" if p: "p \<in> tree_blocks ?ctx2" for p
  proof (cases "p = ?q")
    case True
    then show ?thesis using regq blk hash(2) assms(2) by (simp add: block_ok_def)
  next
    case False
    then have pt: "p \<in> tree_blocks ctx" using p tb by simp
    then obtain w t where w: "blk ctx p = Some (w, t)" "hash_abs (blkhash ctx) (vaddr2str w) = Some p"
      "unat w + unat t < 2 ^ 31" using assms(1) by (auto simp: blk_inv_def block_ok_def)
    then have "w \<noteq> v" using assms(3) pt by (auto simp: ranges_def)
    then show ?thesis using w regp [OF pt] blk hash(2) False by (simp add: block_ok_def)
  qed
  have inv_hash: "p \<in> tree_blocks ?ctx2 \<and> (\<exists>w t. blk ?ctx2 p = Some (w, t) \<and> k = vaddr2str w)"
    if k: "hash_abs (blkhash ?ctx2) k = Some p" for k p
  proof (cases "k = vaddr2str v")
    case True
    then show ?thesis using k hash(2) blk tb by simp
  next
    case False
    then have "hash_abs (blkhash ctx) k = Some p" using k hash(2) by simp
    then have "p \<in> tree_blocks ctx" "\<exists>w t. blk ctx p = Some (w, t) \<and> k = vaddr2str w"
      using assms(1) unfolding blk_inv_def by blast+
    then show ?thesis using fresh blk tb by auto
  qed
  have "cn_vaddr ?ctx2 = cn_vaddr ctxb" by (simp add: cn_vaddr_def fun_eq_iff)
  then have "tree_ordered ?ctx2 (block_btree ?ctx2)"
    using tree_insert_ordered [OF ordb vq] by (simp add: tree_ordered_eq)
  then have "blk_inv ?ctx2" using sim hash(1) ok inv_hash rg assms(4) unfolding blk_inv_def by simp
  then show thesis by (intro that [OF create refl]) (use tb blk rg fresh bt in simp_all)
qed


subsection \<open>Splitting\<close>

lemma no_overlap_insert_empty:
  assumes "no_overlap R" "\<forall>(v, s)\<in>R. v \<noteq> a \<and> \<not> (unat v \<le> unat a \<and> unat a < unat v + unat s)"
  shows "no_overlap (insert (a, 0) R)"
  using assms unfolding no_overlap_def by (fastforce simp: word_less_nat_alt)

lemma split_new_ok:
  assumes "blk_inv ctx" "unat dst < 2 ^ 31" "type_name en ASPECT_TYPE_BLOC \<noteq> None" "capacity ctx"
    "\<forall>(v, s)\<in>ranges ctx. v \<noteq> dst \<and> \<not> (unat v \<le> unat dst \<and> unat dst < unat v + unat s)"
  obtains q ctx' where "split_new en dst ctx = Inr (q, ctx')" "blk_inv ctx'" "q \<in> tree_blocks ctx'"
    "blk ctx' q = Some (dst, 0)" "ranges ctx' = insert (dst, 0) (ranges ctx)"
    "obj ctx' = sym_added en (obj ctx) dst 0"
proof -
  have ov: "no_overlap (insert (dst, 0) (ranges ctx))"
    using assms(1,5) by (intro no_overlap_insert_empty) (simp_all add: blk_inv_def)
  obtain q ctx1 ctx2 where c: "mjr_create_block_container en 0 dst 0 0 ctx = Inr (q, ctx1)"
    "ctx2 = ctx1\<lparr>blkhash := snd (hash_add (blkhash ctx1) (vaddr2str dst) q)\<rparr>" "blk_inv ctx2"
    "tree_blocks ctx2 = insert q (tree_blocks ctx)" "blk ctx2 = (blk ctx)(q \<mapsto> (dst, 0))"
    "ranges ctx2 = insert (dst, 0) (ranges ctx)" "obj ctx2 = obj ctx" "q \<notin> tree_blocks ctx"
    by (rule insert_block_ok [OF assms(1) _ _ ov assms(3,4), of 0 0]) (use assms(2,5) in auto)
  have q: "q \<in> tree_blocks ctx2" "blk ctx2 q = Some (dst, 0)" using c by simp_all
  obtain n where sym: "mjr_block_symbol en q ctx2 = Inr (n, ctx2\<lparr>obj := sym_added en (obj ctx2) dst 0\<rparr>)"
    by (rule block_symbol_ok [OF c(3) q])
  let ?ctx3 = "ctx2\<lparr>obj := sym_added en (obj ctx2) dst 0\<rparr>"
  have i3: "blk_inv ?ctx3" "q \<in> tree_blocks ?ctx3" "blk ?ctx3 q = Some (dst, 0)" "ranges ?ctx3 = ranges ctx2"
    using c(3) q by (simp_all add: blk_inv_obj) (simp add: tree_blocks_def)
  note sb = set_block_ok [OF i3(1-3), of 0 "\<lambda>b. b\<lparr>bsymoff := n\<rparr>"]
  show thesis
    by (rule that [of q "set_block q (\<lambda>b. b\<lparr>bsymoff := n\<rparr>) ?ctx3"])
      (use sb i3 c(1,2,6,7) sym in \<open>auto simp: split_new_def Let_def set_block_def set_cn_def\<close>)
qed

lemma split_sizes:
  fixes v s dst :: eresi_Addr
  assumes "v < dst" "unat dst < unat v + unat s"
  shows "unat (dst - v) = unat dst - unat v" "unat (s - (dst - v)) = unat v + unat s - unat dst"
    "s - (s - (dst - v)) = dst - v" "0 < dst - v"
proof -
  have "v \<le> dst" using assms(1) by simp
  then show d: "unat (dst - v) = unat dst - unat v" by (rule unat_sub)
  have "dst - v \<le> s" using assms d by (simp add: word_le_nat_alt word_less_nat_alt)
  then have "unat (s - (dst - v)) = unat s - (unat dst - unat v)" using d by (simp add: unat_sub)
  then show "unat (s - (dst - v)) = unat v + unat s - unat dst"
    using assms by (simp add: word_less_nat_alt)
  show "s - (s - (dst - v)) = dst - v" by simp
  have "unat (dst - v) \<noteq> 0" using assms(1) d by (simp add: word_less_nat_alt)
  then show "0 < dst - v" by (simp add: word_gt_0 unat_eq_zero)
qed

lemma links_ok:
  assumes "blk_inv ctx" "p \<in> tree_blocks ctx" "q \<in> tree_blocks ctx"
  obtains lk ctx' where "rbind (get_cn ctx q) (\<lambda>cq. mjr_container_add_link ctx p (cnid cq) lkt scope dir) = Inr (lk, ctx')"
    "blk_inv ctx'" "same_graph ctx ctx'"
proof -
  obtain cq where cq: "cheap ctx q = Some cq" "registered ctx q" by (rule blk_invD [OF assms(1,3)])
  obtain cp where cp: "cheap ctx p = Some cp" by (rule blk_invD [OF assms(1,2)])
  have cn: "cn_inv ctx" using assms(1) by (simp add: blk_inv_def)
  obtain lk ctx' where "mjr_container_add_link ctx p (cnid cq) lkt scope dir = Inr (lk, ctx')" "cn_inv ctx'"
    "same_graph ctx ctx'" by (rule add_link_ok [OF cn cp registered_reg_ok [OF cq(2,1)]])
  then show thesis using that cq(1) blk_inv_same_graph [OF assms(1)] by (simp add: get_cn_def)
qed

text \<open>The two halves of a block fit between the other blocks.\<close>

lemma split_room:
  assumes "blk_inv ctx" "p \<in> tree_blocks ctx" "blk ctx p = Some (v, s)" "v < dst" "unat dst < unat v + unat s"
  defines "R \<equiv> insert (v, dst - v) (ranges ctx - {(v, s)})"
  shows "\<forall>(w, t)\<in>R. w \<noteq> dst" "no_overlap (insert (dst, s - (dst - v)) R)" "unat dst + unat (s - (dst - v)) < 2 ^ 31"
proof -
  note sz = split_sizes [OF assms(4,5)]
  have v31: "unat v + unat s < 2 ^ 31" using blk_invD [OF assms(1,2)] assms(3) by (metis option.inject prod.inject)
  have R: "(v, s) \<in> ranges ctx" "no_overlap (ranges ctx)" using assms(1-3) by (auto simp: ranges_def blk_inv_def)
  have away: "w \<noteq> v \<and> (unat w + unat t \<le> unat v \<or> unat v + unat s \<le> unat w)"
    if wt: "(w, t) \<in> ranges ctx - {(v, s)}" for w t
  proof -
    obtain r where r: "r \<in> tree_blocks ctx" "blk ctx r = Some (w, t)" using wt by (auto simp: ranges_def)
    have "w \<noteq> v"
    proof
      assume "w = v"
      then have "r = p" using blk_start_unique [OF assms(1) r(1) assms(2)] r(2) assms(3) by blast
      then show False using r(2) assms(3) wt by simp
    qed
    then have "w < v \<or> v < w" by (simp add: linorder_neq_iff)
    then show ?thesis using \<open>w \<noteq> v\<close> R wt unfolding no_overlap_def by blast
  qed
  show "\<forall>(w, t)\<in>R. w \<noteq> dst"
    using away assms(4,5) unfolding R_def by (fastforce simp: word_less_nat_alt)
  show "no_overlap (insert (dst, s - (dst - v)) R)"
    using R(2) away assms(4,5) sz(1,2) unfolding R_def no_overlap_def by (fastforce simp: word_less_nat_alt)
  show "unat dst + unat (s - (dst - v)) < 2 ^ 31" using sz(2) assms(4,5) v31 by (simp add: word_less_nat_alt)
qed

text \<open>The new half takes over the output links, and the halves are linked.\<close>

lemma link_halves:
  assumes "blk_inv ctx" "p \<in> tree_blocks ctx" "q \<in> tree_blocks ctx"
  obtains ctx' where "rbind (mjr_block_relink p q CONTAINER_LINK_OUT ctx) (\<lambda>ctx6.
     rbind (get_cn ctx6 q) (\<lambda>cq. rbind (get_cn ctx6 p) (\<lambda>cp.
     rbind (mjr_container_add_link ctx6 p (cnid cq) MJR_LINK_BLOCK_COND_ALWAYS MJR_LINK_SCOPE_LOCAL
              CONTAINER_LINK_OUT) (\<lambda>(_, ctx7).
     rbind (mjr_container_add_link ctx7 q (cnid cp) MJR_LINK_BLOCK_COND_ALWAYS MJR_LINK_SCOPE_LOCAL
              CONTAINER_LINK_IN) (\<lambda>(_, ctx8). Inr (q, ctx8)))))) = Inr (q, ctx')"
    "blk_inv ctx'" "same_graph ctx ctx'"
proof -
  obtain cp cq where cpq: "cheap ctx p = Some cp" "cheap ctx q = Some cq"
    using blk_invD [OF assms(1)] assms(2,3) by metis
  have "cn_inv ctx" using assms(1) by (simp add: blk_inv_def)
  then obtain ctx6 where c6: "mjr_block_relink p q CONTAINER_LINK_OUT ctx = Inr ctx6" "cn_inv ctx6"
    "same_graph ctx ctx6" by (rule relink_ok [OF _ cpq(2,1)])
  note b6 = blk_inv_same_graph [OF assms(1) c6(3,2)] same_graph_blk [OF c6(3)]
  have t6: "p \<in> tree_blocks ctx6" "q \<in> tree_blocks ctx6" using b6(3) assms(2,3) by auto
  obtain l7 ctx7 where c7: "rbind (get_cn ctx6 q) (\<lambda>cq. mjr_container_add_link ctx6 p (cnid cq)
      MJR_LINK_BLOCK_COND_ALWAYS MJR_LINK_SCOPE_LOCAL CONTAINER_LINK_OUT) = Inr (l7, ctx7)"
    "blk_inv ctx7" "same_graph ctx6 ctx7" by (rule links_ok [OF b6(1) t6])
  have t7: "q \<in> tree_blocks ctx7" "p \<in> tree_blocks ctx7" using same_graph_blk(2) [OF c7(3)] t6 by auto
  obtain l8 ctx8 where c8: "rbind (get_cn ctx7 p) (\<lambda>cp. mjr_container_add_link ctx7 q (cnid cp)
      MJR_LINK_BLOCK_COND_ALWAYS MJR_LINK_SCOPE_LOCAL CONTAINER_LINK_IN) = Inr (l8, ctx8)"
    "blk_inv ctx8" "same_graph ctx7 ctx8" by (rule links_ok [OF c7(2) t7])
  have ch: "get_cn ctx6 p = Inr cp" "get_cn ctx6 q = Inr cq" "get_cn ctx7 p = Inr cp"
    using cpq c6(3) c7(3) by (simp_all add: get_cn_def same_graph_def)
  show thesis
  proof (rule that [of ctx8])
    show "same_graph ctx ctx8" using c6(3) c7(3) c8(3) by (blast intro: same_graph_trans)
  qed (use c6(1) c7(1) c8(1,2) ch in simp_all)
qed

lemma split_old_ok:
  assumes "blk_inv ctx" "p \<in> tree_blocks ctx" "blk ctx p = Some (v, s)" "v < dst" "unat dst < unat v + unat s"
    "type_name en ASPECT_TYPE_BLOC \<noteq> None" "capacity ctx" "cheap ctx p = Some c" "cndata c = Bloc b"
  obtains q ctx' where "split_old en dst p b ctx = Inr (q, ctx')" "blk_inv ctx'" "q \<in> tree_blocks ctx'"
    "blk ctx' q = Some (dst, s - (dst - v))"
    "ranges ctx' = insert (v, dst - v) (insert (dst, s - (dst - v)) (ranges ctx - {(v, s)}))"
    "obj ctx' = sym_added en (set_sym_size en (obj ctx) v (dst - v)) dst (s - (dst - v))"
proof -
  have b: "bvaddr b = v" "bsize b = s" using assms(3,8,9) by (simp_all add: blk_def)
  let ?n = "s - (dst - v)"
  note sz = split_sizes [OF assms(4,5)]
  let ?ctx1 = "set_block p (\<lambda>b. b\<lparr>bsize := dst - v\<rparr>) ctx"
  have c1: "blk_inv ?ctx1" "blk ?ctx1 = (blk ctx)(p \<mapsto> (v, dst - v))" "tree_blocks ?ctx1 = tree_blocks ctx"
    "ranges ?ctx1 = insert (v, dst - v) (ranges ctx - {(v, s)})" "obj ?ctx1 = obj ctx"
    using set_block_ok [OF assms(1-3), of "dst - v" "\<lambda>b. b\<lparr>bsize := dst - v\<rparr>"] sz assms(5)
    by (auto simp: set_block_def set_cn_def)
  let ?ctx2 = "?ctx1\<lparr>obj := set_sym_size en (obj ?ctx1) v (dst - v)\<rparr>"
  have c2: "blk_inv ?ctx2" "ranges ?ctx2 = ranges ?ctx1" "tree_blocks ?ctx2 = tree_blocks ctx" "blk ?ctx2 = blk ?ctx1"
    using c1 by (simp_all add: blk_inv_obj) (simp add: tree_blocks_def)
  note room = split_room [OF assms(1-5), folded c1(4), folded c2(2)]
  have cap: "capacity ?ctx2" using assms(7) by (simp add: capacity_def set_block_def set_cn_def)
  obtain q ctx3 ctx4 where c4: "mjr_create_block_container en 0 dst ?n (if ?n \<noteq> 0 then 1 else 0) ?ctx2 = Inr (q, ctx3)"
    "ctx4 = ctx3\<lparr>blkhash := snd (hash_add (blkhash ctx3) (vaddr2str dst) q)\<rparr>" "blk_inv ctx4"
    "tree_blocks ctx4 = insert q (tree_blocks ?ctx2)" "blk ctx4 = (blk ?ctx2)(q \<mapsto> (dst, ?n))"
    "ranges ctx4 = insert (dst, ?n) (ranges ?ctx2)" "obj ctx4 = obj ?ctx2" "q \<notin> tree_blocks ?ctx2"
    by (rule insert_block_ok [OF c2(1) room(3,1,2) assms(6) cap])
  have q4: "q \<in> tree_blocks ctx4" "p \<in> tree_blocks ctx4" "blk ctx4 q = Some (dst, ?n)"
    using c4 c2 assms(2) by simp_all
  obtain n where sym: "mjr_block_symbol en q ctx4 = Inr (n, ctx4\<lparr>obj := sym_added en (obj ctx4) dst ?n\<rparr>)"
    by (rule block_symbol_ok [OF c4(3) q4(1,3)])
  let ?ctx5 = "ctx4\<lparr>obj := sym_added en (obj ctx4) dst ?n\<rparr>"
  have c5: "blk_inv ?ctx5" "ranges ?ctx5 = ranges ctx4" "tree_blocks ?ctx5 = tree_blocks ctx4" "blk ?ctx5 = blk ctx4"
    using c4(3) by (simp_all add: blk_inv_obj) (simp add: tree_blocks_def)
  have q5: "p \<in> tree_blocks ?ctx5" "q \<in> tree_blocks ?ctx5" using q4 c5(3) by simp_all
  obtain ctx8 where c8: "rbind (mjr_block_relink p q CONTAINER_LINK_OUT ?ctx5) (\<lambda>ctx6.
     rbind (get_cn ctx6 q) (\<lambda>cq. rbind (get_cn ctx6 p) (\<lambda>cp.
     rbind (mjr_container_add_link ctx6 p (cnid cq) MJR_LINK_BLOCK_COND_ALWAYS MJR_LINK_SCOPE_LOCAL
              CONTAINER_LINK_OUT) (\<lambda>(_, ctx7).
     rbind (mjr_container_add_link ctx7 q (cnid cp) MJR_LINK_BLOCK_COND_ALWAYS MJR_LINK_SCOPE_LOCAL
              CONTAINER_LINK_IN) (\<lambda>(_, ctx8). Inr (q, ctx8)))))) = Inr (q, ctx8)"
    "blk_inv ctx8" "same_graph ?ctx5 ctx8"
    by (rule link_halves [OF c5(1) q5])
  note g = same_graph_blk [OF c8(3)]
  show thesis
  proof (rule that)
    show "split_old en dst p b ctx = Inr (q, ctx8)"
      using c4(1,2) sym c8(1) sz(3,4) by (simp add: split_old_def b Let_def)
    show "ranges ctx8 = insert (v, dst - v) (insert (dst, ?n) (ranges ctx - {(v, s)}))"
      using g(3) c5(2) c4(6) c2(2) c1(4) by auto
    show "obj ctx8 = sym_added en (set_sym_size en (obj ctx) v (dst - v)) dst ?n"
      using c8(3) c4(7) c1(5) by (simp add: same_graph_def)
  qed (use g c5 q4 c8(2) in simp_all)
qed

text \<open>One request for a block, with what becomes of the object.\<close>

lemma block_split_ok:
  assumes "blk_inv ctx" "unat dst < 2 ^ 31" "type_name en ASPECT_TYPE_BLOC \<noteq> None" "capacity ctx"
    "\<forall>(v, s)\<in>ranges ctx. sym_by_value en (obj ctx) v"
  obtains q ctx' t where "mjr_block_split en dst ctx = Inr (q, ctx')" "blk_inv ctx'"
    "q \<in> tree_blocks ctx'" "blk ctx' q = Some (dst, t)"
    "(dst, t) \<in> ranges ctx \<and> ctx' = ctx \<or>
     (\<exists>v s. (v, s) \<in> ranges ctx \<and> v < dst \<and> unat dst < unat v + unat s \<and>
        ranges ctx' = insert (v, dst - v) (insert (dst, s - (dst - v)) (ranges ctx - {(v, s)})) \<and>
        obj ctx' = sym_added en (set_sym_size en (obj ctx) v (dst - v)) dst (s - (dst - v))) \<or>
     (\<forall>(v, s)\<in>ranges ctx. v \<noteq> dst \<and> \<not> (unat v \<le> unat dst \<and> unat dst < unat v + unat s)) \<and>
       ranges ctx' = insert (dst, 0) (ranges ctx) \<and> obj ctx' = sym_added en (obj ctx) dst 0"
proof -
  obtain p where p: "mjr_block_get_by_vaddr ctx dst MJR_BLOCK_GET_FUZZY = Inr p"
    "if p = NULL then \<forall>(v, s)\<in>ranges ctx. v \<noteq> dst \<and> \<not> (unat v \<le> unat dst \<and> unat dst < unat v + unat s)
     else p \<in> tree_blocks ctx \<and> (\<exists>v s. blk ctx p = Some (v, s) \<and>
       (v = dst \<or> unat v \<le> unat dst \<and> unat dst < unat v + unat s))"
    by (rule get_fuzzy_ok [OF assms(1)])
  show ?thesis
  proof (cases "p = NULL")
    case True
    then have none: "\<forall>(v, s)\<in>ranges ctx. v \<noteq> dst \<and> \<not> (unat v \<le> unat dst \<and> unat dst < unat v + unat s)"
      using p(2) by simp
    obtain q ctx' where "split_new en dst ctx = Inr (q, ctx')" "blk_inv ctx'" "q \<in> tree_blocks ctx'"
      "blk ctx' q = Some (dst, 0)" "ranges ctx' = insert (dst, 0) (ranges ctx)" "obj ctx' = sym_added en (obj ctx) dst 0"
      by (rule split_new_ok [OF assms(1-4) none])
    then show ?thesis using p(1) True none by (intro that [of q ctx' 0]) (simp_all add: mjr_block_split_def)
  next
    case False
    then obtain v s where vs: "p \<in> tree_blocks ctx" "blk ctx p = Some (v, s)"
      "v = dst \<or> unat v \<le> unat dst \<and> unat dst < unat v + unat s" using p(2) by auto
    obtain c b where c: "cheap ctx p = Some c" "cndata c = Bloc b" "bvaddr b = v" "bsize b = s"
      by (rule blkE [OF vs(2)])
    have rs: "(v, s) \<in> ranges ctx" using vs(1,2) by (auto simp: ranges_def)
    have sym: "sym_by_value en (obj ctx) v" using assms(5) rs by auto
    show ?thesis
    proof (cases "v = dst")
      case True
      then show ?thesis using p(1) False c sym vs(1,2) rs assms(1)
        by (intro that [of p ctx s]) (simp_all add: mjr_block_split_def get_cn_def)
    next
      case neq: False
      then have lt: "v < dst" "unat dst < unat v + unat s"
        using vs(3) by (auto simp: word_less_nat_alt word_unat_eq_iff)
      obtain q ctx' where "split_old en dst p b ctx = Inr (q, ctx')" "blk_inv ctx'" "q \<in> tree_blocks ctx'"
        "blk ctx' q = Some (dst, s - (dst - v))"
        "ranges ctx' = insert (v, dst - v) (insert (dst, s - (dst - v)) (ranges ctx - {(v, s)}))"
        "obj ctx' = sym_added en (set_sym_size en (obj ctx) v (dst - v)) dst (s - (dst - v))"
        by (rule split_old_ok [OF assms(1) vs(1,2) lt assms(3,4) c(1,2)])
      then show ?thesis
        using p(1) False neq c sym rs lt by (intro that [of q ctx' "s - (dst - v)"]) (simp_all add: mjr_block_split_def get_cn_def, blast)
    qed
  qed
qed

subsection \<open>Properties\<close>

text \<open>C21. Lookup by address: on a context whose blocks do not overlap and lie below
  \<open>2 ^ 31\<close>, the fuzzy lookup returns the block that starts at or contains the address when
  there is one and NULL otherwise; the strict lookup returns the block that starts there.\<close>

theorem block_get_by_vaddr_correct:
  assumes "blk_inv ctx"
  shows "\<exists>p. mjr_block_get_by_vaddr ctx a MJR_BLOCK_GET_FUZZY = Inr p \<and>
    (if \<exists>(v, s)\<in>ranges ctx. v = a \<or> unat v \<le> unat a \<and> unat a < unat v + unat s
     then p \<in> tree_blocks ctx \<and> (\<exists>v s. blk ctx p = Some (v, s) \<and>
       (v = a \<or> unat v \<le> unat a \<and> unat a < unat v + unat s))
     else p = NULL) \<and>
    (\<forall>q\<in>tree_blocks ctx. \<forall>s. blk ctx q = Some (a, s) \<longrightarrow>
       mjr_block_get_by_vaddr ctx a MJR_BLOCK_GET_STRICT = Inr q)"
proof -
  obtain p where p: "mjr_block_get_by_vaddr ctx a MJR_BLOCK_GET_FUZZY = Inr p"
    "if p = NULL then \<forall>(v, s)\<in>ranges ctx. v \<noteq> a \<and> \<not> (unat v \<le> unat a \<and> unat a < unat v + unat s)
     else p \<in> tree_blocks ctx \<and> (\<exists>v s. blk ctx p = Some (v, s) \<and>
       (v = a \<or> unat v \<le> unat a \<and> unat a < unat v + unat s))"
    by (rule get_fuzzy_ok [OF assms])
  have "mjr_block_get_by_vaddr ctx a MJR_BLOCK_GET_STRICT = Inr q"
    if "q \<in> tree_blocks ctx" "blk ctx q = Some (a, s)" for q s
  proof -
    have "block_ok ctx q" using assms that(1) by (auto simp: blk_inv_def)
    then show ?thesis
      using that(2) by (auto simp: block_ok_def mjr_block_get_by_vaddr_def hash_get_abs)
  qed
  moreover have "if \<exists>(v, s)\<in>ranges ctx. v = a \<or> unat v \<le> unat a \<and> unat a < unat v + unat s
     then p \<in> tree_blocks ctx \<and> (\<exists>v s. blk ctx p = Some (v, s) \<and>
       (v = a \<or> unat v \<le> unat a \<and> unat a < unat v + unat s))
     else p = NULL"
  proof (cases "p = NULL")
    case True
    then have "\<not> (\<exists>(v, s)\<in>ranges ctx. v = a \<or> unat v \<le> unat a \<and> unat a < unat v + unat s)"
      using p(2) by auto
    then show ?thesis using True by (simp only: if_False)
  next
    case False
    then have m: "p \<in> tree_blocks ctx" "\<exists>v s. blk ctx p = Some (v, s) \<and>
       (v = a \<or> unat v \<le> unat a \<and> unat a < unat v + unat s)" using p(2) by simp_all
    then have "\<exists>(v, s)\<in>ranges ctx. v = a \<or> unat v \<le> unat a \<and> unat a < unat v + unat s"
      unfolding ranges_def by blast
    then show ?thesis using m by (simp only: if_True)
  qed
  ultimately show ?thesis using p(1) by blast
qed

lemma demo_ctx_blocks:
  "blk_inv demo_ctx" "ranges demo_ctx = {(0x100, 0x20), (0x200, 0x10)}"
proof -
  have b: "blk demo_ctx = [1 \<mapsto> (0x100, 0x20), 2 \<mapsto> (0x200, 0x10)]"
    by (simp add: blk_def demo_ctx_sel demo_block_def fun_eq_iff)
  have t: "tree_blocks demo_ctx = {1, 2}" by (simp add: tree_blocks_def demo_ctx_sel)
  show r: "ranges demo_ctx = {(0x100, 0x20), (0x200, 0x10)}" by (auto simp: ranges_def t b)
  have h: "hash_inv (blkhash demo_ctx)" "hash_abs (blkhash demo_ctx) = [vaddr2str 0x100 \<mapsto> 1, vaddr2str 0x200 \<mapsto> 2]"
    by (simp_all add: demo_ctx_def hash_add_ok hash_fresh_inv hash_fresh_abs vaddr2str_def)
  have "registered demo_ctx p" if "p \<in> {1, 2}" for p
    using that by (auto simp: registered_def demo_ctx_sel demo_block_def)
  moreover have "tree_ordered demo_ctx (block_btree demo_ctx)"
    by (simp add: tree_ordered_eq demo_ctx_sel cn_vaddr_def) (simp add: demo_block_def)
  ultimately show "blk_inv demo_ctx"
    unfolding blk_inv_def t r
    by (auto simp: demo_ctx_inv h block_ok_def b no_overlap_def split: if_splits)
qed

theorem block_get_by_vaddr_correct_witness:
  "\<exists>p s. mjr_block_get_by_vaddr demo_ctx 0x11F MJR_BLOCK_GET_FUZZY = Inr p \<and> blk demo_ctx p = Some (0x100, s)"
proof -
  have b: "blk demo_ctx = [1 \<mapsto> (0x100, 0x20), 2 \<mapsto> (0x200, 0x10)]"
    by (simp add: blk_def demo_ctx_sel demo_block_def fun_eq_iff)
  show ?thesis
    using block_get_by_vaddr_correct [OF demo_ctx_blocks(1), of "0x11F"]
    by (auto simp: demo_ctx_blocks(2) b tree_blocks_def demo_ctx_sel split: if_splits)
qed

text \<open>C22. Splitting keeps the partition of the code: the request for a block at an address
  succeeds and returns a block that starts there. If one already starts there nothing
  changes; if the address is inside a block, that block is cut in two adjacent ones that
  cover the same addresses; otherwise an empty block is added. All other ranges stay, the
  blocks still do not overlap, and the table, the tree and the array still agree. The
  symbol table must know every block, as \<open>mjr_block_split\<close> asserts.\<close>

theorem block_split_correct:
  assumes "blk_inv ctx" "unat dst < 2 ^ 31" "type_name en ASPECT_TYPE_BLOC \<noteq> None" "capacity ctx"
    "\<forall>(v, s)\<in>ranges ctx. sym_by_value en (obj ctx) v"
  shows "\<exists>q ctx' t. mjr_block_split en dst ctx = Inr (q, ctx') \<and> blk_inv ctx' \<and>
    q \<in> tree_blocks ctx' \<and> blk ctx' q = Some (dst, t) \<and>
    ((dst, t) \<in> ranges ctx \<and> ctx' = ctx \<or>
     (\<exists>v s. (v, s) \<in> ranges ctx \<and> v < dst \<and> unat dst < unat v + unat s \<and>
        ranges ctx' = insert (v, dst - v) (insert (dst, s - (dst - v)) (ranges ctx - {(v, s)}))) \<or>
     (\<forall>(v, s)\<in>ranges ctx. v \<noteq> dst \<and> \<not> (unat v \<le> unat dst \<and> unat dst < unat v + unat s)) \<and>
       ranges ctx' = insert (dst, 0) (ranges ctx))"
proof -
  obtain q ctx' t where "mjr_block_split en dst ctx = Inr (q, ctx')" "blk_inv ctx'"
    "q \<in> tree_blocks ctx'" "blk ctx' q = Some (dst, t)"
    "(dst, t) \<in> ranges ctx \<and> ctx' = ctx \<or>
     (\<exists>v s. (v, s) \<in> ranges ctx \<and> v < dst \<and> unat dst < unat v + unat s \<and>
        ranges ctx' = insert (v, dst - v) (insert (dst, s - (dst - v)) (ranges ctx - {(v, s)})) \<and>
        obj ctx' = sym_added en (set_sym_size en (obj ctx) v (dst - v)) dst (s - (dst - v))) \<or>
     (\<forall>(v, s)\<in>ranges ctx. v \<noteq> dst \<and> \<not> (unat v \<le> unat dst \<and> unat dst < unat v + unat s)) \<and>
       ranges ctx' = insert (dst, 0) (ranges ctx) \<and> obj ctx' = sym_added en (obj ctx) dst 0"
    by (rule block_split_ok [OF assms])
  then show ?thesis by blast
qed

definition demo_env :: "unit env" where
  "demo_env = \<lparr>type_name = (\<lambda>_. Some ''bloc''), obj_id = (\<lambda>_. 1), sym_by_name = (\<lambda>_ _. True), symtab_size = (\<lambda>_. 0),
     insert_sym = (\<lambda>_ _ _ _ _. ()), sym_by_value = (\<lambda>_ _. True), set_sym_size = (\<lambda>_ _ _. ()),
     reverse_metasym = (\<lambda>_ _. (Some [], Some 0, ())), parent_section = (\<lambda>_ _. None),
     bloc_prefix = ''block_'', func_prefix = ''function_''\<rparr>"

theorem block_split_correct_witness:
  "\<exists>q ctx'. mjr_block_split demo_env 0x110 demo_ctx = Inr (q, ctx') \<and>
     ranges ctx' = {(0x100, 0x10), (0x110, 0x10), (0x200, 0x10)}"
proof -
  have cap: "capacity demo_ctx" by (simp add: capacity_def demo_ctx_sel)
  have u: "unat (0x110 :: eresi_Addr) < 2 ^ 31" by simp
  have ty: "type_name demo_env ASPECT_TYPE_BLOC \<noteq> None" by (simp add: demo_env_def)
  have sy: "\<forall>(v, s)\<in>ranges demo_ctx. sym_by_value demo_env (obj demo_ctx) v" by (simp add: demo_env_def)
  obtain q ctx' t where q: "mjr_block_split demo_env 0x110 demo_ctx = Inr (q, ctx')"
    and alt: "(0x110, t) \<in> ranges demo_ctx \<and> ctx' = demo_ctx \<or>
     (\<exists>v s. (v, s) \<in> ranges demo_ctx \<and> v < 0x110 \<and> unat (0x110 :: eresi_Addr) < unat v + unat s \<and>
        ranges ctx' = insert (v, 0x110 - v) (insert (0x110, s - (0x110 - v)) (ranges demo_ctx - {(v, s)}))) \<or>
     (\<forall>(v, s)\<in>ranges demo_ctx. v \<noteq> 0x110 \<and>
        \<not> (unat v \<le> unat (0x110 :: eresi_Addr) \<and> unat (0x110 :: eresi_Addr) < unat v + unat s)) \<and>
       ranges ctx' = insert (0x110, 0) (ranges demo_ctx)"
    using block_split_correct [OF demo_ctx_blocks(1) u ty cap sy] by blast
  have "(\<exists>v s. (v, s) \<in> ranges demo_ctx \<and> v < 0x110 \<and> unat (0x110 :: eresi_Addr) < unat v + unat s \<and>
        ranges ctx' = insert (v, 0x110 - v) (insert (0x110, s - (0x110 - v)) (ranges demo_ctx - {(v, s)})))"
    using alt by (elim disjE) (simp_all add: demo_ctx_blocks(2))
  then obtain v s where vs: "(v, s) \<in> {(0x100, 0x20), (0x200, 0x10)}" "v < 0x110"
    "ranges ctx' = insert (v, 0x110 - v) (insert (0x110, s - (0x110 - v)) ({(0x100, 0x20), (0x200, 0x10)} - {(v, s)}))"
    unfolding demo_ctx_blocks(2) by blast
  then have "v = 0x100" "s = 0x20" by (auto simp: word_less_nat_alt)
  then have "ranges ctx' = {(0x100, 0x10), (0x110, 0x10), (0x200, 0x10)}" using vs(3) by simp
  then show ?thesis using q by blast
qed

text \<open>The tree is searched as unsigned numbers but built by a signed difference.\<close>

lemma sint_neg: "2 ^ 31 \<le> unat (x :: u_int) \<Longrightarrow> sint x < 0"
proof -
  assume "2 ^ 31 \<le> unat x"
  then have "int (2 ^ 31) \<le> int (unat x)" by (simp only: of_nat_le_iff)
  then have "2147483648 \<le> uint x" by simp
  then obtain k where "uint x = k + 2147483648" "0 \<le> k" by (metis add.commute zle_iff_zadd of_nat_0_le_iff)
  then show ?thesis using uint_bounded [of x] by (simp add: sint_uint signed_take_bit_eq_take_bit_shift take_bit_eq_mod)
qed

lemma match_block_far:
  assumes "unat (cn_vaddr ctx p) + 2 ^ 31 \<le> unat (cn_vaddr ctx q)"
  shows "match_block ctx p q < 0"
proof -
  have "cn_vaddr ctx p \<le> cn_vaddr ctx q" using assms by (simp add: word_le_nat_alt)
  then have "unat (cn_vaddr ctx q - cn_vaddr ctx p) = unat (cn_vaddr ctx q) - unat (cn_vaddr ctx p)" by (rule unat_sub)
  then show ?thesis using assms unfolding match_block_def by (intro sint_neg) simp
qed

lemma insert_sort_new:
  "(\<And>x. x \<in> set (inorder t) \<Longrightarrow> cmp x q \<noteq> 0) \<Longrightarrow> set (inorder (btree_insert_sort t cmp q)) = insert q (set (inorder t))"
  by (induction t) (auto simp: Let_def)

lemma create_block_sel:
  assumes "cn_inv ctx" "type_name en ASPECT_TYPE_BLOC \<noteq> None" "capacity ctx"
  obtains c ctx1 where "mjr_create_block_container en so v s seen ctx = Inr (brk ctx, ctx1)"
    "cheap ctx1 = (cheap ctx)(brk ctx \<mapsto> c)" "cndata c = Bloc \<lparr>bvaddr = v, bsize = s, bsymoff = so, bseen = seen\<rparr>"
    "block_btree ctx1 = btree_insert_sort (block_btree ctx) (match_block ctx1) (brk ctx)" "blkhash ctx1 = blkhash ctx"
    "brk ctx \<noteq> NULL" "cheap ctx (brk ctx) = None"
proof -
  let ?b = "\<lparr>bvaddr = v, bsize = s, bsymoff = so, bseen = seen\<rparr>"
  obtain c ctxa where a: "container_create en ASPECT_TYPE_BLOC (Bloc ?b) (obj_id en (obj ctx)) ctx = Inr (brk ctx, ctxa)"
    "cheap ctxa = (cheap ctx)(brk ctx \<mapsto> c)" "cndata c = Bloc ?b" "cn_inv ctxa" "same_but_heap ctx ctxa"
    by (rule container_create_ok [OF assms(1,2), of "Bloc ?b" "obj_id en (obj ctx)"])
  have q: "cheap ctxa (brk ctx) = Some c" "brk ctx \<noteq> NULL" "cheap ctx (brk ctx) = None"
    using a(2) assms(1) cn_invD(5) [OF assms(1)] by (auto simp: cn_inv_def)
  have cap: "capacity ctxa" using assms(3) a(5) by (simp add: capacity_def same_but_heap_def)
  obtain ctxb where b: "mjr_register_container ctxa (brk ctx) = (next_id ctxa, ctxb)"
    "cheap ctxb = (cheap ctxa)(brk ctx \<mapsto> c\<lparr>cnid := next_id ctxa\<rparr>)" "block_btree ctxb = block_btree ctxa" "blkhash ctxb = blkhash ctxa"
    by (rule register_ok [OF a(4) q(1) cap])
  let ?t = "btree_insert_sort (block_btree ctxb) (match_block ctxb) (brk ctx)"
  have "mjr_create_block_container en so v s seen ctx = Inr (brk ctx, ctxb\<lparr>block_btree := ?t\<rparr>)"
    using a(1) b(1) by (simp add: mjr_create_block_container_def Let_def)
  moreover have "match_block (ctxb\<lparr>block_btree := ?t\<rparr>) = match_block ctxb" by (simp add: match_block_def cn_vaddr_def fun_eq_iff)
  ultimately show ?thesis using that q a(2,3,5) b(2-4) by (simp add: same_but_heap_def)
qed

text \<open>No block of a context that satisfies the invariant reaches above \<open>2 ^ 31\<close>.\<close>

lemma blk_low: "blk_inv ctx \<Longrightarrow> p \<in> tree_blocks ctx \<Longrightarrow> blk ctx p = Some (v, s) \<Longrightarrow> unat v + unat s < 2 ^ 31"
  by (auto simp: blk_inv_def block_ok_def)

lemma blkhash_above:
  assumes "blk_inv ctx" "2 ^ 31 \<le> unat v"
  shows "hash_abs (blkhash ctx) (vaddr2str v) = None"
proof (rule ccontr)
  assume "hash_abs (blkhash ctx) (vaddr2str v) \<noteq> None"
  then obtain p where "hash_abs (blkhash ctx) (vaddr2str v) = Some p" by blast
  then have "p \<in> tree_blocks ctx" "\<exists>w u. blk ctx p = Some (w, u) \<and> vaddr2str v = vaddr2str w"
    using assms(1) unfolding blk_inv_def by blast+
  then show False using blk_low [OF assms(1), of p v] assms(2) by auto
qed

lemma descent_above:
  assumes "blk_inv ctx" "2 ^ 31 \<le> unat v" "set (inorder r) \<subseteq> tree_blocks ctx" "tree_ordered ctx r"
  shows "block_descent ctx v r = Inr NULL"
proof -
  note low = blk_low [OF assms(1)]
  have "\<exists>p. block_descent ctx v r = Inr p \<and>
      (if p = NULL then \<forall>x\<in>set (inorder r). \<not> holds ctx v x else p \<in> set (inorder r) \<and> holds ctx v p)"
  proof (rule block_descent_ok [where R = "ranges ctx"])
    show "\<forall>(w, u)\<in>ranges ctx. w \<noteq> v" using low assms(2) by (fastforce simp: ranges_def)
    show "\<forall>p\<in>set (inorder r). the (blk ctx p) \<in> ranges ctx" using assms(3) blk_ex [OF assms(1)] by (force simp: ranges_def)
  qed (use assms blk_inv_nonnull [OF assms(1)] in \<open>auto simp: blk_inv_def\<close>)
  moreover have "\<not> holds ctx v x" if "x \<in> tree_blocks ctx" for x using low [OF that] assms(2) by (fastforce simp: holds_def)
  ultimately show ?thesis using assms(3) by (metis subsetD)
qed

text \<open>C23. A block far above the root of the tree cannot be found: the order of the tree is the sign of
  the 32-bit difference, the descent compares unsigned. In any context whose blocks lie below
  \<open>2 ^ 31\<close>, a block created \<open>2 ^ 31\<close> bytes or more above the block at the root goes into the left
  subtree. The lookup of its first address still succeeds, through the table of the blocks, but
  the lookup of any later address inside it goes right and returns NULL, so that a request for a
  block there creates one that overlaps it instead of splitting it.\<close>

theorem block_lookup_misses_high:
  assumes "blk_inv ctx" "block_btree ctx = BNode i e l r" "blk ctx e = Some (a, t)" "unat a + 2 ^ 31 \<le> unat b"
    "unat b + unat s < 2 ^ 32" "b < v" "v < b + s" "type_name en ASPECT_TYPE_BLOC \<noteq> None" "capacity ctx"
  shows "\<exists>q ctx1 ctx2 l'. mjr_create_block_container en so b s seen ctx = Inr (q, ctx1) \<and>
    ctx2 = ctx1\<lparr>blkhash := snd (hash_add (blkhash ctx1) (vaddr2str b) q)\<rparr> \<and> blk ctx2 q = Some (b, s) \<and>
    block_btree ctx2 = BNode i e l' r \<and> q \<in> set (inorder l') \<and>
    mjr_block_get_by_vaddr ctx2 b MJR_BLOCK_GET_FUZZY = Inr q \<and>
    mjr_block_get_by_vaddr ctx2 v MJR_BLOCK_GET_FUZZY = Inr NULL \<and>
    mjr_block_split en v ctx2 = split_new en v ctx2"
proof -
  let ?q = "brk ctx"
  have cn: "cn_inv ctx" and ord: "tree_ordered ctx (block_btree ctx)" and hi: "hash_inv (blkhash ctx)"
    using assms(1) by (simp_all add: blk_inv_def)
  obtain c ctx1 where c: "mjr_create_block_container en so b s seen ctx = Inr (?q, ctx1)"
    "cheap ctx1 = (cheap ctx)(?q \<mapsto> c)" "cndata c = Bloc \<lparr>bvaddr = b, bsize = s, bsymoff = so, bseen = seen\<rparr>"
    "block_btree ctx1 = btree_insert_sort (block_btree ctx) (match_block ctx1) ?q" "blkhash ctx1 = blkhash ctx"
    "?q \<noteq> NULL" "cheap ctx ?q = None"
    by (rule create_block_sel [OF cn assms(8,9)])
  let ?ctx2 = "ctx1\<lparr>blkhash := snd (hash_add (blkhash ctx1) (vaddr2str b) ?q)\<rparr>"
  have nq: "?q \<notin> tree_blocks ctx" using assms(1) c(7) by (auto simp: blk_inv_def block_ok_def registered_def)
  note low = blk_low [OF assms(1)]
  have blk2: "blk ?ctx2 = (blk ctx)(?q \<mapsto> (b, s))" using c(3) by (simp add: blk_def c(2) fun_eq_iff)
  have cv: "cn_vaddr ctx1 p = (if p = ?q then b else cn_vaddr ctx p)" for p using c(3) by (simp add: cn_vaddr_def c(2))
  have e: "e \<in> tree_blocks ctx" "e \<noteq> ?q" using assms(2) nq by (auto simp: tree_blocks_def)
  have "match_block ctx1 e ?q < 0" using assms(4) e(2) blk_cn_vaddr [OF assms(3)] by (intro match_block_far) (simp add: cv)
  then have bt: "block_btree ctx1 = BNode i e (btree_insert_sort l (match_block ctx1) ?q) r" using c(4) assms(2) by (simp add: Let_def)
  have "match_block ctx1 x ?q \<noteq> 0" if "x \<in> set (inorder l)" for x
  proof -
    have x: "x \<in> tree_blocks ctx" using that assms(2) by (simp add: tree_blocks_def)
    then obtain w u where "blk ctx x = Some (w, u)" using blk_ex [OF assms(1)] by fast
    then have "unat (cn_vaddr ctx1 x) < 2 ^ 31" using low [OF x] nq x blk_cn_vaddr [of ctx x w u] by (auto simp: cv)
    then have "cn_vaddr ctx1 x \<noteq> b" using assms(4) by auto
    then show ?thesis by (auto simp: match_block_def cv signed_eq_0_iff split: if_splits)
  qed
  then have left: "?q \<in> set (inorder (btree_insert_sort l (match_block ctx1) ?q))" by (simp add: insert_sort_new)
  have hash: "hash_abs (blkhash ?ctx2) = (hash_abs (blkhash ctx))(vaddr2str b \<mapsto> ?q)"
    using hash_add_ok(2) [OF hi c(6), of "vaddr2str b"] c(5) by simp
  have first: "mjr_block_get_by_vaddr ?ctx2 b MJR_BLOCK_GET_FUZZY = Inr ?q"
    using hash c(6) by (simp add: mjr_block_get_by_vaddr_def hash_get_abs)
  have vb: "unat b < unat v" "v \<noteq> b" using assms(6) by (auto simp: word_less_nat_alt)
  have high: "2 ^ 31 \<le> unat v" using vb(1) assms(4) by simp
  obtain cc bb where cc: "cheap ctx e = Some cc" "cndata cc = Bloc bb" "bvaddr bb = a" "bsize bb = t" by (rule blkE [OF assms(3)])
  have "\<not> (a \<le> v \<and> v < a + t)" using in_range [of a t v] low [OF e(1) assms(3)] vb(1) assms(4) by simp
  moreover have "a < v" using vb(1) assms(4) by (simp add: word_less_nat_alt)
  ultimately have step: "block_descent ?ctx2 v (block_btree ?ctx2) = block_descent ?ctx2 v r"
    using cc e(2) by (auto simp: bt get_cn_def c(2))
  have same: "block_descent ?ctx2 v u = block_descent ctx v u" if "set (inorder u) \<subseteq> tree_blocks ctx" for u
    using that nq by (induction u) (auto simp: get_cn_def c(2) split: option.splits cdata.splits)
  have sub: "set (inorder r) \<subseteq> tree_blocks ctx" using assms(2) by (auto simp: tree_blocks_def)
  have "tree_ordered ctx r" using ord assms(2) by (simp add: tree_ordered_BNode)
  then have "block_descent ctx v r = Inr NULL" by (rule descent_above [OF assms(1) high sub])
  then have miss: "mjr_block_get_by_vaddr ?ctx2 v MJR_BLOCK_GET_FUZZY = Inr NULL"
    using hash blkhash_above [OF assms(1) high] vb(2) step same [OF sub] by (simp add: mjr_block_get_by_vaddr_def hash_get_abs)
  then have "mjr_block_split en v ?ctx2 = split_new en v ?ctx2" by (simp add: mjr_block_split_def)
  moreover have "block_btree ?ctx2 = BNode i e (btree_insert_sort l (match_block ctx1) ?q) r" using bt by simp
  ultimately show ?thesis using c(1) blk2 left first miss by (intro exI [of _ ?q] exI [of _ ctx1] exI [of _ ?ctx2]) auto
qed

theorem block_lookup_misses_high_witness:
  "\<exists>q ctx1 ctx2 l' i r. mjr_create_block_container demo_env 0 0xC0000000 0x10 0 demo_ctx = Inr (q, ctx1) \<and>
    ctx2 = ctx1\<lparr>blkhash := snd (hash_add (blkhash ctx1) (vaddr2str 0xC0000000) q)\<rparr> \<and>
    block_btree ctx2 = BNode i 1 l' r \<and> q \<in> set (inorder l') \<and>
    mjr_block_get_by_vaddr ctx2 0xC0000004 MJR_BLOCK_GET_FUZZY = Inr NULL"
proof -
  have b: "blk demo_ctx 1 = Some (0x100, 0x20)" by (simp add: blk_def demo_ctx_sel demo_block_def)
  have ty: "type_name demo_env ASPECT_TYPE_BLOC \<noteq> None" by (simp add: demo_env_def)
  have cap: "capacity demo_ctx" by (simp add: capacity_def demo_ctx_sel)
  show ?thesis
    using block_lookup_misses_high [OF demo_ctx_blocks(1) demo_ctx_sel(8) b, where b = "0xC0000000" and s = "0x10" and v = "0xC0000004" and en = demo_env and so = 0 and seen = 0] ty cap by auto
qed

end
