(* ===== verification/Mips_Const.thy ===== *)
theory Mips_Const
  imports Asm
begin

text \<open>
  The enumerations of \<open>libasm-mips.h\<close>: the values of the opcode fields, the identifiers of
  the instructions and of the registers, and the operand types. The enumerators are listed in
  the order of the header; an enumerator without a value follows its predecessor.
\<close>

named_theorems mips_const \<open>values of the enumerators\<close>


text \<open>\<open>enum opcode_field_encoding\<close>.\<close>

definition MIPS_OPCODE_SPECIAL :: nat where [mips_const]: "MIPS_OPCODE_SPECIAL = 0"
definition MIPS_OPCODE_REGIMM :: nat where [mips_const]: "MIPS_OPCODE_REGIMM = 1"
definition MIPS_OPCODE_J :: nat where [mips_const]: "MIPS_OPCODE_J = 2"
definition MIPS_OPCODE_JAL :: nat where [mips_const]: "MIPS_OPCODE_JAL = 3"
definition MIPS_OPCODE_BEQ :: nat where [mips_const]: "MIPS_OPCODE_BEQ = 4"
definition MIPS_OPCODE_BNE :: nat where [mips_const]: "MIPS_OPCODE_BNE = 5"
definition MIPS_OPCODE_BLEZ :: nat where [mips_const]: "MIPS_OPCODE_BLEZ = 6"
definition MIPS_OPCODE_BGTZ :: nat where [mips_const]: "MIPS_OPCODE_BGTZ = 7"
definition MIPS_OPCODE_ADDI :: nat where [mips_const]: "MIPS_OPCODE_ADDI = 8"
definition MIPS_OPCODE_ADDIU :: nat where [mips_const]: "MIPS_OPCODE_ADDIU = 9"
definition MIPS_OPCODE_SLTI :: nat where [mips_const]: "MIPS_OPCODE_SLTI = 10"
definition MIPS_OPCODE_SLTIU :: nat where [mips_const]: "MIPS_OPCODE_SLTIU = 11"
definition MIPS_OPCODE_ANDI :: nat where [mips_const]: "MIPS_OPCODE_ANDI = 12"
definition MIPS_OPCODE_ORI :: nat where [mips_const]: "MIPS_OPCODE_ORI = 13"
definition MIPS_OPCODE_XORI :: nat where [mips_const]: "MIPS_OPCODE_XORI = 14"
definition MIPS_OPCODE_LUI :: nat where [mips_const]: "MIPS_OPCODE_LUI = 15"
definition MIPS_OPCODE_COP0 :: nat where [mips_const]: "MIPS_OPCODE_COP0 = 16"
definition MIPS_OPCODE_COP1 :: nat where [mips_const]: "MIPS_OPCODE_COP1 = 17"
definition MIPS_OPCODE_COP2 :: nat where [mips_const]: "MIPS_OPCODE_COP2 = 18"
definition MIPS_OPCODE_COP1X :: nat where [mips_const]: "MIPS_OPCODE_COP1X = 19"
definition MIPS_OPCODE_BEQL :: nat where [mips_const]: "MIPS_OPCODE_BEQL = 20"
definition MIPS_OPCODE_BNEL :: nat where [mips_const]: "MIPS_OPCODE_BNEL = 21"
definition MIPS_OPCODE_BLEZL :: nat where [mips_const]: "MIPS_OPCODE_BLEZL = 22"
definition MIPS_OPCODE_BGTZL :: nat where [mips_const]: "MIPS_OPCODE_BGTZL = 23"
definition MIPS_OPCODE_SPECIAL2 :: nat where [mips_const]: "MIPS_OPCODE_SPECIAL2 = 28"
definition MIPS_OPCODE_SPECIAL3 :: nat where [mips_const]: "MIPS_OPCODE_SPECIAL3 = 31"
definition MIPS_OPCODE_LB :: nat where [mips_const]: "MIPS_OPCODE_LB = 32"
definition MIPS_OPCODE_LH :: nat where [mips_const]: "MIPS_OPCODE_LH = 33"
definition MIPS_OPCODE_LWL :: nat where [mips_const]: "MIPS_OPCODE_LWL = 34"
definition MIPS_OPCODE_LW :: nat where [mips_const]: "MIPS_OPCODE_LW = 35"
definition MIPS_OPCODE_LBU :: nat where [mips_const]: "MIPS_OPCODE_LBU = 36"
definition MIPS_OPCODE_LHU :: nat where [mips_const]: "MIPS_OPCODE_LHU = 37"
definition MIPS_OPCODE_LWR :: nat where [mips_const]: "MIPS_OPCODE_LWR = 38"
definition MIPS_OPCODE_SB :: nat where [mips_const]: "MIPS_OPCODE_SB = 40"
definition MIPS_OPCODE_SH :: nat where [mips_const]: "MIPS_OPCODE_SH = 41"
definition MIPS_OPCODE_SWL :: nat where [mips_const]: "MIPS_OPCODE_SWL = 42"
definition MIPS_OPCODE_SW :: nat where [mips_const]: "MIPS_OPCODE_SW = 43"
definition MIPS_OPCODE_SWR :: nat where [mips_const]: "MIPS_OPCODE_SWR = 46"
definition MIPS_OPCODE_LL :: nat where [mips_const]: "MIPS_OPCODE_LL = 48"
definition MIPS_OPCODE_LWC1 :: nat where [mips_const]: "MIPS_OPCODE_LWC1 = 49"
definition MIPS_OPCODE_LWC2 :: nat where [mips_const]: "MIPS_OPCODE_LWC2 = 50"
definition MIPS_OPCODE_PREF :: nat where [mips_const]: "MIPS_OPCODE_PREF = 51"
definition MIPS_OPCODE_LDC1 :: nat where [mips_const]: "MIPS_OPCODE_LDC1 = 53"
definition MIPS_OPCODE_LDC2 :: nat where [mips_const]: "MIPS_OPCODE_LDC2 = 54"
definition MIPS_OPCODE_SC :: nat where [mips_const]: "MIPS_OPCODE_SC = 56"
definition MIPS_OPCODE_SWC1 :: nat where [mips_const]: "MIPS_OPCODE_SWC1 = 57"
definition MIPS_OPCODE_SWC2 :: nat where [mips_const]: "MIPS_OPCODE_SWC2 = 58"
definition MIPS_OPCODE_SDC1 :: nat where [mips_const]: "MIPS_OPCODE_SDC1 = 61"
definition MIPS_OPCODE_SDC2 :: nat where [mips_const]: "MIPS_OPCODE_SDC2 = 62"
definition MIPS_OPCODE_DADDI :: nat where [mips_const]: "MIPS_OPCODE_DADDI = 24"
definition MIPS_OPCODE_DADDIU :: nat where [mips_const]: "MIPS_OPCODE_DADDIU = 25"
definition MIPS_OPCODE_LDL :: nat where [mips_const]: "MIPS_OPCODE_LDL = 26"
definition MIPS_OPCODE_LDR :: nat where [mips_const]: "MIPS_OPCODE_LDR = 27"
definition MIPS_OPCODE_LLD :: nat where [mips_const]: "MIPS_OPCODE_LLD = 52"
definition MIPS_OPCODE_LD :: nat where [mips_const]: "MIPS_OPCODE_LD = 55"
definition MIPS_OPCODE_LWU :: nat where [mips_const]: "MIPS_OPCODE_LWU = 39"
definition MIPS_OPCODE_SCD :: nat where [mips_const]: "MIPS_OPCODE_SCD = 60"
definition MIPS_OPCODE_SD :: nat where [mips_const]: "MIPS_OPCODE_SD = 63"
definition MIPS_OPCODE_SDL :: nat where [mips_const]: "MIPS_OPCODE_SDL = 44"
definition MIPS_OPCODE_SDR :: nat where [mips_const]: "MIPS_OPCODE_SDR = 45"

text \<open>\<open>enum SPECIAL_function_field_encoding\<close>.\<close>

definition MIPS_OPCODE_SLL :: nat where [mips_const]: "MIPS_OPCODE_SLL = 0"
definition MIPS_OPCODE_MOVCI :: nat where [mips_const]: "MIPS_OPCODE_MOVCI = 1"
definition MIPS_OPCODE_SRL :: nat where [mips_const]: "MIPS_OPCODE_SRL = 2"
definition MIPS_OPCODE_SRA :: nat where [mips_const]: "MIPS_OPCODE_SRA = 3"
definition MIPS_OPCODE_SLLV :: nat where [mips_const]: "MIPS_OPCODE_SLLV = 4"
definition MIPS_OPCODE_SRLV :: nat where [mips_const]: "MIPS_OPCODE_SRLV = 6"
definition MIPS_OPCODE_SRAV :: nat where [mips_const]: "MIPS_OPCODE_SRAV = 7"
definition MIPS_OPCODE_JR :: nat where [mips_const]: "MIPS_OPCODE_JR = 8"
definition MIPS_OPCODE_JALR :: nat where [mips_const]: "MIPS_OPCODE_JALR = 9"
definition MIPS_OPCODE_MOVZ :: nat where [mips_const]: "MIPS_OPCODE_MOVZ = 10"
definition MIPS_OPCODE_MOVN :: nat where [mips_const]: "MIPS_OPCODE_MOVN = 11"
definition MIPS_OPCODE_SYSCALL :: nat where [mips_const]: "MIPS_OPCODE_SYSCALL = 12"
definition MIPS_OPCODE_BREAK :: nat where [mips_const]: "MIPS_OPCODE_BREAK = 13"
definition MIPS_OPCODE_SYNC :: nat where [mips_const]: "MIPS_OPCODE_SYNC = 15"
definition MIPS_OPCODE_MFHI :: nat where [mips_const]: "MIPS_OPCODE_MFHI = 16"
definition MIPS_OPCODE_MTHI :: nat where [mips_const]: "MIPS_OPCODE_MTHI = 17"
definition MIPS_OPCODE_MFLO :: nat where [mips_const]: "MIPS_OPCODE_MFLO = 18"
definition MIPS_OPCODE_MTLO :: nat where [mips_const]: "MIPS_OPCODE_MTLO = 19"
definition MIPS_OPCODE_MULT :: nat where [mips_const]: "MIPS_OPCODE_MULT = 24"
definition MIPS_OPCODE_MULTU :: nat where [mips_const]: "MIPS_OPCODE_MULTU = 25"
definition MIPS_OPCODE_DIV :: nat where [mips_const]: "MIPS_OPCODE_DIV = 26"
definition MIPS_OPCODE_DIVU :: nat where [mips_const]: "MIPS_OPCODE_DIVU = 27"
definition MIPS_OPCODE_ADD :: nat where [mips_const]: "MIPS_OPCODE_ADD = 32"
definition MIPS_OPCODE_ADDU :: nat where [mips_const]: "MIPS_OPCODE_ADDU = 33"
definition MIPS_OPCODE_SUB :: nat where [mips_const]: "MIPS_OPCODE_SUB = 34"
definition MIPS_OPCODE_SUBU :: nat where [mips_const]: "MIPS_OPCODE_SUBU = 35"
definition MIPS_OPCODE_AND :: nat where [mips_const]: "MIPS_OPCODE_AND = 36"
definition MIPS_OPCODE_OR :: nat where [mips_const]: "MIPS_OPCODE_OR = 37"
definition MIPS_OPCODE_XOR :: nat where [mips_const]: "MIPS_OPCODE_XOR = 38"
definition MIPS_OPCODE_NOR :: nat where [mips_const]: "MIPS_OPCODE_NOR = 39"
definition MIPS_OPCODE_SLT :: nat where [mips_const]: "MIPS_OPCODE_SLT = 42"
definition MIPS_OPCODE_SLTU :: nat where [mips_const]: "MIPS_OPCODE_SLTU = 43"
definition MIPS_OPCODE_TGE :: nat where [mips_const]: "MIPS_OPCODE_TGE = 48"
definition MIPS_OPCODE_TGEU :: nat where [mips_const]: "MIPS_OPCODE_TGEU = 49"
definition MIPS_OPCODE_TLT :: nat where [mips_const]: "MIPS_OPCODE_TLT = 50"
definition MIPS_OPCODE_TLTU :: nat where [mips_const]: "MIPS_OPCODE_TLTU = 51"
definition MIPS_OPCODE_TEQ :: nat where [mips_const]: "MIPS_OPCODE_TEQ = 52"
definition MIPS_OPCODE_TNE :: nat where [mips_const]: "MIPS_OPCODE_TNE = 54"
definition MIPS_OPCODE_DADD :: nat where [mips_const]: "MIPS_OPCODE_DADD = 44"
definition MIPS_OPCODE_DADDU :: nat where [mips_const]: "MIPS_OPCODE_DADDU = 45"
definition MIPS_OPCODE_DSUB :: nat where [mips_const]: "MIPS_OPCODE_DSUB = 46"
definition MIPS_OPCODE_DSUBU :: nat where [mips_const]: "MIPS_OPCODE_DSUBU = 47"
definition MIPS_OPCODE_DMULT :: nat where [mips_const]: "MIPS_OPCODE_DMULT = 28"
definition MIPS_OPCODE_DMULTU :: nat where [mips_const]: "MIPS_OPCODE_DMULTU = 29"
definition MIPS_OPCODE_DDIV :: nat where [mips_const]: "MIPS_OPCODE_DDIV = 30"
definition MIPS_OPCODE_DDIVU :: nat where [mips_const]: "MIPS_OPCODE_DDIVU = 31"
definition MIPS_OPCODE_DSLL :: nat where [mips_const]: "MIPS_OPCODE_DSLL = 56"
definition MIPS_OPCODE_DSLL32 :: nat where [mips_const]: "MIPS_OPCODE_DSLL32 = 60"
definition MIPS_OPCODE_DSLLV :: nat where [mips_const]: "MIPS_OPCODE_DSLLV = 20"
definition MIPS_OPCODE_DSRL :: nat where [mips_const]: "MIPS_OPCODE_DSRL = 58"
definition MIPS_OPCODE_DSRA :: nat where [mips_const]: "MIPS_OPCODE_DSRA = 59"
definition MIPS_OPCODE_DSRL32 :: nat where [mips_const]: "MIPS_OPCODE_DSRL32 = 62"
definition MIPS_OPCODE_DSRA32 :: nat where [mips_const]: "MIPS_OPCODE_DSRA32 = 63"
definition MIPS_OPCODE_DSRLV :: nat where [mips_const]: "MIPS_OPCODE_DSRLV = 22"
definition MIPS_OPCODE_DSRAV :: nat where [mips_const]: "MIPS_OPCODE_DSRAV = 23"

text \<open>\<open>enum REGIMM_rt_field_encoding\<close>.\<close>

definition MIPS_OPCODE_BLTZ :: nat where [mips_const]: "MIPS_OPCODE_BLTZ = 0"
definition MIPS_OPCODE_BGEZ :: nat where [mips_const]: "MIPS_OPCODE_BGEZ = 1"
definition MIPS_OPCODE_BLTZL :: nat where [mips_const]: "MIPS_OPCODE_BLTZL = 2"
definition MIPS_OPCODE_BGEZL :: nat where [mips_const]: "MIPS_OPCODE_BGEZL = 3"
definition MIPS_OPCODE_TGEI :: nat where [mips_const]: "MIPS_OPCODE_TGEI = 8"
definition MIPS_OPCODE_TGEIU :: nat where [mips_const]: "MIPS_OPCODE_TGEIU = 9"
definition MIPS_OPCODE_TLTI :: nat where [mips_const]: "MIPS_OPCODE_TLTI = 10"
definition MIPS_OPCODE_TLTIU :: nat where [mips_const]: "MIPS_OPCODE_TLTIU = 11"
definition MIPS_OPCODE_TEQI :: nat where [mips_const]: "MIPS_OPCODE_TEQI = 12"
definition MIPS_OPCODE_TNEI :: nat where [mips_const]: "MIPS_OPCODE_TNEI = 14"
definition MIPS_OPCODE_BLTZAL :: nat where [mips_const]: "MIPS_OPCODE_BLTZAL = 16"
definition MIPS_OPCODE_BGEZAL :: nat where [mips_const]: "MIPS_OPCODE_BGEZAL = 17"
definition MIPS_OPCODE_BLTZALL :: nat where [mips_const]: "MIPS_OPCODE_BLTZALL = 18"
definition MIPS_OPCODE_BGEZALL :: nat where [mips_const]: "MIPS_OPCODE_BGEZALL = 19"
definition MIPS_OPCODE_SYNCI :: nat where [mips_const]: "MIPS_OPCODE_SYNCI = 31"

text \<open>\<open>enum SPECIAL2_function_field_encoding\<close>.\<close>

definition MIPS_OPCODE_MADD :: nat where [mips_const]: "MIPS_OPCODE_MADD = 0"
definition MIPS_OPCODE_MADDU :: nat where [mips_const]: "MIPS_OPCODE_MADDU = 1"
definition MIPS_OPCODE_MUL :: nat where [mips_const]: "MIPS_OPCODE_MUL = 2"
definition MIPS_OPCODE_MSUB :: nat where [mips_const]: "MIPS_OPCODE_MSUB = 4"
definition MIPS_OPCODE_MSUBU :: nat where [mips_const]: "MIPS_OPCODE_MSUBU = 5"
definition MIPS_OPCODE_CLZ :: nat where [mips_const]: "MIPS_OPCODE_CLZ = 32"
definition MIPS_OPCODE_CLO :: nat where [mips_const]: "MIPS_OPCODE_CLO = 33"
definition MIPS_OPCODE_SDBBP :: nat where [mips_const]: "MIPS_OPCODE_SDBBP = 63"
definition MIPS_OPCODE_DCLZ :: nat where [mips_const]: "MIPS_OPCODE_DCLZ = 36"
definition MIPS_OPCODE_DCLO :: nat where [mips_const]: "MIPS_OPCODE_DCLO = 37"

text \<open>\<open>enum SPECIAL3_function_field_encoding\<close>.\<close>

definition MIPS_OPCODE_EXT :: nat where [mips_const]: "MIPS_OPCODE_EXT = 0"
definition MIPS_OPCODE_INS :: nat where [mips_const]: "MIPS_OPCODE_INS = 4"
definition MIPS_OPCODE_BSHFL :: nat where [mips_const]: "MIPS_OPCODE_BSHFL = 32"
definition MIPS_OPCODE_RDHWR :: nat where [mips_const]: "MIPS_OPCODE_RDHWR = 59"

text \<open>\<open>enum MOVCI_tf_field_encoding\<close>.\<close>

definition MIPS_OPCODE_MOVF :: nat where [mips_const]: "MIPS_OPCODE_MOVF = 0"
definition MIPS_OPCODE_MOVT :: nat where [mips_const]: "MIPS_OPCODE_MOVT = 1"

text \<open>\<open>enum SRL_shiftrotate_field_encoding\<close>.\<close>

definition MIPS_OPCODE_ROTR :: nat where [mips_const]: "MIPS_OPCODE_ROTR = 1"

text \<open>\<open>enum SRLV_shiftrotate_field_ecoding\<close>.\<close>

definition MIPS_OPCODE_ROTRV :: nat where [mips_const]: "MIPS_OPCODE_ROTRV = 1"

text \<open>\<open>enum BSHFL_sa_field_encoding\<close>.\<close>

definition MIPS_OPCODE_WSBH :: nat where [mips_const]: "MIPS_OPCODE_WSBH = 2"
definition MIPS_OPCODE_SEB :: nat where [mips_const]: "MIPS_OPCODE_SEB = 16"
definition MIPS_OPCODE_SEH :: nat where [mips_const]: "MIPS_OPCODE_SEH = 24"

text \<open>\<open>enum COP2_func\<close>.\<close>

definition MIPS_OPCODE_MFC2 :: nat where [mips_const]: "MIPS_OPCODE_MFC2 = 0"
definition MIPS_OPCODE_DMFC2 :: nat where [mips_const]: "MIPS_OPCODE_DMFC2 = 1"
definition MIPS_OPCODE_CFC2 :: nat where [mips_const]: "MIPS_OPCODE_CFC2 = 2"
definition MIPS_OPCODE_MTC2 :: nat where [mips_const]: "MIPS_OPCODE_MTC2 = 4"
definition MIPS_OPCODE_DMTC2 :: nat where [mips_const]: "MIPS_OPCODE_DMTC2 = 5"
definition MIPS_OPCODE_CTC2 :: nat where [mips_const]: "MIPS_OPCODE_CTC2 = 6"
definition MIPS_OPCODE_BCC2 :: nat where [mips_const]: "MIPS_OPCODE_BCC2 = 8"

text \<open>\<open>enum COP1X_func\<close>.\<close>

definition MIPS_OPCODE_LWXC1 :: nat where [mips_const]: "MIPS_OPCODE_LWXC1 = 0"
definition MIPS_OPCODE_LDXC1 :: nat where [mips_const]: "MIPS_OPCODE_LDXC1 = 1"
definition MIPS_OPCODE_LUXC1 :: nat where [mips_const]: "MIPS_OPCODE_LUXC1 = 5"
definition MIPS_OPCODE_SWXC1 :: nat where [mips_const]: "MIPS_OPCODE_SWXC1 = 8"
definition MIPS_OPCODE_SDXC1 :: nat where [mips_const]: "MIPS_OPCODE_SDXC1 = 9"
definition MIPS_OPCODE_SUXC1 :: nat where [mips_const]: "MIPS_OPCODE_SUXC1 = 13"
definition MIPS_OPCODE_PREFX :: nat where [mips_const]: "MIPS_OPCODE_PREFX = 15"
definition MIPS_OPCODE_ALNV_PS :: nat where [mips_const]: "MIPS_OPCODE_ALNV_PS = 30"
definition MIPS_OPCODE_MADD_S :: nat where [mips_const]: "MIPS_OPCODE_MADD_S = 32"
definition MIPS_OPCODE_MADD_D :: nat where [mips_const]: "MIPS_OPCODE_MADD_D = 33"
definition MIPS_OPCODE_MADD_PS :: nat where [mips_const]: "MIPS_OPCODE_MADD_PS = 38"
definition MIPS_OPCODE_MSUB_S :: nat where [mips_const]: "MIPS_OPCODE_MSUB_S = 40"
definition MIPS_OPCODE_MSUB_D :: nat where [mips_const]: "MIPS_OPCODE_MSUB_D = 41"
definition MIPS_OPCODE_MSUB_PS :: nat where [mips_const]: "MIPS_OPCODE_MSUB_PS = 46"
definition MIPS_OPCODE_NMADD_S :: nat where [mips_const]: "MIPS_OPCODE_NMADD_S = 48"
definition MIPS_OPCODE_NMADD_D :: nat where [mips_const]: "MIPS_OPCODE_NMADD_D = 49"
definition MIPS_OPCODE_NMADD_PS :: nat where [mips_const]: "MIPS_OPCODE_NMADD_PS = 54"
definition MIPS_OPCODE_NMSUB_S :: nat where [mips_const]: "MIPS_OPCODE_NMSUB_S = 56"
definition MIPS_OPCODE_NMSUB_D :: nat where [mips_const]: "MIPS_OPCODE_NMSUB_D = 57"
definition MIPS_OPCODE_NMSUB_PS :: nat where [mips_const]: "MIPS_OPCODE_NMSUB_PS = 62"

text \<open>\<open>enum COP0_func\<close>.\<close>

definition MIPS_OPCODE_MFC0 :: nat where [mips_const]: "MIPS_OPCODE_MFC0 = 0"
definition MIPS_OPCODE_DMFC0 :: nat where [mips_const]: "MIPS_OPCODE_DMFC0 = 1"
definition MIPS_OPCODE_TLBWI :: nat where [mips_const]: "MIPS_OPCODE_TLBWI = 2"
definition MIPS_OPCODE_MTC0 :: nat where [mips_const]: "MIPS_OPCODE_MTC0 = 4"
definition MIPS_OPCODE_DMTC0 :: nat where [mips_const]: "MIPS_OPCODE_DMTC0 = 5"
definition MIPS_OPCODE_TLBWR :: nat where [mips_const]: "MIPS_OPCODE_TLBWR = 6"
definition MIPS_OPCODE_ERET :: nat where [mips_const]: "MIPS_OPCODE_ERET = 24"
definition MIPS_OPCODE_TLBP :: nat where [mips_const]: "MIPS_OPCODE_TLBP = 8"
definition MIPS_OPCODE_TLBR :: nat where [mips_const]: "MIPS_OPCODE_TLBR = 1"
definition MIPS_OPCODE_DERET :: nat where [mips_const]: "MIPS_OPCODE_DERET = 31"
definition MIPS_OPCODE_WAIT :: nat where [mips_const]: "MIPS_OPCODE_WAIT = 32"

text \<open>\<open>enum COP1_func\<close>.\<close>

definition MIPS_OPCODE_F_ADD :: nat where [mips_const]: "MIPS_OPCODE_F_ADD = 0"
definition MIPS_OPCODE_F_SUB :: nat where [mips_const]: "MIPS_OPCODE_F_SUB = 1"
definition MIPS_OPCODE_F_MUL :: nat where [mips_const]: "MIPS_OPCODE_F_MUL = 2"
definition MIPS_OPCODE_F_DIV :: nat where [mips_const]: "MIPS_OPCODE_F_DIV = 3"
definition MIPS_OPCODE_F_SQRT :: nat where [mips_const]: "MIPS_OPCODE_F_SQRT = 4"
definition MIPS_OPCODE_ABS :: nat where [mips_const]: "MIPS_OPCODE_ABS = 5"
definition MIPS_OPCODE_F_MOV :: nat where [mips_const]: "MIPS_OPCODE_F_MOV = 6"
definition MIPS_OPCODE_F_NEG :: nat where [mips_const]: "MIPS_OPCODE_F_NEG = 7"
definition MIPS_OPCODE_F_ROUND_L :: nat where [mips_const]: "MIPS_OPCODE_F_ROUND_L = 8"
definition MIPS_OPCODE_F_TRUNC_L :: nat where [mips_const]: "MIPS_OPCODE_F_TRUNC_L = 9"
definition MIPS_OPCODE_F_ROUND_W :: nat where [mips_const]: "MIPS_OPCODE_F_ROUND_W = 12"
definition MIPS_OPCODE_F_TRUNC_W :: nat where [mips_const]: "MIPS_OPCODE_F_TRUNC_W = 13"
definition MIPS_OPCODE_F_CEIL_L :: nat where [mips_const]: "MIPS_OPCODE_F_CEIL_L = 10"
definition MIPS_OPCODE_F_FLOOR_L :: nat where [mips_const]: "MIPS_OPCODE_F_FLOOR_L = 11"
definition MIPS_OPCODE_F_CEIL_W :: nat where [mips_const]: "MIPS_OPCODE_F_CEIL_W = 14"
definition MIPS_OPCODE_F_FLOOR_W :: nat where [mips_const]: "MIPS_OPCODE_F_FLOOR_W = 15"
definition MIPS_OPCODE_F_RECIP :: nat where [mips_const]: "MIPS_OPCODE_F_RECIP = 21"
definition MIPS_OPCODE_F_RSQRT :: nat where [mips_const]: "MIPS_OPCODE_F_RSQRT = 22"
definition MIPS_OPCODE_F_MOVCF :: nat where [mips_const]: "MIPS_OPCODE_F_MOVCF = 17"
definition MIPS_OPCODE_F_MOVZ :: nat where [mips_const]: "MIPS_OPCODE_F_MOVZ = 18"
definition MIPS_OPCODE_F_MOVN :: nat where [mips_const]: "MIPS_OPCODE_F_MOVN = 19"
definition MIPS_OPCODE_F_CVT_S :: nat where [mips_const]: "MIPS_OPCODE_F_CVT_S = 32"
definition MIPS_OPCODE_F_CVT_D :: nat where [mips_const]: "MIPS_OPCODE_F_CVT_D = 33"
definition MIPS_OPCODE_F_CVT_W :: nat where [mips_const]: "MIPS_OPCODE_F_CVT_W = 36"
definition MIPS_OPCODE_F_CVT_L :: nat where [mips_const]: "MIPS_OPCODE_F_CVT_L = 37"
definition MIPS_OPCODE_F_CVT_PS_S :: nat where [mips_const]: "MIPS_OPCODE_F_CVT_PS_S = 38"
definition MIPS_OPCODE_F_CVT_S_PL :: nat where [mips_const]: "MIPS_OPCODE_F_CVT_S_PL = 40"
definition MIPS_OPCODE_F_MFC1 :: nat where [mips_const]: "MIPS_OPCODE_F_MFC1 = 0"
definition MIPS_OPCODE_F_CFC1 :: nat where [mips_const]: "MIPS_OPCODE_F_CFC1 = 2"
definition MIPS_OPCODE_F_MTC1 :: nat where [mips_const]: "MIPS_OPCODE_F_MTC1 = 4"
definition MIPS_OPCODE_F_CTC1 :: nat where [mips_const]: "MIPS_OPCODE_F_CTC1 = 6"

text \<open>\<open>enum COP1_fmt\<close>.\<close>

definition MIPS_OPCODE_FMT_S :: nat where [mips_const]: "MIPS_OPCODE_FMT_S = 16"
definition MIPS_OPCODE_FMT_D :: nat where [mips_const]: "MIPS_OPCODE_FMT_D = 17"
definition MIPS_OPCODE_FMT_W :: nat where [mips_const]: "MIPS_OPCODE_FMT_W = 20"
definition MIPS_OPCODE_FMT_L :: nat where [mips_const]: "MIPS_OPCODE_FMT_L = 21"
definition MIPS_OPCODE_FMT_PS :: nat where [mips_const]: "MIPS_OPCODE_FMT_PS = 22"

text \<open>\<open>enum COP1_cond\<close>.\<close>

definition MIPS_OPCODE_COND_F :: nat where [mips_const]: "MIPS_OPCODE_COND_F = 0"
definition MIPS_OPCODE_COND_UN :: nat where [mips_const]: "MIPS_OPCODE_COND_UN = 1"
definition MIPS_OPCODE_COND_EQ :: nat where [mips_const]: "MIPS_OPCODE_COND_EQ = 2"
definition MIPS_OPCODE_COND_UEQ :: nat where [mips_const]: "MIPS_OPCODE_COND_UEQ = 3"
definition MIPS_OPCODE_COND_OLT :: nat where [mips_const]: "MIPS_OPCODE_COND_OLT = 4"
definition MIPS_OPCODE_COND_ULT :: nat where [mips_const]: "MIPS_OPCODE_COND_ULT = 5"
definition MIPS_OPCODE_COND_OLE :: nat where [mips_const]: "MIPS_OPCODE_COND_OLE = 6"
definition MIPS_OPCODE_COND_ULE :: nat where [mips_const]: "MIPS_OPCODE_COND_ULE = 7"
definition MIPS_OPCODE_COND_SF :: nat where [mips_const]: "MIPS_OPCODE_COND_SF = 8"
definition MIPS_OPCODE_COND_NGLE :: nat where [mips_const]: "MIPS_OPCODE_COND_NGLE = 9"
definition MIPS_OPCODE_COND_SEQ :: nat where [mips_const]: "MIPS_OPCODE_COND_SEQ = 10"
definition MIPS_OPCODE_COND_NGL :: nat where [mips_const]: "MIPS_OPCODE_COND_NGL = 11"
definition MIPS_OPCODE_COND_LT :: nat where [mips_const]: "MIPS_OPCODE_COND_LT = 12"
definition MIPS_OPCODE_COND_NGE :: nat where [mips_const]: "MIPS_OPCODE_COND_NGE = 13"
definition MIPS_OPCODE_COND_LE :: nat where [mips_const]: "MIPS_OPCODE_COND_LE = 14"
definition MIPS_OPCODE_COND_NGT :: nat where [mips_const]: "MIPS_OPCODE_COND_NGT = 15"

text \<open>\<open>enum e_mips_instr_types\<close>.\<close>

definition ASM_MIPS_ADD :: nat where [mips_const]: "ASM_MIPS_ADD = 0"
definition ASM_MIPS_ADDI :: nat where [mips_const]: "ASM_MIPS_ADDI = 1"
definition ASM_MIPS_ADDIU :: nat where [mips_const]: "ASM_MIPS_ADDIU = 2"
definition ASM_MIPS_ADDU :: nat where [mips_const]: "ASM_MIPS_ADDU = 3"
definition ASM_MIPS_CLO :: nat where [mips_const]: "ASM_MIPS_CLO = 4"
definition ASM_MIPS_CLZ :: nat where [mips_const]: "ASM_MIPS_CLZ = 5"
definition ASM_MIPS_DADD :: nat where [mips_const]: "ASM_MIPS_DADD = 6"
definition ASM_MIPS_DADDI :: nat where [mips_const]: "ASM_MIPS_DADDI = 7"
definition ASM_MIPS_DADDIU :: nat where [mips_const]: "ASM_MIPS_DADDIU = 8"
definition ASM_MIPS_DADDU :: nat where [mips_const]: "ASM_MIPS_DADDU = 9"
definition ASM_MIPS_DCLO :: nat where [mips_const]: "ASM_MIPS_DCLO = 10"
definition ASM_MIPS_DCLZ :: nat where [mips_const]: "ASM_MIPS_DCLZ = 11"
definition ASM_MIPS_DDIV :: nat where [mips_const]: "ASM_MIPS_DDIV = 12"
definition ASM_MIPS_DDIVU :: nat where [mips_const]: "ASM_MIPS_DDIVU = 13"
definition ASM_MIPS_DIV :: nat where [mips_const]: "ASM_MIPS_DIV = 14"
definition ASM_MIPS_DIVU :: nat where [mips_const]: "ASM_MIPS_DIVU = 15"
definition ASM_MIPS_DMULT :: nat where [mips_const]: "ASM_MIPS_DMULT = 16"
definition ASM_MIPS_DMULTU :: nat where [mips_const]: "ASM_MIPS_DMULTU = 17"
definition ASM_MIPS_DSUB :: nat where [mips_const]: "ASM_MIPS_DSUB = 18"
definition ASM_MIPS_DSUBU :: nat where [mips_const]: "ASM_MIPS_DSUBU = 19"
definition ASM_MIPS_MADD :: nat where [mips_const]: "ASM_MIPS_MADD = 20"
definition ASM_MIPS_MADDU :: nat where [mips_const]: "ASM_MIPS_MADDU = 21"
definition ASM_MIPS_MSUB :: nat where [mips_const]: "ASM_MIPS_MSUB = 22"
definition ASM_MIPS_MSUBU :: nat where [mips_const]: "ASM_MIPS_MSUBU = 23"
definition ASM_MIPS_MUL :: nat where [mips_const]: "ASM_MIPS_MUL = 24"
definition ASM_MIPS_MULT :: nat where [mips_const]: "ASM_MIPS_MULT = 25"
definition ASM_MIPS_MULTU :: nat where [mips_const]: "ASM_MIPS_MULTU = 26"
definition ASM_MIPS_SLT :: nat where [mips_const]: "ASM_MIPS_SLT = 27"
definition ASM_MIPS_SLTI :: nat where [mips_const]: "ASM_MIPS_SLTI = 28"
definition ASM_MIPS_SLTIU :: nat where [mips_const]: "ASM_MIPS_SLTIU = 29"
definition ASM_MIPS_SLTU :: nat where [mips_const]: "ASM_MIPS_SLTU = 30"
definition ASM_MIPS_SUB :: nat where [mips_const]: "ASM_MIPS_SUB = 31"
definition ASM_MIPS_SUBU :: nat where [mips_const]: "ASM_MIPS_SUBU = 32"
definition ASM_MIPS_SEB :: nat where [mips_const]: "ASM_MIPS_SEB = 33"
definition ASM_MIPS_SEH :: nat where [mips_const]: "ASM_MIPS_SEH = 34"
definition ASM_MIPS_B :: nat where [mips_const]: "ASM_MIPS_B = 35"
definition ASM_MIPS_BAL :: nat where [mips_const]: "ASM_MIPS_BAL = 36"
definition ASM_MIPS_BEQ :: nat where [mips_const]: "ASM_MIPS_BEQ = 37"
definition ASM_MIPS_BGEZ :: nat where [mips_const]: "ASM_MIPS_BGEZ = 38"
definition ASM_MIPS_BGEZAL :: nat where [mips_const]: "ASM_MIPS_BGEZAL = 39"
definition ASM_MIPS_BGTZ :: nat where [mips_const]: "ASM_MIPS_BGTZ = 40"
definition ASM_MIPS_BLEZ :: nat where [mips_const]: "ASM_MIPS_BLEZ = 41"
definition ASM_MIPS_BLTZ :: nat where [mips_const]: "ASM_MIPS_BLTZ = 42"
definition ASM_MIPS_BLTZAL :: nat where [mips_const]: "ASM_MIPS_BLTZAL = 43"
definition ASM_MIPS_BNE :: nat where [mips_const]: "ASM_MIPS_BNE = 44"
definition ASM_MIPS_J :: nat where [mips_const]: "ASM_MIPS_J = 45"
definition ASM_MIPS_JAL :: nat where [mips_const]: "ASM_MIPS_JAL = 46"
definition ASM_MIPS_JALR :: nat where [mips_const]: "ASM_MIPS_JALR = 47"
definition ASM_MIPS_JR :: nat where [mips_const]: "ASM_MIPS_JR = 48"
definition ASM_MIPS_JALR_HB :: nat where [mips_const]: "ASM_MIPS_JALR_HB = 49"
definition ASM_MIPS_JR_HB :: nat where [mips_const]: "ASM_MIPS_JR_HB = 50"
definition ASM_MIPS_NOP :: nat where [mips_const]: "ASM_MIPS_NOP = 51"
definition ASM_MIPS_SSNOP :: nat where [mips_const]: "ASM_MIPS_SSNOP = 52"
definition ASM_MIPS_LB :: nat where [mips_const]: "ASM_MIPS_LB = 53"
definition ASM_MIPS_LBU :: nat where [mips_const]: "ASM_MIPS_LBU = 54"
definition ASM_MIPS_LD :: nat where [mips_const]: "ASM_MIPS_LD = 55"
definition ASM_MIPS_LDL :: nat where [mips_const]: "ASM_MIPS_LDL = 56"
definition ASM_MIPS_LDR :: nat where [mips_const]: "ASM_MIPS_LDR = 57"
definition ASM_MIPS_LH :: nat where [mips_const]: "ASM_MIPS_LH = 58"
definition ASM_MIPS_LHU :: nat where [mips_const]: "ASM_MIPS_LHU = 59"
definition ASM_MIPS_LL :: nat where [mips_const]: "ASM_MIPS_LL = 60"
definition ASM_MIPS_LLD :: nat where [mips_const]: "ASM_MIPS_LLD = 61"
definition ASM_MIPS_LW :: nat where [mips_const]: "ASM_MIPS_LW = 62"
definition ASM_MIPS_LWL :: nat where [mips_const]: "ASM_MIPS_LWL = 63"
definition ASM_MIPS_LWR :: nat where [mips_const]: "ASM_MIPS_LWR = 64"
definition ASM_MIPS_LWU :: nat where [mips_const]: "ASM_MIPS_LWU = 65"
definition ASM_MIPS_PREF :: nat where [mips_const]: "ASM_MIPS_PREF = 66"
definition ASM_MIPS_SB :: nat where [mips_const]: "ASM_MIPS_SB = 67"
definition ASM_MIPS_SC :: nat where [mips_const]: "ASM_MIPS_SC = 68"
definition ASM_MIPS_SCD :: nat where [mips_const]: "ASM_MIPS_SCD = 69"
definition ASM_MIPS_SD :: nat where [mips_const]: "ASM_MIPS_SD = 70"
definition ASM_MIPS_SDL :: nat where [mips_const]: "ASM_MIPS_SDL = 71"
definition ASM_MIPS_SDR :: nat where [mips_const]: "ASM_MIPS_SDR = 72"
definition ASM_MIPS_SH :: nat where [mips_const]: "ASM_MIPS_SH = 73"
definition ASM_MIPS_SW :: nat where [mips_const]: "ASM_MIPS_SW = 74"
definition ASM_MIPS_SWL :: nat where [mips_const]: "ASM_MIPS_SWL = 75"
definition ASM_MIPS_SWR :: nat where [mips_const]: "ASM_MIPS_SWR = 76"
definition ASM_MIPS_SYNC :: nat where [mips_const]: "ASM_MIPS_SYNC = 77"
definition ASM_MIPS_SYNCI :: nat where [mips_const]: "ASM_MIPS_SYNCI = 78"
definition ASM_MIPS_AND :: nat where [mips_const]: "ASM_MIPS_AND = 79"
definition ASM_MIPS_ANDI :: nat where [mips_const]: "ASM_MIPS_ANDI = 80"
definition ASM_MIPS_LUI :: nat where [mips_const]: "ASM_MIPS_LUI = 81"
definition ASM_MIPS_NOR :: nat where [mips_const]: "ASM_MIPS_NOR = 82"
definition ASM_MIPS_OR :: nat where [mips_const]: "ASM_MIPS_OR = 83"
definition ASM_MIPS_ORI :: nat where [mips_const]: "ASM_MIPS_ORI = 84"
definition ASM_MIPS_XOR :: nat where [mips_const]: "ASM_MIPS_XOR = 85"
definition ASM_MIPS_XORI :: nat where [mips_const]: "ASM_MIPS_XORI = 86"
definition ASM_MIPS_EXT :: nat where [mips_const]: "ASM_MIPS_EXT = 87"
definition ASM_MIPS_INS :: nat where [mips_const]: "ASM_MIPS_INS = 88"
definition ASM_MIPS_WSBH :: nat where [mips_const]: "ASM_MIPS_WSBH = 89"
definition ASM_MIPS_MFHI :: nat where [mips_const]: "ASM_MIPS_MFHI = 90"
definition ASM_MIPS_MFLO :: nat where [mips_const]: "ASM_MIPS_MFLO = 91"
definition ASM_MIPS_MOVF :: nat where [mips_const]: "ASM_MIPS_MOVF = 92"
definition ASM_MIPS_MOVN :: nat where [mips_const]: "ASM_MIPS_MOVN = 93"
definition ASM_MIPS_MOVT :: nat where [mips_const]: "ASM_MIPS_MOVT = 94"
definition ASM_MIPS_MOVZ :: nat where [mips_const]: "ASM_MIPS_MOVZ = 95"
definition ASM_MIPS_MTHI :: nat where [mips_const]: "ASM_MIPS_MTHI = 96"
definition ASM_MIPS_MTLO :: nat where [mips_const]: "ASM_MIPS_MTLO = 97"
definition ASM_MIPS_DSLL :: nat where [mips_const]: "ASM_MIPS_DSLL = 98"
definition ASM_MIPS_DSLL32 :: nat where [mips_const]: "ASM_MIPS_DSLL32 = 99"
definition ASM_MIPS_DSLLV :: nat where [mips_const]: "ASM_MIPS_DSLLV = 100"
definition ASM_MIPS_DSRA :: nat where [mips_const]: "ASM_MIPS_DSRA = 101"
definition ASM_MIPS_DSRA32 :: nat where [mips_const]: "ASM_MIPS_DSRA32 = 102"
definition ASM_MIPS_DSRAV :: nat where [mips_const]: "ASM_MIPS_DSRAV = 103"
definition ASM_MIPS_DSRL :: nat where [mips_const]: "ASM_MIPS_DSRL = 104"
definition ASM_MIPS_DSRL32 :: nat where [mips_const]: "ASM_MIPS_DSRL32 = 105"
definition ASM_MIPS_DSRLV :: nat where [mips_const]: "ASM_MIPS_DSRLV = 106"
definition ASM_MIPS_SLL :: nat where [mips_const]: "ASM_MIPS_SLL = 107"
definition ASM_MIPS_SLLV :: nat where [mips_const]: "ASM_MIPS_SLLV = 108"
definition ASM_MIPS_SRA :: nat where [mips_const]: "ASM_MIPS_SRA = 109"
definition ASM_MIPS_SRAV :: nat where [mips_const]: "ASM_MIPS_SRAV = 110"
definition ASM_MIPS_SRL :: nat where [mips_const]: "ASM_MIPS_SRL = 111"
definition ASM_MIPS_SRLV :: nat where [mips_const]: "ASM_MIPS_SRLV = 112"
definition ASM_MIPS_RDHWR :: nat where [mips_const]: "ASM_MIPS_RDHWR = 113"
definition ASM_MIPS_ROTR :: nat where [mips_const]: "ASM_MIPS_ROTR = 114"
definition ASM_MIPS_ROTRV :: nat where [mips_const]: "ASM_MIPS_ROTRV = 115"
definition ASM_MIPS_BREAK :: nat where [mips_const]: "ASM_MIPS_BREAK = 116"
definition ASM_MIPS_SYSCALL :: nat where [mips_const]: "ASM_MIPS_SYSCALL = 117"
definition ASM_MIPS_TEQ :: nat where [mips_const]: "ASM_MIPS_TEQ = 118"
definition ASM_MIPS_TEQI :: nat where [mips_const]: "ASM_MIPS_TEQI = 119"
definition ASM_MIPS_TGE :: nat where [mips_const]: "ASM_MIPS_TGE = 120"
definition ASM_MIPS_TGEI :: nat where [mips_const]: "ASM_MIPS_TGEI = 121"
definition ASM_MIPS_TGEIU :: nat where [mips_const]: "ASM_MIPS_TGEIU = 122"
definition ASM_MIPS_TGEU :: nat where [mips_const]: "ASM_MIPS_TGEU = 123"
definition ASM_MIPS_TLT :: nat where [mips_const]: "ASM_MIPS_TLT = 124"
definition ASM_MIPS_TLTI :: nat where [mips_const]: "ASM_MIPS_TLTI = 125"
definition ASM_MIPS_TLTIU :: nat where [mips_const]: "ASM_MIPS_TLTIU = 126"
definition ASM_MIPS_TLTU :: nat where [mips_const]: "ASM_MIPS_TLTU = 127"
definition ASM_MIPS_TNE :: nat where [mips_const]: "ASM_MIPS_TNE = 128"
definition ASM_MIPS_TNEI :: nat where [mips_const]: "ASM_MIPS_TNEI = 129"
definition ASM_MIPS_BEQL :: nat where [mips_const]: "ASM_MIPS_BEQL = 130"
definition ASM_MIPS_BGEZALL :: nat where [mips_const]: "ASM_MIPS_BGEZALL = 131"
definition ASM_MIPS_BGEZL :: nat where [mips_const]: "ASM_MIPS_BGEZL = 132"
definition ASM_MIPS_BGTZL :: nat where [mips_const]: "ASM_MIPS_BGTZL = 133"
definition ASM_MIPS_BLEZL :: nat where [mips_const]: "ASM_MIPS_BLEZL = 134"
definition ASM_MIPS_BLTZALL :: nat where [mips_const]: "ASM_MIPS_BLTZALL = 135"
definition ASM_MIPS_BLTZL :: nat where [mips_const]: "ASM_MIPS_BLTZL = 136"
definition ASM_MIPS_BNEL :: nat where [mips_const]: "ASM_MIPS_BNEL = 137"
definition ASM_MIPS_BC2F :: nat where [mips_const]: "ASM_MIPS_BC2F = 138"
definition ASM_MIPS_BC2T :: nat where [mips_const]: "ASM_MIPS_BC2T = 139"
definition ASM_MIPS_COP2 :: nat where [mips_const]: "ASM_MIPS_COP2 = 140"
definition ASM_MIPS_LDC2 :: nat where [mips_const]: "ASM_MIPS_LDC2 = 141"
definition ASM_MIPS_LWC2 :: nat where [mips_const]: "ASM_MIPS_LWC2 = 142"
definition ASM_MIPS_SDC2 :: nat where [mips_const]: "ASM_MIPS_SDC2 = 143"
definition ASM_MIPS_SWC2 :: nat where [mips_const]: "ASM_MIPS_SWC2 = 144"
definition ASM_MIPS_CFC2 :: nat where [mips_const]: "ASM_MIPS_CFC2 = 145"
definition ASM_MIPS_CTC2 :: nat where [mips_const]: "ASM_MIPS_CTC2 = 146"
definition ASM_MIPS_DMFC2 :: nat where [mips_const]: "ASM_MIPS_DMFC2 = 147"
definition ASM_MIPS_DMTC2 :: nat where [mips_const]: "ASM_MIPS_DMTC2 = 148"
definition ASM_MIPS_MFC2 :: nat where [mips_const]: "ASM_MIPS_MFC2 = 149"
definition ASM_MIPS_MTC2 :: nat where [mips_const]: "ASM_MIPS_MTC2 = 150"
definition ASM_MIPS_BC2FL :: nat where [mips_const]: "ASM_MIPS_BC2FL = 151"
definition ASM_MIPS_BC2TL :: nat where [mips_const]: "ASM_MIPS_BC2TL = 152"
definition ASM_MIPS_LWXC1 :: nat where [mips_const]: "ASM_MIPS_LWXC1 = 153"
definition ASM_MIPS_LDXC1 :: nat where [mips_const]: "ASM_MIPS_LDXC1 = 154"
definition ASM_MIPS_LUXC1 :: nat where [mips_const]: "ASM_MIPS_LUXC1 = 155"
definition ASM_MIPS_SWXC1 :: nat where [mips_const]: "ASM_MIPS_SWXC1 = 156"
definition ASM_MIPS_SDXC1 :: nat where [mips_const]: "ASM_MIPS_SDXC1 = 157"
definition ASM_MIPS_SUXC1 :: nat where [mips_const]: "ASM_MIPS_SUXC1 = 158"
definition ASM_MIPS_PREFX :: nat where [mips_const]: "ASM_MIPS_PREFX = 159"
definition ASM_MIPS_ALNV_PS :: nat where [mips_const]: "ASM_MIPS_ALNV_PS = 160"
definition ASM_MIPS_MADD_S :: nat where [mips_const]: "ASM_MIPS_MADD_S = 161"
definition ASM_MIPS_MADD_D :: nat where [mips_const]: "ASM_MIPS_MADD_D = 162"
definition ASM_MIPS_MADD_PS :: nat where [mips_const]: "ASM_MIPS_MADD_PS = 163"
definition ASM_MIPS_MSUB_S :: nat where [mips_const]: "ASM_MIPS_MSUB_S = 164"
definition ASM_MIPS_MSUB_D :: nat where [mips_const]: "ASM_MIPS_MSUB_D = 165"
definition ASM_MIPS_MSUB_PS :: nat where [mips_const]: "ASM_MIPS_MSUB_PS = 166"
definition ASM_MIPS_NMADD_S :: nat where [mips_const]: "ASM_MIPS_NMADD_S = 167"
definition ASM_MIPS_NMADD_D :: nat where [mips_const]: "ASM_MIPS_NMADD_D = 168"
definition ASM_MIPS_NMADD_PS :: nat where [mips_const]: "ASM_MIPS_NMADD_PS = 169"
definition ASM_MIPS_NMSUB_S :: nat where [mips_const]: "ASM_MIPS_NMSUB_S = 170"
definition ASM_MIPS_NMSUB_D :: nat where [mips_const]: "ASM_MIPS_NMSUB_D = 171"
definition ASM_MIPS_NMSUB_PS :: nat where [mips_const]: "ASM_MIPS_NMSUB_PS = 172"
definition ASM_MIPS_MFC0 :: nat where [mips_const]: "ASM_MIPS_MFC0 = 173"
definition ASM_MIPS_DMFC0 :: nat where [mips_const]: "ASM_MIPS_DMFC0 = 174"
definition ASM_MIPS_TLBWI :: nat where [mips_const]: "ASM_MIPS_TLBWI = 175"
definition ASM_MIPS_MTC0 :: nat where [mips_const]: "ASM_MIPS_MTC0 = 176"
definition ASM_MIPS_DMTC0 :: nat where [mips_const]: "ASM_MIPS_DMTC0 = 177"
definition ASM_MIPS_TLBWR :: nat where [mips_const]: "ASM_MIPS_TLBWR = 178"
definition ASM_MIPS_ERET :: nat where [mips_const]: "ASM_MIPS_ERET = 179"
definition ASM_MIPS_TLBP :: nat where [mips_const]: "ASM_MIPS_TLBP = 180"
definition ASM_MIPS_TLBR :: nat where [mips_const]: "ASM_MIPS_TLBR = 181"
definition ASM_MIPS_WAIT :: nat where [mips_const]: "ASM_MIPS_WAIT = 182"
definition ASM_MIPS_DERET :: nat where [mips_const]: "ASM_MIPS_DERET = 183"
definition ASM_MIPS_SDBBP :: nat where [mips_const]: "ASM_MIPS_SDBBP = 184"
definition ASM_MIPS_ABS_S :: nat where [mips_const]: "ASM_MIPS_ABS_S = 185"
definition ASM_MIPS_ABS_D :: nat where [mips_const]: "ASM_MIPS_ABS_D = 186"
definition ASM_MIPS_ABS_PS :: nat where [mips_const]: "ASM_MIPS_ABS_PS = 187"
definition ASM_MIPS_ADD_S :: nat where [mips_const]: "ASM_MIPS_ADD_S = 188"
definition ASM_MIPS_ADD_D :: nat where [mips_const]: "ASM_MIPS_ADD_D = 189"
definition ASM_MIPS_ADD_PS :: nat where [mips_const]: "ASM_MIPS_ADD_PS = 190"
definition ASM_MIPS_DIV_S :: nat where [mips_const]: "ASM_MIPS_DIV_S = 191"
definition ASM_MIPS_DIV_D :: nat where [mips_const]: "ASM_MIPS_DIV_D = 192"
definition ASM_MIPS_MUL_S :: nat where [mips_const]: "ASM_MIPS_MUL_S = 193"
definition ASM_MIPS_MUL_D :: nat where [mips_const]: "ASM_MIPS_MUL_D = 194"
definition ASM_MIPS_MUL_PS :: nat where [mips_const]: "ASM_MIPS_MUL_PS = 195"
definition ASM_MIPS_NEG_S :: nat where [mips_const]: "ASM_MIPS_NEG_S = 196"
definition ASM_MIPS_NEG_D :: nat where [mips_const]: "ASM_MIPS_NEG_D = 197"
definition ASM_MIPS_NEG_PS :: nat where [mips_const]: "ASM_MIPS_NEG_PS = 198"
definition ASM_MIPS_RECIP_S :: nat where [mips_const]: "ASM_MIPS_RECIP_S = 199"
definition ASM_MIPS_RECIP_D :: nat where [mips_const]: "ASM_MIPS_RECIP_D = 200"
definition ASM_MIPS_RSQRT_S :: nat where [mips_const]: "ASM_MIPS_RSQRT_S = 201"
definition ASM_MIPS_RSQRT_D :: nat where [mips_const]: "ASM_MIPS_RSQRT_D = 202"
definition ASM_MIPS_SQRT_S :: nat where [mips_const]: "ASM_MIPS_SQRT_S = 203"
definition ASM_MIPS_SQRT_D :: nat where [mips_const]: "ASM_MIPS_SQRT_D = 204"
definition ASM_MIPS_SUB_S :: nat where [mips_const]: "ASM_MIPS_SUB_S = 205"
definition ASM_MIPS_SUB_D :: nat where [mips_const]: "ASM_MIPS_SUB_D = 206"
definition ASM_MIPS_SUB_PS :: nat where [mips_const]: "ASM_MIPS_SUB_PS = 207"
definition ASM_MIPS_BC1F :: nat where [mips_const]: "ASM_MIPS_BC1F = 208"
definition ASM_MIPS_BC1T :: nat where [mips_const]: "ASM_MIPS_BC1T = 209"
definition ASM_MIPS_CEIL_L_S :: nat where [mips_const]: "ASM_MIPS_CEIL_L_S = 210"
definition ASM_MIPS_CEIL_L_D :: nat where [mips_const]: "ASM_MIPS_CEIL_L_D = 211"
definition ASM_MIPS_CEIL_W_S :: nat where [mips_const]: "ASM_MIPS_CEIL_W_S = 212"
definition ASM_MIPS_CEIL_W_D :: nat where [mips_const]: "ASM_MIPS_CEIL_W_D = 213"
definition ASM_MIPS_CVT_D_S :: nat where [mips_const]: "ASM_MIPS_CVT_D_S = 214"
definition ASM_MIPS_CVT_D_W :: nat where [mips_const]: "ASM_MIPS_CVT_D_W = 215"
definition ASM_MIPS_CVT_D_L :: nat where [mips_const]: "ASM_MIPS_CVT_D_L = 216"
definition ASM_MIPS_CVT_L_S :: nat where [mips_const]: "ASM_MIPS_CVT_L_S = 217"
definition ASM_MIPS_CVT_L_D :: nat where [mips_const]: "ASM_MIPS_CVT_L_D = 218"
definition ASM_MIPS_CVT_PS_S :: nat where [mips_const]: "ASM_MIPS_CVT_PS_S = 219"
definition ASM_MIPS_CVT_S_D :: nat where [mips_const]: "ASM_MIPS_CVT_S_D = 220"
definition ASM_MIPS_CVT_S_W :: nat where [mips_const]: "ASM_MIPS_CVT_S_W = 221"
definition ASM_MIPS_CVT_S_L :: nat where [mips_const]: "ASM_MIPS_CVT_S_L = 222"
definition ASM_MIPS_CVT_S_PL :: nat where [mips_const]: "ASM_MIPS_CVT_S_PL = 223"
definition ASM_MIPS_CVT_S_PU :: nat where [mips_const]: "ASM_MIPS_CVT_S_PU = 224"
definition ASM_MIPS_CVT_W_S :: nat where [mips_const]: "ASM_MIPS_CVT_W_S = 225"
definition ASM_MIPS_CVT_W_D :: nat where [mips_const]: "ASM_MIPS_CVT_W_D = 226"
definition ASM_MIPS_FLOOR_L_S :: nat where [mips_const]: "ASM_MIPS_FLOOR_L_S = 227"
definition ASM_MIPS_FLOOR_L_D :: nat where [mips_const]: "ASM_MIPS_FLOOR_L_D = 228"
definition ASM_MIPS_FLOOR_W_S :: nat where [mips_const]: "ASM_MIPS_FLOOR_W_S = 229"
definition ASM_MIPS_FLOOR_W_D :: nat where [mips_const]: "ASM_MIPS_FLOOR_W_D = 230"
definition ASM_MIPS_ROUND_L_S :: nat where [mips_const]: "ASM_MIPS_ROUND_L_S = 231"
definition ASM_MIPS_ROUND_L_D :: nat where [mips_const]: "ASM_MIPS_ROUND_L_D = 232"
definition ASM_MIPS_ROUND_W_S :: nat where [mips_const]: "ASM_MIPS_ROUND_W_S = 233"
definition ASM_MIPS_ROUND_W_D :: nat where [mips_const]: "ASM_MIPS_ROUND_W_D = 234"
definition ASM_MIPS_TRUNC_L_S :: nat where [mips_const]: "ASM_MIPS_TRUNC_L_S = 235"
definition ASM_MIPS_TRUNC_L_D :: nat where [mips_const]: "ASM_MIPS_TRUNC_L_D = 236"
definition ASM_MIPS_TRUNC_W_S :: nat where [mips_const]: "ASM_MIPS_TRUNC_W_S = 237"
definition ASM_MIPS_TRUNC_W_D :: nat where [mips_const]: "ASM_MIPS_TRUNC_W_D = 238"
definition ASM_MIPS_LDC1 :: nat where [mips_const]: "ASM_MIPS_LDC1 = 239"
definition ASM_MIPS_LWC1 :: nat where [mips_const]: "ASM_MIPS_LWC1 = 240"
definition ASM_MIPS_SDC1 :: nat where [mips_const]: "ASM_MIPS_SDC1 = 241"
definition ASM_MIPS_SWC1 :: nat where [mips_const]: "ASM_MIPS_SWC1 = 242"
definition ASM_MIPS_CFC1 :: nat where [mips_const]: "ASM_MIPS_CFC1 = 243"
definition ASM_MIPS_CTC1 :: nat where [mips_const]: "ASM_MIPS_CTC1 = 244"
definition ASM_MIPS_MFC1 :: nat where [mips_const]: "ASM_MIPS_MFC1 = 245"
definition ASM_MIPS_MTC1 :: nat where [mips_const]: "ASM_MIPS_MTC1 = 246"
definition ASM_MIPS_MOV_S :: nat where [mips_const]: "ASM_MIPS_MOV_S = 247"
definition ASM_MIPS_MOV_D :: nat where [mips_const]: "ASM_MIPS_MOV_D = 248"
definition ASM_MIPS_MOV_PS :: nat where [mips_const]: "ASM_MIPS_MOV_PS = 249"
definition ASM_MIPS_MOVF_S :: nat where [mips_const]: "ASM_MIPS_MOVF_S = 250"
definition ASM_MIPS_MOVF_D :: nat where [mips_const]: "ASM_MIPS_MOVF_D = 251"
definition ASM_MIPS_MOVF_PS :: nat where [mips_const]: "ASM_MIPS_MOVF_PS = 252"
definition ASM_MIPS_MOVT_S :: nat where [mips_const]: "ASM_MIPS_MOVT_S = 253"
definition ASM_MIPS_MOVT_D :: nat where [mips_const]: "ASM_MIPS_MOVT_D = 254"
definition ASM_MIPS_MOVT_PS :: nat where [mips_const]: "ASM_MIPS_MOVT_PS = 255"
definition ASM_MIPS_MOVN_S :: nat where [mips_const]: "ASM_MIPS_MOVN_S = 256"
definition ASM_MIPS_MOVN_D :: nat where [mips_const]: "ASM_MIPS_MOVN_D = 257"
definition ASM_MIPS_MOVN_PS :: nat where [mips_const]: "ASM_MIPS_MOVN_PS = 258"
definition ASM_MIPS_MOVZ_S :: nat where [mips_const]: "ASM_MIPS_MOVZ_S = 259"
definition ASM_MIPS_MOVZ_D :: nat where [mips_const]: "ASM_MIPS_MOVZ_D = 260"
definition ASM_MIPS_MOVZ_PS :: nat where [mips_const]: "ASM_MIPS_MOVZ_PS = 261"
definition ASM_MIPS_BC1FL :: nat where [mips_const]: "ASM_MIPS_BC1FL = 262"
definition ASM_MIPS_BC1TL :: nat where [mips_const]: "ASM_MIPS_BC1TL = 263"
definition ASM_MIPS_DMTC1 :: nat where [mips_const]: "ASM_MIPS_DMTC1 = 264"
definition ASM_MIPS_DMFC1 :: nat where [mips_const]: "ASM_MIPS_DMFC1 = 265"
definition ASM_MIPS_C_F_S :: nat where [mips_const]: "ASM_MIPS_C_F_S = 266"
definition ASM_MIPS_C_F_D :: nat where [mips_const]: "ASM_MIPS_C_F_D = 267"
definition ASM_MIPS_C_F_PS :: nat where [mips_const]: "ASM_MIPS_C_F_PS = 268"
definition ASM_MIPS_C_UN_S :: nat where [mips_const]: "ASM_MIPS_C_UN_S = 269"
definition ASM_MIPS_C_UN_D :: nat where [mips_const]: "ASM_MIPS_C_UN_D = 270"
definition ASM_MIPS_C_UN_PS :: nat where [mips_const]: "ASM_MIPS_C_UN_PS = 271"
definition ASM_MIPS_C_EQ_S :: nat where [mips_const]: "ASM_MIPS_C_EQ_S = 272"
definition ASM_MIPS_C_EQ_D :: nat where [mips_const]: "ASM_MIPS_C_EQ_D = 273"
definition ASM_MIPS_C_EQ_PS :: nat where [mips_const]: "ASM_MIPS_C_EQ_PS = 274"
definition ASM_MIPS_C_UEQ_S :: nat where [mips_const]: "ASM_MIPS_C_UEQ_S = 275"
definition ASM_MIPS_C_UEQ_D :: nat where [mips_const]: "ASM_MIPS_C_UEQ_D = 276"
definition ASM_MIPS_C_UEQ_PS :: nat where [mips_const]: "ASM_MIPS_C_UEQ_PS = 277"
definition ASM_MIPS_C_OLT_S :: nat where [mips_const]: "ASM_MIPS_C_OLT_S = 278"
definition ASM_MIPS_C_OLT_D :: nat where [mips_const]: "ASM_MIPS_C_OLT_D = 279"
definition ASM_MIPS_C_OLT_PS :: nat where [mips_const]: "ASM_MIPS_C_OLT_PS = 280"
definition ASM_MIPS_C_ULT_S :: nat where [mips_const]: "ASM_MIPS_C_ULT_S = 281"
definition ASM_MIPS_C_ULT_D :: nat where [mips_const]: "ASM_MIPS_C_ULT_D = 282"
definition ASM_MIPS_C_ULT_PS :: nat where [mips_const]: "ASM_MIPS_C_ULT_PS = 283"
definition ASM_MIPS_C_OLE_S :: nat where [mips_const]: "ASM_MIPS_C_OLE_S = 284"
definition ASM_MIPS_C_OLE_D :: nat where [mips_const]: "ASM_MIPS_C_OLE_D = 285"
definition ASM_MIPS_C_OLE_PS :: nat where [mips_const]: "ASM_MIPS_C_OLE_PS = 286"
definition ASM_MIPS_C_ULE_S :: nat where [mips_const]: "ASM_MIPS_C_ULE_S = 287"
definition ASM_MIPS_C_ULE_D :: nat where [mips_const]: "ASM_MIPS_C_ULE_D = 288"
definition ASM_MIPS_C_ULE_PS :: nat where [mips_const]: "ASM_MIPS_C_ULE_PS = 289"
definition ASM_MIPS_C_SF_S :: nat where [mips_const]: "ASM_MIPS_C_SF_S = 290"
definition ASM_MIPS_C_SF_D :: nat where [mips_const]: "ASM_MIPS_C_SF_D = 291"
definition ASM_MIPS_C_SF_PS :: nat where [mips_const]: "ASM_MIPS_C_SF_PS = 292"
definition ASM_MIPS_C_NGLE_S :: nat where [mips_const]: "ASM_MIPS_C_NGLE_S = 293"
definition ASM_MIPS_C_NGLE_D :: nat where [mips_const]: "ASM_MIPS_C_NGLE_D = 294"
definition ASM_MIPS_C_NGLE_PS :: nat where [mips_const]: "ASM_MIPS_C_NGLE_PS = 295"
definition ASM_MIPS_C_SEQ_S :: nat where [mips_const]: "ASM_MIPS_C_SEQ_S = 296"
definition ASM_MIPS_C_SEQ_D :: nat where [mips_const]: "ASM_MIPS_C_SEQ_D = 297"
definition ASM_MIPS_C_SEQ_PS :: nat where [mips_const]: "ASM_MIPS_C_SEQ_PS = 298"
definition ASM_MIPS_C_NGL_S :: nat where [mips_const]: "ASM_MIPS_C_NGL_S = 299"
definition ASM_MIPS_C_NGL_D :: nat where [mips_const]: "ASM_MIPS_C_NGL_D = 300"
definition ASM_MIPS_C_NGL_PS :: nat where [mips_const]: "ASM_MIPS_C_NGL_PS = 301"
definition ASM_MIPS_C_LT_S :: nat where [mips_const]: "ASM_MIPS_C_LT_S = 302"
definition ASM_MIPS_C_LT_D :: nat where [mips_const]: "ASM_MIPS_C_LT_D = 303"
definition ASM_MIPS_C_LT_PS :: nat where [mips_const]: "ASM_MIPS_C_LT_PS = 304"
definition ASM_MIPS_C_NGE_S :: nat where [mips_const]: "ASM_MIPS_C_NGE_S = 305"
definition ASM_MIPS_C_NGE_D :: nat where [mips_const]: "ASM_MIPS_C_NGE_D = 306"
definition ASM_MIPS_C_NGE_PS :: nat where [mips_const]: "ASM_MIPS_C_NGE_PS = 307"
definition ASM_MIPS_C_LE_S :: nat where [mips_const]: "ASM_MIPS_C_LE_S = 308"
definition ASM_MIPS_C_LE_D :: nat where [mips_const]: "ASM_MIPS_C_LE_D = 309"
definition ASM_MIPS_C_LE_PS :: nat where [mips_const]: "ASM_MIPS_C_LE_PS = 310"
definition ASM_MIPS_C_NGT_S :: nat where [mips_const]: "ASM_MIPS_C_NGT_S = 311"
definition ASM_MIPS_C_NGT_D :: nat where [mips_const]: "ASM_MIPS_C_NGT_D = 312"
definition ASM_MIPS_C_NGT_PS :: nat where [mips_const]: "ASM_MIPS_C_NGT_PS = 313"
definition ASM_MIPS_BAD :: nat where [mips_const]: "ASM_MIPS_BAD = 314"

text \<open>\<open>enum e_mips_register_types\<close>.\<close>

definition ASM_MIPS_REG_RA :: nat where [mips_const]: "ASM_MIPS_REG_RA = 31"

text \<open>\<open>enum e_fix_compile_errors\<close>.\<close>

definition MIPS_OPCODE_NOP :: nat where [mips_const]: "MIPS_OPCODE_NOP = 0"
definition MIPS_OPCODE_SSNOP :: nat where [mips_const]: "MIPS_OPCODE_SSNOP = 1"

text \<open>\<open>enum e_mips_operand_type\<close>, and the register file of an operand.\<close>

definition ASM_MIPS_OTYPE_NONE :: u_int where [mips_const]: "ASM_MIPS_OTYPE_NONE = 0"
definition ASM_MIPS_OTYPE_REGISTER :: u_int where [mips_const]: "ASM_MIPS_OTYPE_REGISTER = 1"
definition ASM_MIPS_OTYPE_IMMEDIATE :: u_int where [mips_const]: "ASM_MIPS_OTYPE_IMMEDIATE = 2"
definition ASM_MIPS_OTYPE_JUMP :: u_int where [mips_const]: "ASM_MIPS_OTYPE_JUMP = 3"
definition ASM_MIPS_OTYPE_NOOP :: u_int where [mips_const]: "ASM_MIPS_OTYPE_NOOP = 4"
definition ASM_MIPS_OTYPE_BRANCH :: u_int where [mips_const]: "ASM_MIPS_OTYPE_BRANCH = 5"
definition ASM_MIPS_OTYPE_REGBASE :: u_int where [mips_const]: "ASM_MIPS_OTYPE_REGBASE = 6"
definition ASM_MIPS_OTYPE_LAST :: u_int where [mips_const]: "ASM_MIPS_OTYPE_LAST = 7"
definition ASM_MIPS_REG_FPU :: u_int where [mips_const]: "ASM_MIPS_REG_FPU = 1"

end
