(* ===== verification/Mips_Format.thy ===== *)
theory Mips_Format
  imports Mips_Const
begin

text \<open>
  The instruction formats of MIPS (\<open>libasm-mips-structs.h\<close>, \<open>mips_convert.c\<close>) and the operand
  handlers with their dispatch vector.

  A bit-field of width \<open>n\<close> is an \<open>n word\<close>. The handlers receive a pointer to the converted
  instruction word; \<open>buf\<close> is the value \<open>memcpy\<close> reads there on the little-endian host. With the
  big-endian setting the word is copied onto the structure, whose bit-fields the compiler
  allocates from the least significant bit on such a host.
\<close>

record s_mips_decode_reg =
  r_op :: "6 word"
  r_rs :: "5 word"
  r_rt :: "5 word"
  r_rd :: "5 word"
  r_sa :: "5 word"
  r_fn :: "6 word"

record s_mips_decode_imm =
  i_op :: "6 word"
  i_rs :: "5 word"
  i_rt :: "5 word"
  i_im :: "16 word"

record s_mips_decode_jump =
  j_op :: "6 word"
  j_ta :: "26 word"

record s_mips_decode_trap =
  t_op :: "6 word"
  t_rs :: "5 word"
  t_rt :: "5 word"
  t_code :: "10 word"
  t_fn :: "6 word"

record s_mips_decode_mov =
  mv_op :: "6 word"
  mv_rs :: "5 word"
  mv_cc :: "3 word"
  mv_b1 :: "1 word"
  mv_tf :: "1 word"
  mv_rd :: "5 word"
  mv_b2 :: "5 word"
  mv_fn :: "6 word"

record s_mips_decode_cop2 =
  c2_op :: "6 word"
  c2_rs :: "5 word"
  c2_rt :: "5 word"
  c2_rd :: "5 word"
  c2_fn :: "8 word"
  c2_sl :: "3 word"

record s_mips_decode_cop1x =
  cx_op :: "6 word"
  cx_bs :: "5 word"
  cx_in :: "5 word"
  cx_f1 :: "5 word"
  cx_f2 :: "5 word"
  cx_fn :: "3 word"
  cx_fmt :: "3 word"

definition mips_convert_format_r :: "nat \<Rightarrow> u_int \<Rightarrow> asm_error + s_mips_decode_reg" where
  "mips_convert_format_r en buf =
     (if en = CONFIG_ASM_BIG_ENDIAN then
        Inr \<lparr>r_op = ucast buf, r_rs = ucast (drop_bit 6 buf), r_rt = ucast (drop_bit 11 buf),
             r_rd = ucast (drop_bit 16 buf), r_sa = ucast (drop_bit 21 buf),
             r_fn = ucast (drop_bit 26 buf)\<rparr>
      else if en = CONFIG_ASM_LITTLE_ENDIAN then
        Inr \<lparr>r_op = ucast (drop_bit 26 buf AND 0x3F), r_rs = ucast (drop_bit 21 buf AND 0x1F),
             r_rt = ucast (drop_bit 16 buf AND 0x1F), r_rd = ucast (drop_bit 11 buf AND 0x1F),
             r_sa = ucast (drop_bit 6 buf AND 0x1F), r_fn = ucast (drop_bit 0 buf AND 0x3F)\<rparr>
      else Inl Exit)"

definition mips_convert_format_i :: "nat \<Rightarrow> u_int \<Rightarrow> asm_error + s_mips_decode_imm" where
  "mips_convert_format_i en buf =
     (if en = CONFIG_ASM_BIG_ENDIAN then
        Inr \<lparr>i_op = ucast buf, i_rs = ucast (drop_bit 6 buf), i_rt = ucast (drop_bit 11 buf),
             i_im = ucast (drop_bit 16 buf)\<rparr>
      else if en = CONFIG_ASM_LITTLE_ENDIAN then
        Inr \<lparr>i_op = ucast (drop_bit 26 buf AND 0x3F), i_rs = ucast (drop_bit 21 buf AND 0x1F),
             i_rt = ucast (drop_bit 16 buf AND 0x1F), i_im = ucast (drop_bit 0 buf AND 0xFFFF)\<rparr>
      else Inl Exit)"

definition mips_convert_format_j :: "nat \<Rightarrow> u_int \<Rightarrow> asm_error + s_mips_decode_jump" where
  "mips_convert_format_j en buf =
     (if en = CONFIG_ASM_BIG_ENDIAN then
        Inr \<lparr>j_op = ucast buf, j_ta = ucast (drop_bit 6 buf)\<rparr>
      else if en = CONFIG_ASM_LITTLE_ENDIAN then
        Inr \<lparr>j_op = ucast (drop_bit 26 buf AND 0x3F), j_ta = ucast (drop_bit 0 buf AND 0x3FFFFFF)\<rparr>
      else Inl Exit)"

definition mips_convert_format_t :: "nat \<Rightarrow> u_int \<Rightarrow> asm_error + s_mips_decode_trap" where
  "mips_convert_format_t en buf =
     (if en = CONFIG_ASM_BIG_ENDIAN then
        Inr \<lparr>t_op = ucast buf, t_rs = ucast (drop_bit 6 buf), t_rt = ucast (drop_bit 11 buf),
             t_code = ucast (drop_bit 16 buf), t_fn = ucast (drop_bit 26 buf)\<rparr>
      else if en = CONFIG_ASM_LITTLE_ENDIAN then
        Inr \<lparr>t_op = ucast (drop_bit 26 buf AND 0x3F), t_rs = ucast (drop_bit 21 buf AND 0x1F),
             t_rt = ucast (drop_bit 16 buf AND 0x1F), t_code = ucast (drop_bit 6 buf AND 0x3FF),
             t_fn = ucast (drop_bit 0 buf AND 0x3F)\<rparr>
      else Inl Exit)"

definition mips_convert_format_mov :: "nat \<Rightarrow> u_int \<Rightarrow> asm_error + s_mips_decode_mov" where
  "mips_convert_format_mov en buf =
     (if en = CONFIG_ASM_BIG_ENDIAN then
        Inr \<lparr>mv_op = ucast buf, mv_rs = ucast (drop_bit 6 buf), mv_cc = ucast (drop_bit 11 buf),
             mv_b1 = ucast (drop_bit 14 buf), mv_tf = ucast (drop_bit 15 buf),
             mv_rd = ucast (drop_bit 16 buf), mv_b2 = ucast (drop_bit 21 buf),
             mv_fn = ucast (drop_bit 26 buf)\<rparr>
      else if en = CONFIG_ASM_LITTLE_ENDIAN then
        Inr \<lparr>mv_op = ucast (drop_bit 26 buf AND 0x3F), mv_rs = ucast (drop_bit 21 buf AND 0x1F),
             mv_cc = ucast (drop_bit 18 buf AND 0x7), mv_b1 = ucast (drop_bit 17 buf AND 0x1),
             mv_tf = ucast (drop_bit 16 buf AND 0x1), mv_rd = ucast (drop_bit 11 buf AND 0x1F),
             mv_b2 = ucast (drop_bit 6 buf AND 0x1F), mv_fn = ucast (drop_bit 0 buf AND 0x3F)\<rparr>
      else Inl Exit)"

definition mips_convert_format_cop2 :: "nat \<Rightarrow> u_int \<Rightarrow> asm_error + s_mips_decode_cop2" where
  "mips_convert_format_cop2 en buf =
     (if en = CONFIG_ASM_BIG_ENDIAN then
        Inr \<lparr>c2_op = ucast buf, c2_rs = ucast (drop_bit 6 buf), c2_rt = ucast (drop_bit 11 buf),
             c2_rd = ucast (drop_bit 16 buf), c2_fn = ucast (drop_bit 21 buf),
             c2_sl = ucast (drop_bit 29 buf)\<rparr>
      else if en = CONFIG_ASM_LITTLE_ENDIAN then
        Inr \<lparr>c2_op = ucast (drop_bit 26 buf AND 0x3F), c2_rs = ucast (drop_bit 21 buf AND 0x1F),
             c2_rt = ucast (drop_bit 16 buf AND 0x1F), c2_rd = ucast (drop_bit 11 buf AND 0x1F),
             c2_fn = ucast (drop_bit 3 buf AND 0xFF), c2_sl = ucast (drop_bit 0 buf AND 0x7)\<rparr>
      else Inl Exit)"

definition mips_convert_format_cop1x :: "nat \<Rightarrow> u_int \<Rightarrow> asm_error + s_mips_decode_cop1x" where
  "mips_convert_format_cop1x en buf =
     (if en = CONFIG_ASM_BIG_ENDIAN then
        Inr \<lparr>cx_op = ucast buf, cx_bs = ucast (drop_bit 6 buf), cx_in = ucast (drop_bit 11 buf),
             cx_f1 = ucast (drop_bit 16 buf), cx_f2 = ucast (drop_bit 21 buf),
             cx_fn = ucast (drop_bit 26 buf), cx_fmt = ucast (drop_bit 29 buf)\<rparr>
      else if en = CONFIG_ASM_LITTLE_ENDIAN then
        Inr \<lparr>cx_op = ucast (drop_bit 26 buf AND 0x3F), cx_bs = ucast (drop_bit 21 buf AND 0x1F),
             cx_in = ucast (drop_bit 16 buf AND 0x1F), cx_f1 = ucast (drop_bit 11 buf AND 0x1F),
             cx_f2 = ucast (drop_bit 6 buf AND 0x1F), cx_fn = ucast (drop_bit 3 buf AND 0x3),
             cx_fmt = ucast (drop_bit 0 buf AND 0x3)\<rparr>
      else Inl Exit)"

subsection \<open>Operands\<close>

text \<open>The operand handlers, given the index of the operand in \<open>ins->op\<close>.\<close>

definition asm_mips_operand_none :: "nat \<Rightarrow> asm_instr \<Rightarrow> asm_instr" where
  "asm_mips_operand_none i = set_otype i ASM_MIPS_OTYPE_NONE"

definition asm_mips_operand_r :: "nat \<Rightarrow> asm_instr \<Rightarrow> asm_instr" where
  "asm_mips_operand_r i = set_otype i ASM_MIPS_OTYPE_REGISTER"

definition asm_mips_operand_i :: "nat \<Rightarrow> asm_instr \<Rightarrow> asm_instr" where
  "asm_mips_operand_i i = set_otype i ASM_MIPS_OTYPE_IMMEDIATE"

definition asm_mips_operand_j :: "nat \<Rightarrow> asm_instr \<Rightarrow> asm_instr" where
  "asm_mips_operand_j i = set_otype i ASM_MIPS_OTYPE_JUMP"

definition asm_mips_operand_noop :: "nat \<Rightarrow> asm_instr \<Rightarrow> asm_instr" where
  "asm_mips_operand_noop i = set_otype i ASM_MIPS_OTYPE_NOOP"

definition asm_mips_operand_branch :: "nat \<Rightarrow> asm_instr \<Rightarrow> asm_instr" where
  "asm_mips_operand_branch i = set_otype i ASM_MIPS_OTYPE_BRANCH"

definition asm_mips_operand_regbase :: "nat \<Rightarrow> asm_instr \<Rightarrow> asm_instr" where
  "asm_mips_operand_regbase i = set_otype i ASM_MIPS_OTYPE_REGBASE"

text \<open>The operand vector: dimension \<open>ASM_MIPS_OTYPE_LAST\<close>, default handler at address 1, the
  registered handlers of \<open>asm_register_mips_operands\<close> after it. \<open>mips_operand_call\<close> is the call
  through the selected pointer; the default handler only returns -1.\<close>

definition mips_operand_handlers :: "(u_int \<times> (nat \<Rightarrow> asm_instr \<Rightarrow> asm_instr)) list" where
  "mips_operand_handlers = [
     (ASM_MIPS_OTYPE_NONE, asm_mips_operand_none),
     (ASM_MIPS_OTYPE_REGISTER, asm_mips_operand_r),
     (ASM_MIPS_OTYPE_IMMEDIATE, asm_mips_operand_i),
     (ASM_MIPS_OTYPE_JUMP, asm_mips_operand_j),
     (ASM_MIPS_OTYPE_NOOP, asm_mips_operand_noop),
     (ASM_MIPS_OTYPE_BRANCH, asm_mips_operand_branch),
     (ASM_MIPS_OTYPE_REGBASE, asm_mips_operand_regbase)]"

definition asm_register_mips_operand :: "vector_t \<Rightarrow> u_int \<Rightarrow> ptr \<Rightarrow> vector_t option" where
  "asm_register_mips_operand vec ty func = aspect_vectors_insert vec [unat ty] func"

fun register_operands :: "(u_int \<times> 'h) list \<Rightarrow> ptr \<Rightarrow> vector_t \<Rightarrow> vector_t option" where
  "register_operands [] a vec = Some vec"
| "register_operands ((ty, h) # hs) a vec =
     Option.bind (asm_register_mips_operand vec ty a) (register_operands hs (a + 1))"

definition asm_register_mips_operands :: "vector_t \<Rightarrow> vector_t option" where
  "asm_register_mips_operands = register_operands mips_operand_handlers 2"

definition mips_operand_vector :: "vector_t option" where
  "mips_operand_vector =
     asm_register_mips_operands (make_vector 1 [unat ASM_MIPS_OTYPE_LAST] [''OPERAND''] 1)"

definition mips_operand_call :: "ptr \<Rightarrow> nat \<Rightarrow> asm_instr \<Rightarrow> asm_instr" where
  "mips_operand_call f i ins =
     (if 2 \<le> f \<and> f - 2 < length mips_operand_handlers then snd (mips_operand_handlers ! (f - 2)) i ins else ins)"

definition asm_mips_operand_fetch :: "nat \<Rightarrow> u_int \<Rightarrow> asm_instr \<Rightarrow> asm_instr" where
  "asm_mips_operand_fetch i ot ins =
     (case Option.bind mips_operand_vector (\<lambda>vec. aspect_vectors_select vec [unat ot]) of
        None \<Rightarrow> ins
      | Some f \<Rightarrow> mips_operand_call f i ins)"

type_synonym mips_handler = "nat \<Rightarrow> u_int \<Rightarrow> asm_instr \<Rightarrow> asm_result"

lemmas mips_operand_defs = asm_mips_operand_none_def asm_mips_operand_r_def asm_mips_operand_i_def
  asm_mips_operand_j_def asm_mips_operand_noop_def asm_mips_operand_branch_def asm_mips_operand_regbase_def

lemma mips_operand_vector_eq:
  "mips_operand_vector = Some \<lparr>vhook = map HFun [2, 3, 4, 5, 6, 7, 8], default_func = 1, arraydims = [7],
     strdims = [''OPERAND''], arraysz = 1, vtype = 0\<rparr>"
  by code_simp

lemma operand_fetch_type [simp]:
  assumes "ot < ASM_MIPS_OTYPE_LAST"
  shows "asm_mips_operand_fetch i ot = set_otype i ot"
proof -
  have ins: "asm_mips_operand_fetch i ot ins = set_otype i ot ins" for ins
  proof -
    have "unat ot < 7" using assms by (simp add: mips_const word_less_nat_alt)
    then have "unat ot = 0 \<or> unat ot = 1 \<or> unat ot = 2 \<or> unat ot = 3 \<or> unat ot = 4 \<or> unat ot = 5 \<or> unat ot = 6"
      by linarith
    moreover have "ot = of_nat (unat ot)" by simp
    ultimately show ?thesis
      by (elim disjE) (simp_all add: asm_mips_operand_fetch_def mips_operand_vector_eq aspect_vectors_select_def
        mips_operand_call_def mips_operand_handlers_def mips_operand_defs mips_const)
  qed
  then show ?thesis by (rule ext)
qed

end
