(* ===== verification/Mips_Handlers1.thy ===== *)
theory Mips_Handlers1
  imports Mips_Format
begin

text \<open>
  The decoding handlers of \<open>libasm/src/arch/mips/handlers\<close>, one file each, in alphabetical
  order (first half). Each translates its function statement by statement; the conversion of the
  instruction word comes first because it does not read \<open>*ins\<close> and only fails by \<open>exit\<close>.
\<close>

definition asm_mips_abs_d :: mips_handler where
  "asm_mips_abs_d en buf ins = rbind (mips_convert_format_r en buf) (\<lambda>temp. Inr (4, stmts [
     set_instr ASM_MIPS_ABS_D, set_type (ASM_TYPE_ARITH OR ASM_TYPE_ARCH),
     set_regset 0 ASM_MIPS_REG_FPU, set_baser 0 (r_sa temp),
     asm_mips_operand_fetch 0 ASM_MIPS_OTYPE_REGISTER, set_regset 1 ASM_MIPS_REG_FPU,
     set_baser 1 (r_rd temp), asm_mips_operand_fetch 1 ASM_MIPS_OTYPE_REGISTER] ins))"

definition asm_mips_abs_ps :: mips_handler where
  "asm_mips_abs_ps en buf ins = rbind (mips_convert_format_r en buf) (\<lambda>temp. Inr (4, stmts [
     set_instr ASM_MIPS_ABS_PS, set_type (ASM_TYPE_ARITH OR ASM_TYPE_ARCH),
     set_regset 0 ASM_MIPS_REG_FPU, set_baser 0 (r_sa temp),
     asm_mips_operand_fetch 0 ASM_MIPS_OTYPE_REGISTER, set_regset 1 ASM_MIPS_REG_FPU,
     set_baser 1 (r_rd temp), asm_mips_operand_fetch 1 ASM_MIPS_OTYPE_REGISTER] ins))"

definition asm_mips_abs_s :: mips_handler where
  "asm_mips_abs_s en buf ins = rbind (mips_convert_format_r en buf) (\<lambda>temp. Inr (4, stmts [
     set_instr ASM_MIPS_ABS_S, set_type (ASM_TYPE_ARITH OR ASM_TYPE_ARCH),
     set_regset 0 ASM_MIPS_REG_FPU, set_baser 0 (r_sa temp),
     asm_mips_operand_fetch 0 ASM_MIPS_OTYPE_REGISTER, set_regset 1 ASM_MIPS_REG_FPU,
     set_baser 1 (r_rd temp), asm_mips_operand_fetch 1 ASM_MIPS_OTYPE_REGISTER] ins))"

definition asm_mips_add :: mips_handler where
  "asm_mips_add en buf ins = rbind (mips_convert_format_r en buf) (\<lambda>temp. Inr (4, stmts [
     set_instr ASM_MIPS_ADD, set_type ASM_TYPE_ARITH, set_baser 0 (r_rd temp),
     asm_mips_operand_fetch 0 ASM_MIPS_OTYPE_REGISTER, set_baser 1 (r_rs temp),
     asm_mips_operand_fetch 1 ASM_MIPS_OTYPE_REGISTER, set_baser 2 (r_rt temp),
     asm_mips_operand_fetch 2 ASM_MIPS_OTYPE_REGISTER] ins))"

definition asm_mips_add_d :: mips_handler where
  "asm_mips_add_d en buf ins = rbind (mips_convert_format_r en buf) (\<lambda>temp. Inr (4, stmts [
     set_instr ASM_MIPS_ADD_D, set_type (ASM_TYPE_ARITH OR ASM_TYPE_ARCH),
     set_regset 0 ASM_MIPS_REG_FPU, set_baser 0 (r_sa temp),
     asm_mips_operand_fetch 0 ASM_MIPS_OTYPE_REGISTER, set_regset 1 ASM_MIPS_REG_FPU,
     set_baser 1 (r_rd temp), asm_mips_operand_fetch 1 ASM_MIPS_OTYPE_REGISTER,
     set_regset 2 ASM_MIPS_REG_FPU, set_baser 2 (r_rt temp),
     asm_mips_operand_fetch 2 ASM_MIPS_OTYPE_REGISTER] ins))"

definition asm_mips_add_ps :: mips_handler where
  "asm_mips_add_ps en buf ins = rbind (mips_convert_format_r en buf) (\<lambda>temp. Inr (4, stmts [
     set_instr ASM_MIPS_ADD_PS, set_type (ASM_TYPE_ARITH OR ASM_TYPE_ARCH),
     set_regset 0 ASM_MIPS_REG_FPU, set_baser 0 (r_sa temp),
     asm_mips_operand_fetch 0 ASM_MIPS_OTYPE_REGISTER, set_regset 1 ASM_MIPS_REG_FPU,
     set_baser 1 (r_rd temp), asm_mips_operand_fetch 1 ASM_MIPS_OTYPE_REGISTER,
     set_regset 2 ASM_MIPS_REG_FPU, set_baser 2 (r_rt temp),
     asm_mips_operand_fetch 2 ASM_MIPS_OTYPE_REGISTER] ins))"

definition asm_mips_add_s :: mips_handler where
  "asm_mips_add_s en buf ins = rbind (mips_convert_format_r en buf) (\<lambda>temp. Inr (4, stmts [
     set_instr ASM_MIPS_ADD_S, set_type (ASM_TYPE_ARITH OR ASM_TYPE_ARCH),
     set_regset 0 ASM_MIPS_REG_FPU, set_baser 0 (r_sa temp),
     asm_mips_operand_fetch 0 ASM_MIPS_OTYPE_REGISTER, set_regset 1 ASM_MIPS_REG_FPU,
     set_baser 1 (r_rd temp), asm_mips_operand_fetch 1 ASM_MIPS_OTYPE_REGISTER,
     set_regset 2 ASM_MIPS_REG_FPU, set_baser 2 (r_rt temp),
     asm_mips_operand_fetch 2 ASM_MIPS_OTYPE_REGISTER] ins))"

definition asm_mips_addi :: mips_handler where
  "asm_mips_addi en buf ins = rbind (mips_convert_format_i en buf) (\<lambda>temp. Inr (4, stmts [
     set_instr ASM_MIPS_ADDI, set_type ASM_TYPE_ARITH, set_baser 0 (i_rt temp),
     asm_mips_operand_fetch 0 ASM_MIPS_OTYPE_REGISTER, set_baser 1 (i_rs temp),
     asm_mips_operand_fetch 1 ASM_MIPS_OTYPE_REGISTER, set_imm 2 (i_im temp),
     asm_mips_operand_fetch 2 ASM_MIPS_OTYPE_IMMEDIATE] ins))"

definition asm_mips_addiu :: mips_handler where
  "asm_mips_addiu en buf ins = rbind (mips_convert_format_i en buf) (\<lambda>temp. Inr (4, stmts [
     set_instr ASM_MIPS_ADDIU, set_type ASM_TYPE_ARITH, set_baser 0 (i_rt temp),
     asm_mips_operand_fetch 0 ASM_MIPS_OTYPE_REGISTER, set_baser 1 (i_rs temp),
     asm_mips_operand_fetch 1 ASM_MIPS_OTYPE_REGISTER, set_imm 2 (i_im temp),
     asm_mips_operand_fetch 2 ASM_MIPS_OTYPE_IMMEDIATE] ins))"

definition asm_mips_addu :: mips_handler where
  "asm_mips_addu en buf ins = rbind (mips_convert_format_r en buf) (\<lambda>temp. Inr (4, stmts [
     set_instr ASM_MIPS_ADDU, set_type ASM_TYPE_ARITH, set_baser 0 (r_rd temp),
     asm_mips_operand_fetch 0 ASM_MIPS_OTYPE_REGISTER, set_baser 1 (r_rs temp),
     asm_mips_operand_fetch 1 ASM_MIPS_OTYPE_REGISTER, set_baser 2 (r_rt temp),
     asm_mips_operand_fetch 2 ASM_MIPS_OTYPE_REGISTER] ins))"

definition asm_mips_alnv_ps :: mips_handler where
  "asm_mips_alnv_ps en buf ins = rbind (mips_convert_format_cop1x en buf) (\<lambda>temp. Inr (4, stmts [
     set_instr ASM_MIPS_ALNV_PS, set_type ASM_TYPE_ARCH, set_regset 0 ASM_MIPS_REG_FPU,
     set_baser 0 (cx_f2 temp), asm_mips_operand_fetch 0 ASM_MIPS_OTYPE_REGISTER,
     set_regset 1 ASM_MIPS_REG_FPU, set_baser 1 (cx_f1 temp),
     asm_mips_operand_fetch 1 ASM_MIPS_OTYPE_REGISTER, set_regset 2 ASM_MIPS_REG_FPU,
     set_baser 2 (cx_in temp), asm_mips_operand_fetch 2 ASM_MIPS_OTYPE_REGISTER,
     set_baser 3 (cx_bs temp), asm_mips_operand_fetch 3 ASM_MIPS_OTYPE_REGISTER] ins))"

definition asm_mips_and :: mips_handler where
  "asm_mips_and en buf ins = rbind (mips_convert_format_r en buf) (\<lambda>temp. Inr (4, stmts [
     set_instr ASM_MIPS_AND, set_type ASM_TYPE_ARITH, set_baser 0 (r_rd temp),
     asm_mips_operand_fetch 0 ASM_MIPS_OTYPE_REGISTER, set_baser 1 (r_rs temp),
     asm_mips_operand_fetch 1 ASM_MIPS_OTYPE_REGISTER, set_baser 2 (r_rt temp),
     asm_mips_operand_fetch 2 ASM_MIPS_OTYPE_REGISTER] ins))"

definition asm_mips_andi :: mips_handler where
  "asm_mips_andi en buf ins = rbind (mips_convert_format_i en buf) (\<lambda>temp. Inr (4, stmts [
     set_instr ASM_MIPS_ANDI, set_type ASM_TYPE_ARITH, set_baser 0 (i_rt temp),
     asm_mips_operand_fetch 0 ASM_MIPS_OTYPE_REGISTER, set_baser 1 (i_rs temp),
     asm_mips_operand_fetch 1 ASM_MIPS_OTYPE_REGISTER, set_imm 2 (i_im temp),
     asm_mips_operand_fetch 2 ASM_MIPS_OTYPE_IMMEDIATE] ins))"

definition asm_mips_b :: mips_handler where
  "asm_mips_b en buf ins = rbind (mips_convert_format_i en buf) (\<lambda>temp. Inr (4, stmts [
     set_instr ASM_MIPS_B, set_type ASM_TYPE_BRANCH, set_imm 0 (i_im temp),
     asm_mips_operand_fetch 0 ASM_MIPS_OTYPE_BRANCH] ins))"

definition asm_mips_bal :: mips_handler where
  "asm_mips_bal en buf ins = rbind (mips_convert_format_i en buf) (\<lambda>temp. Inr (4, stmts [
     set_instr ASM_MIPS_BAL, set_type ASM_TYPE_CALLPROC, set_imm 0 (i_im temp),
     asm_mips_operand_fetch 0 ASM_MIPS_OTYPE_BRANCH] ins))"

definition asm_mips_bc1f :: mips_handler where
  "asm_mips_bc1f en buf ins = rbind (mips_convert_format_i en buf) (\<lambda>temp. Inr (4, stmts [
     set_instr ASM_MIPS_BC1F, set_type (ASM_TYPE_ARCH OR ASM_TYPE_BRANCH OR ASM_TYPE_CONDCONTROL),
     set_imm 0 (i_im temp), asm_mips_operand_fetch 0 ASM_MIPS_OTYPE_BRANCH] ins))"

definition asm_mips_bc1fl :: mips_handler where
  "asm_mips_bc1fl en buf ins = rbind (mips_convert_format_i en buf) (\<lambda>temp. Inr (4, stmts [
     set_instr ASM_MIPS_BC1FL, set_type (ASM_TYPE_ARCH OR ASM_TYPE_BRANCH OR ASM_TYPE_CONDCONTROL),
     set_imm 0 (i_im temp), asm_mips_operand_fetch 0 ASM_MIPS_OTYPE_BRANCH] ins))"

definition asm_mips_bc1t :: mips_handler where
  "asm_mips_bc1t en buf ins = rbind (mips_convert_format_i en buf) (\<lambda>temp. Inr (4, stmts [
     set_instr ASM_MIPS_BC1T, set_type (ASM_TYPE_ARCH OR ASM_TYPE_BRANCH OR ASM_TYPE_CONDCONTROL),
     set_imm 0 (i_im temp), asm_mips_operand_fetch 0 ASM_MIPS_OTYPE_BRANCH] ins))"

definition asm_mips_bc1tl :: mips_handler where
  "asm_mips_bc1tl en buf ins = rbind (mips_convert_format_i en buf) (\<lambda>temp. Inr (4, stmts [
     set_instr ASM_MIPS_BC1TL, set_type (ASM_TYPE_ARCH OR ASM_TYPE_BRANCH OR ASM_TYPE_CONDCONTROL),
     set_imm 0 (i_im temp), asm_mips_operand_fetch 0 ASM_MIPS_OTYPE_BRANCH] ins))"

definition asm_mips_bc2f :: mips_handler where
  "asm_mips_bc2f en buf ins = rbind (mips_convert_format_i en buf) (\<lambda>temp. Inr (4, stmts [
     set_instr ASM_MIPS_BC2F, set_type (ASM_TYPE_ARCH OR ASM_TYPE_BRANCH OR ASM_TYPE_CONDCONTROL),
     set_imm 0 (i_im temp), asm_mips_operand_fetch 0 ASM_MIPS_OTYPE_BRANCH] ins))"

definition asm_mips_bc2fl :: mips_handler where
  "asm_mips_bc2fl en buf ins = rbind (mips_convert_format_i en buf) (\<lambda>temp. Inr (4, stmts [
     set_instr ASM_MIPS_BC2FL, set_type (ASM_TYPE_ARCH OR ASM_TYPE_BRANCH OR ASM_TYPE_CONDCONTROL),
     set_imm 0 (i_im temp), asm_mips_operand_fetch 0 ASM_MIPS_OTYPE_BRANCH] ins))"

definition asm_mips_bc2t :: mips_handler where
  "asm_mips_bc2t en buf ins = rbind (mips_convert_format_i en buf) (\<lambda>temp. Inr (4, stmts [
     set_instr ASM_MIPS_BC2T, set_type (ASM_TYPE_ARCH OR ASM_TYPE_BRANCH OR ASM_TYPE_CONDCONTROL),
     set_imm 0 (i_im temp), asm_mips_operand_fetch 0 ASM_MIPS_OTYPE_BRANCH] ins))"

definition asm_mips_bc2tl :: mips_handler where
  "asm_mips_bc2tl en buf ins = rbind (mips_convert_format_i en buf) (\<lambda>temp. Inr (4, stmts [
     set_instr ASM_MIPS_BC2TL, set_type (ASM_TYPE_ARCH OR ASM_TYPE_BRANCH OR ASM_TYPE_CONDCONTROL),
     set_imm 0 (i_im temp), asm_mips_operand_fetch 0 ASM_MIPS_OTYPE_BRANCH] ins))"

definition asm_mips_beq :: mips_handler where
  "asm_mips_beq en buf ins =
     (if drop_bit 16 buf AND 0x3FF = ASM_MIPS_OTYPE_NONE then rbind (asm_mips_b en buf ins) (\<lambda>(_, ins1). Inr (4, ins1))
      else rbind (mips_convert_format_i en buf) (\<lambda>temp. Inr (4, stmts [
         set_instr ASM_MIPS_BEQ, set_type (ASM_TYPE_BRANCH OR ASM_TYPE_CONDCONTROL),
         set_baser 0 (i_rs temp), asm_mips_operand_fetch 0 ASM_MIPS_OTYPE_REGISTER,
         set_baser 1 (i_rt temp), asm_mips_operand_fetch 1 ASM_MIPS_OTYPE_REGISTER,
         set_imm 2 (i_im temp), asm_mips_operand_fetch 2 ASM_MIPS_OTYPE_BRANCH] ins)))"

definition asm_mips_beql :: mips_handler where
  "asm_mips_beql en buf ins = rbind (mips_convert_format_i en buf) (\<lambda>temp. Inr (4, stmts [
     set_instr ASM_MIPS_BEQL, set_type (ASM_TYPE_BRANCH OR ASM_TYPE_CONDCONTROL),
     set_baser 0 (i_rs temp), asm_mips_operand_fetch 0 ASM_MIPS_OTYPE_REGISTER,
     set_baser 1 (i_rt temp), asm_mips_operand_fetch 1 ASM_MIPS_OTYPE_REGISTER, set_imm 2 (i_im temp),
     asm_mips_operand_fetch 2 ASM_MIPS_OTYPE_BRANCH] ins))"

definition asm_mips_bgez :: mips_handler where
  "asm_mips_bgez en buf ins = rbind (mips_convert_format_i en buf) (\<lambda>temp. Inr (4, stmts [
     set_instr ASM_MIPS_BGEZ, set_type (ASM_TYPE_BRANCH OR ASM_TYPE_CONDCONTROL),
     set_baser 0 (i_rs temp), asm_mips_operand_fetch 0 ASM_MIPS_OTYPE_REGISTER, set_imm 1 (i_im temp),
     asm_mips_operand_fetch 1 ASM_MIPS_OTYPE_BRANCH] ins))"

definition asm_mips_bgezal :: mips_handler where
  "asm_mips_bgezal en buf ins = rbind (mips_convert_format_i en buf) (\<lambda>temp. Inr (4, stmts [
     set_instr ASM_MIPS_BGEZAL, set_type (ASM_TYPE_CONDCONTROL OR ASM_TYPE_CALLPROC),
     set_baser 0 (i_rs temp), asm_mips_operand_fetch 0 ASM_MIPS_OTYPE_REGISTER, set_imm 1 (i_im temp),
     asm_mips_operand_fetch 1 ASM_MIPS_OTYPE_BRANCH] ins))"

definition asm_mips_bgezall :: mips_handler where
  "asm_mips_bgezall en buf ins = rbind (mips_convert_format_i en buf) (\<lambda>temp. Inr (4, stmts [
     set_instr ASM_MIPS_BGEZALL, set_type (ASM_TYPE_CONDCONTROL OR ASM_TYPE_CALLPROC),
     set_baser 0 (i_rs temp), asm_mips_operand_fetch 0 ASM_MIPS_OTYPE_REGISTER, set_imm 1 (i_im temp),
     asm_mips_operand_fetch 1 ASM_MIPS_OTYPE_BRANCH] ins))"

definition asm_mips_bgezl :: mips_handler where
  "asm_mips_bgezl en buf ins = rbind (mips_convert_format_i en buf) (\<lambda>temp. Inr (4, stmts [
     set_instr ASM_MIPS_BGEZL, set_type (ASM_TYPE_BRANCH OR ASM_TYPE_CONDCONTROL),
     set_baser 0 (i_rs temp), asm_mips_operand_fetch 0 ASM_MIPS_OTYPE_REGISTER, set_imm 1 (i_im temp),
     asm_mips_operand_fetch 1 ASM_MIPS_OTYPE_BRANCH] ins))"

definition asm_mips_bgtz :: mips_handler where
  "asm_mips_bgtz en buf ins = rbind (mips_convert_format_i en buf) (\<lambda>temp. Inr (4, stmts [
     set_instr ASM_MIPS_BGTZ, set_type (ASM_TYPE_BRANCH OR ASM_TYPE_CONDCONTROL),
     set_baser 0 (i_rs temp), asm_mips_operand_fetch 0 ASM_MIPS_OTYPE_REGISTER, set_imm 1 (i_im temp),
     asm_mips_operand_fetch 1 ASM_MIPS_OTYPE_BRANCH] ins))"

definition asm_mips_bgtzl :: mips_handler where
  "asm_mips_bgtzl en buf ins = rbind (mips_convert_format_i en buf) (\<lambda>temp. Inr (4, stmts [
     set_instr ASM_MIPS_BGTZL, set_type (ASM_TYPE_BRANCH OR ASM_TYPE_CONDCONTROL),
     set_baser 0 (i_rs temp), asm_mips_operand_fetch 0 ASM_MIPS_OTYPE_REGISTER, set_imm 1 (i_im temp),
     asm_mips_operand_fetch 1 ASM_MIPS_OTYPE_BRANCH] ins))"

definition asm_mips_blez :: mips_handler where
  "asm_mips_blez en buf ins = rbind (mips_convert_format_i en buf) (\<lambda>temp. Inr (4, stmts [
     set_instr ASM_MIPS_BLEZ, set_type (ASM_TYPE_BRANCH OR ASM_TYPE_CONDCONTROL),
     set_baser 0 (i_rs temp), asm_mips_operand_fetch 0 ASM_MIPS_OTYPE_REGISTER, set_imm 1 (i_im temp),
     asm_mips_operand_fetch 1 ASM_MIPS_OTYPE_BRANCH] ins))"

definition asm_mips_blezl :: mips_handler where
  "asm_mips_blezl en buf ins = rbind (mips_convert_format_i en buf) (\<lambda>temp. Inr (4, stmts [
     set_instr ASM_MIPS_BLEZL, set_type (ASM_TYPE_BRANCH OR ASM_TYPE_CONDCONTROL),
     set_baser 0 (i_rs temp), asm_mips_operand_fetch 0 ASM_MIPS_OTYPE_REGISTER, set_imm 1 (i_im temp),
     asm_mips_operand_fetch 1 ASM_MIPS_OTYPE_BRANCH] ins))"

definition asm_mips_bltz :: mips_handler where
  "asm_mips_bltz en buf ins = rbind (mips_convert_format_i en buf) (\<lambda>temp. Inr (4, stmts [
     set_instr ASM_MIPS_BLTZ, set_type (ASM_TYPE_BRANCH OR ASM_TYPE_CONDCONTROL),
     set_baser 0 (i_rs temp), asm_mips_operand_fetch 0 ASM_MIPS_OTYPE_REGISTER, set_imm 1 (i_im temp),
     asm_mips_operand_fetch 1 ASM_MIPS_OTYPE_BRANCH] ins))"

definition asm_mips_bltzal :: mips_handler where
  "asm_mips_bltzal en buf ins = rbind (mips_convert_format_i en buf) (\<lambda>temp. Inr (4, stmts [
     set_instr ASM_MIPS_BLTZAL, set_type (ASM_TYPE_CONDCONTROL OR ASM_TYPE_CALLPROC),
     set_baser 0 (i_rs temp), asm_mips_operand_fetch 0 ASM_MIPS_OTYPE_REGISTER, set_imm 1 (i_im temp),
     asm_mips_operand_fetch 1 ASM_MIPS_OTYPE_BRANCH] ins))"

definition asm_mips_bltzall :: mips_handler where
  "asm_mips_bltzall en buf ins = rbind (mips_convert_format_i en buf) (\<lambda>temp. Inr (4, stmts [
     set_instr ASM_MIPS_BLTZALL, set_type (ASM_TYPE_CONDCONTROL OR ASM_TYPE_CALLPROC),
     set_baser 0 (i_rs temp), asm_mips_operand_fetch 0 ASM_MIPS_OTYPE_REGISTER, set_imm 1 (i_im temp),
     asm_mips_operand_fetch 1 ASM_MIPS_OTYPE_BRANCH] ins))"

definition asm_mips_bltzl :: mips_handler where
  "asm_mips_bltzl en buf ins = rbind (mips_convert_format_i en buf) (\<lambda>temp. Inr (4, stmts [
     set_instr ASM_MIPS_BLTZL, set_type (ASM_TYPE_BRANCH OR ASM_TYPE_CONDCONTROL),
     set_baser 0 (i_rs temp), asm_mips_operand_fetch 0 ASM_MIPS_OTYPE_REGISTER, set_imm 1 (i_im temp),
     asm_mips_operand_fetch 1 ASM_MIPS_OTYPE_BRANCH] ins))"

definition asm_mips_bne :: mips_handler where
  "asm_mips_bne en buf ins = rbind (mips_convert_format_i en buf) (\<lambda>temp. Inr (4, stmts [
     set_instr ASM_MIPS_BNE, set_type (ASM_TYPE_BRANCH OR ASM_TYPE_CONDCONTROL),
     set_baser 0 (i_rs temp), asm_mips_operand_fetch 0 ASM_MIPS_OTYPE_REGISTER,
     set_baser 1 (i_rt temp), asm_mips_operand_fetch 1 ASM_MIPS_OTYPE_REGISTER, set_imm 2 (i_im temp),
     asm_mips_operand_fetch 2 ASM_MIPS_OTYPE_BRANCH] ins))"

definition asm_mips_bnel :: mips_handler where
  "asm_mips_bnel en buf ins = rbind (mips_convert_format_i en buf) (\<lambda>temp. Inr (4, stmts [
     set_instr ASM_MIPS_BNEL, set_type (ASM_TYPE_BRANCH OR ASM_TYPE_CONDCONTROL),
     set_baser 0 (i_rs temp), asm_mips_operand_fetch 0 ASM_MIPS_OTYPE_REGISTER,
     set_baser 1 (i_rt temp), asm_mips_operand_fetch 1 ASM_MIPS_OTYPE_REGISTER, set_imm 2 (i_im temp),
     asm_mips_operand_fetch 2 ASM_MIPS_OTYPE_BRANCH] ins))"

definition asm_mips_break :: mips_handler where
  "asm_mips_break en buf ins = Inr (4, stmts [set_instr ASM_MIPS_BREAK, set_type ASM_TYPE_STOP, asm_mips_operand_fetch 0 ASM_MIPS_OTYPE_NOOP] ins)"

definition asm_mips_c_eq_d :: mips_handler where
  "asm_mips_c_eq_d en buf ins = rbind (mips_convert_format_cop2 en buf) (\<lambda>temp. Inr (4, stmts [
     set_instr ASM_MIPS_C_EQ_D, set_type (ASM_TYPE_ARCH OR ASM_TYPE_ASSIGN OR ASM_TYPE_COMPARISON),
     set_baser 0 (c2_rd temp), asm_mips_operand_fetch 0 ASM_MIPS_OTYPE_REGISTER,
     set_baser 1 (c2_rt temp), asm_mips_operand_fetch 1 ASM_MIPS_OTYPE_REGISTER] ins))"

definition asm_mips_c_eq_ps :: mips_handler where
  "asm_mips_c_eq_ps en buf ins = rbind (mips_convert_format_cop2 en buf) (\<lambda>temp. Inr (4, stmts [
     set_instr ASM_MIPS_C_EQ_PS, set_type (ASM_TYPE_ARCH OR ASM_TYPE_ASSIGN OR ASM_TYPE_COMPARISON),
     set_baser 0 (c2_rd temp), asm_mips_operand_fetch 0 ASM_MIPS_OTYPE_REGISTER,
     set_baser 1 (c2_rt temp), asm_mips_operand_fetch 1 ASM_MIPS_OTYPE_REGISTER] ins))"

definition asm_mips_c_eq_s :: mips_handler where
  "asm_mips_c_eq_s en buf ins = rbind (mips_convert_format_cop2 en buf) (\<lambda>temp. Inr (4, stmts [
     set_instr ASM_MIPS_C_EQ_S, set_type (ASM_TYPE_ARCH OR ASM_TYPE_ASSIGN OR ASM_TYPE_COMPARISON),
     set_baser 0 (c2_rd temp), asm_mips_operand_fetch 0 ASM_MIPS_OTYPE_REGISTER,
     set_baser 1 (c2_rt temp), asm_mips_operand_fetch 1 ASM_MIPS_OTYPE_REGISTER] ins))"

definition asm_mips_c_f_d :: mips_handler where
  "asm_mips_c_f_d en buf ins = rbind (mips_convert_format_cop2 en buf) (\<lambda>temp. Inr (4, stmts [
     set_instr ASM_MIPS_C_F_D, set_type (ASM_TYPE_ARCH OR ASM_TYPE_ASSIGN OR ASM_TYPE_COMPARISON),
     set_baser 0 (c2_rd temp), asm_mips_operand_fetch 0 ASM_MIPS_OTYPE_REGISTER,
     set_baser 1 (c2_rt temp), asm_mips_operand_fetch 1 ASM_MIPS_OTYPE_REGISTER] ins))"

definition asm_mips_c_f_ps :: mips_handler where
  "asm_mips_c_f_ps en buf ins = rbind (mips_convert_format_cop2 en buf) (\<lambda>temp. Inr (4, stmts [
     set_instr ASM_MIPS_C_F_PS, set_type (ASM_TYPE_ARCH OR ASM_TYPE_ASSIGN OR ASM_TYPE_COMPARISON),
     set_baser 0 (c2_rd temp), asm_mips_operand_fetch 0 ASM_MIPS_OTYPE_REGISTER,
     set_baser 1 (c2_rt temp), asm_mips_operand_fetch 1 ASM_MIPS_OTYPE_REGISTER] ins))"

definition asm_mips_c_f_s :: mips_handler where
  "asm_mips_c_f_s en buf ins = rbind (mips_convert_format_cop2 en buf) (\<lambda>temp. Inr (4, stmts [
     set_instr ASM_MIPS_C_F_S, set_type (ASM_TYPE_ARCH OR ASM_TYPE_ASSIGN OR ASM_TYPE_COMPARISON),
     set_baser 0 (c2_rd temp), asm_mips_operand_fetch 0 ASM_MIPS_OTYPE_REGISTER,
     set_baser 1 (c2_rt temp), asm_mips_operand_fetch 1 ASM_MIPS_OTYPE_REGISTER] ins))"

definition asm_mips_c_le_d :: mips_handler where
  "asm_mips_c_le_d en buf ins = rbind (mips_convert_format_cop2 en buf) (\<lambda>temp. Inr (4, stmts [
     set_instr ASM_MIPS_C_LE_D, set_type (ASM_TYPE_ARCH OR ASM_TYPE_ASSIGN OR ASM_TYPE_COMPARISON),
     set_baser 0 (c2_rd temp), asm_mips_operand_fetch 0 ASM_MIPS_OTYPE_REGISTER,
     set_baser 1 (c2_rt temp), asm_mips_operand_fetch 1 ASM_MIPS_OTYPE_REGISTER] ins))"

definition asm_mips_c_le_ps :: mips_handler where
  "asm_mips_c_le_ps en buf ins = rbind (mips_convert_format_cop2 en buf) (\<lambda>temp. Inr (4, stmts [
     set_instr ASM_MIPS_C_LE_PS, set_type (ASM_TYPE_ARCH OR ASM_TYPE_ASSIGN OR ASM_TYPE_COMPARISON),
     set_baser 0 (c2_rd temp), asm_mips_operand_fetch 0 ASM_MIPS_OTYPE_REGISTER,
     set_baser 1 (c2_rt temp), asm_mips_operand_fetch 1 ASM_MIPS_OTYPE_REGISTER] ins))"

definition asm_mips_c_le_s :: mips_handler where
  "asm_mips_c_le_s en buf ins = rbind (mips_convert_format_cop2 en buf) (\<lambda>temp. Inr (4, stmts [
     set_instr ASM_MIPS_C_LE_S, set_type (ASM_TYPE_ARCH OR ASM_TYPE_ASSIGN OR ASM_TYPE_COMPARISON),
     set_baser 0 (c2_rd temp), asm_mips_operand_fetch 0 ASM_MIPS_OTYPE_REGISTER,
     set_baser 1 (c2_rt temp), asm_mips_operand_fetch 1 ASM_MIPS_OTYPE_REGISTER] ins))"

definition asm_mips_c_lt_d :: mips_handler where
  "asm_mips_c_lt_d en buf ins = rbind (mips_convert_format_cop2 en buf) (\<lambda>temp. Inr (4, stmts [
     set_instr ASM_MIPS_C_LT_D, set_type (ASM_TYPE_ARCH OR ASM_TYPE_ASSIGN OR ASM_TYPE_COMPARISON),
     set_baser 0 (c2_rd temp), asm_mips_operand_fetch 0 ASM_MIPS_OTYPE_REGISTER,
     set_baser 1 (c2_rt temp), asm_mips_operand_fetch 1 ASM_MIPS_OTYPE_REGISTER] ins))"

definition asm_mips_c_lt_ps :: mips_handler where
  "asm_mips_c_lt_ps en buf ins = rbind (mips_convert_format_cop2 en buf) (\<lambda>temp. Inr (4, stmts [
     set_instr ASM_MIPS_C_LT_PS, set_type (ASM_TYPE_ARCH OR ASM_TYPE_ASSIGN OR ASM_TYPE_COMPARISON),
     set_baser 0 (c2_rd temp), asm_mips_operand_fetch 0 ASM_MIPS_OTYPE_REGISTER,
     set_baser 1 (c2_rt temp), asm_mips_operand_fetch 1 ASM_MIPS_OTYPE_REGISTER] ins))"

definition asm_mips_c_lt_s :: mips_handler where
  "asm_mips_c_lt_s en buf ins = rbind (mips_convert_format_cop2 en buf) (\<lambda>temp. Inr (4, stmts [
     set_instr ASM_MIPS_C_LT_S, set_type (ASM_TYPE_ARCH OR ASM_TYPE_ASSIGN OR ASM_TYPE_COMPARISON),
     set_baser 0 (c2_rd temp), asm_mips_operand_fetch 0 ASM_MIPS_OTYPE_REGISTER,
     set_baser 1 (c2_rt temp), asm_mips_operand_fetch 1 ASM_MIPS_OTYPE_REGISTER] ins))"

definition asm_mips_c_nge_d :: mips_handler where
  "asm_mips_c_nge_d en buf ins = rbind (mips_convert_format_cop2 en buf) (\<lambda>temp. Inr (4, stmts [
     set_instr ASM_MIPS_C_NGE_D, set_type (ASM_TYPE_ARCH OR ASM_TYPE_ASSIGN OR ASM_TYPE_COMPARISON),
     set_baser 0 (c2_rd temp), asm_mips_operand_fetch 0 ASM_MIPS_OTYPE_REGISTER,
     set_baser 1 (c2_rt temp), asm_mips_operand_fetch 1 ASM_MIPS_OTYPE_REGISTER] ins))"

definition asm_mips_c_nge_ps :: mips_handler where
  "asm_mips_c_nge_ps en buf ins = rbind (mips_convert_format_cop2 en buf) (\<lambda>temp. Inr (4, stmts [
     set_instr ASM_MIPS_C_NGE_PS, set_type (ASM_TYPE_ARCH OR ASM_TYPE_ASSIGN OR ASM_TYPE_COMPARISON),
     set_baser 0 (c2_rd temp), asm_mips_operand_fetch 0 ASM_MIPS_OTYPE_REGISTER,
     set_baser 1 (c2_rt temp), asm_mips_operand_fetch 1 ASM_MIPS_OTYPE_REGISTER] ins))"

definition asm_mips_c_nge_s :: mips_handler where
  "asm_mips_c_nge_s en buf ins = rbind (mips_convert_format_cop2 en buf) (\<lambda>temp. Inr (4, stmts [
     set_instr ASM_MIPS_C_NGE_S, set_type (ASM_TYPE_ARCH OR ASM_TYPE_ASSIGN OR ASM_TYPE_COMPARISON),
     set_baser 0 (c2_rd temp), asm_mips_operand_fetch 0 ASM_MIPS_OTYPE_REGISTER,
     set_baser 1 (c2_rt temp), asm_mips_operand_fetch 1 ASM_MIPS_OTYPE_REGISTER] ins))"

definition asm_mips_c_ngl_d :: mips_handler where
  "asm_mips_c_ngl_d en buf ins = rbind (mips_convert_format_cop2 en buf) (\<lambda>temp. Inr (4, stmts [
     set_instr ASM_MIPS_C_NGL_D, set_type (ASM_TYPE_ARCH OR ASM_TYPE_ASSIGN OR ASM_TYPE_COMPARISON),
     set_baser 0 (c2_rd temp), asm_mips_operand_fetch 0 ASM_MIPS_OTYPE_REGISTER,
     set_baser 1 (c2_rt temp), asm_mips_operand_fetch 1 ASM_MIPS_OTYPE_REGISTER] ins))"

definition asm_mips_c_ngl_ps :: mips_handler where
  "asm_mips_c_ngl_ps en buf ins = rbind (mips_convert_format_cop2 en buf) (\<lambda>temp. Inr (4, stmts [
     set_instr ASM_MIPS_C_NGL_PS, set_type (ASM_TYPE_ARCH OR ASM_TYPE_ASSIGN OR ASM_TYPE_COMPARISON),
     set_baser 0 (c2_rd temp), asm_mips_operand_fetch 0 ASM_MIPS_OTYPE_REGISTER,
     set_baser 1 (c2_rt temp), asm_mips_operand_fetch 1 ASM_MIPS_OTYPE_REGISTER] ins))"

definition asm_mips_c_ngl_s :: mips_handler where
  "asm_mips_c_ngl_s en buf ins = rbind (mips_convert_format_cop2 en buf) (\<lambda>temp. Inr (4, stmts [
     set_instr ASM_MIPS_C_NGL_S, set_type (ASM_TYPE_ARCH OR ASM_TYPE_ASSIGN OR ASM_TYPE_COMPARISON),
     set_baser 0 (c2_rd temp), asm_mips_operand_fetch 0 ASM_MIPS_OTYPE_REGISTER,
     set_baser 1 (c2_rt temp), asm_mips_operand_fetch 1 ASM_MIPS_OTYPE_REGISTER] ins))"

definition asm_mips_c_ngle_d :: mips_handler where
  "asm_mips_c_ngle_d en buf ins = rbind (mips_convert_format_cop2 en buf) (\<lambda>temp. Inr (4, stmts [
     set_instr ASM_MIPS_C_NGLE_D, set_type (ASM_TYPE_ARCH OR ASM_TYPE_ASSIGN OR ASM_TYPE_COMPARISON),
     set_baser 0 (c2_rd temp), asm_mips_operand_fetch 0 ASM_MIPS_OTYPE_REGISTER,
     set_baser 1 (c2_rt temp), asm_mips_operand_fetch 1 ASM_MIPS_OTYPE_REGISTER] ins))"

definition asm_mips_c_ngle_ps :: mips_handler where
  "asm_mips_c_ngle_ps en buf ins = rbind (mips_convert_format_cop2 en buf) (\<lambda>temp. Inr (4, stmts [
     set_instr ASM_MIPS_C_NGLE_PS, set_type (ASM_TYPE_ARCH OR ASM_TYPE_ASSIGN OR ASM_TYPE_COMPARISON),
     set_baser 0 (c2_rd temp), asm_mips_operand_fetch 0 ASM_MIPS_OTYPE_REGISTER,
     set_baser 1 (c2_rt temp), asm_mips_operand_fetch 1 ASM_MIPS_OTYPE_REGISTER] ins))"

definition asm_mips_c_ngle_s :: mips_handler where
  "asm_mips_c_ngle_s en buf ins = rbind (mips_convert_format_cop2 en buf) (\<lambda>temp. Inr (4, stmts [
     set_instr ASM_MIPS_C_NGLE_S, set_type (ASM_TYPE_ARCH OR ASM_TYPE_ASSIGN OR ASM_TYPE_COMPARISON),
     set_baser 0 (c2_rd temp), asm_mips_operand_fetch 0 ASM_MIPS_OTYPE_REGISTER,
     set_baser 1 (c2_rt temp), asm_mips_operand_fetch 1 ASM_MIPS_OTYPE_REGISTER] ins))"

definition asm_mips_c_ngt_d :: mips_handler where
  "asm_mips_c_ngt_d en buf ins = rbind (mips_convert_format_cop2 en buf) (\<lambda>temp. Inr (4, stmts [
     set_instr ASM_MIPS_C_NGT_D, set_type (ASM_TYPE_ARCH OR ASM_TYPE_ASSIGN OR ASM_TYPE_COMPARISON),
     set_baser 0 (c2_rd temp), asm_mips_operand_fetch 0 ASM_MIPS_OTYPE_REGISTER,
     set_baser 1 (c2_rt temp), asm_mips_operand_fetch 1 ASM_MIPS_OTYPE_REGISTER] ins))"

definition asm_mips_c_ngt_ps :: mips_handler where
  "asm_mips_c_ngt_ps en buf ins = rbind (mips_convert_format_cop2 en buf) (\<lambda>temp. Inr (4, stmts [
     set_instr ASM_MIPS_C_NGT_PS, set_type (ASM_TYPE_ARCH OR ASM_TYPE_ASSIGN OR ASM_TYPE_COMPARISON),
     set_baser 0 (c2_rd temp), asm_mips_operand_fetch 0 ASM_MIPS_OTYPE_REGISTER,
     set_baser 1 (c2_rt temp), asm_mips_operand_fetch 1 ASM_MIPS_OTYPE_REGISTER] ins))"

definition asm_mips_c_ngt_s :: mips_handler where
  "asm_mips_c_ngt_s en buf ins = rbind (mips_convert_format_cop2 en buf) (\<lambda>temp. Inr (4, stmts [
     set_instr ASM_MIPS_C_NGT_S, set_type (ASM_TYPE_ARCH OR ASM_TYPE_ASSIGN OR ASM_TYPE_COMPARISON),
     set_baser 0 (c2_rd temp), asm_mips_operand_fetch 0 ASM_MIPS_OTYPE_REGISTER,
     set_baser 1 (c2_rt temp), asm_mips_operand_fetch 1 ASM_MIPS_OTYPE_REGISTER] ins))"

definition asm_mips_c_ole_d :: mips_handler where
  "asm_mips_c_ole_d en buf ins = rbind (mips_convert_format_cop2 en buf) (\<lambda>temp. Inr (4, stmts [
     set_instr ASM_MIPS_C_OLE_D, set_type (ASM_TYPE_ARCH OR ASM_TYPE_ASSIGN OR ASM_TYPE_COMPARISON),
     set_baser 0 (c2_rd temp), asm_mips_operand_fetch 0 ASM_MIPS_OTYPE_REGISTER,
     set_baser 1 (c2_rt temp), asm_mips_operand_fetch 1 ASM_MIPS_OTYPE_REGISTER] ins))"

definition asm_mips_c_ole_ps :: mips_handler where
  "asm_mips_c_ole_ps en buf ins = rbind (mips_convert_format_cop2 en buf) (\<lambda>temp. Inr (4, stmts [
     set_instr ASM_MIPS_C_OLE_PS, set_type (ASM_TYPE_ARCH OR ASM_TYPE_ASSIGN OR ASM_TYPE_COMPARISON),
     set_baser 0 (c2_rd temp), asm_mips_operand_fetch 0 ASM_MIPS_OTYPE_REGISTER,
     set_baser 1 (c2_rt temp), asm_mips_operand_fetch 1 ASM_MIPS_OTYPE_REGISTER] ins))"

definition asm_mips_c_ole_s :: mips_handler where
  "asm_mips_c_ole_s en buf ins = rbind (mips_convert_format_cop2 en buf) (\<lambda>temp. Inr (4, stmts [
     set_instr ASM_MIPS_C_OLE_S, set_type (ASM_TYPE_ARCH OR ASM_TYPE_ASSIGN OR ASM_TYPE_COMPARISON),
     set_baser 0 (c2_rd temp), asm_mips_operand_fetch 0 ASM_MIPS_OTYPE_REGISTER,
     set_baser 1 (c2_rt temp), asm_mips_operand_fetch 1 ASM_MIPS_OTYPE_REGISTER] ins))"

definition asm_mips_c_olt_d :: mips_handler where
  "asm_mips_c_olt_d en buf ins = rbind (mips_convert_format_cop2 en buf) (\<lambda>temp. Inr (4, stmts [
     set_instr ASM_MIPS_C_OLT_D, set_type (ASM_TYPE_ARCH OR ASM_TYPE_ASSIGN OR ASM_TYPE_COMPARISON),
     set_baser 0 (c2_rd temp), asm_mips_operand_fetch 0 ASM_MIPS_OTYPE_REGISTER,
     set_baser 1 (c2_rt temp), asm_mips_operand_fetch 1 ASM_MIPS_OTYPE_REGISTER] ins))"

definition asm_mips_c_olt_ps :: mips_handler where
  "asm_mips_c_olt_ps en buf ins = rbind (mips_convert_format_cop2 en buf) (\<lambda>temp. Inr (4, stmts [
     set_instr ASM_MIPS_C_OLT_PS, set_type (ASM_TYPE_ARCH OR ASM_TYPE_ASSIGN OR ASM_TYPE_COMPARISON),
     set_baser 0 (c2_rd temp), asm_mips_operand_fetch 0 ASM_MIPS_OTYPE_REGISTER,
     set_baser 1 (c2_rt temp), asm_mips_operand_fetch 1 ASM_MIPS_OTYPE_REGISTER] ins))"

definition asm_mips_c_olt_s :: mips_handler where
  "asm_mips_c_olt_s en buf ins = rbind (mips_convert_format_cop2 en buf) (\<lambda>temp. Inr (4, stmts [
     set_instr ASM_MIPS_C_OLT_S, set_type (ASM_TYPE_ARCH OR ASM_TYPE_ASSIGN OR ASM_TYPE_COMPARISON),
     set_baser 0 (c2_rd temp), asm_mips_operand_fetch 0 ASM_MIPS_OTYPE_REGISTER,
     set_baser 1 (c2_rt temp), asm_mips_operand_fetch 1 ASM_MIPS_OTYPE_REGISTER] ins))"

definition asm_mips_c_seq_d :: mips_handler where
  "asm_mips_c_seq_d en buf ins = rbind (mips_convert_format_cop2 en buf) (\<lambda>temp. Inr (4, stmts [
     set_instr ASM_MIPS_C_SEQ_D, set_type (ASM_TYPE_ARCH OR ASM_TYPE_ASSIGN OR ASM_TYPE_COMPARISON),
     set_baser 0 (c2_rd temp), asm_mips_operand_fetch 0 ASM_MIPS_OTYPE_REGISTER,
     set_baser 1 (c2_rt temp), asm_mips_operand_fetch 1 ASM_MIPS_OTYPE_REGISTER] ins))"

definition asm_mips_c_seq_ps :: mips_handler where
  "asm_mips_c_seq_ps en buf ins = rbind (mips_convert_format_cop2 en buf) (\<lambda>temp. Inr (4, stmts [
     set_instr ASM_MIPS_C_SEQ_PS, set_type (ASM_TYPE_ARCH OR ASM_TYPE_ASSIGN OR ASM_TYPE_COMPARISON),
     set_baser 0 (c2_rd temp), asm_mips_operand_fetch 0 ASM_MIPS_OTYPE_REGISTER,
     set_baser 1 (c2_rt temp), asm_mips_operand_fetch 1 ASM_MIPS_OTYPE_REGISTER] ins))"

definition asm_mips_c_seq_s :: mips_handler where
  "asm_mips_c_seq_s en buf ins = rbind (mips_convert_format_cop2 en buf) (\<lambda>temp. Inr (4, stmts [
     set_instr ASM_MIPS_C_SEQ_S, set_type (ASM_TYPE_ARCH OR ASM_TYPE_ASSIGN OR ASM_TYPE_COMPARISON),
     set_baser 0 (c2_rd temp), asm_mips_operand_fetch 0 ASM_MIPS_OTYPE_REGISTER,
     set_baser 1 (c2_rt temp), asm_mips_operand_fetch 1 ASM_MIPS_OTYPE_REGISTER] ins))"

definition asm_mips_c_sf_d :: mips_handler where
  "asm_mips_c_sf_d en buf ins = rbind (mips_convert_format_cop2 en buf) (\<lambda>temp. Inr (4, stmts [
     set_instr ASM_MIPS_C_SF_D, set_type (ASM_TYPE_ARCH OR ASM_TYPE_ASSIGN OR ASM_TYPE_COMPARISON),
     set_baser 0 (c2_rd temp), asm_mips_operand_fetch 0 ASM_MIPS_OTYPE_REGISTER,
     set_baser 1 (c2_rt temp), asm_mips_operand_fetch 1 ASM_MIPS_OTYPE_REGISTER] ins))"

definition asm_mips_c_sf_ps :: mips_handler where
  "asm_mips_c_sf_ps en buf ins = rbind (mips_convert_format_cop2 en buf) (\<lambda>temp. Inr (4, stmts [
     set_instr ASM_MIPS_C_SF_PS, set_type (ASM_TYPE_ARCH OR ASM_TYPE_ASSIGN OR ASM_TYPE_COMPARISON),
     set_baser 0 (c2_rd temp), asm_mips_operand_fetch 0 ASM_MIPS_OTYPE_REGISTER,
     set_baser 1 (c2_rt temp), asm_mips_operand_fetch 1 ASM_MIPS_OTYPE_REGISTER] ins))"

definition asm_mips_c_sf_s :: mips_handler where
  "asm_mips_c_sf_s en buf ins = rbind (mips_convert_format_cop2 en buf) (\<lambda>temp. Inr (4, stmts [
     set_instr ASM_MIPS_C_SF_S, set_type (ASM_TYPE_ARCH OR ASM_TYPE_ASSIGN OR ASM_TYPE_COMPARISON),
     set_baser 0 (c2_rd temp), asm_mips_operand_fetch 0 ASM_MIPS_OTYPE_REGISTER,
     set_baser 1 (c2_rt temp), asm_mips_operand_fetch 1 ASM_MIPS_OTYPE_REGISTER] ins))"

definition asm_mips_c_ueq_d :: mips_handler where
  "asm_mips_c_ueq_d en buf ins = rbind (mips_convert_format_cop2 en buf) (\<lambda>temp. Inr (4, stmts [
     set_instr ASM_MIPS_C_UEQ_D, set_type (ASM_TYPE_ARCH OR ASM_TYPE_ASSIGN OR ASM_TYPE_COMPARISON),
     set_baser 0 (c2_rd temp), asm_mips_operand_fetch 0 ASM_MIPS_OTYPE_REGISTER,
     set_baser 1 (c2_rt temp), asm_mips_operand_fetch 1 ASM_MIPS_OTYPE_REGISTER] ins))"

definition asm_mips_c_ueq_ps :: mips_handler where
  "asm_mips_c_ueq_ps en buf ins = rbind (mips_convert_format_cop2 en buf) (\<lambda>temp. Inr (4, stmts [
     set_instr ASM_MIPS_C_UEQ_PS, set_type (ASM_TYPE_ARCH OR ASM_TYPE_ASSIGN OR ASM_TYPE_COMPARISON),
     set_baser 0 (c2_rd temp), asm_mips_operand_fetch 0 ASM_MIPS_OTYPE_REGISTER,
     set_baser 1 (c2_rt temp), asm_mips_operand_fetch 1 ASM_MIPS_OTYPE_REGISTER] ins))"

definition asm_mips_c_ueq_s :: mips_handler where
  "asm_mips_c_ueq_s en buf ins = rbind (mips_convert_format_cop2 en buf) (\<lambda>temp. Inr (4, stmts [
     set_instr ASM_MIPS_C_UEQ_S, set_type (ASM_TYPE_ARCH OR ASM_TYPE_ASSIGN OR ASM_TYPE_COMPARISON),
     set_baser 0 (c2_rd temp), asm_mips_operand_fetch 0 ASM_MIPS_OTYPE_REGISTER,
     set_baser 1 (c2_rt temp), asm_mips_operand_fetch 1 ASM_MIPS_OTYPE_REGISTER] ins))"

definition asm_mips_c_ule_d :: mips_handler where
  "asm_mips_c_ule_d en buf ins = rbind (mips_convert_format_cop2 en buf) (\<lambda>temp. Inr (4, stmts [
     set_instr ASM_MIPS_C_ULE_D, set_type (ASM_TYPE_ARCH OR ASM_TYPE_ASSIGN OR ASM_TYPE_COMPARISON),
     set_baser 0 (c2_rd temp), asm_mips_operand_fetch 0 ASM_MIPS_OTYPE_REGISTER,
     set_baser 1 (c2_rt temp), asm_mips_operand_fetch 1 ASM_MIPS_OTYPE_REGISTER] ins))"

definition asm_mips_c_ule_ps :: mips_handler where
  "asm_mips_c_ule_ps en buf ins = rbind (mips_convert_format_cop2 en buf) (\<lambda>temp. Inr (4, stmts [
     set_instr ASM_MIPS_C_ULE_PS, set_type (ASM_TYPE_ARCH OR ASM_TYPE_ASSIGN OR ASM_TYPE_COMPARISON),
     set_baser 0 (c2_rd temp), asm_mips_operand_fetch 0 ASM_MIPS_OTYPE_REGISTER,
     set_baser 1 (c2_rt temp), asm_mips_operand_fetch 1 ASM_MIPS_OTYPE_REGISTER] ins))"

definition asm_mips_c_ule_s :: mips_handler where
  "asm_mips_c_ule_s en buf ins = rbind (mips_convert_format_cop2 en buf) (\<lambda>temp. Inr (4, stmts [
     set_instr ASM_MIPS_C_ULE_S, set_type (ASM_TYPE_ARCH OR ASM_TYPE_ASSIGN OR ASM_TYPE_COMPARISON),
     set_baser 0 (c2_rd temp), asm_mips_operand_fetch 0 ASM_MIPS_OTYPE_REGISTER,
     set_baser 1 (c2_rt temp), asm_mips_operand_fetch 1 ASM_MIPS_OTYPE_REGISTER] ins))"

definition asm_mips_c_ult_d :: mips_handler where
  "asm_mips_c_ult_d en buf ins = rbind (mips_convert_format_cop2 en buf) (\<lambda>temp. Inr (4, stmts [
     set_instr ASM_MIPS_C_ULT_D, set_type (ASM_TYPE_ARCH OR ASM_TYPE_ASSIGN OR ASM_TYPE_COMPARISON),
     set_baser 0 (c2_rd temp), asm_mips_operand_fetch 0 ASM_MIPS_OTYPE_REGISTER,
     set_baser 1 (c2_rt temp), asm_mips_operand_fetch 1 ASM_MIPS_OTYPE_REGISTER] ins))"

definition asm_mips_c_ult_ps :: mips_handler where
  "asm_mips_c_ult_ps en buf ins = rbind (mips_convert_format_cop2 en buf) (\<lambda>temp. Inr (4, stmts [
     set_instr ASM_MIPS_C_ULT_PS, set_type (ASM_TYPE_ARCH OR ASM_TYPE_ASSIGN OR ASM_TYPE_COMPARISON),
     set_baser 0 (c2_rd temp), asm_mips_operand_fetch 0 ASM_MIPS_OTYPE_REGISTER,
     set_baser 1 (c2_rt temp), asm_mips_operand_fetch 1 ASM_MIPS_OTYPE_REGISTER] ins))"

definition asm_mips_c_ult_s :: mips_handler where
  "asm_mips_c_ult_s en buf ins = rbind (mips_convert_format_cop2 en buf) (\<lambda>temp. Inr (4, stmts [
     set_instr ASM_MIPS_C_ULT_S, set_type (ASM_TYPE_ARCH OR ASM_TYPE_ASSIGN OR ASM_TYPE_COMPARISON),
     set_baser 0 (c2_rd temp), asm_mips_operand_fetch 0 ASM_MIPS_OTYPE_REGISTER,
     set_baser 1 (c2_rt temp), asm_mips_operand_fetch 1 ASM_MIPS_OTYPE_REGISTER] ins))"

definition asm_mips_c_un_d :: mips_handler where
  "asm_mips_c_un_d en buf ins = rbind (mips_convert_format_cop2 en buf) (\<lambda>temp. Inr (4, stmts [
     set_instr ASM_MIPS_C_UN_D, set_type (ASM_TYPE_ARCH OR ASM_TYPE_ASSIGN OR ASM_TYPE_COMPARISON),
     set_baser 0 (c2_rd temp), asm_mips_operand_fetch 0 ASM_MIPS_OTYPE_REGISTER,
     set_baser 1 (c2_rt temp), asm_mips_operand_fetch 1 ASM_MIPS_OTYPE_REGISTER] ins))"

definition asm_mips_c_un_ps :: mips_handler where
  "asm_mips_c_un_ps en buf ins = rbind (mips_convert_format_cop2 en buf) (\<lambda>temp. Inr (4, stmts [
     set_instr ASM_MIPS_C_UN_PS, set_type (ASM_TYPE_ARCH OR ASM_TYPE_ASSIGN OR ASM_TYPE_COMPARISON),
     set_baser 0 (c2_rd temp), asm_mips_operand_fetch 0 ASM_MIPS_OTYPE_REGISTER,
     set_baser 1 (c2_rt temp), asm_mips_operand_fetch 1 ASM_MIPS_OTYPE_REGISTER] ins))"

definition asm_mips_c_un_s :: mips_handler where
  "asm_mips_c_un_s en buf ins = rbind (mips_convert_format_cop2 en buf) (\<lambda>temp. Inr (4, stmts [
     set_instr ASM_MIPS_C_UN_S, set_type (ASM_TYPE_ARCH OR ASM_TYPE_ASSIGN OR ASM_TYPE_COMPARISON),
     set_baser 0 (c2_rd temp), asm_mips_operand_fetch 0 ASM_MIPS_OTYPE_REGISTER,
     set_baser 1 (c2_rt temp), asm_mips_operand_fetch 1 ASM_MIPS_OTYPE_REGISTER] ins))"

definition asm_mips_ceil_l_d :: mips_handler where
  "asm_mips_ceil_l_d en buf ins = rbind (mips_convert_format_r en buf) (\<lambda>temp. Inr (4, stmts [
     set_instr ASM_MIPS_CEIL_L_D, set_type (ASM_TYPE_ARITH OR ASM_TYPE_ARCH),
     set_regset 0 ASM_MIPS_REG_FPU, set_baser 0 (r_sa temp),
     asm_mips_operand_fetch 0 ASM_MIPS_OTYPE_REGISTER, set_regset 1 ASM_MIPS_REG_FPU,
     set_baser 1 (r_rd temp), asm_mips_operand_fetch 1 ASM_MIPS_OTYPE_REGISTER] ins))"

definition asm_mips_ceil_l_s :: mips_handler where
  "asm_mips_ceil_l_s en buf ins = rbind (mips_convert_format_r en buf) (\<lambda>temp. Inr (4, stmts [
     set_instr ASM_MIPS_CEIL_L_S, set_type (ASM_TYPE_ARITH OR ASM_TYPE_ARCH),
     set_regset 0 ASM_MIPS_REG_FPU, set_baser 0 (r_sa temp),
     asm_mips_operand_fetch 0 ASM_MIPS_OTYPE_REGISTER, set_regset 1 ASM_MIPS_REG_FPU,
     set_baser 1 (r_rd temp), asm_mips_operand_fetch 1 ASM_MIPS_OTYPE_REGISTER] ins))"

definition asm_mips_ceil_w_d :: mips_handler where
  "asm_mips_ceil_w_d en buf ins = rbind (mips_convert_format_r en buf) (\<lambda>temp. Inr (4, stmts [
     set_instr ASM_MIPS_CEIL_W_D, set_type (ASM_TYPE_ARITH OR ASM_TYPE_ARCH),
     set_regset 0 ASM_MIPS_REG_FPU, set_baser 0 (r_sa temp),
     asm_mips_operand_fetch 0 ASM_MIPS_OTYPE_REGISTER, set_regset 1 ASM_MIPS_REG_FPU,
     set_baser 1 (r_rd temp), asm_mips_operand_fetch 1 ASM_MIPS_OTYPE_REGISTER] ins))"

definition asm_mips_ceil_w_s :: mips_handler where
  "asm_mips_ceil_w_s en buf ins = rbind (mips_convert_format_r en buf) (\<lambda>temp. Inr (4, stmts [
     set_instr ASM_MIPS_CEIL_W_S, set_type (ASM_TYPE_ARITH OR ASM_TYPE_ARCH),
     set_regset 0 ASM_MIPS_REG_FPU, set_baser 0 (r_sa temp),
     asm_mips_operand_fetch 0 ASM_MIPS_OTYPE_REGISTER, set_regset 1 ASM_MIPS_REG_FPU,
     set_baser 1 (r_rd temp), asm_mips_operand_fetch 1 ASM_MIPS_OTYPE_REGISTER] ins))"

definition asm_mips_cfc1 :: mips_handler where
  "asm_mips_cfc1 en buf ins = rbind (mips_convert_format_cop2 en buf) (\<lambda>temp. Inr (4, stmts [
     set_instr ASM_MIPS_CFC1, set_type (ASM_TYPE_ARCH OR ASM_TYPE_ASSIGN), set_baser 0 (c2_rt temp),
     asm_mips_operand_fetch 0 ASM_MIPS_OTYPE_REGISTER, set_baser 1 (c2_rd temp),
     asm_mips_operand_fetch 1 ASM_MIPS_OTYPE_REGISTER] ins))"

definition asm_mips_cfc2 :: mips_handler where
  "asm_mips_cfc2 en buf ins = rbind (mips_convert_format_cop2 en buf) (\<lambda>temp. Inr (4, stmts [
     set_instr ASM_MIPS_CFC2, set_type (ASM_TYPE_ARCH OR ASM_TYPE_ASSIGN), set_baser 0 (c2_rt temp),
     asm_mips_operand_fetch 0 ASM_MIPS_OTYPE_REGISTER, set_baser 1 (c2_rd temp),
     asm_mips_operand_fetch 1 ASM_MIPS_OTYPE_REGISTER] ins))"

definition asm_mips_clo :: mips_handler where
  "asm_mips_clo en buf ins = rbind (mips_convert_format_r en buf) (\<lambda>temp. Inr (4, stmts [
     set_instr ASM_MIPS_CLO, set_type ASM_TYPE_ARCH, set_baser 0 (r_rd temp),
     asm_mips_operand_fetch 0 ASM_MIPS_OTYPE_REGISTER, set_baser 1 (r_rs temp),
     asm_mips_operand_fetch 1 ASM_MIPS_OTYPE_REGISTER] ins))"

definition asm_mips_clz :: mips_handler where
  "asm_mips_clz en buf ins = rbind (mips_convert_format_r en buf) (\<lambda>temp. Inr (4, stmts [
     set_instr ASM_MIPS_CLZ, set_type ASM_TYPE_ARCH, set_baser 0 (r_rd temp),
     asm_mips_operand_fetch 0 ASM_MIPS_OTYPE_REGISTER, set_baser 1 (r_rs temp),
     asm_mips_operand_fetch 1 ASM_MIPS_OTYPE_REGISTER] ins))"

definition asm_mips_cop2 :: mips_handler where
  "asm_mips_cop2 en buf ins = Inr (4, stmts [set_instr ASM_MIPS_COP2, set_type ASM_TYPE_ARCH] ins)"

definition asm_mips_ctc1 :: mips_handler where
  "asm_mips_ctc1 en buf ins = rbind (mips_convert_format_cop2 en buf) (\<lambda>temp. Inr (4, stmts [
     set_instr ASM_MIPS_CTC1, set_type (ASM_TYPE_ARCH OR ASM_TYPE_ASSIGN), set_baser 0 (c2_rt temp),
     asm_mips_operand_fetch 0 ASM_MIPS_OTYPE_REGISTER, set_baser 1 (c2_rd temp),
     asm_mips_operand_fetch 1 ASM_MIPS_OTYPE_REGISTER] ins))"

definition asm_mips_ctc2 :: mips_handler where
  "asm_mips_ctc2 en buf ins = rbind (mips_convert_format_cop2 en buf) (\<lambda>temp. Inr (4, stmts [
     set_instr ASM_MIPS_CTC2, set_type (ASM_TYPE_ARCH OR ASM_TYPE_ASSIGN), set_baser 0 (c2_rt temp),
     asm_mips_operand_fetch 0 ASM_MIPS_OTYPE_REGISTER, set_baser 1 (c2_rd temp),
     asm_mips_operand_fetch 1 ASM_MIPS_OTYPE_REGISTER] ins))"

definition asm_mips_cvt_d_l :: mips_handler where
  "asm_mips_cvt_d_l en buf ins = rbind (mips_convert_format_r en buf) (\<lambda>temp. Inr (4, stmts [
     set_instr ASM_MIPS_CVT_D_L, set_type (ASM_TYPE_ARITH OR ASM_TYPE_ARCH),
     set_regset 0 ASM_MIPS_REG_FPU, set_baser 0 (r_sa temp),
     asm_mips_operand_fetch 0 ASM_MIPS_OTYPE_REGISTER, set_regset 1 ASM_MIPS_REG_FPU,
     set_baser 1 (r_rd temp), asm_mips_operand_fetch 1 ASM_MIPS_OTYPE_REGISTER] ins))"

definition asm_mips_cvt_d_s :: mips_handler where
  "asm_mips_cvt_d_s en buf ins = rbind (mips_convert_format_r en buf) (\<lambda>temp. Inr (4, stmts [
     set_instr ASM_MIPS_CVT_D_S, set_type (ASM_TYPE_ARITH OR ASM_TYPE_ARCH),
     set_regset 0 ASM_MIPS_REG_FPU, set_baser 0 (r_sa temp),
     asm_mips_operand_fetch 0 ASM_MIPS_OTYPE_REGISTER, set_regset 1 ASM_MIPS_REG_FPU,
     set_baser 1 (r_rd temp), asm_mips_operand_fetch 1 ASM_MIPS_OTYPE_REGISTER] ins))"

definition asm_mips_cvt_d_w :: mips_handler where
  "asm_mips_cvt_d_w en buf ins = rbind (mips_convert_format_r en buf) (\<lambda>temp. Inr (4, stmts [
     set_instr ASM_MIPS_CVT_D_W, set_type (ASM_TYPE_ARITH OR ASM_TYPE_ARCH),
     set_regset 0 ASM_MIPS_REG_FPU, set_baser 0 (r_sa temp),
     asm_mips_operand_fetch 0 ASM_MIPS_OTYPE_REGISTER, set_regset 1 ASM_MIPS_REG_FPU,
     set_baser 1 (r_rd temp), asm_mips_operand_fetch 1 ASM_MIPS_OTYPE_REGISTER] ins))"

definition asm_mips_cvt_l_d :: mips_handler where
  "asm_mips_cvt_l_d en buf ins = rbind (mips_convert_format_r en buf) (\<lambda>temp. Inr (4, stmts [
     set_instr ASM_MIPS_CVT_L_D, set_type (ASM_TYPE_ARITH OR ASM_TYPE_ARCH),
     set_regset 0 ASM_MIPS_REG_FPU, set_baser 0 (r_sa temp),
     asm_mips_operand_fetch 0 ASM_MIPS_OTYPE_REGISTER, set_regset 1 ASM_MIPS_REG_FPU,
     set_baser 1 (r_rd temp), asm_mips_operand_fetch 1 ASM_MIPS_OTYPE_REGISTER] ins))"

definition asm_mips_cvt_l_s :: mips_handler where
  "asm_mips_cvt_l_s en buf ins = rbind (mips_convert_format_r en buf) (\<lambda>temp. Inr (4, stmts [
     set_instr ASM_MIPS_CVT_L_S, set_type (ASM_TYPE_ARITH OR ASM_TYPE_ARCH),
     set_regset 0 ASM_MIPS_REG_FPU, set_baser 0 (r_sa temp),
     asm_mips_operand_fetch 0 ASM_MIPS_OTYPE_REGISTER, set_regset 1 ASM_MIPS_REG_FPU,
     set_baser 1 (r_rd temp), asm_mips_operand_fetch 1 ASM_MIPS_OTYPE_REGISTER] ins))"

definition asm_mips_cvt_ps_s :: mips_handler where
  "asm_mips_cvt_ps_s en buf ins = rbind (mips_convert_format_r en buf) (\<lambda>temp. Inr (4, stmts [
     set_instr ASM_MIPS_CVT_PS_S, set_type (ASM_TYPE_ARITH OR ASM_TYPE_ARCH),
     set_regset 0 ASM_MIPS_REG_FPU, set_baser 0 (r_sa temp),
     asm_mips_operand_fetch 0 ASM_MIPS_OTYPE_REGISTER, set_regset 1 ASM_MIPS_REG_FPU,
     set_baser 1 (r_rd temp), asm_mips_operand_fetch 1 ASM_MIPS_OTYPE_REGISTER,
     set_regset 2 ASM_MIPS_REG_FPU, set_baser 2 (r_rt temp),
     asm_mips_operand_fetch 2 ASM_MIPS_OTYPE_REGISTER] ins))"

definition asm_mips_cvt_s_d :: mips_handler where
  "asm_mips_cvt_s_d en buf ins = rbind (mips_convert_format_r en buf) (\<lambda>temp. Inr (4, stmts [
     set_instr ASM_MIPS_CVT_S_D, set_type (ASM_TYPE_ARITH OR ASM_TYPE_ARCH),
     set_regset 0 ASM_MIPS_REG_FPU, set_baser 0 (r_sa temp),
     asm_mips_operand_fetch 0 ASM_MIPS_OTYPE_REGISTER, set_regset 1 ASM_MIPS_REG_FPU,
     set_baser 1 (r_rd temp), asm_mips_operand_fetch 1 ASM_MIPS_OTYPE_REGISTER] ins))"

definition asm_mips_cvt_s_l :: mips_handler where
  "asm_mips_cvt_s_l en buf ins = rbind (mips_convert_format_r en buf) (\<lambda>temp. Inr (4, stmts [
     set_instr ASM_MIPS_CVT_S_L, set_type (ASM_TYPE_ARITH OR ASM_TYPE_ARCH),
     set_regset 0 ASM_MIPS_REG_FPU, set_baser 0 (r_sa temp),
     asm_mips_operand_fetch 0 ASM_MIPS_OTYPE_REGISTER, set_regset 1 ASM_MIPS_REG_FPU,
     set_baser 1 (r_rd temp), asm_mips_operand_fetch 1 ASM_MIPS_OTYPE_REGISTER] ins))"

definition asm_mips_cvt_s_pl :: mips_handler where
  "asm_mips_cvt_s_pl en buf ins = rbind (mips_convert_format_r en buf) (\<lambda>temp. Inr (4, stmts [
     set_instr ASM_MIPS_CVT_S_PL, set_type (ASM_TYPE_ARITH OR ASM_TYPE_ARCH),
     set_regset 0 ASM_MIPS_REG_FPU, set_baser 0 (r_sa temp),
     asm_mips_operand_fetch 0 ASM_MIPS_OTYPE_REGISTER, set_regset 1 ASM_MIPS_REG_FPU,
     set_baser 1 (r_rd temp), asm_mips_operand_fetch 1 ASM_MIPS_OTYPE_REGISTER] ins))"

definition asm_mips_cvt_s_pu :: mips_handler where
  "asm_mips_cvt_s_pu en buf ins = rbind (mips_convert_format_r en buf) (\<lambda>temp. Inr (4, stmts [
     set_instr ASM_MIPS_CVT_S_PU, set_type (ASM_TYPE_ARITH OR ASM_TYPE_ARCH),
     set_regset 0 ASM_MIPS_REG_FPU, set_baser 0 (r_sa temp),
     asm_mips_operand_fetch 0 ASM_MIPS_OTYPE_REGISTER, set_regset 1 ASM_MIPS_REG_FPU,
     set_baser 1 (r_rd temp), asm_mips_operand_fetch 1 ASM_MIPS_OTYPE_REGISTER] ins))"

definition asm_mips_cvt_s_w :: mips_handler where
  "asm_mips_cvt_s_w en buf ins = rbind (mips_convert_format_r en buf) (\<lambda>temp. Inr (4, stmts [
     set_instr ASM_MIPS_CVT_S_W, set_type (ASM_TYPE_ARITH OR ASM_TYPE_ARCH),
     set_regset 0 ASM_MIPS_REG_FPU, set_baser 0 (r_sa temp),
     asm_mips_operand_fetch 0 ASM_MIPS_OTYPE_REGISTER, set_regset 1 ASM_MIPS_REG_FPU,
     set_baser 1 (r_rd temp), asm_mips_operand_fetch 1 ASM_MIPS_OTYPE_REGISTER] ins))"

definition asm_mips_cvt_w_d :: mips_handler where
  "asm_mips_cvt_w_d en buf ins = rbind (mips_convert_format_r en buf) (\<lambda>temp. Inr (4, stmts [
     set_instr ASM_MIPS_CVT_W_D, set_type (ASM_TYPE_ARITH OR ASM_TYPE_ARCH),
     set_regset 0 ASM_MIPS_REG_FPU, set_baser 0 (r_sa temp),
     asm_mips_operand_fetch 0 ASM_MIPS_OTYPE_REGISTER, set_regset 1 ASM_MIPS_REG_FPU,
     set_baser 1 (r_rd temp), asm_mips_operand_fetch 1 ASM_MIPS_OTYPE_REGISTER] ins))"

definition asm_mips_cvt_w_s :: mips_handler where
  "asm_mips_cvt_w_s en buf ins = rbind (mips_convert_format_r en buf) (\<lambda>temp. Inr (4, stmts [
     set_instr ASM_MIPS_CVT_W_S, set_type (ASM_TYPE_ARITH OR ASM_TYPE_ARCH),
     set_regset 0 ASM_MIPS_REG_FPU, set_baser 0 (r_sa temp),
     asm_mips_operand_fetch 0 ASM_MIPS_OTYPE_REGISTER, set_regset 1 ASM_MIPS_REG_FPU,
     set_baser 1 (r_rd temp), asm_mips_operand_fetch 1 ASM_MIPS_OTYPE_REGISTER] ins))"

definition asm_mips_dadd :: mips_handler where
  "asm_mips_dadd en buf ins = rbind (mips_convert_format_r en buf) (\<lambda>temp. Inr (4, stmts [
     set_instr ASM_MIPS_DADD, set_type ASM_TYPE_ARITH, set_baser 0 (r_rd temp),
     asm_mips_operand_fetch 0 ASM_MIPS_OTYPE_REGISTER, set_baser 1 (r_rs temp),
     asm_mips_operand_fetch 1 ASM_MIPS_OTYPE_REGISTER, set_baser 2 (r_rt temp),
     asm_mips_operand_fetch 2 ASM_MIPS_OTYPE_REGISTER] ins))"

definition asm_mips_daddi :: mips_handler where
  "asm_mips_daddi en buf ins = rbind (mips_convert_format_i en buf) (\<lambda>temp. Inr (4, stmts [
     set_instr ASM_MIPS_DADDI, set_type ASM_TYPE_ARITH, set_baser 0 (i_rt temp),
     asm_mips_operand_fetch 0 ASM_MIPS_OTYPE_REGISTER, set_baser 1 (i_rs temp),
     asm_mips_operand_fetch 1 ASM_MIPS_OTYPE_REGISTER, set_imm 2 (i_im temp),
     asm_mips_operand_fetch 2 ASM_MIPS_OTYPE_IMMEDIATE] ins))"

definition asm_mips_daddiu :: mips_handler where
  "asm_mips_daddiu en buf ins = rbind (mips_convert_format_i en buf) (\<lambda>temp. Inr (4, stmts [
     set_instr ASM_MIPS_DADDIU, set_type ASM_TYPE_ARITH, set_baser 0 (i_rt temp),
     asm_mips_operand_fetch 0 ASM_MIPS_OTYPE_REGISTER, set_baser 1 (i_rs temp),
     asm_mips_operand_fetch 1 ASM_MIPS_OTYPE_REGISTER, set_imm 2 (i_im temp),
     asm_mips_operand_fetch 2 ASM_MIPS_OTYPE_IMMEDIATE] ins))"

definition asm_mips_daddu :: mips_handler where
  "asm_mips_daddu en buf ins = rbind (mips_convert_format_r en buf) (\<lambda>temp. Inr (4, stmts [
     set_instr ASM_MIPS_DADDU, set_type ASM_TYPE_ARITH, set_baser 0 (r_rd temp),
     asm_mips_operand_fetch 0 ASM_MIPS_OTYPE_REGISTER, set_baser 1 (r_rs temp),
     asm_mips_operand_fetch 1 ASM_MIPS_OTYPE_REGISTER, set_baser 2 (r_rt temp),
     asm_mips_operand_fetch 2 ASM_MIPS_OTYPE_REGISTER] ins))"

definition asm_mips_dclo :: mips_handler where
  "asm_mips_dclo en buf ins = rbind (mips_convert_format_r en buf) (\<lambda>temp. Inr (4, stmts [
     set_instr ASM_MIPS_DCLO, set_type ASM_TYPE_ARCH, set_baser 0 (r_rd temp),
     asm_mips_operand_fetch 0 ASM_MIPS_OTYPE_REGISTER, set_baser 1 (r_rs temp),
     asm_mips_operand_fetch 1 ASM_MIPS_OTYPE_REGISTER] ins))"

definition asm_mips_dclz :: mips_handler where
  "asm_mips_dclz en buf ins = rbind (mips_convert_format_r en buf) (\<lambda>temp. Inr (4, stmts [
     set_instr ASM_MIPS_DCLZ, set_type ASM_TYPE_ARCH, set_baser 0 (r_rd temp),
     asm_mips_operand_fetch 0 ASM_MIPS_OTYPE_REGISTER, set_baser 1 (r_rs temp),
     asm_mips_operand_fetch 1 ASM_MIPS_OTYPE_REGISTER] ins))"

definition asm_mips_ddiv :: mips_handler where
  "asm_mips_ddiv en buf ins = rbind (mips_convert_format_t en buf) (\<lambda>temp. Inr (4, stmts [
     set_instr ASM_MIPS_DDIV, set_type ASM_TYPE_ARITH, set_baser 0 (t_rs temp),
     asm_mips_operand_fetch 0 ASM_MIPS_OTYPE_REGISTER, set_baser 1 (t_rt temp),
     asm_mips_operand_fetch 1 ASM_MIPS_OTYPE_REGISTER] ins))"

definition asm_mips_ddivu :: mips_handler where
  "asm_mips_ddivu en buf ins = rbind (mips_convert_format_t en buf) (\<lambda>temp. Inr (4, stmts [
     set_instr ASM_MIPS_DDIVU, set_type ASM_TYPE_ARITH, set_baser 0 (t_rs temp),
     asm_mips_operand_fetch 0 ASM_MIPS_OTYPE_REGISTER, set_baser 1 (t_rt temp),
     asm_mips_operand_fetch 1 ASM_MIPS_OTYPE_REGISTER] ins))"

definition asm_mips_deret :: mips_handler where
  "asm_mips_deret en buf ins = Inr (4, stmts [set_instr ASM_MIPS_DERET, set_type (ASM_TYPE_ARCH OR ASM_TYPE_RETPROC),
asm_mips_operand_fetch 0 ASM_MIPS_OTYPE_NOOP] ins)"

definition asm_mips_div :: mips_handler where
  "asm_mips_div en buf ins = rbind (mips_convert_format_t en buf) (\<lambda>temp. Inr (4, stmts [
     set_instr ASM_MIPS_DIV, set_type ASM_TYPE_ARITH, set_baser 0 (t_rs temp),
     asm_mips_operand_fetch 0 ASM_MIPS_OTYPE_REGISTER, set_baser 1 (t_rt temp),
     asm_mips_operand_fetch 1 ASM_MIPS_OTYPE_REGISTER] ins))"

definition asm_mips_div_d :: mips_handler where
  "asm_mips_div_d en buf ins = rbind (mips_convert_format_r en buf) (\<lambda>temp. Inr (4, stmts [
     set_instr ASM_MIPS_DIV_D, set_type (ASM_TYPE_ARITH OR ASM_TYPE_ARCH),
     set_regset 0 ASM_MIPS_REG_FPU, set_baser 0 (r_sa temp),
     asm_mips_operand_fetch 0 ASM_MIPS_OTYPE_REGISTER, set_regset 1 ASM_MIPS_REG_FPU,
     set_baser 1 (r_rd temp), asm_mips_operand_fetch 1 ASM_MIPS_OTYPE_REGISTER,
     set_regset 2 ASM_MIPS_REG_FPU, set_baser 2 (r_rt temp),
     asm_mips_operand_fetch 2 ASM_MIPS_OTYPE_REGISTER] ins))"

definition asm_mips_div_s :: mips_handler where
  "asm_mips_div_s en buf ins = rbind (mips_convert_format_r en buf) (\<lambda>temp. Inr (4, stmts [
     set_instr ASM_MIPS_DIV_S, set_type (ASM_TYPE_ARITH OR ASM_TYPE_ARCH),
     set_regset 0 ASM_MIPS_REG_FPU, set_baser 0 (r_sa temp),
     asm_mips_operand_fetch 0 ASM_MIPS_OTYPE_REGISTER, set_regset 1 ASM_MIPS_REG_FPU,
     set_baser 1 (r_rd temp), asm_mips_operand_fetch 1 ASM_MIPS_OTYPE_REGISTER,
     set_regset 2 ASM_MIPS_REG_FPU, set_baser 2 (r_rt temp),
     asm_mips_operand_fetch 2 ASM_MIPS_OTYPE_REGISTER] ins))"

definition asm_mips_divu :: mips_handler where
  "asm_mips_divu en buf ins = rbind (mips_convert_format_t en buf) (\<lambda>temp. Inr (4, stmts [
     set_instr ASM_MIPS_DIVU, set_type ASM_TYPE_ARITH, set_baser 0 (t_rs temp),
     asm_mips_operand_fetch 0 ASM_MIPS_OTYPE_REGISTER, set_baser 1 (t_rt temp),
     asm_mips_operand_fetch 1 ASM_MIPS_OTYPE_REGISTER] ins))"

definition asm_mips_dmfc0 :: mips_handler where
  "asm_mips_dmfc0 en buf ins = rbind (mips_convert_format_cop2 en buf) (\<lambda>temp. Inr (4, stmts [
     set_instr ASM_MIPS_DMFC0, set_type (ASM_TYPE_ARCH OR ASM_TYPE_ASSIGN), set_baser 0 (c2_rt temp),
     asm_mips_operand_fetch 0 ASM_MIPS_OTYPE_REGISTER, set_baser 1 (c2_rd temp),
     asm_mips_operand_fetch 1 ASM_MIPS_OTYPE_REGISTER, set_imm 2 (c2_sl temp),
     asm_mips_operand_fetch 2 ASM_MIPS_OTYPE_IMMEDIATE] ins))"

definition asm_mips_dmfc1 :: mips_handler where
  "asm_mips_dmfc1 en buf ins = rbind (mips_convert_format_cop2 en buf) (\<lambda>temp. Inr (4, stmts [
     set_instr ASM_MIPS_DMFC1, set_type (ASM_TYPE_ARCH OR ASM_TYPE_ASSIGN), set_baser 0 (c2_rt temp),
     asm_mips_operand_fetch 0 ASM_MIPS_OTYPE_REGISTER, set_baser 1 (c2_rd temp),
     asm_mips_operand_fetch 1 ASM_MIPS_OTYPE_REGISTER] ins))"

definition asm_mips_dmfc2 :: mips_handler where
  "asm_mips_dmfc2 en buf ins = rbind (mips_convert_format_cop2 en buf) (\<lambda>temp. Inr (4, stmts [
     set_instr ASM_MIPS_DMFC2, set_type (ASM_TYPE_ARCH OR ASM_TYPE_ASSIGN), set_baser 0 (c2_rt temp),
     asm_mips_operand_fetch 0 ASM_MIPS_OTYPE_REGISTER, set_baser 1 (c2_rd temp),
     asm_mips_operand_fetch 1 ASM_MIPS_OTYPE_REGISTER, set_imm 2 (c2_sl temp),
     asm_mips_operand_fetch 2 ASM_MIPS_OTYPE_IMMEDIATE] ins))"

definition asm_mips_dmtc0 :: mips_handler where
  "asm_mips_dmtc0 en buf ins = rbind (mips_convert_format_cop2 en buf) (\<lambda>temp. Inr (4, stmts [
     set_instr ASM_MIPS_DMTC0, set_type (ASM_TYPE_ARCH OR ASM_TYPE_ASSIGN), set_baser 0 (c2_rt temp),
     asm_mips_operand_fetch 0 ASM_MIPS_OTYPE_REGISTER, set_baser 1 (c2_rd temp),
     asm_mips_operand_fetch 1 ASM_MIPS_OTYPE_REGISTER, set_imm 2 (c2_sl temp),
     asm_mips_operand_fetch 2 ASM_MIPS_OTYPE_IMMEDIATE] ins))"

definition asm_mips_dmtc1 :: mips_handler where
  "asm_mips_dmtc1 en buf ins = rbind (mips_convert_format_cop2 en buf) (\<lambda>temp. Inr (4, stmts [
     set_instr ASM_MIPS_DMTC1, set_type (ASM_TYPE_ARCH OR ASM_TYPE_ASSIGN), set_baser 0 (c2_rt temp),
     asm_mips_operand_fetch 0 ASM_MIPS_OTYPE_REGISTER, set_baser 1 (c2_rd temp),
     asm_mips_operand_fetch 1 ASM_MIPS_OTYPE_REGISTER] ins))"

definition asm_mips_dmtc2 :: mips_handler where
  "asm_mips_dmtc2 en buf ins = rbind (mips_convert_format_cop2 en buf) (\<lambda>temp. Inr (4, stmts [
     set_instr ASM_MIPS_DMTC2, set_type (ASM_TYPE_ARCH OR ASM_TYPE_ASSIGN), set_baser 0 (c2_rt temp),
     asm_mips_operand_fetch 0 ASM_MIPS_OTYPE_REGISTER, set_baser 1 (c2_rd temp),
     asm_mips_operand_fetch 1 ASM_MIPS_OTYPE_REGISTER, set_imm 2 (c2_sl temp),
     asm_mips_operand_fetch 2 ASM_MIPS_OTYPE_IMMEDIATE] ins))"

definition asm_mips_dmult :: mips_handler where
  "asm_mips_dmult en buf ins = rbind (mips_convert_format_t en buf) (\<lambda>temp. Inr (4, stmts [
     set_instr ASM_MIPS_DMULT, set_type ASM_TYPE_ARITH, set_baser 0 (t_rs temp),
     asm_mips_operand_fetch 0 ASM_MIPS_OTYPE_REGISTER, set_baser 1 (t_rt temp),
     asm_mips_operand_fetch 1 ASM_MIPS_OTYPE_REGISTER] ins))"

definition asm_mips_dmultu :: mips_handler where
  "asm_mips_dmultu en buf ins = rbind (mips_convert_format_t en buf) (\<lambda>temp. Inr (4, stmts [
     set_instr ASM_MIPS_DMULTU, set_type ASM_TYPE_ARITH, set_baser 0 (t_rs temp),
     asm_mips_operand_fetch 0 ASM_MIPS_OTYPE_REGISTER, set_baser 1 (t_rt temp),
     asm_mips_operand_fetch 1 ASM_MIPS_OTYPE_REGISTER] ins))"

definition asm_mips_dsll :: mips_handler where
  "asm_mips_dsll en buf ins = rbind (mips_convert_format_r en buf) (\<lambda>temp. Inr (4, stmts [
     set_instr ASM_MIPS_DSLL, set_type ASM_TYPE_ARITH, set_baser 0 (r_rd temp),
     asm_mips_operand_fetch 0 ASM_MIPS_OTYPE_REGISTER, set_baser 1 (r_rt temp),
     asm_mips_operand_fetch 1 ASM_MIPS_OTYPE_REGISTER, set_imm 2 (r_sa temp),
     asm_mips_operand_fetch 2 ASM_MIPS_OTYPE_IMMEDIATE] ins))"

definition asm_mips_dsll32 :: mips_handler where
  "asm_mips_dsll32 en buf ins = rbind (mips_convert_format_r en buf) (\<lambda>temp. Inr (4, stmts [
     set_instr ASM_MIPS_DSLL32, set_type ASM_TYPE_ARITH, set_baser 0 (r_rd temp),
     asm_mips_operand_fetch 0 ASM_MIPS_OTYPE_REGISTER, set_baser 1 (r_rt temp),
     asm_mips_operand_fetch 1 ASM_MIPS_OTYPE_REGISTER, set_imm 2 (r_sa temp),
     asm_mips_operand_fetch 2 ASM_MIPS_OTYPE_IMMEDIATE] ins))"

definition asm_mips_dsllv :: mips_handler where
  "asm_mips_dsllv en buf ins = rbind (mips_convert_format_r en buf) (\<lambda>temp. Inr (4, stmts [
     set_instr ASM_MIPS_DSLLV, set_type ASM_TYPE_ARITH, set_baser 0 (r_rd temp),
     asm_mips_operand_fetch 0 ASM_MIPS_OTYPE_REGISTER, set_baser 1 (r_rt temp),
     asm_mips_operand_fetch 1 ASM_MIPS_OTYPE_REGISTER, set_baser 2 (r_rs temp),
     asm_mips_operand_fetch 2 ASM_MIPS_OTYPE_REGISTER] ins))"

definition asm_mips_dsra :: mips_handler where
  "asm_mips_dsra en buf ins = rbind (mips_convert_format_r en buf) (\<lambda>temp. Inr (4, stmts [
     set_instr ASM_MIPS_DSRA, set_type ASM_TYPE_ARITH, set_baser 0 (r_rd temp),
     asm_mips_operand_fetch 0 ASM_MIPS_OTYPE_REGISTER, set_baser 1 (r_rt temp),
     asm_mips_operand_fetch 1 ASM_MIPS_OTYPE_REGISTER, set_imm 2 (r_sa temp),
     asm_mips_operand_fetch 2 ASM_MIPS_OTYPE_IMMEDIATE] ins))"

definition asm_mips_dsra32 :: mips_handler where
  "asm_mips_dsra32 en buf ins = rbind (mips_convert_format_r en buf) (\<lambda>temp. Inr (4, stmts [
     set_instr ASM_MIPS_DSRA32, set_type ASM_TYPE_ARITH, set_baser 0 (r_rd temp),
     asm_mips_operand_fetch 0 ASM_MIPS_OTYPE_REGISTER, set_baser 1 (r_rt temp),
     asm_mips_operand_fetch 1 ASM_MIPS_OTYPE_REGISTER, set_imm 2 (r_sa temp),
     asm_mips_operand_fetch 2 ASM_MIPS_OTYPE_IMMEDIATE] ins))"

definition asm_mips_dsrav :: mips_handler where
  "asm_mips_dsrav en buf ins = rbind (mips_convert_format_r en buf) (\<lambda>temp. Inr (4, stmts [
     set_instr ASM_MIPS_DSRAV, set_type ASM_TYPE_ARITH, set_baser 0 (r_rd temp),
     asm_mips_operand_fetch 0 ASM_MIPS_OTYPE_REGISTER, set_baser 1 (r_rt temp),
     asm_mips_operand_fetch 1 ASM_MIPS_OTYPE_REGISTER, set_baser 2 (r_rs temp),
     asm_mips_operand_fetch 2 ASM_MIPS_OTYPE_REGISTER] ins))"

definition asm_mips_dsrl :: mips_handler where
  "asm_mips_dsrl en buf ins = rbind (mips_convert_format_r en buf) (\<lambda>temp. Inr (4, stmts [
     set_instr ASM_MIPS_DSRL, set_type ASM_TYPE_ARITH, set_baser 0 (r_rd temp),
     asm_mips_operand_fetch 0 ASM_MIPS_OTYPE_REGISTER, set_baser 1 (r_rt temp),
     asm_mips_operand_fetch 1 ASM_MIPS_OTYPE_REGISTER, set_imm 2 (r_sa temp),
     asm_mips_operand_fetch 2 ASM_MIPS_OTYPE_IMMEDIATE] ins))"

definition asm_mips_dsrl32 :: mips_handler where
  "asm_mips_dsrl32 en buf ins = rbind (mips_convert_format_r en buf) (\<lambda>temp. Inr (4, stmts [
     set_instr ASM_MIPS_DSRL32, set_type ASM_TYPE_ARITH, set_baser 0 (r_rd temp),
     asm_mips_operand_fetch 0 ASM_MIPS_OTYPE_REGISTER, set_baser 1 (r_rt temp),
     asm_mips_operand_fetch 1 ASM_MIPS_OTYPE_REGISTER, set_imm 2 (r_sa temp),
     asm_mips_operand_fetch 2 ASM_MIPS_OTYPE_IMMEDIATE] ins))"

definition asm_mips_dsrlv :: mips_handler where
  "asm_mips_dsrlv en buf ins = rbind (mips_convert_format_r en buf) (\<lambda>temp. Inr (4, stmts [
     set_instr ASM_MIPS_DSRLV, set_type ASM_TYPE_ARITH, set_baser 0 (r_rd temp),
     asm_mips_operand_fetch 0 ASM_MIPS_OTYPE_REGISTER, set_baser 1 (r_rt temp),
     asm_mips_operand_fetch 1 ASM_MIPS_OTYPE_REGISTER, set_baser 2 (r_rs temp),
     asm_mips_operand_fetch 2 ASM_MIPS_OTYPE_REGISTER] ins))"

definition asm_mips_dsub :: mips_handler where
  "asm_mips_dsub en buf ins = rbind (mips_convert_format_r en buf) (\<lambda>temp. Inr (4, stmts [
     set_instr ASM_MIPS_DSUB, set_type ASM_TYPE_ARITH, set_baser 0 (r_rd temp),
     asm_mips_operand_fetch 0 ASM_MIPS_OTYPE_REGISTER, set_baser 1 (r_rs temp),
     asm_mips_operand_fetch 1 ASM_MIPS_OTYPE_REGISTER, set_baser 2 (r_rt temp),
     asm_mips_operand_fetch 2 ASM_MIPS_OTYPE_REGISTER] ins))"

definition asm_mips_dsubu :: mips_handler where
  "asm_mips_dsubu en buf ins = rbind (mips_convert_format_r en buf) (\<lambda>temp. Inr (4, stmts [
     set_instr ASM_MIPS_DSUBU, set_type ASM_TYPE_ARITH, set_baser 0 (r_rd temp),
     asm_mips_operand_fetch 0 ASM_MIPS_OTYPE_REGISTER, set_baser 1 (r_rs temp),
     asm_mips_operand_fetch 1 ASM_MIPS_OTYPE_REGISTER, set_baser 2 (r_rt temp),
     asm_mips_operand_fetch 2 ASM_MIPS_OTYPE_REGISTER] ins))"

definition asm_mips_ehb :: mips_handler where
  "asm_mips_ehb en buf ins = Inr (4, stmts [set_instr ASM_MIPS_BAD] ins)"

definition asm_mips_eret :: mips_handler where
  "asm_mips_eret en buf ins = Inr (4, stmts [set_instr ASM_MIPS_ERET, set_type (ASM_TYPE_ARCH OR ASM_TYPE_RETPROC),
asm_mips_operand_fetch 0 ASM_MIPS_OTYPE_NOOP] ins)"

definition asm_mips_ext :: mips_handler where
  "asm_mips_ext en buf ins = Inr (4, stmts [set_instr ASM_MIPS_EXT] ins)"

definition asm_mips_floor_l_d :: mips_handler where
  "asm_mips_floor_l_d en buf ins = rbind (mips_convert_format_r en buf) (\<lambda>temp. Inr (4, stmts [
     set_instr ASM_MIPS_FLOOR_L_D, set_type (ASM_TYPE_ARITH OR ASM_TYPE_ARCH),
     set_regset 0 ASM_MIPS_REG_FPU, set_baser 0 (r_sa temp),
     asm_mips_operand_fetch 0 ASM_MIPS_OTYPE_REGISTER, set_regset 1 ASM_MIPS_REG_FPU,
     set_baser 1 (r_rd temp), asm_mips_operand_fetch 1 ASM_MIPS_OTYPE_REGISTER] ins))"

definition asm_mips_floor_l_s :: mips_handler where
  "asm_mips_floor_l_s en buf ins = rbind (mips_convert_format_r en buf) (\<lambda>temp. Inr (4, stmts [
     set_instr ASM_MIPS_FLOOR_L_S, set_type (ASM_TYPE_ARITH OR ASM_TYPE_ARCH),
     set_regset 0 ASM_MIPS_REG_FPU, set_baser 0 (r_sa temp),
     asm_mips_operand_fetch 0 ASM_MIPS_OTYPE_REGISTER, set_regset 1 ASM_MIPS_REG_FPU,
     set_baser 1 (r_rd temp), asm_mips_operand_fetch 1 ASM_MIPS_OTYPE_REGISTER] ins))"

definition asm_mips_floor_w_d :: mips_handler where
  "asm_mips_floor_w_d en buf ins = rbind (mips_convert_format_r en buf) (\<lambda>temp. Inr (4, stmts [
     set_instr ASM_MIPS_FLOOR_W_D, set_type (ASM_TYPE_ARITH OR ASM_TYPE_ARCH),
     set_regset 0 ASM_MIPS_REG_FPU, set_baser 0 (r_sa temp),
     asm_mips_operand_fetch 0 ASM_MIPS_OTYPE_REGISTER, set_regset 1 ASM_MIPS_REG_FPU,
     set_baser 1 (r_rd temp), asm_mips_operand_fetch 1 ASM_MIPS_OTYPE_REGISTER] ins))"

definition asm_mips_floor_w_s :: mips_handler where
  "asm_mips_floor_w_s en buf ins = rbind (mips_convert_format_r en buf) (\<lambda>temp. Inr (4, stmts [
     set_instr ASM_MIPS_FLOOR_W_S, set_type (ASM_TYPE_ARITH OR ASM_TYPE_ARCH),
     set_regset 0 ASM_MIPS_REG_FPU, set_baser 0 (r_sa temp),
     asm_mips_operand_fetch 0 ASM_MIPS_OTYPE_REGISTER, set_regset 1 ASM_MIPS_REG_FPU,
     set_baser 1 (r_rd temp), asm_mips_operand_fetch 1 ASM_MIPS_OTYPE_REGISTER] ins))"

definition asm_mips_ins :: mips_handler where
  "asm_mips_ins en buf ins = Inr (4, stmts [set_instr ASM_MIPS_INS] ins)"

definition asm_mips_j :: mips_handler where
  "asm_mips_j en buf ins = rbind (mips_convert_format_j en buf) (\<lambda>temp. Inr (4, stmts [
     set_instr ASM_MIPS_J, set_type ASM_TYPE_BRANCH, set_imm 0 (j_ta temp),
     asm_mips_operand_fetch 0 ASM_MIPS_OTYPE_JUMP] ins))"

definition asm_mips_jal :: mips_handler where
  "asm_mips_jal en buf ins = rbind (mips_convert_format_j en buf) (\<lambda>temp. Inr (4, stmts [
     set_instr ASM_MIPS_JAL, set_type ASM_TYPE_CALLPROC, set_imm 0 (j_ta temp),
     asm_mips_operand_fetch 0 ASM_MIPS_OTYPE_JUMP] ins))"

definition asm_mips_jalr :: mips_handler where
  "asm_mips_jalr en buf ins = rbind (mips_convert_format_r en buf) (\<lambda>temp. Inr (4, stmts [
     set_instr ASM_MIPS_JALR, set_type ASM_TYPE_CALLPROC, set_baser 0 (r_rs temp),
     asm_mips_operand_fetch 0 ASM_MIPS_OTYPE_REGISTER] ins))"

definition asm_mips_jalr_hb :: mips_handler where
  "asm_mips_jalr_hb en buf ins = rbind (asm_mips_jalr en buf ins) (\<lambda>(_, ins1). Inr (4, ins1))"

lemmas mips_handlers1_defs =
  asm_mips_abs_d_def asm_mips_abs_ps_def asm_mips_abs_s_def asm_mips_add_def asm_mips_add_d_def
  asm_mips_add_ps_def asm_mips_add_s_def asm_mips_addi_def asm_mips_addiu_def asm_mips_addu_def
  asm_mips_alnv_ps_def asm_mips_and_def asm_mips_andi_def asm_mips_b_def asm_mips_bal_def
  asm_mips_bc1f_def asm_mips_bc1fl_def asm_mips_bc1t_def asm_mips_bc1tl_def asm_mips_bc2f_def
  asm_mips_bc2fl_def asm_mips_bc2t_def asm_mips_bc2tl_def asm_mips_beq_def asm_mips_beql_def
  asm_mips_bgez_def asm_mips_bgezal_def asm_mips_bgezall_def asm_mips_bgezl_def asm_mips_bgtz_def
  asm_mips_bgtzl_def asm_mips_blez_def asm_mips_blezl_def asm_mips_bltz_def asm_mips_bltzal_def
  asm_mips_bltzall_def asm_mips_bltzl_def asm_mips_bne_def asm_mips_bnel_def asm_mips_break_def
  asm_mips_c_eq_d_def asm_mips_c_eq_ps_def asm_mips_c_eq_s_def asm_mips_c_f_d_def
  asm_mips_c_f_ps_def asm_mips_c_f_s_def asm_mips_c_le_d_def asm_mips_c_le_ps_def
  asm_mips_c_le_s_def asm_mips_c_lt_d_def asm_mips_c_lt_ps_def asm_mips_c_lt_s_def
  asm_mips_c_nge_d_def asm_mips_c_nge_ps_def asm_mips_c_nge_s_def asm_mips_c_ngl_d_def
  asm_mips_c_ngl_ps_def asm_mips_c_ngl_s_def asm_mips_c_ngle_d_def asm_mips_c_ngle_ps_def
  asm_mips_c_ngle_s_def asm_mips_c_ngt_d_def asm_mips_c_ngt_ps_def asm_mips_c_ngt_s_def
  asm_mips_c_ole_d_def asm_mips_c_ole_ps_def asm_mips_c_ole_s_def asm_mips_c_olt_d_def
  asm_mips_c_olt_ps_def asm_mips_c_olt_s_def asm_mips_c_seq_d_def asm_mips_c_seq_ps_def
  asm_mips_c_seq_s_def asm_mips_c_sf_d_def asm_mips_c_sf_ps_def asm_mips_c_sf_s_def
  asm_mips_c_ueq_d_def asm_mips_c_ueq_ps_def asm_mips_c_ueq_s_def asm_mips_c_ule_d_def
  asm_mips_c_ule_ps_def asm_mips_c_ule_s_def asm_mips_c_ult_d_def asm_mips_c_ult_ps_def
  asm_mips_c_ult_s_def asm_mips_c_un_d_def asm_mips_c_un_ps_def asm_mips_c_un_s_def
  asm_mips_ceil_l_d_def asm_mips_ceil_l_s_def asm_mips_ceil_w_d_def asm_mips_ceil_w_s_def
  asm_mips_cfc1_def asm_mips_cfc2_def asm_mips_clo_def asm_mips_clz_def asm_mips_cop2_def
  asm_mips_ctc1_def asm_mips_ctc2_def asm_mips_cvt_d_l_def asm_mips_cvt_d_s_def asm_mips_cvt_d_w_def
  asm_mips_cvt_l_d_def asm_mips_cvt_l_s_def asm_mips_cvt_ps_s_def asm_mips_cvt_s_d_def
  asm_mips_cvt_s_l_def asm_mips_cvt_s_pl_def asm_mips_cvt_s_pu_def asm_mips_cvt_s_w_def
  asm_mips_cvt_w_d_def asm_mips_cvt_w_s_def asm_mips_dadd_def asm_mips_daddi_def asm_mips_daddiu_def
  asm_mips_daddu_def asm_mips_dclo_def asm_mips_dclz_def asm_mips_ddiv_def asm_mips_ddivu_def
  asm_mips_deret_def asm_mips_div_def asm_mips_div_d_def asm_mips_div_s_def asm_mips_divu_def
  asm_mips_dmfc0_def asm_mips_dmfc1_def asm_mips_dmfc2_def asm_mips_dmtc0_def asm_mips_dmtc1_def
  asm_mips_dmtc2_def asm_mips_dmult_def asm_mips_dmultu_def asm_mips_dsll_def asm_mips_dsll32_def
  asm_mips_dsllv_def asm_mips_dsra_def asm_mips_dsra32_def asm_mips_dsrav_def asm_mips_dsrl_def
  asm_mips_dsrl32_def asm_mips_dsrlv_def asm_mips_dsub_def asm_mips_dsubu_def asm_mips_ehb_def
  asm_mips_eret_def asm_mips_ext_def asm_mips_floor_l_d_def asm_mips_floor_l_s_def
  asm_mips_floor_w_d_def asm_mips_floor_w_s_def asm_mips_ins_def asm_mips_j_def asm_mips_jal_def
  asm_mips_jalr_def asm_mips_jalr_hb_def

end
