(* ===== verification/Mips_Handlers2.thy ===== *)
theory Mips_Handlers2
  imports Mips_Handlers1
begin

text \<open>
  The decoding handlers of \<open>libasm/src/arch/mips/handlers\<close>, second half.
\<close>

definition asm_mips_jr :: mips_handler where
  "asm_mips_jr en buf ins = rbind (mips_convert_format_r en buf) (\<lambda>temp. Inr (4, stmts [
     set_instr ASM_MIPS_JR, set_baser 0 (r_rs temp), asm_mips_operand_fetch 0 ASM_MIPS_OTYPE_REGISTER,
     if unat (r_rs temp) = ASM_MIPS_REG_RA then set_type ASM_TYPE_RETPROC else set_type ASM_TYPE_BRANCH] ins))"

definition asm_mips_jr_hb :: mips_handler where
  "asm_mips_jr_hb en buf ins = rbind (asm_mips_jr en buf ins) (\<lambda>(_, ins1). Inr (4, ins1))"

definition asm_mips_lb :: mips_handler where
  "asm_mips_lb en buf ins = rbind (mips_convert_format_i en buf) (\<lambda>temp. Inr (4, stmts [
     set_instr ASM_MIPS_LB, set_type ASM_TYPE_LOAD, set_baser 0 (i_rt temp),
     asm_mips_operand_fetch 0 ASM_MIPS_OTYPE_REGISTER, set_imm 1 (i_im temp),
     asm_mips_operand_fetch 1 ASM_MIPS_OTYPE_IMMEDIATE, set_baser 2 (i_rs temp),
     asm_mips_operand_fetch 2 ASM_MIPS_OTYPE_REGBASE] ins))"

definition asm_mips_lbu :: mips_handler where
  "asm_mips_lbu en buf ins = rbind (mips_convert_format_i en buf) (\<lambda>temp. Inr (4, stmts [
     set_instr ASM_MIPS_LBU, set_type ASM_TYPE_LOAD, set_baser 0 (i_rt temp),
     asm_mips_operand_fetch 0 ASM_MIPS_OTYPE_REGISTER, set_imm 1 (i_im temp),
     asm_mips_operand_fetch 1 ASM_MIPS_OTYPE_IMMEDIATE, set_baser 2 (i_rs temp),
     asm_mips_operand_fetch 2 ASM_MIPS_OTYPE_REGBASE] ins))"

definition asm_mips_ld :: mips_handler where
  "asm_mips_ld en buf ins = rbind (mips_convert_format_i en buf) (\<lambda>temp. Inr (4, stmts [
     set_instr ASM_MIPS_LD, set_type ASM_TYPE_LOAD, set_baser 0 (i_rt temp),
     asm_mips_operand_fetch 0 ASM_MIPS_OTYPE_REGISTER, set_imm 1 (i_im temp),
     asm_mips_operand_fetch 1 ASM_MIPS_OTYPE_IMMEDIATE, set_baser 2 (i_rs temp),
     asm_mips_operand_fetch 2 ASM_MIPS_OTYPE_REGBASE] ins))"

definition asm_mips_ldc1 :: mips_handler where
  "asm_mips_ldc1 en buf ins = rbind (mips_convert_format_i en buf) (\<lambda>temp. Inr (4, stmts [
     set_instr ASM_MIPS_LDC1, set_type (ASM_TYPE_LOAD OR ASM_TYPE_ARCH), set_baser 0 (i_rt temp),
     asm_mips_operand_fetch 0 ASM_MIPS_OTYPE_REGISTER, set_imm 1 (i_im temp),
     asm_mips_operand_fetch 1 ASM_MIPS_OTYPE_IMMEDIATE, set_baser 2 (i_rs temp),
     asm_mips_operand_fetch 2 ASM_MIPS_OTYPE_REGBASE] ins))"

definition asm_mips_ldc2 :: mips_handler where
  "asm_mips_ldc2 en buf ins = rbind (mips_convert_format_i en buf) (\<lambda>temp. Inr (4, stmts [
     set_instr ASM_MIPS_LDC2, set_type (ASM_TYPE_LOAD OR ASM_TYPE_ARCH), set_baser 0 (i_rt temp),
     asm_mips_operand_fetch 0 ASM_MIPS_OTYPE_REGISTER, set_imm 1 (i_im temp),
     asm_mips_operand_fetch 1 ASM_MIPS_OTYPE_IMMEDIATE, set_baser 2 (i_rs temp),
     asm_mips_operand_fetch 2 ASM_MIPS_OTYPE_REGBASE] ins))"

definition asm_mips_ldl :: mips_handler where
  "asm_mips_ldl en buf ins = rbind (mips_convert_format_i en buf) (\<lambda>temp. Inr (4, stmts [
     set_instr ASM_MIPS_LDL, set_type (ASM_TYPE_LOAD OR ASM_TYPE_ARCH), set_baser 0 (i_rt temp),
     asm_mips_operand_fetch 0 ASM_MIPS_OTYPE_REGISTER, set_imm 1 (i_im temp),
     asm_mips_operand_fetch 1 ASM_MIPS_OTYPE_IMMEDIATE, set_baser 2 (i_rs temp),
     asm_mips_operand_fetch 2 ASM_MIPS_OTYPE_REGBASE] ins))"

definition asm_mips_ldr :: mips_handler where
  "asm_mips_ldr en buf ins = rbind (mips_convert_format_i en buf) (\<lambda>temp. Inr (4, stmts [
     set_instr ASM_MIPS_LDR, set_type (ASM_TYPE_LOAD OR ASM_TYPE_ARCH), set_baser 0 (i_rt temp),
     asm_mips_operand_fetch 0 ASM_MIPS_OTYPE_REGISTER, set_imm 1 (i_im temp),
     asm_mips_operand_fetch 1 ASM_MIPS_OTYPE_IMMEDIATE, set_baser 2 (i_rs temp),
     asm_mips_operand_fetch 2 ASM_MIPS_OTYPE_REGBASE] ins))"

definition asm_mips_ldxc1 :: mips_handler where
  "asm_mips_ldxc1 en buf ins = rbind (mips_convert_format_cop1x en buf) (\<lambda>temp. Inr (4, stmts [
     set_instr ASM_MIPS_LDXC1, set_type (ASM_TYPE_LOAD OR ASM_TYPE_ARCH),
     set_regset 0 ASM_MIPS_REG_FPU, set_baser 0 (cx_f2 temp),
     asm_mips_operand_fetch 0 ASM_MIPS_OTYPE_REGISTER, set_baser 1 (cx_in temp),
     asm_mips_operand_fetch 1 ASM_MIPS_OTYPE_REGISTER, set_baser 2 (cx_bs temp),
     asm_mips_operand_fetch 2 ASM_MIPS_OTYPE_REGBASE] ins))"

definition asm_mips_lh :: mips_handler where
  "asm_mips_lh en buf ins = rbind (mips_convert_format_i en buf) (\<lambda>temp. Inr (4, stmts [
     set_instr ASM_MIPS_LH, set_type ASM_TYPE_LOAD, set_baser 0 (i_rt temp),
     asm_mips_operand_fetch 0 ASM_MIPS_OTYPE_REGISTER, set_imm 1 (i_im temp),
     asm_mips_operand_fetch 1 ASM_MIPS_OTYPE_IMMEDIATE, set_baser 2 (i_rs temp),
     asm_mips_operand_fetch 2 ASM_MIPS_OTYPE_REGBASE] ins))"

definition asm_mips_lhu :: mips_handler where
  "asm_mips_lhu en buf ins = rbind (mips_convert_format_i en buf) (\<lambda>temp. Inr (4, stmts [
     set_instr ASM_MIPS_LHU, set_type ASM_TYPE_LOAD, set_baser 0 (i_rt temp),
     asm_mips_operand_fetch 0 ASM_MIPS_OTYPE_REGISTER, set_imm 1 (i_im temp),
     asm_mips_operand_fetch 1 ASM_MIPS_OTYPE_IMMEDIATE, set_baser 2 (i_rs temp),
     asm_mips_operand_fetch 2 ASM_MIPS_OTYPE_REGBASE] ins))"

definition asm_mips_ll :: mips_handler where
  "asm_mips_ll en buf ins = rbind (mips_convert_format_i en buf) (\<lambda>temp. Inr (4, stmts [
     set_instr ASM_MIPS_LL, set_type ASM_TYPE_LOAD, set_baser 0 (i_rt temp),
     asm_mips_operand_fetch 0 ASM_MIPS_OTYPE_REGISTER, set_imm 1 (i_im temp),
     asm_mips_operand_fetch 1 ASM_MIPS_OTYPE_IMMEDIATE, set_baser 2 (i_rs temp),
     asm_mips_operand_fetch 2 ASM_MIPS_OTYPE_REGBASE] ins))"

definition asm_mips_lld :: mips_handler where
  "asm_mips_lld en buf ins = rbind (mips_convert_format_i en buf) (\<lambda>temp. Inr (4, stmts [
     set_instr ASM_MIPS_LLD, set_type ASM_TYPE_LOAD, set_baser 0 (i_rt temp),
     asm_mips_operand_fetch 0 ASM_MIPS_OTYPE_REGISTER, set_imm 1 (i_im temp),
     asm_mips_operand_fetch 1 ASM_MIPS_OTYPE_IMMEDIATE, set_baser 2 (i_rs temp),
     asm_mips_operand_fetch 2 ASM_MIPS_OTYPE_REGBASE] ins))"

definition asm_mips_lui :: mips_handler where
  "asm_mips_lui en buf ins = rbind (mips_convert_format_i en buf) (\<lambda>temp. Inr (4, stmts [
     set_instr ASM_MIPS_LUI, set_type ASM_TYPE_LOAD, set_baser 0 (i_rt temp),
     asm_mips_operand_fetch 0 ASM_MIPS_OTYPE_REGISTER, set_imm 1 (i_im temp),
     asm_mips_operand_fetch 1 ASM_MIPS_OTYPE_IMMEDIATE] ins))"

definition asm_mips_luxc1 :: mips_handler where
  "asm_mips_luxc1 en buf ins = rbind (mips_convert_format_cop1x en buf) (\<lambda>temp. Inr (4, stmts [
     set_instr ASM_MIPS_LUXC1, set_type (ASM_TYPE_LOAD OR ASM_TYPE_ARCH),
     set_regset 0 ASM_MIPS_REG_FPU, set_baser 0 (cx_f2 temp),
     asm_mips_operand_fetch 0 ASM_MIPS_OTYPE_REGISTER, set_baser 1 (cx_in temp),
     asm_mips_operand_fetch 1 ASM_MIPS_OTYPE_REGISTER, set_baser 2 (cx_bs temp),
     asm_mips_operand_fetch 2 ASM_MIPS_OTYPE_REGBASE] ins))"

definition asm_mips_lw :: mips_handler where
  "asm_mips_lw en buf ins = rbind (mips_convert_format_i en buf) (\<lambda>temp. Inr (4, stmts [
     set_instr ASM_MIPS_LW, set_type ASM_TYPE_LOAD, set_baser 0 (i_rt temp),
     asm_mips_operand_fetch 0 ASM_MIPS_OTYPE_REGISTER, set_imm 1 (i_im temp),
     asm_mips_operand_fetch 1 ASM_MIPS_OTYPE_IMMEDIATE, set_baser 2 (i_rs temp),
     asm_mips_operand_fetch 2 ASM_MIPS_OTYPE_REGBASE] ins))"

definition asm_mips_lwc1 :: mips_handler where
  "asm_mips_lwc1 en buf ins = rbind (mips_convert_format_i en buf) (\<lambda>temp. Inr (4, stmts [
     set_instr ASM_MIPS_LWC1, set_type (ASM_TYPE_LOAD OR ASM_TYPE_ARCH), set_baser 0 (i_rt temp),
     asm_mips_operand_fetch 0 ASM_MIPS_OTYPE_REGISTER, set_imm 1 (i_im temp),
     asm_mips_operand_fetch 1 ASM_MIPS_OTYPE_IMMEDIATE, set_baser 2 (i_rs temp),
     asm_mips_operand_fetch 2 ASM_MIPS_OTYPE_REGBASE] ins))"

definition asm_mips_lwc2 :: mips_handler where
  "asm_mips_lwc2 en buf ins = rbind (mips_convert_format_i en buf) (\<lambda>temp. Inr (4, stmts [
     set_instr ASM_MIPS_LWC2, set_type (ASM_TYPE_LOAD OR ASM_TYPE_ARCH), set_baser 0 (i_rt temp),
     asm_mips_operand_fetch 0 ASM_MIPS_OTYPE_REGISTER, set_imm 1 (i_im temp),
     asm_mips_operand_fetch 1 ASM_MIPS_OTYPE_IMMEDIATE, set_baser 2 (i_rs temp),
     asm_mips_operand_fetch 2 ASM_MIPS_OTYPE_REGBASE] ins))"

definition asm_mips_lwl :: mips_handler where
  "asm_mips_lwl en buf ins = rbind (mips_convert_format_i en buf) (\<lambda>temp. Inr (4, stmts [
     set_instr ASM_MIPS_LWL, set_type ASM_TYPE_LOAD, set_baser 0 (i_rt temp),
     asm_mips_operand_fetch 0 ASM_MIPS_OTYPE_REGISTER, set_imm 1 (i_im temp),
     asm_mips_operand_fetch 1 ASM_MIPS_OTYPE_IMMEDIATE, set_baser 2 (i_rs temp),
     asm_mips_operand_fetch 2 ASM_MIPS_OTYPE_REGBASE] ins))"

definition asm_mips_lwr :: mips_handler where
  "asm_mips_lwr en buf ins = rbind (mips_convert_format_i en buf) (\<lambda>temp. Inr (4, stmts [
     set_instr ASM_MIPS_LWR, set_type (ASM_TYPE_LOAD OR ASM_TYPE_ARCH), set_baser 0 (i_rt temp),
     asm_mips_operand_fetch 0 ASM_MIPS_OTYPE_REGISTER, set_imm 1 (i_im temp),
     asm_mips_operand_fetch 1 ASM_MIPS_OTYPE_IMMEDIATE, set_baser 2 (i_rs temp),
     asm_mips_operand_fetch 2 ASM_MIPS_OTYPE_REGBASE] ins))"

definition asm_mips_lwu :: mips_handler where
  "asm_mips_lwu en buf ins = rbind (mips_convert_format_i en buf) (\<lambda>temp. Inr (4, stmts [
     set_instr ASM_MIPS_LWU, set_type (ASM_TYPE_LOAD OR ASM_TYPE_ARCH), set_baser 0 (i_rt temp),
     asm_mips_operand_fetch 0 ASM_MIPS_OTYPE_REGISTER, set_imm 1 (i_im temp),
     asm_mips_operand_fetch 1 ASM_MIPS_OTYPE_IMMEDIATE, set_baser 2 (i_rs temp),
     asm_mips_operand_fetch 2 ASM_MIPS_OTYPE_REGBASE] ins))"

definition asm_mips_lwxc1 :: mips_handler where
  "asm_mips_lwxc1 en buf ins = rbind (mips_convert_format_cop1x en buf) (\<lambda>temp. Inr (4, stmts [
     set_instr ASM_MIPS_LWXC1, set_type (ASM_TYPE_LOAD OR ASM_TYPE_ARCH),
     set_regset 0 ASM_MIPS_REG_FPU, set_baser 0 (cx_f2 temp),
     asm_mips_operand_fetch 0 ASM_MIPS_OTYPE_REGISTER, set_baser 1 (cx_in temp),
     asm_mips_operand_fetch 1 ASM_MIPS_OTYPE_REGISTER, set_baser 2 (cx_bs temp),
     asm_mips_operand_fetch 2 ASM_MIPS_OTYPE_REGBASE] ins))"

definition asm_mips_madd :: mips_handler where
  "asm_mips_madd en buf ins = rbind (mips_convert_format_r en buf) (\<lambda>temp. Inr (4, stmts [
     set_instr ASM_MIPS_MADD, set_type ASM_TYPE_ARITH, set_baser 0 (r_rs temp),
     asm_mips_operand_fetch 0 ASM_MIPS_OTYPE_REGISTER, set_baser 1 (r_rt temp),
     asm_mips_operand_fetch 1 ASM_MIPS_OTYPE_REGISTER] ins))"

definition asm_mips_madd_d :: mips_handler where
  "asm_mips_madd_d en buf ins = rbind (mips_convert_format_cop1x en buf) (\<lambda>temp. Inr (4, stmts [
     set_instr ASM_MIPS_MADD_D, set_type (ASM_TYPE_ARITH OR ASM_TYPE_ARCH),
     set_regset 0 ASM_MIPS_REG_FPU, set_baser 0 (cx_f2 temp),
     asm_mips_operand_fetch 0 ASM_MIPS_OTYPE_REGISTER, set_regset 1 ASM_MIPS_REG_FPU,
     set_baser 1 (cx_bs temp), asm_mips_operand_fetch 1 ASM_MIPS_OTYPE_REGISTER,
     set_regset 2 ASM_MIPS_REG_FPU, set_baser 2 (cx_f2 temp),
     asm_mips_operand_fetch 2 ASM_MIPS_OTYPE_REGISTER, set_regset 3 ASM_MIPS_REG_FPU,
     set_baser 3 (cx_in temp), asm_mips_operand_fetch 3 ASM_MIPS_OTYPE_REGISTER] ins))"

definition asm_mips_madd_ps :: mips_handler where
  "asm_mips_madd_ps en buf ins = rbind (mips_convert_format_cop1x en buf) (\<lambda>temp. Inr (4, stmts [
     set_instr ASM_MIPS_MADD_PS, set_type (ASM_TYPE_ARITH OR ASM_TYPE_ARCH),
     set_regset 0 ASM_MIPS_REG_FPU, set_baser 0 (cx_f2 temp),
     asm_mips_operand_fetch 0 ASM_MIPS_OTYPE_REGISTER, set_regset 1 ASM_MIPS_REG_FPU,
     set_baser 1 (cx_bs temp), asm_mips_operand_fetch 1 ASM_MIPS_OTYPE_REGISTER,
     set_regset 2 ASM_MIPS_REG_FPU, set_baser 2 (cx_f2 temp),
     asm_mips_operand_fetch 2 ASM_MIPS_OTYPE_REGISTER, set_regset 3 ASM_MIPS_REG_FPU,
     set_baser 3 (cx_in temp), asm_mips_operand_fetch 3 ASM_MIPS_OTYPE_REGISTER] ins))"

definition asm_mips_madd_s :: mips_handler where
  "asm_mips_madd_s en buf ins = rbind (mips_convert_format_cop1x en buf) (\<lambda>temp. Inr (4, stmts [
     set_instr ASM_MIPS_MADD_S, set_type (ASM_TYPE_ARITH OR ASM_TYPE_ARCH),
     set_regset 0 ASM_MIPS_REG_FPU, set_baser 0 (cx_f2 temp),
     asm_mips_operand_fetch 0 ASM_MIPS_OTYPE_REGISTER, set_regset 1 ASM_MIPS_REG_FPU,
     set_baser 1 (cx_bs temp), asm_mips_operand_fetch 1 ASM_MIPS_OTYPE_REGISTER,
     set_regset 2 ASM_MIPS_REG_FPU, set_baser 2 (cx_f2 temp),
     asm_mips_operand_fetch 2 ASM_MIPS_OTYPE_REGISTER, set_regset 3 ASM_MIPS_REG_FPU,
     set_baser 3 (cx_in temp), asm_mips_operand_fetch 3 ASM_MIPS_OTYPE_REGISTER] ins))"

definition asm_mips_maddu :: mips_handler where
  "asm_mips_maddu en buf ins = rbind (mips_convert_format_r en buf) (\<lambda>temp. Inr (4, stmts [
     set_instr ASM_MIPS_MADDU, set_type ASM_TYPE_ARITH, set_baser 0 (r_rs temp),
     asm_mips_operand_fetch 0 ASM_MIPS_OTYPE_REGISTER, set_baser 1 (r_rt temp),
     asm_mips_operand_fetch 1 ASM_MIPS_OTYPE_REGISTER] ins))"

definition asm_mips_mfc0 :: mips_handler where
  "asm_mips_mfc0 en buf ins = rbind (mips_convert_format_cop2 en buf) (\<lambda>temp. Inr (4, stmts [
     set_instr ASM_MIPS_MFC0, set_type (ASM_TYPE_ARCH OR ASM_TYPE_ASSIGN), set_baser 0 (c2_rt temp),
     asm_mips_operand_fetch 0 ASM_MIPS_OTYPE_REGISTER, set_baser 1 (c2_rd temp),
     asm_mips_operand_fetch 1 ASM_MIPS_OTYPE_REGISTER] ins))"

definition asm_mips_mfc1 :: mips_handler where
  "asm_mips_mfc1 en buf ins = rbind (mips_convert_format_cop2 en buf) (\<lambda>temp. Inr (4, stmts [
     set_instr ASM_MIPS_MFC1, set_type (ASM_TYPE_ARCH OR ASM_TYPE_ASSIGN), set_baser 0 (c2_rt temp),
     asm_mips_operand_fetch 0 ASM_MIPS_OTYPE_REGISTER, set_baser 1 (c2_rd temp),
     asm_mips_operand_fetch 1 ASM_MIPS_OTYPE_REGISTER] ins))"

definition asm_mips_mfc2 :: mips_handler where
  "asm_mips_mfc2 en buf ins = rbind (mips_convert_format_cop2 en buf) (\<lambda>temp. Inr (4, stmts [
     set_instr ASM_MIPS_MFC2, set_type (ASM_TYPE_ARCH OR ASM_TYPE_ASSIGN), set_baser 0 (c2_rt temp),
     asm_mips_operand_fetch 0 ASM_MIPS_OTYPE_REGISTER, set_baser 1 (c2_rd temp),
     asm_mips_operand_fetch 1 ASM_MIPS_OTYPE_REGISTER, set_imm 2 (c2_sl temp),
     asm_mips_operand_fetch 2 ASM_MIPS_OTYPE_IMMEDIATE] ins))"

definition asm_mips_mfhi :: mips_handler where
  "asm_mips_mfhi en buf ins = rbind (mips_convert_format_r en buf) (\<lambda>temp. Inr (4, stmts [
     set_instr ASM_MIPS_MFHI, set_type (ASM_TYPE_ARCH OR ASM_TYPE_ASSIGN), set_baser 0 (r_rd temp),
     asm_mips_operand_fetch 0 ASM_MIPS_OTYPE_REGISTER] ins))"

definition asm_mips_mflo :: mips_handler where
  "asm_mips_mflo en buf ins = rbind (mips_convert_format_r en buf) (\<lambda>temp. Inr (4, stmts [
     set_instr ASM_MIPS_MFLO, set_type (ASM_TYPE_ARCH OR ASM_TYPE_ASSIGN), set_baser 0 (r_rd temp),
     asm_mips_operand_fetch 0 ASM_MIPS_OTYPE_REGISTER] ins))"

definition asm_mips_mov_d :: mips_handler where
  "asm_mips_mov_d en buf ins = rbind (mips_convert_format_r en buf) (\<lambda>temp. Inr (4, stmts [
     set_instr ASM_MIPS_MOV_D, set_type (ASM_TYPE_ARITH OR ASM_TYPE_ARCH OR ASM_TYPE_ASSIGN),
     set_regset 0 ASM_MIPS_REG_FPU, set_baser 0 (r_sa temp),
     asm_mips_operand_fetch 0 ASM_MIPS_OTYPE_REGISTER, set_regset 1 ASM_MIPS_REG_FPU,
     set_baser 1 (r_rd temp), asm_mips_operand_fetch 1 ASM_MIPS_OTYPE_REGISTER] ins))"

definition asm_mips_mov_ps :: mips_handler where
  "asm_mips_mov_ps en buf ins = rbind (mips_convert_format_r en buf) (\<lambda>temp. Inr (4, stmts [
     set_instr ASM_MIPS_MOV_PS, set_type (ASM_TYPE_ARITH OR ASM_TYPE_ARCH OR ASM_TYPE_ASSIGN),
     set_regset 0 ASM_MIPS_REG_FPU, set_baser 0 (r_sa temp),
     asm_mips_operand_fetch 0 ASM_MIPS_OTYPE_REGISTER, set_regset 1 ASM_MIPS_REG_FPU,
     set_baser 1 (r_rd temp), asm_mips_operand_fetch 1 ASM_MIPS_OTYPE_REGISTER] ins))"

definition asm_mips_mov_s :: mips_handler where
  "asm_mips_mov_s en buf ins = rbind (mips_convert_format_r en buf) (\<lambda>temp. Inr (4, stmts [
     set_instr ASM_MIPS_MOV_S, set_type (ASM_TYPE_ARITH OR ASM_TYPE_ARCH OR ASM_TYPE_ASSIGN),
     set_regset 0 ASM_MIPS_REG_FPU, set_baser 0 (r_sa temp),
     asm_mips_operand_fetch 0 ASM_MIPS_OTYPE_REGISTER, set_regset 1 ASM_MIPS_REG_FPU,
     set_baser 1 (r_rd temp), asm_mips_operand_fetch 1 ASM_MIPS_OTYPE_REGISTER] ins))"

definition asm_mips_movcf_d :: mips_handler where
  "asm_mips_movcf_d en buf ins = rbind (mips_convert_format_r en buf) (\<lambda>temp. Inr (4, stmts [
     if drop_bit 16 buf AND 0x1 \<noteq> 0 then set_instr ASM_MIPS_MOVT_D else set_instr ASM_MIPS_MOVF_D,
     set_type (ASM_TYPE_ARITH OR ASM_TYPE_ARCH OR ASM_TYPE_ASSIGN), set_regset 0 ASM_MIPS_REG_FPU,
     set_baser 0 (r_sa temp), asm_mips_operand_fetch 0 ASM_MIPS_OTYPE_REGISTER,
     set_regset 1 ASM_MIPS_REG_FPU, set_baser 1 (r_rd temp),
     asm_mips_operand_fetch 1 ASM_MIPS_OTYPE_REGISTER, set_imm 2 (drop_bit 2 (r_rt temp)),
     asm_mips_operand_fetch 2 ASM_MIPS_OTYPE_IMMEDIATE] ins))"

definition asm_mips_movcf_ps :: mips_handler where
  "asm_mips_movcf_ps en buf ins = rbind (mips_convert_format_r en buf) (\<lambda>temp. Inr (4, stmts [
     if drop_bit 16 buf AND 0x1 \<noteq> 0 then set_instr ASM_MIPS_MOVT_PS else set_instr ASM_MIPS_MOVF_PS,
     set_type (ASM_TYPE_ARITH OR ASM_TYPE_ARCH OR ASM_TYPE_ASSIGN), set_regset 0 ASM_MIPS_REG_FPU,
     set_baser 0 (r_sa temp), asm_mips_operand_fetch 0 ASM_MIPS_OTYPE_REGISTER,
     set_regset 1 ASM_MIPS_REG_FPU, set_baser 1 (r_rd temp),
     asm_mips_operand_fetch 1 ASM_MIPS_OTYPE_REGISTER, set_imm 2 (drop_bit 2 (r_rt temp)),
     asm_mips_operand_fetch 2 ASM_MIPS_OTYPE_IMMEDIATE] ins))"

definition asm_mips_movcf_s :: mips_handler where
  "asm_mips_movcf_s en buf ins = rbind (mips_convert_format_r en buf) (\<lambda>temp. Inr (4, stmts [
     if drop_bit 16 buf AND 0x1 \<noteq> 0 then set_instr ASM_MIPS_MOVT_S else set_instr ASM_MIPS_MOVF_S,
     set_type (ASM_TYPE_ARITH OR ASM_TYPE_ARCH OR ASM_TYPE_ASSIGN), set_regset 0 ASM_MIPS_REG_FPU,
     set_baser 0 (r_sa temp), asm_mips_operand_fetch 0 ASM_MIPS_OTYPE_REGISTER,
     set_regset 1 ASM_MIPS_REG_FPU, set_baser 1 (r_rd temp),
     asm_mips_operand_fetch 1 ASM_MIPS_OTYPE_REGISTER, set_imm 2 (drop_bit 2 (r_rt temp)),
     asm_mips_operand_fetch 2 ASM_MIPS_OTYPE_IMMEDIATE] ins))"

definition asm_mips_movf :: mips_handler where
  "asm_mips_movf en buf ins = rbind (mips_convert_format_mov en buf) (\<lambda>temp. Inr (4, stmts [
     set_instr ASM_MIPS_MOVF, set_type (ASM_TYPE_ARCH OR ASM_TYPE_ASSIGN), set_baser 0 (mv_rd temp),
     asm_mips_operand_fetch 0 ASM_MIPS_OTYPE_REGISTER, set_baser 1 (mv_rs temp),
     asm_mips_operand_fetch 1 ASM_MIPS_OTYPE_REGISTER, set_imm 2 (mv_cc temp),
     asm_mips_operand_fetch 2 ASM_MIPS_OTYPE_IMMEDIATE] ins))"

definition asm_mips_movn :: mips_handler where
  "asm_mips_movn en buf ins = rbind (mips_convert_format_r en buf) (\<lambda>temp. Inr (4, stmts [
     set_instr ASM_MIPS_MOVN, set_type (ASM_TYPE_ARCH OR ASM_TYPE_ASSIGN), set_baser 0 (r_rd temp),
     asm_mips_operand_fetch 0 ASM_MIPS_OTYPE_REGISTER, set_baser 1 (r_rs temp),
     asm_mips_operand_fetch 1 ASM_MIPS_OTYPE_REGISTER, set_baser 2 (r_rt temp),
     asm_mips_operand_fetch 2 ASM_MIPS_OTYPE_REGISTER] ins))"

definition asm_mips_movn_d :: mips_handler where
  "asm_mips_movn_d en buf ins = rbind (mips_convert_format_r en buf) (\<lambda>temp. Inr (4, stmts [
     set_instr ASM_MIPS_MOVN_D, set_type (ASM_TYPE_ARITH OR ASM_TYPE_ARCH OR ASM_TYPE_ASSIGN),
     set_regset 0 ASM_MIPS_REG_FPU, set_baser 0 (r_sa temp),
     asm_mips_operand_fetch 0 ASM_MIPS_OTYPE_REGISTER, set_regset 1 ASM_MIPS_REG_FPU,
     set_baser 1 (r_rd temp), asm_mips_operand_fetch 1 ASM_MIPS_OTYPE_REGISTER,
     set_baser 2 (r_rt temp), asm_mips_operand_fetch 2 ASM_MIPS_OTYPE_REGISTER] ins))"

definition asm_mips_movn_ps :: mips_handler where
  "asm_mips_movn_ps en buf ins = rbind (mips_convert_format_r en buf) (\<lambda>temp. Inr (4, stmts [
     set_instr ASM_MIPS_MOVN_PS, set_type (ASM_TYPE_ARITH OR ASM_TYPE_ARCH OR ASM_TYPE_ASSIGN),
     set_regset 0 ASM_MIPS_REG_FPU, set_baser 0 (r_sa temp),
     asm_mips_operand_fetch 0 ASM_MIPS_OTYPE_REGISTER, set_regset 1 ASM_MIPS_REG_FPU,
     set_baser 1 (r_rd temp), asm_mips_operand_fetch 1 ASM_MIPS_OTYPE_REGISTER,
     set_baser 2 (r_rt temp), asm_mips_operand_fetch 2 ASM_MIPS_OTYPE_REGISTER] ins))"

definition asm_mips_movn_s :: mips_handler where
  "asm_mips_movn_s en buf ins = rbind (mips_convert_format_r en buf) (\<lambda>temp. Inr (4, stmts [
     set_instr ASM_MIPS_MOVN_S, set_type (ASM_TYPE_ARITH OR ASM_TYPE_ARCH OR ASM_TYPE_ASSIGN),
     set_regset 0 ASM_MIPS_REG_FPU, set_baser 0 (r_sa temp),
     asm_mips_operand_fetch 0 ASM_MIPS_OTYPE_REGISTER, set_regset 1 ASM_MIPS_REG_FPU,
     set_baser 1 (r_rd temp), asm_mips_operand_fetch 1 ASM_MIPS_OTYPE_REGISTER,
     set_baser 2 (r_rt temp), asm_mips_operand_fetch 2 ASM_MIPS_OTYPE_REGISTER] ins))"

definition asm_mips_movt :: mips_handler where
  "asm_mips_movt en buf ins = rbind (mips_convert_format_mov en buf) (\<lambda>temp. Inr (4, stmts [
     set_instr ASM_MIPS_MOVT, set_type (ASM_TYPE_ARCH OR ASM_TYPE_ASSIGN), set_baser 0 (mv_rd temp),
     asm_mips_operand_fetch 0 ASM_MIPS_OTYPE_REGISTER, set_baser 1 (mv_rs temp),
     asm_mips_operand_fetch 1 ASM_MIPS_OTYPE_REGISTER, set_imm 2 (mv_cc temp),
     asm_mips_operand_fetch 2 ASM_MIPS_OTYPE_IMMEDIATE] ins))"

definition asm_mips_movz :: mips_handler where
  "asm_mips_movz en buf ins = rbind (mips_convert_format_r en buf) (\<lambda>temp. Inr (4, stmts [
     set_instr ASM_MIPS_MOVZ, set_type (ASM_TYPE_ARCH OR ASM_TYPE_ASSIGN), set_baser 0 (r_rd temp),
     asm_mips_operand_fetch 0 ASM_MIPS_OTYPE_REGISTER, set_baser 1 (r_rs temp),
     asm_mips_operand_fetch 1 ASM_MIPS_OTYPE_REGISTER, set_baser 2 (r_rt temp),
     asm_mips_operand_fetch 2 ASM_MIPS_OTYPE_REGISTER] ins))"

definition asm_mips_movz_d :: mips_handler where
  "asm_mips_movz_d en buf ins = rbind (mips_convert_format_r en buf) (\<lambda>temp. Inr (4, stmts [
     set_instr ASM_MIPS_MOVZ_D, set_type (ASM_TYPE_ARITH OR ASM_TYPE_ARCH OR ASM_TYPE_ASSIGN),
     set_regset 0 ASM_MIPS_REG_FPU, set_baser 0 (r_sa temp),
     asm_mips_operand_fetch 0 ASM_MIPS_OTYPE_REGISTER, set_regset 1 ASM_MIPS_REG_FPU,
     set_baser 1 (r_rd temp), asm_mips_operand_fetch 1 ASM_MIPS_OTYPE_REGISTER,
     set_baser 2 (r_rt temp), asm_mips_operand_fetch 2 ASM_MIPS_OTYPE_REGISTER] ins))"

definition asm_mips_movz_ps :: mips_handler where
  "asm_mips_movz_ps en buf ins = rbind (mips_convert_format_r en buf) (\<lambda>temp. Inr (4, stmts [
     set_instr ASM_MIPS_MOVZ_PS, set_type (ASM_TYPE_ARITH OR ASM_TYPE_ARCH OR ASM_TYPE_ASSIGN),
     set_regset 0 ASM_MIPS_REG_FPU, set_baser 0 (r_sa temp),
     asm_mips_operand_fetch 0 ASM_MIPS_OTYPE_REGISTER, set_regset 1 ASM_MIPS_REG_FPU,
     set_baser 1 (r_rd temp), asm_mips_operand_fetch 1 ASM_MIPS_OTYPE_REGISTER,
     set_baser 2 (r_rt temp), asm_mips_operand_fetch 2 ASM_MIPS_OTYPE_REGISTER] ins))"

definition asm_mips_movz_s :: mips_handler where
  "asm_mips_movz_s en buf ins = rbind (mips_convert_format_r en buf) (\<lambda>temp. Inr (4, stmts [
     set_instr ASM_MIPS_MOVZ_S, set_type (ASM_TYPE_ARITH OR ASM_TYPE_ARCH OR ASM_TYPE_ASSIGN),
     set_regset 0 ASM_MIPS_REG_FPU, set_baser 0 (r_sa temp),
     asm_mips_operand_fetch 0 ASM_MIPS_OTYPE_REGISTER, set_regset 1 ASM_MIPS_REG_FPU,
     set_baser 1 (r_rd temp), asm_mips_operand_fetch 1 ASM_MIPS_OTYPE_REGISTER,
     set_baser 2 (r_rt temp), asm_mips_operand_fetch 2 ASM_MIPS_OTYPE_REGISTER] ins))"

definition asm_mips_msub :: mips_handler where
  "asm_mips_msub en buf ins = rbind (mips_convert_format_r en buf) (\<lambda>temp. Inr (4, stmts [
     set_instr ASM_MIPS_MSUB, set_type ASM_TYPE_ARITH, set_baser 0 (r_rs temp),
     asm_mips_operand_fetch 0 ASM_MIPS_OTYPE_REGISTER, set_baser 1 (r_rt temp),
     asm_mips_operand_fetch 1 ASM_MIPS_OTYPE_REGISTER] ins))"

definition asm_mips_msub_d :: mips_handler where
  "asm_mips_msub_d en buf ins = rbind (mips_convert_format_cop1x en buf) (\<lambda>temp. Inr (4, stmts [
     set_instr ASM_MIPS_MSUB_D, set_type (ASM_TYPE_ARITH OR ASM_TYPE_ARCH),
     set_regset 0 ASM_MIPS_REG_FPU, set_baser 0 (cx_f2 temp),
     asm_mips_operand_fetch 0 ASM_MIPS_OTYPE_REGISTER, set_regset 1 ASM_MIPS_REG_FPU,
     set_baser 1 (cx_bs temp), asm_mips_operand_fetch 1 ASM_MIPS_OTYPE_REGISTER,
     set_regset 2 ASM_MIPS_REG_FPU, set_baser 2 (cx_f2 temp),
     asm_mips_operand_fetch 2 ASM_MIPS_OTYPE_REGISTER, set_regset 3 ASM_MIPS_REG_FPU,
     set_baser 3 (cx_in temp), asm_mips_operand_fetch 3 ASM_MIPS_OTYPE_REGISTER] ins))"

definition asm_mips_msub_ps :: mips_handler where
  "asm_mips_msub_ps en buf ins = rbind (mips_convert_format_cop1x en buf) (\<lambda>temp. Inr (4, stmts [
     set_instr ASM_MIPS_MSUB_PS, set_type (ASM_TYPE_ARITH OR ASM_TYPE_ARCH),
     set_regset 0 ASM_MIPS_REG_FPU, set_baser 0 (cx_f2 temp),
     asm_mips_operand_fetch 0 ASM_MIPS_OTYPE_REGISTER, set_regset 1 ASM_MIPS_REG_FPU,
     set_baser 1 (cx_bs temp), asm_mips_operand_fetch 1 ASM_MIPS_OTYPE_REGISTER,
     set_regset 2 ASM_MIPS_REG_FPU, set_baser 2 (cx_f2 temp),
     asm_mips_operand_fetch 2 ASM_MIPS_OTYPE_REGISTER, set_regset 3 ASM_MIPS_REG_FPU,
     set_baser 3 (cx_in temp), asm_mips_operand_fetch 3 ASM_MIPS_OTYPE_REGISTER] ins))"

definition asm_mips_msub_s :: mips_handler where
  "asm_mips_msub_s en buf ins = rbind (mips_convert_format_cop1x en buf) (\<lambda>temp. Inr (4, stmts [
     set_instr ASM_MIPS_MSUB_S, set_type (ASM_TYPE_ARITH OR ASM_TYPE_ARCH),
     set_regset 0 ASM_MIPS_REG_FPU, set_baser 0 (cx_f2 temp),
     asm_mips_operand_fetch 0 ASM_MIPS_OTYPE_REGISTER, set_regset 1 ASM_MIPS_REG_FPU,
     set_baser 1 (cx_bs temp), asm_mips_operand_fetch 1 ASM_MIPS_OTYPE_REGISTER,
     set_regset 2 ASM_MIPS_REG_FPU, set_baser 2 (cx_f2 temp),
     asm_mips_operand_fetch 2 ASM_MIPS_OTYPE_REGISTER, set_regset 3 ASM_MIPS_REG_FPU,
     set_baser 3 (cx_in temp), asm_mips_operand_fetch 3 ASM_MIPS_OTYPE_REGISTER] ins))"

definition asm_mips_msubu :: mips_handler where
  "asm_mips_msubu en buf ins = rbind (mips_convert_format_r en buf) (\<lambda>temp. Inr (4, stmts [
     set_instr ASM_MIPS_MSUBU, set_type ASM_TYPE_ARITH, set_baser 0 (r_rs temp),
     asm_mips_operand_fetch 0 ASM_MIPS_OTYPE_REGISTER, set_baser 1 (r_rt temp),
     asm_mips_operand_fetch 1 ASM_MIPS_OTYPE_REGISTER] ins))"

definition asm_mips_mtc0 :: mips_handler where
  "asm_mips_mtc0 en buf ins = rbind (mips_convert_format_cop2 en buf) (\<lambda>temp. Inr (4, stmts [
     set_instr ASM_MIPS_MTC0, set_type (ASM_TYPE_ARCH OR ASM_TYPE_ASSIGN), set_baser 0 (c2_rt temp),
     asm_mips_operand_fetch 0 ASM_MIPS_OTYPE_REGISTER, set_baser 1 (c2_rd temp),
     asm_mips_operand_fetch 1 ASM_MIPS_OTYPE_REGISTER] ins))"

definition asm_mips_mtc1 :: mips_handler where
  "asm_mips_mtc1 en buf ins = rbind (mips_convert_format_cop2 en buf) (\<lambda>temp. Inr (4, stmts [
     set_instr ASM_MIPS_MTC1, set_type (ASM_TYPE_ARCH OR ASM_TYPE_ASSIGN), set_baser 0 (c2_rt temp),
     asm_mips_operand_fetch 0 ASM_MIPS_OTYPE_REGISTER, set_baser 1 (c2_rd temp),
     asm_mips_operand_fetch 1 ASM_MIPS_OTYPE_REGISTER] ins))"

definition asm_mips_mtc2 :: mips_handler where
  "asm_mips_mtc2 en buf ins = rbind (mips_convert_format_cop2 en buf) (\<lambda>temp. Inr (4, stmts [
     set_instr ASM_MIPS_MTC2, set_type (ASM_TYPE_ARCH OR ASM_TYPE_ASSIGN), set_baser 0 (c2_rt temp),
     asm_mips_operand_fetch 0 ASM_MIPS_OTYPE_REGISTER, set_baser 1 (c2_rd temp),
     asm_mips_operand_fetch 1 ASM_MIPS_OTYPE_REGISTER, set_imm 2 (c2_sl temp),
     asm_mips_operand_fetch 2 ASM_MIPS_OTYPE_IMMEDIATE] ins))"

definition asm_mips_mthi :: mips_handler where
  "asm_mips_mthi en buf ins = rbind (mips_convert_format_r en buf) (\<lambda>temp. Inr (4, stmts [
     set_instr ASM_MIPS_MTHI, set_type (ASM_TYPE_ARCH OR ASM_TYPE_ASSIGN), set_baser 0 (r_rs temp),
     asm_mips_operand_fetch 0 ASM_MIPS_OTYPE_REGISTER] ins))"

definition asm_mips_mtlo :: mips_handler where
  "asm_mips_mtlo en buf ins = rbind (mips_convert_format_r en buf) (\<lambda>temp. Inr (4, stmts [
     set_instr ASM_MIPS_MTLO, set_type (ASM_TYPE_ARCH OR ASM_TYPE_ASSIGN), set_baser 0 (r_rs temp),
     asm_mips_operand_fetch 0 ASM_MIPS_OTYPE_REGISTER] ins))"

definition asm_mips_mul :: mips_handler where
  "asm_mips_mul en buf ins = rbind (mips_convert_format_r en buf) (\<lambda>temp. Inr (4, stmts [
     set_instr ASM_MIPS_MUL, set_type ASM_TYPE_ARITH, set_baser 0 (r_rd temp),
     asm_mips_operand_fetch 0 ASM_MIPS_OTYPE_REGISTER, set_baser 1 (r_rs temp),
     asm_mips_operand_fetch 1 ASM_MIPS_OTYPE_REGISTER, set_baser 2 (r_rt temp),
     asm_mips_operand_fetch 2 ASM_MIPS_OTYPE_REGISTER] ins))"

definition asm_mips_mul_d :: mips_handler where
  "asm_mips_mul_d en buf ins = rbind (mips_convert_format_r en buf) (\<lambda>temp. Inr (4, stmts [
     set_instr ASM_MIPS_MUL_D, set_type (ASM_TYPE_ARITH OR ASM_TYPE_ARCH),
     set_regset 0 ASM_MIPS_REG_FPU, set_baser 0 (r_sa temp),
     asm_mips_operand_fetch 0 ASM_MIPS_OTYPE_REGISTER, set_regset 1 ASM_MIPS_REG_FPU,
     set_baser 1 (r_rd temp), asm_mips_operand_fetch 1 ASM_MIPS_OTYPE_REGISTER,
     set_regset 2 ASM_MIPS_REG_FPU, set_baser 2 (r_rt temp),
     asm_mips_operand_fetch 2 ASM_MIPS_OTYPE_REGISTER] ins))"

definition asm_mips_mul_ps :: mips_handler where
  "asm_mips_mul_ps en buf ins = rbind (mips_convert_format_r en buf) (\<lambda>temp. Inr (4, stmts [
     set_instr ASM_MIPS_MUL_PS, set_type (ASM_TYPE_ARITH OR ASM_TYPE_ARCH),
     set_regset 0 ASM_MIPS_REG_FPU, set_baser 0 (r_sa temp),
     asm_mips_operand_fetch 0 ASM_MIPS_OTYPE_REGISTER, set_regset 1 ASM_MIPS_REG_FPU,
     set_baser 1 (r_rd temp), asm_mips_operand_fetch 1 ASM_MIPS_OTYPE_REGISTER,
     set_regset 2 ASM_MIPS_REG_FPU, set_baser 2 (r_rt temp),
     asm_mips_operand_fetch 2 ASM_MIPS_OTYPE_REGISTER] ins))"

definition asm_mips_mul_s :: mips_handler where
  "asm_mips_mul_s en buf ins = rbind (mips_convert_format_r en buf) (\<lambda>temp. Inr (4, stmts [
     set_instr ASM_MIPS_MUL_S, set_type (ASM_TYPE_ARITH OR ASM_TYPE_ARCH),
     set_regset 0 ASM_MIPS_REG_FPU, set_baser 0 (r_sa temp),
     asm_mips_operand_fetch 0 ASM_MIPS_OTYPE_REGISTER, set_regset 1 ASM_MIPS_REG_FPU,
     set_baser 1 (r_rd temp), asm_mips_operand_fetch 1 ASM_MIPS_OTYPE_REGISTER,
     set_regset 2 ASM_MIPS_REG_FPU, set_baser 2 (r_rt temp),
     asm_mips_operand_fetch 2 ASM_MIPS_OTYPE_REGISTER] ins))"

definition asm_mips_mult :: mips_handler where
  "asm_mips_mult en buf ins = rbind (mips_convert_format_t en buf) (\<lambda>temp. Inr (4, stmts [
     set_instr ASM_MIPS_MULT, set_type ASM_TYPE_ARITH, set_baser 0 (t_rs temp),
     asm_mips_operand_fetch 0 ASM_MIPS_OTYPE_REGISTER, set_baser 1 (t_rt temp),
     asm_mips_operand_fetch 1 ASM_MIPS_OTYPE_REGISTER] ins))"

definition asm_mips_multu :: mips_handler where
  "asm_mips_multu en buf ins = rbind (mips_convert_format_t en buf) (\<lambda>temp. Inr (4, stmts [
     set_instr ASM_MIPS_MULTU, set_type ASM_TYPE_ARITH, set_baser 0 (t_rs temp),
     asm_mips_operand_fetch 0 ASM_MIPS_OTYPE_REGISTER, set_baser 1 (t_rt temp),
     asm_mips_operand_fetch 1 ASM_MIPS_OTYPE_REGISTER] ins))"

definition asm_mips_neg_d :: mips_handler where
  "asm_mips_neg_d en buf ins = rbind (mips_convert_format_r en buf) (\<lambda>temp. Inr (4, stmts [
     set_instr ASM_MIPS_NEG_D, set_type (ASM_TYPE_ARITH OR ASM_TYPE_ARCH),
     set_regset 0 ASM_MIPS_REG_FPU, set_baser 0 (r_sa temp),
     asm_mips_operand_fetch 0 ASM_MIPS_OTYPE_REGISTER, set_regset 1 ASM_MIPS_REG_FPU,
     set_baser 1 (r_rd temp), asm_mips_operand_fetch 1 ASM_MIPS_OTYPE_REGISTER] ins))"

definition asm_mips_neg_ps :: mips_handler where
  "asm_mips_neg_ps en buf ins = rbind (mips_convert_format_r en buf) (\<lambda>temp. Inr (4, stmts [
     set_instr ASM_MIPS_NEG_PS, set_type (ASM_TYPE_ARITH OR ASM_TYPE_ARCH),
     set_regset 0 ASM_MIPS_REG_FPU, set_baser 0 (r_sa temp),
     asm_mips_operand_fetch 0 ASM_MIPS_OTYPE_REGISTER, set_regset 1 ASM_MIPS_REG_FPU,
     set_baser 1 (r_rd temp), asm_mips_operand_fetch 1 ASM_MIPS_OTYPE_REGISTER] ins))"

definition asm_mips_neg_s :: mips_handler where
  "asm_mips_neg_s en buf ins = rbind (mips_convert_format_r en buf) (\<lambda>temp. Inr (4, stmts [
     set_instr ASM_MIPS_NEG_S, set_type (ASM_TYPE_ARITH OR ASM_TYPE_ARCH),
     set_regset 0 ASM_MIPS_REG_FPU, set_baser 0 (r_sa temp),
     asm_mips_operand_fetch 0 ASM_MIPS_OTYPE_REGISTER, set_regset 1 ASM_MIPS_REG_FPU,
     set_baser 1 (r_rd temp), asm_mips_operand_fetch 1 ASM_MIPS_OTYPE_REGISTER] ins))"

definition asm_mips_nmadd_d :: mips_handler where
  "asm_mips_nmadd_d en buf ins = rbind (mips_convert_format_cop1x en buf) (\<lambda>temp. Inr (4, stmts [
     set_instr ASM_MIPS_NMADD_D, set_type (ASM_TYPE_ARITH OR ASM_TYPE_ARCH),
     set_regset 0 ASM_MIPS_REG_FPU, set_baser 0 (cx_f2 temp),
     asm_mips_operand_fetch 0 ASM_MIPS_OTYPE_REGISTER, set_regset 1 ASM_MIPS_REG_FPU,
     set_baser 1 (cx_bs temp), asm_mips_operand_fetch 1 ASM_MIPS_OTYPE_REGISTER,
     set_regset 2 ASM_MIPS_REG_FPU, set_baser 2 (cx_f2 temp),
     asm_mips_operand_fetch 2 ASM_MIPS_OTYPE_REGISTER, set_regset 3 ASM_MIPS_REG_FPU,
     set_baser 3 (cx_in temp), asm_mips_operand_fetch 3 ASM_MIPS_OTYPE_REGISTER] ins))"

definition asm_mips_nmadd_ps :: mips_handler where
  "asm_mips_nmadd_ps en buf ins = rbind (mips_convert_format_cop1x en buf) (\<lambda>temp. Inr (4, stmts [
     set_instr ASM_MIPS_NMADD_PS, set_type (ASM_TYPE_ARITH OR ASM_TYPE_ARCH),
     set_regset 0 ASM_MIPS_REG_FPU, set_baser 0 (cx_f2 temp),
     asm_mips_operand_fetch 0 ASM_MIPS_OTYPE_REGISTER, set_regset 1 ASM_MIPS_REG_FPU,
     set_baser 1 (cx_bs temp), asm_mips_operand_fetch 1 ASM_MIPS_OTYPE_REGISTER,
     set_regset 2 ASM_MIPS_REG_FPU, set_baser 2 (cx_f2 temp),
     asm_mips_operand_fetch 2 ASM_MIPS_OTYPE_REGISTER, set_regset 3 ASM_MIPS_REG_FPU,
     set_baser 3 (cx_in temp), asm_mips_operand_fetch 3 ASM_MIPS_OTYPE_REGISTER] ins))"

definition asm_mips_nmadd_s :: mips_handler where
  "asm_mips_nmadd_s en buf ins = rbind (mips_convert_format_cop1x en buf) (\<lambda>temp. Inr (4, stmts [
     set_instr ASM_MIPS_NMADD_S, set_type (ASM_TYPE_ARITH OR ASM_TYPE_ARCH),
     set_regset 0 ASM_MIPS_REG_FPU, set_baser 0 (cx_f2 temp),
     asm_mips_operand_fetch 0 ASM_MIPS_OTYPE_REGISTER, set_regset 1 ASM_MIPS_REG_FPU,
     set_baser 1 (cx_bs temp), asm_mips_operand_fetch 1 ASM_MIPS_OTYPE_REGISTER,
     set_regset 2 ASM_MIPS_REG_FPU, set_baser 2 (cx_f2 temp),
     asm_mips_operand_fetch 2 ASM_MIPS_OTYPE_REGISTER, set_regset 3 ASM_MIPS_REG_FPU,
     set_baser 3 (cx_in temp), asm_mips_operand_fetch 3 ASM_MIPS_OTYPE_REGISTER] ins))"

definition asm_mips_nmsub_d :: mips_handler where
  "asm_mips_nmsub_d en buf ins = rbind (mips_convert_format_cop1x en buf) (\<lambda>temp. Inr (4, stmts [
     set_instr ASM_MIPS_NMSUB_D, set_type (ASM_TYPE_ARITH OR ASM_TYPE_ARCH),
     set_regset 0 ASM_MIPS_REG_FPU, set_baser 0 (cx_f2 temp),
     asm_mips_operand_fetch 0 ASM_MIPS_OTYPE_REGISTER, set_regset 1 ASM_MIPS_REG_FPU,
     set_baser 1 (cx_bs temp), asm_mips_operand_fetch 1 ASM_MIPS_OTYPE_REGISTER,
     set_regset 2 ASM_MIPS_REG_FPU, set_baser 2 (cx_f2 temp),
     asm_mips_operand_fetch 2 ASM_MIPS_OTYPE_REGISTER, set_regset 3 ASM_MIPS_REG_FPU,
     set_baser 3 (cx_in temp), asm_mips_operand_fetch 3 ASM_MIPS_OTYPE_REGISTER] ins))"

definition asm_mips_nmsub_ps :: mips_handler where
  "asm_mips_nmsub_ps en buf ins = rbind (mips_convert_format_cop1x en buf) (\<lambda>temp. Inr (4, stmts [
     set_instr ASM_MIPS_NMSUB_PS, set_type (ASM_TYPE_ARITH OR ASM_TYPE_ARCH),
     set_regset 0 ASM_MIPS_REG_FPU, set_baser 0 (cx_f2 temp),
     asm_mips_operand_fetch 0 ASM_MIPS_OTYPE_REGISTER, set_regset 1 ASM_MIPS_REG_FPU,
     set_baser 1 (cx_bs temp), asm_mips_operand_fetch 1 ASM_MIPS_OTYPE_REGISTER,
     set_regset 2 ASM_MIPS_REG_FPU, set_baser 2 (cx_f2 temp),
     asm_mips_operand_fetch 2 ASM_MIPS_OTYPE_REGISTER, set_regset 3 ASM_MIPS_REG_FPU,
     set_baser 3 (cx_in temp), asm_mips_operand_fetch 3 ASM_MIPS_OTYPE_REGISTER] ins))"

definition asm_mips_nmsub_s :: mips_handler where
  "asm_mips_nmsub_s en buf ins = rbind (mips_convert_format_cop1x en buf) (\<lambda>temp. Inr (4, stmts [
     set_instr ASM_MIPS_NMSUB_S, set_type (ASM_TYPE_ARITH OR ASM_TYPE_ARCH),
     set_regset 0 ASM_MIPS_REG_FPU, set_baser 0 (cx_f2 temp),
     asm_mips_operand_fetch 0 ASM_MIPS_OTYPE_REGISTER, set_regset 1 ASM_MIPS_REG_FPU,
     set_baser 1 (cx_bs temp), asm_mips_operand_fetch 1 ASM_MIPS_OTYPE_REGISTER,
     set_regset 2 ASM_MIPS_REG_FPU, set_baser 2 (cx_f2 temp),
     asm_mips_operand_fetch 2 ASM_MIPS_OTYPE_REGISTER, set_regset 3 ASM_MIPS_REG_FPU,
     set_baser 3 (cx_in temp), asm_mips_operand_fetch 3 ASM_MIPS_OTYPE_REGISTER] ins))"

definition asm_mips_nop :: mips_handler where
  "asm_mips_nop en buf ins = Inr (4, stmts [set_instr ASM_MIPS_NOP, set_type ASM_TYPE_NOP, asm_mips_operand_fetch 0 ASM_MIPS_OTYPE_NOOP] ins)"

definition asm_mips_nor :: mips_handler where
  "asm_mips_nor en buf ins = rbind (mips_convert_format_r en buf) (\<lambda>temp. Inr (4, stmts [
     set_instr ASM_MIPS_NOR, set_type ASM_TYPE_ARITH, set_baser 0 (r_rd temp),
     asm_mips_operand_fetch 0 ASM_MIPS_OTYPE_REGISTER, set_baser 1 (r_rs temp),
     asm_mips_operand_fetch 1 ASM_MIPS_OTYPE_REGISTER, set_baser 2 (r_rt temp),
     asm_mips_operand_fetch 2 ASM_MIPS_OTYPE_REGISTER] ins))"

definition asm_mips_or :: mips_handler where
  "asm_mips_or en buf ins = rbind (mips_convert_format_r en buf) (\<lambda>temp. Inr (4, stmts [
     set_instr ASM_MIPS_OR, set_type ASM_TYPE_ARITH, set_baser 0 (r_rd temp),
     asm_mips_operand_fetch 0 ASM_MIPS_OTYPE_REGISTER, set_baser 1 (r_rs temp),
     asm_mips_operand_fetch 1 ASM_MIPS_OTYPE_REGISTER, set_baser 2 (r_rt temp),
     asm_mips_operand_fetch 2 ASM_MIPS_OTYPE_REGISTER] ins))"

definition asm_mips_ori :: mips_handler where
  "asm_mips_ori en buf ins = rbind (mips_convert_format_i en buf) (\<lambda>temp. Inr (4, stmts [
     set_instr ASM_MIPS_ORI, set_type ASM_TYPE_ARITH, set_baser 0 (i_rt temp),
     asm_mips_operand_fetch 0 ASM_MIPS_OTYPE_REGISTER, set_baser 1 (i_rs temp),
     asm_mips_operand_fetch 1 ASM_MIPS_OTYPE_REGISTER, set_imm 2 (i_im temp),
     asm_mips_operand_fetch 2 ASM_MIPS_OTYPE_IMMEDIATE] ins))"

definition asm_mips_pref :: mips_handler where
  "asm_mips_pref en buf ins = rbind (mips_convert_format_i en buf) (\<lambda>temp. Inr (4, stmts [
     set_instr ASM_MIPS_PREF, set_type (ASM_TYPE_ARCH OR ASM_TYPE_LOAD), set_baser 0 (i_rt temp),
     asm_mips_operand_fetch 0 ASM_MIPS_OTYPE_REGISTER, set_imm 1 (i_im temp),
     asm_mips_operand_fetch 1 ASM_MIPS_OTYPE_IMMEDIATE, set_baser 2 (i_rs temp),
     asm_mips_operand_fetch 2 ASM_MIPS_OTYPE_REGBASE] ins))"

definition asm_mips_prefx :: mips_handler where
  "asm_mips_prefx en buf ins = rbind (mips_convert_format_cop1x en buf) (\<lambda>temp. Inr (4, stmts [
     set_instr ASM_MIPS_PREFX, set_type (ASM_TYPE_ASSIGN OR ASM_TYPE_ARCH), set_baser 0 (cx_f1 temp),
     asm_mips_operand_fetch 0 ASM_MIPS_OTYPE_REGISTER, set_baser 1 (cx_in temp),
     asm_mips_operand_fetch 1 ASM_MIPS_OTYPE_REGISTER, set_baser 2 (cx_bs temp),
     asm_mips_operand_fetch 2 ASM_MIPS_OTYPE_REGBASE] ins))"

definition asm_mips_rdhwr :: mips_handler where
  "asm_mips_rdhwr en buf ins = Inr (4, stmts [set_instr ASM_MIPS_RDHWR] ins)"

definition asm_mips_recip_d :: mips_handler where
  "asm_mips_recip_d en buf ins = rbind (mips_convert_format_r en buf) (\<lambda>temp. Inr (4, stmts [
     set_instr ASM_MIPS_RECIP_D, set_type (ASM_TYPE_ARITH OR ASM_TYPE_ARCH),
     set_regset 0 ASM_MIPS_REG_FPU, set_baser 0 (r_sa temp),
     asm_mips_operand_fetch 0 ASM_MIPS_OTYPE_REGISTER, set_regset 1 ASM_MIPS_REG_FPU,
     set_baser 1 (r_rd temp), asm_mips_operand_fetch 1 ASM_MIPS_OTYPE_REGISTER] ins))"

definition asm_mips_recip_s :: mips_handler where
  "asm_mips_recip_s en buf ins = rbind (mips_convert_format_r en buf) (\<lambda>temp. Inr (4, stmts [
     set_instr ASM_MIPS_RECIP_S, set_type (ASM_TYPE_ARITH OR ASM_TYPE_ARCH),
     set_regset 0 ASM_MIPS_REG_FPU, set_baser 0 (r_sa temp),
     asm_mips_operand_fetch 0 ASM_MIPS_OTYPE_REGISTER, set_regset 1 ASM_MIPS_REG_FPU,
     set_baser 1 (r_rd temp), asm_mips_operand_fetch 1 ASM_MIPS_OTYPE_REGISTER] ins))"

definition asm_mips_rotr :: mips_handler where
  "asm_mips_rotr en buf ins = Inr (4, stmts [set_instr ASM_MIPS_ROTR] ins)"

definition asm_mips_rotrv :: mips_handler where
  "asm_mips_rotrv en buf ins = Inr (4, stmts [set_instr ASM_MIPS_ROTRV] ins)"

definition asm_mips_round_l_d :: mips_handler where
  "asm_mips_round_l_d en buf ins = rbind (mips_convert_format_r en buf) (\<lambda>temp. Inr (4, stmts [
     set_instr ASM_MIPS_ROUND_L_D, set_type (ASM_TYPE_ARITH OR ASM_TYPE_ARCH),
     set_regset 0 ASM_MIPS_REG_FPU, set_baser 0 (r_sa temp),
     asm_mips_operand_fetch 0 ASM_MIPS_OTYPE_REGISTER, set_regset 1 ASM_MIPS_REG_FPU,
     set_baser 1 (r_rd temp), asm_mips_operand_fetch 1 ASM_MIPS_OTYPE_REGISTER] ins))"

definition asm_mips_round_l_s :: mips_handler where
  "asm_mips_round_l_s en buf ins = rbind (mips_convert_format_r en buf) (\<lambda>temp. Inr (4, stmts [
     set_instr ASM_MIPS_ROUND_L_S, set_type (ASM_TYPE_ARITH OR ASM_TYPE_ARCH),
     set_regset 0 ASM_MIPS_REG_FPU, set_baser 0 (r_sa temp),
     asm_mips_operand_fetch 0 ASM_MIPS_OTYPE_REGISTER, set_regset 1 ASM_MIPS_REG_FPU,
     set_baser 1 (r_rd temp), asm_mips_operand_fetch 1 ASM_MIPS_OTYPE_REGISTER] ins))"

definition asm_mips_round_w_d :: mips_handler where
  "asm_mips_round_w_d en buf ins = rbind (mips_convert_format_r en buf) (\<lambda>temp. Inr (4, stmts [
     set_instr ASM_MIPS_ROUND_W_D, set_type (ASM_TYPE_ARITH OR ASM_TYPE_ARCH),
     set_regset 0 ASM_MIPS_REG_FPU, set_baser 0 (r_sa temp),
     asm_mips_operand_fetch 0 ASM_MIPS_OTYPE_REGISTER, set_regset 1 ASM_MIPS_REG_FPU,
     set_baser 1 (r_rd temp), asm_mips_operand_fetch 1 ASM_MIPS_OTYPE_REGISTER] ins))"

definition asm_mips_round_w_s :: mips_handler where
  "asm_mips_round_w_s en buf ins = rbind (mips_convert_format_r en buf) (\<lambda>temp. Inr (4, stmts [
     set_instr ASM_MIPS_ROUND_W_S, set_type (ASM_TYPE_ARITH OR ASM_TYPE_ARCH),
     set_regset 0 ASM_MIPS_REG_FPU, set_baser 0 (r_sa temp),
     asm_mips_operand_fetch 0 ASM_MIPS_OTYPE_REGISTER, set_regset 1 ASM_MIPS_REG_FPU,
     set_baser 1 (r_rd temp), asm_mips_operand_fetch 1 ASM_MIPS_OTYPE_REGISTER] ins))"

definition asm_mips_rsqrt_d :: mips_handler where
  "asm_mips_rsqrt_d en buf ins = rbind (mips_convert_format_r en buf) (\<lambda>temp. Inr (4, stmts [
     set_instr ASM_MIPS_RSQRT_D, set_type (ASM_TYPE_ARITH OR ASM_TYPE_ARCH),
     set_regset 0 ASM_MIPS_REG_FPU, set_baser 0 (r_sa temp),
     asm_mips_operand_fetch 0 ASM_MIPS_OTYPE_REGISTER, set_regset 1 ASM_MIPS_REG_FPU,
     set_baser 1 (r_rd temp), asm_mips_operand_fetch 1 ASM_MIPS_OTYPE_REGISTER] ins))"

definition asm_mips_rsqrt_s :: mips_handler where
  "asm_mips_rsqrt_s en buf ins = rbind (mips_convert_format_r en buf) (\<lambda>temp. Inr (4, stmts [
     set_instr ASM_MIPS_RSQRT_S, set_type (ASM_TYPE_ARITH OR ASM_TYPE_ARCH),
     set_regset 0 ASM_MIPS_REG_FPU, set_baser 0 (r_sa temp),
     asm_mips_operand_fetch 0 ASM_MIPS_OTYPE_REGISTER, set_regset 1 ASM_MIPS_REG_FPU,
     set_baser 1 (r_rd temp), asm_mips_operand_fetch 1 ASM_MIPS_OTYPE_REGISTER] ins))"

definition asm_mips_sb :: mips_handler where
  "asm_mips_sb en buf ins = rbind (mips_convert_format_i en buf) (\<lambda>temp. Inr (4, stmts [
     set_instr ASM_MIPS_SB, set_type ASM_TYPE_STORE, set_baser 0 (i_rt temp),
     asm_mips_operand_fetch 0 ASM_MIPS_OTYPE_REGISTER, set_imm 1 (i_im temp),
     asm_mips_operand_fetch 1 ASM_MIPS_OTYPE_IMMEDIATE, set_baser 2 (i_rs temp),
     asm_mips_operand_fetch 2 ASM_MIPS_OTYPE_REGBASE] ins))"

definition asm_mips_sc :: mips_handler where
  "asm_mips_sc en buf ins = rbind (mips_convert_format_i en buf) (\<lambda>temp. Inr (4, stmts [
     set_instr ASM_MIPS_SC, set_type ASM_TYPE_STORE, set_baser 0 (i_rt temp),
     asm_mips_operand_fetch 0 ASM_MIPS_OTYPE_REGISTER, set_imm 1 (i_im temp),
     asm_mips_operand_fetch 1 ASM_MIPS_OTYPE_IMMEDIATE, set_baser 2 (i_rs temp),
     asm_mips_operand_fetch 2 ASM_MIPS_OTYPE_REGBASE] ins))"

definition asm_mips_scd :: mips_handler where
  "asm_mips_scd en buf ins = rbind (mips_convert_format_i en buf) (\<lambda>temp. Inr (4, stmts [
     set_instr ASM_MIPS_SCD, set_type ASM_TYPE_STORE, set_baser 0 (i_rt temp),
     asm_mips_operand_fetch 0 ASM_MIPS_OTYPE_REGISTER, set_imm 1 (i_im temp),
     asm_mips_operand_fetch 1 ASM_MIPS_OTYPE_IMMEDIATE, set_baser 2 (i_rs temp),
     asm_mips_operand_fetch 2 ASM_MIPS_OTYPE_REGBASE] ins))"

definition asm_mips_sd :: mips_handler where
  "asm_mips_sd en buf ins = rbind (mips_convert_format_i en buf) (\<lambda>temp. Inr (4, stmts [
     set_instr ASM_MIPS_SD, set_type ASM_TYPE_STORE, set_baser 0 (i_rt temp),
     asm_mips_operand_fetch 0 ASM_MIPS_OTYPE_REGISTER, set_imm 1 (i_im temp),
     asm_mips_operand_fetch 1 ASM_MIPS_OTYPE_IMMEDIATE, set_baser 2 (i_rs temp),
     asm_mips_operand_fetch 2 ASM_MIPS_OTYPE_REGBASE] ins))"

definition asm_mips_sdbbp :: mips_handler where
  "asm_mips_sdbbp en buf ins = rbind (mips_convert_format_j en buf) (\<lambda>temp. Inr (4, stmts [
     set_instr ASM_MIPS_SDBBP, set_type ASM_TYPE_ARCH,
     set_imm 0 (drop_bit 6 (ucast (j_ta temp) :: u_int) AND 0xFFFFF),
     asm_mips_operand_fetch 0 ASM_MIPS_OTYPE_JUMP] ins))"

definition asm_mips_sdc1 :: mips_handler where
  "asm_mips_sdc1 en buf ins = rbind (mips_convert_format_i en buf) (\<lambda>temp. Inr (4, stmts [
     set_instr ASM_MIPS_SDC1, set_type (ASM_TYPE_STORE OR ASM_TYPE_ARCH), set_baser 0 (i_rt temp),
     asm_mips_operand_fetch 0 ASM_MIPS_OTYPE_REGISTER, set_imm 1 (i_im temp),
     asm_mips_operand_fetch 1 ASM_MIPS_OTYPE_IMMEDIATE, set_baser 2 (i_rs temp),
     asm_mips_operand_fetch 2 ASM_MIPS_OTYPE_REGBASE] ins))"

definition asm_mips_sdc2 :: mips_handler where
  "asm_mips_sdc2 en buf ins = rbind (mips_convert_format_i en buf) (\<lambda>temp. Inr (4, stmts [
     set_instr ASM_MIPS_SDC2, set_type (ASM_TYPE_STORE OR ASM_TYPE_ARCH), set_baser 0 (i_rt temp),
     asm_mips_operand_fetch 0 ASM_MIPS_OTYPE_REGISTER, set_imm 1 (i_im temp),
     asm_mips_operand_fetch 1 ASM_MIPS_OTYPE_IMMEDIATE, set_baser 2 (i_rs temp),
     asm_mips_operand_fetch 2 ASM_MIPS_OTYPE_REGBASE] ins))"

definition asm_mips_sdl :: mips_handler where
  "asm_mips_sdl en buf ins = rbind (mips_convert_format_i en buf) (\<lambda>temp. Inr (4, stmts [
     set_instr ASM_MIPS_SDL, set_type ASM_TYPE_STORE, set_baser 0 (i_rt temp),
     asm_mips_operand_fetch 0 ASM_MIPS_OTYPE_REGISTER, set_imm 1 (i_im temp),
     asm_mips_operand_fetch 1 ASM_MIPS_OTYPE_IMMEDIATE, set_baser 2 (i_rs temp),
     asm_mips_operand_fetch 2 ASM_MIPS_OTYPE_REGBASE] ins))"

definition asm_mips_sdr :: mips_handler where
  "asm_mips_sdr en buf ins = rbind (mips_convert_format_i en buf) (\<lambda>temp. Inr (4, stmts [
     set_instr ASM_MIPS_SDR, set_type ASM_TYPE_STORE, set_baser 0 (i_rt temp),
     asm_mips_operand_fetch 0 ASM_MIPS_OTYPE_REGISTER, set_imm 1 (i_im temp),
     asm_mips_operand_fetch 1 ASM_MIPS_OTYPE_IMMEDIATE, set_baser 2 (i_rs temp),
     asm_mips_operand_fetch 2 ASM_MIPS_OTYPE_REGBASE] ins))"

definition asm_mips_sdxc1 :: mips_handler where
  "asm_mips_sdxc1 en buf ins = rbind (mips_convert_format_cop1x en buf) (\<lambda>temp. Inr (4, stmts [
     set_instr ASM_MIPS_SDXC1, set_type (ASM_TYPE_STORE OR ASM_TYPE_ARCH),
     set_regset 0 ASM_MIPS_REG_FPU, set_baser 0 (cx_f1 temp),
     asm_mips_operand_fetch 0 ASM_MIPS_OTYPE_REGISTER, set_baser 1 (cx_in temp),
     asm_mips_operand_fetch 1 ASM_MIPS_OTYPE_REGISTER, set_baser 2 (cx_bs temp),
     asm_mips_operand_fetch 2 ASM_MIPS_OTYPE_REGBASE] ins))"

definition asm_mips_seb :: mips_handler where
  "asm_mips_seb en buf ins = Inr (4, stmts [set_instr ASM_MIPS_SEB] ins)"

definition asm_mips_seh :: mips_handler where
  "asm_mips_seh en buf ins = Inr (4, stmts [set_instr ASM_MIPS_SEH] ins)"

definition asm_mips_sh :: mips_handler where
  "asm_mips_sh en buf ins = rbind (mips_convert_format_i en buf) (\<lambda>temp. Inr (4, stmts [
     set_instr ASM_MIPS_SH, set_type ASM_TYPE_STORE, set_baser 0 (i_rt temp),
     asm_mips_operand_fetch 0 ASM_MIPS_OTYPE_REGISTER, set_imm 1 (i_im temp),
     asm_mips_operand_fetch 1 ASM_MIPS_OTYPE_IMMEDIATE, set_baser 2 (i_rs temp),
     asm_mips_operand_fetch 2 ASM_MIPS_OTYPE_REGBASE] ins))"

definition asm_mips_ssnop :: mips_handler where
  "asm_mips_ssnop en buf ins = Inr (4, stmts [set_instr ASM_MIPS_SSNOP, set_type ASM_TYPE_NOP, asm_mips_operand_fetch 0 ASM_MIPS_OTYPE_NOOP] ins)"

definition asm_mips_sll :: mips_handler where
  "asm_mips_sll en buf ins =
     (let k = unat (drop_bit 6 buf AND 0xFFFFF) in
      if k = MIPS_OPCODE_NOP then rbind (asm_mips_nop en buf ins) (\<lambda>(_, ins1). Inr (4, ins1))
      else if k = MIPS_OPCODE_SSNOP then rbind (asm_mips_ssnop en buf ins) (\<lambda>(_, ins1). Inr (4, ins1))
      else rbind (mips_convert_format_r en buf) (\<lambda>temp. Inr (4, stmts [
         set_instr ASM_MIPS_SLL, set_type ASM_TYPE_ARITH, set_baser 0 (r_rd temp),
         asm_mips_operand_fetch 0 ASM_MIPS_OTYPE_REGISTER, set_baser 1 (r_rt temp),
         asm_mips_operand_fetch 1 ASM_MIPS_OTYPE_REGISTER, set_imm 2 (r_sa temp),
         asm_mips_operand_fetch 2 ASM_MIPS_OTYPE_IMMEDIATE] ins)))"

definition asm_mips_sllv :: mips_handler where
  "asm_mips_sllv en buf ins = rbind (mips_convert_format_r en buf) (\<lambda>temp. Inr (4, stmts [
     set_instr ASM_MIPS_SLLV, set_type ASM_TYPE_ARITH, set_baser 0 (r_rd temp),
     asm_mips_operand_fetch 0 ASM_MIPS_OTYPE_REGISTER, set_baser 1 (r_rt temp),
     asm_mips_operand_fetch 1 ASM_MIPS_OTYPE_REGISTER, set_baser 2 (r_rs temp),
     asm_mips_operand_fetch 2 ASM_MIPS_OTYPE_REGISTER] ins))"

definition asm_mips_slt :: mips_handler where
  "asm_mips_slt en buf ins = rbind (mips_convert_format_r en buf) (\<lambda>temp. Inr (4, stmts [
     set_instr ASM_MIPS_SLT, set_type ASM_TYPE_COMPARISON, set_baser 0 (r_rd temp),
     asm_mips_operand_fetch 0 ASM_MIPS_OTYPE_REGISTER, set_baser 1 (r_rs temp),
     asm_mips_operand_fetch 1 ASM_MIPS_OTYPE_REGISTER, set_baser 2 (r_rt temp),
     asm_mips_operand_fetch 2 ASM_MIPS_OTYPE_REGISTER] ins))"

definition asm_mips_slti :: mips_handler where
  "asm_mips_slti en buf ins = rbind (mips_convert_format_i en buf) (\<lambda>temp. Inr (4, stmts [
     set_instr ASM_MIPS_SLTI, set_type ASM_TYPE_COMPARISON, set_baser 0 (i_rt temp),
     asm_mips_operand_fetch 0 ASM_MIPS_OTYPE_REGISTER, set_baser 1 (i_rs temp),
     asm_mips_operand_fetch 1 ASM_MIPS_OTYPE_REGISTER, set_imm 2 (i_im temp),
     asm_mips_operand_fetch 2 ASM_MIPS_OTYPE_IMMEDIATE] ins))"

definition asm_mips_sltiu :: mips_handler where
  "asm_mips_sltiu en buf ins = rbind (mips_convert_format_i en buf) (\<lambda>temp. Inr (4, stmts [
     set_instr ASM_MIPS_SLTIU, set_type ASM_TYPE_COMPARISON, set_baser 0 (i_rt temp),
     asm_mips_operand_fetch 0 ASM_MIPS_OTYPE_REGISTER, set_baser 1 (i_rs temp),
     asm_mips_operand_fetch 1 ASM_MIPS_OTYPE_REGISTER, set_imm 2 (i_im temp),
     asm_mips_operand_fetch 2 ASM_MIPS_OTYPE_IMMEDIATE] ins))"

definition asm_mips_sltu :: mips_handler where
  "asm_mips_sltu en buf ins = rbind (mips_convert_format_r en buf) (\<lambda>temp. Inr (4, stmts [
     set_instr ASM_MIPS_SLTU, set_type ASM_TYPE_COMPARISON, set_baser 0 (r_rd temp),
     asm_mips_operand_fetch 0 ASM_MIPS_OTYPE_REGISTER, set_baser 1 (r_rs temp),
     asm_mips_operand_fetch 1 ASM_MIPS_OTYPE_REGISTER, set_baser 2 (r_rt temp),
     asm_mips_operand_fetch 2 ASM_MIPS_OTYPE_REGISTER] ins))"

definition asm_mips_sqrt_d :: mips_handler where
  "asm_mips_sqrt_d en buf ins = rbind (mips_convert_format_r en buf) (\<lambda>temp. Inr (4, stmts [
     set_instr ASM_MIPS_SQRT_D, set_type (ASM_TYPE_ARITH OR ASM_TYPE_ARCH),
     set_regset 0 ASM_MIPS_REG_FPU, set_baser 0 (r_sa temp),
     asm_mips_operand_fetch 0 ASM_MIPS_OTYPE_REGISTER, set_regset 1 ASM_MIPS_REG_FPU,
     set_baser 1 (r_rd temp), asm_mips_operand_fetch 1 ASM_MIPS_OTYPE_REGISTER] ins))"

definition asm_mips_sqrt_s :: mips_handler where
  "asm_mips_sqrt_s en buf ins = rbind (mips_convert_format_r en buf) (\<lambda>temp. Inr (4, stmts [
     set_instr ASM_MIPS_SQRT_S, set_type (ASM_TYPE_ARITH OR ASM_TYPE_ARCH),
     set_regset 0 ASM_MIPS_REG_FPU, set_baser 0 (r_sa temp),
     asm_mips_operand_fetch 0 ASM_MIPS_OTYPE_REGISTER, set_regset 1 ASM_MIPS_REG_FPU,
     set_baser 1 (r_rd temp), asm_mips_operand_fetch 1 ASM_MIPS_OTYPE_REGISTER] ins))"

definition asm_mips_sra :: mips_handler where
  "asm_mips_sra en buf ins = rbind (mips_convert_format_r en buf) (\<lambda>temp. Inr (4, stmts [
     set_instr ASM_MIPS_SRA, set_type ASM_TYPE_ARITH, set_baser 0 (r_rd temp),
     asm_mips_operand_fetch 0 ASM_MIPS_OTYPE_REGISTER, set_baser 1 (r_rt temp),
     asm_mips_operand_fetch 1 ASM_MIPS_OTYPE_REGISTER, set_imm 2 (r_sa temp),
     asm_mips_operand_fetch 2 ASM_MIPS_OTYPE_IMMEDIATE] ins))"

definition asm_mips_srav :: mips_handler where
  "asm_mips_srav en buf ins = rbind (mips_convert_format_r en buf) (\<lambda>temp. Inr (4, stmts [
     set_instr ASM_MIPS_SRAV, set_type ASM_TYPE_ARITH, set_baser 0 (r_rd temp),
     asm_mips_operand_fetch 0 ASM_MIPS_OTYPE_REGISTER, set_baser 1 (r_rt temp),
     asm_mips_operand_fetch 1 ASM_MIPS_OTYPE_REGISTER, set_baser 2 (r_rs temp),
     asm_mips_operand_fetch 2 ASM_MIPS_OTYPE_REGISTER] ins))"

definition asm_mips_srl :: mips_handler where
  "asm_mips_srl en buf ins = rbind (mips_convert_format_r en buf) (\<lambda>temp. Inr (4, stmts [
     set_instr ASM_MIPS_SRL, set_type ASM_TYPE_ARITH, set_baser 0 (r_rd temp),
     asm_mips_operand_fetch 0 ASM_MIPS_OTYPE_REGISTER, set_baser 1 (r_rt temp),
     asm_mips_operand_fetch 1 ASM_MIPS_OTYPE_REGISTER, set_imm 2 (r_sa temp),
     asm_mips_operand_fetch 2 ASM_MIPS_OTYPE_IMMEDIATE] ins))"

definition asm_mips_srlv :: mips_handler where
  "asm_mips_srlv en buf ins = rbind (mips_convert_format_r en buf) (\<lambda>temp. Inr (4, stmts [
     set_instr ASM_MIPS_SRLV, set_type ASM_TYPE_ARITH, set_baser 0 (r_rd temp),
     asm_mips_operand_fetch 0 ASM_MIPS_OTYPE_REGISTER, set_baser 1 (r_rt temp),
     asm_mips_operand_fetch 1 ASM_MIPS_OTYPE_REGISTER, set_baser 2 (r_rs temp),
     asm_mips_operand_fetch 2 ASM_MIPS_OTYPE_REGISTER] ins))"

definition asm_mips_sub :: mips_handler where
  "asm_mips_sub en buf ins = rbind (mips_convert_format_r en buf) (\<lambda>temp. Inr (4, stmts [
     set_instr ASM_MIPS_SUB, set_type ASM_TYPE_ARITH, set_baser 0 (r_rd temp),
     asm_mips_operand_fetch 0 ASM_MIPS_OTYPE_REGISTER, set_baser 1 (r_rs temp),
     asm_mips_operand_fetch 1 ASM_MIPS_OTYPE_REGISTER, set_baser 2 (r_rt temp),
     asm_mips_operand_fetch 2 ASM_MIPS_OTYPE_REGISTER] ins))"

definition asm_mips_sub_d :: mips_handler where
  "asm_mips_sub_d en buf ins = rbind (mips_convert_format_r en buf) (\<lambda>temp. Inr (4, stmts [
     set_instr ASM_MIPS_SUB_D, set_type (ASM_TYPE_ARITH OR ASM_TYPE_ARCH),
     set_regset 0 ASM_MIPS_REG_FPU, set_baser 0 (r_sa temp),
     asm_mips_operand_fetch 0 ASM_MIPS_OTYPE_REGISTER, set_regset 1 ASM_MIPS_REG_FPU,
     set_baser 1 (r_rd temp), asm_mips_operand_fetch 1 ASM_MIPS_OTYPE_REGISTER,
     set_regset 2 ASM_MIPS_REG_FPU, set_baser 2 (r_rt temp),
     asm_mips_operand_fetch 2 ASM_MIPS_OTYPE_REGISTER] ins))"

definition asm_mips_sub_ps :: mips_handler where
  "asm_mips_sub_ps en buf ins = rbind (mips_convert_format_r en buf) (\<lambda>temp. Inr (4, stmts [
     set_instr ASM_MIPS_SUB_PS, set_type (ASM_TYPE_ARITH OR ASM_TYPE_ARCH),
     set_regset 0 ASM_MIPS_REG_FPU, set_baser 0 (r_sa temp),
     asm_mips_operand_fetch 0 ASM_MIPS_OTYPE_REGISTER, set_regset 1 ASM_MIPS_REG_FPU,
     set_baser 1 (r_rd temp), asm_mips_operand_fetch 1 ASM_MIPS_OTYPE_REGISTER,
     set_regset 2 ASM_MIPS_REG_FPU, set_baser 2 (r_rt temp),
     asm_mips_operand_fetch 2 ASM_MIPS_OTYPE_REGISTER] ins))"

definition asm_mips_sub_s :: mips_handler where
  "asm_mips_sub_s en buf ins = rbind (mips_convert_format_r en buf) (\<lambda>temp. Inr (4, stmts [
     set_instr ASM_MIPS_SUB_S, set_type (ASM_TYPE_ARITH OR ASM_TYPE_ARCH),
     set_regset 0 ASM_MIPS_REG_FPU, set_baser 0 (r_sa temp),
     asm_mips_operand_fetch 0 ASM_MIPS_OTYPE_REGISTER, set_regset 1 ASM_MIPS_REG_FPU,
     set_baser 1 (r_rd temp), asm_mips_operand_fetch 1 ASM_MIPS_OTYPE_REGISTER,
     set_regset 2 ASM_MIPS_REG_FPU, set_baser 2 (r_rt temp),
     asm_mips_operand_fetch 2 ASM_MIPS_OTYPE_REGISTER] ins))"

definition asm_mips_subu :: mips_handler where
  "asm_mips_subu en buf ins = rbind (mips_convert_format_r en buf) (\<lambda>temp. Inr (4, stmts [
     set_instr ASM_MIPS_SUBU, set_type ASM_TYPE_ARITH, set_baser 0 (r_rd temp),
     asm_mips_operand_fetch 0 ASM_MIPS_OTYPE_REGISTER, set_baser 1 (r_rs temp),
     asm_mips_operand_fetch 1 ASM_MIPS_OTYPE_REGISTER, set_baser 2 (r_rt temp),
     asm_mips_operand_fetch 2 ASM_MIPS_OTYPE_REGISTER] ins))"

definition asm_mips_suxc1 :: mips_handler where
  "asm_mips_suxc1 en buf ins = rbind (mips_convert_format_cop1x en buf) (\<lambda>temp. Inr (4, stmts [
     set_instr ASM_MIPS_SUXC1, set_type (ASM_TYPE_STORE OR ASM_TYPE_ARCH),
     set_regset 0 ASM_MIPS_REG_FPU, set_baser 0 (cx_f1 temp),
     asm_mips_operand_fetch 0 ASM_MIPS_OTYPE_REGISTER, set_baser 1 (cx_in temp),
     asm_mips_operand_fetch 1 ASM_MIPS_OTYPE_REGISTER, set_baser 2 (cx_bs temp),
     asm_mips_operand_fetch 2 ASM_MIPS_OTYPE_REGBASE] ins))"

definition asm_mips_sw :: mips_handler where
  "asm_mips_sw en buf ins = rbind (mips_convert_format_i en buf) (\<lambda>temp. Inr (4, stmts [
     set_instr ASM_MIPS_SW, set_type ASM_TYPE_STORE, set_baser 0 (i_rt temp),
     asm_mips_operand_fetch 0 ASM_MIPS_OTYPE_REGISTER, set_imm 1 (i_im temp),
     asm_mips_operand_fetch 1 ASM_MIPS_OTYPE_IMMEDIATE, set_baser 2 (i_rs temp),
     asm_mips_operand_fetch 2 ASM_MIPS_OTYPE_REGBASE] ins))"

definition asm_mips_swc1 :: mips_handler where
  "asm_mips_swc1 en buf ins = rbind (mips_convert_format_i en buf) (\<lambda>temp. Inr (4, stmts [
     set_instr ASM_MIPS_SWC1, set_type (ASM_TYPE_STORE OR ASM_TYPE_ARCH), set_baser 0 (i_rt temp),
     asm_mips_operand_fetch 0 ASM_MIPS_OTYPE_REGISTER, set_imm 1 (i_im temp),
     asm_mips_operand_fetch 1 ASM_MIPS_OTYPE_IMMEDIATE, set_baser 2 (i_rs temp),
     asm_mips_operand_fetch 2 ASM_MIPS_OTYPE_REGBASE] ins))"

definition asm_mips_swc2 :: mips_handler where
  "asm_mips_swc2 en buf ins = rbind (mips_convert_format_i en buf) (\<lambda>temp. Inr (4, stmts [
     set_instr ASM_MIPS_SWC2, set_type (ASM_TYPE_STORE OR ASM_TYPE_ARCH), set_baser 0 (i_rt temp),
     asm_mips_operand_fetch 0 ASM_MIPS_OTYPE_REGISTER, set_imm 1 (i_im temp),
     asm_mips_operand_fetch 1 ASM_MIPS_OTYPE_IMMEDIATE, set_baser 2 (i_rs temp),
     asm_mips_operand_fetch 2 ASM_MIPS_OTYPE_REGBASE] ins))"

definition asm_mips_swl :: mips_handler where
  "asm_mips_swl en buf ins = rbind (mips_convert_format_i en buf) (\<lambda>temp. Inr (4, stmts [
     set_instr ASM_MIPS_SWL, set_type ASM_TYPE_STORE, set_baser 0 (i_rt temp),
     asm_mips_operand_fetch 0 ASM_MIPS_OTYPE_REGISTER, set_imm 1 (i_im temp),
     asm_mips_operand_fetch 1 ASM_MIPS_OTYPE_IMMEDIATE, set_baser 2 (i_rs temp),
     asm_mips_operand_fetch 2 ASM_MIPS_OTYPE_REGBASE] ins))"

definition asm_mips_swr :: mips_handler where
  "asm_mips_swr en buf ins = rbind (mips_convert_format_i en buf) (\<lambda>temp. Inr (4, stmts [
     set_instr ASM_MIPS_SWR, set_type ASM_TYPE_STORE, set_baser 0 (i_rt temp),
     asm_mips_operand_fetch 0 ASM_MIPS_OTYPE_REGISTER, set_imm 1 (i_im temp),
     asm_mips_operand_fetch 1 ASM_MIPS_OTYPE_IMMEDIATE, set_baser 2 (i_rs temp),
     asm_mips_operand_fetch 2 ASM_MIPS_OTYPE_REGBASE] ins))"

definition asm_mips_swxc1 :: mips_handler where
  "asm_mips_swxc1 en buf ins = rbind (mips_convert_format_cop1x en buf) (\<lambda>temp. Inr (4, stmts [
     set_instr ASM_MIPS_SWXC1, set_type (ASM_TYPE_STORE OR ASM_TYPE_ARCH),
     set_regset 0 ASM_MIPS_REG_FPU, set_baser 0 (cx_f1 temp),
     asm_mips_operand_fetch 0 ASM_MIPS_OTYPE_REGISTER, set_baser 1 (cx_in temp),
     asm_mips_operand_fetch 1 ASM_MIPS_OTYPE_REGISTER, set_baser 2 (cx_bs temp),
     asm_mips_operand_fetch 2 ASM_MIPS_OTYPE_REGBASE] ins))"

definition asm_mips_sync :: mips_handler where
  "asm_mips_sync en buf ins = Inr (4, stmts [set_instr ASM_MIPS_SYNC, set_type (ASM_TYPE_LOAD OR ASM_TYPE_STORE OR ASM_TYPE_ARCH),
asm_mips_operand_fetch 0 ASM_MIPS_OTYPE_NOOP] ins)"

definition asm_mips_synci :: mips_handler where
  "asm_mips_synci en buf ins = Inr (4, stmts [set_instr ASM_MIPS_SYNCI] ins)"

definition asm_mips_syscall :: mips_handler where
  "asm_mips_syscall en buf ins = Inr (4, stmts [set_instr ASM_MIPS_SYSCALL, set_type ASM_TYPE_ARCH, asm_mips_operand_fetch 0 ASM_MIPS_OTYPE_NOOP] ins)"

definition asm_mips_teq :: mips_handler where
  "asm_mips_teq en buf ins = rbind (mips_convert_format_t en buf) (\<lambda>temp. Inr (4, stmts [
     set_instr ASM_MIPS_TEQ, set_type (ASM_TYPE_ARCH OR ASM_TYPE_COMPARISON OR ASM_TYPE_INT),
     set_baser 0 (t_rs temp), asm_mips_operand_fetch 0 ASM_MIPS_OTYPE_REGISTER,
     set_baser 1 (t_rt temp), asm_mips_operand_fetch 1 ASM_MIPS_OTYPE_REGISTER] ins))"

definition asm_mips_teqi :: mips_handler where
  "asm_mips_teqi en buf ins = rbind (mips_convert_format_i en buf) (\<lambda>temp. Inr (4, stmts [
     set_instr ASM_MIPS_TEQI, set_type (ASM_TYPE_ARCH OR ASM_TYPE_COMPARISON OR ASM_TYPE_INT),
     set_baser 0 (i_rs temp), asm_mips_operand_fetch 0 ASM_MIPS_OTYPE_REGISTER, set_imm 1 (i_im temp),
     asm_mips_operand_fetch 1 ASM_MIPS_OTYPE_IMMEDIATE] ins))"

definition asm_mips_tge :: mips_handler where
  "asm_mips_tge en buf ins = rbind (mips_convert_format_t en buf) (\<lambda>temp. Inr (4, stmts [
     set_instr ASM_MIPS_TGE, set_type (ASM_TYPE_ARCH OR ASM_TYPE_COMPARISON OR ASM_TYPE_INT),
     set_baser 0 (t_rs temp), asm_mips_operand_fetch 0 ASM_MIPS_OTYPE_REGISTER,
     set_baser 1 (t_rt temp), asm_mips_operand_fetch 1 ASM_MIPS_OTYPE_REGISTER] ins))"

definition asm_mips_tgei :: mips_handler where
  "asm_mips_tgei en buf ins = rbind (mips_convert_format_i en buf) (\<lambda>temp. Inr (4, stmts [
     set_instr ASM_MIPS_TGEI, set_type (ASM_TYPE_ARCH OR ASM_TYPE_COMPARISON OR ASM_TYPE_INT),
     set_baser 0 (i_rs temp), asm_mips_operand_fetch 0 ASM_MIPS_OTYPE_REGISTER, set_imm 1 (i_im temp),
     asm_mips_operand_fetch 1 ASM_MIPS_OTYPE_IMMEDIATE] ins))"

definition asm_mips_tgeiu :: mips_handler where
  "asm_mips_tgeiu en buf ins = rbind (mips_convert_format_i en buf) (\<lambda>temp. Inr (4, stmts [
     set_instr ASM_MIPS_TGEIU, set_type (ASM_TYPE_ARCH OR ASM_TYPE_COMPARISON OR ASM_TYPE_INT),
     set_baser 0 (i_rs temp), asm_mips_operand_fetch 0 ASM_MIPS_OTYPE_REGISTER, set_imm 1 (i_im temp),
     asm_mips_operand_fetch 1 ASM_MIPS_OTYPE_IMMEDIATE] ins))"

definition asm_mips_tgeu :: mips_handler where
  "asm_mips_tgeu en buf ins = rbind (mips_convert_format_t en buf) (\<lambda>temp. Inr (4, stmts [
     set_instr ASM_MIPS_TGEU, set_type (ASM_TYPE_ARCH OR ASM_TYPE_COMPARISON OR ASM_TYPE_INT),
     set_baser 0 (t_rs temp), asm_mips_operand_fetch 0 ASM_MIPS_OTYPE_REGISTER,
     set_baser 1 (t_rt temp), asm_mips_operand_fetch 1 ASM_MIPS_OTYPE_REGISTER] ins))"

definition asm_mips_tlbp :: mips_handler where
  "asm_mips_tlbp en buf ins = Inr (4, stmts [set_instr ASM_MIPS_TLBP, set_type ASM_TYPE_ARCH, asm_mips_operand_fetch 0 ASM_MIPS_OTYPE_NOOP] ins)"

definition asm_mips_tlbr :: mips_handler where
  "asm_mips_tlbr en buf ins = Inr (4, stmts [set_instr ASM_MIPS_TLBR, set_type ASM_TYPE_ARCH, asm_mips_operand_fetch 0 ASM_MIPS_OTYPE_NOOP] ins)"

definition asm_mips_tlbwi :: mips_handler where
  "asm_mips_tlbwi en buf ins = Inr (4, stmts [set_instr ASM_MIPS_TLBWI, set_type (ASM_TYPE_ARCH OR ASM_TYPE_CONTROL),
asm_mips_operand_fetch 0 ASM_MIPS_OTYPE_NOOP] ins)"

definition asm_mips_tlbwr :: mips_handler where
  "asm_mips_tlbwr en buf ins = Inr (4, stmts [set_instr ASM_MIPS_TLBWR, set_type (ASM_TYPE_ARCH OR ASM_TYPE_CONTROL),
asm_mips_operand_fetch 0 ASM_MIPS_OTYPE_NOOP] ins)"

definition asm_mips_tlt :: mips_handler where
  "asm_mips_tlt en buf ins = rbind (mips_convert_format_t en buf) (\<lambda>temp. Inr (4, stmts [
     set_instr ASM_MIPS_TLT, set_type (ASM_TYPE_ARCH OR ASM_TYPE_COMPARISON OR ASM_TYPE_INT),
     set_baser 0 (t_rs temp), asm_mips_operand_fetch 0 ASM_MIPS_OTYPE_REGISTER,
     set_baser 1 (t_rt temp), asm_mips_operand_fetch 1 ASM_MIPS_OTYPE_REGISTER] ins))"

definition asm_mips_tlti :: mips_handler where
  "asm_mips_tlti en buf ins = rbind (mips_convert_format_i en buf) (\<lambda>temp. Inr (4, stmts [
     set_instr ASM_MIPS_TLTI, set_type (ASM_TYPE_ARCH OR ASM_TYPE_COMPARISON OR ASM_TYPE_INT),
     set_baser 0 (i_rs temp), asm_mips_operand_fetch 0 ASM_MIPS_OTYPE_REGISTER, set_imm 1 (i_im temp),
     asm_mips_operand_fetch 1 ASM_MIPS_OTYPE_IMMEDIATE] ins))"

definition asm_mips_tltiu :: mips_handler where
  "asm_mips_tltiu en buf ins = rbind (mips_convert_format_i en buf) (\<lambda>temp. Inr (4, stmts [
     set_instr ASM_MIPS_TLTIU, set_type (ASM_TYPE_ARCH OR ASM_TYPE_COMPARISON OR ASM_TYPE_INT),
     set_baser 0 (i_rs temp), asm_mips_operand_fetch 0 ASM_MIPS_OTYPE_REGISTER, set_imm 1 (i_im temp),
     asm_mips_operand_fetch 1 ASM_MIPS_OTYPE_IMMEDIATE] ins))"

definition asm_mips_tltu :: mips_handler where
  "asm_mips_tltu en buf ins = rbind (mips_convert_format_t en buf) (\<lambda>temp. Inr (4, stmts [
     set_instr ASM_MIPS_TLTU, set_type (ASM_TYPE_ARCH OR ASM_TYPE_COMPARISON OR ASM_TYPE_INT),
     set_baser 0 (t_rs temp), asm_mips_operand_fetch 0 ASM_MIPS_OTYPE_REGISTER,
     set_baser 1 (t_rt temp), asm_mips_operand_fetch 1 ASM_MIPS_OTYPE_REGISTER] ins))"

definition asm_mips_tne :: mips_handler where
  "asm_mips_tne en buf ins = rbind (mips_convert_format_t en buf) (\<lambda>temp. Inr (4, stmts [
     set_instr ASM_MIPS_TNE, set_type (ASM_TYPE_ARCH OR ASM_TYPE_COMPARISON OR ASM_TYPE_INT),
     set_baser 0 (t_rs temp), asm_mips_operand_fetch 0 ASM_MIPS_OTYPE_REGISTER,
     set_baser 1 (t_rt temp), asm_mips_operand_fetch 1 ASM_MIPS_OTYPE_REGISTER] ins))"

definition asm_mips_tnei :: mips_handler where
  "asm_mips_tnei en buf ins = rbind (mips_convert_format_i en buf) (\<lambda>temp. Inr (4, stmts [
     set_instr ASM_MIPS_TNEI, set_type (ASM_TYPE_ARCH OR ASM_TYPE_COMPARISON OR ASM_TYPE_INT),
     set_baser 0 (i_rs temp), asm_mips_operand_fetch 0 ASM_MIPS_OTYPE_REGISTER, set_imm 1 (i_im temp),
     asm_mips_operand_fetch 1 ASM_MIPS_OTYPE_IMMEDIATE] ins))"

definition asm_mips_trunc_l_d :: mips_handler where
  "asm_mips_trunc_l_d en buf ins = rbind (mips_convert_format_r en buf) (\<lambda>temp. Inr (4, stmts [
     set_instr ASM_MIPS_TRUNC_L_D, set_type (ASM_TYPE_ARITH OR ASM_TYPE_ARCH),
     set_regset 0 ASM_MIPS_REG_FPU, set_baser 0 (r_sa temp),
     asm_mips_operand_fetch 0 ASM_MIPS_OTYPE_REGISTER, set_regset 1 ASM_MIPS_REG_FPU,
     set_baser 1 (r_rd temp), asm_mips_operand_fetch 1 ASM_MIPS_OTYPE_REGISTER] ins))"

definition asm_mips_trunc_l_s :: mips_handler where
  "asm_mips_trunc_l_s en buf ins = rbind (mips_convert_format_r en buf) (\<lambda>temp. Inr (4, stmts [
     set_instr ASM_MIPS_TRUNC_L_S, set_type (ASM_TYPE_ARITH OR ASM_TYPE_ARCH),
     set_regset 0 ASM_MIPS_REG_FPU, set_baser 0 (r_sa temp),
     asm_mips_operand_fetch 0 ASM_MIPS_OTYPE_REGISTER, set_regset 1 ASM_MIPS_REG_FPU,
     set_baser 1 (r_rd temp), asm_mips_operand_fetch 1 ASM_MIPS_OTYPE_REGISTER] ins))"

definition asm_mips_trunc_w_d :: mips_handler where
  "asm_mips_trunc_w_d en buf ins = rbind (mips_convert_format_r en buf) (\<lambda>temp. Inr (4, stmts [
     set_instr ASM_MIPS_TRUNC_W_D, set_type (ASM_TYPE_ARITH OR ASM_TYPE_ARCH),
     set_regset 0 ASM_MIPS_REG_FPU, set_baser 0 (r_sa temp),
     asm_mips_operand_fetch 0 ASM_MIPS_OTYPE_REGISTER, set_regset 1 ASM_MIPS_REG_FPU,
     set_baser 1 (r_rd temp), asm_mips_operand_fetch 1 ASM_MIPS_OTYPE_REGISTER] ins))"

definition asm_mips_trunc_w_s :: mips_handler where
  "asm_mips_trunc_w_s en buf ins = rbind (mips_convert_format_r en buf) (\<lambda>temp. Inr (4, stmts [
     set_instr ASM_MIPS_TRUNC_W_S, set_type (ASM_TYPE_ARITH OR ASM_TYPE_ARCH),
     set_regset 0 ASM_MIPS_REG_FPU, set_baser 0 (r_sa temp),
     asm_mips_operand_fetch 0 ASM_MIPS_OTYPE_REGISTER, set_regset 1 ASM_MIPS_REG_FPU,
     set_baser 1 (r_rd temp), asm_mips_operand_fetch 1 ASM_MIPS_OTYPE_REGISTER] ins))"

definition asm_mips_wait :: mips_handler where
  "asm_mips_wait en buf ins = Inr (4, stmts [set_instr ASM_MIPS_WAIT, set_type ASM_TYPE_ARCH, asm_mips_operand_fetch 0 ASM_MIPS_OTYPE_NOOP] ins)"

definition asm_mips_wsbh :: mips_handler where
  "asm_mips_wsbh en buf ins = Inr (4, stmts [set_instr ASM_MIPS_WSBH] ins)"

definition asm_mips_xor :: mips_handler where
  "asm_mips_xor en buf ins = rbind (mips_convert_format_r en buf) (\<lambda>temp. Inr (4, stmts [
     set_instr ASM_MIPS_XOR, set_type ASM_TYPE_ARITH, set_baser 0 (r_rd temp),
     asm_mips_operand_fetch 0 ASM_MIPS_OTYPE_REGISTER, set_baser 1 (r_rs temp),
     asm_mips_operand_fetch 1 ASM_MIPS_OTYPE_REGISTER, set_baser 2 (r_rt temp),
     asm_mips_operand_fetch 2 ASM_MIPS_OTYPE_REGISTER] ins))"

definition asm_mips_xori :: mips_handler where
  "asm_mips_xori en buf ins = rbind (mips_convert_format_i en buf) (\<lambda>temp. Inr (4, stmts [
     set_instr ASM_MIPS_XORI, set_type ASM_TYPE_ARITH, set_baser 0 (i_rt temp),
     asm_mips_operand_fetch 0 ASM_MIPS_OTYPE_REGISTER, set_baser 1 (i_rs temp),
     asm_mips_operand_fetch 1 ASM_MIPS_OTYPE_REGISTER, set_imm 2 (i_im temp),
     asm_mips_operand_fetch 2 ASM_MIPS_OTYPE_IMMEDIATE] ins))"

lemmas mips_handlers2_defs =
  asm_mips_jr_def asm_mips_jr_hb_def asm_mips_lb_def asm_mips_lbu_def asm_mips_ld_def
  asm_mips_ldc1_def asm_mips_ldc2_def asm_mips_ldl_def asm_mips_ldr_def asm_mips_ldxc1_def
  asm_mips_lh_def asm_mips_lhu_def asm_mips_ll_def asm_mips_lld_def asm_mips_lui_def
  asm_mips_luxc1_def asm_mips_lw_def asm_mips_lwc1_def asm_mips_lwc2_def asm_mips_lwl_def
  asm_mips_lwr_def asm_mips_lwu_def asm_mips_lwxc1_def asm_mips_madd_def asm_mips_madd_d_def
  asm_mips_madd_ps_def asm_mips_madd_s_def asm_mips_maddu_def asm_mips_mfc0_def asm_mips_mfc1_def
  asm_mips_mfc2_def asm_mips_mfhi_def asm_mips_mflo_def asm_mips_mov_d_def asm_mips_mov_ps_def
  asm_mips_mov_s_def asm_mips_movcf_d_def asm_mips_movcf_ps_def asm_mips_movcf_s_def
  asm_mips_movf_def asm_mips_movn_def asm_mips_movn_d_def asm_mips_movn_ps_def asm_mips_movn_s_def
  asm_mips_movt_def asm_mips_movz_def asm_mips_movz_d_def asm_mips_movz_ps_def asm_mips_movz_s_def
  asm_mips_msub_def asm_mips_msub_d_def asm_mips_msub_ps_def asm_mips_msub_s_def asm_mips_msubu_def
  asm_mips_mtc0_def asm_mips_mtc1_def asm_mips_mtc2_def asm_mips_mthi_def asm_mips_mtlo_def
  asm_mips_mul_def asm_mips_mul_d_def asm_mips_mul_ps_def asm_mips_mul_s_def asm_mips_mult_def
  asm_mips_multu_def asm_mips_neg_d_def asm_mips_neg_ps_def asm_mips_neg_s_def asm_mips_nmadd_d_def
  asm_mips_nmadd_ps_def asm_mips_nmadd_s_def asm_mips_nmsub_d_def asm_mips_nmsub_ps_def
  asm_mips_nmsub_s_def asm_mips_nop_def asm_mips_nor_def asm_mips_or_def asm_mips_ori_def
  asm_mips_pref_def asm_mips_prefx_def asm_mips_rdhwr_def asm_mips_recip_d_def asm_mips_recip_s_def
  asm_mips_rotr_def asm_mips_rotrv_def asm_mips_round_l_d_def asm_mips_round_l_s_def
  asm_mips_round_w_d_def asm_mips_round_w_s_def asm_mips_rsqrt_d_def asm_mips_rsqrt_s_def
  asm_mips_sb_def asm_mips_sc_def asm_mips_scd_def asm_mips_sd_def asm_mips_sdbbp_def
  asm_mips_sdc1_def asm_mips_sdc2_def asm_mips_sdl_def asm_mips_sdr_def asm_mips_sdxc1_def
  asm_mips_seb_def asm_mips_seh_def asm_mips_sh_def asm_mips_ssnop_def asm_mips_sll_def
  asm_mips_sllv_def asm_mips_slt_def asm_mips_slti_def asm_mips_sltiu_def asm_mips_sltu_def
  asm_mips_sqrt_d_def asm_mips_sqrt_s_def asm_mips_sra_def asm_mips_srav_def asm_mips_srl_def
  asm_mips_srlv_def asm_mips_sub_def asm_mips_sub_d_def asm_mips_sub_ps_def asm_mips_sub_s_def
  asm_mips_subu_def asm_mips_suxc1_def asm_mips_sw_def asm_mips_swc1_def asm_mips_swc2_def
  asm_mips_swl_def asm_mips_swr_def asm_mips_swxc1_def asm_mips_sync_def asm_mips_synci_def
  asm_mips_syscall_def asm_mips_teq_def asm_mips_teqi_def asm_mips_tge_def asm_mips_tgei_def
  asm_mips_tgeiu_def asm_mips_tgeu_def asm_mips_tlbp_def asm_mips_tlbr_def asm_mips_tlbwi_def
  asm_mips_tlbwr_def asm_mips_tlt_def asm_mips_tlti_def asm_mips_tltiu_def asm_mips_tltu_def
  asm_mips_tne_def asm_mips_tnei_def asm_mips_trunc_l_d_def asm_mips_trunc_l_s_def
  asm_mips_trunc_w_d_def asm_mips_trunc_w_s_def asm_mips_wait_def asm_mips_wsbh_def asm_mips_xor_def
  asm_mips_xori_def

end
