(* ===== verification/Mips.thy ===== *)
theory Mips
  imports Mips_Table
begin

text \<open>
  The MIPS disassembler: registration of the opcode vector (\<open>register_mips.c\<close>), the fetch
  function (\<open>init_mips.c\<close>) and the text output (\<open>output_mips.c\<close>).
\<close>

subsection \<open>Registration\<close>

definition row_code :: "e_mips_instr \<Rightarrow> nat" where
  "row_code e = fst (snd e)"

definition row_dims :: "e_mips_instr \<Rightarrow> nat list" where
  "row_dims = (\<lambda>(_, _, index1, index2, index3, _). [index1, index2, index3])"

definition row_func :: "e_mips_instr \<Rightarrow> mips_handler" where
  "row_func e = snd (snd (snd (snd (snd e))))"

definition asm_register_mips_opcode :: "vector_t \<Rightarrow> nat \<Rightarrow> nat \<Rightarrow> nat \<Rightarrow> ptr \<Rightarrow> vector_t option" where
  "asm_register_mips_opcode vec op1 op2 op3 fcn = aspect_vectors_insert vec [op1, op2, op3] fcn"

text \<open>The loop over the table. Code addresses: the default handler is at 1 and the handler of
  row \<open>i\<close> at \<open>i + 2\<close>; addresses are only used to call.\<close>

fun register_rows :: "e_mips_instr list \<Rightarrow> ptr \<Rightarrow> vector_t \<Rightarrow> vector_t option" where
  "register_rows [] a vec = Some vec"
| "register_rows ((_, _, index1, index2, index3, _) # es) a vec =
     Option.bind (asm_register_mips_opcode vec index1 index2 index3 a) (register_rows es (a + 1))"

definition asm_register_mips_opcodes :: "vector_t \<Rightarrow> vector_t option" where
  "asm_register_mips_opcodes vec = register_rows e_mips_instrs 2 vec"

text \<open>\<open>asm_register_mips\<close>: both vectors with their handlers.\<close>

definition asm_register_mips :: "(vector_t \<times> vector_t) option" where
  "asm_register_mips =
     (let vec = make_vector 1 [64, 64, 64] [''OPCODES'', ''SECONDARY OPCODES'', ''TERTIARY OPCODES''] 3 in
      Option.bind (asm_register_mips_opcodes vec) (\<lambda>v1.
      Option.bind mips_operand_vector (\<lambda>v2. Some (v1, v2))))"

text \<open>A call through a code address; \<open>asm_fetch_default\<close> returns -1 on MIPS.\<close>

definition mips_call :: "ptr \<Rightarrow> mips_handler" where
  "mips_call f en buf ins =
     (if 2 \<le> f \<and> f - 2 < length e_mips_instrs then row_func (e_mips_instrs ! (f - 2)) en buf ins
      else Inr (-1, ins))"

subsection \<open>Fetching\<close>

text \<open>The coordinates \<open>asm_fetch_mips\<close> computes from the instruction word.\<close>

definition mips_dims :: "u_int \<Rightarrow> nat \<times> nat \<times> nat" where
  "mips_dims converted =
     (let dim0 = unat (drop_bit 26 converted) in
      if dim0 = MIPS_OPCODE_SPECIAL then
        (let dim1 = unat (converted AND 0x3F) in
         (dim0, dim1,
          if dim1 = MIPS_OPCODE_MOVCI then unat (drop_bit 16 (converted AND 0x10000))
          else if dim1 = MIPS_OPCODE_SRL then unat (drop_bit 21 converted AND 0x1F)
          else if dim1 = MIPS_OPCODE_SRLV then unat (drop_bit 6 converted AND 0x1F)
          else 0))
      else if dim0 = MIPS_OPCODE_REGIMM then (dim0, unat (drop_bit 16 converted AND 0x1F), 0)
      else if dim0 = MIPS_OPCODE_SPECIAL2 then (dim0, unat (converted AND 0x3F), 0)
      else if dim0 = MIPS_OPCODE_SPECIAL3 then
        (let dim1 = unat (converted AND 0x3F) in
         (dim0, dim1, if dim1 = MIPS_OPCODE_BSHFL then unat (drop_bit 6 (converted AND 0x7C0) + 6) else 0))
      else if dim0 = MIPS_OPCODE_COP0 then
        (let tmp = drop_bit 3 converted AND 0xFF in
         (dim0, if tmp = 0 then unat tmp else unat (converted AND 0x3F), 0))
      else if dim0 = MIPS_OPCODE_COP1 then
        (let tmp = unat (converted AND 0x3F); fmt = unat (drop_bit 21 converted AND 0x1F);
             jajo = drop_bit 4 converted AND 0xF; kupa = unat (converted AND 0xF) in
         if fmt = MIPS_OPCODE_BCC2 then (dim0, fmt, unat (drop_bit 16 converted AND 0x3))
         else if fmt = MIPS_OPCODE_F_CFC1 \<or> fmt = MIPS_OPCODE_F_CTC1 \<or> fmt = MIPS_OPCODE_F_MFC1 \<or>
                 fmt = MIPS_OPCODE_F_MTC1 \<or> fmt = MIPS_OPCODE_DMFC2 \<or> fmt = MIPS_OPCODE_DMTC2
         then (dim0, fmt, 0)
         else if jajo = 0x3 then (dim0, kupa, fmt)
         else (dim0, tmp, fmt))
      else if dim0 = MIPS_OPCODE_COP2 then
        (let tmp = drop_bit 25 converted AND 0x1 in
         if tmp \<noteq> 0 then (dim0, unat tmp, 0)
         else (let dim1 = unat (drop_bit 21 converted AND 0x1F) in
               (dim0, dim1, if dim1 = MIPS_OPCODE_BCC2 then unat (drop_bit 16 converted AND 0x3) else 0)))
      else if dim0 = MIPS_OPCODE_COP1X then (dim0, unat (converted AND 0x3F), 0)
      else (dim0, 0, 0))"

text \<open>\<open>asm_fetch_mips\<close> reads four bytes whatever \<open>len\<close> says. The little-endian setting reverses
  them, so it is the one that decodes big-endian code on the little-endian host.\<close>

definition mips_word :: "nat \<Rightarrow> u_char list \<Rightarrow> asm_error + u_int" where
  "mips_word en buf =
     (if length buf < 4 then Inl Short_Buffer
      else if en = CONFIG_ASM_BIG_ENDIAN then Inr (le32 buf)
      else if en = CONFIG_ASM_LITTLE_ENDIAN then Inr (le32 (rev (take 4 buf)))
      else Inl Exit)"

definition asm_fetch_mips :: "vector_t \<Rightarrow> nat \<Rightarrow> u_char list \<Rightarrow> asm_instr \<Rightarrow> asm_result" where
  "asm_fetch_mips vec en buf ins = rbind (mips_word en buf) (\<lambda>converted.
     let ins1 = ins\<lparr>ilen := 4, ptr_instr := Ptr_Caller, nb_op := 0, itype := ASM_TYPE_NONE\<rparr>;
         (dim0, dim1, dim2) = mips_dims converted
     in (case aspect_vectors_select vec [dim0, dim1, dim2] of
           None \<Rightarrow> Inl Bad_Dispatch
         | Some fetch \<Rightarrow> mips_call fetch en converted ins1))"

text \<open>\<open>asm_read_instr\<close> with the MIPS processor: the structure is cleared first.\<close>

definition asm_read_mips :: "nat \<Rightarrow> u_char list \<Rightarrow> asm_result" where
  "asm_read_mips en buf = (case asm_register_mips of
     None \<Rightarrow> Inl Bad_Dispatch
   | Some (vec, _) \<Rightarrow> asm_fetch_mips vec en buf zero_instr)"

subsection \<open>Output\<close>

text \<open>\<open>snprintf\<close> into a buffer of \<open>n\<close> bytes.\<close>

definition snprintf :: "nat \<Rightarrow> string \<Rightarrow> string" where
  "snprintf n s = take (n - 1) s"

definition XFMT :: "u_int \<Rightarrow> string" where
  "XFMT a = ''0x'' @ fmt_08X a"

text \<open>The name of a register: the FPU name when the operand has a register set.\<close>

definition mips_reg_name :: "asm_operand \<Rightarrow> string option" where
  "mips_reg_name p =
     (if unat (baser p) < length e_mips_registers
      then Some (let (ext, _, fpu) = e_mips_registers ! unat (baser p) in if regset p \<noteq> 0 then fpu else ext)
      else None)"

text \<open>The branch target and the jump target as the output computes them; \<open>(short) op->imm\<close> is
  a sign extension.\<close>

definition mips_branch_target :: "eresi_Addr \<Rightarrow> u_int \<Rightarrow> eresi_Addr" where
  "mips_branch_target addr im = addr + (scast (ucast im :: 16 word) + 1) * 4"

definition mips_jump_target :: "eresi_Addr \<Rightarrow> u_int \<Rightarrow> eresi_Addr" where
  "mips_jump_target addr im = push_bit 2 im OR push_bit 28 (drop_bit 28 (addr + 8) AND 0xF)"

text \<open>The text of one operand, in \<open>temp[i]\<close> of 20 bytes; \<open>None\<close> when the register does not
  exist.\<close>

definition mips_operand_text :: "eresi_Addr \<Rightarrow> nat \<Rightarrow> asm_operand \<Rightarrow> string option" where
  "mips_operand_text addr i p =
     (let comma = (if i \<noteq> 0 then '','' else []) in
      if otype p = ASM_MIPS_OTYPE_REGISTER then map_option (\<lambda>r. snprintf 20 (comma @ r)) (mips_reg_name p)
      else if otype p = ASM_MIPS_OTYPE_IMMEDIATE then Some (snprintf 20 (comma @ fmt_d (sint (ucast (imm p) :: 16 word))))
      else if otype p = ASM_MIPS_OTYPE_JUMP then Some (snprintf 20 (comma @ XFMT (mips_jump_target addr (imm p))))
      else if otype p = ASM_MIPS_OTYPE_BRANCH then Some (snprintf 20 (comma @ XFMT (mips_branch_target addr (imm p))))
      else if otype p = ASM_MIPS_OTYPE_REGBASE then map_option (\<lambda>r. snprintf 20 (''('' @ r @ '')'')) (mips_reg_name p)
      else Some [])"

definition asm_mips_display_operand :: "asm_instr \<Rightarrow> eresi_Addr \<Rightarrow> string option" where
  "asm_mips_display_operand ins addr =
     map_option concat (those (map (\<lambda>i. mips_operand_text addr i (op ins ! i)) [0..<4]))"

definition asm_mips_display_instr :: "asm_instr \<Rightarrow> eresi_Addr \<Rightarrow> string option" where
  "asm_mips_display_instr ins addr =
     (if instr ins < length e_mips_instrs then
        map_option (\<lambda>tmp. snprintf 120 (fst (e_mips_instrs ! instr ins) @ (if tmp \<noteq> [] then '' '' @ tmp else [])))
          (asm_mips_display_operand ins addr)
      else None)"

subsection \<open>Facts of the tables\<close>

lemma e_mips_instrs_length: "length e_mips_instrs = 314"
  by (simp add: e_mips_instrs_def)

lemma e_mips_registers_length: "length e_mips_registers = 32"
  by (simp add: e_mips_registers_def)

text \<open>The identifier of a row is its position, so an identifier finds its own mnemonic.\<close>

lemma e_mips_instrs_codes: "map row_code e_mips_instrs = [0..<314]"
  by code_simp

lemma e_mips_instrs_dims: "list_all (in_dims [64, 64, 64]) (map row_dims e_mips_instrs)"
  unfolding e_mips_instrs_def row_dims_def by (simp add: in_dims_def mips_const)

subsection \<open>Dispatch\<close>

lemma register_rows_at: "register_rows es a vec = register_at (map row_dims es) a vec"
proof (induction es arbitrary: a vec)
  case (Cons e es)
  have "register_rows es (a + 1) = register_at (map row_dims es) (a + 1)" by (rule ext) (rule Cons.IH)
  then show ?case by (cases e) (simp add: row_dims_def asm_register_mips_opcode_def)
qed simp

text \<open>The row that wins a coordinate is the last one that names it.\<close>

definition mips_row :: "nat list \<Rightarrow> e_mips_instr option" where
  "mips_row dims = find (\<lambda>e. row_dims e = dims) (rev e_mips_instrs)"

lemma mips_vector:
  obtains vec where "asm_register_mips = Some (vec, the mips_operand_vector)"
    "\<forall>dims. in_dims [64, 64, 64] dims \<longrightarrow> aspect_vectors_select vec dims =
       Some (case map_of (rev (row_pairs 2 (map row_dims e_mips_instrs))) dims of Some f \<Rightarrow> f | None \<Rightarrow> 1)"
proof -
  have nz: "[64, 64, 64] \<noteq> ([] :: nat list)" "in_dims [64, 64, 64] [0, 0, 0]" by (simp_all add: in_dims_def)
  obtain u where u: "register_at (map row_dims e_mips_instrs) 2
      (make_vector 1 [64, 64, 64] [''OPCODES'', ''SECONDARY OPCODES'', ''TERTIARY OPCODES''] (length [64, 64, 64 :: nat])) = Some u"
    "\<forall>dims. in_dims [64, 64, 64] dims \<longrightarrow> aspect_vectors_select u dims =
       Some (case map_of (rev (row_pairs 2 (map row_dims e_mips_instrs))) dims of Some f \<Rightarrow> f | None \<Rightarrow> 1)"
    by (rule register_at_fresh [OF nz(1) e_mips_instrs_dims nz(2)])
  have "length [64, 64, 64 :: nat] = 3" by simp
  with u(1) have "asm_register_mips = Some (u, the mips_operand_vector)"
    by (simp only: asm_register_mips_def asm_register_mips_opcodes_def register_rows_at Let_def mips_operand_vector_eq
        Option.bind.bind_lunit option.sel)
  then show thesis using u(2) by (rule that)
qed

text \<open>The coordinates never leave the vector.\<close>

lemma unat_add_le: "unat (x + y :: u_int) \<le> unat x + unat y"
  by (simp add: unat_word_ariths)

lemma mips_dims_in:
  assumes "mips_dims w = (i, j, k)"
  shows "in_dims [64, 64, 64] [i, j, k]"
proof -
  have "unat w div 2 ^ 26 < 64"
    using unsigned_less [of w, where ?'a = nat] by (intro less_mult_imp_div_less) simp
  then have d0: "unat (drop_bit 26 w) < 64" by (simp only: unat_drop_bit_eq drop_bit_eq_div [where 'a = nat])
  have f: "unat (x AND 0x3F) < 64" "unat (x AND 0x1F) < 64" "unat (x AND 0xF) < 64" "unat (x AND 0x3) < 64"
    "unat (x AND 0x1) < 64" for x :: u_int
    using unat_and_le [of x "0x3F"] unat_and_le [of x "0x1F"] unat_and_le [of x "0xF"] unat_and_le [of x "0x3"]
      unat_and_le [of x "0x1"] by simp_all
  have g: "unat (drop_bit 16 (w AND 0x10000)) < 64" "unat (drop_bit 6 (w AND 0x7C0) + 6) < 64"
    using unat_drop_and_le [of 16 w "0x10000"] unat_drop_and_le [of 6 w "0x7C0"]
      unat_add_le [of "drop_bit 6 (w AND 0x7C0)" 6] by simp_all
  show ?thesis
    using assms d0 f g unfolding mips_dims_def Let_def
    by (auto simp: in_dims_def mips_const split: if_splits)
qed

text \<open>What \<open>asm_read_instr\<close> runs: the handler of the winning row, on the cleared structure.\<close>

definition mips_start :: asm_instr where
  "mips_start = zero_instr\<lparr>ilen := 4, ptr_instr := Ptr_Caller, nb_op := 0, itype := ASM_TYPE_NONE\<rparr>"

lemma mips_read_row:
  "asm_read_mips en buf = rbind (mips_word en buf) (\<lambda>w. let (i, j, k) = mips_dims w in
     case mips_row [i, j, k] of None \<Rightarrow> Inr (-1, mips_start) | Some e \<Rightarrow> row_func e en w mips_start)"
proof (cases "mips_word en buf")
  case (Inl e)
  obtain vec where vec: "asm_register_mips = Some (vec, the mips_operand_vector)" by (rule mips_vector)
  show ?thesis unfolding asm_read_mips_def vec by (simp add: asm_fetch_mips_def Inl)
next
  case (Inr w)
  obtain vec where vec: "asm_register_mips = Some (vec, the mips_operand_vector)"
    "\<forall>dims. in_dims [64, 64, 64] dims \<longrightarrow> aspect_vectors_select vec dims =
       Some (case map_of (rev (row_pairs 2 (map row_dims e_mips_instrs))) dims of Some f \<Rightarrow> f | None \<Rightarrow> 1)" by (rule mips_vector)
  obtain i j k where d: "mips_dims w = (i, j, k)" by (metis prod.exhaust)
  have sel: "aspect_vectors_select vec [i, j, k] =
      Some (case map_of (rev (row_pairs 2 (map row_dims e_mips_instrs))) [i, j, k] of Some f \<Rightarrow> f | None \<Rightarrow> 1)"
    using vec(2) mips_dims_in [OF d] by blast
  have "asm_read_mips en buf = mips_call (case map_of (rev (row_pairs 2 (map row_dims e_mips_instrs))) [i, j, k] of
      Some f \<Rightarrow> f | None \<Rightarrow> 1) en w mips_start"
    unfolding asm_read_mips_def vec(1) by (simp add: asm_fetch_mips_def Inr d sel mips_start_def)
  also have "\<dots> = (case mips_row [i, j, k] of None \<Rightarrow> Inr (-1, mips_start) | Some e \<Rightarrow> row_func e en w mips_start)"
    using map_of_row_pairs [where a = 2 and g = row_dims and es = e_mips_instrs and dims = "[i, j, k]"]
    by (cases "map_of (rev (row_pairs 2 (map row_dims e_mips_instrs))) [i, j, k]") (auto simp: mips_call_def mips_row_def)
  finally show ?thesis by (simp add: Inr d)
qed

subsection \<open>Handlers\<close>

text \<open>Rows whose handler may give the identifier of another row: synthetic instructions
  and the conditional moves, which share coordinates.\<close>

definition mips_aliases :: "(nat \<times> nat) list" where
  "mips_aliases = [(ASM_MIPS_BEQ, ASM_MIPS_B), (ASM_MIPS_SLL, ASM_MIPS_NOP), (ASM_MIPS_SLL, ASM_MIPS_SSNOP),
     (ASM_MIPS_JR_HB, ASM_MIPS_JR), (ASM_MIPS_JALR_HB, ASM_MIPS_JALR),
     (ASM_MIPS_MOVF_S, ASM_MIPS_MOVT_S), (ASM_MIPS_MOVT_S, ASM_MIPS_MOVF_S),
     (ASM_MIPS_MOVF_D, ASM_MIPS_MOVT_D), (ASM_MIPS_MOVT_D, ASM_MIPS_MOVF_D),
     (ASM_MIPS_MOVF_PS, ASM_MIPS_MOVT_PS), (ASM_MIPS_MOVT_PS, ASM_MIPS_MOVF_PS)]"

text \<open>What every handler of the table does: it exits on an unknown byte order, and otherwise returns
  4, keeps registers below 32, and gives the identifier of its row or an alias.\<close>

definition result_ok :: "nat \<Rightarrow> nat \<Rightarrow> asm_instr \<Rightarrow> asm_result \<Rightarrow> bool" where
  "result_ok en c ins r \<longleftrightarrow> (case r of
     Inl err \<Rightarrow> err = Exit \<and> 1 < en
   | Inr (n, ins') \<Rightarrow> n = 4 \<and> regs_below 32 ins' \<and>
       (instr ins' = c \<or> (c, instr ins') \<in> set mips_aliases))"

definition handler_ok :: "e_mips_instr \<Rightarrow> bool" where
  "handler_ok e \<longleftrightarrow> (\<forall>en buf ins. regs_below 32 ins \<longrightarrow> result_ok en (row_code e) ins (row_func e en buf ins))"

lemma regs_steps [simp]:
  "regs_below 32 ins \<Longrightarrow> regs_below 32 (set_instr n ins)" "regs_below 32 ins \<Longrightarrow> regs_below 32 (set_type t ins)"
  "regs_below 32 ins \<Longrightarrow> regs_below 32 (set_otype i t ins)" "regs_below 32 ins \<Longrightarrow> regs_below 32 (set_imm i (v :: 'v::len word) ins)"
  "regs_below 32 ins \<Longrightarrow> regs_below 32 (set_regset i t ins)"
  "regs_below 32 ins \<Longrightarrow> regs_below 32 (set_baser i (b :: 5 word) ins)"
  using steps_keep(1,2,3,5) steps_keep(4) [of 32 i v] set_baser_keeps [of 32 i b] by (simp_all add: keeps_regs_def)

lemma result_Inr [simp]:
  "result_ok en c ins (Inr (n, ins')) \<longleftrightarrow> n = 4 \<and> regs_below 32 ins' \<and>
     (instr ins' = c \<or> (c, instr ins') \<in> set mips_aliases)"
  by (simp add: result_ok_def)

lemma result_bind [simp]:
  "(\<forall>temp. result_ok en c ins (f1 temp)) \<Longrightarrow> result_ok en c ins (rbind (mips_convert_format_r en buf) f1)"
  "(\<forall>temp. result_ok en c ins (f2 temp)) \<Longrightarrow> result_ok en c ins (rbind (mips_convert_format_i en buf) f2)"
  "(\<forall>temp. result_ok en c ins (f3 temp)) \<Longrightarrow> result_ok en c ins (rbind (mips_convert_format_j en buf) f3)"
  "(\<forall>temp. result_ok en c ins (f4 temp)) \<Longrightarrow> result_ok en c ins (rbind (mips_convert_format_t en buf) f4)"
  "(\<forall>temp. result_ok en c ins (f5 temp)) \<Longrightarrow> result_ok en c ins (rbind (mips_convert_format_mov en buf) f5)"
  "(\<forall>temp. result_ok en c ins (f6 temp)) \<Longrightarrow> result_ok en c ins (rbind (mips_convert_format_cop2 en buf) f6)"
  "(\<forall>temp. result_ok en c ins (f7 temp)) \<Longrightarrow> result_ok en c ins (rbind (mips_convert_format_cop1x en buf) f7)"
  by (simp_all add: mips_convert_format_r_def mips_convert_format_i_def mips_convert_format_j_def
    mips_convert_format_t_def mips_convert_format_mov_def mips_convert_format_cop2_def
    mips_convert_format_cop1x_def)
    (auto simp: result_ok_def CONFIG_ASM_LITTLE_ENDIAN_def CONFIG_ASM_BIG_ENDIAN_def)

lemma result_again [simp]:
  "result_ok en c ins r \<Longrightarrow> result_ok en c ins (rbind r (\<lambda>(_, ins1). Inr (4, ins1)))"
  by (cases r) (auto simp: result_ok_def)

lemma instr_steps [simp]:
  "instr (set_instr n ins) = n" "instr (set_type t ins) = instr ins" "instr (set_otype i t ins) = instr ins"
  "instr (set_baser i v ins) = instr ins" "instr (set_imm i v' ins) = instr ins"
  "instr (set_regset i t ins) = instr ins"
  by (simp_all add: asm_steps)

lemma fetch_types [simp]:
  "ASM_MIPS_OTYPE_REGISTER < ASM_MIPS_OTYPE_LAST" "ASM_MIPS_OTYPE_IMMEDIATE < ASM_MIPS_OTYPE_LAST"
  "ASM_MIPS_OTYPE_JUMP < ASM_MIPS_OTYPE_LAST" "ASM_MIPS_OTYPE_NOOP < ASM_MIPS_OTYPE_LAST"
  "ASM_MIPS_OTYPE_BRANCH < ASM_MIPS_OTYPE_LAST" "ASM_MIPS_OTYPE_REGBASE < ASM_MIPS_OTYPE_LAST"
  "ASM_MIPS_OTYPE_NONE < ASM_MIPS_OTYPE_LAST"
  by (simp_all add: mips_const)

text \<open>Every row is where its identifier says.\<close>

lemma e_mips_instrs_at: "list_all (\<lambda>e. e_mips_instrs ! row_code e = e \<and> row_code e < 314) e_mips_instrs"
proof -
  have "row_code (e_mips_instrs ! i) = i" if "i < 314" for i
    using arg_cong [OF e_mips_instrs_codes, of "\<lambda>xs. xs ! i"] that by (simp add: e_mips_instrs_length)
  then show ?thesis by (simp add: list_all_length e_mips_instrs_length)
qed

lemma mips_handlers_ok: "list_all handler_ok e_mips_instrs"
  unfolding e_mips_instrs_def list.pred_inject handler_ok_def row_code_def row_func_def fst_conv snd_conv
  by (intro conjI TrueI allI impI)
    (simp_all add: mips_handlers1_defs mips_handlers2_defs mips_aliases_def Let_def)

subsection \<open>The decoded instruction\<close>

lemma find_SomeD: "find P xs = Some x \<Longrightarrow> P x \<and> x \<in> set xs"
  by (induction xs) (auto split: if_splits)

lemma mips_row_mem: "mips_row dims = Some e \<Longrightarrow> e \<in> set e_mips_instrs \<and> row_dims e = dims"
  unfolding mips_row_def by (drule find_SomeD) simp

lemma alias_codes: "list_all (\<lambda>(c, d). d < 314) mips_aliases"
  by (simp add: mips_aliases_def mips_const)

lemma mips_start_regs: "regs_below 32 mips_start"
  using zero_instr_regs [of 32] by (simp add: mips_start_def regs_below_def)

lemma mips_decode_cases:
  assumes "mips_word en buf = Inr w" "mips_dims w = (i, j, k)"
  obtains "mips_row [i, j, k] = None" "asm_read_mips en buf = Inr (-1, mips_start)"
  | e ins where "mips_row [i, j, k] = Some e" "asm_read_mips en buf = Inr (4, ins)" "regs_below 32 ins"
      "instr ins = row_code e \<or> (row_code e, instr ins) \<in> set mips_aliases" "instr ins < 314"
proof (cases "mips_row [i, j, k]")
  case None
  then show thesis using that(1) mips_read_row [of en buf] assms by simp
next
  case (Some e)
  have e: "e \<in> set e_mips_instrs" using mips_row_mem [OF Some] by blast
  have en: "\<not> 1 < en" using assms(1)
    by (auto simp: mips_word_def CONFIG_ASM_LITTLE_ENDIAN_def CONFIG_ASM_BIG_ENDIAN_def split: if_splits)
  have rd: "asm_read_mips en buf = row_func e en w mips_start"
    using mips_read_row [of en buf] assms Some by simp
  have "result_ok en (row_code e) mips_start (row_func e en w mips_start)"
    using mips_handlers_ok e mips_start_regs unfolding list_all_iff handler_ok_def by blast
  then obtain ins where ins: "row_func e en w mips_start = Inr (4, ins)" "regs_below 32 ins"
    "instr ins = row_code e \<or> (row_code e, instr ins) \<in> set mips_aliases"
    using en by (cases "row_func e en w mips_start") (auto simp: result_ok_def)
  have "row_code e < 314" using e_mips_instrs_at e by (simp add: list_all_iff)
  then have "instr ins < 314" using ins(3) alias_codes by (auto simp: list_all_iff)
  then show thesis using that(2) [OF Some] rd ins by simp
qed

subsection \<open>The text of an instruction\<close>

lemma operand_text_ok:
  assumes "unat (baser p) < 32"
  shows "\<exists>t. mips_operand_text addr i p = Some t \<and> length t < 20"
  using assms by (auto simp: mips_operand_text_def mips_reg_name_def e_mips_registers_length Let_def snprintf_def)

lemma display_operand_ok:
  assumes "regs_below 32 ins"
  shows "\<exists>t. asm_mips_display_operand ins addr = Some t \<and> length t < 80"
proof -
  have p: "\<exists>t. mips_operand_text addr i (op ins ! i) = Some t \<and> length t < 20" if "i < 4" for i
    using that assms by (intro operand_text_ok) (auto simp: regs_below_def)
  obtain t0 t1 t2 t3 where t: "mips_operand_text addr 0 (op ins ! 0) = Some t0" "mips_operand_text addr 1 (op ins ! 1) = Some t1"
    "mips_operand_text addr 2 (op ins ! 2) = Some t2" "mips_operand_text addr 3 (op ins ! 3) = Some t3"
    "length t0 < 20" "length t1 < 20" "length t2 < 20" "length t3 < 20"
    using p [of 0] p [of 1] p [of 2] p [of 3] by auto
  have "[0..<4] = [0, 1, 2, 3 :: nat]" by (simp add: upt_rec)
  then show ?thesis using t by (simp add: asm_mips_display_operand_def)
qed

lemma display_ok:
  assumes "regs_below 32 ins" "instr ins < 314"
  shows "\<exists>s. asm_mips_display_instr ins addr = Some s \<and> length s < 120"
proof -
  obtain t where "asm_mips_display_operand ins addr = Some t" using display_operand_ok [OF assms(1)] by blast
  then show ?thesis using assms(2) by (simp add: asm_mips_display_instr_def e_mips_instrs_length snprintf_def)
qed

subsection \<open>Properties\<close>

text \<open>C24. What the MIPS disassembler decodes is given by its table: for every buffer and byte
  order, reading an instruction runs the handler of the last row of \<open>e_mips_instrs\<close> that names
  the coordinates of the instruction word, on a cleared structure, and returns -1 when no row
  does. The 64 by 64 by 64 vector is never left.\<close>

theorem mips_decode_by_table:
  "asm_read_mips en buf = rbind (mips_word en buf) (\<lambda>w. let (i, j, k) = mips_dims w in
     case find (\<lambda>e. row_dims e = [i, j, k]) (rev e_mips_instrs) of
       None \<Rightarrow> Inr (-1, mips_start) | Some e \<Rightarrow> row_func e en w mips_start)"
  using mips_read_row by (simp add: mips_row_def)

text \<open>C25. Decoding is safe on any four bytes: it returns 4, or -1 for an unknown opcode, every
  operand names one of the 32 registers, the identifier is that of the winning row (or of one
  of its aliases) and lies inside the table, and the output needs no more than its buffers of
  80 and 120 bytes.\<close>

theorem mips_decode_safe:
  assumes "4 \<le> length buf" "en = CONFIG_ASM_LITTLE_ENDIAN \<or> en = CONFIG_ASM_BIG_ENDIAN"
  shows "\<exists>n ins. asm_read_mips en buf = Inr (n, ins) \<and> (n = 4 \<or> n = -1) \<and> regs_below 32 ins \<and>
    instr ins < length e_mips_instrs \<and>
    (\<exists>t. asm_mips_display_operand ins addr = Some t \<and> length t < 80) \<and>
    (\<exists>s. asm_mips_display_instr ins addr = Some s \<and> length s < 120)"
proof -
  obtain w where w: "mips_word en buf = Inr w"
    using assms by (auto simp: mips_word_def CONFIG_ASM_LITTLE_ENDIAN_def CONFIG_ASM_BIG_ENDIAN_def)
  obtain i j k where d: "mips_dims w = (i, j, k)" by (metis prod.exhaust)
  from w d show ?thesis
  proof (cases rule: mips_decode_cases)
    case 1
    have "instr mips_start < 314" by (simp add: mips_start_def zero_instr_def)
    then show ?thesis using 1 mips_start_regs display_ok display_operand_ok by (simp add: e_mips_instrs_length)
  next
    case (2 e ins)
    then show ?thesis using display_ok display_operand_ok by (simp add: e_mips_instrs_length)
  qed
qed

theorem mips_decode_safe_witness:
  "\<exists>n ins. asm_read_mips CONFIG_ASM_LITTLE_ENDIAN [0x8F, 0xBF, 0, 0x1C] = Inr (n, ins) \<and> regs_below 32 ins"
proof -
  have "4 \<le> length [0x8F, 0xBF, 0, 0x1C :: u_char]" by simp
  from mips_decode_safe [OF this disjI1 [OF refl]] show ?thesis by blast
qed

subsection \<open>Encodings\<close>

text \<open>The instruction formats of the architecture manual, most significant field first.\<close>

definition enc_r :: "6 word \<Rightarrow> 5 word \<Rightarrow> 5 word \<Rightarrow> 5 word \<Rightarrow> 5 word \<Rightarrow> 6 word \<Rightarrow> u_int" where
  "enc_r opc rs rt rd sa fn = push_bit 26 (ucast opc) OR push_bit 21 (ucast rs) OR push_bit 16 (ucast rt) OR
     push_bit 11 (ucast rd) OR push_bit 6 (ucast sa) OR ucast fn"

definition enc_i :: "6 word \<Rightarrow> 5 word \<Rightarrow> 5 word \<Rightarrow> 16 word \<Rightarrow> u_int" where
  "enc_i opc rs rt im = push_bit 26 (ucast opc) OR push_bit 21 (ucast rs) OR push_bit 16 (ucast rt) OR ucast im"

definition enc_j :: "6 word \<Rightarrow> 26 word \<Rightarrow> u_int" where
  "enc_j opc ta = push_bit 26 (ucast opc) OR ucast ta"

lemma mips_word_be: "mips_word CONFIG_ASM_LITTLE_ENDIAN (be_bytes w) = Inr w"
  using le32_be_bytes [of w]
  by (simp add: mips_word_def be_bytes_def CONFIG_ASM_LITTLE_ENDIAN_def CONFIG_ASM_BIG_ENDIAN_def)

lemma ucast_masked [simp]:
  "(ucast (x AND 0x1F) :: 5 word) = ucast (x :: u_int)" "(ucast (x AND 0x3F) :: 6 word) = ucast x"
  "(ucast (x AND 0xFFFF) :: 16 word) = ucast x" "(ucast (x AND 0x3FFFFFF) :: 26 word) = ucast x"
proof -
  have m: "(0x1F :: u_int) = mask 5" "(0x3F :: u_int) = mask 6" "(0xFFFF :: u_int) = mask 16"
    "(0x3FFFFFF :: u_int) = mask 26" by (simp_all add: mask_eq_exp_minus_1)
  show "(ucast (x AND 0x1F) :: 5 word) = ucast x" "(ucast (x AND 0x3F) :: 6 word) = ucast x"
    "(ucast (x AND 0xFFFF) :: 16 word) = ucast x" "(ucast (x AND 0x3FFFFFF) :: 26 word) = ucast x"
    unfolding m by (rule bit_word_eqI; auto simp: bit_simps)+
qed

lemma enc_r_fields:
  "(ucast (drop_bit 21 (enc_r opc rs rt rd sa fn)) :: 5 word) = rs"
  "(ucast (drop_bit 16 (enc_r opc rs rt rd sa fn)) :: 5 word) = rt"
  "(ucast (drop_bit 11 (enc_r opc rs rt rd sa fn)) :: 5 word) = rd"
  "(ucast (drop_bit 6 (enc_r opc rs rt rd sa fn)) :: 5 word) = sa"
  "drop_bit 26 (enc_r opc rs rt rd sa fn) = ucast opc" "enc_r opc rs rt rd sa fn AND 0x3F = ucast fn"
proof -
  have m: "(0x3F :: u_int) = mask 6" by (simp add: mask_eq_exp_minus_1)
  show "(ucast (drop_bit 21 (enc_r opc rs rt rd sa fn)) :: 5 word) = rs"
    "(ucast (drop_bit 16 (enc_r opc rs rt rd sa fn)) :: 5 word) = rt"
    "(ucast (drop_bit 11 (enc_r opc rs rt rd sa fn)) :: 5 word) = rd"
    "(ucast (drop_bit 6 (enc_r opc rs rt rd sa fn)) :: 5 word) = sa"
    "drop_bit 26 (enc_r opc rs rt rd sa fn) = ucast opc" "enc_r opc rs rt rd sa fn AND 0x3F = ucast fn"
    unfolding enc_r_def m by (rule bit_word_eqI; auto simp: bit_simps dest: bit_imp_le_length)+
qed

lemma enc_i_fields:
  "(ucast (drop_bit 21 (enc_i opc rs rt im)) :: 5 word) = rs"
  "(ucast (drop_bit 16 (enc_i opc rs rt im)) :: 5 word) = rt" "(ucast (enc_i opc rs rt im) :: 16 word) = im"
  "drop_bit 26 (enc_i opc rs rt im) = ucast opc"
  unfolding enc_i_def by (rule bit_word_eqI; auto simp: bit_simps dest: bit_imp_le_length)+

lemma enc_j_fields:
  "(ucast (enc_j opc ta) :: 26 word) = ta" "drop_bit 26 (enc_j opc ta) = ucast opc"
  unfolding enc_j_def by (rule bit_word_eqI; auto simp: bit_simps dest: bit_imp_le_length)+

lemma mips_read_enc:
  assumes "mips_dims w = (i, j, k)" "mips_row [i, j, k] = Some e"
  shows "asm_read_mips CONFIG_ASM_LITTLE_ENDIAN (be_bytes w) = row_func e CONFIG_ASM_LITTLE_ENDIAN w mips_start"
  using mips_read_row [of CONFIG_ASM_LITTLE_ENDIAN "be_bytes w"] assms by (simp add: mips_word_be)

text \<open>The rows of the instructions the round trip is stated for.\<close>

definition mips_alu3 :: "(6 word \<times> nat) list" where
  "mips_alu3 = [(0x20, ASM_MIPS_ADD), (0x21, ASM_MIPS_ADDU), (0x22, ASM_MIPS_SUB), (0x23, ASM_MIPS_SUBU),
     (0x24, ASM_MIPS_AND), (0x25, ASM_MIPS_OR), (0x26, ASM_MIPS_XOR), (0x27, ASM_MIPS_NOR),
     (0x2A, ASM_MIPS_SLT), (0x2B, ASM_MIPS_SLTU)]"

definition mips_alui :: "(6 word \<times> nat) list" where
  "mips_alui = [(0x08, ASM_MIPS_ADDI), (0x09, ASM_MIPS_ADDIU), (0x0A, ASM_MIPS_SLTI), (0x0B, ASM_MIPS_SLTIU),
     (0x0C, ASM_MIPS_ANDI), (0x0D, ASM_MIPS_ORI), (0x0E, ASM_MIPS_XORI)]"

definition mips_mem :: "(6 word \<times> nat) list" where
  "mips_mem = [(0x20, ASM_MIPS_LB), (0x21, ASM_MIPS_LH), (0x22, ASM_MIPS_LWL), (0x23, ASM_MIPS_LW),
     (0x24, ASM_MIPS_LBU), (0x25, ASM_MIPS_LHU), (0x26, ASM_MIPS_LWR), (0x28, ASM_MIPS_SB),
     (0x29, ASM_MIPS_SH), (0x2A, ASM_MIPS_SWL), (0x2B, ASM_MIPS_SW), (0x2E, ASM_MIPS_SWR)]"

definition operand_view :: "asm_operand \<Rightarrow> u_int \<times> u_int \<times> u_int" where
  "operand_view p = (otype p, baser p, imm p)"

text \<open>The last matching row, in one pass over the table.\<close>

lemma mips_row_fold:
  "mips_row dims = fold (\<lambda>e acc. if row_dims e = dims then Some e else acc) e_mips_instrs None"
proof -
  have "fold (\<lambda>x acc. if P x then Some x else acc) xs a = (case find P (rev xs) of None \<Rightarrow> a | Some x \<Rightarrow> Some x)"
    for P :: "e_mips_instr \<Rightarrow> bool" and xs a
  proof (induction xs arbitrary: a)
    case (Cons x xs)
    have "find P (ys @ [x]) = (case find P ys of None \<Rightarrow> if P x then Some x else None | Some y \<Rightarrow> Some y)" for ys
      by (induction ys) auto
    then show ?case using Cons.IH by (simp split: option.splits)
  qed simp
  then show ?thesis by (simp add: mips_row_def split: option.splits)
qed

lemma mips_rows_1:
  "mips_row [0, 32, 0] = Some (''add'', ASM_MIPS_ADD, MIPS_OPCODE_SPECIAL, MIPS_OPCODE_ADD, 0, asm_mips_add)"
  "mips_row [0, 33, 0] = Some (''addu'', ASM_MIPS_ADDU, MIPS_OPCODE_SPECIAL, MIPS_OPCODE_ADDU, 0, asm_mips_addu)"
  "mips_row [0, 34, 0] = Some (''sub'', ASM_MIPS_SUB, MIPS_OPCODE_SPECIAL, MIPS_OPCODE_SUB, 0, asm_mips_sub)"
  "mips_row [0, 35, 0] = Some (''subu'', ASM_MIPS_SUBU, MIPS_OPCODE_SPECIAL, MIPS_OPCODE_SUBU, 0, asm_mips_subu)"
  "mips_row [0, 36, 0] = Some (''and'', ASM_MIPS_AND, MIPS_OPCODE_SPECIAL, MIPS_OPCODE_AND, 0, asm_mips_and)"
  "mips_row [0, 37, 0] = Some (''or'', ASM_MIPS_OR, MIPS_OPCODE_SPECIAL, MIPS_OPCODE_OR, 0, asm_mips_or)"
  "mips_row [0, 38, 0] = Some (''xor'', ASM_MIPS_XOR, MIPS_OPCODE_SPECIAL, MIPS_OPCODE_XOR, 0, asm_mips_xor)"
  "mips_row [0, 39, 0] = Some (''nor'', ASM_MIPS_NOR, MIPS_OPCODE_SPECIAL, MIPS_OPCODE_NOR, 0, asm_mips_nor)"
  by (simp_all add: mips_row_fold e_mips_instrs_def row_dims_def mips_const)

lemma mips_rows_2:
  "mips_row [0, 42, 0] = Some (''slt'', ASM_MIPS_SLT, MIPS_OPCODE_SPECIAL, MIPS_OPCODE_SLT, 0, asm_mips_slt)"
  "mips_row [0, 43, 0] = Some (''sltu'', ASM_MIPS_SLTU, MIPS_OPCODE_SPECIAL, MIPS_OPCODE_SLTU, 0, asm_mips_sltu)"
  "mips_row [8, 0, 0] = Some (''addi'', ASM_MIPS_ADDI, MIPS_OPCODE_ADDI, 0, 0, asm_mips_addi)"
  "mips_row [9, 0, 0] = Some (''addiu'', ASM_MIPS_ADDIU, MIPS_OPCODE_ADDIU, 0, 0, asm_mips_addiu)"
  "mips_row [10, 0, 0] = Some (''slti'', ASM_MIPS_SLTI, MIPS_OPCODE_SLTI, 0, 0, asm_mips_slti)"
  "mips_row [11, 0, 0] = Some (''sltiu'', ASM_MIPS_SLTIU, MIPS_OPCODE_SLTIU, 0, 0, asm_mips_sltiu)"
  "mips_row [12, 0, 0] = Some (''andi'', ASM_MIPS_ANDI, MIPS_OPCODE_ANDI, 0, 0, asm_mips_andi)"
  "mips_row [13, 0, 0] = Some (''ori'', ASM_MIPS_ORI, MIPS_OPCODE_ORI, 0, 0, asm_mips_ori)"
  by (simp_all add: mips_row_fold e_mips_instrs_def row_dims_def mips_const)

lemma mips_rows_3:
  "mips_row [14, 0, 0] = Some (''xori'', ASM_MIPS_XORI, MIPS_OPCODE_XORI, 0, 0, asm_mips_xori)"
  "mips_row [32, 0, 0] = Some (''lb'', ASM_MIPS_LB, MIPS_OPCODE_LB, 0, 0, asm_mips_lb)"
  "mips_row [33, 0, 0] = Some (''lh'', ASM_MIPS_LH, MIPS_OPCODE_LH, 0, 0, asm_mips_lh)"
  "mips_row [34, 0, 0] = Some (''lwl'', ASM_MIPS_LWL, MIPS_OPCODE_LWL, 0, 0, asm_mips_lwl)"
  "mips_row [35, 0, 0] = Some (''lw'', ASM_MIPS_LW, MIPS_OPCODE_LW, 0, 0, asm_mips_lw)"
  "mips_row [36, 0, 0] = Some (''lbu'', ASM_MIPS_LBU, MIPS_OPCODE_LBU, 0, 0, asm_mips_lbu)"
  "mips_row [37, 0, 0] = Some (''lhu'', ASM_MIPS_LHU, MIPS_OPCODE_LHU, 0, 0, asm_mips_lhu)"
  "mips_row [38, 0, 0] = Some (''lwr'', ASM_MIPS_LWR, MIPS_OPCODE_LWR, 0, 0, asm_mips_lwr)"
  by (simp_all add: mips_row_fold e_mips_instrs_def row_dims_def mips_const)

lemma mips_rows_4:
  "mips_row [40, 0, 0] = Some (''sb'', ASM_MIPS_SB, MIPS_OPCODE_SB, 0, 0, asm_mips_sb)"
  "mips_row [41, 0, 0] = Some (''sh'', ASM_MIPS_SH, MIPS_OPCODE_SH, 0, 0, asm_mips_sh)"
  "mips_row [42, 0, 0] = Some (''swl'', ASM_MIPS_SWL, MIPS_OPCODE_SWL, 0, 0, asm_mips_swl)"
  "mips_row [43, 0, 0] = Some (''sw'', ASM_MIPS_SW, MIPS_OPCODE_SW, 0, 0, asm_mips_sw)"
  "mips_row [46, 0, 0] = Some (''swr'', ASM_MIPS_SWR, MIPS_OPCODE_SWR, 0, 0, asm_mips_swr)"
  "mips_row [2, 0, 0] = Some (''j'', ASM_MIPS_J, MIPS_OPCODE_J, 0, 0, asm_mips_j)"
  "mips_row [3, 0, 0] = Some (''jal'', ASM_MIPS_JAL, MIPS_OPCODE_JAL, 0, 0, asm_mips_jal)"
  by (simp_all add: mips_row_fold e_mips_instrs_def row_dims_def mips_const)

lemmas mips_rows = mips_rows_1 mips_rows_2 mips_rows_3 mips_rows_4

lemma mips_start_ops:
  "op mips_start = [zero_operand, zero_operand, zero_operand, zero_operand, zero_operand, zero_operand]"
  by (simp add: mips_start_def zero_instr_def numeral_eq_Suc)

lemma little_not_big: "CONFIG_ASM_LITTLE_ENDIAN \<noteq> CONFIG_ASM_BIG_ENDIAN"
  by (simp add: CONFIG_ASM_LITTLE_ENDIAN_def CONFIG_ASM_BIG_ENDIAN_def)

lemmas mips_decode_simps = mips_read_enc row_func_def asm_steps mips_start_ops operand_view_def zero_operand_def
  mips_convert_format_r_def mips_convert_format_i_def mips_convert_format_j_def
  enc_r_fields enc_i_fields enc_j_fields little_not_big

definition decodes :: "u_int \<Rightarrow> nat \<Rightarrow> (u_int \<times> u_int \<times> u_int) list \<Rightarrow> bool" where
  "decodes w c ops \<longleftrightarrow> (\<exists>ins. asm_read_mips CONFIG_ASM_LITTLE_ENDIAN (be_bytes w) = Inr (4, ins) \<and>
     instr ins = c \<and> map operand_view (take (length ops) (op ins)) = ops)"

lemma decodes_iff:
  "decodes w c ops \<longleftrightarrow> (let (i, j, k) = mips_dims w in case mips_row [i, j, k] of
     None \<Rightarrow> False
   | Some e \<Rightarrow> (case row_func e CONFIG_ASM_LITTLE_ENDIAN w mips_start of
       Inl _ \<Rightarrow> False
     | Inr (n, ins) \<Rightarrow> n = 4 \<and> instr ins = c \<and> map operand_view (take (length ops) (op ins)) = ops))"
  using mips_read_row [of CONFIG_ASM_LITTLE_ENDIAN "be_bytes w"]
  by (auto simp: decodes_def mips_word_be Let_def split: prod.splits option.splits sum.splits)

lemma alu3_decodes:
  assumes "(fn, c) \<in> set mips_alu3"
  shows "decodes (enc_r 0 rs rt rd 0 fn) c [(ASM_MIPS_OTYPE_REGISTER, ucast rd, 0),
    (ASM_MIPS_OTYPE_REGISTER, ucast rs, 0), (ASM_MIPS_OTYPE_REGISTER, ucast rt, 0)]"
proof -
  have d: "mips_dims (enc_r 0 rs rt rd 0 fn) = (0, unat fn, 0)"
    using assms by (auto simp: mips_dims_def enc_r_fields mips_const mips_alu3_def)
  show ?thesis
    using assms d unfolding decodes_iff
    by (auto simp: mips_alu3_def mips_rows mips_decode_simps mips_handlers1_defs mips_handlers2_defs)
qed

lemma imm_dims:
  "opc \<in> fst ` set (mips_alui @ mips_mem) \<Longrightarrow> mips_dims (enc_i opc rs rt im) = (unat opc, 0, 0)"
  by (auto simp: mips_dims_def enc_i_fields mips_const mips_alui_def mips_mem_def)

lemma alui_decodes:
  assumes "(opc, c) \<in> set mips_alui"
  shows "decodes (enc_i opc rs rt im) c [(ASM_MIPS_OTYPE_REGISTER, ucast rt, 0),
    (ASM_MIPS_OTYPE_REGISTER, ucast rs, 0), (ASM_MIPS_OTYPE_IMMEDIATE, 0, ucast im)]"
proof -
  have d: "mips_dims (enc_i opc rs rt im) = (unat opc, 0, 0)" using assms by (intro imm_dims) force
  show ?thesis
    using assms d unfolding decodes_iff
    by (auto simp: mips_alui_def mips_rows mips_decode_simps mips_handlers1_defs mips_handlers2_defs)
qed

lemma mem_decodes:
  assumes "(opc, c) \<in> set mips_mem"
  shows "decodes (enc_i opc rs rt im) c [(ASM_MIPS_OTYPE_REGISTER, ucast rt, 0),
    (ASM_MIPS_OTYPE_IMMEDIATE, 0, ucast im), (ASM_MIPS_OTYPE_REGBASE, ucast rs, 0)]"
proof -
  have d: "mips_dims (enc_i opc rs rt im) = (unat opc, 0, 0)" using assms by (intro imm_dims) force
  show ?thesis
    using assms d unfolding decodes_iff
    by (auto simp: mips_mem_def mips_rows mips_decode_simps mips_handlers1_defs mips_handlers2_defs)
qed

lemma jump_decodes:
  assumes "(opc, c) \<in> {(2, ASM_MIPS_J), (3, ASM_MIPS_JAL)}"
  shows "decodes (enc_j opc ta) c [(ASM_MIPS_OTYPE_JUMP, 0, ucast ta)]"
proof -
  have d: "mips_dims (enc_j opc ta) = (unat opc, 0, 0)"
    using assms by (auto simp: mips_dims_def enc_j_fields mips_const)
  show ?thesis
    using assms d unfolding decodes_iff
    by (auto simp: mips_rows mips_decode_simps mips_handlers1_defs mips_handlers2_defs)
qed

text \<open>C26. Decoding inverts encoding: for the three-register and the immediate arithmetic
  instructions, the loads and stores and the jumps, the instruction word that the architecture
  manual builds from registers and immediate, stored big-endian, is decoded to that
  instruction with exactly those registers and immediate, for all their values.\<close>

theorem mips_decode_encode:
  "(\<forall>(fn, c)\<in>set mips_alu3. decodes (enc_r 0 rs rt rd 0 fn) c [(ASM_MIPS_OTYPE_REGISTER, ucast rd, 0),
      (ASM_MIPS_OTYPE_REGISTER, ucast rs, 0), (ASM_MIPS_OTYPE_REGISTER, ucast rt, 0)]) \<and>
   (\<forall>(opc, c)\<in>set mips_alui. decodes (enc_i opc rs rt im) c [(ASM_MIPS_OTYPE_REGISTER, ucast rt, 0),
      (ASM_MIPS_OTYPE_REGISTER, ucast rs, 0), (ASM_MIPS_OTYPE_IMMEDIATE, 0, ucast im)]) \<and>
   (\<forall>(opc, c)\<in>set mips_mem. decodes (enc_i opc rs rt im) c [(ASM_MIPS_OTYPE_REGISTER, ucast rt, 0),
      (ASM_MIPS_OTYPE_IMMEDIATE, 0, ucast im), (ASM_MIPS_OTYPE_REGBASE, ucast rs, 0)]) \<and>
   (\<forall>(opc, c)\<in>{(2, ASM_MIPS_J), (3, ASM_MIPS_JAL)}. decodes (enc_j opc ta) c [(ASM_MIPS_OTYPE_JUMP, 0, ucast ta)])"
  using alu3_decodes alui_decodes mem_decodes jump_decodes by blast

theorem mips_decode_encode_witness:
  "decodes (enc_i 0x23 29 31 0x1C) ASM_MIPS_LW [(ASM_MIPS_OTYPE_REGISTER, ucast (31 :: 5 word), 0),
     (ASM_MIPS_OTYPE_IMMEDIATE, 0, ucast (0x1C :: 16 word)), (ASM_MIPS_OTYPE_REGBASE, ucast (29 :: 5 word), 0)]"
proof -
  have "(0x23, ASM_MIPS_LW) \<in> set mips_mem" by (simp add: mips_mem_def)
  then show ?thesis using mips_decode_encode [of 29 31 0 "0x1C" 0] by blast
qed

text \<open>The floating point arithmetic and the comparisons share coordinates.\<close>

lemma float_rows:
  "list_all (\<lambda>(k, f). case mips_row [17, k, f] of None \<Rightarrow> False
     | Some e \<Rightarrow> take 2 (fst e) = ''c.'' \<and> (\<forall>(c, d)\<in>set mips_aliases. c \<noteq> row_code e))
   [(k, f). k \<leftarrow> [0..<16], f \<leftarrow> [16, 17]]"
  by (simp add: mips_row_fold e_mips_instrs_def row_dims_def row_code_def mips_const mips_aliases_def upt_rec)

lemma and_0F_of_3F:
  fixes w :: u_int
  assumes "unat (w AND 0x3F) < 16"
  shows "drop_bit 4 w AND 0xF \<noteq> 0x3"
proof
  assume h: "drop_bit 4 w AND 0xF = 0x3"
  have "bit (drop_bit 4 w AND 0xF) 0" unfolding h by simp
  then have "bit w 4" by (simp add: bit_simps)
  then have b: "bit (w AND 0x3F) 4" by (simp add: bit_simps)
  have "unat (drop_bit 4 (w AND 0x3F)) = unat (w AND 0x3F) div 2 ^ 4"
    by (simp only: unat_drop_bit_eq drop_bit_eq_div [where 'a = nat])
  also have "\<dots> = 0" using assms by simp
  finally have "drop_bit 4 (w AND 0x3F) = 0" by (rule unat_eq_zero [THEN iffD1])
  moreover have "bit (drop_bit 4 (w AND 0x3F)) 0" using b by (simp only: bit_drop_bit_eq comp_apply add_0_right)
  ultimately show False by (simp only: bit_0_eq bot_apply bot_bool_def)
qed

text \<open>Floating point arithmetic is never decoded: a word with the COP1 opcode, the single
  or double format and a function below 16 (add, sub, mul, div, sqrt, abs, mov, neg and the
  conversions to integers) is decoded as one of the comparisons \<open>c.cond.fmt\<close>, whose rows were
  registered later at the same coordinates.\<close>

theorem mips_float_shadowed:
  assumes "drop_bit 26 w = 17" "drop_bit 21 w AND 0x1F = f" "f = 16 \<or> f = 17" "unat (w AND 0x3F) < 16"
  shows "\<exists>ins. asm_read_mips CONFIG_ASM_LITTLE_ENDIAN (be_bytes w) = Inr (4, ins) \<and>
    take 2 (fst (e_mips_instrs ! instr ins)) = ''c.''"
proof -
  have d: "mips_dims w = (17, unat (w AND 0x3F), unat f)"
    using assms and_0F_of_3F [OF assms(4)] by (auto simp: mips_dims_def mips_const Let_def)
  have "unat f = 16 \<or> unat f = 17" using assms(3) by auto
  then have "(unat (w AND 0x3F), unat f) \<in> set [(k, f). k \<leftarrow> [0..<16], f \<leftarrow> [16, 17]]"
    using assms(4) by auto
  then have row: "case mips_row [17, unat (w AND 0x3F), unat f] of None \<Rightarrow> False
     | Some e \<Rightarrow> take 2 (fst e) = ''c.'' \<and> (\<forall>(c, d)\<in>set mips_aliases. c \<noteq> row_code e)"
    using float_rows unfolding list_all_iff by blast
  from mips_word_be d show ?thesis
  proof (cases rule: mips_decode_cases)
    case 1
    then show ?thesis using row by simp
  next
    case (2 e ins)
    then have "instr ins = row_code e" using row by auto
    moreover have "e_mips_instrs ! row_code e = e"
      using e_mips_instrs_at mips_row_mem [OF 2(1)] by (simp add: list_all_iff)
    ultimately show ?thesis using 2 row by simp
  qed
qed

theorem mips_float_shadowed_witness:
  "\<exists>ins. asm_read_mips CONFIG_ASM_LITTLE_ENDIAN (be_bytes 0x46020800) = Inr (4, ins) \<and>
    take 2 (fst (e_mips_instrs ! instr ins)) = ''c.''"
  using mips_float_shadowed [of "0x46020800" 16] by simp

text \<open>The jump target the output prints takes its upper bits from the address after the delay
  slot; the architecture takes them from the delay slot. They agree inside a region of
  \<open>2 ^ 28\<close> bytes and differ for a jump in front of the last slot.\<close>

lemma jump_target_region:
  "drop_bit 28 (addr + 4) = (drop_bit 28 (addr + 8) :: u_int) \<Longrightarrow>
    mips_jump_target addr im = push_bit 2 im OR push_bit 28 (drop_bit 28 (addr + 4) AND 0xF)"
  "mips_jump_target 0x0FFFFFF8 0 = 0x10000000"
  by (simp_all add: mips_jump_target_def)

end
