(* ===== verification/Cfg.thy ===== *)
theory Cfg
  imports Blocks Mips
begin

text \<open>
  Control transfers (\<open>libmjollnir/src/cfg.c\<close>): where a branch or a call goes, and what one
  instruction does to the graph of \<open>Blocks\<close>; then what the resolver makes of MIPS branches, as
  the decoder of \<open>Mips\<close> presents them.
\<close>

subsection \<open>Targets of control transfers\<close>

definition MJR_BLOCK_EXIST :: eresi_Addr where "MJR_BLOCK_EXIST = -2"
definition MJR_MAX_BLOCK_SIZE :: u_int where "MJR_MAX_BLOCK_SIZE = 200"

definition ASM_OP_VALUE :: u_int where "ASM_OP_VALUE = 1"
definition ASM_OP_BASE :: u_int where "ASM_OP_BASE = 2"
definition ASM_OP_REFERENCE :: u_int where "ASM_OP_REFERENCE = 32"
definition ASM_ARM_MVNEQ :: nat where "ASM_ARM_MVNEQ = 668"
definition ASM_ARM_MVNS :: nat where "ASM_ARM_MVNS = 697"
definition ASM_ARM_OTYPE_REGISTER :: u_int where "ASM_ARM_OTYPE_REGISTER = 0"
definition ASM_ARM_OTYPE_DISP_HALF :: u_int where "ASM_ARM_OTYPE_DISP_HALF = 6"

text \<open>\<open>strtol\<close> in base 16 with 32-bit \<open>long\<close>: blanks, a sign, a prefix \<open>0x\<close> in front of a digit,
  then digits; the value is clamped to the range of \<open>long\<close>.\<close>

definition xdigit :: "char \<Rightarrow> nat option" where
  "xdigit c = (let n = of_char c :: nat in
     if 48 \<le> n \<and> n \<le> 57 then Some (n - 48)
     else if 65 \<le> n \<and> n \<le> 70 then Some (n - 55)
     else if 97 \<le> n \<and> n \<le> 102 then Some (n - 87) else None)"

fun xdigits :: "nat \<Rightarrow> string \<Rightarrow> nat" where
  "xdigits acc [] = acc"
| "xdigits acc (c # s) = (case xdigit c of None \<Rightarrow> acc | Some d \<Rightarrow> xdigits (acc * 16 + d) s)"

fun skip_0x :: "string \<Rightarrow> string" where
  "skip_0x (z # x # d # s) = (if z = CHR ''0'' \<and> x \<in> {CHR ''x'', CHR ''X''} \<and> xdigit d \<noteq> None
     then d # s else z # x # d # s)"
| "skip_0x s = s"

definition strtol16 :: "string \<Rightarrow> int" where
  "strtol16 s =
     (let s1 = dropWhile (\<lambda>c. of_char c \<in> {32 :: nat, 9, 10, 11, 12, 13}) s;
          neg = (take 1 s1 = ''-'');
          s2 = (if take 1 s1 \<in> {''-'', ''+''} then drop 1 s1 else s1);
          n = int (xdigits 0 (skip_0x s2))
      in max (- (2 ^ 31)) (min (2 ^ 31 - 1) (if neg then - n else n)))"

definition cur_ins :: "'o mjrcontext_t \<Rightarrow> asm_instr" where
  "cur_ins ctx = fst (history ctx ! MJR_HISTORY_CUR)"

definition cur_vaddr :: "'o mjrcontext_t \<Rightarrow> eresi_Addr" where
  "cur_vaddr ctx = snd (history ctx ! MJR_HISTORY_CUR)"

definition mjr_compute_fctptr :: "'o mjrcontext_t \<Rightarrow> eresi_Addr" where
  "mjr_compute_fctptr ctx =
     (let ret = hash_get (goto_hash ctx) (vaddr2str (cur_vaddr ctx)) in
      if ret = NULL then MJR_BLOCK_INVALID else word_of_int (strtol16 (goto_str ctx ret)))"

text \<open>The direct and indirect transfers of IA-32, the same in both resolvers.\<close>

definition ia32_destaddr :: "'o mjrcontext_t \<Rightarrow> eresi_Addr" where
  "ia32_destaddr ctx =
     (let ins = cur_ins ctx; content = ocontent (op ins ! 0) in
      if content AND ASM_OP_VALUE \<noteq> 0 \<and> content AND ASM_OP_REFERENCE = 0 then
        (let dest = (case asm_operand_get_immediate ins 1 of None \<Rightarrow> 0 | Some v \<Rightarrow> v) in
         asm_dest_resolve (proc ctx) (cur_vaddr ctx) (dest + word_of_nat (asm_instr_len ins)))
      else if content AND ASM_OP_BASE \<noteq> 0 then mjr_compute_fctptr ctx
      else MJR_BLOCK_INVALID)"

definition mips_rel :: "eresi_Addr \<Rightarrow> u_int \<Rightarrow> eresi_Addr" where
  "mips_rel vaddr im = vaddr + (scast (ucast im :: 16 word) + 1) * 4"

definition mips_abs :: "eresi_Addr \<Rightarrow> u_int \<Rightarrow> eresi_Addr" where
  "mips_abs vaddr im = push_bit 2 im OR push_bit 28 (drop_bit 28 (vaddr + 8) AND 0xF)"

definition mjr_get_call_destaddr :: "'o mjrcontext_t \<Rightarrow> eresi_Addr" where
  "mjr_get_call_destaddr ctx =
     (let ins = cur_ins ctx; vaddr = cur_vaddr ctx; t = proc_type (proc ctx) in
      if t = ASM_PROC_IA32 then ia32_destaddr ctx
      else if t = ASM_PROC_SPARC then
        (if instr ins = ASM_SP_CALL then
           (if ocontent (op ins ! 0) AND ASM_SP_OTYPE_DISP30 \<noteq> 0 then imm (op ins ! 0) * 4 + vaddr
            else MJR_BLOCK_INVALID)
         else 0)
      else if t = ASM_PROC_MIPS then
        (if instr ins = ASM_MIPS_JAL then mips_abs vaddr (imm (op ins ! 0))
         else if instr ins = ASM_MIPS_JALR then MJR_BLOCK_INVALID
         else if instr ins = ASM_MIPS_BAL then mips_rel vaddr (imm (op ins ! 0))
         else mips_rel vaddr (imm (op ins ! 1)))
      else if t = ASM_PROC_ARM then
        (if itype ins AND ASM_TYPE_INDCONTROL = 0
         then asm_dest_resolve_arm vaddr (imm (op ins ! 0)) (ocontent (op ins ! 0) = ASM_ARM_OTYPE_DISP_HALF)
         else MJR_BLOCK_INVALID)
      else MJR_BLOCK_INVALID)"

text \<open>The operand a MIPS branch is expected to have its target in. The code tests the
  instruction number with \<open>&\<close>.\<close>

definition mips_target_operand :: "nat \<Rightarrow> nat" where
  "mips_target_operand i =
     (if i AND ASM_MIPS_BEQ \<noteq> 0 \<or> i AND ASM_MIPS_BEQL \<noteq> 0 \<or> i AND ASM_MIPS_BNE \<noteq> 0 \<or> i AND ASM_MIPS_BNEL \<noteq> 0
      then 2
      else if i AND ASM_MIPS_BGEZAL \<noteq> 0 \<or> i AND ASM_MIPS_BGEZALL \<noteq> 0 \<or> i AND ASM_MIPS_BGEZ \<noteq> 0 \<or>
        i AND ASM_MIPS_BGEZL \<noteq> 0 \<or> i AND ASM_MIPS_BGTZ \<noteq> 0 \<or> i AND ASM_MIPS_BGTZL \<noteq> 0 \<or>
        i AND ASM_MIPS_BLEZ \<noteq> 0 \<or> i AND ASM_MIPS_BLEZL \<noteq> 0 \<or> i AND ASM_MIPS_BLTZAL \<noteq> 0 \<or>
        i AND ASM_MIPS_BLTZALL \<noteq> 0 \<or> i AND ASM_MIPS_BLTZ \<noteq> 0 \<or> i AND ASM_MIPS_BLTZL \<noteq> 0
      then 1 else 0)"

definition mjr_get_jmp_destaddr :: "'o mjrcontext_t \<Rightarrow> eresi_Addr" where
  "mjr_get_jmp_destaddr ctx =
     (let ins = cur_ins ctx; vaddr = cur_vaddr ctx; t = proc_type (proc ctx) in
      if t = ASM_PROC_IA32 then ia32_destaddr ctx
      else if t = ASM_PROC_SPARC then
        (if itype ins AND ASM_TYPE_BRANCH \<noteq> 0 then imm (op ins ! 0) * 4 + vaddr else MJR_BLOCK_INVALID)
      else if t = ASM_PROC_MIPS then
        (let p = op ins ! mips_target_operand (instr ins) in
         if otype p AND ASM_MIPS_OTYPE_BRANCH \<noteq> 0 then mips_rel vaddr (imm p)
         else if otype p AND ASM_MIPS_OTYPE_JUMP \<noteq> 0 then mips_abs vaddr (imm p)
         else MJR_BLOCK_INVALID)
      else if t = ASM_PROC_ARM then
        (if itype ins AND ASM_TYPE_INDCONTROL = 0 then
           (if ocontent (op ins ! 0) = ASM_ARM_OTYPE_REGISTER then
              (if ASM_ARM_MVNEQ \<le> instr ins \<and> instr ins \<le> ASM_ARM_MVNS then NOT (imm (op ins ! 1))
               else imm (op ins ! 1))
            else asm_dest_resolve_arm vaddr (imm (op ins ! 0)) False)
         else MJR_BLOCK_INVALID)
      else MJR_BLOCK_INVALID)"

subsection \<open>One instruction\<close>

definition delay_slot :: "'o mjrcontext_t \<Rightarrow> u_int" where
  "delay_slot ctx = (if proc_type (proc ctx) = ASM_PROC_MIPS \<or> proc_type (proc ctx) = ASM_PROC_SPARC then 4 else 0)"

text \<open>The end of a function on the stack of analysed functions.\<close>

definition pop_function :: "'o mjrcontext_t \<Rightarrow> 'o mjrcontext_t" where
  "pop_function ctx =
     (if lelmnbr (func_stack ctx) > 1
      then (let (fn, st) = elist_pop (Some (func_stack ctx)) in ctx\<lparr>curfunc := fn, func_stack := the st\<rparr>)
      else ctx)"

text \<open>\<open>*dstaddr\<close> and \<open>*retaddr\<close> keep the values the caller left there on the branches that do not
  assign them.\<close>

definition mjr_trace_control ::
  "'o env \<Rightarrow> ptr \<Rightarrow> asm_instr \<Rightarrow> eresi_Addr \<Rightarrow> eresi_Addr \<Rightarrow> eresi_Addr \<Rightarrow> 'o mjrcontext_t \<Rightarrow>
     (u_int \<times> eresi_Addr \<times> eresi_Addr \<times> 'o mjrcontext_t) mjr_result" where
  "mjr_trace_control en curblock curins curvaddr dst0 ret0 ctx0 =
     (let ctx = mjr_history_write curins curvaddr 0 (mjr_history_write curins curvaddr MJR_HISTORY_CUR ctx0);
          len = word_of_nat (asm_instr_len curins);
          has = (\<lambda>f. itype curins AND f \<noteq> 0);
          next = curvaddr + len + delay_slot ctx
      in rbind (mjr_block_get_by_vaddr ctx curvaddr MJR_BLOCK_GET_STRICT) (\<lambda>bloc.
         rbind (get_id ctx curblock) (\<lambda>ci.
         rbind (if bloc = NULL then Inr ci else get_id ctx bloc) (\<lambda>bi.
         if bi \<noteq> ci then
           rbind (mjr_container_add_link ctx curblock bi MJR_LINK_BLOCK_COND_ALWAYS MJR_LINK_SCOPE_LOCAL
                    CONTAINER_LINK_OUT) (\<lambda>(_, ctx1).
           rbind (mjr_container_add_link ctx1 bloc ci MJR_LINK_BLOCK_COND_ALWAYS MJR_LINK_SCOPE_LOCAL
                    CONTAINER_LINK_IN) (\<lambda>(_, ctx2).
           Inr (0, MJR_BLOCK_EXIST, MJR_BLOCK_INVALID, ctx2)))
         else if has ASM_TYPE_BRANCH \<and> has ASM_TYPE_CONDCONTROL then
           (let dst = mjr_get_jmp_destaddr ctx in
            rbind (mjr_link_block_jump en curvaddr dst next ctx) (\<lambda>ctx1.
            Inr (delay_slot ctx, dst, next, ctx1)))
         else if has ASM_TYPE_BRANCH then
           (let dst = mjr_get_jmp_destaddr ctx in
            rbind (if dst \<noteq> MJR_BLOCK_INVALID then mjr_link_block_jump en curvaddr dst MJR_BLOCK_INVALID ctx
                   else Inr ctx) (\<lambda>ctx1.
            Inr (delay_slot ctx, dst, ret0, ctx1)))
         else if has ASM_TYPE_CALLPROC then
           (let dst = mjr_get_call_destaddr ctx;
                ctx1 = ctx\<lparr>calls_seen := calls_seen ctx + 1\<rparr>;
                ret = (if parent_section en (obj ctx1) next = None then MJR_BLOCK_INVALID else next)
            in rbind (mjr_link_block_call en curvaddr dst ret ctx1) (\<lambda>ctx2.
               rbind (if dst \<noteq> MJR_BLOCK_INVALID
                      then rbind (mjr_link_func_call en dst ctx2) (\<lambda>c. Inr (c\<lparr>calls_found := calls_found c + 1\<rparr>))
                      else Inr ctx2) (\<lambda>ctx3.
               Inr (delay_slot ctx, dst, ret, ctx3))))
         else if has ASM_TYPE_RETPROC then
           Inr (delay_slot ctx, dst0, ret0, pop_function ctx)
         else Inr (delay_slot ctx, dst0, ret0, ctx)))))"

subsection \<open>The targets of MIPS branches\<close>

text \<open>What the resolver makes of an instruction word at an address: the word is decoded,
  recorded as the current instruction, as \<open>mjr_trace_control\<close> does, and resolved.\<close>

definition jmp_target :: "'o mjrcontext_t \<Rightarrow> u_int \<Rightarrow> eresi_Addr \<Rightarrow> eresi_Addr option" where
  "jmp_target ctx w a = (case asm_read_mips CONFIG_ASM_LITTLE_ENDIAN (be_bytes w) of
     Inl _ \<Rightarrow> None
   | Inr (_, ins) \<Rightarrow> Some (mjr_get_jmp_destaddr (mjr_history_write ins a MJR_HISTORY_CUR ctx)))"

definition mips_br2 :: "(6 word \<times> nat) list" where
  "mips_br2 = [(0x04, ASM_MIPS_BEQ), (0x05, ASM_MIPS_BNE), (0x14, ASM_MIPS_BEQL), (0x15, ASM_MIPS_BNEL)]"

definition mips_br1 :: "(6 word \<times> nat) list" where
  "mips_br1 = [(0x06, ASM_MIPS_BLEZ), (0x07, ASM_MIPS_BGTZ), (0x16, ASM_MIPS_BLEZL), (0x17, ASM_MIPS_BGTZL)]"

definition mips_brz :: "(5 word \<times> nat) list" where
  "mips_brz = [(0, ASM_MIPS_BLTZ), (1, ASM_MIPS_BGEZ), (2, ASM_MIPS_BLTZL), (3, ASM_MIPS_BGEZL)]"

lemma branch_rows:
  "mips_row [4, 0, 0] = Some (''beq'', ASM_MIPS_BEQ, MIPS_OPCODE_BEQ, 0, 0, asm_mips_beq)"
  "mips_row [5, 0, 0] = Some (''bne'', ASM_MIPS_BNE, MIPS_OPCODE_BNE, 0, 0, asm_mips_bne)"
  "mips_row [6, 0, 0] = Some (''blez'', ASM_MIPS_BLEZ, MIPS_OPCODE_BLEZ, 0, 0, asm_mips_blez)"
  "mips_row [7, 0, 0] = Some (''bgtz'', ASM_MIPS_BGTZ, MIPS_OPCODE_BGTZ, 0, 0, asm_mips_bgtz)"
  "mips_row [20, 0, 0] = Some (''beql'', ASM_MIPS_BEQL, MIPS_OPCODE_BEQL, 0, 0, asm_mips_beql)"
  "mips_row [21, 0, 0] = Some (''bnel'', ASM_MIPS_BNEL, MIPS_OPCODE_BNEL, 0, 0, asm_mips_bnel)"
  "mips_row [22, 0, 0] = Some (''blezl'', ASM_MIPS_BLEZL, MIPS_OPCODE_BLEZL, 0, 0, asm_mips_blezl)"
  "mips_row [23, 0, 0] = Some (''bgtzl'', ASM_MIPS_BGTZL, MIPS_OPCODE_BGTZL, 0, 0, asm_mips_bgtzl)"
  "mips_row [1, 0, 0] = Some (''bltz'', ASM_MIPS_BLTZ, MIPS_OPCODE_REGIMM, MIPS_OPCODE_BLTZ, 0, asm_mips_bltz)"
  "mips_row [1, 1, 0] = Some (''bgez'', ASM_MIPS_BGEZ, MIPS_OPCODE_REGIMM, MIPS_OPCODE_BGEZ, 0, asm_mips_bgez)"
  "mips_row [1, 2, 0] = Some (''bltzl'', ASM_MIPS_BLTZL, MIPS_OPCODE_REGIMM, MIPS_OPCODE_BLTZL, 0, asm_mips_bltzl)"
  "mips_row [1, 3, 0] = Some (''bgezl'', ASM_MIPS_BGEZL, MIPS_OPCODE_REGIMM, MIPS_OPCODE_BGEZL, 0, asm_mips_bgezl)"
  by (simp_all add: mips_row_fold e_mips_instrs_def row_dims_def mips_const)

lemma both_zero:
  assumes "drop_bit 16 (w :: u_int) AND 0x3FF = 0"
  shows "(ucast (drop_bit 21 w) :: 5 word) = 0" "(ucast (drop_bit 16 w) :: 5 word) = 0"
proof -
  have b: "\<not> bit w (n + 16)" if "n < 10" for n
  proof
    assume "bit w (n + 16)"
    then have "bit (drop_bit 16 w AND mask 10) n"
      using that by (simp add: bit_and_iff bit_drop_bit_eq bit_mask_iff add.commute)
    then show False using assms by (simp add: mask_eq_exp_minus_1)
  qed
  have "\<not> bit w (n + 21)" "\<not> bit w (n + 16)" if "n < 5" for n
    using b [of "n + 5"] b [of n] that by (simp_all add: add.assoc)
  then show "(ucast (drop_bit 21 w) :: 5 word) = 0" "(ucast (drop_bit 16 w) :: 5 word) = 0"
    by (intro bit_word_eqI; simp add: bit_simps add.commute)+
qed

lemma enc_i_rt: "drop_bit 16 (enc_i opc rs rt im) AND 0x1F = ucast rt"
proof -
  have m: "(0x1F :: u_int) = mask 5" by (simp add: mask_eq_exp_minus_1)
  show ?thesis
    unfolding enc_i_def m by (rule bit_word_eqI) (auto simp: bit_simps dest: bit_imp_le_length)
qed

lemma br2_decodes:
  assumes "(opc, c) \<in> set mips_br2" "c = ASM_MIPS_BEQ \<longrightarrow> rs \<noteq> 0 \<or> rt \<noteq> 0"
  shows "decodes (enc_i opc rs rt im) c [(ASM_MIPS_OTYPE_REGISTER, ucast rs, 0),
    (ASM_MIPS_OTYPE_REGISTER, ucast rt, 0), (ASM_MIPS_OTYPE_BRANCH, 0, ucast im)]"
proof -
  have d: "mips_dims (enc_i opc rs rt im) = (unat opc, 0, 0)"
    using assms by (auto simp: mips_dims_def enc_i_fields mips_const mips_br2_def)
  have "c = ASM_MIPS_BEQ \<longrightarrow> drop_bit 16 (enc_i opc rs rt im) AND 0x3FF \<noteq> ASM_MIPS_OTYPE_NONE"
    using both_zero [of "enc_i opc rs rt im"] assms(2) by (auto simp: enc_i_fields ASM_MIPS_OTYPE_NONE_def)
  then show ?thesis
    using assms(1) d unfolding decodes_iff
    by (auto simp: mips_br2_def branch_rows mips_decode_simps mips_handlers1_defs mips_handlers2_defs)
qed

lemma br1_decodes:
  assumes "(opc, c) \<in> set mips_br1"
  shows "decodes (enc_i opc rs rt im) c [(ASM_MIPS_OTYPE_REGISTER, ucast rs, 0), (ASM_MIPS_OTYPE_BRANCH, 0, ucast im), (0, 0, 0)]"
proof -
  have d: "mips_dims (enc_i opc rs rt im) = (unat opc, 0, 0)"
    using assms by (auto simp: mips_dims_def enc_i_fields mips_const mips_br1_def)
  show ?thesis
    using assms d unfolding decodes_iff
    by (auto simp: mips_br1_def branch_rows mips_decode_simps mips_handlers1_defs mips_handlers2_defs)
qed

lemma brz_decodes:
  assumes "(k, c) \<in> set mips_brz"
  shows "decodes (enc_i 1 rs k im) c [(ASM_MIPS_OTYPE_REGISTER, ucast rs, 0), (ASM_MIPS_OTYPE_BRANCH, 0, ucast im), (0, 0, 0)]"
proof -
  have "drop_bit 16 (enc_i 1 rs k im) AND 0x1F = ucast k" by (rule enc_i_rt)
  then have d: "mips_dims (enc_i 1 rs k im) = (1, unat k, 0)"
    using assms by (auto simp: mips_dims_def enc_i_fields mips_const mips_brz_def)
  show ?thesis
    using assms d unfolding decodes_iff
    by (auto simp: mips_brz_def branch_rows [unfolded One_nat_def] mips_decode_simps mips_handlers1_defs mips_handlers2_defs)
qed

lemma j_decodes: "decodes (enc_j 2 ta) ASM_MIPS_J [(ASM_MIPS_OTYPE_JUMP, 0, ucast ta), (0, 0, 0), (0, 0, 0)]"
proof -
  have d: "mips_dims (enc_j 2 ta) = (2, 0, 0)" by (simp add: mips_dims_def enc_j_fields mips_const)
  then show ?thesis
    unfolding decodes_iff by (auto simp: mips_rows mips_decode_simps mips_handlers1_defs mips_handlers2_defs)
qed

lemma jmp_target_decoded:
  assumes "decodes w c [x, y, (t, r, im)]" "mips_target_operand c = 2"
    "proc_type (proc ctx) = ASM_PROC_MIPS" "length (history ctx) = MJR_HISTORY_LEN"
  shows "jmp_target ctx w a = Some (if t AND ASM_MIPS_OTYPE_BRANCH \<noteq> 0 then mips_rel a im
    else if t AND ASM_MIPS_OTYPE_JUMP \<noteq> 0 then mips_abs a im else MJR_BLOCK_INVALID)"
proof -
  let ?ops = "[x, y, (t, r, im)]"
  obtain ins where ins: "asm_read_mips CONFIG_ASM_LITTLE_ENDIAN (be_bytes w) = Inr (4, ins)" "instr ins = c"
    "map operand_view (take (length ?ops) (op ins)) = ?ops" using assms(1) unfolding decodes_def by (elim exE conjE)
  have "length (take (length ?ops) (op ins)) = length ?ops" 
    using arg_cong [OF ins(3), of length] by (simp only: length_map)
  then have "2 < length (op ins)" by simp
  then have "operand_view (op ins ! 2) = map operand_view (take (length ?ops) (op ins)) ! 2" by simp
  then have "operand_view (op ins ! 2) = (t, r, im)" unfolding ins(3) by simp
  then have "otype (op ins ! 2) = t" "imm (op ins ! 2) = im" by (simp_all add: operand_view_def)
  then show ?thesis
    using ins(1,2) assms(2-4)
    by (simp add: jmp_target_def mjr_get_jmp_destaddr_def cur_ins_def cur_vaddr_def mjr_history_write_def
        MJR_HISTORY_CUR_def MJR_HISTORY_LEN_def ASM_PROC_MIPS_def ASM_PROC_IA32_def ASM_PROC_SPARC_def Let_def)
qed

lemma target_operands: "\<forall>c\<in>set (map snd mips_br2 @ map snd mips_br1 @ map snd mips_brz @ [ASM_MIPS_J]). mips_target_operand c = 2"
  by (simp add: mips_br2_def mips_br1_def mips_brz_def mips_target_operand_def mips_const)


text \<open>C35. Targets of MIPS branches: for the branches that compare two registers the resolver
  returns the architecture's target, the address of the delay slot plus four times the signed
  offset. For the branches that compare one register with zero and for the jump \<open>j\<close> it returns
  \<open>MJR_BLOCK_INVALID\<close> whatever the target is, because it tests the instruction number with \<open>&\<close>
  and looks into the third operand.\<close>

theorem mips_branch_targets:
  assumes "proc_type (proc ctx) = ASM_PROC_MIPS" "length (history ctx) = MJR_HISTORY_LEN"
  shows "((opc, c) \<in> set mips_br2 \<and> (c = ASM_MIPS_BEQ \<longrightarrow> rs \<noteq> 0 \<or> rt \<noteq> 0) \<longrightarrow>
      jmp_target ctx (enc_i opc rs rt im) a = Some (a + 4 + 4 * scast im)) \<and>
    ((opc, c) \<in> set mips_br1 \<longrightarrow> jmp_target ctx (enc_i opc rs rt im) a = Some MJR_BLOCK_INVALID) \<and>
    ((k, c) \<in> set mips_brz \<longrightarrow> jmp_target ctx (enc_i 1 rs k im) a = Some MJR_BLOCK_INVALID) \<and>
    jmp_target ctx (enc_j 2 ta) a = Some MJR_BLOCK_INVALID"
proof -
  have two: "mips_target_operand c = 2"
    if "(opc, c) \<in> set mips_br2 \<or> (opc, c) \<in> set mips_br1 \<or> (k, c) \<in> set mips_brz"
    using target_operands that by force
  have "(ucast (ucast im :: u_int) :: 16 word) = im" by (rule bit_word_eqI) (simp add: bit_simps)
  then have rel: "mips_rel a (ucast im) = a + 4 + 4 * scast im"
    by (simp add: mips_rel_def algebra_simps)
  have ty: "ASM_MIPS_OTYPE_BRANCH AND ASM_MIPS_OTYPE_BRANCH \<noteq> 0" by (simp add: mips_const)
  note t = jmp_target_decoded [OF _ _ assms]
  show ?thesis
    using t [OF br2_decodes two] t [OF br1_decodes two] t [OF brz_decodes two]
      t [OF j_decodes, of ta a] target_operands ty rel by simp
qed

theorem mips_branch_targets_witness:
  "jmp_target (demo_ctx\<lparr>proc := \<lparr>proc_type = ASM_PROC_MIPS, proc_mode = 0, proc_fetch = None\<rparr>\<rparr>) (enc_i 0x05 1 2 0xFFFE) 0x1008 =
     Some 0x1004"
proof -
  let ?ctx = "demo_ctx\<lparr>proc := \<lparr>proc_type = ASM_PROC_MIPS, proc_mode = 0, proc_fetch = None\<rparr>\<rparr>"
  have h: "proc_type (proc ?ctx) = ASM_PROC_MIPS" "length (history ?ctx) = MJR_HISTORY_LEN"
    by (simp_all add: demo_ctx_def MJR_HISTORY_LEN_def)
  show ?thesis
    using mips_branch_targets [OF h, where opc = "0x05" and c = ASM_MIPS_BNE and rs = 1 and rt = 2 and im = "0xFFFE" and a = "0x1008"]
    by (simp add: mips_br2_def mips_const)
qed

end
