(* ===== verification/Walk.thy ===== *)
theory Walk
  imports Cfg
begin

text \<open>
  The recursive walk over the code (\<open>mjr_analyse_rec\<close> of \<open>libmjollnir/src/core.c\<close>), and what it
  does to the graph: it only adds to it, every call that does something marks a block that was
  not marked, and so it ends.

  The walk is modelled in static mode, where \<open>elfsh_readmema\<close> returns a pointer into the cached
  data of the section and copying the bytes onto themselves changes nothing: the decoder gets
  the bytes of the section from the current address on. The recursion and the loop over the
  instructions of a block take one unit of fuel per call and per turn; \<open>analyse_terminates\<close>
  gives an amount that is always enough.
\<close>

subsection \<open>The recursive walk\<close>

definition get_bloc :: "'o mjrcontext_t \<Rightarrow> ptr \<Rightarrow> mjrblock_t mjr_result" where
  "get_bloc ctx p = rbind (get_cn ctx p) (\<lambda>c. case cndata c of Bloc b \<Rightarrow> Inr b | Func f \<Rightarrow> Inl Unknown_Type)"

text \<open>The window on the code of a section: the section, the address of the buffer, the offset and
  the length of the buffer, and whether it reaches the end of the section.\<close>

record window =
  wsect :: elfshsect_t
  wvaddr :: eresi_Addr
  wcurr :: u_int
  wlen :: u_int
  weos :: bool

definition MJR_MIN :: "u_int \<Rightarrow> u_int \<Rightarrow> u_int" where
  "MJR_MIN x y = (if x > y then y else x)"

definition waddr :: "window \<Rightarrow> eresi_Addr" where
  "waddr w = wvaddr w + wcurr w"

definition open_window :: "elfshsect_t \<Rightarrow> eresi_Addr \<Rightarrow> window" where
  "open_window s vaddr =
     (let curlen = MJR_MIN (sh_size s - (vaddr - sh_addr s)) MJR_MAX_BLOCK_SIZE in
      \<lparr>wsect = s, wvaddr = vaddr, wcurr = 0, wlen = curlen, weos = (curlen \<noteq> MJR_MAX_BLOCK_SIZE)\<rparr>)"

text \<open>The move of the window when fewer than 15 bytes are left in the buffer; a section that is
  not found is dereferenced.\<close>

definition move_window :: "'o env \<Rightarrow> 'o \<Rightarrow> window \<Rightarrow> window mjr_result" where
  "move_window en ob w =
     (if \<not> weos w \<and> wcurr w + 15 \<ge> wlen w then
        (case parent_section en ob (waddr w) of
           None \<Rightarrow> Inl Unmapped
         | Some s \<Rightarrow>
             (let restlen = MJR_MIN (sh_size s - (waddr w - sh_addr s)) MJR_MAX_BLOCK_SIZE in
              Inr \<lparr>wsect = s, wvaddr = waddr w, wcurr = 0, wlen = wlen w + restlen - wcurr w,
                   weos = (restlen \<noteq> MJR_MAX_BLOCK_SIZE)\<rparr>))
      else Inr w)"

text \<open>The bytes behind the pointer \<open>ptr + curr\<close>.\<close>

definition code_at :: "window \<Rightarrow> u_char list mjr_result" where
  "code_at w = (case sect_data (wsect w) of
     None \<Rightarrow> Inl Unmapped
   | Some d \<Rightarrow> Inr (drop (unat (waddr w - sh_addr (wsect w))) d))"

definition decode_at :: "'o mjrcontext_t \<Rightarrow> window \<Rightarrow> (int \<times> asm_instr) mjr_result" where
  "decode_at ctx w = rbind (code_at w) (\<lambda>bs.
     case asm_read_instr bs (wlen w - wcurr w) (proc ctx) of Inl e \<Rightarrow> Inl (Decoder e) | Inr r \<Rightarrow> Inr r)"

fun mjr_analyse_rec :: "nat \<Rightarrow> 'o env \<Rightarrow> eresi_Addr \<Rightarrow> int \<Rightarrow> int \<Rightarrow> 'o mjrcontext_t \<Rightarrow> 'o mjrcontext_t mjr_result"
  and analyse_loop :: "nat \<Rightarrow> 'o env \<Rightarrow> ptr \<Rightarrow> window \<Rightarrow> int \<Rightarrow> int \<Rightarrow> 'o mjrcontext_t \<Rightarrow> 'o mjrcontext_t mjr_result" where
  "mjr_analyse_rec 0 en vaddr curdepth maxdepth ctx = Inl Out_Of_Fuel"
| "mjr_analyse_rec (Suc n) en vaddr curdepth maxdepth ctx =
     (if maxdepth > 0 \<and> curdepth \<ge> maxdepth then Inr (pop_function ctx)
      else (let p = hash_get (blkhash ctx) (vaddr2str vaddr) in
        if p = NULL then Inl Assertion
        else rbind (get_bloc ctx p) (\<lambda>b.
          if bseen b = 1 then Inr ctx
          else (let ctx1 = set_block p (\<lambda>b. b\<lparr>bseen := 1\<rparr>) ctx in
            case parent_section en (obj ctx1) vaddr of
              None \<Rightarrow> Inr ctx1
            | Some s \<Rightarrow> analyse_loop n en p (open_window s vaddr) curdepth maxdepth ctx1))))"
| "analyse_loop 0 en p w curdepth maxdepth ctx = Inl Out_Of_Fuel"
| "analyse_loop (Suc n) en p w0 curdepth maxdepth ctx =
     (if \<not> waddr w0 < sh_addr (wsect w0) + sh_size (wsect w0) then Inr ctx
      else rbind (move_window en (obj ctx) w0) (\<lambda>w.
        rbind (decode_at ctx w) (\<lambda>(len, ins).
        if len \<le> 0 then Inr ctx
        else (let l = word_of_int len;
                  ctx1 = set_block p (\<lambda>b. b\<lparr>bsize := bsize b + l\<rparr>) (mjr_history_shift ins (waddr w) ctx) in
          rbind (mjr_trace_control en p ins (waddr w) MJR_BLOCK_INVALID MJR_BLOCK_INVALID ctx1)
            (\<lambda>(delay, dst, ret, ctx2).
          if dst = MJR_BLOCK_EXIST then Inr (set_block p (\<lambda>b. b\<lparr>bsize := bsize b - l\<rparr>) ctx2)
          else
          rbind (if dst \<noteq> MJR_BLOCK_INVALID
                 then mjr_analyse_rec n en dst
                        (curdepth + (if itype ins AND ASM_TYPE_CALLPROC \<noteq> 0 then 1 else 0)) maxdepth ctx2
                 else Inr ctx2) (\<lambda>ctx3.
          rbind (if ret \<noteq> MJR_BLOCK_INVALID then mjr_analyse_rec n en ret curdepth maxdepth ctx3
                 else Inr ctx3) (\<lambda>ctx4.
          if ret \<noteq> MJR_BLOCK_INVALID \<or> dst \<noteq> MJR_BLOCK_INVALID \<or>
             itype ins AND ASM_TYPE_RETPROC \<noteq> 0 \<or> itype ins AND ASM_TYPE_STOP \<noteq> 0
          then Inr (set_block p (\<lambda>b. b\<lparr>bsize := bsize b + delay\<rparr>) ctx4)
          else analyse_loop n en p (w\<lparr>wcurr := wcurr w + l\<rparr>) curdepth maxdepth ctx4)))))))"


subsection \<open>Contexts\<close>

text \<open>\<open>mjr_create_context\<close> of \<open>init.c\<close>, with an empty heap; \<open>bzero\<close> clears the processor. The first
  statement of \<open>mjr_analyse\<close> that changes the context creates the block at the start address.\<close>

definition mjrHashVerySmall :: nat where "mjrHashVerySmall = 64"
definition mjrHashMedium :: nat where "mjrHashMedium = 10240"
definition ASPECT_TYPE_STR :: nat where "ASPECT_TYPE_STR = 3"

definition mjr_create_context :: "'o env \<Rightarrow> string \<Rightarrow> 'o \<Rightarrow> 'o mjrcontext_t" where
  "mjr_create_context en name ob = mjr_init_containers
     \<lparr>obj = ob, cheap = Map.empty, lheap = Map.empty, lists = Map.empty, brk = 1, reg_containers = [],
      cntnrs_size = MJR_CNTNRS_INCREMENT, next_id = 1, block_btree = BNull,
      funchash = hash_fresh (name @ ''_functions'') mjrHashVerySmall ASPECT_TYPE_FUNC,
      blkhash = hash_fresh (name @ ''_blocks'') mjrHashMedium ASPECT_TYPE_BLOC,
      linkhash = hash_fresh (name @ ''_links'') mjrHashMedium ASPECT_TYPE_LINK,
      func_stack = elist_fresh (take 31 (''funcpath_'' @ fmt_08X (word_of_nat (obj_id en ob)))) ASPECT_TYPE_FUNC,
      curfunc = NULL, proc = \<lparr>proc_type = 0, proc_mode = 0, proc_fetch = None\<rparr>,
      history = replicate MJR_HISTORY_LEN (zero_instr, 0),
      goto_hash = hash_fresh (name @ ''_gotos'') mjrHashVerySmall ASPECT_TYPE_STR, goto_str = (\<lambda>_. []),
      calls_seen = 0, calls_found = 0\<rparr>"

definition start_block :: "'o env \<Rightarrow> eresi_Addr \<Rightarrow> 'o mjrcontext_t \<Rightarrow> 'o mjrcontext_t mjr_result" where
  "start_block en addr ctx = rbind (mjr_create_block_container en 0 addr 0 0 ctx) (\<lambda>(p, ctx1).
     Inr (ctx1\<lparr>blkhash := snd (hash_add (blkhash ctx1) (vaddr2str addr) p)\<rparr>))"

text \<open>The MIPS processor that \<open>asm_init_mips\<close> sets up, with its vectors registered.\<close>

definition asm_init_mips :: "nat \<Rightarrow> asm_processor" where
  "asm_init_mips en = \<lparr>proc_type = ASM_PROC_MIPS, proc_mode = 0,
     proc_fetch = Some (\<lambda>buf len ins. case asm_register_mips of
       None \<Rightarrow> Inl Bad_Dispatch | Some (vec, _) \<Rightarrow> asm_fetch_mips vec en buf ins)\<rparr>"

lemma asm_read_instr_mips: "asm_read_instr buf len (asm_init_mips en) = asm_read_mips en buf"
  by (simp add: asm_read_instr_def asm_init_mips_def asm_read_mips_def)

subsection \<open>Outcomes of calls\<close>

definition ok :: "('a \<Rightarrow> bool) \<Rightarrow> 'a mjr_result \<Rightarrow> bool" where
  "ok Q m = (case m of Inl e \<Rightarrow> e \<noteq> Out_Of_Fuel | Inr y \<Rightarrow> Q y)"

lemma ok_simps [simp]:
  "ok Q (Inl e) \<longleftrightarrow> e \<noteq> Out_Of_Fuel" "ok Q (Inr y) \<longleftrightarrow> Q y"
  "ok Q (rbind m k) \<longleftrightarrow> ok (\<lambda>y. ok Q (k y)) m"
  by (auto simp: ok_def rbind_def split: sum.splits)

lemma ok_if [simp]: "ok Q (if b then m else n) \<longleftrightarrow> (b \<longrightarrow> ok Q m) \<and> (\<not> b \<longrightarrow> ok Q n)"
  by simp

lemma ok_mono: "ok P m \<Longrightarrow> (\<And>y. P y \<Longrightarrow> Q y) \<Longrightarrow> ok Q m"
  by (auto simp: ok_def split: sum.splits)

subsection \<open>Growth of the graph\<close>

fun data_le :: "cdata \<Rightarrow> cdata \<Rightarrow> bool" where
  "data_le (Bloc b) (Bloc c) \<longleftrightarrow> bvaddr c = bvaddr b \<and> (bseen b = 1 \<longrightarrow> bseen c = 1)"
| "data_le (Func f) (Func g) \<longleftrightarrow> g = f"
| "data_le _ _ \<longleftrightarrow> False"

lemma data_le_refl [simp]: "data_le d d"
  by (cases d) simp_all

lemma data_le_trans: "data_le c d \<Longrightarrow> data_le d e \<Longrightarrow> data_le c e"
  by (cases c; cases d; cases e) auto

definition cdata_of :: "'o mjrcontext_t \<Rightarrow> ptr \<Rightarrow> cdata option" where
  "cdata_of ctx p = map_option cndata (cheap ctx p)"

definition bloc_at :: "'o mjrcontext_t \<Rightarrow> ptr \<Rightarrow> eresi_Addr \<Rightarrow> bool" where
  "bloc_at ctx p a \<longleftrightarrow> (\<exists>b. cdata_of ctx p = Some (Bloc b) \<and> bvaddr b = a)"

definition heap_inv :: "'o mjrcontext_t \<Rightarrow> bool" where
  "heap_inv ctx \<longleftrightarrow> 0 < brk ctx \<and> dom (cheap ctx) \<subseteq> {0<..<brk ctx} \<and> hash_inv (blkhash ctx) \<and>
     (\<forall>a. hash_get (blkhash ctx) (vaddr2str a) \<noteq> NULL \<longrightarrow> bloc_at ctx (hash_get (blkhash ctx) (vaddr2str a)) a)"

definition heap_le :: "'o mjrcontext_t \<Rightarrow> 'o mjrcontext_t \<Rightarrow> bool" where
  "heap_le ctx ctx' \<longleftrightarrow> (\<forall>p d. cdata_of ctx p = Some d \<longrightarrow> (\<exists>d'. cdata_of ctx' p = Some d' \<and> data_le d d'))"

definition grows :: "'o mjrcontext_t \<Rightarrow> 'o mjrcontext_t \<Rightarrow> bool" where
  "grows ctx ctx' \<longleftrightarrow> (heap_inv ctx \<longrightarrow> heap_inv ctx' \<and> proc ctx' = proc ctx \<and>
     (\<forall>k. hash_get (blkhash ctx) k \<noteq> NULL \<longrightarrow> hash_get (blkhash ctx') k = hash_get (blkhash ctx) k) \<and>
     heap_le ctx ctx')"

lemma heap_le_trans: "heap_le a b \<Longrightarrow> heap_le b c \<Longrightarrow> heap_le a c"
  unfolding heap_le_def by (meson data_le_trans)

lemma bloc_at_mono: "heap_le ctx ctx' \<Longrightarrow> bloc_at ctx p a \<Longrightarrow> bloc_at ctx' p a"
proof -
  have "\<exists>c. d = Bloc c \<and> bvaddr c = bvaddr b" if "data_le (Bloc b) d" for b d
    using that by (cases d) auto
  then show "heap_le ctx ctx' \<Longrightarrow> bloc_at ctx p a \<Longrightarrow> bloc_at ctx' p a"
    unfolding heap_le_def bloc_at_def by metis
qed

lemma heap_le_same: "cdata_of ctx' = cdata_of ctx \<Longrightarrow> heap_le ctx ctx'"
  by (simp add: heap_le_def)

lemma grows_refl [simp]: "grows ctx ctx"
  by (auto simp: grows_def heap_le_def)

lemma grows_same_hash:
  assumes "blkhash ctx' = blkhash ctx" "proc ctx' = proc ctx" "heap_inv ctx \<Longrightarrow> heap_le ctx ctx'"
    "heap_inv ctx \<Longrightarrow> 0 < brk ctx' \<and> dom (cheap ctx') \<subseteq> {0<..<brk ctx'}"
  shows "grows ctx ctx'"
  unfolding grows_def
proof (intro impI conjI allI)
  assume h: "heap_inv ctx"
  show "heap_le ctx ctx'" using assms(3) h .
  with h assms(1) assms(4) [OF h] show "heap_inv ctx'" by (simp add: heap_inv_def bloc_at_mono)
qed (simp_all add: assms(1,2))

lemma grows_trans:
  assumes "grows a b" "grows b c"
  shows "grows a c"
  using assms unfolding grows_def by (metis heap_le_trans)

text \<open>Changes of fields the relation does not look at, and of single containers.\<close>

lemma grows_frame:
  assumes "cheap ctx2 = cheap ctx1" "blkhash ctx2 = blkhash ctx1" "proc ctx2 = proc ctx1" "brk ctx1 \<le> brk ctx2"
  shows "grows ctx1 ctx2"
proof (rule grows_same_hash)
  show "heap_le ctx1 ctx2" using assms(1) by (intro heap_le_same ext) (simp add: cdata_of_def)
  assume "heap_inv ctx1"
  then show "0 < brk ctx2 \<and> dom (cheap ctx2) \<subseteq> {0<..<brk ctx2}"
    using assms(1,4) by (fastforce simp: heap_inv_def)
qed (use assms in simp_all)

lemma grows_upd [simp]:
  "grows ctx (c\<lparr>block_btree := t\<rparr>) \<longleftrightarrow> grows ctx c" "grows ctx (c\<lparr>obj := ob\<rparr>) \<longleftrightarrow> grows ctx c"
  "grows ctx (c\<lparr>lists := ls\<rparr>) \<longleftrightarrow> grows ctx c" "grows ctx (c\<lparr>curfunc := fn\<rparr>) \<longleftrightarrow> grows ctx c"
  "grows ctx (c\<lparr>func_stack := st\<rparr>) \<longleftrightarrow> grows ctx c" "grows ctx (c\<lparr>history := hi\<rparr>) \<longleftrightarrow> grows ctx c"
  "grows ctx (c\<lparr>funchash := hf\<rparr>) \<longleftrightarrow> grows ctx c" "grows ctx (c\<lparr>calls_seen := n\<rparr>) \<longleftrightarrow> grows ctx c"
  "grows ctx (c\<lparr>calls_found := n\<rparr>) \<longleftrightarrow> grows ctx c"
  by (simp_all add: grows_def heap_inv_def heap_le_def bloc_at_def cdata_of_def)

lemma set_cn_data: "cdata_of (set_cn p f ctx) q =
    (if q = p then map_option (\<lambda>c. cndata (f c)) (cheap ctx p) else cdata_of ctx q)"
  by (simp add: set_cn_def cdata_of_def option.map_comp comp_def)

lemma grows_set_cn:
  assumes "\<And>c. cheap ctx p = Some c \<Longrightarrow> data_le (cndata c) (cndata (f c))"
  shows "grows ctx (set_cn p f ctx)"
proof (rule grows_same_hash)
  show "heap_le ctx (set_cn p f ctx)"
    using assms by (auto simp: heap_le_def set_cn_data) (auto simp: cdata_of_def)
qed (auto simp: set_cn_def heap_inv_def split: if_splits)

lemma grows_set_block:
  assumes "\<And>b. bvaddr (f b) = bvaddr b \<and> (bseen b = 1 \<longrightarrow> bseen (f b) = 1)"
  shows "grows ctx (set_block p f ctx)"
  unfolding set_block_def using assms by (intro grows_set_cn) (auto split: cdata.splits)

lemma grows_new:
  assumes "cheap ctx2 = (cheap ctx)(brk ctx \<mapsto> c)" "brk ctx2 = brk ctx + 1" "blkhash ctx2 = blkhash ctx"
    "proc ctx2 = proc ctx"
  shows "grows ctx ctx2"
proof (rule grows_same_hash)
  assume h: "heap_inv ctx"
  then have "cheap ctx (brk ctx) = None" by (auto simp: heap_inv_def)
  then show "heap_le ctx ctx2" using assms(1) by (auto simp: heap_le_def cdata_of_def)
  show "0 < brk ctx2 \<and> dom (cheap ctx2) \<subseteq> {0<..<brk ctx2}" using h assms by (fastforce simp: heap_inv_def)
qed (use assms in simp_all)

lemma grows_blkhash:
  assumes "hash_get (blkhash ctx) (vaddr2str a) = NULL" "p \<noteq> NULL" "bloc_at ctx p a"
  shows "grows ctx (ctx\<lparr>blkhash := snd (hash_add (blkhash ctx) (vaddr2str a) p)\<rparr>)"
  using assms by (auto simp: grows_def heap_inv_def heap_le_def hash_add_ok hash_get_abs bloc_at_def cdata_of_def)

subsection \<open>The operations of the graph\<close>

lemma get_cn_ok [simp]: "ok Q (get_cn ctx p) \<longleftrightarrow> (\<forall>c. cheap ctx p = Some c \<longrightarrow> Q c)"
  by (auto simp: get_cn_def split: option.splits)

lemma get_id_ok [simp]: "ok Q (get_id ctx p) \<longleftrightarrow> (\<forall>c. cheap ctx p = Some c \<longrightarrow> Q (cnid c))"
  by (simp add: get_id_def)

lemma lookup_ok: "ok (\<lambda>_. True) (mjr_lookup_container ctx i)"
  by (simp add: mjr_lookup_container_def)

lemma scan_links_grows: "ok (\<lambda>_. True) (scan_links ctx ty i lkt es l)"
  by (induction es arbitrary: l) (auto split: option.splits intro: ok_mono [OF lookup_ok])

lemma add_link_grows: "ok (\<lambda>(_, ctx'). grows ctx ctx') (mjr_container_add_link ctx p i lkt scope dir)"
  unfolding mjr_container_add_link_def Let_def
  by (auto split: option.splits intro!: ok_mono [OF scan_links_grows] grows_frame)

lemma set_cn_same_data:
  assumes "\<And>c. cndata (f c) = cndata c"
  shows "grows ctx (set_cn p f ctx)" "cdata_of (set_cn p f ctx) = cdata_of ctx"
  using assms by (auto intro: grows_set_cn simp: set_cn_data fun_eq_iff) (simp add: cdata_of_def)

lemma set_cn_sel [simp]: "blkhash (set_cn p f ctx) = blkhash ctx" "obj (set_cn p f ctx) = obj ctx"
  by (simp_all add: set_cn_def)

lemma linklists_create_grows:
  "ok (\<lambda>ctx'. grows ctx ctx' \<and> blkhash ctx' = blkhash ctx \<and> cdata_of ctx' = cdata_of ctx)
   (container_linklists_create en p dir u ctx)"
proof -
  have "grows ctx (set_cn p f (ctx\<lparr>lists := ls\<rparr>))" if "\<And>x. cndata (f x) = cndata x" for f ls
    using grows_trans [of ctx "ctx\<lparr>lists := ls\<rparr>", OF _ set_cn_same_data(1)] that by simp
  moreover have "cdata_of (ctx\<lparr>lists := ls\<rparr>) = cdata_of ctx" for ls by (simp add: cdata_of_def fun_eq_iff)
  ultimately show ?thesis
    unfolding container_linklists_create_def Let_def
    by (simp add: set_cn_same_data split: option.split)
qed

lemma container_create_grows:
  "ok (\<lambda>(p, ctx'). grows ctx ctx' \<and> p = brk ctx \<and> blkhash ctx' = blkhash ctx \<and> cdata_of ctx' p = Some d)
     (container_create en ty d u ctx)"
proof -
  let ?c = "\<lparr>cnid = 0, cntype = ty, inlinks = [], outlinks = [], cndata = d\<rparr>"
  let ?ctx = "ctx\<lparr>cheap := (cheap ctx)(brk ctx \<mapsto> ?c), brk := Suc (brk ctx)\<rparr>"
  have new: "grows ctx ?ctx" by (rule grows_new [where c = ?c]) simp_all
  have data: "cdata_of ?ctx (brk ctx) = Some d" by (simp add: cdata_of_def)
  show ?thesis
    unfolding container_create_def Let_def
    by (auto intro!: ok_mono [OF linklists_create_grows] simp: data) (blast intro: grows_trans new)
qed

lemma register_grows:
  "grows ctx (snd (mjr_register_container ctx p))" "blkhash (snd (mjr_register_container ctx p)) = blkhash ctx"
  "cdata_of (snd (mjr_register_container ctx p)) = cdata_of ctx"
proof -
  let ?f = "cnid_update (\<lambda>_. next_id ctx)"
  let ?r = "snd (mjr_register_container ctx p)"
  have r: "?r = ctx \<or> cheap ?r = cheap (set_cn p ?f ctx) \<and> proc ?r = proc ctx \<and> brk ?r = brk ctx"
    and h: "blkhash ?r = blkhash ctx"
    by (auto simp: mjr_register_container_def mjr_resize_containers_def Let_def set_cn_def)
  have "grows ctx ?r" if "cheap ?r = cheap (set_cn p ?f ctx)" "proc ?r = proc ctx" "brk ?r = brk ctx"
    by (rule grows_trans [OF set_cn_same_data(1) grows_frame]) (use that h in \<open>simp_all add: set_cn_def\<close>)
  with r show "grows ctx ?r" by auto
  show "blkhash ?r = blkhash ctx" by (rule h)
  have "cdata_of ?r = cdata_of (set_cn p ?f ctx)" if "cheap ?r = cheap (set_cn p ?f ctx)"
    using that by (simp add: cdata_of_def fun_eq_iff)
  with r show "cdata_of ?r = cdata_of ctx" using set_cn_same_data(2) [of ?f p ctx] by auto
qed

lemma create_block_grows:
  "ok (\<lambda>(p, ctx'). grows ctx ctx' \<and> p = brk ctx \<and> blkhash ctx' = blkhash ctx \<and> bloc_at ctx' p v)
     (mjr_create_block_container en so v s sn ctx)"
  unfolding mjr_create_block_container_def Let_def
proof (simp, rule ok_mono [OF container_create_grows], clarsimp simp: register_grows)
  fix ctx' :: "'a mjrcontext_t"
  let ?r = "snd (mjr_register_container ctx' (brk ctx))"
  assume h: "grows ctx ctx'" "cdata_of ctx' (brk ctx) = Some (Bloc \<lparr>bvaddr = v, bsize = s, bsymoff = so, bseen = sn\<rparr>)"
  then have "cdata_of ?r (brk ctx) = Some (Bloc \<lparr>bvaddr = v, bsize = s, bsymoff = so, bseen = sn\<rparr>)"
    by (simp add: register_grows)
  then show "grows ctx ?r \<and> bloc_at (?r\<lparr>block_btree := btree_insert_sort (block_btree ?r) (match_block ?r) (brk ctx)\<rparr>) (brk ctx) v"
    using grows_trans [OF h(1) register_grows(1)] by (auto simp: bloc_at_def cdata_of_def)
qed

lemma create_function_grows:
  "ok (\<lambda>(p, ctx'). grows ctx ctx') (mjr_create_function_container en v s nm md ctx)"
  unfolding mjr_create_function_container_def
  by (simp, rule ok_mono [OF container_create_grows]) (auto intro: grows_trans [OF _ register_grows(1)])

text \<open>A new block and its entry in the table, as both halves of \<open>mjr_block_split\<close> make them.\<close>

lemma new_block_grows:
  assumes "hash_get (blkhash ctx) (vaddr2str v) = NULL" "heap_inv ctx"
  shows "ok (\<lambda>(p, ctx'). grows ctx (ctx'\<lparr>blkhash := snd (hash_add (blkhash ctx') (vaddr2str v) p)\<rparr>))
     (mjr_create_block_container en so v s sn ctx)"
proof (rule ok_mono [OF create_block_grows], clarify)
  fix ctx' :: "'a mjrcontext_t" assume h: "grows ctx ctx'" "blkhash ctx' = blkhash ctx" "bloc_at ctx' (brk ctx) v"
  have "brk ctx \<noteq> NULL" using assms(2) by (simp add: heap_inv_def)
  then have "grows ctx' (ctx'\<lparr>blkhash := snd (hash_add (blkhash ctx') (vaddr2str v) (brk ctx))\<rparr>)"
    using assms(1) h(2,3) by (intro grows_blkhash) simp_all
  then show "grows ctx (ctx'\<lparr>blkhash := snd (hash_add (blkhash ctx') (vaddr2str v) (brk ctx))\<rparr>)"
    by (rule grows_trans [OF h(1)])
qed

lemma block_symbol_grows: "ok (\<lambda>(_, ctx'). grows ctx ctx') (mjr_block_symbol en p ctx)"
  by (auto simp: mjr_block_symbol_def Let_def split: cdata.splits intro: grows_frame)

lemma function_symbol_grows: "ok (grows ctx) (mjr_function_symbol en p ctx)"
  by (auto simp: mjr_function_symbol_def Let_def split: cdata.splits prod.splits option.splits intro: grows_frame)

lemma del_link_grows: "ok (grows ctx) (del_link ln k ctx)"
  by (auto simp: del_link_def split: option.splits intro: grows_frame)

lemma relink_ents_grows: "ok (grows ctx) (relink_ents dst ln dir es ctx)"
proof (induction es arbitrary: ctx)
  case (Cons e es)
  show ?case
    by (auto split: option.splits intro!: ok_mono [OF add_link_grows] ok_mono [OF del_link_grows] ok_mono [OF Cons])
      (meson grows_trans)
qed simp

lemma relink_grows: "ok (grows ctx) (mjr_block_relink src dst dir ctx)"
  by (auto simp: mjr_block_relink_def Let_def split: option.splits intro: relink_ents_grows)

lemma block_descent_total: "ok (\<lambda>_. True) (block_descent ctx a t)"
  by (induction t) (auto split: cdata.splits)

lemma get_fuzzy_total:
  "ok (\<lambda>p. hash_get (blkhash ctx) (vaddr2str a) \<noteq> NULL \<longrightarrow> p = hash_get (blkhash ctx) (vaddr2str a))
     (mjr_block_get_by_vaddr ctx a MJR_BLOCK_GET_FUZZY)"
  by (auto simp: mjr_block_get_by_vaddr_def Let_def intro: ok_mono [OF block_descent_total])

lemma split_new_grows:
  assumes "hash_get (blkhash ctx) (vaddr2str dst) = NULL" "heap_inv ctx"
  shows "ok (\<lambda>(_, ctx'). grows ctx ctx') (split_new en dst ctx)"
  unfolding split_new_def Let_def
  by (auto intro!: ok_mono [OF new_block_grows [OF assms]] ok_mono [OF block_symbol_grows]
      grows_trans [OF _ grows_set_block]) (erule (1) grows_trans)

lemma split_old_grows:
  assumes "hash_get (blkhash ctx) (vaddr2str dst) = NULL" "heap_inv ctx"
  shows "ok (\<lambda>(_, ctx'). grows ctx ctx') (split_old en dst p b ctx)"
proof -
  let ?ctx = "\<lambda>(n :: u_int) ob. set_block p (\<lambda>b. b\<lparr>bsize := n\<rparr>) ctx\<lparr>obj := ob\<rparr>"
  have g: "grows ctx (?ctx n ob)" for n ob by (simp add: grows_set_block)
  have h: "hash_get (blkhash (?ctx n ob)) (vaddr2str dst) = NULL" "heap_inv (?ctx n ob)" for n ob
    using assms g by (auto simp: grows_def set_block_def set_cn_def)
  show ?thesis
    unfolding split_old_def Let_def
    apply (simp split del: if_split)
    apply (intro impI)
    apply (rule ok_mono [OF new_block_grows [OF h]])
    apply (auto intro!: ok_mono [OF block_symbol_grows] ok_mono [OF relink_grows] ok_mono [OF add_link_grows])
    using g by (blast intro: grows_trans)
qed


lemma block_split_grows:
  assumes "heap_inv ctx"
  shows "ok (\<lambda>(_, ctx'). grows ctx ctx') (mjr_block_split en dst ctx)"
proof -
  let ?h = "hash_get (blkhash ctx) (vaddr2str dst)"
  have "ok (\<lambda>(_, ctx'). grows ctx ctx') (split_old en dst p b ctx)"
    if "?h \<noteq> NULL \<longrightarrow> p = ?h" "cheap ctx p = Some c" "cndata c = Bloc b" "bvaddr b \<noteq> dst" for p b c
  proof -
    have "?h = NULL"
      using that assms by (auto simp: heap_inv_def bloc_at_def cdata_of_def)
    then show ?thesis by (rule split_old_grows [OF _ assms])
  qed
  moreover have "ok (\<lambda>(_, ctx'). grows ctx ctx') (split_new en dst ctx)" if "?h = NULL"
    by (rule split_new_grows [OF that assms])
  ultimately show ?thesis
    unfolding mjr_block_split_def
    by (auto intro!: ok_mono [OF get_fuzzy_total] split: cdata.splits)
qed

lemma link_both_grows: "ok (grows ctx) (link_both src dst lkt scope ctx)"
  unfolding link_both_def
  by (auto intro!: ok_mono [OF add_link_grows]) (blast intro: grows_trans)

lemma grows_inv: "grows ctx ctx' \<Longrightarrow> heap_inv ctx \<Longrightarrow> heap_inv ctx'"
  by (simp add: grows_def)

text \<open>Composition: a call that lets the graph grow, then another one.\<close>

lemma ok_then:
  assumes "ok (grows c) m" "grows ctx c" "heap_inv ctx" "\<And>c'. grows ctx c' \<Longrightarrow> heap_inv c' \<Longrightarrow> Q c'"
  shows "ok Q m"
  by (rule ok_mono [OF assms(1)]) (metis assms(2-4) grows_inv grows_trans)

lemma ok_then_pair:
  assumes "ok (\<lambda>(_, c'). grows c c') m" "grows ctx c" "heap_inv ctx"
    "\<And>x c'. grows ctx c' \<Longrightarrow> heap_inv c' \<Longrightarrow> Q (x, c')"
  shows "ok Q m"
proof (rule ok_mono [OF assms(1)], clarify)
  fix x c' assume "grows c c'"
  then have "grows ctx c'" by (rule grows_trans [OF assms(2)])
  then show "Q (x, c')" using assms(4) grows_inv [OF _ assms(3)] by blast
qed

text \<open>The rules with the context of the first call fixed.\<close>

lemma grow_rules:
  assumes "heap_inv ctx"
  shows "\<lbrakk>grows ctx c; \<And>x c'. grows ctx c' \<Longrightarrow> heap_inv c' \<Longrightarrow> Q1 (x, c')\<rbrakk> \<Longrightarrow> ok Q1 (mjr_block_symbol en p c)"
    and "\<lbrakk>grows ctx c; \<And>x c'. grows ctx c' \<Longrightarrow> heap_inv c' \<Longrightarrow> Q2 (x, c')\<rbrakk> \<Longrightarrow> ok Q2 (mjr_block_split en a c)"
    and "\<lbrakk>grows ctx c; \<And>c'. grows ctx c' \<Longrightarrow> heap_inv c' \<Longrightarrow> Q3 c'\<rbrakk> \<Longrightarrow> ok Q3 (link_both src dst t s c)"
    and "\<lbrakk>grows ctx c; \<And>x c'. grows ctx c' \<Longrightarrow> heap_inv c' \<Longrightarrow> Q4 (x, c')\<rbrakk> \<Longrightarrow>
      ok Q4 (mjr_container_add_link c p i t s dir)"
    and "\<lbrakk>grows ctx c; \<And>c'. grows ctx c' \<Longrightarrow> heap_inv c' \<Longrightarrow> Q5 c'\<rbrakk> \<Longrightarrow> ok Q5 (mjr_function_symbol en p c)"
    and "\<lbrakk>grows ctx c; \<And>x c'. grows ctx c' \<Longrightarrow> heap_inv c' \<Longrightarrow> Q6 (x, c')\<rbrakk> \<Longrightarrow>
      ok Q6 (mjr_create_function_container en v sz nm md c)"
  using assms
  by (blast intro: ok_then_pair [OF block_symbol_grows] ok_then_pair [OF block_split_grows]
      ok_then [OF link_both_grows] ok_then_pair [OF add_link_grows] ok_then [OF function_symbol_grows]
      ok_then_pair [OF create_function_grows] grows_inv)+

lemma link_block_call_grows:
  assumes "heap_inv ctx"
  shows "ok (grows ctx) (mjr_link_block_call en src dst ret ctx)"
  unfolding mjr_link_block_call_def Let_def
  by (auto intro!: ok_mono [OF get_fuzzy_total] grow_rules [OF assms])

lemma link_block_jump_grows:
  assumes "heap_inv ctx"
  shows "ok (grows ctx) (mjr_link_block_jump en src dst ret ctx)"
  unfolding mjr_link_block_jump_def Let_def
  by (auto intro!: ok_mono [OF get_fuzzy_total] grow_rules [OF assms] split: option.split)

lemma link_func_call_grows:
  assumes "heap_inv ctx"
  shows "ok (grows ctx) (mjr_link_func_call en dst ctx)"
  unfolding mjr_link_func_call_def mjr_function_register_def Let_def
  by (auto intro!: grow_rules [OF assms] split: option.split)

lemma pop_function_grows [simp]: "grows ctx (pop_function c) \<longleftrightarrow> grows ctx c"
  by (simp add: pop_function_def split: prod.split)

lemma history_grows [simp]: "grows ctx (mjr_history_write i a x c) \<longleftrightarrow> grows ctx c"
    "grows ctx (mjr_history_shift i a c) \<longleftrightarrow> grows ctx c"
  by (simp_all add: mjr_history_shift_def mjr_history_write_def)

lemma link_rules:
  assumes "heap_inv ctx"
  shows "\<lbrakk>grows ctx c; \<And>c'. grows ctx c' \<Longrightarrow> heap_inv c' \<Longrightarrow> Q1 c'\<rbrakk> \<Longrightarrow> ok Q1 (mjr_link_block_jump en src dst ret c)"
    and "\<lbrakk>grows ctx c; \<And>c'. grows ctx c' \<Longrightarrow> heap_inv c' \<Longrightarrow> Q2 c'\<rbrakk> \<Longrightarrow> ok Q2 (mjr_link_block_call en src dst ret c)"
    and "\<lbrakk>grows ctx c; \<And>c'. grows ctx c' \<Longrightarrow> heap_inv c' \<Longrightarrow> Q3 c'\<rbrakk> \<Longrightarrow> ok Q3 (mjr_link_func_call en dst c)"
  using assms
  by (blast intro: ok_then [OF link_block_jump_grows] ok_then [OF link_block_call_grows]
      ok_then [OF link_func_call_grows] grows_inv)+

lemma trace_control_grows:
  assumes "heap_inv ctx"
  shows "ok (\<lambda>(_, _, _, ctx'). grows ctx ctx') (mjr_trace_control en p ins a d r ctx)"
  unfolding mjr_trace_control_def Let_def mjr_block_get_by_vaddr_def
  by (auto intro!: grow_rules [OF assms] link_rules [OF assms])

subsection \<open>Termination\<close>

definition seen_at :: "'o mjrcontext_t \<Rightarrow> eresi_Addr \<Rightarrow> bool" where
  "seen_at ctx a \<longleftrightarrow> (\<exists>b. cdata_of ctx (hash_get (blkhash ctx) (vaddr2str a)) = Some (Bloc b) \<and> bseen b = 1)"

definition unseen :: "'o mjrcontext_t \<Rightarrow> nat" where
  "unseen ctx = card {a. \<not> seen_at ctx a}"

lemma seen_mono:
  assumes "grows ctx ctx'" "heap_inv ctx" "seen_at ctx a"
  shows "seen_at ctx' a"
proof -
  let ?p = "hash_get (blkhash ctx) (vaddr2str a)"
  obtain b where b: "cdata_of ctx ?p = Some (Bloc b)" "bseen b = 1" using assms(3) by (auto simp: seen_at_def)
  then have "?p \<noteq> NULL" using assms(2) by (auto simp: heap_inv_def cdata_of_def)
  then have "hash_get (blkhash ctx') (vaddr2str a) = ?p" "heap_le ctx ctx'"
    using assms(1,2) by (simp_all add: grows_def)
  moreover obtain d where "cdata_of ctx' ?p = Some d" "data_le (Bloc b) d"
    using b(1) calculation(2) by (auto simp: heap_le_def)
  ultimately show ?thesis using b(2) by (cases d) (auto simp: seen_at_def)
qed

lemma unseen_mono: "grows ctx ctx' \<Longrightarrow> heap_inv ctx \<Longrightarrow> unseen ctx' \<le> unseen ctx"
  unfolding unseen_def by (rule card_mono) (auto dest: seen_mono)

lemma unseen_mark:
  assumes "heap_inv ctx" "p = hash_get (blkhash ctx) (vaddr2str a)" "get_bloc ctx p = Inr b" "bseen b \<noteq> 1"
  shows "unseen (set_block p (\<lambda>b. b\<lparr>bseen := 1\<rparr>) ctx) < unseen ctx"
proof -
  let ?ctx = "set_block p (\<lambda>b. b\<lparr>bseen := 1\<rparr>) ctx"
  have g: "grows ctx ?ctx" by (rule grows_set_block) simp
  obtain c where c: "cheap ctx p = Some c" "cndata c = Bloc b"
    using assms(3) by (auto simp: get_bloc_def rbind_Inr get_cn_def split: option.splits cdata.splits)
  then have "\<not> seen_at ctx a" "seen_at ?ctx a"
    using assms(2,4) by (auto simp: seen_at_def cdata_of_def set_block_def set_cn_def)
  moreover have "{a. \<not> seen_at ?ctx a} \<subseteq> {a. \<not> seen_at ctx a}" using seen_mono [OF g assms(1)] by auto
  ultimately show ?thesis unfolding unseen_def by (intro psubset_card_mono) auto
qed

text \<open>Sections end below the top of the address space, and no instruction is longer than the 15
  bytes the walk keeps in its buffer.\<close>

definition sect_ok :: "elfshsect_t \<Rightarrow> bool" where
  "sect_ok s \<longleftrightarrow> unat (sh_addr s) + unat (sh_size s) + 15 < 2 ^ 32"

definition sections_ok :: "'o env \<Rightarrow> bool" where
  "sections_ok en \<longleftrightarrow> (\<forall>ob a s. parent_section en ob a = Some s \<longrightarrow> sect_ok s)"

definition lengths_ok :: "asm_processor \<Rightarrow> bool" where
  "lengths_ok pr \<longleftrightarrow> (\<forall>bs n len ins. asm_read_instr bs n pr = Inr (len, ins) \<longrightarrow> len \<le> 15)"

text \<open>Fuel: one unit per turn of the loop over a section, for each address that can still be
  marked.\<close>

definition walk_fuel :: "'o mjrcontext_t \<Rightarrow> nat" where
  "walk_fuel ctx = (2 ^ 32 + 2) * (unseen ctx + 1)"

definition loop_fuel :: "'o mjrcontext_t \<Rightarrow> window \<Rightarrow> nat" where
  "loop_fuel ctx w = walk_fuel ctx + 1 + (2 ^ 32 - unat (waddr w))"

lemma fuel_mono: "grows ctx ctx' \<Longrightarrow> heap_inv ctx \<Longrightarrow> walk_fuel ctx' \<le> walk_fuel ctx"
  unfolding walk_fuel_def by (intro mult_le_mono2 add_le_mono1 unseen_mono)

lemma fuel_mark: "unseen ctx' < unseen ctx \<Longrightarrow> loop_fuel ctx' w < walk_fuel ctx"
proof -
  assume "unseen ctx' < unseen ctx"
  then have "(2 ^ 32 + 2) * (unseen ctx' + 1) \<le> (2 ^ 32 + 2) * unseen ctx" by (intro mult_le_mono2) simp
  then show ?thesis by (simp add: loop_fuel_def walk_fuel_def)
qed

lemma waddr_step:
  assumes "waddr w < sh_addr s + sh_size s" "sect_ok s" "0 < len" "len \<le> 15"
  shows "unat (waddr w) < unat (waddr (w\<lparr>wcurr := wcurr w + word_of_int len\<rparr>))"
proof -
  let ?l = "word_of_int len :: u_int"
  have l: "unat ?l = nat len" using assms(3,4) by (simp add: unat_eq_nat_uint uint_word_of_int)
  have "unat (sh_addr s + sh_size s) = unat (sh_addr s) + unat (sh_size s)"
    using assms(2) by (simp add: sect_ok_def unat_word_ariths)
  then have "unat (waddr w) + nat len < 2 ^ 32"
    using assms by (simp add: word_less_nat_alt sect_ok_def)
  then have "unat (waddr w + ?l) = unat (waddr w) + nat len" by (simp add: unat_word_ariths l)
  then show ?thesis using assms(3) by (simp add: waddr_def add.assoc)
qed

lemma move_window_ok:
  assumes "sections_ok en" "sect_ok (wsect w)"
  shows "ok (\<lambda>w'. waddr w' = waddr w \<and> sect_ok (wsect w')) (move_window en ob w)"
  using assms by (auto simp: move_window_def Let_def sections_ok_def waddr_def split: option.splits)

lemma decode_at_ok:
  assumes "lengths_ok (proc ctx)"
  shows "ok (\<lambda>(len, _). len \<le> 15) (decode_at ctx w)"
  using assms by (auto simp: decode_at_def code_at_def lengths_ok_def split: option.splits sum.splits)

lemma loop_turn:
  assumes "heap_inv ctx" "lengths_ok (proc ctx)" "sections_ok en" "sect_ok (wsect w)"
    and "loop_fuel ctx w \<le> Suc n"
    and rec: "\<And>v cd c. heap_inv c \<Longrightarrow> proc c = proc ctx \<Longrightarrow> walk_fuel c \<le> n \<Longrightarrow> ok (grows c) (mjr_analyse_rec n en v cd md c)"
    and loop: "\<And>v c. heap_inv c \<Longrightarrow> proc c = proc ctx \<Longrightarrow> sect_ok (wsect v) \<Longrightarrow> loop_fuel c v \<le> n \<Longrightarrow>
      ok (grows c) (analyse_loop n en p v cd md c)"
  shows "ok (grows ctx) (analyse_loop (Suc n) en p w cd md ctx)"
proof (cases "waddr w < sh_addr (wsect w) + sh_size (wsect w)")
  case inside: True
  have fuel: "walk_fuel c \<le> n" if "grows ctx c" for c
    using fuel_mono [OF that assms(1)] assms(5) by (simp add: loop_fuel_def)
  have rec': "ok Q (mjr_analyse_rec n en v d md c)"
    if "grows ctx c" "\<And>c'. grows ctx c' \<Longrightarrow> heap_inv c' \<Longrightarrow> Q c'" for Q v d c
    using that assms(1) fuel [OF that(1)] grows_inv [OF that(1)]
    by (intro ok_then [OF rec that(1) assms(1)]) (auto simp: grows_def)
  have loop': "ok (grows ctx) (analyse_loop n en p (v\<lparr>wcurr := wcurr v + word_of_int len\<rparr>) cd md c)"
    if "grows ctx c" "waddr v = waddr w" "sect_ok (wsect v)" "0 < len" "len \<le> 15" for v len c
  proof -
    let ?v = "v\<lparr>wcurr := wcurr v + word_of_int len\<rparr>"
    have "unat (waddr w) < unat (waddr ?v)"
      using waddr_step [of v "wsect w" len] inside that assms(4) by simp
    then have "loop_fuel c ?v \<le> n"
      using fuel_mono [OF that(1) assms(1)] assms(5) unsigned_less [of "waddr ?v", where ?'a = nat]
      by (simp add: loop_fuel_def)
    then show ?thesis
      using that assms(1) by (intro ok_then [OF loop that(1) assms(1)]) (auto simp: grows_def)
  qed
  have trace: "ok Q (mjr_trace_control en p ins a d r c)"
    if "grows ctx c" "\<And>dl ds re c'. grows ctx c' \<Longrightarrow> heap_inv c' \<Longrightarrow> Q (dl, ds, re, c')" for Q ins a d r c
    using that(2) grows_inv [OF _ assms(1)] grows_trans [OF that(1)]
    by (intro ok_mono [OF trace_control_grows [OF grows_inv [OF that(1) assms(1)]]]) auto
  have size: "grows ctx (set_block p (\<lambda>b. b\<lparr>bsize := f b\<rparr>) c)" if "grows ctx c" for f c
    using that by (intro grows_trans [OF that grows_set_block]) simp
  show ?thesis
    using inside
    by (auto simp: Let_def intro!: ok_mono [OF move_window_ok [OF assms(3,4)]] ok_mono [OF decode_at_ok [OF assms(2)]]
        trace rec' loop' size)
qed simp

text \<open>The walk never runs out of the fuel above, and the graph only grows.\<close>

lemma walk_grows:
  assumes "sections_ok en" "lengths_ok pr"
  shows "(\<forall>v cd c. heap_inv c \<longrightarrow> proc c = pr \<longrightarrow> walk_fuel c \<le> n \<longrightarrow> ok (grows c) (mjr_analyse_rec n en v cd md c)) \<and>
    (\<forall>p w cd c. heap_inv c \<longrightarrow> proc c = pr \<longrightarrow> sect_ok (wsect w) \<longrightarrow> loop_fuel c w \<le> n \<longrightarrow>
       ok (grows c) (analyse_loop n en p w cd md c))"
proof (induction n)
  case 0
  then show ?case by (simp add: walk_fuel_def loop_fuel_def)
next
  case (Suc n)
  have "ok (grows c) (mjr_analyse_rec (Suc n) en v cd md c)"
    if h: "heap_inv c" "proc c = pr" "walk_fuel c \<le> Suc n" for v cd c
  proof -
    let ?p = "hash_get (blkhash c) (vaddr2str v)"
    let ?c = "set_block ?p (\<lambda>b. b\<lparr>bseen := 1\<rparr>) c"
    have g: "grows c ?c" by (rule grows_set_block) simp
    have "ok (grows c) (analyse_loop n en ?p (open_window s v) cd md ?c)"
      if "get_bloc c ?p = Inr b" "bseen b \<noteq> 1" "parent_section en ob v = Some s" for b s ob
    proof -
      have "loop_fuel ?c (open_window s v) \<le> n"
        using fuel_mark [OF unseen_mark [OF h(1) refl that(1,2)]] h(3) by (meson less_Suc_eq_le order.strict_trans2)
      moreover have "sect_ok (wsect (open_window s v))"
        using assms(1) that(3) by (simp add: sections_ok_def open_window_def Let_def)
      moreover have "heap_inv ?c" "proc ?c = pr" using g h(1,2) by (simp_all add: grows_def)
      ultimately have "ok (grows ?c) (analyse_loop n en ?p (open_window s v) cd md ?c)"
        using Suc by simp
      then show ?thesis by (rule ok_mono) (rule grows_trans [OF g])
    qed
    moreover have "ok (\<lambda>b. get_bloc c ?p = Inr b) (get_bloc c ?p)"
      by (auto simp: get_bloc_def get_cn_def split: option.splits cdata.splits)
    ultimately show ?thesis
      using g by (auto simp: Let_def elim!: ok_mono split: option.splits)
  qed
  moreover have "ok (grows c) (analyse_loop (Suc n) en p w cd md c)"
    if "heap_inv c" "proc c = pr" "sect_ok (wsect w)" "loop_fuel c w \<le> Suc n" for p w cd c
    using that Suc assms by (intro loop_turn) simp_all
  ultimately show ?case by blast
qed

text \<open>More fuel does not change a result.\<close>

definition fuel_le :: "'a mjr_result \<Rightarrow> 'a mjr_result \<Rightarrow> bool" where
  "fuel_le m m' \<longleftrightarrow> (m \<noteq> Inl Out_Of_Fuel \<longrightarrow> m' = m)"

lemma fuel_le_refl [simp]: "fuel_le m m"
  by (simp add: fuel_le_def)

lemma fuel_le_rbind: "fuel_le m m' \<Longrightarrow> (\<And>y. fuel_le (k y) (k' y)) \<Longrightarrow> fuel_le (rbind m k) (rbind m' k')"
  by (cases m) (auto simp: fuel_le_def)

lemma fuel_le_Suc:
  "(\<forall>v cd c. fuel_le (mjr_analyse_rec n en v cd md c) (mjr_analyse_rec (Suc n) en v cd md c)) \<and>
   (\<forall>p w cd c. fuel_le (analyse_loop n en p w cd md c) (analyse_loop (Suc n) en p w cd md c))"
proof (induction n)
  case 0
  then show ?case by (simp add: fuel_le_def)
next
  case (Suc n)
  then have "fuel_le (mjr_analyse_rec (Suc n) en v cd md c) (mjr_analyse_rec (Suc (Suc n)) en v cd md c)" for v cd c
    by (subst mjr_analyse_rec.simps(2) [of "Suc n"], subst mjr_analyse_rec.simps(2) [of n])
      (auto simp: Let_def intro!: fuel_le_rbind split: option.split simp del: mjr_analyse_rec.simps analyse_loop.simps)
  moreover have "fuel_le (analyse_loop (Suc n) en p w cd md c) (analyse_loop (Suc (Suc n)) en p w cd md c)" for p w cd c
    using Suc by (subst analyse_loop.simps(2) [of "Suc n"], subst analyse_loop.simps(2) [of n])
      (auto simp: Let_def intro!: fuel_le_rbind split: prod.split simp del: mjr_analyse_rec.simps analyse_loop.simps)
  ultimately show ?case by blast
qed

lemma more_fuel:
  assumes "mjr_analyse_rec n en v cd md c \<noteq> Inl Out_Of_Fuel" "n \<le> m"
  shows "mjr_analyse_rec m en v cd md c = mjr_analyse_rec n en v cd md c"
  using assms(2)
proof (induction rule: dec_induct)
  case (step k)
  then show ?case using fuel_le_Suc [of k en md] assms(1) unfolding fuel_le_def by metis
qed simp

lemma unseen_bound: "unseen ctx \<le> 2 ^ 32"
proof -
  have "unseen ctx \<le> card (UNIV :: eresi_Addr set)" unfolding unseen_def by (rule card_mono) simp_all
  then show ?thesis by (simp add: card_word)
qed

lemma walk_marks:
  assumes "heap_inv c" "sections_ok en" "lengths_ok (proc c)" "walk_fuel c \<le> Suc n"
    "mjr_analyse_rec (Suc n) en v cd 0 c = Inr c'"
  shows "seen_at c' v"
proof -
  let ?p = "hash_get (blkhash c) (vaddr2str v)"
  let ?c = "set_block ?p (\<lambda>b. b\<lparr>bseen := 1\<rparr>) c"
  have g: "grows c ?c" by (rule grows_set_block) simp
  then have hc: "heap_inv ?c" "proc ?c = proc c" using assms(1) by (simp_all add: grows_def)
  obtain b where b: "get_bloc c ?p = Inr b"
    using assms(5) by (auto simp: rbind_Inr Let_def split: if_splits)
  then obtain x where x: "cheap c ?p = Some x" "cndata x = Bloc b"
    by (auto simp: get_bloc_def rbind_Inr get_cn_def split: option.splits cdata.splits)
  show ?thesis
  proof (cases "bseen b = 1")
    case True
    then show ?thesis
      using assms(5) x b by (auto simp: Let_def seen_at_def cdata_of_def split: if_splits)
  next
    case False
    have seen: "seen_at ?c v" using x by (simp add: seen_at_def cdata_of_def set_block_def set_cn_def)
    have "grows ?c c'"
    proof (cases "parent_section en (obj ?c) v")
      case None
      then show ?thesis using assms(5) b False by (auto simp: Let_def split: if_splits)
    next
      case (Some s)
      have "loop_fuel ?c (open_window s v) \<le> n"
        using fuel_mark [OF unseen_mark [OF assms(1) refl b False]] assms(4)
        by (meson less_Suc_eq_le order.strict_trans2)
      moreover have "sect_ok (wsect (open_window s v))"
        using assms(2) Some by (simp add: sections_ok_def open_window_def Let_def)
      ultimately have "ok (grows ?c) (analyse_loop n en ?p (open_window s v) cd 0 ?c)"
        using walk_grows [OF assms(2,3)] hc by blast
      then show ?thesis using assms(5) b False Some by (auto simp: Let_def split: if_splits)
    qed
    then show ?thesis by (rule seen_mono [OF _ hc(1) seen])
  qed
qed

subsection \<open>Properties\<close>



text \<open>A program of one section at 0x1000, for the witnesses.\<close>

definition text_section :: "u_char list \<Rightarrow> elfshsect_t" where
  "text_section d = \<lparr>sect_name = ''.text'', sindex = 1, sh_type = 1, sh_addr = 0x1000, sh_offset = 0x1000,
     sh_size = word_of_nat (length d), runtime = False, sect_data = Some d, altdata = None, terdata = None,
     curend = word_of_nat (length d)\<rparr>"

definition text_env :: "u_char list \<Rightarrow> unit env" where
  "text_env d = demo_env\<lparr>parent_section := (\<lambda>_ a.
     if 0x1000 \<le> a \<and> a < 0x1000 + word_of_nat (length d) then Some (text_section d) else None)\<rparr>"

lemma create_context_inv: "cn_inv (mjr_create_context en name ob)"
proof -
  have "Suc 0 \<le> MJR_CNTNRS_INCREMENT" by (simp add: MJR_CNTNRS_INCREMENT_def)
  then show ?thesis
    by (simp add: cn_inv_def mjr_create_context_def mjr_init_containers_def mjrHashMedium_def hash_fresh_inv)
qed

lemma cn_inv_proc [simp]: "cn_inv (ctx\<lparr>proc := pr\<rparr>) \<longleftrightarrow> cn_inv ctx"
  by (simp add: cn_inv_def has_lists_def list_ok_def link_ok_def reg_ok_def)

lemma create_block_history:
  "mjr_create_block_container en so v s sn ctx = Inr (p, ctx') \<Longrightarrow> history ctx' = history ctx"
  by (auto simp: mjr_create_block_container_def container_create_def container_linklists_create_def rbind_Inr
      Let_def set_cn_def mjr_register_container_def mjr_resize_containers_def split: option.splits if_splits)

text \<open>The context in which \<open>mjr_analyse\<close> starts the walk: one empty block at the start address.\<close>

lemma start_block_fresh:
  assumes "type_name en ASPECT_TYPE_BLOC \<noteq> None"
  obtains c ctx where "start_block en a (mjr_create_context en name ob\<lparr>proc := pr\<rparr>) = Inr ctx"
    "cheap ctx = [1 \<mapsto> c]" "cndata c = Bloc \<lparr>bvaddr = a, bsize = 0, bsymoff = 0, bseen = 0\<rparr>" "cnid c = 1"
    "proc ctx = pr" "length (history ctx) = MJR_HISTORY_LEN" "heap_inv ctx"
    "\<And>v. hash_get (blkhash ctx) (vaddr2str v) = (if v = a then 1 else NULL)"
proof -
  let ?t = "mjr_create_context en name ob\<lparr>proc := pr\<rparr>"
  let ?b = "Bloc \<lparr>bvaddr = a, bsize = 0, bsymoff = 0, bseen = 0\<rparr>"
  have t0: "cheap ?t = Map.empty" "brk ?t = 1" "next_id ?t = 1" "cntnrs_size ?t = MJR_CNTNRS_INCREMENT"
    "length (history ?t) = MJR_HISTORY_LEN"
    by (simp_all add: mjr_create_context_def mjr_init_containers_def)
  have ci: "cn_inv ?t" by (simp add: create_context_inv)
  obtain c ctxa where a: "container_create en ASPECT_TYPE_BLOC ?b (obj_id en (obj ?t)) ?t = Inr (brk ?t, ctxa)"
    "cheap ctxa = (cheap ?t)(brk ?t \<mapsto> c)" "cndata c = ?b" "cn_inv ctxa" "same_but_heap ?t ctxa"
    by (rule container_create_ok [OF ci assms, of ?b "obj_id en (obj ?t)"])
  have "capacity ctxa" using a(5) t0 by (simp add: capacity_def same_but_heap_def MJR_CNTNRS_INCREMENT_def)
  moreover have "cheap ctxa 1 = Some c" using a(2) t0 by simp
  ultimately obtain ctxb where b: "mjr_register_container ctxa 1 = (next_id ctxa, ctxb)"
    "cheap ctxb = (cheap ctxa)(1 \<mapsto> c\<lparr>cnid := next_id ctxa\<rparr>)"
    using register_ok [OF a(4), of 1 c] by metis
  let ?ctx1 = "ctxb\<lparr>block_btree := btree_insert_sort (block_btree ctxb) (match_block ctxb) 1\<rparr>"
  have cr: "mjr_create_block_container en 0 a 0 0 ?t = Inr (1, ?ctx1)"
    using a(1) b(1) t0(2) by (simp add: mjr_create_block_container_def Let_def)
  have g: "grows ?t ?ctx1" "blkhash ?ctx1 = blkhash ?t"
    using create_block_grows [of ?t a en 0 0 0] by (simp_all add: cr)
  have h: "hash_inv (blkhash ?t)" "hash_abs (blkhash ?t) = Map.empty"
    by (simp_all add: mjr_create_context_def mjr_init_containers_def mjrHashMedium_def hash_fresh_inv hash_fresh_abs)
  then have it: "heap_inv ?t" using t0 by (simp add: heap_inv_def hash_get_abs)
  let ?ctx = "?ctx1\<lparr>blkhash := snd (hash_add (blkhash ?ctx1) (vaddr2str a) 1)\<rparr>"
  have gt: "grows ?t ?ctx"
    using new_block_grows [of ?t a en 0 0 0] h it by (simp add: cr hash_get_abs)
  show thesis
  proof (rule that)
    show "start_block en a ?t = Inr ?ctx" by (simp add: start_block_def cr)
    have nb: "next_id ctxa = 1" using a(5) t0 by (simp add: same_but_heap_def)
    show "cheap ?ctx = [1 \<mapsto> c\<lparr>cnid := 1\<rparr>]" using a(2) b(2) t0 nb by simp
    show "cndata (c\<lparr>cnid := 1\<rparr>) = ?b" "cnid (c\<lparr>cnid := 1\<rparr>) = 1" using a(3) by simp_all
    show "proc ?ctx = pr" "heap_inv ?ctx" using gt it by (simp_all add: grows_def)
    show "length (history ?ctx) = MJR_HISTORY_LEN" using create_block_history [OF cr] t0(5) by simp
    show "hash_get (blkhash ?ctx) (vaddr2str v) = (if v = a then 1 else NULL)" for v
      using g(2) h by (simp add: hash_get_abs hash_add_ok)
  qed
qed

lemma mips_read_append:
  "asm_read_mips CONFIG_ASM_LITTLE_ENDIAN (be_bytes w @ r) = asm_read_mips CONFIG_ASM_LITTLE_ENDIAN (be_bytes w)"
proof -
  have "mips_word CONFIG_ASM_LITTLE_ENDIAN (be_bytes w @ r) = mips_word CONFIG_ASM_LITTLE_ENDIAN (be_bytes w)"
    by (simp add: mips_word_def be_bytes_def little_not_big)
  then show ?thesis by (simp add: mips_read_row)
qed

lemma jal_read:
  obtains ins where "asm_read_mips CONFIG_ASM_LITTLE_ENDIAN (be_bytes (enc_j 3 ta) @ r) = Inr (4, ins)"
    "itype ins = ASM_TYPE_CALLPROC" "instr ins = ASM_MIPS_JAL" "imm (op ins ! 0) = ucast ta" "asm_instr_len ins = 4"
proof -
  have d: "mips_dims (enc_j 3 ta) = (3, 0, 0)" by (simp add: mips_dims_def enc_j_fields mips_const)
  show thesis
    using that by (simp add: mips_read_append mips_read_enc [OF d mips_rows(31)] mips_decode_simps asm_mips_jal_def
        mips_start_def zero_instr_def asm_instr_len_def asm_mips_operand_fetch_def)
qed

lemma text_env_sel [simp]:
  "parent_section (text_env d) ob a =
     (if 0x1000 \<le> a \<and> a < 0x1000 + word_of_nat (length d) then Some (text_section d) else None)"
  "type_name (text_env d) ty = Some ''bloc''" "sym_by_name (text_env d) ob nm"
  by (simp_all add: text_env_def demo_env_def)

lemma text_section_sel [simp]:
  "sh_addr (text_section d) = 0x1000" "sh_size (text_section d) = word_of_nat (length d)"
  "sect_data (text_section d) = Some d"
  by (simp_all add: text_section_def)

lemma lengths_mips: "lengths_ok (asm_init_mips en)"
  unfolding lengths_ok_def asm_read_instr_mips
proof (intro allI impI)
  fix bs len ins assume r: "asm_read_mips en bs = Inr (len, ins)"
  show "len \<le> 15"
  proof (cases "mips_word en bs")
    case (Inl e)
    then show ?thesis using r by (simp add: mips_read_row)
  next
    case (Inr w)
    obtain i j k where "mips_dims w = (i, j, k)" by (cases "mips_dims w")
    with Inr show ?thesis by (rule mips_decode_cases) (use r in auto)
  qed
qed

lemma sections_text: "length d < 2 ^ 16 \<Longrightarrow> sections_ok (text_env d)"
  by (auto simp: sections_ok_def sect_ok_def text_section_def unsigned_of_nat take_bit_nat_eq_self)

lemma length_fold_update: "length (fold (\<lambda>i h. h[i := f i h]) is xs) = length xs"
  by (induction "is" arbitrary: xs) simp_all

lemma trace_call_outside:
  assumes "X = mjr_history_write ins a 0 (mjr_history_write ins a MJR_HISTORY_CUR ctx)"
    and "cheap X p = Some c" "cndata c = Bloc b" "p \<noteq> NULL" "hash_get (blkhash X) (vaddr2str a) = p"
    and "itype ins = ASM_TYPE_CALLPROC" "mjr_get_call_destaddr X = dst" "dst \<noteq> MJR_BLOCK_INVALID"
    and "\<And>ob. parent_section en ob dst = None"
    and "\<And>ob. parent_section en ob (a + word_of_nat (asm_instr_len ins) + delay_slot X) = None"
    and "\<And>ob nm. sym_by_name en ob nm"
  shows "mjr_trace_control en p ins a d r ctx = Inr (delay_slot X, dst, MJR_BLOCK_INVALID,
    X\<lparr>calls_seen := calls_seen X + 1, calls_found := calls_found X + 1\<rparr>)"
proof -
  let ?X = "X\<lparr>calls_seen := calls_seen X + 1\<rparr>"
  have flags: "itype ins AND ASM_TYPE_BRANCH = 0" "itype ins AND ASM_TYPE_CALLPROC \<noteq> 0"
    by (simp_all add: assms(6) ASM_TYPE_CALLPROC_def ASM_TYPE_BRANCH_def)
  have call: "mjr_link_block_call en a dst MJR_BLOCK_INVALID ?X = Inr ?X"
    using assms(2-5,9,11)
    by (simp add: mjr_link_block_call_def has_data_def mjr_block_get_by_vaddr_def mjr_block_symbol_def get_cn_def Let_def)
  have func: "mjr_link_func_call en dst ?X = Inr ?X" using assms(9) by (simp add: mjr_link_func_call_def)
  have same: "mjr_block_get_by_vaddr X a MJR_BLOCK_GET_STRICT = Inr p" "get_id X p = Inr (cnid c)"
    using assms(2,5) by (simp_all add: mjr_block_get_by_vaddr_def get_id_def get_cn_def Let_def)
  show ?thesis
    unfolding mjr_trace_control_def Let_def assms(1) [symmetric]
    using flags call func same assms(4,7,8,10) by simp
qed

subsection \<open>Calls that leave the program\<close>

text \<open>Only the two halves of \<open>mjr_block_split\<close> enter anything into the table of the blocks, and they
  register one container at most.\<close>

definition same_tabs :: "'o mjrcontext_t \<Rightarrow> 'o mjrcontext_t \<Rightarrow> bool" where
  "same_tabs ctx c \<longleftrightarrow> blkhash c = blkhash ctx \<and> next_id c = next_id ctx"

lemma same_tabs_trans [trans]: "same_tabs a b \<Longrightarrow> same_tabs b c \<Longrightarrow> same_tabs a c"
  by (simp add: same_tabs_def)

lemma same_tabs_ok:
  "ok (\<lambda>(_, c). same_tabs ctx c) (mjr_container_add_link ctx p i lkt scope dir)"
  "ok (\<lambda>(_, c). same_tabs ctx c) (mjr_block_symbol en p ctx)"
  "ok (same_tabs ctx) (del_link ln key ctx)"
proof -
  show "ok (\<lambda>(_, c). same_tabs ctx c) (mjr_container_add_link ctx p i lkt scope dir)"
    unfolding mjr_container_add_link_def Let_def
    by (auto simp: same_tabs_def split: option.splits intro!: ok_mono [OF scan_links_grows])
  show "ok (\<lambda>(_, c). same_tabs ctx c) (mjr_block_symbol en p ctx)"
    by (auto simp: mjr_block_symbol_def same_tabs_def Let_def split: cdata.splits)
  show "ok (same_tabs ctx) (del_link ln key ctx)" by (auto simp: del_link_def same_tabs_def split: option.splits)
qed

lemma relink_ents_tabs: "ok (same_tabs ctx) (relink_ents dst ln dir es ctx)"
proof (induction es arbitrary: ctx)
  case (Cons e es)
  show ?case
    by (auto split: option.splits intro!: ok_mono [OF same_tabs_ok(1)] ok_mono [OF same_tabs_ok(3)] ok_mono [OF Cons])
      (metis same_tabs_trans)
qed (simp add: same_tabs_def)

lemma relink_tabs: "ok (same_tabs ctx) (mjr_block_relink src dst dir ctx)"
  by (auto simp: mjr_block_relink_def Let_def split: option.splits intro: relink_ents_tabs)

lemma link_both_tabs: "ok (same_tabs ctx) (link_both src dst lkt scope ctx)"
  unfolding link_both_def by (auto intro!: ok_mono [OF same_tabs_ok(1)]) (metis same_tabs_trans)

lemma set_block_sel [simp]: "blkhash (set_block p f ctx) = blkhash ctx" "brk (set_block p f ctx) = brk ctx"
  "next_id (set_block p f ctx) = next_id ctx"
  by (simp_all add: set_block_def set_cn_def)

lemma create_block_tabs:
  "ok (\<lambda>(p, c). p = brk ctx \<and> blkhash c = blkhash ctx \<and> next_id c \<le> next_id ctx + 1) (mjr_create_block_container en so v s sn ctx)"
  by (auto simp: mjr_create_block_container_def container_create_def container_linklists_create_def mjr_register_container_def
      mjr_resize_containers_def Let_def set_cn_def split: option.split)

definition entered :: "eresi_Addr \<Rightarrow> 'o mjrcontext_t \<Rightarrow> 'o mjrcontext_t \<Rightarrow> bool" where
  "entered a ctx c \<longleftrightarrow> blkhash c = blkhash ctx \<or> (\<exists>q. q \<noteq> NULL \<and> blkhash c = snd (hash_add (blkhash ctx) (vaddr2str a) q))"

lemma enteredI: "blkhash c = snd (hash_add (blkhash ctx) (vaddr2str a) q) \<Longrightarrow> q \<noteq> NULL \<Longrightarrow> entered a ctx c"
  by (auto simp: entered_def)

lemma split_entered:
  assumes "brk ctx \<noteq> NULL"
  shows "ok (\<lambda>(_, c). entered dst ctx c \<and> next_id c \<le> next_id ctx + 1) (split_new en dst ctx)"
    "ok (\<lambda>(_, c). entered dst ctx c \<and> next_id c \<le> next_id ctx + 1) (split_old en dst p b ctx)"
  unfolding split_new_def split_old_def Let_def using assms
  by (auto simp: same_tabs_def intro!: enteredI [where q = "brk ctx"] ok_mono [OF create_block_tabs] ok_mono [OF same_tabs_ok(2)]
      ok_mono [OF relink_tabs] ok_mono [OF same_tabs_ok(1)])

lemma block_split_entered:
  assumes "brk ctx \<noteq> NULL"
  shows "ok (\<lambda>(_, c). entered dst ctx c \<and> next_id c \<le> next_id ctx + 1) (mjr_block_split en dst ctx)"
  unfolding mjr_block_split_def using split_entered [OF assms]
  by (auto intro!: ok_mono [OF get_fuzzy_total] split: cdata.splits simp: entered_def)

lemma entered_other:
  assumes "entered a ctx c" "hash_inv (blkhash ctx)" "a \<noteq> v"
  shows "hash_get (blkhash c) (vaddr2str v) = hash_get (blkhash ctx) (vaddr2str v)"
  using assms by (auto simp: entered_def hash_get_abs hash_add_ok)

text \<open>The links of a call create no block at a target outside every section.\<close>

lemma link_call_outside:
  assumes "heap_inv ctx" "\<And>ob. parent_section en ob dst = None" "ret \<noteq> dst"
  shows "ok (\<lambda>c. hash_get (blkhash c) (vaddr2str dst) = hash_get (blkhash ctx) (vaddr2str dst)) (mjr_link_block_call en src dst ret ctx)"
proof -
  have nd: "\<not> has_data en ctx dst" using assms(2) by (simp add: has_data_def)
  have inv: "hash_inv (blkhash ctx)" "brk ctx \<noteq> NULL" using assms(1) by (simp_all add: heap_inv_def)
  have split: "ok (\<lambda>(q, c1). ok (\<lambda>c. hash_get (blkhash c) (vaddr2str dst) = hash_get (blkhash ctx) (vaddr2str dst))
      (link_both x q t sc c1)) (mjr_block_split en ret c)" if c: "blkhash c = blkhash ctx" "brk c \<noteq> NULL" for c x t sc
    using entered_other [of ret c _ dst] inv(1) c(1) assms(3)
    by (intro ok_mono [OF block_split_entered [OF c(2)]]) (auto simp: same_tabs_def intro!: ok_mono [OF link_both_tabs])
  have sym: "ok (\<lambda>(_, c). blkhash c = blkhash ctx \<and> brk c \<noteq> NULL) (mjr_block_symbol en x ctx)" for x
    using inv(2) by (auto simp: mjr_block_symbol_def Let_def split: cdata.splits)
  show ?thesis
    unfolding mjr_link_block_call_def Let_def
    by (auto simp: nd intro!: ok_mono [OF get_fuzzy_total] ok_mono [OF sym] ok_mono [OF split])
qed

lemma history_sel [simp]:
  "blkhash (mjr_history_write i a x c) = blkhash c" "blkhash (mjr_history_shift i a c) = blkhash c"
  "obj (mjr_history_write i a x c) = obj c" "obj (mjr_history_shift i a c) = obj c"
  by (simp_all add: mjr_history_write_def mjr_history_shift_def)

lemma trace_call_ok:
  assumes "X = mjr_history_write ins a 0 (mjr_history_write ins a MJR_HISTORY_CUR ctx)" "heap_inv X"
    and "hash_get (blkhash X) (vaddr2str a) \<in> {NULL, p}" "hash_get (blkhash X) (vaddr2str dst) = NULL"
    and "itype ins AND ASM_TYPE_CALLPROC \<noteq> 0" "itype ins AND ASM_TYPE_BRANCH = 0"
    and "mjr_get_call_destaddr X = dst" "dst \<noteq> MJR_BLOCK_INVALID" "\<And>ob. parent_section en ob dst = None"
  shows "ok (\<lambda>(_, t, _, c). t = dst \<and> hash_get (blkhash c) (vaddr2str dst) = NULL) (mjr_trace_control en p ins a d r ctx)"
proof -
  let ?X = "X\<lparr>calls_seen := calls_seen X + 1\<rparr>"
  let ?next = "a + word_of_nat (asm_instr_len ins) + delay_slot X"
  define ret where "ret = (if parent_section en (obj ?X) ?next = None then MJR_BLOCK_INVALID else ?next)"
  have "ret \<noteq> dst" using assms(8,9) by (auto simp: ret_def)
  moreover have "heap_inv ?X" using assms(2) by (simp add: heap_inv_def bloc_at_def cdata_of_def)
  ultimately have call: "ok (\<lambda>c. hash_get (blkhash c) (vaddr2str dst) = NULL) (mjr_link_block_call en a dst ret ?X)"
    using link_call_outside [of ?X en dst ret a] assms(4,9) by simp
  have func: "mjr_link_func_call en dst c = Inr c" for c using assms(9) by (simp add: mjr_link_func_call_def)
  have strict: "mjr_block_get_by_vaddr X a MJR_BLOCK_GET_STRICT = Inr (hash_get (blkhash X) (vaddr2str a))"
    by (simp add: mjr_block_get_by_vaddr_def)
  show ?thesis
    unfolding mjr_trace_control_def Let_def assms(1) [symmetric] strict assms(7) ret_def [symmetric] rbind_simps
    using call assms(3,5,6,8) by (auto simp: func)
qed


text \<open>The start of a program \<open>jal 0x400000; nop\<close>.\<close>

definition jal_code :: "u_char list" where
  "jal_code = be_bytes (enc_j 3 0x100000) @ be_bytes 0"

definition jal_start :: "unit mjrcontext_t mjr_result" where
  "jal_start = start_block (text_env jal_code) 0x1000
     (mjr_create_context (text_env jal_code) ''a.out'' ()\<lparr>proc := asm_init_mips CONFIG_ASM_LITTLE_ENDIAN\<rparr>)"

lemma jal_start_ok:
  obtains ctx where "jal_start = Inr ctx" "heap_inv ctx" "proc ctx = asm_init_mips CONFIG_ASM_LITTLE_ENDIAN"
proof -
  have "type_name (text_env jal_code) ASPECT_TYPE_BLOC \<noteq> None" by simp
  from start_block_fresh [OF this] show thesis unfolding jal_start_def using that jal_start_def by metis
qed


text \<open>The state of the walk at the \<open>jal\<close>.\<close>

definition call_block :: "asm_instr \<Rightarrow> 'o mjrcontext_t \<Rightarrow> 'o mjrcontext_t" where
  "call_block ins ctx = set_block 1 (\<lambda>b. b\<lparr>bsize := bsize b + word_of_int 4\<rparr>) (mjr_history_shift ins 0x1000 ctx)"

lemma jal_state:
  fixes ctx :: "unit mjrcontext_t"
  assumes "jal_start = Inr ctx" and c1: "c1 = set_block 1 (\<lambda>b. b\<lparr>bseen := 1\<rparr>) ctx"
    and w: "w = open_window (text_section jal_code) 0x1000"
  obtains ins r where "decode_at c1 w = Inr (4, ins)" "itype ins = ASM_TYPE_CALLPROC" "w = \<lparr>wsect = text_section jal_code, wvaddr = 0x1000, wcurr = 0, wlen = 8, weos = True\<rparr>"
    "heap_inv c1" "\<forall>v. hash_get (blkhash c1) (vaddr2str v) = (if v = 0x1000 then 1 else NULL)" "get_bloc ctx 1 = Inr \<lparr>bvaddr = 0x1000, bsize = 0, bsymoff = 0, bseen = 0\<rparr>"
    "mjr_get_call_destaddr (mjr_history_write ins 0x1000 0 (mjr_history_write ins 0x1000 MJR_HISTORY_CUR (call_block ins c1))) = 0x400000"
    "mjr_trace_control (text_env jal_code) 1 ins 0x1000 MJR_BLOCK_INVALID MJR_BLOCK_INVALID (call_block ins c1) = Inr r"
proof -
  have ty: "type_name (text_env jal_code) ASPECT_TYPE_BLOC \<noteq> None" by simp
  obtain c ctx0 where s: "jal_start = Inr ctx0"
    "cheap ctx0 = [1 \<mapsto> c]" "cndata c = Bloc \<lparr>bvaddr = 0x1000, bsize = 0, bsymoff = 0, bseen = 0\<rparr>"
    "cnid c = 1" "proc ctx0 = asm_init_mips CONFIG_ASM_LITTLE_ENDIAN" "length (history ctx0) = MJR_HISTORY_LEN" "heap_inv ctx0"
    "\<And>v. hash_get (blkhash ctx0) (vaddr2str v) = (if v = 0x1000 then 1 else NULL)"
    unfolding jal_start_def using start_block_fresh [OF ty] by metis
  have "ctx0 = ctx" using trans [OF s(1) [symmetric] assms(1)] by (rule sum.inject(2) [THEN iffD1])
  note c = s(2-7) [unfolded this] and h = s(8) [unfolded this]
  obtain ins where ins: "asm_read_mips CONFIG_ASM_LITTLE_ENDIAN jal_code = Inr (4, ins)" "itype ins = ASM_TYPE_CALLPROC"
    "instr ins = ASM_MIPS_JAL" "imm (op ins ! 0) = ucast (0x100000 :: 26 word)" "asm_instr_len ins = 4"
    unfolding jal_code_def by (rule jal_read)
  have len: "length jal_code = 8" by (simp add: jal_code_def be_bytes_def)
  have w8: "w = \<lparr>wsect = text_section jal_code, wvaddr = 0x1000, wcurr = 0, wlen = 8, weos = True\<rparr>"
    by (simp add: w open_window_def text_section_def len MJR_MIN_def MJR_MAX_BLOCK_SIZE_def Let_def)
  have dec: "decode_at c1 w = Inr (4, ins)"
    by (simp add: decode_at_def code_at_def w8 waddr_def asm_read_instr_mips ins(1) c(4) c1 set_block_def set_cn_def)
  have inv: "heap_inv c1" using grows_inv [OF grows_set_block c(6)] by (simp add: c1)
  define X where "X = mjr_history_write ins 0x1000 0 (mjr_history_write ins 0x1000 MJR_HISTORY_CUR (call_block ins c1))"
  have X: "\<exists>c b. cheap X 1 = Some c \<and> cndata c = Bloc b" "blkhash X = blkhash ctx" "proc X = proc ctx"
    "cur_ins X = ins" "cur_vaddr X = 0x1000"
    using c by (simp_all add: X_def call_block_def c1 set_block_def set_cn_def mjr_history_write_def mjr_history_shift_def cur_ins_def
        cur_vaddr_def MJR_HISTORY_CUR_def MJR_HISTORY_LEN_def asm_init_mips_def ASM_PROC_MIPS_def ASM_PROC_IA32_def
        ASM_PROC_SPARC_def length_fold_update)
  then obtain cx bx where cx: "cheap X 1 = Some cx" "cndata cx = Bloc bx" by blast
  have slot: "delay_slot X = 4" by (simp add: delay_slot_def X(3) c(4) asm_init_mips_def)
  have dest: "mjr_get_call_destaddr X = 0x400000"
    by (simp add: mjr_get_call_destaddr_def X c(4) asm_init_mips_def ASM_PROC_MIPS_def
        ASM_PROC_IA32_def ASM_PROC_SPARC_def ins mips_abs_def)
  then have "\<exists>r. mjr_trace_control (text_env jal_code) 1 ins 0x1000 MJR_BLOCK_INVALID MJR_BLOCK_INVALID (call_block ins c1) = Inr r"
    using trace_call_outside [OF X_def cx] h X(2) ins len slot by (simp add: MJR_BLOCK_INVALID_def)
  then obtain r where tr: "mjr_trace_control (text_env jal_code) 1 ins 0x1000 MJR_BLOCK_INVALID MJR_BLOCK_INVALID (call_block ins c1) = Inr r" ..
  have bl: "get_bloc ctx 1 = Inr \<lparr>bvaddr = 0x1000, bsize = 0, bsymoff = 0, bseen = 0\<rparr>" using c by (simp add: get_bloc_def get_cn_def)
  have h1: "hash_get (blkhash c1) (vaddr2str v) = (if v = 0x1000 then 1 else NULL)" for v using h by (simp add: c1)
  then have h2: "\<forall>v. hash_get (blkhash c1) (vaddr2str v) = (if v = 0x1000 then 1 else NULL)" ..
  show ?thesis by (rule that [OF dec ins(2) w8 inv h2 bl dest [unfolded X_def] tr])
qed


end
