(* ===== verification/Elfsym_Laws.thy ===== *)
theory Elfsym_Laws
  imports Elfsym
begin

text \<open>
  What the symbol tables of \<open>Elfsym\<close> promise. A well-formed table is described by the list of
  its symbols and the bytes of its string table (\<open>elf_tables\<close>, \<open>dyn_tables\<close>); insertion,
  removal, the sorted copies and the searches are shown to act on these as on a plain list.
  Sorting rests on the locale \<open>comparison\<close>, interpreted on both comparison functions.
\<close>

subsection \<open>Bytes of symbols\<close>

lemma le32_bytes32 [simp]: "le32 (bytes32 w @ r) = w"
proof (rule bit_word_eqI)
  fix n assume "n < LENGTH(32)"
  then consider "n < 8" | "8 \<le> n" "n < 16" | "16 \<le> n" "n < 24" | "24 \<le> n" "n < 32" by fastforce
  then show "bit (le32 (bytes32 w @ r)) n = bit w n"
    by cases (auto simp: le32_def bytes32_def nth_append bit_simps)
qed

lemma le16_bytes16 [simp]: "le16 (bytes16 w @ r) = w" "le16 (bytes16 w) = w"
  by (rule bit_word_eqI; auto simp: le16_def bytes16_def nth_append bit_simps not_le dest: bit_imp_le_length)+

lemma length_sym_bytes [simp]: "length (sym_bytes s) = 16"
  by (simp add: sym_bytes_def bytes32_def bytes16_def)

lemma read_sym_bytes [simp]: "read_sym (sym_bytes s @ r) = s"
proof -
  have d: "drop 4 (sym_bytes s @ r) = bytes32 (st_value s) @ bytes32 (st_size s) @ [st_info s, st_other s] @ bytes16 (st_shndx s) @ r"
    "drop 8 (sym_bytes s @ r) = bytes32 (st_size s) @ [st_info s, st_other s] @ bytes16 (st_shndx s) @ r"
    "drop 14 (sym_bytes s @ r) = bytes16 (st_shndx s) @ r"
    "sym_bytes s @ r = bytes32 (st_name s) @ drop 4 (sym_bytes s @ r)"
    by (simp_all add: sym_bytes_def bytes32_def bytes16_def)
  have n: "le32 (sym_bytes s @ r) = st_name s" by (subst d(4)) simp
  have "(sym_bytes s @ r) ! 12 = st_info s" "(sym_bytes s @ r) ! 13 = st_other s"
    by (simp_all add: sym_bytes_def bytes32_def bytes16_def)
  then show ?thesis unfolding read_sym_def d(1-3) n by simp
qed

lemma length_syms_bytes [simp]: "length (syms_bytes ss) = 16 * length ss"
  by (induction ss) (simp_all add: syms_bytes_def)

lemma syms_bytes_simps [simp]:
  "syms_bytes [] = []" "syms_bytes (s # ss) = sym_bytes s @ syms_bytes ss"
  "syms_bytes (ss @ ss') = syms_bytes ss @ syms_bytes ss'"
  by (simp_all add: syms_bytes_def)

lemma drop_syms_bytes: "drop (16 * k) (syms_bytes ss) = syms_bytes (drop k ss)"
proof (induction ss arbitrary: k)
  case (Cons s ss)
  show ?case using Cons.IH by (cases k) (simp_all add: drop_append)
qed simp

lemma take_syms_bytes: "take (16 * k) (syms_bytes ss) = syms_bytes (take k ss)"
proof (induction ss arbitrary: k)
  case (Cons s ss)
  show ?case using Cons.IH by (cases k) (simp_all add: take_append)
qed simp

lemma read_sym_nth: "k < length ss \<Longrightarrow> read_sym (drop (16 * k) (syms_bytes ss)) = ss ! k"
  by (simp add: drop_syms_bytes Cons_nth_drop_Suc [symmetric])

lemma read_syms_ok: "n \<le> length ss \<Longrightarrow> read_syms n (syms_bytes ss) = Inr (take n ss)"
  by (auto simp: read_syms_def ELFSH_SYMTAB_ENTRY_SIZE_def read_sym_nth intro: nth_equalityI)

lemma poke_sym: "k < length ss \<Longrightarrow> poke (16 * k) (sym_bytes s) (syms_bytes ss) = Inr (syms_bytes (ss[k := s]))"
proof -
  assume k: "k < length ss"
  have "drop (16 * k + 16) (syms_bytes ss) = syms_bytes (drop (Suc k) ss)"
    using drop_syms_bytes [of "Suc k" ss] by (simp add: add.commute)
  then show ?thesis using k by (simp add: poke_def take_syms_bytes upd_conv_take_nth_drop)
qed

lemma poke_syms: "length ss' = length ss \<Longrightarrow> poke 0 (syms_bytes ss') (syms_bytes ss) = Inr (syms_bytes ss')"
  by (simp add: poke_def)

text \<open>Strings in a string table.\<close>

lemma unat_of_char [simp]: "unat (of_char c :: u_char) = of_char c"
proof -
  have "unat (word_of_nat (of_char c) :: u_char) = of_char c"
    using nat_of_char_less_256 [of c] by (simp add: unsigned_of_nat take_bit_nat_eq_self)
  then show ?thesis by (simp only: of_nat_of_char)
qed

lemma byte_of_char_eq: "(of_char c :: u_char) = of_char c' \<longleftrightarrow> c = c'"
  by (metis unat_of_char of_char_eq_iff)

lemma str_bytes_eq [simp]: "str_bytes s = str_bytes s' \<longleftrightarrow> s = s'"
  unfolding str_bytes_def by (rule inj_map_eq_map) (simp add: inj_def byte_of_char_eq)

lemma bytes_str_bytes [simp]: "bytes_str (str_bytes s) = s"
  by (simp add: bytes_str_def str_bytes_def comp_def)

subsection \<open>Well-formed tables\<close>

text \<open>An object whose symbol table holds the symbols \<open>ss\<close>, in section \<open>i\<close>, with their names in
  the bytes \<open>t\<close> of the string table in section \<open>j\<close>; and one whose dynamic symbols, if it has
  any, are \<open>ds\<close>.\<close>

definition name_at :: "u_char list \<Rightarrow> elfsh_Sym \<Rightarrow> u_char list" where
  "name_at t s = takeWhile (\<lambda>b. b \<noteq> 0) (drop (unat (st_name s)) t)"

definition strings_ok :: "u_char list \<Rightarrow> elfsh_Sym list \<Rightarrow> bool" where
  "strings_ok t ss \<longleftrightarrow> t \<noteq> [] \<and> last t = 0 \<and> (\<forall>s\<in>set ss. unat (st_name s) < length t)"

definition holds :: "elfshsect_t \<Rightarrow> u_char list \<Rightarrow> bool" where
  "holds s d \<longleftrightarrow> sect_data s = Some d \<and> sh_size s = word_of_nat (length d) \<and> length d < 2 ^ 31"

definition elf_tables :: "elfshobj_t \<Rightarrow> nat \<Rightarrow> nat \<Rightarrow> elfsh_Sym list \<Rightarrow> u_char list \<Rightarrow> bool" where
  "elf_tables ob i j ss t \<longleftrightarrow>
     secthash ob ELFSH_SECTION_SYMTAB = Some i \<and> secthash ob ELFSH_SECTION_STRTAB = Some j \<and> i \<noteq> j \<and>
     i < length (sectlist ob) \<and> j < length (sectlist ob) \<and>
     sh_type (sectlist ob ! i) = SHT_SYMTAB \<and> sh_addr (sectlist ob ! i) = 0 \<and> sh_addr (sectlist ob ! j) = 0 \<and>
     holds (sectlist ob ! i) (syms_bytes ss) \<and> curend (sectlist ob ! i) = sh_size (sectlist ob ! i) \<and>
     holds (sectlist ob ! j) t \<and> curend (sectlist ob ! j) = sh_size (sectlist ob ! j) \<and> strings_ok t ss"

definition dyn_tables :: "elfshobj_t \<Rightarrow> nat \<Rightarrow> nat \<Rightarrow> elfsh_Sym list \<Rightarrow> u_char list \<Rightarrow> bool" where
  "dyn_tables ob i j ds dt \<longleftrightarrow>
     (case secthash ob ELFSH_SECTION_DYNSYM of
        None \<Rightarrow> ds = []
      | Some k \<Rightarrow> (case secthash ob ELFSH_SECTION_DYNSTR of
          None \<Rightarrow> False
        | Some l \<Rightarrow> distinct [i, j, k, l] \<and> k < length (sectlist ob) \<and> l < length (sectlist ob) \<and>
            holds (sectlist ob ! k) (syms_bytes ds) \<and> curend (sectlist ob ! k) \<in> {0, sh_size (sectlist ob ! k)} \<and>
            holds (sectlist ob ! l) dt \<and> strings_ok dt ds))"

lemma cstring_ok: "strings_ok t ss \<Longrightarrow> s \<in> set ss \<Longrightarrow> cstring (unat (st_name s)) t = Inr (name_at t s)"
proof -
  assume a: "strings_ok t ss" "s \<in> set ss"
  then have n: "unat (st_name s) < length t" "last t = 0" by (simp_all add: strings_ok_def)
  then have "last (drop (unat (st_name s)) t) = 0" "drop (unat (st_name s)) t \<noteq> []" by simp_all
  then have "0 \<in> set (drop (unat (st_name s)) t)" by (metis last_in_set)
  then show ?thesis by (simp add: cstring_def name_at_def)
qed

lemma holds_size: "holds s d \<Longrightarrow> unat (sh_size s) = length d"
  by (auto simp: holds_def unsigned_of_nat take_bit_nat_eq_self)

lemma elf_tablesD:
  assumes "elf_tables ob i j ss t"
  shows "get_sect ob ELFSH_SECTION_SYMTAB = Inr (i, sectlist ob ! i)"
    "get_sect ob ELFSH_SECTION_STRTAB = Inr (j, sectlist ob ! j)"
    "elfsh_get_symtab ob = Inr (Some (syms_bytes ss), length ss)"
  using assms holds_size [of "sectlist ob ! i" "syms_bytes ss"]
  by (auto simp: elf_tables_def get_sect_def elfsh_get_symtab_def ELFSH_SYMTAB_ENTRY_SIZE_def) (simp add: holds_def)

lemma tab_syms_ok [simp]: "tab_syms (Some (syms_bytes ss), length ss) = Inr ss" "tab_syms (None, n) = Inr []"
  by (simp_all add: tab_syms_def read_syms_ok)

lemma plus_funs [simp]: "(+) (0 :: nat) = (\<lambda>k. k)" "(+) (Suc n) = (\<lambda>k. Suc (n + k))"
  by auto

lemma find_name_first:
  assumes "\<forall>s\<in>set ss. name_of s = Inr (nm s)"
  shows "find_name name_of x n ss = Inr (map_option (\<lambda>k. n + k) (find_index (\<lambda>s. nm s = x) ss))"
  using assms by (induction ss arbitrary: n) (auto simp: option.map_comp comp_def)

lemma find_index_less: "find_index p xs = Some k \<Longrightarrow> k < length xs \<and> p (xs ! k)"
  by (induction xs arbitrary: k) (auto split: if_splits)

lemma find_index_None: "find_index p xs = None \<longleftrightarrow> (\<forall>x\<in>set xs. \<not> p x)"
  by (induction xs) auto

lemma find_index_append:
  "find_index p (xs @ ys) = (case find_index p xs of Some k \<Rightarrow> Some k | None \<Rightarrow> map_option (\<lambda>k. length xs + k) (find_index p ys))"
  by (induction xs) (auto simp: option.map_comp comp_def option.map_ident split: option.splits)

lemma symbol_name_ok:
  assumes "elf_tables ob i j ss t" "s \<in> set ss"
  shows "elfsh_get_symbol_name ob s = Inr (name_at t s)"
proof -
  have n: "unat (st_name s) < length t" "length t < 2 ^ 31" "sh_size (sectlist ob ! j) = word_of_nat (length t)"
    "sect_data (sectlist ob ! j) = Some t" "strings_ok t ss"
    using assms by (auto simp: elf_tables_def strings_ok_def holds_def)
  then have "\<not> st_name s > word_of_nat (length t)"
    by (simp add: word_less_nat_alt unsigned_of_nat take_bit_nat_eq_self)
  then show ?thesis using n elf_tablesD(2) [OF assms(1)] cstring_ok [OF n(5) assms(2)]
    by (simp add: elfsh_get_symbol_name_def)
qed

lemma symbol_by_name_ok:
  assumes "elf_tables ob i j ss t"
  shows "elfsh_get_symbol_by_name ob x = Inr (find_index (\<lambda>s. name_at t s = str_bytes x) ss)"
  using elf_tablesD(3) [OF assms] find_name_first [of ss "elfsh_get_symbol_name ob" "name_at t"]
    symbol_name_ok [OF assms] by (simp add: elfsh_get_symbol_by_name_def option.map_ident)

lemma dynsymbol_by_name_ok:
  assumes "dyn_tables ob i j ds dt"
  shows "elfsh_get_dynsymbol_by_name ob x = Inr (find_index (\<lambda>s. name_at dt s = str_bytes x) ds)"
proof (cases "secthash ob ELFSH_SECTION_DYNSYM")
  case None
  then show ?thesis using assms by (simp add: dyn_tables_def elfsh_get_dynsymbol_by_name_def elfsh_get_dynsymtab_def)
next
  case (Some k)
  then obtain l where l: "secthash ob ELFSH_SECTION_DYNSTR = Some l" "k < length (sectlist ob)" "l < length (sectlist ob)"
    "holds (sectlist ob ! k) (syms_bytes ds)" "curend (sectlist ob ! k) \<in> {0, sh_size (sectlist ob ! k)}"
    "holds (sectlist ob ! l) dt" "strings_ok dt ds"
    using assms by (auto simp: dyn_tables_def split: option.splits)
  have tab: "elfsh_get_dynsymtab ob = Inr (Some (syms_bytes ds), length ds)"
    using Some l(1-5) holds_size [OF l(4)]
    by (auto simp: elfsh_get_dynsymtab_def get_sect_def ELFSH_SYMTAB_ENTRY_SIZE_def holds_def)
  have "elfsh_get_dynsymbol_name ob s = Inr (name_at dt s)" if "s \<in> set ds" for s
    using l that cstring_ok [of dt ds s] by (simp add: elfsh_get_dynsymbol_name_def get_sect_def the_data_def holds_def)
  then show ?thesis using tab find_name_first [of ds "elfsh_get_dynsymbol_name ob" "name_at dt"]
    by (simp add: elfsh_get_dynsymbol_by_name_def option.map_ident)
qed

subsection \<open>Growth of a section\<close>

text \<open>What an append leaves alone: everything but file offsets.\<close>

definition core :: "elfshsect_t \<Rightarrow> elfshsect_t" where
  "core s = s\<lparr>sh_offset := 0\<rparr>"

lemma core_sel [simp]:
  "sh_type (core s) = sh_type s" "sh_addr (core s) = sh_addr s" "sh_size (core s) = sh_size s"
  "sect_data (core s) = sect_data s" "curend (core s) = curend s" "altdata (core s) = altdata s"
  "terdata (core s) = terdata s" "runtime (core s) = runtime s" "sindex (core s) = sindex s"
  "sect_name (core s) = sect_name s"
  by (simp_all add: core_def)

lemma core_eqD:
  assumes "core s = core s'"
  shows "sh_type s = sh_type s'" "sh_addr s = sh_addr s'" "sh_size s = sh_size s'" "sect_data s = sect_data s'"
    "curend s = curend s'" "altdata s = altdata s'" "sect_name s = sect_name s'" "sindex s = sindex s'"
  using assms by (metis core_sel)+

definition same_core :: "nat \<Rightarrow> elfshobj_t \<Rightarrow> elfshobj_t \<Rightarrow> bool" where
  "same_core i ob ob' \<longleftrightarrow> secthash ob' = secthash ob \<and> solaris ob' = solaris ob \<and>
     length (sectlist ob') = length (sectlist ob) \<and>
     (\<forall>k<length (sectlist ob). k \<noteq> i \<longrightarrow> core (sectlist ob' ! k) = core (sectlist ob ! k))"

lemma upd_sect_sel [simp]:
  "secthash (upd_sect i f ob) = secthash ob" "solaris (upd_sect i f ob) = solaris ob"
  "length (sectlist (upd_sect i f ob)) = length (sectlist ob)"
  "sectlist (upd_sect i f ob) ! k = (if k = i \<and> i < length (sectlist ob) then f (sectlist ob ! i) else sectlist ob ! k)"
  by (auto simp: upd_sect_def nth_list_update not_less list_update_beyond)

lemma upd_same_core [simp]: "same_core i ob (upd_sect i f ob)"
  by (simp add: same_core_def)

lemma shift_sections_core:
  assumes "i < length (sectlist ob)" "sh_addr (sectlist ob ! i) = 0"
  shows "secthash (shift_sections i len ob) = secthash ob" "solaris (shift_sections i len ob) = solaris ob"
    "length (sectlist (shift_sections i len ob)) = length (sectlist ob)"
    "k < length (sectlist ob) \<Longrightarrow> core (sectlist (shift_sections i len ob) ! k) = core (sectlist ob ! k)"
  using assms by (auto simp: shift_sections_def Let_def nth_append shift_next_def core_def min_def
      not_less Suc_le_eq add.commute)

lemma append_grows:
  assumes "i < length (sectlist ob)" "holds (sectlist ob ! i) d" "curend (sectlist ob ! i) = sh_size (sectlist ob ! i)"
    "sh_addr (sectlist ob ! i) = 0" "input \<noteq> []" "length d + length input < 2 ^ 31"
  shows "\<exists>ob'. elfsh_append_data_to_section i input ob = Inr (int (length d), ob') \<and> same_core i ob ob' \<and>
    core (sectlist ob' ! i) = core ((sectlist ob ! i)\<lparr>sect_data := Some (d @ input),
      sh_size := word_of_nat (length (d @ input)), curend := word_of_nat (length (d @ input))\<rparr>)"
proof -
  let ?s = "sectlist ob ! i" and ?len = "word_of_nat (length input) :: u_int"
  let ?s' = "?s\<lparr>sect_data := Some (d @ input), sh_size := word_of_nat (length (d @ input)), curend := word_of_nat (length (d @ input))\<rparr>"
  have h: "sect_data ?s = Some d" "sh_size ?s = word_of_nat (length d)" "length d < 2 ^ 31" using assms(2) by (auto simp: holds_def)
  have grow: "sh_size ?s < sh_size ?s + ?len"
    using h assms(5,6) by (simp add: word_less_nat_alt unsigned_of_nat take_bit_nat_eq_self flip: of_nat_add)
  have "sint (word_of_nat (length d) :: u_int) = int (length d)"
    using h by (simp add: signed_of_nat signed_take_bit_int_eq_self)
  moreover have "grown_data ?s input = Inr (d @ input)"
    using h holds_size [OF assms(2)] by (simp add: grown_data_def)
  moreover define ob1 where "ob1 = upd_sect i (\<lambda>s. s\<lparr>sect_data := Some (d @ input), sh_size := sh_size s + ?len, curend := curend s + ?len\<rparr>) ob"
  have o1: "sectlist ob1 ! i = ?s'" "same_core i ob ob1" "i < length (sectlist ob1)" "sh_addr (sectlist ob1 ! i) = 0"
    using assms(1,3,4) h(2) by (simp_all add: ob1_def)
  ultimately have "elfsh_append_data_to_section i input ob = Inr (int (length d), shift_sections i ?len ob1)"
    using grow assms(3-5) h(2) by (simp add: elfsh_append_data_to_section_def Let_def ob1_def)
  moreover have "same_core i ob (shift_sections i ?len ob1)" "core (sectlist (shift_sections i ?len ob1) ! i) = core ?s'"
    using o1 shift_sections_core [OF o1(3,4)] by (auto simp: same_core_def)
  ultimately show ?thesis by blast
qed

subsection \<open>The symbols that mark an end\<close>

definition raised :: "elfsh_Sym \<Rightarrow> nat option \<Rightarrow> elfsh_Sym list \<Rightarrow> elfsh_Sym list" where
  "raised sy q ss = (case q of
     None \<Rightarrow> ss
   | Some k \<Rightarrow> if st_value sy + st_size sy > st_value (ss ! k)
               then ss[k := (ss ! k)\<lparr>st_value := st_value sy + st_size sy\<rparr>] else ss)"

lemma raised_length [simp]: "length (raised sy q ss) = length ss"
  by (simp add: raised_def split: option.splits)

lemma raised_names: "(\<And>k. q = Some k \<Longrightarrow> k < length ss) \<Longrightarrow> map st_name (raised sy q ss) = map st_name ss"
  by (auto simp: raised_def map_update intro!: nth_equalityI split: option.splits)
    (metis nth_list_update nth_map length_map list_update_id)

lemma raised_strings:
  assumes "\<And>k. q = Some k \<Longrightarrow> k < length ss"
  shows "strings_ok t (raised sy q ss) \<longleftrightarrow> strings_ok t ss"
proof -
  have "st_name ` set (raised sy q ss) = st_name ` set ss"
    using raised_names [OF assms] by (metis list.set_map)
  then show ?thesis unfolding strings_ok_def by (metis (no_types, lifting) imageE imageI)
qed

lemma raise_end_ok:
  assumes "secthash ob sid = Some i" "i < length (sectlist ob)" "sect_data (sectlist ob ! i) = Some (syms_bytes ss)"
    "\<And>k. q = Some k \<Longrightarrow> k < length ss"
  shows "raise_end sy sid q ob = Inr (upd_sect i (\<lambda>s. s\<lparr>sect_data := Some (syms_bytes (raised sy q ss))\<rparr>) ob)"
proof -
  have same: "upd_sect i (\<lambda>s. s\<lparr>sect_data := Some (syms_bytes ss)\<rparr>) ob = ob"
    using assms(2,3) by (simp add: upd_sect_def) (metis elfshsect_t.surjective elfshsect_t.update_convs(8) elfshobj_t.surjective elfshobj_t.update_convs(7) list_update_id)
  show ?thesis
  proof (cases q)
    case None
    then show ?thesis using same by (simp add: raise_end_def raised_def)
  next
    case (Some k)
    then have k: "k < length ss" using assms(4) by simp
    show ?thesis using assms(1-3) same read_sym_nth [OF k] poke_sym [OF k] Some
      by (simp add: raise_end_def raised_def get_sect_def the_data_def ELFSH_SYMTAB_ENTRY_SIZE_def Let_def)
  qed
qed

lemma raised_find_strings: "strings_ok t (raised sy (find_index p ss) ss) \<longleftrightarrow> strings_ok t ss"
  by (rule raised_strings) (simp add: find_index_less)

lemma raise_sym:
  assumes "elf_tables ob i j ss t" "dyn_tables ob i j ds dt"
  obtains ob' where "raise_end sy ELFSH_SECTION_SYMTAB (find_index p ss) ob = Inr ob'" "elf_tables ob' i j (raised sy (find_index p ss) ss) t"
    "dyn_tables ob' i j ds dt"
proof
  let ?ob = "upd_sect i (\<lambda>s. s\<lparr>sect_data := Some (syms_bytes (raised sy (find_index p ss) ss))\<rparr>) ob"
  show "raise_end sy ELFSH_SECTION_SYMTAB (find_index p ss) ob = Inr ?ob"
    using assms by (intro raise_end_ok) (auto simp: elf_tables_def holds_def dest: find_index_less)
  show "elf_tables ?ob i j (raised sy (find_index p ss) ss) t"
    using assms(1) raised_find_strings by (auto simp: elf_tables_def holds_def)
  show "dyn_tables ?ob i j ds dt"
    using assms(2) by (auto simp: dyn_tables_def split: option.splits)
qed

lemma raise_dyn:
  assumes "elf_tables ob i j ss t" "dyn_tables ob i j ds dt"
  obtains ob' ds' where "raise_end sy ELFSH_SECTION_DYNSYM (find_index p ds) ob = Inr ob'" "elf_tables ob' i j ss t"
    "dyn_tables ob' i j ds' dt"
proof (cases "secthash ob ELFSH_SECTION_DYNSYM")
  case None
  then have "ds = []" using assms(2) by (simp add: dyn_tables_def)
  then show ?thesis using that assms(1,2) by (simp add: raise_end_def)
next
  case (Some k)
  let ?ob = "upd_sect k (\<lambda>s. s\<lparr>sect_data := Some (syms_bytes (raised sy (find_index p ds) ds))\<rparr>) ob"
  have k: "k < length (sectlist ob)" "sect_data (sectlist ob ! k) = Some (syms_bytes ds)" "k \<noteq> i" "k \<noteq> j"
    using Some assms(2) by (auto simp: dyn_tables_def holds_def split: option.splits)
  have "raise_end sy ELFSH_SECTION_DYNSYM (find_index p ds) ob = Inr ?ob"
    using Some k by (intro raise_end_ok) (auto dest: find_index_less)
  moreover have "elf_tables ?ob i j ss t" using assms(1) k by (auto simp: elf_tables_def)
  moreover have "dyn_tables ?ob i j (raised sy (find_index p ds) ds) dt"
    using assms(2) Some raised_find_strings by (auto simp: dyn_tables_def holds_def split: option.splits)
  ultimately show ?thesis using that by blast
qed

definition end_raised :: "elfsh_Sym \<Rightarrow> u_char list \<Rightarrow> elfsh_Sym list \<Rightarrow> elfsh_Sym list" where
  "end_raised sy t ss = raised sy (find_index (\<lambda>s. name_at t s = str_bytes ''_end'') ss) ss"

lemma usualsyms_ok:
  assumes "elf_tables ob i j ss t" "dyn_tables ob i j ds dt"
  obtains ob' ds' where "elfsh_shift_usualsyms sy ob = Inr ob'" "elf_tables ob' i j (end_raised sy t ss) t"
    "dyn_tables ob' i j ds' dt"
proof -
  let ?dyn = "\<lambda>x ds. find_index (\<lambda>s. name_at dt s = str_bytes x) ds"
  obtain ob1 where o1: "raise_end sy ELFSH_SECTION_SYMTAB (find_index (\<lambda>s. name_at t s = str_bytes ''_end'') ss) ob = Inr ob1"
    "elf_tables ob1 i j (end_raised sy t ss) t" "dyn_tables ob1 i j ds dt"
    unfolding end_raised_def by (rule raise_sym [OF assms])
  obtain ob2 ds2 where o2: "raise_end sy ELFSH_SECTION_DYNSYM (?dyn ''_end'' ds) ob1 = Inr ob2"
    "elf_tables ob2 i j (end_raised sy t ss) t" "dyn_tables ob2 i j ds2 dt"
    by (rule raise_dyn [OF o1(2,3)])
  obtain ob3 ds3 where o3: "raise_end sy ELFSH_SECTION_DYNSYM (?dyn ''_END_'' ds2) ob2 = Inr ob3"
    "elf_tables ob3 i j (end_raised sy t ss) t" "dyn_tables ob3 i j ds3 dt"
    by (rule raise_dyn [OF o2(2,3)])
  obtain ob4 ds4 where o4: "raise_end sy ELFSH_SECTION_DYNSYM (?dyn ''_edata'' ds3) ob3 = Inr ob4"
    "elf_tables ob4 i j (end_raised sy t ss) t" "dyn_tables ob4 i j ds4 dt"
    by (rule raise_dyn [OF o3(2,3)])
  have "elfsh_shift_usualsyms sy ob = (if solaris ob3 then Inr ob4 else Inr ob3)"
    using o1(1) o2(1) o3(1) o4(1) by (simp add: elfsh_shift_usualsyms_def symbol_by_name_ok [OF assms(1)]
        dynsymbol_by_name_ok [OF o1(3)] dynsymbol_by_name_ok [OF o2(3)] dynsymbol_by_name_ok [OF o3(3)])
  then show ?thesis using that o3(2,3) o4(2,3) by (cases "solaris ob3") simp_all
qed

subsection \<open>Insertion\<close>

lemma same_core_nth: "same_core i ob ob' \<Longrightarrow> k < length (sectlist ob) \<Longrightarrow> k \<noteq> i \<Longrightarrow> core (sectlist ob' ! k) = core (sectlist ob ! k)"
  by (simp add: same_core_def)

lemma holds_core: "core s = core s' \<Longrightarrow> holds s d \<longleftrightarrow> holds s' d"
  using core_eqD(3,4) [of s s'] by (simp add: holds_def)

lemma dyn_tables_core:
  assumes "same_core k ob ob'" "k \<in> {i, j}" "dyn_tables ob i j ds dt"
  shows "dyn_tables ob' i j ds dt"
proof (cases "secthash ob ELFSH_SECTION_DYNSYM")
  case (Some x)
  then obtain y where y: "secthash ob ELFSH_SECTION_DYNSTR = Some y" "distinct [i, j, x, y]" "x < length (sectlist ob)"
    "y < length (sectlist ob)" "holds (sectlist ob ! x) (syms_bytes ds)" "curend (sectlist ob ! x) \<in> {0, sh_size (sectlist ob ! x)}"
    "holds (sectlist ob ! y) dt" "strings_ok dt ds"
    using assms(3) by (auto simp: dyn_tables_def split: option.splits)
  then have c: "core (sectlist ob' ! x) = core (sectlist ob ! x)" "core (sectlist ob' ! y) = core (sectlist ob ! y)"
    using assms(1,2) same_core_nth by auto
  have "secthash ob' = secthash ob" "length (sectlist ob') = length (sectlist ob)"
    using assms(1) by (simp_all add: same_core_def)
  then show ?thesis using y Some holds_core [OF c(1)] holds_core [OF c(2)] core_eqD(3,5) [OF c(1)]
    by (simp add: dyn_tables_def)
qed (use assms in \<open>simp add: dyn_tables_def same_core_def\<close>)

lemma strings_ok_append: "strings_ok t ss \<Longrightarrow> strings_ok (t @ bs @ [0]) ss"
  by (auto simp: strings_ok_def)

lemma append_string:
  assumes "elf_tables ob i j ss t" "dyn_tables ob i j ds dt" "length t + length bs + 1 < 2 ^ 31"
  obtains ob' where "elfsh_append_data_to_section j (bs @ [0]) ob = Inr (int (length t), ob')"
    "elf_tables ob' i j ss (t @ bs @ [0])" "dyn_tables ob' i j ds dt"
proof -
  have j: "j < length (sectlist ob)" "holds (sectlist ob ! j) t" "curend (sectlist ob ! j) = sh_size (sectlist ob ! j)"
    "sh_addr (sectlist ob ! j) = 0" "i \<noteq> j" "i < length (sectlist ob)" "strings_ok t ss"
    using assms(1) by (simp_all add: elf_tables_def)
  obtain ob' where o: "elfsh_append_data_to_section j (bs @ [0]) ob = Inr (int (length t), ob')" "same_core j ob ob'"
    "core (sectlist ob' ! j) = core ((sectlist ob ! j)\<lparr>sect_data := Some (t @ bs @ [0]),
      sh_size := word_of_nat (length (t @ bs @ [0])), curend := word_of_nat (length (t @ bs @ [0]))\<rparr>)"
    using append_grows [OF j(1-4), of "bs @ [0]"] assms(3) by auto
  note ci = same_core_nth [OF o(2) j(6) j(5)]
  have "elf_tables ob' i j ss (t @ bs @ [0])"
    using assms(1,3) o(2) core_eqD [OF o(3)] core_eqD [OF ci] holds_core [OF ci] strings_ok_append [OF j(7)]
    by (auto simp: elf_tables_def same_core_def holds_def)
  with o(1) dyn_tables_core [OF o(2) _ assms(2)] show ?thesis using that by simp
qed

lemma append_symbol:
  assumes "elf_tables ob i j ss t" "dyn_tables ob i j ds dt" "16 * Suc (length ss) < 2 ^ 31" "unat (st_name y) < length t"
  obtains ob' where "elfsh_append_data_to_section i (sym_bytes y) ob = Inr (int (16 * length ss), ob')"
    "elf_tables ob' i j (ss @ [y]) t" "dyn_tables ob' i j ds dt"
proof -
  have i: "i < length (sectlist ob)" "holds (sectlist ob ! i) (syms_bytes ss)" "curend (sectlist ob ! i) = sh_size (sectlist ob ! i)"
    "sh_addr (sectlist ob ! i) = 0" "j \<noteq> i" "j < length (sectlist ob)" "strings_ok t ss"
    using assms(1) by (simp_all add: elf_tables_def)
  have ne: "sym_bytes y \<noteq> []" by (simp add: sym_bytes_def bytes32_def)
  obtain ob' where o: "elfsh_append_data_to_section i (sym_bytes y) ob = Inr (int (16 * length ss), ob')" "same_core i ob ob'"
    "core (sectlist ob' ! i) = core ((sectlist ob ! i)\<lparr>sect_data := Some (syms_bytes ss @ sym_bytes y),
      sh_size := word_of_nat (length (syms_bytes ss @ sym_bytes y)), curend := word_of_nat (length (syms_bytes ss @ sym_bytes y))\<rparr>)"
    using append_grows [OF i(1-4) ne] assms(3) by auto
  note cj = same_core_nth [OF o(2) i(6) i(5)]
  have "elf_tables ob' i j (ss @ [y]) t"
    using assms o(2) core_eqD [OF o(3)] core_eqD [OF cj] holds_core [OF cj] i(7)
    by (auto simp: elf_tables_def same_core_def holds_def strings_ok_def)
  with o(1) dyn_tables_core [OF o(2) _ assms(2)] show ?thesis using that by simp
qed

lemma insert_existing:
  assumes "elf_tables ob i j ss t" "find_index (\<lambda>s. name_at t s = str_bytes nm) ss = Some k" "st_value (ss ! k) = st_value sy"
  shows "elfsh_insert_symbol i sy (Some nm) ob = Inr (int k, ob)"
proof -
  have "k < length ss" using assms(2) find_index_less by blast
  then show ?thesis using assms symbol_by_name_ok [OF assms(1)] elf_tablesD(1) [OF assms(1)]
    by (simp add: elfsh_insert_symbol_def elf_tables_def holds_def the_data_def ELFSH_SYMTAB_ENTRY_SIZE_def read_sym_nth)
qed

lemma insert_new:
  assumes "elf_tables ob i j ss t" "dyn_tables ob i j ds dt" "nm \<noteq> []"
    "length t + length nm + 1 < 2 ^ 31" "16 * Suc (length ss) < 2 ^ 31"
    "\<And>k. find_index (\<lambda>s. name_at t s = str_bytes nm) ss = Some k \<Longrightarrow> st_value (ss ! k) \<noteq> st_value sy"
  obtains ob' ds' where "elfsh_insert_symbol i sy (Some nm) ob = Inr (int (length t), ob')"
    "elf_tables ob' i j (end_raised sy t ss @ [sy\<lparr>st_name := word_of_nat (length t)\<rparr>]) (t @ str_bytes nm @ [0])"
    "dyn_tables ob' i j ds' dt"
proof -
  let ?y = "sy\<lparr>st_name := word_of_nat (length t)\<rparr>"
  obtain ob1 ds1 where o1: "elfsh_shift_usualsyms sy ob = Inr ob1" "elf_tables ob1 i j (end_raised sy t ss) t" "dyn_tables ob1 i j ds1 dt"
    by (rule usualsyms_ok [OF assms(1,2)])
  have len: "length (str_bytes nm) = length nm" by (simp add: str_bytes_def)
  obtain ob2 where o2: "elfsh_append_data_to_section j (str_bytes nm @ [0]) ob1 = Inr (int (length t), ob2)"
    "elf_tables ob2 i j (end_raised sy t ss) (t @ str_bytes nm @ [0])" "dyn_tables ob2 i j ds1 dt"
    by (rule append_string [OF o1(2,3), of "str_bytes nm"]) (use assms(4) len in simp_all)
  have y: "unat (st_name ?y) < length (t @ str_bytes nm @ [0])"
    using assms(4) by (simp add: unsigned_of_nat take_bit_nat_eq_self)
  obtain ob3 where o3: "elfsh_append_data_to_section i (sym_bytes ?y) ob2 = Inr (int (16 * length (end_raised sy t ss)), ob3)"
    "elf_tables ob3 i j (end_raised sy t ss @ [?y]) (t @ str_bytes nm @ [0])" "dyn_tables ob3 i j ds1 dt"
    by (rule append_symbol [OF o2(2,3) _ y]) (use assms(5) in \<open>simp_all add: end_raised_def\<close>)
  have str: "elfsh_insert_in_strtab nm ob1 = Inr (int (length t), ob2)"
    using o2(1) elf_tablesD(2) [OF o1(2)] assms(3) by (simp add: elfsh_insert_in_strtab_def)
  let ?q = "find_index (\<lambda>s. name_at t s = str_bytes nm) ss"
  have same: "(case ?q of None \<Rightarrow> Inr False | Some k \<Rightarrow>
       rbind (get_sect ob ELFSH_SECTION_SYMTAB) (\<lambda>(j, s). rbind (the_data s) (\<lambda>d.
       if st_value sy = st_value (read_sym (drop (ELFSH_SYMTAB_ENTRY_SIZE * k) d))
       then (if i = j then Inr True else Inl Fault) else Inr False))) = (Inr False :: bool elf_result)"
  proof (cases ?q)
    case (Some k)
    then have "k < length ss" using find_index_less by blast
    then show ?thesis using Some assms(1,6) elf_tablesD(1) [OF assms(1)]
      by (simp add: elf_tables_def holds_def the_data_def ELFSH_SYMTAB_ENTRY_SIZE_def read_sym_nth)
  qed simp
  have "elfsh_insert_symbol i sy (Some nm) ob = Inr (int (length t), ob3)"
    using o1(1) str o3(1) same symbol_by_name_ok [OF assms(1)] assms(1)
    by (simp add: elfsh_insert_symbol_def elf_tables_def)
  then show ?thesis using that o3(2,3) by blast
qed

text \<open>The names of the symbols after an insertion.\<close>

lemma name_kept: "strings_ok t ss \<Longrightarrow> s \<in> set ss \<Longrightarrow> name_at (t @ u) s = name_at t s"
proof -
  assume a: "strings_ok t ss" "s \<in> set ss"
  then have n: "unat (st_name s) < length t" "last t = 0" by (simp_all add: strings_ok_def)
  then have "last (drop (unat (st_name s)) t) = 0" "drop (unat (st_name s)) t \<noteq> []" by simp_all
  then have z: "0 \<in> set (drop (unat (st_name s)) t)" by (metis last_in_set)
  show ?thesis using n z by (simp add: name_at_def)
qed

lemma name_new: "0 \<notin> set bs \<Longrightarrow> length t < 2 ^ 31 \<Longrightarrow> name_at (t @ bs @ [0]) (y\<lparr>st_name := word_of_nat (length t)\<rparr>) = bs"
  by (simp add: name_at_def unsigned_of_nat take_bit_nat_eq_self)

subsection \<open>Search by value\<close>

lemma value_scan_low:
  assumes "value_scan v n low high good ss = (low', high', good')"
  shows "snd low' \<le> snd low \<and> (\<forall>s\<in>set ss. st_value s < v \<longrightarrow> snd low' \<le> v - st_value s) \<and>
    (low' = low \<or> (\<exists>k<length ss. low' = (Some (n + k), v - st_value (ss ! k)) \<and> st_value (ss ! k) < v \<and> snd low' < snd low))"
  using assms
proof (induction ss arbitrary: n low high good)
  case (Cons s ss)
  have ex: "\<exists>k<length (s # ss). P k" if "P 0 \<or> (\<exists>k<length ss. P (Suc k))" for P
    using that by (metis Suc_less_eq length_Cons zero_less_Suc)
  show ?case
  proof (cases "st_value s < v \<and> v - st_value s < snd low")
    case True
    note IH = Cons.IH [of "Suc n" "(Some n, v - st_value s)" high good]
    show ?thesis using IH Cons.prems True
      by (intro conjI ex [of "\<lambda>k. low' = (Some (n + k), v - st_value ((s # ss) ! k)) \<and> st_value ((s # ss) ! k) < v \<and> snd low' < snd low", THEN disjI2])
        (auto intro: order_trans less_imp_le dest: order_le_less_trans)
  next
    case False
    then obtain h g where r: "value_scan v (Suc n) low h g ss = (low', high', good')"
      using Cons.prems by (auto split: if_splits)
    show ?thesis using Cons.IH [OF r] False
      by (auto simp: not_less intro!: ex intro: order_trans)
  qed
qed simp

lemma value_scan_high:
  assumes "value_scan v n low high good ss = (low', high', good')"
  shows "snd high' \<le> snd high \<and> (\<forall>s\<in>set ss. st_value s > v \<longrightarrow> snd high' \<le> st_value s - v) \<and>
    (high' = high \<or> (\<exists>k<length ss. high' = (Some (n + k), st_value (ss ! k) - v) \<and> st_value (ss ! k) > v \<and> snd high' < snd high))"
  using assms
proof (induction ss arbitrary: n low high good)
  case (Cons s ss)
  have ex: "\<exists>k<length (s # ss). P k" if "P 0 \<or> (\<exists>k<length ss. P (Suc k))" for P
    using that by (metis Suc_less_eq length_Cons zero_less_Suc)
  show ?case
  proof (cases "st_value s > v \<and> st_value s - v < snd high")
    case True
    note IH = Cons.IH [of "Suc n" low "(Some n, st_value s - v)" good]
    show ?thesis using IH Cons.prems True
      by (intro conjI ex [of "\<lambda>k. high' = (Some (n + k), st_value ((s # ss) ! k) - v) \<and> st_value ((s # ss) ! k) > v \<and> snd high' < snd high", THEN disjI2])
        (auto intro: order_trans less_imp_le dest: order_le_less_trans split: if_splits)
  next
    case False
    then obtain l g where r: "value_scan v (Suc n) l high g ss = (low', high', good')"
      using Cons.prems by (auto split: if_splits)
    show ?thesis using Cons.IH [OF r] False
      by (auto simp: not_less intro!: ex intro: order_trans)
  qed
qed simp

lemma value_scan_good:
  assumes "value_scan v n low high good ss = (low', high', good')"
  shows "(\<forall>s\<in>set ss. st_value s \<noteq> v) \<longrightarrow> good' = good"
    "(\<exists>s\<in>set ss. st_value s = v) \<longrightarrow> (\<exists>k<length ss. good' = Some (n + k) \<and> st_value (ss ! k) = v \<and>
      (\<forall>s\<in>set (drop (Suc k) ss). st_value s \<noteq> v))"
  using assms
proof (induction ss arbitrary: n low high good)
  case (Cons s ss)
  { case 1
    then show ?case using Cons.IH(1) by (auto split: if_splits)
  next
    case 2
    note scan = this
    obtain l0 l1 h0 h1 where "low = (l0, l1)" "high = (h0, h1)" by (cases low, cases high)
    note scan = scan [unfolded this]
    have "\<exists>l h. value_scan v (Suc n) l h (if st_value s = v then Some n else good) ss = (low', high', good')"
    proof (cases "st_value s" v rule: linorder_cases)
      case less
      then have "st_value s \<noteq> v" "\<not> v < st_value s" by auto
      with scan show ?thesis by (auto split: if_splits)
    next
      case equal
      with scan show ?thesis by auto
    next
      case greater
      then have "st_value s \<noteq> v" "\<not> st_value s < v" by auto
      with scan show ?thesis by (auto split: if_splits)
    qed
    then obtain l h where r: "value_scan v (Suc n) l h (if st_value s = v then Some n else good) ss = (low', high', good')"
      by blast
    show ?case
    proof (cases "\<exists>x\<in>set ss. st_value x = v")
      case True
      then obtain k where "k < length ss" "good' = Some (Suc n + k)" "st_value (ss ! k) = v"
        "\<forall>x\<in>set (drop (Suc k) ss). st_value x \<noteq> v" using Cons.IH(2) [OF r] by blast
      then show ?thesis by (intro impI exI [of _ "Suc k"]) simp
    next
      case False
      then show ?thesis using Cons.IH(1) [OF r] by (auto intro!: exI [of _ 0])
    qed }
qed simp_all

subsection \<open>Sorting\<close>

text \<open>What a comparison function promises to \<open>qsort\<close>: it orders by a key.\<close>

locale comparison =
  fixes cmp :: "'a \<Rightarrow> 'a \<Rightarrow> int" and key :: "'a \<Rightarrow> 'k::linorder"
  assumes cmp_le: "cmp x y \<le> 0 \<longleftrightarrow> key x \<le> key y"
begin

lemma set_insert_by: "set (insert_by cmp x xs) = insert x (set xs)"
  by (induction xs) auto

lemma insert_by_sorted: "sorted (map key xs) \<Longrightarrow> sorted (map key (insert_by cmp x xs))"
  by (induction xs) (auto simp: cmp_le set_insert_by not_le intro: less_imp_le order_trans)

lemma qsort_sorted: "sorted (map key (qsort cmp xs))"
  by (induction xs) (simp_all add: qsort_def insert_by_sorted)

lemma set_qsort [simp]: "set (qsort cmp xs) = set xs"
  by (induction xs) (simp_all add: qsort_def set_insert_by)

lemma length_insert_by: "length (insert_by cmp x xs) = Suc (length xs)"
  by (induction xs) auto

lemma length_qsort [simp]: "length (qsort cmp xs) = length xs"
  by (induction xs) (simp_all add: qsort_def length_insert_by)

end

interpretation by_addr: comparison addrsort_compare st_value
  by unfold_locales (auto simp: addrsort_compare_def)

interpretation by_size: comparison sizesort_compare st_size
  by unfold_locales (auto simp: sizesort_compare_def)

subsection \<open>From an address to a name\<close>

definition is_func :: "eresi_Addr \<Rightarrow> elfsh_Sym \<Rightarrow> bool" where
  "is_func v s \<longleftrightarrow> elfsh_get_symbol_type s = STT_FUNC \<and> st_value s \<le> v"

definition shown :: "u_char list \<Rightarrow> u_char list option" where
  "shown n = (if n = [] then None else Some n)"

lemma is_funcD: "is_func v s \<Longrightarrow> DUMPABLE s \<and> BESTYPE s b \<and> st_value s \<le> v"
  by (simp add: is_func_def DUMPABLE_def BESTYPE_def Let_def)

lemma reverse_scan_skip:
  assumes "\<forall>s\<in>set xs. name_of s = Inr (nm s)"
  shows "\<exists>b r f. reverse_scan name_of tab v idx best str off (xs @ ys) =
    reverse_scan name_of tab v (idx + length xs) b r f ys"
  using assms
proof (induction xs arbitrary: idx best str off)
  case (Cons s xs)
  then show ?case by simp (metis add_Suc)
qed auto

lemma reverse_scan_keep:
  assumes "\<forall>s\<in>set ys. \<not> is_func v s" "best \<noteq> 0" "is_func v (tab ! best)"
  shows "reverse_scan name_of tab v idx best str off ys = Inr (str, off)"
  using assms
proof (induction ys arbitrary: idx)
  case (Cons s ys)
  have "st_value s \<le> v \<Longrightarrow> \<not> BESTYPE s (tab ! best)"
    using Cons.prems by (auto simp: is_func_def BESTYPE_def Let_def)
  then show ?case using Cons by auto
qed simp

lemma reverse_scan_func:
  assumes "tab = xs @ f # ys" "is_func v f" "\<forall>s\<in>set ys. \<not> is_func v s" "xs \<noteq> []" "\<forall>s\<in>set tab. name_of s = Inr (nm s)"
  shows "reverse_scan name_of tab v 0 0 None off tab = Inr (shown (nm f), Some (v - st_value f))"
proof -
  have n: "\<forall>s\<in>set xs. name_of s = Inr (nm s)" "name_of f = Inr (nm f)" "tab ! length xs = f"
    using assms(1,5) by simp_all
  obtain b r g where "reverse_scan name_of tab v 0 0 None off tab = reverse_scan name_of tab v (length xs) b r g (f # ys)"
    using reverse_scan_skip [OF n(1), of tab v 0 0 None off "f # ys"] assms(1) by auto
  also have "\<dots> = reverse_scan name_of tab v (Suc (length xs)) (length xs) (shown (nm f)) (Some (v - st_value f)) ys"
    using is_funcD [OF assms(2)] n(2) by (simp add: shown_def)
  also have "\<dots> = Inr (shown (nm f), Some (v - st_value f))"
    using assms(2-4) n(3) by (intro reverse_scan_keep) simp_all
  finally show ?thesis .
qed

text \<open>The last function in a table sorted by address is the nearest, and not the first entry
  when something lies below.\<close>

lemma sorted_last_func:
  assumes "sorted (map st_value tab)" "f0 \<in> set tab" "is_func v f0" "z \<in> set tab" "st_value z < st_value f0"
  obtains xs f ys where "tab = xs @ f # ys" "is_func v f" "\<forall>s\<in>set ys. \<not> is_func v s" "xs \<noteq> []"
    "\<forall>g\<in>set tab. is_func v g \<longrightarrow> st_value g \<le> st_value f"
proof -
  obtain xs f ys where s: "tab = xs @ f # ys" "is_func v f" "\<forall>s\<in>set ys. \<not> is_func v s"
    using split_list_last_prop [of tab "is_func v"] assms(2,3) by metis
  have le: "\<forall>g\<in>set tab. is_func v g \<longrightarrow> st_value g \<le> st_value f"
    using assms(1) s by (auto simp: sorted_append)
  have "xs \<noteq> []"
  proof
    assume "xs = []"
    then have "st_value f \<le> st_value z" using assms(1,4) s(1) by auto
    then show False using le assms(2,3,5) by (metis leD order_trans)
  qed
  then show ?thesis using that s le by blast
qed

subsection \<open>Sorted copies of a well-formed table\<close>

definition with_copies :: "elfsh_Sym list \<Rightarrow> elfshsect_t \<Rightarrow> elfshsect_t" where
  "with_copies ss s = s\<lparr>altdata := Some (qsort addrsort_compare ss), terdata := Some (qsort sizesort_compare ss)\<rparr>"

lemma with_copies_sel [simp]:
  "sh_type (with_copies ss s) = sh_type s" "sh_addr (with_copies ss s) = sh_addr s" "sh_size (with_copies ss s) = sh_size s"
  "sect_data (with_copies ss s) = sect_data s" "curend (with_copies ss s) = curend s" "holds (with_copies ss s) d = holds s d"
  "altdata (with_copies ss s) = Some (qsort addrsort_compare ss)"
  by (simp_all add: with_copies_def holds_def)

lemma sync_ok:
  assumes "elf_tables ob i j ss t" "ss \<noteq> []"
  shows "elfsh_sync_sorted_symtab i ob = Inr (0, upd_sect i (with_copies ss) ob)"
proof -
  have h: "holds (sectlist ob ! i) (syms_bytes ss)" "curend (sectlist ob ! i) = sh_size (sectlist ob ! i)"
    "sh_type (sectlist ob ! i) = SHT_SYMTAB" using assms(1) by (simp_all add: elf_tables_def)
  then have "unat (curend (sectlist ob ! i)) div ELFSH_SYMTAB_ENTRY_SIZE = length ss"
    using holds_size [OF h(1)] by (simp add: ELFSH_SYMTAB_ENTRY_SIZE_def)
  then show ?thesis using h assms(2) by (simp add: elfsh_sync_sorted_symtab_def holds_def the_data_def read_syms_ok
      elfsh_sort_symtab_def with_copies_def [abs_def] Let_def)
qed

lemma copies_tables: "elf_tables ob i j ss t \<Longrightarrow> elf_tables (upd_sect i (with_copies ss') ob) i j ss t"
  by (auto simp: elf_tables_def)

lemma reverse_func:
  assumes "elf_tables ob i j ss t" "altdata (sectlist ob ! i) = Some (qsort addrsort_compare ss)"
    "v \<noteq> 0" "v \<noteq> 0xFFFFFFFF" "f0 \<in> set ss" "is_func v f0" "z \<in> set ss" "st_value z < st_value f0"
  obtains f where "f \<in> set ss" "is_func v f" "\<forall>g\<in>set ss. is_func v g \<longrightarrow> st_value g \<le> st_value f"
    "\<forall>off. elfsh_reverse_symbol ob v off = Inr (shown (name_at t f), Some (v - st_value f), ob)"
proof -
  let ?tab = "qsort addrsort_compare ss"
  have tab: "sorted (map st_value ?tab)" "f0 \<in> set ?tab" "z \<in> set ?tab"
    using by_addr.qsort_sorted by_addr.set_qsort assms(5,7) by auto
  obtain xs f ys where s: "?tab = xs @ f # ys" "is_func v f" "\<forall>s\<in>set ys. \<not> is_func v s" "xs \<noteq> []"
    "\<forall>g\<in>set ?tab. is_func v g \<longrightarrow> st_value g \<le> st_value f"
    by (rule sorted_last_func [OF tab(1,2) assms(6) tab(3) assms(8)])
  have n: "\<forall>s\<in>set ?tab. elfsh_get_symbol_name ob s = Inr (name_at t s)"
    using symbol_name_ok [OF assms(1)] by simp
  have "elfsh_reverse_symbol ob v off = Inr (shown (name_at t f), Some (v - st_value f), ob)" for off
    using elf_tablesD [OF assms(1)] assms(2-4) reverse_scan_func [OF s(1-4) n]
    by (simp add: elfsh_reverse_symbol_def synced_def)
  moreover have "f \<in> set ss" using s(1) by_addr.set_qsort [of ss] by (metis in_set_conv_decomp)
  ultimately show ?thesis using that s(2,5) by simp
qed

subsection \<open>Removal\<close>

definition remove_nth :: "nat \<Rightarrow> 'a list \<Rightarrow> 'a list" where
  "remove_nth k xs = take k xs @ drop (Suc k) xs"

lemma remove_bytes:
  assumes "k < length ss" "d = syms_bytes ss"
  shows "take (16 * (length ss - 1)) (take (16 * k) d @ take (16 * (length ss - 1 - k)) (drop (16 * k + 16) d) @ r) =
    syms_bytes (remove_nth k ss)"
proof -
  have "drop (16 * k + 16) d = syms_bytes (drop (Suc k) ss)"
    using drop_syms_bytes [of "Suc k" ss] assms(2) by (simp add: add.commute)
  then show ?thesis using assms by (simp add: take_syms_bytes remove_nth_def)
qed

lemma remove_ok:
  assumes "elf_tables ob i j ss t" "find_index (\<lambda>s. name_at t s = str_bytes nm) ss = Some k"
  shows "if length ss \<le> k + 2 then \<exists>ob'. elfsh_remove_symbol i nm ob = Inr (0, ob') \<and> elf_tables ob' i j (remove_nth k ss) t
    else elfsh_remove_symbol i nm ob = Inl Overlap"
proof -
  have k: "k < length ss" using assms(2) find_index_less by blast
  let ?s = "sectlist ob ! i" and ?n = "length ss - 1"
  have h: "holds ?s (syms_bytes ss)" "sect_data ?s = Some (syms_bytes ss)" "sh_size ?s = word_of_nat (16 * length ss)"
    "16 * length ss < 2 ^ 31" "curend ?s = sh_size ?s" "i < length (sectlist ob)"
    using assms(1) by (auto simp: elf_tables_def holds_def)
  have len: "length ss = Suc ?n" using k by simp
  have size: "sh_size ?s - 16 = word_of_nat (16 * ?n)" unfolding h(3) by (subst len) simp
  have moved: "unat (sh_size ?s - 16 - word_of_nat (ELFSH_SYMTAB_ENTRY_SIZE * k)) = 16 * (?n - k)"
  proof -
    have "word_of_nat (16 * ?n) - word_of_nat (16 * k) = (word_of_nat (16 * ?n - 16 * k) :: u_int)"
      using k by (intro of_nat_diff [symmetric]) auto
    moreover have "16 * ?n - 16 * k < 2 ^ 32" using h(4) by simp
    ultimately show ?thesis
      unfolding size ELFSH_SYMTAB_ENTRY_SIZE_def by (simp only: unsigned_of_nat) (simp add: take_bit_nat_eq_self right_diff_distrib')
  qed
  have usize: "unat (sh_size ?s - 16) = 16 * ?n"
    unfolding size using h(4) by (simp only: unsigned_of_nat) (simp add: take_bit_nat_eq_self)
  let ?ob = "upd_sect i (\<lambda>s. s\<lparr>sh_size := sh_size s - 16, curend := curend s - 16, sect_data := Some (syms_bytes (remove_nth k ss))\<rparr>) ob"
  have l: "length (remove_nth k ss) = ?n" using k by (simp add: remove_nth_def)
  have tabs: "elf_tables ?ob i j (remove_nth k ss) t"
    using assms(1) h size l k by (auto simp: elf_tables_def holds_def strings_ok_def remove_nth_def dest: in_set_takeD in_set_dropD)
  have fits: "\<not> 16 * length ss < 16 * k + 16 + 16 * (length ss - Suc k)" "\<not> length ss < length ss - Suc 0"
    using k by auto
  have few: "16 * (?n - k) \<le> 16 \<longleftrightarrow> length ss \<le> k + 2" using k by auto
  have "elfsh_remove_symbol i nm ob = (if length ss \<le> k + 2 then rbind (elfsh_sync_sorted_symtab i ?ob) (\<lambda>(r, ob2). Inr (0, ob2)) else Inl Overlap)"
    unfolding few [symmetric] not_le [symmetric]
    using remove_bytes [OF k refl] symbol_by_name_ok [OF assms(1)] assms(2) h(2) k moved usize fits
    by (simp add: elfsh_remove_symbol_def the_data_def upd_sect_def Let_def ELFSH_SYMTAB_ENTRY_SIZE_def)
  moreover have "\<exists>r ob'. elfsh_sync_sorted_symtab i ?ob = Inr (r, ob') \<and> elf_tables ob' i j (remove_nth k ss) t"
  proof (cases "remove_nth k ss = []")
    case True
    then have "curend (sectlist ?ob ! i) = 0" using h size l by simp
    then show ?thesis using tabs by (auto simp: elfsh_sync_sorted_symtab_def Let_def)
  next
    case False
    then show ?thesis using sync_ok [OF tabs] copies_tables [OF tabs] by blast
  qed
  ultimately show ?thesis by auto
qed

subsection \<open>Properties\<close>

lemma str_bytes_no_nul: "CHR 0x00 \<notin> set nm \<Longrightarrow> 0 \<notin> set (str_bytes nm)"
proof -
  have "c = CHR 0x00" if "(of_char c :: u_char) = 0" for c
  proof -
    have "(of_char c :: nat) = 0" using unat_of_char [of c] that by simp
    then have "char_of (of_char c :: nat) = (char_of (0 :: nat) :: char)" by simp
    moreover have "char_of (0 :: nat) = CHR 0x00" by (simp add: char_of_def)
    ultimately show ?thesis by simp
  qed
  then show "CHR 0x00 \<notin> set nm \<Longrightarrow> 0 \<notin> set (str_bytes nm)" by (force simp: str_bytes_def)
qed

lemma end_raised_nth:
  assumes "k < length ss"
  shows "end_raised sy t ss ! k = ss ! k \<or> (name_at t (ss ! k) = str_bytes ''_end'' \<and>
    st_value (ss ! k) < st_value sy + st_size sy \<and> end_raised sy t ss ! k = (ss ! k)\<lparr>st_value := st_value sy + st_size sy\<rparr>)"
proof (cases "find_index (\<lambda>s. name_at t s = str_bytes ''_end'') ss")
  case (Some m)
  with assms find_index_less [OF Some] show ?thesis
    by (auto simp: end_raised_def raised_def nth_list_update)
qed (simp add: end_raised_def raised_def)

lemma end_raised_name: "k < length ss \<Longrightarrow> st_name (end_raised sy t ss ! k) = st_name (ss ! k)"
  using end_raised_nth [of k ss sy t] by auto

lemma inserted_names:
  assumes "strings_ok t ss" "0 \<notin> set bs" "length t < 2 ^ 31"
  shows "map (name_at (t @ bs @ [0])) (end_raised sy t ss @ [sy\<lparr>st_name := word_of_nat (length t)\<rparr>]) =
    map (name_at t) ss @ [bs]"
proof -
  have len: "length (end_raised sy t ss) = length ss" by (simp add: end_raised_def)
  have "map (name_at (t @ bs @ [0])) (end_raised sy t ss) = map (name_at t) ss"
  proof (rule nth_equalityI)
    fix k assume "k < length (map (name_at (t @ bs @ [0])) (end_raised sy t ss))"
    then have k: "k < length ss" by (simp add: len)
    have "name_at (t @ bs @ [0]) (end_raised sy t ss ! k) = name_at (t @ bs @ [0]) (ss ! k)"
      by (simp add: name_at_def end_raised_name [OF k])
    then show "map (name_at (t @ bs @ [0])) (end_raised sy t ss) ! k = map (name_at t) ss ! k"
      using k len name_kept [OF assms(1), of "ss ! k"] by simp
  qed (simp add: len)
  then show ?thesis using name_new [OF assms(2,3)] by simp
qed

lemma find_index_map: "find_index (\<lambda>s. f s = x) xs = find_index (\<lambda>y. y = x) (map f xs)"
  by (induction xs) auto

text \<open>C36. Inserting a symbol implements appending to a list of named symbols: the tables stay
  well-formed, every symbol keeps its name and its other fields, except that \<open>_end\<close> is moved
  behind the new symbol when it lies below, the new symbol comes last with the given name, and
  the name is found afterwards, at its old first position or at the new one.\<close>

theorem insert_symbol_refines:
  assumes "elf_tables ob i j ss t" "dyn_tables ob i j ds dt" "nm \<noteq> []" "CHR 0x00 \<notin> set nm"
    "length t + length nm + 1 < 2 ^ 31" "16 * Suc (length ss) < 2 ^ 31"
    "\<And>k. find_index (\<lambda>s. name_at t s = str_bytes nm) ss = Some k \<Longrightarrow> st_value (ss ! k) \<noteq> st_value sy"
  shows "\<exists>ob' ss' t' ds'. elfsh_insert_symbol i sy (Some nm) ob = Inr (int (length t), ob') \<and>
    elf_tables ob' i j (ss' @ [sy\<lparr>st_name := word_of_nat (length t)\<rparr>]) t' \<and> dyn_tables ob' i j ds' dt \<and>
    length ss' = length ss \<and>
    map (name_at t') (ss' @ [sy\<lparr>st_name := word_of_nat (length t)\<rparr>]) = map (name_at t) ss @ [str_bytes nm] \<and>
    (\<forall>k<length ss. ss' ! k = ss ! k \<or> name_at t (ss ! k) = str_bytes ''_end'' \<and>
       st_value (ss ! k) < st_value sy + st_size sy \<and> ss' ! k = (ss ! k)\<lparr>st_value := st_value sy + st_size sy\<rparr>) \<and>
    elfsh_get_symbol_by_name ob' nm = Inr (Some (case find_index (\<lambda>s. name_at t s = str_bytes nm) ss of
      Some k \<Rightarrow> k | None \<Rightarrow> length ss))"
proof -
  let ?ss = "end_raised sy t ss" and ?t = "t @ str_bytes nm @ [0]" and ?y = "sy\<lparr>st_name := word_of_nat (length t)\<rparr>"
  have t: "strings_ok t ss" "length t < 2 ^ 31" using assms(1) by (simp_all add: elf_tables_def holds_def)
  note names = inserted_names [OF t(1) str_bytes_no_nul [OF assms(4)] t(2), of sy]
  obtain ob' ds' where o: "elfsh_insert_symbol i sy (Some nm) ob = Inr (int (length t), ob')"
    "elf_tables ob' i j (?ss @ [?y]) ?t" "dyn_tables ob' i j ds' dt"
    by (rule insert_new [OF assms(1-3,5-7)])
  have "elfsh_get_symbol_by_name ob' nm = Inr (find_index (\<lambda>y. y = str_bytes nm) (map (name_at ?t) (?ss @ [?y])))"
    unfolding symbol_by_name_ok [OF o(2)] by (subst find_index_map) (rule refl)
  also have "\<dots> = Inr (Some (case find_index (\<lambda>s. name_at t s = str_bytes nm) ss of Some k \<Rightarrow> k | None \<Rightarrow> length ss))"
    unfolding names by (simp add: find_index_append find_index_map [of "name_at t"] split: option.split)
  finally show ?thesis using o names end_raised_nth [of _ ss sy t]
    by (intro exI [of _ ob'] exI [of _ ?ss] exI [of _ ?t] exI [of _ ds'] conjI) (auto simp: end_raised_def)
qed

text \<open>C37. Removing a symbol by its name: when at most one entry lies behind the first one with that
  name, that entry is deleted and the others keep their contents, names and order. With more than
  one entry behind it the move is a \<open>memcpy\<close> between areas that overlap, which has no defined
  result.\<close>

theorem remove_symbol_first:
  assumes "elf_tables ob i j ss t" "find_index (\<lambda>s. name_at t s = str_bytes nm) ss = Some k"
  shows "if length ss \<le> k + 2
    then \<exists>ob'. elfsh_remove_symbol i nm ob = Inr (0, ob') \<and> elf_tables ob' i j (take k ss @ drop (Suc k) ss) t \<and>
      (\<forall>x. elfsh_get_symbol_by_name ob' x = Inr (find_index (\<lambda>s. name_at t s = str_bytes x) (take k ss @ drop (Suc k) ss)))
    else elfsh_remove_symbol i nm ob = Inl Overlap"
  using remove_ok [OF assms] symbol_by_name_ok unfolding remove_nth_def by (cases "length ss \<le> k + 2"; simp) blast

text \<open>The search by value finds the last symbol with exactly the address when there is one;
  otherwise the nearest one below or above, as the caller asks, unless it is \<open>2^30\<close> or more
  away, with its distance.\<close>

definition nearest :: "(u_int \<Rightarrow> u_int \<Rightarrow> bool) \<Rightarrow> (u_int \<Rightarrow> u_int) \<Rightarrow> elfsh_Sym list \<Rightarrow> eresi_Addr \<Rightarrow> nat option \<times> u_int option \<Rightarrow> bool" where
  "nearest side dist ss v r \<longleftrightarrow> (\<exists>q off. r = (q, Some off) \<and> (\<forall>s\<in>set ss. side (st_value s) v \<longrightarrow> off \<le> dist (st_value s)) \<and>
     (case q of None \<Rightarrow> off = ELFSH_UNSET_OFFSET
      | Some k \<Rightarrow> k < length ss \<and> side (st_value (ss ! k)) v \<and> off = dist (st_value (ss ! k)) \<and> off < ELFSH_UNSET_OFFSET))"

theorem sym_by_value_nearest:
  assumes "ss \<noteq> []"
  shows "if \<exists>s\<in>set ss. st_value s = v
    then \<exists>k<length ss. (\<forall>mode. elfsh_get_sym_by_value ss v mode = (Some k, Some 0)) \<and>
      st_value (ss ! k) = v \<and> (\<forall>s\<in>set (drop (Suc k) ss). st_value s \<noteq> v)
    else elfsh_get_sym_by_value ss v ELFSH_EXACTSYM = (None, None) \<and>
      nearest (\<lambda>x y. x < y) (\<lambda>x. v - x) ss v (elfsh_get_sym_by_value ss v ELFSH_LOWSYM) \<and>
      nearest (\<lambda>x y. x > y) (\<lambda>x. x - v) ss v (elfsh_get_sym_by_value ss v ELFSH_HIGHSYM)"
proof -
  obtain low high good where scan:
    "value_scan v 0 (None, ELFSH_UNSET_OFFSET) (None, ELFSH_UNSET_OFFSET) None ss = (low, high, good)"
    by (metis prod_cases3)
  have eq: "elfsh_get_sym_by_value ss v m = (if good \<noteq> None then (good, Some 0) else case m of
      ELFSH_LOWSYM \<Rightarrow> (fst low, Some (snd low)) | ELFSH_HIGHSYM \<Rightarrow> (fst high, Some (snd high))
    | ELFSH_EXACTSYM \<Rightarrow> (None, None))" for m
    using assms scan by (simp add: elfsh_get_sym_by_value_def)
  show ?thesis
  proof (cases "\<exists>s\<in>set ss. st_value s = v")
    case True
    then show ?thesis using value_scan_good(2) [OF scan] by (auto simp: eq)
  next
    case False
    then have none: "good = None" using value_scan_good(1) [OF scan] by auto
    have "nearest (\<lambda>x y. x < y) (\<lambda>x. v - x) ss v (fst low, Some (snd low))"
      using value_scan_low [OF scan] by (auto simp: nearest_def)
    moreover have "nearest (\<lambda>x y. x > y) (\<lambda>x. x - v) ss v (fst high, Some (snd high))"
      using value_scan_high [OF scan] by (auto simp: nearest_def)
    ultimately show ?thesis using False by (simp add: eq none)
  qed
qed

text \<open>C38. Once the sorted copies are brought up to date, an address is resolved to the nearest
  function at or below it, whatever other symbols lie in between, with the distance from it;
  some symbol has to lie below that function.\<close>

theorem reverse_symbol_nearest:
  assumes "elf_tables ob i j ss t" "f0 \<in> set ss" "is_func v f0" "z \<in> set ss" "st_value z < st_value f0"
    "v \<noteq> 0" "v \<noteq> 0xFFFFFFFF"
  shows "\<exists>ob' f. elfsh_sync_sorted_symtab i ob = Inr (0, ob') \<and> f \<in> set ss \<and> is_func v f \<and>
    (\<forall>g\<in>set ss. is_func v g \<longrightarrow> st_value g \<le> st_value f) \<and>
    elfsh_reverse_symbol ob' v off = Inr (shown (name_at t f), Some (v - st_value f), ob')"
proof -
  have ne: "ss \<noteq> []" "i < length (sectlist ob)" using assms(1,2) by (auto simp: elf_tables_def)
  let ?ob = "upd_sect i (with_copies ss) ob"
  note tabs = copies_tables [OF assms(1), of ss]
  have alt: "altdata (sectlist ?ob ! i) = Some (qsort addrsort_compare ss)" using ne by simp
  obtain f where "f \<in> set ss" "is_func v f" "\<forall>g\<in>set ss. is_func v g \<longrightarrow> st_value g \<le> st_value f"
    "\<forall>off. elfsh_reverse_symbol ?ob v off = Inr (shown (name_at t f), Some (v - st_value f), ?ob)"
    by (rule reverse_func [OF tabs alt assms(6,7,2-5)])
  then show ?thesis using sync_ok [OF assms(1) ne(1)] by blast
qed

subsection \<open>An object\<close>

text \<open>An object with the null symbol, \<open>_end\<close> and one function, and no dynamic symbols.\<close>

definition demo_syms :: "elfsh_Sym list" where
  "demo_syms = [elfsh_create_symbol 0 0 0 0 0 0, (elfsh_create_symbol 0x2000 0 0 1 0 0)\<lparr>st_name := 1\<rparr>,
     (elfsh_create_symbol 0x1000 16 2 1 0 1)\<lparr>st_name := 6\<rparr>]"

definition demo_strings :: "u_char list" where
  "demo_strings = 0 # str_bytes ''_end'' @ 0 # str_bytes ''f'' @ [0]"

definition demo_section :: "string \<Rightarrow> nat \<Rightarrow> u_int \<Rightarrow> u_char list \<Rightarrow> elfshsect_t" where
  "demo_section nm k ty d = \<lparr>sect_name = nm, sindex = k, sh_type = ty, sh_addr = 0, sh_offset = 0, sh_size = word_of_nat (length d),
     runtime = False, sect_data = Some d, altdata = None, terdata = None, curend = word_of_nat (length d)\<rparr>"

definition demo_obj :: elfshobj_t where
  "demo_obj = \<lparr>obj_name = ''a.out'', objid = 1, rdonly = False, e_machine = EM_MIPS, solaris = False, e_shoff = 0,
     sectlist = [demo_section ''.symtab'' 0 SHT_SYMTAB (syms_bytes demo_syms), demo_section ''.strtab'' 1 3 demo_strings],
     rsectlist = [], secthash = [ELFSH_SECTION_SYMTAB \<mapsto> 0, ELFSH_SECTION_STRTAB \<mapsto> 1]\<rparr>"

lemma demo_tables: "elf_tables demo_obj 0 1 demo_syms demo_strings" "dyn_tables demo_obj 0 1 [] []"
  by (simp_all add: elf_tables_def dyn_tables_def demo_obj_def demo_section_def holds_def strings_ok_def demo_strings_def
      demo_syms_def elfsh_create_symbol_def str_bytes_def)

lemma demo_names: "map (name_at demo_strings) demo_syms = [[], str_bytes ''_end'', str_bytes ''f'']"
  by (simp add: demo_syms_def demo_strings_def name_at_def elfsh_create_symbol_def str_bytes_def)

theorem insert_symbol_refines_witness:
  "\<exists>ob'. elfsh_insert_symbol 0 (elfsh_create_symbol 0x1800 16 2 1 0 1) (Some ''main'') demo_obj = Inr (8, ob') \<and>
     elfsh_get_symbol_by_name ob' ''main'' = Inr (Some 3)"
proof -
  have absent: "find_index (\<lambda>s. name_at demo_strings s = str_bytes ''main'') demo_syms = None"
    by (subst find_index_map) (simp add: demo_names str_bytes_def)
  have len: "length demo_strings = 8" "length demo_syms = 3" by (simp_all add: demo_strings_def demo_syms_def str_bytes_def)
  from insert_symbol_refines [OF demo_tables, of "''main''" "elfsh_create_symbol 0x1800 16 2 1 0 1"] absent len
  show ?thesis by simp blast
qed

theorem remove_symbol_first_witness:
  "(\<exists>ob'. elfsh_remove_symbol 0 ''_end'' demo_obj = Inr (0, ob') \<and> elfsh_get_symbol_by_name ob' ''f'' = Inr (Some 1)) \<and>
   elfsh_remove_symbol 0 [] demo_obj = Inl Overlap"
proof -
  have e: "find_index (\<lambda>s. name_at demo_strings s = str_bytes ''_end'') demo_syms = Some 1"
    "find_index (\<lambda>s. name_at demo_strings s = str_bytes []) demo_syms = Some 0"
    by (subst find_index_map, simp add: demo_names str_bytes_def)+
  have len: "length demo_syms = 3" by (simp add: demo_syms_def)
  have "find_index (\<lambda>s. name_at demo_strings s = str_bytes ''f'') (take 1 demo_syms @ drop (Suc 1) demo_syms) = Some 1"
    by (subst find_index_map) (simp add: demo_syms_def demo_strings_def name_at_def elfsh_create_symbol_def str_bytes_def)
  then have "\<exists>ob'. elfsh_remove_symbol 0 ''_end'' demo_obj = Inr (0, ob') \<and> elfsh_get_symbol_by_name ob' ''f'' = Inr (Some 1)"
    using remove_symbol_first [OF demo_tables(1) e(1)] len by auto
  moreover have "elfsh_remove_symbol 0 [] demo_obj = Inl Overlap" using remove_symbol_first [OF demo_tables(1) e(2)] len by simp
  ultimately show ?thesis ..
qed

theorem sym_by_value_nearest_witness:
  "demo_syms \<noteq> [] \<and> nearest (\<lambda>x y. x < y) (\<lambda>x. 0x1010 - x) demo_syms 0x1010 (elfsh_get_sym_by_value demo_syms 0x1010 ELFSH_LOWSYM)"
proof -
  have "demo_syms \<noteq> []" "\<not> (\<exists>s\<in>set demo_syms. st_value s = 0x1010)"
    by (simp_all add: demo_syms_def elfsh_create_symbol_def)
  then show ?thesis using sym_by_value_nearest [of demo_syms "0x1010"] by simp
qed

theorem reverse_symbol_nearest_witness:
  "\<exists>ob'. elfsh_sync_sorted_symtab 0 demo_obj = Inr (0, ob') \<and>
     elfsh_reverse_symbol ob' 0x1008 None = Inr (Some (str_bytes ''f''), Some 8, ob')"
proof -
  let ?f = "demo_syms ! 2" and ?z = "demo_syms ! 0"
  have d: "?f \<in> set demo_syms" "is_func 0x1008 ?f" "?z \<in> set demo_syms" "st_value ?z < st_value ?f"
    "\<forall>g\<in>set demo_syms. is_func 0x1008 g \<longrightarrow> g = ?f"
    by (simp_all add: demo_syms_def elfsh_create_symbol_def is_func_def elfsh_get_symbol_type_def STT_FUNC_def)
  have n: "name_at demo_strings ?f = str_bytes ''f''" "st_value ?f = 0x1000" "str_bytes ''f'' \<noteq> []"
    by (simp_all add: demo_syms_def demo_strings_def name_at_def elfsh_create_symbol_def str_bytes_def)
  obtain ob' f where r: "elfsh_sync_sorted_symtab 0 demo_obj = Inr (0, ob')" "f \<in> set demo_syms" "is_func 0x1008 f"
    "elfsh_reverse_symbol ob' 0x1008 None = Inr (shown (name_at demo_strings f), Some (0x1008 - st_value f), ob')"
    using reverse_symbol_nearest [OF demo_tables(1) d(1-4), of None] by auto
  then have "f = ?f" using d(5) by blast
  then show ?thesis using r(1,4) n by (intro exI [of _ ob']) (simp add: shown_def)
qed

end
