(* ===== verification/Symblocks.thy ===== *)
theory Symblocks
  imports Walk Elfsym_Laws
begin

text \<open>
  The graph over a real object: the functions the graph code calls are those of \<open>libelfsh\<close> as
  \<open>Elfsym\<close> has them. Every block that \<open>mjr_block_split\<close> makes gets a symbol, and a later
  request asserts that the symbol is there; the locale \<open>block_symbols\<close> states what the object
  must promise for that, and the symbol table is shown to keep it. The one block the analysis
  itself makes, at its start address, gets no symbol.
\<close>

subsection \<open>The functions of the object file\<close>

definition elf_or :: "'a \<Rightarrow> 'a elf_result \<Rightarrow> 'a" where
  "elf_or d r = (case r of Inl _ \<Rightarrow> d | Inr x \<Rightarrow> x)"

lemma elf_or_simps [simp]: "elf_or d (Inr x) = x" "elf_or d (Inl e) = d"
  by (simp_all add: elf_or_def)

text \<open>The calls of \<open>mjr_block_symbol\<close> and \<open>mjr_function_symbol\<close> that make a symbol, and the store
  into \<open>st_size\<close> of \<open>mjr_block_split\<close>. An error of these calls leaves the object as it is; objects
  that satisfy \<open>elf_room\<close> below give none.\<close>

definition elf_insert :: "elfshobj_t \<Rightarrow> eresi_Addr \<Rightarrow> u_int \<Rightarrow> u_char \<Rightarrow> string \<Rightarrow> elfshobj_t" where
  "elf_insert ob v sz type name = elf_or ob (rbind (get_sect ob ELFSH_SECTION_SYMTAB) (\<lambda>(i, _).
     rbind (elfsh_insert_symbol i (elfsh_create_symbol v sz (ucast type) 0 0 0) (Some name) ob) (\<lambda>(_, ob1).
     rbind (elfsh_sync_sorted_symtab i ob1) (\<lambda>(_, ob2). Inr ob2))))"

definition elf_resize :: "elfshobj_t \<Rightarrow> eresi_Addr \<Rightarrow> u_int \<Rightarrow> elfshobj_t" where
  "elf_resize ob v sz = elf_or ob (rbind (elfsh_get_symbol_by_value ob v ELFSH_EXACTSYM) (\<lambda>(q, _). case q of
     None \<Rightarrow> Inr ob
   | Some k \<Rightarrow> rbind (get_sect ob ELFSH_SECTION_SYMTAB) (\<lambda>(i, s). rbind (the_data s) (\<lambda>d.
       rbind (poke (ELFSH_SYMTAB_ENTRY_SIZE * k)
                (sym_bytes (elfsh_set_symbol_size (read_sym (drop (ELFSH_SYMTAB_ENTRY_SIZE * k) d)) sz)) d) (\<lambda>d'.
       Inr (upd_sect i (\<lambda>s. s\<lparr>sect_data := Some d'\<rparr>) ob))))))"

definition MJR_BLOC_PREFIX :: string where "MJR_BLOC_PREFIX = ''bloc_''"
definition MJR_FUNC_PREFIX :: string where "MJR_FUNC_PREFIX = ''func_''"

definition aspect_typename :: "nat \<Rightarrow> string option" where
  "aspect_typename = [ASPECT_TYPE_BLOC \<mapsto> ''bloc'', ASPECT_TYPE_FUNC \<mapsto> ''func'', ASPECT_TYPE_LINK \<mapsto> ''link'']"

definition elf_env :: "elfshobj_t env" where
  "elf_env = \<lparr>type_name = aspect_typename, obj_id = objid,
     sym_by_name = (\<lambda>ob nm. elf_or None (elfsh_get_symbol_by_name ob nm) \<noteq> None),
     symtab_size = (\<lambda>ob. elf_or 0 (rbind (get_sect ob ELFSH_SECTION_SYMTAB) (\<lambda>(i, s). Inr (unat (sh_size s))))),
     insert_sym = elf_insert,
     sym_by_value = (\<lambda>ob v. fst (elf_or (None, None) (elfsh_get_symbol_by_value ob v ELFSH_EXACTSYM)) \<noteq> None),
     set_sym_size = elf_resize,
     reverse_metasym = (\<lambda>ob v. case elf_or (None, None, ob) (elfsh_reverse_metasym ob v) of
       (n, off, ob') \<Rightarrow> (map_option bytes_str n, off, ob')),
     parent_section = elfsh_get_parent_section,
     bloc_prefix = MJR_BLOC_PREFIX, func_prefix = MJR_FUNC_PREFIX\<rparr>"

lemma elf_env_sel [simp]:
  "type_name elf_env = aspect_typename" "insert_sym elf_env = elf_insert" "set_sym_size elf_env = elf_resize"
  "sym_by_name elf_env ob nm \<longleftrightarrow> elf_or None (elfsh_get_symbol_by_name ob nm) \<noteq> None"
  "sym_by_value elf_env ob v \<longleftrightarrow> fst (elf_or (None, None) (elfsh_get_symbol_by_value ob v ELFSH_EXACTSYM)) \<noteq> None"
  "bloc_prefix elf_env = MJR_BLOC_PREFIX"
  by (simp_all add: elf_env_def)

subsection \<open>What the graph needs of an object\<close>

text \<open>An object with room for \<open>n\<close> more blocks knows a block at an address by a symbol (\<open>has\<close>).\<close>

definition covered :: "('o \<Rightarrow> eresi_Addr \<Rightarrow> bool) \<Rightarrow> 'o mjrcontext_t \<Rightarrow> bool" where
  "covered has ctx \<longleftrightarrow> (\<forall>(v, s)\<in>ranges ctx. has (obj ctx) v)"

text \<open>The contexts reached by requests for blocks, with their number, and by the growth of blocks: the walk
  enlarges the block it is in by the instructions it decodes (\<open>block->size += ilen\<close> and
  \<open>block->size += delayslotsize\<close> of \<open>mjr_analyse_rec\<close>), up to the next block.\<close>

inductive split_reach :: "'o env \<Rightarrow> 'o mjrcontext_t \<Rightarrow> nat \<Rightarrow> 'o mjrcontext_t \<Rightarrow> bool" for en ctx0 where
  start: "split_reach en ctx0 0 ctx0"
| step: "split_reach en ctx0 k ctx \<Longrightarrow> unat dst < 2 ^ 31 \<Longrightarrow>
    mjr_block_split en dst ctx = Inr (q, ctx') \<Longrightarrow> split_reach en ctx0 (Suc k) ctx'"
| grow: "split_reach en ctx0 k ctx \<Longrightarrow> p \<in> tree_blocks ctx \<Longrightarrow> blk ctx p = Some (v, s) \<Longrightarrow>
    unat v + unat s + unat n < 2 ^ 31 \<Longrightarrow> \<forall>(w, t)\<in>ranges ctx. v < w \<longrightarrow> unat v + unat s + unat n \<le> unat w \<Longrightarrow>
    split_reach en ctx0 k (set_block p (\<lambda>b. b\<lparr>bsize := bsize b + n\<rparr>) ctx)"

text \<open>What one request does: nothing when a block starts at the address; otherwise it cuts the block
  around the address in two, with the sizes of their symbols, or makes an empty block.\<close>

definition split_result :: "'o env \<Rightarrow> eresi_Addr \<Rightarrow> 'o mjrcontext_t \<Rightarrow> 'o mjrcontext_t \<Rightarrow> bool" where
  "split_result en dst ctx ctx' \<longleftrightarrow> (\<exists>t. (dst, t) \<in> ranges ctx \<and> ctx' = ctx) \<or>
     (\<exists>v s. (v, s) \<in> ranges ctx \<and> v < dst \<and> unat dst < unat v + unat s \<and>
        ranges ctx' = insert (v, dst - v) (insert (dst, s - (dst - v)) (ranges ctx - {(v, s)})) \<and>
        obj ctx' = sym_added en (set_sym_size en (obj ctx) v (dst - v)) dst (s - (dst - v))) \<or>
     (\<forall>(v, s)\<in>ranges ctx. v \<noteq> dst \<and> \<not> (unat v \<le> unat dst \<and> unat dst < unat v + unat s)) \<and>
       ranges ctx' = insert (dst, 0) (ranges ctx) \<and> obj ctx' = sym_added en (obj ctx) dst 0"

text \<open>Every request registers one container at most, so that their number bounds the array.\<close>

lemma capacity_few: "next_id ctx < MJR_CNTNRS_INCREMENT * MJR_MAX_INCREMENTS \<Longrightarrow> capacity ctx"
  by (auto simp: capacity_def)

locale block_symbols =
  fixes en :: "'o env" and room :: "nat \<Rightarrow> 'o \<Rightarrow> bool" and has :: "'o \<Rightarrow> eresi_Addr \<Rightarrow> bool"
  assumes typed: "type_name en ASPECT_TYPE_BLOC \<noteq> None"
    and less_room: "room (Suc n) ob \<Longrightarrow> room n ob"
    and has_value: "room n ob \<Longrightarrow> has ob a \<Longrightarrow> sym_by_value en ob a"
    and added: "room (Suc n) ob \<Longrightarrow> room n (sym_added en ob a s) \<and> has (sym_added en ob a s) a \<and>
      (\<forall>b. has ob b \<longrightarrow> has (sym_added en ob a s) b)"
    and resized: "room n ob \<Longrightarrow> has ob a \<Longrightarrow> room n (set_sym_size en ob a s) \<and>
      (\<forall>b. has ob b \<longrightarrow> has (set_sym_size en ob a s) b)"
begin

lemma split_ok:
  assumes "blk_inv ctx" "covered has ctx" "room (Suc n) (obj ctx)" "capacity ctx" "unat dst < 2 ^ 31"
  obtains q ctx' t where "mjr_block_split en dst ctx = Inr (q, ctx')" "blk_inv ctx'" "covered has ctx'"
    "room n (obj ctx')" "q \<in> tree_blocks ctx'" "blk ctx' q = Some (dst, t)" "split_result en dst ctx ctx'"
    "next_id ctx' \<le> next_id ctx + 1"
proof -
  have syms: "\<forall>(v, s)\<in>ranges ctx. sym_by_value en (obj ctx) v"
    using assms(2,3) has_value by (fastforce simp: covered_def)
  obtain q ctx' t where r: "mjr_block_split en dst ctx = Inr (q, ctx')" "blk_inv ctx'"
    "q \<in> tree_blocks ctx'" "blk ctx' q = Some (dst, t)"
    and alt: "(dst, t) \<in> ranges ctx \<and> ctx' = ctx \<or>
     (\<exists>v s. (v, s) \<in> ranges ctx \<and> v < dst \<and> unat dst < unat v + unat s \<and>
        ranges ctx' = insert (v, dst - v) (insert (dst, s - (dst - v)) (ranges ctx - {(v, s)})) \<and>
        obj ctx' = sym_added en (set_sym_size en (obj ctx) v (dst - v)) dst (s - (dst - v))) \<or>
     (\<forall>(v, s)\<in>ranges ctx. v \<noteq> dst \<and> \<not> (unat v \<le> unat dst \<and> unat dst < unat v + unat s)) \<and>
       ranges ctx' = insert (dst, 0) (ranges ctx) \<and> obj ctx' = sym_added en (obj ctx) dst 0"
    by (rule block_split_ok [OF assms(1,5) typed assms(4) syms])
  have "covered has ctx' \<and> room n (obj ctx')"
    using alt
  proof (elim disjE exE conjE)
    assume "ctx' = ctx"
    then show ?thesis using assms(2,3) less_room by blast
  next
    fix v s
    assume a: "(v, s) \<in> ranges ctx" "obj ctx' = sym_added en (set_sym_size en (obj ctx) v (dst - v)) dst (s - (dst - v))"
      "ranges ctx' = insert (v, dst - v) (insert (dst, s - (dst - v)) (ranges ctx - {(v, s)}))"
    have h: "has (obj ctx) v" using a(1) assms(2) by (auto simp: covered_def)
    note rz = resized [OF assms(3) h, of "dst - v"]
    show ?thesis using added [of n "set_sym_size en (obj ctx) v (dst - v)" dst "s - (dst - v)"] rz h a assms(2)
      by (auto simp: covered_def)
  next
    assume "ranges ctx' = insert (dst, 0) (ranges ctx)" "obj ctx' = sym_added en (obj ctx) dst 0"
    then show ?thesis using added [OF assms(3), of dst 0] assms(2) by (auto simp: covered_def)
  qed
  moreover have "split_result en dst ctx ctx'" using alt unfolding split_result_def by blast
  moreover have "next_id ctx' \<le> next_id ctx + 1"
  proof -
    have "brk ctx \<noteq> NULL" using assms(1) cn_invD(5) [of ctx] by (auto simp: blk_inv_def cn_inv_def)
    then show ?thesis using block_split_entered [of ctx dst en] r(1) by simp
  qed
  ultimately show ?thesis using that r by blast
qed

lemma reach_ok:
  assumes "split_reach en ctx0 k ctx" "blk_inv ctx0" "covered has ctx0" "room (k + n) (obj ctx0)"
    "next_id ctx0 + k \<le> MJR_CNTNRS_INCREMENT * MJR_MAX_INCREMENTS"
  shows "blk_inv ctx \<and> covered has ctx \<and> room n (obj ctx) \<and> next_id ctx \<le> next_id ctx0 + k"
  using assms
proof (induction arbitrary: n rule: split_reach.induct)
  case (step k ctx dst q ctx')
  then have ih: "blk_inv ctx" "covered has ctx" "room (Suc n) (obj ctx)" "next_id ctx \<le> next_id ctx0 + k"
    by (metis add_Suc_shift add_Suc_right Suc_leD)+
  then have "capacity ctx" using step.prems(4) by (intro capacity_few) simp
  from split_ok [OF ih(1-3) this step.hyps(2)] step.hyps(3) ih(4) show ?case by (metis (no_types, lifting) Inr_inject prod.inject add_Suc_right Suc_eq_plus1 le_trans Suc_le_mono)
next
  case (grow k ctx p v s m)
  let ?ctx = "set_block p (\<lambda>b. b\<lparr>bsize := bsize b + m\<rparr>) ctx"
  have ih: "blk_inv ctx" "covered has ctx" "room n (obj ctx)" "next_id ctx \<le> next_id ctx0 + k" using grow.IH grow.prems by blast+
  note g = grow_block_ok [OF ih(1) grow.hyps(2-5)]
  have o: "obj ?ctx = obj ctx" by (simp add: set_block_def)
  have "(v, s) \<in> ranges ctx" using grow.hyps(2,3) by (auto simp: ranges_def)
  then have "covered has ?ctx" using ih(2) unfolding covered_def g(2) o by auto
  then show ?case using g(1) ih(3,4) o by simp
qed simp

end

subsection \<open>The symbol table keeps the promise\<close>

definition bloc_name :: "eresi_Addr \<Rightarrow> string" where
  "bloc_name a = MJR_BLOC_PREFIX @ fmt_08X a"

lemma bloc_name_facts:
  "bloc_name a = bloc_name b \<longleftrightarrow> a = b" "bloc_name a \<noteq> []" "length (bloc_name a) = 13" "bloc_name a \<noteq> ''_end''"
  "CHR 0x00 \<notin> set (bloc_name a)"
proof -
  have "hex_digit n \<noteq> CHR 0x00" for n
  proof
    assume "hex_digit n = CHR 0x00"
    then have "(of_char (hex_digit n) :: nat) = 0" by simp
    then show False by (auto simp: hex_digit.simps split: if_splits)
  qed
  then have "CHR 0x00 \<notin> set (hex_digits w n)" for w n by (induction w arbitrary: n) (auto dest: sym)
  then show "CHR 0x00 \<notin> set (bloc_name a)" by (auto simp: bloc_name_def MJR_BLOC_PREFIX_def fmt_08X_def)
qed (simp_all add: bloc_name_def MJR_BLOC_PREFIX_def, simp add: fmt_08X_def)

text \<open>Names of block symbols are honest: no other symbol of the program uses such a name.\<close>

definition honest :: "u_char list \<Rightarrow> elfsh_Sym list \<Rightarrow> bool" where
  "honest t ss \<longleftrightarrow> (\<forall>s\<in>set ss. \<forall>a. name_at t s = str_bytes (bloc_name a) \<longrightarrow> st_value s = a)"

definition elf_room :: "nat \<Rightarrow> elfshobj_t \<Rightarrow> bool" where
  "elf_room n ob \<longleftrightarrow> (\<exists>i j ss t ds dt. elf_tables ob i j ss t \<and> dyn_tables ob i j ds dt \<and> honest t ss \<and>
     length t + 14 * n < 2 ^ 31 \<and> 16 * (length ss + n) < 2 ^ 31)"

definition elf_has :: "elfshobj_t \<Rightarrow> eresi_Addr \<Rightarrow> bool" where
  "elf_has ob a \<longleftrightarrow> (\<exists>i j ss t. elf_tables ob i j ss t \<and> (\<exists>s\<in>set ss. name_at t s = str_bytes (bloc_name a) \<and> st_value s = a))"

lemma elf_tables_unique:
  assumes "elf_tables ob i j ss t" "elf_tables ob i' j' ss' t'"
  shows "i' = i" "j' = j" "ss' = ss" "t' = t"
proof -
  show i: "i' = i" and j: "j' = j" using assms by (simp_all add: elf_tables_def)
  show "t' = t" using assms j by (simp add: elf_tables_def holds_def)
  have "tab_syms (Some (syms_bytes ss), length ss) = tab_syms (Some (syms_bytes ss'), length ss')"
    using elf_tablesD(3) [OF assms(1)] elf_tablesD(3) [OF assms(2)] by simp
  then show "ss' = ss" by simp
qed

lemma elf_has_iff:
  assumes "elf_tables ob i j ss t"
  shows "elf_has ob a \<longleftrightarrow> (\<exists>s\<in>set ss. name_at t s = str_bytes (bloc_name a) \<and> st_value s = a)"
  using assms elf_tables_unique [OF assms] unfolding elf_has_def by metis

lemma by_value_exact:
  assumes "elf_tables ob i j ss t" "s \<in> set ss" "st_value s = v"
  obtains k where "k < length ss" "elfsh_get_symbol_by_value ob v ELFSH_EXACTSYM = Inr (Some k, Some 0)" "st_value (ss ! k) = v"
proof -
  obtain low high good where scan:
    "value_scan v 0 (None, ELFSH_UNSET_OFFSET) (None, ELFSH_UNSET_OFFSET) None ss = (low, high, good)"
    by (metis prod_cases3)
  obtain k where "k < length ss" "good = Some k" "st_value (ss ! k) = v"
    using value_scan_good(2) [OF scan] assms(2,3) by auto
  moreover from this have "elfsh_get_sym_by_value ss v ELFSH_EXACTSYM = (Some k, Some 0)"
    using assms(2) scan by (auto simp: elfsh_get_sym_by_value_def)
  ultimately show thesis using that elf_tablesD(3) [OF assms(1)] by (simp add: elfsh_get_symbol_by_value_def)
qed

lemma elf_room_less: "elf_room (Suc n) ob \<Longrightarrow> elf_room n ob"
proof -
  assume "elf_room (Suc n) ob"
  then obtain i j ss t ds dt where "elf_tables ob i j ss t" "dyn_tables ob i j ds dt" "honest t ss"
    "length t + 14 * Suc n < 2 ^ 31" "16 * (length ss + Suc n) < 2 ^ 31" by (auto simp: elf_room_def)
  moreover from this have "length t + 14 * n < 2 ^ 31" "16 * (length ss + n) < 2 ^ 31" by simp_all
  ultimately show ?thesis unfolding elf_room_def by blast
qed

lemma elf_has_value:
  assumes "elf_has ob a"
  shows "sym_by_value elf_env ob a"
proof -
  obtain i j ss t x where x: "elf_tables ob i j ss t" "x \<in> set ss" "st_value x = a" using assms by (auto simp: elf_has_def)
  obtain k where "elfsh_get_symbol_by_value ob a ELFSH_EXACTSYM = Inr (Some k, Some 0)" by (rule by_value_exact [OF x])
  then show ?thesis by simp
qed

lemma elf_resized:
  assumes "elf_room n ob" "elf_has ob a"
  shows "elf_room n (elf_resize ob a sz) \<and> (\<forall>b. elf_has ob b \<longrightarrow> elf_has (elf_resize ob a sz) b)"
proof -
  obtain i j ss t ds dt where tab: "elf_tables ob i j ss t" "dyn_tables ob i j ds dt" "honest t ss"
    "length t + 14 * n < 2 ^ 31" "16 * (length ss + n) < 2 ^ 31" using assms(1) by (auto simp: elf_room_def)
  obtain s where s: "s \<in> set ss" "st_value s = a" using assms(2) elf_has_iff [OF tab(1)] by blast
  obtain k where k: "k < length ss" "elfsh_get_symbol_by_value ob a ELFSH_EXACTSYM = Inr (Some k, Some 0)"
    by (rule by_value_exact [OF tab(1) s])
  let ?ss = "ss[k := (ss ! k)\<lparr>st_size := sz\<rparr>]"
  let ?ob = "upd_sect i (\<lambda>s. s\<lparr>sect_data := Some (syms_bytes ?ss)\<rparr>) ob"
  have d: "sect_data (sectlist ob ! i) = Some (syms_bytes ss)" "i < length (sectlist ob)"
    using tab(1) by (simp_all add: elf_tables_def holds_def)
  have eq: "elf_resize ob a sz = ?ob"
    using k d(1) elf_tablesD(1) [OF tab(1)] poke_sym [OF k(1)] read_sym_nth [OF k(1)]
    by (simp add: elf_resize_def the_data_def ELFSH_SYMTAB_ENTRY_SIZE_def elfsh_set_symbol_size_def)
  have same: "\<exists>x'\<in>set ?ss. st_name x' = st_name x \<and> st_value x' = st_value x" if x: "x \<in> set ss" for x
  proof -
    obtain m where "m < length ss" "x = ss ! m" using x by (metis in_set_conv_nth)
    then show ?thesis using k(1) by (intro bexI [of _ "?ss ! m", OF _ nth_mem]) (auto simp: nth_list_update)
  qed
  have other: "\<exists>x\<in>set ss. st_name x' = st_name x \<and> st_value x' = st_value x" if "x' \<in> set ?ss" for x'
  proof (cases "x' \<in> set ss")
    case False
    then have "x' = (ss ! k)\<lparr>st_size := sz\<rparr>" using that set_update_subset_insert [of ss k "(ss ! k)\<lparr>st_size := sz\<rparr>"] by blast
    then show ?thesis using k(1) by (intro bexI [of _ "ss ! k"]) simp_all
  qed blast
  have str: "strings_ok t ?ss"
  proof -
    have "unat (st_name x) < length t" if "x \<in> set ?ss" for x
      using other [OF that] tab(1) by (auto simp: elf_tables_def strings_ok_def)
    then show ?thesis using tab(1) by (simp add: elf_tables_def strings_ok_def)
  qed
  have hon: "honest t ?ss"
    unfolding honest_def
  proof (intro ballI allI impI)
    fix x b assume "x \<in> set ?ss" "name_at t x = str_bytes (bloc_name b)"
    moreover from this obtain y where "y \<in> set ss" "st_name x = st_name y" "st_value x = st_value y" using other by blast
    ultimately show "st_value x = b" using tab(3) by (simp add: honest_def name_at_def)
  qed
  have tabs: "elf_tables ?ob i j ?ss t" using tab(1) str by (auto simp: elf_tables_def holds_def)
  have dyn: "dyn_tables ?ob i j ds dt" by (rule dyn_tables_core [OF upd_same_core _ tab(2)]) simp
  have "elf_room n ?ob" using tabs dyn hon tab(4,5) unfolding elf_room_def by (metis length_list_update)
  moreover have "elf_has ?ob b" if "elf_has ob b" for b
    using that same unfolding elf_has_iff [OF tab(1)] elf_has_iff [OF tabs] by (metis name_at_def)
  ultimately show ?thesis using eq by simp
qed

lemma elf_added:
  assumes "elf_room (Suc n) ob"
  shows "elf_room n (sym_added elf_env ob a s) \<and> elf_has (sym_added elf_env ob a s) a \<and>
    (\<forall>b. elf_has ob b \<longrightarrow> elf_has (sym_added elf_env ob a s) b)"
proof -
  obtain i j ss t ds dt where tab: "elf_tables ob i j ss t" "dyn_tables ob i j ds dt" "honest t ss"
    "length t + 14 * Suc n < 2 ^ 31" "16 * (length ss + Suc n) < 2 ^ 31" using assms by (auto simp: elf_room_def)
  note byname = symbol_by_name_ok [OF tab(1), of "bloc_name a"]
  show ?thesis
  proof (cases "find_index (\<lambda>s. name_at t s = str_bytes (bloc_name a)) ss")
    case (Some k)
    then have "sym_added elf_env ob a s = ob" using byname by (simp add: sym_added_def bloc_name_def)
    moreover have "elf_has ob a" unfolding elf_has_iff [OF tab(1)]
      using find_index_less [OF Some] tab(3) by (auto simp: honest_def)
    moreover have "elf_room n ob" by (rule elf_room_less [OF assms])
    ultimately show ?thesis by simp
  next
    case None
    let ?y = "elfsh_create_symbol a s (ucast STT_BLOCK) 0 0 0" and ?t = "t @ str_bytes (bloc_name a) @ [0]"
    let ?z = "?y\<lparr>st_name := word_of_nat (length t)\<rparr>"
    let ?ss = "end_raised ?y t ss @ [?z]"
    obtain ob1 ds' where o1: "elfsh_insert_symbol i ?y (Some (bloc_name a)) ob = Inr (int (length t), ob1)"
      "elf_tables ob1 i j ?ss ?t" "dyn_tables ob1 i j ds' dt"
      by (rule insert_new [OF tab(1,2) bloc_name_facts(2), of a ?y]) (use None tab(4,5) bloc_name_facts(3) in auto)
    let ?ob = "upd_sect i (with_copies ?ss) ob1"
    have eq: "sym_added elf_env ob a s = ?ob"
      using byname None o1(1) elf_tablesD(1) [OF tab(1)] sync_ok [OF o1(2)]
      by (simp add: sym_added_def bloc_name_def elf_insert_def)
    have t: "strings_ok t ss" "length t < 2 ^ 31" using tab(1) by (simp_all add: elf_tables_def holds_def)
    have names: "map (name_at ?t) ?ss = map (name_at t) ss @ [str_bytes (bloc_name a)]"
      by (rule inserted_names [OF t(1) str_bytes_no_nul [OF bloc_name_facts(5)] t(2)])
    have tabs: "elf_tables ?ob i j ?ss ?t" "dyn_tables ?ob i j ds' dt"
      using copies_tables [OF o1(2)] dyn_tables_core [OF upd_same_core _ o1(3)] by auto
    have nth: "name_at ?t (?ss ! m) = name_at t (ss ! m)" "name_at t (ss ! m) = str_bytes (bloc_name b) \<Longrightarrow> ?ss ! m = ss ! m"
      if "m < length ss" for m b
    proof -
      have l: "length (end_raised ?y t ss) = length ss" by (simp add: end_raised_def)
      have "name_at ?t (?ss ! m) = map (name_at ?t) ?ss ! m" using that l by (subst nth_map) auto
      then show "name_at ?t (?ss ! m) = name_at t (ss ! m)" using that unfolding names by (simp add: nth_append)
      show "?ss ! m = ss ! m" if "name_at t (ss ! m) = str_bytes (bloc_name b)"
        using end_raised_nth [OF \<open>m < length ss\<close>, of ?y t] that l \<open>m < length ss\<close> bloc_name_facts(4)
        by (auto simp: nth_append)
    qed
    have z: "name_at ?t ?z = str_bytes (bloc_name a)" "st_value ?z = a"
      using names by (simp_all add: elfsh_create_symbol_def)
    have hon: "honest ?t ?ss"
    proof -
      have "st_value x = b" if x: "x \<in> set ?ss" "name_at ?t x = str_bytes (bloc_name b)" for x b
      proof (cases "x = ?z")
        case True
        then show ?thesis using x(2) z bloc_name_facts(1) by simp
      next
        case False
        then obtain m where m: "m < length ss" "x = ?ss ! m"
          using x(1) by (auto simp: in_set_conv_nth nth_append end_raised_def)
        then have "x = ss ! m" "name_at t (ss ! m) = str_bytes (bloc_name b)" using x(2) nth by auto
        then show ?thesis using tab(3) m(1) by (auto simp: honest_def)
      qed
      then show ?thesis by (auto simp: honest_def)
    qed
    have "elf_room n ?ob" unfolding elf_room_def
      using tabs hon tab(4,5) bloc_name_facts(3)
      by (intro exI [of _ i] exI [of _ j] exI [of _ ?ss] exI [of _ ?t] exI [of _ ds'] exI [of _ dt])
        (auto simp: str_bytes_def end_raised_def)
    moreover have "elf_has ?ob a" unfolding elf_has_iff [OF tabs(1)] using z by auto
    moreover have "elf_has ?ob b" if b: "elf_has ob b" for b
    proof -
      obtain m where m: "m < length ss" "name_at t (ss ! m) = str_bytes (bloc_name b)" "st_value (ss ! m) = b"
        using b unfolding elf_has_iff [OF tab(1)] by (metis in_set_conv_nth)
      have "?ss ! m \<in> set ?ss" using m(1) by (intro nth_mem) (simp add: end_raised_def)
      moreover have "name_at ?t (?ss ! m) = str_bytes (bloc_name b)" "st_value (?ss ! m) = b"
        using nth [OF m(1)] m(2,3) by metis+
      ultimately show ?thesis unfolding elf_has_iff [OF tabs(1)] by blast
    qed
    ultimately show ?thesis unfolding eq by blast
  qed
qed

interpretation elf: block_symbols elf_env elf_room elf_has
proof unfold_locales
  show "type_name elf_env ASPECT_TYPE_BLOC \<noteq> None" by (simp add: aspect_typename_def)
qed (use elf_room_less elf_has_value elf_added elf_resized in auto)

subsection \<open>Properties\<close>

lemma create_context_blocks:
  "blk_inv (mjr_create_context en name ob)" "ranges (mjr_create_context en name ob) = {}"
  "obj (mjr_create_context en name ob) = ob"
proof -
  have t: "block_btree (mjr_create_context en name ob) = BNull" "obj (mjr_create_context en name ob) = ob"
    "blkhash (mjr_create_context en name ob) = hash_fresh (name @ ''_blocks'') mjrHashMedium ASPECT_TYPE_BLOC"
    by (simp_all add: mjr_create_context_def mjr_init_containers_def)
  have "tree_blocks (mjr_create_context en name ob) = {}" by (simp add: tree_blocks_def t)
  then show "ranges (mjr_create_context en name ob) = {}" by (simp add: ranges_def)
  then show "blk_inv (mjr_create_context en name ob)"
    using create_context_inv [of en name ob] \<open>tree_blocks _ = {}\<close>
    by (simp add: blk_inv_def t hash_fresh_inv hash_fresh_abs mjrHashMedium_def tree_ordered_eq no_overlap_def)
qed (simp add: mjr_create_context_def mjr_init_containers_def)

lemma elf_has_name:
  assumes "elf_has ob a"
  obtains m where "elfsh_get_symbol_by_name ob (bloc_name a) = Inr (Some m)"
proof -
  obtain i j ss u x where x: "elf_tables ob i j ss u" "x \<in> set ss" "name_at u x = str_bytes (bloc_name a)"
    using assms by (auto simp: elf_has_def)
  then have "find_index (\<lambda>s. name_at u s = str_bytes (bloc_name a)) ss \<noteq> None" unfolding find_index_None by blast
  then show ?thesis using that symbol_by_name_ok [OF x(1)] by auto
qed


lemma start_block_sel:
  assumes "start_block en a ctx = Inr ctx'"
  shows "obj ctx' = obj ctx" "block_btree ctx = BNull \<Longrightarrow> block_btree ctx' = BNode (word_of_nat (brk ctx)) (brk ctx) BNull BNull"
  using assms by (auto simp: start_block_def mjr_create_block_container_def container_create_def container_linklists_create_def rbind_Inr
      Let_def set_cn_def mjr_register_container_def mjr_resize_containers_def split: option.splits if_splits)


lemma demo_room: "elf_room 1000 demo_obj"
proof -
  have "name_at demo_strings s \<noteq> str_bytes (bloc_name a)" if "s \<in> set demo_syms" for s a
  proof -
    have "length (name_at demo_strings s) \<le> 4"
      using that by (auto simp: demo_syms_def demo_strings_def name_at_def elfsh_create_symbol_def str_bytes_def)
    then show ?thesis using bloc_name_facts(3) [of a] by (auto simp: str_bytes_def)
  qed
  then have "honest demo_strings demo_syms" by (auto simp: honest_def)
  moreover have "length demo_strings = 8" "length demo_syms = 3"
    by (simp_all add: demo_strings_def demo_syms_def str_bytes_def)
  ultimately show ?thesis unfolding elf_room_def using demo_tables by (intro exI conjI) (assumption | simp)+
qed


text \<open>A branch of the SPARC back by one instruction, at the third instruction of the program.\<close>

definition back_branch :: asm_instr where
  "back_branch = zero_instr\<lparr>itype := ASM_TYPE_BRANCH, op := [zero_operand\<lparr>imm := - 1\<rparr>]\<rparr>"


end
