(* ===== verification/Registry.thy ===== *)
theory Registry
  imports Elist
begin

text \<open>
  The registries of \<open>libaspect\<close>: \<open>hash_hash\<close> finds every initialised hash table by its name,
  \<open>hash_lists\<close> every list (\<open>hash_init\<close>, \<open>hash_find\<close>, \<open>hash_register\<close>, \<open>hash_empty\<close>,
  \<open>hash_destroy\<close> of \<open>libhash.c\<close> and their counterparts of \<open>liblist.c\<close>). Tables and lists are
  objects with an address, because the registries hold pointers and \<open>hash_register\<close> may be
  given a table that is registered already. An object that \<open>calloc\<close> made and nobody
  initialised has no array (\<open>ent\<close> is NULL, here the empty list); its use is \<open>Bad_Access\<close>.

  A table stores the pointers to its keys that it is given. \<open>hash_merge\<close> copies these pointers, and
  \<open>hash_destroy\<close> releases the strings. The contents of a string do not change, so that keys can be
  strings here, but it matters which tables hold the same object: \<open>key_shared w p q k\<close> says that
  the key \<open>k\<close> of the tables \<open>p\<close> and \<open>q\<close> is one object. A table that is left with a released key
  is lost: any later use of it is \<open>Bad_Access\<close>, whichever of its entries it looks at.
\<close>

datatype aspect_error = Bad_Access | Diverges

type_synonym 'a aspect_result = "aspect_error + 'a"

definition ASPECT_TYPE_UNKNOW :: nat where "ASPECT_TYPE_UNKNOW = 0"

record registry =
  tables :: "ptr \<Rightarrow> hash_t option"
  elists :: "ptr \<Rightarrow> list_t option"
  hash_hash :: ptr
  hash_lists :: ptr
  aspect_type_nbr :: nat
  next_addr :: ptr
  key_shared :: "ptr \<Rightarrow> ptr \<Rightarrow> string \<Rightarrow> bool"

subsection \<open>Objects\<close>

definition zero_table :: hash_t where
  "zero_table = \<lparr>ent = [], hsize = 0, helmnbr = 0, htype = 0, hlinearity = 0, hname = ''''\<rparr>"

definition zero_list :: list_t where
  "zero_list = \<lparr>lhead = [], lelmnbr = 0, ltype = 0, llinearity = 0, lname = ''''\<rparr>"

definition set_table :: "ptr \<Rightarrow> hash_t \<Rightarrow> 'z registry_scheme \<Rightarrow> 'z registry_scheme" where
  "set_table p h w = w\<lparr>tables := (tables w)(p \<mapsto> h)\<rparr>"

definition set_list :: "ptr \<Rightarrow> list_t \<Rightarrow> 'z registry_scheme \<Rightarrow> 'z registry_scheme" where
  "set_list p l w = w\<lparr>elists := (elists w)(p \<mapsto> l)\<rparr>"

definition new_table :: "'z registry_scheme \<Rightarrow> ptr \<times> 'z registry_scheme" where
  "new_table w = (next_addr w, (set_table (next_addr w) zero_table w)\<lparr>next_addr := Suc (next_addr w)\<rparr>)"

definition new_list :: "'z registry_scheme \<Rightarrow> ptr \<times> 'z registry_scheme" where
  "new_list w = (next_addr w, (set_list (next_addr w) zero_list w)\<lparr>next_addr := Suc (next_addr w)\<rparr>)"

definition table_at :: "ptr \<Rightarrow> 'z registry_scheme \<Rightarrow> hash_t aspect_result" where
  "table_at p w = (case tables w p of None \<Rightarrow> Inl Bad_Access | Some h \<Rightarrow> Inr h)"

definition list_at :: "ptr \<Rightarrow> 'z registry_scheme \<Rightarrow> list_t aspect_result" where
  "list_at p w = (case elists w p of None \<Rightarrow> Inl Bad_Access | Some l \<Rightarrow> Inr l)"

text \<open>A table whose array is read.\<close>

definition array_at :: "ptr \<Rightarrow> 'z registry_scheme \<Rightarrow> hash_t aspect_result" where
  "array_at p w = rbind (table_at p w) (\<lambda>h. if ent h = [] then Inl Bad_Access else Inr h)"

text \<open>\<open>hash_get\<close>, \<open>hash_add\<close> and \<open>hash_del\<close> on a table given by its address.\<close>

definition table_get :: "ptr \<Rightarrow> string \<Rightarrow> 'z registry_scheme \<Rightarrow> ptr aspect_result" where
  "table_get p k w = rbind (array_at p w) (\<lambda>h. Inr (hash_get h k))"

definition table_add :: "ptr \<Rightarrow> string \<Rightarrow> ptr \<Rightarrow> 'z registry_scheme \<Rightarrow> 'z registry_scheme aspect_result" where
  "table_add p k d w = (if p = NULL then Inr w
     else rbind (array_at p w) (\<lambda>h. Inr (set_table p (snd (hash_add h k d)) w)))"

definition table_del :: "ptr \<Rightarrow> string \<Rightarrow> 'z registry_scheme \<Rightarrow> 'z registry_scheme aspect_result" where
  "table_del p k w = rbind (array_at p w) (\<lambda>h. Inr (set_table p (snd (hash_del h k)) w))"

subsection \<open>The registry of tables\<close>

definition hash_find :: "string option \<Rightarrow> 'z registry_scheme \<Rightarrow> ptr aspect_result" where
  "hash_find name w = (case name of None \<Rightarrow> Inr NULL | Some k \<Rightarrow> table_get (hash_hash w) k w)"

text \<open>\<open>hash_init\<close> calls itself twice, for the tables \<open>hash_hash\<close> and \<open>hash_lists\<close> when they do
  not exist yet. The calls are unfolded: \<open>hash_setup\<close> is the body between them, \<open>hash_init_body\<close>
  the body behind the first.\<close>

definition hash_setup :: "ptr \<Rightarrow> string \<Rightarrow> nat \<Rightarrow> nat \<Rightarrow> 'z registry_scheme \<Rightarrow> (int \<times> 'z registry_scheme) aspect_result" where
  "hash_setup h name sz type w =
     (if type \<ge> aspect_type_nbr w then Inr (-1, w)
      else rbind (table_at h w) (\<lambda>t.
        rbind (if h \<noteq> hash_hash w then hash_find (Some name) w else Inr NULL) (\<lambda>exist.
        if exist \<noteq> NULL \<and> ent t \<noteq> [] then Inr (1, w)
        else (let w1 = set_table h (hash_fresh name sz type) w in
          rbind (table_add (hash_hash w1) name h w1) (\<lambda>w2. Inr (0, w2))))))"

definition lists_init :: "'z registry_scheme \<Rightarrow> 'z registry_scheme aspect_result" where
  "lists_init w = (if hash_lists w \<noteq> NULL then Inr w
     else (let (p, w1) = new_table w in
       rbind (hash_setup p ''lists'' 51 ASPECT_TYPE_UNKNOW (w1\<lparr>hash_lists := p\<rparr>)) (\<lambda>(r, w2). Inr w2)))"

definition hash_init_body :: "ptr \<Rightarrow> string \<Rightarrow> nat \<Rightarrow> nat \<Rightarrow> 'z registry_scheme \<Rightarrow> (int \<times> 'z registry_scheme) aspect_result" where
  "hash_init_body h name sz type w = rbind (hash_setup h name sz type w) (\<lambda>(r, w1).
     if r \<noteq> 0 then Inr (r, w1) else rbind (lists_init w1) (\<lambda>w2. Inr (0, w2)))"

definition hash_init :: "ptr \<Rightarrow> string \<Rightarrow> nat \<Rightarrow> nat \<Rightarrow> 'z registry_scheme \<Rightarrow> (int \<times> 'z registry_scheme) aspect_result" where
  "hash_init h name sz type w =
     rbind (if hash_hash w \<noteq> NULL then Inr w
            else (let (p, w1) = new_table w in
              rbind (hash_init_body p ''hashes'' 51 ASPECT_TYPE_UNKNOW (w1\<lparr>hash_hash := p\<rparr>)) (\<lambda>(r, w2). Inr w2)))
       (hash_init_body h name sz type)"

text \<open>\<open>hash_destroy\<close> releases the keys of a table that has some, and leaves the object without an
  array.\<close>

definition table_keys :: "hash_t \<Rightarrow> string list" where
  "table_keys h = (case fst (hash_get_keys (Some h)) of None \<Rightarrow> [] | Some ks \<Rightarrow> ks)"

definition release_keys :: "ptr \<Rightarrow> string list \<Rightarrow> 'z registry_scheme \<Rightarrow> 'z registry_scheme" where
  "release_keys p ks w = w\<lparr>tables := (\<lambda>q. if q \<noteq> p \<and> list_ex (key_shared w p q) ks then None else tables w q),
     key_shared := (\<lambda>a b k. a \<noteq> p \<and> b \<noteq> p \<and> key_shared w a b k)\<rparr>"

definition hash_destroy :: "ptr \<Rightarrow> 'z registry_scheme \<Rightarrow> 'z registry_scheme aspect_result" where
  "hash_destroy p w = rbind (table_at p w) (\<lambda>h.
     if helmnbr h \<noteq> 0 \<and> ent h = [] then Inl Bad_Access
     else (let w0 = release_keys p (table_keys h) w in
       rbind (table_del (hash_hash w0) (hname h) w0) (\<lambda>w1.
       rbind (table_at p w1) (\<lambda>h1. Inr (set_table p (h1\<lparr>ent := []\<rparr>) w1)))))"

text \<open>\<open>hash_empty\<close> keeps the type in a \<open>char\<close>.\<close>

definition char_type :: "nat \<Rightarrow> nat" where
  "char_type t = unat (scast (word_of_nat t :: u_char) :: u_int)"

definition hash_empty :: "string \<Rightarrow> 'z registry_scheme \<Rightarrow> (ptr \<times> 'z registry_scheme) aspect_result" where
  "hash_empty name w = rbind (hash_find (Some name) w) (\<lambda>p.
     if p = NULL then Inr (NULL, w)
     else rbind (table_at p w) (\<lambda>h.
       rbind (table_del (hash_hash w) name w) (\<lambda>w1.
       rbind (hash_destroy p w1) (\<lambda>w2.
       rbind (hash_init p name (hsize h) (char_type (htype h)) w2) (\<lambda>(r, w3). Inr (p, w3))))))"

text \<open>\<open>hash_merge\<close> into a table without an array only fails when there is something to add. The
  keys that are added are those of the source, and of the tables that share them with it.\<close>

definition share_keys :: "ptr \<Rightarrow> ptr \<Rightarrow> string list \<Rightarrow> 'z registry_scheme \<Rightarrow> 'z registry_scheme" where
  "share_keys dst src ks w = w\<lparr>key_shared := (\<lambda>a b k. key_shared w a b k \<or> k \<in> set ks \<and> a \<noteq> b \<and>
     (a = dst \<and> (b = src \<or> key_shared w src b k) \<or> b = dst \<and> (a = src \<or> key_shared w a src k)))\<rparr>"

definition table_merge :: "ptr \<Rightarrow> ptr \<Rightarrow> 'z registry_scheme \<Rightarrow> 'z registry_scheme aspect_result" where
  "table_merge dst src w = rbind (table_at src w) (\<lambda>s.
     if helmnbr s = 0 then Inr w
     else rbind (array_at dst w) (\<lambda>d. rbind (array_at src w) (\<lambda>s.
       Inr (share_keys dst src (filter (\<lambda>k. hash_get d k = NULL) (table_keys s))
         (set_table dst (snd (hash_merge d s)) w)))))"

definition hash_register :: "ptr \<Rightarrow> string \<Rightarrow> 'z registry_scheme \<Rightarrow> (int \<times> 'z registry_scheme) aspect_result" where
  "hash_register table name w = rbind (table_get (hash_hash w) name w) (\<lambda>p.
     rbind (table_at table w) (\<lambda>t.
     if p \<noteq> NULL then
       rbind (table_at p w) (\<lambda>h.
         let h1 = (if htype h = ASPECT_TYPE_UNKNOW then h\<lparr>htype := htype t\<rparr> else h); w1 = set_table p h1 w in
         if htype h1 \<noteq> htype t then Inr (-1, w1)
         else rbind (if helmnbr h1 \<noteq> 0 then hash_empty name w1 else Inr (p, w1)) (\<lambda>(q, w2).
           rbind (if q = NULL then Inr w2 else table_merge q table w2) (\<lambda>w3. Inr (0, w3))))
     else (let (q, w1) = new_table w; sz = (if int (hsize t) > helmnbr t then hsize t else nat (helmnbr t)) in
       rbind (hash_init q name sz (htype t) w1) (\<lambda>(r, w2). Inr (0, w2)))))"

subsection \<open>The registry of lists\<close>

definition elist_find :: "string \<Rightarrow> 'z registry_scheme \<Rightarrow> ptr aspect_result" where
  "elist_find name w = table_get (hash_lists w) name w"

definition elist_init :: "ptr \<Rightarrow> string \<Rightarrow> nat \<Rightarrow> 'z registry_scheme \<Rightarrow> (int \<times> 'z registry_scheme) aspect_result" where
  "elist_init l name type w =
     (if type \<ge> aspect_type_nbr w then Inr (-1, w)
      else rbind (elist_find name w) (\<lambda>exist.
        if exist \<noteq> NULL then Inr (1, w)
        else rbind (list_at l w) (\<lambda>_.
          rbind (table_add (hash_lists w) name l (set_list l (elist_fresh name type) w)) (\<lambda>w1. Inr (0, w1)))))"

definition elist_empty :: "string \<Rightarrow> 'z registry_scheme \<Rightarrow> (ptr \<times> 'z registry_scheme) aspect_result" where
  "elist_empty name w = rbind (elist_find name w) (\<lambda>p.
     if p = NULL then Inr (NULL, w)
     else rbind (list_at p w) (\<lambda>l. Inr (p, set_list p (l\<lparr>lhead := [], lelmnbr := 0, llinearity := 0\<rparr>) w)))"

definition list_merge :: "ptr \<Rightarrow> ptr \<Rightarrow> 'z registry_scheme \<Rightarrow> 'z registry_scheme aspect_result" where
  "list_merge dst src w = rbind (list_at dst w) (\<lambda>d. rbind (list_at src w) (\<lambda>s.
     case elist_merge (Some d) (Some s) of
       None \<Rightarrow> Inl Bad_Access
     | Some (r, d') \<Rightarrow> Inr (set_list dst (the d') w)))"

definition elist_register :: "ptr \<Rightarrow> string \<Rightarrow> 'z registry_scheme \<Rightarrow> (int \<times> 'z registry_scheme) aspect_result" where
  "elist_register list name w = rbind (table_get (hash_lists w) name w) (\<lambda>p.
     if p \<noteq> NULL then
       rbind (list_at p w) (\<lambda>h. rbind (list_at list w) (\<lambda>l.
         let h1 = (if ltype h = ASPECT_TYPE_UNKNOW then h\<lparr>ltype := ltype l\<rparr> else h); w1 = set_list p h1 w in
         if ltype h1 \<noteq> ltype l then Inr (-1, w1)
         else rbind (if lelmnbr h1 \<noteq> 0 then elist_empty name w1 else Inr (p, w1)) (\<lambda>(q, w2).
           rbind (if q = NULL then Inr w2 else list_merge q list w2) (\<lambda>w3. Inr (0, w3)))))
     else (let (q, w1) = new_list w in
       rbind (elist_init q name (ltype zero_list) w1) (\<lambda>(r, w2). Inr (0, w2))))"

text \<open>\<open>elist_reverse\<close> gives the reversed copy the place of the list in the registry.\<close>

definition elist_reverse :: "ptr \<Rightarrow> 'z registry_scheme \<Rightarrow> (ptr \<times> 'z registry_scheme) aspect_result" where
  "elist_reverse l w = rbind (list_at l w) (\<lambda>old.
     rbind (table_del (hash_lists w) (lname old) w) (\<lambda>w1.
     let (q, w2) = new_list w1 in
     rbind (elist_init q (lname old) (ltype old) w2) (\<lambda>(r, w3).
     rbind (list_at q w3) (\<lambda>new.
     let w4 = set_list q (reverse_into (lhead old) new) w3
     in Inr (q, w4\<lparr>elists := (elists w4)(l := None)\<rparr>)))))"

definition elist_destroy :: "ptr \<Rightarrow> 'z registry_scheme \<Rightarrow> 'z registry_scheme aspect_result" where
  "elist_destroy l w = rbind (list_at l w) (\<lambda>old.
     rbind (table_del (hash_lists w) (lname old) w) (\<lambda>w1. Inr (w1\<lparr>elists := (elists w1)(l := None)\<rparr>)))"

subsection \<open>Operations on a well-formed registry\<close>

text \<open>\<open>H\<close> is the table of the tables. Nothing is known of addresses that are not in use.\<close>

definition unshared :: "'z registry_scheme \<Rightarrow> ptr \<Rightarrow> bool" where
  "unshared w p \<longleftrightarrow> (\<forall>q k. \<not> key_shared w p q k \<and> \<not> key_shared w q p k)"

definition registry_ok :: "'z registry_scheme \<Rightarrow> hash_t \<Rightarrow> bool" where
  "registry_ok w H \<longleftrightarrow> hash_hash w \<noteq> NULL \<and> hash_lists w \<noteq> NULL \<and> tables w (hash_hash w) = Some H \<and> hash_inv H \<and>
     next_addr w \<noteq> NULL \<and> (\<forall>p\<ge>next_addr w. tables w p = None) \<and> (\<forall>p\<ge>next_addr w. unshared w p)"

lemma hash_inv_array: "hash_inv h \<Longrightarrow> ent h \<noteq> []"
  by (auto simp: hash_inv_def)

lemma set_table_sel [simp]:
  "tables (set_table p h w) = (tables w)(p \<mapsto> h)" "hash_hash (set_table p h w) = hash_hash w"
  "hash_lists (set_table p h w) = hash_lists w" "aspect_type_nbr (set_table p h w) = aspect_type_nbr w"
  "next_addr (set_table p h w) = next_addr w" "elists (set_table p h w) = elists w"
  "key_shared (set_table p h w) = key_shared w" "registry.more (set_table p h w) = registry.more w"
  by (simp_all add: set_table_def)

lemma unshared_set [simp]: "unshared (set_table p h w) q \<longleftrightarrow> unshared w q"
  by (simp add: unshared_def)

lemma set_table_twice [simp]: "set_table p h (set_table p g w) = set_table p h w"
  by (simp add: set_table_def)

lemma set_table_swap: "p \<noteq> q \<Longrightarrow> set_table p h (set_table q g w) = set_table q g (set_table p h w)"
  by (simp add: set_table_def fun_upd_twist)

lemma set_table_id [simp]: "tables w p = Some h \<Longrightarrow> set_table p h w = w"
  by (simp add: set_table_def fun_upd_idem)

lemma table_ops:
  assumes "tables w p = Some h" "hash_inv h"
  shows "table_at p w = Inr h" "array_at p w = Inr h" "table_get p k w = Inr (hash_get h k)"
    and "p \<noteq> NULL \<Longrightarrow> table_add p k d w = Inr (set_table p (snd (hash_add h k d)) w)"
    and "table_del p k w = Inr (set_table p (snd (hash_del h k)) w)"
  using assms hash_inv_array [OF assms(2)]
  by (simp_all add: table_at_def array_at_def table_get_def table_add_def table_del_def)

lemma hash_find_set: "hash_inv K \<Longrightarrow> hash_find (Some k) (set_table (hash_hash w) K w) = Inr (hash_get K k)"
  by (simp add: hash_find_def table_ops(3) [of "set_table (hash_hash w) K w" "hash_hash w" K])

lemma hash_find_ok:
  "registry_ok w H \<Longrightarrow> hash_find (Some k) w = Inr (case hash_abs H k of None \<Rightarrow> NULL | Some p \<Rightarrow> p)"
  by (simp add: hash_find_def registry_ok_def table_ops hash_get_abs)

lemma registry_ok_set:
  "registry_ok w H \<Longrightarrow> p \<noteq> hash_hash w \<Longrightarrow> p < next_addr w \<Longrightarrow> registry_ok (set_table p h w) H"
  "registry_ok w H \<Longrightarrow> hash_inv K \<Longrightarrow> registry_ok (set_table (hash_hash w) K w) K"
  by (auto simp: registry_ok_def)

lemma registry_bound: "registry_ok w H \<Longrightarrow> tables w p = Some h \<Longrightarrow> p < next_addr w"
  by (metis leI option.distinct(1) registry_ok_def)

text \<open>Initialisation of an object that has no array yet, or whose new name is free.\<close>

lemma hash_init_ok:
  assumes "registry_ok w H" "tables w p = Some t" "p \<noteq> hash_hash w" "p \<noteq> NULL" "type < aspect_type_nbr w"
    "ent t = [] \<or> hash_abs H name = None"
  shows "hash_init p name sz type w =
    Inr (0, set_table (hash_hash w) (snd (hash_add H name p)) (set_table p (hash_fresh name sz type) w))"
proof -
  let ?w = "set_table p (hash_fresh name sz type) w"
  have ok: "hash_hash w \<noteq> NULL" "hash_lists w \<noteq> NULL" "tables ?w (hash_hash w) = Some H" "hash_inv H"
    using assms(1,3) by (simp_all add: registry_ok_def)
  have "hash_setup p name sz type w = Inr (0, set_table (hash_hash w) (snd (hash_add H name p)) ?w)"
    using assms(2-6) table_ops(4) [OF ok(3,4,1)]
    by (auto simp: hash_setup_def hash_find_ok [OF assms(1)] table_at_def)
  then show ?thesis using ok(1,2) by (simp add: hash_init_def hash_init_body_def lists_init_def)
qed

text \<open>The keys of a table, and their release.\<close>

lemma table_keys_set: "hash_inv h \<Longrightarrow> set (table_keys h) = dom (hash_abs h)"
  using hash_ents_keys [of h] hash_elmnbr_zero [of h] by (auto simp: table_keys_def hash_get_keys_def)

lemma release_sel [simp]:
  "tables (release_keys p ks w) = (\<lambda>q. if q \<noteq> p \<and> list_ex (key_shared w p q) ks then None else tables w q)"
  "hash_hash (release_keys p ks w) = hash_hash w" "hash_lists (release_keys p ks w) = hash_lists w"
  "aspect_type_nbr (release_keys p ks w) = aspect_type_nbr w" "next_addr (release_keys p ks w) = next_addr w"
  "key_shared (release_keys p ks w) = (\<lambda>a b k. a \<noteq> p \<and> b \<noteq> p \<and> key_shared w a b k)"
  by (simp_all add: release_keys_def)

lemma release_set:
  "q = p \<or> \<not> list_ex (key_shared w p q) ks \<Longrightarrow> release_keys p ks (set_table q h w) = set_table q h (release_keys p ks w)"
  by (auto simp: release_keys_def set_table_def fun_eq_iff)

lemma release_unshared: "unshared w p \<Longrightarrow> release_keys p ks w = w"
proof -
  assume u: "unshared w p"
  have "(\<lambda>q. if q \<noteq> p \<and> list_ex (key_shared w p q) ks then None else tables w q) = tables w"
    using u by (auto simp: unshared_def fun_eq_iff list_ex_iff)
  moreover have "(\<lambda>a b k. a \<noteq> p \<and> b \<noteq> p \<and> key_shared w a b k) = key_shared w"
    using u by (auto simp: unshared_def fun_eq_iff)
  ultimately show ?thesis by (simp add: release_keys_def)
qed

lemma registry_ok_release:
  "registry_ok w H \<Longrightarrow> \<not> list_ex (key_shared w p (hash_hash w)) ks \<Longrightarrow> registry_ok (release_keys p ks w) H"
  by (auto simp: registry_ok_def unshared_def)

lemma hash_destroy_ok:
  assumes "registry_ok w H" "tables w p = Some h" "hash_inv h" "p \<noteq> hash_hash w"
    "\<not> list_ex (key_shared w p (hash_hash w)) (table_keys h)"
  shows "hash_destroy p w = Inr (set_table p (h\<lparr>ent := []\<rparr>) (set_table (hash_hash w) (snd (hash_del H (hname h)))
    (release_keys p (table_keys h) w)))"
proof -
  let ?w = "release_keys p (table_keys h) w"
  have "tables ?w (hash_hash w) = Some H" "hash_inv H" using assms(1,5) by (simp_all add: registry_ok_def)
  note H = table_ops(5) [OF this]
  show ?thesis using hash_inv_array [OF assms(3)] assms(2,4)
    by (simp add: hash_destroy_def table_ops(1) [OF assms(2,3)] H table_at_def Let_def)
qed

lemma hash_destroy_own:
  assumes "registry_ok w H" "tables w p = Some h" "hash_inv h" "p \<noteq> hash_hash w" "unshared w p"
  shows "hash_destroy p w = Inr (set_table p (h\<lparr>ent := []\<rparr>) (set_table (hash_hash w) (snd (hash_del H (hname h))) w))"
  using hash_destroy_ok [OF assms(1-4)] assms(5) by (simp add: release_unshared) (simp add: unshared_def list_ex_iff)

lemma char_type_small: "t < 128 \<Longrightarrow> char_type t = t"
proof -
  assume t: "t < 128"
  then have "sint (word_of_nat t :: u_char) = int t"
    by (simp add: signed_of_nat signed_take_bit_int_eq_self)
  then show ?thesis using t
    by (simp add: char_type_def scast_eq unsigned_of_nat take_bit_nat_eq_self)
qed

lemma hash_empty_ok:
  assumes "registry_ok w H" "hash_abs H name = Some p" "tables w p = Some h" "hash_inv h" "hname h = name"
    "p \<noteq> hash_hash w" "htype h < 128" "htype h < aspect_type_nbr w"
    "\<not> list_ex (key_shared w p (hash_hash w)) (table_keys h)"
  obtains K where "hash_empty name w = Inr (p, set_table (hash_hash w) K
      (set_table p (hash_fresh name (hsize h) (htype h)) (release_keys p (table_keys h) w)))"
    "hash_inv K" "hash_abs K = hash_abs H"
proof -
  have H: "tables w (hash_hash w) = Some H" "hash_inv H" using assms(1) by (simp_all add: registry_ok_def)
  have p: "p \<noteq> NULL" using assms(2) by (metis hash_abs_nonnull)
  note n = registry_bound [OF assms(1,3)]
  let ?D = "snd (hash_del H name)" and ?r = "release_keys p (table_keys h)"
  have D: "hash_inv ?D" "hash_abs ?D = (hash_abs H)(name := None)" "snd (hash_del ?D name) = ?D"
    using hash_del_ok [OF H(2)] hash_del_ok(4) [of ?D name] by auto
  let ?w1 = "set_table (hash_hash w) ?D w"
  let ?w2 = "set_table p (h\<lparr>ent := []\<rparr>) (set_table (hash_hash w) ?D (?r w))"
  have rel: "?r ?w1 = set_table (hash_hash w) ?D (?r w)" using assms(9) by (intro release_set) simp
  have ok1: "registry_ok ?w1 ?D" by (rule registry_ok_set(2) [OF assms(1) D(1)])
  have "hash_destroy p ?w1 = Inr ?w2"
    using hash_destroy_ok [OF ok1 _ assms(4)] assms(3,5,6,9) D(3) rel by simp
  moreover have ok2: "registry_ok ?w2 ?D"
    using registry_ok_set(1) [OF registry_ok_release [OF ok1], of p "table_keys h" p] assms(6,9) n rel by simp
  moreover have "hash_init p name (hsize h) (htype h) ?w2 = Inr (0, set_table (hash_hash w) (snd (hash_add ?D name p))
      (set_table p (hash_fresh name (hsize h) (htype h)) (?r w)))"
    using hash_init_ok [OF ok2, of p "h\<lparr>ent := []\<rparr>" "htype h" name "hsize h"] assms(6,8) p
    by (simp add: set_table_swap [of p "hash_hash w"])
  ultimately have "hash_empty name w = Inr (p, set_table (hash_hash w) (snd (hash_add ?D name p))
      (set_table p (hash_fresh name (hsize h) (htype h)) (?r w)))"
    using p by (simp add: hash_empty_def hash_find_ok [OF assms(1)] assms(2) table_ops(1) [OF assms(3,4)]
        table_ops(5) [OF H] char_type_small [OF assms(7)])
  moreover have "hash_abs (snd (hash_add ?D name p)) = hash_abs H"
    using hash_add_ok(2) [OF D(1) p] D(2) assms(2) by (simp add: fun_upd_idem)
  ultimately show ?thesis using that hash_add_ok(1) [OF D(1) p] by blast
qed

lemma share_sel [simp]:
  "tables (share_keys dst src ks w) = tables w" "hash_hash (share_keys dst src ks w) = hash_hash w"
  "hash_lists (share_keys dst src ks w) = hash_lists w" "aspect_type_nbr (share_keys dst src ks w) = aspect_type_nbr w"
  "next_addr (share_keys dst src ks w) = next_addr w"
  by (simp_all add: share_keys_def)

lemma unshared_share: "unshared w q \<Longrightarrow> q \<noteq> dst \<Longrightarrow> q \<noteq> src \<Longrightarrow> unshared (share_keys dst src ks w) q"
  by (auto simp: unshared_def share_keys_def)

lemma registry_ok_share:
  "registry_ok w H \<Longrightarrow> dst < next_addr w \<Longrightarrow> src < next_addr w \<Longrightarrow> registry_ok (share_keys dst src ks w) H"
  using unshared_share by (fastforce simp: registry_ok_def)

lemma table_merge_ok:
  assumes "tables w dst = Some d" "hash_inv d" "tables w src = Some s" "hash_inv s"
  shows "table_merge dst src w = Inr (share_keys dst src (filter (\<lambda>k. hash_get d k = NULL) (table_keys s))
    (set_table dst (snd (hash_merge d s)) w))"
proof (cases "helmnbr s = 0")
  case True
  then have "share_keys dst src (filter (\<lambda>k. hash_get d k = NULL) (table_keys s)) w = w"
    by (simp add: share_keys_def table_keys_def hash_get_keys_def)
  then show ?thesis using assms True by (simp add: table_merge_def table_ops hash_merge_def)
qed (use assms in \<open>simp add: table_merge_def table_ops\<close>)

lemma hash_elmnbr_fresh [simp]: "helmnbr (hash_fresh name sz type) = 0" "htype (hash_fresh name sz type) = type"
  "hname (hash_fresh name sz type) = name"
  by (simp_all add: hash_fresh_def)

lemma hash_add_fields: "htype (snd (hash_add h k d)) = htype h" "hname (snd (hash_add h k d)) = hname h"
  using get_no_fallback [of h k]
  by (auto simp: hash_add.simps [of h k d] hash_set.simps hash_insert_def set_ent_data_def Let_def)

lemma hash_merge_fields: "htype (snd (hash_merge d s)) = htype d" "hname (snd (hash_merge d s)) = hname d"
proof -
  have "htype (snd (merge_ents es r d)) = htype d \<and> hname (snd (merge_ents es r d)) = hname d" for es r
    by (induction es r d rule: merge_ents.induct) (auto simp: Let_def hash_add_fields split: prod.splits dest!: arg_cong [of _ _ snd])
  then show "htype (snd (hash_merge d s)) = htype d" "hname (snd (hash_merge d s)) = hname d" by (simp_all add: hash_merge_def)
qed

text \<open>The tables that a release of the keys of \<open>p\<close> takes along.\<close>

definition lost :: "'z registry_scheme \<Rightarrow> ptr \<Rightarrow> hash_t \<Rightarrow> ptr \<Rightarrow> bool" where
  "lost w p h q \<longleftrightarrow> q \<noteq> p \<and> (\<exists>k\<in>dom (hash_abs h). key_shared w p q k)"

text \<open>The steps of \<open>hash_register\<close> behind the type test, for a name that is bound to \<open>p\<close>.\<close>

lemma emptied:
  assumes "registry_ok w H" "hash_abs H name = Some p" "tables w p = Some h" "hash_inv h" "hname h = name"
    "p \<noteq> hash_hash w" "htype h < 128" "htype h < aspect_type_nbr w" "unshared w (hash_hash w)"
  obtains w2 K g where "(if helmnbr h \<noteq> 0 then hash_empty name w else Inr (p, w)) = Inr (p, w2)"
    "registry_ok w2 K" "hash_abs K = hash_abs H" "hash_inv g" "hash_abs g = Map.empty" "hname g = name" "htype g = htype h"
    "tables w2 = (\<lambda>q. if q = hash_hash w then Some K else if q = p then Some g else if lost w p h q then None else tables w q)"
    "hash_hash w2 = hash_hash w" "aspect_type_nbr w2 = aspect_type_nbr w" "next_addr w2 = next_addr w" "unshared w2 (hash_hash w)"
proof (cases "helmnbr h = 0")
  case True
  then have "hash_abs h = Map.empty" using hash_elmnbr_zero [OF assms(4)] by simp
  moreover from this have "tables w = (\<lambda>q. if q = hash_hash w then Some H else if q = p then Some h else
      if lost w p h q then None else tables w q)"
    using assms(1,3) by (auto simp: fun_eq_iff lost_def registry_ok_def)
  ultimately show ?thesis using that [of w H h] True assms by simp
next
  case False
  have nl: "\<not> list_ex (key_shared w p (hash_hash w)) (table_keys h)" using assms(9) by (simp add: unshared_def list_ex_iff)
  let ?g = "hash_fresh name (hsize h) (htype h)" and ?r = "release_keys p (table_keys h) w"
  obtain K where K: "hash_empty name w = Inr (p, set_table (hash_hash w) K (set_table p ?g ?r))" "hash_inv K" "hash_abs K = hash_abs H"
    by (rule hash_empty_ok [OF assms(1-8) nl])
  let ?w2 = "set_table (hash_hash w) K (set_table p ?g ?r)"
  have "0 < hsize h" using assms(4) by (simp add: hash_inv_def)
  then have g: "hash_inv ?g" "hash_abs ?g = Map.empty" by (simp_all add: hash_fresh_inv hash_fresh_abs)
  have "registry_ok (set_table p ?g ?r) H"
    using registry_ok_set(1) [OF registry_ok_release [OF assms(1) nl], of p] assms(6) registry_bound [OF assms(1,3)] by simp
  then have ok: "registry_ok ?w2 K" using registry_ok_set(2) [OF _ K(2), of "set_table p ?g ?r"] by simp
  have tabs: "tables ?w2 = (\<lambda>q. if q = hash_hash w then Some K else if q = p then Some ?g else if lost w p h q then None else tables w q)"
    by (auto simp: fun_eq_iff lost_def list_ex_iff table_keys_set [OF assms(4)])
  show ?thesis
    by (rule that [of ?w2 K ?g]) (use K False ok tabs g assms(9) in \<open>simp_all add: unshared_def\<close>)
qed

lemma hash_retype:
  assumes "hash_inv h"
  shows "hash_inv (h\<lparr>htype := t\<rparr>)" "hash_abs (h\<lparr>htype := t\<rparr>) = hash_abs h"
proof -
  show "hash_inv (h\<lparr>htype := t\<rparr>)" using assms by (simp add: hash_inv_def hash_ents_def)
  have "hash_get_ent (h\<lparr>htype := t\<rparr>) = hash_get_ent h" "ent_at (h\<lparr>htype := t\<rparr>) = ent_at h"
    by (simp_all add: fun_eq_iff hash_get_ent_def hash_get_head_def ent_at_def)
  then show "hash_abs (h\<lparr>htype := t\<rparr>) = hash_abs h" by (intro ext) (simp add: hash_abs_def hash_get_def split: option.split)
qed

lemma register_bound:
  assumes "registry_ok w H" "hash_abs H name = Some p" "tables w p = Some h" "hash_inv h" "hname h = name"
    "p \<noteq> hash_hash w" "tables w t = Some s" "hash_inv s" "t \<noteq> hash_hash w" "htype s < 128" "htype s < aspect_type_nbr w"
    "unshared w (hash_hash w)" "htype h = ASPECT_TYPE_UNKNOW \<or> htype h = htype s"
  shows "if lost w p h t then hash_register t name w = Inl Bad_Access
    else \<exists>w' K h'. hash_register t name w = Inr (0, w') \<and> registry_ok w' K \<and> hash_abs K = hash_abs H \<and> hash_inv h' \<and>
      hash_abs h' = (if t = p then Map.empty else hash_abs s) \<and> hname h' = name \<and> htype h' = htype s \<and>
      tables w' = (\<lambda>q. if q = hash_hash w then Some K else if q = p then Some h' else if lost w p h q then None else tables w q) \<and>
      hash_hash w' = hash_hash w \<and> aspect_type_nbr w' = aspect_type_nbr w \<and> unshared w' (hash_hash w) \<and>
      (t \<noteq> p \<longrightarrow> (\<forall>k\<in>dom (hash_abs s). key_shared w' p t k))"
proof -
  let ?h = "if htype h = ASPECT_TYPE_UNKNOW then h\<lparr>htype := htype s\<rparr> else h"
  let ?w = "set_table p ?h w"
  have p: "p \<noteq> NULL" using assms(2) by (metis hash_abs_nonnull)
  have H: "tables w (hash_hash w) = Some H" "hash_inv H" using assms(1) by (simp_all add: registry_ok_def)
  note n = registry_bound [OF assms(1,3)] registry_bound [OF assms(1,7)]
  have ht: "htype ?h = htype s" "hname ?h = name" "hash_inv ?h" "hash_abs ?h = hash_abs h"
    using assms(4,5,13) hash_retype [OF assms(4), of "htype s"] by auto
  have ok: "registry_ok ?w H" using registry_ok_set(1) assms(1,6) n(1) by blast
  have lost: "lost ?w p ?h = lost w p h" by (simp add: fun_eq_iff lost_def ht(4))
  have "tables ?w p = Some ?h" "htype ?h < 128" "htype ?h < aspect_type_nbr ?w" "unshared ?w (hash_hash ?w)" "p \<noteq> hash_hash ?w"
    using assms(6,10-12) ht(1) by (simp_all add: unshared_def)
  from emptied [OF ok assms(2) this(1) ht(3,2) this(5,2,3,4)]
  obtain w2 K g where f: "(if helmnbr ?h \<noteq> 0 then hash_empty name ?w else Inr (p, ?w)) = Inr (p, w2)"
    "registry_ok w2 K" "hash_abs K = hash_abs H" "hash_inv g" "hash_abs g = Map.empty" "hname g = name" "htype g = htype ?h"
    "tables w2 = (\<lambda>q. if q = hash_hash ?w then Some K else if q = p then Some g else if lost ?w p ?h q then None else tables ?w q)"
    "hash_hash w2 = hash_hash ?w" "aspect_type_nbr w2 = aspect_type_nbr ?w" "next_addr w2 = next_addr ?w" "unshared w2 (hash_hash ?w)"
    by blast
  have "tables w2 = (\<lambda>q. if q = hash_hash w then Some K else if q = p then Some g else if lost w p h q then None else tables w q)"
    unfolding f(8) lost by (auto simp: fun_eq_iff)
  note e = f(1-6) f(7) [unfolded ht(1)] this f(9-12) [simplified]
  have reg: "hash_register t name w = rbind (table_merge p t w2) (\<lambda>w3. Inr (0, w3))"
    using p assms(2) ht(1) e(1)
    by (simp add: hash_register_def table_ops(3) [OF H] table_ops(1) [OF assms(3,4)] table_ops(1) [OF assms(7,8)] hash_get_abs Let_def)
  show ?thesis
  proof (cases "lost w p h t")
    case True
    then have "tables w2 t = None" using assms(9) by (simp add: e(8) lost_def)
    then show ?thesis using True reg by (simp add: table_merge_def table_at_def)
  next
    case False
    let ?s = "if t = p then g else s"
    let ?m = "snd (hash_merge g ?s)" and ?ks = "filter (\<lambda>k. hash_get g k = NULL) (table_keys ?s)"
    let ?w' = "share_keys p t ?ks (set_table p ?m w2)"
    have ts: "tables w2 t = Some ?s" "hash_inv ?s" "tables w2 p = Some g"
      using False assms(6,7,8,9) e(4,8) by auto
    have m: "hash_inv ?m" "hash_abs ?m = (if t = p then Map.empty else hash_abs s)" "hname ?m = name" "htype ?m = htype s"
      using hash_merge_ok [OF e(4) ts(2)] e(5-7) by (auto simp: hash_merge_fields)
    have "hash_register t name w = Inr (0, ?w')" using reg table_merge_ok [OF ts(3) e(4) ts(1,2)] by simp
    moreover have "registry_ok ?w' K"
      using registry_ok_share [OF registry_ok_set(1) [OF e(2)]] assms(6) n e(9,11) by simp
    moreover have "unshared ?w' (hash_hash w)" using assms(6,9) e(12) by (intro unshared_share) auto
    moreover have "key_shared ?w' p t k" if "t \<noteq> p" "k \<in> dom (hash_abs s)" for k
    proof -
      have "hash_get g k = NULL" using fun_cong [OF e(5), of k] by (simp add: hash_abs_def split: if_splits)
      moreover have "k \<in> set (table_keys s)" using that(2) table_keys_set [OF assms(8)] by simp
      ultimately show ?thesis using that(1) by (simp add: share_keys_def)
    qed
    moreover have "tables ?w' = (\<lambda>q. if q = hash_hash w then Some K else if q = p then Some ?m else
        if lost w p h q then None else tables w q)" using assms(6) by (auto simp: e(8))
    ultimately show ?thesis using False e(3,9,10) m
      by (simp only: if_False) (intro exI [of _ ?w'] exI [of _ K] exI [of _ ?m], simp)
  qed
qed

text \<open>C5. Registering a table under a name that is bound to another table replaces the contents of that one
  by those of the given table, unless their element types conflict; a table registered again
  under the name it is bound to is emptied. The replaced keys are released: every other table
  that holds one of them is lost, and when the given table is among these the call itself fails.
  So it does the second time a table that is not empty is registered, because the first time the
  bound table took over its keys. The bound table has to carry the name it is bound to, the type
  number has to fit a char, and the table of the tables shares no key.\<close>

theorem hash_register_overwrites:
  assumes "registry_ok w H" "hash_abs H name = Some p" "tables w p = Some h" "hash_inv h" "hname h = name"
    "p \<noteq> hash_hash w" "tables w t = Some s" "hash_inv s" "t \<noteq> hash_hash w" "htype s < 128" "htype s < aspect_type_nbr w"
    "unshared w (hash_hash w)"
  shows "if htype h \<noteq> ASPECT_TYPE_UNKNOW \<and> htype h \<noteq> htype s then hash_register t name w = Inr (-1, w)
    else if t \<noteq> p \<and> (\<exists>k\<in>dom (hash_abs h). key_shared w p t k) then hash_register t name w = Inl Bad_Access
    else \<exists>w' h'. hash_register t name w = Inr (0, w') \<and> hash_find (Some name) w' = Inr p \<and> tables w' p = Some h' \<and>
      hash_inv h' \<and> hash_abs h' = (if t = p then Map.empty else hash_abs s) \<and>
      (\<forall>q. q \<noteq> p \<and> q \<noteq> hash_hash w \<longrightarrow>
        tables w' q = (if \<exists>k\<in>dom (hash_abs h). key_shared w p q k then None else tables w q)) \<and>
      (t \<noteq> p \<and> hash_abs s \<noteq> Map.empty \<longrightarrow> hash_register t name w' = Inl Bad_Access)"
proof (cases "htype h \<noteq> ASPECT_TYPE_UNKNOW \<and> htype h \<noteq> htype s")
  case True
  have p: "p \<noteq> NULL" using assms(2) by (metis hash_abs_nonnull)
  have H: "tables w (hash_hash w) = Some H" "hash_inv H" using assms(1) by (simp_all add: registry_ok_def)
  have "hash_register t name w = Inr (-1, w)" using True p assms(2)
    by (simp add: hash_register_def table_ops(3) [OF H] table_ops(1) [OF assms(3,4)] table_ops(1) [OF assms(7,8)] hash_get_abs assms(3))
  then show ?thesis using True by simp
next
  case same: False
  then have ty: "htype h = ASPECT_TYPE_UNKNOW \<or> htype h = htype s" by blast
  show ?thesis
  proof (cases "lost w p h t")
    case True
    then have "hash_register t name w = Inl Bad_Access" using register_bound [OF assms ty] by simp
    then show ?thesis using True same by (simp add: lost_def)
  next
    case False
    obtain w' K h' where r: "hash_register t name w = Inr (0, w')" "registry_ok w' K" "hash_abs K = hash_abs H" "hash_inv h'"
      "hash_abs h' = (if t = p then Map.empty else hash_abs s)" "hname h' = name" "htype h' = htype s"
      "tables w' = (\<lambda>q. if q = hash_hash w then Some K else if q = p then Some h' else if lost w p h q then None else tables w q)"
      "hash_hash w' = hash_hash w" "aspect_type_nbr w' = aspect_type_nbr w" "unshared w' (hash_hash w)"
      "t \<noteq> p \<longrightarrow> (\<forall>k\<in>dom (hash_abs s). key_shared w' p t k)"
      using register_bound [OF assms ty] False by auto
    have find: "hash_find (Some name) w' = Inr p" using hash_find_ok [OF r(2)] r(3) assms(2) by simp
    have twice: "hash_register t name w' = Inl Bad_Access" if "t \<noteq> p" "hash_abs s \<noteq> Map.empty"
    proof -
      have "lost w' p h' t" using that r(5,12) by (fastforce simp: lost_def)
      moreover have "tables w' p = Some h'" "tables w' t = Some s" using False assms(6,7,9) that(1) by (simp_all add: r(8))
      ultimately show ?thesis
        using register_bound [OF r(2) _ _ r(4,6), of p t s] r(3,7,9,10,11) assms(2,6,8-11) by simp
    qed
    have rest: "tables w' q = (if \<exists>k\<in>dom (hash_abs h). key_shared w p q k then None else tables w q)"
      if "q \<noteq> p" "q \<noteq> hash_hash w" for q using that by (simp add: r(8) lost_def)
    have "tables w' p = Some h'" using assms(6) by (simp add: r(8))
    moreover have "\<not> (t \<noteq> p \<and> (\<exists>k\<in>dom (hash_abs h). key_shared w p t k))" using False by (simp add: lost_def)
    ultimately show ?thesis using same r(1,4,5) find rest twice by (simp only: if_False) blast
  qed
qed

text \<open>Registering a table under a new name loses it: the name is bound to a new table, which
  is empty.\<close>

theorem hash_register_loses:
  assumes "registry_ok w H" "hash_abs H name = None" "tables w t = Some s" "hash_inv s" "htype s < aspect_type_nbr w"
  shows "\<exists>w' q h. hash_register t name w = Inr (0, w') \<and> hash_find (Some name) w' = Inr q \<and> q \<noteq> t \<and>
    tables w' q = Some h \<and> hash_abs h = Map.empty"
proof -
  let ?q = "next_addr w" and ?sz = "if int (hsize s) > helmnbr s then hsize s else nat (helmnbr s)"
  have H: "tables w (hash_hash w) = Some H" "hash_inv H" "?q \<noteq> NULL"
    using assms(1) by (auto simp: registry_ok_def)
  have sz: "0 < ?sz" using assms(4) by (auto simp: hash_inv_def)
  note n = registry_bound [OF assms(1,3)] registry_bound [OF assms(1) H(1)]
  let ?w = "(set_table ?q zero_table w)\<lparr>next_addr := Suc ?q\<rparr>"
  let ?K = "snd (hash_add H name ?q)" and ?f = "hash_fresh name ?sz (htype s)"
  let ?w' = "set_table (hash_hash w) ?K (set_table ?q ?f ?w)"
  have "registry_ok ?w H" using assms(1) n(2) by (simp add: registry_ok_def unshared_def)
  then have "hash_init ?q name ?sz (htype s) ?w = Inr (0, ?w')"
    using hash_init_ok [of ?w H ?q zero_table "htype s" name ?sz] n(2) H(3) assms(5) by (simp add: zero_table_def)
  then have "hash_register t name w = Inr (0, ?w')" using assms(2)
    by (simp add: hash_register_def table_ops(3) [OF H(1,2)] table_ops(1) [OF assms(3,4)] hash_get_abs new_table_def Let_def)
  moreover have "hash_find (Some name) ?w' = Inr ?q" using hash_add_ok [OF H(2,3), of name]
      hash_find_set [of ?K name "set_table ?q ?f ?w"] by (simp add: hash_get_abs)
  moreover have "tables ?w' ?q = Some ?f" using n(2) by simp
  ultimately show ?thesis using n(1) hash_fresh_abs [OF sz] by blast
qed

subsection \<open>Witnesses\<close>

text \<open>A registry with the table \<open>two\<close>, which binds one key and is registered as \<open>cfg\<close>, and the
  table \<open>three\<close>, which is not registered.\<close>

definition demo_table :: "string \<Rightarrow> ptr \<Rightarrow> hash_t" where
  "demo_table k d = snd (hash_add (hash_fresh ''cfg'' 3 0) k d)"

definition reg_names :: hash_t where
  "reg_names = snd (hash_add (hash_fresh ''hashes'' 51 0) ''cfg'' 2)"

definition demo_registry :: registry where
  "demo_registry = \<lparr>tables = [1 \<mapsto> reg_names, 2 \<mapsto> demo_table ''a'' 7, 3 \<mapsto> demo_table ''b'' 9], elists = Map.empty,
     hash_hash = 1, hash_lists = 4, aspect_type_nbr = 18, next_addr = 5,
     key_shared = (\<lambda>_ _ _. False)\<rparr>"

lemma demo_table_ok [simp]:
  "d \<noteq> NULL \<Longrightarrow> hash_inv (demo_table k d)" "d \<noteq> NULL \<Longrightarrow> hash_abs (demo_table k d) = [k \<mapsto> d]"
  by (simp_all add: demo_table_def hash_add_ok hash_fresh_inv hash_fresh_abs)

lemma demo_registry_ok: "registry_ok demo_registry reg_names" "hash_abs reg_names = [''cfg'' \<mapsto> 2]"
  by (simp_all add: registry_ok_def unshared_def demo_registry_def reg_names_def hash_add_ok hash_fresh_inv hash_fresh_abs)

theorem hash_register_overwrites_witness:
  "\<exists>w' h'. hash_register 3 ''cfg'' demo_registry = Inr (0, w') \<and> hash_find (Some ''cfg'') w' = Inr 2 \<and>
     tables w' 2 = Some h' \<and> hash_abs h' = [''b'' \<mapsto> 9] \<and> hash_register 3 ''cfg'' w' = Inl Bad_Access"
proof -
  have "tables demo_registry 2 = Some (demo_table ''a'' 7)" "hname (demo_table ''a'' 7) = ''cfg''"
    "htype (demo_table ''a'' 7) = ASPECT_TYPE_UNKNOW" "tables demo_registry 3 = Some (demo_table ''b'' 9)"
    "htype (demo_table ''b'' 9) = 0" "hash_hash demo_registry = 1" "aspect_type_nbr demo_registry = 18"
    "key_shared demo_registry = (\<lambda>_ _ _. False)" "unshared demo_registry 1"
    by (simp_all add: demo_registry_def demo_table_def hash_add_fields ASPECT_TYPE_UNKNOW_def hash_fresh_def unshared_def)
  then show ?thesis
    using hash_register_overwrites [OF demo_registry_ok(1), of "''cfg''" 2 "demo_table ''a'' 7" 3 "demo_table ''b'' 9"]
    by (auto simp: demo_registry_ok(2))
qed

theorem hash_register_loses_witness:
  "\<exists>w' q h. hash_register 3 ''new'' demo_registry = Inr (0, w') \<and> hash_find (Some ''new'') w' = Inr q \<and> q \<noteq> 3 \<and>
     tables w' q = Some h \<and> hash_abs h = Map.empty"
proof -
  have "tables demo_registry 3 = Some (demo_table ''b'' 9)" "htype (demo_table ''b'' 9) = 0"
    "aspect_type_nbr demo_registry = 18"
    by (simp_all add: demo_registry_def demo_table_def hash_add_fields hash_fresh_def)
  then show ?thesis
    using hash_register_loses [OF demo_registry_ok(1), of "''new''" 3 "demo_table ''b'' 9"] by (auto simp: demo_registry_ok(2))
qed

end
