(* ===== verification/Types.thy ===== *)
theory Types
  imports Registry
begin

text \<open>
  The unified type system of \<open>libaspect/types.c\<close>. A type is a node with a list of children (the
  fields of a record or union) linked through \<open>next\<close>; nodes have addresses, because a field of
  a recursive type is a copy of the unfinished type and shares its list of children. The
  declaration of a field is a string, \<open>name:type\<close> with stars for pointers and brackets for
  arrays, or \<open>name%size\<close> for raw bytes. Registered types are found by name in the table
  \<open>types_hash\<close> and by number in the array \<open>aspect_typeinfo\<close>. Sizes and offsets are \<open>u_int\<close>.

  \<open>aspect_type_copy_by_name\<close> recurses over the graph of the nodes and need not end; it takes a
  bound on its depth and gives \<open>Diverges\<close> when that is exceeded. The walks along \<open>next\<close> are
  bounded by the number of addresses in use.
\<close>

subsection \<open>Nodes\<close>

record aspectype_t =
  at_type :: nat
  at_isptr :: u_char
  at_size :: u_int
  at_off :: u_int
  at_dimnbr :: nat
  at_elemnbr :: "u_int list option"
  at_name :: "string option"
  at_fieldname :: "string option"
  at_childs :: ptr
  at_next :: ptr

record aspect = registry +
  theap :: "ptr \<Rightarrow> aspectype_t option"
  aspect_typeinfo :: "(string \<times> u_int) list"
  basetypes_done :: bool

definition zero_type :: aspectype_t where
  "zero_type = \<lparr>at_type = 0, at_isptr = 0, at_size = 0, at_off = 0, at_dimnbr = 0, at_elemnbr = None, at_name = None,
     at_fieldname = None, at_childs = NULL, at_next = NULL\<rparr>"

definition type_at :: "ptr \<Rightarrow> 'z aspect_scheme \<Rightarrow> aspectype_t aspect_result" where
  "type_at p w = (case theap w p of None \<Rightarrow> Inl Bad_Access | Some t \<Rightarrow> Inr t)"

definition upd_type :: "ptr \<Rightarrow> (aspectype_t \<Rightarrow> aspectype_t) \<Rightarrow> 'z aspect_scheme \<Rightarrow> 'z aspect_scheme" where
  "upd_type p f w = w\<lparr>theap := (theap w)(p := map_option f (theap w p))\<rparr>"

definition new_type :: "aspectype_t \<Rightarrow> 'z aspect_scheme \<Rightarrow> ptr \<times> 'z aspect_scheme" where
  "new_type t w = (next_addr w, w\<lparr>theap := (theap w)(next_addr w \<mapsto> t), next_addr := Suc (next_addr w)\<rparr>)"

text \<open>The global variable \<open>types_hash\<close> is an object with a fixed address.\<close>

definition types_hash :: ptr where "types_hash = 1"

definition ASPECT_TYPE_RAW :: nat where "ASPECT_TYPE_RAW = 1"
definition ASPECT_TYPE_BIT :: nat where "ASPECT_TYPE_BIT = 9"
definition ASPECT_TYPE_CORENUM :: nat where "ASPECT_TYPE_CORENUM = 11"
definition ASPECT_TYPE_SIMPLENUM :: nat where "ASPECT_TYPE_SIMPLENUM = 14"
definition ASPECT_TYPE_BASENUM :: nat where "ASPECT_TYPE_BASENUM = 18"
definition ASPECT_TYPE_MAXPTRDEPTH :: nat where "ASPECT_TYPE_MAXPTRDEPTH = 1"
definition sizeof_u_long :: u_int where "sizeof_u_long = 4"

definition aspect_typeinfo_base :: "(string \<times> u_int) list" where
  "aspect_typeinfo_base =
    [(''unknown'', 0), (''raw'', 0), (''byte'', 1), (''string'', sizeof_u_long), (''short'', 2), (''int'', 4),
     (''long'', sizeof_u_long), (''daddr'', 4), (''caddr'', 4), (''bit'', 1), (''oid'', 4), (''vector'', 28),
     (''hash'', 24), (''list'', 20), (''expr'', 28), (''bloc'', 13), (''func'', 110), (''link'', 6)]"

definition aspect_type_simple :: "int \<Rightarrow> int" where
  "aspect_type_simple typeid =
     (if typeid \<noteq> int ASPECT_TYPE_UNKNOW \<and> typeid < int ASPECT_TYPE_SIMPLENUM then 1 else 0)"

subsection \<open>Copies\<close>

definition aspect_type_copy :: "ptr \<Rightarrow> u_int \<Rightarrow> u_char \<Rightarrow> nat \<Rightarrow> string \<Rightarrow> u_int list option \<Rightarrow> 'z aspect_scheme \<Rightarrow>
    (ptr \<times> 'z aspect_scheme) aspect_result" where
  "aspect_type_copy p off isptr elemnbr fieldname dims w = rbind (type_at p w) (\<lambda>t.
     Inr (new_type (t\<lparr>at_off := off, at_isptr := isptr, at_dimnbr := elemnbr, at_fieldname := Some fieldname,
                     at_elemnbr := dims\<rparr>) w))"

definition set_childs :: "ptr \<Rightarrow> (ptr \<times> 'z aspect_scheme) aspect_result \<Rightarrow> 'z aspect_scheme aspect_result" where
  "set_childs p r = rbind r (\<lambda>(c, w). Inr (upd_type p (\<lambda>t. t\<lparr>at_childs := c\<rparr>) w))"

text \<open>The names of the copied fields are entered in the table \<open>fieldshash\<close> unless it is NULL. The
  second function is the loop over the following fields.\<close>

fun aspect_type_copy_by_name :: "nat \<Rightarrow> ptr \<Rightarrow> string option \<Rightarrow> ptr \<Rightarrow> nat \<Rightarrow> nat \<Rightarrow> 'z aspect_scheme \<Rightarrow>
    (ptr \<times> 'z aspect_scheme) aspect_result"
  and copy_nexts :: "nat \<Rightarrow> ptr \<Rightarrow> ptr \<Rightarrow> ptr \<Rightarrow> nat \<Rightarrow> nat \<Rightarrow> 'z aspect_scheme \<Rightarrow> 'z aspect_scheme aspect_result" where
  "aspect_type_copy_by_name 0 type name fieldshash curdepth maxdepth w = Inl Diverges"
| "aspect_type_copy_by_name (Suc fuel) type name fieldshash curdepth maxdepth w =
     (if curdepth > maxdepth then Inr (NULL, w)
      else rbind (type_at type w) (\<lambda>t.
        let (newtype, w1) = new_type (if name = None then t else t\<lparr>at_name := name\<rparr>) w in
        rbind (case at_fieldname t of
                 Some f \<Rightarrow> if fieldshash \<noteq> NULL then table_add fieldshash f 1 w1 else Inr w1
               | None \<Rightarrow> Inr w1) (\<lambda>w2.
        rbind (if at_childs t = NULL then Inr w2
               else if at_isptr t = 0 \<or> curdepth \<noteq> maxdepth \<or> maxdepth = 0 then
                 set_childs newtype (aspect_type_copy_by_name fuel (at_childs t) None
                   (if at_fieldname t = None then fieldshash else NULL)
                   (if at_isptr t \<noteq> 0 then Suc curdepth else curdepth) maxdepth w2)
               else Inr (upd_type newtype (\<lambda>t. t\<lparr>at_childs := NULL\<rparr>) w2)) (\<lambda>w4.
        rbind (copy_nexts fuel newtype (at_next t) fieldshash curdepth maxdepth w4) (\<lambda>w5. Inr (newtype, w5))))))"
| "copy_nexts 0 prev nxt fieldshash curdepth maxdepth w = Inl Diverges"
| "copy_nexts (Suc fuel) prev nxt fieldshash curdepth maxdepth w =
     (if nxt = NULL then Inr w
      else rbind (type_at nxt w) (\<lambda>t.
        let (newtype, w1) = new_type t w in
        rbind (if fieldshash = NULL then Inr w1
               else case at_fieldname t of None \<Rightarrow> Inl Bad_Access | Some f \<Rightarrow> table_add fieldshash f 1 w1) (\<lambda>w2.
        rbind (if at_childs t = NULL then Inr w2
               else rbind (type_at (at_childs t) w2) (\<lambda>c.
                 if at_isptr c = 0 \<or> curdepth \<noteq> maxdepth \<or> maxdepth = 0 then
                   set_childs newtype (aspect_type_copy_by_name fuel (at_childs t) None NULL
                     (if at_isptr c \<noteq> 0 then Suc curdepth else curdepth) maxdepth w2)
                 else Inr (upd_type nxt (\<lambda>t. t\<lparr>at_childs := NULL\<rparr>) w2))) (\<lambda>w4.
        rbind (type_at nxt w4) (\<lambda>t'.
        copy_nexts fuel newtype (at_next t') fieldshash curdepth maxdepth
          (upd_type prev (\<lambda>t. t\<lparr>at_next := newtype\<rparr>) w4))))))"

subsection \<open>Fields\<close>

fun last_next :: "nat \<Rightarrow> ptr \<Rightarrow> 'z aspect_scheme \<Rightarrow> ptr aspect_result" where
  "last_next 0 p w = Inl Diverges"
| "last_next (Suc fuel) p w = rbind (type_at p w) (\<lambda>t.
     if at_next t = NULL then Inr p else last_next fuel (at_next t) w)"

definition aspect_type_addfield :: "ptr \<Rightarrow> ptr \<Rightarrow> 'z aspect_scheme \<Rightarrow> (int \<times> 'z aspect_scheme) aspect_result" where
  "aspect_type_addfield parent field w =
     (if parent = NULL \<or> field = NULL then Inr (-1, w)
      else rbind (type_at parent w) (\<lambda>t.
        if at_childs t = NULL then Inr (0, upd_type parent (\<lambda>t. t\<lparr>at_childs := field\<rparr>) w)
        else rbind (last_next (next_addr w) (at_childs t) w) (\<lambda>l.
          Inr (0, upd_type l (\<lambda>t. t\<lparr>at_next := field\<rparr>) w))))"

text \<open>\<open>strchr\<close> and the NUL written over the character it finds; the number \<open>atoi\<close> reads.\<close>

definition cut :: "char \<Rightarrow> string \<Rightarrow> string \<times> string option" where
  "cut c s = (takeWhile (\<lambda>x. x \<noteq> c) s, case dropWhile (\<lambda>x. x \<noteq> c) s of [] \<Rightarrow> None | _ # r \<Rightarrow> Some r)"

fun digits :: "nat \<Rightarrow> string \<Rightarrow> nat" where
  "digits n [] = n"
| "digits n (c # s) = (let v = of_char c in if 48 \<le> v \<and> v \<le> 57 then digits (10 * n + (v - 48)) s else n)"

definition atoi :: "string \<Rightarrow> int" where
  "atoi s =
     (let s1 = dropWhile (\<lambda>c. of_char c \<in> {32 :: nat, 9, 10, 11, 12, 13}) s;
          neg = (take 1 s1 = ''-'');
          s2 = (if take 1 s1 \<in> {''-'', ''+''} then drop 1 s1 else s1);
          n = int (digits 0 s2)
      in max (- (2 ^ 31)) (min (2 ^ 31 - 1) (if neg then - n else n)))"

lemma cut_length: "cut c s = (a, Some r) \<Longrightarrow> length r < length s"
proof -
  assume "cut c s = (a, Some r)"
  then have "length (dropWhile (\<lambda>x. x \<noteq> c) s) = Suc (length r)" by (auto simp: cut_def split: list.splits)
  then show ?thesis using length_dropWhile_le [of "\<lambda>x. x \<noteq> c" s] by simp
qed

text \<open>The texts behind the opening brackets, None when a closing bracket is missing.\<close>

function array_dims :: "string \<Rightarrow> string list option" where
  "array_dims s = (case cut CHR ''['' s of
     (_, None) \<Rightarrow> Some []
   | (_, Some idx) \<Rightarrow> (case cut CHR '']'' idx of
       (_, None) \<Rightarrow> None
     | (_, Some rest) \<Rightarrow> map_option ((#) idx) (array_dims rest)))"
  by pat_completeness auto

termination
  by (relation "measure length") (auto dest!: cut_length [OF sym])

declare array_dims.simps [simp del]

text \<open>\<open>aspect_type_getdims\<close>: the array of dimensions or NULL, the number stored through
  \<open>dimnbr\<close> (the caller has initialised it with 0), and the type name, which is cut at the first
  bracket. A dimension of 0 is an error, but the number of dimensions is stored before.\<close>

definition aspect_type_getdims :: "string \<Rightarrow> u_int list option \<times> nat \<times> string" where
  "aspect_type_getdims typename = (case array_dims typename of
     None \<Rightarrow> (None, 0, typename)
   | Some ds \<Rightarrow> (let dims = map (\<lambda>d. word_of_int (atoi d)) ds in
       (if 0 \<in> set dims then None else Some dims, length ds, fst (cut CHR ''['' typename))))"

text \<open>The type of a field: its node, whether it is a pointer, the size of one element. An unknown
  name is accepted for the type being created and behind a star.\<close>

definition field_type :: "string \<Rightarrow> ptr \<Rightarrow> string \<Rightarrow> u_char \<Rightarrow> 'z aspect_scheme \<Rightarrow>
    ((ptr \<times> u_char \<times> u_int) option \<times> 'z aspect_scheme) aspect_result" where
  "field_type label newtype typename isptr w = rbind (table_get types_hash typename w) (\<lambda>c.
     if c \<noteq> NULL then rbind (type_at c w) (\<lambda>t. Inr (Some (c, isptr, if isptr \<noteq> 0 then sizeof_u_long else at_size t), w))
     else if label = typename then Inr (Some (newtype, 1, sizeof_u_long), w)
     else if isptr \<noteq> 0 then
       (let (c, w1) = new_type (zero_type\<lparr>at_name := Some typename\<rparr>) w in Inr (Some (c, isptr, 0), w1))
     else Inr (None, w))"

text \<open>The copy for the field, the space it takes, and its entry in the list of fields. The result
  is the offset behind it.\<close>

definition place_field :: "bool \<Rightarrow> ptr \<Rightarrow> string \<Rightarrow> ptr \<Rightarrow> u_char \<Rightarrow> u_int \<Rightarrow> nat \<Rightarrow> u_int list option \<Rightarrow> u_int \<Rightarrow>
    'z aspect_scheme \<Rightarrow> (u_int option \<times> 'z aspect_scheme) aspect_result" where
  "place_field isunion newtype fieldname childtype isptr off dimnbr dims curoff w =
     rbind (aspect_type_copy childtype (if isunion then 0 else curoff) isptr dimnbr fieldname dims w) (\<lambda>(copy, w1).
     rbind (type_at childtype w1) (\<lambda>t.
     let sz = (case dims of None \<Rightarrow> off | Some ds \<Rightarrow> off * prod_list (take dimnbr ds));
         sz1 = (if at_type t = ASPECT_TYPE_BIT then sz div 8 + 1 else sz)
     in rbind (aspect_type_addfield newtype copy w1) (\<lambda>(r, w2). Inr (Some (curoff + sz1), w2))))"

definition create_field :: "bool \<Rightarrow> string \<Rightarrow> ptr \<Rightarrow> ptr \<Rightarrow> string \<Rightarrow> u_int \<Rightarrow> 'z aspect_scheme \<Rightarrow>
    (u_int option \<times> 'z aspect_scheme) aspect_result" where
  "create_field isunion label newtype fields_hash field curoff w =
     (let (pre, typename) = cut CHR '':'' field; (fieldname, fieldsz) = cut CHR ''%'' pre;
          fail = (\<lambda>w. rbind (hash_destroy fields_hash w) (\<lambda>w'. Inr (None, w')))
      in rbind (if fieldname = [] then Inr NULL else table_get fields_hash fieldname w) (\<lambda>seen.
         if fieldname = [] \<or> seen \<noteq> NULL \<or> (typename = None \<and> fieldsz = None) \<or> (typename \<noteq> None \<and> fieldsz \<noteq> None) \<or>
            typename = Some [] \<or> (case fieldsz of None \<Rightarrow> False | Some z \<Rightarrow> z = [] \<or> atoi z = 0)
         then fail w
         else rbind (table_add fields_hash fieldname 1 w) (\<lambda>w1.
           case typename of
             None \<Rightarrow>
               if length (aspect_typeinfo w1) \<le> ASPECT_TYPE_RAW then Inl Bad_Access
               else (let off = word_of_int (atoi (the fieldsz));
                         (c, w2) = new_type (zero_type\<lparr>at_type := ASPECT_TYPE_RAW, at_size := off,
                                       at_name := Some (fst (aspect_typeinfo w1 ! ASPECT_TYPE_RAW))\<rparr>) w1
                     in place_field isunion newtype fieldname c 0 off 0 None curoff w2)
           | Some ty \<Rightarrow>
               (let isptr = word_of_nat (length (takeWhile (\<lambda>c. c = CHR ''*'') ty));
                    (dims, dimnbr, tyname) = aspect_type_getdims (dropWhile (\<lambda>c. c = CHR ''*'') ty)
                in rbind (field_type label newtype tyname isptr w1) (\<lambda>(r, w2).
                   case r of
                     None \<Rightarrow> fail w2
                   | Some (c, ip, off) \<Rightarrow> place_field isunion newtype fieldname c ip off dimnbr dims curoff w2)))))"

fun create_fields :: "bool \<Rightarrow> string \<Rightarrow> ptr \<Rightarrow> ptr \<Rightarrow> string list \<Rightarrow> u_int \<Rightarrow> 'z aspect_scheme \<Rightarrow>
    (u_int option \<times> 'z aspect_scheme) aspect_result" where
  "create_fields isunion label newtype fields_hash [] curoff w = Inr (Some curoff, w)"
| "create_fields isunion label newtype fields_hash (f # fs) curoff w =
     rbind (create_field isunion label newtype fields_hash f curoff w) (\<lambda>(r, w1).
       case r of
         None \<Rightarrow> Inr (None, w1)
       | Some curoff' \<Rightarrow> create_fields isunion label newtype fields_hash fs curoff' w1)"

subsection \<open>Types\<close>

fun biggest_size :: "nat \<Rightarrow> u_int \<Rightarrow> ptr \<Rightarrow> 'z aspect_scheme \<Rightarrow> u_int aspect_result" where
  "biggest_size 0 biggest utype w = Inl Diverges"
| "biggest_size (Suc fuel) biggest utype w = (if utype = NULL then Inr biggest
     else rbind (type_at utype w) (\<lambda>t.
       biggest_size fuel (if at_size t > biggest then at_size t else biggest) (at_next t) w))"

definition aspect_type_find_union_size :: "ptr \<Rightarrow> 'z aspect_scheme \<Rightarrow> u_int aspect_result" where
  "aspect_type_find_union_size utype w = (if utype = NULL then Inr 0
     else rbind (type_at utype w) (\<lambda>t.
       biggest_size (Suc (next_addr w)) 0 (if at_next t = NULL \<and> at_childs t \<noteq> NULL then at_childs t else utype) w))"

fun cut_super :: "string \<Rightarrow> string \<times> string option" where
  "cut_super (c # d # s) = (if c = CHR '':'' \<and> d = CHR '':'' then ([], Some s)
     else (case cut_super (d # s) of (a, b) \<Rightarrow> (c # a, b)))"
| "cut_super s = (s, None)"

definition aspect_type_get_by_name :: "string \<Rightarrow> 'z aspect_scheme \<Rightarrow> ptr aspect_result" where
  "aspect_type_get_by_name name w = table_get types_hash name w"

text \<open>The new node, a copy of the supertype when there is one, and the offset of the first field.\<close>

definition start_type :: "nat \<Rightarrow> string \<Rightarrow> ptr \<Rightarrow> ptr \<Rightarrow> 'z aspect_scheme \<Rightarrow> (ptr \<times> u_int \<times> 'z aspect_scheme) aspect_result" where
  "start_type fuel label supertype fields_hash w =
     (if supertype = NULL then
        (let (p, w1) = new_type (zero_type\<lparr>at_name := Some label\<rparr>) w in Inr (p, 0, w1))
      else rbind (aspect_type_copy_by_name fuel supertype (Some label) fields_hash 0 ASPECT_TYPE_MAXPTRDEPTH w) (\<lambda>(p, w1).
        rbind (type_at p w1) (\<lambda>t. Inr (p, at_size t, w1))))"

text \<open>\<open>aspect_type_create\<close> behind the cut of the label, in two parts: \<open>super\<close> is the name behind the
  cut, \<open>build_type\<close> what follows the checks of the names.\<close>

definition build_type :: "nat \<Rightarrow> bool \<Rightarrow> string \<Rightarrow> ptr \<Rightarrow> string list \<Rightarrow> 'z aspect_scheme \<Rightarrow>
    (ptr \<times> 'z aspect_scheme) aspect_result" where
  "build_type fuel isunion label supertype decls w =
     (let (fields_hash, w1) = new_table w in
      rbind (hash_init fields_hash ''localfields'' 10 ASPECT_TYPE_UNKNOW w1) (\<lambda>(_, w2).
      rbind (start_type fuel label supertype fields_hash w2) (\<lambda>(newtype, curoff, w3).
      rbind (create_fields isunion label newtype fields_hash decls curoff w3) (\<lambda>(r, w4).
      case r of
        None \<Rightarrow> Inr (NULL, w4)
      | Some off \<Rightarrow>
          rbind (if isunion then aspect_type_find_union_size newtype w4 else Inr off) (\<lambda>sz.
          rbind (hash_destroy fields_hash (upd_type newtype (\<lambda>t. t\<lparr>at_size := sz\<rparr>) w4)) (\<lambda>w5. Inr (newtype, w5)))))))"

definition create_type :: "nat \<Rightarrow> bool \<Rightarrow> string \<Rightarrow> string option \<Rightarrow> string list \<Rightarrow> 'z aspect_scheme \<Rightarrow>
    (ptr \<times> 'z aspect_scheme) aspect_result" where
  "create_type fuel isunion label super decls w =
     rbind (case super of None \<Rightarrow> Inr NULL | Some s \<Rightarrow> aspect_type_get_by_name s w) (\<lambda>supertype.
     if super \<noteq> None \<and> supertype = NULL then Inr (NULL, w)
     else rbind (table_get types_hash label w) (\<lambda>old.
     rbind (if old = NULL then Inr False
            else rbind (type_at old w) (\<lambda>t. Inr (at_type t < ASPECT_TYPE_CORENUM \<or> at_type t \<ge> ASPECT_TYPE_BASENUM))) (\<lambda>taken.
     if taken then Inr (NULL, w) else build_type fuel isunion label supertype decls w)))"

definition aspect_type_create :: "nat \<Rightarrow> bool \<Rightarrow> string option \<Rightarrow> string list option \<Rightarrow> 'z aspect_scheme \<Rightarrow>
    (ptr \<times> 'z aspect_scheme) aspect_result" where
  "aspect_type_create fuel isunion label decls w = (case (label, decls) of
     (Some l, Some (f # fs)) \<Rightarrow> (case cut_super l of (base, super) \<Rightarrow> create_type fuel isunion base super (f # fs) w)
   | _ \<Rightarrow> Inr (NULL, w))"

definition aspect_type_register_real :: "string \<Rightarrow> ptr \<Rightarrow> 'z aspect_scheme \<Rightarrow> (int \<times> 'z aspect_scheme) aspect_result" where
  "aspect_type_register_real label ntype w = rbind (table_get types_hash label w) (\<lambda>update.
     rbind (type_at ntype w) (\<lambda>n.
     if update \<noteq> NULL then
       rbind (type_at update w) (\<lambda>u. rbind (array_at types_hash w) (\<lambda>h.
         if at_type u < length (aspect_typeinfo w) then
           (let w1 = set_table types_hash (snd (hash_set h label ntype)) (upd_type ntype (\<lambda>t. t\<lparr>at_type := at_type u\<rparr>) w)
            in Inr (0, w1\<lparr>aspect_typeinfo := (aspect_typeinfo w1)[at_type u := (fst (aspect_typeinfo w1 ! at_type u), at_size n)]\<rparr>))
         else Inl Bad_Access))
     else rbind (table_add types_hash label ntype w) (\<lambda>w1.
       let id = aspect_type_nbr w1 in
       Inr (0, upd_type ntype (\<lambda>t. t\<lparr>at_type := id\<rparr>)
         (w1\<lparr>aspect_type_nbr := Suc id, aspect_typeinfo := aspect_typeinfo w1 @ [(label, at_size n)]\<rparr>)))))"

text \<open>\<open>aspect_type_register\<close>: the label has been cut by \<open>aspect_type_create\<close> when it is registered.\<close>

definition aspect_type_register :: "nat \<Rightarrow> bool \<Rightarrow> string option \<Rightarrow> string list option \<Rightarrow> 'z aspect_scheme \<Rightarrow>
    (int \<times> 'z aspect_scheme) aspect_result" where
  "aspect_type_register fuel isunion label decls w =
     rbind (aspect_type_create fuel isunion label decls w) (\<lambda>(p, w1).
     if p = NULL then Inr (-1, w1) else aspect_type_register_real (fst (cut_super (the label))) p w1)"

definition aspect_basetype_create :: "nat \<Rightarrow> string \<times> u_int \<Rightarrow> 'z aspect_scheme \<Rightarrow> 'z aspect_scheme aspect_result" where
  "aspect_basetype_create type info w =
     (let (p, w1) = new_type (zero_type\<lparr>at_type := type, at_size := snd info, at_name := Some (fst info)\<rparr>) w in
      rbind (table_add types_hash (fst info) p w1) (\<lambda>w2.
      let (h, w3) = new_table w2 in
      rbind (hash_init h (take 8191 (''type_'' @ fst info)) 11 ASPECT_TYPE_UNKNOW w3) (\<lambda>(r, w4). Inr w4)))"

fun create_bases :: "nat \<Rightarrow> (string \<times> u_int) list \<Rightarrow> 'z aspect_scheme \<Rightarrow> 'z aspect_scheme aspect_result" where
  "create_bases index [] w = Inr w"
| "create_bases index (i # infos) w = rbind (aspect_basetype_create index i w) (\<lambda>w1. create_bases (Suc index) infos w1)"

definition aspect_basetypes_create :: "'z aspect_scheme \<Rightarrow> (int \<times> 'z aspect_scheme) aspect_result" where
  "aspect_basetypes_create w = (if basetypes_done w then Inr (0, w)
     else rbind (create_bases 1 (tl aspect_typeinfo_base) (w\<lparr>basetypes_done := True, aspect_typeinfo := aspect_typeinfo_base\<rparr>))
       (\<lambda>w1. Inr (0, w1)))"

definition aspect_basetype_register :: "string option \<Rightarrow> u_int \<Rightarrow> 'z aspect_scheme \<Rightarrow> (int \<times> 'z aspect_scheme) aspect_result" where
  "aspect_basetype_register name sz w = (case name of
     None \<Rightarrow> Inr (-1, w)
   | Some nm \<Rightarrow> rbind (table_get types_hash nm w) (\<lambda>exist.
       if exist \<noteq> NULL then Inr (-1, w)
       else rbind (aspect_basetype_create (aspect_type_nbr w) (nm, sz) w) (\<lambda>w1.
         Inr (0, w1\<lparr>aspect_type_nbr := Suc (aspect_type_nbr w1), aspect_typeinfo := aspect_typeinfo w1 @ [(nm, sz)]\<rparr>))))"

subsection \<open>Lookup\<close>

fun find_child :: "nat \<Rightarrow> ptr \<Rightarrow> string \<Rightarrow> 'z aspect_scheme \<Rightarrow> ptr aspect_result" where
  "find_child 0 cur name w = Inl Diverges"
| "find_child (Suc fuel) cur name w = (if cur = NULL then Inr NULL
     else rbind (type_at cur w) (\<lambda>t. case at_fieldname t of
       None \<Rightarrow> Inl Bad_Access
     | Some f \<Rightarrow> if f = name then Inr cur else find_child fuel (at_next t) name w))"

definition aspect_type_get_child :: "ptr \<Rightarrow> string \<Rightarrow> 'z aspect_scheme \<Rightarrow> ptr aspect_result" where
  "aspect_type_get_child parent name w = rbind (type_at parent w) (\<lambda>t. find_child (Suc (next_addr w)) (at_childs t) name w)"

definition aspect_type_get_by_id :: "nat \<Rightarrow> 'z aspect_scheme \<Rightarrow> ptr aspect_result" where
  "aspect_type_get_by_id i w = (if i \<ge> aspect_type_nbr w then Inr NULL
     else if i < length (aspect_typeinfo w) then table_get types_hash (fst (aspect_typeinfo w ! i)) w else Inl Bad_Access)"

definition aspect_basetype_get :: "nat \<times> (string \<times> u_int) list" where
  "aspect_basetype_get = (ASPECT_TYPE_BASENUM, aspect_typeinfo_base)"

definition aspect_typename_get :: "nat \<Rightarrow> 'z aspect_scheme \<Rightarrow> string option aspect_result" where
  "aspect_typename_get type w = (if type \<ge> aspect_type_nbr w then Inr None
     else if type < length (aspect_typeinfo w) then Inr (Some (fst (aspect_typeinfo w ! type))) else Inl Bad_Access)"

definition aspect_typesize_get :: "nat \<Rightarrow> 'z aspect_scheme \<Rightarrow> u_int aspect_result" where
  "aspect_typesize_get type w = (if type \<ge> aspect_type_nbr w then Inr 0
     else if type < length (aspect_typeinfo w) then Inr (snd (aspect_typeinfo w ! type)) else Inl Bad_Access)"

end
