(* ===== verification/Types_Laws.thy ===== *)
theory Types_Laws
  imports Types
begin

text \<open>
  Laws of the type system: declarations written by \<open>render\<close> are read back by the parser of
  \<open>aspect_type_create\<close>, creating types leaves the registered ones alone, names and numbers of
  types agree in every reachable state, the fields of a new type are laid out one behind the
  other, and deriving from a recursive type does not end.
\<close>

subsection \<open>Declarations of fields\<close>

datatype decl = Raw string nat | Typed string nat string "nat list"

fun decl_name :: "decl \<Rightarrow> string" where
  "decl_name (Raw n k) = n"
| "decl_name (Typed n s t ds) = n"

definition render_dims :: "nat list \<Rightarrow> string" where
  "render_dims ds = concat (map (\<lambda>d. CHR ''['' # fmt_u d @ '']'') ds)"

fun render :: "decl \<Rightarrow> string" where
  "render (Raw n k) = n @ CHR ''%'' # fmt_u k"
| "render (Typed n s t ds) = n @ CHR '':'' # replicate s (CHR ''*'') @ t @ render_dims ds"

definition ident :: "string \<Rightarrow> bool" where
  "ident s \<longleftrightarrow> s \<noteq> [] \<and> set s \<inter> set '':%[]*'' = {}"

fun decl_ok :: "decl \<Rightarrow> bool" where
  "decl_ok (Raw n k) \<longleftrightarrow> ident n \<and> 0 < k \<and> k < 2 ^ 31"
| "decl_ok (Typed n s t ds) \<longleftrightarrow> ident n \<and> ident t \<and> s < 256 \<and> (\<forall>d\<in>set ds. 0 < d \<and> d < 2 ^ 31)"

lemma cut_simps [simp]:
  "c \<notin> set a \<Longrightarrow> cut c (a @ c # b) = (a, Some b)" "c \<notin> set a \<Longrightarrow> cut c a = (a, None)"
proof -
  assume "c \<notin> set a"
  then have "dropWhile (\<lambda>x. x \<noteq> c) a = []" "takeWhile (\<lambda>x. x \<noteq> c) a = a"
    by (auto simp: takeWhile_eq_all_conv)
  then show "cut c a = (a, None)" by (simp only: cut_def list.case)
qed (simp add: cut_def)

definition starts_digit :: "string \<Rightarrow> bool" where
  "starts_digit s \<longleftrightarrow> (case s of [] \<Rightarrow> False | c # _ \<Rightarrow> 48 \<le> (of_char c :: nat) \<and> (of_char c :: nat) \<le> 57)"

lemma digits_stop: "\<not> starts_digit rest \<Longrightarrow> digits n rest = n"
  by (cases rest) (auto simp: starts_digit_def Let_def)

lemma of_char_dec [simp]: "of_char (dec_digit d) = (48 + d mod 10 :: nat)"
  by (simp add: dec_digit.simps)

lemma digits_fmt: "\<exists>k. \<forall>m rest. digits m (fmt_u n @ rest) = digits (m * 10 ^ k + n) rest"
proof (induction n rule: fmt_u.induct)
  case (1 n)
  show ?case
  proof (cases "n < 10")
    case True
    then show ?thesis by (intro exI [of _ 1]) (simp add: fmt_u.simps [of n] Let_def algebra_simps)
  next
    case False
    then obtain k where k: "\<forall>m rest. digits m (fmt_u (n div 10) @ rest) = digits (m * 10 ^ k + n div 10) rest"
      using 1 by blast
    have "n mod 10 \<le> 9" using mod_less_divisor [of 10 n] by simp
    then show ?thesis using False k
      by (intro exI [of _ "Suc k"]) (simp add: fmt_u.simps [of n] Let_def algebra_simps)
  qed
qed

lemma fmt_u_hd: "\<exists>d s. fmt_u n = dec_digit d # s"
proof (induction n rule: fmt_u.induct)
  case (1 n)
  then show ?case by (cases "n < 10") (subst fmt_u.simps, fastforce)+
qed

lemma atoi_fmt: "n < 2 ^ 31 \<Longrightarrow> \<not> starts_digit rest \<Longrightarrow> atoi (fmt_u n @ rest) = int n"
proof -
  assume n: "n < 2 ^ 31" "\<not> starts_digit rest"
  obtain d s where h: "fmt_u n = dec_digit d # s" using fmt_u_hd by blast
  have "digits 0 (fmt_u n @ rest) = n" using digits_fmt [of n] n(2) by (metis add_0 digits_stop mult_0)
  moreover have "dropWhile (\<lambda>c. of_char c \<in> {32 :: nat, 9, 10, 11, 12, 13}) (fmt_u n @ rest) = fmt_u n @ rest"
    by (simp add: h)
  moreover have "dec_digit d \<noteq> CHR ''-''" "dec_digit d \<noteq> CHR ''+''"
    using of_char_dec [of d] by (auto simp del: of_char_dec)
  ultimately show ?thesis using n(1) by (simp add: atoi_def Let_def h)
qed

lemma fmt_u_digits: "c \<in> set (fmt_u n) \<Longrightarrow> \<exists>d. c = dec_digit d"
proof (induction n rule: fmt_u.induct)
  case (1 n)
  then show ?case by (cases "n < 10") (auto simp: fmt_u.simps [of n])
qed

lemma fmt_u_plain: "set (fmt_u n) \<inter> set '':%[]*'' = {}"
proof -
  have "dec_digit d \<notin> set '':%[]*''" for d using of_char_dec [of d] by (auto simp del: of_char_dec)
  then show ?thesis using fmt_u_digits by blast
qed

lemma render_dims_Cons: "render_dims (d # ds) = CHR ''['' # fmt_u d @ CHR '']'' # render_dims ds"
  by (simp add: render_dims_def)

lemma array_dims_render:
  assumes "CHR ''['' \<notin> set t" "\<forall>d\<in>set ds. d < 2 ^ 31"
  shows "\<exists>xs. array_dims (t @ render_dims ds) = Some xs \<and> map atoi xs = map int ds"
  using assms
proof (induction ds arbitrary: t)
  case Nil
  then show ?case by (subst array_dims.simps) (simp add: render_dims_def)
next
  case (Cons d ds)
  obtain xs where xs: "array_dims (render_dims ds) = Some xs" "map atoi xs = map int ds"
    using Cons.IH [of "[]"] Cons.prems by auto
  have "CHR '']'' \<notin> set (fmt_u d)" using fmt_u_plain [of d] by auto
  then have "array_dims (t @ render_dims (d # ds)) = Some ((fmt_u d @ CHR '']'' # render_dims ds) # xs)"
    using Cons.prems(1) xs(1) by (subst array_dims.simps) (simp add: render_dims_Cons)
  moreover have "atoi (fmt_u d @ CHR '']'' # render_dims ds) = int d"
    using Cons.prems(2) by (intro atoi_fmt) (simp_all add: starts_digit_def)
  ultimately show ?case using xs(2) by simp
qed

lemma cut_dims: "CHR ''['' \<notin> set t \<Longrightarrow> fst (cut CHR ''['' (t @ render_dims ds)) = t"
  by (cases ds) (simp_all add: render_dims_Cons, simp add: render_dims_def)

lemma getdims_render:
  assumes "ident t" "\<forall>d\<in>set ds. 0 < d \<and> d < 2 ^ 31"
  shows "aspect_type_getdims (t @ render_dims ds) = (Some (map word_of_nat ds), length ds, t)"
proof -
  have t: "CHR ''['' \<notin> set t" using assms(1) by (auto simp: ident_def)
  obtain xs where xs: "array_dims (t @ render_dims ds) = Some xs" "map atoi xs = map int ds"
    using array_dims_render [OF t] assms(2) by blast
  have w: "map (\<lambda>d. word_of_int (atoi d)) xs = (map word_of_nat ds :: u_int list)"
    using arg_cong [OF xs(2), of "map (word_of_int :: int \<Rightarrow> u_int)"] by (simp add: comp_def)
  have "(0 :: u_int) \<notin> set (map word_of_nat ds)"
  proof
    assume "(0 :: u_int) \<in> set (map word_of_nat ds)"
    then obtain d where d: "d \<in> set ds" "2 ^ 32 dvd d" by (auto simp: word_of_nat_eq_0_iff)
    then have "0 < d" "d < 2 ^ 31" using assms(2) by blast+
    then show False using dvd_imp_le [OF d(2)] by simp
  qed
  moreover have "length xs = length ds" using arg_cong [OF xs(2), of length] by simp
  ultimately show ?thesis using xs(1) w cut_dims [OF t] by (simp add: aspect_type_getdims_def Let_def)
qed

subsection \<open>Creation leaves the registered types alone\<close>

text \<open>What the steps of the creation keep: every table but \<open>F\<close>, the registry, and the number and
  the size of every node that was there.\<close>

definition core :: "aspectype_t \<Rightarrow> nat \<times> u_int" where
  "core t = (at_type t, at_size t)"

definition frame :: "ptr \<Rightarrow> 'z aspect_scheme \<Rightarrow> 'z aspect_scheme \<Rightarrow> bool" where
  "frame F w w' \<longleftrightarrow> next_addr w \<le> next_addr w' \<and> hash_hash w' = hash_hash w \<and> hash_lists w' = hash_lists w \<and>
     key_shared w' = key_shared w \<and> aspect_type_nbr w' = aspect_type_nbr w \<and> aspect_typeinfo w' = aspect_typeinfo w \<and>
     (\<forall>p. p \<noteq> F \<longrightarrow> tables w' p = tables w p) \<and> (tables w' F = None \<longleftrightarrow> tables w F = None) \<and>
     (\<forall>p<next_addr w. map_option core (theap w' p) = map_option core (theap w p)) \<and>
     ((\<forall>p\<ge>next_addr w. theap w p = None) \<longrightarrow> (\<forall>p\<ge>next_addr w'. theap w' p = None))"

lemma frame_refl [simp]: "frame F w w"
  by (simp add: frame_def)

lemma frame_trans: "frame F w w' \<Longrightarrow> frame F w' w'' \<Longrightarrow> frame F w w''"
  by (auto simp: frame_def)

lemma frame_upd: "(\<And>t. core (f t) = core t) \<Longrightarrow> frame F w (upd_type p f w)"
  by (simp add: frame_def upd_type_def option.map_comp comp_def)

lemma core_links [simp]: "core (t\<lparr>at_childs := c\<rparr>) = core t" "core (t\<lparr>at_next := c\<rparr>) = core t"
  by (simp_all add: core_def)

lemma frame_new: "frame F w (snd (new_type t w))"
  by (simp add: frame_def new_type_def)

lemma frame_add: "table_add F k d w = Inr w' \<Longrightarrow> frame F w w'"
  by (auto simp: frame_def table_add_def rbind_Inr array_at_def table_at_def set_table_def split: if_splits option.splits)

lemma frame_childs: "frame F w (upd_type p (\<lambda>t. t\<lparr>at_childs := c\<rparr>) w)"
  by (rule frame_upd) simp

lemma frame_next: "frame F w (upd_type p (\<lambda>t. t\<lparr>at_next := c\<rparr>) w)"
  by (rule frame_upd) simp

lemmas frame_steps = frame_refl frame_new frame_childs frame_next

text \<open>Partial correctness of a result: \<open>P\<close> holds of the value if there is one.\<close>

definition post :: "'e + 'a \<Rightarrow> ('a \<Rightarrow> bool) \<Rightarrow> bool" where
  "post m P \<longleftrightarrow> (\<forall>a. m = Inr a \<longrightarrow> P a)"

lemma post_simps [simp]: "post (Inl e) P" "post (Inr a) P \<longleftrightarrow> P a"
  by (simp_all add: post_def)

lemma post_bind: "post m Q \<Longrightarrow> (\<And>a. m = Inr a \<Longrightarrow> Q a \<Longrightarrow> post (f a) P) \<Longrightarrow> post (rbind m f) P"
  by (auto simp: post_def rbind_Inr)

lemma post_read: "(\<And>a. m = Inr a \<Longrightarrow> post (f a) P) \<Longrightarrow> post (rbind m f) P"
  by (auto simp: post_def rbind_Inr)

lemma post_mono: "post m Q \<Longrightarrow> (\<And>a. Q a \<Longrightarrow> P a) \<Longrightarrow> post m P"
  by (auto simp: post_def)

text \<open>The step of a computation that goes on from the state \<open>w\<close>, which extends \<open>w0\<close>.\<close>

lemma post_step:
  "frame F w0 w \<Longrightarrow> post m (frame F w) \<Longrightarrow> (\<And>w'. frame F w0 w' \<Longrightarrow> post (f w') P) \<Longrightarrow> post (rbind m f) P"
  unfolding post_def rbind_Inr using frame_trans by blast

lemma post_step_pair:
  "frame F w0 w \<Longrightarrow> post m (\<lambda>(x, w'). frame F w w') \<Longrightarrow> (\<And>x w'. frame F w0 w' \<Longrightarrow> post (f (x, w')) P) \<Longrightarrow>
   post (rbind m f) P"
  unfolding post_def rbind_Inr using frame_trans by fast

lemma post_add: "F' = F \<Longrightarrow> post (table_add F' k d w) (frame F w)"
  by (simp add: post_def frame_add)

lemma frame_newD: "new_type t w = (p, w') \<Longrightarrow> frame F w w'"
  using frame_new [of F w t] by simp

lemma if_cases: "post a P \<Longrightarrow> post b P \<Longrightarrow> post (if c then a else b) P"
  by simp

lemma post_set_childs: "post r (\<lambda>(c, w'). frame F w w') \<Longrightarrow> post (set_childs p r) (frame F w)"
  unfolding set_childs_def by (rule post_step_pair [OF frame_refl]) (auto intro: frame_trans frame_steps)

text \<open>The result of a copy is NULL or the first of the new nodes.\<close>

definition copied :: "ptr \<Rightarrow> 'z aspect_scheme \<Rightarrow> ptr \<times> 'z aspect_scheme \<Rightarrow> bool" where
  "copied F w r \<longleftrightarrow> (case r of (q, w') \<Rightarrow> frame F w w' \<and> (q = NULL \<or> q = next_addr w \<and> q < next_addr w'))"

lemma copied_new: "new_type t w = (q, w1) \<Longrightarrow> frame F w1 w' \<Longrightarrow> copied F w (q, w')"
  using frame_trans [OF frame_newD [of t w q w1 F]] by (auto simp: copied_def new_type_def frame_def)

lemma post_copied: "post r (copied F w) \<Longrightarrow> post r (\<lambda>(q, w'). frame F w w')"
  by (auto simp: post_def copied_def)

lemma copy_frame_step:
  fixes w :: "'z aspect_scheme"
  assumes copy: "\<And>p nm fh cur mx (w :: 'z aspect_scheme). fh = F \<or> fh = NULL \<Longrightarrow>
      post (aspect_type_copy_by_name fuel p nm fh cur mx w) (copied F w)"
    and nexts: "\<And>prev nxt fh cur mx (w :: 'z aspect_scheme). fh = F \<or> fh = NULL \<Longrightarrow> post (copy_nexts fuel prev nxt fh cur mx w) (frame F w)"
    and fh: "fh = F \<or> fh = NULL"
  shows "post (aspect_type_copy_by_name (Suc fuel) p nm fh cur mx w) (copied F w)"
    and "post (copy_nexts (Suc fuel) prev nxt fh cur mx w) (frame F w)"
proof -
  show "post (aspect_type_copy_by_name (Suc fuel) p nm fh cur mx w) (copied F w)"
    unfolding aspect_type_copy_by_name.simps
    apply (split if_split, intro conjI impI, simp add: copied_def)
    apply (rule post_read, simp only: Let_def split: prod.split, intro allI impI)
    apply (rule post_step [OF frame_refl])
     apply (use fh in \<open>auto split: option.splits intro: post_add\<close>) []
    apply (rule post_step, assumption)
     apply (intro if_cases post_set_childs post_copied copy; use fh in \<open>auto intro: frame_steps\<close>)
    apply (rule post_step, assumption, rule nexts [OF fh])
    apply (simp add: copied_new)
    done
  show "post (copy_nexts (Suc fuel) prev nxt fh cur mx w) (frame F w)"
    unfolding copy_nexts.simps
    apply (split if_split, intro conjI impI, simp)
    apply (rule post_read, simp only: Let_def split: prod.split, intro allI impI)
    apply (rule post_step, erule frame_newD)
     apply (use fh in \<open>auto split: option.splits intro: post_add\<close>) []
    apply (rule post_step, assumption)
     apply (intro if_cases post_read post_set_childs post_copied copy; auto intro: frame_steps)
    apply (rule post_read, rule post_mono, rule nexts [OF fh])
    apply (erule frame_trans, rule frame_trans, rule frame_next, assumption)
    done
qed

lemma copy_frame:
  "fh = F \<or> fh = NULL \<Longrightarrow> post (aspect_type_copy_by_name fuel p nm fh cur mx w) (copied F w)"
  "fh = F \<or> fh = NULL \<Longrightarrow> post (copy_nexts fuel prev nxt fh cur mx w) (frame F w)"
proof (induction fuel arbitrary: p nm fh cur mx w prev nxt)
  case (Suc fuel)
  { case 1 show ?case by (rule copy_frame_step(1) [OF Suc.IH 1]) }
  { case 2 show ?case by (rule copy_frame_step(2) [OF Suc.IH 2]) }
qed simp_all

lemma addfield_frame: "post (aspect_type_addfield p q w) (\<lambda>(r, w'). frame F w w')"
  unfolding aspect_type_addfield_def by (auto intro!: post_read frame_steps)

lemma place_field_frame: "post (place_field u n f c ip off dn ds cur w) (\<lambda>(r, w'). frame F w w')"
proof -
  have copy: "post (aspect_type_copy c o' ip dn f ds w) (\<lambda>(q, w'). frame F w w')" for o'
    unfolding aspect_type_copy_def by (auto intro!: post_read dest: frame_newD split: prod.splits)
  show ?thesis unfolding place_field_def
    apply (rule post_step_pair [OF frame_refl copy])
    apply (simp only: prod.case, rule post_read, simp only: Let_def)
    apply (rule post_step_pair, assumption, rule addfield_frame)
    apply simp
    done
qed

lemma field_type_frame: "post (field_type l n t ip w) (\<lambda>(r, w'). frame F w w')"
  unfolding field_type_def by (auto intro!: post_read dest: frame_newD split: prod.splits)

text \<open>A field that is refused destroys the table of the names.\<close>

definition created :: "ptr \<Rightarrow> 'z aspect_scheme \<Rightarrow> u_int option \<times> 'z aspect_scheme \<Rightarrow> bool" where
  "created F w r \<longleftrightarrow> (case r of (None, w') \<Rightarrow> \<exists>w1. frame F w w1 \<and> hash_destroy F w1 = Inr w' | (Some _, w') \<Rightarrow> frame F w w')"

lemma created_simps [simp]:
  "created F w (None, w') \<longleftrightarrow> (\<exists>w1. frame F w w1 \<and> hash_destroy F w1 = Inr w')" "created F w (Some x, w') \<longleftrightarrow> frame F w w'"
  by (simp_all add: created_def)

lemma created_trans: "frame F w w1 \<Longrightarrow> created F w1 r \<Longrightarrow> created F w r"
  using frame_trans by (cases r; cases "fst r") fastforce+

lemma created_fail: "frame F w w1 \<Longrightarrow> post (rbind (hash_destroy F w1) (\<lambda>w'. Inr (None, w'))) (created F w)"
  by (auto intro!: post_read simp: created_def)

lemma created_place: "frame F w w1 \<Longrightarrow> post (place_field u n f c ip off dn ds cur w1) (created F w)"
proof -
  assume w1: "frame F w w1"
  have "fst r \<noteq> None" if "place_field u n f c ip off dn ds cur w1 = Inr r" for r
    using that by (auto simp: place_field_def rbind_Inr Let_def split: prod.splits)
  then show ?thesis using place_field_frame [of u n f c ip off dn ds cur w1 F] w1 frame_trans
    by (fastforce simp: post_def created_def split: option.splits)
qed

lemma create_field_frame: "post (create_field u l n F d cur w) (created F w)"
  unfolding create_field_def
  apply (simp only: Let_def split: prod.split, intro allI impI)
  apply (rule post_read, split if_split, intro conjI impI)
   apply (rule created_fail [OF frame_refl])
  apply (rule post_step [OF frame_refl], rule post_add [OF refl])
  apply (split option.split, intro conjI allI impI)
   apply (auto intro!: created_place dest: frame_newD frame_trans split: prod.splits) []
  apply (simp only: Let_def split: prod.split, intro allI impI)
  apply (rule post_step_pair, assumption, rule field_type_frame)
  apply (simp only: prod.case, split option.split, intro conjI allI impI)
   apply (erule created_fail)
  apply (simp only: split: prod.split, intro allI impI)
  apply (erule created_place)
  done

lemma create_fields_frame: "post (create_fields u l n F ds cur w) (created F w)"
proof (induction ds arbitrary: cur w)
  case (Cons d ds)
  have "post (create_fields u l n F ds c w1) (created F w)" if "frame F w w1" for c w1
    using post_mono [OF Cons.IH] created_trans [OF that] by blast
  then have "post (case r of (x, w1) \<Rightarrow> case x of None \<Rightarrow> Inr (None, w1) | Some c \<Rightarrow> create_fields u l n F ds c w1) (created F w)"
    if "created F w r" for r
    using that by (cases r; cases "fst r") auto
  then show ?case unfolding create_fields.simps by (intro post_bind [OF create_field_frame])
qed simp

subsection \<open>Names and numbers\<close>

text \<open>The table \<open>T\<close> of the types binds the names of the numbers from 1 to \<open>n\<close>; the array of the
  type information gives the name and the size of the node that carries the number.\<close>

definition types_inv :: "nat \<Rightarrow> (string \<times> u_int) list \<Rightarrow> 'z aspect_scheme \<Rightarrow> hash_t \<Rightarrow> bool" where
  "types_inv n ti w T \<longleftrightarrow> (\<exists>H. registry_ok w H) \<and> types_hash \<noteq> hash_hash w \<and> tables w types_hash = Some T \<and> hash_inv T \<and>
     n \<le> length ti \<and> 0 < aspect_type_nbr w \<and> 0 < n \<and>
     (\<forall>k p. hash_abs T k = Some p \<longrightarrow> p < next_addr w \<and>
        (\<exists>t. theap w p = Some t \<and> 0 < at_type t \<and> at_type t < n \<and> ti ! at_type t = (k, at_size t))) \<and>
     (\<forall>i. 0 < i \<and> i < n \<longrightarrow> (\<exists>p t. hash_abs T (fst (ti ! i)) = Some p \<and> theap w p = Some t \<and> at_type t = i)) \<and>
     (\<forall>p\<ge>next_addr w. theap w p = None)"

lemma types_invI:
  assumes "registry_ok w H" "types_hash \<noteq> hash_hash w" "tables w types_hash = Some T" "hash_inv T" "n \<le> length ti"
    "0 < aspect_type_nbr w" "0 < n" "\<forall>p\<ge>next_addr w. theap w p = None"
    "\<And>k p. hash_abs T k = Some p \<Longrightarrow> p < next_addr w \<and>
       (\<exists>t. theap w p = Some t \<and> 0 < at_type t \<and> at_type t < n \<and> ti ! at_type t = (k, at_size t))"
    "\<And>i. 0 < i \<Longrightarrow> i < n \<Longrightarrow> \<exists>p t. hash_abs T (fst (ti ! i)) = Some p \<and> theap w p = Some t \<and> at_type t = i"
  shows "types_inv n ti w T"
  unfolding types_inv_def using assms(1-8)
  by (intro conjI exI [of _ H] allI impI) (assumption | erule assms(9) [THEN conjunct1] assms(9) [THEN conjunct2] | elim conjE, rule assms(10) | simp)+

lemma core_eq: "map_option core x = map_option core y \<Longrightarrow> y = Some t \<Longrightarrow> \<exists>t'. x = Some t' \<and> at_type t' = at_type t \<and> at_size t' = at_size t"
  by (cases x) (auto simp: core_def)

lemma types_inv_node:
  assumes "types_inv n ti w T" "hash_abs T k = Some p"
  obtains t where "p < next_addr w" "theap w p = Some t" "0 < at_type t" "at_type t < n"
    "ti ! at_type t = (k, at_size t)"
  using assms unfolding types_inv_def by blast

lemma types_inv_num:
  assumes "types_inv n ti w T" "0 < i" "i < n"
  obtains p t where "hash_abs T (fst (ti ! i)) = Some p" "theap w p = Some t" "at_type t = i"
proof -
  have "\<forall>i. 0 < i \<and> i < n \<longrightarrow> (\<exists>p t. hash_abs T (fst (ti ! i)) = Some p \<and> theap w p = Some t \<and> at_type t = i)"
    using assms(1) unfolding types_inv_def by (elim conjE)
  then show ?thesis using that assms(2,3) by blast
qed

lemma types_inv_core:
  assumes inv: "types_inv n ti w T"
    and w': "tables w' types_hash = Some T" "registry_ok w' H" "hash_hash w' = hash_hash w"
      "aspect_type_nbr w' = aspect_type_nbr w" "next_addr w \<le> next_addr w'"
      "\<forall>p\<in>ran (hash_abs T). map_option core (theap w' p) = map_option core (theap w p)" "\<forall>p\<ge>next_addr w'. theap w' p = None"
  shows "types_inv n ti w' T"
proof -
  have bound: "p < next_addr w' \<and> (\<exists>t. theap w' p = Some t \<and> 0 < at_type t \<and> at_type t < n \<and> ti ! at_type t = (k, at_size t))"
    if kp: "hash_abs T k = Some p" for k p
  proof -
    obtain t where t: "p < next_addr w" "theap w p = Some t" "0 < at_type t" "at_type t < n"
      "ti ! at_type t = (k, at_size t)" by (rule types_inv_node [OF inv kp])
    have "p \<in> ran (hash_abs T)" using kp by (auto simp: ran_def)
    with core_eq [OF _ t(2)] w'(6) obtain t' where "theap w' p = Some t'" "at_type t' = at_type t" "at_size t' = at_size t" by blast
    then show ?thesis using t w'(5) by auto
  qed
  have num: "\<exists>p t. hash_abs T (fst (ti ! i)) = Some p \<and> theap w' p = Some t \<and> at_type t = i" if i: "0 < i" "i < n" for i
  proof -
    obtain p t where t: "hash_abs T (fst (ti ! i)) = Some p" "theap w p = Some t" "at_type t = i"
      using types_inv_num [OF inv] i by blast
    have "p \<in> ran (hash_abs T)" using t(1) by (auto simp: ran_def)
    with core_eq [OF _ t(2)] w'(6) show ?thesis using t by metis
  qed
  have "types_hash \<noteq> hash_hash w'" "hash_inv T" "n \<le> length ti"
    "0 < aspect_type_nbr w'" "0 < n"
    using inv w'(3,4) by (simp_all add: types_inv_def)
  then show ?thesis using types_invI [OF w'(2) _ w'(1) _ _ _ _ w'(7) bound num] by blast
qed

lemma types_inv_ran: "types_inv n ti w T \<Longrightarrow> p \<in> ran (hash_abs T) \<Longrightarrow> p < next_addr w"
  by (auto simp: ran_def elim: types_inv_node)

lemma registry_ok_frame:
  assumes "registry_ok w H" "frame F w w'" "F \<noteq> hash_hash w"
  shows "registry_ok w' H"
proof -
  have sel: "next_addr w \<le> next_addr w'" "key_shared w' = key_shared w" "tables w' F = None \<longleftrightarrow> tables w F = None"
    "p \<noteq> F \<Longrightarrow> tables w' p = tables w p" for p using assms(2) by (auto simp: frame_def)
  have "tables w' p = None" "unshared w' p" if "next_addr w' \<le> p" for p
  proof -
    have "tables w p = None" "unshared w p" using assms(1) le_trans [OF sel(1) that] by (simp_all add: registry_ok_def)
    then show "tables w' p = None" "unshared w' p" using sel(2,3) sel(4) [of p] by (cases "p = F"; simp add: unshared_def)+
  qed
  then show ?thesis using assms by (auto simp: registry_ok_def frame_def)
qed

lemma types_inv_frame:
  assumes "types_inv n ti w T" "frame F w w'" "F \<noteq> hash_hash w" "F \<noteq> types_hash"
  shows "types_inv n ti w' T"
proof -
  obtain H where H: "registry_ok w H" using assms(1) by (auto simp: types_inv_def)
  show ?thesis
    by (rule types_inv_core [OF assms(1) _ registry_ok_frame [OF H assms(2,3)]])
      (use assms types_inv_ran [OF assms(1)] in \<open>auto simp: types_inv_def frame_def\<close>)
qed

lemma destroy_registry:
  assumes "registry_ok w H" "F \<noteq> hash_hash w" "hash_destroy F w = Inr w'" "unshared w F"
  obtains K h where "w' = set_table F h (set_table (hash_hash w) K w)" "hash_inv K" "registry_ok w' K"
proof -
  have H: "tables w (hash_hash w) = Some H" "hash_inv H" using assms(1) by (simp_all add: registry_ok_def)
  obtain h where h: "tables w F = Some h" using assms(3) by (auto simp: hash_destroy_def rbind_Inr table_at_def split: option.splits)
  let ?K = "snd (hash_del H (hname h))"
  have K: "hash_inv ?K" using hash_del_ok [OF H(2)] by blast
  have "w' = set_table F (h\<lparr>ent := []\<rparr>) (set_table (hash_hash w) ?K w)"
    using assms(2,3) h release_unshared [OF assms(4)]
    by (auto simp: hash_destroy_def table_ops(5) [OF H] table_at_def Let_def split: if_splits)
  moreover have "registry_ok (set_table F (h\<lparr>ent := []\<rparr>) (set_table (hash_hash w) ?K w)) ?K"
    using registry_ok_set(1) [OF registry_ok_set(2) [OF assms(1) K]] assms(2) registry_bound [OF assms(1) h] by simp
  ultimately show ?thesis using that K by blast
qed

lemma theap_set_table [simp]: "theap (set_table p h w) = theap w" "aspect_typeinfo (set_table p h w) = aspect_typeinfo w"
  "basetypes_done (set_table p h w) = basetypes_done w"
  by (simp_all add: set_table_def)

lemma types_inv_destroy:
  assumes "types_inv n ti w T" "F \<noteq> hash_hash w" "F \<noteq> types_hash" "hash_destroy F w = Inr w'" "unshared w F"
  shows "types_inv n ti w' T" "theap w' = theap w" "aspect_typeinfo w' = aspect_typeinfo w" "aspect_type_nbr w' = aspect_type_nbr w"
proof -
  obtain H where "registry_ok w H" using assms(1) by (auto simp: types_inv_def)
  from destroy_registry [OF this assms(2,4,5)] obtain K h where
    k: "w' = set_table F h (set_table (hash_hash w) K w)" "registry_ok w' K" by blast
  show "types_inv n ti w' T" by (rule types_inv_core [OF assms(1) _ k(2)]) (use assms(1,3) k(1) in \<open>auto simp: types_inv_def\<close>)
  show "theap w' = theap w" "aspect_typeinfo w' = aspect_typeinfo w" "aspect_type_nbr w' = aspect_type_nbr w" using k(1) by simp_all
qed

text \<open>A created type is a new node, and the registered types are as before.\<close>

lemma start_type_frame:
  "post (start_type fuel l super F w) (\<lambda>(p, off, w'). frame F w w' \<and> (p = NULL \<or> next_addr w \<le> p))"
proof -
  have "post (rbind (aspect_type_copy_by_name fuel super nm F 0 m w) (\<lambda>(p, w1). rbind (type_at p w1) (\<lambda>t. Inr (p, at_size t, w1))))
      (\<lambda>(p, off, w'). frame F w w' \<and> (p = NULL \<or> next_addr w \<le> p))" for nm m
    by (rule post_bind [OF copy_frame(1) [of F F]]) (auto intro!: post_read simp: copied_def)
  then show ?thesis using frame_newD by (fastforce simp: start_type_def Let_def new_type_def)
qed

lemma new_table_ok:
  assumes "types_inv n ti w T" "new_table w = (F, w1)"
  shows "types_inv n ti w1 T" "F \<noteq> hash_hash w1" "F \<noteq> types_hash" "F \<noteq> NULL" "F < next_addr w1" "F = next_addr w"
    "tables w1 F = Some zero_table" "hash_hash w1 = hash_hash w" "theap w1 = theap w"
    "aspect_typeinfo w1 = aspect_typeinfo w" "aspect_type_nbr w1 = aspect_type_nbr w" "unshared w1 F"
proof -
  obtain H where H: "registry_ok w H" using assms(1) by (auto simp: types_inv_def)
  have b: "hash_hash w < next_addr w" "types_hash < next_addr w"
    using registry_bound [OF H] H assms(1) by (auto simp: types_inv_def registry_ok_def)
  have eqs: "w1 = set_table F zero_table w\<lparr>next_addr := Suc F\<rparr>" "F = next_addr w"
    using assms(2) by (auto simp: new_table_def set_table_def)
  show f: "F \<noteq> hash_hash w1" "F \<noteq> types_hash" "F \<noteq> NULL" "F < next_addr w1" "F = next_addr w"
    "tables w1 F = Some zero_table" "hash_hash w1 = hash_hash w" "theap w1 = theap w"
    "aspect_typeinfo w1 = aspect_typeinfo w" "aspect_type_nbr w1 = aspect_type_nbr w" "unshared w1 F"
    using eqs b H by (auto simp: registry_ok_def set_table_def unshared_def)
  have ok: "registry_ok w1 H" using H b eqs by (auto simp: registry_ok_def set_table_def unshared_def)
  show "types_inv n ti w1 T"
    by (rule types_inv_core [OF assms(1) _ ok]) (use assms(1) f eqs in \<open>auto simp: types_inv_def set_table_def\<close>)
qed

lemma hash_init_types:
  assumes "types_inv n ti w T" "tables w F = Some zero_table" "F \<noteq> hash_hash w" "F \<noteq> types_hash" "F \<noteq> NULL"
  obtains w' where "hash_init F name sz ASPECT_TYPE_UNKNOW w = Inr (0, w')" "types_inv n ti w' T" "theap w' = theap w"
    "hash_hash w' = hash_hash w" "tables w' F = Some (hash_fresh name sz 0)" "next_addr w' = next_addr w"
    "aspect_typeinfo w' = aspect_typeinfo w" "aspect_type_nbr w' = aspect_type_nbr w" "key_shared w' = key_shared w"
proof -
  obtain H where H: "registry_ok w H" using assms(1) by (auto simp: types_inv_def)
  let ?K = "snd (hash_add H name F)"
  let ?w = "set_table (hash_hash w) ?K (set_table F (hash_fresh name sz 0) w)"
  have K: "hash_inv ?K" using H hash_add_ok(1) [OF _ assms(5)] by (simp add: registry_ok_def)
  have "0 < aspect_type_nbr w" using assms(1) by (auto simp: types_inv_def)
  then have "hash_init F name sz ASPECT_TYPE_UNKNOW w = Inr (0, ?w)"
    using hash_init_ok [OF H assms(2,3,5)] by (simp add: zero_table_def ASPECT_TYPE_UNKNOW_def)
  moreover have ok: "registry_ok ?w ?K"
    using registry_ok_set(2) [OF registry_ok_set(1) [OF H assms(3) registry_bound [OF H assms(2)]] K] by simp
  have "types_inv n ti ?w T"
    by (rule types_inv_core [OF assms(1) _ ok]) (use assms(1,3,4) in \<open>auto simp: types_inv_def\<close>)
  ultimately show ?thesis using that assms(3) by simp
qed

lemma upd_type_sel [simp]:
  "tables (upd_type p f w) = tables w" "hash_hash (upd_type p f w) = hash_hash w" "next_addr (upd_type p f w) = next_addr w"
  "aspect_typeinfo (upd_type p f w) = aspect_typeinfo w" "aspect_type_nbr (upd_type p f w) = aspect_type_nbr w"
  "hash_lists (upd_type p f w) = hash_lists w" "key_shared (upd_type p f w) = key_shared w" "theap (upd_type p f w) = (theap w)(p := map_option f (theap w p))"
  by (simp_all add: upd_type_def)

lemma registry_ok_upd [simp]: "registry_ok (upd_type p f w) H \<longleftrightarrow> registry_ok w H"
  and unshared_upd [simp]: "unshared (upd_type p f w) q \<longleftrightarrow> unshared w q"
  by (simp_all add: registry_ok_def unshared_def)

lemma types_inv_upd:
  assumes "types_inv n ti w T" "p \<notin> ran (hash_abs T)"
  shows "types_inv n ti (upd_type p f w) T"
proof -
  obtain H where H: "registry_ok (upd_type p f w) H" using assms(1) by (auto simp: types_inv_def)
  show ?thesis by (rule types_inv_core [OF assms(1) _ H]) (use assms in \<open>auto simp: types_inv_def\<close>)
qed

definition fresh_type :: "nat \<Rightarrow> (string \<times> u_int) list \<Rightarrow> 'z aspect_scheme \<Rightarrow> hash_t \<Rightarrow> ptr \<times> 'z aspect_scheme \<Rightarrow> bool" where
  "fresh_type n ti w T r \<longleftrightarrow> types_inv n ti (snd r) T \<and> (fst r \<noteq> NULL \<longrightarrow> fst r \<notin> ran (hash_abs T)) \<and>
     aspect_typeinfo (snd r) = aspect_typeinfo w \<and> aspect_type_nbr (snd r) = aspect_type_nbr w"

lemma build_type_inv:
  assumes inv: "types_inv n ti w T"
  shows "post (build_type fuel u l super ds w) (fresh_type n ti w T)"
proof -
  obtain F w1 where F: "new_table w = (F, w1)" by fastforce
  note w1 = new_table_ok [OF inv F]
  obtain w2 where w2: "hash_init F ''localfields'' 10 ASPECT_TYPE_UNKNOW w1 = Inr (0, w2)" "types_inv n ti w2 T"
    "hash_hash w2 = hash_hash w1" "next_addr w2 = next_addr w1" "aspect_typeinfo w2 = aspect_typeinfo w" "aspect_type_nbr w2 = aspect_type_nbr w"
    "unshared w2 F"
    using hash_init_types [OF w1(1,7,2,3,4)] w1(10,11,12) unfolding unshared_def by metis
  have new: "p \<notin> ran (hash_abs T)" if "p = NULL \<or> next_addr w2 \<le> p" for p
    using that types_inv_ran [OF w2(2), of p] hash_abs_nonnull [of T] by (fastforce simp: ran_def)
  have F2: "F \<noteq> hash_hash w2" using w1(2) w2(3) by simp
  have kept: "types_inv n ti w3 T \<and> F \<noteq> hash_hash w3 \<and> aspect_typeinfo w3 = aspect_typeinfo w \<and> aspect_type_nbr w3 = aspect_type_nbr w \<and> unshared w3 F"
    if "frame F w2 w3" for w3
    using types_inv_frame [OF w2(2) that F2 w1(3)] that F2 w2(5-7) by (simp add: frame_def unshared_def)
  have fin: "fresh_type n ti w T (p, w5)" if "frame F w2 w4" "p = NULL \<or> next_addr w2 \<le> p" "hash_destroy F (upd_type p f w4) = Inr w5" for p w4 w5 f
    using types_inv_destroy [OF types_inv_upd [OF conjunct1 [OF kept [OF that(1)]] new [OF that(2)]] _ w1(3) that(3)] kept [OF that(1)] new [OF that(2)]
    by (simp add: fresh_type_def)
  have fail: "fresh_type n ti w T (NULL, w5)" if "frame F w2 w4" "hash_destroy F w4 = Inr w5" for w4 w5
    using types_inv_destroy [OF conjunct1 [OF kept [OF that(1)]] _ w1(3) that(2)] kept [OF that(1)] by (simp add: fresh_type_def)
  have rest: "post (rbind (create_fields u l p F ds off w3) (\<lambda>(r, w4). case r of
        None \<Rightarrow> Inr (NULL, w4)
      | Some off \<Rightarrow> rbind (if u then aspect_type_find_union_size p w4 else Inr off) (\<lambda>sz.
          rbind (hash_destroy F (upd_type p (\<lambda>t. t\<lparr>at_size := sz\<rparr>) w4)) (\<lambda>w5. Inr (p, w5))))) (fresh_type n ti w T)"
    if p: "frame F w2 w3" "p = NULL \<or> next_addr w2 \<le> p" for p off w3
  proof (rule post_bind [OF create_fields_frame])
    fix r
    assume "created F w3 r"
    then have "created F w2 r" using created_trans [OF p(1)] by blast
    then show "post (case r of (x, w4) \<Rightarrow> case x of None \<Rightarrow> Inr (NULL, w4)
      | Some off \<Rightarrow> rbind (if u then aspect_type_find_union_size p w4 else Inr off) (\<lambda>sz.
          rbind (hash_destroy F (upd_type p (\<lambda>t. t\<lparr>at_size := sz\<rparr>) w4)) (\<lambda>w5. Inr (p, w5)))) (fresh_type n ti w T)"
      using fail fin [OF _ p(2)] by (cases r; cases "fst r") (auto intro!: post_read)
  qed
  show ?thesis unfolding build_type_def F Let_def prod.case w2(1) rbind_simps
    by (rule post_bind [OF start_type_frame]) (use rest in auto)
qed

lemma create_type_inv: "types_inv n ti w T \<Longrightarrow> post (create_type fuel u l super ds w) (fresh_type n ti w T)"
  unfolding create_type_def by (intro post_read if_cases build_type_inv) (simp_all add: fresh_type_def)

lemma type_create_inv: "types_inv n ti w T \<Longrightarrow> post (aspect_type_create fuel u l ds w) (fresh_type n ti w T)"
  unfolding aspect_type_create_def
  by (auto intro!: create_type_inv simp: fresh_type_def split: option.splits list.splits prod.splits)

text \<open>A node with the next number enters the table.\<close>

lemma types_inv_add:
  assumes inv: "types_inv n ti w T" and k: "hash_abs T k = None"
    and p: "theap w p = Some t" "at_type t = n" "p \<notin> ran (hash_abs T)" "p \<noteq> NULL" "n < length ti" "ti ! n = (k, at_size t)"
  shows "types_inv (Suc n) ti (set_table types_hash (snd (hash_add T k p)) w) (snd (hash_add T k p))"
proof -
  let ?T = "snd (hash_add T k p)"
  let ?w = "set_table types_hash ?T w"
  obtain H where H: "registry_ok w H" using inv by (auto simp: types_inv_def)
  have T: "hash_inv T" "tables w types_hash = Some T" "types_hash \<noteq> hash_hash w" using inv by (auto simp: types_inv_def)
  have T': "hash_inv ?T" "hash_abs ?T = (hash_abs T)(k \<mapsto> p)" using hash_add_ok [OF T(1) p(4)] by auto
  have ok: "registry_ok ?w H" using registry_ok_set(1) [OF H T(3) registry_bound [OF H T(2)]] .
  have pb: "p < next_addr w" using inv p(1) by (metis leI option.distinct(1) types_inv_def)
  have names: "x < next_addr ?w \<and> (\<exists>t. theap ?w x = Some t \<and> 0 < at_type t \<and> at_type t < Suc n \<and> ti ! at_type t = (y, at_size t))"
    if y: "hash_abs ?T y = Some x" for y x
  proof (cases "y = k")
    case True
    then show ?thesis using y T'(2) pb p inv by (auto simp: types_inv_def)
  next
    case False
    then have "hash_abs T y = Some x" using y T'(2) by simp
    from types_inv_node [OF inv this] show ?thesis by (metis less_Suc_eq set_table_sel(5) theap_set_table(1))
  qed
  have nums: "\<exists>x t. hash_abs ?T (fst (ti ! i)) = Some x \<and> theap ?w x = Some t \<and> at_type t = i" if i: "0 < i" "i < Suc n" for i
  proof (cases "i = n")
    case True
    then show ?thesis using p T'(2) by simp
  next
    case False
    then have "0 < i" "i < n" using i by auto
    from types_inv_num [OF inv this] obtain x t where x: "hash_abs T (fst (ti ! i)) = Some x" "theap w x = Some t" "at_type t = i" .
    then have "fst (ti ! i) \<noteq> k" using k by auto
    then show ?thesis using x T'(2) by simp
  qed
  show ?thesis by (rule types_invI [OF ok _ _ T'(1) _ _ _ _ names nums]) (use inv p(5) in \<open>auto simp: types_inv_def\<close>)
qed

text \<open>A node takes over the name and the number of another.\<close>

lemma types_inv_replace:
  assumes inv: "types_inv n ti w T" and k: "hash_abs T k = Some u" "theap w u = Some tu"
    and p: "theap w p = Some t" "at_type t = at_type tu" "p \<notin> ran (hash_abs T)" "p \<noteq> NULL"
  shows "types_inv n (ti[at_type tu := (k, at_size t)]) (set_table types_hash (snd (hash_add T k p)) w) (snd (hash_add T k p))"
proof -
  let ?T = "snd (hash_add T k p)" and ?ti = "ti[at_type tu := (k, at_size t)]"
  let ?w = "set_table types_hash ?T w"
  obtain H where H: "registry_ok w H" using inv by (auto simp: types_inv_def)
  have T: "hash_inv T" "tables w types_hash = Some T" "types_hash \<noteq> hash_hash w" "n \<le> length ti" using inv by (auto simp: types_inv_def)
  have T': "hash_inv ?T" "hash_abs ?T = (hash_abs T)(k \<mapsto> p)" using hash_add_ok [OF T(1) p(4)] by auto
  have ok: "registry_ok ?w H" using registry_ok_set(1) [OF H T(3) registry_bound [OF H T(2)]] .
  have pb: "p < next_addr w" using inv p(1) by (metis leI option.distinct(1) types_inv_def)
  have u: "0 < at_type tu" "at_type tu < n" "fst (ti ! at_type tu) = k" using types_inv_node [OF inv k(1)] k(2) by (metis fst_conv option.inject)+
  have names: "x < next_addr ?w \<and> (\<exists>t. theap ?w x = Some t \<and> 0 < at_type t \<and> at_type t < n \<and> ?ti ! at_type t = (y, at_size t))"
    if y: "hash_abs ?T y = Some x" for y x
  proof (cases "y = k")
    case True
    then show ?thesis using y T'(2) T(4) pb p u by simp
  next
    case False
    then have "hash_abs T y = Some x" using y T'(2) by simp
    from types_inv_node [OF inv this] obtain t' where "x < next_addr w" "theap w x = Some t'" "0 < at_type t'" "at_type t' < n"
      "ti ! at_type t' = (y, at_size t')" by blast
    moreover have "at_type t' \<noteq> at_type tu" using False u(3) calculation(5) by auto
    ultimately show ?thesis by simp
  qed
  have nums: "\<exists>x t. hash_abs ?T (fst (?ti ! i)) = Some x \<and> theap ?w x = Some t \<and> at_type t = i" if i: "0 < i" "i < n" for i
  proof (cases "i = at_type tu")
    case True
    then show ?thesis using p T'(2) u T(4) by simp
  next
    case False
    obtain x t' where x: "hash_abs T (fst (ti ! i)) = Some x" "theap w x = Some t'" "at_type t' = i"
      using types_inv_num [OF inv] i by blast
    then have "fst (ti ! i) \<noteq> k" using k False by auto
    then show ?thesis using x T'(2) False by simp
  qed
  show ?thesis by (rule types_invI [OF ok _ _ T'(1) _ _ _ _ names nums]) (use inv in \<open>auto simp: types_inv_def\<close>)
qed

definition types_ok :: "'z aspect_scheme \<Rightarrow> bool" where
  "types_ok w \<longleftrightarrow> aspect_type_nbr w = length (aspect_typeinfo w) \<and> (\<exists>T. types_inv (aspect_type_nbr w) (aspect_typeinfo w) w T)"

lemma types_inv_more:
  "types_inv n ti w T \<Longrightarrow> types_inv n (ti @ xs) w T"
  "types_inv n ti w T \<Longrightarrow> 0 < m \<Longrightarrow> types_inv n ti (w\<lparr>aspect_type_nbr := m, aspect_typeinfo := ys\<rparr>) T"
proof -
  assume inv: "types_inv n ti w T"
  then have len: "n \<le> length ti" by (simp add: types_inv_def)
  then have pre: "i < n \<Longrightarrow> (ti @ xs) ! i = ti ! i" for i by (simp add: nth_append)
  obtain H where H: "registry_ok w H" using inv by (auto simp: types_inv_def)
  have names: "p < next_addr w \<and> (\<exists>t. theap w p = Some t \<and> 0 < at_type t \<and> at_type t < n \<and> ti ! at_type t = (k, at_size t))"
    if k: "hash_abs T k = Some p" for k p using types_inv_node [OF inv k] by blast
  have nums: "\<exists>p t. hash_abs T (fst (ti ! i)) = Some p \<and> theap w p = Some t \<and> at_type t = i" if i: "0 < i" "i < n" for i
    using types_inv_num [OF inv i] by blast
  have names': "p < next_addr w \<and> (\<exists>t. theap w p = Some t \<and> 0 < at_type t \<and> at_type t < n \<and> (ti @ xs) ! at_type t = (k, at_size t))"
    if "hash_abs T k = Some p" for k p using names [OF that] pre by metis
  show "types_inv n (ti @ xs) w T"
    by (rule types_invI [OF H _ _ _ _ _ _ _ names']) (use inv nums pre in \<open>auto simp: types_inv_def\<close>)
  assume "0 < m"
  moreover have ok: "registry_ok (w\<lparr>aspect_type_nbr := m, aspect_typeinfo := ys\<rparr>) H" using H by (simp add: registry_ok_def unshared_def)
  ultimately show "types_inv n ti (w\<lparr>aspect_type_nbr := m, aspect_typeinfo := ys\<rparr>) T"
    by (intro types_invI [OF ok]) (use inv names nums in \<open>auto simp: types_inv_def\<close>)
qed

lemma table_get_types: "types_inv n ti w T \<Longrightarrow> table_get types_hash k w = Inr (hash_get T k)"
  by (simp add: types_inv_def table_ops)

lemma types_hash_nonnull [simp]: "types_hash \<noteq> NULL"
  by (simp add: types_hash_def)

lemma register_real_ok:
  assumes inv: "types_inv (aspect_type_nbr w) (aspect_typeinfo w) w T" "aspect_type_nbr w = length (aspect_typeinfo w)"
    and p: "p \<notin> ran (hash_abs T)" "p \<noteq> NULL"
  shows "post (aspect_type_register_real l p w) (\<lambda>(r, w'). types_ok w')"
proof -
  let ?n = "aspect_type_nbr w" and ?ti = "aspect_typeinfo w"
  have T: "tables w types_hash = Some T" "hash_inv T" "0 < ?n" using inv by (auto simp: types_inv_def)
  have "types_ok w'" if r: "aspect_type_register_real l p w = Inr (r, w')" for r w'
  proof -
    obtain t where t: "theap w p = Some t"
      using r by (auto simp: aspect_type_register_real_def rbind_Inr type_at_def split: option.splits)
    show ?thesis
    proof (cases "hash_abs T l")
      case None
      let ?w = "upd_type p (\<lambda>t. t\<lparr>at_type := ?n\<rparr>) (w\<lparr>aspect_type_nbr := Suc ?n, aspect_typeinfo := ?ti @ [(l, at_size t)]\<rparr>)"
      have w': "w' = set_table types_hash (snd (hash_add T l p)) ?w" using r t None
        by (auto simp: aspect_type_register_real_def table_get_types [OF inv(1)] hash_get_abs type_at_def
            table_ops(4) [OF T(1,2) types_hash_nonnull] Let_def set_table_def upd_type_def)
      have "types_inv ?n (?ti @ [(l, at_size t)]) ?w T"
        by (intro types_inv_upd types_inv_more inv(1) p(1)) simp
      from types_inv_add [OF this None, of p "t\<lparr>at_type := ?n\<rparr>"] t p inv(2) w' show ?thesis
        by (auto simp: types_ok_def)
    next
      case (Some u)
      obtain tu where tu: "theap w u = Some tu" "at_type tu < ?n" "?ti ! at_type tu = (l, at_size tu)"
        using types_inv_node [OF inv(1) Some] by metis
      have un: "u \<noteq> NULL" "u \<noteq> p" using Some p(1) hash_abs_nonnull [of T l] by (auto simp: ran_def)
      let ?w1 = "upd_type p (\<lambda>t. t\<lparr>at_type := at_type tu\<rparr>) w"
      have set: "hash_set T l p = hash_add T l p" using Some un by (simp add: hash_add.simps [of T l p] hash_get_abs)
      have w': "w' = (set_table types_hash (snd (hash_add T l p)) ?w1)\<lparr>aspect_type_nbr := ?n, aspect_typeinfo := ?ti[at_type tu := (l, at_size t)]\<rparr>"
        using r t Some tu un inv(2) set
        by (auto simp: aspect_type_register_real_def table_get_types [OF inv(1)] hash_get_abs type_at_def
            table_ops(2) [OF T(1,2)] Let_def set_table_def upd_type_def)
      have "types_inv ?n ?ti ?w1 T" by (rule types_inv_upd [OF inv(1) p(1)])
      from types_inv_replace [OF this Some, of tu p "t\<lparr>at_type := at_type tu\<rparr>"] t tu p un
      have "types_inv ?n (?ti[at_type tu := (l, at_size t)]) (set_table types_hash (snd (hash_add T l p)) ?w1) (snd (hash_add T l p))"
        by simp
      from types_inv_more(2) [OF this T(3), of "?ti[at_type tu := (l, at_size t)]"] inv(2) w' show ?thesis
        by (auto simp: types_ok_def)
    qed
  qed
  then show ?thesis by (auto simp: post_def)
qed

lemma type_register_ok:
  assumes "types_ok w"
  shows "post (aspect_type_register fuel u l ds w) (\<lambda>(r, w'). types_ok w')"
proof -
  obtain T where T: "types_inv (aspect_type_nbr w) (aspect_typeinfo w) w T" "aspect_type_nbr w = length (aspect_typeinfo w)"
    using assms by (auto simp: types_ok_def)
  show ?thesis unfolding aspect_type_register_def
  proof (rule post_bind [OF type_create_inv [OF T(1)]])
    fix r
    assume "fresh_type (aspect_type_nbr w) (aspect_typeinfo w) w T r"
    then have r: "types_inv (aspect_type_nbr (snd r)) (aspect_typeinfo (snd r)) (snd r) T"
      "aspect_type_nbr (snd r) = length (aspect_typeinfo (snd r))" "fst r \<noteq> NULL \<longrightarrow> fst r \<notin> ran (hash_abs T)"
      using T(2) by (simp_all add: fresh_type_def)
    then show "post (case r of (p, w1) \<Rightarrow> if p = NULL then Inr (- 1, w1)
        else aspect_type_register_real (fst (cut_super (the l))) p w1) (\<lambda>(r, w'). types_ok w')"
      using register_real_ok [OF r(1,2)] by (cases r) (auto simp: types_ok_def)
  qed
qed

lemma basetype_create_ok:
  assumes inv: "types_inv n ti w T" and k: "hash_abs T k = None" "n < length ti" "ti ! n = (k, sz)"
  obtains w' T' where "aspect_basetype_create n (k, sz) w = Inr w'" "types_inv (Suc n) ti w' T'"
    "dom (hash_abs T') = insert k (dom (hash_abs T))" "aspect_typeinfo w' = aspect_typeinfo w" "aspect_type_nbr w' = aspect_type_nbr w"
proof -
  let ?t = "zero_type\<lparr>at_type := n, at_size := sz, at_name := Some k\<rparr>" and ?p = "next_addr w"
  let ?w1 = "snd (new_type ?t w)"
  have T: "hash_inv T" "types_hash \<noteq> hash_hash w" "tables w types_hash = Some T" using inv by (auto simp: types_inv_def)
  obtain H where H: "registry_ok w H" using inv by (auto simp: types_inv_def)
  have p: "?p \<noteq> NULL" "?p \<notin> ran (hash_abs T)" using H types_inv_ran [OF inv, of ?p] by (auto simp: registry_ok_def)
  have inv1: "types_inv n ti ?w1 T"
    by (rule types_inv_frame [OF inv frame_new [of 0]]) (use H in \<open>auto simp: registry_ok_def\<close>)
  let ?T = "snd (hash_add T k ?p)"
  let ?w2 = "set_table types_hash ?T ?w1"
  have inv2: "types_inv (Suc n) ti ?w2 ?T"
    by (rule types_inv_add [OF inv1 k(1)]) (use p k in \<open>auto simp: new_type_def\<close>)
  have add: "table_add types_hash k ?p ?w1 = Inr ?w2"
    using table_ops(4) [of ?w1 types_hash T] T by (simp add: new_type_def)
  obtain F w3 where F: "new_table ?w2 = (F, w3)" by fastforce
  note w3 = new_table_ok [OF inv2 F]
  obtain w4 where w4: "hash_init F (take 8191 (''type_'' @ k)) 11 ASPECT_TYPE_UNKNOW w3 = Inr (0, w4)" "types_inv (Suc n) ti w4 ?T"
    "aspect_typeinfo w4 = aspect_typeinfo w3" "aspect_type_nbr w4 = aspect_type_nbr w3"
    by (rule hash_init_types [OF w3(1,7,2,3,4)])
  have "aspect_basetype_create n (k, sz) w = Inr w4"
    using add F w4(1) by (simp add: aspect_basetype_create_def Let_def new_type_def)
  moreover have "dom (hash_abs ?T) = insert k (dom (hash_abs T))" using hash_add_ok(2) [OF T(1) p(1)] by simp
  ultimately show ?thesis using that w4(2-4) w3(10,11) by (simp add: new_type_def)
qed

lemma create_bases_ok:
  assumes "types_inv n ti w T" "drop n ti = infos" "distinct (map fst infos)" "\<forall>i\<in>set infos. fst i \<notin> dom (hash_abs T)" "n \<le> length ti"
  obtains w' T' where "create_bases n infos w = Inr w'" "types_inv (length ti) ti w' T'"
    "aspect_typeinfo w' = aspect_typeinfo w" "aspect_type_nbr w' = aspect_type_nbr w"
  using assms
proof (induction infos arbitrary: n w T thesis)
  case Nil
  then have "n = length ti" by simp
  then show ?case using Nil by auto
next
  case (Cons i infos)
  obtain k sz where i: "i = (k, sz)" by fastforce
  have n: "n < length ti" using Cons.prems(3) by (cases "n < length ti") auto
  then have dn: "ti ! n = (k, sz)" "drop (Suc n) ti = infos" using Cons.prems(3) i by (auto simp: Cons_nth_drop_Suc [symmetric])
  obtain w1 T1 where w1: "aspect_basetype_create n (k, sz) w = Inr w1" "types_inv (Suc n) ti w1 T1"
    "dom (hash_abs T1) = insert k (dom (hash_abs T))" "aspect_typeinfo w1 = aspect_typeinfo w" "aspect_type_nbr w1 = aspect_type_nbr w"
    using basetype_create_ok [OF Cons.prems(2) _ n dn(1)] Cons.prems(5) i by (metis domIff fst_conv list.set_intros(1))
  have "\<forall>i\<in>set infos. fst i \<notin> dom (hash_abs T1)" using Cons.prems(4,5) i w1(3) by auto
  from Cons.IH [OF _ w1(2) dn(2) _ this] n Cons.prems(4) obtain w' T' where "create_bases (Suc n) infos w1 = Inr w'"
    "types_inv (length ti) ti w' T'" "aspect_typeinfo w' = aspect_typeinfo w1" "aspect_type_nbr w' = aspect_type_nbr w1" by auto
  then show ?case using Cons.prems(1) w1 i by auto
qed

lemma basetype_register_ok:
  assumes "types_ok w"
  shows "post (aspect_basetype_register nm sz w) (\<lambda>(r, w'). types_ok w')"
proof -
  let ?n = "aspect_type_nbr w" and ?ti = "aspect_typeinfo w"
  obtain T where T: "types_inv ?n ?ti w T" "?n = length ?ti" using assms by (auto simp: types_ok_def)
  have "types_ok w'" if r: "aspect_basetype_register (Some k) sz w = Inr (x, w')" for k x w'
  proof (cases "hash_abs T k")
    case None
    obtain w1 T' where w1: "aspect_basetype_create ?n (k, sz) w = Inr w1" "types_inv (Suc ?n) (?ti @ [(k, sz)]) w1 T'"
      "aspect_typeinfo w1 = ?ti" "aspect_type_nbr w1 = ?n"
      by (rule basetype_create_ok [OF types_inv_more(1) [OF T(1)] None]) (use T(2) in auto)
    then have "w' = w1\<lparr>aspect_type_nbr := Suc ?n, aspect_typeinfo := ?ti @ [(k, sz)]\<rparr>"
      using r None by (simp add: aspect_basetype_register_def table_get_types [OF T(1)] hash_get_abs)
    then show ?thesis using types_inv_more(2) [OF w1(2), of "Suc ?n" "?ti @ [(k, sz)]"] T(2) by (auto simp: types_ok_def)
  next
    case (Some p)
    then have "p \<noteq> NULL" by (metis hash_abs_nonnull)
    then show ?thesis using r Some assms by (simp add: aspect_basetype_register_def table_get_types [OF T(1)] hash_get_abs)
  qed
  then show ?thesis using assms by (cases nm) (auto simp: post_def aspect_basetype_register_def)
qed

text \<open>What the lookups return in a consistent state.\<close>

lemma types_ok_lookup:
  assumes "types_ok w" "0 < i" "i < aspect_type_nbr w"
  shows "\<exists>p t k. aspect_type_get_by_id i w = Inr p \<and> p \<noteq> NULL \<and> type_at p w = Inr t \<and> at_type t = i \<and>
    aspect_typename_get i w = Inr (Some k) \<and> aspect_type_get_by_name k w = Inr p \<and> aspect_typesize_get i w = Inr (at_size t)"
proof -
  let ?n = "aspect_type_nbr w" and ?ti = "aspect_typeinfo w"
  obtain T where T: "types_inv ?n ?ti w T" "?n = length ?ti" using assms by (auto simp: types_ok_def)
  obtain p t where p: "hash_abs T (fst (?ti ! i)) = Some p" "theap w p = Some t" "at_type t = i"
    by (rule types_inv_num [OF T(1) assms(2,3)])
  have "?ti ! i = (fst (?ti ! i), at_size t)" using types_inv_node [OF T(1) p(1)] p(2,3) by (metis option.inject)
  then have "snd (?ti ! i) = at_size t" by (metis snd_conv)
  moreover have "p \<noteq> NULL" using p(1) by (metis hash_abs_nonnull)
  ultimately show ?thesis using p assms(3) T(2)
    by (simp add: aspect_type_get_by_id_def aspect_typename_get_def aspect_type_get_by_name_def aspect_typesize_get_def
        table_get_types [OF T(1)] hash_get_abs type_at_def)
qed

end
