(* ===== verification/Types_Layout.thy ===== *)
theory Types_Layout
  imports Types_Laws
begin

text \<open>
  What the type of a declaration looks like: the list of the fields, their offsets and sizes, and
  the graph a recursive declaration leaves.
\<close>

subsection \<open>Lists of fields\<close>

text \<open>The fields reached from \<open>p\<close>, each with its address; the link itself is left out of the node.\<close>

fun linked :: "(ptr \<Rightarrow> aspectype_t option) \<Rightarrow> ptr \<Rightarrow> (ptr \<times> aspectype_t) list \<Rightarrow> bool" where
  "linked h p [] \<longleftrightarrow> p = NULL"
| "linked h p ((q, f) # fs) \<longleftrightarrow> p = q \<and> q \<noteq> NULL \<and> (\<exists>x. h q = Some x \<and> x\<lparr>at_next := NULL\<rparr> = f \<and> linked h (at_next x) fs)"

lemma linked_other: "(\<And>q. q \<in> fst ` set fs \<Longrightarrow> h' q = h q) \<Longrightarrow> linked h p fs \<Longrightarrow> linked h' p fs"
  by (induction fs arbitrary: p) auto

lemma linked_append:
  assumes "linked h p fs" "fs \<noteq> []" "q \<noteq> NULL" "h q = Some f" "at_next f = NULL" "q \<notin> fst ` set fs" "distinct (map fst fs)"
  shows "linked (h(fst (last fs) := map_option (\<lambda>x. x\<lparr>at_next := q\<rparr>) (h (fst (last fs))))) p (fs @ [(q, f)])"
  using assms
proof (induction fs arbitrary: p)
  case (Cons a fs)
  obtain x g where a: "a = (x, g)" by fastforce
  then obtain y where y: "p = x" "x \<noteq> NULL" "h x = Some y" "y\<lparr>at_next := NULL\<rparr> = g" "linked h (at_next y) fs"
    using Cons.prems(1) by auto
  show ?case
  proof (cases "fs = []")
    case True
    then show ?thesis using a y Cons.prems(3-6) by auto
  next
    case False
    then have "fst (last fs) \<noteq> x" using Cons.prems(7) a by (metis distinct.simps(2) fst_conv last_in_set last_map list.map_disc_iff list.simps(9))
    then show ?thesis using Cons.IH [OF y(5) False Cons.prems(3-5)] Cons.prems(6,7) False a y by auto
  qed
qed simp

lemma last_next_ok:
  assumes "linked (theap w) p fs" "fs \<noteq> []" "length fs \<le> fuel"
  shows "last_next fuel p w = Inr (fst (last fs))"
  using assms
proof (induction fs arbitrary: p fuel)
  case (Cons a fs)
  obtain x g where a: "a = (x, g)" by fastforce
  then obtain y where y: "p = x" "theap w x = Some y" "linked (theap w) (at_next y) fs" using Cons.prems(1) by auto
  obtain fuel' where f: "fuel = Suc fuel'" using Cons.prems(3) by (cases fuel) auto
  show ?case
  proof (cases "fs = []")
    case True
    then show ?thesis using a y f by (simp add: type_at_def)
  next
    case False
    then have "at_next y \<noteq> NULL" using y(3) by (cases fs) auto
    then show ?thesis using Cons.IH [OF y(3) False] Cons.prems(3) False a y f by (simp add: type_at_def)
  qed
qed simp

lemma find_child_ok:
  assumes "linked (theap w) p fs" "i < length fs" "at_fieldname (snd (fs ! i)) = Some nm" "length fs \<le> fuel"
    "\<forall>j<i. at_fieldname (snd (fs ! j)) \<noteq> Some nm" "\<forall>j<i. at_fieldname (snd (fs ! j)) \<noteq> None"
  shows "find_child fuel p nm w = Inr (fst (fs ! i))"
  using assms
proof (induction fs arbitrary: p i fuel)
  case (Cons a fs)
  obtain x g where a: "a = (x, g)" by fastforce
  then obtain y where y: "p = x" "x \<noteq> NULL" "theap w x = Some y" "y\<lparr>at_next := NULL\<rparr> = g" "linked (theap w) (at_next y) fs"
    using Cons.prems(1) by auto
  have name: "at_fieldname y = at_fieldname g" using y(4) by auto
  obtain fuel' where f: "fuel = Suc fuel'" using Cons.prems(4) by (cases fuel) auto
  show ?case
  proof (cases i)
    case 0
    then show ?thesis using Cons.prems(3) a y f name by (simp add: type_at_def)
  next
    case (Suc j)
    have "find_child fuel' (at_next y) nm w = Inr (fst (fs ! j))"
      using Cons.IH [OF y(5), of j fuel'] Cons.prems f Suc by fastforce
    moreover have "at_fieldname y \<noteq> Some nm" "at_fieldname y \<noteq> None" using Cons.prems(5,6) Suc a name by auto
    ultimately show ?thesis using Suc y f by (auto simp: type_at_def)
  qed
qed simp

subsection \<open>Adding a field\<close>

text \<open>The type under construction at \<open>N\<close>, with its node apart from the list, and its fields.\<close>

definition building :: "'z aspect_scheme \<Rightarrow> ptr \<Rightarrow> aspectype_t \<Rightarrow> (ptr \<times> aspectype_t) list \<Rightarrow> bool" where
  "building w N n0 fs \<longleftrightarrow> N \<noteq> NULL \<and> N \<notin> fst ` set fs \<and> distinct (map fst fs) \<and> (\<forall>q\<in>insert N (fst ` set fs). q < next_addr w) \<and>
     (\<exists>nt. theap w N = Some nt \<and> nt\<lparr>at_childs := NULL\<rparr> = n0 \<and> linked (theap w) (at_childs nt) fs)"

lemma building_length: "building w N n0 fs \<Longrightarrow> length fs \<le> next_addr w"
proof -
  assume b: "building w N n0 fs"
  then have "fst ` set fs \<subseteq> {..<next_addr w}" "card (fst ` set fs) = length fs"
    using distinct_card [of "map fst fs"] by (auto simp: building_def)
  then show ?thesis by (metis card_lessThan card_mono finite_lessThan)
qed

definition field_node :: "string \<Rightarrow> u_int \<Rightarrow> u_char \<Rightarrow> nat \<Rightarrow> u_int list option \<Rightarrow> aspectype_t \<Rightarrow> aspectype_t" where
  "field_node nm o' ip dn ds t = t\<lparr>at_off := o', at_isptr := ip, at_dimnbr := dn, at_fieldname := Some nm, at_elemnbr := ds\<rparr>"

definition field_space :: "u_int \<Rightarrow> nat \<Rightarrow> u_int list option \<Rightarrow> aspectype_t \<Rightarrow> u_int" where
  "field_space off dn ds t = (let sz = (case ds of None \<Rightarrow> off | Some ds \<Rightarrow> off * prod_list (take dn ds))
     in if at_type t = ASPECT_TYPE_BIT then sz div 8 + 1 else sz)"

lemma place_step:
  assumes b: "building w N n0 fs" and c: "theap w c = Some t" "at_next t = NULL" "c < next_addr w" "next_addr w \<noteq> NULL"
  obtains h' where "place_field False N nm c ip off dn ds cur w =
      Inr (Some (cur + field_space off dn ds t), w\<lparr>theap := h', next_addr := Suc (next_addr w)\<rparr>)"
    "building (w\<lparr>theap := h', next_addr := Suc (next_addr w)\<rparr>) N n0 (fs @ [(next_addr w, field_node nm cur ip dn ds t)])"
    "\<forall>x. x \<noteq> N \<and> x \<notin> fst ` set fs \<and> x \<noteq> next_addr w \<longrightarrow> h' x = theap w x"
    "\<exists>nt nt'. theap w N = Some nt \<and> h' N = Some nt' \<and> at_childs nt' = (if fs = [] then next_addr w else at_childs nt)"
proof -
  let ?q = "next_addr w" and ?f = "field_node nm cur ip dn ds t"
  let ?h = "(theap w)(?q \<mapsto> ?f)"
  let ?w1 = "w\<lparr>theap := ?h, next_addr := Suc ?q\<rparr>"
  obtain nt where nt: "N \<noteq> NULL" "N \<noteq> ?q" "theap w N = Some nt" "nt\<lparr>at_childs := NULL\<rparr> = n0" "linked (theap w) (at_childs nt) fs"
    using b by (auto simp: building_def)
  have fresh: "?q \<notin> fst ` set fs" using b by (auto simp: building_def)
  have l1: "linked ?h (at_childs nt) fs" using linked_other [OF _ nt(5)] fresh by (metis fun_upd_apply)
  have f: "at_next ?f = NULL" "?f\<lparr>at_next := NULL\<rparr> = ?f" using c(2) by (auto simp: field_node_def)
  have copy: "aspect_type_copy c cur ip dn nm ds w = Inr (?q, ?w1)" "type_at c ?w1 = Inr t"
    using c by (auto simp: aspect_type_copy_def type_at_def new_type_def field_node_def)
  define l where "l = fst (last fs)"
  let ?h' = "if fs = [] then ?h(N := map_option (\<lambda>t. t\<lparr>at_childs := ?q\<rparr>) (?h N)) else ?h(l := map_option (\<lambda>x. x\<lparr>at_next := ?q\<rparr>) (?h l))"
  let ?w' = "w\<lparr>theap := ?h', next_addr := Suc ?q\<rparr>"
  have empty: "fs = [] \<longleftrightarrow> at_childs nt = NULL" using nt(5) by (cases fs) auto
  have add: "aspect_type_addfield N ?q ?w1 = Inr (0, ?w')"
  proof (cases "fs = []")
    case True
    then show ?thesis using nt c(4) empty by (simp add: aspect_type_addfield_def type_at_def upd_type_def)
  next
    case False
    have "last_next (Suc ?q) (at_childs nt) ?w1 = Inr l"
      unfolding l_def by (rule last_next_ok) (use l1 False building_length [OF b] in auto)
    then show ?thesis using False nt c(4) empty by (simp add: aspect_type_addfield_def type_at_def upd_type_def)
  qed
  have "place_field False N nm c ip off dn ds cur w = Inr (Some (cur + field_space off dn ds t), ?w')"
    by (simp add: place_field_def copy add field_space_def Let_def)
  moreover have "building ?w' N n0 (fs @ [(?q, ?f)])"
  proof -
    have "\<exists>nt'. ?h' N = Some nt' \<and> nt'\<lparr>at_childs := NULL\<rparr> = n0 \<and> linked ?h' (at_childs nt') (fs @ [(?q, ?f)])"
    proof (cases "fs = []")
      case True
      then show ?thesis using nt c(4) f by auto
    next
      case False
      have "l \<in> fst ` set fs" using False by (simp add: l_def)
      then have "l \<noteq> N" using b by (auto simp: building_def)
      moreover have "linked (?h(l := map_option (\<lambda>x. x\<lparr>at_next := ?q\<rparr>) (?h l))) (at_childs nt) (fs @ [(?q, ?f)])"
        unfolding l_def by (rule linked_append [OF l1 False c(4)]) (use f fresh b in \<open>auto simp: building_def\<close>)
      ultimately show ?thesis using False nt by simp
    qed
    then show ?thesis using b fresh nt(2) by (auto simp: building_def)
  qed
  moreover have "\<forall>x. x \<noteq> N \<and> x \<notin> fst ` set fs \<and> x \<noteq> ?q \<longrightarrow> ?h' x = theap w x"
    using last_in_set [of fs] by (auto simp: l_def)
  moreover have "\<exists>nt nt'. theap w N = Some nt \<and> ?h' N = Some nt' \<and> at_childs nt' = (if fs = [] then ?q else at_childs nt)"
    using nt b last_in_set [of fs] by (auto simp: l_def building_def)
  ultimately show ?thesis using that by blast
qed

subsection \<open>The meaning of a declaration\<close>

type_synonym type_env = "string \<Rightarrow> aspectype_t option"

definition env_of :: "'z aspect_scheme \<Rightarrow> hash_t \<Rightarrow> type_env" where
  "env_of w T k = (case hash_abs T k of None \<Rightarrow> None | Some p \<Rightarrow> theap w p)"

definition raw_node :: "string \<Rightarrow> nat \<Rightarrow> aspectype_t" where
  "raw_node nm k = zero_type\<lparr>at_type := ASPECT_TYPE_RAW, at_size := word_of_nat k, at_name := Some nm\<rparr>"

text \<open>The node of the declared type, the field and the space it takes. A pointer takes four bytes.\<close>

fun child :: "string \<Rightarrow> type_env \<Rightarrow> decl \<Rightarrow> aspectype_t" where
  "child raw env (Raw n k) = raw_node raw k"
| "child raw env (Typed n s t ds) = the (env t)"

fun node :: "string \<Rightarrow> type_env \<Rightarrow> u_int \<Rightarrow> decl \<Rightarrow> aspectype_t" where
  "node raw env o' (Raw n k) = field_node n o' 0 0 None (raw_node raw k)"
| "node raw env o' (Typed n s t ds) = field_node n o' (word_of_nat s) (length ds) (Some (map word_of_nat ds)) (the (env t))"

fun space :: "type_env \<Rightarrow> decl \<Rightarrow> u_int" where
  "space env (Raw n k) = word_of_nat k"
| "space env (Typed n s t ds) =
     (let ty = the (env t); sz = (if s = 0 then at_size ty else 4) * prod_list (map word_of_nat ds)
      in if at_type ty = ASPECT_TYPE_BIT then sz div 8 + 1 else sz)"

fun layout :: "string \<Rightarrow> type_env \<Rightarrow> u_int \<Rightarrow> decl list \<Rightarrow> aspectype_t list" where
  "layout raw env o' [] = []"
| "layout raw env o' (d # ds) = node raw env o' d # layout raw env (o' + space env d) ds"

fun declared :: "type_env \<Rightarrow> decl \<Rightarrow> bool" where
  "declared env (Raw n k) \<longleftrightarrow> True"
| "declared env (Typed n s t ds) \<longleftrightarrow> (\<exists>ty. env t = Some ty \<and> at_next ty = NULL)"

lemma node_name [simp]: "at_fieldname (node raw env o' d) = Some (decl_name d)"
  by (cases d) (simp_all add: field_node_def)

lemma small_nonzero: "s < 256 \<Longrightarrow> (word_of_nat s :: u_char) = 0 \<longleftrightarrow> s = 0"
  by (auto simp: word_of_nat_eq_0_iff dest: dvd_imp_le)

text \<open>The state between two fields. \<open>names\<close> are the names used so far.\<close>

definition between :: "string \<Rightarrow> nat \<Rightarrow> (string \<times> u_int) list \<Rightarrow> hash_t \<Rightarrow> type_env \<Rightarrow> ptr \<Rightarrow> ptr \<Rightarrow> aspectype_t \<Rightarrow>
    string set \<Rightarrow> (ptr \<times> aspectype_t) list \<Rightarrow> 'z aspect_scheme \<Rightarrow> bool" where
  "between raw n ti T env F N n0 names fs w \<longleftrightarrow> types_inv n ti w T \<and> building w N n0 fs \<and>
     F \<noteq> hash_hash w \<and> F \<noteq> types_hash \<and> F \<noteq> NULL \<and> (\<exists>h. tables w F = Some h \<and> hash_inv h \<and> dom (hash_abs h) = names) \<and>
     insert N (fst ` set fs) \<inter> ran (hash_abs T) = {} \<and> env_of w T = env \<and>
     1 < length (aspect_typeinfo w) \<and> fst (aspect_typeinfo w ! 1) = raw \<and> unshared w F"

lemma env_of_same: "(\<And>p. p \<in> ran (hash_abs T) \<Longrightarrow> theap w' p = theap w p) \<Longrightarrow> env_of w' T = env_of w T"
  by (auto simp: env_of_def fun_eq_iff ran_def split: option.splits)

lemma between_frame:
  assumes "between raw n ti T env F N n0 names fs w" "frame F w w'"
  shows "types_inv n ti w' T" "F \<noteq> hash_hash w'" "1 < length (aspect_typeinfo w')" "fst (aspect_typeinfo w' ! 1) = raw" "unshared w' F"
  using types_inv_frame [OF _ assms(2)] assms by (auto simp: between_def frame_def unshared_def)

lemma between_add:
  assumes b: "between raw n ti T env F N n0 names fs w"
  obtains w' where "table_add F nm 1 w = Inr w'" "between raw n ti T env F N n0 (insert nm names) fs w'"
proof -
  obtain h where h: "tables w F = Some h" "hash_inv h" "dom (hash_abs h) = names" "F \<noteq> NULL" using b by (auto simp: between_def)
  let ?h = "snd (hash_add h nm 1)"
  let ?w = "set_table F ?h w"
  have add: "table_add F nm 1 w = Inr ?w" by (rule table_ops(4) [OF h(1,2,4)])
  note fr = between_frame [OF b frame_add [OF add]]
  have "hash_inv ?h" "dom (hash_abs ?h) = insert nm names" using hash_add_ok [OF h(2), of 1 nm] h(3) by simp_all
  moreover have "env_of ?w T = env_of w T" by (rule env_of_same) simp
  ultimately have "between raw n ti T env F N n0 (insert nm names) fs ?w" using b fr(1) by (simp add: between_def building_def)
  then show ?thesis using that add by blast
qed

lemma between_new:
  assumes b: "between raw n ti T env F N n0 names fs w" and n: "new_type t w = (c, w')"
  shows "between raw n ti T env F N n0 names fs w'" "theap w' c = Some t" "c < next_addr w'"
proof -
  have w': "w' = w\<lparr>theap := (theap w)(next_addr w \<mapsto> t), next_addr := Suc (next_addr w)\<rparr>" "c = next_addr w"
    using n by (auto simp: new_type_def)
  have inv: "types_inv n ti w T" and bd: "building w N n0 fs" using b by (simp_all add: between_def)
  have "env_of w' T = env_of w T" using types_inv_ran [OF inv] w'(1) by (intro env_of_same) auto
  moreover have "building w' N n0 fs"
  proof -
    obtain nt where nt: "theap w N = Some nt" "nt\<lparr>at_childs := NULL\<rparr> = n0" "linked (theap w) (at_childs nt) fs" "N < next_addr w"
      using bd by (auto simp: building_def)
    have "linked (theap w') (at_childs nt) fs"
      by (rule linked_other [OF _ nt(3)]) (use bd w'(1) in \<open>auto simp: building_def\<close>)
    then show ?thesis using bd nt w'(1) by (fastforce simp: building_def)
  qed
  ultimately show "between raw n ti T env F N n0 names fs w'"
    using b between_frame(1,5) [OF b frame_newD [OF n]] w'(1) by (simp add: between_def)
  show "theap w' c = Some t" "c < next_addr w'" using w' by simp_all
qed

lemma between_place:
  assumes b: "between raw n ti T env F N n0 names fs w" and c: "theap w c = Some t" "at_next t = NULL"
  obtains w' where "place_field False N nm c ip off dn ds cur w = Inr (Some (cur + field_space off dn ds t), w')"
    "between raw n ti T env F N n0 names (fs @ [(next_addr w, field_node nm cur ip dn ds t)]) w'"
    "\<exists>nt nt'. theap w N = Some nt \<and> theap w' N = Some nt' \<and> at_childs nt' = (if fs = [] then next_addr w else at_childs nt)"
proof -
  have inv: "types_inv n ti w T" and bd: "building w N n0 fs" using b by (simp_all add: between_def)
  have q: "next_addr w \<noteq> NULL" "c < next_addr w" using inv c(1) by (auto simp: types_inv_def registry_ok_def) (metis leI option.distinct(1))
  obtain h where h: "place_field False N nm c ip off dn ds cur w =
      Inr (Some (cur + field_space off dn ds t), w\<lparr>theap := h, next_addr := Suc (next_addr w)\<rparr>)"
    "building (w\<lparr>theap := h, next_addr := Suc (next_addr w)\<rparr>) N n0 (fs @ [(next_addr w, field_node nm cur ip dn ds t)])"
    "\<forall>x. x \<noteq> N \<and> x \<notin> fst ` set fs \<and> x \<noteq> next_addr w \<longrightarrow> h x = theap w x"
    "\<exists>nt nt'. theap w N = Some nt \<and> h N = Some nt' \<and> at_childs nt' = (if fs = [] then next_addr w else at_childs nt)"
    by (rule place_step [OF bd c q(2,1)])
  let ?w = "w\<lparr>theap := h, next_addr := Suc (next_addr w)\<rparr>"
  have "frame F w ?w" using place_field_frame [of False N nm c ip off dn ds cur w F] h(1) by (simp add: post_def)
  note fr = between_frame(1,5) [OF b this]
  have ran: "insert N (fst ` set fs) \<inter> ran (hash_abs T) = {}" "next_addr w \<notin> ran (hash_abs T)"
    using b types_inv_ran [OF inv, of "next_addr w"] by (auto simp: between_def)
  have "h p = theap w p" if "p \<in> ran (hash_abs T)" for p using h(3) ran that by blast
  then have "env_of ?w T = env_of w T" by (intro env_of_same) simp
  then have "between raw n ti T env F N n0 names (fs @ [(next_addr w, field_node nm cur ip dn ds t)]) ?w"
    using b h(2) fr ran by (simp add: between_def)
  then show ?thesis using that h(1,4) by simp
qed

lemma between_seen:
  "between raw n ti T env F N n0 names fs w \<Longrightarrow> nm \<notin> names \<Longrightarrow> table_get F nm w = Inr NULL"
  by (auto simp: between_def table_ops(3) hash_get_abs domIff)

lemma while_stars:
  "y \<noteq> c \<Longrightarrow> takeWhile (\<lambda>x. x = c) (replicate s c @ y # xs) = replicate s c"
  "y \<noteq> c \<Longrightarrow> dropWhile (\<lambda>x. x = c) (replicate s c @ y # xs) = y # xs"
  by (induction s) auto

lemma field_step:
  assumes b: "between raw n ti T env F N n0 names fs w" and d: "decl_ok d" "declared env d" "decl_name d \<notin> names"
  obtains w' q where "create_field False l N F (render d) cur w = Inr (Some (cur + space env d), w')"
    "between raw n ti T env F N n0 (insert (decl_name d) names) (fs @ [(q, node raw env cur d)]) w'"
proof -
  obtain w1 where w1: "table_add F (decl_name d) 1 w = Inr w1" "between raw n ti T env F N n0 (insert (decl_name d) names) fs w1"
    by (rule between_add [OF b])
  note seen = between_seen [OF b d(3)]
  show ?thesis
  proof (cases d)
    case (Raw nm k)
    have id: "ident nm" "0 < k" "k < 2 ^ 31" using d(1) Raw by auto
    let ?d = "nm @ CHR ''%'' # fmt_u k"
    have p: "cut CHR '':'' ?d = (?d, None)" "cut CHR ''%'' ?d = (nm, Some (fmt_u k))"
      using id(1) fmt_u_plain [of k] by (auto simp: ident_def)
    have at: "atoi (fmt_u k) = int k" using atoi_fmt [of k "[]"] id by (simp add: starts_digit_def)
    obtain c w2 where c: "new_type (raw_node raw k) w1 = (c, w2)" by fastforce
    note w2 = between_new [OF w1(2) c]
    have ti: "\<not> length (aspect_typeinfo w1) \<le> ASPECT_TYPE_RAW" "fst (aspect_typeinfo w1 ! ASPECT_TYPE_RAW) = raw"
      using w1(2) by (simp_all add: between_def ASPECT_TYPE_RAW_def)
    have z: "at_next (raw_node raw k) = NULL" "field_space (word_of_nat k) 0 None (raw_node raw k) = word_of_nat k"
      by (simp_all add: raw_node_def zero_type_def field_space_def ASPECT_TYPE_RAW_def ASPECT_TYPE_BIT_def)
    obtain w' where w': "place_field False N nm c 0 (word_of_nat k) 0 None cur w2 = Inr (Some (cur + word_of_nat k), w')"
      "between raw n ti T env F N n0 (insert nm names) (fs @ [(next_addr w2, node raw env cur d)]) w'"
      using between_place [OF w2(1,2) z(1), of nm 0 "word_of_nat k" 0 None cur] z(2) Raw by auto
    have "nm \<noteq> []" using id(1) by (simp add: ident_def)
    then have "create_field False l N F (render d) cur w = Inr (Some (cur + space env d), w')"
      using seen w1(1) c w'(1) ti id(2) Raw by (simp add: create_field_def p at raw_node_def Let_def)
    then show ?thesis using that w'(2) Raw by simp
  next
    case (Typed nm s t ds)
    have id: "ident nm" "ident t" "s < 256" "\<forall>d\<in>set ds. 0 < d \<and> d < 2 ^ 31" using d(1) Typed by auto
    obtain ty where ty: "env t = Some ty" "at_next ty = NULL" using d(2) Typed by auto
    then obtain c where c: "hash_abs T t = Some c" "theap w1 c = Some ty"
      using w1(2) by (auto simp: between_def env_of_def split: option.splits)
    have p: "cut CHR '':'' (nm @ CHR '':'' # replicate s (CHR ''*'') @ t @ render_dims ds) = (nm, Some (replicate s (CHR ''*'') @ t @ render_dims ds))" "cut CHR ''%'' nm = (nm, None)"
      using id(1) Typed by (auto simp: ident_def)
    obtain y t' where t0: "t = y # t'" "y \<noteq> CHR ''*''" using id(2) by (cases t) (auto simp: ident_def)
    have st: "takeWhile (\<lambda>c. c = CHR ''*'') (replicate s (CHR ''*'') @ t @ render_dims ds) = replicate s (CHR ''*'')"
      "dropWhile (\<lambda>c. c = CHR ''*'') (replicate s (CHR ''*'') @ t @ render_dims ds) = t @ render_dims ds"
      using while_stars [OF t0(2)] by (simp_all add: t0(1))
    let ?off = "if s = 0 then at_size ty else 4"
    have inv: "types_inv n ti w1 T" using w1(2) by (simp add: between_def)
    have cn: "c \<noteq> NULL" using c(1) by (metis hash_abs_nonnull)
    have ft: "field_type l N t (word_of_nat s) w1 = Inr (Some (c, word_of_nat s, ?off), w1)"
      using c cn small_nonzero [OF id(3)] by (simp add: field_type_def table_get_types [OF inv] hash_get_abs type_at_def sizeof_u_long_def)
    have sp: "field_space ?off (length ds) (Some (map word_of_nat ds)) ty = space env d"
      using Typed ty(1) by (simp add: field_space_def Let_def)
    obtain w' where w': "place_field False N nm c (word_of_nat s) ?off (length ds) (Some (map word_of_nat ds)) cur w1 = Inr (Some (cur + space env d), w')"
      "between raw n ti T env F N n0 (insert nm names) (fs @ [(next_addr w1, node raw env cur d)]) w'"
      using between_place [OF w1(2) c(2) ty(2), of nm "word_of_nat s" ?off "length ds" "Some (map word_of_nat ds)" cur] sp Typed ty(1) by auto
    have "nm \<noteq> []" using id(1) by (simp add: ident_def)
    then have "create_field False l N F (render d) cur w = Inr (Some (cur + space env d), w')"
      using seen w1(1) w'(1) ft id(2) Typed by (simp add: ident_def create_field_def p st getdims_render [OF id(2,4)] Let_def)
    then show ?thesis using that w'(2) Typed by simp
  qed
qed

lemma fields_step:
  assumes "between raw n ti T env F N n0 names fs w" "\<forall>d\<in>set ds. decl_ok d \<and> declared env d" "distinct (map decl_name ds)"
    "set (map decl_name ds) \<inter> names = {}"
  shows "\<exists>w' gs names'. create_fields False l N F (map render ds) cur w = Inr (Some (cur + sum_list (map (space env) ds)), w') \<and>
    between raw n ti T env F N n0 names' (fs @ gs) w' \<and> map snd gs = layout raw env cur ds"
  using assms
proof (induction ds arbitrary: names fs cur w)
  case Nil
  then show ?case by (intro exI [of _ w] exI [of _ "[]"] exI [of _ names]) simp
next
  case (Cons d ds)
  obtain w1 q where w1: "create_field False l N F (render d) cur w = Inr (Some (cur + space env d), w1)"
    "between raw n ti T env F N n0 (insert (decl_name d) names) (fs @ [(q, node raw env cur d)]) w1"
    using field_step [OF Cons.prems(1)] Cons.prems(2,4) by (metis disjoint_iff list.set_intros(1) list.simps(9))
  obtain w' gs names' where w': "create_fields False l N F (map render ds) (cur + space env d) w1 =
      Inr (Some (cur + space env d + sum_list (map (space env) ds)), w')"
    "between raw n ti T env F N n0 names' ((fs @ [(q, node raw env cur d)]) @ gs) w'" "map snd gs = layout raw env (cur + space env d) ds"
    using Cons.IH [OF w1(2), of "cur + space env d"] Cons.prems(2-4) by auto
  have "create_fields False l N F (map render (d # ds)) cur w = Inr (Some (cur + sum_list (map (space env) (d # ds))), w')"
    using w1(1) w'(1) by (simp add: add.assoc)
  moreover have "between raw n ti T env F N n0 names' (fs @ ((q, node raw env cur d) # gs)) w'" using w'(2) by simp
  ultimately show ?case using w'(3)
    by (intro exI [of _ w'] exI [of _ "(q, node raw env cur d) # gs"] exI [of _ names']) simp
qed

subsection \<open>From the first step to the registration\<close>

text \<open>The state before the first field.\<close>

lemma build_start:
  assumes ok: "types_inv n ti w T" "1 < length (aspect_typeinfo w)" "fst (aspect_typeinfo w ! 1) = raw"
  obtains F w1 w2 N w3 where "new_table w = (F, w1)" "hash_init F ''localfields'' 10 ASPECT_TYPE_UNKNOW w1 = Inr (0, w2)"
    "start_type fuel l NULL F w2 = Inr (N, 0, w3)" "between raw n ti T (env_of w T) F N (zero_type\<lparr>at_name := Some l\<rparr>) {} [] w3"
    "aspect_typeinfo w3 = aspect_typeinfo w" "aspect_type_nbr w3 = aspect_type_nbr w"
proof -
  obtain F w1 where F: "new_table w = (F, w1)" by fastforce
  note w1 = new_table_ok [OF ok(1) F]
  obtain w2 where w2: "hash_init F ''localfields'' 10 ASPECT_TYPE_UNKNOW w1 = Inr (0, w2)" "types_inv n ti w2 T" "theap w2 = theap w1"
    "hash_hash w2 = hash_hash w1" "tables w2 F = Some (hash_fresh ''localfields'' 10 0)" "next_addr w2 = next_addr w1"
    "aspect_typeinfo w2 = aspect_typeinfo w1" "aspect_type_nbr w2 = aspect_type_nbr w1" "key_shared w2 = key_shared w1"
    by (rule hash_init_types [OF w1(1,7,2,3,4)])
  let ?n = "zero_type\<lparr>at_name := Some l\<rparr>"
  obtain N w3 where N: "new_type ?n w2 = (N, w3)" by fastforce
  then have w3: "N = next_addr w2" "w3 = w2\<lparr>theap := (theap w2)(N \<mapsto> ?n), next_addr := Suc N\<rparr>" by (auto simp: new_type_def)
  have inv3: "types_inv n ti w3 T" using types_inv_frame [OF w2(2) frame_newD [OF N, of F]] w1(2,3) w2(4) by simp
  have N0: "N \<noteq> NULL" "N \<notin> ran (hash_abs T)" using w3(1) w1(5) w2(6) types_inv_ran [OF w2(2), of N] by auto
  have "env_of w3 T = env_of w T" using w3 w2(3) w1(9) N0(2) by (intro env_of_same) auto
  moreover have "building w3 N ?n []" using N0(1) w3 by (simp add: building_def zero_type_def)
  moreover have "hash_inv (hash_fresh ''localfields'' 10 0)" "dom (hash_abs (hash_fresh ''localfields'' 10 0)) = {}"
    by (simp_all add: hash_fresh_inv hash_fresh_abs)
  ultimately have "between raw n ti T (env_of w T) F N ?n {} [] w3"
    using inv3 w1 w2 w3 N0 ok(2,3) by (simp add: between_def unshared_def)
  moreover have "start_type fuel l NULL F w2 = Inr (N, 0, w3)" using N by (simp add: start_type_def)
  ultimately show ?thesis using that F w2 w1 w3 by simp
qed

text \<open>What is left after the last field: the size, the table of the names, and the entry under a new
  name.\<close>

lemma build_end:
  assumes b: "between raw n ti T env F N n0 names fs w" and l: "hash_abs T l = None"
    and n: "n = aspect_type_nbr w" "ti = aspect_typeinfo w" "n = length ti"
  obtains w5 w6 t where "hash_destroy F (upd_type N (\<lambda>t. t\<lparr>at_size := sz\<rparr>) w) = Inr w5" "aspect_type_register_real l N w5 = Inr (0, w6)"
    "types_ok w6" "N \<noteq> NULL" "aspect_type_get_by_name l w6 = Inr N" "aspect_type_get_by_id n w6 = Inr N" "type_at N w6 = Inr t"
    "at_size t = sz" "linked (theap w6) (at_childs t) fs" "length fs \<le> next_addr w6"
    "\<forall>x. x \<noteq> N \<longrightarrow> theap w6 x = theap w x" "\<forall>tn. theap w N = Some tn \<longrightarrow> t = tn\<lparr>at_size := sz, at_type := n\<rparr>"
    "\<forall>k. k \<noteq> l \<longrightarrow> aspect_type_get_by_name k w6 = Inr (hash_get T k)"
proof -
  have inv: "types_inv n ti w T" and bd: "building w N n0 fs" and N: "N \<notin> ran (hash_abs T)"
    and F: "F \<noteq> hash_hash w" "F \<noteq> types_hash" "unshared w F" using b by (auto simp: between_def)
  obtain nt where nt: "N \<noteq> NULL" "theap w N = Some nt" "linked (theap w) (at_childs nt) fs" "N \<notin> fst ` set fs"
    using bd by (auto simp: building_def)
  let ?w4 = "upd_type N (\<lambda>t. t\<lparr>at_size := sz\<rparr>) w"
  have inv4: "types_inv n ti ?w4 T" by (rule types_inv_upd [OF inv N])
  obtain H where H: "registry_ok ?w4 H" using inv4 by (auto simp: types_inv_def)
  obtain h where h: "tables ?w4 F = Some h" "hash_inv h" using b by (auto simp: between_def)
  obtain w5 where w5: "hash_destroy F ?w4 = Inr w5" "next_addr w5 = next_addr w" using hash_destroy_own [OF H h] F(1,3) by simp
  note d = types_inv_destroy [OF inv4 _ F(2) w5(1)]
  have inv5: "types_inv n ti w5 T" "theap w5 = theap ?w4" "aspect_typeinfo w5 = ti" "aspect_type_nbr w5 = n" using d F(1,3) n by simp_all
  have T: "tables w5 types_hash = Some T" "hash_inv T" using inv5(1) by (auto simp: types_inv_def)
  let ?t = "nt\<lparr>at_size := sz, at_type := n\<rparr>" and ?T = "snd (hash_add T l N)"
  let ?w = "upd_type N (\<lambda>t. t\<lparr>at_type := n\<rparr>) (w5\<lparr>aspect_type_nbr := Suc n, aspect_typeinfo := ti @ [(l, sz)]\<rparr>)"
  let ?w6 = "set_table types_hash ?T ?w"
  have reg: "aspect_type_register_real l N w5 = Inr (0, ?w6)" using nt(2) inv5 l
    by (simp add: aspect_type_register_real_def table_get_types [OF inv5(1)] hash_get_abs type_at_def
        table_ops(4) [OF T types_hash_nonnull] Let_def set_table_def upd_type_def)
  have ti: "types_inv n (ti @ [(l, sz)]) ?w T" by (intro types_inv_upd types_inv_more inv5(1) N) simp
  have inv6: "types_inv (Suc n) (ti @ [(l, sz)]) ?w6 ?T"
    by (rule types_inv_add [OF ti l, of N ?t]) (use nt(1,2) N inv5 n in \<open>auto simp: nth_append\<close>)
  have T': "hash_abs ?T = (hash_abs T)(l \<mapsto> N)" using hash_add_ok(2) [OF T(2) nt(1)] by simp
  have heap: "theap ?w6 N = Some ?t" "\<forall>x. x \<noteq> N \<longrightarrow> theap ?w6 x = theap w x" using nt(2) inv5(2) by simp_all
  have "types_ok ?w6" using inv6 n by (auto simp: types_ok_def)
  moreover have get: "aspect_type_get_by_name k ?w6 = Inr (if k = l then N else hash_get T k)" for k
    unfolding aspect_type_get_by_name_def table_get_types [OF inv6] by (simp add: hash_get_abs T')
  moreover have "aspect_type_get_by_id n ?w6 = aspect_type_get_by_name l ?w6"
    using n(3) by (simp add: aspect_type_get_by_id_def aspect_type_get_by_name_def nth_append)
  moreover have "linked (theap ?w6) (at_childs ?t) fs"
  proof -
    have "theap ?w6 q = theap w q" if "q \<in> fst ` set fs" for q
    proof -
      have "q \<noteq> N" using nt(4) that by auto
      then show ?thesis using heap(2) by simp
    qed
    then show ?thesis using linked_other [OF _ nt(3), of "theap ?w6"] by simp
  qed
  moreover have "type_at N ?w6 = Inr ?t" "at_size ?t = sz" by (simp_all add: type_at_def heap(1) del: upd_type_sel theap_set_table)
  moreover have "length fs \<le> next_addr ?w6" using building_length [OF bd] w5(2) by simp
  moreover have "\<forall>tn. theap w N = Some tn \<longrightarrow> ?t = tn\<lparr>at_size := sz, at_type := n\<rparr>" using nt(2) by simp
  ultimately show ?thesis using that [of w5 ?w6 ?t] w5(1) reg nt(1) heap(2) by simp
qed

lemma ident_label: "ident l \<Longrightarrow> cut_super l = (l, None)"
  unfolding ident_def by (induction l rule: cut_super.induct) auto

lemma build_new:
  fixes w :: "'z aspect_scheme" and Q :: "ptr \<Rightarrow> (ptr \<times> aspectype_t) list \<Rightarrow> 'z aspect_scheme \<Rightarrow> bool"
  assumes ok: "types_ok w" "1 < length (aspect_typeinfo w)" "aspect_type_get_by_name l w = Inr NULL"
    and T: "types_inv (aspect_type_nbr w) (aspect_typeinfo w) w T"
    and fields: "\<And>F N n0 (w3 :: 'z aspect_scheme). between (fst (aspect_typeinfo w ! 1)) (aspect_type_nbr w) (aspect_typeinfo w) T (env_of w T) F N n0 {} [] w3 \<Longrightarrow>
      n0 = zero_type\<lparr>at_name := Some l\<rparr> \<Longrightarrow>
      \<exists>w4 names fs. create_fields False l N F decls 0 w3 = Inr (Some sz, w4) \<and>
        between (fst (aspect_typeinfo w ! 1)) (aspect_type_nbr w) (aspect_typeinfo w) T (env_of w T) F N n0 names fs w4 \<and> Q N fs w4"
    and l: "ident l" "decls \<noteq> []"
  obtains w4 w6 N fs t where "aspect_type_register fuel False (Some l) (Some decls) w = Inr (0, w6)" "types_ok w6" "Q N fs w4"
    "aspect_type_get_by_name l w6 = Inr N" "aspect_type_get_by_id (aspect_type_nbr w) w6 = Inr N" "type_at N w6 = Inr t" "at_size t = sz"
    "linked (theap w6) (at_childs t) fs" "length fs \<le> next_addr w6" "N \<noteq> NULL" "\<forall>x. x \<noteq> N \<longrightarrow> theap w6 x = theap w4 x"
    "\<forall>tn. theap w4 N = Some tn \<longrightarrow> t = tn\<lparr>at_size := sz, at_type := aspect_type_nbr w\<rparr>"
    "\<forall>k. k \<noteq> l \<longrightarrow> aspect_type_get_by_name k w6 = Inr (hash_get T k)"
proof -
  let ?n = "aspect_type_nbr w" and ?ti = "aspect_typeinfo w" and ?raw = "fst (aspect_typeinfo w ! 1)"
  have none: "hash_abs T l = None" using ok(3) hash_abs_nonnull [of T l]
    by (auto simp: aspect_type_get_by_name_def table_get_types [OF T] hash_get_abs split: option.splits)
  obtain F w1 w2 N w3 where st: "new_table w = (F, w1)" "hash_init F ''localfields'' 10 ASPECT_TYPE_UNKNOW w1 = Inr (0, w2)"
    "start_type fuel l NULL F w2 = Inr (N, 0, w3)" "between ?raw ?n ?ti T (env_of w T) F N (zero_type\<lparr>at_name := Some l\<rparr>) {} [] w3"
    "aspect_typeinfo w3 = ?ti" "aspect_type_nbr w3 = ?n"
    by (rule build_start [OF T ok(2) refl])
  obtain w4 names fs where w4: "create_fields False l N F decls 0 w3 = Inr (Some sz, w4)"
    "between ?raw ?n ?ti T (env_of w T) F N (zero_type\<lparr>at_name := Some l\<rparr>) names fs w4" "Q N fs w4"
    using fields [OF st(4) refl] by blast
  have fr: "frame F w3 w4" using create_fields_frame [of False l N F decls 0 w3] w4(1) by (simp add: post_def)
  have n: "?n = aspect_type_nbr w4" "?ti = aspect_typeinfo w4" "?n = length ?ti" using fr st(5,6) ok(1) by (auto simp: frame_def types_ok_def)
  obtain w5 w6 t where e: "hash_destroy F (upd_type N (\<lambda>t. t\<lparr>at_size := sz\<rparr>) w4) = Inr w5" "aspect_type_register_real l N w5 = Inr (0, w6)"
    "types_ok w6" "N \<noteq> NULL" "aspect_type_get_by_name l w6 = Inr N" "aspect_type_get_by_id ?n w6 = Inr N" "type_at N w6 = Inr t"
    "at_size t = sz" "linked (theap w6) (at_childs t) fs" "length fs \<le> next_addr w6" "\<forall>x. x \<noteq> N \<longrightarrow> theap w6 x = theap w4 x"
    "\<forall>tn. theap w4 N = Some tn \<longrightarrow> t = tn\<lparr>at_size := sz, at_type := ?n\<rparr>"
    "\<forall>k. k \<noteq> l \<longrightarrow> aspect_type_get_by_name k w6 = Inr (hash_get T k)"
    by (rule build_end [OF w4(2) none n])
  have "build_type fuel False l NULL decls w = Inr (N, w5)"
    by (simp add: build_type_def st(1-3) w4(1) e(1))
  then have "create_type fuel False l None decls w = Inr (N, w5)"
    using none by (simp add: create_type_def table_get_types [OF T] hash_get_abs)
  then have "aspect_type_create fuel False (Some l) (Some decls) w = Inr (N, w5)"
    using l by (cases decls) (simp_all add: aspect_type_create_def ident_label)
  then have "aspect_type_register fuel False (Some l) (Some decls) w = Inr (0, w6)"
    using e(2,4) l(1) by (simp add: aspect_type_register_def ident_label)
  then show ?thesis using that e(3-13) w4(3) by blast
qed

subsection \<open>Recursive types\<close>

text \<open>The two fields of a type whose second field points back to it: the copy of the unfinished type
  shares its list of fields, so that the first field is a child of the second.\<close>

definition ring :: "'z aspect_scheme \<Rightarrow> ptr \<Rightarrow> ptr \<Rightarrow> bool" where
  "ring w A B \<longleftrightarrow> A \<noteq> NULL \<and> B \<noteq> NULL \<and> A < next_addr w \<and> B < next_addr w \<and> (\<exists>x y. theap w A = Some x \<and> theap w B = Some y \<and>
     at_childs x = NULL \<and> at_isptr x = 0 \<and> at_next x = B \<and> at_fieldname x \<noteq> None \<and> at_childs y = A \<and> at_fieldname y \<noteq> None)"

definition usable :: "'z aspect_scheme \<Rightarrow> ptr \<Rightarrow> bool" where
  "usable w F \<longleftrightarrow> F = NULL \<or> (\<exists>h. tables w F = Some h \<and> hash_inv h)"

lemma ring_new: "ring w A B \<Longrightarrow> new_type t w = (c, w') \<Longrightarrow> ring w' A B"
  by (auto simp: ring_def new_type_def)

lemma usable_new: "usable w F \<Longrightarrow> new_type t w = (c, w') \<Longrightarrow> usable w' F"
  by (auto simp: usable_def new_type_def)

lemma ring_add:
  assumes "ring w A B" "usable w F" "F = NULL \<or> m = table_add F k 1 w" "F = NULL \<longrightarrow> m = Inr w"
  obtains w' where "m = Inr w'" "ring w' A B" "usable w' F"
proof (cases "F = NULL")
  case True
  then show ?thesis using that assms by blast
next
  case False
  obtain h where h: "tables w F = Some h" "hash_inv h" using assms(2) False by (auto simp: usable_def)
  have "hash_inv (snd (hash_add h k 1))" using hash_add_ok(1) [OF h(2), of 1 k] by simp
  moreover have "m = Inr (set_table F (snd (hash_add h k 1)) w)" using assms(3) False table_ops(4) [OF h False] by simp
  ultimately show ?thesis using that assms(1) False by (auto simp: ring_def usable_def)
qed

lemma copy_ring: "ring w A B \<Longrightarrow> usable w F \<Longrightarrow> aspect_type_copy_by_name fuel A nm F 0 1 w = Inl Diverges"
proof (induction fuel arbitrary: w F nm rule: less_induct)
  case (less fuel)
  show ?case
  proof (cases fuel)
    case (Suc f)
    obtain x y where r: "A \<noteq> NULL" "B \<noteq> NULL" "theap w A = Some x" "theap w B = Some y" "at_childs x = NULL" "at_next x = B"
      "at_fieldname x \<noteq> None" using less.prems(1) by (auto simp: ring_def)
    then obtain xf where xf: "at_fieldname x = Some xf" by blast
    obtain n w1 where n: "new_type (if nm = None then x else x\<lparr>at_name := nm\<rparr>) w = (n, w1)" by fastforce
    note w1 = ring_new [OF less.prems(1) n] usable_new [OF less.prems(2) n]
    let ?m = "case at_fieldname x of Some f \<Rightarrow> if F \<noteq> NULL then table_add F f 1 w1 else Inr w1 | None \<Rightarrow> Inr w1"
    obtain w2 where w2: "?m = Inr w2"
      "ring w2 A B" "usable w2 F"
      by (rule ring_add [OF w1, of ?m xf]) (use xf in simp_all)
    have "copy_nexts f n B F 0 1 w2 = Inl Diverges"
    proof (cases f)
      case (Suc g)
      obtain x' y' where s: "theap w2 A = Some x'" "theap w2 B = Some y'" "at_isptr x' = 0" "at_childs y' = A" "at_fieldname y' \<noteq> None"
        using w2(2) by (auto simp: ring_def)
      then obtain yf where yf: "at_fieldname y' = Some yf" by blast
      obtain m w3 where m: "new_type y' w2 = (m, w3)" by fastforce
      note w3 = ring_new [OF w2(2) m] usable_new [OF w2(3) m]
      let ?m' = "if F = NULL then Inr w3 else case at_fieldname y' of None \<Rightarrow> Inl Bad_Access | Some f \<Rightarrow> table_add F f 1 w3"
      obtain w4 where w4: "?m' = Inr w4"
        "ring w4 A B" "usable w4 F"
        by (rule ring_add [OF w3, of ?m' yf]) (use yf in simp_all)
      obtain x'' where x'': "theap w4 A = Some x''" "at_isptr x'' = 0" using w4(2) by (auto simp: ring_def)
      have "aspect_type_copy_by_name g A None NULL 0 1 w4 = Inl Diverges"
        using less.IH [of g w4 NULL] w4(2) \<open>fuel = Suc f\<close> Suc by (simp add: usable_def)
      then show ?thesis unfolding Suc copy_nexts.simps using r(1,2) s(2,4) m w4(1) x''
        by (simp add: type_at_def set_childs_def)
    qed simp
    then show ?thesis unfolding Suc aspect_type_copy_by_name.simps using r n w2(1) by (simp add: type_at_def)
  qed simp
qed

text \<open>The field that refers to the type being created.\<close>

lemma self_step:
  assumes b: "between raw n ti T env F N n0 names fs w" and d: "ident nm" "ident l" "nm \<notin> names" "hash_abs T l = None"
    and n0: "at_next n0 = NULL" "at_type n0 \<noteq> ASPECT_TYPE_BIT"
  obtains w' nt where "create_field False l N F (render (Typed nm s l [])) cur w = Inr (Some (cur + 4), w')" "theap w N = Some nt"
    "between raw n ti T env F N n0 (insert nm names) (fs @ [(next_addr w, field_node nm cur 1 0 (Some []) nt)]) w'"
proof -
  obtain w1 where w1: "table_add F nm 1 w = Inr w1" "between raw n ti T env F N n0 (insert nm names) fs w1"
    by (rule between_add [OF b])
  have same: "theap w1 = theap w" "next_addr w1 = next_addr w"
    using w1(1) b by (auto simp: table_add_def rbind_Inr between_def)
  obtain nt where nt: "theap w N = Some nt" "nt\<lparr>at_childs := NULL\<rparr> = n0" using b by (auto simp: between_def building_def)
  have "at_next nt = NULL" and sp: "field_space 4 0 (Some []) nt = 4" using nt(2) n0 by (auto simp: field_space_def)
  with between_place [OF w1(2), of N nt nm 1 4 0 "Some []" cur] nt(1) same
  obtain w' where w': "place_field False N nm N 1 4 0 (Some []) cur w1 = Inr (Some (cur + 4), w')"
    "between raw n ti T env F N n0 (insert nm names) (fs @ [(next_addr w, field_node nm cur 1 0 (Some []) nt)]) w'" by auto
  have inv: "types_inv n ti w1 T" using w1(2) by (simp add: between_def)
  have p: "cut CHR '':'' (nm @ CHR '':'' # replicate s (CHR ''*'') @ l) = (nm, Some (replicate s (CHR ''*'') @ l))" "cut CHR ''%'' nm = (nm, None)"
    using d(1) by (auto simp: ident_def)
  obtain y l' where y: "l = y # l'" "y \<noteq> CHR ''*''" using d(2) by (cases l) (auto simp: ident_def)
  have st: "takeWhile (\<lambda>c. c = CHR ''*'') (replicate s (CHR ''*'') @ l) = replicate s (CHR ''*'')"
    "dropWhile (\<lambda>c. c = CHR ''*'') (replicate s (CHR ''*'') @ l) = l"
    using while_stars [OF y(2)] by (simp_all add: y(1))
  have dims: "aspect_type_getdims l = (Some [], 0, l)" using getdims_render [OF d(2), of "[]"] by (simp add: render_dims_def)
  have "field_type l N l ip w1 = Inr (Some (N, 1, 4), w1)" for ip
    using d(4) by (simp add: field_type_def table_get_types [OF inv] hash_get_abs sizeof_u_long_def)
  then have "create_field False l N F (render (Typed nm s l [])) cur w = Inr (Some (cur + 4), w')"
    using between_seen [OF b d(3)] w1(1) w'(1) d(1,2)
    by (simp add: ident_def create_field_def render_dims_def p st dims Let_def)
  then show ?thesis using that nt(1) w'(2) by blast
qed

text \<open>The two fields of a list node, and the graph they make.\<close>

definition list_node :: "ptr \<Rightarrow> (ptr \<times> aspectype_t) list \<Rightarrow> 'z aspect_scheme \<Rightarrow> bool" where
  "list_node N fs w \<longleftrightarrow> (\<exists>A fa B fb nt. fs = [(A, fa), (B, fb)] \<and> at_childs fa = NULL \<and> at_isptr fa = 0 \<and> at_fieldname fa \<noteq> None \<and>
     at_childs fb = A \<and> at_fieldname fb \<noteq> None \<and> theap w N = Some nt \<and> at_isptr nt = 0 \<and> at_fieldname nt = None)"

lemma list_fields:
  assumes b: "between raw n ti T env F N n0 {} [] w" "n0 = zero_type\<lparr>at_name := Some l\<rparr>"
    and d: "decl_ok (Typed a 0 t ds)" "env t = Some ty" "at_next ty = NULL" "at_childs ty = NULL"
    and l: "ident b" "ident l" "a \<noteq> b" "hash_abs T l = None"
  shows "\<exists>w' names fs. create_fields False l N F [render (Typed a 0 t ds), render (Typed b s l [])] 0 w = Inr (Some (space env (Typed a 0 t ds) + 4), w') \<and>
    between raw n ti T env F N n0 names fs w' \<and> list_node N fs w'"
proof -
  let ?d = "Typed a 0 t ds"
  obtain w1 A where w1: "create_field False l N F (render ?d) 0 w = Inr (Some (space env ?d), w1)"
    "between raw n ti T env F N n0 {a} [(A, node raw env 0 ?d)] w1"
    using field_step [OF b(1) d(1), of l 0] d(2,3) by auto
  obtain w2 nt where w2: "create_field False l N F (render (Typed b s l [])) (space env ?d) w1 = Inr (Some (space env ?d + 4), w2)"
    "theap w1 N = Some nt"
    "between raw n ti T env F N n0 {b, a} ([(A, node raw env 0 ?d)] @ [(next_addr w1, field_node b (space env ?d) 1 0 (Some []) nt)]) w2"
    by (rule self_step [OF w1(2) l(1,2) _ l(4)]) (use l(3) b(2) in \<open>auto simp: zero_type_def ASPECT_TYPE_BIT_def\<close>)
  have "at_childs nt = A" using w1(2) w2(2) by (auto simp: between_def building_def)
  moreover obtain nt' where "theap w2 N = Some nt'" "nt'\<lparr>at_childs := NULL\<rparr> = n0" using w2(3) by (auto simp: between_def building_def)
  moreover from this(2) have "at_isptr nt' = 0" "at_fieldname nt' = None" using b(2) by (cases nt', simp add: zero_type_def)+
  ultimately have "list_node N ([(A, node raw env 0 ?d)] @ [(next_addr w1, field_node b (space env ?d) 1 0 (Some []) nt)]) w2"
    using d(2,4) by (simp add: list_node_def field_node_def)
  then show ?thesis using w1(1) w2(1,3) by (simp del: render.simps space.simps) blast
qed

lemma cut_super_append: "CHR '':'' \<notin> set m \<Longrightarrow> cut_super (m @ CHR '':'' # CHR '':'' # l) = (m, Some l)"
proof (induction m)
  case (Cons c m)
  then show ?case by (cases m) auto
qed simp

text \<open>Deriving from a type in such a state.\<close>

lemma derive_diverges:
  assumes ok: "types_ok w" and m: "aspect_type_get_by_name m w = Inr NULL" "CHR '':'' \<notin> set m"
    and N: "aspect_type_get_by_name l w = Inr N" "N \<noteq> NULL" "theap w N = Some t" "at_isptr t = 0" "at_fieldname t = None"
    and r: "at_childs t = A" "ring w A B"
  shows "aspect_type_register fuel u (Some (m @ ''::'' @ l)) (Some (f # fs)) w = Inl Diverges"
proof -
  obtain T where T: "types_inv (aspect_type_nbr w) (aspect_typeinfo w) w T" using ok by (auto simp: types_ok_def)
  obtain F w1 where F: "new_table w = (F, w1)" by fastforce
  note w1 = new_table_ok [OF T F]
  obtain w2 where w2: "hash_init F ''localfields'' 10 ASPECT_TYPE_UNKNOW w1 = Inr (0, w2)" "theap w2 = theap w1"
    "tables w2 F = Some (hash_fresh ''localfields'' 10 0)" "next_addr w2 = next_addr w1"
    by (rule hash_init_types [OF w1(1,7,2,3,4)])
  have heap: "theap w2 = theap w" "next_addr w \<le> next_addr w2" using w1 w2(2,4) F by (auto simp: new_table_def)
  have ring: "ring w2 A B" using r(2) heap by (auto simp: ring_def)
  have use: "usable w2 F" using w2(3) by (simp add: usable_def hash_fresh_inv)
  have NA: "A \<noteq> NULL" using r(2) by (auto simp: ring_def)
  have "aspect_type_copy_by_name fuel N (Some m) F 0 ASPECT_TYPE_MAXPTRDEPTH w2 = Inl Diverges"
  proof (cases fuel)
    case (Suc g)
    obtain q w3 where q: "new_type (t\<lparr>at_name := Some m\<rparr>) w2 = (q, w3)" by fastforce
    show ?thesis using Suc q N(3-5) r(1) NA heap(1) copy_ring [OF ring_new [OF ring q] usable_new [OF use q], of g None]
      by (simp add: type_at_def set_childs_def ASPECT_TYPE_MAXPTRDEPTH_def)
  qed simp
  then have "build_type fuel u m N (f # fs) w = Inl Diverges"
    using N(2) F w2(1) by (simp add: build_type_def start_type_def)
  then show ?thesis using m N(1,2) cut_super_append [OF m(2), of l]
    by (simp add: aspect_type_register_def aspect_type_create_def create_type_def aspect_type_get_by_name_def)
qed

end
