(* ===== verification/Profiler.thy ===== *)
theory Profiler
  imports Prelude
begin

text \<open>
  The profiler of \<open>libaspect\<close> (\<open>profiler.c\<close>, the profiling part of \<open>config.c\<close> and the macros of
  \<open>libaspect-profiler.h\<close>): the history of allocations, the memory of messages, the depth of
  the traced calls. The static variables and the profiling fields of \<open>aspectworld\<close> are one
  record. What is written goes to \<open>outlog\<close>, with the channel it went through; the color
  functions of the user interface are arguments, \<open>call\<close> for those that take a string and
  \<open>callnum\<close> for \<open>colornumber\<close>. A call through a NULL pointer and a read outside of an array are
  \<open>Prof_Bad_Access\<close>, \<open>exit\<close> is \<open>Prof_Exit\<close>.
\<close>

subsection \<open>State\<close>

definition PROFILE_NONE :: u_char where "PROFILE_NONE = 0"
definition PROFILE_WARN :: u_char where "PROFILE_WARN = 1"
definition PROFILE_FUNCS :: u_char where "PROFILE_FUNCS = 2"
definition PROFILE_ALLOC :: u_char where "PROFILE_ALLOC = 4"
definition PROFILE_DEBUG :: u_char where "PROFILE_DEBUG = 8"

definition PROFILER_WARNING_UNKNOW :: u_char where "PROFILER_WARNING_UNKNOW = 0"
definition PROFILER_WARNING_LAST :: u_char where "PROFILER_WARNING_LAST = 1"
definition PROFILER_WARNING_FIRST :: u_char where "PROFILER_WARNING_FIRST = 2"

definition PROFILER_ALLOC_LEGIT :: u_char where "PROFILER_ALLOC_LEGIT = 1"
definition PROFILER_ALLOC_PROXY :: u_char where "PROFILER_ALLOC_PROXY = 2"
definition PROFILER_OP_UNKNOW :: u_char where "PROFILER_OP_UNKNOW = 0"
definition PROFILER_OP_ALLOC :: u_char where "PROFILER_OP_ALLOC = 1"
definition PROFILER_OP_REALLOC :: u_char where "PROFILER_OP_REALLOC = 2"
definition PROFILER_OP_FREE :: u_char where "PROFILER_OP_FREE = 3"

definition PROFILER_MAX_PATTERN :: nat where "PROFILER_MAX_PATTERN = 10"
definition PROFILER_MAX_ALLOC :: nat where "PROFILER_MAX_ALLOC = 2000"

record profallocentry_t =
  alloctype :: u_char
  optype :: u_char
  filename :: "string option"
  funcname :: "string option"
  linenbr :: u_int
  addr :: u_int

datatype channel = Stdout | Stderr | Profile | Profile_err | Endline

record colors =
  endline :: ptr
  colorinstr :: ptr
  colorstr :: ptr
  colorfieldstr :: ptr
  colortypestr :: ptr
  colorend :: ptr
  colorwarn :: ptr
  colorfunction :: ptr
  colorfilename :: ptr
  coloradv :: ptr
  colorinstr_fmt :: ptr
  coloraddress :: ptr
  colornumber :: ptr
  colorstr_fmt :: ptr
  colorfieldstr_fmt :: ptr
  colortypestr_fmt :: ptr
  colorwarn_fmt :: ptr

text \<open>\<open>mem\<close> and \<open>hit\<close> have two banks, for warnings and for calls.\<close>

record profiler =
  mem :: "string list list"
  hit :: "u_int list list"
  sel :: nat
  profiler_error_str :: "string option"
  profiler_depth :: u_int
  profiler_direction :: char
  allocentries :: "profallocentry_t list"
  profiler_adepth :: nat
  proflevel :: u_char
  profstarted :: u_char
  profile :: ptr
  profile_err :: ptr
  ui :: colors
  outlog :: "(channel \<times> string) list"

datatype prof_stop = Prof_Exit profiler | Prof_Bad_Access

type_synonym 'a prof_result = "prof_stop + 'a"

definition zero_entry :: profallocentry_t where
  "zero_entry = \<lparr>alloctype = 0, optype = 0, filename = None, funcname = None, linenbr = 0, addr = 0\<rparr>"

definition no_colors :: colors where
  "no_colors = \<lparr>endline = NULL, colorinstr = NULL, colorstr = NULL, colorfieldstr = NULL, colortypestr = NULL, colorend = NULL,
     colorwarn = NULL, colorfunction = NULL, colorfilename = NULL, coloradv = NULL, colorinstr_fmt = NULL, coloraddress = NULL,
     colornumber = NULL, colorstr_fmt = NULL, colorfieldstr_fmt = NULL, colortypestr_fmt = NULL, colorwarn_fmt = NULL\<rparr>"

text \<open>The statics when the process starts.\<close>

definition profiler_boot :: profiler where
  "profiler_boot = \<lparr>mem = replicate 2 (replicate PROFILER_MAX_PATTERN ''''), hit = replicate 2 (replicate PROFILER_MAX_PATTERN 0),
     sel = 0, profiler_error_str = None, profiler_depth = 0, profiler_direction = CHR ''+'',
     allocentries = replicate PROFILER_MAX_ALLOC zero_entry, profiler_adepth = 0, proflevel = PROFILE_NONE, profstarted = 0,
     profile = NULL, profile_err = NULL, ui = no_colors, outlog = []\<rparr>"

definition emit :: "channel \<Rightarrow> string \<Rightarrow> profiler \<Rightarrow> profiler" where
  "emit c s w = w\<lparr>outlog := outlog w @ [(c, s)]\<rparr>"

text \<open>The guarded call \<open>if (aspectworld.profile) aspectworld.profile(s)\<close>, and the one without a guard.\<close>

definition profile_opt :: "string \<Rightarrow> profiler \<Rightarrow> profiler" where
  "profile_opt s w = (if profile w \<noteq> NULL then emit Profile s w else w)"

definition profile_call :: "string \<Rightarrow> profiler \<Rightarrow> profiler prof_result" where
  "profile_call s w = (if profile w \<noteq> NULL then Inr (emit Profile s w) else Inl Prof_Bad_Access)"

text \<open>The conversions \<open>%lX\<close>, \<open>%-50s\<close> and \<open>%s\<close> of a string that is not NULL.\<close>

fun fmt_X :: "nat \<Rightarrow> string" where
  "fmt_X n = (if n < 16 then [hex_digit n] else fmt_X (n div 16) @ [hex_digit n])"

declare fmt_X.simps [simp del]

definition fmt_left :: "nat \<Rightarrow> string \<Rightarrow> string" where
  "fmt_left n s = s @ replicate (n - length s) (CHR '' '')"

definition the_str :: "string option \<Rightarrow> string prof_result" where
  "the_str s = (case s of None \<Rightarrow> Inl Prof_Bad_Access | Some t \<Rightarrow> Inr t)"

definition BUFSIZ :: nat where "BUFSIZ = 8192"

definition snprintf :: "nat \<Rightarrow> string \<Rightarrow> string" where
  "snprintf n s = take (n - 1) s"

subsection \<open>The history of allocations\<close>

definition entry :: "nat \<Rightarrow> profiler \<Rightarrow> profallocentry_t prof_result" where
  "entry i w = (if i < length (allocentries w) then Inr (allocentries w ! i) else Inl Prof_Bad_Access)"

fun find_down :: "nat \<Rightarrow> u_int \<Rightarrow> u_char \<Rightarrow> profiler \<Rightarrow> nat option prof_result" where
  "find_down 0 a op w = Inr None"
| "find_down (Suc i) a op w = rbind (entry (Suc i) w) (\<lambda>e.
     if addr e = a \<and> optype e = op then Inr (Some (Suc i)) else find_down i a op w)"

definition find_up :: "u_int \<Rightarrow> u_char \<Rightarrow> profiler \<Rightarrow> nat option" where
  "find_up a op w = List.find (\<lambda>i. addr (allocentries w ! i) = a \<and> optype (allocentries w ! i) = op) [1..<profiler_adepth w]"

text \<open>The index starts at \<open>profiler_adepth - 1\<close>, which is out of range when there is no entry.\<close>

definition profiler_alloc_find :: "u_char \<Rightarrow> u_int \<Rightarrow> u_char \<Rightarrow> profiler \<Rightarrow> (nat option \<times> profiler) prof_result" where
  "profiler_alloc_find direction a op w =
     (if direction = PROFILER_WARNING_LAST then
        (if profiler_adepth w = 0 then Inl Prof_Bad_Access
         else rbind (find_down (profiler_adepth w - 1) a op w) (\<lambda>r. Inr (r, w)))
      else if direction = PROFILER_WARNING_FIRST then
        (if profiler_adepth w > length (allocentries w) then Inl Prof_Bad_Access else Inr (find_up a op w, w))
      else Inr (None, profile_opt '' [E] Unknown alloc optype requested to the allocator profiler\<newline>'' w))"

text \<open>Both conditional expressions test a nonzero constant where they mean to compare with it.\<close>

definition warn_text :: "string \<Rightarrow> profallocentry_t \<Rightarrow> string \<Rightarrow> string \<Rightarrow> string" where
  "warn_text str e file func = snprintf BUFSIZ (str @ ''\<newline> ('' @
     (if alloctype e = PROFILER_ALLOC_LEGIT then ''LEGIT '' else ''PROXY '') @ ''-['' @
     (if optype e = PROFILER_OP_ALLOC then ''ALLOC  '' else ''REALLOC'') @
     '' of addr: 0x'' @ fmt_08X (addr e) @ '' at '' @ file @ ''@'' @ func @ '':'' @ fmt_u (unat (linenbr e)) @ '') \<newline>\<newline>'')"

definition profiler_alloc_warnprint :: "string \<Rightarrow> bool \<Rightarrow> nat \<Rightarrow> profiler \<Rightarrow> profiler prof_result" where
  "profiler_alloc_warnprint str fatal idx w = rbind (entry idx w) (\<lambda>e.
     rbind (the_str (filename e)) (\<lambda>file. rbind (the_str (funcname e)) (\<lambda>func.
     let w1 = profile_opt (warn_text str e file func) w
     in if fatal then Inl (Prof_Exit w1) else Inr w1)))"

text \<open>The order of two pointers into the array, NULL being the smallest.\<close>

definition later :: "nat option \<Rightarrow> nat option \<Rightarrow> bool" where
  "later a b \<longleftrightarrow> (case a of None \<Rightarrow> False | Some i \<Rightarrow> (case b of None \<Rightarrow> True | Some j \<Rightarrow> j < i))"

definition warn_if :: "bool \<Rightarrow> string \<Rightarrow> bool \<Rightarrow> nat \<Rightarrow> profiler \<Rightarrow> profiler prof_result" where
  "warn_if c str fatal idx w = (if c then profiler_alloc_warnprint str fatal idx w else Inr w)"

definition warn_last :: "profiler \<Rightarrow> profiler prof_result" where
  "warn_last w0 =
     (let d = profiler_adepth w0 in
      rbind (entry d w0) (\<lambda>cur.
      rbind (profiler_alloc_find PROFILER_WARNING_LAST (addr cur) PROFILER_OP_FREE w0) (\<lambda>(ent2, w1).
      rbind (profiler_alloc_find PROFILER_WARNING_LAST (addr cur) PROFILER_OP_ALLOC w1) (\<lambda>(ent, w2).
      rbind (profiler_alloc_find PROFILER_WARNING_LAST (addr cur) PROFILER_OP_REALLOC w2) (\<lambda>(ent3, w3).
      rbind (warn_if (optype cur = PROFILER_OP_FREE \<and> ent2 \<noteq> None \<and> later ent2 ent)
               '' [A] A pointer was freed but it is already free '' True d w3) (\<lambda>w4.
      rbind (warn_if ((optype cur = PROFILER_OP_FREE \<or> optype cur = PROFILER_OP_REALLOC) \<and> ent \<noteq> None \<and>
                 alloctype (allocentries w4 ! the ent) \<noteq> alloctype cur)
               '' [A] A pointer was freed but it is was belonging  to another allocator '' True d w4) (\<lambda>w5.
      rbind (warn_if (optype cur = PROFILER_OP_REALLOC \<and> ent = None)
               '' [A] A pointer was reallocated but its allocation was not found in history'' False d w5) (\<lambda>w6.
      rbind (warn_if (optype cur = PROFILER_OP_REALLOC \<and> ent = None \<and> ent2 = None)
               '' [A] A pointer was reallocated but its allocation was not found in history'' False d w6) (\<lambda>w7.
      rbind (warn_if (optype cur = PROFILER_OP_REALLOC \<and> ent2 \<noteq> None \<and> later ent2 ent)
               '' [A] A pointer was reallocated but it was in a freed state'' True d w7) (\<lambda>w8.
      warn_if (optype cur = PROFILER_OP_ALLOC \<and> ent \<noteq> None \<and> (later ent ent2 \<or> later ent ent3))
        '' [A] A pointer was reallocated without beeing freed '' True d w8))))))))))"

definition warn_first :: "profiler \<Rightarrow> profiler prof_result" where
  "warn_first w = rbind (entry 0 w) (\<lambda>e.
     if optype e = PROFILER_OP_FREE then Inr w
     else rbind (profiler_alloc_find PROFILER_WARNING_FIRST (addr e) PROFILER_OP_FREE w) (\<lambda>(ent, w1).
       warn_if (ent = None) '' [A] An allocation was removed from the history without beeing free'' False 0 w1))"

definition profiler_alloc_warning :: "u_char \<Rightarrow> profiler \<Rightarrow> profiler prof_result" where
  "profiler_alloc_warning warntype w =
     (if proflevel w AND PROFILE_ALLOC = 0 then Inr w
      else if warntype = PROFILER_WARNING_LAST then warn_last w
      else if warntype = PROFILER_WARNING_FIRST then warn_first w
      else Inl (Prof_Exit (profile_opt '' [A] Unknown warning type requested to the allocator profiler\<newline>'' w)))"

definition profiler_alloc_shift :: "profiler \<Rightarrow> profiler" where
  "profiler_alloc_shift w = w\<lparr>allocentries := tl (allocentries w) @ [last (allocentries w)], 
     profiler_adepth := (if profiler_adepth w = 0 then 2 ^ 32 - 1 else profiler_adepth w - 1)\<rparr>"

definition profiler_alloc_add :: "profallocentry_t \<Rightarrow> profiler \<Rightarrow> profiler prof_result" where
  "profiler_alloc_add e w = (if profiler_adepth w < length (allocentries w)
     then Inr (w\<lparr>allocentries := (allocentries w)[profiler_adepth w := e], profiler_adepth := Suc (profiler_adepth w)\<rparr>)
     else Inl Prof_Bad_Access)"

text \<open>The message tests \<open>atype\<close>, the allocator, for the number of the operation \<open>free\<close>.\<close>

definition profiler_alloc_update :: "string \<Rightarrow> string \<Rightarrow> u_int \<Rightarrow> u_int \<Rightarrow> u_char \<Rightarrow> u_char \<Rightarrow> profiler \<Rightarrow> (int \<times> profiler) prof_result" where
  "profiler_alloc_update file func line a atype otype w =
     (let e = \<lparr>alloctype = atype, optype = otype, filename = Some file, funcname = Some func, linenbr = line, addr = a\<rparr>;
          w1 = (if proflevel w AND PROFILE_ALLOC \<noteq> 0
                then emit Stdout ('' [A] '' @ func @ ''@'' @ file @ '':'' @ fmt_u (unat line) @ '' '' @
                       (if atype = PROFILER_OP_FREE then ''FREE'' else ''(RE)ALLOC'') @ '' ADDR '' @ fmt_X (unat a) @ '' \<newline>'') w
                else w)
      in if Suc (profiler_adepth w1) \<noteq> PROFILER_MAX_ALLOC then
           rbind (profiler_alloc_add e w1) (\<lambda>w2.
           rbind (profiler_alloc_warning PROFILER_WARNING_LAST w2) (\<lambda>w3. Inr (0, w3)))
         else
           rbind (profiler_alloc_warning PROFILER_WARNING_FIRST w1) (\<lambda>w2.
           rbind (profiler_alloc_add e (profiler_alloc_shift w2)) (\<lambda>w3.
           rbind (profiler_alloc_warning PROFILER_WARNING_LAST w3) (\<lambda>w4. Inr (1, w4)))))"

subsection \<open>Messages\<close>

definition profiler_reset :: "nat \<Rightarrow> profiler \<Rightarrow> profiler" where
  "profiler_reset lsel w = w\<lparr>mem := (mem w)[lsel := replicate PROFILER_MAX_PATTERN ''''],
     hit := (hit w)[lsel := replicate PROFILER_MAX_PATTERN 0]\<rparr>"

text \<open>The line is kept as a pattern of at most 79 characters. The result is 1 when it is in the
  bank already.\<close>

definition profiler_print :: "string \<Rightarrow> string \<Rightarrow> u_int \<Rightarrow> string option \<Rightarrow> profiler \<Rightarrow> (int \<times> profiler) prof_result" where
  "profiler_print file func line msg w0 =
     (let s = (if msg = None then 1 else 0);
          w = w0\<lparr>sel := s\<rparr>;
          buf = snprintf BUFSIZ (''<'' @ func @ ''@'' @ file @ '':'' @ fmt_u (unat line) @ ''>'');
          buff = snprintf 80 (fmt_left 50 buf @ '' '' @ (case msg of None \<Rightarrow> '''' | Some m \<Rightarrow> m));
          m = mem w ! s; h = hit w ! s
      in if buff \<in> set m then
           Inr (1, w\<lparr>hit := (hit w)[s := map (\<lambda>(p, n). if p = buff then n + 1 else n) (zip m h)]\<rparr>)
         else if sint (profiler_depth w) < 0 then Inl Prof_Bad_Access
         else rbind (if \<exists>n\<in>set h. n \<noteq> 0
                     then rbind (profile_call ''\<newline>'' w) (\<lambda>w1. Inr (w1\<lparr>hit := (hit w1)[s := replicate PROFILER_MAX_PATTERN 0]\<rparr>))
                     else Inr w) (\<lambda>w2.
              Inr (0, w2\<lparr>mem := (mem w2)[s := buff # butlast m]\<rparr>)))"

definition color :: "(ptr \<Rightarrow> string \<Rightarrow> string) \<Rightarrow> ptr \<Rightarrow> string \<Rightarrow> string prof_result" where
  "color call f s = (if f = NULL then Inl Prof_Bad_Access else Inr (call f s))"

definition color_number :: "(ptr \<Rightarrow> u_int \<Rightarrow> string) \<Rightarrow> ptr \<Rightarrow> u_int \<Rightarrow> string prof_result" where
  "color_number callnum f n = (if f = NULL then Inl Prof_Bad_Access else Inr (callnum f n))"

definition profiler_err :: "(ptr \<Rightarrow> string \<Rightarrow> string) \<Rightarrow> (ptr \<Rightarrow> u_int \<Rightarrow> string) \<Rightarrow> string \<Rightarrow> string \<Rightarrow> u_int \<Rightarrow> string \<Rightarrow>
    profiler \<Rightarrow> profiler prof_result" where
  "profiler_err call callnum file func line msg w0 =
     (if proflevel w0 AND PROFILE_WARN = 0 then Inr w0
      else rbind (profiler_print file func line (Some msg) w0) (\<lambda>(r, w).
        if r \<noteq> 0 then Inr w
        else
          let d = sint (profiler_depth w); fill = (if d - 6 > 0 then replicate (nat d) (CHR '' '') else '''') in
          rbind (if endline (ui w) \<noteq> NULL then
                   rbind (color call (colorfunction (ui w)) func) (\<lambda>cfunc.
                   rbind (color call (colorfilename (ui w)) file) (\<lambda>cfile.
                   rbind (color_number callnum (colornumber (ui w)) line) (\<lambda>cline.
                   rbind (color call (colorwarn (ui w)) ''[W]'') (\<lambda>wtag.
                   rbind (color call (colorwarn (ui w)) msg) (\<lambda>cmsg.
                   Inr (snprintf BUFSIZ ('' '' @ wtag @ '' '' @ fill @ '' '' @
                     fmt_left 70 (snprintf 80 ('' <'' @ cfunc @ ''@'' @ cfile @ '':'' @ cline @ ''>'')) @ '' '' @ cmsg @ '' \<newline>'')))))))
                 else
                   Inr (snprintf BUFSIZ ('' [W] '' @ fill @ '' '' @
                     fmt_left 70 (snprintf 80 ('' <'' @ func @ ''@'' @ file @ '':'' @ fmt_u (unat line) @ ''>'')) @ '' '' @ msg @ '' \<newline>'')))
            (\<lambda>buf.
              let w1 = (if profile_err w \<noteq> NULL then emit Profile_err buf w else emit Stderr ''No profiling function specified.\<newline>'' w);
                  w2 = (if endline (ui w1) \<noteq> NULL then emit Endline '''' w1 else w1)
              in Inr (profiler_reset 0 w2))))"

definition profiler_out :: "(ptr \<Rightarrow> string \<Rightarrow> string) \<Rightarrow> (ptr \<Rightarrow> u_int \<Rightarrow> string) \<Rightarrow> string \<Rightarrow> string \<Rightarrow> u_int \<Rightarrow>
    profiler \<Rightarrow> profiler prof_result" where
  "profiler_out call callnum file func line w0 =
     (if proflevel w0 AND PROFILE_FUNCS = 0 then Inr w0
      else rbind (profiler_print file func line None w0) (\<lambda>(r, w1).
        if r \<noteq> 0 then Inr w1
        else
          let w = (if sint (profiler_depth w1) > 80 then w1\<lparr>profiler_depth := 1\<rparr> else w1);
              space = replicate (nat (sint (profiler_depth w))) (CHR '' '') in
          rbind (if endline (ui w) \<noteq> NULL then
                   rbind (color_number callnum (colornumber (ui w)) (profiler_depth w)) (\<lambda>cdepth.
                   rbind (color call (colorfieldstr (ui w)) [profiler_direction w]) (\<lambda>cdir.
                   rbind (color call (colorfunction (ui w)) func) (\<lambda>cfunc.
                   rbind (color call (colorfilename (ui w)) file) (\<lambda>cfile.
                   rbind (color_number callnum (colornumber (ui w)) line) (\<lambda>cline.
                   Inr (snprintf 160 (space @ '' '' @ cdepth @ '' '' @ cdir @ '' <'' @ cfunc @ ''@'' @ cfile @ '':'' @ cline @ ''>\<newline>'')))))))
                 else
                   Inr (snprintf 160 (space @ '' '' @ fmt_u (unat (profiler_depth w)) @ '' '' @ [profiler_direction w] @
                     '' <'' @ func @ ''@'' @ file @ '':'' @ fmt_u (unat line) @ ''>\<newline>'')))
            (\<lambda>buff.
              let w2 = profile_opt buff w
              in Inr (if endline (ui w2) \<noteq> NULL then emit Endline '''' w2 else w2))))"

subsection \<open>Depth and direction\<close>

definition profiler_started :: "profiler \<Rightarrow> u_char" where
  "profiler_started w = profstarted w"

definition profiler_incdepth :: "profiler \<Rightarrow> profiler" where
  "profiler_incdepth w = w\<lparr>profiler_depth := profiler_depth w + 1\<rparr>"

definition profiler_updir :: "profiler \<Rightarrow> profiler" where
  "profiler_updir w = w\<lparr>profiler_direction := CHR ''+''\<rparr>"

definition profiler_decdepth :: "profiler \<Rightarrow> profiler" where
  "profiler_decdepth w = w\<lparr>profiler_depth := (if sint (profiler_depth w) > 0 then profiler_depth w - 1 else profiler_depth w),
     profiler_direction := CHR ''-''\<rparr>"

definition profiler_error_reset :: "profiler \<Rightarrow> profiler" where
  "profiler_error_reset w = w\<lparr>profiler_error_str := None\<rparr>"

definition profiler_error :: "profiler \<Rightarrow> profiler" where
  "profiler_error w = profiler_error_reset (case profiler_error_str w of
     None \<Rightarrow> w
   | Some s \<Rightarrow> (let buf = snprintf BUFSIZ ('' [E] '' @ s @ ''\<newline>\<newline>'') in
       if profile_err w \<noteq> NULL then emit Profile_err buf w
       else emit Stdout (''[WARNING] : profile_err() is NULL . Reverting to prinf.\<newline>'' @ buf @ ''\<newline>'') w))"

subsection \<open>Switches\<close>

definition set_level :: "u_char \<Rightarrow> profiler \<Rightarrow> int \<times> profiler" where
  "set_level l w = (0, w\<lparr>proflevel := l\<rparr>)"

definition profiler_enable_err :: "profiler \<Rightarrow> int \<times> profiler" where
  "profiler_enable_err w = set_level (proflevel w OR PROFILE_WARN) w"

definition profiler_enable_out :: "profiler \<Rightarrow> int \<times> profiler" where
  "profiler_enable_out w = set_level (proflevel w OR PROFILE_FUNCS) w"

definition profiler_enable_alloc :: "profiler \<Rightarrow> int \<times> profiler" where
  "profiler_enable_alloc w = set_level (proflevel w OR PROFILE_ALLOC) w"

definition profiler_enable_debug :: "profiler \<Rightarrow> int \<times> profiler" where
  "profiler_enable_debug w = set_level (proflevel w OR PROFILE_DEBUG) w"

definition profiler_disable_err :: "profiler \<Rightarrow> int \<times> profiler" where
  "profiler_disable_err w = set_level (proflevel w AND NOT PROFILE_WARN) w"

definition profiler_disable_out :: "profiler \<Rightarrow> int \<times> profiler" where
  "profiler_disable_out w = set_level (proflevel w AND NOT PROFILE_FUNCS) w"

definition profiler_disable_alloc :: "profiler \<Rightarrow> int \<times> profiler" where
  "profiler_disable_alloc w = set_level (proflevel w AND NOT PROFILE_ALLOC) w"

definition profiler_disable_debug :: "profiler \<Rightarrow> int \<times> profiler" where
  "profiler_disable_debug w = set_level (proflevel w AND NOT PROFILE_DEBUG) w"

definition profiler_disable_all :: "profiler \<Rightarrow> int \<times> profiler" where
  "profiler_disable_all w = set_level PROFILE_NONE w"

definition profiler_enable_all :: "profiler \<Rightarrow> int \<times> profiler" where
  "profiler_enable_all w = (0, snd (profiler_enable_alloc (snd (profiler_enable_out (snd (profiler_enable_err w))))))"

definition profiler_enabled :: "profiler \<Rightarrow> int" where
  "profiler_enabled w = uint (proflevel w)"

definition profiler_is_enabled :: "u_char \<Rightarrow> profiler \<Rightarrow> int" where
  "profiler_is_enabled flags w = uint (proflevel w AND flags)"

definition profiler_install :: "ptr \<Rightarrow> ptr \<Rightarrow> profiler \<Rightarrow> profiler" where
  "profiler_install p e w = w\<lparr>profile := p, profile_err := e\<rparr>"

definition profiler_setcolor :: "ptr \<Rightarrow> ptr \<Rightarrow> ptr \<Rightarrow> ptr \<Rightarrow> ptr \<Rightarrow> ptr \<Rightarrow> ptr \<Rightarrow> ptr \<Rightarrow> ptr \<Rightarrow> profiler \<Rightarrow> profiler" where
  "profiler_setcolor a b c d e f g h i w = w\<lparr>ui := (ui w)\<lparr>endline := a, colorinstr := b, colorstr := c, colorfieldstr := d,
     colortypestr := e, colorend := f, colorwarn := g, colorfunction := h, colorfilename := i\<rparr>\<rparr>"

definition profiler_setmorecolor :: "ptr \<Rightarrow> ptr \<Rightarrow> ptr \<Rightarrow> ptr \<Rightarrow> ptr \<Rightarrow> ptr \<Rightarrow> ptr \<Rightarrow> ptr \<Rightarrow> profiler \<Rightarrow> profiler" where
  "profiler_setmorecolor a b c d e f g h w = w\<lparr>ui := (ui w)\<lparr>coloradv := a, colorinstr_fmt := b, coloraddress := c, colornumber := d,
     colorstr_fmt := e, colorfieldstr_fmt := f, colortypestr_fmt := g, colorwarn_fmt := h\<rparr>\<rparr>"

subsection \<open>The macros around a function\<close>

text \<open>\<open>PROFILER_IN\<close> keeps the depth in \<open>profileme\<close>; \<open>PROFILER_OUT\<close> and \<open>PROFILER_ROUT\<close> compare with it.
  the two differ in a text and in the return, as do \<open>PROFILER_ERR\<close> and \<open>PROFILER_RERR\<close>.\<close>

definition PROFILER_IN :: "(ptr \<Rightarrow> string \<Rightarrow> string) \<Rightarrow> (ptr \<Rightarrow> u_int \<Rightarrow> string) \<Rightarrow> string \<Rightarrow> string \<Rightarrow> u_int \<Rightarrow>
    profiler \<Rightarrow> (u_int \<times> profiler) prof_result" where
  "PROFILER_IN call callnum file func line w =
     (if profiler_started w = 0 then Inr (profiler_depth w, w)
      else rbind (profiler_out call callnum file func line (profiler_updir w)) (\<lambda>w1. Inr (profiler_depth w, profiler_incdepth w1)))"

definition fmt_d :: "u_int \<Rightarrow> string" where
  "fmt_d n = (if sint n < 0 then CHR ''-'' # fmt_u (nat (- sint n)) else fmt_u (nat (sint n)))"

definition check_depth :: "string \<Rightarrow> string \<Rightarrow> u_int \<Rightarrow> profiler \<Rightarrow> profiler" where
  "check_depth str str2 profileme w =
     (if profileme = profiler_depth w then w
      else (emit Stdout str2 (emit Stdout str w))\<lparr>profiler_depth := profileme\<rparr>)"

definition location :: "string \<Rightarrow> string \<Rightarrow> u_int \<Rightarrow> string" where
  "location file func line = func @ ''@'' @ file @ '':'' @ fmt_d line @ ''\<newline>''"

definition leave :: "(ptr \<Rightarrow> string \<Rightarrow> string) \<Rightarrow> (ptr \<Rightarrow> u_int \<Rightarrow> string) \<Rightarrow> string \<Rightarrow> string \<Rightarrow> string \<Rightarrow> u_int \<Rightarrow> u_int \<Rightarrow>
    profiler \<Rightarrow> profiler prof_result" where
  "leave call callnum str file func line profileme w =
     (if profiler_started w = 0 then Inr w
      else let w1 = profiler_decdepth w in
        profiler_out call callnum file func line (check_depth
          (str @ ''('' @ fmt_d profileme @ '' '' @ fmt_d (profiler_depth w1) @ '')\<newline>'')
          (''     Current FUNCTION '' @ location file func line) profileme w1))"

definition PROFILER_OUT :: "(ptr \<Rightarrow> string \<Rightarrow> string) \<Rightarrow> (ptr \<Rightarrow> u_int \<Rightarrow> string) \<Rightarrow> string \<Rightarrow> string \<Rightarrow> u_int \<Rightarrow> u_int \<Rightarrow>
    profiler \<Rightarrow> profiler prof_result" where
  "PROFILER_OUT call callnum = leave call callnum '' [!] A function called by currentforgot to decrement profiler_depth''"

definition PROFILER_ROUT :: "(ptr \<Rightarrow> string \<Rightarrow> string) \<Rightarrow> (ptr \<Rightarrow> u_int \<Rightarrow> string) \<Rightarrow> string \<Rightarrow> string \<Rightarrow> u_int \<Rightarrow> u_int \<Rightarrow>
    profiler \<Rightarrow> profiler prof_result" where
  "PROFILER_ROUT call callnum = leave call callnum '' [!] A function called by current forgot to decrement profiler_depth''"

definition leave_error :: "(ptr \<Rightarrow> string \<Rightarrow> string) \<Rightarrow> (ptr \<Rightarrow> u_int \<Rightarrow> string) \<Rightarrow> string \<Rightarrow> string \<Rightarrow> string \<Rightarrow> string \<Rightarrow> u_int \<Rightarrow>
    string \<Rightarrow> u_int \<Rightarrow> profiler \<Rightarrow> profiler prof_result" where
  "leave_error call callnum str str2 file func line msg profileme w =
     (if profiler_started w = 0 then Inr w
      else profiler_err call callnum file func line msg
        ((check_depth str (str2 @ location file func line) profileme (profiler_decdepth w))\<lparr>profiler_error_str := Some msg\<rparr>))"

definition PROFILER_ERR :: "(ptr \<Rightarrow> string \<Rightarrow> string) \<Rightarrow> (ptr \<Rightarrow> u_int \<Rightarrow> string) \<Rightarrow> string \<Rightarrow> string \<Rightarrow> u_int \<Rightarrow> string \<Rightarrow> u_int \<Rightarrow>
    profiler \<Rightarrow> profiler prof_result" where
  "PROFILER_ERR call callnum = leave_error call callnum
     '' [!] A function called by current one forgot to decrement profiler_depth\<newline>'' ''     Current FUNCTION ''"

definition PROFILER_RERR :: "(ptr \<Rightarrow> string \<Rightarrow> string) \<Rightarrow> (ptr \<Rightarrow> u_int \<Rightarrow> string) \<Rightarrow> string \<Rightarrow> string \<Rightarrow> u_int \<Rightarrow> string \<Rightarrow> u_int \<Rightarrow>
    profiler \<Rightarrow> profiler prof_result" where
  "PROFILER_RERR call callnum = leave_error call callnum
     ''a function called by the current one forgot to decrement profiler_depth\<newline>'' ''current FUNCTION ''"

subsection \<open>What the history remembers\<close>

definition history :: "profiler \<Rightarrow> profallocentry_t list" where
  "history w = take (profiler_adepth w) (allocentries w)"

text \<open>The invariant of the history: the entries are at the front of the array and have been written,
  those behind them are zero.\<close>

definition stored :: "profiler \<Rightarrow> profallocentry_t list \<Rightarrow> bool" where
  "stored w hs \<longleftrightarrow> length hs < PROFILER_MAX_ALLOC \<and> profiler_adepth w = length hs \<and>
     allocentries w = hs @ replicate (PROFILER_MAX_ALLOC - length hs) zero_entry \<and>
     (\<forall>e\<in>set hs. filename e \<noteq> None \<and> funcname e \<noteq> None)"

definition history_ok :: "profiler \<Rightarrow> bool" where
  "history_ok w \<longleftrightarrow> stored w (history w)"

text \<open>An operation on memory as the macros report it, and its entry.\<close>

type_synonym alloc_op = "string \<times> string \<times> u_int \<times> u_int \<times> u_char \<times> u_char"

fun op_entry :: "alloc_op \<Rightarrow> profallocentry_t" where
  "op_entry (file, func, line, a, atype, otype) =
     \<lparr>alloctype = atype, optype = otype, filename = Some file, funcname = Some func, linenbr = line, addr = a\<rparr>"

fun op_update :: "alloc_op \<Rightarrow> profiler \<Rightarrow> (int \<times> profiler) prof_result" where
  "op_update (file, func, line, a, atype, otype) w = profiler_alloc_update file func line a atype otype w"

fun op_updates :: "alloc_op list \<Rightarrow> profiler \<Rightarrow> profiler prof_result" where
  "op_updates [] w = Inr w"
| "op_updates (x # xs) w = rbind (op_update x w) (\<lambda>(r, w1). op_updates xs w1)"

text \<open>The specification: a queue of bounded length, and the warning about the entry that leaves it.\<close>

definition remember :: "profallocentry_t \<Rightarrow> profallocentry_t list \<Rightarrow> profallocentry_t list" where
  "remember e hs = (if Suc (length hs) < PROFILER_MAX_ALLOC then hs else tl hs) @ [e]"

definition leaked :: "profallocentry_t list \<Rightarrow> bool" where
  "leaked hs \<longleftrightarrow> Suc (length hs) = PROFILER_MAX_ALLOC \<and> optype (hd hs) \<noteq> PROFILER_OP_FREE \<and>
     \<not> (\<exists>e\<in>set (tl hs). addr e = addr (hd hs) \<and> optype e = PROFILER_OP_FREE)"

definition leak_text :: "profallocentry_t \<Rightarrow> string" where
  "leak_text e = warn_text '' [A] An allocation was removed from the history without beeing free'' e (the (filename e)) (the (funcname e))"

fun trace_text :: "alloc_op \<Rightarrow> string" where
  "trace_text (file, func, line, a, atype, otype) = '' [A] '' @ func @ ''@'' @ file @ '':'' @ fmt_u (unat line) @ '' '' @
     (if atype = PROFILER_OP_FREE then ''FREE'' else ''(RE)ALLOC'') @ '' ADDR '' @ fmt_X (unat a) @ '' \<newline>''"

fun reports :: "bool \<Rightarrow> profallocentry_t list \<Rightarrow> alloc_op list \<Rightarrow> (channel \<times> string) list" where
  "reports p hs [] = []"
| "reports p hs (x # xs) = (Stdout, trace_text x) # (if leaked hs \<and> p then [(Profile, leak_text (hd hs))] else []) @
     reports p (remember (op_entry x) hs) xs"

lemma stored_history: "stored w hs \<Longrightarrow> history w = hs"
  by (simp add: stored_def history_def)

lemma stored_length: "stored w hs \<Longrightarrow> length (allocentries w) = PROFILER_MAX_ALLOC"
  by (simp add: stored_def)

lemma stored_next: "stored w hs \<Longrightarrow> entry (profiler_adepth w) w = Inr zero_entry"
  by (simp add: stored_def entry_def nth_append)

lemma stored_emit [simp]: "stored (emit c s w) hs = stored w hs"
  by (simp add: stored_def emit_def)

lemma find_down_Inr: "i < length (allocentries w) \<Longrightarrow> \<exists>r. find_down i a op w = Inr r"
  by (induction i) (auto simp: entry_def)

text \<open>The check of the last entry reads the slot behind it, which has never been written.\<close>

lemma warn_last_none:
  assumes "stored w hs" "hs \<noteq> []"
  shows "warn_last w = Inr w"
proof -
  have d: "profiler_adepth w \<noteq> 0" "profiler_adepth w - 1 < length (allocentries w)" using assms by (auto simp: stored_def)
  have find: "\<exists>r. profiler_alloc_find PROFILER_WARNING_LAST a op w = Inr (r, w)" for a op
    using find_down_Inr [OF d(2), of a op] d(1) by (auto simp: profiler_alloc_find_def)
  obtain r1 r2 r3 where
    "profiler_alloc_find PROFILER_WARNING_LAST (addr zero_entry) PROFILER_OP_FREE w = Inr (r1, w)"
    "profiler_alloc_find PROFILER_WARNING_LAST (addr zero_entry) PROFILER_OP_ALLOC w = Inr (r2, w)"
    "profiler_alloc_find PROFILER_WARNING_LAST (addr zero_entry) PROFILER_OP_REALLOC w = Inr (r3, w)"
    using find by meson
  moreover have "optype zero_entry \<noteq> PROFILER_OP_FREE" "optype zero_entry \<noteq> PROFILER_OP_ALLOC" "optype zero_entry \<noteq> PROFILER_OP_REALLOC"
    by (simp_all add: zero_entry_def PROFILER_OP_FREE_def PROFILER_OP_ALLOC_def PROFILER_OP_REALLOC_def)
  ultimately show ?thesis
    unfolding warn_last_def Let_def stored_next [OF assms(1)] by (simp add: warn_if_def)
qed

lemma stored_add:
  assumes "stored w hs" "Suc (length hs) < PROFILER_MAX_ALLOC" "filename e \<noteq> None" "funcname e \<noteq> None"
  obtains w' where "profiler_alloc_add e w = Inr w'" "stored w' (hs @ [e])" "outlog w' = outlog w" "profile w' = profile w" "proflevel w' = proflevel w"
proof -
  have r: "replicate (PROFILER_MAX_ALLOC - length hs) zero_entry = zero_entry # replicate (PROFILER_MAX_ALLOC - Suc (length hs)) zero_entry"
    using assms(2) by (cases "PROFILER_MAX_ALLOC - length hs") auto
  let ?w = "w\<lparr>allocentries := (allocentries w)[profiler_adepth w := e], profiler_adepth := Suc (profiler_adepth w)\<rparr>"
  have w: "profiler_adepth w = length hs" "allocentries w = hs @ replicate (PROFILER_MAX_ALLOC - length hs) zero_entry"
    using assms(1) by (simp_all add: stored_def)
  have "allocentries ?w = (hs @ [e]) @ replicate (PROFILER_MAX_ALLOC - length (hs @ [e])) zero_entry"
    unfolding profiler.simps profiler.update_convs w r by (simp add: list_update_append)
  then have "stored ?w (hs @ [e])" using assms by (auto simp: stored_def)
  moreover have "profiler_alloc_add e w = Inr ?w" using assms(2) w by (simp add: profiler_alloc_add_def)
  ultimately show ?thesis using that by simp
qed

lemma stored_shift:
  assumes "stored w hs" "Suc (length hs) = PROFILER_MAX_ALLOC"
  shows "stored (profiler_alloc_shift w) (tl hs)"
proof -
  have "hs \<noteq> []" "PROFILER_MAX_ALLOC - length hs = 1" "PROFILER_MAX_ALLOC - (length hs - 1) = 2" using assms(2) by (auto simp: PROFILER_MAX_ALLOC_def)
  moreover have "set (tl hs) \<subseteq> set hs" by (cases hs) auto
  ultimately show ?thesis using assms by (auto simp: stored_def profiler_alloc_shift_def numeral_2_eq_2)
qed

lemma find_up_None:
  assumes "stored w hs"
  shows "find_up a op w = None \<longleftrightarrow> \<not> (\<exists>e\<in>set (tl hs). addr e = a \<and> optype e = op)"
proof -
  have "(\<exists>e\<in>set (tl hs). addr e = a \<and> optype e = op) \<longleftrightarrow> (\<exists>i<length hs - 1. addr (hs ! Suc i) = a \<and> optype (hs ! Suc i) = op)"
    by (metis (no_types, opaque_lifting) in_set_conv_nth length_tl nth_tl)
  also have "\<dots> \<longleftrightarrow> (\<exists>i\<in>{1..<length hs}. addr (hs ! i) = a \<and> optype (hs ! i) = op)"
    by (auto simp: Suc_le_eq gr0_conv_Suc less_diff_conv) 
  finally show ?thesis using assms by (auto simp: find_up_def find_None_iff stored_def nth_append)
qed

lemma warn_first_leaked:
  assumes "stored w hs" "Suc (length hs) = PROFILER_MAX_ALLOC"
  shows "warn_first w = Inr (if leaked hs then profile_opt (leak_text (hd hs)) w else w)"
proof -
  have ne: "hs \<noteq> []" using assms(2) by (auto simp: PROFILER_MAX_ALLOC_def)
  then have e: "entry 0 w = Inr (hd hs)" "filename (hd hs) \<noteq> None" "funcname (hd hs) \<noteq> None"
    using assms(1) by (auto simp: entry_def stored_def nth_append hd_conv_nth)
  have f: "profiler_alloc_find PROFILER_WARNING_FIRST (addr (hd hs)) PROFILER_OP_FREE w = Inr (find_up (addr (hd hs)) PROFILER_OP_FREE w, w)"
    using assms(1) by (simp add: profiler_alloc_find_def PROFILER_WARNING_FIRST_def PROFILER_WARNING_LAST_def stored_def)
  show ?thesis using e assms(2)
    by (auto simp: warn_first_def f find_up_None [OF assms(1)] warn_if_def profiler_alloc_warnprint_def leaked_def leak_text_def the_str_def Let_def
        split: option.splits)
qed

lemma profile_opt_sel [simp]:
  "profile (profile_opt s w) = profile w" "proflevel (profile_opt s w) = proflevel w" "stored (profile_opt s w) hs = stored w hs"
  "profile (emit c s w) = profile w" "proflevel (emit c s w) = proflevel w" "outlog (emit c s w) = outlog w @ [(c, s)]"
  by (simp_all add: profile_opt_def) (simp_all add: emit_def)

lemma op_update_ok:
  assumes "stored w hs" "proflevel w AND PROFILE_ALLOC \<noteq> 0"
  obtains w' r where "op_update x w = Inr (r, w')" "stored w' (remember (op_entry x) hs)" "profile w' = profile w" "proflevel w' = proflevel w"
    "outlog w' = outlog w @ reports (profile w \<noteq> NULL) hs [x]"
proof -
  obtain fl fn ln a atype otype where x: "x = (fl, fn, ln, a, atype, otype)" by (cases x) auto
  let ?e = "op_entry x" and ?w1 = "emit Stdout (trace_text x) w"
  have d: "profiler_adepth ?w1 = length hs" using assms(1) by (simp add: stored_def emit_def)
  have lvl: "PROFILER_WARNING_LAST \<noteq> PROFILER_WARNING_FIRST" by (simp add: PROFILER_WARNING_LAST_def PROFILER_WARNING_FIRST_def)
  show ?thesis
  proof (cases "Suc (length hs) = PROFILER_MAX_ALLOC")
    case False
    then have small: "Suc (length hs) < PROFILER_MAX_ALLOC" using assms(1) by (simp add: stored_def)
    obtain w2 where w2: "profiler_alloc_add ?e ?w1 = Inr w2" "stored w2 (hs @ [?e])" "outlog w2 = outlog ?w1" "profile w2 = profile ?w1"
      "proflevel w2 = proflevel ?w1" by (rule stored_add [of ?w1 hs ?e]) (use assms(1) small x in auto)
    have "op_update x w = Inr (0, w2)" using x w2 d False assms(2) warn_last_none [OF w2(2)]
      by (simp add: profiler_alloc_update_def profiler_alloc_warning_def Let_def)
    then show ?thesis using that w2 small by (simp add: remember_def leaked_def)
  next
    case True
    let ?w2 = "if leaked hs then profile_opt (leak_text (hd hs)) ?w1 else ?w1"
    have f: "warn_first ?w1 = Inr ?w2" by (rule warn_first_leaked) (use assms(1) True in auto)
    have s: "stored (profiler_alloc_shift ?w2) (tl hs)" by (rule stored_shift) (use assms(1) True in auto)
    obtain w3 where w3: "profiler_alloc_add ?e (profiler_alloc_shift ?w2) = Inr w3" "stored w3 (tl hs @ [?e])"
      "outlog w3 = outlog (profiler_alloc_shift ?w2)" "profile w3 = profile (profiler_alloc_shift ?w2)" "proflevel w3 = proflevel (profiler_alloc_shift ?w2)"
      by (rule stored_add [OF s]) (use True x in \<open>auto simp: PROFILER_MAX_ALLOC_def\<close>)
    have "op_update x w = Inr (1, w3)" using x w3 d True assms(2) warn_last_none [OF w3(2)] f lvl
      by (simp add: profiler_alloc_update_def profiler_alloc_warning_def Let_def profiler_alloc_shift_def)
    then show ?thesis using that w3 True by (simp add: remember_def profiler_alloc_shift_def profile_opt_def)
  qed
qed

lemma remember_last:
  "length ys < PROFILER_MAX_ALLOC \<Longrightarrow> fold remember xs ys = drop (length ys + length xs - (PROFILER_MAX_ALLOC - 1)) (ys @ xs)"
proof (induction xs arbitrary: ys)
  case (Cons x xs)
  show ?case
  proof (cases "Suc (length ys) < PROFILER_MAX_ALLOC")
    case True
    then show ?thesis using Cons.IH [of "ys @ [x]"] by (simp add: remember_def)
  next
    case False
    then have l: "length ys = PROFILER_MAX_ALLOC - 1" "ys \<noteq> []" using Cons.prems by (auto simp: PROFILER_MAX_ALLOC_def)
    then obtain y zs where ys: "ys = y # zs" by (cases ys) auto
    then have "Suc (length zs) = PROFILER_MAX_ALLOC - 1" using l by simp
    then have n: "length ys + length (x # xs) - (PROFILER_MAX_ALLOC - 1) = Suc (length xs)"
      "length (zs @ [x]) + length xs - (PROFILER_MAX_ALLOC - 1) = length xs" using ys by auto
    have "fold remember (x # xs) ys = fold remember xs (zs @ [x])" using False ys by (simp add: remember_def)
    also have "\<dots> = drop (length xs) ((zs @ [x]) @ xs)" using Cons.IH [of "zs @ [x]"] Cons.prems ys unfolding n(2) by simp
    finally show ?thesis unfolding n(1) by (simp add: ys)
  qed
qed simp

subsection \<open>The depth of nested calls\<close>

text \<open>A traced function leaves through one of the four macros, the two for errors with their message.
  A call is given by the file and the name of the function, the lines of its entry and of its exit,
  the macro it leaves through, and the calls of traced functions it makes.\<close>

datatype exit_macro = Out | Rout | Err string | Rerr string

datatype call = Call string string u_int u_int exit_macro "call list"

fun run_exit :: "(ptr \<Rightarrow> string \<Rightarrow> string) \<Rightarrow> (ptr \<Rightarrow> u_int \<Rightarrow> string) \<Rightarrow> exit_macro \<Rightarrow> string \<Rightarrow> string \<Rightarrow> u_int \<Rightarrow> u_int \<Rightarrow>
    profiler \<Rightarrow> profiler prof_result" where
  "run_exit f g Out file func line profileme w = PROFILER_OUT f g file func line profileme w"
| "run_exit f g Rout file func line profileme w = PROFILER_ROUT f g file func line profileme w"
| "run_exit f g (Err m) file func line profileme w = PROFILER_ERR f g file func line m profileme w"
| "run_exit f g (Rerr m) file func line profileme w = PROFILER_RERR f g file func line m profileme w"

fun run_call :: "(ptr \<Rightarrow> string \<Rightarrow> string) \<Rightarrow> (ptr \<Rightarrow> u_int \<Rightarrow> string) \<Rightarrow> call \<Rightarrow> profiler \<Rightarrow> profiler prof_result"
  and run_calls :: "(ptr \<Rightarrow> string \<Rightarrow> string) \<Rightarrow> (ptr \<Rightarrow> u_int \<Rightarrow> string) \<Rightarrow> call list \<Rightarrow> profiler \<Rightarrow> profiler prof_result" where
  "run_call f g (Call file func line1 line2 x cs) w =
     rbind (PROFILER_IN f g file func line1 w) (\<lambda>(profileme, w1).
     rbind (run_calls f g cs w1) (\<lambda>w2. run_exit f g x file func line2 profileme w2))"
| "run_calls f g [] w = Inr w"
| "run_calls f g (c # cs) w = rbind (run_call f g c w) (\<lambda>w1. run_calls f g cs w1)"

fun height :: "call \<Rightarrow> nat" and heights :: "call list \<Rightarrow> nat" where
  "height (Call file func line1 line2 x cs) = Suc (heights cs)"
| "heights [] = 0"
| "heights (c # cs) = max (height c) (heights cs)"

text \<open>The output function is installed, and all the functions for colors that are used or none of them.\<close>

definition installed :: "profiler \<Rightarrow> bool" where
  "installed w \<longleftrightarrow> profile w \<noteq> NULL \<and> (endline (ui w) = NULL \<or> colornumber (ui w) \<noteq> NULL \<and> colorfieldstr (ui w) \<noteq> NULL \<and>
     colorfunction (ui w) \<noteq> NULL \<and> colorfilename (ui w) \<noteq> NULL \<and> colorwarn (ui w) \<noteq> NULL)"

definition complaints :: "profiler \<Rightarrow> (channel \<times> string) list" where
  "complaints w = filter (\<lambda>x. fst x = Stdout) (outlog w)"

text \<open>The parts of the state that tracing one line leaves alone.\<close>

definition traced :: "profiler \<Rightarrow> profiler \<Rightarrow> bool" where
  "traced w w' \<longleftrightarrow> profiler_depth w' = profiler_depth w \<and> profile w' = profile w \<and> ui w' = ui w \<and> profstarted w' = profstarted w \<and>
     proflevel w' = proflevel w \<and> complaints w' = complaints w"

lemma traced_refl [simp]: "traced w w"
  by (simp add: traced_def)

lemma traced_trans: "traced w w' \<Longrightarrow> traced w' w'' \<Longrightarrow> traced w w''"
  by (simp add: traced_def)

lemma traced_emit [simp]: "c \<noteq> Stdout \<Longrightarrow> traced w (emit c s w') = traced w w'"
  by (simp add: traced_def complaints_def emit_def)

lemma traced_fields [simp]:
  "traced w (w'\<lparr>sel := n\<rparr>) = traced w w'" "traced w (w'\<lparr>mem := m\<rparr>) = traced w w'" "traced w (w'\<lparr>hit := h\<rparr>) = traced w w'"
  "traced w (w'\<lparr>profiler_direction := d\<rparr>) = traced w w'" "traced (w\<lparr>profiler_direction := d\<rparr>) w' = traced w w'"
  "traced (w\<lparr>sel := n\<rparr>) w' = traced w w'" "traced (w\<lparr>profiler_error_str := e\<rparr>) w' = traced w w'"
  by (simp_all add: traced_def complaints_def)

lemma traced_reset [simp]: "traced w (profiler_reset n w') = traced w w'"
  by (simp add: profiler_reset_def)

lemma print_traced:
  assumes "profile w \<noteq> NULL" "0 \<le> sint (profiler_depth w)"
  obtains r w' where "profiler_print fl fn ln msg w = Inr (r, w')" "traced w w'"
proof -
  have "\<exists>r w'. profiler_print fl fn ln msg w = Inr (r, w') \<and> traced w w'"
    using assms by (simp add: profiler_print_def profile_call_def Let_def)
  then show ?thesis using that by blast
qed

lemma traced_installed: "traced w w' \<Longrightarrow> installed w' = installed w"
  by (simp add: traced_def installed_def)

lemma out_traced:
  assumes "installed w" "0 \<le> sint (profiler_depth w)" "sint (profiler_depth w) \<le> 80"
  obtains w' where "profiler_out f g fl fn ln w = Inr w'" "traced w w'"
proof -
  have "profile w \<noteq> NULL" using assms(1) by (simp add: installed_def)
  then obtain r w1 where w1: "profiler_print fl fn ln None w = Inr (r, w1)" "traced w w1" using print_traced assms(2) by metis
  have d: "\<not> 80 < sint (profiler_depth w1)" "installed w1" "profile w1 \<noteq> NULL"
    using w1(2) assms by (simp_all add: traced_installed) (simp_all add: traced_def installed_def)
  have "\<exists>w'. profiler_out f g fl fn ln w = Inr w' \<and> traced w w'"
    using d w1 by (auto simp: profiler_out_def Let_def installed_def color_def color_number_def profile_opt_def)
  then show ?thesis using that by blast
qed

lemma in_traced:
  assumes "installed w" "0 \<le> sint (profiler_depth w)" "sint (profiler_depth w) \<le> 80" "profstarted w \<noteq> 0"
  obtains w1 where "PROFILER_IN f g fl fn ln w = Inr (profiler_depth w, profiler_incdepth w1)" "traced w w1"
proof -
  obtain w1 where "profiler_out f g fl fn ln (profiler_updir w) = Inr w1" "traced (profiler_updir w) w1"
    by (rule out_traced [of "profiler_updir w" f g fl fn ln]) (use assms in \<open>simp_all add: profiler_updir_def installed_def\<close>)
  then show ?thesis using that assms(4) by (simp add: PROFILER_IN_def profiler_started_def profiler_updir_def)
qed

lemma rbind_build: "\<exists>b. m = Inr b \<Longrightarrow> \<exists>b. rbind m (\<lambda>b. Inr (k b)) = Inr (k b)"
  by auto

lemma err_traced:
  assumes "installed w" "0 \<le> sint (profiler_depth w)"
  obtains w' where "profiler_err f g fl fn ln msg w = Inr w'" "traced w w'"
proof -
  have "profile w \<noteq> NULL" using assms(1) by (simp add: installed_def)
  then obtain r w1 where w1: "profiler_print fl fn ln (Some msg) w = Inr (r, w1)" "traced w w1" using print_traced assms(2) by metis
  have "installed w1" using w1(2) assms(1) by (simp add: traced_installed)
  then have i: "endline (ui w1) = NULL \<or> colornumber (ui w1) \<noteq> NULL \<and> colorfunction (ui w1) \<noteq> NULL \<and>
      colorfilename (ui w1) \<noteq> NULL \<and> colorwarn (ui w1) \<noteq> NULL" by (auto simp: installed_def)
  show ?thesis
  proof (cases "proflevel w AND PROFILE_WARN = 0 \<or> r \<noteq> 0")
    case True
    then have "profiler_err f g fl fn ln msg w = Inr w \<or> profiler_err f g fl fn ln msg w = Inr w1" using w1(1) by (auto simp: profiler_err_def)
    then show ?thesis using that w1(2) traced_refl by blast
  next
    case False
    let ?w2 = "\<lambda>b. if profile_err w1 \<noteq> NULL then emit Profile_err b w1 else emit Stderr ''No profiling function specified.\<newline>'' w1"
    let ?w3 = "\<lambda>b. profiler_reset 0 (if endline (ui (?w2 b)) \<noteq> NULL then emit Endline '''' (?w2 b) else ?w2 b)"
    have f: "\<not> proflevel w AND PROFILE_WARN = 0" "\<not> r \<noteq> 0" using False by simp_all
    have "traced w (?w2 b)" for b using w1(2) by simp
    then have t: "traced w (?w3 b)" for b by simp
    have "\<exists>b. profiler_err f g fl fn ln msg w = Inr (?w3 b)"
      unfolding profiler_err_def w1(1) rbind_simps prod.case Let_def if_not_P [OF f(1)] if_not_P [OF f(2)]
      by (rule rbind_build) (use i in \<open>auto simp: color_def color_number_def\<close>)
    then show ?thesis using that t by blast
  qed
qed

text \<open>Every exit goes back to the depth of the entry.\<close>

lemma exit_traced:
  assumes "installed w" "0 \<le> sint d" "sint d \<le> 80" "profiler_depth w = d + 1" "profstarted w \<noteq> 0"
  obtains w1 where "run_exit f g x fl fn ln d w = Inr w1" "traced (w\<lparr>profiler_depth := d\<rparr>) w1"
proof -
  let ?w = "w\<lparr>profiler_depth := d, profiler_direction := CHR ''-''\<rparr>"
  have "sint (d + 1) = sint d + 1" using assms(2,3) by (simp add: sint_word_ariths(1) signed_take_bit_int_eq_self)
  then have "profiler_decdepth w = ?w" using assms(2,4) by (simp add: profiler_decdepth_def)
  then have w: "check_depth a b d (profiler_decdepth w) = ?w" for a b by (simp add: check_depth_def)
  obtain w1 where out: "profiler_out f g fl fn ln ?w = Inr w1" "traced ?w w1"
    by (rule out_traced [of ?w f g fl fn ln]) (use assms in \<open>simp_all add: installed_def\<close>)
  have err: "\<exists>w2. profiler_err f g fl fn ln m (?w\<lparr>profiler_error_str := Some m\<rparr>) = Inr w2 \<and> traced (w\<lparr>profiler_depth := d\<rparr>) w2" for m
  proof -
    obtain w2 where "profiler_err f g fl fn ln m (?w\<lparr>profiler_error_str := Some m\<rparr>) = Inr w2" "traced (?w\<lparr>profiler_error_str := Some m\<rparr>) w2"
      by (rule err_traced [of "?w\<lparr>profiler_error_str := Some m\<rparr>" f g fl fn ln m]) (use assms in \<open>simp_all add: installed_def\<close>)
    then show ?thesis by simp
  qed
  note macros = PROFILER_OUT_def PROFILER_ROUT_def PROFILER_ERR_def PROFILER_RERR_def leave_def leave_error_def profiler_started_def
  have "\<exists>w1. run_exit f g x fl fn ln d w = Inr w1 \<and> traced (w\<lparr>profiler_depth := d\<rparr>) w1"
    using out err assms(5) by (cases x) (simp_all add: macros w Let_def)
  then show ?thesis using that by blast
qed

text \<open>The state inside a function.\<close>

lemma traced_inc: "traced w w1 \<Longrightarrow> traced (profiler_incdepth w1) w2 \<Longrightarrow> traced w (w2\<lparr>profiler_depth := profiler_depth w\<rparr>)"
  by (simp add: traced_def profiler_incdepth_def complaints_def)

lemma calls_traced:
  "installed w \<Longrightarrow> profstarted w \<noteq> 0 \<Longrightarrow> 0 \<le> sint (profiler_depth w) \<Longrightarrow> sint (profiler_depth w) + int (height c) \<le> 81 \<Longrightarrow>
    \<exists>w'. run_call f g c w = Inr w' \<and> traced w w'"
  "installed w \<Longrightarrow> profstarted w \<noteq> 0 \<Longrightarrow> 0 \<le> sint (profiler_depth w) \<Longrightarrow> sint (profiler_depth w) + int (heights cs) \<le> 81 \<Longrightarrow>
    \<exists>w'. run_calls f g cs w = Inr w' \<and> traced w w'"
proof (induction f g c w and f g cs w rule: run_call_run_calls.induct)
  case (1 f g fl fn line1 line2 x cs w)
  have d: "sint (profiler_depth w) \<le> 80" using "1.prems"(4) by simp
  obtain w1 where w1: "PROFILER_IN f g fl fn line1 w = Inr (profiler_depth w, profiler_incdepth w1)" "traced w w1"
    by (rule in_traced [OF "1.prems"(1,3) d "1.prems"(2)])
  have i: "sint (profiler_depth w + 1) = sint (profiler_depth w) + 1" using "1.prems"(3) d by (simp add: sint_word_ariths(1) signed_take_bit_int_eq_self)
  obtain w2 where w2: "run_calls f g cs (profiler_incdepth w1) = Inr w2" "traced (profiler_incdepth w1) w2"
    using "1.IH" [of "profiler_incdepth w1"] w1(2) "1.prems" i by (auto simp: profiler_incdepth_def traced_def installed_def)
  have f2: "installed w2" "profiler_depth w2 = profiler_depth w + 1" "profstarted w2 \<noteq> 0"
    using w1(2) w2(2) "1.prems"(1,2) by (simp_all add: traced_def installed_def profiler_incdepth_def)
  obtain w3 where w3: "run_exit f g x fl fn line2 (profiler_depth w) w2 = Inr w3" "traced (w2\<lparr>profiler_depth := profiler_depth w\<rparr>) w3"
    by (rule exit_traced [OF f2(1) "1.prems"(3) d f2(2,3)])
  show ?case using w1(1) w2(1) w3(1) traced_trans [OF traced_inc [OF w1(2) w2(2)] w3(2)] by simp
next
  case (3 f g c cs w)
  have h: "sint (profiler_depth w) + int (height c) \<le> 81" "sint (profiler_depth w) + int (heights cs) \<le> 81" using "3.prems"(4) by simp_all
  obtain w1 where w1: "run_call f g c w = Inr w1" "traced w w1" using "3.IH"(1) "3.prems"(1-3) h(1) by blast
  obtain w2 where "run_calls f g cs w1 = Inr w2" "traced w1 w2"
    using "3.IH"(2) [of w1] "3.prems"(1-3) h(2) w1(2) by (auto simp: traced_def installed_def)
  then show ?case using w1 traced_trans by auto
qed simp

subsection \<open>Properties\<close>

text \<open>C11. The allocation profiler, when switched on, keeps the last 1999 operations, in order, and
  reports exactly the allocations that leave this history while no release of their address is
  left in it. It reports nothing else and never stops the program: the checks for a double
  release, a release in the wrong allocator and a reallocation of released memory read the slot
  behind the last entry, which is empty.\<close>

theorem alloc_history:
  assumes "history_ok w" "proflevel w AND PROFILE_ALLOC \<noteq> 0"
  shows "\<exists>w'. op_updates xs w = Inr w' \<and> history_ok w' \<and>
    history w' = drop (length (history w) + length xs - (PROFILER_MAX_ALLOC - 1)) (history w @ map op_entry xs) \<and>
    outlog w' = outlog w @ reports (profile w \<noteq> NULL) (history w) xs"
proof -
  have "\<exists>w'. op_updates xs w = Inr w' \<and> stored w' (fold remember (map op_entry xs) hs) \<and>
      outlog w' = outlog w @ reports (profile w \<noteq> NULL) hs xs" if "stored w hs" "proflevel w AND PROFILE_ALLOC \<noteq> 0" for w hs
    using that
  proof (induction xs arbitrary: w hs)
    case (Cons x xs)
    obtain w1 r where w1: "op_update x w = Inr (r, w1)" "stored w1 (remember (op_entry x) hs)" "profile w1 = profile w" "proflevel w1 = proflevel w"
      "outlog w1 = outlog w @ reports (profile w \<noteq> NULL) hs [x]" by (rule op_update_ok [OF Cons.prems])
    then show ?case using Cons.IH [OF w1(2)] Cons.prems(2) by auto
  qed simp
  from this [OF assms(1) [unfolded history_ok_def] assms(2)] obtain w' where w': "op_updates xs w = Inr w'"
    "stored w' (fold remember (map op_entry xs) (history w))" "outlog w' = outlog w @ reports (profile w \<noteq> NULL) (history w) xs" by blast
  have "length (history w) < PROFILER_MAX_ALLOC" using assms(1) by (simp add: history_ok_def stored_def)
  then show ?thesis using w' stored_history [OF w'(2)] remember_last [of "history w" "map op_entry xs"] by (auto simp: history_ok_def)
qed

theorem alloc_history_witness:
  "\<exists>w'. op_updates [(''f.c'', ''f'', 1, 64, 2, PROFILER_OP_ALLOC), (''f.c'', ''f'', 2, 64, 2, PROFILER_OP_FREE),
       (''f.c'', ''f'', 3, 64, 2, PROFILER_OP_FREE)] (profiler_boot\<lparr>proflevel := PROFILE_ALLOC\<rparr>) = Inr w' \<and>
     map linenbr (history w') = [1, 2, 3] \<and> map fst (outlog w') = [Stdout, Stdout, Stdout]"
proof -
  let ?w = "profiler_boot\<lparr>proflevel := PROFILE_ALLOC\<rparr>"
  have h: "history ?w = []" "outlog ?w = []" by (simp_all add: history_def profiler_boot_def)
  have "history_ok ?w" unfolding history_ok_def h by (simp add: stored_def profiler_boot_def PROFILER_MAX_ALLOC_def)
  moreover have "proflevel ?w AND PROFILE_ALLOC \<noteq> 0" by (simp add: PROFILE_ALLOC_def)
  ultimately show ?thesis
    using alloc_history [of ?w "[(''f.c'', ''f'', 1, 64, 2, PROFILER_OP_ALLOC), (''f.c'', ''f'', 2, 64, 2, PROFILER_OP_FREE),
       (''f.c'', ''f'', 3, 64, 2, PROFILER_OP_FREE)]"] by (auto simp: h leaked_def remember_def PROFILER_MAX_ALLOC_def)
qed

text \<open>C12. Functions that enter through \<open>PROFILER_IN\<close> and leave through any of \<open>PROFILER_OUT\<close>,
  \<open>PROFILER_ROUT\<close>, \<open>PROFILER_ERR\<close> and \<open>PROFILER_RERR\<close> keep the depth of the calls: with the
  profiler started, an output function installed (and all the functions for colors or none), and the
  nesting within 81 levels, running a tree of calls ends, restores the depth, and no exit complains
  about the depth of the functions it called.\<close>

theorem calls_keep_depth:
  assumes "installed w" "profstarted w \<noteq> 0" "0 \<le> sint (profiler_depth w)" "sint (profiler_depth w) + int (height c) \<le> 81"
  shows "\<exists>w'. run_call f g c w = Inr w' \<and> profiler_depth w' = profiler_depth w \<and> complaints w' = complaints w"
  using calls_traced(1) [OF assms, of f g] by (auto simp: traced_def)

definition demo_call :: call where
  "demo_call = Call ''a.c'' ''main'' 1 9 Rout [Call ''a.c'' ''f'' 20 21 Out [],
     Call ''b.c'' ''g'' 30 35 (Err ''failed'') [Call ''a.c'' ''f'' 20 22 (Rerr ''no'') []]]"

theorem calls_keep_depth_witness:
  "\<exists>w'. run_call (\<lambda>_ s. s) (\<lambda>_ n. fmt_u (unat n)) demo_call (profiler_boot\<lparr>proflevel := PROFILE_WARN OR PROFILE_FUNCS, profstarted := 1, profile := 1\<rparr>) = Inr w' \<and>
     profiler_depth w' = 0 \<and> complaints w' = []"
  using calls_keep_depth [of "profiler_boot\<lparr>proflevel := PROFILE_WARN OR PROFILE_FUNCS, profstarted := 1, profile := 1\<rparr>" demo_call "\<lambda>_ s. s" "\<lambda>_ n. fmt_u (unat n)"]
  by (simp add: installed_def profiler_boot_def no_colors_def demo_call_def complaints_def)

end
