(* ===== verification/Config.thy ===== *)
theory Config
  imports Types Profiler
begin

text \<open>
  Configuration and initialisation of \<open>libaspect\<close> (\<open>config.c\<close>, \<open>init.c\<close>). The world is the state of
  the type system together with the configuration items, the profiler and the presence flags
  of the other components. \<open>config_hash\<close>, a field of \<open>aspectworld\<close>, is an object with a fixed
  address, as \<open>types_hash\<close> is. The \<open>void *\<close> that carries a value is a number or a string with its
  address.
\<close>

subsection \<open>Configuration items\<close>

definition CONFIG_HASH_SIZE :: nat where "CONFIG_HASH_SIZE = 256"
definition CONFIG_NAME_SAFEMODE :: string where "CONFIG_NAME_SAFEMODE = ''safemode''"
definition CONFIG_CFGDEPTH :: string where "CONFIG_CFGDEPTH = ''mjr.cfg_depth''"
definition CONFIG_SAFEMODE_OFF :: u_int where "CONFIG_SAFEMODE_OFF = 0"
definition CONFIG_SAFEMODE_ON :: u_int where "CONFIG_SAFEMODE_ON = 1"
definition CONFIG_CFGDEPTH_DEFAULT :: u_int where "CONFIG_CFGDEPTH_DEFAULT = 1"
definition CONFIG_ASM_ENDIAN_FLAG :: string where "CONFIG_ASM_ENDIAN_FLAG = ''libasm.endian.flag''"
definition CONFIG_ASM_LITTLE_ENDIAN :: u_int where "CONFIG_ASM_LITTLE_ENDIAN = 0"
definition CONFIG_ASM_ATT_MARGIN_DEFAULT :: u_int where "CONFIG_ASM_ATT_MARGIN_DEFAULT = 14"
definition CONFIG_ASM_ATT_MARGIN_FLAG :: string where "CONFIG_ASM_ATT_MARGIN_FLAG = ''libasm.output.att.margin''"
definition CONFIG_ASM_SYNTHINSTRS_DEFAULT :: u_int where "CONFIG_ASM_SYNTHINSTRS_DEFAULT = 1"
definition CONFIG_ASM_SYNTHINSTRS :: string where "CONFIG_ASM_SYNTHINSTRS = ''libasm.output.synth.instrs''"
definition CONFIG_TYPE_INT :: u_int where "CONFIG_TYPE_INT = 0"
definition CONFIG_TYPE_STR :: u_int where "CONFIG_TYPE_STR = 1"
definition CONFIG_MODE_RW :: u_int where "CONFIG_MODE_RW = 0"
definition CONFIG_MODE_RO :: u_int where "CONFIG_MODE_RO = 1"

datatype cfg_arg = Num u_int | Str ptr string

record configitem_t =
  ci_name :: string
  ci_type :: u_int
  ci_val :: u_int
  ci_mode :: u_int
  ci_data :: "(ptr \<times> string) option"

record aspectworld = aspect +
  citems :: "ptr \<Rightarrow> configitem_t option"
  kernel_mode :: u_char
  prof :: profiler
  vector_hash :: ptr
  aspect_initialized :: u_char
  called_ctors :: u_char
  dbgpresent :: u_char
  kshpresent :: u_char
  kdbgpresent :: u_char

definition config_hash :: ptr where "config_hash = 2"

definition item_at :: "ptr \<Rightarrow> aspectworld \<Rightarrow> configitem_t aspect_result" where
  "item_at p w = (case citems w p of None \<Rightarrow> Inl Bad_Access | Some i \<Rightarrow> Inr i)"

text \<open>\<open>__config_update_item\<close>. \<open>strdup\<close> reads its argument as a string.\<close>

definition config_update_item :: "ptr \<Rightarrow> cfg_arg \<Rightarrow> aspectworld \<Rightarrow> aspectworld aspect_result" where
  "config_update_item p arg w = rbind (item_at p w) (\<lambda>i.
     if ci_type i = CONFIG_TYPE_INT then
       Inr (w\<lparr>citems := (citems w)(p \<mapsto> i\<lparr>ci_val := (case arg of Num n \<Rightarrow> n | Str a s \<Rightarrow> word_of_nat a)\<rparr>)\<rparr>)
     else if ci_type i = CONFIG_TYPE_STR then
       (case arg of
          Num n \<Rightarrow> Inl Bad_Access
        | Str a s \<Rightarrow> Inr (w\<lparr>citems := (citems w)(p \<mapsto> i\<lparr>ci_data := Some (next_addr w, s)\<rparr>), next_addr := Suc (next_addr w)\<rparr>))
     else Inr w)"

definition config_add_item :: "string \<Rightarrow> u_int \<Rightarrow> u_int \<Rightarrow> cfg_arg \<Rightarrow> aspectworld \<Rightarrow> aspectworld aspect_result" where
  "config_add_item name type mode arg w =
     (let tmp = next_addr w;
          w1 = w\<lparr>citems := (citems w)(tmp \<mapsto> \<lparr>ci_name = name, ci_type = type, ci_val = - 1, ci_mode = mode, ci_data = None\<rparr>),
                 next_addr := Suc tmp\<rparr>
      in rbind (config_update_item tmp arg w1) (\<lambda>w2.
         rbind (table_get config_hash name w2) (\<lambda>old.
         if old = NULL then table_add config_hash name tmp w2 else Inr w2)))"

definition config_update_key :: "string \<Rightarrow> cfg_arg \<Rightarrow> aspectworld \<Rightarrow> aspectworld aspect_result" where
  "config_update_key name arg w = rbind (table_get config_hash name w) (\<lambda>tmp.
     if tmp = NULL then Inr w
     else rbind (config_update_item tmp arg w) (\<lambda>w1.
       rbind (table_del config_hash name w1) (\<lambda>w2.
       rbind (item_at tmp w2) (\<lambda>i. table_add config_hash (ci_name i) tmp w2))))"

text \<open>NULL is the number 0.\<close>

definition config_get_data :: "string \<Rightarrow> aspectworld \<Rightarrow> cfg_arg aspect_result" where
  "config_get_data name w = rbind (table_get config_hash name w) (\<lambda>p.
     if p = NULL then Inr (Num 0)
     else rbind (item_at p w) (\<lambda>i.
       Inr (if ci_type i = CONFIG_TYPE_INT then Num (ci_val i)
            else if ci_type i = CONFIG_TYPE_STR then (case ci_data i of None \<Rightarrow> Num 0 | Some (a, s) \<Rightarrow> Str a s)
            else Num 0)))"

definition config_safemode_set :: "aspectworld \<Rightarrow> aspectworld aspect_result" where
  "config_safemode_set w = config_update_key CONFIG_NAME_SAFEMODE (Num CONFIG_SAFEMODE_ON) w"

definition config_safemode_reset :: "aspectworld \<Rightarrow> aspectworld aspect_result" where
  "config_safemode_reset w = config_update_key CONFIG_NAME_SAFEMODE (Num CONFIG_SAFEMODE_OFF) w"

definition config_safemode :: "aspectworld \<Rightarrow> u_int aspect_result" where
  "config_safemode w = rbind (config_get_data CONFIG_NAME_SAFEMODE w) (\<lambda>r.
     Inr (case r of Num n \<Rightarrow> n | Str a s \<Rightarrow> word_of_nat a))"

subsection \<open>Presence of the other components\<close>

definition e2dbg_presence_set :: "aspectworld \<Rightarrow> aspectworld" where
  "e2dbg_presence_set w = w\<lparr>dbgpresent := 1\<rparr>"

definition e2dbg_presence_reset :: "aspectworld \<Rightarrow> aspectworld" where
  "e2dbg_presence_reset w = w\<lparr>dbgpresent := 0\<rparr>"

definition e2dbg_presence_get :: "aspectworld \<Rightarrow> u_char" where
  "e2dbg_presence_get w = dbgpresent w"

definition aspect_called_ctors_inc :: "aspectworld \<Rightarrow> aspectworld" where
  "aspect_called_ctors_inc w =
     (let w1 = (if called_ctors w = 0 then e2dbg_presence_set w else w) in w1\<lparr>called_ctors := called_ctors w1 + 1\<rparr>)"

definition aspect_called_ctors_finished :: "aspectworld \<Rightarrow> bool" where
  "aspect_called_ctors_finished w \<longleftrightarrow> called_ctors w = 3"

definition kernsh_present_set :: "aspectworld \<Rightarrow> aspectworld" where
  "kernsh_present_set w = w\<lparr>kshpresent := 1\<rparr>"

definition kernsh_is_present :: "aspectworld \<Rightarrow> int" where
  "kernsh_is_present w = uint (kshpresent w)"

definition kedbg_present_set :: "aspectworld \<Rightarrow> aspectworld" where
  "kedbg_present_set w = w\<lparr>kdbgpresent := 1\<rparr>"

definition kedbg_is_present :: "aspectworld \<Rightarrow> int" where
  "kedbg_is_present w = uint (kdbgpresent w)"

definition e2dbg_kpresence_get :: "aspectworld \<Rightarrow> u_char" where
  "e2dbg_kpresence_get w = kernel_mode w"

definition e2dbg_kpresence_set :: "u_char \<Rightarrow> aspectworld \<Rightarrow> aspectworld" where
  "e2dbg_kpresence_set pres w = w\<lparr>kernel_mode := pres\<rparr>"

subsection \<open>Initialisation\<close>

definition aspect_vectors_init :: "aspectworld \<Rightarrow> aspectworld aspect_result" where
  "aspect_vectors_init w = rbind (hash_find (Some ''type_vector'') w) (\<lambda>p. Inr (w\<lparr>vector_hash := p\<rparr>))"

definition aspect_types_init :: "aspectworld \<Rightarrow> aspectworld aspect_result" where
  "aspect_types_init w = rbind (hash_init types_hash ''types'' 11 ASPECT_TYPE_UNKNOW w) (\<lambda>(r, w1).
     rbind (aspect_basetypes_create w1) (\<lambda>(r, w2). Inr w2))"

text \<open>\<open>memset\<close> over \<open>aspectworld\<close>: the table of the configuration has no array, the switches are off
  and no output function is installed.\<close>

definition aspect_config_zero :: "aspectworld \<Rightarrow> aspectworld" where
  "aspect_config_zero w = (set_table config_hash zero_table w)\<lparr>kernel_mode := 0,
     prof := (prof w)\<lparr>proflevel := 0, profstarted := 0, profile := NULL, profile_err := NULL, ui := no_colors\<rparr>\<rparr>"

definition add_default :: "string \<times> u_int \<Rightarrow> aspectworld aspect_result \<Rightarrow> aspectworld aspect_result" where
  "add_default nv r = rbind r (config_add_item (fst nv) CONFIG_TYPE_INT CONFIG_MODE_RW (Num (snd nv)))"

definition config_defaults :: "(string \<times> u_int) list" where
  "config_defaults = [(CONFIG_CFGDEPTH, CONFIG_CFGDEPTH_DEFAULT), (CONFIG_NAME_SAFEMODE, CONFIG_SAFEMODE_OFF),
     (CONFIG_ASM_ENDIAN_FLAG, CONFIG_ASM_LITTLE_ENDIAN), (CONFIG_ASM_ATT_MARGIN_FLAG, CONFIG_ASM_ATT_MARGIN_DEFAULT),
     (CONFIG_ASM_SYNTHINSTRS, CONFIG_ASM_SYNTHINSTRS_DEFAULT)]"

definition aspect_config_init :: "aspectworld \<Rightarrow> aspectworld aspect_result" where
  "aspect_config_init w =
     rbind (hash_init config_hash ''configuration'' CONFIG_HASH_SIZE ASPECT_TYPE_UNKNOW (aspect_config_zero w)) (\<lambda>(r, w1).
     fold add_default config_defaults (Inr (w1\<lparr>prof := (prof w1)\<lparr>proflevel := PROFILE_NONE\<rparr>\<rparr>)))"

definition aspect_init :: "aspectworld \<Rightarrow> (int \<times> aspectworld) aspect_result" where
  "aspect_init w =
     (if aspect_initialized w \<noteq> 0 then Inr (0, w)
      else rbind (aspect_config_init (w\<lparr>aspect_initialized := 1\<rparr>)) (\<lambda>w1.
           rbind (aspect_types_init w1) (\<lambda>w2.
           rbind (aspect_vectors_init w2) (\<lambda>w3.
           Inr (0, w3\<lparr>prof := (prof w3)\<lparr>profstarted := 1\<rparr>\<rparr>)))))"

text \<open>The world when the process starts: the two tables with a fixed address are zero, nothing is
  allocated.\<close>

definition boot :: aspectworld where
  "boot = \<lparr>tables = [types_hash \<mapsto> zero_table, config_hash \<mapsto> zero_table], elists = Map.empty, hash_hash = NULL, hash_lists = NULL,
     aspect_type_nbr = ASPECT_TYPE_BASENUM, next_addr = 3, key_shared = (\<lambda>_ _ _. False), theap = Map.empty, aspect_typeinfo = [], basetypes_done = False,
     citems = Map.empty, kernel_mode = 0, prof = profiler_boot, vector_hash = NULL, aspect_initialized = 0, called_ctors = 0,
     dbgpresent = 0, kshpresent = 0, kdbgpresent = 0\<rparr>"

subsection \<open>The configuration as a finite map\<close>

type_synonym setting = "u_int \<times> u_int \<times> u_int \<times> string option"

definition view :: "configitem_t \<Rightarrow> setting" where
  "view i = (ci_type i, ci_mode i, ci_val i, map_option snd (ci_data i))"

fun assign :: "cfg_arg \<Rightarrow> setting \<Rightarrow> setting" where
  "assign arg (ty, mode, v, d) =
     (if ty = CONFIG_TYPE_INT then (ty, mode, (case arg of Num n \<Rightarrow> n | Str a s \<Rightarrow> word_of_nat a), d)
      else if ty = CONFIG_TYPE_STR then (ty, mode, v, (case arg of Num n \<Rightarrow> None | Str a s \<Rightarrow> Some s))
      else (ty, mode, v, d))"

text \<open>A string item is given strings.\<close>

definition fits :: "u_int \<Rightarrow> cfg_arg \<Rightarrow> bool" where
  "fits ty arg \<longleftrightarrow> ty = CONFIG_TYPE_STR \<longrightarrow> (case arg of Num n \<Rightarrow> False | Str a s \<Rightarrow> True)"

fun content :: "cfg_arg \<Rightarrow> u_int + string" where
  "content (Num n) = Inl n"
| "content (Str a s) = Inr s"

definition get_setting :: "setting option \<Rightarrow> u_int + string" where
  "get_setting x = (case x of None \<Rightarrow> Inl 0 | Some (ty, mode, v, d) \<Rightarrow>
     if ty = CONFIG_TYPE_INT then Inl v else if ty = CONFIG_TYPE_STR then (case d of None \<Rightarrow> Inl 0 | Some s \<Rightarrow> Inr s) else Inl 0)"

definition config_rep :: "aspectworld \<Rightarrow> hash_t \<Rightarrow> bool" where
  "config_rep w C \<longleftrightarrow> tables w config_hash = Some C \<and> hash_inv C \<and> next_addr w \<noteq> NULL \<and>
     (\<forall>k p. hash_abs C k = Some p \<longrightarrow> p < next_addr w \<and> (\<exists>i. citems w p = Some i \<and> ci_name i = k))"

definition config_ok :: "aspectworld \<Rightarrow> bool" where
  "config_ok w \<longleftrightarrow> (\<exists>C. config_rep w C)"

definition settings :: "aspectworld \<Rightarrow> string \<Rightarrow> setting option" where
  "settings w k = (case tables w config_hash of None \<Rightarrow> None | Some C \<Rightarrow>
     (case hash_abs C k of None \<Rightarrow> None | Some p \<Rightarrow> map_option view (citems w p)))"

lemma config_hash_nonnull [simp]: "config_hash \<noteq> NULL"
  by (simp add: config_hash_def)

lemma citems_set_table [simp]: "citems (set_table p h w) = citems w"
  by (simp add: set_table_def)

lemma config_rep_frame:
  assumes "config_rep w C" "tables w' config_hash = tables w config_hash" "next_addr w \<le> next_addr w'"
    "\<forall>p<next_addr w. map_option ci_name (citems w' p) = map_option ci_name (citems w p)"
  shows "config_rep w' C"
proof -
  have "p < next_addr w' \<and> (\<exists>i. citems w' p = Some i \<and> ci_name i = k)" if k: "hash_abs C k = Some p" for k p
  proof -
    obtain i where i: "p < next_addr w" "citems w p = Some i" "ci_name i = k" using assms(1) k by (auto simp: config_rep_def)
    then have "map_option ci_name (citems w' p) = Some k" using assms(4) by simp
    then show ?thesis using i(1) assms(3) by auto
  qed
  then show ?thesis using assms(1-3) by (simp add: config_rep_def)
qed

lemma settings_rep: "config_rep w C \<Longrightarrow> settings w k = (case hash_abs C k of None \<Rightarrow> None | Some p \<Rightarrow> map_option view (citems w p))"
  by (simp add: settings_def config_rep_def)

lemma config_get:
  assumes "config_rep w C"
  shows "table_get config_hash k w = Inr (hash_get C k)"
  using assms by (simp add: config_rep_def table_ops)

lemma settings_None: "config_rep w C \<Longrightarrow> settings w k = None \<longleftrightarrow> hash_abs C k = None"
  by (force simp: settings_rep config_rep_def split: option.splits)

lemma update_item_ok:
  assumes "citems w p = Some i" "fits (ci_type i) arg"
  obtains w' i' where "config_update_item p arg w = Inr w'" "citems w' = (citems w)(p \<mapsto> i')" "view i' = assign arg (view i)" "ci_name i' = ci_name i"
    "tables w' = tables w" "next_addr w \<le> next_addr w'"
proof (cases "ci_type i = CONFIG_TYPE_INT")
  case True
  then show ?thesis using that assms(1)
    by (simp add: config_update_item_def item_at_def view_def)
next
  case False
  show ?thesis
  proof (cases "ci_type i = CONFIG_TYPE_STR")
    case True
    then obtain a s where "arg = Str a s" using assms(2) by (cases arg) (auto simp: fits_def)
    then show ?thesis using True False that assms(1) by (simp add: config_update_item_def item_at_def view_def)
  next
    case False
    then show ?thesis using \<open>ci_type i \<noteq> CONFIG_TYPE_INT\<close> that [of w i] assms(1)
      by (simp add: config_update_item_def item_at_def view_def map_upd_triv)
  qed
qed

text \<open>Entering an item that is stored at \<open>p\<close> under its name.\<close>

lemma config_enter:
  assumes rep: "config_rep w C" and p: "citems w p = Some i" "ci_name i = k" "p < next_addr w" "p \<noteq> NULL"
    and C': "hash_inv C'" "hash_abs C' = (hash_abs C)(k \<mapsto> p)"
  shows "config_rep (set_table config_hash C' w) C'" "settings (set_table config_hash C' w) = (settings w)(k \<mapsto> view i)"
proof -
  show r: "config_rep (set_table config_hash C' w) C'" using rep p C' by (auto simp: config_rep_def set_table_def)
  show "settings (set_table config_hash C' w) = (settings w)(k \<mapsto> view i)"
  proof
    fix x
    show "settings (set_table config_hash C' w) x = ((settings w)(k \<mapsto> view i)) x"
      unfolding settings_rep [OF r] fun_upd_apply settings_rep [OF rep] by (simp add: C'(2) p(1) split: option.splits)
  qed
qed

lemma update_key_ok:
  assumes rep: "config_rep w C" and k: "settings w k = Some x" "fits (fst x) arg"
  shows "\<exists>w'. config_update_key k arg w = Inr w' \<and> config_ok w' \<and> settings w' = (settings w)(k \<mapsto> assign arg x)"
proof -
  obtain p where p: "hash_abs C k = Some p" using settings_None [OF rep, of k] k(1) by fastforce
  then obtain i where i: "p < next_addr w" "citems w p = Some i" "ci_name i = k" using rep by (auto simp: config_rep_def)
  have x: "x = view i" using k(1) p i by (simp add: settings_rep [OF rep])
  have pn: "p \<noteq> NULL" using p by (metis hash_abs_nonnull)
  obtain w1 i' where w1: "config_update_item p arg w = Inr w1" "citems w1 = (citems w)(p \<mapsto> i')" "view i' = assign arg (view i)"
    "ci_name i' = ci_name i" "tables w1 = tables w" "next_addr w \<le> next_addr w1"
    by (rule update_item_ok [OF i(2)]) (use k(2) x in \<open>auto simp: view_def\<close>)
  have C: "tables w1 config_hash = Some C" "hash_inv C" using rep w1(5) by (auto simp: config_rep_def)
  let ?D = "snd (hash_del C k)" and ?w2 = "set_table config_hash (snd (hash_del C k)) w1"
  have D: "hash_inv ?D" "hash_abs ?D = (hash_abs C)(k := None)" using hash_del_ok [OF C(2)] by auto
  have rep1: "config_rep w1 C" by (rule config_rep_frame [OF rep]) (use w1 i in auto)
  let ?E = "snd (hash_add ?D k p)"
  have E: "hash_inv ?E" "hash_abs ?E = (hash_abs C)(k \<mapsto> p)" using hash_add_ok [OF D(1) pn, of k] D(2) by auto
  have "table_add config_hash k p ?w2 = Inr (set_table config_hash ?E w1)"
    using table_ops(4) [of ?w2 config_hash ?D k p] D(1) by simp
  then have "config_update_key k arg w = Inr (set_table config_hash ?E w1)"
    using pn p w1 i(3) by (simp add: config_update_key_def config_get [OF rep] hash_get_abs table_ops(5) [OF C] item_at_def set_table_def)
  moreover have "settings (set_table config_hash ?E w1) = (settings w1)(k \<mapsto> view i')" "config_rep (set_table config_hash ?E w1) ?E"
    using config_enter [OF rep1 _ _ _ pn E] w1 i by auto
  moreover have "(settings w1)(k \<mapsto> view i') = (settings w)(k \<mapsto> assign arg x)"
  proof
    fix y
    have "q \<noteq> p" if y: "hash_abs C y = Some q" "y \<noteq> k" for q
    proof -
      obtain j where "citems w q = Some j" "ci_name j = y" using y(1) rep by (auto simp: config_rep_def)
      then show ?thesis using i y(2) by auto
    qed
    then show "((settings w1)(k \<mapsto> view i')) y = ((settings w)(k \<mapsto> assign arg x)) y"
      using w1(2,3) x by (auto simp: settings_rep [OF rep1] settings_rep [OF rep] split: option.splits)
  qed
  ultimately show ?thesis by (auto simp: config_ok_def)
qed

lemma add_item_ok:
  assumes rep: "config_rep w C" and f: "fits ty arg"
  shows "\<exists>w'. config_add_item k ty mode arg w = Inr w' \<and> config_ok w' \<and>
    settings w' = (if settings w k = None then (settings w)(k \<mapsto> assign arg (ty, mode, - 1, None)) else settings w)"
proof -
  let ?p = "next_addr w" and ?i = "\<lparr>ci_name = k, ci_type = ty, ci_val = - 1, ci_mode = mode, ci_data = None\<rparr>"
  let ?w1 = "w\<lparr>citems := (citems w)(?p \<mapsto> ?i), next_addr := Suc ?p\<rparr>"
  have pn: "?p \<noteq> NULL" using rep by (simp add: config_rep_def)
  obtain w2 i' where w2: "config_update_item ?p arg ?w1 = Inr w2" "citems w2 = (citems ?w1)(?p \<mapsto> i')" "view i' = assign arg (view ?i)"
    "ci_name i' = ci_name ?i" "tables w2 = tables ?w1" "next_addr ?w1 \<le> next_addr w2"
    by (rule update_item_ok [of ?w1 ?p ?i]) (use f in auto)
  have rep2: "config_rep w2 C" by (rule config_rep_frame [OF rep]) (use w2 in auto)
  have "settings w2 = settings w"
  proof
    fix y
    have "q \<noteq> ?p" if "hash_abs C y = Some q" for q using that rep by (auto simp: config_rep_def)
    then show "settings w2 y = settings w y" using w2(2) by (auto simp: settings_rep [OF rep2] settings_rep [OF rep] split: option.splits)
  qed
  show ?thesis
  proof (cases "hash_abs C k")
    case None
    let ?E = "snd (hash_add C k ?p)"
    have C: "tables w2 config_hash = Some C" "hash_inv C" using rep2 by (auto simp: config_rep_def)
    have "config_add_item k ty mode arg w = Inr (set_table config_hash ?E w2)" using w2(1) None
      by (simp add: config_add_item_def Let_def config_get [OF rep2] hash_get_abs table_ops(4) [OF C])
    moreover have "config_rep (set_table config_hash ?E w2) ?E" "settings (set_table config_hash ?E w2) = (settings w2)(k \<mapsto> view i')"
      using config_enter [OF rep2 _ _ _ pn hash_add_ok(1,2) [OF C(2) pn]] w2 by auto
    ultimately show ?thesis using None w2(3) \<open>settings w2 = settings w\<close> settings_None [OF rep, of k] by (auto simp: config_ok_def view_def)
  next
    case (Some q)
    then have "q \<noteq> NULL" by (metis hash_abs_nonnull)
    then have "config_add_item k ty mode arg w = Inr w2" using w2(1) Some
      by (simp add: config_add_item_def Let_def config_get [OF rep2] hash_get_abs)
    then show ?thesis using Some \<open>settings w2 = settings w\<close> settings_None [OF rep, of k] rep2 by (auto simp: config_ok_def)
  qed
qed

lemma get_data_ok:
  assumes rep: "config_rep w C"
  shows "\<exists>r. config_get_data k w = Inr r \<and> content r = get_setting (settings w k)"
proof (cases "hash_abs C k")
  case None
  then show ?thesis by (simp add: config_get_data_def config_get [OF rep] hash_get_abs settings_rep [OF rep] get_setting_def)
next
  case (Some p)
  then obtain i where i: "citems w p = Some i" using rep by (auto simp: config_rep_def)
  have "p \<noteq> NULL" using Some by (metis hash_abs_nonnull)
  then show ?thesis using i Some
    by (simp add: config_get_data_def config_get [OF rep] hash_get_abs settings_rep [OF rep] get_setting_def item_at_def view_def split: option.splits prod.splits)
qed

end
