(* ===== verification/Aspect.thy ===== *)
theory Aspect
  imports Types_Layout Config
begin

text \<open>
  The library as a whole: the initialisation from the state the process starts in, the states
  that are reached from there, and the properties of the types and of the configuration in
  them.
\<close>

subsection \<open>The first table\<close>

lemma sel_world [simp]:
  "citems (set_table p h w) = citems w" "prof (set_table p h w) = prof w" "vector_hash (set_table p h w) = vector_hash w"
  "aspect_initialized (set_table p h w) = aspect_initialized w"
  by (simp_all add: set_table_def)

text \<open>Updates of the tables are moved outside of the others.\<close>

lemma set_table_out:
  "(set_table p h w)\<lparr>next_addr := n\<rparr> = set_table p h (w\<lparr>next_addr := n\<rparr>)"
  "(set_table p h w)\<lparr>hash_hash := n\<rparr> = set_table p h (w\<lparr>hash_hash := n\<rparr>)"
  "(set_table p h w)\<lparr>hash_lists := n\<rparr> = set_table p h (w\<lparr>hash_lists := n\<rparr>)"
  by (cases w; simp add: set_table_def)+

text \<open>\<open>hash_init\<close> makes both registries when there are none.\<close>

lemma hash_init_first:
  fixes w :: aspectworld
  assumes "hash_hash w = NULL" "hash_lists w = NULL" "0 < aspect_type_nbr w" "\<forall>p\<ge>next_addr w. tables w p = None" "next_addr w \<noteq> NULL"
    "key_shared w = (\<lambda>_ _ _. False)"
  obtains w2 H where "hash_init p name sz type w = hash_init p name sz type w2" "registry_ok w2 H"
    "hash_hash w2 = next_addr w" "\<forall>q<next_addr w. tables w2 q = tables w q" "next_addr w \<le> next_addr w2" "aspect_type_nbr w2 = aspect_type_nbr w"
    "theap w2 = theap w" "citems w2 = citems w" "prof w2 = prof w" "aspect_initialized w2 = aspect_initialized w" "basetypes_done w2 = basetypes_done w"
proof -
  let ?a = "next_addr w"
  let ?f = "hash_fresh ''hashes'' 51 0" and ?g = "hash_fresh ''lists'' 51 0"
  let ?H1 = "snd (hash_add ?f ''hashes'' ?a)"
  let ?H2 = "snd (hash_add ?H1 ''lists'' (Suc ?a))"
  have f: "hash_inv ?f" "hash_abs ?f = Map.empty" by (simp_all add: hash_fresh_inv hash_fresh_abs)
  have H1: "hash_inv ?H1" "hash_abs ?H1 = [''hashes'' \<mapsto> ?a]" using hash_add_ok(1,2) [OF f(1) assms(5)] f(2) by auto
  have H2: "hash_inv ?H2" using hash_add_ok(1) [OF H1(1)] by blast
  let ?w = "w\<lparr>next_addr := Suc ?a, hash_hash := ?a\<rparr>"
  let ?u = "?w\<lparr>next_addr := Suc (Suc ?a), hash_lists := Suc ?a\<rparr>"
  let ?w3 = "set_table ?a ?H2 (set_table (Suc ?a) ?g ?u)"
  have "hash_setup ?a ''hashes'' 51 ASPECT_TYPE_UNKNOW (set_table ?a zero_table ?w) = Inr (0, set_table ?a ?H1 ?w)"
    using assms(3,5) table_ops(4) [of "set_table ?a ?f ?w" ?a ?f "''hashes''" ?a, OF _ f(1)]
    by (simp add: hash_setup_def table_at_def ASPECT_TYPE_UNKNOW_def)
  moreover have "lists_init (set_table ?a ?H1 ?w) = Inr ?w3"
  proof -
    let ?v = "\<lambda>h. set_table (Suc ?a) h (set_table ?a ?H1 ?u)"
    have "hash_find (Some ''lists'') (?v zero_table) = Inr NULL"
      using table_ops(3) [of "?v zero_table" ?a ?H1 "''lists''"] H1 by (simp add: hash_find_def hash_get_abs)
    moreover have "table_add ?a ''lists'' (Suc ?a) (?v ?g) = Inr ?w3"
      using table_ops(4) [of "?v ?g" ?a ?H1 "''lists''" "Suc ?a", OF _ H1(1)] assms(5) by (simp add: set_table_swap [of ?a "Suc ?a"])
    ultimately have "hash_setup (Suc ?a) ''lists'' 51 ASPECT_TYPE_UNKNOW (?v zero_table) = Inr (0, ?w3)"
      using assms(3) by (simp add: hash_setup_def table_at_def ASPECT_TYPE_UNKNOW_def)
    then show ?thesis using assms(2) by (simp add: lists_init_def new_table_def set_table_out)
  qed
  ultimately have "hash_init_body ?a ''hashes'' 51 ASPECT_TYPE_UNKNOW (set_table ?a zero_table ?w) = Inr (0, ?w3)" by (simp add: hash_init_body_def)
  then have "hash_init p name sz type w = hash_init p name sz type ?w3"
    using assms(1,5) by (simp add: hash_init_def new_table_def set_table_out)
  moreover have "registry_ok ?w3 ?H2" using assms(4-6) H2 by (auto simp: registry_ok_def unshared_def)
  ultimately show ?thesis using that [of ?w3 ?H2] by simp
qed

subsection \<open>The configuration is kept apart from the types\<close>

definition cfg_frame :: "aspectworld \<Rightarrow> aspectworld \<Rightarrow> bool" where
  "cfg_frame w w' \<longleftrightarrow> hash_hash w' = hash_hash w \<and> hash_lists w' = hash_lists w \<and> key_shared w' = key_shared w \<and> (\<forall>q. q \<noteq> config_hash \<longrightarrow> tables w' q = tables w q) \<and>
     (tables w' config_hash = None \<longleftrightarrow> tables w config_hash = None) \<and>
     next_addr w \<le> next_addr w' \<and> aspect_type_nbr w' = aspect_type_nbr w \<and> theap w' = theap w \<and>
     aspect_typeinfo w' = aspect_typeinfo w \<and> basetypes_done w' = basetypes_done w \<and> prof w' = prof w \<and>
     aspect_initialized w' = aspect_initialized w"

lemma cfg_frame_refl [simp]: "cfg_frame w w"
  by (simp add: cfg_frame_def)

lemma cfg_frame_trans: "cfg_frame w w' \<Longrightarrow> cfg_frame w' w'' \<Longrightarrow> cfg_frame w w''"
  by (simp add: cfg_frame_def)

lemma cfg_frame_set: "tables w config_hash \<noteq> None \<Longrightarrow> cfg_frame w (set_table config_hash h w)"
  by (simp add: cfg_frame_def)

lemma cfg_frame_add: "table_add config_hash k p w = Inr w' \<Longrightarrow> cfg_frame w w'"
proof -
  assume "table_add config_hash k p w = Inr w'"
  then obtain h where h: "array_at config_hash w = Inr h" "w' = set_table config_hash (snd (hash_add h k p)) w"
    by (auto simp: table_add_def rbind_Inr config_hash_def)
  then have "tables w config_hash \<noteq> None" by (auto simp: array_at_def table_at_def rbind_Inr split: option.splits)
  then show ?thesis using h(2) cfg_frame_set by simp
qed

lemma cfg_frame_item: "config_update_item p arg w = Inr w' \<Longrightarrow> cfg_frame w w'"
  by (auto simp: cfg_frame_def config_update_item_def rbind_Inr split: if_splits cfg_arg.splits)

lemma add_item_frame:
  assumes "config_add_item k ty mode arg w = Inr w'"
  shows "cfg_frame w w'"
proof -
  let ?w1 = "w\<lparr>citems := (citems w)(next_addr w \<mapsto> \<lparr>ci_name = k, ci_type = ty, ci_val = - 1, ci_mode = mode, ci_data = None\<rparr>),
      next_addr := Suc (next_addr w)\<rparr>"
  obtain w2 where w2: "config_update_item (next_addr w) arg ?w1 = Inr w2" "w' = w2 \<or> table_add config_hash k (next_addr w) w2 = Inr w'"
    using assms by (auto simp: config_add_item_def Let_def rbind_Inr split: if_splits)
  have "cfg_frame w ?w1" by (simp add: cfg_frame_def)
  then show ?thesis using w2 cfg_frame_item [OF w2(1)] cfg_frame_add cfg_frame_trans by blast
qed

lemma registry_ok_cfg:
  assumes "registry_ok w H" "cfg_frame w w'" "hash_hash w \<noteq> config_hash"
  shows "registry_ok w' H"
proof -
  have sel: "next_addr w \<le> next_addr w'" "key_shared w' = key_shared w" "tables w' config_hash = None \<longleftrightarrow> tables w config_hash = None"
    "p \<noteq> config_hash \<Longrightarrow> tables w' p = tables w p" for p using assms(2) by (auto simp: cfg_frame_def)
  have "tables w' p = None" "unshared w' p" if "next_addr w' \<le> p" for p
  proof -
    have "tables w p = None" "unshared w p" using assms(1) le_trans [OF sel(1) that] by (simp_all add: registry_ok_def)
    then show "tables w' p = None" "unshared w' p" using sel(2,3) sel(4) [of p] by (cases "p = config_hash"; simp add: unshared_def)+
  qed
  then show ?thesis using assms by (auto simp: registry_ok_def cfg_frame_def)
qed

text \<open>The defaults are entered one after the other.\<close>

lemma add_defaults:
  assumes "config_ok w" "distinct (map fst nvs)" "\<forall>nv\<in>set nvs. settings w (fst nv) = None"
  shows "\<exists>w'. fold add_default nvs (Inr w) = Inr w' \<and> cfg_frame w w' \<and> config_ok w' \<and>
    settings w' = settings w ++ map_of (map (\<lambda>(k, v). (k, (CONFIG_TYPE_INT, CONFIG_MODE_RW, v, None))) nvs)"
  using assms
proof (induction nvs arbitrary: w)
  case Nil
  then show ?case by simp
next
  case (Cons nv nvs)
  obtain C where C: "config_rep w C" using Cons.prems(1) by (auto simp: config_ok_def)
  obtain k v where nv: "nv = (k, v)" by fastforce
  obtain w1 where w1: "config_add_item k CONFIG_TYPE_INT CONFIG_MODE_RW (Num v) w = Inr w1" "config_ok w1"
    "settings w1 = (settings w)(k \<mapsto> (CONFIG_TYPE_INT, CONFIG_MODE_RW, v, None))"
    using add_item_ok [OF C, of CONFIG_TYPE_INT "Num v" k CONFIG_MODE_RW] Cons.prems(3) nv
    by (auto simp: fits_def CONFIG_TYPE_INT_def CONFIG_TYPE_STR_def)
  have "\<forall>nv\<in>set nvs. settings w1 (fst nv) = None" using Cons.prems(2,3) nv w1(3) by auto
  from Cons.IH [OF w1(2) _ this] Cons.prems(2) obtain w' where w': "fold add_default nvs (Inr w1) = Inr w'" "cfg_frame w1 w'" "config_ok w'"
    "settings w' = settings w1 ++ map_of (map (\<lambda>(k, v). (k, (CONFIG_TYPE_INT, CONFIG_MODE_RW, v, None))) nvs)" by auto
  have "k \<notin> dom (map_of (map (\<lambda>(k, v). (k, (CONFIG_TYPE_INT, CONFIG_MODE_RW, v, None :: string option))) nvs))"
  proof -
    have "k \<notin> fst ` set nvs" using Cons.prems(2) nv by simp
    then show ?thesis by (auto simp: dom_map_of_conv_image_fst image_iff)
  qed
  from map_add_upd_left [OF this] have "settings w' = settings w ++ map_of (map (\<lambda>(k, v). (k, (CONFIG_TYPE_INT, CONFIG_MODE_RW, v, None))) (nv # nvs))"
    unfolding w'(4) w1(3) nv by simp
  moreover have "add_default nv (Inr w) = Inr w1" using w1(1) nv by (simp add: add_default_def)
  then have "fold add_default (nv # nvs) (Inr w) = Inr w'" using w'(1) by simp
  ultimately show ?case using w'(3) cfg_frame_trans [OF add_item_frame [OF w1(1)] w'(2)] by blast
qed

subsection \<open>The base types are kept apart from the configuration\<close>

definition tables_ok :: "aspectworld \<Rightarrow> hash_t \<Rightarrow> bool" where
  "tables_ok w H \<longleftrightarrow> registry_ok w H \<and> types_hash \<noteq> hash_hash w \<and> (\<exists>T. tables w types_hash = Some T \<and> hash_inv T) \<and> 0 < aspect_type_nbr w"

definition plain :: "aspectworld \<Rightarrow> bool" where
  "plain w \<longleftrightarrow> (\<forall>p t. theap w p = Some t \<longrightarrow> at_next t = NULL \<and> at_childs t = NULL)"

definition base_frame :: "aspectworld \<Rightarrow> aspectworld \<Rightarrow> bool" where
  "base_frame w w' \<longleftrightarrow> hash_hash w' = hash_hash w \<and> next_addr w \<le> next_addr w' \<and> citems w' = citems w \<and> prof w' = prof w \<and>
     aspect_initialized w' = aspect_initialized w \<and> (\<forall>q<next_addr w. q \<noteq> types_hash \<and> q \<noteq> hash_hash w \<longrightarrow> tables w' q = tables w q) \<and>
     (plain w \<longrightarrow> plain w')"

lemma base_frame_refl [simp]: "base_frame w w"
  by (simp add: base_frame_def)

lemma base_frame_trans: "base_frame w w' \<Longrightarrow> base_frame w' w'' \<Longrightarrow> base_frame w w''"
  by (simp add: base_frame_def)

lemma basetype_frame:
  fixes w :: aspectworld
  assumes "tables_ok w H" "aspect_basetype_create n (k, sz) w = Inr w'"
  obtains K F where "tables_ok w' K" "base_frame w w'" "hash_abs K = (hash_abs H)(take 8191 (''type_'' @ k) \<mapsto> F)" "F \<noteq> NULL"
proof -
  obtain T where T: "registry_ok w H" "types_hash \<noteq> hash_hash w" "tables w types_hash = Some T" "hash_inv T" "0 < aspect_type_nbr w"
    using assms(1) by (auto simp: tables_ok_def)
  let ?t = "zero_type\<lparr>at_type := n, at_size := sz, at_name := Some k\<rparr>" and ?p = "next_addr w" and ?nm = "take 8191 (''type_'' @ k)"
  let ?T = "snd (hash_add T k ?p)"
  let ?w1 = "w\<lparr>theap := (theap w)(?p \<mapsto> ?t), next_addr := Suc ?p\<rparr>"
  let ?F = "Suc ?p"
  let ?w3 = "(set_table ?F zero_table (set_table types_hash ?T ?w1))\<lparr>next_addr := Suc ?F\<rparr>"
  have pn: "?p \<noteq> NULL" using T(1) by (simp add: registry_ok_def)
  have b: "types_hash < ?p" "hash_hash w < ?p" using registry_bound [OF T(1)] T(1,3) by (auto simp: registry_ok_def)
  have add: "table_add types_hash k ?p ?w1 = Inr (set_table types_hash ?T ?w1)" using table_ops(4) [of ?w1 types_hash T k ?p] T(3,4) by simp
  have T': "hash_inv ?T" using hash_add_ok(1) [OF T(4) pn] .
  have ok3: "registry_ok ?w3 H" using T(1) b T(2) by (auto simp: registry_ok_def unshared_def)
  let ?K = "snd (hash_add H ?nm ?F)"
  let ?w4 = "set_table (hash_hash w) ?K (set_table ?F (hash_fresh ?nm 11 0) ?w3)"
  have "hash_init ?F ?nm 11 ASPECT_TYPE_UNKNOW ?w3 = Inr (0, ?w4)"
    using hash_init_ok [OF ok3, of ?F zero_table 0 ?nm 11] T(5) b by (simp add: zero_table_def ASPECT_TYPE_UNKNOW_def)
  then have w': "w' = ?w4" using assms(2) add by (simp add: aspect_basetype_create_def Let_def new_type_def new_table_def)
  have H: "hash_inv H" using T(1) by (simp add: registry_ok_def)
  have K: "hash_inv ?K" "hash_abs ?K = (hash_abs H)(?nm \<mapsto> ?F)" using hash_add_ok(1,2) [OF H, of ?F ?nm] by auto
  have "registry_ok ?w4 ?K"
    using registry_ok_set(2) [OF registry_ok_set(1) [OF ok3, of ?F "hash_fresh ?nm 11 0"] K(1)] b by simp
  moreover have "tables ?w4 types_hash = Some ?T" using b T(2) by simp
  ultimately have "tables_ok w' ?K" using T(2,5) T' w' by (simp add: tables_ok_def)
  moreover have "base_frame w w'" unfolding w' using b by (auto simp: base_frame_def plain_def zero_type_def)
  ultimately show ?thesis using that K(2) by blast
qed

lemma bases_frame:
  fixes w :: aspectworld
  assumes "tables_ok w H" "create_bases n infos w = Inr w'"
  shows "\<exists>K. tables_ok w' K \<and> base_frame w w' \<and> dom (hash_abs K) = (\<lambda>i. take 8191 (''type_'' @ fst i)) ` set infos \<union> dom (hash_abs H)"
  using assms
proof (induction infos arbitrary: n w H)
  case (Cons i infos)
  obtain k sz where i: "i = (k, sz)" by fastforce
  obtain w1 where w1: "aspect_basetype_create n (k, sz) w = Inr w1" "create_bases (Suc n) infos w1 = Inr w'"
    using Cons.prems(2) i by (auto simp: rbind_Inr)
  obtain K F where K: "tables_ok w1 K" "base_frame w w1" "hash_abs K = (hash_abs H)(take 8191 (''type_'' @ k) \<mapsto> F)"
    by (rule basetype_frame [OF Cons.prems(1) w1(1)])
  from Cons.IH [OF K(1) w1(2)] obtain K' where "tables_ok w' K'" "base_frame w1 w'"
    "dom (hash_abs K') = (\<lambda>i. take 8191 (''type_'' @ fst i)) ` set infos \<union> dom (hash_abs K)" by blast
  then show ?case using base_frame_trans [OF K(2)] K(3) i by (intro exI [of _ K']) auto
qed auto

subsection \<open>Initialisation\<close>

definition config_initial :: "string \<Rightarrow> setting option" where
  "config_initial = map_of (map (\<lambda>(k, v). (k, (CONFIG_TYPE_INT, CONFIG_MODE_RW, v, None))) config_defaults)"

lemma config_init_ok:
  obtains w H where "aspect_config_init (boot\<lparr>aspect_initialized := 1\<rparr>) = Inr w" "registry_ok w H" "hash_hash w = 3" "config_ok w"
    "settings w = config_initial" "tables w types_hash = Some zero_table" "aspect_type_nbr w = 18" "theap w = Map.empty"
    "basetypes_done w = False" "aspect_initialized w = 1"
proof -
  let ?w = "aspect_config_zero (boot\<lparr>aspect_initialized := 1\<rparr>)"
  have w: "hash_hash ?w = NULL" "hash_lists ?w = NULL" "aspect_type_nbr ?w = 18" "next_addr ?w = 3" "\<forall>p\<ge>next_addr ?w. tables ?w p = None"
    "tables ?w config_hash = Some zero_table" "tables ?w types_hash = Some zero_table" "theap ?w = Map.empty" "basetypes_done ?w = False"
    "aspect_initialized ?w = 1" "key_shared ?w = (\<lambda>_ _ _. False)"
    by (auto simp: aspect_config_zero_def boot_def config_hash_def types_hash_def ASPECT_TYPE_BASENUM_def set_table_def)
  obtain w2 H where v: "hash_init config_hash ''configuration'' CONFIG_HASH_SIZE ASPECT_TYPE_UNKNOW ?w =
      hash_init config_hash ''configuration'' CONFIG_HASH_SIZE ASPECT_TYPE_UNKNOW w2" "registry_ok w2 H"
    "hash_hash w2 = next_addr ?w" "\<forall>q<next_addr ?w. tables w2 q = tables ?w q" "next_addr ?w \<le> next_addr w2" "aspect_type_nbr w2 = aspect_type_nbr ?w"
    "theap w2 = theap ?w" "citems w2 = citems ?w" "prof w2 = prof ?w" "aspect_initialized w2 = aspect_initialized ?w" "basetypes_done w2 = basetypes_done ?w"
    by (rule hash_init_first [OF w(1,2) _ w(5) _ w(11)]) (use w(3,4) in simp_all)
  have w2: "hash_init config_hash ''configuration'' CONFIG_HASH_SIZE ASPECT_TYPE_UNKNOW ?w =
      hash_init config_hash ''configuration'' CONFIG_HASH_SIZE ASPECT_TYPE_UNKNOW w2" "registry_ok w2 H"
    "hash_hash w2 = 3" "\<forall>q<3. tables w2 q = tables ?w q" "aspect_type_nbr w2 = 18" "theap w2 = Map.empty"
    "basetypes_done w2 = False" "aspect_initialized w2 = 1" using v w by simp_all
  let ?K = "snd (hash_add H ''configuration'' config_hash)" and ?f = "hash_fresh ''configuration'' CONFIG_HASH_SIZE 0"
  let ?w3 = "set_table 3 ?K (set_table config_hash ?f w2)"
  have c: "tables w2 config_hash = Some zero_table" "tables w2 types_hash = Some zero_table" "config_hash \<noteq> hash_hash w2"
    using w2(3,4) w(6,7) by (simp_all add: config_hash_def types_hash_def)
  have K: "hash_inv ?K" using w2(2) hash_add_ok(1) [of H config_hash] by (simp add: registry_ok_def)
  have init: "hash_init config_hash ''configuration'' CONFIG_HASH_SIZE ASPECT_TYPE_UNKNOW w2 = Inr (0, ?w3)"
    using hash_init_ok [OF w2(2) c(1,3), of 0 "''configuration''" CONFIG_HASH_SIZE] w2(3,5) by (simp add: zero_table_def ASPECT_TYPE_UNKNOW_def)
  have ok3: "registry_ok ?w3 ?K"
    using registry_ok_set(2) [OF registry_ok_set(1) [OF w2(2) c(3) registry_bound [OF w2(2) c(1)]] K] w2(3) by simp
  let ?w4 = "?w3\<lparr>prof := (prof ?w3)\<lparr>proflevel := PROFILE_NONE\<rparr>\<rparr>"
  have ok4: "registry_ok ?w4 ?K" using ok3 by (simp add: registry_ok_def unshared_def)
  have f: "hash_inv ?f" "hash_abs ?f = Map.empty" by (simp_all add: hash_fresh_inv hash_fresh_abs CONFIG_HASH_SIZE_def)
  have "tables ?w4 config_hash = Some ?f" using w2(3) c(3) by simp
  then have rep: "config_rep ?w4 ?f" using f ok4 by (simp add: config_rep_def registry_ok_def)
  then have s: "settings ?w4 = Map.empty" using f(2) by (auto simp: settings_rep)
  have "distinct (map fst config_defaults)" by (simp add: config_defaults_def CONFIG_CFGDEPTH_def CONFIG_NAME_SAFEMODE_def CONFIG_ASM_ENDIAN_FLAG_def
      CONFIG_ASM_ATT_MARGIN_FLAG_def CONFIG_ASM_SYNTHINSTRS_def)
  then obtain w5 where w5: "fold add_default config_defaults (Inr ?w4) = Inr w5" "cfg_frame ?w4 w5" "config_ok w5" "settings w5 = config_initial"
    using add_defaults [of ?w4 config_defaults] rep s by (auto simp: config_ok_def config_initial_def)
  have h4: "hash_hash ?w4 = 3" "hash_hash ?w4 \<noteq> config_hash" using w2(3) c(3) by auto
  have "aspect_config_init (boot\<lparr>aspect_initialized := 1\<rparr>) = Inr w5" using w2(1) init w5(1) by (simp add: aspect_config_init_def)
  moreover have "registry_ok w5 ?K" by (rule registry_ok_cfg [OF ok4 w5(2) h4(2)])
  moreover have "tables w5 types_hash = Some zero_table" using w5(2) c(2) by (simp add: cfg_frame_def types_hash_def config_hash_def)
  moreover have "hash_hash w5 = 3" "aspect_type_nbr w5 = 18" "theap w5 = Map.empty" "basetypes_done w5 = False" "aspect_initialized w5 = 1"
    using w5(2) w2 h4(1) by (simp_all add: cfg_frame_def)
  ultimately show ?thesis using that w5(3,4) by blast
qed

lemma base_names: "distinct (map fst (tl aspect_typeinfo_base))" "length aspect_typeinfo_base = 18"
  by (simp_all add: aspect_typeinfo_base_def)

lemma types_init_ok:
  fixes w :: aspectworld
  assumes "registry_ok w H" "hash_hash w = 3" "tables w types_hash = Some zero_table" "aspect_type_nbr w = 18" "theap w = Map.empty" "basetypes_done w = False"
  obtains w' K T where "aspect_types_init w = Inr w'" "types_inv 18 aspect_typeinfo_base w' T" "aspect_typeinfo w' = aspect_typeinfo_base" "aspect_type_nbr w' = 18"
    "tables_ok w' K" "''type_vector'' \<in> dom (hash_abs K)" "plain w'" "citems w' = citems w" "tables w' config_hash = tables w config_hash"
    "next_addr w \<le> next_addr w'" "aspect_initialized w' = aspect_initialized w"
proof -
  let ?f = "hash_fresh ''types'' 11 0" and ?K = "snd (hash_add H ''types'' types_hash)"
  let ?w1 = "set_table 3 ?K (set_table types_hash ?f w)"
  let ?w2 = "?w1\<lparr>basetypes_done := True, aspect_typeinfo := aspect_typeinfo_base\<rparr>"
  have t: "types_hash \<noteq> hash_hash w" "types_hash \<noteq> 3" using assms(2) by (simp_all add: types_hash_def)
  have f: "hash_inv ?f" "hash_abs ?f = Map.empty" by (simp_all add: hash_fresh_inv hash_fresh_abs)
  have K: "hash_inv ?K" using assms(1) hash_add_ok(1) [of H types_hash] by (simp add: registry_ok_def)
  have init: "hash_init types_hash ''types'' 11 ASPECT_TYPE_UNKNOW w = Inr (0, ?w1)"
    using hash_init_ok [OF assms(1,3) t(1), of 0 "''types''" 11] assms(2,4) by (simp add: zero_table_def ASPECT_TYPE_UNKNOW_def)
  have "registry_ok ?w1 ?K"
    using registry_ok_set(2) [OF registry_ok_set(1) [OF assms(1) t(1) registry_bound [OF assms(1,3)]] K] assms(2) by simp
  then have ok2: "registry_ok ?w2 ?K" by (simp add: registry_ok_def unshared_def)
  have inv: "types_inv 1 aspect_typeinfo_base ?w2 ?f"
    by (rule types_invI [OF ok2]) (use assms(2,4,5) t f in \<open>simp_all add: base_names\<close>)
  obtain w' T where w': "create_bases 1 (tl aspect_typeinfo_base) ?w2 = Inr w'" "types_inv (length aspect_typeinfo_base) aspect_typeinfo_base w' T"
    "aspect_typeinfo w' = aspect_typeinfo ?w2" "aspect_type_nbr w' = aspect_type_nbr ?w2"
    by (rule create_bases_ok [OF inv, of "tl aspect_typeinfo_base"]) (use f(2) base_names in \<open>auto simp: drop_Suc\<close>)
  have tk: "tables_ok ?w2 ?K" using ok2 assms(2,4) t f by (simp add: tables_ok_def)
  obtain K' where K': "tables_ok w' K'" "base_frame ?w2 w'"
    "dom (hash_abs K') = (\<lambda>i. take 8191 (''type_'' @ fst i)) ` set (tl aspect_typeinfo_base) \<union> dom (hash_abs ?K)"
    using bases_frame [OF tk w'(1)] by blast
  have "(''vector'', 28) \<in> set (tl aspect_typeinfo_base)" by (simp add: aspect_typeinfo_base_def)
  then have "''type_vector'' \<in> dom (hash_abs K')" unfolding K'(3) by (intro UnI1 image_eqI) simp_all
  moreover have "aspect_types_init w = Inr w'" using init w'(1) assms(6) by (simp add: aspect_types_init_def aspect_basetypes_create_def)
  moreover have "plain w'" using K'(2) assms(5) by (simp add: base_frame_def plain_def)
  moreover have "config_hash < next_addr ?w2" using registry_bound [OF assms(1,3)] registry_bound [of w H 3 H] assms(1,2) by (simp add: registry_ok_def config_hash_def)
  then have "tables w' config_hash = tables w config_hash" using K'(2) assms(2) by (simp add: base_frame_def config_hash_def types_hash_def)
  ultimately show ?thesis using that w' K'(1,2) base_names(2) assms(4) by (simp add: base_frame_def)
qed

lemma types_ok_more: "types_ok (w\<lparr>vector_hash := p, prof := q\<rparr>) = types_ok w"
  by (simp add: types_ok_def types_inv_def registry_ok_def unshared_def)

lemma init_ok:
  obtains w p where "aspect_init boot = Inr (0, w)" "types_ok w" "plain w" "aspect_typeinfo w = aspect_typeinfo_base" "config_ok w"
    "settings w = config_initial" "hash_find (Some ''type_vector'') w = Inr (vector_hash w)" "vector_hash w \<noteq> NULL" "profstarted (prof w) = 1"
    "aspect_initialized w = 1"
proof -
  obtain w1 H where w1: "aspect_config_init (boot\<lparr>aspect_initialized := 1\<rparr>) = Inr w1" "registry_ok w1 H" "hash_hash w1 = 3" "config_ok w1"
    "settings w1 = config_initial" "tables w1 types_hash = Some zero_table" "aspect_type_nbr w1 = 18" "theap w1 = Map.empty"
    "basetypes_done w1 = False" "aspect_initialized w1 = 1" by (rule config_init_ok)
  obtain w2 K T where w2: "aspect_types_init w1 = Inr w2" "types_inv 18 aspect_typeinfo_base w2 T" "aspect_typeinfo w2 = aspect_typeinfo_base" "aspect_type_nbr w2 = 18"
    "tables_ok w2 K" "''type_vector'' \<in> dom (hash_abs K)" "plain w2" "citems w2 = citems w1" "tables w2 config_hash = tables w1 config_hash"
    "next_addr w1 \<le> next_addr w2" "aspect_initialized w2 = aspect_initialized w1"
    by (rule types_init_ok [OF w1(2,3,6,7,8,9)])
  obtain p where p: "hash_abs K ''type_vector'' = Some p" using w2(6) by auto
  have pn: "p \<noteq> NULL" using p by (metis hash_abs_nonnull)
  let ?w = "w2\<lparr>vector_hash := p, prof := (prof w2)\<lparr>profstarted := 1\<rparr>\<rparr>"
  have K: "registry_ok w2 K" using w2(5) by (simp add: tables_ok_def)
  then have K': "registry_ok ?w K" by (simp add: registry_ok_def unshared_def)
  have "aspect_init boot = Inr (0, ?w)" using w1(1) w2(1) p
    by (simp add: aspect_init_def aspect_vectors_init_def hash_find_ok [OF K]) (simp add: boot_def)
  moreover have "types_ok w2" using w2(2-4) base_names(2) by (auto simp: types_ok_def)
  then have "types_ok ?w" by (simp only: types_ok_more)
  moreover obtain C where C: "config_rep w1 C" using w1(4) by (auto simp: config_ok_def)
  have "config_rep ?w C" by (rule config_rep_frame [OF C]) (use w2 in auto)
  then have "config_ok ?w" by (auto simp: config_ok_def)
  moreover have "settings ?w = settings w1" using w2(8,9) by (auto simp: settings_def fun_eq_iff split: option.splits)
  ultimately show ?thesis using that [of ?w] w2 w1(5,10) pn p by (simp add: hash_find_ok [OF K'] plain_def)
qed

text \<open>The names of the base types, and the nodes they stand for.\<close>

lemma base_lookup:
  assumes "types_ok w" "aspect_typeinfo w = aspect_typeinfo_base" "tables w types_hash = Some T"
  shows "k \<notin> fst ` set aspect_typeinfo_base \<Longrightarrow> aspect_type_get_by_name k w = Inr NULL"
    and "0 < i \<Longrightarrow> i < 18 \<Longrightarrow> aspect_typeinfo_base ! i = (k, sz) \<Longrightarrow> \<exists>t. env_of w T k = Some t \<and> at_type t = i \<and> at_size t = sz"
proof -
  have T: "types_inv 18 aspect_typeinfo_base w T" using assms base_names(2) by (auto simp: types_ok_def types_inv_def)
  show "aspect_type_get_by_name k w = Inr NULL" if k: "k \<notin> fst ` set aspect_typeinfo_base"
  proof (cases "hash_abs T k")
    case None
    then show ?thesis by (simp add: aspect_type_get_by_name_def table_get_types [OF T] hash_get_abs)
  next
    case (Some p)
    obtain t where "theap w p = Some t" "at_type t < 18" "aspect_typeinfo_base ! at_type t = (k, at_size t)" by (rule types_inv_node [OF T Some])
    then show ?thesis using k base_names(2) by (metis fst_conv image_eqI nth_mem)
  qed
  show "\<exists>t. env_of w T k = Some t \<and> at_type t = i \<and> at_size t = sz" if i: "0 < i" "i < 18" "aspect_typeinfo_base ! i = (k, sz)"
  proof -
    obtain p t where p: "hash_abs T k = Some p" "theap w p = Some t" "at_type t = i" using types_inv_num [OF T i(1,2)] i(3) by auto
    then have "at_size t = sz" using types_inv_node [OF T p(1)] i(3) by (metis option.inject prod.inject)
    then show ?thesis using p by (simp add: env_of_def)
  qed
qed

subsection \<open>Reachable states\<close>

inductive type_reach :: "aspectworld \<Rightarrow> bool" where
  init: "aspect_init boot = Inr (r, w) \<Longrightarrow> type_reach w"
| register: "type_reach w \<Longrightarrow> aspect_type_register fuel isunion label decls w = Inr (r, w') \<Longrightarrow> type_reach w'"
| base: "type_reach w \<Longrightarrow> aspect_basetype_register name sz w = Inr (r, w') \<Longrightarrow> type_reach w'"

lemma type_reach_ok: "type_reach w \<Longrightarrow> types_ok w"
proof (induction rule: type_reach.induct)
  case (init r w)
  obtain w' where "aspect_init boot = Inr (0, w')" "types_ok w'" by (rule init_ok)
  then show ?case using init by simp
next
  case (register w fuel isunion label decls r w')
  then show ?case using type_register_ok [of w fuel isunion label decls] by (auto simp: post_def)
next
  case (base w name sz r w')
  then show ?case using basetype_register_ok [of w name sz] by (auto simp: post_def)
qed

lemma types_ok_named:
  assumes "types_ok w" "aspect_type_get_by_name k w = Inr p" "p \<noteq> NULL"
  shows "\<exists>t. type_at p w = Inr t \<and> 0 < at_type t \<and> at_type t < aspect_type_nbr w \<and> aspect_typename_get (at_type t) w = Inr (Some k) \<and>
    aspect_type_get_by_id (at_type t) w = Inr p"
proof -
  let ?n = "aspect_type_nbr w" and ?ti = "aspect_typeinfo w"
  obtain T where T: "types_inv ?n ?ti w T" "?n = length ?ti" using assms(1) by (auto simp: types_ok_def)
  have k: "hash_abs T k = Some p" using assms(2,3)
    by (auto simp: aspect_type_get_by_name_def table_get_types [OF T(1)] hash_get_abs split: option.splits)
  obtain t where "theap w p = Some t" "0 < at_type t" "at_type t < ?n" "?ti ! at_type t = (k, at_size t)" by (rule types_inv_node [OF T(1) k])
  then show ?thesis using T(2) k
    by (simp add: type_at_def aspect_typename_get_def aspect_type_get_by_id_def table_get_types [OF T(1)] hash_get_abs)
qed

subsection \<open>Properties\<close>

text \<open>C6. Initialising the library from the start of the process succeeds. Afterwards the types are the
  base types and consistent, the configuration holds exactly the defaults, the table of the
  vectors is found, the profiler is started, and a second initialisation changes nothing.\<close>

theorem aspect_init_ready:
  "\<exists>w. aspect_init boot = Inr (0, w) \<and> types_ok w \<and> aspect_typeinfo w = aspect_typeinfo_base \<and> config_ok w \<and> dom (settings w) = fst ` set config_defaults \<and>
     map (\<lambda>nv. config_get_data (fst nv) w) config_defaults = map (\<lambda>nv. Inr (Num (snd nv))) config_defaults \<and>
     hash_find (Some ''type_vector'') w = Inr (vector_hash w) \<and> vector_hash w \<noteq> NULL \<and> profiler_started (prof w) = 1 \<and> aspect_init w = Inr (0, w)"
proof -
  obtain w where w: "aspect_init boot = Inr (0, w)" "types_ok w" "aspect_typeinfo w = aspect_typeinfo_base" "config_ok w" "settings w = config_initial"
    "hash_find (Some ''type_vector'') w = Inr (vector_hash w)" "vector_hash w \<noteq> NULL" "profstarted (prof w) = 1" "aspect_initialized w = 1"
    by (rule init_ok)
  have d: "distinct (map fst config_defaults)" by (simp add: config_defaults_def CONFIG_CFGDEPTH_def CONFIG_NAME_SAFEMODE_def CONFIG_ASM_ENDIAN_FLAG_def
      CONFIG_ASM_ATT_MARGIN_FLAG_def CONFIG_ASM_SYNTHINSTRS_def)
  obtain C where C: "config_rep w C" using w(4) by (auto simp: config_ok_def)
  have "config_get_data k w = Inr (Num v)" if kv: "(k, v) \<in> set config_defaults" for k v
  proof -
    let ?f = "\<lambda>(k, v). (k, (CONFIG_TYPE_INT, CONFIG_MODE_RW, v, None :: string option))"
    have "map fst (map ?f config_defaults) = map fst config_defaults" by auto
    then have "distinct (map fst (map ?f config_defaults))" using d by (simp only:)
    moreover have "(k, (CONFIG_TYPE_INT, CONFIG_MODE_RW, v, None)) \<in> set (map ?f config_defaults)" using kv by force
    ultimately have "config_initial k = Some (CONFIG_TYPE_INT, CONFIG_MODE_RW, v, None)"
      unfolding config_initial_def by (rule map_of_is_SomeI)
    then obtain r where "config_get_data k w = Inr r" "content r = Inl v" using get_data_ok [OF C, of k] w(5) by (auto simp: get_setting_def)
    then show ?thesis by (cases r) auto
  qed
  moreover have "dom (settings w) = fst ` set config_defaults" unfolding w(5) config_initial_def by (force simp: dom_map_of_conv_image_fst)
  moreover have "aspect_init w = Inr (0, w)" using w(9) by (simp add: aspect_init_def)
  ultimately show ?thesis using w by (intro exI [of _ w]) (auto simp: profiler_started_def)
qed

text \<open>C7. In every state reached by registering types, numbers and names agree: a number below the
  count has a name, a node and a size, the node is found by the number and by the name and
  carries both the number and the size; and a name that is found is the name of the number its
  node carries.\<close>

theorem types_consistent:
  assumes "type_reach w"
  shows "(\<forall>i. 0 < i \<and> i < aspect_type_nbr w \<longrightarrow> (\<exists>p t k. aspect_type_get_by_id i w = Inr p \<and> p \<noteq> NULL \<and> type_at p w = Inr t \<and> at_type t = i \<and>
      aspect_typename_get i w = Inr (Some k) \<and> aspect_type_get_by_name k w = Inr p \<and> aspect_typesize_get i w = Inr (at_size t))) \<and>
    (\<forall>k p. aspect_type_get_by_name k w = Inr p \<and> p \<noteq> NULL \<longrightarrow> (\<exists>t. type_at p w = Inr t \<and> 0 < at_type t \<and> at_type t < aspect_type_nbr w \<and>
      aspect_typename_get (at_type t) w = Inr (Some k) \<and> aspect_type_get_by_id (at_type t) w = Inr p))"
  using types_ok_lookup [OF type_reach_ok [OF assms]] types_ok_named [OF type_reach_ok [OF assms]] by blast

text \<open>C10. The configuration is a finite map: an item is added when its name is new and changes nothing
  otherwise, an update assigns the value of an existing item and of no other, whatever its
  mode, and ignores unknown names, and reading gives the value of the item.\<close>

theorem config_is_map:
  assumes "config_ok w" "fits ty arg" "\<forall>x. settings w k = Some x \<longrightarrow> fits (fst x) arg"
  shows "(\<exists>w'. config_add_item k ty mode arg w = Inr w' \<and> config_ok w' \<and>
      settings w' = (if settings w k = None then (settings w)(k \<mapsto> assign arg (ty, mode, - 1, None)) else settings w)) \<and>
    (\<exists>w'. config_update_key k arg w = Inr w' \<and> config_ok w' \<and>
      settings w' = (case settings w k of None \<Rightarrow> settings w | Some x \<Rightarrow> (settings w)(k \<mapsto> assign arg x))) \<and>
    (\<exists>r. config_get_data k w = Inr r \<and> content r = get_setting (settings w k))"
proof -
  obtain C where C: "config_rep w C" using assms(1) by (auto simp: config_ok_def)
  have "\<exists>w'. config_update_key k arg w = Inr w' \<and> config_ok w' \<and>
      settings w' = (case settings w k of None \<Rightarrow> settings w | Some x \<Rightarrow> (settings w)(k \<mapsto> assign arg x))"
  proof (cases "settings w k")
    case None
    then have "config_update_key k arg w = Inr w" using settings_None [OF C, of k] by (simp add: config_update_key_def config_get [OF C] hash_get_abs)
    then show ?thesis using None assms(1) by simp
  next
    case (Some x)
    then show ?thesis using update_key_ok [OF C Some, of arg] assms(3) by simp
  qed
  then show ?thesis using add_item_ok [OF C assms(2), of k mode] get_data_ok [OF C, of k] by simp
qed

text \<open>C8. A record declared with known types is laid out without gaps: registration succeeds, the type
  is found by its name and by the next number, its size is the sum of the sizes of its fields,
  each field has the declared type, pointer depth and dimensions, its offset is the sum of the
  sizes of the fields before it, and it is found by its name.\<close>

theorem record_layout:
  assumes "types_ok w" "1 < length (aspect_typeinfo w)" "ident l" "aspect_type_get_by_name l w = Inr NULL"
    "tables w types_hash = Some T" "ds \<noteq> []" "\<forall>d\<in>set ds. decl_ok d \<and> declared (env_of w T) d" "distinct (map decl_name ds)"
  shows "\<exists>w' p t fs. aspect_type_register fuel False (Some l) (Some (map render ds)) w = Inr (0, w') \<and> types_ok w' \<and>
    aspect_type_get_by_name l w' = Inr p \<and> aspect_type_get_by_id (aspect_type_nbr w) w' = Inr p \<and> type_at p w' = Inr t \<and>
    at_size t = sum_list (map (space (env_of w T)) ds) \<and> linked (theap w') (at_childs t) fs \<and>
    map snd fs = layout (fst (aspect_typeinfo w ! 1)) (env_of w T) 0 ds \<and>
    (\<forall>i<length ds. aspect_type_get_child p (decl_name (ds ! i)) w' = Inr (fst (fs ! i)))"
proof -
  let ?env = "env_of w T" and ?raw = "fst (aspect_typeinfo w ! 1)"
  have T: "types_inv (aspect_type_nbr w) (aspect_typeinfo w) w T" using assms(1,5) by (auto simp: types_ok_def types_inv_def)
  obtain w4 w6 N fs t where r: "aspect_type_register fuel False (Some l) (Some (map render ds)) w = Inr (0, w6)" "types_ok w6"
    "map snd fs = layout ?raw ?env 0 ds" "aspect_type_get_by_name l w6 = Inr N" "aspect_type_get_by_id (aspect_type_nbr w) w6 = Inr N"
    "type_at N w6 = Inr t" "at_size t = sum_list (map (space ?env) ds)" "linked (theap w6) (at_childs t) fs" "length fs \<le> next_addr w6"
  proof (rule build_new [OF assms(1,2,4) T _ assms(3), where Q = "\<lambda>N fs w4. map snd fs = layout ?raw ?env 0 ds" and decls = "map render ds"
        and sz = "sum_list (map (space ?env) ds)"])
    fix F N n0 w3
    assume b: "between ?raw (aspect_type_nbr w) (aspect_typeinfo w) T ?env F N n0 {} [] w3"
    then show "\<exists>w4 names fs. create_fields False l N F (map render ds) 0 w3 = Inr (Some (sum_list (map (space ?env) ds)), w4) \<and>
        between ?raw (aspect_type_nbr w) (aspect_typeinfo w) T ?env F N n0 names fs w4 \<and> map snd fs = layout ?raw ?env 0 ds"
      using fields_step [OF b assms(7,8), of l 0] by auto
  qed (use assms(6) in auto)
  have names: "map (\<lambda>f. at_fieldname (snd f)) fs = map (Some \<circ> decl_name) ds"
  proof -
    have "map at_fieldname (layout ?raw ?env o' ds) = map (Some \<circ> decl_name) ds" for o' by (induction ds arbitrary: o') auto
    from this [of 0] show ?thesis unfolding r(3) [symmetric] by (simp add: comp_def)
  qed
  have len: "length fs = length ds" using arg_cong [OF names, of length] by simp
  have nth: "at_fieldname (snd (fs ! j)) = Some (decl_name (ds ! j))" if "j < length ds" for j
    using arg_cong [OF names, of "\<lambda>xs. xs ! j"] that len by simp
  have "aspect_type_get_child N (decl_name (ds ! i)) w6 = Inr (fst (fs ! i))" if i: "i < length ds" for i
  proof -
    have "decl_name (ds ! j) \<noteq> decl_name (ds ! i)" if "j < i" for j
      using assms(8) i that nth_eq_iff_index_eq [of "map decl_name ds" j i] by simp
    then have "find_child (Suc (next_addr w6)) (at_childs t) (decl_name (ds ! i)) w6 = Inr (fst (fs ! i))"
      by (intro find_child_ok [OF r(8)]) (use i len nth r(9) in auto)
    then show ?thesis using r(6) by (simp add: aspect_type_get_child_def)
  qed
  then show ?thesis using r by blast
qed

text \<open>C9. Deriving from a recursive type does not end. A list node, a record of one plain field and a
  pointer to the record itself, is registered; from then on, every registration of a new type
  with that node as its supertype recurses forever, whatever the fields.\<close>

theorem derive_recursive_diverges:
  fixes w :: "'z aspect_scheme"
  assumes "types_ok w" "1 < length (aspect_typeinfo w)" "ident l" "ident m" "l \<noteq> m" "aspect_type_get_by_name l w = Inr NULL"
    "aspect_type_get_by_name m w = Inr NULL" "tables w types_hash = Some T" "decl_ok (Typed a 0 t ds)" "ident b" "a \<noteq> b"
    "env_of w T t = Some ty" "at_next ty = NULL" "at_childs ty = NULL"
  shows "\<exists>w'. aspect_type_register fuel False (Some l) (Some [render (Typed a 0 t ds), render (Typed b 1 l [])]) w = Inr (0, w') \<and>
    types_ok w' \<and> (\<forall>fuel' isunion f fs. aspect_type_register fuel' isunion (Some (m @ ''::'' @ l)) (Some (f # fs)) w' = Inl Diverges)"
proof -
  let ?env = "env_of w T" and ?d = "Typed a 0 t ds"
  have T: "types_inv (aspect_type_nbr w) (aspect_typeinfo w) w T" using assms(1,8) by (auto simp: types_ok_def types_inv_def)
  have none: "hash_abs T l = None" using assms(6) hash_abs_nonnull [of T l]
    by (auto simp: aspect_type_get_by_name_def table_get_types [OF T] hash_get_abs split: option.splits)
  obtain w4 w6 :: "'z aspect_scheme" and N fs t where r: "aspect_type_register fuel False (Some l) (Some [render ?d, render (Typed b 1 l [])]) w = Inr (0, w6)" "types_ok w6"
    "list_node N fs w4" "aspect_type_get_by_name l w6 = Inr N" "type_at N w6 = Inr t" "linked (theap w6) (at_childs t) fs" "N \<noteq> NULL"
    "\<forall>tn. theap w4 N = Some tn \<longrightarrow> t = tn\<lparr>at_size := space ?env ?d + 4, at_type := aspect_type_nbr w\<rparr>"
    "\<forall>k. k \<noteq> l \<longrightarrow> aspect_type_get_by_name k w6 = Inr (hash_get T k)"
  proof (rule build_new [OF assms(1,2,6) T _ assms(3), where Q = list_node and decls = "[render ?d, render (Typed b 1 l [])]"
        and sz = "space ?env ?d + 4" and fuel = fuel])
    fix F N n0 w3
    assume b: "between (fst (aspect_typeinfo w ! 1)) (aspect_type_nbr w) (aspect_typeinfo w) T ?env F N n0 {} [] w3"
      "n0 = zero_type\<lparr>at_name := Some l\<rparr>"
    show "\<exists>w4 names fs. create_fields False l N F [render ?d, render (Typed b 1 l [])] 0 w3 = Inr (Some (space ?env ?d + 4), w4) \<and>
      between (fst (aspect_typeinfo w ! 1)) (aspect_type_nbr w) (aspect_typeinfo w) T ?env F N n0 names fs w4 \<and> list_node N fs w4"
      by (rule list_fields [OF b assms(9,12-14,10,3,11) none])
  qed (auto simp del: render.simps space.simps)
  obtain A fa B fb nt where f: "fs = [(A, fa), (B, fb)]" "at_childs fa = NULL" "at_isptr fa = 0" "at_fieldname fa \<noteq> None"
    "at_childs fb = A" "at_fieldname fb \<noteq> None" "theap w4 N = Some nt" "at_isptr nt = 0" "at_fieldname nt = None"
    using r(3) by (auto simp: list_node_def)
  have t: "theap w6 N = Some t" "at_isptr t = 0" "at_fieldname t = None" "at_childs t = A"
    using r(5,6,8) f by (auto simp: type_at_def split: option.splits)
  have "ring w6 A B"
  proof -
    have bound: "\<forall>p\<ge>next_addr w6. theap w6 p = None" using r(2) by (auto simp: types_ok_def types_inv_def)
    obtain x y where "theap w6 A = Some x" "x\<lparr>at_next := NULL\<rparr> = fa" "at_next x = B" "theap w6 B = Some y" "y\<lparr>at_next := NULL\<rparr> = fb"
      "A \<noteq> NULL" "B \<noteq> NULL" using r(6) f(1) by auto
    moreover from this have "A < next_addr w6" "B < next_addr w6" using bound by (metis leI option.distinct(1))+
    ultimately show ?thesis using f(2-6) by (auto simp: ring_def)
  qed
  moreover have "aspect_type_get_by_name m w6 = Inr NULL" using r(9) assms(5,7)
    by (simp add: aspect_type_get_by_name_def table_get_types [OF T])
  moreover have "CHR '':'' \<notin> set m" using assms(4) by (auto simp: ident_def)
  ultimately have "aspect_type_register g u (Some (m @ ''::'' @ l)) (Some (f # fs)) w6 = Inl Diverges" for g u f fs
    using derive_diverges [OF r(2) _ _ r(4,7) t] by blast
  then show ?thesis using r(1,2) by blast
qed

subsection \<open>Witnesses\<close>

text \<open>The initialised library.\<close>

lemma init_world:
  obtains w T where "aspect_init boot = Inr (0, w)" "types_ok w" "tables w types_hash = Some T" "aspect_typeinfo w = aspect_typeinfo_base"
    "config_ok w" "settings w = config_initial" "\<And>k. k \<notin> fst ` set aspect_typeinfo_base \<Longrightarrow> aspect_type_get_by_name k w = Inr NULL"
    "\<And>i k sz. 0 < i \<Longrightarrow> i < 18 \<Longrightarrow> aspect_typeinfo_base ! i = (k, sz) \<Longrightarrow>
       \<exists>t. env_of w T k = Some t \<and> at_type t = i \<and> at_size t = sz \<and> at_next t = NULL \<and> at_childs t = NULL"
proof -
  obtain w where w: "aspect_init boot = Inr (0, w)" "types_ok w" "plain w" "aspect_typeinfo w = aspect_typeinfo_base" "config_ok w"
    "settings w = config_initial" by (rule init_ok)
  obtain T where T: "tables w types_hash = Some T" using w(2) by (auto simp: types_ok_def types_inv_def)
  have "at_next t = NULL \<and> at_childs t = NULL" if "env_of w T k = Some t" for k t
    using w(3) that by (auto simp: plain_def env_of_def split: option.splits)
  then show ?thesis using that [OF w(1,2) T w(4-6)] base_lookup [OF w(2,4) T] by metis
qed

definition demo_fields :: "decl list" where
  "demo_fields = [Typed ''count'' 0 ''int'' [], Typed ''data'' 1 ''byte'' [], Typed ''tab'' 0 ''short'' [3], Raw ''pad'' 2]"

lemma demo_render: "map render demo_fields = [''count:int'', ''data:*byte'', ''tab:short[3]'', ''pad%2'']"
  by code_simp

theorem record_layout_witness:
  "\<exists>w w' p t. aspect_init boot = Inr (0, w) \<and>
     aspect_type_register 0 False (Some ''rec'') (Some [''count:int'', ''data:*byte'', ''tab:short[3]'', ''pad%2'']) w = Inr (0, w') \<and>
     aspect_type_get_by_name ''rec'' w' = Inr p \<and> type_at p w' = Inr t \<and> at_size t = 16"
proof (rule init_world)
  fix w T
  assume w: "aspect_init boot = Inr (0, w)" "types_ok w" "tables w types_hash = Some T" "aspect_typeinfo w = aspect_typeinfo_base"
    and free: "\<And>k. k \<notin> fst ` set aspect_typeinfo_base \<Longrightarrow> aspect_type_get_by_name k w = Inr NULL"
    and bases: "\<And>i k sz. 0 < i \<Longrightarrow> i < 18 \<Longrightarrow> aspect_typeinfo_base ! i = (k, sz) \<Longrightarrow>
       \<exists>t. env_of w T k = Some t \<and> at_type t = i \<and> at_size t = sz \<and> at_next t = NULL \<and> at_childs t = NULL"
  obtain ti tb ts where t: "env_of w T ''int'' = Some ti" "at_type ti = 5" "at_size ti = 4" "at_next ti = NULL"
    "env_of w T ''byte'' = Some tb" "at_type tb = 2" "at_next tb = NULL"
    "env_of w T ''short'' = Some ts" "at_type ts = 4" "at_size ts = 2" "at_next ts = NULL"
    using bases [of 5 "''int''" 4] bases [of 2 "''byte''" 1] bases [of 4 "''short''" 2] by (auto simp: aspect_typeinfo_base_def)
  have "aspect_type_get_by_name ''rec'' w = Inr NULL" by (rule free) (simp add: aspect_typeinfo_base_def)
  moreover have "\<forall>d\<in>set demo_fields. decl_ok d \<and> declared (env_of w T) d" "distinct (map decl_name demo_fields)" "demo_fields \<noteq> []"
    using t by (simp_all add: demo_fields_def ident_def)
  moreover have "sum_list (map (space (env_of w T)) demo_fields) = 16" using t by (simp add: demo_fields_def ASPECT_TYPE_BIT_def)
  ultimately obtain w' p t where "aspect_type_register 0 False (Some ''rec'') (Some (map render demo_fields)) w = Inr (0, w')"
    "aspect_type_get_by_name ''rec'' w' = Inr p" "type_at p w' = Inr t" "at_size t = 16"
    using record_layout [OF w(2) _ _ _ w(3), of "''rec''" demo_fields 0] w(4) base_names(2) by (auto simp: ident_def)
  then show ?thesis using w(1) unfolding demo_render by blast
qed

theorem derive_recursive_diverges_witness:
  "\<exists>w w'. aspect_init boot = Inr (0, w) \<and> aspect_type_register 0 False (Some ''node'') (Some [''val:int'', ''next:*node'']) w = Inr (0, w') \<and>
     (\<forall>fuel. aspect_type_register fuel False (Some ''tagged::node'') (Some [''tag:int'']) w' = Inl Diverges)"
proof (rule init_world)
  fix w T
  assume w: "aspect_init boot = Inr (0, w)" "types_ok w" "tables w types_hash = Some T" "aspect_typeinfo w = aspect_typeinfo_base"
    and free: "\<And>k. k \<notin> fst ` set aspect_typeinfo_base \<Longrightarrow> aspect_type_get_by_name k w = Inr NULL"
    and bases: "\<And>i k sz. 0 < i \<Longrightarrow> i < 18 \<Longrightarrow> aspect_typeinfo_base ! i = (k, sz) \<Longrightarrow>
       \<exists>t. env_of w T k = Some t \<and> at_type t = i \<and> at_size t = sz \<and> at_next t = NULL \<and> at_childs t = NULL"
  obtain ti where t: "env_of w T ''int'' = Some ti" "at_next ti = NULL" "at_childs ti = NULL"
    using bases [of 5 "''int''" 4] by (auto simp: aspect_typeinfo_base_def)
  have "aspect_type_get_by_name ''node'' w = Inr NULL" "aspect_type_get_by_name ''tagged'' w = Inr NULL"
    by (rule free, simp add: aspect_typeinfo_base_def)+
  then obtain w' where w': "aspect_type_register 0 False (Some ''node'') (Some [render (Typed ''val'' 0 ''int'' []), render (Typed ''next'' 1 ''node'' [])]) w = Inr (0, w')"
    "\<forall>fuel' isunion f fs. aspect_type_register fuel' isunion (Some (''tagged'' @ ''::'' @ ''node'')) (Some (f # fs)) w' = Inl Diverges"
    using derive_recursive_diverges [OF w(2), of "''node''" "''tagged''" T "''val''" "''int''" "[]" "''next''" ti 0] w(3,4) t base_names(2)
    by (auto simp: ident_def)
  then show ?thesis using w(1) by (auto simp: render_dims_def)
qed

theorem types_consistent_witness:
  "\<exists>w p t. aspect_init boot = Inr (0, w) \<and> aspect_type_get_by_id 5 w = Inr p \<and> type_at p w = Inr t \<and> at_type t = 5"
proof (rule init_world)
  fix w
  assume w: "aspect_init boot = Inr (0, w)" "types_ok w" "aspect_typeinfo w = aspect_typeinfo_base"
  have "5 < aspect_type_nbr w" using w(2,3) base_names(2) by (simp add: types_ok_def)
  then show ?thesis using types_consistent [OF type_reach.init [OF w(1)]] w(1) by (metis zero_less_numeral)
qed

theorem config_is_map_witness:
  "\<exists>w w'. aspect_init boot = Inr (0, w) \<and> config_update_key ''safemode'' (Num 1) w = Inr w' \<and>
     settings w' ''safemode'' = Some (CONFIG_TYPE_INT, CONFIG_MODE_RW, 1, None)"
proof (rule init_world)
  fix w
  assume w: "aspect_init boot = Inr (0, w)" "config_ok w" "settings w = config_initial"
  have k: "settings w ''safemode'' = Some (CONFIG_TYPE_INT, CONFIG_MODE_RW, 0, None)"
    by (simp add: w(3) config_initial_def config_defaults_def CONFIG_CFGDEPTH_def CONFIG_NAME_SAFEMODE_def CONFIG_SAFEMODE_OFF_def)
  have "fits CONFIG_TYPE_INT (Num 1)" by (simp add: fits_def CONFIG_TYPE_INT_def CONFIG_TYPE_STR_def)
  then show ?thesis using config_is_map [OF w(2), of CONFIG_TYPE_INT "Num 1" "''safemode''" 0] k w(1) by auto
qed

end
