(* ===== verification/Sparc_Format.thy ===== *)
theory Sparc_Format
  imports Sparc_Const
begin

text \<open>
  The instruction formats of SPARC (\<open>libasm-sparc-decode.h\<close>, \<open>sparc_convert.c\<close>), the names of
  registers (\<open>output_sparc.c\<close>), the operand handlers with their dispatch vector
  (\<open>operand_handlers\<close>, \<open>register.c\<close>) and the pool of name buffers (\<open>asm_sparc_op_name.c\<close>).

  A bit-field of width \<open>n\<close> is an \<open>n word\<close> and the other members are 32-bit words. The
  conversions are those of the little-endian host: \<open>buf\<close> is the value \<open>memcpy\<close> reads from the
  bytes the fetch function has already put in host order. Shifts of the signed \<open>converted\<close> are
  masked to the bits of the field, so a logical shift gives the same value.
\<close>

subsection \<open>Formats\<close>

record s_decode_pbranch =
  pb_op :: "2 word"
  pb_a :: "1 word"
  pb_cond :: "4 word"
  pb_op2 :: "3 word"
  pb_cc1 :: "1 word"
  pb_cc0 :: "1 word"
  pb_p :: "1 word"
  pb_immediate :: "19 word"
  pb_imm :: u_int
  pb_cc :: u_int

record s_decode_rbranch =
  rb_op :: "2 word"
  rb_a :: "1 word"
  rb_zero :: "1 word"
  rb_rcond :: "3 word"
  rb_op2 :: "3 word"
  rb_d16hi :: "2 word"
  rb_p :: "1 word"
  rb_rs1 :: "5 word"
  rb_d16lo :: "14 word"
  rb_d16 :: u_int

record s_decode_branch =
  br_op :: "2 word"
  br_a :: "1 word"
  br_cond :: "4 word"
  br_op2 :: "3 word"
  br_immediate :: "22 word"
  br_imm :: u_int
  br_rd :: u_int

record s_decode_call =
  ca_op :: "2 word"
  ca_disp30 :: "30 word"
  ca_displacement :: u_int

record s_decode_format3 =
  f3_op :: "2 word"
  f3_rd :: "5 word"
  f3_op3 :: "6 word"
  f3_rs1 :: "5 word"
  f3_i :: "1 word"
  f3_none :: "8 word"
  f3_rs2 :: "5 word"
  f3_imm :: u_int
  f3_imm10 :: u_int
  f3_rcond :: u_int
  f3_shcnt :: u_int
  f3_opf :: u_int
  f3_cc :: u_int
  f3_opf_cc :: u_int
  f3_cond :: u_int

record s_decode_format4 =
  f4_op :: "2 word"
  f4_rd :: "5 word"
  f4_op3 :: "6 word"
  f4_rs1 :: "5 word"
  f4_i :: "1 word"
  f4_cc1 :: "1 word"
  f4_cc0 :: "1 word"
  f4_none :: "6 word"
  f4_rs2 :: "5 word"
  f4_cond :: u_int
  f4_cc2 :: u_int
  f4_cc :: u_int
  f4_imm :: u_int
  f4_sw_trap :: u_int

definition sparc_convert_pbranch :: "u_int \<Rightarrow> s_decode_pbranch" where
  "sparc_convert_pbranch buf =
     (let cc1 = ucast (drop_bit 21 buf AND 0x1) :: 1 word;
          cc0 = ucast (drop_bit 20 buf AND 0x1) :: 1 word;
          immediate = ucast (buf AND 0x7FFFF) :: 19 word;
          im = ucast immediate :: u_int in
      \<lparr>pb_op = ucast (drop_bit 30 buf AND 0x3), pb_a = ucast (drop_bit 29 buf AND 0x1),
       pb_cond = ucast (drop_bit 25 buf AND 0xf), pb_op2 = ucast (drop_bit 22 buf AND 0x7),
       pb_cc1 = cc1, pb_cc0 = cc0, pb_p = ucast (drop_bit 19 buf AND 0x1), pb_immediate = immediate,
       pb_imm = (if im AND 0x40000 \<noteq> 0 then im OR 0xFFFC0000 else im),
       pb_cc = push_bit 1 (ucast cc1) OR ucast cc0\<rparr>)"

definition sparc_convert_rbranch :: "u_int \<Rightarrow> s_decode_rbranch" where
  "sparc_convert_rbranch buf =
     (let d16hi = ucast (drop_bit 20 buf AND 0x3) :: 2 word;
          d16lo = ucast (buf AND 0x3FFF) :: 14 word;
          d16 = push_bit 14 (ucast d16hi) OR ucast d16lo :: u_int in
      \<lparr>rb_op = ucast (drop_bit 30 buf AND 0x3), rb_a = ucast (drop_bit 29 buf AND 0x1),
       rb_zero = ucast (drop_bit 28 buf AND 0x1), rb_rcond = ucast (drop_bit 25 buf AND 0x7),
       rb_op2 = ucast (drop_bit 22 buf AND 0x7), rb_d16hi = d16hi,
       rb_p = ucast (drop_bit 19 buf AND 0x1), rb_rs1 = ucast (drop_bit 14 buf AND 0x1f),
       rb_d16lo = d16lo, rb_d16 = (if d16 AND 0x8000 \<noteq> 0 then d16 OR 0xFFFF0000 else d16)\<rparr>)"

definition sparc_convert_branch :: "u_int \<Rightarrow> s_decode_branch" where
  "sparc_convert_branch buf =
     (let a = ucast (drop_bit 29 buf AND 0x1) :: 1 word;
          cond = ucast (drop_bit 25 buf AND 0xf) :: 4 word;
          immediate = ucast (buf AND 0x3FFFFF) :: 22 word;
          im = ucast immediate :: u_int in
      \<lparr>br_op = ucast (drop_bit 30 buf AND 0x3), br_a = a, br_cond = cond,
       br_op2 = ucast (drop_bit 22 buf AND 0x7), br_immediate = immediate,
       br_imm = (if im AND 0x200000 \<noteq> 0 then im OR 0xFFE00000 else im),
       br_rd = push_bit 4 (ucast a) OR ucast cond\<rparr>)"

definition sparc_convert_call :: "u_int \<Rightarrow> s_decode_call" where
  "sparc_convert_call buf =
     (let disp30 = ucast (buf AND 0x3FFFFFFF) :: 30 word;
          d = ucast disp30 :: u_int in
      \<lparr>ca_op = ucast (drop_bit 30 buf AND 0x3), ca_disp30 = disp30,
       ca_displacement = (if d AND 0x20000000 \<noteq> 0 then d OR 0xC0000000 else d)\<rparr>)"

definition sparc_convert_format3 :: "u_int \<Rightarrow> s_decode_format3" where
  "sparc_convert_format3 buf =
     (let rd = ucast (drop_bit 25 buf AND 0x1f) :: 5 word;
          rs1 = ucast (drop_bit 14 buf AND 0x1f) :: 5 word;
          i = ucast (drop_bit 13 buf AND 0x1) :: 1 word;
          none = ucast (drop_bit 5 buf AND 0xff) :: 8 word;
          rs2 = ucast (buf AND 0x1f) :: 5 word;
          immediate = push_bit 5 (ucast none) OR ucast rs2 :: u_int;
          im = (if immediate AND 0x1000 \<noteq> 0 then 0xFFFFF000 OR immediate else immediate);
          immediate10 = immediate AND 0x3ff;
          shcnt = immediate AND 0x3f;
          shcnt = (if immediate AND 0x1fff = 0 then shcnt AND 0x1f else shcnt);
          opf = push_bit 8 (ucast i) OR ucast none :: u_int in
      \<lparr>f3_op = ucast (drop_bit 30 buf AND 0x3), f3_rd = rd,
       f3_op3 = ucast (drop_bit 19 buf AND 0x3f), f3_rs1 = rs1, f3_i = i, f3_none = none, f3_rs2 = rs2,
       f3_imm = im,
       f3_imm10 = (if immediate10 AND 0x200 \<noteq> 0 then 0xFFFFFC00 OR immediate10 else immediate10),
       f3_rcond = drop_bit 10 (im AND 0x1c00), f3_shcnt = shcnt, f3_opf = opf,
       f3_cc = ucast rd AND 0x3, f3_opf_cc = drop_bit 6 (opf AND 0x1c0), f3_cond = ucast rs1 AND 0xf\<rparr>)"

definition sparc_convert_format4 :: "u_int \<Rightarrow> s_decode_format4" where
  "sparc_convert_format4 buf =
     (let rs1 = ucast (drop_bit 14 buf AND 0x1f) :: 5 word;
          cc1 = ucast (drop_bit 12 buf AND 0x1) :: 1 word;
          cc0 = ucast (drop_bit 11 buf AND 0x1) :: 1 word;
          none = ucast (drop_bit 5 buf AND 0x3f) :: 6 word;
          rs2 = ucast (buf AND 0x1f) :: 5 word;
          cc2 = ucast rs1 AND 0x10 :: u_int;
          immediate = push_bit 5 (ucast none) OR ucast rs2 :: u_int in
      \<lparr>f4_op = ucast (drop_bit 30 buf AND 0x3), f4_rd = ucast (drop_bit 25 buf AND 0x1f),
       f4_op3 = ucast (drop_bit 19 buf AND 0x3f), f4_rs1 = rs1, f4_i = ucast (drop_bit 13 buf AND 0x1),
       f4_cc1 = cc1, f4_cc0 = cc0, f4_none = none, f4_rs2 = rs2,
       f4_cond = ucast rs1 AND 0xf, f4_cc2 = cc2,
       f4_cc = push_bit 2 cc2 OR push_bit 1 (ucast cc1) OR ucast cc0,
       f4_imm = (if immediate AND 0x400 \<noteq> 0 then 0xFFFFF800 OR immediate else immediate),
       f4_sw_trap = push_bit 5 (ucast none AND 0x3) OR ucast rs2\<rparr>)"

subsection \<open>Names\<close>

text \<open>A C \<open>switch\<close> whose cases all return, with the value of the default case.\<close>

definition switch :: "('a \<times> 'b) list \<Rightarrow> 'b \<Rightarrow> 'a \<Rightarrow> 'b" where
  "switch cases d x = (case map_of cases x of Some v \<Rightarrow> v | None \<Rightarrow> d)"

definition get_sparc_register :: "u_int \<Rightarrow> string" where
  "get_sparc_register = switch [
     (ASM_REG_G0, ''%g0''), (ASM_REG_G1, ''%g1''), (ASM_REG_G2, ''%g2''), (ASM_REG_G3, ''%g3''),
     (ASM_REG_G4, ''%g4''), (ASM_REG_G5, ''%g5''), (ASM_REG_G6, ''%g6''), (ASM_REG_G7, ''%g7''),
     (ASM_REG_O0, ''%o0''), (ASM_REG_O1, ''%o1''), (ASM_REG_O2, ''%o2''), (ASM_REG_O3, ''%o3''),
     (ASM_REG_O4, ''%o4''), (ASM_REG_O5, ''%o5''), (ASM_REG_O6, ''%sp''), (ASM_REG_O7, ''%o7''),
     (ASM_REG_L0, ''%l0''), (ASM_REG_L1, ''%l1''), (ASM_REG_L2, ''%l2''), (ASM_REG_L3, ''%l3''),
     (ASM_REG_L4, ''%l4''), (ASM_REG_L5, ''%l5''), (ASM_REG_L6, ''%l6''), (ASM_REG_L7, ''%l7''),
     (ASM_REG_I0, ''%i0''), (ASM_REG_I1, ''%i1''), (ASM_REG_I2, ''%i2''), (ASM_REG_I3, ''%i3''),
     (ASM_REG_I4, ''%i4''), (ASM_REG_I5, ''%i5''), (ASM_REG_I6, ''%fp''), (ASM_REG_I7, ''%i7'')] ''bad''"

definition get_sparc_sregister :: "u_int \<Rightarrow> string" where
  "get_sparc_sregister = switch [
     (ASM_SREG_Y, ''%y''), (ASM_SREG_CCR, ''%ccr''), (ASM_SREG_ASI, ''%asi''),
     (ASM_SREG_TICK, ''%tick''), (ASM_SREG_PC, ''%pc''), (ASM_SREG_FPRS, ''%fprs'')] ''bad''"

definition get_sparc_pregister :: "u_int \<Rightarrow> string" where
  "get_sparc_pregister = switch [
     (ASM_PREG_TPC, ''%tpc''), (ASM_PREG_TNPC, ''%tnpc''), (ASM_PREG_TSTATE, ''%tstate''),
     (ASM_PREG_TT, ''%tt''), (ASM_PREG_TICK, ''%tick''), (ASM_PREG_TBA, ''%tba''),
     (ASM_PREG_PSTATE, ''%pstate''), (ASM_PREG_TL, ''%tl''), (ASM_PREG_PIL, ''%pil''),
     (ASM_PREG_CWP, ''%cwp''), (ASM_PREG_CANSAVE, ''%cansave''),
     (ASM_PREG_CANRESTORE, ''%canrestore''), (ASM_PREG_CLEANWIN, ''%cleanwin''),
     (ASM_PREG_OTHERWIN, ''%otherwin''), (ASM_PREG_WSTATE, ''%wstate''), (ASM_PREG_FQ, ''%fq''),
     (ASM_PREG_VER, ''%ver'')] ''bad''"

definition get_sparc_fregister :: "u_int \<Rightarrow> string" where
  "get_sparc_fregister = switch [
     (ASM_FREG_FSR, ''%fsr''), (0, ''%f0''), (1, ''%f1''), (2, ''%f2''), (3, ''%f3''),
     (4, ''%f4''), (5, ''%f5''), (6, ''%f6''), (7, ''%f7''), (8, ''%f8''), (9, ''%f9''),
     (10, ''%f10''), (11, ''%f11''), (12, ''%f12''), (13, ''%f13''), (14, ''%f14''),
     (15, ''%f15''), (16, ''%f16''), (17, ''%f17''), (18, ''%f18''), (19, ''%f19''),
     (20, ''%f20''), (21, ''%f21''), (22, ''%f22''), (23, ''%f23''), (24, ''%f24''),
     (25, ''%f25''), (26, ''%f26''), (27, ''%f27''), (28, ''%f28''), (29, ''%f29''),
     (30, ''%f30''), (31, ''%f31''), (32, ''%f32''), (34, ''%f34''), (36, ''%f36''),
     (38, ''%f38''), (40, ''%f40''), (42, ''%f42''), (44, ''%f44''), (46, ''%f46''),
     (48, ''%f48''), (50, ''%f50''), (52, ''%f52''), (54, ''%f54''), (56, ''%f56''),
     (58, ''%f58''), (60, ''%f60''), (62, ''%f62'')] ''bad''"

definition get_sparc_cc :: "u_int \<Rightarrow> string" where
  "get_sparc_cc = switch [
     (ASM_SP_FCC0, ''%fcc0''), (ASM_SP_FCC1, ''%fcc1''), (ASM_SP_FCC2, ''%fcc2''),
     (ASM_SP_FCC3, ''%fcc3''), (ASM_SP_ICC, ''%icc''), (ASM_SP_XCC, ''%xcc'')] ''bad''"

text \<open>The conversions \<open>%x\<close> and \<open>%X\<close>.\<close>

definition base16_digit :: "nat \<Rightarrow> nat \<Rightarrow> char" where
  "base16_digit a n = (if n < 10 then char_of (48 + n) else char_of (a + n - 10))"

fun fmt_base16 :: "nat \<Rightarrow> nat \<Rightarrow> string" where
  "fmt_base16 a n = (if n < 16 then [base16_digit a n] else fmt_base16 a (n div 16) @ [base16_digit a (n mod 16)])"

declare fmt_base16.simps [simp del]

definition sparc_fmt_x :: "u_int \<Rightarrow> string" where
  "sparc_fmt_x w = fmt_base16 97 (unat w)"

definition sparc_fmt_X :: "u_int \<Rightarrow> string" where
  "sparc_fmt_X w = fmt_base16 65 (unat w)"

text \<open>\<open>asm_sparc_get_op_name\<close> also fills \<open>sbaser\<close> and \<open>sindex\<close> of memory operands.\<close>

definition asm_sparc_get_op_name :: "asm_operand \<Rightarrow> asm_operand \<times> string option" where
  "asm_sparc_get_op_name p =
     (if ocontent p = ASM_SP_OTYPE_REGISTER then (p, Some (get_sparc_register (baser p)))
      else if ocontent p = ASM_SP_OTYPE_SREGISTER then (p, Some (get_sparc_sregister (baser p)))
      else if ocontent p = ASM_SP_OTYPE_PREGISTER then (p, Some (get_sparc_pregister (baser p)))
      else if ocontent p = ASM_SP_OTYPE_FREGISTER then (p, Some (get_sparc_fregister (baser p)))
      else if ocontent p = ASM_SP_OTYPE_CC then (p, Some (get_sparc_cc (baser p)))
      else if ocontent p = ASM_SP_OTYPE_IMM_ADDRESS then
        (let sb = get_sparc_register (baser p) in
         (p\<lparr>sbaser := Some sb\<rparr>,
          Some (''[ '' @ sb @ (if imm p \<noteq> 0 then '' + 0x'' @ sparc_fmt_x (imm p) else []) @ '' ]'' @
            (if address_space p \<noteq> ASM_SP_ASI_P then '' %asi'' else []))))
      else if ocontent p = ASM_SP_OTYPE_REG_ADDRESS then
        (let sb = get_sparc_register (baser p); p1 = p\<lparr>sbaser := Some sb\<rparr>;
             asi = (if address_space p \<noteq> ASM_SP_ASI_P then '' 0x'' @ sparc_fmt_x (address_space p) else []) in
         if 0 < sint (indexr p) then
           (let si = get_sparc_register (indexr p) in
            (p1\<lparr>sindex := Some si\<rparr>, Some (''[ '' @ sb @ '' + '' @ si @ '' ]'' @ asi)))
         else (p1, Some (''[ '' @ sb @ '' ]'' @ asi)))
      else (p, None))"

subsection \<open>The pool of name buffers\<close>

text \<open>The names of memory operands are written to buffers of 64 bytes taken in turn from a pool of
  100; the buffer a slot held before is freed. \<open>asm_name_pool_alloc\<close> takes the result of \<open>malloc\<close>
  (\<open>None\<close> for a null pointer) and gives the buffer, the buffers it frees and the pool.\<close>

definition ASM_POOL_SIZE :: nat where "ASM_POOL_SIZE = 100"
definition ASM_OP_NAME_LEN :: nat where "ASM_OP_NAME_LEN = 64"

record name_pool =
  asm_name_pool :: "ptr option list"
  pool_index :: nat

definition empty_name_pool :: name_pool where
  "empty_name_pool = \<lparr>asm_name_pool = replicate ASM_POOL_SIZE None, pool_index = 0\<rparr>"

definition asm_name_pool_alloc :: "ptr option \<Rightarrow> name_pool \<Rightarrow> ptr option \<times> ptr list \<times> name_pool" where
  "asm_name_pool_alloc ret np =
     (let i = pool_index np;
          freed = (case asm_name_pool np ! i of None \<Rightarrow> [] | Some p \<Rightarrow> [p]);
          np1 = np\<lparr>asm_name_pool := (asm_name_pool np)[i := ret]\<rparr>;
          np2 = (if ret \<noteq> None then np1\<lparr>pool_index := (i + 1) mod ASM_POOL_SIZE\<rparr> else np1)
      in (ret, freed, np2))"

subsection \<open>Operands\<close>

text \<open>The operand handlers, given the index of the operand in \<open>ins->op\<close>.\<close>

definition asm_sparc_op_fetch_register :: "nat \<Rightarrow> asm_instr \<Rightarrow> asm_instr" where
  "asm_sparc_op_fetch_register i = stmts [set_content i ASM_SP_OTYPE_REGISTER, set_otype i ASM_OPTYPE_REG]"

definition asm_sparc_op_fetch_immediate :: "nat \<Rightarrow> asm_instr \<Rightarrow> asm_instr" where
  "asm_sparc_op_fetch_immediate i = stmts [set_content i ASM_SP_OTYPE_IMMEDIATE, set_otype i ASM_OPTYPE_IMM]"

definition asm_sparc_op_fetch_displacement :: "nat \<Rightarrow> asm_instr \<Rightarrow> asm_instr" where
  "asm_sparc_op_fetch_displacement i = stmts [set_content i ASM_SP_OTYPE_DISPLACEMENT, set_otype i ASM_OPTYPE_IMM]"

definition asm_sparc_op_fetch_disp30 :: "nat \<Rightarrow> asm_instr \<Rightarrow> asm_instr" where
  "asm_sparc_op_fetch_disp30 i = stmts [set_content i ASM_SP_OTYPE_DISP30, set_otype i ASM_OPTYPE_IMM]"

definition asm_sparc_op_fetch_sethi :: "nat \<Rightarrow> asm_instr \<Rightarrow> asm_instr" where
  "asm_sparc_op_fetch_sethi i = stmts [set_content i ASM_SP_OTYPE_SETHI, set_otype i ASM_OPTYPE_IMM]"

definition asm_sparc_op_fetch_fregister :: "nat \<Rightarrow> asm_instr \<Rightarrow> asm_instr" where
  "asm_sparc_op_fetch_fregister i = stmts [set_content i ASM_SP_OTYPE_FREGISTER, set_otype i ASM_OPTYPE_REG]"

definition asm_sparc_op_fetch_sregister :: "nat \<Rightarrow> asm_instr \<Rightarrow> asm_instr" where
  "asm_sparc_op_fetch_sregister i = stmts [set_content i ASM_SP_OTYPE_SREGISTER, set_otype i ASM_OPTYPE_REG]"

definition asm_sparc_op_fetch_pregister :: "nat \<Rightarrow> asm_instr \<Rightarrow> asm_instr" where
  "asm_sparc_op_fetch_pregister i = stmts [set_content i ASM_SP_OTYPE_PREGISTER, set_otype i ASM_OPTYPE_REG]"

definition asm_sparc_op_fetch_cc :: "nat \<Rightarrow> asm_instr \<Rightarrow> asm_instr" where
  "asm_sparc_op_fetch_cc i = stmts [set_content i ASM_SP_OTYPE_CC, set_otype i ASM_OPTYPE_REG]"

definition asm_sparc_op_fetch_imm_address :: "nat \<Rightarrow> asm_instr \<Rightarrow> asm_instr" where
  "asm_sparc_op_fetch_imm_address i = stmts [set_content i ASM_SP_OTYPE_IMM_ADDRESS, set_otype i ASM_OPTYPE_MEM]"

definition asm_sparc_op_fetch_reg_address :: "nat \<Rightarrow> asm_instr \<Rightarrow> asm_instr" where
  "asm_sparc_op_fetch_reg_address i = stmts [set_content i ASM_SP_OTYPE_REG_ADDRESS, set_otype i ASM_OPTYPE_MEM]"

text \<open>The operand vector: dimension \<open>ASM_SP_OTYPE_NUM\<close>, default handler at address 1, the handlers
  of \<open>asm_register_sparc_operands\<close> after it in the order of their registration. The default handler
  only returns -1.\<close>

definition sparc_operand_handlers :: "(u_int \<times> (nat \<Rightarrow> asm_instr \<Rightarrow> asm_instr)) list" where
  "sparc_operand_handlers = [
     (ASM_SP_OTYPE_REGISTER, asm_sparc_op_fetch_register),
     (ASM_SP_OTYPE_IMMEDIATE, asm_sparc_op_fetch_immediate),
     (ASM_SP_OTYPE_DISPLACEMENT, asm_sparc_op_fetch_displacement),
     (ASM_SP_OTYPE_DISP30, asm_sparc_op_fetch_disp30),
     (ASM_SP_OTYPE_SETHI, asm_sparc_op_fetch_sethi),
     (ASM_SP_OTYPE_FREGISTER, asm_sparc_op_fetch_fregister),
     (ASM_SP_OTYPE_SREGISTER, asm_sparc_op_fetch_sregister),
     (ASM_SP_OTYPE_PREGISTER, asm_sparc_op_fetch_pregister),
     (ASM_SP_OTYPE_CC, asm_sparc_op_fetch_cc),
     (ASM_SP_OTYPE_IMM_ADDRESS, asm_sparc_op_fetch_imm_address),
     (ASM_SP_OTYPE_REG_ADDRESS, asm_sparc_op_fetch_reg_address)]"

definition asm_register_operand :: "vector_t \<Rightarrow> u_int \<Rightarrow> ptr \<Rightarrow> vector_t option" where
  "asm_register_operand vec operand_type fcn = aspect_vectors_insert vec [unat operand_type] fcn"

fun register_sparc_operands :: "(u_int \<times> 'h) list \<Rightarrow> ptr \<Rightarrow> vector_t \<Rightarrow> vector_t option" where
  "register_sparc_operands [] a vec = Some vec"
| "register_sparc_operands ((ty, h) # hs) a vec =
     Option.bind (asm_register_operand vec ty a) (register_sparc_operands hs (a + 1))"

definition asm_register_sparc_operands :: "vector_t \<Rightarrow> vector_t option" where
  "asm_register_sparc_operands = register_sparc_operands sparc_operand_handlers 2"

definition sparc_operand_vector :: "vector_t option" where
  "sparc_operand_vector =
     asm_register_sparc_operands (make_vector 1 [unat ASM_SP_OTYPE_NUM] [''OPERAND''] 1)"

definition sparc_operand_call :: "ptr \<Rightarrow> nat \<Rightarrow> asm_instr \<Rightarrow> asm_instr" where
  "sparc_operand_call f i ins =
     (if 2 \<le> f \<and> f - 2 < length sparc_operand_handlers then snd (sparc_operand_handlers ! (f - 2)) i ins else ins)"

definition set_op_name :: "asm_operand \<Rightarrow> asm_operand" where
  "set_op_name p = (let (p1, name) = asm_sparc_get_op_name p in p1\<lparr>oname := name\<rparr>)"

definition asm_sparc_op_fetch :: "nat \<Rightarrow> u_int \<Rightarrow> asm_instr \<Rightarrow> asm_instr" where
  "asm_sparc_op_fetch i ot ins =
     (let ins1 = (case Option.bind sparc_operand_vector (\<lambda>vec. aspect_vectors_select vec [unat ot]) of
                    None \<Rightarrow> ins
                  | Some f \<Rightarrow> sparc_operand_call f i ins)
      in upd_op i set_op_name ins1)"

subsection \<open>Processor internals\<close>

record s_asm_proc_sparc =
  bcc_table :: "nat list"
  brcc_table :: "nat list"
  fbcc_table :: "nat list"
  shift_table :: "nat list"
  movcc_table :: "nat list"
  movfcc_table :: "nat list"
  movr_table :: "nat list"
  fpop1_table :: "nat list"
  fmovcc_table :: "nat list"
  fmovfcc_table :: "nat list"
  fmovr_table :: "nat list"
  fcmp_table :: "nat list"
  tcc_table :: "nat list"
  op2_table :: "nat list"
  op3_table :: "nat list"

type_synonym sparc_handler = "bool \<Rightarrow> s_asm_proc_sparc \<Rightarrow> u_int \<Rightarrow> asm_instr \<Rightarrow> asm_result"

lemmas sparc_operand_defs =
  asm_sparc_op_fetch_register_def asm_sparc_op_fetch_immediate_def asm_sparc_op_fetch_displacement_def
  asm_sparc_op_fetch_disp30_def asm_sparc_op_fetch_sethi_def asm_sparc_op_fetch_fregister_def
  asm_sparc_op_fetch_sregister_def asm_sparc_op_fetch_pregister_def asm_sparc_op_fetch_cc_def
  asm_sparc_op_fetch_imm_address_def asm_sparc_op_fetch_reg_address_def

lemma sparc_operand_vector_eq:
  "sparc_operand_vector = Some \<lparr>vhook = map HFun [2, 3, 4, 5, 6, 7, 8, 9, 10, 11, 12], default_func = 1,
     arraydims = [11], strdims = [''OPERAND''], arraysz = 1, vtype = 0\<rparr>"
  by code_simp

text \<open>The C type of the operand that each content has.\<close>

definition content_type :: "u_int \<Rightarrow> u_int" where
  "content_type ot =
     (if ot \<in> {ASM_SP_OTYPE_IMMEDIATE, ASM_SP_OTYPE_DISPLACEMENT, ASM_SP_OTYPE_DISP30, ASM_SP_OTYPE_SETHI} then ASM_OPTYPE_IMM
      else if ot \<in> {ASM_SP_OTYPE_IMM_ADDRESS, ASM_SP_OTYPE_REG_ADDRESS} then ASM_OPTYPE_MEM else ASM_OPTYPE_REG)"

lemma sparc_op_fetch_eq:
  assumes "ot < ASM_SP_OTYPE_NUM"
  shows "asm_sparc_op_fetch i ot ins =
    upd_op i set_op_name (stmts [set_content i ot, set_otype i (content_type ot)] ins)"
proof -
  have "unat ot < 11" using assms by (simp add: sparc_const word_less_nat_alt)
  then consider "ot = 0" | "ot = 1" | "ot = 2" | "ot = 3" | "ot = 4" | "ot = 5" | "ot = 6" | "ot = 7" | "ot = 8"
    | "ot = 9" | "ot = 10"
  proof -
    assume "unat ot < 11"
    then have "unat ot \<in> set [0..<11]" by simp
    then have "ot \<in> of_nat ` set [0..<11]" by (intro image_eqI [where x = "unat ot"]) simp_all
    then have "ot \<in> set (map of_nat [0..<11])" by simp
    then have "ot = 0 \<or> ot = 1 \<or> ot = 2 \<or> ot = 3 \<or> ot = 4 \<or> ot = 5 \<or> ot = 6 \<or> ot = 7 \<or> ot = 8 \<or> ot = 9 \<or> ot = 10"
      by (simp add: upt_rec)
    with that show thesis by blast
  qed
  then show ?thesis
    by cases (simp_all add: asm_sparc_op_fetch_def sparc_operand_vector_eq aspect_vectors_select_def
      sparc_operand_call_def sparc_operand_handlers_def sparc_operand_defs content_type_def sparc_const)
qed

end
