(* ===== verification/Sparc_Handlers1.thy ===== *)
theory Sparc_Handlers1
  imports Sparc_Format
begin

text \<open>
  The decoding handlers of \<open>libasm/src/arch/sparc/handlers\<close>, one file each, in alphabetical
  order (first half). Each translates its function statement by statement: \<open>synth\<close> is
  \<open>asm_config_get_synthinstr()\<close>, \<open>internals\<close> is \<open>proc->internals\<close> and \<open>buf\<close> the converted instruction
  word. The conversions of the word come first, as they do not touch \<open>*ins\<close>.
\<close>

definition asm_sparc_add :: sparc_handler where
  "asm_sparc_add synth internals buf =
     (let opcode = sparc_convert_format3 buf in run [
     instr_from (op2_table internals) (f3_op3 opcode),
     assigns [set_arith ASM_ARITH_ADD, set_type ASM_TYPE_ARITH, set_nb_op 3, set_baser 0 (f3_rd opcode),
       asm_sparc_op_fetch 0 ASM_SP_OTYPE_REGISTER, set_baser 2 (f3_rs1 opcode),
       asm_sparc_op_fetch 2 ASM_SP_OTYPE_REGISTER],
     (if f3_i opcode = 0 then
        assigns [set_baser 1 (f3_rs2 opcode), asm_sparc_op_fetch 1 ASM_SP_OTYPE_REGISTER]
      else
        assigns [set_imm 1 (f3_imm opcode), asm_sparc_op_fetch 1 ASM_SP_OTYPE_IMMEDIATE]),
     (if synth then
        test (\<lambda>ins. baser (op ins ! 0) = baser (op ins ! 2) \<and> ocontent (op ins ! 1) = ASM_SP_OTYPE_IMMEDIATE)
           (block [
             assigns [set_instr ASM_SP_INC],
             test (\<lambda>ins. imm (op ins ! 1) = 1)
                (assigns [set_nb_op 1])
                (assigns [set_nb_op 2])])
           (block [])
      else block []),
     return 4])"

definition asm_sparc_addc :: sparc_handler where
  "asm_sparc_addc synth internals buf =
     (let opcode = sparc_convert_format3 buf in run [
     instr_from (op2_table internals) (f3_op3 opcode),
     assigns [set_arith ASM_ARITH_ADD, set_type ASM_TYPE_ARITH, set_nb_op 3, set_baser 0 (f3_rd opcode),
       asm_sparc_op_fetch 0 ASM_SP_OTYPE_REGISTER, set_baser 2 (f3_rs1 opcode),
       asm_sparc_op_fetch 2 ASM_SP_OTYPE_REGISTER],
     (if f3_i opcode = 0 then
        assigns [set_baser 1 (f3_rs2 opcode), asm_sparc_op_fetch 1 ASM_SP_OTYPE_REGISTER]
      else
        assigns [set_imm 1 (f3_imm opcode), asm_sparc_op_fetch 1 ASM_SP_OTYPE_IMMEDIATE]),
     return 4])"

definition asm_sparc_addcc :: sparc_handler where
  "asm_sparc_addcc synth internals buf =
     (let opcode = sparc_convert_format3 buf in run [
     instr_from (op2_table internals) (f3_op3 opcode),
     assigns [set_arith ASM_ARITH_ADD, set_type (ASM_TYPE_ARITH OR ASM_TYPE_WRITEFLAG),
       set_flagswritten (ASM_SP_FLAG_C OR ASM_SP_FLAG_V OR ASM_SP_FLAG_Z OR ASM_SP_FLAG_N),
       set_nb_op 3, set_baser 0 (f3_rd opcode), asm_sparc_op_fetch 0 ASM_SP_OTYPE_REGISTER,
       set_baser 2 (f3_rs1 opcode), asm_sparc_op_fetch 2 ASM_SP_OTYPE_REGISTER],
     (if f3_i opcode = 0 then
        assigns [set_baser 1 (f3_rs2 opcode), asm_sparc_op_fetch 1 ASM_SP_OTYPE_REGISTER]
      else
        assigns [set_imm 1 (f3_imm opcode), asm_sparc_op_fetch 1 ASM_SP_OTYPE_IMMEDIATE]),
     (if synth then
        test (\<lambda>ins. baser (op ins ! 0) = baser (op ins ! 2) \<and> ocontent (op ins ! 1) = ASM_SP_OTYPE_IMMEDIATE)
           (block [
             assigns [set_instr ASM_SP_INCCC],
             test (\<lambda>ins. imm (op ins ! 1) = 1)
                (assigns [set_nb_op 1])
                (assigns [set_nb_op 2])])
           (block [])
      else block []),
     return 4])"

definition asm_sparc_addccc :: sparc_handler where
  "asm_sparc_addccc synth internals buf =
     (let opcode = sparc_convert_format3 buf in run [
     instr_from (op2_table internals) (f3_op3 opcode),
     assigns [set_arith ASM_ARITH_ADD, set_type (ASM_TYPE_ARITH OR ASM_TYPE_WRITEFLAG),
       set_flagswritten (ASM_SP_FLAG_C OR ASM_SP_FLAG_V OR ASM_SP_FLAG_Z OR ASM_SP_FLAG_N),
       set_nb_op 3, set_baser 0 (f3_rd opcode), asm_sparc_op_fetch 0 ASM_SP_OTYPE_REGISTER,
       set_baser 2 (f3_rs1 opcode), asm_sparc_op_fetch 2 ASM_SP_OTYPE_REGISTER],
     (if f3_i opcode = 0 then
        assigns [set_baser 1 (f3_rs2 opcode), asm_sparc_op_fetch 1 ASM_SP_OTYPE_REGISTER]
      else
        assigns [set_imm 1 (f3_imm opcode), asm_sparc_op_fetch 1 ASM_SP_OTYPE_IMMEDIATE]),
     return 4])"

definition asm_sparc_and :: sparc_handler where
  "asm_sparc_and synth internals buf =
     (let opcode = sparc_convert_format3 buf in run [
     instr_from (op2_table internals) (f3_op3 opcode),
     assigns [set_arith ASM_ARITH_AND, set_type ASM_TYPE_ARITH, set_nb_op 3, set_baser 0 (f3_rd opcode),
       asm_sparc_op_fetch 0 ASM_SP_OTYPE_REGISTER, set_baser 2 (f3_rs1 opcode),
       asm_sparc_op_fetch 2 ASM_SP_OTYPE_REGISTER],
     (if f3_i opcode = 0 then
        assigns [set_baser 1 (f3_rs2 opcode), asm_sparc_op_fetch 1 ASM_SP_OTYPE_REGISTER]
      else
        assigns [set_imm 1 (f3_imm opcode), asm_sparc_op_fetch 1 ASM_SP_OTYPE_IMMEDIATE]),
     return 4])"

definition asm_sparc_andcc :: sparc_handler where
  "asm_sparc_andcc synth internals buf =
     (let opcode = sparc_convert_format3 buf in run [
     instr_from (op2_table internals) (f3_op3 opcode),
     assigns [set_arith ASM_ARITH_AND, set_type (ASM_TYPE_ARITH OR ASM_TYPE_WRITEFLAG),
       set_flagswritten (ASM_SP_FLAG_C OR ASM_SP_FLAG_V OR ASM_SP_FLAG_Z OR ASM_SP_FLAG_N),
       set_nb_op 3, set_baser 0 (f3_rd opcode), asm_sparc_op_fetch 0 ASM_SP_OTYPE_REGISTER,
       set_baser 2 (f3_rs1 opcode), asm_sparc_op_fetch 2 ASM_SP_OTYPE_REGISTER],
     (if f3_i opcode = 0 then
        assigns [set_baser 1 (f3_rs2 opcode), asm_sparc_op_fetch 1 ASM_SP_OTYPE_REGISTER]
      else
        assigns [set_imm 1 (f3_imm opcode), asm_sparc_op_fetch 1 ASM_SP_OTYPE_IMMEDIATE]),
     (if synth then
        test (\<lambda>ins. baser (op ins ! 0) = ASM_REG_G0)
           (assigns [set_instr ASM_SP_BTST, set_nb_op 2, copy_op 0 2])
           (block [])
      else block []),
     return 4])"

definition asm_sparc_andn :: sparc_handler where
  "asm_sparc_andn synth internals buf =
     (let opcode = sparc_convert_format3 buf in run [
     instr_from (op2_table internals) (f3_op3 opcode),
     assigns [set_arith ASM_ARITH_AND, set_type ASM_TYPE_ARITH, set_nb_op 3, set_baser 0 (f3_rd opcode),
       asm_sparc_op_fetch 0 ASM_SP_OTYPE_REGISTER, set_baser 2 (f3_rs1 opcode),
       asm_sparc_op_fetch 2 ASM_SP_OTYPE_REGISTER],
     (if f3_i opcode = 0 then
        assigns [set_baser 1 (f3_rs2 opcode), asm_sparc_op_fetch 1 ASM_SP_OTYPE_REGISTER]
      else
        assigns [set_imm 1 (f3_imm opcode), asm_sparc_op_fetch 1 ASM_SP_OTYPE_IMMEDIATE]),
     (if synth then
        test (\<lambda>ins. baser (op ins ! 0) = baser (op ins ! 2))
           (assigns [set_instr ASM_SP_BCLR, set_nb_op 2])
           (block [])
      else block []),
     return 4])"

definition asm_sparc_andncc :: sparc_handler where
  "asm_sparc_andncc synth internals buf =
     (let opcode = sparc_convert_format3 buf in run [
     instr_from (op2_table internals) (f3_op3 opcode),
     assigns [set_arith (ASM_ARITH_AND OR ASM_ARITH_NOT), set_type (ASM_TYPE_ARITH OR ASM_TYPE_WRITEFLAG),
       set_flagswritten (ASM_SP_FLAG_C OR ASM_SP_FLAG_V OR ASM_SP_FLAG_Z OR ASM_SP_FLAG_N),
       set_nb_op 3, set_baser 0 (f3_rd opcode), asm_sparc_op_fetch 0 ASM_SP_OTYPE_REGISTER,
       set_baser 2 (f3_rs1 opcode), asm_sparc_op_fetch 2 ASM_SP_OTYPE_REGISTER],
     (if f3_i opcode = 0 then
        assigns [set_baser 1 (f3_rs2 opcode), asm_sparc_op_fetch 1 ASM_SP_OTYPE_REGISTER]
      else
        assigns [set_imm 1 (f3_imm opcode), asm_sparc_op_fetch 1 ASM_SP_OTYPE_IMMEDIATE]),
     return 4])"

definition asm_sparc_bicc :: sparc_handler where
  "asm_sparc_bicc synth internals buf =
     (let opcode = sparc_convert_branch buf in run [
     instr_from (bcc_table internals) (br_cond opcode),
     test (\<lambda>ins. instr ins = ASM_SP_BA)
        (assigns [set_type ASM_TYPE_BRANCH])
        (test (\<lambda>ins. instr ins = ASM_SP_BN)
           (assigns [set_type ASM_TYPE_NOP])
           (assigns [set_type (ASM_TYPE_BRANCH OR ASM_TYPE_CONDCONTROL)])),
     assigns [set_nb_op 1, set_imm 0 (br_imm opcode), set_annul (br_a opcode), set_prediction (1 :: u_int),
       asm_sparc_op_fetch 0 ASM_SP_OTYPE_DISPLACEMENT],
     return 4])"

definition asm_sparc_bpcc :: sparc_handler where
  "asm_sparc_bpcc synth internals buf =
     (let opcodep = sparc_convert_pbranch buf in run [
     instr_from (bcc_table internals) (pb_cond opcodep),
     test (\<lambda>ins. instr ins = ASM_SP_BA)
        (assigns [set_type ASM_TYPE_BRANCH])
        (test (\<lambda>ins. instr ins = ASM_SP_BN)
           (assigns [set_type ASM_TYPE_NOP])
           (assigns [set_type (ASM_TYPE_BRANCH OR ASM_TYPE_CONDCONTROL)])),
     assigns [set_nb_op 2, set_imm 0 (pb_imm opcodep), set_baser 1 (pb_cc opcodep + 4),
       set_annul (pb_a opcodep), set_prediction (pb_p opcodep),
       asm_sparc_op_fetch 0 ASM_SP_OTYPE_DISPLACEMENT, asm_sparc_op_fetch 1 ASM_SP_OTYPE_CC],
     test (\<lambda>ins. ((instr ins = ASM_SP_BN \<and> annul ins \<noteq> 0) \<and> prediction ins \<noteq> 0) \<and> baser (op ins ! 1) = ASM_SP_XCC)
        (assigns [set_instr ASM_SP_IPREFETCH, set_nb_op 1, set_type ASM_TYPE_NONE])
        (block []),
     return 4])"

definition asm_sparc_bpr :: sparc_handler where
  "asm_sparc_bpr synth internals buf =
     (let opcoder = sparc_convert_rbranch buf in run [
     instr_from (brcc_table internals) (rb_rcond opcoder),
     assigns [set_type (ASM_TYPE_BRANCH OR ASM_TYPE_CONDCONTROL), set_nb_op 2, set_imm 0 (rb_d16 opcoder),
       set_baser 1 (rb_rs1 opcoder), set_annul (rb_a opcoder), set_prediction (rb_p opcoder),
       asm_sparc_op_fetch 0 ASM_SP_OTYPE_DISPLACEMENT, asm_sparc_op_fetch 1 ASM_SP_OTYPE_REGISTER],
     return 4])"

definition asm_sparc_call :: sparc_handler where
  "asm_sparc_call synth internals buf =
     (let opcode = sparc_convert_call buf in run [
     assigns [set_ptr_instr Ptr_Local, set_instr ASM_SP_CALL, set_type ASM_TYPE_CALLPROC, set_nb_op 1,
       set_imm 0 (ca_displacement opcode), asm_sparc_op_fetch 0 ASM_SP_OTYPE_DISP30],
     return 4])"

definition asm_sparc_casa :: sparc_handler where
  "asm_sparc_casa synth internals buf =
     (let opcode = sparc_convert_format3 buf in run [
     instr_from (op3_table internals) (f3_op3 opcode),
     assigns [set_type (ASM_TYPE_LOAD OR ASM_TYPE_ASSIGN OR ASM_TYPE_COMPARISON OR ASM_TYPE_STORE),
       set_nb_op 3, set_baser 0 (f3_rd opcode), asm_sparc_op_fetch 0 ASM_SP_OTYPE_REGISTER,
       set_baser 1 (f3_rs2 opcode), asm_sparc_op_fetch 1 ASM_SP_OTYPE_REGISTER],
     (if f3_i opcode \<noteq> 0 then
        assigns [set_baser 2 (f3_rs1 opcode), set_imm 2 (0 :: u_int), set_address_space 2 (- 1 :: u_int),
          asm_sparc_op_fetch 2 ASM_SP_OTYPE_IMM_ADDRESS]
      else
        block [
          assigns [set_baser 2 (f3_rs1 opcode), set_indexr 2 (- 1 :: u_int), set_address_space 2 (f3_none opcode)],
          test (\<lambda>ins. address_space (op ins ! 2) = ASM_SP_ASI_P)
             (assigns [set_instr ASM_SP_CAS])
             (test (\<lambda>ins. address_space (op ins ! 2) = ASM_SP_ASI_P_L)
                (assigns [set_instr ASM_SP_CASL, set_address_space 2 ASM_SP_ASI_P])
                (block [])),
          assigns [asm_sparc_op_fetch 2 ASM_SP_OTYPE_REG_ADDRESS]]),
     return 4])"

definition asm_sparc_casxa :: sparc_handler where
  "asm_sparc_casxa synth internals buf =
     (let opcode = sparc_convert_format3 buf in run [
     instr_from (op3_table internals) (f3_op3 opcode),
     assigns [set_type (ASM_TYPE_LOAD OR ASM_TYPE_ASSIGN OR ASM_TYPE_COMPARISON OR ASM_TYPE_STORE),
       set_nb_op 3, set_baser 0 (f3_rd opcode), asm_sparc_op_fetch 0 ASM_SP_OTYPE_REGISTER,
       set_baser 1 (f3_rs2 opcode), asm_sparc_op_fetch 1 ASM_SP_OTYPE_REGISTER],
     (if f3_i opcode \<noteq> 0 then
        assigns [set_baser 2 (f3_rs1 opcode), set_imm 2 (0 :: u_int), set_address_space 2 (- 1 :: u_int),
          asm_sparc_op_fetch 2 ASM_SP_OTYPE_IMM_ADDRESS]
      else
        block [
          assigns [set_baser 2 (f3_rs1 opcode), set_indexr 2 (- 1 :: u_int), set_address_space 2 (f3_none opcode)],
          test (\<lambda>ins. address_space (op ins ! 2) = ASM_SP_ASI_P)
             (assigns [set_instr ASM_SP_CASX])
             (test (\<lambda>ins. address_space (op ins ! 2) = ASM_SP_ASI_P_L)
                (assigns [set_instr ASM_SP_CASXL, set_address_space 2 ASM_SP_ASI_P])
                (block [])),
          assigns [asm_sparc_op_fetch 2 ASM_SP_OTYPE_REG_ADDRESS]]),
     return 4])"

definition asm_sparc_done :: sparc_handler where
  "asm_sparc_done synth internals buf =
     (let opcode = sparc_convert_format3 buf in run [
     instr_from (op2_table internals) (f3_op3 opcode),
     assigns [set_type (ASM_TYPE_RETPROC OR ASM_TYPE_WRITEFLAG),
       set_flagswritten (ASM_SP_FLAG_C OR ASM_SP_FLAG_V OR ASM_SP_FLAG_Z OR ASM_SP_FLAG_N)],
     (if f3_rd opcode = 0 then
        assigns [set_instr ASM_SP_DONE]
      else if f3_rd opcode = 1 then
        assigns [set_instr ASM_SP_RETRY]
      else
        assigns [set_instr ASM_SP_BAD]),
     return 4])"

definition asm_sparc_fbfcc :: sparc_handler where
  "asm_sparc_fbfcc synth internals buf =
     (let opcode = sparc_convert_branch buf in run [
     instr_from (fbcc_table internals) (br_cond opcode),
     test (\<lambda>ins. instr ins = ASM_SP_FBA)
        (assigns [set_type ASM_TYPE_BRANCH])
        (test (\<lambda>ins. instr ins = ASM_SP_FBN)
           (assigns [set_type ASM_TYPE_NOP])
           (assigns [set_type (ASM_TYPE_BRANCH OR ASM_TYPE_CONDCONTROL)])),
     assigns [set_nb_op 1, set_imm 0 (br_imm opcode), set_annul (br_a opcode), set_prediction (1 :: u_int),
       asm_sparc_op_fetch 0 ASM_SP_OTYPE_DISPLACEMENT],
     return 4])"

definition asm_sparc_fbpfcc :: sparc_handler where
  "asm_sparc_fbpfcc synth internals buf =
     (let opcodep = sparc_convert_pbranch buf in run [
     instr_from (fbcc_table internals) (pb_cond opcodep),
     test (\<lambda>ins. instr ins = ASM_SP_FBA)
        (assigns [set_type ASM_TYPE_BRANCH])
        (test (\<lambda>ins. instr ins = ASM_SP_FBN)
           (assigns [set_type ASM_TYPE_NOP])
           (assigns [set_type (ASM_TYPE_BRANCH OR ASM_TYPE_CONDCONTROL)])),
     assigns [set_nb_op 2, set_imm 0 (pb_imm opcodep), set_baser 1 (pb_cc opcodep),
       set_annul (pb_a opcodep), set_prediction (pb_p opcodep),
       asm_sparc_op_fetch 0 ASM_SP_OTYPE_DISPLACEMENT, asm_sparc_op_fetch 1 ASM_SP_OTYPE_CC],
     return 4])"

definition asm_sparc_fcmpd :: sparc_handler where
  "asm_sparc_fcmpd synth internals buf =
     (let opcode = sparc_convert_format3 buf in run [
     instr_from (op2_table internals) (f3_op3 opcode),
     assigns [set_type (ASM_TYPE_COMPARISON OR ASM_TYPE_WRITEFLAG),
       set_flagswritten (push_bit (unat (f3_cc opcode)) ASM_SP_FLAG_FCC0)],
     instr_from (fcmp_table internals) ((f3_opf opcode AND 0x1f) - 16),
     assigns [set_nb_op 3,
       set_baser 0 (push_bit 5 ((ucast (f3_rs2 opcode) :: u_int) AND 1) OR ((ucast (f3_rs2 opcode) :: u_int) AND 0x1E)),
       asm_sparc_op_fetch 0 ASM_SP_OTYPE_FREGISTER,
       set_baser 1 (push_bit 5 ((ucast (f3_rs1 opcode) :: u_int) AND 1) OR ((ucast (f3_rs1 opcode) :: u_int) AND 0x1E)),
       asm_sparc_op_fetch 1 ASM_SP_OTYPE_FREGISTER, set_baser 2 (f3_cc opcode),
       asm_sparc_op_fetch 2 ASM_SP_OTYPE_CC],
     return 4])"

definition asm_sparc_fcmped :: sparc_handler where
  "asm_sparc_fcmped synth internals buf =
     (let opcode = sparc_convert_format3 buf in run [
     instr_from (op2_table internals) (f3_op3 opcode),
     assigns [set_type (ASM_TYPE_COMPARISON OR ASM_TYPE_WRITEFLAG),
       set_flagswritten (push_bit (unat (f3_cc opcode)) ASM_SP_FLAG_FCC0)],
     instr_from (fcmp_table internals) ((f3_opf opcode AND 0x1f) - 16),
     assigns [set_nb_op 3,
       set_baser 0 (push_bit 5 ((ucast (f3_rs2 opcode) :: u_int) AND 1) OR ((ucast (f3_rs2 opcode) :: u_int) AND 0x1E)),
       asm_sparc_op_fetch 0 ASM_SP_OTYPE_FREGISTER,
       set_baser 1 (push_bit 5 ((ucast (f3_rs1 opcode) :: u_int) AND 1) OR ((ucast (f3_rs1 opcode) :: u_int) AND 0x1E)),
       asm_sparc_op_fetch 1 ASM_SP_OTYPE_FREGISTER, set_baser 2 (f3_cc opcode),
       asm_sparc_op_fetch 2 ASM_SP_OTYPE_CC],
     return 4])"

definition asm_sparc_fcmpeq :: sparc_handler where
  "asm_sparc_fcmpeq synth internals buf =
     (let opcode = sparc_convert_format3 buf in run [
     instr_from (op2_table internals) (f3_op3 opcode),
     assigns [set_type (ASM_TYPE_COMPARISON OR ASM_TYPE_WRITEFLAG),
       set_flagswritten (push_bit (unat (f3_cc opcode)) ASM_SP_FLAG_FCC0)],
     instr_from (fcmp_table internals) ((f3_opf opcode AND 0x1f) - 16),
     assigns [set_nb_op 3,
       set_baser 0 (push_bit 5 ((ucast (f3_rs2 opcode) :: u_int) AND 1) OR ((ucast (f3_rs2 opcode) :: u_int) AND 0x1E)),
       asm_sparc_op_fetch 0 ASM_SP_OTYPE_FREGISTER,
       set_baser 1 (push_bit 5 ((ucast (f3_rs1 opcode) :: u_int) AND 1) OR ((ucast (f3_rs1 opcode) :: u_int) AND 0x1E)),
       asm_sparc_op_fetch 1 ASM_SP_OTYPE_FREGISTER, set_baser 2 (f3_cc opcode),
       asm_sparc_op_fetch 2 ASM_SP_OTYPE_CC],
     return 4])"

definition asm_sparc_fcmpes :: sparc_handler where
  "asm_sparc_fcmpes synth internals buf =
     (let opcode = sparc_convert_format3 buf in run [
     instr_from (op2_table internals) (f3_op3 opcode),
     assigns [set_type (ASM_TYPE_COMPARISON OR ASM_TYPE_WRITEFLAG),
       set_flagswritten (push_bit (unat (f3_cc opcode)) ASM_SP_FLAG_FCC0)],
     instr_from (fcmp_table internals) ((f3_opf opcode AND 0x1f) - 16),
     assigns [set_nb_op 3, set_baser 0 (f3_rs2 opcode), asm_sparc_op_fetch 0 ASM_SP_OTYPE_FREGISTER,
       set_baser 1 (f3_rs1 opcode), asm_sparc_op_fetch 1 ASM_SP_OTYPE_FREGISTER,
       set_baser 2 (f3_cc opcode), asm_sparc_op_fetch 2 ASM_SP_OTYPE_CC],
     return 4])"

definition asm_sparc_fcmpq :: sparc_handler where
  "asm_sparc_fcmpq synth internals buf =
     (let opcode = sparc_convert_format3 buf in run [
     instr_from (op2_table internals) (f3_op3 opcode),
     assigns [set_type (ASM_TYPE_COMPARISON OR ASM_TYPE_WRITEFLAG),
       set_flagswritten (push_bit (unat (f3_cc opcode)) ASM_SP_FLAG_FCC0)],
     instr_from (fcmp_table internals) ((f3_opf opcode AND 0x1f) - 16),
     assigns [set_nb_op 3,
       set_baser 0 (push_bit 5 ((ucast (f3_rs2 opcode) :: u_int) AND 1) OR ((ucast (f3_rs2 opcode) :: u_int) AND 0x1E)),
       asm_sparc_op_fetch 0 ASM_SP_OTYPE_FREGISTER,
       set_baser 1 (push_bit 5 ((ucast (f3_rs1 opcode) :: u_int) AND 1) OR ((ucast (f3_rs1 opcode) :: u_int) AND 0x1E)),
       asm_sparc_op_fetch 1 ASM_SP_OTYPE_FREGISTER, set_baser 2 (f3_cc opcode),
       asm_sparc_op_fetch 2 ASM_SP_OTYPE_CC],
     return 4])"

definition asm_sparc_fcmps :: sparc_handler where
  "asm_sparc_fcmps synth internals buf =
     (let opcode = sparc_convert_format3 buf in run [
     instr_from (op2_table internals) (f3_op3 opcode),
     assigns [set_type (ASM_TYPE_COMPARISON OR ASM_TYPE_WRITEFLAG),
       set_flagswritten (push_bit (unat (f3_cc opcode)) ASM_SP_FLAG_FCC0)],
     instr_from (fcmp_table internals) ((f3_opf opcode AND 0x1f) - 16),
     assigns [set_nb_op 3, set_baser 0 (f3_rs2 opcode), asm_sparc_op_fetch 0 ASM_SP_OTYPE_FREGISTER,
       set_baser 1 (f3_rs1 opcode), asm_sparc_op_fetch 1 ASM_SP_OTYPE_FREGISTER,
       set_baser 2 (f3_cc opcode), asm_sparc_op_fetch 2 ASM_SP_OTYPE_CC],
     return 4])"

definition asm_sparc_flush :: sparc_handler where
  "asm_sparc_flush synth internals buf =
     (let opcode = sparc_convert_format3 buf in run [
     instr_from (op2_table internals) (f3_op3 opcode),
     assigns [set_type ASM_TYPE_OTHER, set_nb_op 1],
     (if f3_i opcode \<noteq> 0 then
        assigns [set_baser 0 (f3_rs1 opcode), set_imm 0 (f3_imm opcode),
          asm_sparc_op_fetch 0 ASM_SP_OTYPE_IMM_ADDRESS]
      else
        assigns [set_baser 0 (f3_rs1 opcode), set_indexr 0 (f3_rs2 opcode),
          asm_sparc_op_fetch 0 ASM_SP_OTYPE_REG_ADDRESS]),
     return 4])"

definition asm_sparc_flushw :: sparc_handler where
  "asm_sparc_flushw synth internals buf =
     (let opcode = sparc_convert_format3 buf in run [
     assigns [set_type ASM_TYPE_OTHER],
     instr_from (op2_table internals) (f3_op3 opcode),
     return 4])"

definition asm_sparc_fmovdcc :: sparc_handler where
  "asm_sparc_fmovdcc synth internals buf =
     (let opcode = sparc_convert_format3 buf in run [
     assigns [set_type (ASM_TYPE_ASSIGN OR ASM_TYPE_READFLAG)],
     (if f3_opf_cc opcode < 4 then
        block [
          instr_from (fmovfcc_table internals) ((((f3_opf opcode AND 0x1f) - 1) * 8) + f3_cond opcode),
          assigns [set_flagsread (push_bit (unat (f3_opf_cc opcode)) ASM_SP_FLAG_FCC0)]]
      else if f3_opf_cc opcode = 4 \<or> f3_opf_cc opcode = 6 then
        block [
          instr_from (fmovcc_table internals) ((((f3_opf opcode AND 0x1f) - 1) * 8) + f3_cond opcode),
          assigns [set_flagsread (ASM_SP_FLAG_C OR ASM_SP_FLAG_V OR ASM_SP_FLAG_N OR ASM_SP_FLAG_Z)]]
      else
        block [
          assigns [set_instr ASM_SP_BAD],
          return 4]),
     assigns [set_nb_op 3,
       set_baser 0 (push_bit 5 ((ucast (f3_rd opcode) :: u_int) AND 1) OR ((ucast (f3_rd opcode) :: u_int) AND 0x1E)),
       asm_sparc_op_fetch 0 ASM_SP_OTYPE_FREGISTER,
       set_baser 1 (push_bit 5 ((ucast (f3_rs2 opcode) :: u_int) AND 1) OR ((ucast (f3_rs2 opcode) :: u_int) AND 0x1E)),
       asm_sparc_op_fetch 1 ASM_SP_OTYPE_FREGISTER, set_baser 2 (f3_opf_cc opcode),
       asm_sparc_op_fetch 2 ASM_SP_OTYPE_CC],
     return 4])"

definition asm_sparc_fmovdr :: sparc_handler where
  "asm_sparc_fmovdr synth internals buf =
     (let opcode = sparc_convert_format3 buf in run [
     assigns [set_type (ASM_TYPE_ASSIGN OR ASM_TYPE_COMPARISON)],
     instr_from (fmovr_table internals) ((((f3_opf opcode AND 0x1f) - 6) * 8) + f3_rcond opcode),
     assigns [set_nb_op 3,
       set_baser 0 (push_bit 5 ((ucast (f3_rd opcode) :: u_int) AND 1) OR ((ucast (f3_rd opcode) :: u_int) AND 0x1E)),
       asm_sparc_op_fetch 0 ASM_SP_OTYPE_FREGISTER,
       set_baser 1 (push_bit 5 ((ucast (f3_rs2 opcode) :: u_int) AND 1) OR ((ucast (f3_rs2 opcode) :: u_int) AND 0x1E)),
       asm_sparc_op_fetch 1 ASM_SP_OTYPE_FREGISTER, set_baser 2 (f3_rs1 opcode),
       asm_sparc_op_fetch 2 ASM_SP_OTYPE_REGISTER],
     return 4])"

definition asm_sparc_fmovqcc :: sparc_handler where
  "asm_sparc_fmovqcc synth internals buf =
     (let opcode = sparc_convert_format3 buf in run [
     assigns [set_type (ASM_TYPE_ASSIGN OR ASM_TYPE_READFLAG)],
     (if f3_opf_cc opcode < 4 then
        block [
          instr_from (fmovfcc_table internals) ((((f3_opf opcode AND 0x1f) - 1) * 8) + f3_cond opcode),
          assigns [set_flagsread (push_bit (unat (f3_opf_cc opcode)) ASM_SP_FLAG_FCC0)]]
      else if f3_opf_cc opcode = 4 \<or> f3_opf_cc opcode = 6 then
        block [
          instr_from (fmovcc_table internals) ((((f3_opf opcode AND 0x1f) - 1) * 8) + f3_cond opcode),
          assigns [set_flagsread (ASM_SP_FLAG_C OR ASM_SP_FLAG_V OR ASM_SP_FLAG_N OR ASM_SP_FLAG_Z)]]
      else
        block [
          assigns [set_instr ASM_SP_BAD],
          return 4]),
     assigns [set_nb_op 3,
       set_baser 0 (push_bit 5 ((ucast (f3_rd opcode) :: u_int) AND 1) OR ((ucast (f3_rd opcode) :: u_int) AND 0x1E)),
       asm_sparc_op_fetch 0 ASM_SP_OTYPE_FREGISTER,
       set_baser 1 (push_bit 5 ((ucast (f3_rs2 opcode) :: u_int) AND 1) OR ((ucast (f3_rs2 opcode) :: u_int) AND 0x1E)),
       asm_sparc_op_fetch 1 ASM_SP_OTYPE_FREGISTER, set_baser 2 (f3_opf_cc opcode),
       asm_sparc_op_fetch 2 ASM_SP_OTYPE_CC],
     return 4])"

definition asm_sparc_fmovqr :: sparc_handler where
  "asm_sparc_fmovqr synth internals buf =
     (let opcode = sparc_convert_format3 buf in run [
     assigns [set_type (ASM_TYPE_ASSIGN OR ASM_TYPE_COMPARISON)],
     instr_from (fmovr_table internals) ((((f3_opf opcode AND 0x1f) - 6) * 8) + f3_rcond opcode),
     assigns [set_nb_op 3,
       set_baser 0 (push_bit 5 ((ucast (f3_rd opcode) :: u_int) AND 1) OR ((ucast (f3_rd opcode) :: u_int) AND 0x1E)),
       asm_sparc_op_fetch 0 ASM_SP_OTYPE_FREGISTER,
       set_baser 1 (push_bit 5 ((ucast (f3_rs2 opcode) :: u_int) AND 1) OR ((ucast (f3_rs2 opcode) :: u_int) AND 0x1E)),
       asm_sparc_op_fetch 1 ASM_SP_OTYPE_FREGISTER, set_baser 2 (f3_rs1 opcode),
       asm_sparc_op_fetch 2 ASM_SP_OTYPE_REGISTER],
     return 4])"

definition asm_sparc_fmovscc :: sparc_handler where
  "asm_sparc_fmovscc synth internals buf =
     (let opcode = sparc_convert_format3 buf in run [
     assigns [set_type (ASM_TYPE_ASSIGN OR ASM_TYPE_READFLAG)],
     (if f3_opf_cc opcode < 4 then
        block [
          instr_from (fmovfcc_table internals) ((((f3_opf opcode AND 0x1f) - 1) * 8) + f3_cond opcode),
          assigns [set_flagsread (push_bit (unat (f3_opf_cc opcode)) ASM_SP_FLAG_FCC0)]]
      else if f3_opf_cc opcode = 4 \<or> f3_opf_cc opcode = 6 then
        block [
          instr_from (fmovcc_table internals) ((((f3_opf opcode AND 0x1f) - 1) * 8) + f3_cond opcode),
          assigns [set_flagsread (ASM_SP_FLAG_C OR ASM_SP_FLAG_V OR ASM_SP_FLAG_N OR ASM_SP_FLAG_Z)]]
      else
        block [
          assigns [set_instr ASM_SP_BAD],
          return 4]),
     assigns [set_nb_op 3, set_baser 0 (f3_rd opcode), asm_sparc_op_fetch 0 ASM_SP_OTYPE_FREGISTER,
       set_baser 1 (f3_rs2 opcode), asm_sparc_op_fetch 1 ASM_SP_OTYPE_FREGISTER,
       set_baser 2 (f3_opf_cc opcode), asm_sparc_op_fetch 2 ASM_SP_OTYPE_CC],
     return 4])"

definition asm_sparc_fmovsr :: sparc_handler where
  "asm_sparc_fmovsr synth internals buf =
     (let opcode = sparc_convert_format3 buf in run [
     assigns [set_type (ASM_TYPE_ASSIGN OR ASM_TYPE_COMPARISON)],
     instr_from (fmovr_table internals) ((((f3_opf opcode AND 0x1f) - 6) * 8) + f3_rcond opcode),
     assigns [set_nb_op 3, set_baser 0 (f3_rd opcode), asm_sparc_op_fetch 0 ASM_SP_OTYPE_FREGISTER,
       set_baser 1 (f3_rs2 opcode), asm_sparc_op_fetch 1 ASM_SP_OTYPE_FREGISTER,
       set_baser 2 (f3_rs1 opcode), asm_sparc_op_fetch 2 ASM_SP_OTYPE_REGISTER],
     return 4])"

definition asm_sparc_fpop1 :: sparc_handler where
  "asm_sparc_fpop1 synth internals buf =
     (let opcode = sparc_convert_format3 buf in run [
     instr_from (fpop1_table internals) (f3_opf opcode),
     (if f3_opf opcode < 0x40 \<or> f3_opf opcode \<ge> 0x70 then
        assigns [set_type ASM_TYPE_ASSIGN, set_nb_op 2]
      else
        assigns [set_type ASM_TYPE_ARITH, set_nb_op 3, set_baser 2 (f3_rs1 opcode),
          asm_sparc_op_fetch 2 ASM_SP_OTYPE_FREGISTER]),
     assigns [set_baser 0 (f3_rd opcode), asm_sparc_op_fetch 0 ASM_SP_OTYPE_FREGISTER,
       set_baser 1 (f3_rs2 opcode), asm_sparc_op_fetch 1 ASM_SP_OTYPE_FREGISTER],
     return 4])"

definition asm_sparc_illegal :: sparc_handler where
  "asm_sparc_illegal synth internals buf = run [
     assigns [set_instr ASM_SP_BAD, set_type ASM_TYPE_STOP],
     return 4]"

definition asm_sparc_illtrap :: sparc_handler where
  "asm_sparc_illtrap synth internals buf =
     (let opcode = sparc_convert_branch buf in run [
     assigns [set_type (ASM_TYPE_INT OR ASM_TYPE_STOP), set_instr ASM_SP_ILLTRAP, set_nb_op 1,
       set_imm 0 (br_immediate opcode), asm_sparc_op_fetch 0 ASM_SP_OTYPE_IMMEDIATE],
     return 4])"

definition asm_sparc_impdep1 :: sparc_handler where
  "asm_sparc_impdep1 synth internals buf =
     (let opcode = sparc_convert_format3 buf in run [
     assigns [set_type ASM_TYPE_ARCH],
     instr_from (op2_table internals) (f3_op3 opcode),
     return 4])"

definition asm_sparc_impdep2 :: sparc_handler where
  "asm_sparc_impdep2 synth internals buf =
     (let opcode = sparc_convert_format3 buf in run [
     assigns [set_type ASM_TYPE_ARCH],
     instr_from (op2_table internals) (f3_op3 opcode),
     return 4])"

definition asm_sparc_jmpl :: sparc_handler where
  "asm_sparc_jmpl synth internals buf =
     (let opcode = sparc_convert_format3 buf in run [
     instr_from (op2_table internals) (f3_op3 opcode),
     assigns [set_type ASM_TYPE_BRANCH, set_nb_op 2, set_baser 0 (f3_rd opcode),
       asm_sparc_op_fetch 0 ASM_SP_OTYPE_REGISTER],
     (if f3_i opcode \<noteq> 0 then
        assigns [set_baser 1 (f3_rs1 opcode), set_imm 1 (f3_imm opcode),
          asm_sparc_op_fetch 1 ASM_SP_OTYPE_IMM_ADDRESS]
      else
        assigns [set_baser 1 (f3_rs1 opcode), set_indexr 1 (f3_rs2 opcode),
          asm_sparc_op_fetch 1 ASM_SP_OTYPE_REG_ADDRESS]),
     test (\<lambda>ins. baser (op ins ! 0) = ASM_REG_O7)
        (assigns [set_nb_op 1, set_instr ASM_SP_CALL, set_type ASM_TYPE_CALLPROC, copy_op 0 1])
        (test (\<lambda>ins. baser (op ins ! 0) = ASM_REG_G0)
           (test (\<lambda>ins. (ocontent (op ins ! 1) = ASM_SP_OTYPE_IMM_ADDRESS \<and> baser (op ins ! 1) = ASM_REG_I7) \<and> imm (op ins ! 1) = 8)
              (assigns [set_instr ASM_SP_RET, set_type ASM_TYPE_RETPROC, set_nb_op 0])
              (test (\<lambda>ins. (ocontent (op ins ! 1) = ASM_SP_OTYPE_IMM_ADDRESS \<and> baser (op ins ! 1) = ASM_REG_O7) \<and> imm (op ins ! 1) = 8)
                 (assigns [set_instr ASM_SP_RETL, set_type ASM_TYPE_RETPROC, set_nb_op 0])
                 (assigns [set_instr ASM_SP_JMP, set_nb_op 1, copy_op 0 1])))
           (block [])),
     return 4])"

definition asm_sparc_ldd :: sparc_handler where
  "asm_sparc_ldd synth internals buf =
     (let opcode = sparc_convert_format3 buf in run [
     instr_from (op3_table internals) (f3_op3 opcode),
     assigns [set_type (ASM_TYPE_LOAD OR ASM_TYPE_ASSIGN), set_nb_op 2, set_baser 0 (f3_rd opcode),
       asm_sparc_op_fetch 0 ASM_SP_OTYPE_REGISTER],
     (if f3_i opcode \<noteq> 0 then
        assigns [set_baser 1 (f3_rs1 opcode), set_imm 1 (f3_imm opcode),
          asm_sparc_op_fetch 1 ASM_SP_OTYPE_IMM_ADDRESS]
      else
        assigns [set_baser 1 (f3_rs1 opcode), set_indexr 1 (f3_rs2 opcode),
          asm_sparc_op_fetch 1 ASM_SP_OTYPE_REG_ADDRESS]),
     return 4])"

definition asm_sparc_ldda :: sparc_handler where
  "asm_sparc_ldda synth internals buf =
     (let opcode = sparc_convert_format3 buf in run [
     instr_from (op3_table internals) (f3_op3 opcode),
     assigns [set_type (ASM_TYPE_LOAD OR ASM_TYPE_ASSIGN), set_nb_op 2, set_baser 0 (f3_rd opcode),
       asm_sparc_op_fetch 0 ASM_SP_OTYPE_REGISTER],
     (if f3_i opcode \<noteq> 0 then
        assigns [set_baser 1 (f3_rs1 opcode), set_imm 1 (f3_imm opcode), set_address_space 1 (- 1 :: u_int),
          asm_sparc_op_fetch 1 ASM_SP_OTYPE_IMM_ADDRESS]
      else
        assigns [set_baser 1 (f3_rs1 opcode), set_indexr 1 (f3_rs2 opcode),
          set_address_space 1 (f3_none opcode), asm_sparc_op_fetch 1 ASM_SP_OTYPE_REG_ADDRESS]),
     return 4])"

definition asm_sparc_lddf :: sparc_handler where
  "asm_sparc_lddf synth internals buf =
     (let opcode = sparc_convert_format3 buf in run [
     instr_from (op3_table internals) (f3_op3 opcode),
     assigns [set_type (ASM_TYPE_LOAD OR ASM_TYPE_ASSIGN), set_nb_op 2,
       set_baser 0 (push_bit 5 ((ucast (f3_rd opcode) :: u_int) AND 1) OR ((ucast (f3_rd opcode) :: u_int) AND 0x1E)),
       asm_sparc_op_fetch 0 ASM_SP_OTYPE_FREGISTER],
     (if f3_i opcode \<noteq> 0 then
        assigns [set_baser 1 (f3_rs1 opcode), set_imm 1 (f3_imm opcode),
          asm_sparc_op_fetch 1 ASM_SP_OTYPE_IMM_ADDRESS]
      else
        assigns [set_baser 1 (f3_rs1 opcode), set_indexr 1 (f3_rs2 opcode),
          asm_sparc_op_fetch 1 ASM_SP_OTYPE_REG_ADDRESS]),
     return 4])"

definition asm_sparc_lddfa :: sparc_handler where
  "asm_sparc_lddfa synth internals buf =
     (let opcode = sparc_convert_format3 buf in run [
     instr_from (op3_table internals) (f3_op3 opcode),
     assigns [set_type (ASM_TYPE_LOAD OR ASM_TYPE_ASSIGN), set_nb_op 2,
       set_baser 0 (push_bit 5 ((ucast (f3_rd opcode) :: u_int) AND 1) OR ((ucast (f3_rd opcode) :: u_int) AND 0x1E)),
       asm_sparc_op_fetch 0 ASM_SP_OTYPE_FREGISTER],
     (if f3_i opcode \<noteq> 0 then
        assigns [set_baser 1 (f3_rs1 opcode), set_imm 1 (f3_imm opcode), set_address_space 1 (- 1 :: u_int),
          asm_sparc_op_fetch 1 ASM_SP_OTYPE_IMM_ADDRESS]
      else
        assigns [set_baser 1 (f3_rs1 opcode), set_indexr 1 (f3_rs2 opcode),
          set_address_space 1 (f3_none opcode), asm_sparc_op_fetch 1 ASM_SP_OTYPE_REG_ADDRESS]),
     return 4])"

definition asm_sparc_ldf :: sparc_handler where
  "asm_sparc_ldf synth internals buf =
     (let opcode = sparc_convert_format3 buf in run [
     instr_from (op3_table internals) (f3_op3 opcode),
     assigns [set_type (ASM_TYPE_LOAD OR ASM_TYPE_ASSIGN), set_nb_op 2, set_baser 0 (f3_rd opcode),
       asm_sparc_op_fetch 0 ASM_SP_OTYPE_FREGISTER],
     (if f3_i opcode \<noteq> 0 then
        assigns [set_baser 1 (f3_rs1 opcode), set_imm 1 (f3_imm opcode),
          asm_sparc_op_fetch 1 ASM_SP_OTYPE_IMM_ADDRESS]
      else
        assigns [set_baser 1 (f3_rs1 opcode), set_indexr 1 (f3_rs2 opcode),
          asm_sparc_op_fetch 1 ASM_SP_OTYPE_REG_ADDRESS]),
     return 4])"

definition asm_sparc_ldfa :: sparc_handler where
  "asm_sparc_ldfa synth internals buf =
     (let opcode = sparc_convert_format3 buf in run [
     instr_from (op3_table internals) (f3_op3 opcode),
     assigns [set_type (ASM_TYPE_LOAD OR ASM_TYPE_ASSIGN), set_nb_op 2, set_baser 0 (f3_rd opcode),
       asm_sparc_op_fetch 0 ASM_SP_OTYPE_FREGISTER],
     (if f3_i opcode \<noteq> 0 then
        assigns [set_baser 1 (f3_rs1 opcode), set_imm 1 (f3_imm opcode), set_address_space 1 (- 1 :: u_int),
          asm_sparc_op_fetch 1 ASM_SP_OTYPE_IMM_ADDRESS]
      else
        assigns [set_baser 1 (f3_rs1 opcode), set_indexr 1 (f3_rs2 opcode),
          set_address_space 1 (f3_none opcode), asm_sparc_op_fetch 1 ASM_SP_OTYPE_REG_ADDRESS]),
     return 4])"

definition asm_sparc_ldfsr :: sparc_handler where
  "asm_sparc_ldfsr synth internals buf =
     (let opcode = sparc_convert_format3 buf in run [
     instr_from (op3_table internals) (f3_op3 opcode),
     assigns [set_type (ASM_TYPE_LOAD OR ASM_TYPE_ASSIGN)],
     (if f3_rd opcode = 0 then
        assigns [set_instr ASM_SP_LDFSR]
      else if f3_rd opcode = 1 then
        assigns [set_instr ASM_SP_LDXFSR]
      else
        block [
          assigns [set_instr ASM_SP_BAD],
          return 4]),
     assigns [set_nb_op 2, set_baser 0 ASM_FREG_FSR, asm_sparc_op_fetch 0 ASM_SP_OTYPE_FREGISTER],
     (if f3_i opcode \<noteq> 0 then
        assigns [set_baser 1 (f3_rs1 opcode), set_imm 1 (f3_imm opcode),
          asm_sparc_op_fetch 1 ASM_SP_OTYPE_IMM_ADDRESS]
      else
        assigns [set_baser 1 (f3_rs1 opcode), set_indexr 1 (f3_rs2 opcode),
          asm_sparc_op_fetch 1 ASM_SP_OTYPE_REG_ADDRESS]),
     return 4])"

definition asm_sparc_ldqf :: sparc_handler where
  "asm_sparc_ldqf synth internals buf =
     (let opcode = sparc_convert_format3 buf in run [
     instr_from (op3_table internals) (f3_op3 opcode),
     assigns [set_type (ASM_TYPE_LOAD OR ASM_TYPE_ASSIGN), set_nb_op 2,
       set_baser 0 (push_bit 5 ((ucast (f3_rd opcode) :: u_int) AND 1) OR ((ucast (f3_rd opcode) :: u_int) AND 0x1E)),
       asm_sparc_op_fetch 0 ASM_SP_OTYPE_FREGISTER],
     (if f3_i opcode \<noteq> 0 then
        assigns [set_baser 1 (f3_rs1 opcode), set_imm 1 (f3_imm opcode),
          asm_sparc_op_fetch 1 ASM_SP_OTYPE_IMM_ADDRESS]
      else
        assigns [set_baser 1 (f3_rs1 opcode), set_indexr 1 (f3_rs2 opcode),
          asm_sparc_op_fetch 1 ASM_SP_OTYPE_REG_ADDRESS]),
     return 4])"

definition asm_sparc_ldqfa :: sparc_handler where
  "asm_sparc_ldqfa synth internals buf =
     (let opcode = sparc_convert_format3 buf in run [
     instr_from (op3_table internals) (f3_op3 opcode),
     assigns [set_type (ASM_TYPE_LOAD OR ASM_TYPE_ASSIGN), set_nb_op 2,
       set_baser 0 (push_bit 5 ((ucast (f3_rd opcode) :: u_int) AND 1) OR ((ucast (f3_rd opcode) :: u_int) AND 0x1E)),
       asm_sparc_op_fetch 0 ASM_SP_OTYPE_FREGISTER],
     (if f3_i opcode \<noteq> 0 then
        assigns [set_baser 1 (f3_rs1 opcode), set_imm 1 (f3_imm opcode), set_address_space 1 (- 1 :: u_int),
          asm_sparc_op_fetch 1 ASM_SP_OTYPE_IMM_ADDRESS]
      else
        assigns [set_baser 1 (f3_rs1 opcode), set_indexr 1 (f3_rs2 opcode),
          set_address_space 1 (f3_none opcode), asm_sparc_op_fetch 1 ASM_SP_OTYPE_REG_ADDRESS]),
     return 4])"

definition asm_sparc_ldsb :: sparc_handler where
  "asm_sparc_ldsb synth internals buf =
     (let opcode = sparc_convert_format3 buf in run [
     instr_from (op3_table internals) (f3_op3 opcode),
     assigns [set_type (ASM_TYPE_LOAD OR ASM_TYPE_ASSIGN), set_nb_op 2, set_baser 0 (f3_rd opcode),
       asm_sparc_op_fetch 0 ASM_SP_OTYPE_REGISTER],
     (if f3_i opcode \<noteq> 0 then
        assigns [set_baser 1 (f3_rs1 opcode), set_imm 1 (f3_imm opcode),
          asm_sparc_op_fetch 1 ASM_SP_OTYPE_IMM_ADDRESS]
      else
        assigns [set_baser 1 (f3_rs1 opcode), set_indexr 1 (f3_rs2 opcode),
          asm_sparc_op_fetch 1 ASM_SP_OTYPE_REG_ADDRESS]),
     return 4])"

definition asm_sparc_ldsba :: sparc_handler where
  "asm_sparc_ldsba synth internals buf =
     (let opcode = sparc_convert_format3 buf in run [
     instr_from (op3_table internals) (f3_op3 opcode),
     assigns [set_type (ASM_TYPE_LOAD OR ASM_TYPE_ASSIGN), set_nb_op 2, set_baser 0 (f3_rd opcode),
       asm_sparc_op_fetch 0 ASM_SP_OTYPE_REGISTER],
     (if f3_i opcode \<noteq> 0 then
        assigns [set_baser 1 (f3_rs1 opcode), set_imm 1 (f3_imm opcode), set_address_space 1 (- 1 :: u_int),
          asm_sparc_op_fetch 1 ASM_SP_OTYPE_IMM_ADDRESS]
      else
        assigns [set_baser 1 (f3_rs1 opcode), set_indexr 1 (f3_rs2 opcode),
          set_address_space 1 (f3_none opcode), asm_sparc_op_fetch 1 ASM_SP_OTYPE_REG_ADDRESS]),
     return 4])"

definition asm_sparc_ldsh :: sparc_handler where
  "asm_sparc_ldsh synth internals buf =
     (let opcode = sparc_convert_format3 buf in run [
     instr_from (op3_table internals) (f3_op3 opcode),
     assigns [set_type (ASM_TYPE_LOAD OR ASM_TYPE_ASSIGN), set_nb_op 2, set_baser 0 (f3_rd opcode),
       asm_sparc_op_fetch 0 ASM_SP_OTYPE_REGISTER],
     (if f3_i opcode \<noteq> 0 then
        assigns [set_baser 1 (f3_rs1 opcode), set_imm 1 (f3_imm opcode),
          asm_sparc_op_fetch 1 ASM_SP_OTYPE_IMM_ADDRESS]
      else
        assigns [set_baser 1 (f3_rs1 opcode), set_indexr 1 (f3_rs2 opcode),
          asm_sparc_op_fetch 1 ASM_SP_OTYPE_REG_ADDRESS]),
     return 4])"

definition asm_sparc_ldsha :: sparc_handler where
  "asm_sparc_ldsha synth internals buf =
     (let opcode = sparc_convert_format3 buf in run [
     instr_from (op3_table internals) (f3_op3 opcode),
     assigns [set_type (ASM_TYPE_LOAD OR ASM_TYPE_ASSIGN), set_nb_op 2, set_baser 0 (f3_rd opcode),
       asm_sparc_op_fetch 0 ASM_SP_OTYPE_REGISTER],
     (if f3_i opcode \<noteq> 0 then
        assigns [set_baser 1 (f3_rs1 opcode), set_imm 1 (f3_imm opcode), set_address_space 1 (- 1 :: u_int),
          asm_sparc_op_fetch 1 ASM_SP_OTYPE_IMM_ADDRESS]
      else
        assigns [set_baser 1 (f3_rs1 opcode), set_indexr 1 (f3_rs2 opcode),
          set_address_space 1 (f3_none opcode), asm_sparc_op_fetch 1 ASM_SP_OTYPE_REG_ADDRESS]),
     return 4])"

definition asm_sparc_ldstub :: sparc_handler where
  "asm_sparc_ldstub synth internals buf =
     (let opcode = sparc_convert_format3 buf in run [
     instr_from (op3_table internals) (f3_op3 opcode),
     assigns [set_type (ASM_TYPE_LOAD OR ASM_TYPE_ASSIGN OR ASM_TYPE_STORE), set_nb_op 2,
       set_baser 0 (f3_rd opcode), asm_sparc_op_fetch 0 ASM_SP_OTYPE_REGISTER],
     (if f3_i opcode \<noteq> 0 then
        assigns [set_baser 1 (f3_rs1 opcode), set_imm 1 (f3_imm opcode),
          asm_sparc_op_fetch 1 ASM_SP_OTYPE_IMM_ADDRESS]
      else
        assigns [set_baser 1 (f3_rs1 opcode), set_indexr 1 (f3_rs2 opcode),
          asm_sparc_op_fetch 1 ASM_SP_OTYPE_REG_ADDRESS]),
     return 4])"

definition asm_sparc_ldstuba :: sparc_handler where
  "asm_sparc_ldstuba synth internals buf =
     (let opcode = sparc_convert_format3 buf in run [
     instr_from (op3_table internals) (f3_op3 opcode),
     assigns [set_type (ASM_TYPE_LOAD OR ASM_TYPE_ASSIGN OR ASM_TYPE_STORE), set_nb_op 2,
       set_baser 0 (f3_rd opcode), asm_sparc_op_fetch 0 ASM_SP_OTYPE_REGISTER],
     (if f3_i opcode \<noteq> 0 then
        assigns [set_baser 1 (f3_rs1 opcode), set_imm 1 (f3_imm opcode), set_address_space 1 (- 1 :: u_int),
          asm_sparc_op_fetch 1 ASM_SP_OTYPE_IMM_ADDRESS]
      else
        assigns [set_baser 1 (f3_rs1 opcode), set_indexr 1 (f3_rs2 opcode),
          set_address_space 1 (f3_none opcode), asm_sparc_op_fetch 1 ASM_SP_OTYPE_REG_ADDRESS]),
     return 4])"

definition asm_sparc_ldsw :: sparc_handler where
  "asm_sparc_ldsw synth internals buf =
     (let opcode = sparc_convert_format3 buf in run [
     instr_from (op3_table internals) (f3_op3 opcode),
     assigns [set_type (ASM_TYPE_LOAD OR ASM_TYPE_ASSIGN), set_nb_op 2, set_baser 0 (f3_rd opcode),
       asm_sparc_op_fetch 0 ASM_SP_OTYPE_REGISTER],
     (if f3_i opcode \<noteq> 0 then
        assigns [set_baser 1 (f3_rs1 opcode), set_imm 1 (f3_imm opcode),
          asm_sparc_op_fetch 1 ASM_SP_OTYPE_IMM_ADDRESS]
      else
        assigns [set_baser 1 (f3_rs1 opcode), set_indexr 1 (f3_rs2 opcode),
          asm_sparc_op_fetch 1 ASM_SP_OTYPE_REG_ADDRESS]),
     return 4])"

definition asm_sparc_ldswa :: sparc_handler where
  "asm_sparc_ldswa synth internals buf =
     (let opcode = sparc_convert_format3 buf in run [
     instr_from (op3_table internals) (f3_op3 opcode),
     assigns [set_type (ASM_TYPE_LOAD OR ASM_TYPE_ASSIGN), set_nb_op 2, set_baser 0 (f3_rd opcode),
       asm_sparc_op_fetch 0 ASM_SP_OTYPE_REGISTER],
     (if f3_i opcode \<noteq> 0 then
        assigns [set_baser 1 (f3_rs1 opcode), set_imm 1 (f3_imm opcode), set_address_space 1 (- 1 :: u_int),
          asm_sparc_op_fetch 1 ASM_SP_OTYPE_IMM_ADDRESS]
      else
        assigns [set_baser 1 (f3_rs1 opcode), set_indexr 1 (f3_rs2 opcode),
          set_address_space 1 (f3_none opcode), asm_sparc_op_fetch 1 ASM_SP_OTYPE_REG_ADDRESS]),
     return 4])"

definition asm_sparc_ldub :: sparc_handler where
  "asm_sparc_ldub synth internals buf =
     (let opcode = sparc_convert_format3 buf in run [
     instr_from (op3_table internals) (f3_op3 opcode),
     assigns [set_type (ASM_TYPE_LOAD OR ASM_TYPE_ASSIGN), set_nb_op 2, set_baser 0 (f3_rd opcode),
       asm_sparc_op_fetch 0 ASM_SP_OTYPE_REGISTER],
     (if f3_i opcode \<noteq> 0 then
        assigns [set_baser 1 (f3_rs1 opcode), set_imm 1 (f3_imm opcode),
          asm_sparc_op_fetch 1 ASM_SP_OTYPE_IMM_ADDRESS]
      else
        assigns [set_baser 1 (f3_rs1 opcode), set_indexr 1 (f3_rs2 opcode),
          asm_sparc_op_fetch 1 ASM_SP_OTYPE_REG_ADDRESS]),
     return 4])"

definition asm_sparc_lduba :: sparc_handler where
  "asm_sparc_lduba synth internals buf =
     (let opcode = sparc_convert_format3 buf in run [
     instr_from (op3_table internals) (f3_op3 opcode),
     assigns [set_type (ASM_TYPE_LOAD OR ASM_TYPE_ASSIGN), set_nb_op 2, set_baser 0 (f3_rd opcode),
       asm_sparc_op_fetch 0 ASM_SP_OTYPE_REGISTER],
     (if f3_i opcode \<noteq> 0 then
        assigns [set_baser 1 (f3_rs1 opcode), set_imm 1 (f3_imm opcode), set_address_space 1 (- 1 :: u_int),
          asm_sparc_op_fetch 1 ASM_SP_OTYPE_IMM_ADDRESS]
      else
        assigns [set_baser 1 (f3_rs1 opcode), set_indexr 1 (f3_rs2 opcode),
          set_address_space 1 (f3_none opcode), asm_sparc_op_fetch 1 ASM_SP_OTYPE_REG_ADDRESS]),
     return 4])"

definition asm_sparc_lduh :: sparc_handler where
  "asm_sparc_lduh synth internals buf =
     (let opcode = sparc_convert_format3 buf in run [
     instr_from (op3_table internals) (f3_op3 opcode),
     assigns [set_type (ASM_TYPE_LOAD OR ASM_TYPE_ASSIGN), set_nb_op 2, set_baser 0 (f3_rd opcode),
       asm_sparc_op_fetch 0 ASM_SP_OTYPE_REGISTER],
     (if f3_i opcode \<noteq> 0 then
        assigns [set_baser 1 (f3_rs1 opcode), set_imm 1 (f3_imm opcode),
          asm_sparc_op_fetch 1 ASM_SP_OTYPE_IMM_ADDRESS]
      else
        assigns [set_baser 1 (f3_rs1 opcode), set_indexr 1 (f3_rs2 opcode),
          asm_sparc_op_fetch 1 ASM_SP_OTYPE_REG_ADDRESS]),
     return 4])"

definition asm_sparc_lduha :: sparc_handler where
  "asm_sparc_lduha synth internals buf =
     (let opcode = sparc_convert_format3 buf in run [
     instr_from (op3_table internals) (f3_op3 opcode),
     assigns [set_type (ASM_TYPE_LOAD OR ASM_TYPE_ASSIGN), set_nb_op 2, set_baser 0 (f3_rd opcode),
       asm_sparc_op_fetch 0 ASM_SP_OTYPE_REGISTER],
     (if f3_i opcode \<noteq> 0 then
        assigns [set_baser 1 (f3_rs1 opcode), set_imm 1 (f3_imm opcode), set_address_space 1 (- 1 :: u_int),
          asm_sparc_op_fetch 1 ASM_SP_OTYPE_IMM_ADDRESS]
      else
        assigns [set_baser 1 (f3_rs1 opcode), set_indexr 1 (f3_rs2 opcode),
          set_address_space 1 (f3_none opcode), asm_sparc_op_fetch 1 ASM_SP_OTYPE_REG_ADDRESS]),
     return 4])"

definition asm_sparc_lduw :: sparc_handler where
  "asm_sparc_lduw synth internals buf =
     (let opcode = sparc_convert_format3 buf in run [
     instr_from (op3_table internals) (f3_op3 opcode),
     assigns [set_type (ASM_TYPE_LOAD OR ASM_TYPE_ASSIGN), set_nb_op 2, set_baser 0 (f3_rd opcode),
       asm_sparc_op_fetch 0 ASM_SP_OTYPE_REGISTER],
     (if f3_i opcode \<noteq> 0 then
        assigns [set_baser 1 (f3_rs1 opcode), set_imm 1 (f3_imm opcode),
          asm_sparc_op_fetch 1 ASM_SP_OTYPE_IMM_ADDRESS]
      else
        assigns [set_baser 1 (f3_rs1 opcode), set_indexr 1 (f3_rs2 opcode),
          asm_sparc_op_fetch 1 ASM_SP_OTYPE_REG_ADDRESS]),
     return 4])"

definition asm_sparc_lduwa :: sparc_handler where
  "asm_sparc_lduwa synth internals buf =
     (let opcode = sparc_convert_format3 buf in run [
     instr_from (op3_table internals) (f3_op3 opcode),
     assigns [set_type (ASM_TYPE_LOAD OR ASM_TYPE_ASSIGN), set_nb_op 2, set_baser 0 (f3_rd opcode),
       asm_sparc_op_fetch 0 ASM_SP_OTYPE_REGISTER],
     (if f3_i opcode \<noteq> 0 then
        assigns [set_baser 1 (f3_rs1 opcode), set_imm 1 (f3_imm opcode), set_address_space 1 (- 1 :: u_int),
          asm_sparc_op_fetch 1 ASM_SP_OTYPE_IMM_ADDRESS]
      else
        assigns [set_baser 1 (f3_rs1 opcode), set_indexr 1 (f3_rs2 opcode),
          set_address_space 1 (f3_none opcode), asm_sparc_op_fetch 1 ASM_SP_OTYPE_REG_ADDRESS]),
     return 4])"

definition asm_sparc_ldx :: sparc_handler where
  "asm_sparc_ldx synth internals buf =
     (let opcode = sparc_convert_format3 buf in run [
     instr_from (op3_table internals) (f3_op3 opcode),
     assigns [set_type (ASM_TYPE_LOAD OR ASM_TYPE_ASSIGN), set_nb_op 2, set_baser 0 (f3_rd opcode),
       asm_sparc_op_fetch 0 ASM_SP_OTYPE_REGISTER],
     (if f3_i opcode \<noteq> 0 then
        assigns [set_baser 1 (f3_rs1 opcode), set_imm 1 (f3_imm opcode),
          asm_sparc_op_fetch 1 ASM_SP_OTYPE_IMM_ADDRESS]
      else
        assigns [set_baser 1 (f3_rs1 opcode), set_indexr 1 (f3_rs2 opcode),
          asm_sparc_op_fetch 1 ASM_SP_OTYPE_REG_ADDRESS]),
     return 4])"

definition asm_sparc_ldxa :: sparc_handler where
  "asm_sparc_ldxa synth internals buf =
     (let opcode = sparc_convert_format3 buf in run [
     instr_from (op3_table internals) (f3_op3 opcode),
     assigns [set_type (ASM_TYPE_LOAD OR ASM_TYPE_ASSIGN), set_nb_op 2, set_baser 0 (f3_rd opcode),
       asm_sparc_op_fetch 0 ASM_SP_OTYPE_REGISTER],
     (if f3_i opcode \<noteq> 0 then
        assigns [set_baser 1 (f3_rs1 opcode), set_imm 1 (f3_imm opcode), set_address_space 1 (- 1 :: u_int),
          asm_sparc_op_fetch 1 ASM_SP_OTYPE_IMM_ADDRESS]
      else
        assigns [set_baser 1 (f3_rs1 opcode), set_indexr 1 (f3_rs2 opcode),
          set_address_space 1 (f3_none opcode), asm_sparc_op_fetch 1 ASM_SP_OTYPE_REG_ADDRESS]),
     return 4])"

definition asm_sparc_movcc :: sparc_handler where
  "asm_sparc_movcc synth internals buf =
     (let opcode = sparc_convert_format3 buf;
          opcode4 = sparc_convert_format4 buf in run [
     assigns [set_type (ASM_TYPE_ASSIGN OR ASM_TYPE_READFLAG)],
     (if f4_cc2 opcode4 = 0 then
        block [
          instr_from (movcc_table internals) (f4_cond opcode4),
          assigns [set_flagsread (push_bit (unat (f4_cc opcode4)) ASM_SP_FLAG_FCC0)]]
      else if f4_cc0 opcode4 = 0 then
        block [
          instr_from (movfcc_table internals) (f4_cond opcode4),
          assigns [set_flagsread (ASM_SP_FLAG_C OR ASM_SP_FLAG_V OR ASM_SP_FLAG_N OR ASM_SP_FLAG_Z)]]
      else
        block [
          assigns [set_instr ASM_SP_BAD],
          return 4]),
     assigns [set_nb_op 3, set_baser 0 (f4_rd opcode4), asm_sparc_op_fetch 0 ASM_SP_OTYPE_REGISTER,
       set_baser 2 (f4_cc opcode4), asm_sparc_op_fetch 2 ASM_SP_OTYPE_CC],
     (if f3_i opcode = 0 then
        assigns [set_baser 1 (f3_rs2 opcode), asm_sparc_op_fetch 1 ASM_SP_OTYPE_REGISTER]
      else
        assigns [set_imm 1 (f3_imm opcode), asm_sparc_op_fetch 1 ASM_SP_OTYPE_IMMEDIATE]),
     return 4])"

definition asm_sparc_movr :: sparc_handler where
  "asm_sparc_movr synth internals buf =
     (let opcode = sparc_convert_format3 buf in run [
     assigns [set_type ASM_TYPE_ASSIGN],
     instr_from (movr_table internals) (f3_rcond opcode),
     assigns [set_nb_op 3, set_baser 0 (f3_rd opcode), asm_sparc_op_fetch 0 ASM_SP_OTYPE_REGISTER,
       set_baser 2 (f3_rs1 opcode), asm_sparc_op_fetch 2 ASM_SP_OTYPE_REGISTER],
     (if f3_i opcode = 0 then
        assigns [set_baser 1 (f3_rs2 opcode), asm_sparc_op_fetch 1 ASM_SP_OTYPE_REGISTER]
      else
        assigns [set_imm 1 (f3_imm10 opcode), asm_sparc_op_fetch 1 ASM_SP_OTYPE_IMMEDIATE]),
     return 4])"

lemmas sparc_handlers1_defs =
  asm_sparc_add_def asm_sparc_addc_def asm_sparc_addcc_def asm_sparc_addccc_def
  asm_sparc_and_def asm_sparc_andcc_def asm_sparc_andn_def asm_sparc_andncc_def
  asm_sparc_bicc_def asm_sparc_bpcc_def asm_sparc_bpr_def asm_sparc_call_def
  asm_sparc_casa_def asm_sparc_casxa_def asm_sparc_done_def asm_sparc_fbfcc_def
  asm_sparc_fbpfcc_def asm_sparc_fcmpd_def asm_sparc_fcmped_def asm_sparc_fcmpeq_def
  asm_sparc_fcmpes_def asm_sparc_fcmpq_def asm_sparc_fcmps_def asm_sparc_flush_def
  asm_sparc_flushw_def asm_sparc_fmovdcc_def asm_sparc_fmovdr_def asm_sparc_fmovqcc_def
  asm_sparc_fmovqr_def asm_sparc_fmovscc_def asm_sparc_fmovsr_def asm_sparc_fpop1_def
  asm_sparc_illegal_def asm_sparc_illtrap_def asm_sparc_impdep1_def asm_sparc_impdep2_def
  asm_sparc_jmpl_def asm_sparc_ldd_def asm_sparc_ldda_def asm_sparc_lddf_def
  asm_sparc_lddfa_def asm_sparc_ldf_def asm_sparc_ldfa_def asm_sparc_ldfsr_def
  asm_sparc_ldqf_def asm_sparc_ldqfa_def asm_sparc_ldsb_def asm_sparc_ldsba_def
  asm_sparc_ldsh_def asm_sparc_ldsha_def asm_sparc_ldstub_def asm_sparc_ldstuba_def
  asm_sparc_ldsw_def asm_sparc_ldswa_def asm_sparc_ldub_def asm_sparc_lduba_def
  asm_sparc_lduh_def asm_sparc_lduha_def asm_sparc_lduw_def asm_sparc_lduwa_def
  asm_sparc_ldx_def asm_sparc_ldxa_def asm_sparc_movcc_def asm_sparc_movr_def

end
