(* ===== verification/Sparc_Handlers2.thy ===== *)
theory Sparc_Handlers2
  imports Sparc_Handlers1
begin

text \<open>
  The decoding handlers of \<open>libasm/src/arch/sparc/handlers\<close>, second half.
\<close>

definition asm_sparc_mulscc :: sparc_handler where
  "asm_sparc_mulscc synth internals buf =
     (let opcode = sparc_convert_format3 buf in run [
     instr_from (op2_table internals) (f3_op3 opcode),
     assigns [set_arith ASM_ARITH_MUL, set_type ASM_TYPE_ARITH, set_nb_op 3, set_baser 0 (f3_rd opcode),
       asm_sparc_op_fetch 0 ASM_SP_OTYPE_REGISTER, set_baser 2 (f3_rs1 opcode),
       asm_sparc_op_fetch 2 ASM_SP_OTYPE_REGISTER],
     (if f3_i opcode = 0 then
        assigns [set_baser 1 (f3_rs2 opcode), asm_sparc_op_fetch 1 ASM_SP_OTYPE_REGISTER]
      else
        assigns [set_imm 1 (f3_imm opcode), asm_sparc_op_fetch 1 ASM_SP_OTYPE_IMMEDIATE]),
     return 4])"

definition asm_sparc_mulx :: sparc_handler where
  "asm_sparc_mulx synth internals buf =
     (let opcode = sparc_convert_format3 buf in run [
     instr_from (op2_table internals) (f3_op3 opcode),
     assigns [set_arith ASM_ARITH_MUL, set_type ASM_TYPE_ARITH, set_nb_op 3, set_baser 0 (f3_rd opcode),
       asm_sparc_op_fetch 0 ASM_SP_OTYPE_REGISTER, set_baser 2 (f3_rs1 opcode),
       asm_sparc_op_fetch 2 ASM_SP_OTYPE_REGISTER],
     (if f3_i opcode = 0 then
        assigns [set_baser 1 (f3_rs2 opcode), asm_sparc_op_fetch 1 ASM_SP_OTYPE_REGISTER]
      else
        assigns [set_imm 1 (f3_imm opcode), asm_sparc_op_fetch 1 ASM_SP_OTYPE_IMMEDIATE]),
     return 4])"

definition asm_sparc_or :: sparc_handler where
  "asm_sparc_or synth internals buf =
     (let opcode = sparc_convert_format3 buf in run [
     instr_from (op2_table internals) (f3_op3 opcode),
     assigns [set_arith ASM_ARITH_OR, set_type ASM_TYPE_ARITH, set_nb_op 3, set_baser 0 (f3_rd opcode),
       asm_sparc_op_fetch 0 ASM_SP_OTYPE_REGISTER, set_baser 2 (f3_rs1 opcode),
       asm_sparc_op_fetch 2 ASM_SP_OTYPE_REGISTER],
     (if f3_i opcode = 0 then
        assigns [set_baser 1 (f3_rs2 opcode), asm_sparc_op_fetch 1 ASM_SP_OTYPE_REGISTER]
      else
        assigns [set_imm 1 (f3_imm opcode), asm_sparc_op_fetch 1 ASM_SP_OTYPE_IMMEDIATE]),
     (if synth then
        test (\<lambda>ins. baser (op ins ! 0) = baser (op ins ! 2))
           (assigns [set_instr ASM_SP_BSET, set_nb_op 2, set_type ASM_TYPE_BITSET])
           (test (\<lambda>ins. baser (op ins ! 2) = ASM_REG_G0)
              (test (\<lambda>ins. ocontent (op ins ! 1) = ASM_SP_OTYPE_REGISTER \<and> baser (op ins ! 1) = ASM_REG_G0)
                 (assigns [set_instr ASM_SP_CLR, set_nb_op 1])
                 (assigns [set_instr ASM_SP_MOV, set_nb_op 2, set_type ASM_TYPE_ASSIGN]))
              (block []))
      else block []),
     return 4])"

definition asm_sparc_orcc :: sparc_handler where
  "asm_sparc_orcc synth internals buf =
     (let opcode = sparc_convert_format3 buf in run [
     instr_from (op2_table internals) (f3_op3 opcode),
     assigns [set_arith ASM_ARITH_OR, set_type (ASM_TYPE_ARITH OR ASM_TYPE_WRITEFLAG),
       set_flagswritten (ASM_SP_FLAG_C OR ASM_SP_FLAG_V OR ASM_SP_FLAG_Z OR ASM_SP_FLAG_N),
       set_nb_op 3, set_baser 0 (f3_rd opcode), asm_sparc_op_fetch 0 ASM_SP_OTYPE_REGISTER,
       set_baser 2 (f3_rs1 opcode), asm_sparc_op_fetch 2 ASM_SP_OTYPE_REGISTER],
     (if f3_i opcode = 0 then
        assigns [set_baser 1 (f3_rs2 opcode), asm_sparc_op_fetch 1 ASM_SP_OTYPE_REGISTER]
      else
        assigns [set_imm 1 (f3_imm opcode), asm_sparc_op_fetch 1 ASM_SP_OTYPE_IMMEDIATE]),
     test (\<lambda>ins. (baser (op ins ! 0) = ASM_REG_G0 \<and> ocontent (op ins ! 1) = ASM_SP_OTYPE_REGISTER) \<and> baser (op ins ! 2) = ASM_REG_G0)
        (assigns [set_instr ASM_SP_TST, set_type (ASM_TYPE_COMPARISON OR ASM_TYPE_WRITEFLAG), set_nb_op 1,
          copy_op 0 1])
        (block []),
     return 4])"

definition asm_sparc_orn :: sparc_handler where
  "asm_sparc_orn synth internals buf =
     (let opcode = sparc_convert_format3 buf in run [
     instr_from (op2_table internals) (f3_op3 opcode),
     assigns [set_type ASM_TYPE_LOAD, set_nb_op 3, set_baser 0 (f3_rd opcode),
       asm_sparc_op_fetch 0 ASM_SP_OTYPE_REGISTER, set_baser 2 (f3_rs1 opcode),
       asm_sparc_op_fetch 2 ASM_SP_OTYPE_REGISTER],
     (if f3_i opcode = 0 then
        assigns [set_baser 1 (f3_rs2 opcode), asm_sparc_op_fetch 1 ASM_SP_OTYPE_REGISTER]
      else
        assigns [set_imm 1 (f3_imm opcode), asm_sparc_op_fetch 1 ASM_SP_OTYPE_IMMEDIATE]),
     return 4])"

definition asm_sparc_orncc :: sparc_handler where
  "asm_sparc_orncc synth internals buf =
     (let opcode = sparc_convert_format3 buf in run [
     instr_from (op2_table internals) (f3_op3 opcode),
     assigns [set_arith (ASM_ARITH_OR OR ASM_ARITH_NOT), set_type (ASM_TYPE_ARITH OR ASM_TYPE_WRITEFLAG),
       set_flagswritten (ASM_SP_FLAG_C OR ASM_SP_FLAG_V OR ASM_SP_FLAG_Z OR ASM_SP_FLAG_N),
       set_nb_op 3, set_baser 0 (f3_rd opcode), asm_sparc_op_fetch 0 ASM_SP_OTYPE_REGISTER,
       set_baser 2 (f3_rs1 opcode), asm_sparc_op_fetch 2 ASM_SP_OTYPE_REGISTER],
     (if f3_i opcode = 0 then
        assigns [set_baser 1 (f3_rs2 opcode), asm_sparc_op_fetch 1 ASM_SP_OTYPE_REGISTER]
      else
        assigns [set_imm 1 (f3_imm opcode), asm_sparc_op_fetch 1 ASM_SP_OTYPE_IMMEDIATE]),
     return 4])"

definition asm_sparc_popc :: sparc_handler where
  "asm_sparc_popc synth internals buf =
     (let opcode = sparc_convert_format3 buf in run [
     instr_from (op2_table internals) (f3_op3 opcode),
     assigns [set_type ASM_TYPE_ASSIGN],
     (if f3_rs1 opcode = 0 then
        block [
          assigns [set_instr ASM_SP_POPC, set_nb_op 2, set_baser 0 (f3_rd opcode),
            asm_sparc_op_fetch 0 ASM_SP_OTYPE_REGISTER],
          (if f3_i opcode = 0 then
             assigns [set_baser 1 (f3_rs2 opcode), asm_sparc_op_fetch 1 ASM_SP_OTYPE_REGISTER]
           else
             assigns [set_imm 1 (f3_imm opcode), asm_sparc_op_fetch 1 ASM_SP_OTYPE_IMMEDIATE])]
      else
        assigns [set_instr ASM_SP_BAD]),
     return 4])"

definition asm_sparc_prefetch :: sparc_handler where
  "asm_sparc_prefetch synth internals buf =
     (let opcode = sparc_convert_format3 buf in run [
     instr_from (op3_table internals) (f3_op3 opcode),
     assigns [set_type ASM_TYPE_LOAD, set_nb_op 2, set_imm 0 (f3_rd opcode),
       asm_sparc_op_fetch 0 ASM_SP_OTYPE_IMMEDIATE],
     (if f3_i opcode \<noteq> 0 then
        assigns [set_baser 1 (f3_rs1 opcode), set_imm 1 (f3_imm opcode),
          asm_sparc_op_fetch 1 ASM_SP_OTYPE_IMM_ADDRESS]
      else
        assigns [set_baser 1 (f3_rs1 opcode), set_indexr 1 (f3_rs2 opcode),
          asm_sparc_op_fetch 1 ASM_SP_OTYPE_REG_ADDRESS]),
     return 4])"

definition asm_sparc_prefetcha :: sparc_handler where
  "asm_sparc_prefetcha synth internals buf =
     (let opcode = sparc_convert_format3 buf in run [
     instr_from (op3_table internals) (f3_op3 opcode),
     assigns [set_type ASM_TYPE_LOAD, set_nb_op 2, set_imm 0 (f3_rd opcode),
       asm_sparc_op_fetch 0 ASM_SP_OTYPE_IMMEDIATE],
     (if f3_i opcode \<noteq> 0 then
        assigns [set_baser 1 (f3_rs1 opcode), set_imm 1 (f3_imm opcode), set_address_space 1 (- 1 :: u_int),
          asm_sparc_op_fetch 1 ASM_SP_OTYPE_IMM_ADDRESS]
      else
        assigns [set_baser 1 (f3_rs1 opcode), set_indexr 1 (f3_rs2 opcode),
          set_address_space 1 (f3_none opcode), asm_sparc_op_fetch 1 ASM_SP_OTYPE_REG_ADDRESS]),
     return 4])"

definition asm_sparc_rd :: sparc_handler where
  "asm_sparc_rd synth internals buf =
     (let opcode = sparc_convert_format3 buf in run [
     instr_from (op2_table internals) (f3_op3 opcode),
     assigns [set_type ASM_TYPE_ASSIGN],
     (if f3_rs1 opcode \<noteq> 15 then
        block [
          assigns [set_nb_op 2, set_baser 0 (f3_rd opcode), asm_sparc_op_fetch 0 ASM_SP_OTYPE_REGISTER,
            set_baser 1 (f3_rs1 opcode), asm_sparc_op_fetch 1 ASM_SP_OTYPE_SREGISTER],
          test (\<lambda>ins. baser (op ins ! 0) = ASM_SREG_Y)
             (assigns [set_instr ASM_SP_MOV])
             (block [])]
      else if f3_rd opcode \<noteq> 0 then
        assigns [set_instr ASM_SP_BAD]
      else if f3_i opcode = 0 then
        assigns [set_type ASM_TYPE_OTHER, set_instr ASM_SP_STBAR]
      else if f3_i opcode = 1 then
        assigns [set_instr ASM_SP_MEMBAR, set_type ASM_TYPE_OTHER, set_nb_op 1,
          set_imm 0 (drop_bit 4 (f3_imm opcode AND 0x70) OR (f3_imm opcode AND 0xf)),
          asm_sparc_op_fetch 0 ASM_SP_OTYPE_IMMEDIATE]
      else block []),
     return 4])"

definition asm_sparc_rdpr :: sparc_handler where
  "asm_sparc_rdpr synth internals buf =
     (let opcode = sparc_convert_format3 buf in run [
     instr_from (op2_table internals) (f3_op3 opcode),
     assigns [set_type ASM_TYPE_ASSIGN],
     (if (ucast (f3_rs1 opcode) :: u_int) < ASM_PREG_BAD16 \<or> (ucast (f3_rs1 opcode) :: u_int) > ASM_PREG_BAD30 then
        assigns [set_nb_op 2, set_baser 0 (f3_rd opcode), asm_sparc_op_fetch 0 ASM_SP_OTYPE_REGISTER,
          set_baser 1 (f3_rs1 opcode), asm_sparc_op_fetch 1 ASM_SP_OTYPE_PREGISTER]
      else
        assigns [set_instr ASM_SP_BAD]),
     return 4])"

definition asm_sparc_restore :: sparc_handler where
  "asm_sparc_restore synth internals buf =
     (let opcode = sparc_convert_format3 buf in run [
     instr_from (op2_table internals) (f3_op3 opcode),
     assigns [set_type ASM_TYPE_EPILOG, set_nb_op 3, set_baser 0 (f3_rd opcode),
       asm_sparc_op_fetch 0 ASM_SP_OTYPE_REGISTER, set_baser 2 (f3_rs1 opcode),
       asm_sparc_op_fetch 2 ASM_SP_OTYPE_REGISTER],
     (if f3_i opcode = 0 then
        assigns [set_baser 1 (f3_rs2 opcode), asm_sparc_op_fetch 1 ASM_SP_OTYPE_REGISTER]
      else
        assigns [set_imm 1 (f3_imm opcode), asm_sparc_op_fetch 1 ASM_SP_OTYPE_IMMEDIATE]),
     return 4])"

definition asm_sparc_return :: sparc_handler where
  "asm_sparc_return synth internals buf =
     (let opcode = sparc_convert_format3 buf in run [
     instr_from (op2_table internals) (f3_op3 opcode),
     assigns [set_type ASM_TYPE_RETPROC, set_nb_op 1],
     (if f3_i opcode \<noteq> 0 then
        assigns [set_baser 0 (f3_rs1 opcode), set_imm 0 (f3_imm opcode),
          asm_sparc_op_fetch 0 ASM_SP_OTYPE_IMM_ADDRESS]
      else
        assigns [set_baser 0 (f3_rs1 opcode), set_indexr 0 (f3_rs2 opcode),
          asm_sparc_op_fetch 0 ASM_SP_OTYPE_REG_ADDRESS]),
     return 4])"

definition asm_sparc_save :: sparc_handler where
  "asm_sparc_save synth internals buf =
     (let opcode = sparc_convert_format3 buf in run [
     instr_from (op2_table internals) (f3_op3 opcode),
     assigns [set_type ASM_TYPE_PROLOG, set_nb_op 3, set_baser 0 (f3_rd opcode),
       asm_sparc_op_fetch 0 ASM_SP_OTYPE_REGISTER, set_baser 2 (f3_rs1 opcode),
       asm_sparc_op_fetch 2 ASM_SP_OTYPE_REGISTER],
     (if f3_i opcode = 0 then
        assigns [set_baser 1 (f3_rs2 opcode), asm_sparc_op_fetch 1 ASM_SP_OTYPE_REGISTER]
      else
        assigns [set_imm 1 (f3_imm opcode), asm_sparc_op_fetch 1 ASM_SP_OTYPE_IMMEDIATE]),
     return 4])"

definition asm_sparc_saved :: sparc_handler where
  "asm_sparc_saved synth internals buf =
     (let opcode = sparc_convert_format3 buf in run [
     instr_from (op2_table internals) (f3_op3 opcode),
     assigns [set_type ASM_TYPE_PROLOG],
     (if f3_rd opcode = 0 then
        assigns [set_instr ASM_SP_SAVED]
      else if f3_rd opcode = 1 then
        assigns [set_instr ASM_SP_RESTORED]
      else
        assigns [set_instr ASM_SP_BAD]),
     return 4])"

definition asm_sparc_sdiv :: sparc_handler where
  "asm_sparc_sdiv synth internals buf =
     (let opcode = sparc_convert_format3 buf in run [
     instr_from (op2_table internals) (f3_op3 opcode),
     assigns [set_arith ASM_ARITH_DIV, set_type ASM_TYPE_ARITH, set_nb_op 3, set_baser 0 (f3_rd opcode),
       asm_sparc_op_fetch 0 ASM_SP_OTYPE_REGISTER, set_baser 2 (f3_rs1 opcode),
       asm_sparc_op_fetch 2 ASM_SP_OTYPE_REGISTER],
     (if f3_i opcode = 0 then
        assigns [set_baser 1 (f3_rs2 opcode), asm_sparc_op_fetch 1 ASM_SP_OTYPE_REGISTER]
      else
        assigns [set_imm 1 (f3_imm opcode), asm_sparc_op_fetch 1 ASM_SP_OTYPE_IMMEDIATE]),
     return 4])"

definition asm_sparc_sdivcc :: sparc_handler where
  "asm_sparc_sdivcc synth internals buf =
     (let opcode = sparc_convert_format3 buf in run [
     instr_from (op2_table internals) (f3_op3 opcode),
     assigns [set_arith ASM_ARITH_DIV, set_type (ASM_TYPE_ARITH OR ASM_TYPE_WRITEFLAG),
       set_flagswritten (ASM_SP_FLAG_C OR ASM_SP_FLAG_V OR ASM_SP_FLAG_Z OR ASM_SP_FLAG_N),
       set_nb_op 3, set_baser 0 (f3_rd opcode), asm_sparc_op_fetch 0 ASM_SP_OTYPE_REGISTER,
       set_baser 2 (f3_rs1 opcode), asm_sparc_op_fetch 2 ASM_SP_OTYPE_REGISTER],
     (if f3_i opcode = 0 then
        assigns [set_baser 1 (f3_rs2 opcode), asm_sparc_op_fetch 1 ASM_SP_OTYPE_REGISTER]
      else
        assigns [set_imm 1 (f3_imm opcode), asm_sparc_op_fetch 1 ASM_SP_OTYPE_IMMEDIATE]),
     return 4])"

definition asm_sparc_sdivx :: sparc_handler where
  "asm_sparc_sdivx synth internals buf =
     (let opcode = sparc_convert_format3 buf in run [
     instr_from (op2_table internals) (f3_op3 opcode),
     assigns [set_arith ASM_ARITH_DIV, set_type ASM_TYPE_ARITH, set_nb_op 3, set_baser 0 (f3_rd opcode),
       asm_sparc_op_fetch 0 ASM_SP_OTYPE_REGISTER, set_baser 2 (f3_rs1 opcode),
       asm_sparc_op_fetch 2 ASM_SP_OTYPE_REGISTER],
     (if f3_i opcode = 0 then
        assigns [set_baser 1 (f3_rs2 opcode), asm_sparc_op_fetch 1 ASM_SP_OTYPE_REGISTER]
      else
        assigns [set_imm 1 (f3_imm opcode), asm_sparc_op_fetch 1 ASM_SP_OTYPE_IMMEDIATE]),
     return 4])"

definition asm_sparc_sethi :: sparc_handler where
  "asm_sparc_sethi synth internals buf =
     (let opcode = sparc_convert_branch buf in run [
     assigns [set_type ASM_TYPE_ASSIGN],
     (if br_rd opcode = 0 \<and> br_imm opcode = 0 then
        assigns [set_instr ASM_SP_NOP, set_type ASM_TYPE_NOP, set_nb_op 0]
      else
        assigns [set_instr ASM_SP_SETHI, set_nb_op 2, set_baser 0 (br_rd opcode),
          asm_sparc_op_fetch 0 ASM_SP_OTYPE_REGISTER, set_imm 1 (br_imm opcode),
          asm_sparc_op_fetch 1 ASM_SP_OTYPE_SETHI]),
     return 4])"

definition asm_sparc_sll :: sparc_handler where
  "asm_sparc_sll synth internals buf =
     (let opcode = sparc_convert_format3 buf in run [
     assigns [set_arith ASM_ARITH_SL, set_type ASM_TYPE_ARITH],
     instr_from (shift_table internals) (((ucast (f3_op3 opcode) :: u_int) - 0x25) + (if (f3_imm opcode AND 0x1000) \<noteq> 0 then 1 else 0)),
     assigns [set_nb_op 3, set_baser 0 (f3_rd opcode), asm_sparc_op_fetch 0 ASM_SP_OTYPE_REGISTER,
       set_baser 2 (f3_rs1 opcode), asm_sparc_op_fetch 2 ASM_SP_OTYPE_REGISTER],
     (if f3_i opcode = 0 then
        assigns [set_baser 1 (f3_rs2 opcode), asm_sparc_op_fetch 1 ASM_SP_OTYPE_REGISTER]
      else
        assigns [set_imm 1 (f3_shcnt opcode), asm_sparc_op_fetch 1 ASM_SP_OTYPE_IMMEDIATE]),
     return 4])"

definition asm_sparc_smul :: sparc_handler where
  "asm_sparc_smul synth internals buf =
     (let opcode = sparc_convert_format3 buf in run [
     instr_from (op2_table internals) (f3_op3 opcode),
     assigns [set_arith ASM_ARITH_MUL, set_type ASM_TYPE_ARITH, set_nb_op 3, set_baser 0 (f3_rd opcode),
       asm_sparc_op_fetch 0 ASM_SP_OTYPE_REGISTER, set_baser 2 (f3_rs1 opcode),
       asm_sparc_op_fetch 2 ASM_SP_OTYPE_REGISTER],
     (if f3_i opcode = 0 then
        assigns [set_baser 1 (f3_rs2 opcode), asm_sparc_op_fetch 1 ASM_SP_OTYPE_REGISTER]
      else
        assigns [set_imm 1 (f3_imm opcode), asm_sparc_op_fetch 1 ASM_SP_OTYPE_IMMEDIATE]),
     return 4])"

definition asm_sparc_smulcc :: sparc_handler where
  "asm_sparc_smulcc synth internals buf =
     (let opcode = sparc_convert_format3 buf in run [
     instr_from (op2_table internals) (f3_op3 opcode),
     assigns [set_arith ASM_ARITH_MUL, set_type (ASM_TYPE_ARITH OR ASM_TYPE_WRITEFLAG),
       set_flagswritten (ASM_SP_FLAG_C OR ASM_SP_FLAG_V OR ASM_SP_FLAG_Z OR ASM_SP_FLAG_N),
       set_nb_op 3, set_baser 0 (f3_rd opcode), asm_sparc_op_fetch 0 ASM_SP_OTYPE_REGISTER,
       set_baser 2 (f3_rs1 opcode), asm_sparc_op_fetch 2 ASM_SP_OTYPE_REGISTER],
     (if f3_i opcode = 0 then
        assigns [set_baser 1 (f3_rs2 opcode), asm_sparc_op_fetch 1 ASM_SP_OTYPE_REGISTER]
      else
        assigns [set_imm 1 (f3_imm opcode), asm_sparc_op_fetch 1 ASM_SP_OTYPE_IMMEDIATE]),
     return 4])"

definition asm_sparc_sra :: sparc_handler where
  "asm_sparc_sra synth internals buf =
     (let opcode = sparc_convert_format3 buf in run [
     assigns [set_arith ASM_ARITH_SR, set_type ASM_TYPE_ARITH],
     instr_from (shift_table internals) (((ucast (f3_op3 opcode) :: u_int) - 0x25) + (if (f3_imm opcode AND 0x1000) \<noteq> 0 then 1 else 0)),
     assigns [set_nb_op 3, set_baser 0 (f3_rd opcode), asm_sparc_op_fetch 0 ASM_SP_OTYPE_REGISTER,
       set_baser 2 (f3_rs1 opcode), asm_sparc_op_fetch 2 ASM_SP_OTYPE_REGISTER],
     (if f3_i opcode = 0 then
        assigns [set_baser 1 (f3_rs2 opcode), asm_sparc_op_fetch 1 ASM_SP_OTYPE_REGISTER]
      else
        assigns [set_imm 1 (f3_shcnt opcode), asm_sparc_op_fetch 1 ASM_SP_OTYPE_IMMEDIATE]),
     test (\<lambda>ins. ocontent (op ins ! 1) = ASM_SP_OTYPE_REGISTER \<and> baser (op ins ! 1) = ASM_REG_G0)
        (block [
          assigns [set_instr ASM_SP_SIGNX],
          test (\<lambda>ins. baser (op ins ! 2) = baser (op ins ! 0))
             (assigns [set_nb_op 1])
             (assigns [set_nb_op 2, copy_op 1 2])])
        (block []),
     return 4])"

definition asm_sparc_srl :: sparc_handler where
  "asm_sparc_srl synth internals buf =
     (let opcode = sparc_convert_format3 buf in run [
     assigns [set_type ASM_TYPE_ARITH, set_arith ASM_ARITH_SL],
     instr_from (shift_table internals) (((ucast (f3_op3 opcode) :: u_int) - 0x25) + (if (f3_imm opcode AND 0x1000) \<noteq> 0 then 1 else 0)),
     assigns [set_nb_op 3, set_baser 0 (f3_rd opcode), asm_sparc_op_fetch 0 ASM_SP_OTYPE_REGISTER,
       set_baser 2 (f3_rs1 opcode), asm_sparc_op_fetch 2 ASM_SP_OTYPE_REGISTER],
     (if f3_i opcode = 0 then
        assigns [set_baser 1 (f3_rs2 opcode), asm_sparc_op_fetch 1 ASM_SP_OTYPE_REGISTER]
      else
        assigns [set_imm 1 (f3_shcnt opcode), asm_sparc_op_fetch 1 ASM_SP_OTYPE_IMMEDIATE]),
     test (\<lambda>ins. ocontent (op ins ! 1) = ASM_SP_OTYPE_REGISTER \<and> baser (op ins ! 1) = ASM_REG_G0)
        (block [
          assigns [set_instr ASM_SP_CLRUW],
          test (\<lambda>ins. baser (op ins ! 2) = baser (op ins ! 0))
             (assigns [set_nb_op 1])
             (assigns [set_nb_op 2, copy_op 1 2])])
        (block []),
     return 4])"

definition asm_sparc_stb :: sparc_handler where
  "asm_sparc_stb synth internals buf =
     (let opcode = sparc_convert_format3 buf in run [
     instr_from (op3_table internals) (f3_op3 opcode),
     assigns [set_type (ASM_TYPE_STORE OR ASM_TYPE_ASSIGN), set_nb_op 2],
     (if f3_i opcode \<noteq> 0 then
        assigns [set_baser 0 (f3_rs1 opcode), set_imm 0 (f3_imm opcode),
          asm_sparc_op_fetch 0 ASM_SP_OTYPE_IMM_ADDRESS]
      else
        assigns [set_baser 0 (f3_rs1 opcode), set_indexr 0 (f3_rs2 opcode),
          asm_sparc_op_fetch 0 ASM_SP_OTYPE_REG_ADDRESS]),
     assigns [set_baser 1 (f3_rd opcode), asm_sparc_op_fetch 1 ASM_SP_OTYPE_REGISTER],
     (if synth then
        test (\<lambda>ins. baser (op ins ! 1) = ASM_REG_G0)
           (assigns [set_instr ASM_SP_CLRB, set_nb_op 1])
           (block [])
      else block []),
     return 4])"

definition asm_sparc_stba :: sparc_handler where
  "asm_sparc_stba synth internals buf =
     (let opcode = sparc_convert_format3 buf in run [
     instr_from (op3_table internals) (f3_op3 opcode),
     assigns [set_type (ASM_TYPE_STORE OR ASM_TYPE_ASSIGN), set_nb_op 2],
     (if f3_i opcode \<noteq> 0 then
        assigns [set_baser 0 (f3_rs1 opcode), set_imm 0 (f3_imm opcode), set_address_space 0 (- 1 :: u_int),
          asm_sparc_op_fetch 0 ASM_SP_OTYPE_IMM_ADDRESS]
      else
        assigns [set_baser 0 (f3_rs1 opcode), set_indexr 0 (f3_rs2 opcode),
          set_address_space 0 (f3_none opcode), asm_sparc_op_fetch 0 ASM_SP_OTYPE_REG_ADDRESS]),
     assigns [set_baser 1 (f3_rd opcode), asm_sparc_op_fetch 1 ASM_SP_OTYPE_REGISTER],
     return 4])"

definition asm_sparc_std :: sparc_handler where
  "asm_sparc_std synth internals buf =
     (let opcode = sparc_convert_format3 buf in run [
     instr_from (op3_table internals) (f3_op3 opcode),
     assigns [set_type (ASM_TYPE_STORE OR ASM_TYPE_ASSIGN), set_nb_op 2],
     (if f3_i opcode \<noteq> 0 then
        assigns [set_baser 0 (f3_rs1 opcode), set_imm 0 (f3_imm opcode),
          asm_sparc_op_fetch 0 ASM_SP_OTYPE_IMM_ADDRESS]
      else
        assigns [set_baser 0 (f3_rs1 opcode), set_indexr 0 (f3_rs2 opcode),
          asm_sparc_op_fetch 0 ASM_SP_OTYPE_REG_ADDRESS]),
     assigns [set_baser 1 (f3_rd opcode), asm_sparc_op_fetch 1 ASM_SP_OTYPE_REGISTER],
     (if synth then
        test (\<lambda>ins. instr ins = ASM_SP_STB \<and> baser (op ins ! 1) = ASM_REG_G0)
           (assigns [set_instr ASM_SP_CLRB, set_nb_op 1])
           (test (\<lambda>ins. instr ins = ASM_SP_STH \<and> baser (op ins ! 1) = ASM_REG_G0)
              (assigns [set_instr ASM_SP_CLRH, set_nb_op 1])
              (test (\<lambda>ins. instr ins = ASM_SP_STW \<and> baser (op ins ! 1) = ASM_REG_G0)
                 (assigns [set_instr ASM_SP_CLR, set_nb_op 1])
                 (test (\<lambda>ins. instr ins = ASM_SP_STX \<and> baser (op ins ! 1) = ASM_REG_G0)
                    (assigns [set_instr ASM_SP_CLRX, set_nb_op 1])
                    (block []))))
      else block []),
     return 4])"

definition asm_sparc_stda :: sparc_handler where
  "asm_sparc_stda synth internals buf =
     (let opcode = sparc_convert_format3 buf in run [
     instr_from (op3_table internals) (f3_op3 opcode),
     assigns [set_type (ASM_TYPE_STORE OR ASM_TYPE_ASSIGN), set_nb_op 2],
     (if f3_i opcode \<noteq> 0 then
        assigns [set_baser 0 (f3_rs1 opcode), set_imm 0 (f3_imm opcode), set_address_space 0 (- 1 :: u_int),
          asm_sparc_op_fetch 0 ASM_SP_OTYPE_IMM_ADDRESS]
      else
        assigns [set_baser 0 (f3_rs1 opcode), set_indexr 0 (f3_rs2 opcode),
          set_address_space 0 (f3_none opcode), asm_sparc_op_fetch 0 ASM_SP_OTYPE_REG_ADDRESS]),
     assigns [set_baser 1 (f3_rd opcode), asm_sparc_op_fetch 1 ASM_SP_OTYPE_REGISTER],
     return 4])"

definition asm_sparc_stdf :: sparc_handler where
  "asm_sparc_stdf synth internals buf =
     (let opcode = sparc_convert_format3 buf in run [
     instr_from (op3_table internals) (f3_op3 opcode),
     assigns [set_type (ASM_TYPE_STORE OR ASM_TYPE_ASSIGN), set_nb_op 2],
     (if f3_i opcode \<noteq> 0 then
        assigns [set_baser 0 (f3_rs1 opcode), set_imm 0 (f3_imm opcode),
          asm_sparc_op_fetch 0 ASM_SP_OTYPE_IMM_ADDRESS]
      else
        assigns [set_baser 0 (f3_rs1 opcode), set_indexr 0 (f3_rs2 opcode),
          asm_sparc_op_fetch 0 ASM_SP_OTYPE_REG_ADDRESS]),
     assigns [
       set_baser 1 (push_bit 5 ((ucast (f3_rd opcode) :: u_int) AND 1) OR ((ucast (f3_rd opcode) :: u_int) AND 0x1E)),
       asm_sparc_op_fetch 1 ASM_SP_OTYPE_FREGISTER],
     return 4])"

definition asm_sparc_stdfa :: sparc_handler where
  "asm_sparc_stdfa synth internals buf =
     (let opcode = sparc_convert_format3 buf in run [
     instr_from (op3_table internals) (f3_op3 opcode),
     assigns [set_type (ASM_TYPE_STORE OR ASM_TYPE_ASSIGN), set_nb_op 2],
     (if f3_i opcode \<noteq> 0 then
        assigns [set_baser 0 (f3_rs1 opcode), set_imm 0 (f3_imm opcode), set_address_space 0 (- 1 :: u_int),
          asm_sparc_op_fetch 0 ASM_SP_OTYPE_IMM_ADDRESS]
      else
        assigns [set_baser 0 (f3_rs1 opcode), set_indexr 0 (f3_rs2 opcode),
          set_address_space 0 (f3_none opcode), asm_sparc_op_fetch 0 ASM_SP_OTYPE_REG_ADDRESS]),
     assigns [
       set_baser 1 (push_bit 5 ((ucast (f3_rd opcode) :: u_int) AND 1) OR ((ucast (f3_rd opcode) :: u_int) AND 0x1E)),
       asm_sparc_op_fetch 1 ASM_SP_OTYPE_FREGISTER],
     return 4])"

definition asm_sparc_stf :: sparc_handler where
  "asm_sparc_stf synth internals buf =
     (let opcode = sparc_convert_format3 buf in run [
     instr_from (op3_table internals) (f3_op3 opcode),
     assigns [set_type (ASM_TYPE_STORE OR ASM_TYPE_ASSIGN), set_nb_op 2],
     (if f3_i opcode \<noteq> 0 then
        assigns [set_baser 0 (f3_rs1 opcode), set_imm 0 (f3_imm opcode),
          asm_sparc_op_fetch 0 ASM_SP_OTYPE_IMM_ADDRESS]
      else
        assigns [set_baser 0 (f3_rs1 opcode), set_indexr 0 (f3_rs2 opcode),
          asm_sparc_op_fetch 0 ASM_SP_OTYPE_REG_ADDRESS]),
     assigns [set_baser 1 (f3_rd opcode), asm_sparc_op_fetch 1 ASM_SP_OTYPE_FREGISTER],
     return 4])"

definition asm_sparc_stfa :: sparc_handler where
  "asm_sparc_stfa synth internals buf =
     (let opcode = sparc_convert_format3 buf in run [
     instr_from (op3_table internals) (f3_op3 opcode),
     assigns [set_type (ASM_TYPE_STORE OR ASM_TYPE_ASSIGN), set_nb_op 2],
     (if f3_i opcode \<noteq> 0 then
        assigns [set_baser 0 (f3_rs1 opcode), set_imm 0 (f3_imm opcode), set_address_space 0 (- 1 :: u_int),
          asm_sparc_op_fetch 0 ASM_SP_OTYPE_IMM_ADDRESS]
      else
        assigns [set_baser 0 (f3_rs1 opcode), set_indexr 0 (f3_rs2 opcode),
          set_address_space 0 (f3_none opcode), asm_sparc_op_fetch 0 ASM_SP_OTYPE_REG_ADDRESS]),
     assigns [set_baser 1 (f3_rd opcode), asm_sparc_op_fetch 1 ASM_SP_OTYPE_FREGISTER],
     return 4])"

definition asm_sparc_stfsr :: sparc_handler where
  "asm_sparc_stfsr synth internals buf =
     (let opcode = sparc_convert_format3 buf in run [
     instr_from (op3_table internals) (f3_op3 opcode),
     assigns [set_type (ASM_TYPE_STORE OR ASM_TYPE_ASSIGN)],
     (if f3_rd opcode = 0 then
        assigns [set_instr ASM_SP_LDFSR]
      else if f3_rd opcode = 1 then
        assigns [set_instr ASM_SP_LDXFSR]
      else
        block [
          assigns [set_instr ASM_SP_BAD],
          return 4]),
     assigns [set_nb_op 2],
     (if f3_i opcode \<noteq> 0 then
        assigns [set_baser 0 (f3_rs1 opcode), set_imm 0 (f3_imm opcode),
          asm_sparc_op_fetch 0 ASM_SP_OTYPE_IMM_ADDRESS]
      else
        assigns [set_baser 0 (f3_rs1 opcode), set_indexr 0 (f3_rs2 opcode),
          asm_sparc_op_fetch 0 ASM_SP_OTYPE_REG_ADDRESS]),
     assigns [set_baser 1 ASM_FREG_FSR, asm_sparc_op_fetch 1 ASM_SP_OTYPE_FREGISTER],
     return 4])"

definition asm_sparc_sth :: sparc_handler where
  "asm_sparc_sth synth internals buf =
     (let opcode = sparc_convert_format3 buf in run [
     instr_from (op3_table internals) (f3_op3 opcode),
     assigns [set_type (ASM_TYPE_STORE OR ASM_TYPE_ASSIGN), set_nb_op 2],
     (if f3_i opcode \<noteq> 0 then
        assigns [set_baser 0 (f3_rs1 opcode), set_imm 0 (f3_imm opcode),
          asm_sparc_op_fetch 0 ASM_SP_OTYPE_IMM_ADDRESS]
      else
        assigns [set_baser 0 (f3_rs1 opcode), set_indexr 0 (f3_rs2 opcode),
          asm_sparc_op_fetch 0 ASM_SP_OTYPE_REG_ADDRESS]),
     assigns [set_baser 1 (f3_rd opcode), asm_sparc_op_fetch 1 ASM_SP_OTYPE_REGISTER],
     (if synth then
        test (\<lambda>ins. baser (op ins ! 1) = ASM_REG_G0)
           (assigns [set_instr ASM_SP_CLRH, set_nb_op 1])
           (block [])
      else block []),
     return 4])"

definition asm_sparc_stha :: sparc_handler where
  "asm_sparc_stha synth internals buf =
     (let opcode = sparc_convert_format3 buf in run [
     instr_from (op3_table internals) (f3_op3 opcode),
     assigns [set_type (ASM_TYPE_STORE OR ASM_TYPE_ASSIGN), set_nb_op 2],
     (if f3_i opcode \<noteq> 0 then
        assigns [set_baser 0 (f3_rs1 opcode), set_imm 0 (f3_imm opcode), set_address_space 0 (- 1 :: u_int),
          asm_sparc_op_fetch 0 ASM_SP_OTYPE_IMM_ADDRESS]
      else
        assigns [set_baser 0 (f3_rs1 opcode), set_indexr 0 (f3_rs2 opcode),
          set_address_space 0 (f3_none opcode), asm_sparc_op_fetch 0 ASM_SP_OTYPE_REG_ADDRESS]),
     assigns [set_baser 1 (f3_rd opcode), asm_sparc_op_fetch 1 ASM_SP_OTYPE_REGISTER],
     return 4])"

definition asm_sparc_stqf :: sparc_handler where
  "asm_sparc_stqf synth internals buf =
     (let opcode = sparc_convert_format3 buf in run [
     instr_from (op3_table internals) (f3_op3 opcode),
     assigns [set_type (ASM_TYPE_STORE OR ASM_TYPE_ASSIGN), set_nb_op 2],
     (if f3_i opcode \<noteq> 0 then
        assigns [set_baser 0 (f3_rs1 opcode), set_imm 0 (f3_imm opcode),
          asm_sparc_op_fetch 0 ASM_SP_OTYPE_IMM_ADDRESS]
      else
        assigns [set_baser 0 (f3_rs1 opcode), set_indexr 0 (f3_rs2 opcode),
          asm_sparc_op_fetch 0 ASM_SP_OTYPE_REG_ADDRESS]),
     assigns [
       set_baser 1 (push_bit 5 ((ucast (f3_rd opcode) :: u_int) AND 1) OR ((ucast (f3_rd opcode) :: u_int) AND 0x1E)),
       asm_sparc_op_fetch 1 ASM_SP_OTYPE_FREGISTER],
     return 4])"

definition asm_sparc_stqfa :: sparc_handler where
  "asm_sparc_stqfa synth internals buf =
     (let opcode = sparc_convert_format3 buf in run [
     instr_from (op3_table internals) (f3_op3 opcode),
     assigns [set_type (ASM_TYPE_STORE OR ASM_TYPE_ASSIGN), set_nb_op 2],
     (if f3_i opcode \<noteq> 0 then
        assigns [set_baser 0 (f3_rs1 opcode), set_imm 0 (f3_imm opcode), set_address_space 0 (- 1 :: u_int),
          asm_sparc_op_fetch 0 ASM_SP_OTYPE_IMM_ADDRESS]
      else
        assigns [set_baser 0 (f3_rs1 opcode), set_indexr 0 (f3_rs2 opcode),
          set_address_space 0 (f3_none opcode), asm_sparc_op_fetch 0 ASM_SP_OTYPE_REG_ADDRESS]),
     assigns [
       set_baser 1 (push_bit 5 ((ucast (f3_rd opcode) :: u_int) AND 1) OR ((ucast (f3_rd opcode) :: u_int) AND 0x1E)),
       asm_sparc_op_fetch 1 ASM_SP_OTYPE_FREGISTER],
     return 4])"

definition asm_sparc_stw :: sparc_handler where
  "asm_sparc_stw synth internals buf =
     (let opcode = sparc_convert_format3 buf in run [
     instr_from (op3_table internals) (f3_op3 opcode),
     assigns [set_type (ASM_TYPE_STORE OR ASM_TYPE_ASSIGN), set_nb_op 2],
     (if f3_i opcode \<noteq> 0 then
        assigns [set_baser 0 (f3_rs1 opcode), set_imm 0 (f3_imm opcode),
          asm_sparc_op_fetch 0 ASM_SP_OTYPE_IMM_ADDRESS]
      else
        assigns [set_baser 0 (f3_rs1 opcode), set_indexr 0 (f3_rs2 opcode),
          asm_sparc_op_fetch 0 ASM_SP_OTYPE_REG_ADDRESS]),
     assigns [set_baser 1 (f3_rd opcode), asm_sparc_op_fetch 1 ASM_SP_OTYPE_REGISTER],
     (if synth then
        test (\<lambda>ins. baser (op ins ! 1) = ASM_REG_G0)
           (assigns [set_instr ASM_SP_CLR, set_nb_op 1])
           (block [])
      else block []),
     return 4])"

definition asm_sparc_stwa :: sparc_handler where
  "asm_sparc_stwa synth internals buf =
     (let opcode = sparc_convert_format3 buf in run [
     instr_from (op3_table internals) (f3_op3 opcode),
     assigns [set_type (ASM_TYPE_STORE OR ASM_TYPE_ASSIGN), set_nb_op 2],
     (if f3_i opcode \<noteq> 0 then
        assigns [set_baser 0 (f3_rs1 opcode), set_imm 0 (f3_imm opcode), set_address_space 0 (- 1 :: u_int),
          asm_sparc_op_fetch 0 ASM_SP_OTYPE_IMM_ADDRESS]
      else
        assigns [set_baser 0 (f3_rs1 opcode), set_indexr 0 (f3_rs2 opcode),
          set_address_space 0 (f3_none opcode), asm_sparc_op_fetch 0 ASM_SP_OTYPE_REG_ADDRESS]),
     assigns [set_baser 1 (f3_rd opcode), asm_sparc_op_fetch 1 ASM_SP_OTYPE_REGISTER],
     return 4])"

definition asm_sparc_stx :: sparc_handler where
  "asm_sparc_stx synth internals buf =
     (let opcode = sparc_convert_format3 buf in run [
     instr_from (op3_table internals) (f3_op3 opcode),
     assigns [set_type (ASM_TYPE_STORE OR ASM_TYPE_ASSIGN), set_nb_op 2],
     (if f3_i opcode \<noteq> 0 then
        assigns [set_baser 0 (f3_rs1 opcode), set_imm 0 (f3_imm opcode),
          asm_sparc_op_fetch 0 ASM_SP_OTYPE_IMM_ADDRESS]
      else
        assigns [set_baser 0 (f3_rs1 opcode), set_indexr 0 (f3_rs2 opcode),
          asm_sparc_op_fetch 0 ASM_SP_OTYPE_REG_ADDRESS]),
     assigns [set_baser 1 (f3_rd opcode), asm_sparc_op_fetch 1 ASM_SP_OTYPE_REGISTER],
     (if synth then
        test (\<lambda>ins. baser (op ins ! 1) = ASM_REG_G0)
           (assigns [set_instr ASM_SP_CLRX, set_nb_op 1])
           (block [])
      else block []),
     return 4])"

definition asm_sparc_stxa :: sparc_handler where
  "asm_sparc_stxa synth internals buf =
     (let opcode = sparc_convert_format3 buf in run [
     instr_from (op3_table internals) (f3_op3 opcode),
     assigns [set_type (ASM_TYPE_STORE OR ASM_TYPE_ASSIGN), set_nb_op 2],
     (if f3_i opcode \<noteq> 0 then
        assigns [set_baser 0 (f3_rs1 opcode), set_imm 0 (f3_imm opcode), set_address_space 0 (- 1 :: u_int),
          asm_sparc_op_fetch 0 ASM_SP_OTYPE_IMM_ADDRESS]
      else
        assigns [set_baser 0 (f3_rs1 opcode), set_indexr 0 (f3_rs2 opcode),
          set_address_space 0 (f3_none opcode), asm_sparc_op_fetch 0 ASM_SP_OTYPE_REG_ADDRESS]),
     assigns [set_baser 1 (f3_rd opcode), asm_sparc_op_fetch 1 ASM_SP_OTYPE_REGISTER],
     return 4])"

definition asm_sparc_sub :: sparc_handler where
  "asm_sparc_sub synth internals buf =
     (let opcode = sparc_convert_format3 buf in run [
     instr_from (op2_table internals) (f3_op3 opcode),
     assigns [set_arith ASM_ARITH_SUB, set_type ASM_TYPE_ARITH, set_nb_op 3, set_baser 0 (f3_rd opcode),
       asm_sparc_op_fetch 0 ASM_SP_OTYPE_REGISTER, set_baser 2 (f3_rs1 opcode),
       asm_sparc_op_fetch 2 ASM_SP_OTYPE_REGISTER],
     (if f3_i opcode = 0 then
        assigns [set_baser 1 (f3_rs2 opcode), asm_sparc_op_fetch 1 ASM_SP_OTYPE_REGISTER]
      else
        assigns [set_imm 1 (f3_imm opcode), asm_sparc_op_fetch 1 ASM_SP_OTYPE_IMMEDIATE]),
     (if synth then
        test (\<lambda>ins. baser (op ins ! 0) = baser (op ins ! 2) \<and> ocontent (op ins ! 1) = ASM_SP_OTYPE_IMMEDIATE)
           (block [
             assigns [set_instr ASM_SP_DEC],
             test (\<lambda>ins. imm (op ins ! 1) = 1)
                (assigns [set_nb_op 1])
                (assigns [set_nb_op 2])])
           (test (\<lambda>ins. baser (op ins ! 2) = ASM_REG_G0 \<and> ocontent (op ins ! 1) = ASM_SP_OTYPE_REGISTER)
              (block [
                assigns [set_instr ASM_SP_NEG],
                test (\<lambda>ins. baser (op ins ! 1) = baser (op ins ! 0))
                   (assigns [set_nb_op 1])
                   (assigns [set_nb_op 2])])
              (block []))
      else block []),
     return 4])"

definition asm_sparc_subc :: sparc_handler where
  "asm_sparc_subc synth internals buf =
     (let opcode = sparc_convert_format3 buf in run [
     instr_from (op2_table internals) (f3_op3 opcode),
     assigns [set_arith ASM_ARITH_SUB, set_type ASM_TYPE_ARITH, set_nb_op 3, set_baser 0 (f3_rd opcode),
       asm_sparc_op_fetch 0 ASM_SP_OTYPE_REGISTER, set_baser 2 (f3_rs1 opcode),
       asm_sparc_op_fetch 2 ASM_SP_OTYPE_REGISTER],
     (if f3_i opcode = 0 then
        assigns [set_baser 1 (f3_rs2 opcode), asm_sparc_op_fetch 1 ASM_SP_OTYPE_REGISTER]
      else
        assigns [set_imm 1 (f3_imm opcode), asm_sparc_op_fetch 1 ASM_SP_OTYPE_IMMEDIATE]),
     return 4])"

definition asm_sparc_subcc :: sparc_handler where
  "asm_sparc_subcc synth internals buf =
     (let opcode = sparc_convert_format3 buf in run [
     instr_from (op2_table internals) (f3_op3 opcode),
     assigns [set_arith ASM_ARITH_SUB, set_type (ASM_TYPE_ARITH OR ASM_TYPE_WRITEFLAG),
       set_flagswritten (ASM_SP_FLAG_C OR ASM_SP_FLAG_V OR ASM_SP_FLAG_Z OR ASM_SP_FLAG_N),
       set_nb_op 3, set_baser 0 (f3_rd opcode), asm_sparc_op_fetch 0 ASM_SP_OTYPE_REGISTER,
       set_baser 2 (f3_rs1 opcode), asm_sparc_op_fetch 2 ASM_SP_OTYPE_REGISTER],
     (if f3_i opcode = 0 then
        assigns [set_baser 1 (f3_rs2 opcode), asm_sparc_op_fetch 1 ASM_SP_OTYPE_REGISTER]
      else
        assigns [set_imm 1 (f3_imm opcode), asm_sparc_op_fetch 1 ASM_SP_OTYPE_IMMEDIATE]),
     (if synth then
        test (\<lambda>ins. baser (op ins ! 0) = ASM_REG_G0)
           (assigns [set_instr ASM_SP_CMP, set_type (ASM_TYPE_COMPARISON OR ASM_TYPE_WRITEFLAG), set_nb_op 2,
             copy_op 0 1, copy_op 1 2])
           (test (\<lambda>ins. baser (op ins ! 0) = baser (op ins ! 2) \<and> ocontent (op ins ! 1) = ASM_SP_OTYPE_IMMEDIATE)
              (block [
                assigns [set_instr ASM_SP_DECCC],
                test (\<lambda>ins. imm (op ins ! 1) = 1)
                   (assigns [set_nb_op 1])
                   (assigns [set_nb_op 2])])
              (block []))
      else block []),
     return 4])"

definition asm_sparc_subccc :: sparc_handler where
  "asm_sparc_subccc synth internals buf =
     (let opcode = sparc_convert_format3 buf in run [
     instr_from (op2_table internals) (f3_op3 opcode),
     assigns [set_arith ASM_ARITH_SUB, set_type (ASM_TYPE_ARITH OR ASM_TYPE_WRITEFLAG),
       set_flagswritten (ASM_SP_FLAG_C OR ASM_SP_FLAG_V OR ASM_SP_FLAG_Z OR ASM_SP_FLAG_N),
       set_nb_op 3, set_baser 0 (f3_rd opcode), asm_sparc_op_fetch 0 ASM_SP_OTYPE_REGISTER,
       set_baser 2 (f3_rs1 opcode), asm_sparc_op_fetch 2 ASM_SP_OTYPE_REGISTER],
     (if f3_i opcode = 0 then
        assigns [set_baser 1 (f3_rs2 opcode), asm_sparc_op_fetch 1 ASM_SP_OTYPE_REGISTER]
      else
        assigns [set_imm 1 (f3_imm opcode), asm_sparc_op_fetch 1 ASM_SP_OTYPE_IMMEDIATE]),
     return 4])"

definition asm_sparc_swap :: sparc_handler where
  "asm_sparc_swap synth internals buf =
     (let opcode = sparc_convert_format3 buf in run [
     instr_from (op3_table internals) (f3_op3 opcode),
     assigns [set_type (ASM_TYPE_LOAD OR ASM_TYPE_STORE OR ASM_TYPE_ASSIGN), set_nb_op 2,
       set_baser 0 (f3_rd opcode), asm_sparc_op_fetch 0 ASM_SP_OTYPE_REGISTER],
     (if f3_i opcode \<noteq> 0 then
        assigns [set_baser 1 (f3_rs1 opcode), set_imm 1 (f3_imm opcode),
          asm_sparc_op_fetch 1 ASM_SP_OTYPE_IMM_ADDRESS]
      else
        assigns [set_baser 1 (f3_rs1 opcode), set_indexr 1 (f3_rs2 opcode),
          asm_sparc_op_fetch 1 ASM_SP_OTYPE_REG_ADDRESS]),
     return 4])"

definition asm_sparc_swapa :: sparc_handler where
  "asm_sparc_swapa synth internals buf =
     (let opcode = sparc_convert_format3 buf in run [
     instr_from (op3_table internals) (f3_op3 opcode),
     assigns [set_type (ASM_TYPE_LOAD OR ASM_TYPE_STORE OR ASM_TYPE_ASSIGN), set_nb_op 2,
       set_baser 0 (f3_rd opcode), asm_sparc_op_fetch 0 ASM_SP_OTYPE_REGISTER],
     (if f3_i opcode \<noteq> 0 then
        assigns [set_baser 1 (f3_rs1 opcode), set_imm 1 (f3_imm opcode), set_address_space 1 (- 1 :: u_int),
          asm_sparc_op_fetch 1 ASM_SP_OTYPE_IMM_ADDRESS]
      else
        assigns [set_baser 1 (f3_rs1 opcode), set_indexr 1 (f3_rs2 opcode),
          set_address_space 1 (f3_none opcode), asm_sparc_op_fetch 1 ASM_SP_OTYPE_REG_ADDRESS]),
     return 4])"

definition asm_sparc_taddcc :: sparc_handler where
  "asm_sparc_taddcc synth internals buf =
     (let opcode = sparc_convert_format3 buf in run [
     instr_from (op2_table internals) (f3_op3 opcode),
     assigns [set_arith ASM_ARITH_ADD, set_type (ASM_TYPE_ARITH OR ASM_TYPE_WRITEFLAG),
       set_flagswritten (ASM_SP_FLAG_C OR ASM_SP_FLAG_V OR ASM_SP_FLAG_Z OR ASM_SP_FLAG_N),
       set_nb_op 3, set_baser 0 (f3_rd opcode), asm_sparc_op_fetch 0 ASM_SP_OTYPE_REGISTER,
       set_baser 2 (f3_rs1 opcode), asm_sparc_op_fetch 2 ASM_SP_OTYPE_REGISTER],
     (if f3_i opcode = 0 then
        assigns [set_baser 1 (f3_rs2 opcode), asm_sparc_op_fetch 1 ASM_SP_OTYPE_REGISTER]
      else
        assigns [set_imm 1 (f3_imm opcode), asm_sparc_op_fetch 1 ASM_SP_OTYPE_IMMEDIATE]),
     return 4])"

definition asm_sparc_taddcctv :: sparc_handler where
  "asm_sparc_taddcctv synth internals buf =
     (let opcode = sparc_convert_format3 buf in run [
     instr_from (op2_table internals) (f3_op3 opcode),
     assigns [set_arith ASM_ARITH_ADD, set_type (ASM_TYPE_ARITH OR ASM_TYPE_WRITEFLAG),
       set_flagswritten (ASM_SP_FLAG_C OR ASM_SP_FLAG_V OR ASM_SP_FLAG_Z OR ASM_SP_FLAG_N),
       set_nb_op 3, set_baser 0 (f3_rd opcode), asm_sparc_op_fetch 0 ASM_SP_OTYPE_REGISTER,
       set_baser 2 (f3_rs1 opcode), asm_sparc_op_fetch 2 ASM_SP_OTYPE_REGISTER],
     (if f3_i opcode = 0 then
        assigns [set_baser 1 (f3_rs2 opcode), asm_sparc_op_fetch 1 ASM_SP_OTYPE_REGISTER]
      else
        assigns [set_imm 1 (f3_imm opcode), asm_sparc_op_fetch 1 ASM_SP_OTYPE_IMMEDIATE]),
     return 4])"

definition asm_sparc_tcc :: sparc_handler where
  "asm_sparc_tcc synth internals buf =
     (let opcode = sparc_convert_format3 buf;
          opcode4 = sparc_convert_format4 buf in run [
     assigns [set_type (ASM_TYPE_INT OR ASM_TYPE_READFLAG),
       set_flagsread (ASM_SP_FLAG_C OR ASM_SP_FLAG_V OR ASM_SP_FLAG_N OR ASM_SP_FLAG_Z)],
     instr_from (tcc_table internals) (f4_cond opcode4),
     assigns [set_nb_op 2],
     (if f4_i opcode4 \<noteq> 0 then
        assigns [set_baser 0 (f4_rs1 opcode4), set_imm 0 (f4_sw_trap opcode4),
          asm_sparc_op_fetch 0 ASM_SP_OTYPE_IMM_ADDRESS]
      else
        assigns [set_baser 0 (f4_rs1 opcode4), set_indexr 0 (f4_rs2 opcode4),
          asm_sparc_op_fetch 0 ASM_SP_OTYPE_REG_ADDRESS]),
     assigns [set_baser 1 ((f4_cc opcode4 AND 0x3) + 4), asm_sparc_op_fetch 1 ASM_SP_OTYPE_CC],
     return 4])"

definition asm_sparc_tsubcc :: sparc_handler where
  "asm_sparc_tsubcc synth internals buf =
     (let opcode = sparc_convert_format3 buf in run [
     instr_from (op2_table internals) (f3_op3 opcode),
     assigns [set_arith ASM_ARITH_SUB, set_type (ASM_TYPE_ARITH OR ASM_TYPE_WRITEFLAG),
       set_flagswritten (ASM_SP_FLAG_C OR ASM_SP_FLAG_V OR ASM_SP_FLAG_Z OR ASM_SP_FLAG_N),
       set_nb_op 3, set_baser 0 (f3_rd opcode), asm_sparc_op_fetch 0 ASM_SP_OTYPE_REGISTER,
       set_baser 2 (f3_rs1 opcode), asm_sparc_op_fetch 2 ASM_SP_OTYPE_REGISTER],
     (if f3_i opcode = 0 then
        assigns [set_baser 1 (f3_rs2 opcode), asm_sparc_op_fetch 1 ASM_SP_OTYPE_REGISTER]
      else
        assigns [set_imm 1 (f3_imm opcode), asm_sparc_op_fetch 1 ASM_SP_OTYPE_IMMEDIATE]),
     return 4])"

definition asm_sparc_tsubcctv :: sparc_handler where
  "asm_sparc_tsubcctv synth internals buf =
     (let opcode = sparc_convert_format3 buf in run [
     instr_from (op2_table internals) (f3_op3 opcode),
     assigns [set_arith ASM_ARITH_SUB, set_type (ASM_TYPE_ARITH OR ASM_TYPE_WRITEFLAG),
       set_flagswritten (ASM_SP_FLAG_C OR ASM_SP_FLAG_V OR ASM_SP_FLAG_Z OR ASM_SP_FLAG_N),
       set_nb_op 3, set_baser 0 (f3_rd opcode), asm_sparc_op_fetch 0 ASM_SP_OTYPE_REGISTER,
       set_baser 2 (f3_rs1 opcode), asm_sparc_op_fetch 2 ASM_SP_OTYPE_REGISTER],
     (if f3_i opcode = 0 then
        assigns [set_baser 1 (f3_rs2 opcode), asm_sparc_op_fetch 1 ASM_SP_OTYPE_REGISTER]
      else
        assigns [set_imm 1 (f3_imm opcode), asm_sparc_op_fetch 1 ASM_SP_OTYPE_IMMEDIATE]),
     return 4])"

definition asm_sparc_udiv :: sparc_handler where
  "asm_sparc_udiv synth internals buf =
     (let opcode = sparc_convert_format3 buf in run [
     instr_from (op2_table internals) (f3_op3 opcode),
     assigns [set_arith ASM_ARITH_DIV, set_type ASM_TYPE_ARITH, set_nb_op 3, set_baser 0 (f3_rd opcode),
       asm_sparc_op_fetch 0 ASM_SP_OTYPE_REGISTER, set_baser 2 (f3_rs1 opcode),
       asm_sparc_op_fetch 2 ASM_SP_OTYPE_REGISTER],
     (if f3_i opcode = 0 then
        assigns [set_baser 1 (f3_rs2 opcode), asm_sparc_op_fetch 1 ASM_SP_OTYPE_REGISTER]
      else
        assigns [set_imm 1 (f3_imm opcode), asm_sparc_op_fetch 1 ASM_SP_OTYPE_IMMEDIATE]),
     return 4])"

definition asm_sparc_udivcc :: sparc_handler where
  "asm_sparc_udivcc synth internals buf =
     (let opcode = sparc_convert_format3 buf in run [
     instr_from (op2_table internals) (f3_op3 opcode),
     assigns [set_arith ASM_ARITH_DIV, set_type (ASM_TYPE_ARITH OR ASM_TYPE_WRITEFLAG),
       set_flagswritten (ASM_SP_FLAG_C OR ASM_SP_FLAG_V OR ASM_SP_FLAG_Z OR ASM_SP_FLAG_N),
       set_nb_op 3, set_baser 0 (f3_rd opcode), asm_sparc_op_fetch 0 ASM_SP_OTYPE_REGISTER,
       set_baser 2 (f3_rs1 opcode), asm_sparc_op_fetch 2 ASM_SP_OTYPE_REGISTER],
     (if f3_i opcode = 0 then
        assigns [set_baser 1 (f3_rs2 opcode), asm_sparc_op_fetch 1 ASM_SP_OTYPE_REGISTER]
      else
        assigns [set_imm 1 (f3_imm opcode), asm_sparc_op_fetch 1 ASM_SP_OTYPE_IMMEDIATE]),
     return 4])"

definition asm_sparc_udivx :: sparc_handler where
  "asm_sparc_udivx synth internals buf =
     (let opcode = sparc_convert_format3 buf in run [
     instr_from (op2_table internals) (f3_op3 opcode),
     assigns [set_arith ASM_ARITH_DIV, set_type ASM_TYPE_ARITH, set_nb_op 3, set_baser 0 (f3_rd opcode),
       asm_sparc_op_fetch 0 ASM_SP_OTYPE_REGISTER, set_baser 2 (f3_rs1 opcode),
       asm_sparc_op_fetch 2 ASM_SP_OTYPE_REGISTER],
     (if f3_i opcode = 0 then
        assigns [set_baser 1 (f3_rs2 opcode), asm_sparc_op_fetch 1 ASM_SP_OTYPE_REGISTER]
      else
        assigns [set_imm 1 (f3_imm opcode), asm_sparc_op_fetch 1 ASM_SP_OTYPE_IMMEDIATE]),
     return 4])"

definition asm_sparc_umul :: sparc_handler where
  "asm_sparc_umul synth internals buf =
     (let opcode = sparc_convert_format3 buf in run [
     instr_from (op2_table internals) (f3_op3 opcode),
     assigns [set_arith ASM_ARITH_MUL, set_type ASM_TYPE_ARITH, set_nb_op 3, set_baser 0 (f3_rd opcode),
       asm_sparc_op_fetch 0 ASM_SP_OTYPE_REGISTER, set_baser 2 (f3_rs1 opcode),
       asm_sparc_op_fetch 2 ASM_SP_OTYPE_REGISTER],
     (if f3_i opcode = 0 then
        assigns [set_baser 1 (f3_rs2 opcode), asm_sparc_op_fetch 1 ASM_SP_OTYPE_REGISTER]
      else
        assigns [set_imm 1 (f3_imm opcode), asm_sparc_op_fetch 1 ASM_SP_OTYPE_IMMEDIATE]),
     return 4])"

definition asm_sparc_umulcc :: sparc_handler where
  "asm_sparc_umulcc synth internals buf =
     (let opcode = sparc_convert_format3 buf in run [
     instr_from (op2_table internals) (f3_op3 opcode),
     assigns [set_arith ASM_ARITH_MUL, set_type (ASM_TYPE_ARITH OR ASM_TYPE_WRITEFLAG),
       set_flagswritten (ASM_SP_FLAG_C OR ASM_SP_FLAG_V OR ASM_SP_FLAG_Z OR ASM_SP_FLAG_N),
       set_nb_op 3, set_baser 0 (f3_rd opcode), asm_sparc_op_fetch 0 ASM_SP_OTYPE_REGISTER,
       set_baser 2 (f3_rs1 opcode), asm_sparc_op_fetch 2 ASM_SP_OTYPE_REGISTER],
     (if f3_i opcode = 0 then
        assigns [set_baser 1 (f3_rs2 opcode), asm_sparc_op_fetch 1 ASM_SP_OTYPE_REGISTER]
      else
        assigns [set_imm 1 (f3_imm opcode), asm_sparc_op_fetch 1 ASM_SP_OTYPE_IMMEDIATE]),
     return 4])"

definition asm_sparc_wr :: sparc_handler where
  "asm_sparc_wr synth internals buf =
     (let opcode = sparc_convert_format3 buf in run [
     instr_from (op2_table internals) (f3_op3 opcode),
     assigns [set_type ASM_TYPE_ASSIGN],
     (if f3_rd opcode = 1 then
        assigns [set_instr ASM_SP_BAD]
      else if f3_rd opcode = 15 then
        assigns [set_instr ASM_SP_SIR, set_type ASM_TYPE_INT, set_nb_op 1, set_imm 0 (f3_imm opcode),
          asm_sparc_op_fetch 0 ASM_SP_OTYPE_IMMEDIATE]
      else
        block [
          assigns [set_nb_op 3],
          (if f3_rd opcode = 2 then
             assigns [(\<lambda>ins. set_type (itype ins OR ASM_TYPE_WRITEFLAG) ins),
               set_flagswritten (ASM_SP_FLAG_C OR ASM_SP_FLAG_V OR ASM_SP_FLAG_Z OR ASM_SP_FLAG_N)]
           else block []),
          (if f3_rd opcode = 4 \<or> f3_rd opcode = 5 then
             assigns [set_baser 0 ASM_SREG_BAD]
           else
             assigns [set_baser 0 (f3_rd opcode)]),
          assigns [asm_sparc_op_fetch 0 ASM_SP_OTYPE_SREGISTER, set_baser 2 (f3_rs1 opcode),
            asm_sparc_op_fetch 2 ASM_SP_OTYPE_REGISTER],
          (if f3_i opcode = 0 then
             assigns [set_baser 1 (f3_rs2 opcode), asm_sparc_op_fetch 1 ASM_SP_OTYPE_REGISTER]
           else
             assigns [set_imm 1 (f3_imm opcode), asm_sparc_op_fetch 1 ASM_SP_OTYPE_IMMEDIATE]),
          test (\<lambda>ins. baser (op ins ! 0) = ASM_SREG_Y \<and> baser (op ins ! 2) = ASM_REG_G0)
             (assigns [set_instr ASM_SP_MOV, set_nb_op 2])
             (block [])]),
     return 4])"

definition asm_sparc_wrpr :: sparc_handler where
  "asm_sparc_wrpr synth internals buf =
     (let opcode = sparc_convert_format3 buf in run [
     instr_from (op2_table internals) (f3_op3 opcode),
     assigns [set_type ASM_TYPE_ASSIGN, set_nb_op 3],
     (if f3_rd opcode = 31 then
        assigns [set_baser 0 ASM_PREG_BAD16]
      else
        assigns [set_baser 0 (f3_rd opcode)]),
     assigns [asm_sparc_op_fetch 0 ASM_SP_OTYPE_PREGISTER, set_baser 2 (f3_rs1 opcode),
       asm_sparc_op_fetch 2 ASM_SP_OTYPE_REGISTER],
     (if f3_i opcode = 0 then
        assigns [set_baser 1 (f3_rs2 opcode), asm_sparc_op_fetch 1 ASM_SP_OTYPE_REGISTER]
      else
        assigns [set_imm 1 (f3_imm opcode), asm_sparc_op_fetch 1 ASM_SP_OTYPE_IMMEDIATE]),
     return 4])"

definition asm_sparc_xnor :: sparc_handler where
  "asm_sparc_xnor synth internals buf =
     (let opcode = sparc_convert_format3 buf in run [
     instr_from (op2_table internals) (f3_op3 opcode),
     assigns [set_arith (ASM_ARITH_XOR OR ASM_ARITH_NOT), set_type ASM_TYPE_ARITH, set_nb_op 3,
       set_baser 0 (f3_rd opcode), asm_sparc_op_fetch 0 ASM_SP_OTYPE_REGISTER,
       set_baser 2 (f3_rs1 opcode), asm_sparc_op_fetch 2 ASM_SP_OTYPE_REGISTER],
     (if f3_i opcode = 0 then
        assigns [set_baser 1 (f3_rs2 opcode), asm_sparc_op_fetch 1 ASM_SP_OTYPE_REGISTER]
      else
        assigns [set_imm 1 (f3_imm opcode), asm_sparc_op_fetch 1 ASM_SP_OTYPE_IMMEDIATE]),
     test (\<lambda>ins. ocontent (op ins ! 1) = ASM_SP_OTYPE_REGISTER \<and> baser (op ins ! 1) = ASM_REG_G0)
        (block [
          assigns [set_instr ASM_SP_NOT],
          test (\<lambda>ins. baser (op ins ! 2) = baser (op ins ! 0))
             (assigns [set_nb_op 1])
             (assigns [set_nb_op 2, copy_op 1 2])])
        (block []),
     return 4])"

definition asm_sparc_xnorcc :: sparc_handler where
  "asm_sparc_xnorcc synth internals buf =
     (let opcode = sparc_convert_format3 buf in run [
     instr_from (op2_table internals) (f3_op3 opcode),
     assigns [set_arith (ASM_ARITH_XOR OR ASM_ARITH_NOT), set_type (ASM_TYPE_ARITH OR ASM_TYPE_WRITEFLAG),
       set_flagswritten (ASM_SP_FLAG_C OR ASM_SP_FLAG_V OR ASM_SP_FLAG_Z OR ASM_SP_FLAG_N),
       set_nb_op 3, set_baser 0 (f3_rd opcode), asm_sparc_op_fetch 0 ASM_SP_OTYPE_REGISTER,
       set_baser 2 (f3_rs1 opcode), asm_sparc_op_fetch 2 ASM_SP_OTYPE_REGISTER],
     (if f3_i opcode = 0 then
        assigns [set_baser 1 (f3_rs2 opcode), asm_sparc_op_fetch 1 ASM_SP_OTYPE_REGISTER]
      else
        assigns [set_imm 1 (f3_imm opcode), asm_sparc_op_fetch 1 ASM_SP_OTYPE_IMMEDIATE]),
     return 4])"

definition asm_sparc_xor :: sparc_handler where
  "asm_sparc_xor synth internals buf =
     (let opcode = sparc_convert_format3 buf in run [
     instr_from (op2_table internals) (f3_op3 opcode),
     assigns [set_arith ASM_ARITH_XOR, set_type ASM_TYPE_ARITH, set_nb_op 3, set_baser 0 (f3_rd opcode),
       asm_sparc_op_fetch 0 ASM_SP_OTYPE_REGISTER, set_baser 2 (f3_rs1 opcode),
       asm_sparc_op_fetch 2 ASM_SP_OTYPE_REGISTER],
     (if f3_i opcode = 0 then
        assigns [set_baser 1 (f3_rs2 opcode), asm_sparc_op_fetch 1 ASM_SP_OTYPE_REGISTER]
      else
        assigns [set_imm 1 (f3_imm opcode), asm_sparc_op_fetch 1 ASM_SP_OTYPE_IMMEDIATE]),
     (if synth then
        test (\<lambda>ins. baser (op ins ! 0) = baser (op ins ! 2))
           (assigns [set_instr ASM_SP_BTOG, set_nb_op 2])
           (block [])
      else block []),
     return 4])"

definition asm_sparc_xorcc :: sparc_handler where
  "asm_sparc_xorcc synth internals buf =
     (let opcode = sparc_convert_format3 buf in run [
     instr_from (op2_table internals) (f3_op3 opcode),
     assigns [set_arith ASM_ARITH_XOR, set_type (ASM_TYPE_ARITH OR ASM_TYPE_WRITEFLAG),
       set_flagswritten (ASM_SP_FLAG_C OR ASM_SP_FLAG_V OR ASM_SP_FLAG_Z OR ASM_SP_FLAG_N),
       set_nb_op 3, set_baser 0 (f3_rd opcode), asm_sparc_op_fetch 0 ASM_SP_OTYPE_REGISTER,
       set_baser 2 (f3_rs1 opcode), asm_sparc_op_fetch 2 ASM_SP_OTYPE_REGISTER],
     (if f3_i opcode = 0 then
        assigns [set_baser 1 (f3_rs2 opcode), asm_sparc_op_fetch 1 ASM_SP_OTYPE_REGISTER]
      else
        assigns [set_imm 1 (f3_imm opcode), asm_sparc_op_fetch 1 ASM_SP_OTYPE_IMMEDIATE]),
     return 4])"

lemmas sparc_handlers2_defs =
  asm_sparc_mulscc_def asm_sparc_mulx_def asm_sparc_or_def asm_sparc_orcc_def
  asm_sparc_orn_def asm_sparc_orncc_def asm_sparc_popc_def asm_sparc_prefetch_def
  asm_sparc_prefetcha_def asm_sparc_rd_def asm_sparc_rdpr_def asm_sparc_restore_def
  asm_sparc_return_def asm_sparc_save_def asm_sparc_saved_def asm_sparc_sdiv_def
  asm_sparc_sdivcc_def asm_sparc_sdivx_def asm_sparc_sethi_def asm_sparc_sll_def
  asm_sparc_smul_def asm_sparc_smulcc_def asm_sparc_sra_def asm_sparc_srl_def
  asm_sparc_stb_def asm_sparc_stba_def asm_sparc_std_def asm_sparc_stda_def asm_sparc_stdf_def
  asm_sparc_stdfa_def asm_sparc_stf_def asm_sparc_stfa_def asm_sparc_stfsr_def
  asm_sparc_sth_def asm_sparc_stha_def asm_sparc_stqf_def asm_sparc_stqfa_def
  asm_sparc_stw_def asm_sparc_stwa_def asm_sparc_stx_def asm_sparc_stxa_def asm_sparc_sub_def
  asm_sparc_subc_def asm_sparc_subcc_def asm_sparc_subccc_def asm_sparc_swap_def
  asm_sparc_swapa_def asm_sparc_taddcc_def asm_sparc_taddcctv_def asm_sparc_tcc_def
  asm_sparc_tsubcc_def asm_sparc_tsubcctv_def asm_sparc_udiv_def asm_sparc_udivcc_def
  asm_sparc_udivx_def asm_sparc_umul_def asm_sparc_umulcc_def asm_sparc_wr_def
  asm_sparc_wrpr_def asm_sparc_xnor_def asm_sparc_xnorcc_def asm_sparc_xor_def
  asm_sparc_xorcc_def

end
