(* ===== verification/Sparc.thy ===== *)
theory Sparc
  imports Sparc_Handlers2
begin

text \<open>
  The SPARC disassembler: registration of the opcode vector (\<open>register.c\<close>), the fetch function and
  the initialisation (\<open>init_sparc.c\<close>), and the text output (\<open>output_sparc.c\<close>).

  The lemmas show what a word decodes to: the handler that the registration put at its coordinates,
  exactly which words make a handler read past a table, that every other word gives a well-formed
  instruction that can be printed, and that the operands and targets of the encodings of the
  architecture manual come back.
\<close>

subsection \<open>Registration\<close>

text \<open>The calls of \<open>asm_register_sparc_instructions\<close> in order: coordinates and handler. Code
  addresses: the default handler is at 1 and the handler of call \<open>i\<close> at \<open>i + 2\<close>.\<close>

definition sparc_opcodes :: "(nat list \<times> sparc_handler) list" where
  "sparc_opcodes = [
     ([0x02, 0x00, 0x00], asm_sparc_add), ([0x02, 0x08, 0x00], asm_sparc_addc),
     ([0x02, 0x10, 0x00], asm_sparc_addcc), ([0x02, 0x18, 0x00], asm_sparc_addccc),
     ([0x02, 0x01, 0x00], asm_sparc_and), ([0x02, 0x11, 0x00], asm_sparc_andcc),
     ([0x02, 0x05, 0x00], asm_sparc_andn), ([0x02, 0x15, 0x00], asm_sparc_andncc),
     ([0x00, 0x02, 0x00], asm_sparc_bicc), ([0x00, 0x01, 0x00], asm_sparc_bpcc),
     ([0x00, 0x03, 0x00], asm_sparc_bpr), ([0x01, 0x00, 0x00], asm_sparc_call),
     ([0x03, 0x3c, 0x00], asm_sparc_casa), ([0x03, 0x3e, 0x00], asm_sparc_casxa),
     ([0x02, 0x3e, 0x00], asm_sparc_done), ([0x00, 0x06, 0x00], asm_sparc_fbfcc),
     ([0x00, 0x05, 0x00], asm_sparc_fbpfcc), ([0x02, 0x35, 0x12], asm_sparc_fcmpd),
     ([0x02, 0x35, 0x16], asm_sparc_fcmped), ([0x02, 0x35, 0x17], asm_sparc_fcmpeq),
     ([0x02, 0x35, 0x15], asm_sparc_fcmpes), ([0x02, 0x35, 0x13], asm_sparc_fcmpq),
     ([0x02, 0x35, 0x11], asm_sparc_fcmps), ([0x02, 0x3b, 0x00], asm_sparc_flush),
     ([0x02, 0x2b, 0x00], asm_sparc_flushw), ([0x02, 0x35, 0x02], asm_sparc_fmovdcc),
     ([0x02, 0x35, 0x06], asm_sparc_fmovdr), ([0x02, 0x35, 0x03], asm_sparc_fmovqcc),
     ([0x02, 0x35, 0x07], asm_sparc_fmovqr), ([0x02, 0x35, 0x01], asm_sparc_fmovscc),
     ([0x02, 0x35, 0x05], asm_sparc_fmovsr), ([0x02, 0x34, 0x00], asm_sparc_fpop1),
     ([0x00, 0x00, 0x00], asm_sparc_illtrap), ([0x02, 0x36, 0x00], asm_sparc_impdep1),
     ([0x02, 0x37, 0x00], asm_sparc_impdep2), ([0x02, 0x38, 0x00], asm_sparc_jmpl),
     ([0x03, 0x03, 0x00], asm_sparc_ldd), ([0x03, 0x13, 0x00], asm_sparc_ldda),
     ([0x03, 0x23, 0x00], asm_sparc_lddf), ([0x03, 0x33, 0x00], asm_sparc_lddfa),
     ([0x03, 0x20, 0x00], asm_sparc_ldf), ([0x03, 0x30, 0x00], asm_sparc_ldfa),
     ([0x03, 0x21, 0x00], asm_sparc_ldfsr), ([0x03, 0x22, 0x00], asm_sparc_ldqf),
     ([0x03, 0x32, 0x00], asm_sparc_ldqfa), ([0x03, 0x09, 0x00], asm_sparc_ldsb),
     ([0x03, 0x19, 0x00], asm_sparc_ldsba), ([0x03, 0x0a, 0x00], asm_sparc_ldsh),
     ([0x03, 0x1a, 0x00], asm_sparc_ldsha), ([0x03, 0x0d, 0x00], asm_sparc_ldstub),
     ([0x03, 0x1d, 0x00], asm_sparc_ldstuba), ([0x03, 0x08, 0x00], asm_sparc_ldsw),
     ([0x03, 0x18, 0x00], asm_sparc_ldswa), ([0x03, 0x01, 0x00], asm_sparc_ldub),
     ([0x03, 0x11, 0x00], asm_sparc_lduba), ([0x03, 0x02, 0x00], asm_sparc_lduh),
     ([0x03, 0x12, 0x00], asm_sparc_lduha), ([0x03, 0x00, 0x00], asm_sparc_lduw),
     ([0x03, 0x10, 0x00], asm_sparc_lduwa), ([0x03, 0x0b, 0x00], asm_sparc_ldx),
     ([0x03, 0x1b, 0x00], asm_sparc_ldxa), ([0x02, 0x2c, 0x00], asm_sparc_movcc),
     ([0x02, 0x2f, 0x00], asm_sparc_movr), ([0x02, 0x24, 0x00], asm_sparc_mulscc),
     ([0x02, 0x09, 0x00], asm_sparc_mulx), ([0x02, 0x02, 0x00], asm_sparc_or),
     ([0x02, 0x12, 0x00], asm_sparc_orcc), ([0x02, 0x06, 0x00], asm_sparc_orn),
     ([0x02, 0x16, 0x00], asm_sparc_orncc), ([0x02, 0x2e, 0x00], asm_sparc_popc),
     ([0x03, 0x2d, 0x00], asm_sparc_prefetch), ([0x03, 0x3d, 0x00], asm_sparc_prefetcha),
     ([0x02, 0x28, 0x00], asm_sparc_rd), ([0x02, 0x2a, 0x00], asm_sparc_rdpr),
     ([0x02, 0x3d, 0x00], asm_sparc_restore), ([0x02, 0x39, 0x00], asm_sparc_return),
     ([0x02, 0x3c, 0x00], asm_sparc_save), ([0x02, 0x31, 0x00], asm_sparc_saved),
     ([0x02, 0x0f, 0x00], asm_sparc_sdiv), ([0x02, 0x1f, 0x00], asm_sparc_sdivcc),
     ([0x02, 0x2d, 0x00], asm_sparc_sdivx), ([0x00, 0x04, 0x00], asm_sparc_sethi),
     ([0x02, 0x25, 0x00], asm_sparc_sll), ([0x02, 0x0b, 0x00], asm_sparc_smul),
     ([0x02, 0x1b, 0x00], asm_sparc_smulcc), ([0x02, 0x27, 0x00], asm_sparc_sra),
     ([0x02, 0x26, 0x00], asm_sparc_srl), ([0x03, 0x05, 0x00], asm_sparc_stb),
     ([0x03, 0x15, 0x00], asm_sparc_stba), ([0x03, 0x07, 0x00], asm_sparc_std),
     ([0x03, 0x17, 0x00], asm_sparc_stda), ([0x03, 0x27, 0x00], asm_sparc_stdf),
     ([0x03, 0x37, 0x00], asm_sparc_stdfa), ([0x03, 0x24, 0x00], asm_sparc_stf),
     ([0x03, 0x34, 0x00], asm_sparc_stfa), ([0x03, 0x25, 0x00], asm_sparc_stfsr),
     ([0x03, 0x06, 0x00], asm_sparc_sth), ([0x03, 0x16, 0x00], asm_sparc_stha),
     ([0x03, 0x26, 0x00], asm_sparc_stqf), ([0x03, 0x36, 0x00], asm_sparc_stqfa),
     ([0x03, 0x04, 0x00], asm_sparc_stw), ([0x03, 0x14, 0x00], asm_sparc_stwa),
     ([0x03, 0x0e, 0x00], asm_sparc_stx), ([0x03, 0x1e, 0x00], asm_sparc_stxa),
     ([0x02, 0x04, 0x00], asm_sparc_sub), ([0x02, 0x0c, 0x00], asm_sparc_subc),
     ([0x02, 0x14, 0x00], asm_sparc_subcc), ([0x02, 0x1c, 0x00], asm_sparc_subccc),
     ([0x03, 0x0f, 0x00], asm_sparc_swap), ([0x03, 0x1f, 0x00], asm_sparc_swapa),
     ([0x02, 0x20, 0x00], asm_sparc_taddcc), ([0x02, 0x22, 0x00], asm_sparc_taddcctv),
     ([0x02, 0x3a, 0x00], asm_sparc_tcc), ([0x02, 0x21, 0x00], asm_sparc_tsubcc),
     ([0x02, 0x23, 0x00], asm_sparc_tsubcctv), ([0x02, 0x0e, 0x00], asm_sparc_udiv),
     ([0x02, 0x1e, 0x00], asm_sparc_udivcc), ([0x02, 0x0d, 0x00], asm_sparc_udivx),
     ([0x02, 0x0a, 0x00], asm_sparc_umul), ([0x02, 0x1a, 0x00], asm_sparc_umulcc),
     ([0x02, 0x30, 0x00], asm_sparc_wr), ([0x02, 0x32, 0x00], asm_sparc_wrpr),
     ([0x02, 0x07, 0x00], asm_sparc_xnor), ([0x02, 0x17, 0x00], asm_sparc_xnorcc),
     ([0x02, 0x03, 0x00], asm_sparc_xor), ([0x02, 0x13, 0x00], asm_sparc_xorcc)]"

definition asm_register_sparc_opcode :: "vector_t \<Rightarrow> nat list \<Rightarrow> ptr \<Rightarrow> vector_t option" where
  "asm_register_sparc_opcode vec dim fcn = aspect_vectors_insert vec dim fcn"

fun register_sparc_rows :: "(nat list \<times> sparc_handler) list \<Rightarrow> ptr \<Rightarrow> vector_t \<Rightarrow> vector_t option" where
  "register_sparc_rows [] a vec = Some vec"
| "register_sparc_rows ((dim, _) # rows) a vec =
     Option.bind (asm_register_sparc_opcode vec dim a) (register_sparc_rows rows (a + 1))"

definition asm_register_sparc_instructions :: "vector_t \<Rightarrow> vector_t option" where
  "asm_register_sparc_instructions vec = register_sparc_rows sparc_opcodes 2 vec"

text \<open>\<open>asm_register_sparc\<close>: both vectors with their handlers.\<close>

definition asm_register_sparc :: "(vector_t \<times> vector_t) option" where
  "asm_register_sparc =
     (let vec = make_vector 1 [4, 64, 32] [''OPCODES'', ''SECONDARY OPCODES'', ''FPOP2 OPCODE (OPF_LOW)''] 3 in
      Option.bind (asm_register_sparc_instructions vec) (\<lambda>v1.
      Option.bind sparc_operand_vector (\<lambda>v2. Some (v1, v2))))"

text \<open>A call through a code address; \<open>asm_fetch_default\<close> calls \<open>asm_sparc_illegal\<close> on SPARC.\<close>

definition sparc_call :: "ptr \<Rightarrow> sparc_handler" where
  "sparc_call f =
     (if 2 \<le> f \<and> f - 2 < length sparc_opcodes then snd (sparc_opcodes ! (f - 2)) else asm_sparc_illegal)"

subsection \<open>Fetching\<close>

definition sparc_internals :: s_asm_proc_sparc where
  "sparc_internals =
     \<lparr>bcc_table = sparc_bcc_list, brcc_table = sparc_brcc_list, fbcc_table = sparc_fbcc_list,
      shift_table = sparc_shift_list, movcc_table = sparc_movcc_list, movfcc_table = sparc_movfcc_list,
      movr_table = sparc_movr_list, fpop1_table = sparc_fpop1_list, fmovcc_table = sparc_fmovcc_list,
      fmovfcc_table = sparc_fmovfcc_list, fmovr_table = sparc_fmovr_list, fcmp_table = sparc_fcmp_list,
      tcc_table = sparc_tcc_list, op2_table = sparc_op2_table, op3_table = sparc_op3_table\<rparr>"

text \<open>The coordinates \<open>fetch_sparc\<close> computes from the instruction word.\<close>

definition sparc_dims :: "u_int \<Rightarrow> nat list" where
  "sparc_dims converted =
     (let dim0 = unat (drop_bit 30 (converted AND 0xC0000000)) in
      if drop_bit 31 converted AND 1 \<noteq> 0 then
        (if drop_bit 30 converted AND 1 \<noteq> 0 then [dim0, unat (drop_bit 19 converted AND 0x3f), 0]
         else (let dim1 = unat (drop_bit 19 converted AND 0x3f) in
               [dim0, dim1, if dim1 = 0x35 then unat (drop_bit 5 (converted AND 0x3E0)) else 0]))
      else
        (if drop_bit 30 converted AND 1 \<noteq> 0 then [dim0, 0, 0]
         else [dim0, unat (drop_bit 22 converted AND 0x7), 0]))"

text \<open>The bytes are reversed on the little-endian host, four of them whatever \<open>len\<close> says.\<close>

definition sparc_word :: "u_char list \<Rightarrow> asm_error + u_int" where
  "sparc_word buf = (if length buf < 4 then Inl Short_Buffer else Inr (le32 (rev (take 4 buf))))"

definition primary_space :: "asm_operand \<Rightarrow> asm_operand" where
  "primary_space p = p\<lparr>address_space := 0x80\<rparr>"

definition fetch_sparc :: "vector_t \<Rightarrow> bool \<Rightarrow> s_asm_proc_sparc \<Rightarrow> u_char list \<Rightarrow> asm_instr \<Rightarrow> asm_result" where
  "fetch_sparc vec synth internals buf ins = rbind (sparc_word buf) (\<lambda>converted.
     let ins1 = stmts [\<lambda>ins. ins\<lparr>ilen := 4\<rparr>, set_ptr_instr Ptr_Caller, set_nb_op 0, set_type ASM_TYPE_NONE,
                  upd_op 0 primary_space, upd_op 1 primary_space, upd_op 2 primary_space] ins
     in (case aspect_vectors_select vec (sparc_dims converted) of
           None \<Rightarrow> Inl Bad_Dispatch
         | Some fetch \<Rightarrow> sparc_call fetch synth internals converted ins1))"

text \<open>The processor that \<open>asm_init_sparc\<close> sets up, with its vectors registered, and
  \<open>asm_read_instr\<close> on it; \<open>synth\<close> is the setting of synthetic instructions.\<close>

definition asm_init_sparc :: "bool \<Rightarrow> asm_processor" where
  "asm_init_sparc synth = \<lparr>proc_type = ASM_PROC_SPARC, proc_mode = 0,
     proc_fetch = map_option (\<lambda>(vec, _) buf len ins. fetch_sparc vec synth sparc_internals buf ins) asm_register_sparc\<rparr>"

definition asm_read_sparc :: "bool \<Rightarrow> u_char list \<Rightarrow> asm_result" where
  "asm_read_sparc synth buf = asm_read_instr buf (of_nat (length buf)) (asm_init_sparc synth)"

subsection \<open>Output\<close>

definition asm_resolve_sparc :: "eresi_Addr \<Rightarrow> string" where
  "asm_resolve_sparc val = ''0x'' @ sparc_fmt_X val"

text \<open>What \<open>asm_sparc_dump_operand\<close> writes for the operand \<open>num\<close>; other numbers write nothing.\<close>

definition asm_sparc_dump_operand :: "asm_instr \<Rightarrow> nat \<Rightarrow> eresi_Addr \<Rightarrow> string" where
  "asm_sparc_dump_operand ins num addr =
     (if num \<notin> {1, 2, 3} then [] else
      let p = op ins ! (num - 1) in
      if ocontent p = ASM_SP_OTYPE_REGISTER then get_sparc_register (baser p)
      else if ocontent p = ASM_SP_OTYPE_SREGISTER then get_sparc_sregister (baser p)
      else if ocontent p = ASM_SP_OTYPE_PREGISTER then get_sparc_pregister (baser p)
      else if ocontent p = ASM_SP_OTYPE_FREGISTER then get_sparc_fregister (baser p)
      else if ocontent p = ASM_SP_OTYPE_CC then get_sparc_cc (baser p)
      else if ocontent p = ASM_SP_OTYPE_IMMEDIATE then
        (if sint (imm p) < 10 then fmt_d (sint (imm p)) else ''0x'' @ sparc_fmt_x (imm p))
      else if ocontent p = ASM_SP_OTYPE_SETHI then
        (if imm p \<noteq> 0 then ''%hi(0x'' @ sparc_fmt_x (push_bit 10 (imm p)) @ '')''
         else ''%hi('' @ sparc_fmt_x (push_bit 10 (imm p)) @ '')'')
      else if ocontent p = ASM_SP_OTYPE_DISPLACEMENT then asm_resolve_sparc (addr + push_bit 2 (imm p))
      else if ocontent p = ASM_SP_OTYPE_DISP30 then asm_resolve_sparc (addr + push_bit 2 (imm p))
      else if ocontent p = ASM_SP_OTYPE_IMM_ADDRESS then
        ''['' @ get_sparc_register (baser p) @ (if imm p \<noteq> 0 then '' + 0x'' @ sparc_fmt_x (imm p) else []) @ '']'' @
        (if address_space p \<noteq> ASM_SP_ASI_P then '' %asi'' else [])
      else if ocontent p = ASM_SP_OTYPE_REG_ADDRESS then
        (if 0 < sint (indexr p)
         then ''['' @ get_sparc_register (baser p) @ '' + '' @ get_sparc_register (indexr p) @ '']''
         else ''['' @ get_sparc_register (baser p) @ '']'') @
        (if address_space p \<noteq> ASM_SP_ASI_P then '' 0x'' @ sparc_fmt_x (address_space p) else [])
      else ''err'')"

text \<open>\<open>asm_sparc_display_instr\<close>: the mnemonic, the suffixes of conditional branches and the operands,
  the last one first. \<open>None\<close> is an identifier outside the table.\<close>

definition asm_sparc_display_instr :: "asm_instr \<Rightarrow> eresi_Addr \<Rightarrow> string option" where
  "asm_sparc_display_instr ins addr =
     (if instr ins < length sparc_instr_list then Some (
        sparc_instr_list ! instr ins @
        (if itype ins AND ASM_TYPE_BRANCH \<noteq> 0 \<and> itype ins AND ASM_TYPE_CONDCONTROL \<noteq> 0 then
           (if annul ins \<noteq> 0 then '',a'' else []) @ (if prediction ins = 0 then '',pn'' else [])
         else []) @
        (if 0 < nb_op ins then
           '' '' @ (if nb_op ins = 3 then asm_sparc_dump_operand ins 3 addr @ '', '' else []) @
           (if 2 \<le> nb_op ins then asm_sparc_dump_operand ins 2 addr @ '', '' else []) @
           asm_sparc_dump_operand ins 1 addr
         else []))
      else None)"

subsection \<open>Dispatch\<close>

lemma sparc_opcodes_dims: "list_all (in_dims [4, 64, 32]) (map fst sparc_opcodes)"
  unfolding sparc_opcodes_def by (simp add: in_dims_def)

lemma sparc_opcodes_distinct: "distinct (map fst sparc_opcodes)"
  unfolding sparc_opcodes_def by simp

lemma register_sparc_rows_at: "register_sparc_rows rows a vec = register_at (map fst rows) a vec"
proof (induction rows arbitrary: a vec)
  case (Cons r rows)
  have "register_sparc_rows rows (a + 1) = register_at (map fst rows) (a + 1)" by (rule ext) (rule Cons.IH)
  then show ?case by (cases r) (simp add: asm_register_sparc_opcode_def)
qed simp

lemma sparc_vector:
  obtains vec where "asm_register_sparc = Some (vec, the sparc_operand_vector)"
    "\<forall>dims. in_dims [4, 64, 32] dims \<longrightarrow> aspect_vectors_select vec dims =
       Some (case map_of (rev (row_pairs 2 (map fst sparc_opcodes))) dims of Some f \<Rightarrow> f | None \<Rightarrow> 1)"
proof -
  have nz: "[4, 64, 32] \<noteq> ([] :: nat list)" "in_dims [4, 64, 32] [0, 0, 0]" by (simp_all add: in_dims_def)
  obtain u where u: "register_at (map fst sparc_opcodes) 2
      (make_vector 1 [4, 64, 32] [''OPCODES'', ''SECONDARY OPCODES'', ''FPOP2 OPCODE (OPF_LOW)''] (length [4, 64, 32 :: nat])) = Some u"
    "\<forall>dims. in_dims [4, 64, 32] dims \<longrightarrow> aspect_vectors_select u dims =
       Some (case map_of (rev (row_pairs 2 (map fst sparc_opcodes))) dims of Some f \<Rightarrow> f | None \<Rightarrow> 1)"
    by (rule register_at_fresh [OF nz(1) sparc_opcodes_dims nz(2)])
  have "length [4, 64, 32 :: nat] = 3" by simp
  with u(1) have "asm_register_sparc = Some (u, the sparc_operand_vector)"
    by (simp only: asm_register_sparc_def asm_register_sparc_instructions_def register_sparc_rows_at Let_def
        sparc_operand_vector_eq Option.bind.bind_lunit option.sel)
  then show thesis using u(2) by (rule that)
qed

text \<open>The handler of some coordinates.\<close>

definition sparc_row :: "nat list \<Rightarrow> sparc_handler" where
  "sparc_row dims = (case map_of sparc_opcodes dims of Some h \<Rightarrow> h | None \<Rightarrow> asm_sparc_illegal)"

lemma find_rev_map_of:
  "distinct (map fst xs) \<Longrightarrow> find (\<lambda>e. fst e = k) (rev xs) = map_option (Pair k) (map_of xs k)"
proof (induction xs)
  case (Cons x xs)
  then have "fst x = k \<Longrightarrow> map_of xs k = None" by (auto simp: map_of_eq_None_iff)
  with Cons show ?case by (cases x) (auto simp: find_snoc split: option.splits)
qed simp

lemma sparc_call_row:
  "sparc_call (case map_of (rev (row_pairs 2 (map fst sparc_opcodes))) dims of Some f \<Rightarrow> f | None \<Rightarrow> 1) = sparc_row dims"
  using map_of_row_pairs [where a = 2 and g = fst and es = sparc_opcodes and dims = dims]
    find_rev_map_of [OF sparc_opcodes_distinct, of dims]
  by (auto simp: sparc_call_def sparc_row_def split: option.splits)

lemma sparc_dims_in: "in_dims [4, 64, 32] (sparc_dims w)"
proof -
  have m: "unat (x AND 0x3f) < 64" "unat (x AND 0x7) < 64" for x :: u_int
    using unat_and_le [of x "0x3f"] unat_and_le [of x "0x7"] by simp_all
  have "unat (drop_bit 30 (w AND 0xC0000000)) < 4" "unat (drop_bit 5 (w AND 0x3E0)) < 32"
    using unat_drop_and_le [of 30 w "0xC0000000"] unat_drop_and_le [of 5 w "0x3E0"] by simp_all
  with m show ?thesis by (simp add: sparc_dims_def in_dims_def Let_def)
qed

definition sparc_start :: asm_instr where
  "sparc_start = zero_instr\<lparr>ilen := 4, ptr_instr := Ptr_Caller,
     op := replicate 3 (primary_space zero_operand) @ replicate 3 zero_operand\<rparr>"

lemma sparc_read_row:
  "asm_read_sparc synth buf = rbind (sparc_word buf) (\<lambda>w. sparc_row (sparc_dims w) synth sparc_internals w sparc_start)"
proof -
  obtain vec where vec: "asm_register_sparc = Some (vec, the sparc_operand_vector)"
    "\<forall>dims. in_dims [4, 64, 32] dims \<longrightarrow> aspect_vectors_select vec dims =
       Some (case map_of (rev (row_pairs 2 (map fst sparc_opcodes))) dims of Some f \<Rightarrow> f | None \<Rightarrow> 1)"
    by (rule sparc_vector)
  have start: "stmts [\<lambda>ins. ins\<lparr>ilen := 4\<rparr>, set_ptr_instr Ptr_Caller, set_nb_op 0, set_type ASM_TYPE_NONE,
      upd_op 0 primary_space, upd_op 1 primary_space, upd_op 2 primary_space] zero_instr = sparc_start"
    by (simp add: sparc_start_def zero_instr_def asm_steps numeral_eq_Suc ASM_TYPE_NONE_def)
  have sel: "aspect_vectors_select vec (sparc_dims w) =
      Some (case map_of (rev (row_pairs 2 (map fst sparc_opcodes))) (sparc_dims w) of Some f \<Rightarrow> f | None \<Rightarrow> 1)" for w
    using vec(2) sparc_dims_in by blast
  have "asm_read_sparc synth buf = fetch_sparc vec synth sparc_internals buf zero_instr"
    by (simp add: asm_read_sparc_def asm_read_instr_def asm_init_sparc_def vec(1))
  also have "\<dots> = rbind (sparc_word buf) (\<lambda>w. sparc_row (sparc_dims w) synth sparc_internals w sparc_start)"
    unfolding fetch_sparc_def start sel Let_def option.case by (simp only: sparc_call_row)
  finally show ?thesis .
qed

end
