(* ===== verification/Sparc_Laws.thy ===== *)
theory Sparc_Laws
  imports Sparc
begin

text \<open>
  What the SPARC disassembler guarantees: decoding follows the registered table, it fails exactly on
  the words whose handler reads past a table of identifiers, and it inverts the encodings of the
  architecture manual.
\<close>

subsection \<open>Well-formed instructions\<close>

text \<open>The identifier has a mnemonic, the length is 4 and at most three of the six operands are in use.\<close>

definition sparc_ok :: "asm_instr \<Rightarrow> bool" where
  "sparc_ok ins \<longleftrightarrow> length (op ins) = 6 \<and> instr ins < 376 \<and> nb_op ins \<le> 3 \<and> ilen ins = 4"

definition step_ok :: "(asm_instr \<Rightarrow> asm_instr) \<Rightarrow> bool" where
  "step_ok f \<longleftrightarrow> (\<forall>ins. sparc_ok ins \<longrightarrow> sparc_ok (f ins))"

definition flow_ok :: "flow \<Rightarrow> bool" where
  "flow_ok r = (case r of Next ins \<Rightarrow> sparc_ok ins | Return v ins \<Rightarrow> v = 4 \<and> sparc_ok ins | Fault _ \<Rightarrow> False)"

definition fine :: "statement \<Rightarrow> bool" where
  "fine f \<longleftrightarrow> (\<forall>ins. sparc_ok ins \<longrightarrow> flow_ok (f ins))"

lemma step_ok_simps [simp]:
  "step_ok (set_instr n) \<longleftrightarrow> n < 376" "step_ok (set_nb_op k) \<longleftrightarrow> k \<le> 3"
  "step_ok (set_type t)" "step_ok (set_arith t)" "step_ok (set_flagswritten t)" "step_ok (set_flagsread t)"
  "step_ok (set_annul a)" "step_ok (set_prediction b)" "step_ok (set_ptr_instr c)"
  "step_ok (set_baser i x)" "step_ok (set_imm i y)" "step_ok (set_indexr i z)" "step_ok (set_address_space i u)"
  "step_ok (set_content i t)" "step_ok (set_otype i t)" "step_ok (copy_op i j)" "step_ok (upd_op i g)"
  by (auto simp: step_ok_def sparc_ok_def asm_steps intro!: exI [of _ "\<lparr>ptr_instr = Ptr_Null, instr = 0,
    itype = 0, spdiff = 0, flagswritten = 0, flagsread = 0, annul = 0, prediction = 0, nb_op = 0,
    op = replicate 6 zero_operand, ilen = 4, arith = 0\<rparr>"])

lemma stmts_ok: "list_all step_ok fs \<Longrightarrow> sparc_ok ins \<Longrightarrow> sparc_ok (stmts fs ins)"
  by (induction fs arbitrary: ins) (auto simp: step_ok_def)

lemma step_ok_lambda [simp]: "step_ok (\<lambda>ins. set_type (h ins) ins)"
  by (simp add: step_ok_def sparc_ok_def set_type_def)

lemma op_fetch_ok [simp]:
  assumes "ot < ASM_SP_OTYPE_NUM"
  shows "step_ok (asm_sparc_op_fetch i ot)"
proof -
  have "sparc_ok (asm_sparc_op_fetch i ot ins)" if "sparc_ok ins" for ins
    using that by (simp add: sparc_op_fetch_eq [OF assms] sparc_ok_def asm_steps)
  then show ?thesis by (simp add: step_ok_def)
qed

lemma fine_assigns [simp]: "list_all step_ok fs \<Longrightarrow> fine (assigns fs)"
  by (simp add: fine_def flow_ok_def assigns_def stmts_ok)

lemma fine_test [simp]: "fine f \<Longrightarrow> fine g \<Longrightarrow> fine (test c f g)"
  by (simp add: fine_def test_def)

lemma fine_return [simp]: "fine (return 4)"
  by (simp add: fine_def flow_ok_def return_def)

lemma fine_block [simp]: "list_all fine fs \<Longrightarrow> fine (block fs)"
proof (induction fs)
  case (Cons f fs)
  then have "flow_ok (block (f # fs) ins)" if "sparc_ok ins" for ins
    using that by (cases "f ins") (auto simp: fine_def flow_ok_def)
  then show ?case by (simp add: fine_def)
qed (simp add: fine_def flow_ok_def)

lemma fine_instr_from:
  "unat i < length table \<Longrightarrow> list_all (\<lambda>n. n < 376) table \<Longrightarrow> fine (instr_from table i)"
  by (auto simp: fine_def flow_ok_def instr_from_def sparc_ok_def set_instr_def list_all_length)

text \<open>A body that ends with \<open>return\<close> does not run off its end.\<close>

lemma block_last: "fs \<noteq> [] \<Longrightarrow> last fs = return v \<Longrightarrow> block fs ins \<noteq> Next ins'"
  by (induction fs arbitrary: ins) (auto simp: return_def split: flow.splits if_splits)

definition result_fine :: "asm_result \<Rightarrow> bool" where
  "result_fine r \<longleftrightarrow> (\<exists>ins. r = Inr (4, ins) \<and> sparc_ok ins)"

lemma run_fine:
  assumes "list_all fine fs" "fs \<noteq> []" "last fs = return 4" "sparc_ok ins"
  shows "result_fine (run fs ins)"
proof -
  have "flow_ok (block fs ins)" using fine_block [OF assms(1)] assms(4) by (simp add: fine_def)
  then show ?thesis
    using block_last [OF assms(2,3), of ins] by (auto simp: run_def result_fine_def flow_ok_def split: flow.splits)
qed

subsection \<open>Fields and tables\<close>

lemma f3_bounds:
  "unat (f3_cond (sparc_convert_format3 w)) < 16" "unat (f3_rcond (sparc_convert_format3 w)) < 8"
  "unat (f4_cond (sparc_convert_format4 w)) < 16"
  using unat_and_le [of "ucast (f3_rs1 (sparc_convert_format3 w))" "0xf"]
    unat_drop_and_le [of 10 "f3_imm (sparc_convert_format3 w)" "0x1c00"]
  by (simp_all add: sparc_convert_format3_def sparc_convert_format4_def Let_def)

lemma tables_bounded:
  "list_all (\<lambda>n. n < 376) sparc_op2_table" "list_all (\<lambda>n. n < 376) sparc_op3_table"
  "list_all (\<lambda>n. n < 376) sparc_bcc_list" "list_all (\<lambda>n. n < 376) sparc_tcc_list"
  "list_all (\<lambda>n. n < 376) sparc_brcc_list" "list_all (\<lambda>n. n < 376) sparc_fbcc_list"
  "list_all (\<lambda>n. n < 376) sparc_shift_list" "list_all (\<lambda>n. n < 376) sparc_movcc_list"
  "list_all (\<lambda>n. n < 376) sparc_movfcc_list" "list_all (\<lambda>n. n < 376) sparc_movr_list"
  "list_all (\<lambda>n. n < 376) sparc_fpop1_list" "list_all (\<lambda>n. n < 376) sparc_fmovcc_list"
  "list_all (\<lambda>n. n < 376) sparc_fmovfcc_list" "list_all (\<lambda>n. n < 376) sparc_fmovr_list"
  "list_all (\<lambda>n. n < 376) sparc_fcmp_list"
  by code_simp+

lemma tables_length:
  "length sparc_op2_table = 64" "length sparc_op3_table = 64" "length sparc_bcc_list = 16"
  "length sparc_tcc_list = 16" "length sparc_brcc_list = 8" "length sparc_fbcc_list = 16"
  "length sparc_shift_list = 6" "length sparc_movcc_list = 16" "length sparc_movfcc_list = 16"
  "length sparc_movr_list = 8" "length sparc_fpop1_list = 256" "length sparc_fmovcc_list = 48"
  "length sparc_fmovfcc_list = 48" "length sparc_fmovr_list = 24" "length sparc_fcmp_list = 8"
  "length sparc_instr_list = 376"
  by (simp_all add: sparc_tables sparc_instr_list_def)

lemma fine_tables [simp]:
  "fine (instr_from (op2_table sparc_internals) (i6 :: 6 word))"
  "fine (instr_from (op3_table sparc_internals) (i6 :: 6 word))"
  "fine (instr_from (bcc_table sparc_internals) (i4 :: 4 word))"
  "fine (instr_from (fbcc_table sparc_internals) (i4 :: 4 word))"
  "fine (instr_from (brcc_table sparc_internals) (i3 :: 3 word))"
  "fine (instr_from (tcc_table sparc_internals) (f4_cond (sparc_convert_format4 w)))"
  "fine (instr_from (movcc_table sparc_internals) (f4_cond (sparc_convert_format4 w)))"
  "fine (instr_from (movfcc_table sparc_internals) (f4_cond (sparc_convert_format4 w)))"
  "fine (instr_from (movr_table sparc_internals) (f3_rcond (sparc_convert_format3 w)))"
  using unsigned_less [of i6, where ?'a = nat] unsigned_less [of i4, where ?'a = nat]
    unsigned_less [of i3, where ?'a = nat] f3_bounds [of w]
  by (simp_all add: sparc_internals_def fine_instr_from tables_length tables_bounded)

text \<open>The coordinates as fields of the format.\<close>

lemma drop_and_one: "drop_bit n w AND 1 \<noteq> 0 \<longleftrightarrow> bit (w :: u_int) n"
  by (simp add: and_one_eq bit_iff_odd_drop_bit odd_iff_mod_2_eq_one)

lemma op_bits: "unat (drop_bit 30 (w AND 0xC0000000) :: u_int) = 2 * of_bool (bit w 31) + of_bool (bit w 30)"
proof -
  have m: "(0xC0000000 :: u_int) = push_bit 30 (mask 2)" by (simp add: mask_eq_exp_minus_1 push_bit_eq_mult)
  have "drop_bit 30 (w AND 0xC0000000) = push_bit 1 (of_bool (bit w 31)) OR of_bool (bit w 30)"
    unfolding m
  proof (rule bit_word_eqI)
    fix n assume "n < LENGTH(32)"
    then consider "n = 0" | "n = 1" | "2 \<le> n" by linarith
    then show "bit (drop_bit 30 (w AND push_bit 30 (mask 2))) n =
        bit (push_bit 1 (of_bool (bit w 31)) OR of_bool (bit w 30) :: u_int) n"
      by cases (auto simp: bit_simps dest: bit_imp_le_length)
  qed
  then show ?thesis by (cases "bit w 31"; cases "bit w 30") simp_all
qed

lemma sparc_dims_bits:
  "sparc_dims w =
     (if bit w 31 then
        (if bit w 30 then [3, unat (drop_bit 19 w AND 0x3f), 0]
         else [2, unat (drop_bit 19 w AND 0x3f),
           if unat (drop_bit 19 w AND 0x3f) = 0x35 then unat (drop_bit 5 (w AND 0x3E0)) else 0])
      else if bit w 30 then [1, 0, 0] else [0, unat (drop_bit 22 w AND 0x7), 0])"
  unfolding sparc_dims_def op_bits Let_def drop_and_one by simp

lemma dims_op3:
  assumes "sparc_dims w = [2, n, k]"
  shows "ucast (f3_op3 (sparc_convert_format3 w)) = (of_nat n :: u_int)"
proof -
  have "unat (drop_bit 19 w AND 0x3f) = n" using assms by (auto simp: sparc_dims_bits split: if_splits)
  moreover have "ucast (f3_op3 (sparc_convert_format3 w)) = drop_bit 19 w AND 0x3f"
  proof -
    have m: "(0x3f :: u_int) = mask 6" by (simp add: mask_eq_exp_minus_1)
    show ?thesis unfolding sparc_convert_format3_def Let_def s_decode_format3.simps m
      by (rule bit_word_eqI) (auto simp: bit_simps)
  qed
  ultimately show ?thesis by auto
qed

lemma dims_opf:
  assumes "sparc_dims w = [2, 0x35, k]"
  shows "f3_opf (sparc_convert_format3 w) AND 0x1f = of_nat k"
proof -
  have k: "unat (drop_bit 5 (w AND 0x3E0)) = k" using assms by (auto simp: sparc_dims_bits split: if_splits)
  have m: "(0x1f :: u_int) = mask 5" "(0x3E0 :: u_int) = push_bit 5 (mask 5)" "(0xff :: u_int) = mask 8" "(1 :: u_int) = mask 1"
    by (simp_all add: mask_eq_exp_minus_1 push_bit_eq_mult)
  have "f3_opf (sparc_convert_format3 w) AND 0x1f = drop_bit 5 (w AND 0x3E0)"
    unfolding sparc_convert_format3_def Let_def s_decode_format3.simps m
    by (rule bit_word_eqI) (auto simp: bit_simps)
  with k show ?thesis by auto
qed

lemma opf_small:
  assumes "\<not> bit w 13"
  shows "unat (f3_opf (sparc_convert_format3 w)) < 256"
proof -
  have "ucast (drop_bit 13 w AND 0x1) = (0 :: 1 word)"
    using assms drop_and_one [of 13 w] by simp
  then have "f3_opf (sparc_convert_format3 w) = ucast (f3_none (sparc_convert_format3 w))"
    unfolding sparc_convert_format3_def Let_def by simp
  then show ?thesis using unat_ucast_below [of "f3_none (sparc_convert_format3 w)"] by simp
qed

subsection \<open>Handlers\<close>

text \<open>The words whose handler reads past the end of a table: FPop1 with the high bit of the 9-bit
  opcode set, where the table has 256 entries, and FMOVRs, whose row number underflows.\<close>

definition sparc_faults :: "u_int \<Rightarrow> bool" where
  "sparc_faults w \<longleftrightarrow> sparc_dims w = [2, 0x34, 0] \<and> bit w 13 \<or> sparc_dims w = [2, 0x35, 5]"

definition handler_fine :: "nat list \<Rightarrow> sparc_handler \<Rightarrow> bool" where
  "handler_fine d h \<longleftrightarrow> (\<forall>synth w ins. sparc_ok ins \<longrightarrow> sparc_dims w = d \<longrightarrow> \<not> sparc_faults w \<longrightarrow>
     result_fine (h synth sparc_internals w ins))"

lemma otype_bounds [simp]:
  "ASM_SP_OTYPE_REGISTER < ASM_SP_OTYPE_NUM" "ASM_SP_OTYPE_IMMEDIATE < ASM_SP_OTYPE_NUM"
  "ASM_SP_OTYPE_DISPLACEMENT < ASM_SP_OTYPE_NUM" "ASM_SP_OTYPE_DISP30 < ASM_SP_OTYPE_NUM"
  "ASM_SP_OTYPE_SETHI < ASM_SP_OTYPE_NUM" "ASM_SP_OTYPE_FREGISTER < ASM_SP_OTYPE_NUM"
  "ASM_SP_OTYPE_SREGISTER < ASM_SP_OTYPE_NUM" "ASM_SP_OTYPE_PREGISTER < ASM_SP_OTYPE_NUM"
  "ASM_SP_OTYPE_CC < ASM_SP_OTYPE_NUM" "ASM_SP_OTYPE_IMM_ADDRESS < ASM_SP_OTYPE_NUM"
  "ASM_SP_OTYPE_REG_ADDRESS < ASM_SP_OTYPE_NUM"
  by (simp_all add: sparc_const)

lemma instr_bounds [simp]:
"ASM_SP_BAD < 376" "ASM_SP_BCLR < 376" "ASM_SP_BSET < 376" "ASM_SP_BTOG < 376" "ASM_SP_BTST < 376" "ASM_SP_CALL < 376" "ASM_SP_CAS < 376" "ASM_SP_CASL < 376" "ASM_SP_CASX < 376" "ASM_SP_CASXL < 376" "ASM_SP_CLR < 376" "ASM_SP_CLRB < 376" "ASM_SP_CLRH < 376" "ASM_SP_CLRUW < 376" "ASM_SP_CLRX < 376" "ASM_SP_CMP < 376" "ASM_SP_DEC < 376" "ASM_SP_DECCC < 376" "ASM_SP_DONE < 376" "ASM_SP_ILLTRAP < 376" "ASM_SP_INC < 376" "ASM_SP_INCCC < 376" "ASM_SP_IPREFETCH < 376" "ASM_SP_JMP < 376" "ASM_SP_LDFSR < 376" "ASM_SP_LDXFSR < 376" "ASM_SP_MEMBAR < 376" "ASM_SP_MOV < 376" "ASM_SP_NEG < 376" "ASM_SP_NOP < 376" "ASM_SP_NOT < 376" "ASM_SP_POPC < 376" "ASM_SP_RESTORED < 376" "ASM_SP_RET < 376" "ASM_SP_RETL < 376" "ASM_SP_RETRY < 376" "ASM_SP_SAVED < 376" "ASM_SP_SETHI < 376" "ASM_SP_SIGNX < 376" "ASM_SP_SIR < 376" "ASM_SP_STBAR < 376" "ASM_SP_TST < 376"
  by (simp_all add: sparc_const)

text \<open>The handlers whose index is computed from several fields.\<close>

lemma fine_special:
  fixes w :: u_int
  defines "c \<equiv> sparc_convert_format3 w"
  shows "sparc_dims w = [2, 0x25, 0] \<or> sparc_dims w = [2, 0x26, 0] \<or> sparc_dims w = [2, 0x27, 0] \<Longrightarrow>
      fine (instr_from (shift_table sparc_internals) (ucast (f3_op3 c) - 0x25 + (if f3_imm c AND 0x1000 \<noteq> 0 then 1 else 0 :: u_int)))"
    and "sparc_dims w = [2, 0x35, k] \<Longrightarrow> k \<in> {17, 18, 19, 21, 22, 23} \<Longrightarrow>
      fine (instr_from (fcmp_table sparc_internals) ((f3_opf c AND 0x1f) - 16))"
    and "sparc_dims w = [2, 0x35, k] \<Longrightarrow> k \<in> {1, 2, 3} \<Longrightarrow>
      fine (instr_from (fmovcc_table sparc_internals) ((((f3_opf c AND 0x1f) - 1) * 8) + f3_cond c))"
    and "sparc_dims w = [2, 0x35, k] \<Longrightarrow> k \<in> {1, 2, 3} \<Longrightarrow>
      fine (instr_from (fmovfcc_table sparc_internals) ((((f3_opf c AND 0x1f) - 1) * 8) + f3_cond c))"
    and "sparc_dims w = [2, 0x35, k] \<Longrightarrow> k \<in> {6, 7} \<Longrightarrow>
      fine (instr_from (fmovr_table sparc_internals) ((((f3_opf c AND 0x1f) - 6) * 8) + f3_rcond c))"
    and "\<not> bit w 13 \<Longrightarrow> fine (instr_from (fpop1_table sparc_internals) (f3_opf c))"
proof -
  show "sparc_dims w = [2, 0x25, 0] \<or> sparc_dims w = [2, 0x26, 0] \<or> sparc_dims w = [2, 0x27, 0] \<Longrightarrow>
      fine (instr_from (shift_table sparc_internals) (ucast (f3_op3 c) - 0x25 + (if f3_imm c AND 0x1000 \<noteq> 0 then 1 else 0 :: u_int)))"
    by (elim disjE) (drule dims_op3, simp add: c_def sparc_internals_def fine_instr_from tables_length tables_bounded)+
  have add: "unat (x + y) < b" if "unat x + unat y < b" for x y :: u_int and b
    using that by (simp add: unat_word_ariths)
  have cond: "unat (f3_cond c) < 16" "unat (f3_rcond c) < 8" using f3_bounds [of w] by (simp_all add: c_def)
  { assume d: "sparc_dims w = [2, 0x35, k]"
    have o: "f3_opf c AND 0x1f = of_nat k" unfolding c_def by (rule dims_opf [OF d])
    show "k \<in> {17, 18, 19, 21, 22, 23} \<Longrightarrow> fine (instr_from (fcmp_table sparc_internals) ((f3_opf c AND 0x1f) - 16))"
      by (auto simp: o sparc_internals_def fine_instr_from tables_length tables_bounded)
    show "k \<in> {1, 2, 3} \<Longrightarrow> fine (instr_from (fmovcc_table sparc_internals) ((((f3_opf c AND 0x1f) - 1) * 8) + f3_cond c))"
      using cond by (auto simp: o sparc_internals_def tables_length tables_bounded intro!: fine_instr_from add)
    show "k \<in> {1, 2, 3} \<Longrightarrow> fine (instr_from (fmovfcc_table sparc_internals) ((((f3_opf c AND 0x1f) - 1) * 8) + f3_cond c))"
      using cond by (auto simp: o sparc_internals_def tables_length tables_bounded intro!: fine_instr_from add)
    show "k \<in> {6, 7} \<Longrightarrow> fine (instr_from (fmovr_table sparc_internals) ((((f3_opf c AND 0x1f) - 6) * 8) + f3_rcond c))"
      using cond by (auto simp: o sparc_internals_def tables_length tables_bounded intro!: fine_instr_from add) }
  show "\<not> bit w 13 \<Longrightarrow> fine (instr_from (fpop1_table sparc_internals) (f3_opf c))"
    using opf_small [of w] by (simp add: c_def sparc_internals_def fine_instr_from tables_length tables_bounded)
qed

lemma sparc_handlers_fine: "list_all (\<lambda>(d, h). handler_fine d h) sparc_opcodes"
  unfolding sparc_opcodes_def list.pred_inject prod.case handler_fine_def
  by (intro conjI TrueI allI impI)
    (simp_all add: sparc_handlers1_defs sparc_handlers2_defs Let_def run_fine fine_special sparc_faults_def
      del: left_diff_distrib_numeral)

lemma illegal_fine: "sparc_ok ins \<Longrightarrow> result_fine (asm_sparc_illegal synth internals w ins)"
  by (simp add: asm_sparc_illegal_def run_fine)

lemma start_ok: "sparc_ok sparc_start"
  by (simp add: sparc_start_def sparc_ok_def zero_instr_def)

lemma sparc_row_fine:
  assumes "\<not> sparc_faults w"
  shows "result_fine (sparc_row (sparc_dims w) synth sparc_internals w sparc_start)"
proof (cases "map_of sparc_opcodes (sparc_dims w)")
  case None
  then show ?thesis by (simp add: sparc_row_def illegal_fine start_ok)
next
  case (Some h)
  then have "handler_fine (sparc_dims w) h"
    using sparc_handlers_fine map_of_SomeD [OF Some] by (auto simp: list_all_iff)
  with Some assms show ?thesis by (simp add: sparc_row_def handler_fine_def start_ok)
qed

lemma bit_unat_ge: "bit (w :: u_int) n \<Longrightarrow> 2 ^ n \<le> unat w"
proof (rule ccontr)
  assume b: "bit w n" and "\<not> 2 ^ n \<le> unat w"
  then have "take_bit n (unat w) = unat w" by (simp add: take_bit_nat_eq_self)
  moreover have "bit (unat w) n" using b by (auto simp: bit_unsigned_iff dest: bit_imp_le_length)
  ultimately show False by (metis bit_take_bit_iff less_irrefl)
qed

lemma sparc_row_faults:
  assumes "sparc_faults w"
  shows "sparc_row (sparc_dims w) synth sparc_internals w sparc_start = Inl Bad_Dispatch"
  using assms unfolding sparc_faults_def
proof (elim disjE conjE)
  assume d: "sparc_dims w = [2, 0x34, 0]" and b: "bit w 13"
  have "bit (f3_opf (sparc_convert_format3 w)) 8"
    using b by (simp add: sparc_convert_format3_def Let_def bit_simps drop_and_one)
  then have "\<not> unat (f3_opf (sparc_convert_format3 w)) < 256" using bit_unat_ge [of _ 8] by fastforce
  moreover have "map_of sparc_opcodes [2, 0x34, 0] = Some asm_sparc_fpop1" by (simp add: sparc_opcodes_def)
  ultimately show ?thesis
    by (simp add: d sparc_row_def asm_sparc_fpop1_def Let_def run_def instr_from_def sparc_internals_def tables_length)
next
  assume d: "sparc_dims w = [2, 0x35, 5]"
  let ?r = "f3_rcond (sparc_convert_format3 w)"
  have "\<not> unat (?r - 8) < 24"
  proof
    have add8: "unat (x + 8) = unat x + 8" if "unat x < 24" for x :: u_int
      using that by (simp add: unat_word_ariths)
    assume "unat (?r - 8) < 24"
    from add8 [OF this] have "8 \<le> unat ?r" by simp
    with f3_bounds(2) [of w] show False by simp
  qed
  moreover have "map_of sparc_opcodes [2, 0x35, 5] = Some asm_sparc_fmovsr" by (simp add: sparc_opcodes_def)
  ultimately show ?thesis
    by (simp add: d sparc_row_def asm_sparc_fmovsr_def Let_def run_def assigns_def instr_from_def
        sparc_internals_def tables_length dims_opf [OF d])
qed

subsection \<open>Lengths of the text\<close>

lemma fmt_base16_length: "n < 16 ^ Suc k \<Longrightarrow> length (fmt_base16 a n) \<le> Suc k"
proof (induction k arbitrary: n)
  case 0
  then show ?case by (subst fmt_base16.simps) simp
next
  case (Suc k)
  then have "length (fmt_base16 a (n div 16)) \<le> Suc k" by (intro Suc.IH) (simp add: less_mult_imp_div_less)
  then show ?case by (subst fmt_base16.simps) simp
qed

lemma fmt_x_length: "length (sparc_fmt_x w) \<le> 8" "length (sparc_fmt_X w) \<le> 8"
  using fmt_base16_length [of "unat w" 7] unsigned_less [of w, where ?'a = nat]
  by (simp_all add: sparc_fmt_x_def sparc_fmt_X_def)

lemma fmt_u_length: "n < 10 ^ Suc k \<Longrightarrow> length (fmt_u n) \<le> Suc k"
proof (induction k arbitrary: n)
  case 0
  then show ?case by (subst fmt_u.simps) simp
next
  case (Suc k)
  then have "length (fmt_u (n div 10)) \<le> Suc k" by (intro Suc.IH) (simp add: less_mult_imp_div_less)
  then show ?case by (subst fmt_u.simps) simp
qed

lemma fmt_d_length: "length (fmt_d (sint (w :: u_int))) \<le> 11"
proof -
  have "- (2 ^ 31) \<le> sint w" "sint w < 2 ^ 31"
    using sint_greater_eq [of w] sint_less [of w] by simp_all
  then have "nat (sint w) < 10 ^ Suc 9" "nat (- sint w) < 10 ^ Suc 9" by simp_all
  from this [THEN fmt_u_length] show ?thesis by (simp add: fmt_d_def)
qed

lemma switch_length:
  "list_all (\<lambda>(_, s). length s \<le> n) cs \<Longrightarrow> length d \<le> n \<Longrightarrow> length (switch cs d x) \<le> n"
  by (induction cs) (auto simp: switch_def)

lemma names_length:
  "length (get_sparc_register r) \<le> 11" "length (get_sparc_sregister r) \<le> 11" "length (get_sparc_pregister r) \<le> 11"
  "length (get_sparc_fregister r) \<le> 11" "length (get_sparc_cc r) \<le> 11"
  unfolding get_sparc_register_def get_sparc_sregister_def get_sparc_pregister_def get_sparc_fregister_def get_sparc_cc_def
  by (rule switch_length; simp)+

lemma length_if: "(c \<Longrightarrow> length xs \<le> n) \<Longrightarrow> (\<not> c \<Longrightarrow> length ys \<le> n) \<Longrightarrow> length (if c then xs else ys) \<le> n"
  by simp

text \<open>The text of a memory operand, with or without a register index.\<close>

lemma memory_text_length:
  "length (''['' @ get_sparc_register b @ (if i \<noteq> 0 then '' + 0x'' @ sparc_fmt_x i else []) @ '']'' @
     (if a \<noteq> ASM_SP_ASI_P then '' %asi'' else [])) \<le> 50"
  "length ((if 0 < sint x then ''['' @ get_sparc_register b @ '' + '' @ get_sparc_register x @ '']''
     else ''['' @ get_sparc_register b @ '']'') @
     (if a \<noteq> ASM_SP_ASI_P then '' 0x'' @ sparc_fmt_x a else [])) \<le> 50"
  using names_length(1) [of b] names_length(1) [of x] fmt_x_length(1) [of i] fmt_x_length(1) [of a] by auto

lemma short_text_length:
  "length (get_sparc_register r) \<le> 50" "length (get_sparc_sregister r) \<le> 50" "length (get_sparc_pregister r) \<le> 50"
  "length (get_sparc_fregister r) \<le> 50" "length (get_sparc_cc r) \<le> 50"
  "length (fmt_d (sint (v :: u_int))) \<le> 50" "length (''0x'' @ sparc_fmt_x v) \<le> 50" "length (''0x'' @ sparc_fmt_X v) \<le> 50"
  "length (''%hi(0x'' @ sparc_fmt_x v @ '')'') \<le> 50" "length (''%hi('' @ sparc_fmt_x v @ '')'') \<le> 50"
  "length ([] :: string) \<le> 50" "length ''err'' \<le> 50"
  using names_length [of r] fmt_d_length [of v] fmt_x_length [of v] by simp_all

lemma dump_length: "length (asm_sparc_dump_operand ins num addr) \<le> 50"
  unfolding asm_sparc_dump_operand_def asm_resolve_sparc_def Let_def
  by (intro length_if memory_text_length short_text_length)

lemma mnemonics_length: "list_all (\<lambda>s. length s \<le> 10) sparc_instr_list"
  by (simp add: sparc_instr_list_def)

lemma sparc_display_ok:
  assumes "sparc_ok ins"
  shows "\<exists>t. asm_sparc_display_instr ins addr = Some t \<and> length t < 1024"
proof -
  have "length (sparc_instr_list ! instr ins) \<le> 10"
    using assms mnemonics_length by (simp add: sparc_ok_def list_all_length tables_length)
  then show ?thesis
    using assms dump_length [of ins 1 addr] dump_length [of ins 2 addr] dump_length [of ins 3 addr]
    by (simp add: asm_sparc_display_instr_def sparc_ok_def tables_length)
qed

subsection \<open>Encodings\<close>

text \<open>The instruction formats of the architecture manual, most significant field first.\<close>

definition enc_call :: "30 word \<Rightarrow> u_int" where
  "enc_call d = push_bit 30 1 OR ucast d"

definition enc_branch :: "1 word \<Rightarrow> 4 word \<Rightarrow> 3 word \<Rightarrow> 22 word \<Rightarrow> u_int" where
  "enc_branch a cond op2 d = push_bit 29 (ucast a) OR push_bit 25 (ucast cond) OR push_bit 22 (ucast op2) OR ucast d"

definition enc_format3 :: "2 word \<Rightarrow> 5 word \<Rightarrow> 6 word \<Rightarrow> 5 word \<Rightarrow> 1 word \<Rightarrow> 13 word \<Rightarrow> u_int" where
  "enc_format3 opc rd op3 rs1 i im = push_bit 30 (ucast opc) OR push_bit 25 (ucast rd) OR push_bit 19 (ucast op3) OR
     push_bit 14 (ucast rs1) OR push_bit 13 (ucast i) OR ucast im"

lemma mask_fields [simp]:
  fixes x :: u_int
  shows "(ucast (x AND 0x1) :: 1 word) = ucast x" "(ucast (x AND 0x3) :: 2 word) = ucast x"
    "(ucast (x AND 0x7) :: 3 word) = ucast x" "(ucast (x AND 0xf) :: 4 word) = ucast x"
    "(ucast (x AND 0x1f) :: 5 word) = ucast x" "(ucast (x AND 0x3f) :: 6 word) = ucast x"
    "(ucast (x AND 0xff) :: 8 word) = ucast x" "(ucast (x AND 0x3FFFFF) :: 22 word) = ucast x"
    "(ucast (x AND 0x3FFFFFFF) :: 30 word) = ucast x"
proof -
  have m: "(0x1 :: u_int) = mask 1" "(0x3 :: u_int) = mask 2" "(0x7 :: u_int) = mask 3" "(0xf :: u_int) = mask 4"
    "(0x1f :: u_int) = mask 5" "(0x3f :: u_int) = mask 6" "(0xff :: u_int) = mask 8"
    "(0x3FFFFF :: u_int) = mask 22" "(0x3FFFFFFF :: u_int) = mask 30" by (simp_all add: mask_eq_exp_minus_1)
  show "(ucast (x AND 0x1) :: 1 word) = ucast x" "(ucast (x AND 0x3) :: 2 word) = ucast x"
    "(ucast (x AND 0x7) :: 3 word) = ucast x" "(ucast (x AND 0xf) :: 4 word) = ucast x"
    "(ucast (x AND 0x1f) :: 5 word) = ucast x" "(ucast (x AND 0x3f) :: 6 word) = ucast x"
    "(ucast (x AND 0xff) :: 8 word) = ucast x" "(ucast (x AND 0x3FFFFF) :: 22 word) = ucast x"
    "(ucast (x AND 0x3FFFFFFF) :: 30 word) = ucast x"
    unfolding m by (rule bit_word_eqI; auto simp: bit_simps)+
qed

text \<open>The idiom of \<open>sparc_convert.c\<close> that extends a sign: test the top bit of the field, then set the
  bits above it.\<close>

lemma sign_extension:
  fixes x :: "'a::len word"
  assumes "LENGTH('a) = Suc n" "n < 31" "m = n \<or> m = Suc n"
  shows "(if (ucast x :: u_int) AND push_bit n 1 \<noteq> 0 then ucast x OR NOT (mask m) else ucast x) = (scast x :: u_int)"
proof -
  have t: "(ucast x :: u_int) AND push_bit n 1 \<noteq> 0 \<longleftrightarrow> bit x n"
  proof -
    have "(ucast x :: u_int) AND push_bit n 1 = (if bit x n then push_bit n 1 else 0)"
      using assms by (intro bit_word_eqI) (auto simp: bit_simps)
    moreover have "push_bit n (1 :: u_int) \<noteq> 0" using assms by (simp add: push_bit_eq_mult)
    ultimately show ?thesis by simp
  qed
  have len: "k \<le> n" if "bit x k" for k using bit_imp_le_length [OF that] assms(1) by simp
  show ?thesis
    unfolding t
  proof (rule bit_word_eqI)
    fix k assume k: "k < LENGTH(32)"
    consider "k < n" | "k = n" | "n < k" by linarith
    then show "bit (if bit x n then ucast x OR NOT (mask m) else (ucast x :: u_int)) k = bit (scast x :: u_int) k"
      using assms k len [of k] by cases (auto simp: bit_simps)
  qed
qed

lemma sign_extensions:
  "(if (ucast (d30 :: 30 word) :: u_int) AND 0x20000000 \<noteq> 0 then ucast d30 OR 0xC0000000 else ucast d30) = (scast d30 :: u_int)"
  "(if (ucast (d22 :: 22 word) :: u_int) AND 0x200000 \<noteq> 0 then ucast d22 OR 0xFFE00000 else ucast d22) = (scast d22 :: u_int)"
  "(if (ucast (d13 :: 13 word) :: u_int) AND 0x1000 \<noteq> 0 then 0xFFFFF000 OR ucast d13 else ucast d13) = (scast d13 :: u_int)"
proof -
  have c: "(0x20000000 :: u_int) = push_bit 29 1" "(0xC0000000 :: u_int) = NOT (mask 30)"
    "(0x200000 :: u_int) = push_bit 21 1" "(0xFFE00000 :: u_int) = NOT (mask 21)"
    "(0x1000 :: u_int) = push_bit 12 1" "(0xFFFFF000 :: u_int) = NOT (mask 12)"
    by (simp_all add: push_bit_eq_mult mask_eq_exp_minus_1)
  show "(if (ucast (d30 :: 30 word) :: u_int) AND 0x20000000 \<noteq> 0 then ucast d30 OR 0xC0000000 else ucast d30) = (scast d30 :: u_int)"
    "(if (ucast (d22 :: 22 word) :: u_int) AND 0x200000 \<noteq> 0 then ucast d22 OR 0xFFE00000 else ucast d22) = (scast d22 :: u_int)"
    "(if (ucast (d13 :: 13 word) :: u_int) AND 0x1000 \<noteq> 0 then 0xFFFFF000 OR ucast d13 else ucast d13) = (scast d13 :: u_int)"
    unfolding c or.commute [of "NOT (mask 12)"] by (rule sign_extension; simp)+
qed

lemma call_fields: "ca_displacement (sparc_convert_call (enc_call d)) = scast d"
proof -
  have "(ucast (enc_call d) :: 30 word) = d" 
    unfolding enc_call_def by (rule bit_word_eqI, unfold bit_simps) (auto simp: bit_simps)
  then show ?thesis using sign_extensions(1) [of d] by (simp add: sparc_convert_call_def Let_def)
qed

lemma branch_fields:
  fixes a :: "1 word" and cond :: "4 word" and op2 :: "3 word" and d :: "22 word"
  defines "b \<equiv> sparc_convert_branch (enc_branch a cond op2 d)"
  shows "br_a b = a" "br_cond b = cond" "br_immediate b = d" "br_imm b = scast d"
proof -
  have f: "(ucast (enc_branch a cond op2 d) :: 22 word) = d" "(ucast (drop_bit 25 (enc_branch a cond op2 d)) :: 4 word) = cond"
    "(ucast (drop_bit 29 (enc_branch a cond op2 d)) :: 1 word) = a"
    unfolding enc_branch_def by (rule bit_word_eqI; auto simp: bit_simps dest: bit_imp_le_length)+
  then show "br_a b = a" "br_cond b = cond" "br_immediate b = d" "br_imm b = scast d"
    using sign_extensions(2) [of d] by (simp_all add: b_def sparc_convert_branch_def Let_def)
qed

lemma format3_fields:
  fixes opc :: "2 word" and rd rs1 :: "5 word" and op3 :: "6 word" and i :: "1 word" and im :: "13 word"
  defines "c \<equiv> sparc_convert_format3 (enc_format3 opc rd op3 rs1 i im)"
  shows "f3_rd c = rd" "f3_op3 c = op3" "f3_rs1 c = rs1" "f3_i c = i" "f3_rs2 c = ucast im"
    "f3_none c = ucast (drop_bit 5 im)" "f3_imm c = scast im"
proof -
  let ?w = "enc_format3 opc rd op3 rs1 i im"
  have f: "(ucast (drop_bit 25 ?w) :: 5 word) = rd" "(ucast (drop_bit 19 ?w) :: 6 word) = op3"
    "(ucast (drop_bit 14 ?w) :: 5 word) = rs1" "(ucast (drop_bit 13 ?w) :: 1 word) = i"
    "(ucast ?w :: 5 word) = ucast im" "(ucast (drop_bit 5 ?w) :: 8 word) = ucast (drop_bit 5 im)"
    unfolding enc_format3_def by (rule bit_word_eqI; auto simp: bit_simps dest: bit_imp_le_length)+
  have im: "push_bit 5 (ucast (ucast (drop_bit 5 im) :: 8 word)) OR ucast (ucast im :: 5 word) = (ucast im :: u_int)"
    by (rule bit_word_eqI) (auto simp: bit_simps dest: bit_imp_le_length)
  show "f3_rd c = rd" "f3_op3 c = op3" "f3_rs1 c = rs1" "f3_i c = i" "f3_rs2 c = ucast im"
    "f3_none c = ucast (drop_bit 5 im)" "f3_imm c = scast im"
    using sign_extensions(3) [of im] by (simp_all add: c_def sparc_convert_format3_def Let_def f im cong: if_cong split del: if_split)
qed

lemma enc_dims:
  "sparc_dims (enc_call d) = [1, 0, 0]" "sparc_dims (enc_branch a cond op2 d22) = [0, unat op2, 0]"
  "sparc_dims (enc_format3 3 rd op3 rs1 i im) = [3, unat op3, 0]"
  "op3 \<noteq> 0x35 \<Longrightarrow> sparc_dims (enc_format3 2 rd op3 rs1 i im) = [2, unat op3, 0]"
proof -
  have m: "(0x3f :: u_int) = mask 6" "(7 :: u_int) = mask 3" by (simp_all add: mask_eq_exp_minus_1)
  have o: "drop_bit 19 (enc_format3 opc rd op3 rs1 i im) AND 0x3f = ucast op3" for opc
    unfolding enc_format3_def m by (rule bit_word_eqI) (auto simp: bit_simps dest: bit_imp_le_length)
  have b: "drop_bit 22 (enc_branch a cond op2 d22) AND 7 = ucast op2"
    unfolding enc_branch_def m by (rule bit_word_eqI) (auto simp: bit_simps dest: bit_imp_le_length)
  have k: "bit (enc_format3 opc rd op3 rs1 i im) 31 = bit opc 1" "bit (enc_format3 opc rd op3 rs1 i im) 30 = bit opc 0" for opc
    unfolding enc_format3_def by (auto simp: bit_simps dest: bit_imp_le_length)
  have kb: "\<not> bit (enc_branch a cond op2 d22) 31" "\<not> bit (enc_branch a cond op2 d22) 30"
    unfolding enc_branch_def by (auto simp: bit_simps dest: bit_imp_le_length)
  have kc: "\<not> bit (enc_call d) 31" "bit (enc_call d) 30"
    unfolding enc_call_def by (auto simp: bit_simps dest: bit_imp_le_length)
  have u: "unat (ucast op3 :: u_int) = unat op3" "unat (ucast op2 :: u_int) = unat op2"
    by (simp_all add: unsigned_ucast_eq take_bit_nat_eq_self unsigned_less less_trans [OF unsigned_less])
  have n3: "bit (3 :: 2 word) 1" "bit (3 :: 2 word) 0" "bit (2 :: 2 word) 1" "\<not> bit (2 :: 2 word) 0" by simp_all
  show "sparc_dims (enc_call d) = [1, 0, 0]" "sparc_dims (enc_branch a cond op2 d22) = [0, unat op2, 0]"
    "sparc_dims (enc_format3 3 rd op3 rs1 i im) = [3, unat op3, 0]"
    by (simp_all add: sparc_dims_bits k kb kc o b u n3)
  assume "op3 \<noteq> 0x35"
  moreover have "op3 = of_nat (unat op3)" by simp
  ultimately have "unat op3 \<noteq> 0x35" by (metis of_nat_numeral)
  then show "sparc_dims (enc_format3 2 rd op3 rs1 i im) = [2, unat op3, 0]"
    by (simp add: sparc_dims_bits k o u n3)
qed

subsection \<open>Decoded operands\<close>

text \<open>The part of an operand that the instruction word determines.\<close>

definition sparc_view :: "asm_operand \<Rightarrow> u_int \<times> u_int \<times> u_int \<times> u_int \<times> u_int" where
  "sparc_view p = (ocontent p, baser p, indexr p, imm p, address_space p)"

type_synonym sparc_operand = "u_int \<times> u_int \<times> u_int \<times> u_int \<times> u_int"

definition decodes_to :: "asm_result \<Rightarrow> nat \<Rightarrow> sparc_operand list \<Rightarrow> bool" where
  "decodes_to r c ops \<longleftrightarrow> (case r of Inl _ \<Rightarrow> False
   | Inr (n, ins) \<Rightarrow> n = 4 \<and> instr ins = c \<and> nb_op ins = length ops \<and> map sparc_view (take (length ops) (op ins)) = ops)"

definition sparc_decodes :: "bool \<Rightarrow> u_int \<Rightarrow> nat \<Rightarrow> sparc_operand list \<Rightarrow> bool" where
  "sparc_decodes synth w = decodes_to (asm_read_sparc synth (be_bytes w))"

lemma op_name_view [simp]:
  "ocontent (set_op_name p) = ocontent p" "baser (set_op_name p) = baser p" "indexr (set_op_name p) = indexr p"
  "imm (set_op_name p) = imm p" "address_space (set_op_name p) = address_space p"
  by (simp_all add: set_op_name_def asm_sparc_get_op_name_def Let_def)

lemma sparc_word_be: "sparc_word (be_bytes w) = Inr w"
  using le32_be_bytes [of w] by (simp add: sparc_word_def be_bytes_def)

lemma sparc_start_ops:
  "op sparc_start = [primary_space zero_operand, primary_space zero_operand, primary_space zero_operand,
     zero_operand, zero_operand, zero_operand]"
  by (simp add: sparc_start_def numeral_eq_Suc)

lemma sparc_decodes_row:
  "sparc_decodes synth w = decodes_to (sparc_row (sparc_dims w) synth sparc_internals w sparc_start)"
  by (simp add: sparc_decodes_def sparc_read_row sparc_word_be)

lemmas sparc_exec = Let_def run_def assigns_def instr_from_def return_def test_def asm_steps sparc_op_fetch_eq
  sparc_start_ops primary_space_def zero_operand_def sparc_view_def tables_length
  decodes_to_def

text \<open>The three-operand instructions whose decoding has no exceptions without synthetic
  instructions, and the loads and stores of integer registers.\<close>

definition sparc_alu :: "(6 word \<times> sparc_handler) list" where
  "sparc_alu = [
     (0x0, asm_sparc_add), (0x1, asm_sparc_and), (0x2, asm_sparc_or), (0x3, asm_sparc_xor),
     (0x4, asm_sparc_sub), (0x5, asm_sparc_andn), (0x6, asm_sparc_orn), (0x8, asm_sparc_addc),
     (0x9, asm_sparc_mulx), (0xa, asm_sparc_umul), (0xb, asm_sparc_smul), (0xc, asm_sparc_subc),
     (0xd, asm_sparc_udivx), (0xe, asm_sparc_udiv), (0xf, asm_sparc_sdiv), (0x10, asm_sparc_addcc),
     (0x11, asm_sparc_andcc), (0x13, asm_sparc_xorcc), (0x14, asm_sparc_subcc),
     (0x15, asm_sparc_andncc), (0x16, asm_sparc_orncc), (0x17, asm_sparc_xnorcc),
     (0x18, asm_sparc_addccc), (0x1a, asm_sparc_umulcc), (0x1b, asm_sparc_smulcc),
     (0x1c, asm_sparc_subccc), (0x1e, asm_sparc_udivcc), (0x1f, asm_sparc_sdivcc),
     (0x20, asm_sparc_taddcc), (0x21, asm_sparc_tsubcc), (0x22, asm_sparc_taddcctv),
     (0x23, asm_sparc_tsubcctv), (0x24, asm_sparc_mulscc), (0x2d, asm_sparc_sdivx),
     (0x3c, asm_sparc_save), (0x3d, asm_sparc_restore)]"

definition sparc_loads :: "(6 word \<times> sparc_handler) list" where
  "sparc_loads = [
     (0x0, asm_sparc_lduw), (0x1, asm_sparc_ldub), (0x2, asm_sparc_lduh), (0x3, asm_sparc_ldd),
     (0x8, asm_sparc_ldsw), (0x9, asm_sparc_ldsb), (0xa, asm_sparc_ldsh), (0xb, asm_sparc_ldx),
     (0xd, asm_sparc_ldstub), (0xf, asm_sparc_swap)]"

definition sparc_stores :: "(6 word \<times> sparc_handler) list" where
  "sparc_stores = [
     (0x4, asm_sparc_stw), (0x5, asm_sparc_stb), (0x6, asm_sparc_sth), (0x7, asm_sparc_std),
     (0xe, asm_sparc_stx)]"

text \<open>A handler of a three-operand instruction: the identifier from the table, the destination, the
  second operand by the \<open>i\<close> bit, and the first operand last.\<close>

definition alu_operands :: "5 word \<Rightarrow> 5 word \<Rightarrow> 1 word \<Rightarrow> 13 word \<Rightarrow> sparc_operand list" where
  "alu_operands rd rs1 i im =
     [(ASM_SP_OTYPE_REGISTER, ucast rd, 0, 0, ASM_SP_ASI_P),
      (if i = 0 then (ASM_SP_OTYPE_REGISTER, ucast (ucast im :: 5 word), 0, 0, ASM_SP_ASI_P)
       else (ASM_SP_OTYPE_IMMEDIATE, 0, 0, scast im, ASM_SP_ASI_P)),
      (ASM_SP_OTYPE_REGISTER, ucast rs1, 0, 0, ASM_SP_ASI_P)]"

definition alu_handler :: "sparc_handler \<Rightarrow> bool" where
  "alu_handler h \<longleftrightarrow> (\<forall>rd op3 rs1 i im. decodes_to (h False sparc_internals (enc_format3 2 rd op3 rs1 i im) sparc_start)
     (sparc_op2_table ! unat op3) (alu_operands rd rs1 i im))"

lemma unat6 [simp]: "unat (x :: 6 word) < 64"
  using unsigned_less [of x, where ?'a = nat] by simp

lemma alu_handlers: "list_all (\<lambda>(op3, h). alu_handler h) sparc_alu"
  unfolding sparc_alu_def list.pred_inject prod.case alu_handler_def alu_operands_def ASM_SP_ASI_P_def
  by (intro conjI TrueI)
    (simp_all add: sparc_handlers1_defs sparc_handlers2_defs sparc_exec format3_fields sparc_internals_def)

lemma alu_rows: "list_all (\<lambda>(op3, h). map_of sparc_opcodes [2, unat op3, 0] = Some h \<and> op3 \<noteq> 0x35) sparc_alu"
  unfolding sparc_alu_def by (simp add: sparc_opcodes_def)

lemma alu_decodes:
  assumes "(op3, h) \<in> set sparc_alu"
  shows "sparc_decodes False (enc_format3 2 rd op3 rs1 i im) (sparc_op2_table ! unat op3) (alu_operands rd rs1 i im)"
proof -
  have "alu_handler h" "map_of sparc_opcodes [2, unat op3, 0] = Some h" "op3 \<noteq> 0x35"
    using assms alu_handlers alu_rows by (auto simp: list_all_iff)
  then show ?thesis by (simp add: sparc_decodes_row enc_dims sparc_row_def alu_handler_def)
qed

text \<open>The operand of a load or store: a register and an immediate, or two registers.\<close>

definition memory_operand :: "5 word \<Rightarrow> 1 word \<Rightarrow> 13 word \<Rightarrow> sparc_operand" where
  "memory_operand rs1 i im =
     (if i \<noteq> 0 then (ASM_SP_OTYPE_IMM_ADDRESS, ucast rs1, 0, scast im, ASM_SP_ASI_P)
      else (ASM_SP_OTYPE_REG_ADDRESS, ucast rs1, ucast (ucast im :: 5 word), 0, ASM_SP_ASI_P))"

definition memory_operands :: "bool \<Rightarrow> 5 word \<Rightarrow> 5 word \<Rightarrow> 1 word \<Rightarrow> 13 word \<Rightarrow> sparc_operand list" where
  "memory_operands load rd rs1 i im =
     (let reg = (ASM_SP_OTYPE_REGISTER, ucast rd, 0, 0, ASM_SP_ASI_P) in
      if load then [reg, memory_operand rs1 i im] else [memory_operand rs1 i im, reg])"

definition memory_handler :: "bool \<Rightarrow> sparc_handler \<Rightarrow> bool" where
  "memory_handler load h \<longleftrightarrow> (\<forall>rd op3 rs1 i im. decodes_to (h False sparc_internals (enc_format3 3 rd op3 rs1 i im) sparc_start)
     (sparc_op3_table ! unat op3) (memory_operands load rd rs1 i im))"

lemma memory_handlers:
  "list_all (\<lambda>(op3, h). memory_handler True h) sparc_loads" "list_all (\<lambda>(op3, h). memory_handler False h) sparc_stores"
  unfolding sparc_loads_def sparc_stores_def list.pred_inject prod.case memory_handler_def memory_operands_def
    memory_operand_def ASM_SP_ASI_P_def
  by (intro conjI TrueI;
    simp add: sparc_handlers1_defs sparc_handlers2_defs sparc_exec format3_fields sparc_internals_def)+

lemma memory_rows:
  "list_all (\<lambda>(op3, h). map_of sparc_opcodes [3, unat op3, 0] = Some h) sparc_loads"
  "list_all (\<lambda>(op3, h). map_of sparc_opcodes [3, unat op3, 0] = Some h) sparc_stores"
  unfolding sparc_loads_def sparc_stores_def by (simp_all add: sparc_opcodes_def)

lemma memory_decodes:
  assumes "(op3, h) \<in> set (if load then sparc_loads else sparc_stores)"
  shows "sparc_decodes False (enc_format3 3 rd op3 rs1 i im) (sparc_op3_table ! unat op3) (memory_operands load rd rs1 i im)"
proof -
  have "memory_handler load h" "map_of sparc_opcodes [3, unat op3, 0] = Some h"
    using assms memory_handlers memory_rows by (cases load; auto simp: list_all_iff)+
  then show ?thesis by (simp add: sparc_decodes_row enc_dims sparc_row_def memory_handler_def)
qed

subsection \<open>Control transfers\<close>

lemma sparc_read_be:
  "asm_read_sparc synth (be_bytes w) = sparc_row (sparc_dims w) synth sparc_internals w sparc_start"
  by (simp add: sparc_read_row sparc_word_be)

lemma transfer_rows:
  "sparc_row [Suc 0, 0, 0] = asm_sparc_call" "sparc_row [0, 2, 0] = asm_sparc_bicc" "sparc_row [0, 4, 0] = asm_sparc_sethi"
  "sparc_row [2, 0x38, 0] = asm_sparc_jmpl"
  by (simp_all add: sparc_row_def sparc_opcodes_def)

lemma call_read:
  "\<exists>ins. asm_read_sparc synth (be_bytes (enc_call d)) = Inr (4, ins) \<and> instr ins = ASM_SP_CALL \<and>
    itype ins = ASM_TYPE_CALLPROC \<and> nb_op ins = 1 \<and>
    sparc_view (op ins ! 0) = (ASM_SP_OTYPE_DISP30, 0, 0, scast d, ASM_SP_ASI_P) \<and> ptr_instr ins = Ptr_Local"
  by (simp add: sparc_read_be enc_dims transfer_rows asm_sparc_call_def sparc_exec call_fields ASM_SP_ASI_P_def)

text \<open>The type of a branch on integer condition codes.\<close>

definition bicc_type :: "nat \<Rightarrow> u_int" where
  "bicc_type c = (if c = ASM_SP_BA then ASM_TYPE_BRANCH else if c = ASM_SP_BN then ASM_TYPE_NOP
     else ASM_TYPE_BRANCH OR ASM_TYPE_CONDCONTROL)"

lemma bicc_read:
  "\<exists>ins. asm_read_sparc synth (be_bytes (enc_branch a cond 2 d)) = Inr (4, ins) \<and>
    instr ins = sparc_bcc_list ! unat cond \<and> nb_op ins = 1 \<and> annul ins = ucast a \<and> prediction ins = 1 \<and>
    itype ins = bicc_type (instr ins) \<and>
    sparc_view (op ins ! 0) = (ASM_SP_OTYPE_DISPLACEMENT, 0, 0, scast d, ASM_SP_ASI_P)"
proof -
  let ?c = "sparc_bcc_list ! unat cond"
  have "unat cond < 16" using unsigned_less [of cond, where ?'a = nat] by simp
  then show ?thesis
    by (cases "?c = ASM_SP_BA"; cases "?c = ASM_SP_BN")
      (simp_all add: sparc_read_be enc_dims transfer_rows asm_sparc_bicc_def sparc_exec branch_fields
        sparc_internals_def ASM_SP_ASI_P_def bicc_type_def)
qed

text \<open>\<open>sethi\<close> shifts the extended field back, so that the extension does not show.\<close>

lemma sethi_read:
  assumes "rd \<noteq> 0 \<or> im \<noteq> 0"
  shows "\<exists>ins. asm_read_sparc synth (be_bytes (enc_branch (ucast (drop_bit 4 rd)) (ucast (rd :: 5 word)) 4 im)) = Inr (4, ins) \<and>
    instr ins = ASM_SP_SETHI \<and> itype ins = ASM_TYPE_ASSIGN \<and> nb_op ins = 2 \<and>
    sparc_view (op ins ! 0) = (ASM_SP_OTYPE_REGISTER, ucast rd, 0, 0, ASM_SP_ASI_P) \<and>
    sparc_view (op ins ! 1) = (ASM_SP_OTYPE_SETHI, 0, 0, scast im, ASM_SP_ASI_P)"
proof -
  let ?w = "enc_branch (ucast (drop_bit 4 rd)) (ucast rd) 4 im"
  have rd: "br_rd (sparc_convert_branch ?w) = ucast rd"
  proof -
    have "push_bit 4 (ucast (ucast (drop_bit 4 rd) :: 1 word)) OR ucast (ucast rd :: 4 word) = (ucast rd :: u_int)"
      by (rule bit_word_eqI) (auto simp: bit_simps dest: bit_imp_le_length)
    then show ?thesis
      using branch_fields(1,2) [of "ucast (drop_bit 4 rd)" "ucast rd" 4 im] by (simp add: sparc_convert_branch_def Let_def)
  qed
  have "\<not> (ucast rd = (0 :: u_int) \<and> scast im = (0 :: u_int))"
  proof
    assume z: "ucast rd = (0 :: u_int) \<and> scast im = (0 :: u_int)"
    have "rd = ucast (ucast rd :: u_int)" "im = ucast (scast im :: u_int)"
      by (rule bit_word_eqI; auto simp: bit_simps)+
    with z assms show False by auto
  qed
  then show ?thesis
    using rd by (simp add: sparc_read_be enc_dims transfer_rows asm_sparc_sethi_def sparc_exec branch_fields
        ASM_SP_ASI_P_def)
qed

subsection \<open>The pool of name buffers\<close>

text \<open>Successive allocations with the results \<open>ps\<close> of \<open>malloc\<close>: the buffers freed on the way and the
  pool at the end.\<close>

fun pool_allocs :: "ptr list \<Rightarrow> name_pool \<Rightarrow> ptr list \<times> name_pool" where
  "pool_allocs [] np = ([], np)"
| "pool_allocs (p # ps) np =
     (let (_, freed, np1) = asm_name_pool_alloc (Some p) np; (fs, np2) = pool_allocs ps np1 in (freed @ fs, np2))"

lemma pool_allocs_snoc:
  "pool_allocs (ps @ [p]) np =
     (let (fs, np1) = pool_allocs ps np; (_, freed, np2) = asm_name_pool_alloc (Some p) np1 in (fs @ freed, np2))"
  by (induction ps arbitrary: np) (auto simp: Let_def split: prod.splits)

text \<open>Slot \<open>j\<close> after \<open>n\<close> allocations holds the last buffer whose number is \<open>j\<close> modulo the size.\<close>

definition pool_slot :: "ptr list \<Rightarrow> nat \<Rightarrow> ptr option" where
  "pool_slot ps j = (if j < length ps then Some (ps ! (j + 100 * ((length ps - 1 - j) div 100))) else None)"

definition pool_after :: "ptr list \<Rightarrow> name_pool" where
  "pool_after ps = \<lparr>asm_name_pool = map (pool_slot ps) [0..<100], pool_index = length ps mod 100\<rparr>"

lemma pool_slot_oldest:
  "pool_slot ps (length ps mod 100) = (if 100 \<le> length ps then Some (ps ! (length ps - 100)) else None)"
proof (cases "100 \<le> length ps")
  case True
  define q r where "q = length ps div 100" and "r = length ps mod 100"
  have n: "length ps = 100 * q + r" by (simp add: q_def r_def)
  have q: "1 \<le> q" using True by (simp add: q_def)
  then have "100 * q - 1 = 99 + 100 * (q - 1)" by simp
  then have "(100 * q - 1) div 100 = q - 1" by (simp only: div_mult_self2)
  then have "r + 100 * ((100 * q - 1) div 100) = 100 * q + r - 100" "r < 100 * q + r" using q by simp_all
  moreover have "r mod 100 = r" "100 * q + r - 1 - r = 100 * q - 1" by (simp_all add: r_def)
  ultimately show ?thesis using True unfolding pool_slot_def n by simp
qed (simp add: pool_slot_def)

lemma pool_slot_snoc:
  assumes "j < 100"
  shows "pool_slot (ps @ [p]) j = (if j = length ps mod 100 then Some p else pool_slot ps j)"
proof (cases "j = length ps mod 100")
  case True
  define n where "n = length ps"
  have "n - j = 100 * (n div 100)" using True by (simp add: n_def minus_mod_eq_mult_div)
  moreover have "j + 100 * (n div 100) = n" "j < Suc n" using True by (simp_all add: n_def less_Suc_eq_le)
  ultimately have "j + 100 * ((n - j) div 100) = n" "j < Suc n" by simp_all
  with True show ?thesis by (simp add: pool_slot_def n_def nth_append)
next
  case False
  define n where "n = length ps"
  have ne: "j \<noteq> n" using False assms by (auto simp: n_def)
  show ?thesis
  proof (cases "j < n")
    case True
    define m where "m = n - 1 - j"
    have m: "n - j = Suc m" "j + m < n" using True by (simp_all add: m_def)
    have "Suc m mod 100 \<noteq> 0"
    proof
      assume "Suc m mod 100 = 0"
      then have "(j + Suc m) mod 100 = j" using assms by (simp add: mod_add_right_eq [of j "Suc m" 100, symmetric] del: add_Suc_right)
      moreover have "j + Suc m = n" using m True by simp
      ultimately show False using False by (simp add: n_def)
    qed
    then have "(n - j) div 100 = m div 100" by (simp add: m div_Suc)
    moreover have "100 * (m div 100) \<le> m" by simp
    then have "j + 100 * (m div 100) < n" using m by linarith
    ultimately show ?thesis using False True by (simp add: pool_slot_def n_def m_def nth_append)
  next
    case False: False
    then show ?thesis using ne \<open>j \<noteq> length ps mod 100\<close> by (simp add: pool_slot_def n_def)
  qed
qed

lemma pool_allocs_after:
  "pool_allocs ps empty_name_pool = (take (length ps - 100) ps, pool_after ps)"
proof (induction ps rule: rev_induct)
  case Nil
  have "pool_slot [] = (\<lambda>_. None)" by (simp add: fun_eq_iff pool_slot_def)
  then show ?case by (simp add: empty_name_pool_def pool_after_def ASM_POOL_SIZE_def map_replicate_const)
next
  case (snoc p ps)
  have m: "length ps mod 100 < 100" by simp
  have "map (pool_slot (ps @ [p])) [0..<100] = (map (pool_slot ps) [0..<100])[length ps mod 100 := Some p]"
    by (rule nth_equalityI) (auto simp: pool_slot_snoc nth_list_update)
  moreover have "take (length ps - 100) ps @ (if 100 \<le> length ps then [ps ! (length ps - 100)] else []) =
      take (Suc (length ps) - 100) (ps @ [p])"
  proof (cases "100 \<le> length ps")
    case True
    then have "Suc (length ps - 100) = Suc (length ps) - 100" by simp
    with True show ?thesis by (simp add: take_Suc_conv_app_nth [symmetric] del: diff_Suc_eq_diff_pred)
  qed simp
  ultimately show ?case
    using pool_slot_oldest [of ps] m
    by (auto simp: pool_allocs_snoc snoc.IH asm_name_pool_alloc_def pool_after_def Let_def ASM_POOL_SIZE_def mod_Suc_eq)
qed

end
