(* ===== verification/Sparc_Flow.thy ===== *)
theory Sparc_Flow
  imports Sparc_Laws Walk
begin

text \<open>
  The properties of the SPARC disassembler, alone and under the control flow analysis of
  \<open>libmjollnir\<close>: dispatch by the registered table, which words fail, round trips, the text of control
  transfers, the buffers of operand names, and the targets that \<open>cfg.c\<close> computes.
\<close>

subsection \<open>Lengths\<close>

lemma sparc_read_length:
  assumes "asm_read_sparc synth bs = Inr (n, ins)"
  shows "n = 4"
proof (cases "sparc_word bs")
  case (Inl e)
  then show ?thesis using assms by (simp add: sparc_read_row)
next
  case (Inr w)
  then have "sparc_row (sparc_dims w) synth sparc_internals w sparc_start = Inr (n, ins)"
    using assms by (simp add: sparc_read_row)
  then show ?thesis
    using sparc_row_fine [of w synth] sparc_row_faults [of w synth] by (cases "sparc_faults w") (auto simp: result_fine_def)
qed

text \<open>The decoder ignores the length it is given, so that the analysis terminates on SPARC code too.\<close>

lemma asm_read_instr_sparc: "asm_read_instr buf len (asm_init_sparc synth) = asm_read_sparc synth buf"
  by (simp add: asm_read_sparc_def asm_read_instr_def asm_init_sparc_def map_option_case split: option.splits)

lemma lengths_sparc: "lengths_ok (asm_init_sparc synth)"
  unfolding lengths_ok_def asm_read_instr_sparc using sparc_read_length by fastforce

text \<open>The names fit the buffers of the pool.\<close>

lemma op_name_length:
  "length (case snd (asm_sparc_get_op_name p) of None \<Rightarrow> [] | Some s \<Rightarrow> s) < ASM_OP_NAME_LEN"
  using names_length [of "baser p"] names_length(1) [of "indexr p"] fmt_x_length(1) [of "imm p"]
    fmt_x_length(1) [of "address_space p"]
  unfolding asm_sparc_get_op_name_def ASM_OP_NAME_LEN_def Let_def
  by (simp only: if_distrib [of snd] if_distrib [of "case_option _ _"] snd_conv option.case split: if_split) simp

subsection \<open>Indirect transfers\<close>

lemma jmpl_read:
  "\<exists>ins. asm_read_sparc synth (be_bytes (enc_format3 2 15 0x38 rs1 1 im)) = Inr (4, ins) \<and> instr ins = ASM_SP_CALL \<and>
    itype ins = ASM_TYPE_CALLPROC \<and> nb_op ins = 1 \<and>
    sparc_view (op ins ! 0) = (ASM_SP_OTYPE_IMM_ADDRESS, ucast rs1, 0, scast im, ASM_SP_ASI_P)"
  "im \<noteq> 8 \<Longrightarrow> \<exists>ins. asm_read_sparc synth (be_bytes (enc_format3 2 0 0x38 rs1 1 im)) = Inr (4, ins) \<and> instr ins = ASM_SP_JMP \<and>
    itype ins = ASM_TYPE_BRANCH \<and> nb_op ins = 1 \<and>
    sparc_view (op ins ! 0) = (ASM_SP_OTYPE_IMM_ADDRESS, ucast rs1, 0, scast im, ASM_SP_ASI_P)"
proof -
  have o: "(ucast (15 :: 5 word) :: u_int) = ASM_REG_O7" "(ucast (0 :: 5 word) :: u_int) = ASM_REG_G0"
    "ASM_REG_G0 \<noteq> ASM_REG_O7" by (simp_all add: sparc_const)
  show "\<exists>ins. asm_read_sparc synth (be_bytes (enc_format3 2 15 0x38 rs1 1 im)) = Inr (4, ins) \<and> instr ins = ASM_SP_CALL \<and>
    itype ins = ASM_TYPE_CALLPROC \<and> nb_op ins = 1 \<and>
    sparc_view (op ins ! 0) = (ASM_SP_OTYPE_IMM_ADDRESS, ucast rs1, 0, scast im, ASM_SP_ASI_P)"
    by (simp add: sparc_read_be enc_dims transfer_rows asm_sparc_jmpl_def sparc_exec format3_fields sparc_internals_def
        o ASM_SP_ASI_P_def ASM_REG_O7_def)
  assume "im \<noteq> 8"
  moreover have "im = ucast (scast im :: u_int)" by (rule bit_word_eqI) (auto simp: bit_simps)
  ultimately have "(scast im :: u_int) \<noteq> 8" by auto
  then show "\<exists>ins. asm_read_sparc synth (be_bytes (enc_format3 2 0 0x38 rs1 1 im)) = Inr (4, ins) \<and> instr ins = ASM_SP_JMP \<and>
    itype ins = ASM_TYPE_BRANCH \<and> nb_op ins = 1 \<and>
    sparc_view (op ins ! 0) = (ASM_SP_OTYPE_IMM_ADDRESS, ucast rs1, 0, scast im, ASM_SP_ASI_P)"
    by (simp add: sparc_read_be enc_dims transfer_rows asm_sparc_jmpl_def sparc_exec format3_fields sparc_internals_def
        ASM_SP_ASI_P_def ASM_REG_O7_def ASM_REG_G0_def)
qed

text \<open>The target a resolver of \<open>cfg.c\<close> computes for the word \<open>w\<close> at the address \<open>a\<close>.\<close>

definition sparc_target :: "('o mjrcontext_t \<Rightarrow> eresi_Addr) \<Rightarrow> 'o mjrcontext_t \<Rightarrow> bool \<Rightarrow> u_int \<Rightarrow> eresi_Addr \<Rightarrow> eresi_Addr option" where
  "sparc_target resolve ctx synth w a = (case asm_read_sparc synth (be_bytes w) of
     Inl _ \<Rightarrow> None
   | Inr (_, ins) \<Rightarrow> Some (resolve (mjr_history_write ins a MJR_HISTORY_CUR ctx)))"

lemma sparc_targets:
  assumes "proc_type (proc ctx) = ASM_PROC_SPARC" "length (history ctx) = MJR_HISTORY_LEN"
    "asm_read_sparc synth (be_bytes w) = Inr (n, ins)"
  shows "sparc_target mjr_get_call_destaddr ctx synth w a = Some (
      if instr ins = ASM_SP_CALL then
        (if ocontent (op ins ! 0) AND ASM_SP_OTYPE_DISP30 \<noteq> 0 then imm (op ins ! 0) * 4 + a else MJR_BLOCK_INVALID)
      else 0)"
    "sparc_target mjr_get_jmp_destaddr ctx synth w a = Some (
      if itype ins AND ASM_TYPE_BRANCH \<noteq> 0 then imm (op ins ! 0) * 4 + a else MJR_BLOCK_INVALID)"
  using assms
  by (simp_all add: sparc_target_def mjr_get_call_destaddr_def mjr_get_jmp_destaddr_def cur_ins_def cur_vaddr_def
      mjr_history_write_def MJR_HISTORY_CUR_def MJR_HISTORY_LEN_def ASM_PROC_IA32_def ASM_PROC_SPARC_def Let_def)

subsection \<open>Texts of control transfers\<close>

text \<open>The text of the word \<open>w\<close> at the address \<open>a\<close>.\<close>

definition sparc_text :: "bool \<Rightarrow> u_int \<Rightarrow> eresi_Addr \<Rightarrow> string option" where
  "sparc_text synth w a = (case asm_read_sparc synth (be_bytes w) of
     Inl _ \<Rightarrow> None
   | Inr (_, ins) \<Rightarrow> asm_sparc_display_instr ins a)"

lemma times_four: "push_bit 2 (x :: u_int) = 4 * x" "imm p * 4 + a = a + 4 * imm p"
  by (simp_all add: push_bit_eq_mult)

lemma sethi_nop:
  "sparc_text synth (enc_branch 0 0 4 0) a = Some ''nop''"
proof -
  have "br_rd (sparc_convert_branch (enc_branch 0 0 4 0)) = 0" "br_imm (sparc_convert_branch (enc_branch 0 0 4 0)) = 0"
    by (simp_all add: sparc_convert_branch_def enc_branch_def Let_def)
  then have "\<exists>ins. asm_read_sparc synth (be_bytes (enc_branch 0 0 4 0)) = Inr (4, ins) \<and> instr ins = ASM_SP_NOP \<and>
      itype ins = ASM_TYPE_NOP \<and> nb_op ins = 0"
    by (simp add: sparc_read_be enc_dims transfer_rows asm_sparc_sethi_def sparc_exec)
  then show ?thesis
    by (auto simp: sparc_text_def asm_sparc_display_instr_def tables_length sparc_const sparc_instr_list_def
        ASM_TYPE_NOP_def ASM_TYPE_BRANCH_def)
qed

lemma mnemonics: "sparc_instr_list ! ASM_SP_CALL = ''call''" "sparc_instr_list ! ASM_SP_SETHI = ''sethi''"
  "ASM_SP_CALL < 376" "ASM_SP_SETHI < 376"
  by (simp_all add: sparc_const sparc_instr_list_def)

lemma call_text: "sparc_text synth (enc_call d) a = Some (''call '' @ asm_resolve_sparc (a + 4 * scast d))"
proof -
  obtain ins where r: "asm_read_sparc synth (be_bytes (enc_call d)) = Inr (4, ins)" "instr ins = ASM_SP_CALL"
    "itype ins = ASM_TYPE_CALLPROC" "nb_op ins = 1"
    "sparc_view (op ins ! 0) = (ASM_SP_OTYPE_DISP30, 0, 0, scast d, ASM_SP_ASI_P)"
    using call_read by blast
  have t: "ASM_TYPE_CALLPROC AND ASM_TYPE_BRANCH = 0" by (simp add: ASM_TYPE_CALLPROC_def ASM_TYPE_BRANCH_def)
  have "asm_sparc_dump_operand ins 1 a = asm_resolve_sparc (a + 4 * scast d)"
    using r(5) by (simp add: asm_sparc_dump_operand_def sparc_view_def sparc_const times_four)
  then show ?thesis using r(1-4) t by (simp add: sparc_text_def asm_sparc_display_instr_def tables_length mnemonics)
qed

lemma bicc_text:
  "sparc_text synth (enc_branch an cond 2 d) a = Some (sparc_instr_list ! (sparc_bcc_list ! unat cond) @
     (if an \<noteq> 0 \<and> cond \<noteq> 0 \<and> cond \<noteq> 8 then '',a'' else []) @ '' '' @ asm_resolve_sparc (a + 4 * scast d))"
proof -
  let ?c = "sparc_bcc_list ! unat cond"
  obtain ins where r: "asm_read_sparc synth (be_bytes (enc_branch an cond 2 d)) = Inr (4, ins)" "instr ins = ?c"
    "nb_op ins = 1" "annul ins = ucast an" "prediction ins = 1" "itype ins = bicc_type ?c"
    "sparc_view (op ins ! 0) = (ASM_SP_OTYPE_DISPLACEMENT, 0, 0, scast d, ASM_SP_ASI_P)"
    using bicc_read by metis
  have "asm_sparc_dump_operand ins 1 a = asm_resolve_sparc (a + 4 * scast d)"
    using r(7) by (simp add: asm_sparc_dump_operand_def sparc_view_def sparc_const times_four)
  moreover have "unat cond < 16" using unsigned_less [of cond, where ?'a = nat] by simp
  then have "?c < 376" using tables_bounded(3) by (simp add: list_all_length tables_length)
  moreover have "bicc_type ?c AND ASM_TYPE_BRANCH \<noteq> 0 \<and> bicc_type ?c AND ASM_TYPE_CONDCONTROL \<noteq> 0 \<longleftrightarrow> cond \<noteq> 0 \<and> cond \<noteq> 8"
  proof -
    have "list_all (\<lambda>k. (bicc_type (sparc_bcc_list ! k) AND ASM_TYPE_BRANCH \<noteq> 0 \<and>
        bicc_type (sparc_bcc_list ! k) AND ASM_TYPE_CONDCONTROL \<noteq> 0) = (k \<noteq> 0 \<and> k \<noteq> 8)) [0..<16]"
      by code_simp
    moreover have "cond \<noteq> 0 \<longleftrightarrow> unat cond \<noteq> 0" "cond \<noteq> 8 \<longleftrightarrow> unat cond \<noteq> 8"
      by (auto simp: word_unat_eq_iff)
    ultimately show ?thesis using \<open>unat cond < 16\<close> by (simp add: list_all_iff)
  qed
  moreover have "an = ucast (ucast an :: u_int)" by (rule bit_word_eqI) (auto simp: bit_simps)
  then have "(ucast an :: u_int) \<noteq> 0 \<longleftrightarrow> an \<noteq> 0" by auto
  ultimately show ?thesis using r(1-6) by (simp add: sparc_text_def asm_sparc_display_instr_def tables_length)
qed

lemma sethi_text:
  assumes "rd \<noteq> 0 \<or> im \<noteq> 0"
  shows "sparc_text synth (enc_branch (ucast (drop_bit 4 rd)) (ucast (rd :: 5 word)) 4 im) a =
    Some (''sethi %hi('' @ (if im = 0 then [] else ''0x'') @ sparc_fmt_x (push_bit 10 (ucast im)) @ ''), '' @
      get_sparc_register (ucast rd))"
proof -
  let ?w = "enc_branch (ucast (drop_bit 4 rd)) (ucast rd) 4 im"
  obtain ins where r: "asm_read_sparc synth (be_bytes ?w) = Inr (4, ins)" "instr ins = ASM_SP_SETHI"
    "itype ins = ASM_TYPE_ASSIGN" "nb_op ins = 2"
    "sparc_view (op ins ! 0) = (ASM_SP_OTYPE_REGISTER, ucast rd, 0, 0, ASM_SP_ASI_P)"
    "sparc_view (op ins ! 1) = (ASM_SP_OTYPE_SETHI, 0, 0, scast im, ASM_SP_ASI_P)"
    using sethi_read [OF assms] by blast
  have sh: "push_bit 10 (scast im :: u_int) = push_bit 10 (ucast im)"
    by (rule bit_word_eqI) (auto simp: bit_simps)
  have "im = ucast (scast im :: u_int)" by (rule bit_word_eqI) (auto simp: bit_simps)
  then have z: "(scast im :: u_int) = 0 \<longleftrightarrow> im = 0" by auto
  have "asm_sparc_dump_operand ins 1 a = get_sparc_register (ucast rd)"
    using r(5) by (simp add: asm_sparc_dump_operand_def sparc_view_def)
  moreover have "asm_sparc_dump_operand ins 2 a = ''%hi('' @ (if im = 0 then [] else ''0x'') @
      sparc_fmt_x (push_bit 10 (ucast im)) @ '')''"
    using r(6) sh z by (simp add: asm_sparc_dump_operand_def sparc_view_def sparc_const)
  ultimately show ?thesis
    using r(1-4) by (simp add: sparc_text_def asm_sparc_display_instr_def tables_length mnemonics
        ASM_TYPE_ASSIGN_def ASM_TYPE_BRANCH_def ASM_TYPE_CONDCONTROL_def)
qed

subsection \<open>Targets\<close>

lemma flow_types:
  "ASM_SP_OTYPE_DISP30 AND ASM_SP_OTYPE_DISP30 \<noteq> 0" "ASM_SP_OTYPE_IMM_ADDRESS AND ASM_SP_OTYPE_DISP30 \<noteq> 0"
  "ASM_TYPE_BRANCH AND ASM_TYPE_BRANCH \<noteq> 0"
  by (simp_all add: sparc_const ASM_TYPE_BRANCH_def)

lemma bicc_branches:
  "bicc_type (sparc_bcc_list ! unat (cond :: 4 word)) AND ASM_TYPE_BRANCH \<noteq> 0 \<longleftrightarrow> cond \<noteq> 0"
proof -
  have "list_all (\<lambda>k. (bicc_type (sparc_bcc_list ! k) AND ASM_TYPE_BRANCH \<noteq> 0) = (k \<noteq> 0)) [0..<16]"
    by code_simp
  moreover have "unat cond < 16" using unsigned_less [of cond, where ?'a = nat] by simp
  moreover have "cond \<noteq> 0 \<longleftrightarrow> unat cond \<noteq> 0" by (auto simp: word_unat_eq_iff)
  ultimately show ?thesis by (simp add: list_all_iff)
qed

lemma call_targets:
  assumes "proc_type (proc ctx) = ASM_PROC_SPARC" "length (history ctx) = MJR_HISTORY_LEN"
  shows "sparc_target mjr_get_call_destaddr ctx synth (enc_call d) a = Some (a + 4 * scast d)"
    "sparc_target mjr_get_call_destaddr ctx synth (enc_format3 2 15 0x38 rs1 1 im) a = Some (a + 4 * scast im)"
proof -
  obtain ins where r: "asm_read_sparc synth (be_bytes (enc_call d)) = Inr (4, ins)" "instr ins = ASM_SP_CALL"
    "sparc_view (op ins ! 0) = (ASM_SP_OTYPE_DISP30, 0, 0, scast d, ASM_SP_ASI_P)" using call_read by blast
  then show "sparc_target mjr_get_call_destaddr ctx synth (enc_call d) a = Some (a + 4 * scast d)"
    using sparc_targets(1) [OF assms r(1)] flow_types by (simp add: sparc_view_def)
  obtain ins where q: "asm_read_sparc synth (be_bytes (enc_format3 2 15 0x38 rs1 1 im)) = Inr (4, ins)" "instr ins = ASM_SP_CALL"
    "sparc_view (op ins ! 0) = (ASM_SP_OTYPE_IMM_ADDRESS, ucast rs1, 0, scast im, ASM_SP_ASI_P)" using jmpl_read(1) by blast
  then show "sparc_target mjr_get_call_destaddr ctx synth (enc_format3 2 15 0x38 rs1 1 im) a = Some (a + 4 * scast im)"
    using sparc_targets(1) [OF assms q(1)] flow_types by (simp add: sparc_view_def)
qed

lemma jump_targets:
  assumes "proc_type (proc ctx) = ASM_PROC_SPARC" "length (history ctx) = MJR_HISTORY_LEN"
  shows "sparc_target mjr_get_jmp_destaddr ctx synth (enc_branch an cond 2 d) a =
      Some (if cond = 0 then MJR_BLOCK_INVALID else a + 4 * scast d)"
    "im \<noteq> 8 \<Longrightarrow> sparc_target mjr_get_jmp_destaddr ctx synth (enc_format3 2 0 0x38 rs1 1 im) a = Some (a + 4 * scast im)"
proof -
  obtain ins where r: "asm_read_sparc synth (be_bytes (enc_branch an cond 2 d)) = Inr (4, ins)"
    "itype ins = bicc_type (sparc_bcc_list ! unat cond)"
    "sparc_view (op ins ! 0) = (ASM_SP_OTYPE_DISPLACEMENT, 0, 0, scast d, ASM_SP_ASI_P)" using bicc_read by metis
  then show "sparc_target mjr_get_jmp_destaddr ctx synth (enc_branch an cond 2 d) a =
      Some (if cond = 0 then MJR_BLOCK_INVALID else a + 4 * scast d)"
    using sparc_targets(2) [OF assms r(1)] bicc_branches [of cond] by (simp add: sparc_view_def)
  assume "im \<noteq> 8"
  then obtain ins where q: "asm_read_sparc synth (be_bytes (enc_format3 2 0 0x38 rs1 1 im)) = Inr (4, ins)"
    "itype ins = ASM_TYPE_BRANCH" "sparc_view (op ins ! 0) = (ASM_SP_OTYPE_IMM_ADDRESS, ucast rs1, 0, scast im, ASM_SP_ASI_P)"
    using jmpl_read(2) by blast
  then show "sparc_target mjr_get_jmp_destaddr ctx synth (enc_format3 2 0 0x38 rs1 1 im) a = Some (a + 4 * scast im)"
    using sparc_targets(2) [OF assms q(1)] flow_types by (simp add: sparc_view_def)
qed

subsection \<open>Properties\<close>

text \<open>C27. Reading a SPARC instruction runs the handler that \<open>asm_register_sparc_instructions\<close> registered at
  the coordinates of the word, on an instruction with length 4 and three operands in the primary
  address space; at every other coordinate the default handler marks the word as illegal. Fewer than
  four bytes are an error.\<close>

theorem sparc_decode_by_table:
  "asm_read_sparc synth buf = rbind (sparc_word buf) (\<lambda>w.
     (case map_of sparc_opcodes (sparc_dims w) of Some h \<Rightarrow> h | None \<Rightarrow> asm_sparc_illegal)
       synth sparc_internals w sparc_start)"
  by (simp only: sparc_read_row sparc_row_def)

text \<open>C28. On any four bytes the SPARC decoder either reads past a table of identifiers, exactly for the
  words of \<open>sparc_faults\<close>, or returns 4 with an identifier inside the table of mnemonics and at most
  three operands. Then the instruction can be printed in less than the 1024 bytes of its buffer, and
  every operand name fits its buffer of \<open>ASM_OP_NAME_LEN\<close> bytes.\<close>

theorem sparc_decode_safe:
  assumes "4 \<le> length buf"
  shows "case asm_read_sparc synth buf of
      Inl e \<Rightarrow> e = Bad_Dispatch \<and> sparc_faults (le32 (rev (take 4 buf)))
    | Inr (n, ins) \<Rightarrow> \<not> sparc_faults (le32 (rev (take 4 buf))) \<and> n = 4 \<and> sparc_ok ins \<and>
        list_all (\<lambda>p. length (case snd (asm_sparc_get_op_name p) of None \<Rightarrow> [] | Some s \<Rightarrow> s) < ASM_OP_NAME_LEN) (op ins) \<and>
        (\<exists>t. asm_sparc_display_instr ins addr = Some t \<and> length t < 1024)"
proof -
  let ?w = "le32 (rev (take 4 buf))"
  have r: "asm_read_sparc synth buf = sparc_row (sparc_dims ?w) synth sparc_internals ?w sparc_start"
    using assms by (simp add: sparc_read_row sparc_word_def)
  show ?thesis
  proof (cases "sparc_faults ?w")
    case True
    then show ?thesis by (simp add: r sparc_row_faults)
  next
    case False
    then obtain ins where ins: "asm_read_sparc synth buf = Inr (4, ins)" "sparc_ok ins"
      using sparc_row_fine [of ?w synth] r by (auto simp: result_fine_def)
    with False sparc_display_ok [of ins addr] op_name_length show ?thesis by (simp add: list_all_iff)
  qed
qed

theorem sparc_decode_safe_witness:
  "case asm_read_sparc True [0x81, 0xC3, 0xE0, 0x08] of
      Inl _ \<Rightarrow> False | Inr (n, ins) \<Rightarrow> n = 4 \<and> (\<exists>t. asm_sparc_display_instr ins 0x1000 = Some t \<and> length t < 1024)"
proof -
  let ?buf = "[0x81, 0xC3, 0xE0, 0x08] :: u_char list"
  have "\<not> sparc_faults (le32 (rev (take 4 ?buf)))" by code_simp
  moreover have "4 \<le> length ?buf" by simp
  ultimately show ?thesis
    using sparc_decode_safe [where buf = ?buf and synth = True and addr = "0x1000"] by (auto split: sum.splits)
qed

text \<open>C29. The arithmetic instructions, loads and stores encoded as the architecture manual says are decoded,
  with synthetic instructions off, to the same registers, signed immediate and addressing form; the
  mnemonic of the identifier is that of the manual.\<close>

theorem sparc_encode_decode:
  "list_all (\<lambda>(op3, h). sparc_decodes False (enc_format3 2 rd op3 rs1 i im) (sparc_op2_table ! unat op3)
     (alu_operands rd rs1 i im)) sparc_alu \<and>
   list_all (\<lambda>(op3, h). sparc_decodes False (enc_format3 3 rd op3 rs1 i im) (sparc_op3_table ! unat op3)
     (memory_operands True rd rs1 i im)) sparc_loads \<and>
   list_all (\<lambda>(op3, h). sparc_decodes False (enc_format3 3 rd op3 rs1 i im) (sparc_op3_table ! unat op3)
     (memory_operands False rd rs1 i im)) sparc_stores \<and>
   map (\<lambda>(op3, h). sparc_instr_list ! (sparc_op2_table ! unat op3)) sparc_alu =
     [''add'', ''and'', ''or'', ''xor'', ''sub'', ''andn'', ''orn'', ''addc'', ''mulx'', ''umul'', ''smul'', ''subc'',
      ''udivx'', ''udiv'', ''sdiv'', ''addcc'', ''andcc'', ''xorcc'', ''subcc'', ''andncc'', ''orncc'', ''xnorcc'',
      ''addccc'', ''umulcc'', ''smulcc'', ''subccc'', ''udivcc'', ''sdivcc'', ''taddcc'', ''tsubcc'', ''taddcctv'',
      ''tsubcctv'', ''mulscc'', ''sdivx'', ''save'', ''restore''] \<and>
   map (\<lambda>(op3, h). sparc_instr_list ! (sparc_op3_table ! unat op3)) (sparc_loads @ sparc_stores) =
     [''ld'', ''ldub'', ''lduh'', ''ldd'', ''ldsw'', ''ldsb'', ''ldsh'', ''ldx'', ''ldstub'', ''swap'',
      ''st'', ''stb'', ''sth'', ''std'', ''stx'']"
proof (intro conjI)
  show "list_all (\<lambda>(op3, h). sparc_decodes False (enc_format3 2 rd op3 rs1 i im) (sparc_op2_table ! unat op3)
     (alu_operands rd rs1 i im)) sparc_alu"
    using alu_decodes by (auto simp: list_all_iff)
  show "list_all (\<lambda>(op3, h). sparc_decodes False (enc_format3 3 rd op3 rs1 i im) (sparc_op3_table ! unat op3)
     (memory_operands True rd rs1 i im)) sparc_loads"
    using memory_decodes [where load = True] by (auto simp: list_all_iff)
  show "list_all (\<lambda>(op3, h). sparc_decodes False (enc_format3 3 rd op3 rs1 i im) (sparc_op3_table ! unat op3)
     (memory_operands False rd rs1 i im)) sparc_stores"
    using memory_decodes [where load = False] by (auto simp: list_all_iff)
qed (simp_all add: sparc_alu_def sparc_loads_def sparc_stores_def sparc_tables sparc_const sparc_instr_list_def)

text \<open>C30. The text of control transfers names the target of the architecture: \<open>call\<close> and the branches on integer
  condition codes print their own address plus four times the signed displacement, with the annul
  suffix on conditional branches only; \<open>sethi\<close> prints the upper 22 bits, and \<open>nop\<close> when it does nothing.
  A decoded \<open>call\<close> keeps a pointer to a local variable of the decoder.\<close>

theorem sparc_transfer_text:
  "sparc_text synth (enc_call d30) a = Some (''call '' @ asm_resolve_sparc (a + 4 * scast d30)) \<and>
   sparc_text synth (enc_branch an cond 2 d22) a = Some (
     [''bn'', ''be'', ''ble'', ''bl'', ''bleu'', ''bcs'', ''bneg'', ''bvs'',
      ''ba'', ''bne'', ''bg'', ''bge'', ''bgu'', ''bcc'', ''bpos'', ''bvc''] ! unat cond @
     (if an \<noteq> 0 \<and> cond \<noteq> 0 \<and> cond \<noteq> 8 then '',a'' else []) @ '' '' @ asm_resolve_sparc (a + 4 * scast d22)) \<and>
   sparc_text synth (enc_branch (ucast (drop_bit 4 rd)) (ucast (rd :: 5 word)) 4 im) a = Some (
     if rd = 0 \<and> im = 0 then ''nop''
     else ''sethi %hi('' @ (if im = 0 then [] else ''0x'') @ sparc_fmt_x (push_bit 10 (ucast im)) @ ''), '' @
       get_sparc_register (ucast rd)) \<and>
   map_option ptr_instr (case asm_read_sparc synth (be_bytes (enc_call d30)) of Inl _ \<Rightarrow> None | Inr (_, ins) \<Rightarrow> Some ins) =
     Some Ptr_Local"
proof (intro conjI)
  have "map ((!) sparc_instr_list) sparc_bcc_list =
      [''bn'', ''be'', ''ble'', ''bl'', ''bleu'', ''bcs'', ''bneg'', ''bvs'',
       ''ba'', ''bne'', ''bg'', ''bge'', ''bgu'', ''bcc'', ''bpos'', ''bvc'']" (is "_ = ?names")
    by (simp add: sparc_tables sparc_const sparc_instr_list_def)
  moreover have "unat cond < length sparc_bcc_list"
    using unsigned_less [of cond, where ?'a = nat] by (simp add: tables_length)
  ultimately have "sparc_instr_list ! (sparc_bcc_list ! unat cond) = ?names ! unat cond" by (metis nth_map)
  then show "sparc_text synth (enc_branch an cond 2 d22) a = Some (?names ! unat cond @
     (if an \<noteq> 0 \<and> cond \<noteq> 0 \<and> cond \<noteq> 8 then '',a'' else []) @ '' '' @ asm_resolve_sparc (a + 4 * scast d22))"
    by (simp only: bicc_text)
  show "sparc_text synth (enc_branch (ucast (drop_bit 4 rd)) (ucast rd) 4 im) a = Some (
     if rd = 0 \<and> im = 0 then ''nop''
     else ''sethi %hi('' @ (if im = 0 then [] else ''0x'') @ sparc_fmt_x (push_bit 10 (ucast im)) @ ''), '' @
       get_sparc_register (ucast rd))"
    using sethi_nop [of synth a] sethi_text [of rd im synth a] by (cases "rd = 0 \<and> im = 0") simp_all
  obtain ins where "asm_read_sparc synth (be_bytes (enc_call d30)) = Inr (4, ins)" "ptr_instr ins = Ptr_Local"
    using call_read by blast
  then show "map_option ptr_instr (case asm_read_sparc synth (be_bytes (enc_call d30)) of
      Inl _ \<Rightarrow> None | Inr (_, ins) \<Rightarrow> Some ins) = Some Ptr_Local" by simp
qed (rule call_text)

text \<open>C31. The targets the control flow analysis takes from decoded SPARC code: direct calls and conditional
  branches go to their own address plus four times the signed displacement, \<open>bn\<close> has no target. Indirect
  calls and jumps through a register and an immediate are not recognised as such: the immediate is
  taken for a displacement.\<close>

theorem sparc_flow_targets:
  assumes "proc_type (proc ctx) = ASM_PROC_SPARC" "length (history ctx) = MJR_HISTORY_LEN"
  shows "sparc_target mjr_get_call_destaddr ctx synth (enc_call d30) a = Some (a + 4 * scast d30) \<and>
    sparc_target mjr_get_call_destaddr ctx synth (enc_format3 2 15 0x38 rs1 1 im) a = Some (a + 4 * scast im) \<and>
    sparc_target mjr_get_jmp_destaddr ctx synth (enc_branch an cond 2 d22) a =
      Some (if cond = 0 then MJR_BLOCK_INVALID else a + 4 * scast d22) \<and>
    (im \<noteq> 8 \<longrightarrow> sparc_target mjr_get_jmp_destaddr ctx synth (enc_format3 2 0 0x38 rs1 1 im) a = Some (a + 4 * scast im))"
  using call_targets [OF assms] jump_targets [OF assms] by blast

theorem sparc_flow_targets_witness:
  "sparc_target mjr_get_call_destaddr (demo_ctx\<lparr>proc := asm_init_sparc True\<rparr>) True (enc_call (-2)) 0x1008 = Some 0x1000 \<and>
   sparc_target mjr_get_jmp_destaddr (demo_ctx\<lparr>proc := asm_init_sparc True\<rparr>) True (enc_format3 2 0 0x38 9 1 4) 0x1008 = Some 0x1018"
proof -
  let ?ctx = "demo_ctx\<lparr>proc := asm_init_sparc True\<rparr>"
  have h: "proc_type (proc ?ctx) = ASM_PROC_SPARC" "length (history ?ctx) = MJR_HISTORY_LEN"
    by (simp_all add: demo_ctx_def MJR_HISTORY_LEN_def asm_init_sparc_def)
  show ?thesis
    using sparc_flow_targets [OF h, where synth = True and a = "0x1008" and ?d30.0 = "-2" and im = 4 and ?rs1.0 = 9] by simp
qed

text \<open>C32. The names of operands live in a pool of 100 buffers: after any number of allocations
  exactly the buffers of all but the last 100 have been freed, in the order of their allocation, and
  each slot holds the last buffer given out for it.\<close>

theorem name_pool_fifo:
  "fst (pool_allocs ps empty_name_pool) = take (length ps - 100) ps \<and>
   list_all (\<lambda>j. asm_name_pool (snd (pool_allocs ps empty_name_pool)) ! j = pool_slot ps j) [0..<100] \<and>
   pool_index (snd (pool_allocs ps empty_name_pool)) = length ps mod 100"
  by (simp add: pool_allocs_after pool_after_def list_all_iff)

end
