(* ===== verification/Spec2Isabelle.thy ===== *)
theory Spec2Isabelle
  imports Gdbsession Symblocks Aspect Sparc_Flow
begin

text \<open>
  Verification of the ERESI reverse engineering framework.

  \<^bold>\<open>The program.\<close> ERESI is a set of C libraries and tools to inspect, disassemble, analyse and
  debug binaries. At the bottom stands \<open>libaspect\<close>: string-keyed hash tables, lists, binary
  trees, the function vectors through which architecture-specific code is dispatched, the
  registries that find tables and lists by name, the type system of the scripting language, the
  configuration items and the profiler. \<open>libasm\<close> registers one handler per opcode in such a
  vector and decodes machine code by selecting a handler from the bits of an instruction.
  \<open>libelfsh\<close> keeps the symbol tables of an ELF object. \<open>libmjollnir\<close> reads the decoded
  instructions and keeps a control flow graph, whose blocks are containers linked by lists, found
  by hash tables and a search tree, and named by symbols that it inserts in the object.
  \<open>libgdbwrap\<close> is the client of the gdb remote protocol that the debugger uses.

  \<^bold>\<open>Shared theories.\<close>
  \<^item> \<open>Prelude\<close>: word types, the result type with its sequencing \<open>rbind\<close>, printing of numbers,
    generic lemmas on lists, maps and words.
  \<^item> \<open>Dict\<close>: the locales \<open>store\<close>, \<open>dict\<close>, \<open>stack\<close> and \<open>undo_stack\<close>, what a container promises to a client,
    with the lemmas about loops over containers proved once. \<open>Hash\<close> and \<open>Elist\<close> interpret them on the
    operations of the code.

  \<^bold>\<open>libaspect.\<close>
  \<^item> \<open>Hash\<close> (\<open>libhash.c\<close>): a table is a list of chains, an entry a key and a data pointer. Insertion and
    deletion refine update and deletion of a map, merging is left-biased union.
  \<^item> \<open>Elist\<close> (\<open>liblist.c\<close>): a list is its chain of entries and its counter. Pops undo pushes
    and restore the whole list; what a pop returns is the data below the popped entry.
  \<^item> \<open>Btree\<close> (\<open>libbtree.c\<close>) with the locale \<open>search_tree\<close> on the comparison callback, and \<open>Vectors\<close>
    (\<open>vectors.c\<close>) with the locale \<open>nd_array\<close>: insertion changes the dispatch at one coordinate only.
  \<^item> \<open>Registry\<close> (the registries of \<open>libhash.c\<close> and \<open>liblist.c\<close>): tables and lists as objects with
    addresses, found by name, with the keys that tables share. Registration under a bound name
    replaces the contents of the object bound there and releases the replaced keys, also those
    that other tables hold.
  \<^item> \<open>Types\<close>, \<open>Types_Laws\<close>, \<open>Types_Layout\<close> (\<open>types.c\<close>): the nodes of types, the parser of field
    declarations, records and unions, derivation, base types, lookups. The layout of a declared
    record is shown field by field.
  \<^item> \<open>Profiler\<close> (\<open>profiler.c\<close>, the profiling part of \<open>config.c\<close>, the macros of \<open>libaspect-profiler.h\<close>): the
    history of allocations, the memory of messages and the depth of traced calls, which leave
    through any of the four exit macros.
  \<^item> \<open>Config\<close> (\<open>config.c\<close>, \<open>init.c\<close>): configuration items and initialisation.
  \<^item> \<open>Aspect\<close>: initialisation from the start of the process, and what holds of types and
    configuration in every state reached from there.

  \<^bold>\<open>libasm.\<close>
  \<^item> \<open>Asm\<close>: operands, instructions, and the assignments and statements the handlers are made of;
    \<open>flow\<close> has the early returns. The registration of handlers in a fresh vector is shared.
  \<^item> \<open>Mips_Const\<close>, \<open>Mips_Format\<close>, \<open>Mips_Handlers1\<close>, \<open>Mips_Handlers2\<close>, \<open>Mips_Table\<close>, \<open>Mips\<close>
    (\<open>src/arch/mips\<close>, \<open>libasm-mips.h\<close>, \<open>libasm-mips-structs.h\<close>): the enumerations, the formats and
    operand handlers, one definition per opcode handler, the opcode table, and the registration,
    dispatch and output.
  \<^item> \<open>Sparc_Const\<close>, \<open>Sparc_Format\<close>, \<open>Sparc_Handlers1\<close>, \<open>Sparc_Handlers2\<close>, \<open>Sparc\<close> (\<open>src/arch/sparc\<close>,
    \<open>libasm-sparc.h\<close>, \<open>libasm-sparc-decode.h\<close>): the same for SPARC, with the tables of identifiers, the
    synthetic instructions and the pool of operand names. \<open>Sparc_Laws\<close> has the lemmas, \<open>Sparc_Flow\<close>
    the properties.

  For both architectures: decoding runs the handler registered at the coordinates of the word,
  on any four bytes the result is well-formed and its text fits the buffers, and instructions
  encoded as in the architecture manual are decoded to the same registers and immediates. On
  SPARC some words make a handler read past a table; \<open>sparc_faults\<close> says exactly which.

  \<^bold>\<open>libelfsh and libmjollnir.\<close>
  \<^item> \<open>Elfsym\<close>, \<open>Elfsym_Laws\<close> (\<open>symbol.c\<close>, \<open>sym_common.c\<close>, \<open>dynsym.c\<close>, \<open>strtab.c\<close>, \<open>sort.c\<close>): symbol tables as
    the bytes of their sections. Insertion and resolution of addresses act as on the list of
    named symbols, and so does removal near the end of the table, where its \<open>memcpy\<close> is defined; sorting rests on the locale \<open>comparison\<close>.
  \<^item> \<open>Containers\<close>, \<open>Blocks\<close> (\<open>containers.c\<close> of \<open>libaspect\<close>; \<open>container.c\<close>, \<open>blocks.c\<close>, \<open>links.c\<close>,
    \<open>function.c\<close>, \<open>history.c\<close>): the context is a record of the container array, the link heap, both
    hash tables and the block tree. Splitting keeps the blocks a partition of the code and table,
    tree and array consistent; blocks above \<open>2^31\<close> are shown to be lost.
  \<^item> \<open>Cfg\<close> (\<open>cfg.c\<close>): the target of a control transfer and what one instruction does to the graph.
    \<open>Walk\<close> (\<open>core.c\<close>): the recursive walk over the code ends, and aborts at calls that leave the program.
  \<^item> \<open>Symblocks\<close>: the graph over the symbol table of the object, through the locale
    \<open>block_symbols\<close> interpreted on the operations of \<open>Elfsym\<close>: requests for blocks, between which the
    blocks grow as the walk makes them grow, never fail, except at the start block.

  \<^bold>\<open>libgdbwrap.\<close> \<open>Gdbwrap\<close> and \<open>Gdbsession\<close> (\<open>gdbwrapper.c\<close>): the packet codecs, and the calls that
  exchange packets with a server whose behaviour is a list of scripted receive results. A query is
  retransmitted until acknowledged and its reply returned decoded.

  \<^bold>\<open>Conventions.\<close> The host is 32-bit and little-endian, plain \<open>char\<close> is signed. An allocation through
  \<open>XALLOC\<close> succeeds or ends the process. Outside of \<open>Profiler\<close> the \<open>PROFILER\<close> macros are plain
  returns, and debug output is left out. A dereference of NULL, an access outside an array and a
  failed assertion are values of an error type. Object files are in static mode with their
  tables loaded.

  \<^bold>\<open>Bounds and fuel.\<close> The walk takes one unit of fuel per call and per instruction; with
  \<open>(2^32 + 2) * (2^32 + 1)\<close> units or more its result does not depend on the fuel and is not
  exhaustion, because every call that does something marks one of at most \<open>2^32\<close> block addresses.
  \<open>aspect_type_copy_by_name\<close> takes a bound on its depth; it does recurse for ever on some recursive
  types, which is proved for every bound. Walks along \<open>next\<close> of types are bounded by the number of
  addresses in use. The loops of \<open>Gdbsession\<close> take fuel, and its properties state the fuel that is
  enough, or that none is.

  \<^bold>\<open>Not modelled.\<close> The ARM and IA-32 decoders, which stand behind the same vectors; the rest of
  \<open>libelfsh\<close> (headers, segments, relocation, hijacking, saving of files); loading and saving of
  graphs and the fingerprints of functions in \<open>libmjollnir\<close>; the scripting language, the commands,
  the debugger with its signals and \<open>ptrace\<close>, the debug formats, the tracer, the kernel access and
  the terminal and network code, which are input and output around these libraries; the vendored
  allocator and regular expressions.
\<close>

end
